(* ===== verification/Prelude.thy ===== *)
theory Prelude
  imports Main
begin

text \<open>
  Shared vocabulary of the development: Go's fixed-width integers, instants of
  time, results with an error value, the fold of commands over an aggregate and
  the contract (a locale) that every versioned aggregate of the code satisfies.

  An \<open>int64\<close> or \<open>int32\<close> of the code is an \<open>int\<close> here; every addition or
  multiplication of the code that is not guarded against overflow is written with
  \<open>wrap64\<close> or \<open>wrap32\<close>, two's complement wrap-around.  A \<open>time.Time\<close> is the
  number of nanoseconds since Go's zero instant (1 January of year 1, UTC), so
  \<open>IsZero\<close> is equality with 0; \<open>UTC\<close> changes the location only and is the identity.
\<close>

named_theorems go_defs "definitions of the small Go predicates and operators"
named_theorems inv_intros "introduction rules for well-formedness invariants"

subsection \<open>Fixed-width integers\<close>

definition in64 :: "int \<Rightarrow> bool" where
  "in64 x \<longleftrightarrow> - (2 ^ 63) \<le> x \<and> x < 2 ^ 63"

definition wrap64 :: "int \<Rightarrow> int" where
  "wrap64 x = (x + 2 ^ 63) mod 2 ^ 64 - 2 ^ 63"

definition in32 :: "int \<Rightarrow> bool" where
  "in32 x \<longleftrightarrow> - (2 ^ 31) \<le> x \<and> x < 2 ^ 31"

definition wrap32 :: "int \<Rightarrow> int" where
  "wrap32 x = (x + 2 ^ 31) mod 2 ^ 32 - 2 ^ 31"

definition max_int64 :: int where
  "max_int64 = 2 ^ 63 - 1"

lemma wrap64_id [simp]: "in64 x \<Longrightarrow> wrap64 x = x"
  by (simp add: in64_def wrap64_def)

lemma wrap64_over:
  assumes "2 ^ 63 \<le> x" "x < 2 ^ 64 + 2 ^ 63"
  shows "wrap64 x = x - 2 ^ 64"
proof -
  have "(x + 2 ^ 63) mod 2 ^ 64 = (x + 2 ^ 63 - 2 ^ 64) mod 2 ^ 64" by (rule sym) (rule minus_mod_self2)
  also have "\<dots> = x + 2 ^ 63 - 2 ^ 64" using assms by (intro mod_pos_pos_trivial) simp_all
  finally show ?thesis by (simp add: wrap64_def)
qed

lemma in64_wrap64 [simp]: "in64 (wrap64 x)"
proof -
  have "0 \<le> (x + 2 ^ 63) mod 2 ^ 64" and "(x + 2 ^ 63) mod 2 ^ 64 < 2 ^ 64"
    by simp_all
  then show ?thesis by (simp add: in64_def wrap64_def)
qed

lemma wrap32_id [simp]: "in32 x \<Longrightarrow> wrap32 x = x"
  by (simp add: in32_def wrap32_def)

lemma in32_wrap32 [simp]: "in32 (wrap32 x)"
proof -
  have "0 \<le> (x + 2 ^ 31) mod 2 ^ 32" and "(x + 2 ^ 31) mod 2 ^ 32 < 2 ^ 32"
    by simp_all
  then show ?thesis by (simp add: in32_def wrap32_def)
qed

text \<open>The successor of a version never equals the version, even where it wraps.\<close>

lemma wrap64_Suc_neq [simp]: "wrap64 (v + 1) \<noteq> v" and "v \<noteq> wrap64 (v + 1)"
proof -
  show a: "wrap64 (v + 1) \<noteq> v"
  proof
    assume eq: "wrap64 (v + 1) = v"
    have "in64 v" by (metis eq in64_wrap64)
    show False
    proof (cases "v = 2 ^ 63 - 1")
      case True
      with eq show False by (simp add: wrap64_def)
    next
      case False
      with \<open>in64 v\<close> have "in64 (v + 1)" by (simp add: in64_def)
      with eq show False by simp
    qed
  qed
  then show "v \<noteq> wrap64 (v + 1)" by metis
qed

lemma wrap64_Suc_bounded: "0 < v \<Longrightarrow> v < max_int64 \<Longrightarrow> wrap64 (v + 1) = v + 1"
  by (rule wrap64_id) (simp add: in64_def max_int64_def)

text \<open>Go's integer division truncates towards zero.\<close>

definition go_div :: "int \<Rightarrow> int \<Rightarrow> int" where
  "go_div a b = sgn a * sgn b * (\<bar>a\<bar> div \<bar>b\<bar>)"

lemma go_div_nonneg: "0 \<le> a \<Longrightarrow> 0 < b \<Longrightarrow> go_div a b = a div b"
  by (cases "a = 0") (simp_all add: go_div_def sgn_if)

subsection \<open>Instants of time\<close>

type_synonym go_time = int
type_synonym duration = int

definition is_zero :: "go_time \<Rightarrow> bool" where
  [go_defs]: "is_zero t \<longleftrightarrow> t = 0"

definition before :: "go_time \<Rightarrow> go_time \<Rightarrow> bool" where
  [go_defs]: "before a b \<longleftrightarrow> a < b"

definition after :: "go_time \<Rightarrow> go_time \<Rightarrow> bool" where
  [go_defs]: "after a b \<longleftrightarrow> b < a"

definition utc :: "go_time \<Rightarrow> go_time" where
  [go_defs, simp]: "utc t = t"

definition second :: duration where "second = 1000000000"
definition minute :: duration where "minute = 60 * second"
definition hour :: duration where "hour = 60 * minute"
definition microsecond :: duration where "microsecond = 1000"

text \<open>\<open>Time.Truncate\<close> rounds down to a multiple of the duration since the zero instant.\<close>

definition trunc_time :: "duration \<Rightarrow> go_time \<Rightarrow> go_time" where
  "trunc_time d t = t - t mod d"

lemma trunc_time_le: "0 < d \<Longrightarrow> trunc_time d t \<le> t"
  by (simp add: trunc_time_def)

lemma trunc_time_eq_close: "0 < d \<Longrightarrow> trunc_time d a = trunc_time d b \<Longrightarrow> b - a < d"
proof -
  assume d: "0 < d" and e: "trunc_time d a = trunc_time d b"
  from e have "b - a = b mod d - a mod d" by (simp add: trunc_time_def)
  moreover have "b mod d < d" and "0 \<le> a mod d" using d by simp_all
  ultimately show "b - a < d" by linarith
qed

subsection \<open>Results\<close>

type_synonym ('e, 'a) result = "'e + 'a"

definition is_ok :: "('e, 'a) result \<Rightarrow> bool" where
  "is_ok r \<longleftrightarrow> (case r of Inl _ \<Rightarrow> False | Inr _ \<Rightarrow> True)"

lemma is_ok_simps [simp]: "is_ok (Inr x)" "\<not> is_ok (Inl e)"
  by (simp_all add: is_ok_def)

lemma is_okE: "is_ok r \<Longrightarrow> (\<And>x. r = Inr x \<Longrightarrow> P) \<Longrightarrow> P"
  by (cases r) auto

text \<open>
  \<open>post P r\<close>: whatever the result \<open>r\<close> returns satisfies \<open>P\<close>; an error satisfies
  everything.  The rules push it through the guards of a handler.
\<close>

definition post :: "('a \<Rightarrow> bool) \<Rightarrow> ('e, 'a) result \<Rightarrow> bool" where
  "post P r \<longleftrightarrow> (case r of Inl _ \<Rightarrow> True | Inr x \<Rightarrow> P x)"

lemma post_Inl [simp]: "post P (Inl e)"
  by (simp add: post_def)

lemma post_Inr [simp]: "post P (Inr x) = P x"
  by (simp add: post_def)

lemma post_if [simp]:
  "post P (if b then r else s) \<longleftrightarrow> (b \<longrightarrow> post P r) \<and> (\<not> b \<longrightarrow> post P s)"
  by simp

lemma post_case [simp]:
  "post P (case r of Inl e \<Rightarrow> Inl e | Inr x \<Rightarrow> f x) = post (\<lambda>x. post P (f x)) r"
  by (cases r) simp_all

lemma post_iff: "post P r \<longleftrightarrow> (\<forall>x. r = Inr x \<longrightarrow> P x)"
  by (cases r) auto

lemma postI: "(\<And>x. r = Inr x \<Longrightarrow> P x) \<Longrightarrow> post P r"
  by (simp add: post_iff)

lemma postD: "post P r \<Longrightarrow> r = Inr x \<Longrightarrow> P x"
  by (simp add: post_iff)

lemma post_mono: "post P r \<Longrightarrow> (\<And>x. P x \<Longrightarrow> Q x) \<Longrightarrow> post Q r"
  by (auto simp: post_iff)

definition ptr_all :: "('a \<Rightarrow> bool) \<Rightarrow> 'a option \<Rightarrow> bool" where
  "ptr_all P v \<longleftrightarrow> (case v of None \<Rightarrow> True | Some x \<Rightarrow> P x)"

lemma ptr_all_simps [simp]: "ptr_all P None" "ptr_all P (Some x) = P x"
  by (simp_all add: ptr_all_def)

subsection \<open>Rows of a table\<close>

lemma find_append: "find P (xs @ ys) = (case find P xs of None \<Rightarrow> find P ys | Some x \<Rightarrow> Some x)"
  by (induction xs) auto

lemma find_map_None: "(\<And>x. P (f x) = P x) \<Longrightarrow> find P (map f xs) = None \<longleftrightarrow> find P xs = None"
  by (induction xs) auto

lemma length_filter_mono: "(\<And>x. P x \<Longrightarrow> Q x) \<Longrightarrow> length (filter P xs) \<le> length (filter Q xs)"
  by (induction xs) (auto intro: le_SucI)

subsection \<open>Running commands against an aggregate\<close>

text \<open>
  A caller that loads an aggregate, applies one command and stores the result only
  when the command succeeded leaves the stored aggregate unchanged on an error.
\<close>

definition commit :: "('s \<Rightarrow> 'c \<Rightarrow> ('e, 's) result) \<Rightarrow> 's \<Rightarrow> 'c \<Rightarrow> 's" where
  "commit f s c = (case f s c of Inl _ \<Rightarrow> s | Inr s' \<Rightarrow> s')"

fun run :: "('s \<Rightarrow> 'c \<Rightarrow> ('e, 's) result) \<Rightarrow> 's \<Rightarrow> 'c list \<Rightarrow> 's" where
  "run f s [] = s"
| "run f s (c # cs) = run f (commit f s c) cs"

lemma commit_ok [simp]: "f s c = Inr s' \<Longrightarrow> commit f s c = s'"
  by (simp add: commit_def)

lemma commit_error [simp]: "f s c = Inl e \<Longrightarrow> commit f s c = s"
  by (simp add: commit_def)

lemma run_append: "run f s (xs @ ys) = run f (run f s xs) ys"
  by (induction xs arbitrary: s) auto

lemma run_invariant:
  assumes "P s" and "\<And>s c s'. P s \<Longrightarrow> f s c = Inr s' \<Longrightarrow> P s'"
  shows "P (run f s cs)"
  using assms(1)
proof (induction cs arbitrary: s)
  case Nil
  then show ?case by simp
next
  case (Cons c cs)
  have "P (commit f s c)"
    using Cons.prems assms(2) by (cases "f s c") auto
  then show ?case using Cons.IH by simp
qed

subsection \<open>The contracts of an optimistically locked aggregate\<close>

text \<open>
  Every aggregate of the code carries a version and a command names the version it
  expects.  The laws: an accepted command expected exactly the stored version, it
  either changes nothing or moves to the next version, and the invariant is kept.
\<close>

locale versioned_commands =
  fixes apply_cmd :: "'s \<Rightarrow> 'c \<Rightarrow> ('e, 's) result"
    and expected :: "'c \<Rightarrow> int"
    and version :: "'s \<Rightarrow> int"
    and invar :: "'s \<Rightarrow> bool"
  assumes accepted_expected: "apply_cmd s c = Inr s' \<Longrightarrow> expected c = version s"
    and accepted_step: "apply_cmd s c = Inr s' \<Longrightarrow> s' = s \<or> version s' = wrap64 (version s + 1)"
    and accepted_invar: "invar s \<Longrightarrow> apply_cmd s c = Inr s' \<Longrightarrow> invar s'"
begin

text \<open>Of two commands prepared against the same version, the second one loses as soon as the
  first one changed anything.\<close>

lemma change_spends_version:
  "apply_cmd s c = Inr s' \<Longrightarrow> s' \<noteq> s \<Longrightarrow> expected d = expected c \<Longrightarrow> \<exists>e. apply_cmd s' d = Inl e"
  by (metis accepted_expected accepted_step obj_sumE wrap64_Suc_neq(1))

lemma run_invar: "invar s \<Longrightarrow> invar (run apply_cmd s cs)"
  by (rule run_invariant) (auto intro: accepted_invar)

text \<open>
  The version counts the accepted commands, as long as it does not reach the
  largest \<open>int64\<close>: it grows by at most one per command.
\<close>

lemma run_version:
  assumes "0 < version s" and "version s + int (length cs) \<le> max_int64"
  shows "version s \<le> version (run apply_cmd s cs) \<and>
    version (run apply_cmd s cs) \<le> version s + int (length cs)"
  using assms
proof (induction cs arbitrary: s)
  case Nil
  then show ?case by simp
next
  case (Cons c cs)
  let ?t = "commit apply_cmd s c"
  have t: "version ?t = version s \<or> version ?t = version s + 1"
  proof (cases "apply_cmd s c")
    case (Inl e)
    then show ?thesis by simp
  next
    case (Inr s')
    with Cons.prems accepted_step [OF Inr] show ?thesis
      by (auto simp: wrap64_Suc_bounded)
  qed
  with Cons.prems have "0 < version ?t" and "version ?t + int (length cs) \<le> max_int64"
    by auto
  then have "version ?t \<le> version (run apply_cmd ?t cs) \<and>
      version (run apply_cmd ?t cs) \<le> version ?t + int (length cs)"
    by (rule Cons.IH)
  with t show ?case by auto
qed

end

text \<open>The same with a time of the last change that never moves back.\<close>

locale versioned_aggregate =
  fixes apply_cmd :: "'s \<Rightarrow> 'c \<Rightarrow> ('e, 's) result"
    and expected :: "'c \<Rightarrow> int"
    and version :: "'s \<Rightarrow> int"
    and updated :: "'s \<Rightarrow> go_time"
    and invar :: "'s \<Rightarrow> bool"
  assumes timed_expected: "apply_cmd s c = Inr s' \<Longrightarrow> expected c = version s"
    and timed_step: "apply_cmd s c = Inr s' \<Longrightarrow> s' = s \<or> version s' = wrap64 (version s + 1)"
    and accepted_updated: "apply_cmd s c = Inr s' \<Longrightarrow> updated s \<le> updated s'"
    and timed_invar: "invar s \<Longrightarrow> apply_cmd s c = Inr s' \<Longrightarrow> invar s'"

sublocale versioned_aggregate \<subseteq> versioned_commands apply_cmd expected version invar
  by unfold_locales (blast dest: timed_expected timed_step intro: timed_invar)+

context versioned_aggregate
begin

lemma run_updated: "updated s \<le> updated (run apply_cmd s cs)"
proof (induction cs arbitrary: s)
  case Nil
  then show ?case by simp
next
  case (Cons c cs)
  have "updated s \<le> updated (commit apply_cmd s c)"
    by (cases "apply_cmd s c") (auto intro: accepted_updated)
  also have "\<dots> \<le> updated (run apply_cmd (commit apply_cmd s c) cs)" by (rule Cons.IH)
  finally show ?case by simp
qed

end

text \<open>The strict contract: every accepted command moves to the next version.\<close>

locale cas_aggregate =
  fixes apply_cmd :: "'s \<Rightarrow> 'c \<Rightarrow> ('e, 's) result"
    and expected :: "'c \<Rightarrow> int"
    and version :: "'s \<Rightarrow> int"
    and updated :: "'s \<Rightarrow> go_time"
    and invar :: "'s \<Rightarrow> bool"
  assumes cas_expected: "apply_cmd s c = Inr s' \<Longrightarrow> expected c = version s"
    and cas_version: "apply_cmd s c = Inr s' \<Longrightarrow> version s' = wrap64 (version s + 1)"
    and cas_updated: "apply_cmd s c = Inr s' \<Longrightarrow> updated s \<le> updated s'"
    and cas_invar: "invar s \<Longrightarrow> apply_cmd s c = Inr s' \<Longrightarrow> invar s'"

sublocale cas_aggregate \<subseteq> versioned_aggregate apply_cmd expected version updated invar
  by unfold_locales (auto intro: cas_expected cas_version cas_updated cas_invar)

context cas_aggregate
begin

lemma accepted_changes: "apply_cmd s c = Inr s' \<Longrightarrow> s' \<noteq> s"
  by (metis cas_version wrap64_Suc_neq(1))

text \<open>An accepted command cannot be accepted again, nor any other prepared against its version.\<close>

lemma lost_update_rejected:
  "apply_cmd s c = Inr s' \<Longrightarrow> expected d = expected c \<Longrightarrow> \<exists>e. apply_cmd s' d = Inl e"
  using accepted_changes change_spends_version by blast

lemma replay_rejected: "apply_cmd s c = Inr s' \<Longrightarrow> \<exists>e. apply_cmd s' c = Inl e"
  by (rule lost_update_rejected) auto

end

end
