(* ===== verification/GoStrings.thy ===== *)
theory GoStrings
  imports Prelude "HOL-Library.Sublist"
begin

text \<open>
  The part of Go's \<open>strings\<close>, \<open>unicode/utf8\<close>, \<open>unicode\<close> and \<open>strconv\<close>
  packages that the modelled code uses.  A Go string is a sequence of bytes, which is
  what a HOL \<open>string\<close> is, so \<open>len\<close> is \<open>length\<close> and literals are kept as they are.
\<close>

subsection \<open>Bytes and runes\<close>

type_synonym rune = nat

definition byte :: "char \<Rightarrow> nat" where
  [simp]: "byte c = of_char c"

definition continuation :: "nat \<Rightarrow> bool" where
  [simp]: "continuation b \<longleftrightarrow> 128 \<le> b \<and> b \<le> 191"

definition rune_error :: rune where
  "rune_error = 65533"

text \<open>
  \<open>utf8.DecodeRune\<close>: the rune at the head of a non-empty string, its width in bytes and
  whether it was well formed.  An ill-formed sequence yields \<open>RuneError\<close> of width 1.
\<close>

definition second_byte_ok :: "nat \<Rightarrow> nat \<Rightarrow> bool" where
  "second_byte_ok b0 b1 \<longleftrightarrow>
     (if b0 = 224 then 160 \<le> b1 \<and> b1 \<le> 191
      else if b0 = 237 then 128 \<le> b1 \<and> b1 \<le> 159
      else if b0 = 240 then 144 \<le> b1 \<and> b1 \<le> 191
      else if b0 = 244 then 128 \<le> b1 \<and> b1 \<le> 143
      else continuation b1)"

fun decode_rune :: "string \<Rightarrow> rune \<times> nat \<times> bool" where
  "decode_rune [] = (rune_error, 0, False)"
| "decode_rune (c # s) =
     (let b0 = byte c in
      if b0 < 128 then (b0, 1, True)
      else if 194 \<le> b0 \<and> b0 \<le> 223 then
        (case s of c1 # _ \<Rightarrow>
           if second_byte_ok b0 (byte c1)
           then ((b0 - 192) * 64 + (byte c1 - 128), 2, True) else (rune_error, 1, False)
         | [] \<Rightarrow> (rune_error, 1, False))
      else if 224 \<le> b0 \<and> b0 \<le> 239 then
        (case s of c1 # c2 # _ \<Rightarrow>
           if second_byte_ok b0 (byte c1) \<and> continuation (byte c2)
           then ((b0 - 224) * 4096 + (byte c1 - 128) * 64 + (byte c2 - 128), 3, True)
           else (rune_error, 1, False)
         | _ \<Rightarrow> (rune_error, 1, False))
      else if 240 \<le> b0 \<and> b0 \<le> 244 then
        (case s of c1 # c2 # c3 # _ \<Rightarrow>
           if second_byte_ok b0 (byte c1) \<and> continuation (byte c2) \<and> continuation (byte c3)
           then ((b0 - 240) * 262144 + (byte c1 - 128) * 4096 + (byte c2 - 128) * 64
                   + (byte c3 - 128), 4, True)
           else (rune_error, 1, False)
         | _ \<Rightarrow> (rune_error, 1, False))
      else (rune_error, 1, False))"

lemma decode_rune_width: "s \<noteq> [] \<Longrightarrow> 0 < fst (snd (decode_rune s))"
  by (cases s) (auto simp: Let_def split: list.splits)

lemma decode_rune_width_le: "fst (snd (decode_rune s)) \<le> length s"
  by (cases s) (auto simp: Let_def split: list.splits)

text \<open>\<open>[]rune(s)\<close>, and with it \<open>utf8.RuneCountInString\<close> and \<open>utf8.ValidString\<close>.\<close>

function runes :: "string \<Rightarrow> rune list" where
  "runes s = (if s = [] then []
     else fst (decode_rune s) # runes (drop (fst (snd (decode_rune s))) s))"
  by pat_completeness auto
termination
  by (relation "measure length") (auto intro!: diff_less decode_rune_width)

declare runes.simps [simp del]

function valid_utf8 :: "string \<Rightarrow> bool" where
  "valid_utf8 s = (if s = [] then True
     else snd (snd (decode_rune s)) \<and> valid_utf8 (drop (fst (snd (decode_rune s))) s))"
  by pat_completeness auto
termination
  by (relation "measure length") (auto intro!: diff_less decode_rune_width)

declare valid_utf8.simps [simp del]

definition rune_count :: "string \<Rightarrow> nat" where
  "rune_count s = length (runes s)"

lemma runes_Nil [simp]: "runes [] = []"
  by (subst runes.simps) simp

lemma valid_utf8_Nil [simp]: "valid_utf8 []"
  by (subst valid_utf8.simps) simp

lemma rune_count_Nil [simp]: "rune_count [] = 0"
  by (simp add: rune_count_def)

lemma runes_ascii [simp]: "(of_char c :: nat) < 128 \<Longrightarrow> runes (c # s) = of_char c # runes s"
  by (subst runes.simps) simp

lemma valid_utf8_ascii [simp]: "(of_char c :: nat) < 128 \<Longrightarrow> valid_utf8 (c # s) = valid_utf8 s"
  by (subst valid_utf8.simps) simp

lemma rune_count_ascii [simp]:
  "(of_char c :: nat) < 128 \<Longrightarrow> rune_count (c # s) = Suc (rune_count s)"
  by (simp add: rune_count_def)

lemma rune_count_le_length: "rune_count s \<le> length s"
proof (induction s rule: runes.induct)
  case (1 s)
  show ?case
  proof (cases "s = []")
    case True
    then show ?thesis by simp
  next
    case False
    let ?w = "fst (snd (decode_rune s))"
    have "rune_count (drop ?w s) \<le> length (drop ?w s)" using False by (rule "1.IH")
    moreover have "0 < ?w" and "?w \<le> length s"
      using False decode_rune_width decode_rune_width_le by blast+
    moreover have "rune_count s = Suc (rune_count (drop ?w s))"
      using False unfolding rune_count_def by (subst runes.simps) simp
    ultimately show ?thesis by simp
  qed
qed

lemma rune_count_eq_0 [simp]: "rune_count s = 0 \<longleftrightarrow> s = []"
  unfolding rune_count_def by (subst runes.simps) simp

text \<open>\<open>unicode.IsSpace\<close> and \<open>unicode.IsControl\<close> on runes.\<close>

definition is_space :: "rune \<Rightarrow> bool" where
  "is_space r \<longleftrightarrow> (9 \<le> r \<and> r \<le> 13) \<or> r = 32 \<or> r = 133 \<or> r = 160 \<or> r = 5760 \<or>
     (8192 \<le> r \<and> r \<le> 8202) \<or> r = 8232 \<or> r = 8233 \<or> r = 8239 \<or> r = 8287 \<or> r = 12288"

definition is_control :: "rune \<Rightarrow> bool" where
  "is_control r \<longleftrightarrow> r < 32 \<or> (127 \<le> r \<and> r < 160)"

definition contains_space :: "string \<Rightarrow> bool" where
  "contains_space s \<longleftrightarrow> list_ex is_space (runes s)"

definition contains_control :: "string \<Rightarrow> bool" where
  "contains_control s \<longleftrightarrow> list_ex is_control (runes s)"

subsection \<open>strings.TrimSpace\<close>

text \<open>
  White space is removed rune by rune at both ends.  The UTF-8 encodings of the white
  space runes are listed; none is a proper prefix or suffix of another, and a string
  starts (ends) with a white space rune exactly when it starts (ends) with one of them.
\<close>

definition space_encodings :: "string list" where
  "space_encodings =
     [[CHR 0x09], [CHR 0x0A], [CHR 0x0B], [CHR 0x0C], [CHR 0x0D], [CHR 0x20],
      [CHR 0xC2, CHR 0x85], [CHR 0xC2, CHR 0xA0], [CHR 0xE1, CHR 0x9A, CHR 0x80]]
     @ map (\<lambda>c. [CHR 0xE2, CHR 0x80, c])
         [CHR 0x80, CHR 0x81, CHR 0x82, CHR 0x83, CHR 0x84, CHR 0x85, CHR 0x86, CHR 0x87,
          CHR 0x88, CHR 0x89, CHR 0x8A, CHR 0xA8, CHR 0xA9, CHR 0xAF]
     @ [[CHR 0xE2, CHR 0x81, CHR 0x9F], [CHR 0xE3, CHR 0x80, CHR 0x80]]"

definition matching :: "string list \<Rightarrow> string \<Rightarrow> string option" where
  "matching es s = find (\<lambda>e. e \<noteq> [] \<and> prefix e s) es"

function strip :: "string list \<Rightarrow> string \<Rightarrow> string" where
  "strip es s = (case matching es s of None \<Rightarrow> s | Some e \<Rightarrow> strip es (drop (length e) s))"
  by pat_completeness auto
termination
  by (relation "measure (\<lambda>(es, s). length s)")
     (auto simp: matching_def find_Some_iff prefix_def)

declare strip.simps [simp del]

definition trim_left :: "string \<Rightarrow> string" where
  "trim_left s = strip space_encodings s"

definition trim_right :: "string \<Rightarrow> string" where
  "trim_right s = rev (strip (map rev space_encodings) (rev s))"

definition trim_space :: "string \<Rightarrow> string" where
  "trim_space s = trim_right (trim_left s)"

lemma strip_fixed: "matching es (strip es s) = None"
proof (induction es s rule: strip.induct)
  case (1 es s)
  then show ?case by (cases "matching es s") (simp_all add: strip.simps [of es s])
qed

lemma strip_suffix: "suffix (strip es s) s"
proof (induction es s rule: strip.induct)
  case (1 es s)
  show ?case
  proof (cases "matching es s")
    case None
    then show ?thesis by (simp add: strip.simps [of es s])
  next
    case (Some e)
    from 1 [OF Some] have "suffix (strip es (drop (length e) s)) (drop (length e) s)" .
    also have "suffix (drop (length e) s) s" by (rule suffix_drop)
    finally show ?thesis using Some by (simp add: strip.simps [of es s])
  qed
qed

lemma strip_none [simp]: "matching es s = None \<Longrightarrow> strip es s = s"
  by (subst strip.simps) simp

lemma matching_None_iff: "matching es s = None \<longleftrightarrow> (\<forall>e \<in> set es. e \<noteq> [] \<longrightarrow> \<not> prefix e s)"
  by (auto simp: matching_def find_None_iff)

lemma matching_None_prefix:
  "matching es s = None \<Longrightarrow> prefix t s \<Longrightarrow> matching es t = None"
  unfolding matching_None_iff by (meson prefix_order.trans)

lemma trim_space_idem [simp]: "trim_space (trim_space s) = trim_space s"
proof -
  let ?l = "trim_left s"
  let ?t = "trim_space s"
  have "suffix (rev ?t) (rev ?l)"
    by (simp add: trim_space_def trim_right_def strip_suffix)
  then have "prefix ?t ?l" by (simp add: suffix_to_prefix)
  moreover have "matching space_encodings ?l = None"
    by (simp add: trim_left_def strip_fixed)
  ultimately have "matching space_encodings ?t = None" by (rule matching_None_prefix [rotated])
  then have "trim_left ?t = ?t" by (simp add: trim_left_def)
  moreover have "trim_right ?t = ?t"
    by (simp add: trim_space_def trim_right_def strip_fixed)
  ultimately show ?thesis unfolding trim_space_def [of ?t] by simp
qed

lemma trim_space_length: "length (trim_space s) \<le> length s"
proof -
  have "length (trim_space s) \<le> length (trim_left s)"
    using suffix_length_le [OF strip_suffix [of "map rev space_encodings" "rev (trim_left s)"]]
    by (simp add: trim_space_def trim_right_def)
  also have "\<dots> \<le> length s"
    using suffix_length_le [OF strip_suffix] by (simp add: trim_left_def)
  finally show ?thesis .
qed

lemma trim_space_Nil [simp]: "trim_space [] = []"
  using trim_space_length [of "[]"] by simp

text \<open>A string whose first and last bytes are printable ASCII is not changed.\<close>

definition printable :: "char \<Rightarrow> bool" where
  "printable c \<longleftrightarrow> 32 < (of_char c :: nat) \<and> (of_char c :: nat) < 127"

lemma space_heads: "e \<in> set space_encodings \<Longrightarrow> e \<noteq> [] \<and> \<not> printable (hd e) \<and> \<not> printable (last e)"
  by (auto simp: space_encodings_def printable_def)

lemma matching_printable: "printable c \<Longrightarrow> matching space_encodings (c # s) = None"
  using space_heads by (fastforce simp: matching_None_iff prefix_Cons)

lemma matching_rev_printable:
  "printable c \<Longrightarrow> matching (map rev space_encodings) (c # s) = None"
proof -
  assume c: "printable c"
  have "\<not> prefix (rev e) (c # s)" if "e \<in> set space_encodings" for e
  proof
    assume p: "prefix (rev e) (c # s)"
    have "e \<noteq> []" and "\<not> printable (last e)" using space_heads [OF that] by auto
    then obtain e' x where "e = e' @ [x]" and "\<not> printable x" by (metis append_butlast_last_id)
    with p c show False by simp
  qed
  then show ?thesis by (auto simp: matching_None_iff)
qed

lemma trim_space_printable:
  assumes "printable (hd s)" and "printable (last s)"
  shows "trim_space s = s"
proof (cases "s = []")
  case True
  then show ?thesis by simp
next
  case False
  then obtain c s' where "s = c # s'" by (cases s) auto
  with assms(1) have "trim_left s = s"
    by (simp add: trim_left_def matching_printable)
  moreover have "matching (map rev space_encodings) (rev s) = None"
    using False assms(2) by (cases s rule: rev_cases) (simp_all add: matching_rev_printable)
  ultimately show ?thesis
    by (simp add: trim_space_def trim_right_def)
qed

subsection \<open>Searching and replacing\<close>

text \<open>\<open>strings.Contains\<close>, \<open>strings.HasPrefix\<close> and \<open>strings.ReplaceAll\<close> (with a non-empty
  pattern: leftmost occurrences, not overlapping), and \<open>strings.Join\<close>.\<close>

definition has_prefix :: "string \<Rightarrow> string \<Rightarrow> bool" where
  "has_prefix s p = prefix p s"

fun contains_str :: "string \<Rightarrow> string \<Rightarrow> bool" where
  "contains_str [] sub = (sub = [])"
| "contains_str (c # s) sub = (prefix sub (c # s) \<or> contains_str s sub)"

lemma contains_str_iff: "contains_str s sub \<longleftrightarrow> (\<exists>a b. s = a @ sub @ b)"
proof (induction s)
  case Nil
  then show ?case by auto
next
  case (Cons c s)
  have "(\<exists>a b. c # s = a @ sub @ b) \<longleftrightarrow> (\<exists>b. c # s = sub @ b) \<or> (\<exists>a b. s = a @ sub @ b)"
    by (metis (no_types, lifting) append_Cons append_Nil list.inject neq_Nil_conv)
  then show ?case using Cons.IH by (simp add: prefix_def)
qed

function replace_all :: "string \<Rightarrow> string \<Rightarrow> string \<Rightarrow> string" where
  "replace_all old new s =
     (if old = [] \<or> s = [] then s
      else if prefix old s then new @ replace_all old new (drop (length old) s)
      else hd s # replace_all old new (tl s))"
  by pat_completeness auto
termination
  by (relation "measure (\<lambda>(old, new, s). length s)") auto

declare replace_all.simps [simp del]

definition join :: "string \<Rightarrow> string list \<Rightarrow> string" where
  "join sep xs = (case xs of [] \<Rightarrow> [] | x # ys \<Rightarrow> x @ concat (map (\<lambda>y. sep @ y) ys))"

subsection \<open>Decimal numbers\<close>

definition digit :: "nat \<Rightarrow> char" where
  "digit d = char_of (48 + d)"

definition is_digit :: "char \<Rightarrow> bool" where
  "is_digit c \<longleftrightarrow> 48 \<le> (of_char c :: nat) \<and> (of_char c :: nat) \<le> 57"

fun nat_digits :: "nat \<Rightarrow> string" where
  "nat_digits n = (if n < 10 then [digit n] else nat_digits (n div 10) @ [digit (n mod 10)])"

declare nat_digits.simps [simp del]

text \<open>\<open>strconv.FormatInt (_, 10)\<close>, and the value of a string of digits.\<close>

definition format_int :: "int \<Rightarrow> string" where
  "format_int i = (if i < 0 then CHR ''-'' # nat_digits (nat (- i)) else nat_digits (nat i))"

definition digits_value :: "string \<Rightarrow> nat" where
  "digits_value s = foldl (\<lambda>a c. a * 10 + (of_char c - 48)) 0 s"

lemma of_char_digit: "d < 10 \<Longrightarrow> of_char (digit d) = 48 + d"
  by (simp add: digit_def)

lemma is_digit_digit: "d < 10 \<Longrightarrow> is_digit (digit d)"
  by (simp add: is_digit_def of_char_digit)

lemma nat_digits_nonempty [simp]: "nat_digits n \<noteq> []"
  by (subst nat_digits.simps) simp

lemma nat_digits_all: "list_all is_digit (nat_digits n)"
proof (induction n rule: nat_digits.induct)
  case (1 n)
  then show ?case by (simp add: nat_digits.simps [of n] is_digit_digit)
qed

lemma digits_value_nat_digits [simp]: "digits_value (nat_digits n) = n"
proof (induction n rule: nat_digits.induct)
  case (1 n)
  then show ?case
    by (auto simp: nat_digits.simps [of n] digits_value_def of_char_digit)
qed

lemma nat_digits_inject [simp]: "nat_digits m = nat_digits n \<longleftrightarrow> m = n"
  by (metis digits_value_nat_digits)

lemma nat_digits_head: "0 < n \<Longrightarrow> hd (nat_digits n) \<noteq> CHR ''0''"
proof (induction n rule: nat_digits.induct)
  case (1 n)
  show ?case
  proof (cases "n < 10")
    case True
    have "(of_char (digit n) :: nat) \<noteq> of_char (CHR ''0'')"
      using True "1.prems" by (simp add: of_char_digit)
    then have "digit n \<noteq> CHR ''0''" by metis
    then show ?thesis using True by (simp add: nat_digits.simps [of n])
  next
    case False
    then show ?thesis using 1 by (simp add: nat_digits.simps [of n])
  qed
qed

text \<open>A digit string without a leading zero is the canonical form of its value.\<close>

lemma digits_value_snoc: "digits_value (s @ [c]) = digits_value s * 10 + (of_char c - 48)"
  by (simp add: digits_value_def)

lemma digit_of_char: "is_digit c \<Longrightarrow> digit (of_char c - 48) = c"
  by (simp add: digit_def is_digit_def)

lemma nat_digits_digits_value:
  "s \<noteq> [] \<Longrightarrow> hd s \<noteq> CHR ''0'' \<Longrightarrow> list_all is_digit s \<Longrightarrow>
     0 < digits_value s \<and> nat_digits (digits_value s) = s"
proof (induction s rule: rev_induct)
  case Nil
  then show ?case by simp
next
  case (snoc c s)
  have c: "is_digit c" and lt: "(of_char c :: nat) - 48 < 10"
    using snoc.prems(3) by (simp_all add: is_digit_def less_diff_conv2)
  show ?case
  proof (cases "s = []")
    case True
    have "(of_char c :: nat) \<noteq> 48"
    proof
      assume "(of_char c :: nat) = 48"
      then have "(of_char c :: nat) = of_char (CHR ''0'')" by simp
      then have "c = CHR ''0''" by (simp only: of_char_eq_iff)
      with True snoc.prems(2) show False by simp
    qed
    then have "0 < (of_char c :: nat) - 48" using c by (simp add: is_digit_def)
    with True lt c show ?thesis
      by (simp add: digits_value_def) (subst nat_digits.simps, simp add: digit_of_char)
  next
    case False
    with snoc have IH: "0 < digits_value s" "nat_digits (digits_value s) = s" by auto
    have split: "(v * 10 + d) div 10 = v \<and> (v * 10 + d) mod 10 = d \<and> \<not> v * 10 + d < 10"
      if "0 < v" "d < 10" for v d :: nat
      using that by simp
    let ?n = "digits_value s * 10 + (of_char c - 48)"
    have n: "?n div 10 = digits_value s" "?n mod 10 = of_char c - 48" "\<not> ?n < 10"
      using split [OF IH(1) lt] by blast+
    have "nat_digits ?n = nat_digits (?n div 10) @ [digit (?n mod 10)]"
      by (subst nat_digits.simps) (use n(3) in simp)
    then have "nat_digits ?n = s @ [c]"
      by (simp only: n IH(2) digit_of_char [OF c])
    moreover have "0 < ?n" using IH(1) by simp
    ultimately show ?thesis by (simp only: digits_value_snoc simp_thms)
  qed
qed

text \<open>A loop over the runes of a string that accepts ASCII digits only is a loop over its bytes.\<close>

lemma decode_rune_non_ascii: "128 \<le> (of_char c :: nat) \<Longrightarrow> 128 \<le> fst (decode_rune (c # s))"
proof -
  assume c: "128 \<le> (of_char c :: nat)"
  have two: "128 \<le> (b - 192) * 64 + (k - 128)" if "194 \<le> b" for b k :: nat
    using that by linarith
  have three: "128 \<le> (b - 224) * 4096 + (b1 - 128) * 64 + k"
    if "224 \<le> b" "second_byte_ok b b1" for b b1 k :: nat
  proof (cases "b = 224")
    case True
    with that(2) have "160 \<le> b1" by (simp add: second_byte_ok_def)
    then show ?thesis by linarith
  next
    case False
    with that(1) show ?thesis by linarith
  qed
  have four: "128 \<le> (b - 240) * 262144 + (b1 - 128) * 4096 + k + m"
    if "240 \<le> b" "second_byte_ok b b1" for b b1 k m :: nat
  proof (cases "b = 240")
    case True
    with that(2) have "144 \<le> b1" by (simp add: second_byte_ok_def)
    then show ?thesis by linarith
  next
    case False
    with that(1) show ?thesis by linarith
  qed
  have three': "128 \<le> (b - 224) * 4096 + (b1 - 128) * 64 + k - 128"
    if "224 \<le> b" "second_byte_ok b b1" "128 \<le> k" for b b1 k :: nat
    using three [OF that(1,2), of "k - 128"] that(3) by simp
  have four': "128 \<le> (b - 240) * 262144 + (b1 - 128) * 4096 + (k - 128) * 64 + m - 128"
    if "240 \<le> b" "second_byte_ok b b1" "128 \<le> m" for b b1 k m :: nat
    using four [OF that(1,2), of "(k - 128) * 64" "m - 128"] that(3) by simp
  show ?thesis
    using c by (auto simp: Let_def rune_error_def intro: two three' four' split: list.split)
qed

lemma runes_digits: "list_all (\<lambda>r. 48 \<le> r \<and> r \<le> 57) (runes s) \<longleftrightarrow> list_all is_digit s"
proof (induction s)
  case Nil
  then show ?case by simp
next
  case (Cons c s)
  show ?case
  proof (cases "(of_char c :: nat) < 128")
    case True
    with Cons.IH show ?thesis by (simp add: is_digit_def)
  next
    case False
    then have "128 \<le> fst (decode_rune (c # s))" by (intro decode_rune_non_ascii) simp
    moreover have "runes (c # s) = fst (decode_rune (c # s)) #
        runes (drop (fst (snd (decode_rune (c # s)))) (c # s))"
      by (subst runes.simps) simp
    ultimately have "\<not> list_all (\<lambda>r. 48 \<le> r \<and> r \<le> 57) (runes (c # s))" by simp
    with False show ?thesis by (simp add: is_digit_def)
  qed
qed

subsection \<open>Comparing strings\<close>

text \<open>\<open><\<close> on strings compares them byte by byte.\<close>

fun str_less :: "string \<Rightarrow> string \<Rightarrow> bool" where
  "str_less _ [] = False"
| "str_less [] (_ # _) = True"
| "str_less (c # s) (d # t) =
     ((of_char c :: nat) < of_char d \<or> (c = d \<and> str_less s t))"

lemma str_less_irrefl [simp]: "\<not> str_less s s"
  by (induction s) auto

lemma str_less_trans: "str_less r s \<Longrightarrow> str_less s t \<Longrightarrow> str_less r t"
proof (induction r s arbitrary: t rule: str_less.induct)
  case (3 c s d t')
  then show ?case by (cases t) auto
next
  case (2 d t')
  then show ?case by (cases t) auto
qed simp

lemma str_less_total: "str_less s t \<or> s = t \<or> str_less t s"
proof (induction s t rule: str_less.induct)
  case (1 s)
  then show ?case by (cases s) simp_all
next
  case (3 c s d t)
  have "(of_char c :: nat) < of_char d \<or> c = d \<or> (of_char d :: nat) < of_char c"
    by (metis linorder_neqE_nat of_char_eq_iff)
  with 3 show ?case by auto
qed simp

text \<open>A loop that compares every element with the one before it establishes the order of all
  pairs, when the relation is transitive.\<close>

fun adjacent :: "('a \<Rightarrow> 'a \<Rightarrow> bool) \<Rightarrow> 'a list \<Rightarrow> bool" where
  "adjacent R (x # y # zs) = (R x y \<and> adjacent R (y # zs))"
| "adjacent R _ = True"

lemma adjacent_sorted_wrt: "transp R \<Longrightarrow> adjacent R xs \<longleftrightarrow> sorted_wrt R xs"
  by (induction R xs rule: adjacent.induct) (auto dest: transpD)

lemma sorted_wrt_distinct: "sorted_wrt R xs \<Longrightarrow> (\<And>x. x \<in> set xs \<Longrightarrow> \<not> R x x) \<Longrightarrow> distinct xs"
  by (induction xs) auto

end
