(* ===== verification/Distribution.thy ===== *)
theory Distribution
  imports GoStrings
begin

text \<open>
  \<open>internal/distribution/domain/distribution.go\<close>: the versioned commission policy of a
  product, distributors, qualifications, promotion credentials, frozen attributions and
  the commission aggregate with every transition of its life cycle.  String-typed
  enumerations keep the constants of the source as constructors and one constructor for
  every other string, so that the validity checks of the code remain checks.
\<close>

datatype dist_error = ErrInvalid | ErrTransition | ErrVersion

datatype product_type =
    ProductTypeStandard
  | ProductTypeServicePeriod
  | ProductTypeOther string

fun ProductType_Valid :: "product_type \<Rightarrow> bool" where
  "ProductType_Valid ProductTypeStandard = True"
| "ProductType_Valid ProductTypeServicePeriod = True"
| "ProductType_Valid (ProductTypeOther _) = False"

definition MaximumCommissionRateBasisPoints :: int where
  [simp]: "MaximumCommissionRateBasisPoints = 3000"

definition MaximumWaitDays :: int where
  [simp]: "MaximumWaitDays = 29"

subsection \<open>Policy\<close>

record policy =
  pol_ProductID :: int
  pol_ProductType :: product_type
  pol_Enabled :: bool
  pol_Rate :: int
  pol_WaitDays :: int
  pol_Version :: int
  pol_CreatedAt :: go_time
  pol_UpdatedAt :: go_time

definition Policy_Valid :: "policy \<Rightarrow> bool" where
  "Policy_Valid p \<longleftrightarrow>
     pol_ProductID p > 0 \<and> ProductType_Valid (pol_ProductType p) \<and>
     pol_Rate p \<ge> 0 \<and> pol_Rate p \<le> MaximumCommissionRateBasisPoints \<and>
     pol_WaitDays p \<ge> 0 \<and> pol_WaitDays p \<le> MaximumWaitDays \<and>
     pol_Version p > 0 \<and> \<not> is_zero (pol_CreatedAt p) \<and>
     \<not> before (pol_UpdatedAt p) (pol_CreatedAt p)"

definition NewPolicy ::
  "int \<Rightarrow> product_type \<Rightarrow> bool \<Rightarrow> int \<Rightarrow> int \<Rightarrow> go_time \<Rightarrow> (dist_error, policy) result" where
  "NewPolicy productID productType enabled rate waitDays now =
     (let p = \<lparr>pol_ProductID = productID, pol_ProductType = productType, pol_Enabled = enabled,
               pol_Rate = rate, pol_WaitDays = waitDays, pol_Version = 1,
               pol_CreatedAt = utc now, pol_UpdatedAt = utc now\<rparr>
      in if \<not> Policy_Valid p then Inl ErrInvalid else Inr p)"

definition Policy_Update ::
  "policy \<Rightarrow> int \<Rightarrow> bool \<Rightarrow> int \<Rightarrow> int \<Rightarrow> go_time \<Rightarrow> (dist_error, policy) result" where
  "Policy_Update p expectedVersion enabled rate waitDays now =
     (if expectedVersion \<noteq> pol_Version p then Inl ErrVersion
      else if is_zero now \<or> before now (pol_UpdatedAt p) then Inl ErrInvalid
      else let nxt = p\<lparr>pol_Enabled := enabled, pol_Rate := rate, pol_WaitDays := waitDays,
                       pol_Version := wrap64 (pol_Version p + 1), pol_UpdatedAt := utc now\<rparr>
           in if \<not> Policy_Valid nxt then Inl ErrInvalid else Inr nxt)"

subsection \<open>Distributors, qualifications, credentials\<close>

definition trimmed :: "string \<Rightarrow> bool" where
  "trimmed s \<longleftrightarrow> s = trim_space s"

record distributor =
  dis_ID :: int
  dis_CustomerID :: int
  dis_PublicNo :: string
  dis_AgreementVersion :: string
  dis_Enabled :: bool
  dis_RegisteredAt :: go_time
  dis_Version :: int

definition Distributor_Valid :: "distributor \<Rightarrow> bool" where
  "Distributor_Valid d \<longleftrightarrow>
     dis_ID d > 0 \<and> dis_CustomerID d > 0 \<and>
     trimmed (dis_PublicNo d) \<and> length (dis_PublicNo d) \<ge> 6 \<and> length (dis_PublicNo d) \<le> 64 \<and>
     trimmed (dis_AgreementVersion d) \<and> length (dis_AgreementVersion d) \<ge> 1 \<and>
     length (dis_AgreementVersion d) \<le> 100 \<and>
     \<not> is_zero (dis_RegisteredAt d) \<and> dis_Version d > 0"

datatype qualification_state =
    QualificationEligible
  | QualificationIneligible
  | QualificationSuspended
  | QualificationConflict
  | QualificationUnavailable
  | QualificationOther string

fun QualificationState_Valid :: "qualification_state \<Rightarrow> bool" where
  "QualificationState_Valid (QualificationOther _) = False"
| "QualificationState_Valid _ = True"

record qualification =
  qua_State :: qualification_state
  qua_Reason :: string
  qua_EvidenceRef :: string
  qua_CheckedAt :: go_time

definition AllowsPromotion :: "qualification \<Rightarrow> bool" where
  "AllowsPromotion q \<longleftrightarrow> qua_State q = QualificationEligible"

definition Qualification_Valid :: "qualification \<Rightarrow> bool" where
  "Qualification_Valid q \<longleftrightarrow>
     QualificationState_Valid (qua_State q) \<and> trimmed (qua_Reason q) \<and>
     length (qua_Reason q) \<le> 200 \<and> trimmed (qua_EvidenceRef q) \<and>
     length (qua_EvidenceRef q) \<le> 200 \<and> \<not> is_zero (qua_CheckedAt q) \<and>
     (qua_State q \<noteq> QualificationEligible \<or> qua_EvidenceRef q \<noteq> [])"

datatype credential_status =
    CredentialActive
  | CredentialRevoked
  | CredentialExpired
  | CredentialOther string

record promotion_credential =
  cre_ID :: int
  cre_DistributorID :: int
  cre_ProductID :: int
  cre_ProductType :: product_type
  cre_TokenDigest :: string
  cre_Status :: credential_status
  cre_CreatedAt :: go_time
  cre_ExpiresAt :: go_time
  cre_RevokedAt :: "go_time option"

definition Credential_Valid :: "promotion_credential \<Rightarrow> bool" where
  "Credential_Valid c \<longleftrightarrow>
     cre_ID c > 0 \<and> cre_DistributorID c > 0 \<and> cre_ProductID c > 0 \<and>
     ProductType_Valid (cre_ProductType c) \<and>
     (cre_Status c = CredentialActive \<or> cre_Status c = CredentialRevoked \<or>
      cre_Status c = CredentialExpired) \<and>
     \<not> is_zero (cre_CreatedAt c) \<and> after (cre_ExpiresAt c) (cre_CreatedAt c) \<and>
     (cre_Status c \<noteq> CredentialRevoked \<or> cre_RevokedAt c \<noteq> None)"

definition Credential_ValidForInsert :: "promotion_credential \<Rightarrow> bool" where
  "Credential_ValidForInsert c \<longleftrightarrow>
     cre_ID c = 0 \<and> cre_DistributorID c > 0 \<and> cre_ProductID c > 0 \<and>
     ProductType_Valid (cre_ProductType c) \<and> cre_Status c = CredentialActive \<and>
     \<not> is_zero (cre_CreatedAt c) \<and> after (cre_ExpiresAt c) (cre_CreatedAt c) \<and>
     cre_RevokedAt c = None"

subsection \<open>Attribution\<close>

record attribution =
  att_ID :: int
  att_OrderID :: int
  att_OrderItemLine :: int
  att_ProductCode :: string
  att_ProductName :: string
  att_DistributorID :: int
  att_PromotionCredentialID :: int
  att_EvidenceRef :: string
  att_QualificationState :: qualification_state
  att_PolicyVersion :: int
  att_Rate :: int
  att_WaitDays :: int
  att_AttributedAt :: go_time

definition Attribution_Valid :: "attribution \<Rightarrow> bool" where
  "Attribution_Valid a \<longleftrightarrow>
     att_ID a > 0 \<and> att_OrderID a > 0 \<and> att_OrderItemLine a > 0 \<and>
     trimmed (att_ProductCode a) \<and> length (att_ProductCode a) \<ge> 1 \<and>
     length (att_ProductCode a) \<le> 200 \<and>
     trimmed (att_ProductName a) \<and> length (att_ProductName a) \<ge> 1 \<and>
     length (att_ProductName a) \<le> 500 \<and>
     att_DistributorID a > 0 \<and> att_PromotionCredentialID a > 0 \<and>
     trimmed (att_EvidenceRef a) \<and> att_EvidenceRef a \<noteq> [] \<and> length (att_EvidenceRef a) \<le> 200 \<and>
     att_QualificationState a = QualificationEligible \<and> att_PolicyVersion a > 0 \<and>
     att_Rate a \<ge> 0 \<and> att_Rate a \<le> MaximumCommissionRateBasisPoints \<and>
     att_WaitDays a \<ge> 0 \<and> att_WaitDays a \<le> MaximumWaitDays \<and>
     \<not> is_zero (att_AttributedAt a)"

definition Attribution_ValidForInsert :: "attribution \<Rightarrow> bool" where
  "Attribution_ValidForInsert a \<longleftrightarrow>
     att_ID a = 0 \<and> att_OrderID a > 0 \<and> att_OrderItemLine a > 0 \<and>
     trimmed (att_ProductCode a) \<and> length (att_ProductCode a) \<ge> 1 \<and>
     length (att_ProductCode a) \<le> 200 \<and>
     trimmed (att_ProductName a) \<and> length (att_ProductName a) \<ge> 1 \<and>
     length (att_ProductName a) \<le> 500 \<and>
     att_DistributorID a > 0 \<and> att_PromotionCredentialID a > 0 \<and>
     trimmed (att_EvidenceRef a) \<and> att_EvidenceRef a \<noteq> [] \<and> length (att_EvidenceRef a) \<le> 200 \<and>
     att_QualificationState a = QualificationEligible \<and> att_PolicyVersion a > 0 \<and>
     att_Rate a \<ge> 0 \<and> att_Rate a \<le> MaximumCommissionRateBasisPoints \<and>
     att_WaitDays a \<ge> 0 \<and> att_WaitDays a \<le> MaximumWaitDays \<and>
     \<not> is_zero (att_AttributedAt a)"

text \<open>The insert form is the persisted form of the same row before it has an identity.\<close>

lemma Attribution_ValidForInsert_iff:
  "Attribution_ValidForInsert a \<longleftrightarrow> att_ID a = 0 \<and> Attribution_Valid (a\<lparr>att_ID := 1\<rparr>)"
  by (auto simp: Attribution_ValidForInsert_def Attribution_Valid_def)

lemma Credential_ValidForInsert_persisted:
  "Credential_ValidForInsert c \<Longrightarrow> 0 < i \<Longrightarrow> Credential_Valid (c\<lparr>cre_ID := i\<rparr>)"
  by (auto simp: Credential_ValidForInsert_def Credential_Valid_def)

end
