(* ===== verification/Commission.thy ===== *)
theory Commission
  imports Distribution
begin

text \<open>
  The commission aggregate of \<open>internal/distribution/domain/distribution.go\<close>: money
  owed to a distributor for one order line.  Amounts are minor units, the rate is in
  basis points.  \<open>commission_cmd\<close> names the methods and \<open>apply_commission\<close> dispatches
  to them; the aggregate is an instance of the optimistic-locking contract
  \<open>cas_aggregate\<close> with the accounting invariant \<open>commission_inv\<close>.
\<close>

datatype commission_status =
    CommissionPending
  | CommissionHeld
  | CommissionSettling
  | CommissionPaid
  | CommissionCancelled
  | CommissionException
  | CommissionZero
  | CommissionOther string

fun CommissionStatus_Valid :: "commission_status \<Rightarrow> bool" where
  "CommissionStatus_Valid (CommissionOther _) = False"
| "CommissionStatus_Valid _ = True"

record commission =
  com_ID :: int
  com_AttributionID :: int
  com_OrderID :: int
  com_OrderItemLine :: int
  com_DistributorID :: int
  com_OriginalItemPaidMinor :: int
  com_SuccessfulRefundMinor :: int
  com_InitialMinor :: int
  com_CurrentPayableMinor :: int
  com_PaidMinor :: int
  com_Rate :: int
  com_PaidConfirmedAt :: go_time
  com_DueAt :: go_time
  com_Status :: commission_status
  com_HoldReason :: string
  com_CancelReason :: string
  com_ExceptionReason :: string
  com_Version :: int
  com_CreatedAt :: go_time
  com_UpdatedAt :: go_time

subsection \<open>The amount\<close>

definition CalculateCommission :: "int \<Rightarrow> int \<Rightarrow> (dist_error, int) result" where
  "CalculateCommission remainingPaidMinor basisPoints =
     (if remainingPaidMinor < 0 \<or> basisPoints < 0 \<or>
         basisPoints > MaximumCommissionRateBasisPoints \<or>
         remainingPaidMinor > go_div max_int64 MaximumCommissionRateBasisPoints
      then Inl ErrInvalid
      else Inr (go_div (wrap64 (remainingPaidMinor * basisPoints)) 10000))"

text \<open>The largest paid amount the calculation accepts.\<close>

definition commission_limit :: int where
  "commission_limit = 3074457345618258"

lemma commission_limit_eq: "go_div max_int64 MaximumCommissionRateBasisPoints = commission_limit"
  by (simp add: go_div_def max_int64_def commission_limit_def)

lemma CalculateCommission_no_overflow:
  assumes "0 \<le> p" and "p \<le> commission_limit" and "0 \<le> r" and "r \<le> 3000"
  shows "in64 (p * r)"
proof -
  have "p * r \<le> commission_limit * 3000" using assms by (intro mult_mono) auto
  moreover have "0 \<le> p * r" using assms by simp
  ultimately show ?thesis by (simp add: in64_def commission_limit_def)
qed

text \<open>The specified amount: the share of the paid minor units, rounded down.\<close>

definition commission_amount :: "int \<Rightarrow> int \<Rightarrow> int" where
  "commission_amount p r = p * r div 10000"

lemma CalculateCommission_Inr:
  "CalculateCommission p r = Inr a \<longleftrightarrow>
     0 \<le> p \<and> p \<le> commission_limit \<and> 0 \<le> r \<and> r \<le> 3000 \<and> a = commission_amount p r"
proof (cases "0 \<le> p \<and> p \<le> commission_limit \<and> 0 \<le> r \<and> r \<le> 3000")
  case True
  then have "in64 (p * r)" and "0 \<le> p * r"
    by (auto intro: CalculateCommission_no_overflow)
  then have "CalculateCommission p r = Inr (commission_amount p r)"
    using True commission_limit_eq
    by (simp add: CalculateCommission_def go_div_nonneg commission_amount_def)
  then show ?thesis using True by auto
next
  case False
  then have "CalculateCommission p r = Inl ErrInvalid"
    using commission_limit_eq by (auto simp: CalculateCommission_def)
  then show ?thesis using False by auto
qed

lemma post_CalculateCommission:
  "post P (CalculateCommission p r) \<longleftrightarrow>
     (0 \<le> p \<and> p \<le> commission_limit \<and> 0 \<le> r \<and> r \<le> 3000 \<longrightarrow> P (commission_amount p r))"
  by (auto simp: post_iff CalculateCommission_Inr)

lemma commission_amount_mono:
  "0 \<le> r \<Longrightarrow> p \<le> q \<Longrightarrow> commission_amount p r \<le> commission_amount q r"
  unfolding commission_amount_def by (intro zdiv_mono1 mult_right_mono) auto

lemma commission_amount_nonneg [simp]: "0 \<le> p \<Longrightarrow> 0 \<le> r \<Longrightarrow> 0 \<le> commission_amount p r"
  by (simp add: commission_amount_def pos_imp_zdiv_nonneg_iff)

lemma commission_amount_pos [simp]:
  "0 \<le> p \<Longrightarrow> 0 \<le> r \<Longrightarrow> commission_amount p r \<noteq> 0 \<Longrightarrow> 1 \<le> commission_amount p r"
  using commission_amount_nonneg [of p r] by linarith

lemma commission_amount_le_30_percent:
  "0 \<le> p \<Longrightarrow> 0 \<le> r \<Longrightarrow> r \<le> 3000 \<Longrightarrow> commission_amount p r * 10 \<le> p * 3"
proof -
  assume "0 \<le> p" "0 \<le> r" "r \<le> 3000"
  then have "p * r \<le> p * 3000" by (intro mult_left_mono)
  moreover have "p * r div 10000 * 10000 \<le> p * r" by simp
  ultimately show ?thesis by (simp add: commission_amount_def)
qed

subsection \<open>Creation and transitions\<close>

definition NewCommission ::
  "attribution \<Rightarrow> int \<Rightarrow> go_time \<Rightarrow> (dist_error, commission) result" where
  "NewCommission a paidMinor paidAt =
     (if \<not> Attribution_Valid a \<or> paidMinor < 0 \<or> is_zero paidAt then Inl ErrInvalid
      else case CalculateCommission paidMinor (att_Rate a) of
        Inl e \<Rightarrow> Inl e
      | Inr initial \<Rightarrow>
          let status = (if initial = 0 then CommissionZero else CommissionPending);
              due0 = utc paidAt + att_WaitDays a * 24 * hour;
              earliest = utc paidAt + minute;
              due = (if before due0 earliest then earliest else due0)
          in Inr \<lparr>com_ID = 0, com_AttributionID = att_ID a, com_OrderID = att_OrderID a,
                  com_OrderItemLine = att_OrderItemLine a,
                  com_DistributorID = att_DistributorID a,
                  com_OriginalItemPaidMinor = paidMinor, com_SuccessfulRefundMinor = 0,
                  com_InitialMinor = initial, com_CurrentPayableMinor = initial,
                  com_PaidMinor = 0, com_Rate = att_Rate a,
                  com_PaidConfirmedAt = utc paidAt, com_DueAt = due, com_Status = status,
                  com_HoldReason = [], com_CancelReason = [], com_ExceptionReason = [],
                  com_Version = 1, com_CreatedAt = utc paidAt, com_UpdatedAt = utc paidAt\<rparr>)"

definition stale :: "commission \<Rightarrow> go_time \<Rightarrow> bool" where
  "stale c at \<longleftrightarrow> is_zero at \<or> before at (com_UpdatedAt c)"

definition bad_reason :: "string \<Rightarrow> bool" where
  "bad_reason reason \<longleftrightarrow> trim_space reason = [] \<or> length reason > 200"

definition RepriceFromPaidMinor ::
  "commission \<Rightarrow> int \<Rightarrow> int \<Rightarrow> int \<Rightarrow> go_time \<Rightarrow> (dist_error, commission) result" where
  "RepriceFromPaidMinor c expectedVersion originalPaidMinor cumulative at =
     (if expectedVersion \<noteq> com_Version c \<or> originalPaidMinor < 0 \<or> cumulative < 0 \<or>
         cumulative > originalPaidMinor \<or> stale c at \<or>
         (com_Status c \<noteq> CommissionPending \<and> com_Status c \<noteq> CommissionHeld)
      then Inl ErrTransition
      else case CalculateCommission (wrap64 (originalPaidMinor - cumulative)) (com_Rate c) of
        Inl e \<Rightarrow> Inl e
      | Inr nextPayable \<Rightarrow>
          let n = c\<lparr>com_CurrentPayableMinor := nextPayable,
                    com_SuccessfulRefundMinor := cumulative,
                    com_Version := wrap64 (com_Version c + 1), com_UpdatedAt := utc at\<rparr>
          in Inr (if nextPayable = 0
                  then n\<lparr>com_Status := CommissionCancelled, com_CancelReason := ''buyer_refund''\<rparr>
                  else n))"

definition RecordRefundAfterSubmission ::
  "commission \<Rightarrow> int \<Rightarrow> int \<Rightarrow> string \<Rightarrow> go_time \<Rightarrow> (dist_error, commission) result" where
  "RecordRefundAfterSubmission c expectedVersion cumulative reason at =
     (if expectedVersion \<noteq> com_Version c \<or>
         (com_Status c \<noteq> CommissionSettling \<and> com_Status c \<noteq> CommissionPaid \<and>
          com_Status c \<noteq> CommissionException) \<or>
         cumulative < com_SuccessfulRefundMinor c \<or>
         cumulative > com_OriginalItemPaidMinor c \<or> bad_reason reason \<or> stale c at
      then Inl ErrTransition
      else case CalculateCommission (wrap64 (com_OriginalItemPaidMinor c - cumulative))
                  (com_Rate c) of
        Inl e \<Rightarrow> Inl e
      | Inr payable \<Rightarrow>
          let n = c\<lparr>com_SuccessfulRefundMinor := cumulative,
                    com_CurrentPayableMinor := payable\<rparr>;
              m = (if com_Status c \<noteq> CommissionException
                   then n\<lparr>com_Status := CommissionException,
                          com_ExceptionReason := trim_space reason\<rparr>
                   else n)
          in Inr (m\<lparr>com_Version := wrap64 (com_Version c + 1), com_UpdatedAt := utc at\<rparr>))"

definition RecordRefundAfterFinalization ::
  "commission \<Rightarrow> int \<Rightarrow> int \<Rightarrow> go_time \<Rightarrow> (dist_error, commission) result" where
  "RecordRefundAfterFinalization c expectedVersion cumulative at =
     (if expectedVersion \<noteq> com_Version c \<or>
         (com_Status c \<noteq> CommissionCancelled \<and> com_Status c \<noteq> CommissionZero) \<or>
         cumulative < com_SuccessfulRefundMinor c \<or>
         cumulative > com_OriginalItemPaidMinor c \<or> stale c at
      then Inl ErrTransition
      else Inr (c\<lparr>com_SuccessfulRefundMinor := cumulative,
                  com_Version := wrap64 (com_Version c + 1), com_UpdatedAt := utc at\<rparr>))"

definition Hold :: "commission \<Rightarrow> int \<Rightarrow> string \<Rightarrow> go_time \<Rightarrow> (dist_error, commission) result" where
  "Hold c expectedVersion reason at =
     (if expectedVersion \<noteq> com_Version c \<or> com_Status c \<noteq> CommissionPending \<or>
         bad_reason reason \<or> stale c at
      then Inl ErrTransition
      else Inr (c\<lparr>com_Status := CommissionHeld, com_HoldReason := trim_space reason,
                  com_Version := wrap64 (com_Version c + 1), com_UpdatedAt := utc at\<rparr>))"

definition Resume :: "commission \<Rightarrow> int \<Rightarrow> go_time \<Rightarrow> (dist_error, commission) result" where
  "Resume c expectedVersion at =
     (if expectedVersion \<noteq> com_Version c \<or> com_Status c \<noteq> CommissionHeld \<or>
         com_CurrentPayableMinor c < 1 \<or> stale c at
      then Inl ErrTransition
      else Inr (c\<lparr>com_Status := CommissionPending, com_HoldReason := [],
                  com_Version := wrap64 (com_Version c + 1), com_UpdatedAt := utc at\<rparr>))"

definition CancelUnsettled ::
  "commission \<Rightarrow> int \<Rightarrow> string \<Rightarrow> go_time \<Rightarrow> (dist_error, commission) result" where
  "CancelUnsettled c expectedVersion reason at =
     (if expectedVersion \<noteq> com_Version c \<or>
         (com_Status c \<noteq> CommissionPending \<and> com_Status c \<noteq> CommissionHeld) \<or>
         bad_reason reason \<or> stale c at
      then Inl ErrTransition
      else Inr (c\<lparr>com_Status := CommissionCancelled, com_CancelReason := trim_space reason,
                  com_ExceptionReason := [], com_CurrentPayableMinor := 0,
                  com_Version := wrap64 (com_Version c + 1), com_UpdatedAt := utc at\<rparr>))"

definition ConfirmInstructionUnpaid ::
  "commission \<Rightarrow> int \<Rightarrow> string \<Rightarrow> go_time \<Rightarrow> (dist_error, commission) result" where
  "ConfirmInstructionUnpaid c expectedVersion reason at =
     (if expectedVersion \<noteq> com_Version c \<or>
         (com_Status c \<noteq> CommissionSettling \<and>
          \<not> (com_Status c = CommissionException \<and> com_PaidMinor c = 0)) \<or>
         com_PaidMinor c \<noteq> 0 \<or> bad_reason reason \<or> stale c at
      then Inl ErrTransition
      else Inr (c\<lparr>com_Status := CommissionCancelled, com_CancelReason := trim_space reason,
                  com_ExceptionReason := [], com_CurrentPayableMinor := 0,
                  com_Version := wrap64 (com_Version c + 1), com_UpdatedAt := utc at\<rparr>))"

definition BeginSettlement :: "commission \<Rightarrow> int \<Rightarrow> go_time \<Rightarrow> (dist_error, commission) result" where
  "BeginSettlement c expectedVersion at =
     (if expectedVersion \<noteq> com_Version c \<or> com_Status c \<noteq> CommissionPending \<or>
         com_CurrentPayableMinor c < 1 \<or> before at (com_DueAt c) \<or> before at (com_UpdatedAt c)
      then Inl ErrTransition
      else Inr (c\<lparr>com_Status := CommissionSettling,
                  com_Version := wrap64 (com_Version c + 1), com_UpdatedAt := utc at\<rparr>))"

definition ConfirmReceiverPaid ::
  "commission \<Rightarrow> int \<Rightarrow> int \<Rightarrow> go_time \<Rightarrow> (dist_error, commission) result" where
  "ConfirmReceiverPaid c expectedVersion actualPaidMinor at =
     (if expectedVersion \<noteq> com_Version c \<or>
         (com_Status c \<noteq> CommissionSettling \<and>
          \<not> (com_Status c = CommissionException \<and> com_PaidMinor c = 0)) \<or>
         actualPaidMinor < 1 \<or>
         (com_Status c = CommissionSettling \<and> actualPaidMinor \<noteq> com_CurrentPayableMinor c) \<or>
         (com_Status c = CommissionException \<and> actualPaidMinor < com_CurrentPayableMinor c) \<or>
         stale c at
      then Inl ErrTransition
      else Inr (c\<lparr>com_Status := CommissionPaid, com_PaidMinor := actualPaidMinor,
                  com_Version := wrap64 (com_Version c + 1), com_UpdatedAt := utc at\<rparr>))"

definition MarkException ::
  "commission \<Rightarrow> int \<Rightarrow> string \<Rightarrow> go_time \<Rightarrow> (dist_error, commission) result" where
  "MarkException c expectedVersion reason at =
     (if expectedVersion \<noteq> com_Version c \<or>
         (com_Status c \<noteq> CommissionPending \<and> com_Status c \<noteq> CommissionHeld \<and>
          com_Status c \<noteq> CommissionSettling \<and> com_Status c \<noteq> CommissionPaid) \<or>
         bad_reason reason \<or> stale c at
      then Inl ErrTransition
      else Inr (c\<lparr>com_Status := CommissionException, com_ExceptionReason := trim_space reason,
                  com_Version := wrap64 (com_Version c + 1), com_UpdatedAt := utc at\<rparr>))"

subsection \<open>Commands and the accounting invariant\<close>

text \<open>
  Every caller in \<open>internal/distribution/app\<close> reprices from the commission's own
  \<open>OriginalItemPaidMinor\<close>, and so does the command.
\<close>

datatype commission_cmd =
    CmdReprice int int go_time
  | CmdRefundAfterSubmission int int string go_time
  | CmdRefundAfterFinalization int int go_time
  | CmdHold int string go_time
  | CmdResume int go_time
  | CmdCancelUnsettled int string go_time
  | CmdConfirmUnpaid int string go_time
  | CmdBeginSettlement int go_time
  | CmdConfirmPaid int int go_time
  | CmdMarkException int string go_time

fun apply_commission :: "commission \<Rightarrow> commission_cmd \<Rightarrow> (dist_error, commission) result" where
  "apply_commission c (CmdReprice v cum t) =
     RepriceFromPaidMinor c v (com_OriginalItemPaidMinor c) cum t"
| "apply_commission c (CmdRefundAfterSubmission v cum r t) = RecordRefundAfterSubmission c v cum r t"
| "apply_commission c (CmdRefundAfterFinalization v cum t) = RecordRefundAfterFinalization c v cum t"
| "apply_commission c (CmdHold v r t) = Hold c v r t"
| "apply_commission c (CmdResume v t) = Resume c v t"
| "apply_commission c (CmdCancelUnsettled v r t) = CancelUnsettled c v r t"
| "apply_commission c (CmdConfirmUnpaid v r t) = ConfirmInstructionUnpaid c v r t"
| "apply_commission c (CmdBeginSettlement v t) = BeginSettlement c v t"
| "apply_commission c (CmdConfirmPaid v a t) = ConfirmReceiverPaid c v a t"
| "apply_commission c (CmdMarkException v r t) = MarkException c v r t"

fun commission_cmd_version :: "commission_cmd \<Rightarrow> int" where
  "commission_cmd_version (CmdReprice v _ _) = v"
| "commission_cmd_version (CmdRefundAfterSubmission v _ _ _) = v"
| "commission_cmd_version (CmdRefundAfterFinalization v _ _) = v"
| "commission_cmd_version (CmdHold v _ _) = v"
| "commission_cmd_version (CmdResume v _) = v"
| "commission_cmd_version (CmdCancelUnsettled v _ _) = v"
| "commission_cmd_version (CmdConfirmUnpaid v _ _) = v"
| "commission_cmd_version (CmdBeginSettlement v _) = v"
| "commission_cmd_version (CmdConfirmPaid v _ _) = v"
| "commission_cmd_version (CmdMarkException v _ _) = v"

definition remaining_commission :: "commission \<Rightarrow> int" where
  "remaining_commission c =
     commission_amount (com_OriginalItemPaidMinor c - com_SuccessfulRefundMinor c) (com_Rate c)"

definition commission_inv :: "commission \<Rightarrow> bool" where
  "commission_inv c \<longleftrightarrow>
     0 \<le> com_SuccessfulRefundMinor c \<and>
     com_SuccessfulRefundMinor c \<le> com_OriginalItemPaidMinor c \<and>
     com_OriginalItemPaidMinor c \<le> commission_limit \<and>
     0 \<le> com_Rate c \<and> com_Rate c \<le> 3000 \<and>
     com_InitialMinor c = commission_amount (com_OriginalItemPaidMinor c) (com_Rate c) \<and>
     CommissionStatus_Valid (com_Status c) \<and> 0 \<le> com_PaidMinor c \<and>
     (com_Status c \<noteq> CommissionCancelled \<longrightarrow> com_CurrentPayableMinor c = remaining_commission c) \<and>
     (com_Status c = CommissionCancelled \<longrightarrow> com_CurrentPayableMinor c = 0) \<and>
     (com_Status c = CommissionZero \<longrightarrow> com_InitialMinor c = 0) \<and>
     (com_Status c \<in> {CommissionPending, CommissionHeld, CommissionSettling} \<longrightarrow>
        1 \<le> com_CurrentPayableMinor c) \<and>
     (com_Status c = CommissionPaid \<longrightarrow> 1 \<le> com_PaidMinor c) \<and>
     (com_Status c \<notin> {CommissionPaid, CommissionException} \<longrightarrow> com_PaidMinor c = 0)"

lemmas commission_ops = RepriceFromPaidMinor_def RecordRefundAfterSubmission_def
  RecordRefundAfterFinalization_def Hold_def Resume_def CancelUnsettled_def
  ConfirmInstructionUnpaid_def BeginSettlement_def ConfirmReceiverPaid_def MarkException_def

lemma commission_inv_bounds:
  assumes "commission_inv c"
  shows "0 \<le> com_SuccessfulRefundMinor c" "com_SuccessfulRefundMinor c \<le> com_OriginalItemPaidMinor c"
    "0 \<le> com_Rate c" "com_Rate c \<le> 3000" "com_OriginalItemPaidMinor c \<le> commission_limit"
  using assms by (simp_all add: commission_inv_def)

lemma remaining_nonneg: "commission_inv c \<Longrightarrow> 0 \<le> remaining_commission c"
  unfolding commission_inv_def remaining_commission_def
  by (intro commission_amount_nonneg) simp_all

lemma remaining_le_initial:
  "commission_inv c \<Longrightarrow> remaining_commission c \<le> com_InitialMinor c"
  by (simp add: commission_inv_def remaining_commission_def commission_amount_mono)

lemma minor_difference [simp]:
  "0 \<le> a \<Longrightarrow> a \<le> b \<Longrightarrow> b \<le> commission_limit \<Longrightarrow> wrap64 (b - a) = b - a"
  by (rule wrap64_id) (simp add: in64_def commission_limit_def)

lemma NewCommission_inv: "post commission_inv (NewCommission a paid t)"
  by (simp add: NewCommission_def post_CalculateCommission Let_def commission_inv_def
      remaining_commission_def)

text \<open>One lemma per method: the invariant survives it.\<close>

lemma Reprice_inv:
  assumes "commission_inv c"
  shows "post commission_inv (RepriceFromPaidMinor c v (com_OriginalItemPaidMinor c) cum t)"
proof (cases "0 \<le> cum \<and> cum \<le> com_OriginalItemPaidMinor c")
  case True
  then have "0 \<le> com_OriginalItemPaidMinor c - cum" by simp
  with True assms show ?thesis
    by (cases "com_Status c")
      (simp_all add: RepriceFromPaidMinor_def commission_inv_def remaining_commission_def
        post_CalculateCommission Let_def)
next
  case False
  then show ?thesis by (auto simp: RepriceFromPaidMinor_def)
qed

lemma RefundAfterSubmission_inv:
  "commission_inv c \<Longrightarrow> post commission_inv (RecordRefundAfterSubmission c v cum r t)"
  by (cases "com_Status c")
    (simp_all add: RecordRefundAfterSubmission_def commission_inv_def remaining_commission_def
      post_CalculateCommission Let_def)

lemma zero_commission_refund:
  assumes "0 \<le> p" and "p \<le> q" and "0 \<le> r" and "commission_amount q r = 0"
  shows "commission_amount p r = 0"
  using commission_amount_mono [OF assms(3,2)] commission_amount_nonneg [OF assms(1,3)] assms(4)
  by simp

lemma RefundAfterFinalization_inv:
  assumes "commission_inv c"
  shows "post commission_inv (RecordRefundAfterFinalization c v cum t)"
proof (cases "com_SuccessfulRefundMinor c \<le> cum \<and> cum \<le> com_OriginalItemPaidMinor c")
  case True
  let ?o = "com_OriginalItemPaidMinor c" and ?r = "com_Rate c"
  note b = commission_inv_bounds [OF assms]
  have zero: "commission_amount (?o - cum) ?r = 0"
      "commission_amount (?o - com_SuccessfulRefundMinor c) ?r = 0"
    if "commission_amount ?o ?r = 0"
    using b(1-3) True by (auto intro!: zero_commission_refund [OF _ _ _ that])
  consider "com_Status c = CommissionZero" | "com_Status c = CommissionCancelled"
    | "com_Status c \<noteq> CommissionZero" "com_Status c \<noteq> CommissionCancelled" by blast
  then show ?thesis
  proof cases
    case 1
    with assms have "commission_amount ?o ?r = 0" by (simp add: commission_inv_def)
    with 1 assms True zero show ?thesis
      by (simp add: RecordRefundAfterFinalization_def commission_inv_def remaining_commission_def)
  next
    case 2
    with assms True show ?thesis
      by (simp add: RecordRefundAfterFinalization_def commission_inv_def remaining_commission_def)
  next
    case 3
    then show ?thesis by (simp add: RecordRefundAfterFinalization_def)
  qed
next
  case False
  then show ?thesis by (auto simp: RecordRefundAfterFinalization_def)
qed

lemma Hold_inv: "commission_inv c \<Longrightarrow> post commission_inv (Hold c v r t)"
  by (cases "com_Status c")
    (simp_all add: Hold_def commission_inv_def remaining_commission_def)

lemma Resume_inv: "commission_inv c \<Longrightarrow> post commission_inv (Resume c v t)"
  by (cases "com_Status c")
    (simp_all add: Resume_def commission_inv_def remaining_commission_def)

lemma CancelUnsettled_inv: "commission_inv c \<Longrightarrow> post commission_inv (CancelUnsettled c v r t)"
  by (cases "com_Status c")
    (simp_all add: CancelUnsettled_def commission_inv_def remaining_commission_def)

lemma ConfirmInstructionUnpaid_inv: "commission_inv c \<Longrightarrow> post commission_inv (ConfirmInstructionUnpaid c v r t)"
  by (cases "com_Status c")
    (simp_all add: ConfirmInstructionUnpaid_def commission_inv_def remaining_commission_def)

lemma BeginSettlement_inv: "commission_inv c \<Longrightarrow> post commission_inv (BeginSettlement c v t)"
  by (cases "com_Status c")
    (simp_all add: BeginSettlement_def commission_inv_def remaining_commission_def)

lemma ConfirmReceiverPaid_inv: "commission_inv c \<Longrightarrow> post commission_inv (ConfirmReceiverPaid c v a t)"
  by (cases "com_Status c")
    (simp_all add: ConfirmReceiverPaid_def commission_inv_def remaining_commission_def)

lemma MarkException_inv: "commission_inv c \<Longrightarrow> post commission_inv (MarkException c v r t)"
  by (cases "com_Status c")
    (simp_all add: MarkException_def commission_inv_def remaining_commission_def)

lemmas commission_op_inv = Reprice_inv RefundAfterSubmission_inv RefundAfterFinalization_inv
  Hold_inv Resume_inv CancelUnsettled_inv ConfirmInstructionUnpaid_inv BeginSettlement_inv
  ConfirmReceiverPaid_inv MarkException_inv

lemma apply_commission_inv:
  "commission_inv c \<Longrightarrow> post commission_inv (apply_commission c k)"
  by (cases k) (simp_all add: commission_op_inv)

lemma apply_commission_cas:
  "post (\<lambda>c'. commission_cmd_version k = com_Version c \<and>
       com_Version c' = wrap64 (com_Version c + 1) \<and> com_UpdatedAt c \<le> com_UpdatedAt c')
     (apply_commission c k)"
  by (cases k) (simp_all add: commission_ops stale_def before_def Let_def post_CalculateCommission)

interpretation commission: cas_aggregate apply_commission commission_cmd_version com_Version
    com_UpdatedAt commission_inv
proof
  fix s k s'
  assume "apply_commission s k = Inr s'"
  from postD [OF apply_commission_cas this]
  show "commission_cmd_version k = com_Version s" "com_Version s' = wrap64 (com_Version s + 1)"
    "com_UpdatedAt s \<le> com_UpdatedAt s'" by simp_all
next
  fix s k s'
  assume "commission_inv s" and "apply_commission s k = Inr s'"
  then show "commission_inv s'" by (rule postD [OF apply_commission_inv])
qed

subsection \<open>What no command changes, and what stays once it has happened\<close>

lemma apply_commission_frame:
  "post (\<lambda>c'. com_OriginalItemPaidMinor c' = com_OriginalItemPaidMinor c \<and>
       com_InitialMinor c' = com_InitialMinor c \<and> com_Rate c' = com_Rate c \<and>
       com_PaidConfirmedAt c' = com_PaidConfirmedAt c \<and> com_DueAt c' = com_DueAt c)
     (apply_commission c k)"
  by (cases k) (simp_all add: commission_ops Let_def post_CalculateCommission)

lemma run_commission_frame:
  "com_OriginalItemPaidMinor (run apply_commission c ks) = com_OriginalItemPaidMinor c \<and>
   com_InitialMinor (run apply_commission c ks) = com_InitialMinor c \<and>
   com_Rate (run apply_commission c ks) = com_Rate c \<and>
   com_PaidConfirmedAt (run apply_commission c ks) = com_PaidConfirmedAt c \<and>
   com_DueAt (run apply_commission c ks) = com_DueAt c"
  by (rule run_invariant [where P = "\<lambda>d. com_OriginalItemPaidMinor d = com_OriginalItemPaidMinor c \<and>
       com_InitialMinor d = com_InitialMinor c \<and> com_Rate d = com_Rate c \<and>
       com_PaidConfirmedAt d = com_PaidConfirmedAt c \<and> com_DueAt d = com_DueAt c"])
    (auto dest: postD [OF apply_commission_frame])

lemma apply_commission_paid:
  "com_PaidMinor c \<noteq> 0 \<Longrightarrow> com_Status c \<in> {CommissionPaid, CommissionException} \<Longrightarrow>
   post (\<lambda>c'. com_PaidMinor c' = com_PaidMinor c \<and>
       com_Status c' \<in> {CommissionPaid, CommissionException}) (apply_commission c k)"
  by (cases k) (auto simp: commission_ops Let_def post_CalculateCommission)

lemma apply_commission_closed:
  "com_Status c \<in> {CommissionCancelled, CommissionZero} \<Longrightarrow>
   post (\<lambda>c'. com_Status c' = com_Status c \<and> com_PaidMinor c' = com_PaidMinor c \<and>
       com_CurrentPayableMinor c' = com_CurrentPayableMinor c) (apply_commission c k)"
  by (cases k) (auto simp: commission_ops Let_def post_CalculateCommission)

lemma NewCommission_fields:
  "NewCommission a paid t = Inr c \<Longrightarrow>
     com_OriginalItemPaidMinor c = paid \<and> com_Rate c = att_Rate a \<and> com_PaidMinor c = 0 \<and>
     com_InitialMinor c = commission_amount paid (att_Rate a) \<and>
     com_PaidConfirmedAt c = t \<and> com_Version c = 1 \<and>
     com_DueAt c = max (t + att_WaitDays a * 24 * hour) (t + minute)"
  by (auto simp: NewCommission_def Let_def CalculateCommission_Inr before_def max_def
      split: if_splits sum.splits)

subsection \<open>A concrete commission\<close>

definition sample_attribution :: attribution where
  "sample_attribution = \<lparr>att_ID = 7, att_OrderID = 41, att_OrderItemLine = 1,
     att_ProductCode = ''P-1'', att_ProductName = ''Course'', att_DistributorID = 3,
     att_PromotionCredentialID = 9, att_EvidenceRef = ''order:12'',
     att_QualificationState = QualificationEligible, att_PolicyVersion = 2,
     att_Rate = 1500, att_WaitDays = 7, att_AttributedAt = 1000\<rparr>"

lemma sample_attribution_valid [simp]: "Attribution_Valid sample_attribution"
  by (simp add: Attribution_Valid_def sample_attribution_def trimmed_def trim_space_printable
      printable_def is_zero_def)

lemma sample_rate [simp]: "att_Rate sample_attribution = 1500" "att_WaitDays sample_attribution = 7"
  by (simp_all add: sample_attribution_def)

lemma sample_new:
  "\<exists>c. NewCommission sample_attribution 9900 2000 = Inr c \<and> com_Status c = CommissionPending \<and>
       com_CurrentPayableMinor c = 1485 \<and> com_UpdatedAt c = 2000 \<and> com_Version c = 1 \<and>
       com_PaidMinor c = 0 \<and> com_SuccessfulRefundMinor c = 0 \<and>
       com_OriginalItemPaidMinor c = 9900 \<and> com_Rate c = 1500 \<and>
       com_DueAt c = 2000 + 7 * 24 * hour"
proof -
  have "CalculateCommission 9900 1500 = Inr 1485"
    by (simp add: CalculateCommission_Inr commission_limit_def commission_amount_def)
  then show ?thesis
    by (simp add: NewCommission_def Let_def is_zero_def before_def hour_def minute_def second_def)
qed

definition sample_commission :: commission where
  "sample_commission = \<lparr>com_ID = 5, com_AttributionID = 7, com_OrderID = 41,
     com_OrderItemLine = 1, com_DistributorID = 3, com_OriginalItemPaidMinor = 9900,
     com_SuccessfulRefundMinor = 0, com_InitialMinor = 1485, com_CurrentPayableMinor = 1485,
     com_PaidMinor = 0, com_Rate = 1500, com_PaidConfirmedAt = 2000,
     com_DueAt = 2000 + 7 * 24 * hour, com_Status = CommissionPending, com_HoldReason = [],
     com_CancelReason = [], com_ExceptionReason = [], com_Version = 1, com_CreatedAt = 2000,
     com_UpdatedAt = 2000\<rparr>"

subsection \<open>Properties\<close>

text \<open>C1. Money safety.  However a commission is driven after its creation, the amount payable is
  the frozen rate of what the buyer paid minus refunds, rounded down, or 0 once cancelled; it
  never exceeds the initial amount, and the initial amount is at most 30 percent of the payment.\<close>

theorem commission_money_safety:
  assumes "NewCommission a paid t = Inr c"
  shows "let d = run apply_commission c ks in
     com_CurrentPayableMinor d =
       (if com_Status d = CommissionCancelled then 0
        else (paid - com_SuccessfulRefundMinor d) * att_Rate a div 10000) \<and>
     0 \<le> com_SuccessfulRefundMinor d \<and> com_SuccessfulRefundMinor d \<le> paid \<and>
     0 \<le> com_CurrentPayableMinor d \<and> com_CurrentPayableMinor d \<le> com_InitialMinor c \<and>
     com_InitialMinor c * 10 \<le> paid * 3"
proof -
  let ?d = "run apply_commission c ks"
  note f = NewCommission_fields [OF assms] and fr = run_commission_frame [of c ks]
  have c: "commission_inv c" by (rule postD [OF NewCommission_inv assms])
  then have d: "commission_inv ?d" by (rule commission.run_invar)
  note b = commission_inv_bounds [OF d]
  have "com_CurrentPayableMinor ?d = (if com_Status ?d = CommissionCancelled then 0
      else remaining_commission ?d)" using d by (simp add: commission_inv_def)
  moreover have "com_InitialMinor c * 10 \<le> paid * 3"
    using f fr b commission_amount_le_30_percent by auto
  ultimately show ?thesis
    using b f fr remaining_nonneg [OF d] remaining_le_initial [OF d]
      commission_inv_bounds [OF c] commission_amount_nonneg
    by (simp add: Let_def remaining_commission_def commission_amount_def)
qed

theorem commission_money_safety_witness:
  "\<exists>c. NewCommission sample_attribution 9900 2000 = Inr c \<and>
     com_InitialMinor c * 10 \<le> 9900 * 3 \<and>
     com_CurrentPayableMinor (run apply_commission c [CmdReprice 1 5000 3000]) \<le> com_InitialMinor c"
proof -
  obtain c where c: "NewCommission sample_attribution 9900 2000 = Inr c" using sample_new by blast
  show ?thesis
    using c commission_money_safety [OF c, of "[CmdReprice 1 5000 3000]"] by (auto simp: Let_def)
qed

text \<open>C2. A payment to the distributor is a durable fact: once an amount is recorded as paid no
  sequence of commands changes it, and the commission can only be paid or an exception.\<close>

theorem paid_commission_is_durable:
  assumes "com_PaidMinor c \<noteq> 0" and "com_Status c \<in> {CommissionPaid, CommissionException}"
  shows "com_PaidMinor (run apply_commission c ks) = com_PaidMinor c \<and>
     com_Status (run apply_commission c ks) \<in> {CommissionPaid, CommissionException}"
  by (rule run_invariant [where P = "\<lambda>d. com_PaidMinor d = com_PaidMinor c \<and>
        com_Status d \<in> {CommissionPaid, CommissionException}"])
    (use assms in \<open>auto dest!: postD [OF apply_commission_paid, rotated 2]\<close>)

theorem paid_commission_is_durable_witness:
  "com_PaidMinor (run apply_commission
      (sample_commission\<lparr>com_Status := CommissionPaid, com_PaidMinor := 1485\<rparr>)
      [CmdRefundAfterSubmission 1 9900 ''refund'' 3000, CmdConfirmUnpaid 2 ''gone'' 4000]) = 1485"
  using paid_commission_is_durable
    [of "sample_commission\<lparr>com_Status := CommissionPaid, com_PaidMinor := 1485\<rparr>"
        "[CmdRefundAfterSubmission 1 9900 ''refund'' 3000, CmdConfirmUnpaid 2 ''gone'' 4000]"]
  by simp

text \<open>A commission that was cancelled, or never owed anything, is closed for good: later
  refunds are recorded, but nothing makes it payable, settles it or changes its status.\<close>

lemma closed_commission_stays_closed:
  assumes "com_Status c \<in> {CommissionCancelled, CommissionZero}"
  shows "com_Status (run apply_commission c ks) = com_Status c \<and>
     com_PaidMinor (run apply_commission c ks) = com_PaidMinor c \<and>
     com_CurrentPayableMinor (run apply_commission c ks) = com_CurrentPayableMinor c"
proof (rule run_invariant [where P = "\<lambda>d. com_Status d = com_Status c \<and>
      com_PaidMinor d = com_PaidMinor c \<and> com_CurrentPayableMinor d = com_CurrentPayableMinor c"])
  fix d k d'
  assume d: "com_Status d = com_Status c \<and> com_PaidMinor d = com_PaidMinor c \<and>
      com_CurrentPayableMinor d = com_CurrentPayableMinor c" and k: "apply_commission d k = Inr d'"
  from d assms have "com_Status d \<in> {CommissionCancelled, CommissionZero}" by simp
  from postD [OF apply_commission_closed [OF this] k] d
  show "com_Status d' = com_Status c \<and> com_PaidMinor d' = com_PaidMinor c \<and>
      com_CurrentPayableMinor d' = com_CurrentPayableMinor c" by simp
qed simp

lemma closed_commission_stays_closed_witness:
  "com_Status (run apply_commission
      (sample_commission\<lparr>com_Status := CommissionCancelled, com_CurrentPayableMinor := 0\<rparr>)
      [CmdRefundAfterFinalization 1 100 3000, CmdResume 2 4000]) = CommissionCancelled"
  using closed_commission_stays_closed
    [of "sample_commission\<lparr>com_Status := CommissionCancelled, com_CurrentPayableMinor := 0\<rparr>"
        "[CmdRefundAfterFinalization 1 100 3000, CmdResume 2 4000]"]
  by simp

text \<open>No settlement before its time: if a commission that was created at the payment instant
  \<open>t\<close> is accepted for settlement at instant \<open>u\<close> after any history, then the waiting days of
  the policy and at least one minute have passed, the amount is positive and nothing was paid.\<close>

lemma settlement_waits:
  assumes new: "NewCommission a paid t = Inr c"
    and begin_: "BeginSettlement (run apply_commission c ks) v u = Inr d"
  shows "t + att_WaitDays a * 24 * hour \<le> u \<and> t + minute \<le> u \<and>
     1 \<le> com_CurrentPayableMinor d \<and> com_PaidMinor d = 0 \<and> com_Status d = CommissionSettling"
proof -
  let ?r = "run apply_commission c ks"
  have r: "commission_inv ?r"
    by (rule commission.run_invar) (rule postD [OF NewCommission_inv new])
  have d: "commission_inv d" by (rule postD [OF BeginSettlement_inv [OF r] begin_])
  have "com_DueAt ?r \<le> u" and s: "com_Status d = CommissionSettling"
    using begin_ by (auto simp: BeginSettlement_def before_def split: if_splits)
  moreover have "com_DueAt ?r = max (t + att_WaitDays a * 24 * hour) (t + minute)"
    using NewCommission_fields [OF new] run_commission_frame [of c ks] by simp
  ultimately show ?thesis using d by (simp add: commission_inv_def)
qed

lemma settlement_waits_witness:
  "\<exists>c d. NewCommission sample_attribution 9900 2000 = Inr c \<and>
     BeginSettlement (run apply_commission c []) 1 (2000 + 8 * 24 * hour) = Inr d \<and>
     com_PaidMinor d = 0 \<and> com_Status d = CommissionSettling"
proof -
  obtain c where c: "NewCommission sample_attribution 9900 2000 = Inr c"
    and f: "com_Status c = CommissionPending" "com_CurrentPayableMinor c = 1485"
      "com_UpdatedAt c = 2000" "com_Version c = 1" "com_DueAt c = 2000 + 7 * 24 * hour"
    using sample_new by blast
  have "\<exists>d. BeginSettlement (run apply_commission c []) 1 (2000 + 8 * 24 * hour) = Inr d"
    using f by (simp add: BeginSettlement_def before_def hour_def minute_def second_def)
  then obtain d where "BeginSettlement (run apply_commission c []) 1 (2000 + 8 * 24 * hour) = Inr d" ..
  from c this settlement_waits [OF c this] show ?thesis by blast
qed

text \<open>Optimistic locking of commissions: after one command was accepted, every command that
  was prepared against the same version, the accepted one included, is rejected.\<close>

lemma commission_lost_update_rejected:
  assumes "apply_commission c k = Inr c'"
    and "commission_cmd_version l = commission_cmd_version k"
  shows "\<exists>e. apply_commission c' l = Inl e"
  by (rule commission.lost_update_rejected [OF assms])

lemma commission_lost_update_rejected_witness:
  "\<exists>c' e. apply_commission sample_commission (CmdReprice 1 5000 3000) = Inr c' \<and>
     apply_commission c' (CmdReprice 1 5000 3000) = Inl e"
proof -
  have "CalculateCommission 4900 1500 = Inr 735"
    by (simp add: CalculateCommission_Inr commission_limit_def commission_amount_def)
  moreover have "wrap64 4900 = 4900" by (simp add: in64_def)
  ultimately have "\<exists>c'. apply_commission sample_commission (CmdReprice 1 5000 3000) = Inr c'"
    by (simp add: RepriceFromPaidMinor_def sample_commission_def stale_def is_zero_def before_def Let_def)
  then show ?thesis using commission_lost_update_rejected by blast
qed

end
