(* ===== verification/Order.thy ===== *)
theory Order
  imports GoStrings
begin

text \<open>
  The Order aggregate: \<open>internal/order/domain/order.go\<close> and \<open>variant.go\<close>.
  Records follow the structs; \<open>NewOrder\<close>, \<open>Restore\<close>, \<open>Snapshot\<close> and every
  transition are definitions of the same name, \<open>validate\<close> is the aggregate's
  consistency check with its loop over the order lines, and the lemmas show what the
  check accepts and that the transitions keep it.
\<close>

datatype order_error = ErrInvalidOrder | ErrInvalidSettlement | ErrInvalidTransition | ErrVersionConflict

datatype provider =
    ProviderNoPayment
  | ProviderWeChatPay
  | ProviderWeChatShop
  | ProviderAlipay
  | ProviderExternalHistory
  | ProviderOther string

datatype order_status =
    StatusPendingPayment
  | StatusPaid
  | StatusPartiallyRefunded
  | StatusRefunded
  | StatusCancelled
  | StatusPaymentFailed
  | StatusClosed
  | StatusOther string

text \<open>The empty origin of \<open>NewOrderInput\<close> is \<open>RecordOriginOther []\<close>.\<close>

datatype record_origin =
    RecordOriginNative
  | RecordOriginHistory
  | RecordOriginExternal
  | RecordOriginOther string

record money =
  AmountMinor :: int
  Currency :: string

record variant_snapshot =
  var_ID :: int
  var_Version :: int
  var_Name :: string
  var_Description :: string
  var_Attributes :: "(string \<times> string) list"

record item_snapshot =
  itm_Variant :: "variant_snapshot option"
  itm_LineNo :: int
  itm_ProductID :: "int option"
  itm_ProductVersion :: "int option"
  itm_ProductCode :: string
  itm_ProductName :: string
  itm_UnitAmountMinor :: int
  itm_Quantity :: int
  itm_LineAmountMinor :: int

record new_order_input =
  inp_Provider :: provider
  inp_SourceSystem :: string
  inp_SourceKey :: string
  inp_MerchantOrderNo :: string
  inp_ProviderTransactionNo :: string
  inp_PayerCustomerID :: "int option"
  inp_BeneficiaryCustomerID :: "int option"
  inp_Amount :: money
  inp_Items :: "item_snapshot list"
  inp_RecordOrigin :: record_origin
  inp_EffectEligible :: bool
  inp_CreatedAt :: go_time

record external_history_facts =
  ehf_SourcePaidAt :: "go_time option"
  ehf_ImportedAt :: go_time
  ehf_SourceStatus :: string
  ehf_SourceAfterSales :: string

record snapshot =
  snp_ExternalHistory :: "external_history_facts option"
  snp_ID :: int
  snp_Provider :: provider
  snp_SourceSystem :: string
  snp_SourceKey :: string
  snp_MerchantOrderNo :: string
  snp_ProviderTransactionNo :: string
  snp_PayerCustomerID :: "int option"
  snp_BeneficiaryCustomerID :: "int option"
  snp_Amount :: money
  snp_RefundedMinor :: int
  snp_Status :: order_status
  snp_Items :: "item_snapshot list"
  snp_RecordOrigin :: record_origin
  snp_EffectEligible :: bool
  snp_ProfitSharingRequired :: bool
  snp_Version :: int
  snp_CreatedAt :: go_time
  snp_UpdatedAt :: go_time

record order =
  ord_ExternalHistory :: "external_history_facts option"
  ord_ID :: int
  ord_Provider :: provider
  ord_SourceSystem :: string
  ord_SourceKey :: string
  ord_MerchantOrderNo :: string
  ord_ProviderTransactionNo :: string
  ord_PayerCustomerID :: "int option"
  ord_BeneficiaryCustomerID :: "int option"
  ord_Amount :: money
  ord_RefundedMinor :: int
  ord_Status :: order_status
  ord_RecordOrigin :: record_origin
  ord_EffectEligible :: bool
  ord_Version :: int
  ord_CreatedAt :: go_time
  ord_UpdatedAt :: go_time
  ord_items :: "item_snapshot list"

record status_event =
  evt_From :: order_status
  evt_To :: order_status
  evt_RefundedMinor :: int
  evt_Version :: int
  evt_OccurredAt :: go_time

subsection \<open>Field checks\<close>

definition validCurrency :: "string \<Rightarrow> bool" where
  "validCurrency value \<longleftrightarrow>
     length value = 3 \<and> list_all (\<lambda>c. 65 \<le> (of_char c :: nat) \<and> (of_char c :: nat) \<le> 90) value"

definition order_validText :: "string \<Rightarrow> nat \<Rightarrow> bool" where
  "order_validText value mx \<longleftrightarrow>
     value = trim_space value \<and> length value \<ge> 1 \<and> length value \<le> mx"

definition validID :: "int option \<Rightarrow> bool" where
  "validID value \<longleftrightarrow> (case value of None \<Rightarrow> False | Some i \<Rightarrow> i > 0)"

fun validProvider :: "provider \<Rightarrow> bool" where
  "validProvider (ProviderOther _) = False"
| "validProvider _ = True"

definition NewMoney :: "int \<Rightarrow> string \<Rightarrow> (order_error, money) result" where
  "NewMoney amountMinor currency =
     (if amountMinor < 1 \<or> \<not> validCurrency currency then Inl ErrInvalidOrder
      else Inr \<lparr>AmountMinor = amountMinor, Currency = currency\<rparr>)"

text \<open>The loop over the attributes, with the keys seen so far.\<close>

fun variant_attributes_ok :: "string list \<Rightarrow> (string \<times> string) list \<Rightarrow> bool" where
  "variant_attributes_ok seen [] = True"
| "variant_attributes_ok seen ((key, value) # as) =
     (if \<not> order_validText key 200 \<or> \<not> order_validText value 10000 \<or> key \<in> set seen then False
      else variant_attributes_ok (key # seen) as)"

definition Variant_Valid :: "variant_snapshot option \<Rightarrow> bool" where
  "Variant_Valid v \<longleftrightarrow> (case v of None \<Rightarrow> True | Some v \<Rightarrow>
     (if var_ID v < 1 \<or> var_Version v < 1 \<or> \<not> order_validText (var_Name v) 200 \<or>
         length (var_Description v) > 10000 then False
      else variant_attributes_ok [] (var_Attributes v)))"

definition DisplayName :: "item_snapshot \<Rightarrow> string" where
  "DisplayName item = (case itm_Variant item of
     None \<Rightarrow> itm_ProductName item
   | Some v \<Rightarrow> itm_ProductName item @ [CHR 0x20, CHR 0xC2, CHR 0xB7, CHR 0x20] @ var_Name v)"

fun validSettlement :: "order_status \<Rightarrow> int \<Rightarrow> int \<Rightarrow> bool" where
  "validSettlement status refunded amount =
     (if refunded < 0 \<or> refunded > amount then False
      else case status of
        StatusPartiallyRefunded \<Rightarrow> refunded > 0 \<and> refunded < amount
      | StatusRefunded \<Rightarrow> refunded = amount
      | StatusPendingPayment \<Rightarrow> refunded = 0
      | StatusPaid \<Rightarrow> refunded = 0
      | StatusCancelled \<Rightarrow> refunded = 0
      | StatusPaymentFailed \<Rightarrow> refunded = 0
      | StatusClosed \<Rightarrow> refunded = 0
      | StatusOther _ \<Rightarrow> False)"

fun mayTransition :: "order_status \<Rightarrow> order_status \<Rightarrow> bool" where
  "mayTransition StatusPendingPayment to =
     (to = StatusPaid \<or> to = StatusCancelled \<or> to = StatusPaymentFailed)"
| "mayTransition StatusPaid to =
     (to = StatusPartiallyRefunded \<or> to = StatusRefunded \<or> to = StatusClosed)"
| "mayTransition StatusPartiallyRefunded to =
     (to = StatusPartiallyRefunded \<or> to = StatusRefunded)"
| "mayTransition _ to = False"

subsection \<open>validate\<close>

definition item_ok :: "bool \<Rightarrow> bool \<Rightarrow> int \<Rightarrow> item_snapshot \<Rightarrow> bool" where
  "item_ok external noPayment tot item \<longleftrightarrow>
     \<not> (\<not> Variant_Valid (itm_Variant item) \<or>
        itm_Variant item \<noteq> None \<and> itm_ProductID item = None \<or>
        itm_LineNo item < 1 \<or>
        \<not> ptr_all (\<lambda>i. \<not> i < 1) (itm_ProductID item) \<or>
        \<not> ptr_all (\<lambda>i. \<not> i < 1) (itm_ProductVersion item) \<or>
        \<not> order_validText (itm_ProductCode item) 200 \<or>
        \<not> order_validText (itm_ProductName item) 500 \<or>
        itm_Quantity item < 1 \<or> itm_UnitAmountMinor item < 0 \<or> itm_LineAmountMinor item < 0 \<or>
        (\<not> external \<and>
          ((\<not> noPayment \<and> (itm_UnitAmountMinor item < 1 \<or> itm_LineAmountMinor item < 1)) \<or>
           itm_UnitAmountMinor item > go_div max_int64 (itm_Quantity item) \<or>
           itm_LineAmountMinor item \<noteq> wrap64 (itm_UnitAmountMinor item * itm_Quantity item))) \<or>
        tot > max_int64 - itm_LineAmountMinor item)"

text \<open>The loop: line numbers seen and the running total; \<open>None\<close> is the error return.\<close>

fun items_total :: "bool \<Rightarrow> bool \<Rightarrow> int list \<Rightarrow> int \<Rightarrow> item_snapshot list \<Rightarrow> int option" where
  "items_total external noPayment seen tot [] = Some tot"
| "items_total external noPayment seen tot (item # items) =
     (if \<not> item_ok external noPayment tot item then None
      else if itm_LineNo item \<in> set seen then None
      else items_total external noPayment (itm_LineNo item # seen)
             (wrap64 (tot + itm_LineAmountMinor item)) items)"

definition external_order :: "order \<Rightarrow> bool" where
  "external_order o' \<longleftrightarrow> ord_RecordOrigin o' = RecordOriginExternal \<and>
     ord_Provider o' = ProviderWeChatShop \<and> \<not> ord_EffectEligible o'"

definition history_facts_ok :: "order \<Rightarrow> bool" where
  "history_facts_ok o' \<longleftrightarrow>
     (if ord_Provider o' = ProviderExternalHistory then
        \<not> (ord_RecordOrigin o' \<noteq> RecordOriginHistory \<or> ord_EffectEligible o' \<or>
           (case ord_ExternalHistory o' of None \<Rightarrow> True
            | Some f \<Rightarrow> is_zero (ehf_ImportedAt f) \<or> ehf_SourceStatus f = []) \<or>
           ord_ProviderTransactionNo o' \<noteq> [] \<or> \<not> validID (ord_PayerCustomerID o') \<or>
           \<not> validID (ord_BeneficiaryCustomerID o'))
      else ord_ExternalHistory o' = None)"

definition noPayment_ok :: "order \<Rightarrow> bool" where
  "noPayment_ok o' \<longleftrightarrow> \<not> (ord_Provider o' = ProviderNoPayment \<and>
     (ord_RecordOrigin o' \<noteq> RecordOriginNative \<or> \<not> ord_EffectEligible o' \<or>
      AmountMinor (ord_Amount o') \<noteq> 0 \<or> Currency (ord_Amount o') \<noteq> ''CNY'' \<or>
      ord_ProviderTransactionNo o' \<noteq> [] \<or> ord_RefundedMinor o' \<noteq> 0 \<or>
      ord_Status o' = StatusRefunded \<or> ord_Status o' = StatusPartiallyRefunded \<or>
      ord_Status o' = StatusPaymentFailed))"

text \<open>The references of the order and the amount: the part of the long guard that no transition
  but the recording of a provider transaction touches.\<close>

definition references_ok :: "order \<Rightarrow> bool" where
  "references_ok o' \<longleftrightarrow>
     \<not> (\<not> validProvider (ord_Provider o') \<or> \<not> order_validText (ord_SourceSystem o') 100 \<or>
        \<not> order_validText (ord_SourceKey o') 200 \<or>
        \<not> order_validText (ord_MerchantOrderNo o') 200 \<or>
        length (ord_ProviderTransactionNo o') > 200 \<or>
        ord_ProviderTransactionNo o' \<noteq> trim_space (ord_ProviderTransactionNo o') \<or>
        (AmountMinor (ord_Amount o') < 1 \<and>
          \<not> ((external_order o' \<or> ord_Provider o' = ProviderNoPayment) \<and>
             AmountMinor (ord_Amount o') = 0)) \<or>
        \<not> validCurrency (Currency (ord_Amount o')) \<or>
        (ord_RecordOrigin o' \<noteq> RecordOriginNative \<and> ord_RecordOrigin o' \<noteq> RecordOriginHistory \<and>
         \<not> external_order o') \<or>
        ord_EffectEligible o' \<noteq> (ord_RecordOrigin o' = RecordOriginNative))"

definition state_ok :: "order \<Rightarrow> bool" where
  "state_ok o' \<longleftrightarrow>
     \<not> (ord_Version o' < 1 \<or> is_zero (ord_CreatedAt o') \<or>
        before (ord_UpdatedAt o') (ord_CreatedAt o') \<or>
        \<not> validSettlement (ord_Status o') (ord_RefundedMinor o') (AmountMinor (ord_Amount o')))"

definition parties_ok :: "order \<Rightarrow> bool" where
  "parties_ok o' \<longleftrightarrow>
     \<not> (ord_RecordOrigin o' = RecordOriginNative \<and>
        (\<not> validID (ord_PayerCustomerID o') \<or> \<not> validID (ord_BeneficiaryCustomerID o'))) \<and>
     \<not> (\<not> ptr_all (\<lambda>i. \<not> i < 1) (ord_PayerCustomerID o') \<or>
        \<not> ptr_all (\<lambda>i. \<not> i < 1) (ord_BeneficiaryCustomerID o'))"

definition items_ok :: "order \<Rightarrow> bool" where
  "items_ok o' \<longleftrightarrow>
     (if length (ord_items o') < 1 \<or> length (ord_items o') > 100 then False
      else case items_total (external_order o') (ord_Provider o' = ProviderNoPayment) [] 0
                  (ord_items o') of
        None \<Rightarrow> False
      | Some tot \<Rightarrow> \<not> (\<not> external_order o' \<and> tot \<noteq> AmountMinor (ord_Amount o')))"

definition validate :: "order \<Rightarrow> bool" where
  "validate o' =
     (if \<not> noPayment_ok o' then False
      else if \<not> history_facts_ok o' then False
      else if \<not> references_ok o' \<or> \<not> state_ok o' then False
      else if \<not> parties_ok o' then False
      else items_ok o')"

lemma validate_iff:
  "validate o' \<longleftrightarrow> noPayment_ok o' \<and> history_facts_ok o' \<and> references_ok o' \<and> state_ok o' \<and>
     parties_ok o' \<and> items_ok o'"
  unfolding validate_def by argo

definition checked :: "order \<Rightarrow> (order_error, order) result" where
  "checked o' = (if validate o' then Inr o' else Inl ErrInvalidOrder)"

subsection \<open>Construction, restoration, projection\<close>

definition NewOrder :: "new_order_input \<Rightarrow> (order_error, order) result" where
  "NewOrder input =
     (let origin = (if inp_RecordOrigin input = RecordOriginOther [] then RecordOriginNative
                    else inp_RecordOrigin input)
      in checked \<lparr>ord_ExternalHistory = None, ord_ID = 0, ord_Provider = inp_Provider input,
            ord_SourceSystem = trim_space (inp_SourceSystem input),
            ord_SourceKey = trim_space (inp_SourceKey input),
            ord_MerchantOrderNo = trim_space (inp_MerchantOrderNo input),
            ord_ProviderTransactionNo = trim_space (inp_ProviderTransactionNo input),
            ord_PayerCustomerID = inp_PayerCustomerID input,
            ord_BeneficiaryCustomerID = inp_BeneficiaryCustomerID input,
            ord_Amount = inp_Amount input, ord_RefundedMinor = 0,
            ord_Status = StatusPendingPayment, ord_RecordOrigin = origin,
            ord_EffectEligible = (origin = RecordOriginNative), ord_Version = 1,
            ord_CreatedAt = utc (inp_CreatedAt input), ord_UpdatedAt = utc (inp_CreatedAt input),
            ord_items = inp_Items input\<rparr>)"

definition Restore :: "snapshot \<Rightarrow> (order_error, order) result" where
  "Restore s = checked
     \<lparr>ord_ExternalHistory = snp_ExternalHistory s, ord_ID = snp_ID s,
      ord_Provider = snp_Provider s, ord_SourceSystem = snp_SourceSystem s,
      ord_SourceKey = snp_SourceKey s, ord_MerchantOrderNo = snp_MerchantOrderNo s,
      ord_ProviderTransactionNo = snp_ProviderTransactionNo s,
      ord_PayerCustomerID = snp_PayerCustomerID s,
      ord_BeneficiaryCustomerID = snp_BeneficiaryCustomerID s, ord_Amount = snp_Amount s,
      ord_RefundedMinor = snp_RefundedMinor s, ord_Status = snp_Status s,
      ord_RecordOrigin = snp_RecordOrigin s, ord_EffectEligible = snp_EffectEligible s,
      ord_Version = snp_Version s, ord_CreatedAt = utc (snp_CreatedAt s),
      ord_UpdatedAt = utc (snp_UpdatedAt s), ord_items = snp_Items s\<rparr>"

definition Snapshot :: "order \<Rightarrow> snapshot" where
  "Snapshot o' =
     \<lparr>snp_ExternalHistory = ord_ExternalHistory o', snp_ID = ord_ID o',
      snp_Provider = ord_Provider o', snp_SourceSystem = ord_SourceSystem o',
      snp_SourceKey = ord_SourceKey o', snp_MerchantOrderNo = ord_MerchantOrderNo o',
      snp_ProviderTransactionNo = ord_ProviderTransactionNo o',
      snp_PayerCustomerID = ord_PayerCustomerID o',
      snp_BeneficiaryCustomerID = ord_BeneficiaryCustomerID o', snp_Amount = ord_Amount o',
      snp_RefundedMinor = ord_RefundedMinor o', snp_Status = ord_Status o',
      snp_Items = ord_items o', snp_RecordOrigin = ord_RecordOrigin o',
      snp_EffectEligible = ord_EffectEligible o', snp_ProfitSharingRequired = False,
      snp_Version = ord_Version o', snp_CreatedAt = ord_CreatedAt o',
      snp_UpdatedAt = ord_UpdatedAt o'\<rparr>"

definition RefundableMinor :: "order \<Rightarrow> int" where
  "RefundableMinor o' =
     (if ord_RefundedMinor o' \<ge> AmountMinor (ord_Amount o') then 0
      else wrap64 (AmountMinor (ord_Amount o') - ord_RefundedMinor o'))"

subsection \<open>Transitions\<close>

text \<open>The result of \<open>AttributeHistoricalPayer\<close> carries whether the payer was newly set.\<close>

definition AttributeHistoricalPayer ::
  "order \<Rightarrow> int \<Rightarrow> int \<Rightarrow> go_time \<Rightarrow> (order_error, order \<times> bool) result" where
  "AttributeHistoricalPayer o' expectedVersion customerID at =
     (if ord_RecordOrigin o' \<noteq> RecordOriginHistory \<or> ord_EffectEligible o' \<or>
         expectedVersion \<noteq> ord_Version o' \<or> customerID < 1 \<or> is_zero at \<or>
         before at (ord_UpdatedAt o')
      then Inl ErrInvalidOrder
      else case ord_PayerCustomerID o' of
        Some payer \<Rightarrow> if payer = customerID then Inr (o', False) else Inl ErrInvalidOrder
      | None \<Rightarrow>
          let updated = o'\<lparr>ord_PayerCustomerID := Some customerID,
                           ord_Version := wrap64 (ord_Version o' + 1), ord_UpdatedAt := utc at\<rparr>
          in if validate updated then Inr (updated, True) else Inl ErrInvalidOrder)"

definition WithVerifiedProviderTransaction ::
  "order \<Rightarrow> string \<Rightarrow> (order_error, order) result" where
  "WithVerifiedProviderTransaction o' reference =
     (if ord_Status o' \<noteq> StatusPaid \<or> reference = [] \<or> length reference > 200 \<or>
         reference \<noteq> trim_space reference
      then Inl ErrInvalidSettlement
      else if ord_ProviderTransactionNo o' \<noteq> []
      then (if ord_ProviderTransactionNo o' = reference then Inr o' else Inl ErrInvalidSettlement)
      else checked (o'\<lparr>ord_ProviderTransactionNo := reference\<rparr>))"

definition ApplySettlement ::
  "order \<Rightarrow> int \<Rightarrow> order_status \<Rightarrow> int \<Rightarrow> go_time \<Rightarrow> (order_error, order \<times> status_event) result" where
  "ApplySettlement o' expectedVersion nxt refundedMinor at =
     (if expectedVersion \<noteq> ord_Version o' then Inl ErrVersionConflict
      else if ord_Provider o' = ProviderNoPayment \<and>
         (refundedMinor \<noteq> 0 \<or> nxt = StatusRefunded \<or> nxt = StatusPartiallyRefunded \<or>
          nxt = StatusPaymentFailed)
      then Inl ErrInvalidSettlement
      else if is_zero at \<or> before at (ord_UpdatedAt o') \<or>
         \<not> validSettlement nxt refundedMinor (AmountMinor (ord_Amount o'))
      then Inl ErrInvalidSettlement
      else if nxt = ord_Status o' \<and> refundedMinor = ord_RefundedMinor o'
      then Inr (o', \<lparr>evt_From = ord_Status o', evt_To = ord_Status o',
                     evt_RefundedMinor = refundedMinor, evt_Version = ord_Version o',
                     evt_OccurredAt = utc at\<rparr>)
      else if \<not> mayTransition (ord_Status o') nxt then Inl ErrInvalidTransition
      else let updated = o'\<lparr>ord_Status := nxt, ord_RefundedMinor := refundedMinor,
                            ord_Version := wrap64 (ord_Version o' + 1), ord_UpdatedAt := utc at\<rparr>
           in Inr (updated, \<lparr>evt_From = ord_Status o', evt_To = nxt,
                     evt_RefundedMinor = refundedMinor, evt_Version = ord_Version updated,
                     evt_OccurredAt = ord_UpdatedAt updated\<rparr>))"

definition ApplyVerifiedAlipayPayment ::
  "order \<Rightarrow> int \<Rightarrow> go_time \<Rightarrow> (order_error, order \<times> status_event) result" where
  "ApplyVerifiedAlipayPayment o' expectedVersion occurredAt =
     (if ord_Provider o' \<noteq> ProviderAlipay \<or> ord_RecordOrigin o' \<noteq> RecordOriginNative \<or>
         \<not> ord_EffectEligible o' \<or> ord_Status o' \<noteq> StatusPendingPayment \<or> is_zero occurredAt
      then Inl ErrInvalidSettlement
      else let stateAt =
          (if before (utc occurredAt) (ord_UpdatedAt o') \<and>
              trunc_time second (utc occurredAt) = trunc_time second (utc (ord_UpdatedAt o'))
           then ord_UpdatedAt o' else utc occurredAt)
      in case ApplySettlement o' expectedVersion StatusPaid 0 stateAt of
           Inl e \<Rightarrow> Inl e
         | Inr (updated, event) \<Rightarrow> Inr (updated, event\<lparr>evt_OccurredAt := utc occurredAt\<rparr>))"

definition ApplyVerifiedRefundFact ::
  "order \<Rightarrow> int \<Rightarrow> order_status \<Rightarrow> int \<Rightarrow> go_time \<Rightarrow> go_time
    \<Rightarrow> (order_error, order \<times> status_event) result" where
  "ApplyVerifiedRefundFact o' expectedVersion nxt refundedMinor occurredAt processedAt =
     (if expectedVersion \<noteq> ord_Version o' then Inl ErrVersionConflict
      else if ord_RecordOrigin o' \<noteq> RecordOriginNative \<or> \<not> ord_EffectEligible o' \<or>
         is_zero occurredAt \<or> is_zero processedAt \<or>
         (nxt \<noteq> StatusPartiallyRefunded \<and> nxt \<noteq> StatusRefunded) \<or>
         refundedMinor \<le> ord_RefundedMinor o' \<or>
         \<not> validSettlement nxt refundedMinor (AmountMinor (ord_Amount o'))
      then Inl ErrInvalidSettlement
      else if \<not> mayTransition (ord_Status o') nxt then Inl ErrInvalidTransition
      else let updated0 = o'\<lparr>ord_Status := nxt, ord_RefundedMinor := refundedMinor,
                             ord_Version := wrap64 (ord_Version o' + 1),
                             ord_UpdatedAt := utc processedAt\<rparr>;
               updated = (if before (ord_UpdatedAt updated0) (ord_UpdatedAt o')
                          then updated0\<lparr>ord_UpdatedAt := ord_UpdatedAt o'\<rparr> else updated0)
           in Inr (updated, \<lparr>evt_From = ord_Status o', evt_To = nxt,
                     evt_RefundedMinor = refundedMinor, evt_Version = ord_Version updated,
                     evt_OccurredAt = utc occurredAt\<rparr>))"

subsection \<open>What validate accepts\<close>

lemma item_ok_total:
  "0 \<le> t \<Longrightarrow> item_ok external noPayment t item \<longleftrightarrow>
     item_ok external noPayment 0 item \<and> t + itm_LineAmountMinor item \<le> max_int64"
  by (auto simp: item_ok_def)

lemma item_ok_nonneg: "item_ok external noPayment t item \<Longrightarrow> 0 \<le> itm_LineAmountMinor item"
  by (auto simp: item_ok_def)

text \<open>The loop computes the sum of the line amounts, and refuses exactly where a line is ill
  formed, a line number repeats or the exact sum is not an \<open>int64\<close>.\<close>

lemma lines_nonneg:
  "list_all (item_ok external noPayment t) items \<Longrightarrow>
     0 \<le> sum_list (map itm_LineAmountMinor items)"
  by (induction items) (auto dest: item_ok_nonneg)

lemma items_total_iff:
  assumes "0 \<le> t" and "t \<le> max_int64"
  shows "items_total external noPayment seen t items = Some u \<longleftrightarrow>
     list_all (item_ok external noPayment 0) items \<and> distinct (map itm_LineNo items) \<and>
     set (map itm_LineNo items) \<inter> set seen = {} \<and>
     u = t + sum_list (map itm_LineAmountMinor items) \<and> u \<le> max_int64"
  using assms
proof (induction items arbitrary: seen t)
  case Nil
  then show ?case by auto
next
  case (Cons item items)
  let ?t = "t + itm_LineAmountMinor item"
  show ?case
  proof (cases "item_ok external noPayment 0 item \<and> ?t \<le> max_int64 \<and> itm_LineNo item \<notin> set seen")
    case True
    then have t: "0 \<le> ?t" "?t \<le> max_int64"
      using Cons.prems item_ok_nonneg by fastforce+
    then have "wrap64 ?t = ?t" by (simp add: in64_def max_int64_def)
    moreover have "item_ok external noPayment t item"
      using True Cons.prems by (simp add: item_ok_total [of t])
    ultimately have "items_total external noPayment seen t (item # items) =
        items_total external noPayment (itm_LineNo item # seen) ?t items"
      using True by simp
    also have "\<dots> = Some u \<longleftrightarrow> list_all (item_ok external noPayment 0) items \<and>
        distinct (map itm_LineNo items) \<and>
        set (map itm_LineNo items) \<inter> set (itm_LineNo item # seen) = {} \<and>
        u = ?t + sum_list (map itm_LineAmountMinor items) \<and> u \<le> max_int64"
      by (rule Cons.IH [OF t])
    finally show ?thesis
      using True by (simp add: add.assoc) blast
  next
    case False
    then have "items_total external noPayment seen t (item # items) = None"
      using Cons.prems by (auto simp: item_ok_total [of t])
    moreover have "\<not> (list_all (item_ok external noPayment 0) (item # items) \<and>
        itm_LineNo item \<notin> set seen \<and>
        t + sum_list (map itm_LineAmountMinor (item # items)) \<le> max_int64)"
      using False lines_nonneg [of external noPayment 0 items] by fastforce
    ultimately show ?thesis by auto
  qed
qed

lemma line_amount_exact:
  assumes "item_ok False noPayment t item"
  shows "itm_LineAmountMinor item = itm_UnitAmountMinor item * itm_Quantity item"
proof -
  let ?u = "itm_UnitAmountMinor item" and ?q = "itm_Quantity item"
  from assms have q: "1 \<le> ?q" and u: "0 \<le> ?u" "?u \<le> go_div max_int64 ?q"
    and l: "itm_LineAmountMinor item = wrap64 (?u * ?q)"
    by (simp_all add: item_ok_def)
  have "?u \<le> max_int64 div ?q" using u q by (simp add: go_div_nonneg max_int64_def)
  then have "?u * ?q \<le> max_int64 div ?q * ?q" using q by (intro mult_right_mono) auto
  moreover have "max_int64 div ?q * ?q = max_int64 - max_int64 mod ?q"
    by (simp add: minus_mod_eq_div_mult)
  moreover have "0 \<le> max_int64 mod ?q" using q by simp
  moreover have "0 \<le> ?u * ?q" using u q by simp
  ultimately have "in64 (?u * ?q)" by (simp add: in64_def max_int64_def)
  with l show ?thesis by simp
qed

lemma validate_items:
  assumes "validate o'" and "\<not> external_order o'"
  shows "list_all (item_ok False (ord_Provider o' = ProviderNoPayment) 0) (ord_items o')"
    and "distinct (map itm_LineNo (ord_items o'))"
    and "AmountMinor (ord_Amount o') = sum_list (map itm_LineAmountMinor (ord_items o'))"
    and "AmountMinor (ord_Amount o') \<le> max_int64"
proof -
  have "items_total False (ord_Provider o' = ProviderNoPayment) [] 0 (ord_items o') =
      Some (AmountMinor (ord_Amount o'))"
    using assms by (simp add: validate_iff items_ok_def split: if_splits option.splits)
  moreover have "(0::int) \<le> max_int64" by (simp add: max_int64_def)
  ultimately show "list_all (item_ok False (ord_Provider o' = ProviderNoPayment) 0) (ord_items o')"
    "distinct (map itm_LineNo (ord_items o'))"
    "AmountMinor (ord_Amount o') = sum_list (map itm_LineAmountMinor (ord_items o'))"
    "AmountMinor (ord_Amount o') \<le> max_int64"
    by (simp_all add: items_total_iff)
qed

lemma validate_settlement:
  "validate o' \<Longrightarrow> validSettlement (ord_Status o') (ord_RefundedMinor o') (AmountMinor (ord_Amount o'))"
  by (simp add: validate_iff state_ok_def del: validSettlement.simps)

lemma validate_version: "validate o' \<Longrightarrow> 1 \<le> ord_Version o'"
  by (simp add: validate_iff state_ok_def del: validSettlement.simps)

lemma validSettlement_bounds:
  "validSettlement st r a \<Longrightarrow> 0 \<le> r \<and> r \<le> a \<and> (st = StatusRefunded \<longrightarrow> r = a)"
  by (cases st) (auto split: if_splits)

declare validSettlement.simps [simp del]

text \<open>A legal status, refund total, version and later update time keep an order valid.\<close>

lemma validate_update:
  assumes "validate o'" and "validSettlement st r (AmountMinor (ord_Amount o'))" and "1 \<le> v"
    and "ord_UpdatedAt o' \<le> u"
    and "ord_Provider o' = ProviderNoPayment \<longrightarrow>
      st \<notin> {StatusRefunded, StatusPartiallyRefunded, StatusPaymentFailed}"
  shows "validate (o'\<lparr>ord_Status := st, ord_RefundedMinor := r, ord_Version := v, ord_UpdatedAt := u\<rparr>)"
proof -
  let ?o = "o'\<lparr>ord_Status := st, ord_RefundedMinor := r, ord_Version := v, ord_UpdatedAt := u\<rparr>"
  have "ord_Provider o' = ProviderNoPayment \<Longrightarrow> r = 0"
    using assms(1) validSettlement_bounds [OF assms(2)] by (simp add: validate_iff noPayment_ok_def)
  then have "noPayment_ok ?o"
    using assms(1,5) by (auto simp: validate_iff noPayment_ok_def)
  moreover have "state_ok ?o"
    using assms(1-4) by (simp add: validate_iff state_ok_def before_def)
  moreover have "external_order ?o = external_order o'" by (simp add: external_order_def)
  then have "history_facts_ok ?o = history_facts_ok o'" "references_ok ?o = references_ok o'"
    "parties_ok ?o = parties_ok o'" "items_ok ?o = items_ok o'"
    by (simp_all add: history_facts_ok_def references_ok_def parties_ok_def items_ok_def
        cong: option.case_cong)
  ultimately show ?thesis
    using assms(1) unfolding validate_iff by simp
qed

subsection \<open>Commands\<close>

text \<open>The transitions with an expected version; the event of a settlement is not part of the
  state.\<close>

datatype order_cmd =
    OrdSettle int order_status int go_time
  | OrdAlipay int go_time
  | OrdRefundFact int order_status int go_time go_time
  | OrdAttributePayer int int go_time

fun order_cmd_version :: "order_cmd \<Rightarrow> int" where
  "order_cmd_version (OrdSettle v _ _ _) = v"
| "order_cmd_version (OrdAlipay v _) = v"
| "order_cmd_version (OrdRefundFact v _ _ _ _) = v"
| "order_cmd_version (OrdAttributePayer v _ _) = v"

definition fst_result :: "('e, 'a \<times> 'b) result \<Rightarrow> ('e, 'a) result" where
  "fst_result r = (case r of Inl e \<Rightarrow> Inl e | Inr (a, _) \<Rightarrow> Inr a)"

lemma post_fst_result [simp]: "post P (fst_result r) = post (\<lambda>x. P (fst x)) r"
  by (auto simp: fst_result_def post_def split: sum.splits)

fun apply_order :: "order \<Rightarrow> order_cmd \<Rightarrow> (order_error, order) result" where
  "apply_order o' (OrdSettle v nxt r at) = fst_result (ApplySettlement o' v nxt r at)"
| "apply_order o' (OrdAlipay v at) = fst_result (ApplyVerifiedAlipayPayment o' v at)"
| "apply_order o' (OrdRefundFact v nxt r at pt) =
     fst_result (ApplyVerifiedRefundFact o' v nxt r at pt)"
| "apply_order o' (OrdAttributePayer v c at) = fst_result (AttributeHistoricalPayer o' v c at)"

text \<open>Validity up to the version, which wraps after \<open>2 ^ 63\<close> changes.\<close>

definition order_inv :: "order \<Rightarrow> bool" where
  "order_inv o' \<longleftrightarrow> validate (o'\<lparr>ord_Version := 1\<rparr>)"

lemma validate_version_1: "validate o' \<Longrightarrow> 1 \<le> v \<Longrightarrow> validate (o'\<lparr>ord_Version := v\<rparr>)"
proof -
  assume o': "validate o'" and v: "1 \<le> v"
  let ?o = "o'\<lparr>ord_Version := v\<rparr>"
  have "external_order ?o = external_order o'" by (simp add: external_order_def)
  then have "history_facts_ok ?o = history_facts_ok o'" "references_ok ?o = references_ok o'"
    "parties_ok ?o = parties_ok o'" "items_ok ?o = items_ok o'" "noPayment_ok ?o = noPayment_ok o'"
    by (simp_all add: history_facts_ok_def references_ok_def parties_ok_def items_ok_def
        noPayment_ok_def cong: option.case_cong)
  moreover have "state_ok ?o" using o' v by (simp add: validate_iff state_ok_def)
  ultimately show ?thesis using o' unfolding validate_iff by simp
qed

lemma validate_order_inv: "validate o' \<Longrightarrow> order_inv o'"
  by (simp add: order_inv_def validate_version_1)

lemma order_inv_validate: "order_inv o' \<Longrightarrow> 1 \<le> ord_Version o' \<Longrightarrow> validate o'"
  using validate_version_1 [of "o'\<lparr>ord_Version := 1\<rparr>" "ord_Version o'"]
  by (simp add: order_inv_def)

lemma order_inv_update:
  assumes "order_inv o'" and "validSettlement st r (AmountMinor (ord_Amount o'))"
    and "ord_UpdatedAt o' \<le> u"
    and "ord_Provider o' = ProviderNoPayment \<longrightarrow>
      st \<notin> {StatusRefunded, StatusPartiallyRefunded, StatusPaymentFailed}"
  shows "order_inv (o'\<lparr>ord_Status := st, ord_RefundedMinor := r, ord_Version := v, ord_UpdatedAt := u\<rparr>)"
proof -
  have "validate (o'\<lparr>ord_Version := 1, ord_Status := st, ord_RefundedMinor := r, ord_Version := 1,
      ord_UpdatedAt := u\<rparr>)"
    using assms by (intro validate_update) (simp_all add: order_inv_def)
  then show ?thesis by (cases o') (simp add: order_inv_def)
qed

lemma order_inv_settlement:
  "order_inv o' \<Longrightarrow> validSettlement (ord_Status o') (ord_RefundedMinor o') (AmountMinor (ord_Amount o'))"
  using validate_settlement [of "o'\<lparr>ord_Version := 1\<rparr>"] by (simp add: order_inv_def)

lemma order_inv_no_payment:
  "order_inv o' \<Longrightarrow> ord_Provider o' = ProviderNoPayment \<Longrightarrow>
     AmountMinor (ord_Amount o') = 0 \<and> ord_RefundedMinor o' = 0"
  by (simp add: order_inv_def validate_iff noPayment_ok_def)

lemma ApplySettlement_post:
  assumes "order_inv o'"
  shows "post (\<lambda>r. order_inv (fst r) \<and> ord_UpdatedAt o' \<le> ord_UpdatedAt (fst r))
    (ApplySettlement o' v nxt r at)"
  using assms order_inv_no_payment [OF assms]
  by (auto simp: ApplySettlement_def Let_def before_def intro!: order_inv_update)

lemma ApplySettlement_step:
  "post (\<lambda>r. v = ord_Version o' \<and> (fst r = o' \<or> ord_Version (fst r) = wrap64 (ord_Version o' + 1)) \<and>
     ord_UpdatedAt o' \<le> ord_UpdatedAt (fst r)) (ApplySettlement o' v nxt m at)"
  by (simp add: ApplySettlement_def Let_def before_def)

lemma Alipay_unfold:
  "post P (ApplyVerifiedAlipayPayment o' v t) \<longleftrightarrow>
     (ord_Provider o' = ProviderAlipay \<and> ord_RecordOrigin o' = RecordOriginNative \<and>
      ord_EffectEligible o' \<and> ord_Status o' = StatusPendingPayment \<and> t \<noteq> 0 \<longrightarrow>
      post (\<lambda>r. P (fst r, (snd r)\<lparr>evt_OccurredAt := t\<rparr>))
       (ApplySettlement o' v StatusPaid 0
         (if t < ord_UpdatedAt o' \<and> trunc_time second t = trunc_time second (ord_UpdatedAt o')
          then ord_UpdatedAt o' else t)))"
  by (auto simp: ApplyVerifiedAlipayPayment_def post_def Let_def before_def is_zero_def
      split: sum.splits)

lemma refund_fact_step:
  "post (\<lambda>r. v = ord_Version o' \<and> ord_Version (fst r) = wrap64 (ord_Version o' + 1) \<and>
     ord_UpdatedAt o' \<le> ord_UpdatedAt (fst r)) (ApplyVerifiedRefundFact o' v nxt m at pt)"
  by (simp add: ApplyVerifiedRefundFact_def Let_def before_def)

lemma refund_fact_result:
  "ApplyVerifiedRefundFact o' v nxt m at pt = Inr x \<Longrightarrow>
     ord_RefundedMinor o' < m \<and> validSettlement nxt m (AmountMinor (ord_Amount o')) \<and>
     mayTransition (ord_Status o') nxt \<and> nxt \<in> {StatusPartiallyRefunded, StatusRefunded} \<and>
     ord_RecordOrigin o' = RecordOriginNative \<and> ord_EffectEligible o' \<and>
     fst x = o'\<lparr>ord_Status := nxt, ord_RefundedMinor := m,
       ord_Version := wrap64 (ord_Version o' + 1), ord_UpdatedAt := max (ord_UpdatedAt o') pt\<rparr> \<and>
     evt_OccurredAt (snd x) = at \<and> evt_RefundedMinor (snd x) = m"
  by (cases "pt < ord_UpdatedAt o'")
    (simp_all add: ApplyVerifiedRefundFact_def Let_def before_def max_def split: if_splits, auto)

lemma refund_fact_post:
  "(\<And>x. ord_RefundedMinor o' < m \<Longrightarrow> mayTransition (ord_Status o') nxt \<Longrightarrow>
      fst x = o'\<lparr>ord_Status := nxt, ord_RefundedMinor := m,
        ord_Version := wrap64 (ord_Version o' + 1), ord_UpdatedAt := max (ord_UpdatedAt o') pt\<rparr> \<Longrightarrow> P x) \<Longrightarrow>
   post P (ApplyVerifiedRefundFact o' v nxt m at pt)"
  by (rule postI) (drule refund_fact_result, simp)

lemma refund_fact_inv:
  assumes "order_inv o'"
  shows "post (\<lambda>r. order_inv (fst r)) (ApplyVerifiedRefundFact o' v nxt m at pt)"
proof (rule postI)
  fix x assume "ApplyVerifiedRefundFact o' v nxt m at pt = Inr x"
  note x = refund_fact_result [OF this]
  then have "ord_Provider o' \<noteq> ProviderNoPayment"
    using order_inv_no_payment [OF assms]
      validSettlement_bounds [of nxt m "AmountMinor (ord_Amount o')"] by auto
  with x assms have "order_inv (o'\<lparr>ord_Status := nxt, ord_RefundedMinor := m,
      ord_Version := wrap64 (ord_Version o' + 1), ord_UpdatedAt := max (ord_UpdatedAt o') pt\<rparr>)"
    by (intro order_inv_update) simp_all
  with x show "order_inv (fst x)" by simp
qed

lemma attribute_payer_step:
  "post (\<lambda>r. v = ord_Version o' \<and> (fst r = o' \<or> ord_Version (fst r) = wrap64 (ord_Version o' + 1)) \<and>
     ord_UpdatedAt o' \<le> ord_UpdatedAt (fst r) \<and> (fst r = o' \<or> validate (fst r)))
   (AttributeHistoricalPayer o' v c at)"
  by (cases "ord_PayerCustomerID o'") (simp_all add: AttributeHistoricalPayer_def Let_def before_def)

lemma apply_order_step:
  "post (\<lambda>s'. order_cmd_version c = ord_Version s \<and>
     (s' = s \<or> ord_Version s' = wrap64 (ord_Version s + 1)) \<and> ord_UpdatedAt s \<le> ord_UpdatedAt s')
   (apply_order s c)"
proof (cases c)
  case (OrdSettle v nxt r at)
  then show ?thesis by (simp add: ApplySettlement_step)
next
  case (OrdAlipay v at)
  then show ?thesis by (simp add: Alipay_unfold ApplySettlement_step)
next
  case (OrdRefundFact v nxt r at pt)
  then show ?thesis by (simp add: post_mono [OF refund_fact_step])
next
  case (OrdAttributePayer v k at)
  then show ?thesis by (simp add: post_mono [OF attribute_payer_step])
qed

lemma apply_order_inv: "order_inv s \<Longrightarrow> post order_inv (apply_order s c)"
proof (cases c)
  case (OrdSettle v nxt r at)
  assume "order_inv s"
  with OrdSettle show ?thesis by (simp add: post_mono [OF ApplySettlement_post])
next
  case (OrdAlipay v at)
  assume "order_inv s"
  with OrdAlipay show ?thesis by (simp add: Alipay_unfold post_mono [OF ApplySettlement_post])
next
  case (OrdRefundFact v nxt r at pt)
  assume "order_inv s"
  with OrdRefundFact show ?thesis by (simp add: refund_fact_inv)
next
  case (OrdAttributePayer v k at)
  assume "order_inv s"
  then have "post (\<lambda>r. order_inv (fst r)) (AttributeHistoricalPayer s v k at)"
    by (intro post_mono [OF attribute_payer_step]) (auto intro: validate_order_inv)
  with OrdAttributePayer show ?thesis by simp
qed

interpretation order: versioned_aggregate apply_order order_cmd_version ord_Version ord_UpdatedAt
    order_inv
  by unfold_locales (auto dest: postD [OF apply_order_step] postD [OF apply_order_inv])

text \<open>No command touches the amount, the lines, the references or the beneficiary.\<close>

definition order_frame :: "order \<Rightarrow> order \<Rightarrow> bool" where
  "order_frame a b \<longleftrightarrow> ord_Amount b = ord_Amount a \<and> ord_items b = ord_items a \<and>
     ord_Provider b = ord_Provider a \<and> ord_RecordOrigin b = ord_RecordOrigin a \<and>
     ord_EffectEligible b = ord_EffectEligible a \<and>
     ord_BeneficiaryCustomerID b = ord_BeneficiaryCustomerID a \<and>
     ord_MerchantOrderNo b = ord_MerchantOrderNo a \<and>
     ord_ProviderTransactionNo b = ord_ProviderTransactionNo a \<and>
     (ord_PayerCustomerID a \<noteq> None \<longrightarrow> ord_PayerCustomerID b = ord_PayerCustomerID a)"

lemma apply_order_frame: "post (order_frame s) (apply_order s c)"
proof (cases c)
  case (OrdSettle v nxt r at)
  then show ?thesis by (simp add: ApplySettlement_def Let_def order_frame_def)
next
  case (OrdAlipay v at)
  then show ?thesis by (simp add: Alipay_unfold ApplySettlement_def Let_def order_frame_def)
next
  case (OrdRefundFact v nxt r at pt)
  then show ?thesis by (simp add: refund_fact_post order_frame_def)
next
  case (OrdAttributePayer v k at)
  then show ?thesis
    by (cases "ord_PayerCustomerID s")
      (simp_all add: AttributeHistoricalPayer_def Let_def order_frame_def)
qed

lemma run_order_frame: "order_frame s (run apply_order s cs)"
proof (rule run_invariant [where P = "order_frame s"])
  show "order_frame s s" by (simp add: order_frame_def)
next
  fix t c t' assume "order_frame s t" and "apply_order t c = Inr t'"
  with postD [OF apply_order_frame this(2)] show "order_frame s t'"
    by (simp add: order_frame_def)
qed

text \<open>How far along its life an order is.\<close>

fun status_rank :: "order_status \<Rightarrow> nat" where
  "status_rank StatusPendingPayment = 0"
| "status_rank StatusPaid = 1"
| "status_rank StatusPartiallyRefunded = 2"
| "status_rank _ = 3"

lemma mayTransition_rank:
  "mayTransition s t \<Longrightarrow> status_rank s < 3 \<and> status_rank s \<le> status_rank t"
  by (cases s) auto

lemma ApplySettlement_rank:
  "post (\<lambda>r. status_rank (ord_Status o') \<le> status_rank (ord_Status (fst r)) \<and>
     (status_rank (ord_Status o') = 3 \<longrightarrow> fst r = o')) (ApplySettlement o' v nxt m at)"
  using mayTransition_rank [of "ord_Status o'" nxt] by (auto simp: ApplySettlement_def Let_def)

lemma apply_order_rank:
  "post (\<lambda>s'. status_rank (ord_Status s) \<le> status_rank (ord_Status s') \<and>
     (status_rank (ord_Status s) = 3 \<longrightarrow>
        ord_Status s' = ord_Status s \<and> ord_RefundedMinor s' = ord_RefundedMinor s))
   (apply_order s c)"
proof (cases c)
  case (OrdSettle v nxt r at)
  then show ?thesis by (simp add: post_mono [OF ApplySettlement_rank])
next
  case (OrdAlipay v at)
  then show ?thesis by (simp add: Alipay_unfold post_mono [OF ApplySettlement_rank])
next
  case (OrdRefundFact v nxt r at pt)
  then show ?thesis
    using mayTransition_rank [of "ord_Status s" nxt] by (auto intro!: refund_fact_post)
next
  case (OrdAttributePayer v k at)
  then show ?thesis
    by (cases "ord_PayerCustomerID s") (simp_all add: AttributeHistoricalPayer_def Let_def)
qed

subsection \<open>A concrete order\<close>

definition sample_item :: "int \<Rightarrow> int \<Rightarrow> int \<Rightarrow> item_snapshot" where
  "sample_item line unit qty = \<lparr>itm_Variant = None, itm_LineNo = line, itm_ProductID = Some 11,
     itm_ProductVersion = Some 2, itm_ProductCode = ''P-1'', itm_ProductName = ''Course'',
     itm_UnitAmountMinor = unit, itm_Quantity = qty, itm_LineAmountMinor = unit * qty\<rparr>"

definition sample_order :: order where
  "sample_order = \<lparr>ord_ExternalHistory = None, ord_ID = 41, ord_Provider = ProviderAlipay,
     ord_SourceSystem = ''crm'', ord_SourceKey = ''k-1'', ord_MerchantOrderNo = ''m-1'',
     ord_ProviderTransactionNo = [], ord_PayerCustomerID = Some 5,
     ord_BeneficiaryCustomerID = Some 6, ord_Amount = \<lparr>AmountMinor = 700, Currency = ''CNY''\<rparr>,
     ord_RefundedMinor = 0, ord_Status = StatusPendingPayment,
     ord_RecordOrigin = RecordOriginNative, ord_EffectEligible = True, ord_Version = 1,
     ord_CreatedAt = 2 * second + 500, ord_UpdatedAt = 2 * second + 500,
     ord_items = [sample_item 1 200 2, sample_item 2 300 1]\<rparr>"

lemma sample_order_valid: "validate sample_order"
proof -
  have t: "trim_space ''crm'' = ''crm''" "trim_space ''k-1'' = ''k-1''" "trim_space ''m-1'' = ''m-1''"
    "trim_space ''P-1'' = ''P-1''" "trim_space ''Course'' = ''Course''" "trim_space [] = []"
    by (simp_all add: trim_space_printable printable_def)
  show ?thesis
    by (simp add: validate_iff noPayment_ok_def history_facts_ok_def references_ok_def
        external_order_def parties_ok_def state_ok_def items_ok_def sample_order_def sample_item_def
        item_ok_def order_validText_def validCurrency_def validSettlement.simps validID_def
        Variant_Valid_def is_zero_def before_def second_def max_int64_def go_div_def wrap64_def t)
qed

lemma sample_order_native: "\<not> external_order sample_order"
  by (simp add: external_order_def sample_order_def)

subsection \<open>Properties\<close>

text \<open>C3. The books of an order balance.  Once an order of the program's own or of its imported history, not one
  of an external shop, passed \<open>validate\<close>, then after any sequence of commands its amount is still the
  exact sum of unit amount times quantity over its lines, line numbers are distinct, the refunds
  lie between 0 and the amount, what is refundable is exactly the rest, and a refunded order is
  refunded in full.  (An order of an external shop need not be the sum of its lines.)\<close>

theorem order_accounting:
  assumes v: "validate o'" and ne: "\<not> external_order o'"
  shows "let d = run apply_order o' cs in
     AmountMinor (ord_Amount d) =
       sum_list (map (\<lambda>i. itm_UnitAmountMinor i * itm_Quantity i) (ord_items d)) \<and>
     distinct (map itm_LineNo (ord_items d)) \<and> ord_items d = ord_items o' \<and>
     0 \<le> ord_RefundedMinor d \<and>
     ord_RefundedMinor d + RefundableMinor d = AmountMinor (ord_Amount d) \<and>
     (ord_Status d = StatusRefunded \<longrightarrow> RefundableMinor d = 0)"
proof -
  let ?d = "run apply_order o' cs"
  note i = validate_items [OF v ne]
  have f: "ord_items ?d = ord_items o'" "ord_Amount ?d = ord_Amount o'"
    using run_order_frame [of o' cs] by (simp_all add: order_frame_def)
  have "map itm_LineAmountMinor (ord_items o') =
      map (\<lambda>i. itm_UnitAmountMinor i * itm_Quantity i) (ord_items o')"
    using i(1) line_amount_exact by (fastforce simp: list_all_iff)
  with i(3) have sum: "AmountMinor (ord_Amount o') =
      sum_list (map (\<lambda>i. itm_UnitAmountMinor i * itm_Quantity i) (ord_items o'))" by simp
  have "order_inv ?d" by (rule order.run_invar) (rule validate_order_inv [OF v])
  note b = validSettlement_bounds [OF order_inv_settlement [OF this]]
  have "in64 (AmountMinor (ord_Amount ?d) - ord_RefundedMinor ?d)"
    using b i(4) f by (simp add: in64_def max_int64_def)
  then have r: "RefundableMinor ?d = AmountMinor (ord_Amount ?d) - ord_RefundedMinor ?d"
    using b by (simp add: RefundableMinor_def)
  show ?thesis
    unfolding Let_def using f i(2) sum b r by simp
qed

theorem order_accounting_witness:
  "ord_RefundedMinor (run apply_order sample_order [OrdSettle 1 StatusPaid 0 (9 * second)]) +
     RefundableMinor (run apply_order sample_order [OrdSettle 1 StatusPaid 0 (9 * second)]) = 700"
proof -
  let ?d = "run apply_order sample_order [OrdSettle 1 StatusPaid 0 (9 * second)]"
  have "AmountMinor (ord_Amount ?d) = 700"
    using run_order_frame [of sample_order "[OrdSettle 1 StatusPaid 0 (9 * second)]"]
    by (simp add: order_frame_def sample_order_def)
  then show ?thesis
    using order_accounting [OF sample_order_valid sample_order_native,
        of "[OrdSettle 1 StatusPaid 0 (9 * second)]"]
    by (simp only: Let_def)
qed

text \<open>An order only moves forward: pending, paid, partially refunded, then refunded, closed,
  cancelled or failed.  No sequence of commands lowers the stage, and once one of the last four is
  reached the status and the refunded amount never change again.\<close>

lemma order_moves_forward:
  "status_rank (ord_Status o') \<le> status_rank (ord_Status (run apply_order o' cs)) \<and>
   (status_rank (ord_Status o') = 3 \<longrightarrow>
      ord_Status (run apply_order o' cs) = ord_Status o' \<and>
      ord_RefundedMinor (run apply_order o' cs) = ord_RefundedMinor o')"
  by (rule run_invariant [where P = "\<lambda>d. status_rank (ord_Status o') \<le> status_rank (ord_Status d) \<and>
        (status_rank (ord_Status o') = 3 \<longrightarrow> ord_Status d = ord_Status o' \<and>
           ord_RefundedMinor d = ord_RefundedMinor o')"])
    (auto dest!: postD [OF apply_order_rank])

lemma order_moves_forward_witness:
  "ord_Status (run apply_order (sample_order\<lparr>ord_Status := StatusCancelled\<rparr>)
      [OrdSettle 1 StatusPaid 0 (9 * second), OrdAlipay 1 (9 * second)]) = StatusCancelled"
  using order_moves_forward [of "sample_order\<lparr>ord_Status := StatusCancelled\<rparr>"
      "[OrdSettle 1 StatusPaid 0 (9 * second), OrdAlipay 1 (9 * second)]"]
  by simp

text \<open>Verified refund facts accumulate: an accepted fact carries a cumulative amount above what
  was recorded and at most the order's amount, records it with the provider's own instant while the
  order's update time never moves back, and any fact with the same or a smaller cumulative amount
  is refused afterwards, whatever version it names.\<close>

lemma refund_facts_accumulate:
  assumes "ApplyVerifiedRefundFact o' v nxt m at pt = Inr (d, ev)"
  shows "ord_RefundedMinor o' < ord_RefundedMinor d \<and> ord_RefundedMinor d = m \<and>
     m \<le> AmountMinor (ord_Amount d) \<and> (ord_Status d = StatusRefunded \<longleftrightarrow> m = AmountMinor (ord_Amount d)) \<and>
     evt_OccurredAt ev = at \<and> ord_UpdatedAt o' \<le> ord_UpdatedAt d \<and> pt \<le> ord_UpdatedAt d \<and>
     (\<forall>w st k at' pt'. k \<le> m \<longrightarrow> (\<exists>e. ApplyVerifiedRefundFact d w st k at' pt' = Inl e))"
proof -
  note x = refund_fact_result [OF assms]
  have refused: "\<exists>e. ApplyVerifiedRefundFact d w st k at' pt' = Inl e" if "k \<le> m" for w st k at' pt'
  proof (cases "ApplyVerifiedRefundFact d w st k at' pt'")
    case (Inr y)
    with refund_fact_result [OF this] x that show ?thesis by simp
  qed simp
  have "nxt = StatusRefunded \<longleftrightarrow> m = AmountMinor (ord_Amount o')"
    using x by (auto simp: validSettlement.simps split: if_splits)
  with x refused show ?thesis
    using validSettlement_bounds [of nxt m "AmountMinor (ord_Amount o')"] by auto
qed

lemma refund_facts_accumulate_witness:
  "\<exists>d ev. ApplyVerifiedRefundFact (sample_order\<lparr>ord_Status := StatusPaid\<rparr>) 1 StatusPartiallyRefunded
       300 (5 * second) (6 * second) = Inr (d, ev) \<and> ord_RefundedMinor d = 300 \<and>
     (\<exists>e. ApplyVerifiedRefundFact d 2 StatusPartiallyRefunded 300 (7 * second) (8 * second) = Inl e)"
proof -
  have "is_ok (ApplyVerifiedRefundFact (sample_order\<lparr>ord_Status := StatusPaid\<rparr>) 1
      StatusPartiallyRefunded 300 (5 * second) (6 * second))"
    by (simp add: ApplyVerifiedRefundFact_def sample_order_def validSettlement.simps is_zero_def
        second_def before_def Let_def)
  then obtain d ev where e: "ApplyVerifiedRefundFact (sample_order\<lparr>ord_Status := StatusPaid\<rparr>) 1
      StatusPartiallyRefunded 300 (5 * second) (6 * second) = Inr (d, ev)"
    by (metis is_okE surj_pair)
  from e refund_facts_accumulate [OF e] show ?thesis by blast
qed

text \<open>C4. Storing and loading an order loses nothing: \<open>Restore\<close> of a snapshot of a valid order is
  that order, and the snapshot of a restored order is the stored one except for
  \<open>ProfitSharingRequired\<close>, which the aggregate does not carry.\<close>

theorem restore_snapshot_roundtrip:
  "(validate o' \<longrightarrow> Restore (Snapshot o') = Inr o') \<and>
   (Restore s = Inr o' \<longrightarrow> validate o' \<and> Snapshot o' = s\<lparr>snp_ProfitSharingRequired := False\<rparr>)"
proof -
  have "Restore (Snapshot o') = checked o'"
    by (cases o') (simp add: Restore_def Snapshot_def)
  moreover have "Snapshot o' = s\<lparr>snp_ProfitSharingRequired := False\<rparr> \<and> validate o'"
    if "Restore s = Inr o'"
  proof -
    from that have "validate o'" and o': "o' = \<lparr>ord_ExternalHistory = snp_ExternalHistory s, ord_ID = snp_ID s,
      ord_Provider = snp_Provider s, ord_SourceSystem = snp_SourceSystem s,
      ord_SourceKey = snp_SourceKey s, ord_MerchantOrderNo = snp_MerchantOrderNo s,
      ord_ProviderTransactionNo = snp_ProviderTransactionNo s,
      ord_PayerCustomerID = snp_PayerCustomerID s,
      ord_BeneficiaryCustomerID = snp_BeneficiaryCustomerID s, ord_Amount = snp_Amount s,
      ord_RefundedMinor = snp_RefundedMinor s, ord_Status = snp_Status s,
      ord_RecordOrigin = snp_RecordOrigin s, ord_EffectEligible = snp_EffectEligible s,
      ord_Version = snp_Version s, ord_CreatedAt = snp_CreatedAt s,
      ord_UpdatedAt = snp_UpdatedAt s, ord_items = snp_Items s\<rparr>"
      by (simp_all add: Restore_def checked_def split: if_splits)
    then show ?thesis by (cases s) (simp add: Snapshot_def)
  qed
  ultimately show ?thesis by (simp add: checked_def)
qed

theorem restore_snapshot_roundtrip_witness: "Restore (Snapshot sample_order) = Inr sample_order"
  using restore_snapshot_roundtrip sample_order_valid by blast

end
