(* ===== verification/Payment.thy ===== *)
theory Payment
  imports Order
begin

text \<open>
  The Payment aggregates: \<open>internal/payment/domain/payment.go\<close>, \<open>status.go\<close> and
  \<open>profit_sharing.go\<close>.  A payment is created from the snapshot of an order and settled by
  provider facts; a refund of it is bound to one external effect and completed once; a
  profit-sharing instruction can be cancelled while it reserves money.  The Go type
  \<open>Provider\<close> of this package is a string conversion of the order's provider, so the same
  datatype is used.
\<close>

datatype payment_error = ErrPayInvalid | ErrPayTransition | ErrPayVersion | ErrProfitSharing

subsection \<open>status.go\<close>

datatype effect_state =
    EffectAccepted
  | EffectQueued
  | EffectAttempted
  | EffectExecuted
  | EffectOutcomeUnknown
  | EffectRetryableFailed
  | EffectFinalFailed
  | EffectReconciled
  | EffectOther string

fun EffectState_Valid :: "effect_state \<Rightarrow> bool" where
  "EffectState_Valid (EffectOther _) = False"
| "EffectState_Valid _ = True"

datatype payment_status =
    PayAwaitingPrepay
  | PayAwaitingPayment
  | PayPaid
  | PayFailed
  | PayCancelled
  | PayStatusOther string

datatype refund_status =
    RefundRequested
  | RefundEffectAccepted
  | RefundOutcomeUnknown
  | RefundCompleted
  | RefundFinalFailed
  | RefundHistoryRequested
  | RefundHistoryProcessing
  | RefundHistoryFailed
  | RefundHistoryClosed
  | RefundStatusOther string

definition HistoricalImportable :: "refund_status \<Rightarrow> bool" where
  "HistoricalImportable s \<longleftrightarrow> s = RefundCompleted \<or> s = RefundHistoryRequested \<or>
     s = RefundHistoryProcessing \<or> s = RefundHistoryFailed \<or> s = RefundHistoryClosed"

subsection \<open>payment.go\<close>

datatype channel =
    ChannelMiniProgram
  | ChannelH5Official
  | ChannelAlipayWap
  | ChannelAlipayPage
  | ChannelOther string

record payment =
  pay_Historical :: bool
  pay_SourceStatus :: string
  pay_HistoryReason :: string
  pay_ID :: int
  pay_OrderID :: int
  pay_Provider :: provider
  pay_Channel :: channel
  pay_MerchantOrderNo :: string
  pay_PayerIdentityID :: int
  pay_PayerCustomerID :: int
  pay_BeneficiaryCustomerID :: int
  pay_AmountMinor :: int
  pay_ProfitSharingMarked :: bool
  pay_Currency :: string
  pay_Status :: payment_status
  pay_EffectID :: string
  pay_ProviderTransactionReference :: string
  pay_ProviderTransactionDigest :: string
  pay_Version :: int
  pay_PaidConfirmedAt :: "go_time option"
  pay_CreatedAt :: go_time
  pay_UpdatedAt :: go_time

record refund =
  ref_ID :: int
  ref_PaymentID :: int
  ref_Provider :: provider
  ref_RefundNo :: string
  ref_Reason :: string
  ref_AmountMinor :: int
  ref_Status :: refund_status
  ref_EffectID :: string
  ref_ProviderRefundReference :: string
  ref_ProviderRefundDigest :: string
  ref_Version :: int
  ref_CreatedAt :: go_time
  ref_UpdatedAt :: go_time

text \<open>The loop runs over the runes of the rest; the last test reads its first byte.\<close>

definition validEffectID :: "string \<Rightarrow> bool" where
  "validEffectID value =
     (if \<not> has_prefix value ''eer_'' \<or> length value < 5 then False
      else if \<not> list_all (\<lambda>r. 48 \<le> r \<and> r \<le> 57) (runes (drop 4 value)) then False
      else value ! 4 \<noteq> CHR ''0'')"

definition newPayment ::
  "snapshot \<Rightarrow> int \<Rightarrow> go_time \<Rightarrow> bool \<Rightarrow> channel list \<Rightarrow> (payment_error, payment) result" where
  "newPayment ordr payerIdentityID now profitSharingMarked requestedChannel =
     (case (snp_PayerCustomerID ordr, snp_BeneficiaryCustomerID ordr) of
        (Some payer, Some beneficiary) \<Rightarrow>
          if snp_ID ordr < 1 \<or> snp_RecordOrigin ordr \<noteq> RecordOriginNative \<or>
             \<not> snp_EffectEligible ordr \<or> payerIdentityID < 1 \<or> is_zero now \<or>
             Currency (snp_Amount ordr) \<noteq> ''CNY''
          then Inl ErrPayInvalid
          else let provider = snp_Provider ordr in
          if provider \<noteq> ProviderWeChatPay \<and> provider \<noteq> ProviderWeChatShop \<and>
             provider \<noteq> ProviderAlipay
          then Inl ErrPayInvalid
          else let channel = (case requestedChannel of [] \<Rightarrow> ChannelMiniProgram | c # _ \<Rightarrow> c) in
          if channel \<noteq> ChannelMiniProgram \<and> channel \<noteq> ChannelH5Official \<and>
             channel \<noteq> ChannelAlipayWap \<and> channel \<noteq> ChannelAlipayPage
          then Inl ErrPayInvalid
          else if profitSharingMarked \<and> provider \<noteq> ProviderWeChatPay then Inl ErrPayInvalid
          else Inr \<lparr>pay_Historical = False, pay_SourceStatus = [], pay_HistoryReason = [],
                pay_ID = 0, pay_OrderID = snp_ID ordr, pay_Provider = provider,
                pay_Channel = channel, pay_MerchantOrderNo = snp_MerchantOrderNo ordr,
                pay_PayerIdentityID = payerIdentityID, pay_PayerCustomerID = payer,
                pay_BeneficiaryCustomerID = beneficiary,
                pay_AmountMinor = AmountMinor (snp_Amount ordr),
                pay_ProfitSharingMarked = profitSharingMarked,
                pay_Currency = Currency (snp_Amount ordr), pay_Status = PayAwaitingPrepay,
                pay_EffectID = [], pay_ProviderTransactionReference = [],
                pay_ProviderTransactionDigest = [], pay_Version = 1, pay_PaidConfirmedAt = None,
                pay_CreatedAt = utc now, pay_UpdatedAt = utc now\<rparr>
      | _ \<Rightarrow> Inl ErrPayInvalid)"

definition NewPayment ::
  "snapshot \<Rightarrow> int \<Rightarrow> go_time \<Rightarrow> channel list \<Rightarrow> (payment_error, payment) result" where
  "NewPayment ordr payerIdentityID now requestedChannel =
     newPayment ordr payerIdentityID now False requestedChannel"

definition NewPaymentWithProfitSharing ::
  "snapshot \<Rightarrow> int \<Rightarrow> bool \<Rightarrow> go_time \<Rightarrow> channel list \<Rightarrow> (payment_error, payment) result" where
  "NewPaymentWithProfitSharing ordr payerIdentityID marked now requestedChannel =
     newPayment ordr payerIdentityID now marked requestedChannel"

definition Payment_BindEffect ::
  "payment \<Rightarrow> int \<Rightarrow> string \<Rightarrow> go_time \<Rightarrow> (payment_error, payment) result" where
  "Payment_BindEffect p expected effectID now =
     (if expected \<noteq> pay_Version p then Inl ErrPayVersion
      else if pay_Status p \<noteq> PayAwaitingPrepay \<or> \<not> validEffectID effectID \<or>
         before now (pay_UpdatedAt p)
      then Inl ErrPayTransition
      else Inr (p\<lparr>pay_EffectID := effectID, pay_Version := wrap64 (pay_Version p + 1),
                  pay_UpdatedAt := utc now\<rparr>))"

definition Settle ::
  "payment \<Rightarrow> int \<Rightarrow> payment_status \<Rightarrow> go_time \<Rightarrow> (payment_error, payment) result" where
  "Settle p expected status now =
     (if expected \<noteq> pay_Version p then Inl ErrPayVersion
      else if before now (pay_UpdatedAt p) \<or>
         (pay_Status p \<noteq> PayAwaitingPrepay \<and> pay_Status p \<noteq> PayAwaitingPayment) \<or>
         (status \<noteq> PayAwaitingPayment \<and> status \<noteq> PayPaid \<and> status \<noteq> PayFailed \<and>
          status \<noteq> PayCancelled)
      then Inl ErrPayTransition
      else Inr (p\<lparr>pay_Status := status, pay_Version := wrap64 (pay_Version p + 1),
                  pay_UpdatedAt := utc now\<rparr>))"

definition SettleVerifiedAlipayPayment ::
  "payment \<Rightarrow> int \<Rightarrow> go_time \<Rightarrow> (payment_error, payment) result" where
  "SettleVerifiedAlipayPayment p expected occurredAt =
     (if pay_Provider p \<noteq> ProviderAlipay \<or> pay_Historical p \<or> is_zero occurredAt
      then Inl ErrPayTransition
      else let stateAt =
          (if before (utc occurredAt) (pay_UpdatedAt p) \<and>
              trunc_time second (utc occurredAt) = trunc_time second (utc (pay_UpdatedAt p))
           then pay_UpdatedAt p else utc occurredAt)
      in case Settle p expected PayPaid stateAt of
           Inl e \<Rightarrow> Inl e
         | Inr settled \<Rightarrow> Inr (settled\<lparr>pay_PaidConfirmedAt := Some (utc occurredAt)\<rparr>))"

definition RestorePaidConfirmation ::
  "payment \<Rightarrow> int \<Rightarrow> go_time \<Rightarrow> go_time \<Rightarrow> (payment_error, payment) result" where
  "RestorePaidConfirmation p expected confirmedAt reconciledAt =
     (if expected \<noteq> pay_Version p \<or> pay_Status p \<noteq> PayPaid \<or> pay_PaidConfirmedAt p \<noteq> None \<or>
         is_zero confirmedAt \<or> is_zero reconciledAt \<or> before confirmedAt (pay_CreatedAt p) \<or>
         before reconciledAt (pay_UpdatedAt p) \<or> before reconciledAt confirmedAt
      then Inl ErrPayTransition
      else Inr (p\<lparr>pay_PaidConfirmedAt := Some (utc confirmedAt),
                  pay_Version := wrap64 (pay_Version p + 1), pay_UpdatedAt := utc reconciledAt\<rparr>))"

definition NewRefund ::
  "payment \<Rightarrow> string \<Rightarrow> int \<Rightarrow> string \<Rightarrow> go_time \<Rightarrow> (payment_error, refund) result" where
  "NewRefund payment refundNo0 amount reason0 now =
     (let refundNo = trim_space refundNo0; reason = trim_space reason0 in
      if pay_Historical payment \<or> pay_ID payment < 1 \<or> pay_Status payment \<noteq> PayPaid \<or>
         refundNo = [] \<or> length refundNo > 200 \<or> amount < 1 \<or> amount > pay_AmountMinor payment \<or>
         reason = [] \<or> length reason > 500 \<or> is_zero now
      then Inl ErrPayInvalid
      else Inr \<lparr>ref_ID = 0, ref_PaymentID = pay_ID payment, ref_Provider = pay_Provider payment,
             ref_RefundNo = refundNo, ref_Reason = reason, ref_AmountMinor = amount,
             ref_Status = RefundRequested, ref_EffectID = [], ref_ProviderRefundReference = [],
             ref_ProviderRefundDigest = [], ref_Version = 1, ref_CreatedAt = utc now,
             ref_UpdatedAt = utc now\<rparr>)"

definition Refund_BindEffect ::
  "refund \<Rightarrow> int \<Rightarrow> string \<Rightarrow> go_time \<Rightarrow> (payment_error, refund) result" where
  "Refund_BindEffect r expected effectID now =
     (if expected \<noteq> ref_Version r then Inl ErrPayVersion
      else if ref_Status r \<noteq> RefundRequested \<or> \<not> validEffectID effectID \<or>
         before now (ref_UpdatedAt r)
      then Inl ErrPayTransition
      else Inr (r\<lparr>ref_Status := RefundEffectAccepted, ref_EffectID := effectID,
                  ref_Version := wrap64 (ref_Version r + 1), ref_UpdatedAt := utc now\<rparr>))"

definition Refund_Complete ::
  "refund \<Rightarrow> int \<Rightarrow> refund_status \<Rightarrow> go_time \<Rightarrow> (payment_error, refund) result" where
  "Refund_Complete r expected status now =
     (if expected \<noteq> ref_Version r then Inl ErrPayVersion
      else if before now (ref_UpdatedAt r) \<or>
         (ref_Status r \<noteq> RefundEffectAccepted \<and> ref_Status r \<noteq> RefundOutcomeUnknown) \<or>
         (status \<noteq> RefundOutcomeUnknown \<and> status \<noteq> RefundCompleted \<and> status \<noteq> RefundFinalFailed)
      then Inl ErrPayTransition
      else Inr (r\<lparr>ref_Status := status, ref_Version := wrap64 (ref_Version r + 1),
                  ref_UpdatedAt := utc now\<rparr>))"

text \<open>\<open>None\<close> is the nil error.  \<open>Time.Nanosecond\<close> is the instant modulo one second.\<close>

definition ValidateVerifiedOccurrence :: "refund \<Rightarrow> go_time \<Rightarrow> payment_error option" where
  "ValidateVerifiedOccurrence r occurredAt =
     (if is_zero occurredAt \<or> is_zero (ref_CreatedAt r) then Some ErrPayTransition
      else let precision = (if occurredAt mod second = 0 then second else microsecond) in
      if before (trunc_time precision (utc occurredAt)) (trunc_time precision (utc (ref_CreatedAt r)))
      then Some ErrPayTransition else None)"

definition CompleteVerifiedFact ::
  "refund \<Rightarrow> int \<Rightarrow> refund_status \<Rightarrow> go_time \<Rightarrow> go_time \<Rightarrow> (payment_error, refund) result" where
  "CompleteVerifiedFact r expected status occurredAt processedAt0 =
     (if expected \<noteq> ref_Version r then Inl ErrPayVersion
      else if is_zero processedAt0 \<or> status \<noteq> RefundCompleted \<and> status \<noteq> RefundFinalFailed
      then Inl ErrPayTransition
      else if ref_Status r \<noteq> RefundEffectAccepted \<and> ref_Status r \<noteq> RefundOutcomeUnknown
      then Inl ErrPayTransition
      else case ValidateVerifiedOccurrence r occurredAt of
        Some e \<Rightarrow> Inl e
      | None \<Rightarrow>
          let processedAt = (if before (utc processedAt0) (ref_UpdatedAt r)
                             then utc (ref_UpdatedAt r) else utc processedAt0)
          in Inr (r\<lparr>ref_Status := status, ref_Version := wrap64 (ref_Version r + 1),
                    ref_UpdatedAt := processedAt\<rparr>))"

subsection \<open>profit_sharing.go\<close>

datatype receiver_state =
    ProfitSharingReceiverAccepted
  | ProfitSharingReceiverReady
  | ProfitSharingReceiverOutcomeUnknown
  | ProfitSharingReceiverFinalFailed
  | ProfitSharingReceiverOther string

definition ReceiverState_Valid :: "receiver_state \<Rightarrow> bool" where
  "ReceiverState_Valid s \<longleftrightarrow> s = ProfitSharingReceiverAccepted \<or> s = ProfitSharingReceiverReady \<or>
     s = ProfitSharingReceiverOutcomeUnknown \<or> s = ProfitSharingReceiverFinalFailed"

definition ValidProfitSharingReceiverFailureClass :: "string \<Rightarrow> bool" where
  "ValidProfitSharingReceiverFailureClass value \<longleftrightarrow>
     value = [] \<or> value = ''provider_permission_denied''"

definition instruction_failure_classes :: "string list" where
  "instruction_failure_classes =
     [[], ''receiver_account_abnormal'', ''receiver_relation_removed'', ''receiver_high_risk'',
      ''receiver_real_name_unverified'', ''merchant_permission_revoked'',
      ''receiver_receipt_limit'', ''payer_account_abnormal'', ''invalid_split_request'']"

definition ValidProfitSharingInstructionFailureClass :: "string \<Rightarrow> bool" where
  "ValidProfitSharingInstructionFailureClass value \<longleftrightarrow> value \<in> set instruction_failure_classes"

datatype sharing_state =
    ProfitSharingAccepted
  | ProfitSharingSettling
  | ProfitSharingOutcomeUnknown
  | ProfitSharingPaid
  | ProfitSharingCancelled
  | ProfitSharingException
  | ProfitSharingOther string

fun SharingState_Valid :: "sharing_state \<Rightarrow> bool" where
  "SharingState_Valid (ProfitSharingOther _) = False"
| "SharingState_Valid _ = True"

definition Reserving :: "sharing_state \<Rightarrow> bool" where
  "Reserving s \<longleftrightarrow> s = ProfitSharingAccepted \<or> s = ProfitSharingSettling \<or>
     s = ProfitSharingOutcomeUnknown"

record sharing_instruction =
  psi_ID :: int
  psi_PaymentID :: int
  psi_ReceiverID :: int
  psi_SettlementRef :: string
  psi_ProviderOrderNo :: string
  psi_DescriptionSnapshot :: string
  psi_IdempotencyKeyDigest :: string
  psi_SourceRefDigest :: string
  psi_PayloadDigest :: string
  psi_PolicyVersionHash :: string
  psi_AmountMinor :: int
  psi_Currency :: string
  psi_State :: sharing_state
  psi_FailureClass :: string
  psi_EffectID :: string
  psi_DeadlineAt :: go_time
  psi_ReceiverConfirmedSuccess :: bool
  psi_OutcomeKnown :: bool
  psi_Version :: int
  psi_CreatedAt :: go_time
  psi_UpdatedAt :: go_time

record sharing_funding =
  psf_SuccessfulRefundMinor :: int
  psf_RequestedRefundMinor :: int
  psf_ProcessingRefundMinor :: int
  psf_OutcomeUnknownRefundMinor :: int
  psf_ReservedSplitMinor :: int

definition RefundExposure :: "sharing_funding \<Rightarrow> bool" where
  "RefundExposure v \<longleftrightarrow> psf_RequestedRefundMinor v > 0 \<or> psf_ProcessingRefundMinor v > 0 \<or>
     psf_OutcomeUnknownRefundMinor v > 0"

definition Instruction_Cancel ::
  "sharing_instruction \<Rightarrow> int \<Rightarrow> string \<Rightarrow> go_time \<Rightarrow> (payment_error, sharing_instruction) result" where
  "Instruction_Cancel v expected reason now =
     (if expected \<noteq> psi_Version v \<or> \<not> Reserving (psi_State v) \<or> trim_space reason \<noteq> reason \<or>
         reason = [] \<or> length reason > 500 \<or> before now (psi_UpdatedAt v)
      then Inl ErrProfitSharing
      else Inr (v\<lparr>psi_State := ProfitSharingCancelled, psi_OutcomeKnown := True,
                  psi_Version := wrap64 (psi_Version v + 1), psi_UpdatedAt := utc now\<rparr>))"

subsection \<open>Effect identifiers\<close>

lemma validEffectID_iff: "validEffectID value \<longleftrightarrow> (\<exists>n. 0 < n \<and> value = ''eer_'' @ nat_digits n)"
proof
  assume v: "validEffectID value"
  then obtain s where s: "value = ''eer_'' @ s"
    by (auto simp: validEffectID_def has_prefix_def prefix_def split: if_splits)
  with v have "s \<noteq> []" "list_all is_digit s" "hd s \<noteq> CHR ''0''"
    by (auto simp: validEffectID_def runes_digits hd_conv_nth split: if_splits)
  with s nat_digits_digits_value show "\<exists>n. 0 < n \<and> value = ''eer_'' @ nat_digits n" by metis
next
  assume "\<exists>n. 0 < n \<and> value = ''eer_'' @ nat_digits n"
  then obtain n where n: "0 < n" "value = ''eer_'' @ nat_digits n" by blast
  moreover have "0 < length (nat_digits n)" by simp
  then have "5 \<le> length value" using n(2) by (simp del: length_greater_0_conv)
  moreover have "value ! 4 = hd (nat_digits n)" using n(2) by (simp add: hd_conv_nth)
  ultimately show "validEffectID value"
    using nat_digits_all [of n] nat_digits_head [of n]
    by (simp add: validEffectID_def has_prefix_def runes_digits)
qed

subsection \<open>The payment as a versioned aggregate\<close>

datatype payment_cmd =
    PayBind int string go_time
  | PaySettle int payment_status go_time
  | PayAlipay int go_time
  | PayRestore int go_time go_time

fun payment_cmd_version :: "payment_cmd \<Rightarrow> int" where
  "payment_cmd_version (PayBind v _ _) = v"
| "payment_cmd_version (PaySettle v _ _) = v"
| "payment_cmd_version (PayAlipay v _) = v"
| "payment_cmd_version (PayRestore v _ _) = v"

fun apply_payment :: "payment \<Rightarrow> payment_cmd \<Rightarrow> (payment_error, payment) result" where
  "apply_payment p (PayBind v e t) = Payment_BindEffect p v e t"
| "apply_payment p (PaySettle v st t) = Settle p v st t"
| "apply_payment p (PayAlipay v t) = SettleVerifiedAlipayPayment p v t"
| "apply_payment p (PayRestore v c t) = RestorePaidConfirmation p v c t"

lemmas payment_ops = Payment_BindEffect_def Settle_def SettleVerifiedAlipayPayment_def
  RestorePaidConfirmation_def Let_def before_def is_zero_def

text \<open>A provider success time is only recorded on a paid payment and is a real instant.\<close>

definition payment_inv :: "payment \<Rightarrow> bool" where
  "payment_inv p \<longleftrightarrow> (\<forall>t \<in> set_option (pay_PaidConfirmedAt p). t \<noteq> 0 \<and> pay_Status p = PayPaid) \<and>
     (pay_EffectID p = [] \<or> validEffectID (pay_EffectID p)) \<and> pay_CreatedAt p \<le> pay_UpdatedAt p"

lemma apply_payment_step:
  "post (\<lambda>q. payment_cmd_version c = pay_Version p \<and> pay_Version q = wrap64 (pay_Version p + 1) \<and>
     pay_UpdatedAt p \<le> pay_UpdatedAt q) (apply_payment p c)"
  by (cases c) (simp_all add: payment_ops)

lemma apply_payment_inv: "payment_inv p \<Longrightarrow> post payment_inv (apply_payment p c)"
  by (cases c) (auto simp: payment_ops payment_inv_def)

interpretation payment: cas_aggregate apply_payment payment_cmd_version pay_Version pay_UpdatedAt
    payment_inv
  by unfold_locales (auto dest: postD [OF apply_payment_step] postD [OF apply_payment_inv])

text \<open>Who pays whom how much for what is frozen when the payment is created.\<close>

definition payment_frame :: "payment \<Rightarrow> payment \<Rightarrow> bool" where
  "payment_frame p q \<longleftrightarrow> pay_OrderID q = pay_OrderID p \<and> pay_AmountMinor q = pay_AmountMinor p \<and>
     pay_Currency q = pay_Currency p \<and> pay_Provider q = pay_Provider p \<and>
     pay_Channel q = pay_Channel p \<and> pay_MerchantOrderNo q = pay_MerchantOrderNo p \<and>
     pay_PayerIdentityID q = pay_PayerIdentityID p \<and> pay_PayerCustomerID q = pay_PayerCustomerID p \<and>
     pay_BeneficiaryCustomerID q = pay_BeneficiaryCustomerID p \<and>
     pay_ProfitSharingMarked q = pay_ProfitSharingMarked p"

lemma run_payment_frame: "payment_frame p (run apply_payment p cs)"
proof (rule run_invariant [where P = "payment_frame p"])
  fix q c q' assume q: "payment_frame p q" and "apply_payment q c = Inr q'"
  moreover have "post (payment_frame q) (apply_payment q c)"
    by (cases c) (simp_all add: payment_ops payment_frame_def)
  ultimately show "payment_frame p q'" by (auto simp: payment_frame_def dest: postD)
qed (simp add: payment_frame_def)

text \<open>The final statuses, and what a command can still change on them.\<close>

lemma apply_payment_final:
  "pay_Status p \<in> {PayPaid, PayFailed, PayCancelled} \<Longrightarrow>
   post (\<lambda>q. pay_Status q = pay_Status p \<and> pay_EffectID q = pay_EffectID p \<and>
     (pay_PaidConfirmedAt p \<noteq> None \<longrightarrow> q = p) \<and>
     (pay_PaidConfirmedAt q \<noteq> pay_PaidConfirmedAt p \<longrightarrow> pay_Status p = PayPaid))
   (apply_payment p c)"
  by (cases "pay_Status p"; cases c) (simp_all add: payment_ops)

subsection \<open>The refund as a versioned aggregate\<close>

datatype refund_cmd =
    RefBind int string go_time
  | RefComplete int refund_status go_time
  | RefCompleteVerified int refund_status go_time go_time

fun refund_cmd_version :: "refund_cmd \<Rightarrow> int" where
  "refund_cmd_version (RefBind v _ _) = v"
| "refund_cmd_version (RefComplete v _ _) = v"
| "refund_cmd_version (RefCompleteVerified v _ _ _) = v"

fun apply_refund :: "refund \<Rightarrow> refund_cmd \<Rightarrow> (payment_error, refund) result" where
  "apply_refund r (RefBind v e t) = Refund_BindEffect r v e t"
| "apply_refund r (RefComplete v st t) = Refund_Complete r v st t"
| "apply_refund r (RefCompleteVerified v st t pt) = CompleteVerifiedFact r v st t pt"

lemma CompleteVerifiedFact_post:
  "post P (CompleteVerifiedFact r v st t pt) \<longleftrightarrow>
     (v = ref_Version r \<and> pt \<noteq> 0 \<and> (st = RefundCompleted \<or> st = RefundFinalFailed) \<and>
      (ref_Status r = RefundEffectAccepted \<or> ref_Status r = RefundOutcomeUnknown) \<and>
      ValidateVerifiedOccurrence r t = None \<longrightarrow>
      P (r\<lparr>ref_Status := st, ref_Version := wrap64 (ref_Version r + 1),
          ref_UpdatedAt := max (ref_UpdatedAt r) pt\<rparr>))"
  by (auto simp: CompleteVerifiedFact_def post_def Let_def before_def is_zero_def max_def
      split: option.splits)

lemmas refund_ops = Refund_BindEffect_def Refund_Complete_def CompleteVerifiedFact_post
  before_def is_zero_def

text \<open>The effect is bound exactly when the refund leaves the requested state.\<close>

definition refund_inv :: "refund \<Rightarrow> bool" where
  "refund_inv r \<longleftrightarrow>
     (if ref_Status r = RefundRequested then ref_EffectID r = []
      else ref_Status r \<in> {RefundEffectAccepted, RefundOutcomeUnknown, RefundCompleted,
             RefundFinalFailed} \<and> validEffectID (ref_EffectID r))"

lemma apply_refund_step:
  "post (\<lambda>q. refund_cmd_version c = ref_Version r \<and> ref_Version q = wrap64 (ref_Version r + 1) \<and>
     ref_UpdatedAt r \<le> ref_UpdatedAt q) (apply_refund r c)"
  by (cases c) (simp_all add: refund_ops)

lemma apply_refund_inv: "refund_inv r \<Longrightarrow> post refund_inv (apply_refund r c)"
  by (cases "ref_Status r"; cases c) (auto simp: refund_ops refund_inv_def)

interpretation refund: cas_aggregate apply_refund refund_cmd_version ref_Version ref_UpdatedAt
    refund_inv
  by unfold_locales (auto dest: postD [OF apply_refund_step] postD [OF apply_refund_inv])

text \<open>What stays with a refund: its amount and payment always, its effect once bound, and
  everything once it is completed or failed for good.\<close>

lemma apply_refund_keeps:
  "post (\<lambda>q. ref_AmountMinor q = ref_AmountMinor r \<and> ref_PaymentID q = ref_PaymentID r \<and>
     ref_RefundNo q = ref_RefundNo r \<and> ref_Provider q = ref_Provider r \<and>
     ref_CreatedAt q = ref_CreatedAt r \<and>
     (ref_Status r \<noteq> RefundRequested \<longrightarrow> ref_EffectID q = ref_EffectID r \<and>
        ref_Status q \<noteq> RefundRequested) \<and>
     ref_Status r \<notin> {RefundCompleted, RefundFinalFailed}) (apply_refund r c)"
  by (cases "ref_Status r"; cases c) (auto simp: refund_ops)

lemma trunc_time_ge_close: "0 < d \<Longrightarrow> trunc_time d a \<le> trunc_time d b \<Longrightarrow> a - b < d"
proof -
  assume d: "0 < d" and le: "trunc_time d a \<le> trunc_time d b"
  then have "a - b \<le> a mod d - b mod d" by (simp add: trunc_time_def)
  moreover have "a mod d < d" and "0 \<le> b mod d" using d by simp_all
  ultimately show "a - b < d" by linarith
qed

lemma occurrence_close:
  "ValidateVerifiedOccurrence r t = None \<Longrightarrow>
     ref_CreatedAt r - t < (if t mod second = 0 then second else microsecond)"
  by (auto simp: ValidateVerifiedOccurrence_def Let_def before_def not_less second_def
      microsecond_def intro!: trunc_time_ge_close split: if_splits)

lemma newPayment_post:
  "post (\<lambda>p. pay_OrderID p = snp_ID s \<and> pay_AmountMinor p = AmountMinor (snp_Amount s) \<and>
     pay_Currency p = ''CNY'' \<and> pay_Provider p = snp_Provider s \<and>
     snp_PayerCustomerID s = Some (pay_PayerCustomerID p) \<and>
     snp_BeneficiaryCustomerID s = Some (pay_BeneficiaryCustomerID p) \<and>
     snp_RecordOrigin s = RecordOriginNative \<and>
     pay_ProfitSharingMarked p = marked \<and> (marked \<longrightarrow> snp_Provider s = ProviderWeChatPay) \<and>
     pay_Status p = PayAwaitingPrepay \<and> pay_Version p = 1 \<and> pay_UpdatedAt p = now)
   (newPayment s i now marked chs)"
  by (cases "snp_PayerCustomerID s"; cases "snp_BeneficiaryCustomerID s")
    (simp_all add: newPayment_def Let_def)

lemmas newPayment_fields = postD [OF newPayment_post]

lemma NewRefund_fields:
  "NewRefund p no a rs t = Inr r \<Longrightarrow>
     1 \<le> a \<and> a \<le> pay_AmountMinor p \<and> ref_AmountMinor r = a \<and> pay_Status p = PayPaid \<and>
     ref_PaymentID r = pay_ID p \<and> ref_Status r = RefundRequested \<and> refund_inv r"
  by (auto simp: NewRefund_def Let_def refund_inv_def split: if_splits)

lemma run_refund_keeps:
  "ref_AmountMinor (run apply_refund r cs) = ref_AmountMinor r \<and>
   (ref_Status r \<noteq> RefundRequested \<longrightarrow> ref_EffectID (run apply_refund r cs) = ref_EffectID r \<and>
      ref_Status (run apply_refund r cs) \<noteq> RefundRequested)"
  by (rule run_invariant [where P = "\<lambda>q. ref_AmountMinor q = ref_AmountMinor r \<and>
      (ref_Status r \<noteq> RefundRequested \<longrightarrow> ref_EffectID q = ref_EffectID r \<and>
         ref_Status q \<noteq> RefundRequested)"])
    (auto dest!: postD [OF apply_refund_keeps])

lemma run_refund_closed:
  assumes "ref_Status r \<in> {RefundCompleted, RefundFinalFailed}"
  shows "run apply_refund r cs = r"
proof (rule run_invariant [where P = "\<lambda>q. q = r"])
  fix q c q' assume "q = r" and "apply_refund q c = Inr q'"
  with assms postD [OF apply_refund_keeps this(2)] show "q' = r" by auto
qed simp

subsection \<open>Properties\<close>

definition paid_sample :: payment where
  "paid_sample = \<lparr>pay_Historical = False, pay_SourceStatus = [], pay_HistoryReason = [],
     pay_ID = 8, pay_OrderID = 41, pay_Provider = ProviderAlipay, pay_Channel = ChannelAlipayWap,
     pay_MerchantOrderNo = ''m-1'', pay_PayerIdentityID = 3, pay_PayerCustomerID = 5,
     pay_BeneficiaryCustomerID = 6, pay_AmountMinor = 700, pay_ProfitSharingMarked = False,
     pay_Currency = ''CNY'', pay_Status = PayPaid, pay_EffectID = ''eer_7'',
     pay_ProviderTransactionReference = [], pay_ProviderTransactionDigest = [], pay_Version = 3,
     pay_PaidConfirmedAt = Some 1000, pay_CreatedAt = 500, pay_UpdatedAt = 1000\<rparr>"

text \<open>C5. A payment charges what its order says.  A payment made from the snapshot of a valid order
  keeps, whatever commands follow, the order's parties and exactly the sum of unit amount times
  quantity over the order's lines, in CNY; only WeChat Pay payments can be marked for profit
  sharing; and no refund can be requested for more than that sum.\<close>

theorem payment_charges_the_order:
  assumes "validate o'" and new: "newPayment (Snapshot o') i now marked chs = Inr p"
  shows "let q = run apply_payment p cs;
             owed = sum_list (map (\<lambda>l. itm_UnitAmountMinor l * itm_Quantity l) (ord_items o')) in
     pay_AmountMinor q = owed \<and> pay_Currency q = ''CNY'' \<and>
     Some (pay_PayerCustomerID q) = ord_PayerCustomerID o' \<and>
     Some (pay_BeneficiaryCustomerID q) = ord_BeneficiaryCustomerID o' \<and>
     (pay_ProfitSharingMarked q \<longrightarrow> pay_Provider q = ProviderWeChatPay) \<and>
     (\<forall>no a rs t r. NewRefund q no a rs t = Inr r \<longrightarrow>
        1 \<le> ref_AmountMinor r \<and> ref_AmountMinor r \<le> owed)"
proof -
  let ?q = "run apply_payment p cs"
  note f = newPayment_fields [OF new] and fr = run_payment_frame [of p cs, unfolded payment_frame_def]
  have "\<not> external_order o'" using f by (auto simp: external_order_def Snapshot_def)
  note i = validate_items [OF assms(1) this]
  have "map itm_LineAmountMinor (ord_items o') =
      map (\<lambda>l. itm_UnitAmountMinor l * itm_Quantity l) (ord_items o')"
    using i(1) line_amount_exact by (fastforce simp: list_all_iff)
  with i(3) have "AmountMinor (ord_Amount o') =
      sum_list (map (\<lambda>l. itm_UnitAmountMinor l * itm_Quantity l) (ord_items o'))" by simp
  then have a: "pay_AmountMinor ?q =
      sum_list (map (\<lambda>l. itm_UnitAmountMinor l * itm_Quantity l) (ord_items o'))"
    using f fr by (simp add: Snapshot_def)
  have r: "1 \<le> ref_AmountMinor r \<and> ref_AmountMinor r \<le> pay_AmountMinor ?q"
    if "NewRefund ?q no m rs t = Inr r" for no m rs t r
    using NewRefund_fields [OF that] by simp
  show ?thesis
    unfolding Let_def using a f fr r by (simp add: Snapshot_def)
qed

theorem payment_charges_the_order_witness:
  "\<exists>p. newPayment (Snapshot sample_order) 3 (9 * second) False [ChannelAlipayWap] = Inr p \<and>
     pay_AmountMinor (run apply_payment p [PaySettle 1 PayPaid (10 * second)]) = 700"
proof -
  have "is_ok (newPayment (Snapshot sample_order) 3 (9 * second) False [ChannelAlipayWap])"
    by (simp add: newPayment_def Snapshot_def sample_order_def is_zero_def second_def Let_def)
  then obtain p where p: "newPayment (Snapshot sample_order) 3 (9 * second) False
      [ChannelAlipayWap] = Inr p" by (rule is_okE)
  have "sum_list (map (\<lambda>l. itm_UnitAmountMinor l * itm_Quantity l) (ord_items sample_order)) = 700"
    by (simp add: sample_order_def sample_item_def)
  with p payment_charges_the_order [OF sample_order_valid p, of "[PaySettle 1 PayPaid (10 * second)]"]
  show ?thesis unfolding Let_def by auto
qed

text \<open>C6. A settled payment stays settled: after it is paid, failed or cancelled no commands
  change its status or the effect it is bound to; a success time reported by the provider can only
  appear on a paid payment, and once it is recorded every further command is refused.\<close>

theorem settled_payment_is_final:
  assumes "pay_Status p \<in> {PayPaid, PayFailed, PayCancelled}"
  shows "pay_Status (run apply_payment p cs) = pay_Status p \<and>
     pay_EffectID (run apply_payment p cs) = pay_EffectID p \<and>
     (pay_Status p \<noteq> PayPaid \<longrightarrow>
        pay_PaidConfirmedAt (run apply_payment p cs) = pay_PaidConfirmedAt p) \<and>
     (pay_PaidConfirmedAt p \<noteq> None \<longrightarrow> run apply_payment p cs = p)"
  by (rule run_invariant [where P = "\<lambda>q. pay_Status q = pay_Status p \<and>
        pay_EffectID q = pay_EffectID p \<and>
        (pay_Status p \<noteq> PayPaid \<longrightarrow> pay_PaidConfirmedAt q = pay_PaidConfirmedAt p) \<and>
        (pay_PaidConfirmedAt p \<noteq> None \<longrightarrow> q = p)"])
    (use assms in \<open>auto dest!: postD [OF apply_payment_final, rotated 1]\<close>)

theorem settled_payment_is_final_witness:
  "run apply_payment paid_sample [PayRestore 3 2000 3000, PaySettle 3 PayFailed 4000] = paid_sample"
  using settled_payment_is_final
    [of paid_sample "[PayRestore 3 2000 3000, PaySettle 3 PayFailed 4000]"]
  by (simp add: paid_sample_def)

text \<open>A refund moves money once.  Its amount is the requested one, positive and within the
  payment; it is bound to one well-formed effect identifier, which never changes once the refund
  has left the requested state; and once it is completed or finally failed nothing changes it.\<close>

lemma refund_settles_once:
  assumes "NewRefund p no a rs t = Inr r"
  shows "let q = run apply_refund r cs; q' = run apply_refund q ds in
     ref_AmountMinor q = a \<and> 1 \<le> a \<and> a \<le> pay_AmountMinor p \<and>
     (ref_Status q \<noteq> RefundRequested \<longrightarrow>
        validEffectID (ref_EffectID q) \<and> ref_EffectID q' = ref_EffectID q) \<and>
     (ref_Status q \<in> {RefundCompleted, RefundFinalFailed} \<longrightarrow> q' = q)"
proof -
  let ?q = "run apply_refund r cs"
  note f = NewRefund_fields [OF assms]
  have "refund_inv ?q" using f by (intro refund.run_invar) simp
  then have "ref_Status ?q \<noteq> RefundRequested \<longrightarrow> validEffectID (ref_EffectID ?q)"
    by (simp add: refund_inv_def)
  then show ?thesis
    unfolding Let_def
    using f run_refund_keeps [of r cs] run_refund_keeps [of ?q ds] run_refund_closed [of ?q ds]
    by simp
qed

lemma refund_settles_once_witness:
  "\<exists>r. NewRefund paid_sample ''r-1'' 300 ''late'' 2000 = Inr r \<and>
     ref_AmountMinor (run apply_refund r [RefBind 1 ''eer_12'' 2000]) = 300"
proof -
  have "is_ok (NewRefund paid_sample ''r-1'' 300 ''late'' 2000)"
    by (simp add: NewRefund_def paid_sample_def Let_def is_zero_def trim_space_printable printable_def)
  then obtain r where r: "NewRefund paid_sample ''r-1'' 300 ''late'' 2000 = Inr r" by (rule is_okE)
  with refund_settles_once [OF r, of "[RefBind 1 ''eer_12'' 2000]" "[]"] show ?thesis
    unfolding Let_def by auto
qed

text \<open>Provider facts with coarse clocks: a verified terminal fact is accepted for a bound,
  unfinished refund whenever it does not precede the refund's creation, and when one is accepted it
  precedes it by less than one second, by less than one microsecond if the provider's instant has a
  fractional second; the local clock is never moved back by it.\<close>

lemma verified_refund_precision:
  assumes "v = ref_Version r" and "pt \<noteq> 0" and "st \<in> {RefundCompleted, RefundFinalFailed}"
    and "ref_Status r \<in> {RefundEffectAccepted, RefundOutcomeUnknown}"
    and "t \<noteq> 0" and "ref_CreatedAt r \<noteq> 0"
  shows "(ref_CreatedAt r \<le> t \<longrightarrow> is_ok (CompleteVerifiedFact r v st t pt)) \<and>
     (\<forall>q. CompleteVerifiedFact r v st t pt = Inr q \<longrightarrow>
        ref_CreatedAt r - t < (if t mod second = 0 then second else microsecond) \<and>
        ref_Status q = st \<and> ref_UpdatedAt r \<le> ref_UpdatedAt q \<and> pt \<le> ref_UpdatedAt q)"
proof (intro conjI impI allI)
  assume le: "ref_CreatedAt r \<le> t"
  have mono: "trunc_time d (ref_CreatedAt r) \<le> trunc_time d t" if "0 < d" for d
    using zdiv_mono1 [OF le that] that by (simp add: trunc_time_def minus_mod_eq_mult_div)
  then have "ValidateVerifiedOccurrence r t = None"
    using assms mono [of second] mono [of microsecond]
    by (simp add: ValidateVerifiedOccurrence_def Let_def is_zero_def before_def not_less second_def
        microsecond_def)
  with assms show "is_ok (CompleteVerifiedFact r v st t pt)"
    by (auto simp: CompleteVerifiedFact_def is_zero_def)
next
  fix q assume q: "CompleteVerifiedFact r v st t pt = Inr q"
  have "ValidateVerifiedOccurrence r t = None"
    using q by (auto simp: CompleteVerifiedFact_def split: if_splits option.splits)
  then show "ref_CreatedAt r - t < (if t mod second = 0 then second else microsecond)"
    by (rule occurrence_close)
  have "post (\<lambda>q. ref_Status q = st \<and> ref_UpdatedAt r \<le> ref_UpdatedAt q \<and> pt \<le> ref_UpdatedAt q)
      (CompleteVerifiedFact r v st t pt)"
    by (simp add: CompleteVerifiedFact_post)
  from postD [OF this q] show "ref_Status q = st" "ref_UpdatedAt r \<le> ref_UpdatedAt q"
    "pt \<le> ref_UpdatedAt q" by simp_all
qed

definition sample_refund :: refund where
  "sample_refund = \<lparr>ref_ID = 2, ref_PaymentID = 8, ref_Provider = ProviderAlipay,
     ref_RefundNo = ''r-1'', ref_Reason = ''late'', ref_AmountMinor = 300,
     ref_Status = RefundEffectAccepted, ref_EffectID = ''eer_12'', ref_ProviderRefundReference = [],
     ref_ProviderRefundDigest = [], ref_Version = 2, ref_CreatedAt = 2000, ref_UpdatedAt = 2500\<rparr>"

lemma verified_refund_precision_witness:
  "is_ok (CompleteVerifiedFact sample_refund 2 RefundCompleted 2300 2400)"
  using verified_refund_precision [of 2 sample_refund 2400 RefundCompleted 2300]
  by (simp add: sample_refund_def)

end
