(* ===== verification/GoHash.thy ===== *)
theory GoHash
  imports GoStrings "HOL-Library.Word"
begin

text \<open>
  \<open>crypto/sha256\<close> and \<open>encoding/hex\<close> as the code uses them, and the digests of
  \<open>internal/externaleffects/port/port.go\<close> built on them: \<open>Hash\<close> joins its parts with a
  zero byte and \<open>ValidDigest\<close> is the shape every stored digest has.  SHA-256 is written
  out (FIPS 180-4) on 32-bit words, so a digest can be computed.
\<close>

unbundle bit_operations_syntax

type_synonym w32 = "32 word"
type_synonym digest = string

subsection \<open>SHA-256\<close>

text \<open>The round constants are the first 32 bits of the fractional parts of the cube roots of the
  first 64 primes, the initial state those of the square roots of the first 8 primes; the
  roots are computed bit by bit.\<close>

definition sha_primes :: "nat list" where
  "sha_primes = filter (\<lambda>p. list_all (\<lambda>d. p mod d \<noteq> 0) [2..<p]) [2..<312]"

definition root_bits :: "nat \<Rightarrow> nat \<Rightarrow> nat" where
  "root_bits k n = foldl (\<lambda>r b. if (r + 2 ^ b) ^ k \<le> n then r + 2 ^ b else r) 0 (rev [0..<40])"

definition root_fraction :: "nat \<Rightarrow> nat \<Rightarrow> w32" where
  "root_fraction k p = of_nat (root_bits k (p * 2 ^ (32 * k)))"

definition sha_constants :: "w32 list" where
  "sha_constants = map (root_fraction 3) sha_primes"

record sha_state =
  sha_a :: w32  sha_b :: w32  sha_c :: w32  sha_d :: w32
  sha_e :: w32  sha_f :: w32  sha_g :: w32  sha_h :: w32

definition sha_initial :: sha_state where
  "sha_initial = (let w = (\<lambda>i. root_fraction 2 (sha_primes ! i)) in
     \<lparr>sha_a = w 0, sha_b = w 1, sha_c = w 2, sha_d = w 3, sha_e = w 4, sha_f = w 5, sha_g = w 6, sha_h = w 7\<rparr>)"

definition big_endian :: "nat list \<Rightarrow> w32" where
  "big_endian bs = of_nat (foldl (\<lambda>a b. a * 256 + b) 0 bs)"

text \<open>Padding: a one bit, zeros up to 8 bytes before a block boundary, the length in bits.\<close>

definition sha_pad :: "nat list \<Rightarrow> nat list" where
  "sha_pad m = m @ [128] @ replicate ((119 - length m mod 64) mod 64) 0 @
     map (\<lambda>i. (8 * length m) div 256 ^ i mod 256) (rev [0..<8])"

definition sha_schedule :: "w32 list \<Rightarrow> w32 list" where
  "sha_schedule block = foldl (\<lambda>w t.
     let x = w ! (t - 15); y = w ! (t - 2);
         s0 = (word_rotr 7 x XOR word_rotr 18 x) XOR drop_bit 3 x;
         s1 = (word_rotr 17 y XOR word_rotr 19 y) XOR drop_bit 10 y
     in w @ [w ! (t - 16) + s0 + w ! (t - 7) + s1]) block [16..<64]"

definition sha_round :: "sha_state \<Rightarrow> w32 \<times> w32 \<Rightarrow> sha_state" where
  "sha_round s kw =
     (let e = sha_e s; a = sha_a s;
          s1 = (word_rotr 6 e XOR word_rotr 11 e) XOR word_rotr 25 e;
          ch = (e AND sha_f s) XOR (NOT e AND sha_g s);
          t1 = sha_h s + s1 + ch + fst kw + snd kw;
          s0 = (word_rotr 2 a XOR word_rotr 13 a) XOR word_rotr 22 a;
          maj = ((a AND sha_b s) XOR (a AND sha_c s)) XOR (sha_b s AND sha_c s);
          t2 = s0 + maj
      in \<lparr>sha_a = t1 + t2, sha_b = a, sha_c = sha_b s, sha_d = sha_c s,
          sha_e = sha_d s + t1, sha_f = e, sha_g = sha_f s, sha_h = sha_g s\<rparr>)"

definition sha_compress :: "sha_state \<Rightarrow> w32 list \<Rightarrow> sha_state" where
  "sha_compress s block =
     (let r = foldl sha_round s (zip sha_constants (sha_schedule block))
      in \<lparr>sha_a = sha_a s + sha_a r, sha_b = sha_b s + sha_b r, sha_c = sha_c s + sha_c r,
          sha_d = sha_d s + sha_d r, sha_e = sha_e s + sha_e r, sha_f = sha_f s + sha_f r,
          sha_g = sha_g s + sha_g r, sha_h = sha_h s + sha_h r\<rparr>)"

text \<open>Consecutive groups of \<open>n > 0\<close> elements.\<close>

function chunks :: "nat \<Rightarrow> 'a list \<Rightarrow> 'a list list" where
  "chunks n xs = (if n = 0 \<or> xs = [] then [] else take n xs # chunks n (drop n xs))"
  by pat_completeness auto
termination
  by (relation "measure (\<lambda>(n, xs). length xs)") auto

declare chunks.simps [simp del]

definition sha_words :: "sha_state \<Rightarrow> w32 list" where
  "sha_words s = [sha_a s, sha_b s, sha_c s, sha_d s, sha_e s, sha_f s, sha_g s, sha_h s]"

definition Sum256 :: "string \<Rightarrow> w32 list" where
  "Sum256 m = sha_words (foldl sha_compress sha_initial
     (map (map big_endian \<circ> chunks 4) (chunks 64 (sha_pad (map of_char m)))))"

subsection \<open>Hexadecimal\<close>

definition hex_digit :: "nat \<Rightarrow> char" where
  "hex_digit d = (if d < 10 then char_of (48 + d) else char_of (87 + d))"

definition is_hex :: "char \<Rightarrow> bool" where
  "is_hex c \<longleftrightarrow> (let b = (of_char c :: nat) in
     48 \<le> b \<and> b \<le> 57 \<or> 97 \<le> b \<and> b \<le> 102 \<or> 65 \<le> b \<and> b \<le> 70)"

definition hex_word :: "w32 \<Rightarrow> string" where
  "hex_word w = map (\<lambda>i. hex_digit (unat w div 16 ^ i mod 16)) (rev [0..<8])"

definition hex_encode :: "w32 list \<Rightarrow> string" where
  "hex_encode ws = concat (map hex_word ws)"

lemma is_hex_digit: "d < 16 \<Longrightarrow> is_hex (hex_digit d)"
  by (auto simp: is_hex_def hex_digit_def Let_def)

lemma hex_digit_lower:
  "d < 16 \<Longrightarrow> (of_char (hex_digit d) :: nat) < 65 \<or> 70 < (of_char (hex_digit d) :: nat)"
  by (auto simp: hex_digit_def)

lemma hex_encode_lower:
  "list_all (\<lambda>c. (of_char c :: nat) < 65 \<or> 70 < (of_char c :: nat)) (hex_encode ws)"
  by (simp add: hex_encode_def hex_word_def list_all_iff hex_digit_lower)

lemma hex_word_length [simp]: "length (hex_word w) = 8"
  by (simp add: hex_word_def)

lemma hex_word_all: "list_all is_hex (hex_word w)"
  by (simp add: hex_word_def list_all_iff is_hex_digit)

lemma hex_encode_length: "length (hex_encode ws) = 8 * length ws"
  by (induction ws) (simp_all add: hex_encode_def)

lemma hex_encode_all: "list_all is_hex (hex_encode ws)"
  by (induction ws) (simp_all add: hex_encode_def hex_word_all)

subsection \<open>Digests\<close>

definition Hash :: "string list \<Rightarrow> digest" where
  "Hash parts = ''sha256:'' @ hex_encode (Sum256 (join [CHR 0x00] parts))"

text \<open>\<open>hex.DecodeString\<close> fails on an odd length and on any character that is no hex digit.\<close>

definition ValidDigest :: "digest \<Rightarrow> bool" where
  "ValidDigest value =
     (if \<not> has_prefix value ''sha256:'' \<or> length value \<noteq> 71 then False
      else even (length (drop 7 value)) \<and> list_all is_hex (drop 7 value))"

lemma ValidDigest_Hash [simp]: "ValidDigest (Hash parts)"
proof -
  have "length (hex_encode (Sum256 (join [CHR 0x00] parts))) = 64"
    by (simp add: hex_encode_length Sum256_def sha_words_def)
  then show ?thesis
    by (simp add: ValidDigest_def Hash_def has_prefix_def hex_encode_all)
qed

lemma ValidDigest_Nil [simp]: "\<not> ValidDigest []"
  by (simp add: ValidDigest_def)

end
