(* ===== verification/GoTime.thy ===== *)
theory GoTime
  imports GoStrings
begin

text \<open>
  \<open>Time.Format\<close> with \<open>time.RFC3339Nano\<close> of an instant in UTC: the civil date of the
  proleptic Gregorian calendar, counted from 1 January of year 1, the time of day and
  the fraction of a second without its trailing zeros.
\<close>

definition day :: duration where
  "day = 24 * hour"

definition year_of :: "int \<Rightarrow> int \<times> int \<times> bool" where
  "year_of days =
     (let r400 = days mod 146097;
          c = min 3 (r400 div 36524); r100 = r400 - c * 36524;
          q = r100 div 1461; r4 = r100 mod 1461;
          y = min 3 (r4 div 365)
      in (400 * (days div 146097) + 100 * c + 4 * q + y + 1, r4 - y * 365,
          y = 3 \<and> (q \<noteq> 24 \<or> c = 3)))"

fun month_of :: "nat \<Rightarrow> int list \<Rightarrow> int \<Rightarrow> nat \<times> int" where
  "month_of m [] yday = (m, yday)"
| "month_of m (l # ls) yday = (if yday < l then (m, yday) else month_of (m + 1) ls (yday - l))"

definition month_lengths :: "bool \<Rightarrow> int list" where
  "month_lengths leap = [31, if leap then 29 else 28, 31, 30, 31, 30, 31, 31, 30, 31, 30, 31]"

definition zero_padded :: "nat \<Rightarrow> nat \<Rightarrow> string" where
  "zero_padded w n = replicate (w - length (nat_digits n)) CHR ''0'' @ nat_digits n"

definition format_year :: "int \<Rightarrow> string" where
  "format_year y = (if y < 0 then CHR ''-'' # zero_padded 4 (nat (- y)) else zero_padded 4 (nat y))"

definition format_fraction :: "nat \<Rightarrow> string" where
  "format_fraction ns = (if ns = 0 then []
     else CHR ''.'' # rev (dropWhile (\<lambda>c. c = CHR ''0'') (rev (zero_padded 9 ns))))"

definition format_rfc3339_nano :: "go_time \<Rightarrow> string" where
  "format_rfc3339_nano t =
     (let (y, yday, leap) = year_of (t div day);
          (m, d) = month_of 1 (month_lengths leap) yday;
          ns = nat (t mod day); s = ns div 1000000000
      in format_year y @ ''-'' @ zero_padded 2 m @ ''-'' @ zero_padded 2 (nat d + 1) @ ''T'' @
         zero_padded 2 (s div 3600) @ '':'' @ zero_padded 2 (s div 60 mod 60) @ '':'' @
         zero_padded 2 (s mod 60) @ format_fraction (ns mod 1000000000) @ ''Z'')"

text \<open>Two digit strings of the same width are equal only for equal numbers.\<close>

lemma foldl_zeros:
  "foldl (\<lambda>a c. a * 10 + (of_char c - 48)) (0::nat) (replicate k CHR ''0'') = 0"
  by (induction k) simp_all

lemma digits_value_zero_padded [simp]: "digits_value (zero_padded w n) = n"
  using digits_value_nat_digits [of n] by (simp add: zero_padded_def digits_value_def foldl_zeros)

lemma zero_padded_inject [simp]: "zero_padded w m = zero_padded w n \<longleftrightarrow> m = n"
  by (metis digits_value_zero_padded)

end
