(* ===== verification/EffectPort.thy ===== *)
theory EffectPort
  imports GoHash GoTime
begin

text \<open>
  The contract of the external-effect kernel, \<open>internal/externaleffects/port/port.go\<close>: who
  may ask for which effect, the digest-only envelope and its fingerprint, the commands, the
  results of a provider adapter and its artifacts.
\<close>

subsection \<open>Owners, kinds, states, lanes\<close>

datatype owner =
    OwnerOutbound
  | OwnerPayment
  | OwnerInvoice
  | OwnerAutomation
  | OwnerAdminOps
  | OwnerSegment
  | OwnerOther string

datatype kind =
    KindInvoiceCardConfigure
  | KindInvoiceIssue
  | KindInvoiceReverse
  | KindFeishuOpsNotification
  | KindOutboundMessage
  | KindPrivateMessageControl
  | KindAutomationMessage
  | KindOutboundMedia
  | KindWeComTagCatalog
  | KindWeComTagCatalogMutation
  | KindWeComContactDescription
  | KindGroupMessage
  | KindChannelAsset
  | KindChannelWelcome
  | KindChannelEntryTag
  | KindCustomerTagCommand
  | KindCustomerOwnerHandoff
  | KindCommerceProductPush
  | KindInvitationCode
  | KindChannelLink
  | KindSidebarJSSDKSend
  | KindSurveyCompletion
  | KindAIAgentGenerate
  | KindAIRecommend
  | KindWeChatPayPrepay
  | KindWeChatPayRefund
  | KindWeChatShopRefund
  | KindWeChatPayReceiverAdd
  | KindWeChatPayProfitSharing
  | KindWeChatPayProfitUnfreeze
  | KindAlipayWapPay
  | KindAlipayPagePay
  | KindAlipayRefund
  | KindOther string

fun owner_text :: "owner \<Rightarrow> string" where
  "owner_text OwnerOutbound = ''outbound''"
| "owner_text OwnerPayment = ''payment''"
| "owner_text OwnerInvoice = ''invoice''"
| "owner_text OwnerAutomation = ''automation''"
| "owner_text OwnerAdminOps = ''adminops''"
| "owner_text OwnerSegment = ''segment''"
| "owner_text (OwnerOther s) = s"

fun kind_text :: "kind \<Rightarrow> string" where
  "kind_text KindInvoiceCardConfigure = ''wechat_invoice_card_configure_v1''"
| "kind_text KindInvoiceIssue = ''wechat_invoice_issue_v1''"
| "kind_text KindInvoiceReverse = ''wechat_invoice_reverse_v1''"
| "kind_text KindFeishuOpsNotification = ''feishu_ops_notification_v1''"
| "kind_text KindOutboundMessage = ''outbound_message''"
| "kind_text KindPrivateMessageControl = ''outbound_message_control''"
| "kind_text KindAutomationMessage = ''automation_message''"
| "kind_text KindOutboundMedia = ''outbound_media''"
| "kind_text KindWeComTagCatalog = ''wecom_tag_catalog''"
| "kind_text KindWeComTagCatalogMutation = ''wecom_tag_catalog_mutation''"
| "kind_text KindWeComContactDescription = ''wecom_contact_description''"
| "kind_text KindGroupMessage = ''group_message''"
| "kind_text KindChannelAsset = ''channel_acquisition_asset''"
| "kind_text KindChannelWelcome = ''channel_welcome_message''"
| "kind_text KindChannelEntryTag = ''channel_entry_tag''"
| "kind_text KindCustomerTagCommand = ''customer_tag_command''"
| "kind_text KindCustomerOwnerHandoff = ''customer_owner_handoff''"
| "kind_text KindCommerceProductPush = ''commerce_product_push''"
| "kind_text KindInvitationCode = ''group_invitation_code''"
| "kind_text KindChannelLink = ''channel_acquisition_link_mutation''"
| "kind_text KindSidebarJSSDKSend = ''sidebar_jssdk_send''"
| "kind_text KindSurveyCompletion = ''survey_completion''"
| "kind_text KindAIAgentGenerate = ''ai_agent_generate''"
| "kind_text KindAIRecommend = ''ai_audience_recommend''"
| "kind_text KindWeChatPayPrepay = ''wechat_pay_prepay_v1''"
| "kind_text KindWeChatPayRefund = ''wechat_pay_refund_v1''"
| "kind_text KindWeChatShopRefund = ''wechat_shop_refund_v1''"
| "kind_text KindWeChatPayReceiverAdd = ''wechat_pay_profit_sharing_receiver_v1''"
| "kind_text KindWeChatPayProfitSharing = ''wechat_pay_profit_sharing_order_v1''"
| "kind_text KindWeChatPayProfitUnfreeze = ''wechat_pay_profit_sharing_unfreeze_v1''"
| "kind_text KindAlipayWapPay = ''alipay_wap_pay_v1''"
| "kind_text KindAlipayPagePay = ''alipay_page_pay_v1''"
| "kind_text KindAlipayRefund = ''alipay_refund_v1''"
| "kind_text (KindOther s) = s"

datatype effect_status =
    StateAccepted
  | StateQueued
  | StateAttempted
  | StateExecuted
  | StateUnknown
  | StateReconciled
  | StateRetryable
  | StateFinalFailed
  | StateCancelled
  | StateOther string

fun state_text :: "effect_status \<Rightarrow> string" where
  "state_text StateAccepted = ''accepted''"
| "state_text StateQueued = ''queued''"
| "state_text StateAttempted = ''attempted''"
| "state_text StateExecuted = ''executed''"
| "state_text StateUnknown = ''outcome_unknown''"
| "state_text StateReconciled = ''reconciled''"
| "state_text StateRetryable = ''retryable_failed''"
| "state_text StateFinalFailed = ''final_failed''"
| "state_text StateCancelled = ''cancelled''"
| "state_text (StateOther s) = s"

datatype lane = LaneNone | LaneOutboundExcel | LaneOutboundMedia | LaneOpsNotification | LaneOther string

fun lane_text :: "lane \<Rightarrow> string" where
  "lane_text LaneNone = []"
| "lane_text LaneOutboundExcel = ''outbound_excel''"
| "lane_text LaneOutboundMedia = ''outbound_media''"
| "lane_text LaneOpsNotification = ''ops_notification''"
| "lane_text (LaneOther s) = s"

subsection \<open>Envelopes and commands\<close>

record envelope =
  env_Owner :: owner
  env_Kind :: kind
  env_SourceRefDigest :: digest
  env_TargetRefDigest :: digest
  env_PayloadDigest :: digest
  env_PolicyVersionHash :: digest

definition digests_valid :: "envelope \<Rightarrow> bool" where
  "digests_valid value \<longleftrightarrow> ValidDigest (env_SourceRefDigest value) \<and>
     ValidDigest (env_TargetRefDigest value) \<and> ValidDigest (env_PayloadDigest value) \<and>
     ValidDigest (env_PolicyVersionHash value)"

definition Envelope_Valid :: "envelope \<Rightarrow> bool" where
  "Envelope_Valid value =
     (let k = env_Kind value; own = env_Owner value in
      if own = OwnerOutbound \<and> k = KindPrivateMessageControl then digests_valid value
      else let kindValid =
        own = OwnerOutbound \<and> (k = KindOutboundMessage \<or> k = KindAutomationMessage \<or>
          k = KindOutboundMedia \<or> k = KindWeComTagCatalog \<or> k = KindWeComTagCatalogMutation \<or>
          k = KindWeComContactDescription \<or> k = KindGroupMessage \<or> k = KindChannelAsset \<or>
          k = KindChannelWelcome \<or> k = KindChannelEntryTag \<or> k = KindCustomerTagCommand \<or>
          k = KindCustomerOwnerHandoff \<or> k = KindCommerceProductPush \<or> k = KindInvitationCode \<or>
          k = KindChannelLink \<or> k = KindSidebarJSSDKSend \<or> k = KindSurveyCompletion) \<or>
        own = OwnerPayment \<and> (k = KindWeChatPayPrepay \<or> k = KindWeChatPayRefund \<or>
          k = KindWeChatShopRefund \<or> k = KindWeChatPayReceiverAdd \<or>
          k = KindWeChatPayProfitSharing \<or> k = KindWeChatPayProfitUnfreeze \<or>
          k = KindAlipayWapPay \<or> k = KindAlipayPagePay \<or> k = KindAlipayRefund) \<or>
        own = OwnerInvoice \<and> (k = KindInvoiceIssue \<or> k = KindInvoiceReverse \<or>
          k = KindInvoiceCardConfigure) \<or>
        own = OwnerAutomation \<and> k = KindAIAgentGenerate \<or>
        own = OwnerAdminOps \<and> k = KindFeishuOpsNotification \<or>
        own = OwnerSegment \<and> k = KindAIRecommend
      in kindValid \<and> digests_valid value)"

definition Fingerprint :: "envelope \<Rightarrow> digest" where
  "Fingerprint value =
     (if \<not> Envelope_Valid value then []
      else Hash [owner_text (env_Owner value), kind_text (env_Kind value),
        env_SourceRefDigest value, env_TargetRefDigest value, env_PayloadDigest value,
        env_PolicyVersionHash value])"

record accept_command =
  acc_ReceiptKey :: digest
  acc_Envelope :: envelope
  acc_Lane :: lane
  acc_ScheduledAt :: go_time

definition AcceptCommand_Valid :: "accept_command \<Rightarrow> bool" where
  "AcceptCommand_Valid command =
     (if env_Owner (acc_Envelope command) = OwnerAdminOps
      then ValidDigest (acc_ReceiptKey command) \<and> Envelope_Valid (acc_Envelope command) \<and>
           acc_Lane command = LaneOpsNotification
      else ValidDigest (acc_ReceiptKey command) \<and> Envelope_Valid (acc_Envelope command) \<and>
           (acc_Lane command = LaneNone \<or> acc_Lane command = LaneOutboundExcel \<or>
            acc_Lane command = LaneOutboundMedia))"

definition AcceptCommand_Digest :: "accept_command \<Rightarrow> digest" where
  "AcceptCommand_Digest command =
     (if \<not> AcceptCommand_Valid command then []
      else if is_zero (acc_ScheduledAt command)
      then Hash [''accept'', acc_ReceiptKey command, Fingerprint (acc_Envelope command),
             lane_text (acc_Lane command)]
      else Hash [''accept'', acc_ReceiptKey command, Fingerprint (acc_Envelope command),
             lane_text (acc_Lane command), format_rfc3339_nano (utc (acc_ScheduledAt command))])"

record projection =
  prj_ID :: string
  prj_Owner :: owner
  prj_Kind :: kind
  prj_State :: effect_status
  prj_AttemptCount :: int
  prj_Generation :: int
  prj_UpdatedAt :: go_time
  prj_QueueJobID :: int

record receipt =
  rcp_ID :: string
  rcp_EffectID :: string
  rcp_CommandDigest :: digest
  rcp_ActorAdminUserID :: "int option"
  rcp_State :: effect_status
  rcp_CompletedAt :: go_time
  rcp_QueueReceiptID :: string

record control_actor =
  act_AdminUserID :: int
  act_SystemRef :: string

definition SystemActorPaymentProfitSharingDue :: string where
  "SystemActorPaymentProfitSharingDue = ''system:payment_profit_sharing_due''"

definition ControlActor_Valid :: "control_actor \<Rightarrow> bool" where
  "ControlActor_Valid actor \<longleftrightarrow> (act_AdminUserID actor > 0 \<and> act_SystemRef actor = []) \<or>
     (act_AdminUserID actor = 0 \<and> act_SystemRef actor = SystemActorPaymentProfitSharingDue)"

definition ControlActor_System :: "control_actor \<Rightarrow> bool" where
  "ControlActor_System actor \<longleftrightarrow> act_SystemRef actor \<noteq> []"

record cancel_command =
  can_EffectID :: string
  can_ReceiptKey :: digest
  can_ReasonCode :: string
  can_Actor :: control_actor
  can_OnlyIfUnattempted :: bool

record reconcile_command =
  rec_EffectID :: string
  rec_ReceiptKey :: digest
  rec_EvidenceDigest :: digest
  rec_ActorAdminUserID :: int
  rec_Generation :: int
  rec_Fence :: int
  rec_LeaseExpiresAt :: go_time

record client_completion_command =
  cli_EffectID :: string
  cli_ReceiptKey :: digest
  cli_EvidenceDigest :: digest
  cli_State :: effect_status

record tag_retry_command =
  tag_EffectID :: string
  tag_SourceRefDigest :: digest
  tag_ActorAdminUserID :: int
  tag_ReceiptKey :: digest

subsection \<open>Attempts and adapter results\<close>

record attempt =
  atp_EffectID :: string
  atp_Number :: int
  atp_Generation :: int
  atp_Fence :: int

text \<open>The payload of an artifact is a byte string.\<close>

record result_artifact =
  art_Kind :: string
  art_Digest :: digest
  art_Payload :: string

definition Artifact_Valid :: "result_artifact \<Rightarrow> bool" where
  "Artifact_Valid a =
     (if art_Kind a = [] \<or> length (art_Kind a) > 120 \<or> length (art_Payload a) = 0 \<or>
         length (art_Payload a) > 262144 \<or> \<not> ValidDigest (art_Digest a)
      then False
      else art_Digest a = Hash [''external-effect.artifact.v1'', art_Kind a, art_Payload a])"

record adapter_result =
  res_Completion :: effect_status
  res_ReceiptDigest :: digest
  res_FailureCode :: string
  res_CallAttempted :: bool
  res_RealExternalCallExecuted :: bool
  res_SafeToRetryRejected :: bool
  res_Artifact :: result_artifact

text \<open>Go's zero values of the two structs.\<close>

definition no_artifact :: result_artifact where
  "no_artifact = \<lparr>art_Kind = [], art_Digest = [], art_Payload = []\<rparr>"

definition no_result :: adapter_result where
  "no_result = \<lparr>res_Completion = StateOther [], res_ReceiptDigest = [], res_FailureCode = [],
     res_CallAttempted = False, res_RealExternalCallExecuted = False,
     res_SafeToRetryRejected = False, res_Artifact = no_artifact\<rparr>"

lemma Fingerprint_valid: "Envelope_Valid e \<Longrightarrow> ValidDigest (Fingerprint e)"
  by (simp add: Fingerprint_def)

lemma AcceptCommand_Digest_valid: "AcceptCommand_Valid c \<Longrightarrow> ValidDigest (AcceptCommand_Digest c)"
  by (simp add: AcceptCommand_Digest_def)

lemma AcceptCommand_parts:
  "AcceptCommand_Valid c \<Longrightarrow> ValidDigest (acc_ReceiptKey c) \<and> Envelope_Valid (acc_Envelope c)"
  by (simp add: AcceptCommand_Valid_def split: if_splits)

end
