(* ===== verification/EffectStore.thy ===== *)
theory EffectStore
  imports EffectPort
begin

text \<open>
  The tables of the external-effect kernel (\<open>migrations/0005_external_effects.sql\<close> and its
  successors), the operations of \<open>internal/externaleffects/store.go\<close> on them, and the
  control commands of \<open>runtime.go\<close>.

  A transaction is a function from the tables to an error or to new tables with its answer;
  an error is the rollback, which leaves the tables as they were.  Row locks make the
  transactions on one effect run one after the other, so a transaction sees the tables its
  predecessor committed.  \<open>now\<close> is the database clock (\<open>clock_timestamp()\<close>, read once per
  transaction here), \<open>app\<close> the clock of the process.  The result of the River queue insert
  and the completion sink of the composition root are arguments: \<open>river\<close> is the job
  identifier and the schedule the queue returned, or \<open>None\<close> for its error, and the sink
  answers whether the owner's projection succeeded.
\<close>

datatype effect_error =
    ErrEffectInvalid
  | ErrEffectNotFound
  | ErrPayloadMismatch
  | ErrEffectTransition
  | ErrReconcileRequired
  | ErrReconciliationNotFound
  | ErrReconciliationConflict
  | ErrDatabase
  | ErrQueue
  | ErrSink

subsection \<open>Tables\<close>

record effect_row =
  eff_Envelope :: envelope
  eff_Fingerprint :: digest
  eff_Lane :: lane
  eff_State :: effect_status
  eff_AttemptCount :: int
  eff_Generation :: int
  eff_LeaseFence :: int
  eff_LeaseExpiresAt :: "go_time option"
  eff_UpdatedAt :: go_time

record receipt_row =
  rct_ID :: int
  rct_Operation :: string
  rct_EffectID :: int
  rct_ReceiptKey :: digest
  rct_CommandDigest :: digest
  rct_ActorAdminUserID :: "int option"
  rct_ActorKind :: "string option"
  rct_ActorRef :: "string option"
  rct_State :: effect_status
  rct_CompletedAt :: go_time

record attempt_row =
  atr_EffectID :: int
  atr_Number :: int
  atr_Generation :: int
  atr_Fence :: int
  atr_State :: effect_status
  atr_ReceiptDigest :: "digest option"
  atr_EvidenceDigest :: "digest option"
  atr_CallAttempted :: bool
  atr_RealCall :: bool
  atr_CompletedAt :: "go_time option"

record job_row =
  job_EffectID :: int
  job_Generation :: int
  job_RiverJobID :: int
  job_Queue :: string
  job_ArgsDigest :: digest
  job_ScheduledAt :: go_time

text \<open>\<open>db_completions\<close> records the calls of the completion sink that were committed; they write
  the tables of the owning domains, which are not part of this model.\<close>

record effects_db =
  db_Effects :: "int \<Rightarrow> effect_row option"
  db_NextEffect :: int
  db_Receipts :: "receipt_row list"
  db_Generations :: "(int \<times> int) list"
  db_Attempts :: "attempt_row list"
  db_Jobs :: "job_row list"
  db_Completions :: "(int \<times> attempt \<times> adapter_result) list"

definition empty_db :: effects_db where
  "empty_db = \<lparr>db_Effects = (\<lambda>_. None), db_NextEffect = 1, db_Receipts = [],
     db_Generations = [], db_Attempts = [], db_Jobs = [], db_Completions = []\<rparr>"

subsection \<open>Constraints of the tables\<close>

text \<open>The digest columns accept lower-case hexadecimal only.\<close>

definition digest_column :: "digest \<Rightarrow> bool" where
  "digest_column v \<longleftrightarrow> ValidDigest v \<and>
     list_all (\<lambda>c. (of_char c :: nat) < 65 \<or> 70 < (of_char c :: nat)) (drop 7 v)"

lemma digest_column_Hash [simp]: "digest_column (Hash parts)"
  using hex_encode_lower by (simp add: digest_column_def) (simp add: Hash_def)

definition principal_ok :: "string \<Rightarrow> int option \<Rightarrow> string option \<Rightarrow> string option \<Rightarrow> bool" where
  "principal_ok operation actor akind aref \<longleftrightarrow>
     (case actor of
        Some a \<Rightarrow> 0 < a \<and> akind = None \<and> aref = None
      | None \<Rightarrow>
          (akind = None \<and> aref = None \<and> operation \<notin> {''retry'', ''cancel'', ''reconcile''}) \<or>
          (akind = Some ''system'' \<and> aref = Some SystemActorPaymentProfitSharingDue \<and>
           operation \<notin> {''retry'', ''reconcile''}))"

definition find_receipt ::
  "effects_db \<Rightarrow> string \<Rightarrow> int \<Rightarrow> digest \<Rightarrow> receipt_row option" where
  "find_receipt db operation i key =
     find (\<lambda>r. rct_Operation r = operation \<and> rct_EffectID r = i \<and> rct_ReceiptKey r = key)
       (db_Receipts db)"

definition insert_receipt ::
  "effects_db \<Rightarrow> string \<Rightarrow> int \<Rightarrow> digest \<Rightarrow> digest \<Rightarrow> int option \<Rightarrow> string option \<Rightarrow> string option
    \<Rightarrow> effect_status \<Rightarrow> go_time \<Rightarrow> (effect_error, effects_db) result" where
  "insert_receipt db operation i key command actor akind aref st now =
     (if \<not> digest_column key \<or> \<not> digest_column command \<or> \<not> principal_ok operation actor akind aref \<or>
         find_receipt db operation i key \<noteq> None \<or>
         list_ex (\<lambda>r. rct_Operation r = operation \<and> rct_EffectID r = i \<and>
           rct_CommandDigest r = command) (db_Receipts db) \<or>
         (operation = ''accept'' \<and>
          list_ex (\<lambda>r. rct_Operation r = ''accept'' \<and> rct_ReceiptKey r = key) (db_Receipts db))
      then Inl ErrDatabase
      else Inr (db\<lparr>db_Receipts := db_Receipts db @
        [\<lparr>rct_ID = int (length (db_Receipts db)) + 1, rct_Operation = operation, rct_EffectID = i,
          rct_ReceiptKey = key, rct_CommandDigest = command, rct_ActorAdminUserID = actor,
          rct_ActorKind = akind, rct_ActorRef = aref, rct_State = st, rct_CompletedAt = now\<rparr>]\<rparr>))"

definition insert_generation ::
  "effects_db \<Rightarrow> int \<Rightarrow> int \<Rightarrow> (effect_error, effects_db) result" where
  "insert_generation db i g =
     (if (i, g) \<in> set (db_Generations db) \<or> g < 1 then Inl ErrDatabase
      else Inr (db\<lparr>db_Generations := db_Generations db @ [(i, g)]\<rparr>))"

definition effect_queues :: "string list" where
  "effect_queues = [''outbound'', ''outbound_welcome'', ''outbound_excel'', ''outbound_media'',
     ''ops_notification'']"

definition insert_job ::
  "effects_db \<Rightarrow> int \<Rightarrow> int \<Rightarrow> int \<Rightarrow> string \<Rightarrow> digest \<Rightarrow> go_time \<Rightarrow> (effect_error, effects_db) result" where
  "insert_job db i g job queue args at =
     (if (i, g) \<notin> set (db_Generations db) \<or> queue \<notin> set effect_queues \<or> \<not> digest_column args \<or>
         list_ex (\<lambda>r. job_RiverJobID r = job \<or> job_EffectID r = i \<and> job_Generation r = g) (db_Jobs db)
      then Inl ErrDatabase
      else Inr (db\<lparr>db_Jobs := db_Jobs db @
        [\<lparr>job_EffectID = i, job_Generation = g, job_RiverJobID = job, job_Queue = queue,
          job_ArgsDigest = args, job_ScheduledAt = at\<rparr>]\<rparr>))"

definition digest_option_column :: "digest option \<Rightarrow> bool" where
  "digest_option_column v \<longleftrightarrow> ptr_all digest_column v"

definition insert_attempt ::
  "effects_db \<Rightarrow> attempt_row \<Rightarrow> (effect_error, effects_db) result" where
  "insert_attempt db a =
     (if atr_Number a < 1 \<or> \<not> digest_option_column (atr_ReceiptDigest a) \<or>
         \<not> digest_option_column (atr_EvidenceDigest a) \<or> (atr_RealCall a \<and> \<not> atr_CallAttempted a) \<or>
         list_ex (\<lambda>b. atr_EffectID b = atr_EffectID a \<and> atr_Number b = atr_Number a \<and>
           atr_Generation b = atr_Generation a) (db_Attempts db)
      then Inl ErrDatabase
      else Inr (db\<lparr>db_Attempts := db_Attempts db @ [a]\<rparr>))"

text \<open>\<open>UPDATE external_effect_attempts SET ... WHERE ...\<close> that must touch exactly one row, else
  the caller's error; every new row satisfies the table's checks.\<close>

definition update_attempt ::
  "effects_db \<Rightarrow> (attempt_row \<Rightarrow> bool) \<Rightarrow> (attempt_row \<Rightarrow> attempt_row) \<Rightarrow> effect_error
    \<Rightarrow> (effect_error, effects_db) result" where
  "update_attempt db sel f err =
     (if list_ex (\<lambda>a. sel a \<and> (\<not> digest_option_column (atr_ReceiptDigest (f a)) \<or>
           \<not> digest_option_column (atr_EvidenceDigest (f a)) \<or>
           (atr_RealCall (f a) \<and> \<not> atr_CallAttempted (f a)))) (db_Attempts db)
      then Inl ErrDatabase
      else if length (filter sel (db_Attempts db)) \<noteq> 1 then Inl err
      else Inr (db\<lparr>db_Attempts := map (\<lambda>a. if sel a then f a else a) (db_Attempts db)\<rparr>))"

text \<open>\<open>UPDATE external_effects SET ... WHERE id = i AND ...\<close> that must touch the row.\<close>

definition effect_checks :: "effect_row \<Rightarrow> bool" where
  "effect_checks e \<longleftrightarrow> 0 \<le> eff_AttemptCount e \<and> 0 < eff_Generation e \<and> 0 \<le> eff_LeaseFence e \<and>
     (eff_LeaseFence e = 0 \<or> eff_LeaseExpiresAt e \<noteq> None) \<and>
     (eff_State e \<noteq> StateUnknown \<or> 0 < eff_AttemptCount e)"

definition update_effect ::
  "effects_db \<Rightarrow> int \<Rightarrow> (effect_row \<Rightarrow> bool) \<Rightarrow> (effect_row \<Rightarrow> effect_row) \<Rightarrow> effect_error
    \<Rightarrow> (effect_error, effects_db) result" where
  "update_effect db i sel f err =
     (case db_Effects db i of
        None \<Rightarrow> Inl err
      | Some e \<Rightarrow> if \<not> sel e then Inl err
          else if \<not> effect_checks (f e) then Inl ErrDatabase
          else Inr (db\<lparr>db_Effects := (db_Effects db)(i := Some (f e))\<rparr>))"

subsection \<open>Effect identifiers and projections\<close>

definition effectID :: "int \<Rightarrow> string" where
  "effectID i = ''eer_'' @ format_int i"

text \<open>The loop runs over the runes of the digits; \<open>strconv.ParseInt\<close> fails out of range.\<close>

definition parseEffectID :: "string \<Rightarrow> (effect_error, int) result" where
  "parseEffectID value =
     (if \<not> has_prefix value ''eer_'' then Inl ErrEffectInvalid
      else let digits = drop 4 value in
      if digits = [] \<or> digits ! 0 = CHR ''0'' then Inl ErrEffectInvalid
      else if \<not> list_all (\<lambda>r. 48 \<le> r \<and> r \<le> 57) (runes digits) then Inl ErrEffectInvalid
      else let i = int (digits_value digits) in
      if i > max_int64 \<or> i < 1 then Inl ErrEffectInvalid else Inr i)"

definition projection ::
  "int \<Rightarrow> effect_row \<Rightarrow> projection" where
  "projection i e = \<lparr>prj_ID = effectID i, prj_Owner = env_Owner (eff_Envelope e),
     prj_Kind = env_Kind (eff_Envelope e), prj_State = eff_State e,
     prj_AttemptCount = eff_AttemptCount e, prj_Generation = eff_Generation e,
     prj_UpdatedAt = utc (eff_UpdatedAt e), prj_QueueJobID = 0\<rparr>"

definition receipt_name :: "int \<Rightarrow> string" where
  "receipt_name i = ''eerop_'' @ format_int i"

definition queueJobID :: "effects_db \<Rightarrow> int \<Rightarrow> int \<Rightarrow> (effect_error, int) result" where
  "queueJobID db i g =
     (case find (\<lambda>r. job_EffectID r = i \<and> job_Generation r = g) (db_Jobs db) of
        None \<Rightarrow> Inl ErrDatabase | Some r \<Rightarrow> Inr (job_RiverJobID r))"

definition queueReceiptID :: "effects_db \<Rightarrow> int \<Rightarrow> (effect_error, string) result" where
  "queueReceiptID db i =
     (case find (\<lambda>r. rct_Operation r = ''queue'' \<and> rct_EffectID r = i) (db_Receipts db) of
        None \<Rightarrow> Inl ErrDatabase | Some r \<Rightarrow> Inr (receipt_name (rct_ID r)))"

definition effectQueue :: "kind \<Rightarrow> lane \<Rightarrow> string" where
  "effectQueue k l =
     (if k = KindFeishuOpsNotification \<and> l = LaneOpsNotification then ''ops_notification''
      else if l = LaneOutboundExcel then ''outbound_excel''
      else if l = LaneOutboundMedia then ''outbound_media''
      else if k = KindChannelWelcome then ''outbound_welcome''
      else ''outbound'')"

subsection \<open>Accepting an effect\<close>

definition find_fingerprint :: "effects_db \<Rightarrow> digest \<Rightarrow> int option" where
  "find_fingerprint db fp =
     find (\<lambda>i. case db_Effects db i of None \<Rightarrow> False | Some e \<Rightarrow> eff_Fingerprint e = fp)
       [1..db_NextEffect db - 1]"

definition find_acceptance :: "effects_db \<Rightarrow> digest \<Rightarrow> (receipt_row \<times> effect_row) option" where
  "find_acceptance db key =
     (case find (\<lambda>r. rct_Operation r = ''accept'' \<and> rct_ReceiptKey r = key) (db_Receipts db) of
        None \<Rightarrow> None
      | Some r \<Rightarrow> (case db_Effects db (rct_EffectID r) of None \<Rightarrow> None | Some e \<Rightarrow> Some (r, e)))"

definition replay_acceptance ::
  "effects_db \<Rightarrow> int \<Rightarrow> effect_row \<Rightarrow> receipt_row
    \<Rightarrow> (effect_error, (projection \<times> receipt) \<times> effects_db) result" where
  "replay_acceptance db i e r =
     (case queueJobID db i (eff_Generation e) of Inl err \<Rightarrow> Inl err | Inr job \<Rightarrow>
      case queueReceiptID db i of Inl err \<Rightarrow> Inl err | Inr q \<Rightarrow>
        Inr ((projection i e\<lparr>prj_QueueJobID := job\<rparr>,
          \<lparr>rcp_ID = receipt_name (rct_ID r), rcp_EffectID = effectID i,
           rcp_CommandDigest = rct_CommandDigest r, rcp_ActorAdminUserID = None,
           rcp_State = rct_State r, rcp_CompletedAt = rct_CompletedAt r,
           rcp_QueueReceiptID = q\<rparr>), db))"

definition new_effect_row :: "accept_command \<Rightarrow> go_time \<Rightarrow> effect_row" where
  "new_effect_row command now =
     \<lparr>eff_Envelope = acc_Envelope command, eff_Fingerprint = Fingerprint (acc_Envelope command),
      eff_Lane = acc_Lane command, eff_State = StateAccepted, eff_AttemptCount = 0,
      eff_Generation = 1, eff_LeaseFence = 0, eff_LeaseExpiresAt = None, eff_UpdatedAt = now\<rparr>"

definition insert_effect ::
  "effects_db \<Rightarrow> effect_row \<Rightarrow> (effect_error, effects_db) result" where
  "insert_effect db e =
     (if \<not> list_all digest_column [env_SourceRefDigest (eff_Envelope e),
           env_TargetRefDigest (eff_Envelope e), env_PayloadDigest (eff_Envelope e),
           env_PolicyVersionHash (eff_Envelope e), eff_Fingerprint e] \<or>
         find_fingerprint db (eff_Fingerprint e) \<noteq> None \<or> max_int64 < db_NextEffect db
      then Inl ErrDatabase
      else Inr (db\<lparr>db_Effects := (db_Effects db)(db_NextEffect db := Some e),
                  db_NextEffect := db_NextEffect db + 1\<rparr>))"

text \<open>The rows of a new acceptance: effect, accept receipt and first generation.\<close>

definition insert_accepted ::
  "effects_db \<Rightarrow> accept_command \<Rightarrow> go_time \<Rightarrow> (effect_error, effects_db) result" where
  "insert_accepted db command now =
     (case insert_effect db (new_effect_row command now) of Inl err \<Rightarrow> Inl err | Inr db1 \<Rightarrow>
      case insert_receipt db1 ''accept'' (db_NextEffect db) (acc_ReceiptKey command)
             (AcceptCommand_Digest command) None None None StateAccepted now of
        Inl err \<Rightarrow> Inl err | Inr db2 \<Rightarrow> insert_generation db2 (db_NextEffect db) 1)"

text \<open>Its queue rows: the queued state, the River job and the queue receipt.\<close>

definition queue_accepted ::
  "effects_db \<Rightarrow> int \<Rightarrow> string \<Rightarrow> int \<Rightarrow> go_time \<Rightarrow> go_time \<Rightarrow> (effect_error, effects_db) result" where
  "queue_accepted db i queue job scheduled now =
     (case update_effect db i (\<lambda>_. True) (\<lambda>e. e\<lparr>eff_State := StateQueued, eff_UpdatedAt := now\<rparr>)
             ErrDatabase of Inl err \<Rightarrow> Inl err | Inr db1 \<Rightarrow>
      case insert_job db1 i 1 job queue (Hash [''river-args'', effectID i, ''1'']) scheduled of
        Inl err \<Rightarrow> Inl err | Inr db2 \<Rightarrow>
      insert_receipt db2 ''queue'' i (Hash [''queue'', effectID i])
        (Hash [''queue'', effectID i, format_int job]) None None None StateQueued now)"

definition accept_new ::
  "effects_db \<Rightarrow> accept_command \<Rightarrow> (int \<times> go_time) option \<Rightarrow> go_time
    \<Rightarrow> (effect_error, (projection \<times> receipt) \<times> effects_db) result" where
  "accept_new db command river now =
     (let i = db_NextEffect db; k = env_Kind (acc_Envelope command) in
      case insert_accepted db command now of Inl err \<Rightarrow> Inl err | Inr db1 \<Rightarrow>
      case river of None \<Rightarrow> Inl ErrQueue | Some queued \<Rightarrow>
      case queue_accepted db1 i (effectQueue k (acc_Lane command)) (fst queued) (snd queued) now of
        Inl err \<Rightarrow> Inl err | Inr db2 \<Rightarrow>
      Inr ((\<lparr>prj_ID = effectID i, prj_Owner = env_Owner (acc_Envelope command), prj_Kind = k,
             prj_State = StateQueued, prj_AttemptCount = 0, prj_Generation = 1,
             prj_UpdatedAt = utc now, prj_QueueJobID = fst queued\<rparr>,
            \<lparr>rcp_ID = receipt_name (int (length (db_Receipts db)) + 1), rcp_EffectID = effectID i,
             rcp_CommandDigest = AcceptCommand_Digest command, rcp_ActorAdminUserID = None,
             rcp_State = StateAccepted, rcp_CompletedAt = now,
             rcp_QueueReceiptID = receipt_name (int (length (db_Receipts db1)) + 1)\<rparr>), db2))"

definition acceptAndQueueTx ::
  "effects_db \<Rightarrow> accept_command \<Rightarrow> (int \<times> go_time) option \<Rightarrow> go_time
    \<Rightarrow> (effect_error, (projection \<times> receipt) \<times> effects_db) result" where
  "acceptAndQueueTx db command river now =
     (if \<not> AcceptCommand_Valid command then Inl ErrEffectInvalid
      else case find_acceptance db (acc_ReceiptKey command) of
        Some prior \<Rightarrow>
          if rct_CommandDigest (fst prior) \<noteq> AcceptCommand_Digest command
          then Inl ErrPayloadMismatch
          else replay_acceptance db (rct_EffectID (fst prior)) (snd prior) (fst prior)
      | None \<Rightarrow>
      case find_fingerprint db (Fingerprint (acc_Envelope command)) of
        None \<Rightarrow> accept_new db command river now
      | Some i \<Rightarrow>
        (case find_receipt db ''accept'' i (acc_ReceiptKey command) of
            None \<Rightarrow> Inl ErrPayloadMismatch
          | Some r \<Rightarrow>
              if rct_CommandDigest r \<noteq> AcceptCommand_Digest command then Inl ErrPayloadMismatch
              else case db_Effects db i of None \<Rightarrow> Inl ErrDatabase
                | Some e \<Rightarrow> replay_acceptance db i e r))"

subsection \<open>Reading\<close>

definition Repository_Get :: "effects_db \<Rightarrow> string \<Rightarrow> (effect_error, projection) result" where
  "Repository_Get db ref =
     (case parseEffectID ref of Inl err \<Rightarrow> Inl err | Inr i \<Rightarrow>
      case db_Effects db i of None \<Rightarrow> Inl ErrEffectNotFound | Some e \<Rightarrow> Inr (projection i e))"

definition ReconciliationCandidate ::
  "effects_db \<Rightarrow> string \<Rightarrow> (effect_error, projection \<times> int \<times> go_time) result" where
  "ReconciliationCandidate db ref =
     (case parseEffectID ref of Inl err \<Rightarrow> Inl err | Inr i \<Rightarrow>
      case db_Effects db i of None \<Rightarrow> Inl ErrReconciliationNotFound
      | Some e \<Rightarrow>
        (case eff_LeaseExpiresAt e of
           None \<Rightarrow> Inl ErrReconciliationConflict
         | Some lease \<Rightarrow>
             if eff_State e \<noteq> StateUnknown \<or> eff_Generation e < 1 \<or> eff_LeaseFence e < 1
             then Inl ErrReconciliationConflict
             else Inr (projection i e, eff_LeaseFence e, utc lease)))"

subsection \<open>Owner commands: cancel, client completion\<close>

definition system_actor_kind :: "control_actor \<Rightarrow> string" where
  "system_actor_kind actor = (if ControlActor_System actor then ''system'' else [])"

text \<open>SQL's \<open>NULLIF\<close> against the zero value.\<close>

definition null_text :: "string \<Rightarrow> string option" where
  "null_text s = (if s = [] then None else Some s)"

definition null_int :: "int \<Rightarrow> int option" where
  "null_int i = (if i = 0 then None else Some i)"

definition cancel_digest :: "cancel_command \<Rightarrow> digest" where
  "cancel_digest command =
     (let d = Hash [''cancel'', can_EffectID command, can_ReceiptKey command,
            can_ReasonCode command, format_int (act_AdminUserID (can_Actor command)),
            act_SystemRef (can_Actor command)]
      in if can_OnlyIfUnattempted command then Hash [d, ''only_if_unattempted''] else d)"

definition cancel_queued ::
  "effects_db \<Rightarrow> int \<Rightarrow> effect_row \<Rightarrow> cancel_command \<Rightarrow> go_time
    \<Rightarrow> (effect_error, projection \<times> effects_db) result" where
  "cancel_queued db i e command now =
     (case update_effect db i (\<lambda>e. eff_State e = StateQueued)
             (\<lambda>e. e\<lparr>eff_State := StateCancelled, eff_UpdatedAt := now\<rparr>) ErrDatabase of
        Inl err \<Rightarrow> Inl err | Inr db1 \<Rightarrow>
      case insert_receipt db1 ''cancel'' i (can_ReceiptKey command) (cancel_digest command)
             (null_int (act_AdminUserID (can_Actor command)))
             (null_text (system_actor_kind (can_Actor command)))
             (null_text (act_SystemRef (can_Actor command))) StateCancelled now of
        Inl err \<Rightarrow> Inl err | Inr db2 \<Rightarrow>
      Inr (projection i (e\<lparr>eff_State := StateCancelled, eff_UpdatedAt := now\<rparr>), db2))"

definition CancelQueuedEffectWithin ::
  "effects_db \<Rightarrow> cancel_command \<Rightarrow> go_time \<Rightarrow> (effect_error, projection \<times> effects_db) result" where
  "CancelQueuedEffectWithin db command now =
     (if can_EffectID command = [] \<or> \<not> ValidDigest (can_ReceiptKey command) \<or>
         can_ReasonCode command = [] \<or> length (can_ReasonCode command) > 80 \<or>
         \<not> ControlActor_Valid (can_Actor command)
      then Inl ErrEffectInvalid
      else case parseEffectID (can_EffectID command) of Inl err \<Rightarrow> Inl err | Inr i \<Rightarrow>
      case db_Effects db i of None \<Rightarrow> Inl ErrEffectNotFound
      | Some e \<Rightarrow>
      (case find_receipt db ''cancel'' i (can_ReceiptKey command) of
         Some prior \<Rightarrow>
           if rct_CommandDigest prior \<noteq> cancel_digest command \<or> eff_State e \<noteq> StateCancelled
           then Inl ErrPayloadMismatch
           else Inr (projection i e, db)
       | None \<Rightarrow>
           let sharing = (env_Owner (eff_Envelope e) = OwnerPayment \<and>
                          env_Kind (eff_Envelope e) = KindWeChatPayProfitSharing) in
           if ControlActor_System (can_Actor command) \<and> \<not> sharing then Inl ErrEffectInvalid
           else if can_OnlyIfUnattempted command \<and> \<not> sharing then Inl ErrEffectInvalid
           else if can_OnlyIfUnattempted command \<and>
             (eff_State e \<noteq> StateQueued \<or> eff_AttemptCount e \<noteq> 0)
           then Inr (projection i e, db)
           else if eff_State e \<noteq> StateQueued then Inl ErrEffectTransition
           else cancel_queued db i e command now))"

definition client_digest :: "client_completion_command \<Rightarrow> digest" where
  "client_digest command = Hash [''client-complete'', cli_EffectID command, cli_ReceiptKey command,
     cli_EvidenceDigest command, state_text (cli_State command)]"

definition client_attempt ::
  "int \<Rightarrow> effect_row \<Rightarrow> client_completion_command \<Rightarrow> go_time \<Rightarrow> attempt_row" where
  "client_attempt i e command now =
     \<lparr>atr_EffectID = i, atr_Number = wrap32 (eff_AttemptCount e + 1),
      atr_Generation = eff_Generation e, atr_Fence = 0, atr_State = cli_State command,
      atr_ReceiptDigest = Some (cli_EvidenceDigest command),
      atr_EvidenceDigest = Some (cli_EvidenceDigest command), atr_CallAttempted = True,
      atr_RealCall = (cli_State command = StateExecuted \<or> cli_State command = StateUnknown),
      atr_CompletedAt = Some now\<rparr>"

definition complete_client ::
  "effects_db \<Rightarrow> int \<Rightarrow> effect_row \<Rightarrow> client_completion_command \<Rightarrow> go_time
    \<Rightarrow> (effect_error, projection \<times> effects_db) result" where
  "complete_client db i e command now =
     (let attempts = wrap32 (eff_AttemptCount e + 1);
          f = (\<lambda>e. e\<lparr>eff_State := cli_State command, eff_AttemptCount := attempts,
                    eff_UpdatedAt := now\<rparr>) in
      case insert_attempt db (client_attempt i e command now) of Inl err \<Rightarrow> Inl err | Inr db1 \<Rightarrow>
      case update_effect db1 i (\<lambda>_. True) f ErrDatabase of Inl err \<Rightarrow> Inl err | Inr db2 \<Rightarrow>
      case insert_receipt db2 ''complete'' i (cli_ReceiptKey command) (client_digest command)
             None None None (cli_State command) now of Inl err \<Rightarrow> Inl err | Inr db3 \<Rightarrow>
      Inr (projection i (f e), db3))"

definition CompleteClientEffectWithin ::
  "effects_db \<Rightarrow> client_completion_command \<Rightarrow> go_time
    \<Rightarrow> (effect_error, projection \<times> effects_db) result" where
  "CompleteClientEffectWithin db command now =
     (if cli_EffectID command = [] \<or> \<not> ValidDigest (cli_ReceiptKey command) \<or>
         \<not> ValidDigest (cli_EvidenceDigest command) \<or>
         (cli_State command \<noteq> StateExecuted \<and> cli_State command \<noteq> StateUnknown \<and>
          cli_State command \<noteq> StateFinalFailed)
      then Inl ErrEffectInvalid
      else case parseEffectID (cli_EffectID command) of Inl err \<Rightarrow> Inl err | Inr i \<Rightarrow>
      case db_Effects db i of None \<Rightarrow> Inl ErrEffectNotFound
      | Some e \<Rightarrow>
      if env_Kind (eff_Envelope e) \<noteq> KindSidebarJSSDKSend then Inl ErrEffectInvalid
      else case find_receipt db ''complete'' i (cli_ReceiptKey command) of
        Some prior \<Rightarrow>
          if rct_CommandDigest prior \<noteq> client_digest command then Inl ErrPayloadMismatch
          else Inr (projection i e, db)
      | None \<Rightarrow>
          if eff_State e \<noteq> StateQueued then Inl ErrEffectTransition
          else complete_client db i e command now)"

end
