(* ===== verification/EffectControl.thy ===== *)
theory EffectControl
  imports EffectStore
begin

text \<open>
  Operator and owner control of existing effects: the command of
  \<open>internal/externaleffects/runtime.go\<close>, \<open>controlWithin\<close> with its retry, cancel and
  reconcile branches (\<open>store.go\<close>), the tag-catalog retry (\<open>tag_catalog_retry.go\<close>), the
  invoice finality (\<open>invoice_finality.go\<close>) and the two evidence readers
  (\<open>stopped_attempt.go\<close>, \<open>final_failure_proof.go\<close>).
\<close>

subsection \<open>runtime.go\<close>

record control_command =
  ctl_EffectID :: string
  ctl_ReceiptKey :: digest
  ctl_EvidenceDigest :: digest
  ctl_ActorAdminUserID :: int
  ctl_Generation :: int
  ctl_Fence :: int
  ctl_LeaseExpiresAt :: go_time
  ctl_ReconciliationOutcome :: string
  ctl_ReconciliationArtifact :: result_artifact

definition ControlCommand_Valid :: "control_command \<Rightarrow> bool" where
  "ControlCommand_Valid c \<longleftrightarrow> has_prefix (ctl_EffectID c) ''eer_'' \<and> ValidDigest (ctl_ReceiptKey c) \<and>
     ctl_ActorAdminUserID c > 0"

definition ControlCommand_Digest :: "control_command \<Rightarrow> string \<Rightarrow> digest" where
  "ControlCommand_Digest c op =
     (if \<not> ControlCommand_Valid c \<or> (op = ''reconcile'' \<and> \<not> ValidDigest (ctl_EvidenceDigest c))
      then []
      else Hash [op, ctl_EffectID c, ctl_ReceiptKey c, ctl_EvidenceDigest c,
        format_int (ctl_ActorAdminUserID c), ctl_ReconciliationOutcome c,
        art_Digest (ctl_ReconciliationArtifact c)])"

fun CanTransition :: "effect_status \<Rightarrow> effect_status \<Rightarrow> bool" where
  "CanTransition StateAccepted to = (to = StateQueued \<or> to = StateCancelled)"
| "CanTransition StateQueued to = (to = StateAttempted \<or> to = StateCancelled)"
| "CanTransition StateAttempted to =
     (to = StateExecuted \<or> to = StateUnknown \<or> to = StateRetryable \<or> to = StateFinalFailed)"
| "CanTransition StateRetryable to = (to = StateQueued)"
| "CanTransition StateUnknown to = (to = StateReconciled)"
| "CanTransition _ to = False"

subsection \<open>The completion sink\<close>

type_synonym completion_sink = "string \<Rightarrow> envelope \<Rightarrow> attempt \<Rightarrow> adapter_result \<Rightarrow> bool"

definition CompleteEffect ::
  "completion_sink \<Rightarrow> effects_db \<Rightarrow> int \<Rightarrow> envelope \<Rightarrow> attempt \<Rightarrow> adapter_result
    \<Rightarrow> (effect_error, effects_db) result" where
  "CompleteEffect sink db i env a res =
     (if sink (effectID i) env a res
      then Inr (db\<lparr>db_Completions := db_Completions db @ [(i, a, res)]\<rparr>) else Inl ErrSink)"

definition attempt_of :: "int \<Rightarrow> int \<Rightarrow> int \<Rightarrow> int \<Rightarrow> attempt" where
  "attempt_of i number generation fence = \<lparr>atp_EffectID = effectID i, atp_Number = number,
     atp_Generation = generation, atp_Fence = fence\<rparr>"

subsection \<open>controlWithin\<close>

definition media_lane :: "effect_row \<Rightarrow> bool" where
  "media_lane e \<longleftrightarrow> env_Kind (eff_Envelope e) = KindOutboundMedia \<and> eff_Lane e = LaneOutboundMedia"

definition media_outcome_ok :: "control_command \<Rightarrow> bool" where
  "media_outcome_ok c =
     (let a = ctl_ReconciliationArtifact c in
      if ctl_ReconciliationOutcome c = ''no_effect''
      then \<not> (art_Kind a \<noteq> [] \<or> length (art_Payload a) \<noteq> 0 \<or> art_Digest a \<noteq> [])
      else if ctl_ReconciliationOutcome c = ''confirmed_effect''
      then \<not> (\<not> Artifact_Valid a \<or> art_Kind a \<noteq> ''outbound.material.upload.v1'')
      else False)"

definition fenced :: "control_command \<Rightarrow> bool" where
  "fenced c \<longleftrightarrow> ctl_Generation c \<noteq> 0 \<or> ctl_Fence c \<noteq> 0 \<or> \<not> is_zero (ctl_LeaseExpiresAt c)"

definition fence_matches :: "control_command \<Rightarrow> effect_row \<Rightarrow> go_time \<Rightarrow> bool" where
  "fence_matches c e app \<longleftrightarrow>
     \<not> (ctl_Generation c < 1 \<or> ctl_Fence c < 1 \<or> is_zero (ctl_LeaseExpiresAt c) \<or>
        eff_Generation e \<noteq> ctl_Generation c \<or> eff_LeaseFence e \<noteq> ctl_Fence c \<or>
        (case eff_LeaseExpiresAt e of None \<Rightarrow> True
         | Some lease \<Rightarrow> lease \<noteq> utc (ctl_LeaseExpiresAt c) \<or> after lease (utc app)))"

text \<open>The branch of the operation: the next state and generation.\<close>

definition control_next ::
  "string \<Rightarrow> effect_row \<Rightarrow> (effect_error, effect_status \<times> int) result" where
  "control_next operation e =
     (if operation = ''cancel'' then
        (if eff_State e \<noteq> StateAccepted \<and> eff_State e \<noteq> StateQueued then Inl ErrEffectTransition
         else Inr (StateCancelled, eff_Generation e))
      else if operation = ''retry'' then
        (if eff_State e \<noteq> StateRetryable then Inl ErrEffectTransition
         else Inr (StateQueued, wrap64 (eff_Generation e + 1)))
      else if operation = ''reconcile'' then
        (if eff_State e \<noteq> StateUnknown then Inl ErrReconcileRequired
         else if env_Kind (eff_Envelope e) = KindAIAgentGenerate \<or>
                 env_Kind (eff_Envelope e) = KindAIRecommend
         then Inl ErrReconcileRequired
         else Inr (StateReconciled, eff_Generation e))
      else Inl ErrEffectInvalid)"

definition enqueue_retry ::
  "effects_db \<Rightarrow> int \<Rightarrow> effect_row \<Rightarrow> string \<Rightarrow> int \<Rightarrow> int option \<Rightarrow> go_time
    \<Rightarrow> (effect_error, effects_db) result" where
  "enqueue_retry db i e ref generation river now =
     (case insert_generation db i generation of Inl err \<Rightarrow> Inl err | Inr db1 \<Rightarrow>
      case river of None \<Rightarrow> Inl ErrQueue | Some job \<Rightarrow>
      insert_job db1 i generation job (effectQueue (env_Kind (eff_Envelope e)) (eff_Lane e))
        (Hash [''river-args'', ref, format_int generation]) now)"

definition reconcile_attempt ::
  "effects_db \<Rightarrow> int \<Rightarrow> effect_row \<Rightarrow> control_command \<Rightarrow> go_time \<Rightarrow> (effect_error, effects_db) result" where
  "reconcile_attempt db i e c now =
     update_attempt db
       (\<lambda>a. atr_EffectID a = i \<and> atr_Generation a = eff_Generation e \<and>
            atr_Fence a = eff_LeaseFence e \<and> atr_State a = StateUnknown \<and>
            (\<not> fenced c \<or> ptr_all (\<lambda>lease. lease \<le> now) (eff_LeaseExpiresAt e)))
       (\<lambda>a. a\<lparr>atr_State := StateReconciled, atr_EvidenceDigest := Some (ctl_EvidenceDigest c),
              atr_CompletedAt := Some now\<rparr>)
       ErrReconcileRequired"

definition control_projects :: "effect_row \<Rightarrow> bool" where
  "control_projects e \<longleftrightarrow>
     (let k = env_Kind (eff_Envelope e) in
      k = KindWeComTagCatalog \<or> k = KindWeComTagCatalogMutation \<or> k = KindOutboundMessage \<or>
      media_lane e \<or> k = KindAutomationMessage \<or> k = KindAIAgentGenerate \<or> k = KindAIRecommend \<or>
      k = KindFeishuOpsNotification \<or> k = KindInvitationCode)"

definition control_completion ::
  "effect_row \<Rightarrow> control_command \<Rightarrow> effect_status \<Rightarrow> digest \<Rightarrow> adapter_result" where
  "control_completion e c nxt digest =
     (let r = no_result\<lparr>res_Completion := nxt, res_ReceiptDigest := digest\<rparr> in
      if media_lane e then
        (if ctl_ReconciliationOutcome c = ''no_effect''
         then r\<lparr>res_FailureCode := ''reconciled_no_effect''\<rparr>
         else r\<lparr>res_Completion := StateExecuted, res_Artifact := ctl_ReconciliationArtifact c\<rparr>)
      else r)"

text \<open>The effect row, the receipt and the owner's projection.\<close>

definition control_commit ::
  "completion_sink option \<Rightarrow> effects_db \<Rightarrow> int \<Rightarrow> effect_row \<Rightarrow> control_command \<Rightarrow> string
    \<Rightarrow> effect_status \<Rightarrow> int \<Rightarrow> go_time \<Rightarrow> (effect_error, effects_db) result" where
  "control_commit sink db i e c operation nxt generation now =
     (case update_effect db i (\<lambda>_. True) (\<lambda>e. e\<lparr>eff_State := nxt, eff_Generation := generation,
             eff_UpdatedAt := now\<rparr>) ErrDatabase of Inl err \<Rightarrow> Inl err | Inr db1 \<Rightarrow>
      case insert_receipt db1 operation i (ctl_ReceiptKey c) (ControlCommand_Digest c operation)
             (Some (ctl_ActorAdminUserID c)) None None nxt now of Inl err \<Rightarrow> Inl err | Inr db2 \<Rightarrow>
      case sink of None \<Rightarrow> Inr db2
      | Some f \<Rightarrow>
          if control_projects e
          then CompleteEffect f db2 i (eff_Envelope e)
            (attempt_of i (eff_AttemptCount e) generation (eff_LeaseFence e))
            (control_completion e c nxt (ControlCommand_Digest c operation))
          else Inr db2)"

text \<open>The rows the operation writes before the effect: a retry's generation and job, a
  reconciliation's attempt.\<close>

definition control_rows ::
  "effects_db \<Rightarrow> int \<Rightarrow> effect_row \<Rightarrow> control_command \<Rightarrow> string \<Rightarrow> int \<Rightarrow> int option \<Rightarrow> go_time
    \<Rightarrow> (effect_error, effects_db) result" where
  "control_rows db i e c operation generation river now =
     (case (if operation = ''retry'' then enqueue_retry db i e (ctl_EffectID c) generation river now
            else Inr db) of Inl err \<Rightarrow> Inl err | Inr db1 \<Rightarrow>
      if operation = ''reconcile'' then reconcile_attempt db1 i e c now else Inr db1)"

definition controlWithin ::
  "completion_sink option \<Rightarrow> effects_db \<Rightarrow> control_command \<Rightarrow> string \<Rightarrow> int option
    \<Rightarrow> go_time \<Rightarrow> go_time \<Rightarrow> (effect_error, projection \<times> effects_db) result" where
  "controlWithin sink db c operation river app now =
     (if \<not> ControlCommand_Valid c \<or> (operation = ''reconcile'' \<and> \<not> ValidDigest (ctl_EvidenceDigest c))
      then Inl ErrEffectInvalid
      else case parseEffectID (ctl_EffectID c) of Inl err \<Rightarrow> Inl err | Inr i \<Rightarrow>
      case db_Effects db i of None \<Rightarrow> Inl ErrEffectNotFound
      | Some e \<Rightarrow>
      if operation = ''reconcile'' \<and> env_Owner (eff_Envelope e) = OwnerPayment
      then Inl ErrReconcileRequired
      else if operation = ''reconcile'' \<and> media_lane e \<and> \<not> media_outcome_ok c
      then Inl ErrReconcileRequired
      else if operation = ''reconcile'' \<and> fenced c \<and> \<not> fence_matches c e app
      then Inl ErrReconcileRequired
      else case find_receipt db operation i (ctl_ReceiptKey c) of
        Some old \<Rightarrow>
          if rct_CommandDigest old \<noteq> ControlCommand_Digest c operation then Inl ErrPayloadMismatch
          else Inr (projection i e, db)
      | None \<Rightarrow>
      case control_next operation e of Inl err \<Rightarrow> Inl err | Inr nxt \<Rightarrow>
      case control_rows db i e c operation (snd nxt) river now of Inl err \<Rightarrow> Inl err | Inr db1 \<Rightarrow>
      case control_commit sink db1 i e c operation (fst nxt) (snd nxt) now of
        Inl err \<Rightarrow> Inl err | Inr db2 \<Rightarrow>
      Inr (projection i (e\<lparr>eff_State := fst nxt, eff_Generation := snd nxt, eff_UpdatedAt := now\<rparr>), db2))"

subsection \<open>Entry points of the control operations\<close>

definition plain_control :: "string \<Rightarrow> digest \<Rightarrow> int \<Rightarrow> control_command" where
  "plain_control ref key actor = \<lparr>ctl_EffectID = ref, ctl_ReceiptKey = key, ctl_EvidenceDigest = [],
     ctl_ActorAdminUserID = actor, ctl_Generation = 0, ctl_Fence = 0, ctl_LeaseExpiresAt = 0,
     ctl_ReconciliationOutcome = [], ctl_ReconciliationArtifact = no_artifact\<rparr>"

definition fenced_control :: "reconcile_command \<Rightarrow> go_time \<Rightarrow> control_command" where
  "fenced_control c lease = (plain_control (rec_EffectID c) (rec_ReceiptKey c)
       (rec_ActorAdminUserID c))\<lparr>ctl_EvidenceDigest := rec_EvidenceDigest c,
     ctl_Generation := rec_Generation c, ctl_Fence := rec_Fence c, ctl_LeaseExpiresAt := lease\<rparr>"

definition ReconcileWithin ::
  "completion_sink option \<Rightarrow> effects_db \<Rightarrow> control_command \<Rightarrow> go_time \<Rightarrow> go_time
    \<Rightarrow> (effect_error, effects_db) result" where
  "ReconcileWithin sink db c app now =
     (case controlWithin sink db c ''reconcile'' None app now of
        Inl err \<Rightarrow> Inl err | Inr r \<Rightarrow> Inr (snd r))"

definition ReconcileEffectWithin ::
  "completion_sink option \<Rightarrow> effects_db \<Rightarrow> reconcile_command \<Rightarrow> go_time \<Rightarrow> go_time
    \<Rightarrow> (effect_error, projection \<times> effects_db) result" where
  "ReconcileEffectWithin sink db c app now =
     (case controlWithin sink db (fenced_control c (rec_LeaseExpiresAt c)) ''reconcile'' None app now of
        Inl err \<Rightarrow>
          if err = ErrEffectNotFound then Inl ErrReconciliationNotFound
          else if err = ErrReconcileRequired \<or> err = ErrEffectTransition \<or> err = ErrPayloadMismatch
          then Inl ErrReconciliationConflict
          else Inl err
      | Inr r \<Rightarrow> Inr r)"

definition ReconcileUnknownWithin ::
  "completion_sink option \<Rightarrow> effects_db \<Rightarrow> reconcile_command \<Rightarrow> go_time \<Rightarrow> go_time
    \<Rightarrow> (effect_error, effects_db) result" where
  "ReconcileUnknownWithin sink db c app now =
     (if rec_EffectID c = [] \<or> \<not> ValidDigest (rec_ReceiptKey c) \<or>
         \<not> ValidDigest (rec_EvidenceDigest c) \<or> rec_ActorAdminUserID c < 1 \<or>
         rec_Generation c < 1 \<or> rec_Fence c < 1
      then Inl ErrEffectInvalid
      else case parseEffectID (rec_EffectID c) of Inl err \<Rightarrow> Inl err | Inr i \<Rightarrow>
      case db_Effects db i of None \<Rightarrow> Inl ErrReconcileRequired
      | Some e \<Rightarrow>
          if eff_State e \<noteq> StateUnknown \<or> eff_Generation e \<noteq> rec_Generation c \<or>
             eff_LeaseFence e \<noteq> rec_Fence c
          then Inl ErrReconcileRequired
          else case eff_LeaseExpiresAt e of None \<Rightarrow> Inl ErrReconcileRequired
          | Some lease \<Rightarrow> ReconcileWithin sink db (fenced_control c lease) app now)"

subsection \<open>tag_catalog_retry.go\<close>

definition safeTagCatalogRetryAttempt ::
  "int \<Rightarrow> string \<Rightarrow> digest \<Rightarrow> int \<Rightarrow> effect_status \<Rightarrow> digest \<Rightarrow> bool \<Rightarrow> bool \<Rightarrow> bool \<Rightarrow> bool" where
  "safeTagCatalogRetryAttempt i ref fingerprint number st receipt called executed completed =
     (if \<not> completed \<or> executed \<or> \<not> ValidDigest receipt then False
      else if st = StateRetryable then \<not> called
      else if st \<noteq> StateFinalFailed then False
      else let n = format_int number in
      if receipt = Hash [''wecom.tag.catalog.mutation.rejected'', ref, n] then True
      else \<not> called \<and>
        (receipt = Hash [''provider-disabled'', format_int i, n] \<or>
         receipt = Hash [''outbound.provider.not-configured'', kind_text KindWeComTagCatalogMutation] \<or>
         (ValidDigest fingerprint \<and>
          receipt = Hash [''wecom.tag.catalog.mutation.dispatch_changed'', fingerprint])))"

text \<open>\<open>SELECT ... WHERE effect_id = i ORDER BY number\<close>.\<close>

definition attempts_of :: "effects_db \<Rightarrow> int \<Rightarrow> attempt_row list" where
  "attempts_of db i = sort_key atr_Number (filter (\<lambda>a. atr_EffectID a = i) (db_Attempts db))"

text \<open>The loops over the attempts: every number is the count of the rows read so far.\<close>

fun all_numbered :: "(attempt_row \<Rightarrow> bool) \<Rightarrow> int \<Rightarrow> attempt_row list \<Rightarrow> bool" where
  "all_numbered P seen [] = True"
| "all_numbered P seen (a # as) =
     (atr_Number a = wrap32 (seen + 1) \<and> P a \<and> all_numbered P (wrap32 (seen + 1)) as)"

definition tag_retry_safe :: "effects_db \<Rightarrow> int \<Rightarrow> string \<Rightarrow> digest \<Rightarrow> bool" where
  "tag_retry_safe db i ref fingerprint = all_numbered
     (\<lambda>a. safeTagCatalogRetryAttempt i ref fingerprint (atr_Number a) (atr_State a)
        (case atr_ReceiptDigest a of None \<Rightarrow> [] | Some d \<Rightarrow> d) (atr_CallAttempted a) (atr_RealCall a)
        (atr_CompletedAt a \<noteq> None)) 0 (attempts_of db i)"

text \<open>\<open>busy\<close> is the outcome of \<open>FOR UPDATE NOWAIT\<close> when another transaction holds the row.\<close>

definition tag_retry_ready ::
  "effects_db \<Rightarrow> int \<Rightarrow> effect_row \<Rightarrow> tag_retry_command \<Rightarrow> (effect_error, effects_db) result" where
  "tag_retry_ready db i e c =
     (if find_receipt db ''retry'' i (tag_ReceiptKey c) \<noteq> None then Inr db
      else if (eff_State e \<noteq> StateFinalFailed \<and> eff_State e \<noteq> StateRetryable) \<or>
         eff_AttemptCount e < 1
      then Inl ErrReconciliationConflict
      else if \<not> tag_retry_safe db i (tag_EffectID c) (eff_Fingerprint e) \<or>
         wrap32 (int (length (attempts_of db i))) \<noteq> eff_AttemptCount e
      then Inl ErrReconciliationConflict
      else update_effect db i (\<lambda>_. True) (\<lambda>e. e\<lparr>eff_State := StateRetryable\<rparr>) ErrDatabase)"

definition RetryTagCatalogMutationWithin ::
  "completion_sink option \<Rightarrow> effects_db \<Rightarrow> tag_retry_command \<Rightarrow> bool \<Rightarrow> int option \<Rightarrow> go_time \<Rightarrow> go_time
    \<Rightarrow> (effect_error, projection \<times> effects_db) result" where
  "RetryTagCatalogMutationWithin sink db c busy river app now =
     (let control = plain_control (tag_EffectID c) (tag_ReceiptKey c) (tag_ActorAdminUserID c) in
      if \<not> ControlCommand_Valid control \<or> \<not> ValidDigest (tag_SourceRefDigest c)
      then Inl ErrReconciliationConflict
      else case parseEffectID (tag_EffectID c) of Inl _ \<Rightarrow> Inl ErrReconciliationConflict | Inr i \<Rightarrow>
      if busy then Inl ErrReconciliationConflict
      else case db_Effects db i of None \<Rightarrow> Inl ErrReconciliationNotFound
      | Some e \<Rightarrow>
      if env_Owner (eff_Envelope e) \<noteq> OwnerOutbound \<or>
         env_Kind (eff_Envelope e) \<noteq> KindWeComTagCatalogMutation \<or>
         env_SourceRefDigest (eff_Envelope e) \<noteq> tag_SourceRefDigest c
      then Inl ErrReconciliationConflict
      else case tag_retry_ready db i e c of Inl err \<Rightarrow> Inl err | Inr db1 \<Rightarrow>
      case controlWithin sink db1 control ''retry'' river app now of
        Inl err \<Rightarrow>
          if err = ErrEffectTransition \<or> err = ErrPayloadMismatch then Inl ErrReconciliationConflict
          else Inl err
      | Inr r \<Rightarrow> Inr r)"

subsection \<open>invoice_finality.go\<close>

definition invoice_receipt ::
  "effects_db \<Rightarrow> int \<Rightarrow> string \<Rightarrow> string \<Rightarrow> digest \<Rightarrow> effect_status \<Rightarrow> go_time
    \<Rightarrow> (effect_error, effects_db) result" where
  "invoice_receipt db i ref operation evidence nxt now =
     (case update_effect db i (\<lambda>_. True) (\<lambda>e. e\<lparr>eff_State := nxt, eff_UpdatedAt := now\<rparr>)
             ErrDatabase of Inl err \<Rightarrow> Inl err | Inr db1 \<Rightarrow>
      let receipt = Hash [''invoice.finality'', ref, operation, evidence] in
      insert_receipt db1 ''complete'' i receipt receipt None None None nxt now)"

text \<open>\<open>busy\<close>: \<open>FOR UPDATE SKIP LOCKED\<close> found the row locked, which reads as no row.\<close>

definition invoiceFinality ::
  "effects_db \<Rightarrow> string \<Rightarrow> digest \<Rightarrow> bool \<Rightarrow> bool \<Rightarrow> go_time \<Rightarrow> (effect_error, effects_db) result" where
  "invoiceFinality db ref evidence cancel busy now =
     (if \<not> ValidDigest evidence then Inl ErrEffectInvalid
      else case parseEffectID ref of Inl err \<Rightarrow> Inl err | Inr i \<Rightarrow>
      if busy then Inr db
      else case db_Effects db i of None \<Rightarrow> Inr db
      | Some e \<Rightarrow>
      if env_Owner (eff_Envelope e) \<noteq> OwnerInvoice \<or>
         (env_Kind (eff_Envelope e) \<noteq> KindInvoiceIssue \<and> env_Kind (eff_Envelope e) \<noteq> KindInvoiceReverse)
      then Inl ErrEffectInvalid
      else if cancel then
        (if eff_State e \<noteq> StateQueued \<and> eff_State e \<noteq> StateAccepted then Inr db
         else invoice_receipt db i ref ''cancel'' evidence StateCancelled now)
      else
        (if eff_State e \<noteq> StateUnknown \<or>
            (case eff_LeaseExpiresAt e of None \<Rightarrow> True | Some lease \<Rightarrow> \<not> lease \<le> now)
         then Inr db
         else case update_attempt db
             (\<lambda>a. atr_EffectID a = i \<and> atr_Generation a = eff_Generation e \<and>
                  atr_Fence a = eff_LeaseFence e \<and> atr_State a = StateUnknown)
             (\<lambda>a. a\<lparr>atr_State := StateReconciled, atr_EvidenceDigest := Some evidence,
                    atr_CompletedAt := Some now\<rparr>) ErrReconcileRequired of
           Inl err \<Rightarrow> Inl err
         | Inr db1 \<Rightarrow> invoice_receipt db1 i ref ''reconcile'' evidence StateReconciled now))"

definition ReconcileInvoiceWithin ::
  "effects_db \<Rightarrow> string \<Rightarrow> digest \<Rightarrow> bool \<Rightarrow> go_time \<Rightarrow> (effect_error, effects_db) result" where
  "ReconcileInvoiceWithin db ref evidence busy now = invoiceFinality db ref evidence False busy now"

definition CancelInvoiceWithin ::
  "effects_db \<Rightarrow> string \<Rightarrow> digest \<Rightarrow> bool \<Rightarrow> go_time \<Rightarrow> (effect_error, effects_db) result" where
  "CancelInvoiceWithin db ref evidence busy now = invoiceFinality db ref evidence True busy now"

subsection \<open>Evidence readers\<close>

definition StoppedAttemptWithin ::
  "effects_db \<Rightarrow> string \<Rightarrow> (effect_error, projection \<times> go_time) result" where
  "StoppedAttemptWithin db ref =
     (case parseEffectID ref of Inl err \<Rightarrow> Inl err | Inr i \<Rightarrow>
      case db_Effects db i of None \<Rightarrow> Inl ErrEffectNotFound
      | Some e \<Rightarrow>
      case find (\<lambda>a. atr_EffectID a = i \<and> atr_Number a = eff_AttemptCount e \<and>
                     atr_Generation a = eff_Generation e) (db_Attempts db) of
        None \<Rightarrow> Inl ErrEffectNotFound
      | Some a \<Rightarrow>
      (case atr_CompletedAt a of
         None \<Rightarrow> Inl ErrReconciliationConflict
       | Some completed \<Rightarrow>
           if eff_State e \<noteq> StateUnknown \<or> atr_State a \<noteq> StateUnknown \<or> eff_AttemptCount e \<noteq> 1
           then Inl ErrReconciliationConflict
           else Inr (projection i e, utc completed)))"

definition no_call_attempt :: "attempt_row \<Rightarrow> bool" where
  "no_call_attempt a \<longleftrightarrow>
     \<not> (atr_State a \<noteq> StateFinalFailed \<or> atr_CallAttempted a \<or> atr_RealCall a \<or> atr_CompletedAt a = None)"

text \<open>The latest completion: replaced while it is the zero instant or an attempt ended later.\<close>

definition latest_completion :: "attempt_row list \<Rightarrow> go_time" where
  "latest_completion as = foldl (\<lambda>c a. case atr_CompletedAt a of None \<Rightarrow> c
     | Some t \<Rightarrow> if is_zero c \<or> after t c then utc t else c) 0 as"

definition FinalFailureWithoutExternalCallWithin ::
  "effects_db \<Rightarrow> string \<Rightarrow> owner \<Rightarrow> kind \<Rightarrow> bool \<Rightarrow> (effect_error, projection \<times> go_time) result" where
  "FinalFailureWithoutExternalCallWithin db ref own k busy =
     (case parseEffectID ref of Inl _ \<Rightarrow> Inl ErrReconciliationConflict | Inr i \<Rightarrow>
      if owner_text own = [] \<or> kind_text k = [] \<or> busy then Inl ErrReconciliationConflict
      else case db_Effects db i of None \<Rightarrow> Inl ErrEffectNotFound
      | Some e \<Rightarrow>
      if env_Owner (eff_Envelope e) \<noteq> own \<or> env_Kind (eff_Envelope e) \<noteq> k \<or>
         eff_State e \<noteq> StateFinalFailed \<or> eff_AttemptCount e < 1
      then Inl ErrReconciliationConflict
      else let as = attempts_of db i in
      if \<not> all_numbered no_call_attempt 0 as then Inl ErrReconciliationConflict
      else if wrap32 (int (length as)) \<noteq> eff_AttemptCount e \<or> is_zero (latest_completion as)
      then Inl ErrReconciliationConflict
      else Inr (projection i e, latest_completion as))"

end
