(* ===== verification/EffectRun.thy ===== *)
theory EffectRun
  imports EffectControl
begin

text \<open>
  \<open>RunAttempt\<close> of \<open>internal/externaleffects/store.go\<close> and its callers in \<open>worker.go\<close> and
  \<open>recovery_river.go\<close>.  \<open>RunAttempt\<close> is two transactions with the provider call between
  them, so it is two definitions here: \<open>claim_attempt\<close> (prove that this job owns the queued
  generation, write the attempted fact; or recover an expired attempt) and
  \<open>finish_attempt\<close> (record the outcome against the same attempt and fence).  What the
  adapter answered is classified by \<open>classify_outcome\<close> in between.
\<close>

subsection \<open>The claim\<close>

datatype claim_outcome =
    ClaimNothing
  | ClaimSnooze duration
  | ClaimRecovered effects_db
  | ClaimStarted effects_db attempt string

definition projectsStaleAttempt :: "kind \<Rightarrow> bool" where
  "projectsStaleAttempt k \<longleftrightarrow> k \<in> {KindPrivateMessageControl, KindFeishuOpsNotification,
     KindInvitationCode, KindOutboundMedia, KindWeComTagCatalog, KindWeComTagCatalogMutation,
     KindWeComContactDescription, KindGroupMessage, KindChannelAsset, KindChannelWelcome,
     KindChannelEntryTag, KindChannelLink, KindOutboundMessage, KindAutomationMessage,
     KindSurveyCompletion, KindCustomerTagCommand, KindCustomerOwnerHandoff,
     KindCommerceProductPush, KindAIAgentGenerate, KindAIRecommend, KindSidebarJSSDKSend,
     KindInvoiceIssue, KindInvoiceReverse, KindInvoiceCardConfigure}"

text \<open>The row joined with its current job.\<close>

definition current_job :: "effects_db \<Rightarrow> int \<Rightarrow> int \<Rightarrow> int \<Rightarrow> (effect_row \<times> job_row) option" where
  "current_job db i generation river =
     (case db_Effects db i of None \<Rightarrow> None
      | Some e \<Rightarrow>
         if eff_Generation e \<noteq> generation then None
         else map_option (Pair e) (find (\<lambda>j. job_EffectID j = i \<and> job_Generation j = generation \<and>
                job_RiverJobID j = river) (db_Jobs db)))"

definition recovery_digest :: "int \<Rightarrow> effect_row \<Rightarrow> digest" where
  "recovery_digest i e = Hash [''attempt-lease-expired'', effectID i, format_int (eff_Generation e),
     format_int (eff_AttemptCount e), format_int (eff_LeaseFence e)]"

definition recover_project ::
  "completion_sink option \<Rightarrow> effects_db \<Rightarrow> int \<Rightarrow> effect_row \<Rightarrow> (effect_error, effects_db) result" where
  "recover_project sink db i e =
     (case sink of None \<Rightarrow> Inr db
      | Some f \<Rightarrow>
          if env_Owner (eff_Envelope e) = OwnerPayment \<or> projectsStaleAttempt (env_Kind (eff_Envelope e))
          then CompleteEffect f db i (eff_Envelope e)
            (attempt_of i (eff_AttemptCount e) (eff_Generation e) (eff_LeaseFence e))
            (no_result\<lparr>res_Completion := StateUnknown, res_ReceiptDigest := recovery_digest i e,
               res_CallAttempted := (env_Kind (eff_Envelope e) \<noteq> KindSidebarJSSDKSend)\<rparr>)
          else Inr db)"

definition recover_attempt ::
  "completion_sink option \<Rightarrow> effects_db \<Rightarrow> int \<Rightarrow> effect_row \<Rightarrow> go_time \<Rightarrow> (effect_error, effects_db) result" where
  "recover_attempt sink db i e now =
     (case update_attempt db
         (\<lambda>a. atr_EffectID a = i \<and> atr_Number a = eff_AttemptCount e \<and>
              atr_Generation a = eff_Generation e \<and> atr_Fence a = eff_LeaseFence e \<and>
              atr_State a = StateAttempted)
         (\<lambda>a. a\<lparr>atr_State := StateUnknown, atr_ReceiptDigest := Some (recovery_digest i e),
                atr_CompletedAt := Some now\<rparr>) ErrEffectTransition of Inl err \<Rightarrow> Inl err | Inr db1 \<Rightarrow>
      case update_effect db1 i
         (\<lambda>e. eff_State e = StateAttempted \<and> ptr_all (\<lambda>lease. lease \<le> now) (eff_LeaseExpiresAt e))
         (\<lambda>e. e\<lparr>eff_State := StateUnknown, eff_UpdatedAt := now\<rparr>) ErrEffectTransition of
        Inl err \<Rightarrow> Inl err | Inr db2 \<Rightarrow>
      recover_project sink db2 i e)"

definition lease_duration :: duration where
  "lease_duration = 5 * minute"

definition start_attempt ::
  "effects_db \<Rightarrow> int \<Rightarrow> effect_row \<Rightarrow> go_time \<Rightarrow> (effect_error, effects_db) result" where
  "start_attempt db i e now =
     (let attempts = wrap32 (eff_AttemptCount e + 1); fence = wrap64 (eff_LeaseFence e + 1) in
      case update_effect db i (\<lambda>e. eff_State e = StateQueued)
         (\<lambda>e. e\<lparr>eff_State := StateAttempted, eff_AttemptCount := attempts, eff_LeaseFence := fence,
                eff_LeaseExpiresAt := Some (now + lease_duration), eff_UpdatedAt := now\<rparr>)
         ErrEffectTransition of Inl err \<Rightarrow> Inl err | Inr db1 \<Rightarrow>
      insert_attempt db1 \<lparr>atr_EffectID = i, atr_Number = attempts,
        atr_Generation = eff_Generation e, atr_Fence = fence, atr_State = StateAttempted,
        atr_ReceiptDigest = None, atr_EvidenceDigest = None, atr_CallAttempted = False,
        atr_RealCall = False, atr_CompletedAt = None\<rparr>)"

definition claim_attempt ::
  "completion_sink option \<Rightarrow> effects_db \<Rightarrow> int \<Rightarrow> int \<Rightarrow> int \<Rightarrow> go_time \<Rightarrow> go_time
    \<Rightarrow> (effect_error, claim_outcome) result" where
  "claim_attempt sink db i generation river app now =
     (case current_job db i generation river of None \<Rightarrow> Inr ClaimNothing
      | Some (e, job) \<Rightarrow>
      if eff_State e = StateAttempted then
        (case eff_LeaseExpiresAt e of
           Some lease \<Rightarrow>
             if after lease app
             then Inr (ClaimSnooze (if lease - app < second then second else lease - app))
             else (case recover_attempt sink db i e now of
                     Inl err \<Rightarrow> Inl err | Inr db1 \<Rightarrow> Inr (ClaimRecovered db1))
         | None \<Rightarrow> (case recover_attempt sink db i e now of
                     Inl err \<Rightarrow> Inl err | Inr db1 \<Rightarrow> Inr (ClaimRecovered db1)))
      else if eff_State e \<noteq> StateQueued then Inr ClaimNothing
      else case start_attempt db i e now of Inl err \<Rightarrow> Inl err
        | Inr db1 \<Rightarrow> Inr (ClaimStarted db1 (attempt_of i (wrap32 (eff_AttemptCount e + 1))
            (eff_Generation e) (wrap64 (eff_LeaseFence e + 1))) (job_Queue job)))"

text \<open>The envelope is read again between the two transactions.\<close>

definition claimed_envelope :: "effects_db \<Rightarrow> int \<Rightarrow> int \<Rightarrow> envelope option" where
  "claimed_envelope db i generation =
     (case db_Effects db i of None \<Rightarrow> None
      | Some e \<Rightarrow> if eff_Generation e = generation then Some (eff_Envelope e) else None)"

subsection \<open>Classifying the adapter's answer\<close>

definition excel_message :: "kind \<Rightarrow> string \<Rightarrow> bool" where
  "excel_message k queue \<longleftrightarrow>
     (k = KindOutboundMessage \<or> k = KindAutomationMessage) \<and> queue = ''outbound_excel''"

definition media_upload :: "kind \<Rightarrow> string \<Rightarrow> bool" where
  "media_upload k queue \<longleftrightarrow> k = KindOutboundMedia \<and> queue = ''outbound_media''"

text \<open>The chain of conditions on an answer without an error: next state and receipt.\<close>

definition classify_answer ::
  "int \<Rightarrow> int \<Rightarrow> kind \<Rightarrow> string \<Rightarrow> adapter_result \<Rightarrow> effect_status \<times> digest" where
  "classify_answer i attempts k queue r =
     (let invalid = Hash [''provider-invalid'', format_int i, format_int attempts];
          called = res_CallAttempted r; executed = res_RealExternalCallExecuted r;
          failed = (if called then StateUnknown else StateFinalFailed) in
      if \<not> ValidDigest (res_ReceiptDigest r) \<or> (executed \<and> \<not> called) then (failed, invalid)
      else if res_Completion r = StateExecuted \<and> k = KindPrivateMessageControl \<and> \<not> called \<and>
         \<not> executed \<and> art_Kind (res_Artifact r) = ''outbound.private-control.v1'' \<and>
         Artifact_Valid (res_Artifact r)
      then (StateExecuted, res_ReceiptDigest r)
      else if res_Completion r = StateExecuted \<and> called \<and> executed
      then (StateExecuted, res_ReceiptDigest r)
      else if res_Completion r = StateExecuted \<and> k = KindWeComContactDescription \<and> called \<and>
         \<not> executed \<and> Artifact_Valid (res_Artifact r)
      then (StateExecuted, res_ReceiptDigest r)
      else if res_Completion r = StateUnknown \<and> (called \<or> k = KindSidebarJSSDKSend)
      then (StateUnknown, res_ReceiptDigest r)
      else if res_Completion r = StateRetryable \<and>
         (\<not> called \<or> ((media_upload k queue \<or> excel_message k queue) \<and> called \<and> \<not> executed \<and>
            res_SafeToRetryRejected r))
      then (StateRetryable, res_ReceiptDigest r)
      else if res_Completion r = StateFinalFailed then (StateFinalFailed, res_ReceiptDigest r)
      else (failed, invalid))"

text \<open>What the provider boundary yields: no adapter at all, or an answer and whether it came
  with an error.\<close>

definition classify_call ::
  "int \<Rightarrow> int \<Rightarrow> kind \<Rightarrow> string \<Rightarrow> (adapter_result \<times> bool) option \<Rightarrow> effect_status \<times> digest" where
  "classify_call i attempts k queue outcome =
     (case outcome of
        None \<Rightarrow> (StateFinalFailed, Hash [''provider-disabled'', format_int i, format_int attempts])
      | Some (r, failed) \<Rightarrow>
          if failed
          then (if res_CallAttempted r then StateUnknown else StateRetryable,
                Hash [''provider-error'', format_int i, format_int attempts])
          else classify_answer i attempts k queue r)"

definition needs_artifact :: "kind \<Rightarrow> bool" where
  "needs_artifact k \<longleftrightarrow> k \<in> {KindPrivateMessageControl, KindOutboundMedia, KindWeComTagCatalog,
     KindWeComTagCatalogMutation, KindChannelAsset, KindChannelLink, KindCustomerOwnerHandoff,
     KindAIAgentGenerate, KindAIRecommend}"

definition call_result :: "(adapter_result \<times> bool) option \<Rightarrow> adapter_result" where
  "call_result outcome = (case outcome of None \<Rightarrow> no_result | Some (r, _) \<Rightarrow> r)"

definition classify_outcome ::
  "bool \<Rightarrow> int \<Rightarrow> int \<Rightarrow> kind \<Rightarrow> string \<Rightarrow> (adapter_result \<times> bool) option \<Rightarrow> effect_status \<times> digest" where
  "classify_outcome has_sink i attempts k queue outcome =
     (let c = classify_call i attempts k queue outcome in
      if fst c = StateExecuted \<and> needs_artifact k \<and>
         (\<not> has_sink \<or> \<not> Artifact_Valid (res_Artifact (call_result outcome)))
      then (StateUnknown, Hash [''provider-artifact-invalid'', format_int i, format_int attempts])
      else c)"

definition autoRetryLane :: "kind \<Rightarrow> string \<Rightarrow> bool \<Rightarrow> bool" where
  "autoRetryLane k queue callAttempted \<longleftrightarrow> media_upload k queue \<or> excel_message k queue \<or>
     (k = KindFeishuOpsNotification \<and> queue = ''ops_notification'' \<and> \<not> callAttempted)"

subsection \<open>The completion\<close>

definition completes_owner :: "envelope \<Rightarrow> bool" where
  "completes_owner env \<longleftrightarrow> env_Kind env \<in> {KindPrivateMessageControl, KindOutboundMedia,
     KindGroupMessage, KindWeComTagCatalog, KindWeComTagCatalogMutation, KindWeComContactDescription,
     KindChannelAsset, KindChannelWelcome, KindChannelEntryTag, KindCustomerTagCommand,
     KindCustomerOwnerHandoff, KindCommerceProductPush, KindInvitationCode, KindChannelLink,
     KindOutboundMessage, KindAutomationMessage, KindSidebarJSSDKSend, KindSurveyCompletion,
     KindAIAgentGenerate, KindAIRecommend, KindFeishuOpsNotification} \<or>
     env_Owner env = OwnerPayment \<or> env_Owner env = OwnerInvoice"

definition providerAutomaticRetryDelay :: "int \<Rightarrow> duration" where
  "providerAutomaticRetryDelay attempt =
     (if attempt = 1 then second else if attempt = 2 then 5 * second
      else if attempt = 3 then 30 * second else 2 * minute)"

definition finish_rows ::
  "effects_db \<Rightarrow> int \<Rightarrow> attempt \<Rightarrow> effect_status \<Rightarrow> effect_status \<Rightarrow> digest \<Rightarrow> adapter_result \<Rightarrow> go_time
    \<Rightarrow> (effect_error, effects_db) result" where
  "finish_rows db i a nxt persisted receipt res now =
     (case update_attempt db
         (\<lambda>r. atr_EffectID r = i \<and> atr_Number r = atp_Number a \<and>
              atr_Generation r = atp_Generation a \<and> atr_Fence r = atp_Fence a \<and>
              atr_State r = StateAttempted)
         (\<lambda>r. r\<lparr>atr_State := nxt, atr_ReceiptDigest := Some receipt,
                atr_CallAttempted := res_CallAttempted res,
                atr_RealCall := res_RealExternalCallExecuted res, atr_CompletedAt := Some now\<rparr>)
         ErrEffectTransition of Inl err \<Rightarrow> Inl err | Inr db1 \<Rightarrow>
      update_effect db1 i
        (\<lambda>e. eff_Generation e = atp_Generation a \<and> eff_LeaseFence e = atp_Fence a \<and>
             eff_State e = StateAttempted)
        (\<lambda>e. e\<lparr>eff_State := persisted, eff_UpdatedAt := now\<rparr>) ErrEffectTransition)"

text \<open>The answer: the snooze of an automatic retry, or nothing.\<close>

definition finish_attempt ::
  "completion_sink option \<Rightarrow> effects_db \<Rightarrow> int \<Rightarrow> attempt \<Rightarrow> string \<Rightarrow> envelope
    \<Rightarrow> (adapter_result \<times> bool) option \<Rightarrow> go_time \<Rightarrow> (effect_error, duration option \<times> effects_db) result" where
  "finish_attempt sink db i a queue env outcome now =
     (let c = classify_outcome (sink \<noteq> None) i (atp_Number a) (env_Kind env) queue outcome;
          nxt = fst c; receipt = snd c; res = call_result outcome;
          autoRetry = (autoRetryLane (env_Kind env) queue (res_CallAttempted res) \<and>
                       nxt = StateRetryable \<and> atp_Number a < 5);
          persisted = (if autoRetry then StateQueued else nxt);
          answer = (if autoRetry then Some (providerAutomaticRetryDelay (atp_Number a)) else None) in
      case finish_rows db i a nxt persisted receipt res now of Inl err \<Rightarrow> Inl err | Inr db1 \<Rightarrow>
      case sink of None \<Rightarrow> Inr (answer, db1)
      | Some f \<Rightarrow>
          if (nxt = StateExecuted \<or> nxt = StateUnknown \<or> nxt = StateRetryable \<or> nxt = StateFinalFailed) \<and>
             completes_owner env
          then (case CompleteEffect f db1 i env a (res\<lparr>res_Completion := persisted,
                   res_ReceiptDigest := (if ValidDigest (res_ReceiptDigest res)
                     then res_ReceiptDigest res else receipt)\<rparr>) of
                  Inl err \<Rightarrow> Inl err | Inr db2 \<Rightarrow> Inr (answer, db2))
          else Inr (answer, db1))"

subsection \<open>worker.go\<close>

definition QueuedEnvelope ::
  "effects_db \<Rightarrow> int \<Rightarrow> int \<Rightarrow> int \<Rightarrow> (effect_error, envelope option) result" where
  "QueuedEnvelope db i generation river =
     (if i < 1 \<or> generation < 1 \<or> river < 1 then Inl ErrEffectInvalid
      else case current_job db i generation river of None \<Rightarrow> Inr None
      | Some (e, _) \<Rightarrow>
          if eff_State e \<noteq> StateQueued then Inr None
          else if \<not> Envelope_Valid (eff_Envelope e) then Inl ErrEffectInvalid
          else Inr (Some (eff_Envelope e)))"

text \<open>What the worker returns to River: success, a plain error, a snooze, or an error joined with
  the one-minute snooze that keeps the job alive.\<close>

datatype work_return =
    WorkDone
  | WorkError effect_error
  | WorkSnooze duration
  | WorkErrorSnooze effect_error duration

definition deferEffectRecovery :: "effect_error \<Rightarrow> work_return" where
  "deferEffectRecovery err =
     (if err = ErrEffectInvalid then WorkError err else WorkErrorSnooze err minute)"

text \<open>The gate before \<open>RunAttempt\<close>: the preflighter, when the adapter is one, answers for a
  queued envelope whether it is ready, when to come back, or an error.  \<open>None\<close> means go on.\<close>

definition preflight_gate ::
  "(envelope \<Rightarrow> string \<Rightarrow> (effect_error, bool \<times> duration) result) option
    \<Rightarrow> effects_db \<Rightarrow> int \<Rightarrow> int \<Rightarrow> int \<Rightarrow> work_return option" where
  "preflight_gate preflight db i generation river =
     (case preflight of None \<Rightarrow> None
      | Some p \<Rightarrow>
      (case QueuedEnvelope db i generation river of
         Inl err \<Rightarrow> Some (deferEffectRecovery err)
       | Inr None \<Rightarrow> None
       | Inr (Some env) \<Rightarrow>
         (case p env (effectID i) of
            Inl err \<Rightarrow> Some (deferEffectRecovery err)
          | Inr r \<Rightarrow> if fst r then None
              else Some (WorkSnooze (if snd r < second then second else snd r)))))"

text \<open>The worker's timeout, and \<open>RecoverDiscardedAttempts\<close>: the jobs of expired attempts of
  every owner but Payment, in the order of their effects, that are handed back to River.  The scan skips
  the rows that other transactions hold (\<open>SKIP LOCKED\<close>), which are an argument.\<close>

definition worker_timeout :: duration where
  "worker_timeout = 4 * minute + 30 * second"

definition recoverable :: "effects_db \<Rightarrow> go_time \<Rightarrow> int \<Rightarrow> bool" where
  "recoverable db now i =
     (case db_Effects db i of None \<Rightarrow> False
      | Some e \<Rightarrow> eff_State e = StateAttempted \<and> env_Owner (eff_Envelope e) \<noteq> OwnerPayment \<and>
          ptr_all (\<lambda>lease. lease \<le> now) (eff_LeaseExpiresAt e) \<and>
          list_ex (\<lambda>a. atr_EffectID a = i \<and> atr_Generation a = eff_Generation e \<and>
            atr_Number a = eff_AttemptCount e \<and> atr_Fence a = eff_LeaseFence e \<and>
            atr_State a = StateAttempted) (db_Attempts db))"

definition RecoverDiscardedAttempts :: "effects_db \<Rightarrow> int list \<Rightarrow> go_time \<Rightarrow> job_row list" where
  "RecoverDiscardedAttempts db locked now = concat (map (\<lambda>i. filter (\<lambda>j. job_EffectID j = i \<and>
       (case db_Effects db i of None \<Rightarrow> False | Some e \<Rightarrow> job_Generation j = eff_Generation e))
     (db_Jobs db)) (filter (\<lambda>i. recoverable db now i \<and> i \<notin> set locked) [1..db_NextEffect db - 1]))"

end
