(* ===== verification/EffectSpec.thy ===== *)
theory EffectSpec
  imports EffectRun
begin

text \<open>
  The abstract life of one external effect: what the transactions may do to its row and to
  its attempts, as an inductive relation \<open>estep\<close>, with the invariant \<open>effect_inv\<close> of an
  effect.  The next theory shows that every transaction of the store is such a step.
\<close>

record estate =
  es_Owner :: owner
  es_Kind :: kind
  es_Fingerprint :: digest
  es_State :: effect_status
  es_Count :: int
  es_Generation :: int
  es_Fence :: int
  es_Attempts :: "attempt_row list"

definition initial_estate :: "accept_command \<Rightarrow> estate" where
  "initial_estate c = \<lparr>es_Owner = env_Owner (acc_Envelope c), es_Kind = env_Kind (acc_Envelope c),
     es_Fingerprint = Fingerprint (acc_Envelope c), es_State = StateQueued, es_Count = 0,
     es_Generation = 1, es_Fence = 0, es_Attempts = []\<rparr>"

text \<open>An update of the one attempt that a transaction selected: number, generation and fence of
  an attempt never change.\<close>

definition same_key :: "attempt_row \<Rightarrow> attempt_row \<Rightarrow> bool" where
  "same_key a b \<longleftrightarrow> atr_EffectID b = atr_EffectID a \<and> atr_Number b = atr_Number a \<and>
     atr_Generation b = atr_Generation a \<and> atr_Fence b = atr_Fence a"

definition rewrite :: "(attempt_row \<Rightarrow> bool) \<Rightarrow> (attempt_row \<Rightarrow> attempt_row) \<Rightarrow> attempt_row list \<Rightarrow> attempt_row list" where
  "rewrite sel g as = map (\<lambda>a. if sel a then g a else a) as"

definition settled_states :: "effect_status set" where
  "settled_states = {StateExecuted, StateUnknown, StateRetryable, StateFinalFailed}"

inductive estep :: "estate \<Rightarrow> estate \<Rightarrow> bool" where
  es_start: "es_State s = StateQueued \<Longrightarrow> n = wrap32 (es_Count s + 1) \<Longrightarrow> 1 \<le> n \<Longrightarrow>
    f = wrap64 (es_Fence s + 1) \<Longrightarrow> 0 \<le> f \<Longrightarrow> atr_Number a = n \<Longrightarrow>
    atr_Generation a = es_Generation s \<Longrightarrow> atr_Fence a = f \<Longrightarrow> atr_State a = StateAttempted \<Longrightarrow>
    estep s (s\<lparr>es_State := StateAttempted, es_Count := n, es_Fence := f,
               es_Attempts := es_Attempts s @ [a]\<rparr>)"
| es_settle: "es_State s = StateAttempted \<Longrightarrow> a \<in> set (es_Attempts s) \<Longrightarrow> sel a \<Longrightarrow>
    (\<And>b. sel b \<Longrightarrow> atr_State b = StateAttempted \<and> same_key b (g b) \<and> atr_State (g b) = nxt) \<Longrightarrow>
    nxt \<in> settled_states \<Longrightarrow>
    persisted = nxt \<or> (nxt = StateRetryable \<and> persisted = StateQueued \<and> atr_Number a < 5) \<Longrightarrow>
    estep s (s\<lparr>es_State := persisted, es_Attempts := rewrite sel g (es_Attempts s)\<rparr>)"
| es_cancel: "es_State s \<in> {StateAccepted, StateQueued} \<Longrightarrow>
    estep s (s\<lparr>es_State := StateCancelled\<rparr>)"
| es_client: "es_State s = StateQueued \<Longrightarrow> es_Kind s = KindSidebarJSSDKSend \<Longrightarrow>
    n = wrap32 (es_Count s + 1) \<Longrightarrow> 1 \<le> n \<Longrightarrow> st \<in> {StateExecuted, StateUnknown, StateFinalFailed} \<Longrightarrow>
    atr_Number a = n \<Longrightarrow> atr_Generation a = es_Generation s \<Longrightarrow> atr_Fence a = 0 \<Longrightarrow>
    atr_State a = st \<Longrightarrow>
    estep s (s\<lparr>es_State := st, es_Count := n, es_Attempts := es_Attempts s @ [a]\<rparr>)"
| es_retry: "es_State s = StateRetryable \<or>
      (es_State s = StateFinalFailed \<and> es_Kind s = KindWeComTagCatalogMutation \<and>
       (\<forall>a \<in> set (es_Attempts s). \<not> atr_RealCall a)) \<Longrightarrow>
    g = wrap64 (es_Generation s + 1) \<Longrightarrow> 0 < g \<Longrightarrow>
    estep s (s\<lparr>es_State := StateQueued, es_Generation := g\<rparr>)"
| es_reconcile: "es_State s = StateUnknown \<Longrightarrow> es_Owner s \<noteq> OwnerPayment \<Longrightarrow>
    (\<And>b. sel b \<Longrightarrow> atr_State b = StateUnknown \<and> same_key b (g b) \<and> atr_State (g b) = StateReconciled) \<Longrightarrow>
    estep s (s\<lparr>es_State := StateReconciled, es_Attempts := rewrite sel g (es_Attempts s)\<rparr>)"

inductive_cases estepE: "estep s t"

subsection \<open>The invariant of an effect\<close>

definition attempt_inv :: "estate \<Rightarrow> attempt_row \<Rightarrow> bool" where
  "attempt_inv s a \<longleftrightarrow> 1 \<le> atr_Number a \<and> atr_Number a \<le> es_Count s \<and>
     atr_Generation a \<le> es_Generation s \<and>
     (atr_State a = StateAttempted \<longrightarrow> es_State s = StateAttempted \<and> atr_Number a = es_Count s \<and>
        atr_Generation a = es_Generation s \<and> atr_Fence a = es_Fence s)"

definition effect_inv :: "estate \<Rightarrow> bool" where
  "effect_inv s \<longleftrightarrow> 0 \<le> es_Count s \<and> in32 (es_Count s) \<and> 1 \<le> es_Generation s \<and>
     in64 (es_Generation s) \<and> 0 \<le> es_Fence s \<and> in64 (es_Fence s) \<and>
     list_all (attempt_inv s) (es_Attempts s) \<and> distinct (map atr_Number (es_Attempts s)) \<and>
     (es_State s = StateAttempted \<longrightarrow> list_ex (\<lambda>a. atr_State a = StateAttempted) (es_Attempts s)) \<and>
     es_Count s \<le> es_Generation s + 4 \<and>
     (es_State s = StateQueued \<longrightarrow> es_Count s \<le> es_Generation s + 3)"

lemma wrap32_Suc_pos:
  assumes "0 \<le> c" "in32 c" "1 \<le> wrap32 (c + 1)"
  shows "wrap32 (c + 1) = c + 1"
proof (cases "c = 2 ^ 31 - 1")
  case True
  with assms(3) show ?thesis by (simp add: wrap32_def)
next
  case False
  with assms show ?thesis by (intro wrap32_id) (simp add: in32_def)
qed

lemma wrap64_Suc_pos:
  assumes "0 \<le> c" "in64 c" "0 \<le> wrap64 (c + 1)"
  shows "wrap64 (c + 1) = c + 1"
proof (cases "c = 2 ^ 63 - 1")
  case True
  with assms(3) show ?thesis by (simp add: wrap64_def)
next
  case False
  with assms show ?thesis by (intro wrap64_id) (simp add: in64_def)
qed

lemma initial_estate_inv: "effect_inv (initial_estate c)"
  by (simp add: effect_inv_def initial_estate_def in32_def in64_def)

lemma rewrite_numbers:
  "(\<And>b. sel b \<Longrightarrow> same_key b (g b)) \<Longrightarrow> map atr_Number (rewrite sel g as) = map atr_Number as"
  by (simp add: rewrite_def same_key_def)

lemma set_rewrite: "b \<in> set (rewrite sel g as) \<Longrightarrow> \<exists>a \<in> set as. b = (if sel a then g a else a)"
  by (auto simp: rewrite_def)

text \<open>The steps that append an attempt and the steps that rewrite one.\<close>

lemma append_inv:
  assumes i: "effect_inv s" and n: "atr_Number a = es_Count s + 1" and c: "in32 (es_Count s + 1)"
    and q: "es_State s = StateQueued" and g: "atr_Generation a = es_Generation s"
    and f: "0 \<le> f" "in64 f" and st: "st \<noteq> StateQueued"
    and att: "atr_State a = StateAttempted \<longleftrightarrow> st = StateAttempted"
      "st = StateAttempted \<longrightarrow> atr_Fence a = f"
  shows "effect_inv (s\<lparr>es_State := st, es_Count := es_Count s + 1, es_Fence := f,
      es_Attempts := es_Attempts s @ [a]\<rparr>)"
proof -
  let ?t = "s\<lparr>es_State := st, es_Count := es_Count s + 1, es_Fence := f,
      es_Attempts := es_Attempts s @ [a]\<rparr>"
  have old: "atr_State b \<noteq> StateAttempted \<and> atr_Number b \<le> es_Count s \<and> attempt_inv ?t b"
    if "b \<in> set (es_Attempts s)" for b
    using i q that by (auto simp: effect_inv_def list_all_iff attempt_inv_def)
  have "attempt_inv ?t a"
    using i n g att by (simp add: attempt_inv_def effect_inv_def)
  moreover have "atr_Number a \<notin> atr_Number ` set (es_Attempts s)"
    using old n by force
  ultimately show ?thesis
    using i q n c f st att old by (simp add: effect_inv_def list_all_iff list_ex_iff)
qed

lemma rewrite_inv:
  assumes i: "effect_inv s"
    and sel: "\<And>b. sel b \<Longrightarrow> same_key b (g b) \<and> atr_State (g b) \<noteq> StateAttempted"
    and rest: "\<And>b. b \<in> set (es_Attempts s) \<Longrightarrow> atr_State b = StateAttempted \<Longrightarrow> sel b"
    and st: "st \<noteq> StateAttempted" "st = StateQueued \<longrightarrow> es_Count s \<le> es_Generation s + 3"
  shows "effect_inv (s\<lparr>es_State := st, es_Attempts := rewrite sel g (es_Attempts s)\<rparr>)"
proof -
  let ?t = "s\<lparr>es_State := st, es_Attempts := rewrite sel g (es_Attempts s)\<rparr>"
  have "attempt_inv ?t b" if b: "b \<in> set (rewrite sel g (es_Attempts s))" for b
  proof -
    from set_rewrite [OF b] obtain a where a: "a \<in> set (es_Attempts s)"
      and ba: "b = (if sel a then g a else a)" by blast
    have "attempt_inv s a" using i a by (simp add: effect_inv_def list_all_iff)
    moreover have "same_key a b" using ba sel by (auto simp: same_key_def)
    moreover have "atr_State b \<noteq> StateAttempted" using ba sel rest [OF a] by auto
    ultimately show ?thesis by (simp add: attempt_inv_def same_key_def)
  qed
  then show ?thesis
    using i st sel by (simp add: effect_inv_def list_all_iff rewrite_numbers)
qed

lemma attempted_unique:
  assumes i: "effect_inv s" and a: "a \<in> set (es_Attempts s)" "atr_State a = StateAttempted"
    and b: "b \<in> set (es_Attempts s)" "atr_State b = StateAttempted"
  shows "b = a"
proof -
  have "attempt_inv s a" "attempt_inv s b" using i a b by (simp_all add: effect_inv_def list_all_iff)
  then have "atr_Number b = atr_Number a" using a b by (simp add: attempt_inv_def)
  moreover have "inj_on atr_Number (set (es_Attempts s))"
    using i by (simp add: effect_inv_def distinct_map)
  ultimately show ?thesis using a b by (simp add: inj_on_def)
qed

lemma not_attempted:
  "effect_inv s \<Longrightarrow> es_State s \<noteq> StateAttempted \<Longrightarrow> b \<in> set (es_Attempts s) \<Longrightarrow>
     atr_State b \<noteq> StateAttempted"
  by (auto simp: effect_inv_def list_all_iff attempt_inv_def)

lemma state_only_inv:
  assumes "effect_inv s" and "es_State s \<noteq> StateAttempted" and "st \<noteq> StateAttempted"
    and "st = StateQueued \<longrightarrow> es_Count s \<le> g + 3" and "es_Generation s \<le> g" and "in64 g"
  shows "effect_inv (s\<lparr>es_State := st, es_Generation := g\<rparr>)"
proof -
  have "attempt_inv (s\<lparr>es_State := st, es_Generation := g\<rparr>) b" if b: "b \<in> set (es_Attempts s)" for b
    using assms(1,5) not_attempted [OF assms(1,2) b] b
    by (auto simp: effect_inv_def list_all_iff attempt_inv_def)
  then show ?thesis using assms by (simp add: effect_inv_def list_all_iff)
qed

lemma estep_inv:
  assumes "estep s t" and i: "effect_inv s"
  shows "effect_inv t"
  using assms(1)
proof cases
  case (es_start n f a)
  have c: "0 \<le> es_Count s" "in32 (es_Count s)" "0 \<le> es_Fence s" "in64 (es_Fence s)"
    using i by (simp_all add: effect_inv_def)
  have n: "n = es_Count s + 1" using es_start c wrap32_Suc_pos by simp
  have "in32 (es_Count s + 1)" using n es_start(3) by (metis in32_wrap32)
  moreover have "in64 f" using es_start by simp
  ultimately have "effect_inv (s\<lparr>es_State := StateAttempted, es_Count := es_Count s + 1,
      es_Fence := f, es_Attempts := es_Attempts s @ [a]\<rparr>)"
    using es_start n by (intro append_inv [OF i]) simp_all
  then show ?thesis by (simp only: es_start(1) n)
next
  case (es_settle a sel g nxt persisted)
  have sel: "\<And>b. sel b \<Longrightarrow> same_key b (g b) \<and> atr_State (g b) \<noteq> StateAttempted"
    using es_settle(5,6) by (auto simp: settled_states_def)
  have a: "atr_State a = StateAttempted" using es_settle by blast
  have rest: "sel b" if "b \<in> set (es_Attempts s)" "atr_State b = StateAttempted" for b
    using attempted_unique [OF i es_settle(3) a that] es_settle(4) by simp
  have "atr_Number a = es_Count s"
    using i a es_settle(3) by (simp add: effect_inv_def list_all_iff attempt_inv_def)
  then have p1: "persisted = StateQueued \<longrightarrow> es_Count s \<le> es_Generation s + 3"
    using es_settle(6,7) i by (auto simp: settled_states_def effect_inv_def)
  have p2: "persisted \<noteq> StateAttempted"
    using es_settle(6,7) by (auto simp: settled_states_def)
  have "effect_inv (s\<lparr>es_State := persisted, es_Attempts := rewrite sel g (es_Attempts s)\<rparr>)"
    by (rule rewrite_inv [OF i]) (use sel rest p1 p2 in simp_all)
  with es_settle(1) show ?thesis by simp
next
  case es_cancel
  then have "effect_inv (s\<lparr>es_State := StateCancelled, es_Generation := es_Generation s\<rparr>)"
    using i by (intro state_only_inv) (auto simp: effect_inv_def)
  with es_cancel show ?thesis by simp
next
  case (es_client n st a)
  have c: "0 \<le> es_Count s" "in32 (es_Count s)" using i by (simp_all add: effect_inv_def)
  have n: "n = es_Count s + 1" using es_client c wrap32_Suc_pos by simp
  have "in32 (es_Count s + 1)" using n es_client(4) by (metis in32_wrap32)
  then have "effect_inv (s\<lparr>es_State := st, es_Count := es_Count s + 1, es_Fence := es_Fence s,
      es_Attempts := es_Attempts s @ [a]\<rparr>)"
    using es_client n i by (intro append_inv) (auto simp: effect_inv_def)
  with es_client n show ?thesis by simp
next
  case (es_retry g)
  have "0 \<le> es_Generation s" "in64 (es_Generation s)" using i by (simp_all add: effect_inv_def)
  then have g: "g = es_Generation s + 1" using es_retry wrap64_Suc_pos by simp
  moreover have "in64 g" using es_retry by simp
  ultimately have "effect_inv (s\<lparr>es_State := StateQueued, es_Generation := g\<rparr>)"
    using es_retry i by (intro state_only_inv) (auto simp: effect_inv_def)
  with es_retry show ?thesis by simp
next
  case (es_reconcile sel g)
  have "\<And>b. sel b \<Longrightarrow> same_key b (g b) \<and> atr_State (g b) \<noteq> StateAttempted"
    using es_reconcile by auto
  moreover have "\<And>b. b \<in> set (es_Attempts s) \<Longrightarrow> atr_State b = StateAttempted \<Longrightarrow> sel b"
    using not_attempted [OF i] es_reconcile by auto
  ultimately have "effect_inv (s\<lparr>es_State := StateReconciled,
      es_Attempts := rewrite sel g (es_Attempts s)\<rparr>)"
    by (intro rewrite_inv [OF i]) simp_all
  with es_reconcile(1) show ?thesis by simp
qed

subsection \<open>What a step keeps\<close>

definition attempt_keys :: "estate \<Rightarrow> (int \<times> int \<times> int) set" where
  "attempt_keys s = (\<lambda>a. (atr_Number a, atr_Generation a, atr_Fence a)) ` set (es_Attempts s)"

lemma keys_rewrite:
  "(\<And>b. sel b \<Longrightarrow> same_key b (g b)) \<Longrightarrow>
     (\<lambda>a. (atr_Number a, atr_Generation a, atr_Fence a)) ` set (rewrite sel g as) =
     (\<lambda>a. (atr_Number a, atr_Generation a, atr_Fence a)) ` set as"
proof -
  assume "\<And>b. sel b \<Longrightarrow> same_key b (g b)"
  then have "map (\<lambda>a. (atr_Number a, atr_Generation a, atr_Fence a)) (rewrite sel g as) =
      map (\<lambda>a. (atr_Number a, atr_Generation a, atr_Fence a)) as"
    by (simp add: rewrite_def same_key_def)
  from arg_cong [OF this, of set] show ?thesis by (simp only: set_map)
qed

lemma estep_keeps:
  assumes "estep s t"
  shows "es_Owner t = es_Owner s \<and> es_Kind t = es_Kind s \<and> es_Fingerprint t = es_Fingerprint s \<and>
    attempt_keys s \<subseteq> attempt_keys t"
  using assms
proof cases
  case (es_settle a sel g nxt persisted)
  then have "\<And>b. sel b \<Longrightarrow> same_key b (g b)" by blast
  from keys_rewrite [OF this] es_settle show ?thesis by (simp add: attempt_keys_def)
next
  case (es_reconcile sel g)
  then have "\<And>b. sel b \<Longrightarrow> same_key b (g b)" by blast
  from keys_rewrite [OF this] es_reconcile show ?thesis by (simp add: attempt_keys_def)
qed (auto simp: attempt_keys_def)

text \<open>A step refines the published state machine, but for the retry of a finally failed tag
  catalog mutation.\<close>

lemma estep_transition:
  assumes "estep s t"
  shows "CanTransition\<^sup>+\<^sup>+ (es_State s) (es_State t) \<or>
    (es_State s = StateFinalFailed \<and> es_State t = StateQueued \<and>
     es_Kind s = KindWeComTagCatalogMutation \<and> (\<forall>a \<in> set (es_Attempts s). \<not> atr_RealCall a))"
  using assms
proof cases
  case (es_settle a sel g nxt persisted)
  have "CanTransition StateAttempted nxt" using es_settle(6) by (auto simp: settled_states_def)
  moreover have "CanTransition StateRetryable StateQueued" by simp
  ultimately have "CanTransition\<^sup>+\<^sup>+ StateAttempted persisted"
    using es_settle(7) by (metis tranclp.intros)
  then show ?thesis using es_settle(1,2) by simp
next
  case (es_client n st a)
  have "CanTransition StateQueued StateAttempted" by simp
  moreover have "CanTransition StateAttempted st" using es_client by auto
  ultimately have "CanTransition\<^sup>+\<^sup>+ StateQueued st" by (metis tranclp.intros)
  then show ?thesis using es_client by simp
qed (auto intro: tranclp.r_into_trancl)

lemma estep_closed:
  assumes "estep s t"
  shows "es_State s \<notin> {StateExecuted, StateReconciled, StateCancelled} \<and>
    (es_State s = StateUnknown \<longrightarrow> es_State t = StateReconciled \<and> es_Count t = es_Count s \<and>
       es_Owner s \<noteq> OwnerPayment) \<and>
    (es_State s = StateFinalFailed \<longrightarrow> es_Kind s = KindWeComTagCatalogMutation)"
  using assms
proof cases
  case (es_settle a sel g nxt persisted)
  from es_settle(2) show ?thesis by simp
next
  case (es_reconcile sel g)
  from es_reconcile(1-3) show ?thesis by simp
qed auto

end
