(* ===== verification/EffectRefine.thy ===== *)
theory EffectRefine
  imports EffectSpec
begin

text \<open>
  Refinement: every transaction of the store that commits is one step of the abstract life
  of one effect (or accepts a new one), and never rewrites receipts or jobs.  \<open>effects_of\<close> reads
  the abstract effects off the tables; the lemmas named \<open>wp_\<close> push a postcondition
  backwards through the table operations.
\<close>

subsection \<open>Reading the tables\<close>

definition view :: "effect_row \<Rightarrow> attempt_row list \<Rightarrow> estate" where
  "view e as = \<lparr>es_Owner = env_Owner (eff_Envelope e), es_Kind = env_Kind (eff_Envelope e),
     es_Fingerprint = eff_Fingerprint e, es_State = eff_State e, es_Count = eff_AttemptCount e,
     es_Generation = eff_Generation e, es_Fence = eff_LeaseFence e, es_Attempts = as\<rparr>"

definition rows_of :: "int \<Rightarrow> attempt_row list \<Rightarrow> attempt_row list" where
  "rows_of i as = filter (\<lambda>a. atr_EffectID a = i) as"

definition effects_of :: "effects_db \<Rightarrow> int \<Rightarrow> estate option" where
  "effects_of db i = map_option (\<lambda>e. view e (rows_of i (db_Attempts db))) (db_Effects db i)"

lemma view_simps [simp]:
  "es_Owner (view e as) = env_Owner (eff_Envelope e)" "es_Kind (view e as) = env_Kind (eff_Envelope e)"
  "es_Fingerprint (view e as) = eff_Fingerprint e" "es_State (view e as) = eff_State e"
  "es_Count (view e as) = eff_AttemptCount e" "es_Generation (view e as) = eff_Generation e"
  "es_Fence (view e as) = eff_LeaseFence e" "es_Attempts (view e as) = as"
  by (simp_all add: view_def)

lemma rows_of_append [simp]:
  "rows_of i (as @ [a]) = (if atr_EffectID a = i then rows_of i as @ [a] else rows_of i as)"
  by (simp add: rows_of_def)

lemma rows_of_rewrite:
  assumes "\<And>a. sel a \<Longrightarrow> atr_EffectID a = i \<and> atr_EffectID (g a) = i"
  shows "rows_of j (rewrite sel g as) = (if j = i then rewrite sel g (rows_of i as) else rows_of j as)"
proof (induction as)
  case Nil
  then show ?case by (simp add: rows_of_def rewrite_def)
next
  case (Cons a as)
  with assms [of a] show ?case by (cases "sel a") (auto simp: rows_of_def rewrite_def)
qed

subsection \<open>Backward rules\<close>

named_theorems wp "backward rules for the operations on tables"

lemma wp_bind [wp]:
  "post (\<lambda>x. post P (f x)) r \<Longrightarrow> post P (case r of Inl e \<Rightarrow> Inl e | Inr x \<Rightarrow> f x)"
  by simp

lemma wp_if [wp]: "(b \<Longrightarrow> post P r) \<Longrightarrow> (\<not> b \<Longrightarrow> post P s) \<Longrightarrow> post P (if b then r else s)"
  by simp

lemma wp_option [wp]:
  "post P r \<Longrightarrow> (\<And>x. v = Some x \<Longrightarrow> post P (f x)) \<Longrightarrow> post P (case v of None \<Rightarrow> r | Some x \<Rightarrow> f x)"
  by (cases v) simp_all

lemma wp_Inl [wp]: "post P (Inl e)"
  by simp

lemma wp_update_effect [wp]:
  "(\<And>e. db_Effects db i = Some e \<Longrightarrow> sel e \<Longrightarrow> effect_checks (f e) \<Longrightarrow>
      P (db\<lparr>db_Effects := (db_Effects db)(i := Some (f e))\<rparr>)) \<Longrightarrow>
   post P (update_effect db i sel f err)"
  by (simp add: update_effect_def split: option.split)

lemma wp_update_attempt [wp]:
  "(\<And>a. a \<in> set (db_Attempts db) \<Longrightarrow> sel a \<Longrightarrow>
      P (db\<lparr>db_Attempts := rewrite sel g (db_Attempts db)\<rparr>)) \<Longrightarrow>
   post P (update_attempt db sel g err)"
proof (simp add: update_attempt_def rewrite_def, intro impI)
  assume *: "\<And>a. a \<in> set (db_Attempts db) \<Longrightarrow> sel a \<Longrightarrow>
      P (db\<lparr>db_Attempts := map (\<lambda>a. if sel a then g a else a) (db_Attempts db)\<rparr>)"
    and len: "length (filter sel (db_Attempts db)) = Suc 0"
  then have "filter sel (db_Attempts db) \<noteq> []" by force
  then obtain a where "a \<in> set (db_Attempts db)" "sel a" by (auto simp: filter_empty_conv)
  with * show "P (db\<lparr>db_Attempts := map (\<lambda>a. if sel a then g a else a) (db_Attempts db)\<rparr>)" by blast
qed

lemma wp_insert_attempt [wp]:
  "(1 \<le> atr_Number a \<Longrightarrow> P (db\<lparr>db_Attempts := db_Attempts db @ [a]\<rparr>)) \<Longrightarrow>
   post P (insert_attempt db a)"
  by (simp add: insert_attempt_def)

lemma wp_insert_receipt [wp]:
  "(\<And>r. rct_ID r = int (length (db_Receipts db)) + 1 \<Longrightarrow> rct_Operation r = operation \<Longrightarrow>
      rct_EffectID r = i \<Longrightarrow> rct_ReceiptKey r = key \<Longrightarrow> rct_CommandDigest r = command \<Longrightarrow>
      rct_State r = st \<Longrightarrow> rct_CompletedAt r = now \<Longrightarrow>
      P (db\<lparr>db_Receipts := db_Receipts db @ [r]\<rparr>)) \<Longrightarrow>
   post P (insert_receipt db operation i key command actor akind aref st now)"
  by (simp add: insert_receipt_def)

lemma wp_insert_generation [wp]:
  "P (db\<lparr>db_Generations := db_Generations db @ [(i, g)]\<rparr>) \<Longrightarrow> post P (insert_generation db i g)"
  by (simp add: insert_generation_def)

lemma wp_insert_job [wp]:
  "(\<And>r. job_EffectID r = i \<Longrightarrow> job_Generation r = g \<Longrightarrow> job_RiverJobID r = job \<Longrightarrow>
      job_Queue r = queue \<Longrightarrow> P (db\<lparr>db_Jobs := db_Jobs db @ [r]\<rparr>)) \<Longrightarrow>
   post P (insert_job db i g job queue args at)"
  by (simp add: insert_job_def)

lemma wp_CompleteEffect [wp]:
  "(\<And>x. P (db\<lparr>db_Completions := db_Completions db @ [x]\<rparr>)) \<Longrightarrow>
   post P (CompleteEffect f db i env a res)"
  by (simp add: CompleteEffect_def)

lemma wp_parseEffectID [wp]:
  "(\<And>i. parseEffectID v = Inr i \<Longrightarrow> P i) \<Longrightarrow> post P (parseEffectID v)"
  by (simp add: post_iff)

subsection \<open>One transaction, one step\<close>

text \<open>The audit facts a transaction may not touch: receipts and jobs are only appended, the
  immutable columns of an effect stay.\<close>

text \<open>The generation of an effect and its retry receipts are counted together.\<close>

definition retry_count :: "receipt_row list \<Rightarrow> int \<Rightarrow> nat" where
  "retry_count rs i = length (filter (\<lambda>r. rct_Operation r = ''retry'' \<and> rct_EffectID r = i) rs)"

lemma retry_count_append [simp]:
  "retry_count (rs @ [r]) i = retry_count rs i +
     (if rct_Operation r = ''retry'' \<and> rct_EffectID r = i then 1 else 0)"
  by (simp add: retry_count_def)

definition accept_rows :: "receipt_row list \<Rightarrow> receipt_row list" where
  "accept_rows rs = filter (\<lambda>r. rct_Operation r = ''accept'') rs"

lemma accept_rows_append [simp]:
  "accept_rows (rs @ [r]) = accept_rows rs @ (if rct_Operation r = ''accept'' then [r] else [])"
  by (simp add: accept_rows_def)

text \<open>The receipts that only an acceptance writes.\<close>

definition kept_rows :: "receipt_row list \<Rightarrow> receipt_row list" where
  "kept_rows rs = filter (\<lambda>r. rct_Operation r = ''accept'' \<or> rct_Operation r = ''queue'') rs"

lemma kept_rows_append [simp]:
  "kept_rows (rs @ [r]) = kept_rows rs @
     (if rct_Operation r = ''accept'' \<or> rct_Operation r = ''queue'' then [r] else [])"
  by (simp add: kept_rows_def)

lemma accept_rows_kept: "accept_rows rs = filter (\<lambda>r. rct_Operation r = ''accept'') (kept_rows rs)"
  by (auto simp: accept_rows_def kept_rows_def intro: filter_cong)

definition frame :: "effects_db \<Rightarrow> effects_db \<Rightarrow> bool" where
  "frame db db' \<longleftrightarrow> prefix (db_Receipts db) (db_Receipts db') \<and> prefix (db_Jobs db) (db_Jobs db') \<and>
     prefix (db_Completions db) (db_Completions db') \<and>
     (\<forall>i e. db_Effects db i = Some e \<longrightarrow> (\<exists>e'. db_Effects db' i = Some e' \<and>
        eff_Envelope e' = eff_Envelope e \<and> eff_Fingerprint e' = eff_Fingerprint e \<and>
        eff_Lane e' = eff_Lane e)) \<and>
     (\<forall>j. db_Effects db j = None \<longrightarrow> rows_of j (db_Attempts db') = rows_of j (db_Attempts db) \<and>
        retry_count (db_Receipts db') j = retry_count (db_Receipts db) j)"

definition effect_step :: "effects_db \<Rightarrow> effects_db \<Rightarrow> int \<Rightarrow> bool" where
  "effect_step db db' i \<longleftrightarrow> (\<exists>s t. effects_of db i = Some s \<and> effects_of db' = (effects_of db)(i := Some t) \<and> estep s t)"

definition has_job :: "effects_db \<Rightarrow> int \<Rightarrow> int \<Rightarrow> bool" where
  "has_job db i g \<longleftrightarrow> (\<exists>j \<in> set (db_Jobs db). job_EffectID j = i \<and> job_Generation j = g)"

definition counted :: "effects_db \<Rightarrow> effects_db \<Rightarrow> bool" where
  "counted db db' \<longleftrightarrow> (\<forall>j e. db_Effects db j = Some e \<longrightarrow> (\<exists>e'. db_Effects db' j = Some e' \<and>
     ((retry_count (db_Receipts db') j = retry_count (db_Receipts db) j \<and>
       eff_Generation e' = eff_Generation e) \<or>
      (retry_count (db_Receipts db') j = Suc (retry_count (db_Receipts db) j) \<and>
       0 < eff_Generation e' \<and> eff_Generation e' = wrap64 (eff_Generation e + 1) \<and>
       has_job db' j (eff_Generation e')))))"

definition moves :: "effects_db \<Rightarrow> effects_db \<Rightarrow> bool" where
  "moves db db' \<longleftrightarrow> frame db db' \<and> counted db db' \<and>
     kept_rows (db_Receipts db') = kept_rows (db_Receipts db) \<and> db_NextEffect db' = db_NextEffect db \<and>
     (effects_of db' = effects_of db \<or> (\<exists>i. effect_step db db' i))"

lemma frame_refl [simp]: "frame db db"
  by (simp add: frame_def)

lemma moves_refl [simp]: "moves db db"
  by (simp add: moves_def counted_def)

text \<open>How the abstract effects change when one row and its attempts are rewritten.\<close>

lemma effects_of_update:
  assumes "db_Effects db i = Some e"
    and "db_Effects db' = (db_Effects db)(i := Some e')"
    and "rows_of i (db_Attempts db') = as" and "\<And>j. j \<noteq> i \<Longrightarrow> rows_of j (db_Attempts db') = rows_of j (db_Attempts db)"
  shows "effects_of db' = (effects_of db)(i := Some (view e' as))"
  using assms by (auto simp: effects_of_def fun_eq_iff)

lemma effects_of_get: "db_Effects db i = Some e \<Longrightarrow> effects_of db i = Some (view e (rows_of i (db_Attempts db)))"
  by (simp add: effects_of_def)

lemma effect_stepI:
  assumes "db_Effects db i = Some e"
    and "db_Effects db' = (db_Effects db)(i := Some e')"
    and "\<And>j. j \<noteq> i \<Longrightarrow> rows_of j (db_Attempts db') = rows_of j (db_Attempts db)"
    and "estep (view e (rows_of i (db_Attempts db))) (view e' (rows_of i (db_Attempts db')))"
  shows "effect_step db db' i"
  unfolding effect_step_def
  using effects_of_update [OF assms(1,2) refl assms(3)] effects_of_get [OF assms(1)] assms(4) by blast

lemma frameI:
  assumes "db_Effects db i = Some e" "db_Effects db' = (db_Effects db)(i := Some e')"
    and "eff_Envelope e' = eff_Envelope e" "eff_Fingerprint e' = eff_Fingerprint e" "eff_Lane e' = eff_Lane e"
    and "prefix (db_Receipts db) (db_Receipts db')" "prefix (db_Jobs db) (db_Jobs db')"
    and "prefix (db_Completions db) (db_Completions db')"
    and "\<And>j. j \<noteq> i \<Longrightarrow> rows_of j (db_Attempts db') = rows_of j (db_Attempts db)"
    and "\<And>j. j \<noteq> i \<Longrightarrow> retry_count (db_Receipts db') j = retry_count (db_Receipts db) j"
  shows "frame db db'"
proof -
  have "rows_of j (db_Attempts db') = rows_of j (db_Attempts db) \<and>
      retry_count (db_Receipts db') j = retry_count (db_Receipts db) j" if "db_Effects db j = None" for j
    using that assms(1,9,10) by (cases "j = i") simp_all
  with assms show ?thesis by (simp add: frame_def)
qed

lemma countedI:
  assumes "db_Effects db i = Some e" and "db_Effects db' = (db_Effects db)(i := Some e')"
    and "\<And>j. j \<noteq> i \<Longrightarrow> retry_count (db_Receipts db') j = retry_count (db_Receipts db) j"
    and "(retry_count (db_Receipts db') i = retry_count (db_Receipts db) i \<and>
       eff_Generation e' = eff_Generation e) \<or>
      (retry_count (db_Receipts db') i = Suc (retry_count (db_Receipts db) i) \<and>
       0 < eff_Generation e' \<and> eff_Generation e' = wrap64 (eff_Generation e + 1) \<and>
       has_job db' i (eff_Generation e'))"
  shows "counted db db'"
  using assms by (auto simp: counted_def)

lemma movesI:
  assumes "db_Effects db i = Some e" and "db_Effects db' = (db_Effects db)(i := Some e')"
    and "eff_Envelope e' = eff_Envelope e" "eff_Fingerprint e' = eff_Fingerprint e" "eff_Lane e' = eff_Lane e"
    and "prefix (db_Receipts db) (db_Receipts db')" "prefix (db_Jobs db) (db_Jobs db')"
    and "prefix (db_Completions db) (db_Completions db')" and "db_NextEffect db' = db_NextEffect db"
    and "\<And>j. j \<noteq> i \<Longrightarrow> rows_of j (db_Attempts db') = rows_of j (db_Attempts db)"
    and "estep (view e (rows_of i (db_Attempts db))) (view e' (rows_of i (db_Attempts db')))"
    and "kept_rows (db_Receipts db') = kept_rows (db_Receipts db)"
    and "\<And>j. j \<noteq> i \<Longrightarrow> retry_count (db_Receipts db') j = retry_count (db_Receipts db) j"
    and "(retry_count (db_Receipts db') i = retry_count (db_Receipts db) i \<and>
       eff_Generation e' = eff_Generation e) \<or>
      (retry_count (db_Receipts db') i = Suc (retry_count (db_Receipts db) i) \<and>
       0 < eff_Generation e' \<and> eff_Generation e' = wrap64 (eff_Generation e + 1) \<and>
       has_job db' i (eff_Generation e'))"
  shows "moves db db'"
  unfolding moves_def
  using frameI [OF assms(1-8,10,13)] effect_stepI [OF assms(1,2,10,11)] assms(9,12)
    countedI [OF assms(1,2,13,14)] by blast

lemma start_attempt_moves:
  assumes e: "db_Effects db i = Some e" and a: "a = attempt_of i (wrap32 (eff_AttemptCount e + 1))
      (eff_Generation e) (wrap64 (eff_LeaseFence e + 1))"
  shows "post (\<lambda>db'. moves db db' \<and> db_Receipts db' = db_Receipts db \<and>
      (\<exists>t. effects_of db' i = Some t \<and> es_Count t = wrap32 (eff_AttemptCount e + 1) \<and> 1 \<le> es_Count t \<and>
         es_State t = StateAttempted \<and>
         (atp_Number a, atp_Generation a, atp_Fence a) \<in> attempt_keys t)) (start_attempt db i e now)"
  unfolding start_attempt_def Let_def
proof (intro wp, goal_cases)
  case (1 e')
  with e have [simp]: "e' = e" by simp
  let ?row = "\<lparr>atr_EffectID = i, atr_Number = wrap32 (eff_AttemptCount e + 1),
        atr_Generation = eff_Generation e, atr_Fence = wrap64 (eff_LeaseFence e + 1),
        atr_State = StateAttempted, atr_ReceiptDigest = None, atr_EvidenceDigest = None,
        atr_CallAttempted = False, atr_RealCall = False, atr_CompletedAt = None\<rparr>"
  let ?e = "e\<lparr>eff_State := StateAttempted, eff_AttemptCount := wrap32 (eff_AttemptCount e + 1),
        eff_LeaseFence := wrap64 (eff_LeaseFence e + 1),
        eff_LeaseExpiresAt := Some (now + lease_duration), eff_UpdatedAt := now\<rparr>"
  let ?db = "db\<lparr>db_Effects := (db_Effects db)(i := Some ?e), db_Attempts := db_Attempts db @ [?row]\<rparr>"
  have "estep (view e (rows_of i (db_Attempts db))) ((view e (rows_of i (db_Attempts db)))\<lparr>
        es_State := StateAttempted, es_Count := wrap32 (eff_AttemptCount e + 1),
        es_Fence := wrap64 (eff_LeaseFence e + 1),
        es_Attempts := es_Attempts (view e (rows_of i (db_Attempts db))) @ [?row]\<rparr>)"
    using 1 by (intro es_start) (simp_all add: effect_checks_def)
  then have st: "estep (view e (rows_of i (db_Attempts db))) (view ?e (rows_of i (db_Attempts db) @ [?row]))"
    by (simp add: view_def)
  have "moves db ?db"
    by (rule movesI [OF e, where e' = ?e]) (use st in simp_all)
  moreover have "effects_of ?db i = Some (view ?e (rows_of i (db_Attempts db) @ [?row]))"
    by (simp add: effects_of_def)
  ultimately show ?case
    using 1 a by (simp add: attempt_keys_def attempt_of_def)
qed

lemma classify_outcome_settled: "fst (classify_outcome b i n k q out) \<in> settled_states"
proof -
  have "fst (classify_answer i n k q r) \<in> settled_states" for r
    by (simp add: classify_answer_def Let_def settled_states_def)
  then have "fst (classify_call i n k q out) \<in> settled_states"
    by (auto simp: classify_call_def settled_states_def split: option.splits)
  then show ?thesis by (simp add: classify_outcome_def Let_def settled_states_def)
qed

text \<open>The two rows of a settlement: an attempt leaves the attempted state and its effect with it.\<close>

lemma settle_moves:
  assumes e: "db_Effects db i = Some e" "eff_State e = StateAttempted"
    and a: "a \<in> set (db_Attempts db)" "sel a"
    and sel: "\<And>b. sel b \<Longrightarrow> atr_EffectID b = i \<and> atr_State b = StateAttempted \<and> same_key b (g b) \<and>
      atr_State (g b) = nxt"
    and n: "nxt \<in> settled_states"
      "persisted = nxt \<or> (nxt = StateRetryable \<and> persisted = StateQueued \<and> atr_Number a < 5)"
    and db': "db' = db\<lparr>db_Attempts := rewrite sel g (db_Attempts db),
      db_Effects := (db_Effects db)(i := Some (e\<lparr>eff_State := persisted, eff_UpdatedAt := now\<rparr>)),
      db_Completions := db_Completions db @ cs\<rparr>"
  shows "moves db db'"
proof -
  have keep: "\<And>b. sel b \<Longrightarrow> atr_EffectID b = i \<and> atr_EffectID (g b) = i"
    using sel by (auto simp: same_key_def)
  note rows = rows_of_rewrite [of sel i g, OF keep]
  have "a \<in> set (rows_of i (db_Attempts db))" using a sel by (simp add: rows_of_def)
  then have "estep (view e (rows_of i (db_Attempts db))) ((view e (rows_of i (db_Attempts db)))\<lparr>
      es_State := persisted, es_Attempts := rewrite sel g (es_Attempts (view e (rows_of i (db_Attempts db))))\<rparr>)"
    using e(2) a sel n by (intro es_settle [where a = a and nxt = nxt]) simp_all
  then have "estep (view e (rows_of i (db_Attempts db)))
      (view (e\<lparr>eff_State := persisted, eff_UpdatedAt := now\<rparr>) (rewrite sel g (rows_of i (db_Attempts db))))"
    by (simp add: view_def)
  with e rows show ?thesis
    by (intro movesI [OF e(1), where e' = "e\<lparr>eff_State := persisted, eff_UpdatedAt := now\<rparr>"])
      (simp_all add: db')
qed

definition attempt_open :: "effects_db \<Rightarrow> int \<Rightarrow> attempt \<Rightarrow> bool" where
  "attempt_open db i a \<longleftrightarrow>
     (\<exists>r \<in> set (db_Attempts db). atr_EffectID r = i \<and> atr_Number r = atp_Number a \<and>
        atr_Generation r = atp_Generation a \<and> atr_Fence r = atp_Fence a \<and>
        atr_State r = StateAttempted) \<and>
     (\<exists>e. db_Effects db i = Some e \<and> eff_State e = StateAttempted \<and>
        eff_Generation e = atp_Generation a \<and> eff_LeaseFence e = atp_Fence a)"

lemma finish_rows_post:
  assumes n: "nxt \<in> settled_states"
    "persisted = nxt \<or> (nxt = StateRetryable \<and> persisted = StateQueued \<and> atp_Number a < 5)"
  shows "post (\<lambda>db'. attempt_open db i a \<and> db_Receipts db' = db_Receipts db \<and>
      (\<forall>cs. moves db (db'\<lparr>db_Completions := db_Completions db @ cs\<rparr>)) \<and>
      db_Completions db' = db_Completions db) (finish_rows db i a nxt persisted receipt res now)"
  unfolding finish_rows_def
proof (intro wp, goal_cases)
  case (1 r e)
  let ?sel = "\<lambda>r. atr_EffectID r = i \<and> atr_Number r = atp_Number a \<and>
              atr_Generation r = atp_Generation a \<and> atr_Fence r = atp_Fence a \<and>
              atr_State r = StateAttempted"
  let ?g = "\<lambda>r. r\<lparr>atr_State := nxt, atr_ReceiptDigest := Some receipt,
                atr_CallAttempted := res_CallAttempted res,
                atr_RealCall := res_RealExternalCallExecuted res, atr_CompletedAt := Some now\<rparr>"
  let ?db = "db\<lparr>db_Attempts := rewrite ?sel ?g (db_Attempts db),
      db_Effects := (db_Effects db)(i := Some (e\<lparr>eff_State := persisted, eff_UpdatedAt := now\<rparr>))\<rparr>"
  have e: "db_Effects db i = Some e" "eff_State e = StateAttempted" using 1 by simp_all
  have "moves db (?db\<lparr>db_Completions := db_Completions db @ cs\<rparr>)" for cs
    by (rule settle_moves [OF e, of r ?sel ?g nxt persisted])
      (use 1 n in \<open>simp_all add: same_key_def\<close>)
  then show ?case using 1 by (auto simp: attempt_open_def)
qed

lemma finish_attempt_post:
  "post (\<lambda>r. attempt_open db i a \<and> db_Receipts (snd r) = db_Receipts db \<and> moves db (snd r))
     (finish_attempt sink db i a queue env outcome now)"
proof -
  let ?nxt = "fst (classify_outcome (sink \<noteq> None) i (atp_Number a) (env_Kind env) queue outcome)"
  have post: "post P r"
    if "post (\<lambda>db'. attempt_open db i a \<and> db_Receipts db' = db_Receipts db \<and>
      (\<forall>cs. moves db (db'\<lparr>db_Completions := db_Completions db @ cs\<rparr>)) \<and>
      db_Completions db' = db_Completions db) r"
      "\<And>db'. attempt_open db i a \<Longrightarrow> db_Receipts db' = db_Receipts db \<Longrightarrow> moves db db' \<Longrightarrow>
        (\<And>x. moves db (db'\<lparr>db_Completions := db_Completions db' @ [x]\<rparr>)) \<Longrightarrow> P db'"
    for P and r :: "(effect_error, effects_db) result"
  proof (rule post_mono [OF that(1)])
    fix db' assume *: "attempt_open db i a \<and> db_Receipts db' = db_Receipts db \<and>
      (\<forall>cs. moves db (db'\<lparr>db_Completions := db_Completions db @ cs\<rparr>)) \<and>
      db_Completions db' = db_Completions db"
    have "db'\<lparr>db_Completions := db_Completions db @ []\<rparr> = db'"
      using * by (cases db') simp
    with * have "moves db db'" by metis
    then show "P db'" using that(2) [of db'] * by auto
  qed
  show ?thesis
    unfolding finish_attempt_def Let_def
    by (rule wp_bind, rule post, rule finish_rows_post)
      (use classify_outcome_settled in \<open>auto intro!: wp split: option.split\<close>)
qed

lemma recover_attempt_moves:
  assumes e: "db_Effects db i = Some e"
  shows "post (\<lambda>db'. moves db db' \<and> db_Receipts db' = db_Receipts db) (recover_attempt sink db i e now)"
  unfolding recover_attempt_def
proof (rule wp_bind, rule wp_update_attempt, rule wp_bind, rule wp_update_effect, goal_cases)
  case (1 r e')
  with e have [simp]: "e' = e" by simp
  let ?sel = "\<lambda>a. atr_EffectID a = i \<and> atr_Number a = eff_AttemptCount e \<and>
              atr_Generation a = eff_Generation e \<and> atr_Fence a = eff_LeaseFence e \<and>
              atr_State a = StateAttempted"
  let ?g = "\<lambda>a. a\<lparr>atr_State := StateUnknown, atr_ReceiptDigest := Some (recovery_digest i e),
                atr_CompletedAt := Some now\<rparr>"
  let ?db = "db\<lparr>db_Attempts := rewrite ?sel ?g (db_Attempts db),
      db_Effects := (db_Effects db)(i := Some (e\<lparr>eff_State := StateUnknown, eff_UpdatedAt := now\<rparr>))\<rparr>"
  have m: "moves db (?db\<lparr>db_Completions := db_Completions db @ cs\<rparr>)" for cs
    by (rule settle_moves [OF e, of r ?sel ?g StateUnknown StateUnknown])
      (use 1 in \<open>simp_all add: same_key_def settled_states_def\<close>)
  have eq: "?db\<lparr>db_Completions := db_Completions db @ []\<rparr> = ?db" by (cases db) simp
  from m [of "[]"] have "moves db ?db" by (simp only: eq)
  then show ?case
    using m by (auto simp: recover_project_def intro!: wp split: option.split)
qed

text \<open>Transactions that change only the effect row, and append audit facts.\<close>

lemma row_moves:
  assumes e: "db_Effects db i = Some e" and st: "estep (view e as) (view e' as)"
    and "eff_Envelope e' = eff_Envelope e" "eff_Fingerprint e' = eff_Fingerprint e" "eff_Lane e' = eff_Lane e"
    and as: "as = rows_of i (db_Attempts db)"
    and "db_Effects db' = (db_Effects db)(i := Some e')" "db_Attempts db' = db_Attempts db"
    and "prefix (db_Receipts db) (db_Receipts db')" "prefix (db_Jobs db) (db_Jobs db')"
    and "prefix (db_Completions db) (db_Completions db')" and "db_NextEffect db' = db_NextEffect db"
    and "kept_rows (db_Receipts db') = kept_rows (db_Receipts db)"
    and "\<And>j. j \<noteq> i \<Longrightarrow> retry_count (db_Receipts db') j = retry_count (db_Receipts db) j"
    and "(retry_count (db_Receipts db') i = retry_count (db_Receipts db) i \<and>
       eff_Generation e' = eff_Generation e) \<or>
      (retry_count (db_Receipts db') i = Suc (retry_count (db_Receipts db) i) \<and>
       0 < eff_Generation e' \<and> eff_Generation e' = wrap64 (eff_Generation e + 1) \<and>
       has_job db' i (eff_Generation e'))"
  shows "moves db db'"
  by (rule movesI [OF e, where e' = e']) (use assms in simp_all)

lemma cancel_estep:
  "eff_State e \<in> {StateAccepted, StateQueued} \<Longrightarrow>
     estep (view e as) (view (e\<lparr>eff_State := StateCancelled, eff_UpdatedAt := now\<rparr>) as)"
  using es_cancel [of "view e as"] by (simp add: view_def)

lemma cancel_queued_moves:
  assumes e: "db_Effects db i = Some e"
  shows "post (\<lambda>r. moves db (snd r) \<and> eff_State e = StateQueued)
    (cancel_queued db i e command now)"
  unfolding cancel_queued_def
proof (intro wp, goal_cases)
  case (1 e' r)
  with e have [simp]: "e' = e" by simp
  have st: "estep (view e (rows_of i (db_Attempts db)))
      (view (e\<lparr>eff_State := StateCancelled, eff_UpdatedAt := now\<rparr>) (rows_of i (db_Attempts db)))"
    using 1 by (intro cancel_estep) simp
  let ?db = "db\<lparr>db_Effects := (db_Effects db)(i := Some (e\<lparr>eff_State := StateCancelled, eff_UpdatedAt := now\<rparr>)),
      db_Receipts := db_Receipts db @ [r]\<rparr>"
  have "moves db ?db" by (rule row_moves [OF e st]) (use 1 in simp_all)
  then show ?case using 1 by simp
qed

lemma CancelQueuedEffectWithin_moves:
  "post (\<lambda>r. moves db (snd r)) (CancelQueuedEffectWithin db command now)"
  unfolding CancelQueuedEffectWithin_def Let_def
  by (intro wp) (auto intro: post_mono [OF cancel_queued_moves])

lemma complete_client_moves:
  assumes e: "db_Effects db i = Some e" and q: "eff_State e = StateQueued"
    and k: "env_Kind (eff_Envelope e) = KindSidebarJSSDKSend"
    and st: "cli_State command \<in> {StateExecuted, StateUnknown, StateFinalFailed}"
  shows "post (\<lambda>r. moves db (snd r)) (complete_client db i e command now)"
  unfolding complete_client_def Let_def
proof (intro wp, goal_cases)
  case (1 e' r)
  with e have [simp]: "e' = e" by simp
  let ?row = "client_attempt i e command now"
  let ?e = "e\<lparr>eff_State := cli_State command, eff_AttemptCount := wrap32 (eff_AttemptCount e + 1),
      eff_UpdatedAt := now\<rparr>"
  let ?db = "db\<lparr>db_Attempts := db_Attempts db @ [?row], db_Effects := (db_Effects db)(i := Some ?e),
      db_Receipts := db_Receipts db @ [r]\<rparr>"
  have "estep (view e (rows_of i (db_Attempts db))) ((view e (rows_of i (db_Attempts db)))\<lparr>
        es_State := cli_State command, es_Count := wrap32 (eff_AttemptCount e + 1),
        es_Attempts := es_Attempts (view e (rows_of i (db_Attempts db))) @ [?row]\<rparr>)"
    using 1 q k st by (intro es_client) (simp_all add: client_attempt_def)
  then have "estep (view e (rows_of i (db_Attempts db))) (view ?e (rows_of i (db_Attempts db) @ [?row]))"
    by (simp add: view_def)
  then have "moves db ?db"
    by (intro movesI [OF e, where e' = ?e]) (use 1 in \<open>simp_all add: client_attempt_def\<close>)
  then show ?case using 1 by simp
qed

lemma CompleteClientEffectWithin_moves:
  "post (\<lambda>r. moves db (snd r)) (CompleteClientEffectWithin db command now)"
  unfolding CompleteClientEffectWithin_def Let_def
  by (intro wp) (auto intro: complete_client_moves)

subsection \<open>Control operations\<close>

text \<open>What \<open>control_commit\<close> leaves: the effect in its next state, one receipt, perhaps one call of
  the sink.\<close>

definition committed ::
  "effects_db \<Rightarrow> int \<Rightarrow> string \<Rightarrow> effect_row \<Rightarrow> effects_db \<Rightarrow> bool" where
  "committed db i operation e' db' \<longleftrightarrow> effect_checks e' \<and>
     db_Effects db' = (db_Effects db)(i := Some e') \<and> db_Attempts db' = db_Attempts db \<and>
     db_Jobs db' = db_Jobs db \<and> db_NextEffect db' = db_NextEffect db \<and>
     prefix (db_Completions db) (db_Completions db') \<and>
     (\<exists>r. db_Receipts db' = db_Receipts db @ [r] \<and> rct_Operation r = operation \<and> rct_EffectID r = i)"

lemma wp_control_commit:
  assumes "db_Effects db i = Some e0"
    and "\<And>db'. committed db i operation (e0\<lparr>eff_State := nxt, eff_Generation := g,
        eff_UpdatedAt := now\<rparr>) db' \<Longrightarrow> P db'"
  shows "post P (control_commit sink db i e c operation nxt g now)"
  unfolding control_commit_def using assms(1)
  by (intro wp) (auto intro!: assms(2) simp: committed_def)

lemma control_cancel_moves:
  assumes e: "db_Effects db i = Some e"
  shows "post (moves db) (case control_next ''cancel'' e of Inl err \<Rightarrow> Inl err | Inr nxt \<Rightarrow>
      control_commit sink db i e c ''cancel'' (fst nxt) (snd nxt) now)"
proof (cases "eff_State e \<in> {StateAccepted, StateQueued}")
  case True
  let ?e = "e\<lparr>eff_State := StateCancelled, eff_Generation := eff_Generation e, eff_UpdatedAt := now\<rparr>"
  have st: "estep (view e (rows_of i (db_Attempts db))) (view ?e (rows_of i (db_Attempts db)))"
    using cancel_estep [OF True, of _ now] by (simp add: view_def)
  have "post (moves db) (control_commit sink db i e c ''cancel'' StateCancelled (eff_Generation e) now)"
    by (rule wp_control_commit [OF e], rule row_moves [OF e st]) (auto simp: committed_def)
  moreover have "control_next ''cancel'' e = Inr (StateCancelled, eff_Generation e)"
    using True by (auto simp: control_next_def)
  ultimately show ?thesis by simp
next
  case False
  then show ?thesis by (simp add: control_next_def)
qed

lemma retry_estep:
  "eff_State e = StateRetryable \<or> (eff_State e = StateFinalFailed \<and>
      env_Kind (eff_Envelope e) = KindWeComTagCatalogMutation \<and> (\<forall>a \<in> set as. \<not> atr_RealCall a)) \<Longrightarrow>
   g = wrap64 (eff_Generation e + 1) \<Longrightarrow> 0 < g \<Longrightarrow>
     estep (view e as) (view (e\<lparr>eff_State := StateQueued, eff_Generation := g, eff_UpdatedAt := now\<rparr>) as)"
  using es_retry [of "view e as" g] by (simp add: view_def)

lemma wp_control_rows_retry:
  assumes "\<And>db'. db_Effects db' = db_Effects db \<Longrightarrow> db_Attempts db' = db_Attempts db \<Longrightarrow>
      db_Receipts db' = db_Receipts db \<Longrightarrow> db_Completions db' = db_Completions db \<Longrightarrow>
      db_NextEffect db' = db_NextEffect db \<Longrightarrow> prefix (db_Jobs db) (db_Jobs db') \<Longrightarrow>
      has_job db' i g \<Longrightarrow> P db'"
  shows "post P (control_rows db i e c ''retry'' g river now)"
  by (cases river) (auto simp: control_rows_def enqueue_retry_def has_job_def intro!: wp assms)

text \<open>A retry whose effect was put into the retryable state by the same transaction, as the tag
  catalog does: \<open>db\<close> is the state before, \<open>dbr\<close> the one the retry starts from.\<close>

lemma control_retry_moves:
  assumes e0: "db_Effects db i = Some e0" and e: "e = e0\<lparr>eff_State := StateRetryable\<rparr>"
    and dbr: "dbr = db\<lparr>db_Effects := (db_Effects db)(i := Some e)\<rparr>"
    and ok: "eff_State e0 = StateRetryable \<or> (eff_State e0 = StateFinalFailed \<and>
      env_Kind (eff_Envelope e0) = KindWeComTagCatalogMutation \<and>
      (\<forall>a \<in> set (rows_of i (db_Attempts db)). \<not> atr_RealCall a))"
  shows "post (moves db) (case control_next ''retry'' e of Inl err \<Rightarrow> Inl err | Inr nxt \<Rightarrow>
      case control_rows dbr i e c ''retry'' (snd nxt) river now of Inl err \<Rightarrow> Inl err | Inr db1 \<Rightarrow>
      control_commit sink db1 i e c ''retry'' (fst nxt) (snd nxt) now)"
proof -
  let ?g = "wrap64 (eff_Generation e0 + 1)"
  let ?e = "e0\<lparr>eff_State := StateQueued, eff_Generation := ?g, eff_UpdatedAt := now\<rparr>"
  have "control_next ''retry'' e = Inr (StateQueued, ?g)"
    using e by (simp add: control_next_def)
  moreover have "post (moves db) (case control_rows dbr i e c ''retry'' ?g river now of
      Inl err \<Rightarrow> Inl err | Inr db1 \<Rightarrow> control_commit sink db1 i e c ''retry'' StateQueued ?g now)"
  proof (rule wp_bind, rule wp_control_rows_retry, rule wp_control_commit)
    fix db1 db' :: effects_db assume 1: "db_Effects db1 = db_Effects dbr" "db_Attempts db1 = db_Attempts dbr"
        "db_Receipts db1 = db_Receipts dbr" "db_Completions db1 = db_Completions dbr"
        "db_NextEffect db1 = db_NextEffect dbr" "prefix (db_Jobs dbr) (db_Jobs db1)"
        "has_job db1 i ?g"
    show "db_Effects db1 i = Some e" using 1 dbr by simp
    assume 2: "committed db1 i ''retry'' (e\<lparr>eff_State := StateQueued, eff_Generation := ?g,
        eff_UpdatedAt := now\<rparr>) db'"
    then have g: "0 < ?g" by (simp add: committed_def effect_checks_def)
    have st: "estep (view e0 (rows_of i (db_Attempts db))) (view ?e (rows_of i (db_Attempts db)))"
      by (rule retry_estep [OF ok refl g])
    show "moves db db'"
      by (rule row_moves [OF e0 st]) (use 1 2 e g dbr in \<open>auto simp: committed_def has_job_def\<close>)
  qed
  ultimately show ?thesis by simp
qed

lemma reconcile_moves:
  assumes e: "db_Effects db i = Some e" "eff_State e = StateUnknown"
      "env_Owner (eff_Envelope e) \<noteq> OwnerPayment"
    and sel: "\<And>b. sel b \<Longrightarrow> atr_EffectID b = i \<and> atr_State b = StateUnknown \<and> same_key b (g b) \<and>
      atr_State (g b) = StateReconciled"
    and e': "e' = e\<lparr>eff_State := StateReconciled, eff_UpdatedAt := now\<rparr>"
    and c: "committed db1 i operation e' db'" "operation \<noteq> ''retry''" "operation \<noteq> ''accept''" "operation \<noteq> ''queue''"
    and db1: "db1 = db\<lparr>db_Attempts := rewrite sel g (db_Attempts db)\<rparr>"
  shows "moves db db'"
proof -
  have keep: "\<And>b. sel b \<Longrightarrow> atr_EffectID b = i \<and> atr_EffectID (g b) = i"
    using sel by (auto simp: same_key_def)
  note rows = rows_of_rewrite [of sel i g, OF keep]
  have "estep (view e (rows_of i (db_Attempts db))) ((view e (rows_of i (db_Attempts db)))\<lparr>
      es_State := StateReconciled,
      es_Attempts := rewrite sel g (es_Attempts (view e (rows_of i (db_Attempts db))))\<rparr>)"
    using e sel by (intro es_reconcile) simp_all
  then have "estep (view e (rows_of i (db_Attempts db))) (view e' (rewrite sel g (rows_of i (db_Attempts db))))"
    by (simp add: view_def e')
  then show ?thesis
    by (intro movesI [OF e(1), where e' = e']) (use c rows in \<open>auto simp: committed_def db1 e'\<close>)
qed

lemma control_reconcile_moves:
  assumes e: "db_Effects db i = Some e" and own: "env_Owner (eff_Envelope e) \<noteq> OwnerPayment"
  shows "post (moves db) (case control_next ''reconcile'' e of Inl err \<Rightarrow> Inl err | Inr nxt \<Rightarrow>
      case control_rows db i e c ''reconcile'' (snd nxt) river now of Inl err \<Rightarrow> Inl err | Inr db1 \<Rightarrow>
      control_commit sink db1 i e c ''reconcile'' (fst nxt) (snd nxt) now)"
proof (cases "control_next ''reconcile'' e")
  case (Inl err)
  then show ?thesis by simp
next
  case (Inr nxt)
  then have u: "eff_State e = StateUnknown" and nxt: "nxt = (StateReconciled, eff_Generation e)"
    by (auto simp: control_next_def split: if_splits)
  let ?sel = "\<lambda>a. atr_EffectID a = i \<and> atr_Generation a = eff_Generation e \<and>
            atr_Fence a = eff_LeaseFence e \<and> atr_State a = StateUnknown \<and>
            (\<not> fenced c \<or> ptr_all (\<lambda>lease. lease \<le> now) (eff_LeaseExpiresAt e))"
  let ?g = "\<lambda>a. a\<lparr>atr_State := StateReconciled, atr_EvidenceDigest := Some (ctl_EvidenceDigest c),
              atr_CompletedAt := Some now\<rparr>"
  have "post (moves db) (case reconcile_attempt db i e c now of Inl err \<Rightarrow> Inl err | Inr db1 \<Rightarrow>
      control_commit sink db1 i e c ''reconcile'' StateReconciled (eff_Generation e) now)"
    unfolding reconcile_attempt_def
  proof (rule wp_bind, rule wp_update_attempt, rule wp_control_commit)
    show "db_Effects (db\<lparr>db_Attempts := rewrite ?sel ?g (db_Attempts db)\<rparr>) i = Some e"
      using e by simp
    fix db'
    assume "committed (db\<lparr>db_Attempts := rewrite ?sel ?g (db_Attempts db)\<rparr>) i ''reconcile''
        (e\<lparr>eff_State := StateReconciled, eff_Generation := eff_Generation e, eff_UpdatedAt := now\<rparr>) db'"
    then show "moves db db'"
      by (intro reconcile_moves [OF e u own, of ?sel ?g _ now _ "''reconcile''"])
        (simp_all add: same_key_def)
  qed
  then show ?thesis by (simp add: Inr nxt control_rows_def)
qed

lemma post_pairing:
  "post P (case r of Inl e \<Rightarrow> Inl e | Inr d \<Rightarrow> Inr (x, d)) = post (\<lambda>d. P (x, d)) r"
  by (cases r) simp_all

lemma controlWithin_moves:
  assumes "operation \<in> {''cancel'', ''retry'', ''reconcile''}"
  shows "post (\<lambda>r. moves db (snd r)) (controlWithin sink db c operation river app now)"
proof -
  have ops: "post (\<lambda>r. moves db (snd r)) (case control_next operation e of Inl err \<Rightarrow> Inl err | Inr nxt \<Rightarrow>
      case control_rows db i e c operation (snd nxt) river now of Inl err \<Rightarrow> Inl err | Inr db1 \<Rightarrow>
      case control_commit sink db1 i e c operation (fst nxt) (snd nxt) now of
        Inl err \<Rightarrow> Inl err | Inr db2 \<Rightarrow> Inr (h nxt, db2))"
    if e: "db_Effects db i = Some e"
      and own: "operation = ''reconcile'' \<Longrightarrow> env_Owner (eff_Envelope e) \<noteq> OwnerPayment" for i e h
  proof -
    have "post (moves db) (case control_next operation e of Inl err \<Rightarrow> Inl err | Inr nxt \<Rightarrow>
        case control_rows db i e c operation (snd nxt) river now of Inl err \<Rightarrow> Inl err | Inr db1 \<Rightarrow>
        control_commit sink db1 i e c operation (fst nxt) (snd nxt) now)"
      (is "post _ ?body")
    proof (cases "operation = ''reconcile''")
      case True
      with control_reconcile_moves [OF e] own show ?thesis by simp
    next
      case False
      show ?thesis
      proof (cases "operation = ''retry''")
        case True
        show ?thesis
        proof (cases "eff_State e = StateRetryable")
          case retryable: True
          then have "e = e\<lparr>eff_State := StateRetryable\<rparr>" by (cases e) simp
          moreover have "db = db\<lparr>db_Effects := (db_Effects db)(i := Some e)\<rparr>"
            using e by (cases db) (simp add: fun_upd_idem)
          ultimately show ?thesis
            using control_retry_moves [OF e, of e db] retryable True by simp
        next
          case False
          with True show ?thesis by (simp add: control_next_def)
        qed
      next
        case False
        with \<open>operation \<noteq> ''reconcile''\<close> assms have "operation = ''cancel''" by simp
        with control_cancel_moves [OF e, of sink c now] show ?thesis by (simp add: control_rows_def)
      qed
    qed
    then have "post (\<lambda>d. \<forall>x. moves db (snd (x, d))) ?body" by simp
    then show ?thesis by (simp add: post_pairing)
  qed
  show ?thesis
    unfolding controlWithin_def
    by (intro wp ops) (auto split: option.splits)
qed

lemma all_numbered_all: "all_numbered P k as \<Longrightarrow> \<forall>a \<in> set as. P a"
  by (induction as arbitrary: k) auto

lemma set_attempts_of: "set (attempts_of db i) = set (rows_of i (db_Attempts db))"
  by (simp add: attempts_of_def rows_of_def)

lemma tag_retry_safe_no_call:
  "tag_retry_safe db i ref fp \<Longrightarrow> a \<in> set (rows_of i (db_Attempts db)) \<Longrightarrow> \<not> atr_RealCall a"
  using all_numbered_all
  by (fastforce simp: tag_retry_safe_def safeTagCatalogRetryAttempt_def simp flip: set_attempts_of
      split: if_splits)

lemma controlWithin_retry_unfold:
  assumes "ControlCommand_Valid c" "parseEffectID (ctl_EffectID c) = Inr i"
    and "db_Effects db i = Some e" "find_receipt db ''retry'' i (ctl_ReceiptKey c) = None"
  shows "post (\<lambda>r. P (snd r)) (controlWithin sink db c ''retry'' river app now) \<longleftrightarrow>
    post P (case control_next ''retry'' e of Inl err \<Rightarrow> Inl err | Inr nxt \<Rightarrow>
      case control_rows db i e c ''retry'' (snd nxt) river now of Inl err \<Rightarrow> Inl err | Inr db1 \<Rightarrow>
      control_commit sink db1 i e c ''retry'' (fst nxt) (snd nxt) now)"
  using assms by (simp add: controlWithin_def post_pairing)

lemma RetryTagCatalogMutationWithin_moves:
  "post (\<lambda>r. moves db (snd r)) (RetryTagCatalogMutationWithin sink db c busy river app now)"
proof -
  let ?control = "plain_control (tag_EffectID c) (tag_ReceiptKey c) (tag_ActorAdminUserID c)"
  have retried: "post (\<lambda>r. moves db (snd r)) (controlWithin sink db1 ?control ''retry'' river app now)"
    if v: "ControlCommand_Valid ?control" and p: "parseEffectID (tag_EffectID c) = Inr i"
      and e: "db_Effects db i = Some e"
      and k: "env_Kind (eff_Envelope e) = KindWeComTagCatalogMutation"
      and r: "tag_retry_ready db i e c = Inr db1" for i e db1
  proof (cases "find_receipt db ''retry'' i (tag_ReceiptKey c)")
    case (Some x)
    with r have "db1 = db" by (simp add: tag_retry_ready_def)
    then show ?thesis by (simp add: controlWithin_moves)
  next
    case None
    let ?e = "e\<lparr>eff_State := StateRetryable\<rparr>"
    from None r have safe: "tag_retry_safe db i (tag_EffectID c) (eff_Fingerprint e)"
      and st: "eff_State e = StateFinalFailed \<or> eff_State e = StateRetryable"
      and u: "update_effect db i (\<lambda>_. True) (\<lambda>e. e\<lparr>eff_State := StateRetryable\<rparr>) ErrDatabase = Inr db1"
      by (auto simp: tag_retry_ready_def split: if_splits)
    from u e have db1: "db1 = db\<lparr>db_Effects := (db_Effects db)(i := Some ?e)\<rparr>"
      by (auto simp: update_effect_def split: if_splits)
    have "eff_State e = StateRetryable \<or> (eff_State e = StateFinalFailed \<and>
      env_Kind (eff_Envelope e) = KindWeComTagCatalogMutation \<and>
      (\<forall>a \<in> set (rows_of i (db_Attempts db)). \<not> atr_RealCall a))"
      using st k tag_retry_safe_no_call [OF safe] by blast
    from control_retry_moves [OF e refl db1 this] None show ?thesis
      by (subst controlWithin_retry_unfold [OF v, of i _ ?e])
        (simp_all add: p db1 plain_control_def find_receipt_def)
  qed
  have if_err: "(if b then Inl x else Inl y) = Inl (if b then x else y)" for b and x y :: effect_error
    by simp
  show ?thesis
    unfolding RetryTagCatalogMutationWithin_def Let_def if_err
    by (auto simp: post_iff split: option.splits sum.splits)
      (use retried in \<open>fastforce simp: post_iff\<close>)
qed

text \<open>Invoice finality.\<close>

lemma wp_invoice_receipt:
  assumes "db_Effects db i = Some e"
    and "\<And>db'. committed db i ''complete'' (e\<lparr>eff_State := nxt, eff_UpdatedAt := now\<rparr>) db' \<Longrightarrow> P db'"
  shows "post P (invoice_receipt db i ref operation evidence nxt now)"
  unfolding invoice_receipt_def Let_def using assms(1)
  by (intro wp) (auto intro!: assms(2) simp: committed_def)

lemma invoiceFinality_moves: "post (moves db) (invoiceFinality db ref evidence cancel busy now)"
proof -
  have cancelled: "post (moves db) (invoice_receipt db i ref operation evidence StateCancelled now)"
    if e: "db_Effects db i = Some e" and st: "eff_State e \<in> {StateAccepted, StateQueued}"
    for i e operation
    by (rule wp_invoice_receipt [OF e],
        rule row_moves [OF e cancel_estep [OF st, of "rows_of i (db_Attempts db)" now]])
      (auto simp: committed_def)
  have reconciled: "post (moves db) (invoice_receipt (db\<lparr>db_Attempts := rewrite
             (\<lambda>a. atr_EffectID a = i \<and> atr_Generation a = eff_Generation e \<and>
                  atr_Fence a = eff_LeaseFence e \<and> atr_State a = StateUnknown)
             (\<lambda>a. a\<lparr>atr_State := StateReconciled, atr_EvidenceDigest := Some evidence,
                    atr_CompletedAt := Some now\<rparr>) (db_Attempts db)\<rparr>)
        i ref operation evidence StateReconciled now)"
    if e: "db_Effects db i = Some e" and u: "eff_State e = StateUnknown"
      and own: "env_Owner (eff_Envelope e) \<noteq> OwnerPayment" for i e operation
  proof (rule wp_invoice_receipt)
    let ?sel = "\<lambda>a. atr_EffectID a = i \<and> atr_Generation a = eff_Generation e \<and>
                  atr_Fence a = eff_LeaseFence e \<and> atr_State a = StateUnknown"
    let ?g = "\<lambda>a. a\<lparr>atr_State := StateReconciled, atr_EvidenceDigest := Some evidence,
                    atr_CompletedAt := Some now\<rparr>"
    show "db_Effects (db\<lparr>db_Attempts := rewrite ?sel ?g (db_Attempts db)\<rparr>) i = Some e"
      using e by simp
    fix db'
    assume "committed (db\<lparr>db_Attempts := rewrite ?sel ?g (db_Attempts db)\<rparr>) i ''complete''
        (e\<lparr>eff_State := StateReconciled, eff_UpdatedAt := now\<rparr>) db'"
    then show "moves db db'"
      by (intro reconcile_moves [OF e u own, of ?sel ?g _ now _ "''complete''"])
        (simp_all add: same_key_def)
  qed
  show ?thesis
    unfolding invoiceFinality_def
    by (intro wp) (auto intro!: cancelled reconciled)
qed

text \<open>The claim of an attempt.\<close>

lemma claim_attempt_post:
  "post (\<lambda>out. case out of
       ClaimRecovered db' \<Rightarrow> moves db db'
     | ClaimStarted db' a q \<Rightarrow> moves db db' \<and> (\<exists>s t. effects_of db i = Some s \<and> effects_of db' i = Some t \<and>
         es_State s = StateQueued \<and> es_Count t = wrap32 (es_Count s + 1) \<and> 1 \<le> es_Count t \<and>
         es_State t = StateAttempted \<and> atp_Number a = es_Count t \<and>
         (atp_Number a, atp_Generation a, atp_Fence a) \<in> attempt_keys t)
     | _ \<Rightarrow> True) (claim_attempt sink db i generation river app now)"
proof (cases "current_job db i generation river")
  case None
  then show ?thesis by (simp add: claim_attempt_def)
next
  case (Some ej)
  obtain e job where ej: "ej = (e, job)" by (cases ej)
  with Some have e: "db_Effects db i = Some e"
    by (auto simp: current_job_def split: option.splits if_splits)
  let ?a = "attempt_of i (wrap32 (eff_AttemptCount e + 1)) (eff_Generation e) (wrap64 (eff_LeaseFence e + 1))"
  have recovered: "post (\<lambda>out. case out of ClaimRecovered db' \<Rightarrow> moves db db' | _ \<Rightarrow> True)
      (case recover_attempt sink db i e now of Inl err \<Rightarrow> Inl err | Inr db1 \<Rightarrow> Inr (ClaimRecovered db1))"
    using recover_attempt_moves [OF e, of sink now] by (auto simp: post_def split: sum.splits)
  have view: "effects_of db i = Some (view e (rows_of i (db_Attempts db)))"
    by (rule effects_of_get [OF e])
  note started = start_attempt_moves [OF e refl, of now]
  show ?thesis
    using recovered started view
    by (auto simp: claim_attempt_def Some ej post_iff attempt_of_def
        split: option.splits sum.splits claim_outcome.splits if_splits)
qed

end
