(* ===== verification/EffectKernel.thy ===== *)
theory EffectKernel
  imports EffectRefine
begin

text \<open>
  The kernel as a whole: the invariant of its tables, acceptance and its replay, and the
  system of workers, crashes and provider calls as a step relation with its reachable
  states.  The properties of the kernel are at the end.
\<close>

subsection \<open>The invariant of the tables\<close>

definition tables_ok :: "effects_db \<Rightarrow> bool" where
  "tables_ok db \<longleftrightarrow> (1 \<le> db_NextEffect db \<and> db_NextEffect db \<le> max_int64 + 1) \<and>
     (\<forall>i e. db_Effects db i = Some e \<longrightarrow> 1 \<le> i \<and> i < db_NextEffect db \<and>
        eff_Generation e = 1 + int (retry_count (db_Receipts db) i) \<and> has_job db i (eff_Generation e) \<and>
        (\<exists>r \<in> set (db_Receipts db). rct_Operation r = ''queue'' \<and> rct_EffectID r = i) \<and>
        (\<exists>r \<in> set (accept_rows (db_Receipts db)). rct_EffectID r = i)) \<and>
     (\<forall>a \<in> set (db_Attempts db). db_Effects db (atr_EffectID a) \<noteq> None) \<and>
     (\<forall>i. db_Effects db i = None \<longrightarrow> retry_count (db_Receipts db) i = 0) \<and>
     (\<forall>r \<in> set (kept_rows (db_Receipts db)). db_Effects db (rct_EffectID r) \<noteq> None) \<and>
     distinct (map rct_ReceiptKey (accept_rows (db_Receipts db))) \<and>
     distinct (map rct_EffectID (accept_rows (db_Receipts db)))"

lemma tables_okD:
  assumes "tables_ok db" "db_Effects db i = Some e"
  shows "1 \<le> i" "i < db_NextEffect db"
    "eff_Generation e = 1 + int (retry_count (db_Receipts db) i)" "has_job db i (eff_Generation e)"
    "\<exists>r \<in> set (db_Receipts db). rct_Operation r = ''queue'' \<and> rct_EffectID r = i"
    "\<exists>r \<in> set (accept_rows (db_Receipts db)). rct_EffectID r = i"
  using assms unfolding tables_ok_def by blast+

definition fingerprints_unique :: "effects_db \<Rightarrow> bool" where
  "fingerprints_unique db \<longleftrightarrow> (\<forall>i j e f. db_Effects db i = Some e \<longrightarrow> db_Effects db j = Some f \<longrightarrow>
     eff_Fingerprint e = eff_Fingerprint f \<longrightarrow> i = j)"

definition effects_ok :: "effects_db \<Rightarrow> bool" where
  "effects_ok db \<longleftrightarrow> (\<forall>i s. effects_of db i = Some s \<longrightarrow> effect_inv s)"

lemma effects_okD: "effects_ok db \<Longrightarrow> effects_of db i = Some s \<Longrightarrow> effect_inv s"
  by (simp add: effects_ok_def)

lemma effect_invD:
  "effect_inv s \<Longrightarrow> 0 \<le> es_Count s \<and> in32 (es_Count s) \<and> 1 \<le> es_Generation s \<and> in64 (es_Generation s) \<and>
     es_Count s \<le> es_Generation s + 4"
  by (simp add: effect_inv_def)

definition db_inv :: "effects_db \<Rightarrow> bool" where
  "db_inv db \<longleftrightarrow> tables_ok db \<and> fingerprints_unique db \<and> effects_ok db"

lemma empty_db_inv: "db_inv empty_db"
  by (simp add: db_inv_def tables_ok_def fingerprints_unique_def effects_ok_def empty_db_def
      effects_of_def accept_rows_def kept_rows_def retry_count_def max_int64_def)

lemma effects_of_None [simp]: "effects_of db i = None \<longleftrightarrow> db_Effects db i = None"
  by (simp add: effects_of_def)

text \<open>What survives a move.\<close>

lemma moves_effect:
  "moves db db' \<Longrightarrow> db_Effects db i = Some e \<Longrightarrow> \<exists>e'. db_Effects db' i = Some e' \<and>
     eff_Envelope e' = eff_Envelope e \<and> eff_Fingerprint e' = eff_Fingerprint e \<and> eff_Lane e' = eff_Lane e"
  by (simp add: moves_def frame_def)

lemma moves_none: "moves db db' \<Longrightarrow> db_Effects db i = None \<Longrightarrow> db_Effects db' i = None"
proof -
  assume m: "moves db db'" and n: "db_Effects db i = None"
  then have "effects_of db i = None" by simp
  with m have "effects_of db' i = None"
    by (auto simp: moves_def effect_step_def simp del: effects_of_None)
  then show ?thesis by simp
qed

lemma moves_dom: "moves db db' \<Longrightarrow> (db_Effects db' i = None) = (db_Effects db i = None)"
  using moves_effect moves_none by (metis option.distinct(1) option.exhaust)

lemma moves_back: "moves db db' \<Longrightarrow> db_Effects db' i = Some e' \<Longrightarrow> \<exists>e. db_Effects db i = Some e"
  by (cases "db_Effects db i") (simp_all add: moves_none)

lemma moves_estep:
  "moves db db' \<Longrightarrow> effects_of db i = Some s \<Longrightarrow> \<exists>t. effects_of db' i = Some t \<and> (t = s \<or> estep s t)"
  by (auto simp: moves_def effect_step_def split: if_splits)

lemma moves_effects_ok: "moves db db' \<Longrightarrow> effects_ok db \<Longrightarrow> effects_ok db'"
  unfolding effects_ok_def
proof (intro allI impI)
  fix i t assume m: "moves db db'" and ok: "\<forall>i s. effects_of db i = Some s \<longrightarrow> effect_inv s"
    and t: "effects_of db' i = Some t"
  then have "db_Effects db' i \<noteq> None" by (metis effects_of_None option.distinct(1))
  with moves_dom [OF m] obtain s where s: "effects_of db i = Some s"
    by (metis effects_of_None not_None_eq)
  with moves_estep [OF m s] t ok estep_inv show "effect_inv t" by auto
qed

lemma set_prefix: "prefix xs ys \<Longrightarrow> x \<in> set xs \<Longrightarrow> x \<in> set ys"
  by (auto simp: prefix_def)

lemma moves_attempts:
  assumes m: "moves db db'" and ok: "tables_ok db" and a: "a \<in> set (db_Attempts db')"
  shows "db_Effects db' (atr_EffectID a) \<noteq> None"
proof
  assume "db_Effects db' (atr_EffectID a) = None"
  then have n: "db_Effects db (atr_EffectID a) = None" using moves_dom [OF m] by simp
  then have "rows_of (atr_EffectID a) (db_Attempts db') = rows_of (atr_EffectID a) (db_Attempts db)"
    using m by (simp add: moves_def frame_def)
  moreover have "a \<in> set (rows_of (atr_EffectID a) (db_Attempts db'))" using a by (simp add: rows_of_def)
  ultimately have "a \<in> set (db_Attempts db)" by (simp add: rows_of_def)
  with n ok show False by (auto simp: tables_ok_def)
qed

lemma moves_generation:
  assumes m: "moves db db'" and ok: "tables_ok db" "effects_ok db" and e': "db_Effects db' i = Some e'"
  shows "eff_Generation e' = 1 + int (retry_count (db_Receipts db') i) \<and> has_job db' i (eff_Generation e')"
proof -
  obtain e where e: "db_Effects db i = Some e" using moves_back [OF m e'] by blast
  have g: "eff_Generation e = 1 + int (retry_count (db_Receipts db) i)" and j: "has_job db i (eff_Generation e)"
    by (rule tables_okD [OF ok(1) e])+
  have in64: "in64 (eff_Generation e)"
    using effect_invD [OF effects_okD [OF ok(2) effects_of_get [OF e]]] by simp
  have c: "(retry_count (db_Receipts db') i = retry_count (db_Receipts db) i \<and>
       eff_Generation e' = eff_Generation e) \<or>
      (retry_count (db_Receipts db') i = Suc (retry_count (db_Receipts db) i) \<and>
       0 < eff_Generation e' \<and> eff_Generation e' = wrap64 (eff_Generation e + 1) \<and>
       has_job db' i (eff_Generation e'))"
  proof -
    have "counted db db'" using m by (simp add: moves_def)
    from this [unfolded counted_def, rule_format, OF e] e' show ?thesis by simp
  qed
  then show ?thesis
  proof
    assume same: "retry_count (db_Receipts db') i = retry_count (db_Receipts db) i \<and>
       eff_Generation e' = eff_Generation e"
    have "prefix (db_Jobs db) (db_Jobs db')" using m by (simp add: moves_def frame_def)
    with j same g show ?thesis by (auto simp: has_job_def dest: set_prefix)
  next
    assume more: "retry_count (db_Receipts db') i = Suc (retry_count (db_Receipts db) i) \<and>
       0 < eff_Generation e' \<and> eff_Generation e' = wrap64 (eff_Generation e + 1) \<and>
       has_job db' i (eff_Generation e')"
    have "0 \<le> eff_Generation e" using g by simp
    with wrap64_Suc_pos in64 more have "eff_Generation e' = eff_Generation e + 1" by simp
    with g more show ?thesis by simp
  qed
qed

lemma moves_inv:
  assumes m: "moves db db'" and i: "db_inv db"
  shows "db_inv db'"
proof -
  have ok: "tables_ok db" "effects_ok db" "fingerprints_unique db" using i by (simp_all add: db_inv_def)
  have kept: "kept_rows (db_Receipts db') = kept_rows (db_Receipts db)"
    and nxt: "db_NextEffect db' = db_NextEffect db" and pre: "prefix (db_Receipts db) (db_Receipts db')"
    using m by (simp_all add: moves_def frame_def)
  have acc: "accept_rows (db_Receipts db') = accept_rows (db_Receipts db)"
    by (simp add: accept_rows_kept kept)
  have rows: "1 \<le> j \<and> j < db_NextEffect db \<and>
        (\<exists>r \<in> set (db_Receipts db'). rct_Operation r = ''queue'' \<and> rct_EffectID r = j) \<and>
        (\<exists>r \<in> set (accept_rows (db_Receipts db)). rct_EffectID r = j)"
    if e': "db_Effects db' j = Some e'" for j e'
  proof -
    obtain e where e: "db_Effects db j = Some e" using moves_back [OF m e'] by blast
    obtain r where "r \<in> set (db_Receipts db)" "rct_Operation r = ''queue''" "rct_EffectID r = j"
      using tables_okD(5) [OF ok(1) e] by blast
    with set_prefix [OF pre] have "\<exists>r \<in> set (db_Receipts db'). rct_Operation r = ''queue'' \<and>
        rct_EffectID r = j" by blast
    with tables_okD(1,2,6) [OF ok(1) e] show ?thesis by simp
  qed
  have none: "retry_count (db_Receipts db') j = 0" if "db_Effects db' j = None" for j
    using that m ok(1) moves_dom [OF m] by (simp add: moves_def frame_def tables_ok_def)
  have A: "\<forall>j e'. db_Effects db' j = Some e' \<longrightarrow> 1 \<le> j \<and> j < db_NextEffect db \<and>
        eff_Generation e' = 1 + int (retry_count (db_Receipts db') j) \<and> has_job db' j (eff_Generation e') \<and>
        (\<exists>r \<in> set (db_Receipts db'). rct_Operation r = ''queue'' \<and> rct_EffectID r = j) \<and>
        (\<exists>r \<in> set (accept_rows (db_Receipts db)). rct_EffectID r = j)"
    using rows moves_generation [OF m ok(1,2)] by blast
  have B: "\<forall>a \<in> set (db_Attempts db'). db_Effects db' (atr_EffectID a) \<noteq> None"
    using moves_attempts [OF m ok(1)] by blast
  have C: "\<forall>r \<in> set (kept_rows (db_Receipts db)). db_Effects db' (rct_EffectID r) \<noteq> None"
    using ok(1) moves_dom [OF m] by (simp add: tables_ok_def)
  have D: "1 \<le> db_NextEffect db" "db_NextEffect db \<le> max_int64 + 1" "distinct (map rct_ReceiptKey (accept_rows (db_Receipts db)))"
    "distinct (map rct_EffectID (accept_rows (db_Receipts db)))"
    using ok(1) by (simp_all add: tables_ok_def)
  have "tables_ok db'"
    unfolding tables_ok_def acc kept nxt by (intro conjI A B C D allI impI none)
  moreover have "fingerprints_unique db'"
    unfolding fingerprints_unique_def
  proof (intro allI impI)
    fix j k e' f' assume e': "db_Effects db' j = Some e'" and f': "db_Effects db' k = Some f'"
      and eq: "eff_Fingerprint e' = eff_Fingerprint f'"
    obtain e f where e: "db_Effects db j = Some e" and f: "db_Effects db k = Some f"
      using moves_back [OF m e'] moves_back [OF m f'] by blast
    with moves_effect [OF m e] moves_effect [OF m f] e' f' eq ok(3) show "j = k"
      by (auto simp: fingerprints_unique_def)
  qed
  ultimately show ?thesis using moves_effects_ok [OF m ok(2)] by (simp add: db_inv_def)
qed

subsection \<open>Acceptance\<close>

lemma wp_insert_effect [wp]:
  "(find_fingerprint db (eff_Fingerprint e) = None \<Longrightarrow> db_NextEffect db \<le> max_int64 \<Longrightarrow>
      P (db\<lparr>db_Effects := (db_Effects db)(db_NextEffect db := Some e),
            db_NextEffect := db_NextEffect db + 1\<rparr>)) \<Longrightarrow> post P (insert_effect db e)"
  by (simp add: insert_effect_def)

lemma wp_accept_receipt:
  "(\<And>r. rct_ID r = int (length (db_Receipts db)) + 1 \<Longrightarrow> rct_Operation r = ''accept'' \<Longrightarrow>
      rct_EffectID r = i \<Longrightarrow> rct_ReceiptKey r = key \<Longrightarrow> rct_CommandDigest r = command \<Longrightarrow>
      rct_State r = st \<Longrightarrow> rct_CompletedAt r = now \<Longrightarrow>
      key \<notin> rct_ReceiptKey ` set (accept_rows (db_Receipts db)) \<Longrightarrow>
      P (db\<lparr>db_Receipts := db_Receipts db @ [r]\<rparr>)) \<Longrightarrow>
   post P (insert_receipt db ''accept'' i key command actor akind aref st now)"
proof (simp add: insert_receipt_def, intro impI, goal_cases)
  case 1
  then have "key \<notin> rct_ReceiptKey ` set (accept_rows (db_Receipts db))"
    by (auto simp: accept_rows_def list_ex_iff)
  with 1 show ?case by simp
qed

text \<open>What a first acceptance leaves, with \<open>ra\<close> and \<open>rq\<close> the two receipts.\<close>

definition accepted ::
  "effects_db \<Rightarrow> effects_db \<Rightarrow> accept_command \<Rightarrow> int \<Rightarrow> go_time \<Rightarrow> receipt_row \<Rightarrow> receipt_row \<Rightarrow> bool" where
  "accepted db db' c job now ra rq \<longleftrightarrow> db_NextEffect db \<le> max_int64 \<and>
     find_fingerprint db (Fingerprint (acc_Envelope c)) = None \<and>
     acc_ReceiptKey c \<notin> rct_ReceiptKey ` set (accept_rows (db_Receipts db)) \<and>
     db_Effects db' = (db_Effects db)(db_NextEffect db := Some ((new_effect_row c now)
       \<lparr>eff_State := StateQueued, eff_UpdatedAt := now\<rparr>)) \<and>
     db_NextEffect db' = db_NextEffect db + 1 \<and> db_Attempts db' = db_Attempts db \<and>
     db_Completions db' = db_Completions db \<and> db_Receipts db' = db_Receipts db @ [ra, rq] \<and>
     rct_ID ra = int (length (db_Receipts db)) + 1 \<and> rct_Operation ra = ''accept'' \<and>
     rct_EffectID ra = db_NextEffect db \<and> rct_ReceiptKey ra = acc_ReceiptKey c \<and>
     rct_CommandDigest ra = AcceptCommand_Digest c \<and> rct_State ra = StateAccepted \<and>
     rct_CompletedAt ra = now \<and>
     rct_ID rq = int (length (db_Receipts db)) + 2 \<and> rct_Operation rq = ''queue'' \<and>
     rct_EffectID rq = db_NextEffect db \<and>
     (\<exists>j. db_Jobs db' = db_Jobs db @ [j] \<and> job_EffectID j = db_NextEffect db \<and> job_Generation j = 1 \<and>
        job_RiverJobID j = job)"

lemma accept_new_post:
  "post (\<lambda>r. \<exists>job ra rq. accepted db (snd r) c job now ra rq \<and>
      fst r = (\<lparr>prj_ID = effectID (db_NextEffect db), prj_Owner = env_Owner (acc_Envelope c),
        prj_Kind = env_Kind (acc_Envelope c), prj_State = StateQueued, prj_AttemptCount = 0,
        prj_Generation = 1, prj_UpdatedAt = utc now, prj_QueueJobID = job\<rparr>,
       \<lparr>rcp_ID = receipt_name (rct_ID ra), rcp_EffectID = effectID (db_NextEffect db),
        rcp_CommandDigest = AcceptCommand_Digest c, rcp_ActorAdminUserID = None,
        rcp_State = StateAccepted, rcp_CompletedAt = now,
        rcp_QueueReceiptID = receipt_name (rct_ID rq)\<rparr>)) (accept_new db c river now)"
  unfolding accept_new_def Let_def insert_accepted_def queue_accepted_def
proof (intro wp_bind wp_insert_effect wp_accept_receipt wp_insert_generation wp_option wp_Inl
    wp_update_effect wp_insert_job wp_insert_receipt, goal_cases)
  case (1 ra q e j rq)
  then show ?case
    unfolding post_Inr
    by (intro exI [of _ "fst q"] exI [of _ ra] exI [of _ rq] conjI)
      (simp_all add: accepted_def new_effect_row_def)
qed

lemma find_first:
  "find P xs = Some x \<Longrightarrow> find P (xs @ ys) = Some x"
  by (induction xs) (auto split: if_splits)

lemma find_none_append: "find P xs = None \<Longrightarrow> find P (xs @ ys) = find P ys"
  by (induction xs) (auto split: if_splits)

lemma find_None_iff': "find P xs = None \<longleftrightarrow> (\<forall>x \<in> set xs. \<not> P x)"
  by (auto simp: find_None_iff)

lemma accepted_inv:
  assumes a: "accepted db db' c job now ra rq" and i: "db_inv db"
  shows "db_inv db'"
proof -
  let ?n = "db_NextEffect db"
  have ok: "tables_ok db" "effects_ok db" "fingerprints_unique db" using i by (simp_all add: db_inv_def)
  have new: "db_Effects db ?n = None"
    using tables_okD(2) [OF ok(1), of ?n] by (cases "db_Effects db ?n") auto
  have acc: "accept_rows (db_Receipts db') = accept_rows (db_Receipts db) @ [ra]"
    using a by (simp add: accepted_def accept_rows_def)
  have kept: "kept_rows (db_Receipts db') = kept_rows (db_Receipts db) @ [ra, rq]"
    using a by (simp add: accepted_def kept_rows_def)
  have old: "?n \<notin> rct_EffectID ` set (kept_rows (db_Receipts db))"
    using ok(1) new by (auto simp: tables_ok_def)
  then have fresh: "?n \<notin> rct_EffectID ` set (accept_rows (db_Receipts db))"
    by (auto simp: accept_rows_kept)
  obtain j where j: "db_Jobs db' = db_Jobs db @ [j]" "job_EffectID j = ?n" "job_Generation j = 1"
    using a by (auto simp: accepted_def)
  have rc: "retry_count (db_Receipts db') k = retry_count (db_Receipts db) k" for k
    using a by (simp add: accepted_def retry_count_def)
  have rows: "1 \<le> k \<and> k < ?n + 1 \<and> eff_Generation e' = 1 + int (retry_count (db_Receipts db') k) \<and>
        has_job db' k (eff_Generation e') \<and>
        (\<exists>r \<in> set (db_Receipts db'). rct_Operation r = ''queue'' \<and> rct_EffectID r = k) \<and>
        (\<exists>r \<in> set (accept_rows (db_Receipts db) @ [ra]). rct_EffectID r = k)"
    if e': "db_Effects db' k = Some e'" for k e'
  proof (cases "k = ?n")
    case True
    with a e' have g: "eff_Generation e' = 1" by (auto simp: accepted_def new_effect_row_def)
    have "1 \<le> ?n" "retry_count (db_Receipts db) ?n = 0" using ok(1) new by (auto simp: tables_ok_def)
    moreover have "has_job db' ?n 1" using j by (simp add: has_job_def)
    moreover have "\<exists>r \<in> set (db_Receipts db'). rct_Operation r = ''queue'' \<and> rct_EffectID r = ?n"
      using a by (auto simp: accepted_def)
    ultimately show ?thesis using True g rc a by (simp add: accepted_def)
  next
    case False
    with a e' have e: "db_Effects db k = Some e'" by (simp add: accepted_def)
    note t = tables_okD [OF ok(1) e]
    have "has_job db' k (eff_Generation e')" using t(4) j by (auto simp: has_job_def)
    moreover have "\<exists>r \<in> set (db_Receipts db'). rct_Operation r = ''queue'' \<and> rct_EffectID r = k"
      using t(5) a by (auto simp: accepted_def)
    ultimately show ?thesis using t rc by auto
  qed
  have A: "\<forall>k e'. db_Effects db' k = Some e' \<longrightarrow> 1 \<le> k \<and> k < ?n + 1 \<and>
        eff_Generation e' = 1 + int (retry_count (db_Receipts db') k) \<and> has_job db' k (eff_Generation e') \<and>
        (\<exists>r \<in> set (db_Receipts db'). rct_Operation r = ''queue'' \<and> rct_EffectID r = k) \<and>
        (\<exists>r \<in> set (accept_rows (db_Receipts db) @ [ra]). rct_EffectID r = k)"
    using rows by blast
  have B: "\<forall>x \<in> set (db_Attempts db'). db_Effects db' (atr_EffectID x) \<noteq> None"
    using a ok(1) by (auto simp: accepted_def tables_ok_def)
  have C: "\<forall>r \<in> set (kept_rows (db_Receipts db) @ [ra, rq]). db_Effects db' (rct_EffectID r) \<noteq> None"
    using a ok(1) by (auto simp: accepted_def tables_ok_def)
  have D: "1 \<le> ?n + 1" "?n + 1 \<le> max_int64 + 1" "distinct (map rct_ReceiptKey (accept_rows (db_Receipts db) @ [ra]))"
    "distinct (map rct_EffectID (accept_rows (db_Receipts db) @ [ra]))"
    using a ok(1) fresh by (auto simp: accepted_def tables_ok_def)
  have E: "retry_count (db_Receipts db') k = 0" if "db_Effects db' k = None" for k
    using that a ok(1) rc by (auto simp: accepted_def tables_ok_def split: if_splits)
  have nxt: "db_NextEffect db' = ?n + 1" using a by (simp add: accepted_def)
  have "tables_ok db'"
    unfolding tables_ok_def acc kept nxt by (intro conjI A B C D allI impI E)
  moreover have "fingerprints_unique db'"
  proof -
    have fp: "eff_Fingerprint e \<noteq> Fingerprint (acc_Envelope c)" if e: "db_Effects db k = Some e" for k e
    proof -
      have "k \<in> set [1..?n - 1]" using tables_okD(1,2) [OF ok(1) e] by simp
      moreover have "\<forall>x \<in> set [1..?n - 1]. \<not> (case db_Effects db x of None \<Rightarrow> False
          | Some e \<Rightarrow> eff_Fingerprint e = Fingerprint (acc_Envelope c))"
        using a unfolding accepted_def find_fingerprint_def find_None_iff' by blast
      ultimately have "\<not> (case db_Effects db k of None \<Rightarrow> False
          | Some e \<Rightarrow> eff_Fingerprint e = Fingerprint (acc_Envelope c))" by blast
      with e show ?thesis by simp
    qed
    have row: "db_Effects db' k = (if k = ?n then Some ((new_effect_row c now)\<lparr>eff_State := StateQueued,
        eff_UpdatedAt := now\<rparr>) else db_Effects db k)" for k
      using a by (simp add: accepted_def)
    show ?thesis
      unfolding fingerprints_unique_def
    proof (intro allI impI)
      fix j k e f assume e: "db_Effects db' j = Some e" and f: "db_Effects db' k = Some f"
        and eq: "eff_Fingerprint e = eff_Fingerprint f"
      have new_fp: "eff_Fingerprint g = Fingerprint (acc_Envelope c)" if "db_Effects db' ?n = Some g" for g
        using that by (auto simp: row new_effect_row_def)
      have old: "db_Effects db m = Some g" if "db_Effects db' m = Some g" "m \<noteq> ?n" for m g
        using that by (simp add: row)
      show "j = k"
      proof (cases "j = ?n \<or> k = ?n")
        case True
        then show ?thesis using e f eq new_fp old fp by metis
      next
        case False
        then show ?thesis using ok(3) old [OF e] old [OF f] eq unfolding fingerprints_unique_def by blast
      qed
    qed
  qed
  moreover have "effects_ok db'"
    unfolding effects_ok_def
  proof (intro allI impI)
    fix k s assume s: "effects_of db' k = Some s"
    show "effect_inv s"
    proof (cases "k = ?n")
      case True
      have "rows_of ?n (db_Attempts db) = []"
        using ok(1) new by (auto simp: rows_of_def filter_empty_conv tables_ok_def)
      then have "s = initial_estate c"
        using s a True
        by (simp add: effects_of_def accepted_def new_effect_row_def initial_estate_def view_def)
      then show ?thesis by (simp add: initial_estate_inv)
    next
      case False
      then have "effects_of db k = Some s" using s a by (simp add: effects_of_def accepted_def)
      with ok(2) show ?thesis by (rule effects_okD)
    qed
  qed
  ultimately show ?thesis by (simp add: db_inv_def)
qed

lemma replay_acceptance_post: "post (\<lambda>r. snd r = db) (replay_acceptance db i e r)"
  by (simp add: replay_acceptance_def post_iff split: sum.splits)

lemma acceptAndQueueTx_post:
  "post (\<lambda>r. snd r = db \<or> (\<exists>job ra rq. accepted db (snd r) c job now ra rq)) (acceptAndQueueTx db c river now)"
  unfolding acceptAndQueueTx_def
  by (intro wp post_mono [OF accept_new_post] post_mono [OF replay_acceptance_post]) auto

lemma accept_inv: "db_inv db \<Longrightarrow> post (\<lambda>r. db_inv (snd r)) (acceptAndQueueTx db c river now)"
  by (rule post_mono [OF acceptAndQueueTx_post]) (auto intro: accepted_inv)

subsection \<open>The system of workers\<close>

text \<open>
  A flight is one execution of \<open>RunAttempt\<close> after its claim committed: it knows its attempt
  and queue, and, once the provider boundary was passed, the envelope and the answer.
  \<open>w_calls\<close> logs every call of the adapter.  A flight may stop anywhere (a crash, a
  timeout, a failed transaction); clocks are arbitrary in every step.
\<close>

record flight =
  fl_Effect :: int
  fl_Attempt :: attempt
  fl_Queue :: string
  fl_Answer :: "(envelope \<times> (adapter_result \<times> bool) option) option"

record world =
  w_db :: effects_db
  w_flights :: "flight list"
  w_calls :: "(int \<times> attempt) list"

definition initial_world :: world where
  "initial_world = \<lparr>w_db = empty_db, w_flights = [], w_calls = []\<rparr>"

inductive step :: "completion_sink option \<Rightarrow> world \<Rightarrow> world \<Rightarrow> bool" for sink where
  step_accept: "acceptAndQueueTx (w_db w) c river now = Inr (r, db') \<Longrightarrow>
    step sink w (w\<lparr>w_db := db'\<rparr>)"
| step_cancel: "CancelQueuedEffectWithin (w_db w) cc now = Inr (p, db') \<Longrightarrow>
    step sink w (w\<lparr>w_db := db'\<rparr>)"
| step_client: "CompleteClientEffectWithin (w_db w) cl now = Inr (p, db') \<Longrightarrow>
    step sink w (w\<lparr>w_db := db'\<rparr>)"
| step_control: "operation \<in> {''cancel'', ''retry'', ''reconcile''} \<Longrightarrow>
    controlWithin sink (w_db w) ct operation job app now = Inr (p, db') \<Longrightarrow>
    step sink w (w\<lparr>w_db := db'\<rparr>)"
| step_tag_retry: "RetryTagCatalogMutationWithin sink (w_db w) tg busy job app now = Inr (p, db') \<Longrightarrow>
    step sink w (w\<lparr>w_db := db'\<rparr>)"
| step_invoice: "invoiceFinality (w_db w) ref evidence cancel busy now = Inr db' \<Longrightarrow>
    step sink w (w\<lparr>w_db := db'\<rparr>)"
| step_recover: "claim_attempt sink (w_db w) i generation job app now = Inr (ClaimRecovered db') \<Longrightarrow>
    step sink w (w\<lparr>w_db := db'\<rparr>)"
| step_claim: "claim_attempt sink (w_db w) i generation job app now = Inr (ClaimStarted db' a queue) \<Longrightarrow>
    step sink w (w\<lparr>w_db := db', w_flights := w_flights w @
      [\<lparr>fl_Effect = i, fl_Attempt = a, fl_Queue = queue, fl_Answer = None\<rparr>]\<rparr>)"
| step_call: "w_flights w = fs @ f # gs \<Longrightarrow> fl_Answer f = None \<Longrightarrow>
    claimed_envelope (w_db w) (fl_Effect f) (atp_Generation (fl_Attempt f)) = Some env \<Longrightarrow>
    step sink w (w\<lparr>w_flights := fs @ f\<lparr>fl_Answer := Some (env, Some answer)\<rparr> # gs,
      w_calls := w_calls w @ [(fl_Effect f, fl_Attempt f)]\<rparr>)"
| step_no_adapter: "w_flights w = fs @ f # gs \<Longrightarrow> fl_Answer f = None \<Longrightarrow>
    claimed_envelope (w_db w) (fl_Effect f) (atp_Generation (fl_Attempt f)) = Some env \<Longrightarrow>
    step sink w (w\<lparr>w_flights := fs @ f\<lparr>fl_Answer := Some (env, None)\<rparr> # gs\<rparr>)"
| step_finish: "w_flights w = fs @ f # gs \<Longrightarrow> fl_Answer f = Some (env, outcome) \<Longrightarrow>
    finish_attempt sink (w_db w) (fl_Effect f) (fl_Attempt f) (fl_Queue f) env outcome now = Inr (d, db') \<Longrightarrow>
    step sink w (w\<lparr>w_db := db', w_flights := fs @ gs\<rparr>)"
| step_crash: "w_flights w = fs @ f # gs \<Longrightarrow> step sink w (w\<lparr>w_flights := fs @ gs\<rparr>)"

inductive_cases stepE: "step sink w w'"

text \<open>Every step either leaves the tables, moves one effect or accepts a new one.\<close>

definition db_step :: "effects_db \<Rightarrow> effects_db \<Rightarrow> bool" where
  "db_step db db' \<longleftrightarrow> db' = db \<or> moves db db' \<or> (\<exists>c job now ra rq. accepted db db' c job now ra rq)"

lemma step_db: "step sink w w' \<Longrightarrow> db_step (w_db w) (w_db w')"
proof (induction rule: step.induct)
  case (step_accept w c river now r db')
  from postD [OF acceptAndQueueTx_post this] show ?case by (auto simp: db_step_def)
next
  case (step_cancel w cc now p db')
  from postD [OF CancelQueuedEffectWithin_moves this] show ?case by (simp add: db_step_def)
next
  case (step_client w cl now p db')
  from postD [OF CompleteClientEffectWithin_moves this] show ?case by (simp add: db_step_def)
next
  case (step_control operation w ct job app now p db')
  from postD [OF controlWithin_moves [OF step_control(1)] step_control(2)]
  show ?case by (simp add: db_step_def)
next
  case (step_tag_retry w tg busy job app now p db')
  from postD [OF RetryTagCatalogMutationWithin_moves this] show ?case by (simp add: db_step_def)
next
  case (step_invoice w ref evidence cancel busy now db')
  from postD [OF invoiceFinality_moves this] show ?case by (simp add: db_step_def)
next
  case (step_recover w i generation job app now db')
  from postD [OF claim_attempt_post this] show ?case by (simp add: db_step_def)
next
  case (step_claim w i generation job app now db' a queue)
  from postD [OF claim_attempt_post this] show ?case by (simp add: db_step_def)
next
  case (step_finish w fs f gs env outcome now d db')
  from postD [OF finish_attempt_post step_finish(3)] show ?case by (simp add: db_step_def)
qed (simp_all add: db_step_def)

lemma db_step_inv: "db_step db db' \<Longrightarrow> db_inv db \<Longrightarrow> db_inv db'"
  by (auto simp: db_step_def intro: moves_inv accepted_inv)

lemma db_step_effect:
  assumes "db_step db db'" and "db_inv db" and s: "effects_of db i = Some s"
  shows "\<exists>t. effects_of db' i = Some t \<and> (t = s \<or> estep s t)"
  using assms(1) unfolding db_step_def
proof (elim disjE)
  assume "db' = db" with s show ?thesis by simp
next
  assume "moves db db'" from moves_estep [OF this s] show ?thesis .
next
  assume "\<exists>c job now ra rq. accepted db db' c job now ra rq"
  then obtain c job now ra rq where a: "accepted db db' c job now ra rq" by blast
  have "i \<noteq> db_NextEffect db"
  proof
    assume "i = db_NextEffect db"
    with s obtain e where e: "db_Effects db (db_NextEffect db) = Some e" by (auto simp: effects_of_def)
    from tables_okD(2) [OF _ e] assms(2) show False by (simp add: db_inv_def)
  qed
  with a s have "effects_of db' i = Some s" by (simp add: accepted_def effects_of_def)
  then show ?thesis by blast
qed

subsection \<open>Reachable worlds\<close>

definition known :: "effects_db \<Rightarrow> int \<Rightarrow> attempt \<Rightarrow> bool" where
  "known db i a \<longleftrightarrow> (\<exists>s. effects_of db i = Some s \<and>
     (atp_Number a, atp_Generation a, atp_Fence a) \<in> attempt_keys s)"

definition call_key :: "int \<times> attempt \<Rightarrow> int \<times> int" where
  "call_key c = (fst c, atp_Number (snd c))"

definition flight_key :: "flight \<Rightarrow> int \<times> int" where
  "flight_key f = (fl_Effect f, atp_Number (fl_Attempt f))"

definition world_inv :: "world \<Rightarrow> bool" where
  "world_inv w \<longleftrightarrow> db_inv (w_db w) \<and> distinct (map flight_key (w_flights w)) \<and>
     distinct (map call_key (w_calls w)) \<and>
     (\<forall>f \<in> set (w_flights w). known (w_db w) (fl_Effect f) (fl_Attempt f) \<and>
        (fl_Answer f = None \<longrightarrow> flight_key f \<notin> call_key ` set (w_calls w))) \<and>
     (\<forall>c \<in> set (w_calls w). known (w_db w) (fst c) (snd c))"

lemma known_step: "db_step db db' \<Longrightarrow> db_inv db \<Longrightarrow> known db i a \<Longrightarrow> known db' i a"
proof -
  assume st: "db_step db db'" and inv: "db_inv db" and "known db i a"
  then obtain s where s: "effects_of db i = Some s"
    and k: "(atp_Number a, atp_Generation a, atp_Fence a) \<in> attempt_keys s" by (auto simp: known_def)
  from db_step_effect [OF st inv s] obtain t where t: "effects_of db' i = Some t" "t = s \<or> estep s t" by blast
  from t(2) have "attempt_keys s \<subseteq> attempt_keys t" using estep_keeps by blast
  with t(1) k show "known db' i a" by (auto simp: known_def)
qed

lemma known_number:
  assumes "db_inv db" "known db i a" "effects_of db i = Some s"
  shows "1 \<le> atp_Number a \<and> atp_Number a \<le> es_Count s"
proof -
  have inv: "effect_inv s" using assms(1,3) by (auto simp: db_inv_def intro: effects_okD)
  from assms(2,3) obtain r where "r \<in> set (es_Attempts s)" "atr_Number r = atp_Number a"
    by (auto simp: known_def attempt_keys_def)
  with inv show ?thesis by (auto simp: effect_inv_def list_all_iff attempt_inv_def)
qed

lemma claim_fresh:
  assumes inv: "db_inv db" and c: "claim_attempt sink db i generation job app now = Inr (ClaimStarted db' a q)"
  shows "known db' i a" and "known db i b \<Longrightarrow> atp_Number b \<noteq> atp_Number a"
proof -
  from postD [OF claim_attempt_post c] obtain s t where st: "effects_of db i = Some s"
    "effects_of db' i = Some t" "es_Count t = wrap32 (es_Count s + 1)" "1 \<le> es_Count t"
    "atp_Number a = es_Count t" "(atp_Number a, atp_Generation a, atp_Fence a) \<in> attempt_keys t"
    by auto
  then show "known db' i a" by (auto simp: known_def)
  have "effect_inv s" using inv st(1) by (auto simp: db_inv_def intro: effects_okD)
  then have "0 \<le> es_Count s" "in32 (es_Count s)" by (simp_all add: effect_invD)
  with st have "atp_Number a = es_Count s + 1" using wrap32_Suc_pos by simp
  then show "known db i b \<Longrightarrow> atp_Number b \<noteq> atp_Number a"
    using known_number [OF inv _ st(1), of b] by linarith
qed

text \<open>Steps that keep the flights and the log.\<close>

lemma world_inv_db:
  "world_inv w \<Longrightarrow> db_step (w_db w) db' \<Longrightarrow> world_inv (w\<lparr>w_db := db'\<rparr>)"
  by (auto simp: world_inv_def intro: db_step_inv known_step)

lemma world_inv_remove:
  "world_inv w \<Longrightarrow> w_flights w = fs @ f # gs \<Longrightarrow> world_inv (w\<lparr>w_flights := fs @ gs\<rparr>)"
  by (auto simp: world_inv_def)

lemma initial_world_inv: "world_inv initial_world"
  by (simp add: world_inv_def initial_world_def empty_db_inv)

lemma step_inv:
  assumes "step sink w w'" and inv: "world_inv w"
  shows "world_inv w'"
  using assms(1)
proof cases
  case (step_claim i generation job app now db' a queue)
  have db: "db_step (w_db w) db'" using step_db [OF assms(1)] step_claim(1) by simp
  have dinv: "db_inv (w_db w)" using inv by (simp add: world_inv_def)
  note fresh = claim_fresh [OF dinv step_claim(2)]
  have w1: "world_inv (w\<lparr>w_db := db'\<rparr>)" by (rule world_inv_db [OF inv db])
  have "(i, atp_Number a) \<notin> flight_key ` set (w_flights w)"
  proof
    assume "(i, atp_Number a) \<in> flight_key ` set (w_flights w)"
    then obtain f where f: "f \<in> set (w_flights w)" "fl_Effect f = i" "atp_Number (fl_Attempt f) = atp_Number a"
      by (auto simp: flight_key_def)
    with inv have "known (w_db w) i (fl_Attempt f)" by (auto simp: world_inv_def)
    from fresh(2) [OF this] f(3) show False by simp
  qed
  moreover have "(i, atp_Number a) \<notin> call_key ` set (w_calls w)"
  proof
    assume "(i, atp_Number a) \<in> call_key ` set (w_calls w)"
    then obtain c where c: "c \<in> set (w_calls w)" "fst c = i" "atp_Number (snd c) = atp_Number a"
      by (auto simp: call_key_def)
    with inv have "known (w_db w) i (snd c)" by (auto simp: world_inv_def)
    from fresh(2) [OF this] c(3) show False by simp
  qed
  ultimately show ?thesis
    using w1 fresh(1) unfolding step_claim(1) by (auto simp: world_inv_def flight_key_def)
next
  case (step_call fs f gs env answer)
  then have f: "f \<in> set (w_flights w)" by simp
  with inv step_call(3) have "flight_key f \<notin> call_key ` set (w_calls w)"
    "known (w_db w) (fl_Effect f) (fl_Attempt f)" by (simp_all add: world_inv_def)
  moreover have "flight_key f \<notin> flight_key ` set fs" "flight_key f \<notin> flight_key ` set gs"
    using inv step_call(2) by (simp_all add: world_inv_def)
  ultimately show ?thesis
    using inv step_call(2) unfolding step_call(1)
    by (auto simp: world_inv_def flight_key_def call_key_def image_iff)
next
  case (step_no_adapter fs f gs env)
  then show ?thesis using inv by (auto simp: world_inv_def flight_key_def)
next
  case (step_finish fs f gs env outcome now d db')
  have "db_step (w_db w) db'" using step_db [OF assms(1)] step_finish(1) by simp
  from world_inv_remove [OF world_inv_db [OF inv this], of fs f gs] step_finish
  show ?thesis by simp
next
  case (step_crash fs f gs)
  with world_inv_remove [OF inv] show ?thesis by blast
qed (use world_inv_db [OF inv] step_db [OF assms(1)] in auto)

definition reachable :: "completion_sink option \<Rightarrow> world \<Rightarrow> bool" where
  "reachable sink w \<longleftrightarrow> (step sink)\<^sup>*\<^sup>* initial_world w"

lemma steps_inv: "(step sink)\<^sup>*\<^sup>* w w' \<Longrightarrow> world_inv w \<Longrightarrow> world_inv w'"
  by (induction rule: rtranclp_induct) (auto intro: step_inv)

lemma reachable_inv: "reachable sink w \<Longrightarrow> world_inv w"
  by (auto simp: reachable_def intro: steps_inv initial_world_inv)

end
