(* ===== verification/EffectSafety.thy ===== *)
theory EffectSafety
  imports EffectKernel
begin

text \<open>
  What the reachable worlds of the external-effect kernel promise: calls of the provider,
  finality of settled effects, the published state machine, late completions, replayed
  acceptances and the progress of queued and of expired attempts.
\<close>

subsection \<open>Histories\<close>

lemma reachable_db_inv: "reachable sink w \<Longrightarrow> db_inv (w_db w)"
  using reachable_inv by (auto simp: world_inv_def)

lemma reachable_trans: "reachable sink w \<Longrightarrow> (step sink)\<^sup>*\<^sup>* w w' \<Longrightarrow> reachable sink w'"
  by (auto simp: reachable_def)

text \<open>A relation on tables that every step respects holds along a history.\<close>

lemma history:
  assumes "(step sink)\<^sup>*\<^sup>* w w'" and "world_inv w" and "P (w_db w)"
    and "\<And>db db'. db_step db db' \<Longrightarrow> db_inv db \<Longrightarrow> P db \<Longrightarrow> P db'"
  shows "P (w_db w')"
  using assms(1)
proof (induction rule: rtranclp_induct)
  case (step v v')
  have "db_inv (w_db v)" using steps_inv [OF step(1) assms(2)] by (simp add: world_inv_def)
  then show ?case using assms(4) step_db [OF step(2)] step(3) by blast
qed (use assms(3) in simp)

lemma history_inv: "(step sink)\<^sup>*\<^sup>* w w' \<Longrightarrow> world_inv w \<Longrightarrow> db_inv (w_db w')"
  using steps_inv by (auto simp: world_inv_def)

lemma history_effect:
  assumes "(step sink)\<^sup>*\<^sup>* w w'" and "world_inv w" and "effects_of (w_db w) i = Some s"
  shows "\<exists>t. effects_of (w_db w') i = Some t \<and> estep\<^sup>*\<^sup>* s t"
proof (rule history [OF assms(1,2), where P = "\<lambda>db. \<exists>t. effects_of db i = Some t \<and> estep\<^sup>*\<^sup>* s t"])
  show "\<exists>t. effects_of (w_db w) i = Some t \<and> estep\<^sup>*\<^sup>* s t" using assms(3) by blast
  fix db db' assume "db_step db db'" "db_inv db" "\<exists>t. effects_of db i = Some t \<and> estep\<^sup>*\<^sup>* s t"
  then show "\<exists>t. effects_of db' i = Some t \<and> estep\<^sup>*\<^sup>* s t"
    using db_step_effect by (metis rtranclp.rtrancl_into_rtrancl)
qed

lemma effects_of_Some:
  "effects_of db i = Some s \<longleftrightarrow> (\<exists>e. db_Effects db i = Some e \<and> s = view e (rows_of i (db_Attempts db)))"
  by (auto simp: effects_of_def)

subsection \<open>Final states\<close>

definition final_estate :: "estate \<Rightarrow> bool" where
  "final_estate s \<longleftrightarrow> es_State s \<in> {StateExecuted, StateReconciled, StateCancelled} \<or>
     (es_State s = StateFinalFailed \<and> es_Kind s \<noteq> KindWeComTagCatalogMutation) \<or>
     (es_State s = StateUnknown \<and> es_Owner s = OwnerPayment)"

lemma final_estate_stays: "estep\<^sup>*\<^sup>* s t \<Longrightarrow> final_estate s \<Longrightarrow> t = s"
proof (induction rule: converse_rtranclp_induct)
  case (step s u)
  from estep_closed [OF step(1)] step(4) have False by (auto simp: final_estate_def)
  then show ?case ..
qed simp

lemma unknown_estate_steps:
  "estep\<^sup>*\<^sup>* s t \<Longrightarrow> es_State s = StateUnknown \<Longrightarrow>
     t = s \<or> (es_State t = StateReconciled \<and> es_Count t = es_Count s)"
proof (induction rule: converse_rtranclp_induct)
  case (step s u)
  from estep_closed [OF step(1)] step(4)
  have u: "es_State u = StateReconciled" "es_Count u = es_Count s" by auto
  then have "final_estate u" by (simp add: final_estate_def)
  with final_estate_stays [OF step(2)] u show ?case by simp
qed simp

subsection \<open>Attempts of a world\<close>

lemma calls_of_effect:
  assumes inv: "world_inv w" and e: "db_Effects (w_db w) i = Some e"
  shows "int (length (filter (\<lambda>c. fst c = i) (w_calls w))) \<le> eff_AttemptCount e"
proof -
  let ?cs = "filter (\<lambda>c. fst c = i) (w_calls w)"
  let ?ns = "map (\<lambda>c. atp_Number (snd c)) ?cs"
  have s: "effects_of (w_db w) i = Some (view e (rows_of i (db_Attempts (w_db w))))"
    by (rule effects_of_get [OF e])
  have "distinct (map call_key ?cs)"
    using inv by (simp add: world_inv_def distinct_map inj_on_def)
  then have d: "distinct ?ns"
    by (auto simp: distinct_map inj_on_def call_key_def)
  have "set ?ns \<subseteq> {1..eff_AttemptCount e}"
    using inv known_number [OF _ _ s] by (fastforce simp: world_inv_def)
  then have "card (set ?ns) \<le> card {1..eff_AttemptCount e}" by (intro card_mono) simp_all
  moreover have "0 \<le> eff_AttemptCount e"
    using inv s effect_invD effects_okD by (fastforce simp: world_inv_def db_inv_def)
  ultimately show ?thesis using distinct_card [OF d] by simp
qed

lemma generation_of_effect:
  assumes "db_inv db" and e: "db_Effects db i = Some e"
  shows "eff_AttemptCount e \<le> 5 + int (retry_count (db_Receipts db) i)"
proof -
  have "effect_inv (view e (rows_of i (db_Attempts db)))"
    using assms effects_okD effects_of_get [OF e] by (auto simp: db_inv_def)
  then have "eff_AttemptCount e \<le> eff_Generation e + 4" by (auto dest: effect_invD)
  moreover have "eff_Generation e = 1 + int (retry_count (db_Receipts db) i)"
    using assms tables_okD(3) by (auto simp: db_inv_def)
  ultimately show ?thesis by simp
qed

lemma known_row:
  "known db i a \<Longrightarrow> \<exists>r \<in> set (db_Attempts db). atr_EffectID r = i \<and> atr_Number r = atp_Number a \<and>
     atr_Generation r = atp_Generation a \<and> atr_Fence r = atp_Fence a"
  by (auto simp: known_def effects_of_Some attempt_keys_def rows_of_def)

subsection \<open>Open attempts\<close>

text \<open>On the abstract effect: the attempt \<open>(n, g, f)\<close> is open.\<close>

definition open_in :: "estate \<Rightarrow> int \<Rightarrow> int \<Rightarrow> int \<Rightarrow> bool" where
  "open_in s n g f \<longleftrightarrow> (\<exists>r \<in> set (es_Attempts s). atr_Number r = n \<and> atr_Generation r = g \<and>
     atr_Fence r = f \<and> atr_State r = StateAttempted)"

lemma open_in_rewrite:
  assumes "\<And>b. sel b \<Longrightarrow> same_key b (h b) \<and> atr_State (h b) \<noteq> StateAttempted"
  shows "open_in (s\<lparr>es_State := st, es_Attempts := rewrite sel h (es_Attempts s)\<rparr>) n g f \<Longrightarrow> open_in s n g f"
proof -
  assume "open_in (s\<lparr>es_State := st, es_Attempts := rewrite sel h (es_Attempts s)\<rparr>) n g f"
  then obtain r where r: "r \<in> set (rewrite sel h (es_Attempts s))" "atr_Number r = n" "atr_Generation r = g"
    "atr_Fence r = f" "atr_State r = StateAttempted" by (auto simp: open_in_def)
  from set_rewrite [OF r(1)] obtain a where a: "a \<in> set (es_Attempts s)"
    and ra: "r = (if sel a then h a else a)" by blast
  have "\<not> sel a" using assms [of a] ra r(5) by auto
  with a ra r show ?thesis by (auto simp: open_in_def)
qed

lemma open_in_step:
  assumes st: "estep s t" and i: "effect_inv s" and k: "(n, g, f) \<in> attempt_keys s"
    and o: "open_in t n g f"
  shows "open_in s n g f"
proof -
  have n: "n \<le> es_Count s"
    using i k by (auto simp: effect_inv_def list_all_iff attempt_inv_def attempt_keys_def)
  from st show ?thesis
  proof cases
    case (es_start m h a)
    have "m = es_Count s + 1" using i es_start wrap32_Suc_pos by (simp add: effect_inv_def)
    with es_start n o show ?thesis by (auto simp: open_in_def)
  next
    case (es_settle a sel h nxt persisted)
    show ?thesis
    proof (rule open_in_rewrite [of sel h s persisted])
      show "same_key b (h b) \<and> atr_State (h b) \<noteq> StateAttempted" if "sel b" for b
        using es_settle(5) [OF that] es_settle(6) by (auto simp: settled_states_def)
    qed (use o es_settle(1) in simp)
  next
    case (es_reconcile sel h)
    show ?thesis
    proof (rule open_in_rewrite [of sel h s StateReconciled])
      show "same_key b (h b) \<and> atr_State (h b) \<noteq> StateAttempted" if "sel b" for b
        using es_reconcile(4) [OF that] by auto
    qed (use o es_reconcile(1) in simp)
  qed (use o in \<open>auto simp: open_in_def\<close>)
qed

lemma attempt_open_view:
  "effects_of db i = Some s \<Longrightarrow> effect_inv s \<Longrightarrow>
     attempt_open db i a \<longleftrightarrow> open_in s (atp_Number a) (atp_Generation a) (atp_Fence a)"
  by (auto simp: attempt_open_def open_in_def effects_of_Some rows_of_def effect_inv_def list_all_iff
      attempt_inv_def)

text \<open>A known attempt that is not open never opens again.\<close>

definition shut :: "effects_db \<Rightarrow> int \<Rightarrow> attempt \<Rightarrow> bool" where
  "shut db i a \<longleftrightarrow> known db i a \<and> \<not> attempt_open db i a"

lemma shut_step:
  assumes st: "db_step db db'" and i: "db_inv db" and s: "shut db i a"
  shows "shut db' i a"
proof -
  from s obtain u where u: "effects_of db i = Some u"
    and k: "(atp_Number a, atp_Generation a, atp_Fence a) \<in> attempt_keys u"
    by (auto simp: shut_def known_def)
  have iu: "effect_inv u" using i u by (auto simp: db_inv_def intro: effects_okD)
  from db_step_effect [OF st i u] obtain t where t: "effects_of db' i = Some t" "t = u \<or> estep u t" by blast
  have it: "effect_inv t" using iu t(2) estep_inv by blast
  have "\<not> open_in u (atp_Number a) (atp_Generation a) (atp_Fence a)"
    using s attempt_open_view [OF u iu] by (simp add: shut_def)
  then have "\<not> open_in t (atp_Number a) (atp_Generation a) (atp_Fence a)"
    using t(2) open_in_step [OF _ iu k] by blast
  then have "\<not> attempt_open db' i a" using attempt_open_view [OF t(1) it] by simp
  moreover have "known db' i a" using s known_step [OF st i] by (simp add: shut_def)
  ultimately show ?thesis by (simp add: shut_def)
qed

lemma shut_history:
  "(step sink)\<^sup>*\<^sup>* w w' \<Longrightarrow> world_inv w \<Longrightarrow> shut (w_db w) i a \<Longrightarrow> shut (w_db w') i a"
  by (erule (1) history) (auto intro: shut_step)

lemma finish_needs_open:
  "\<not> attempt_open db i a \<Longrightarrow> \<exists>err. finish_attempt sink db i a queue env outcome now = Inl err"
  using postD [OF finish_attempt_post] by (cases "finish_attempt sink db i a queue env outcome now") blast+

lemma attempt_open_known:
  assumes "attempt_open db i a"
  shows "known db i a"
proof -
  obtain r e where r: "r \<in> set (db_Attempts db)" "atr_EffectID r = i" "atr_Number r = atp_Number a"
    "atr_Generation r = atp_Generation a" "atr_Fence r = atp_Fence a" and e: "db_Effects db i = Some e"
    using assms by (auto simp: attempt_open_def)
  then have "(\<lambda>a. (atr_Number a, atr_Generation a, atr_Fence a)) r \<in>
      attempt_keys (view e (rows_of i (db_Attempts db)))"
    unfolding attempt_keys_def by (intro imageI) (simp add: rows_of_def)
  with r effects_of_get [OF e] show ?thesis by (auto simp: known_def)
qed

text \<open>The state a settlement leaves.\<close>

lemma finish_rows_state:
  "post (\<lambda>db'. \<exists>e. db_Effects db' i = Some e \<and> eff_State e = persisted)
     (finish_rows db i a nxt persisted receipt res now)"
  unfolding finish_rows_def by (intro wp) auto

definition settled_as ::
  "bool \<Rightarrow> int \<Rightarrow> attempt \<Rightarrow> string \<Rightarrow> envelope \<Rightarrow> (adapter_result \<times> bool) option \<Rightarrow> effect_status \<Rightarrow> bool" where
  "settled_as has_sink i a queue env outcome st \<longleftrightarrow>
     (let nxt = fst (classify_outcome has_sink i (atp_Number a) (env_Kind env) queue outcome) in
      st = nxt \<or> (nxt = StateRetryable \<and> st = StateQueued))"

lemma finish_attempt_state:
  "post (\<lambda>r. \<exists>e. db_Effects (snd r) i = Some e \<and> settled_as (sink \<noteq> None) i a queue env outcome (eff_State e))
     (finish_attempt sink db i a queue env outcome now)"
proof -
  have post: "post P (finish_rows db i a nxt persisted receipt res now)"
    if "\<And>db' e. db_Effects db' i = Some e \<Longrightarrow> eff_State e = persisted \<Longrightarrow> P db'"
    for P nxt persisted receipt res
    by (rule post_mono [OF finish_rows_state]) (use that in blast)
  show ?thesis
    unfolding finish_attempt_def Let_def
    by (rule wp_bind, rule post) (auto intro!: wp simp: settled_as_def split: option.split)
qed

lemma settled_not_attempted: "settled_as b i a queue env outcome st \<Longrightarrow> st \<noteq> StateAttempted"
  using classify_outcome_settled [of b i "atp_Number a" "env_Kind env" queue outcome]
  by (auto simp: settled_as_def Let_def settled_states_def)

lemma moved_shut:
  assumes m: "moves db db'" and i: "db_inv db" and o: "attempt_open db i a"
    and s: "db_Effects db' i = Some e" "eff_State e \<noteq> StateAttempted"
  shows "shut db' i a"
proof -
  have "known db i a" by (rule attempt_open_known [OF o])
  then have "known db' i a" using known_step i m by (auto simp: db_step_def)
  with s show ?thesis by (auto simp: shut_def attempt_open_def)
qed

lemma recover_attempt_state:
  "post (\<lambda>db'. \<exists>e. db_Effects db' i = Some e \<and> eff_State e = StateUnknown) (recover_attempt sink db i e now)"
  unfolding recover_attempt_def recover_project_def
  by (intro wp) (auto intro!: wp split: option.split)

lemma claim_recovered_state:
  "claim_attempt sink db i generation job app now = Inr (ClaimRecovered db') \<Longrightarrow>
     \<exists>e. db_Effects db' i = Some e \<and> eff_State e = StateUnknown"
  using recover_attempt_state [of i sink db _ now]
  by (auto simp: claim_attempt_def post_iff split: option.splits prod.splits if_splits sum.splits)

subsection \<open>What an acceptance leaves for ever\<close>

text \<open>The tables know the command: its accept receipt, its effect and its first queue receipt,
  which together are the receipt of the answer.\<close>

definition remembers :: "effects_db \<Rightarrow> accept_command \<Rightarrow> int \<Rightarrow> envelope \<Rightarrow> receipt \<Rightarrow> bool" where
  "remembers db c i env rc \<longleftrightarrow> (\<exists>ra rq e.
     find (\<lambda>r. rct_Operation r = ''accept'' \<and> rct_ReceiptKey r = acc_ReceiptKey c) (db_Receipts db) = Some ra \<and>
     rct_EffectID ra = i \<and> rct_CommandDigest ra = AcceptCommand_Digest c \<and>
     find (\<lambda>r. rct_Operation r = ''queue'' \<and> rct_EffectID r = i) (db_Receipts db) = Some rq \<and>
     db_Effects db i = Some e \<and> eff_Envelope e = env \<and>
     rc = \<lparr>rcp_ID = receipt_name (rct_ID ra), rcp_EffectID = effectID i,
           rcp_CommandDigest = rct_CommandDigest ra, rcp_ActorAdminUserID = None,
           rcp_State = rct_State ra, rcp_CompletedAt = rct_CompletedAt ra,
           rcp_QueueReceiptID = receipt_name (rct_ID rq)\<rparr>)"

lemma find_prefix: "prefix xs ys \<Longrightarrow> find P xs = Some x \<Longrightarrow> find P ys = Some x"
  by (auto simp: prefix_def intro: find_first)

lemma db_step_prefix: "db_step db db' \<Longrightarrow> prefix (db_Receipts db) (db_Receipts db')"
  by (auto simp: db_step_def moves_def frame_def accepted_def)

lemma db_step_envelope:
  assumes st: "db_step db db'" and i: "db_inv db" and e: "db_Effects db k = Some e"
  shows "\<exists>e'. db_Effects db' k = Some e' \<and> eff_Envelope e' = eff_Envelope e \<and>
    eff_Fingerprint e' = eff_Fingerprint e"
proof -
  have "k \<noteq> db_NextEffect db" using tables_okD(2) [OF _ e] i by (auto simp: db_inv_def)
  with st e moves_effect [OF _ e] show ?thesis by (auto simp: db_step_def accepted_def)
qed

lemma remembers_step:
  assumes st: "db_step db db'" and i: "db_inv db" and r: "remembers db c k env rc"
  shows "remembers db' c k env rc"
proof -
  note pre = find_prefix [OF db_step_prefix [OF st]]
  from r obtain ra rq e where *:
    "find (\<lambda>r. rct_Operation r = ''accept'' \<and> rct_ReceiptKey r = acc_ReceiptKey c) (db_Receipts db) = Some ra"
    "rct_EffectID ra = k" "rct_CommandDigest ra = AcceptCommand_Digest c"
    "find (\<lambda>r. rct_Operation r = ''queue'' \<and> rct_EffectID r = k) (db_Receipts db) = Some rq"
    "db_Effects db k = Some e" "eff_Envelope e = env"
    "rc = \<lparr>rcp_ID = receipt_name (rct_ID ra), rcp_EffectID = effectID k,
           rcp_CommandDigest = rct_CommandDigest ra, rcp_ActorAdminUserID = None,
           rcp_State = rct_State ra, rcp_CompletedAt = rct_CompletedAt ra,
           rcp_QueueReceiptID = receipt_name (rct_ID rq)\<rparr>"
    unfolding remembers_def by blast
  from db_step_envelope [OF st i *(5)] obtain e' where e': "db_Effects db' k = Some e'"
    "eff_Envelope e' = env" using *(6) by auto
  with pre [OF *(1)] pre [OF *(4)] * show ?thesis unfolding remembers_def by blast
qed

lemma queueJobID_ok: "has_job db i g \<Longrightarrow> \<exists>job. queueJobID db i g = Inr job"
  by (auto simp: queueJobID_def has_job_def find_None_iff split: option.splits)

lemma remembers_replay:
  assumes i: "db_inv db" and v: "AcceptCommand_Valid c" and r: "remembers db c k env rc"
  shows "\<exists>p. acceptAndQueueTx db c river now = Inr ((p, rc), db) \<and> prj_ID p = effectID k \<and>
    prj_Owner p = env_Owner env \<and> prj_Kind p = env_Kind env \<and>
    (\<exists>e. db_Effects db k = Some e \<and> prj_State p = eff_State e \<and> prj_Generation p = eff_Generation e)"
proof -
  from r obtain ra rq e where *:
    "find (\<lambda>r. rct_Operation r = ''accept'' \<and> rct_ReceiptKey r = acc_ReceiptKey c) (db_Receipts db) = Some ra"
    "rct_EffectID ra = k" "rct_CommandDigest ra = AcceptCommand_Digest c"
    "find (\<lambda>r. rct_Operation r = ''queue'' \<and> rct_EffectID r = k) (db_Receipts db) = Some rq"
    "db_Effects db k = Some e" "eff_Envelope e = env"
    "rc = \<lparr>rcp_ID = receipt_name (rct_ID ra), rcp_EffectID = effectID k,
           rcp_CommandDigest = rct_CommandDigest ra, rcp_ActorAdminUserID = None,
           rcp_State = rct_State ra, rcp_CompletedAt = rct_CompletedAt ra,
           rcp_QueueReceiptID = receipt_name (rct_ID rq)\<rparr>"
    unfolding remembers_def by blast
  have "has_job db k (eff_Generation e)" using i tables_okD(4) [OF _ *(5)] by (simp add: db_inv_def)
  then obtain job where job: "queueJobID db k (eff_Generation e) = Inr job" using queueJobID_ok by blast
  have "find_acceptance db (acc_ReceiptKey c) = Some (ra, e)" using * by (simp add: find_acceptance_def)
  then have "acceptAndQueueTx db c river now = Inr ((projection k e\<lparr>prj_QueueJobID := job\<rparr>, rc), db)"
    using v * job by (simp add: acceptAndQueueTx_def replay_acceptance_def queueReceiptID_def)
  with * show ?thesis by (auto simp: projection_def)
qed

lemma accepted_remembers:
  assumes a: "accepted db db' c job now ra rq" and i: "db_inv db"
  shows "remembers db' c (db_NextEffect db) (acc_Envelope c)
     \<lparr>rcp_ID = receipt_name (rct_ID ra), rcp_EffectID = effectID (db_NextEffect db),
      rcp_CommandDigest = AcceptCommand_Digest c, rcp_ActorAdminUserID = None,
      rcp_State = StateAccepted, rcp_CompletedAt = now, rcp_QueueReceiptID = receipt_name (rct_ID rq)\<rparr>"
proof -
  let ?n = "db_NextEffect db"
  have rows: "db_Receipts db' = db_Receipts db @ [ra, rq]" using a by (simp add: accepted_def)
  have no_key: "find (\<lambda>r. rct_Operation r = ''accept'' \<and> rct_ReceiptKey r = acc_ReceiptKey c)
      (db_Receipts db) = None"
    using a by (auto simp: accepted_def find_None_iff accept_rows_def image_iff)
  have "db_Effects db ?n = None"
    using i tables_okD(2) [of db ?n] by (cases "db_Effects db ?n") (auto simp: db_inv_def)
  then have "find (\<lambda>r. rct_Operation r = ''queue'' \<and> rct_EffectID r = ?n) (db_Receipts db) = None"
    using i by (auto simp: find_None_iff db_inv_def tables_ok_def kept_rows_def)
  with no_key a show ?thesis
    unfolding remembers_def rows
    by (intro exI [of _ ra] exI [of _ rq] exI [of _ "(new_effect_row c now)\<lparr>eff_State := StateQueued,
          eff_UpdatedAt := now\<rparr>"])
      (simp add: accepted_def find_none_append new_effect_row_def)
qed

lemma no_accept_row:
  assumes i: "db_inv db" and none: "find_acceptance db key = None"
  shows "find_receipt db ''accept'' k key = None"
proof (rule ccontr)
  assume "find_receipt db ''accept'' k key \<noteq> None"
  then obtain r where r: "r \<in> set (db_Receipts db)" "rct_Operation r = ''accept''"
    "rct_ReceiptKey r = key" by (auto simp: find_receipt_def find_None_iff)
  then have "find (\<lambda>r. rct_Operation r = ''accept'' \<and> rct_ReceiptKey r = key)
      (db_Receipts db) \<noteq> None" unfolding find_None_iff by blast
  then obtain ra where f: "find (\<lambda>r. rct_Operation r = ''accept'' \<and> rct_ReceiptKey r = key)
      (db_Receipts db) = Some ra" by blast
  then have "ra \<in> set (kept_rows (db_Receipts db))" by (auto simp: kept_rows_def find_Some_iff)
  with i have "db_Effects db (rct_EffectID ra) \<noteq> None" by (simp add: db_inv_def tables_ok_def)
  with f none show False by (auto simp: find_acceptance_def)
qed

lemma acceptAndQueueTx_cases:
  assumes i: "db_inv db" and a: "acceptAndQueueTx db c river now = Inr ((p, rc), db')"
  shows "AcceptCommand_Valid c \<and> db_inv db' \<and>
    (\<exists>k env. remembers db' c k env rc \<and> prj_ID p = effectID k \<and> prj_Owner p = env_Owner env \<and>
      prj_Kind p = env_Kind env)"
proof -
  have v: "AcceptCommand_Valid c" using a by (auto simp: acceptAndQueueTx_def split: if_splits)
  have inv: "db_inv db'" using postD [OF accept_inv [OF i] a] by simp
  have replay: "\<exists>k env. remembers db' c k env rc \<and> prj_ID p = effectID k \<and> prj_Owner p = env_Owner env \<and>
      prj_Kind p = env_Kind env"
    if f: "find (\<lambda>r. rct_Operation r = ''accept'' \<and> rct_ReceiptKey r = acc_ReceiptKey c) (db_Receipts db) = Some ra"
      and e: "db_Effects db (rct_EffectID ra) = Some e"
    for ra e
  proof -
    have fa: "find_acceptance db (acc_ReceiptKey c) = Some (ra, e)" using f e by (simp add: find_acceptance_def)
    from a have "(if rct_CommandDigest ra \<noteq> AcceptCommand_Digest c then Inl ErrPayloadMismatch
        else replay_acceptance db (rct_EffectID ra) e ra) = Inr ((p, rc), db')"
      unfolding acceptAndQueueTx_def fa by (simp only: v option.case fst_conv snd_conv not_True_eq_False if_False)
    then have d: "rct_CommandDigest ra = AcceptCommand_Digest c"
      and r: "replay_acceptance db (rct_EffectID ra) e ra = Inr ((p, rc), db')"
      by (simp_all split: if_splits)
    from r obtain job q where q: "queueReceiptID db (rct_EffectID ra) = Inr q" and same: "db' = db"
      and p: "p = projection (rct_EffectID ra) e\<lparr>prj_QueueJobID := job\<rparr>"
      and rc: "rc = \<lparr>rcp_ID = receipt_name (rct_ID ra), rcp_EffectID = effectID (rct_EffectID ra),
           rcp_CommandDigest = rct_CommandDigest ra, rcp_ActorAdminUserID = None,
           rcp_State = rct_State ra, rcp_CompletedAt = rct_CompletedAt ra, rcp_QueueReceiptID = q\<rparr>"
      unfolding replay_acceptance_def
      by (cases "queueJobID db (rct_EffectID ra) (eff_Generation e)";
          cases "queueReceiptID db (rct_EffectID ra)") (simp_all, metis)
    from q obtain rq where "find (\<lambda>r. rct_Operation r = ''queue'' \<and> rct_EffectID r = rct_EffectID ra)
        (db_Receipts db) = Some rq" "q = receipt_name (rct_ID rq)"
      by (auto simp: queueReceiptID_def split: option.splits)
    with f e d rc same have "remembers db' c (rct_EffectID ra) (eff_Envelope e) rc"
      by (auto simp: remembers_def)
    then show ?thesis
      by (intro exI [of _ "rct_EffectID ra"] exI [of _ "eff_Envelope e"]) (simp add: p projection_def)
  qed
  have "\<exists>k env. remembers db' c k env rc \<and> prj_ID p = effectID k \<and> prj_Owner p = env_Owner env \<and>
      prj_Kind p = env_Kind env"
  proof (cases "find_acceptance db (acc_ReceiptKey c)")
    case (Some x)
    then show ?thesis using replay by (auto simp: find_acceptance_def split: option.splits)
  next
    case none: None
    note no_row = no_accept_row [OF i none]
    have new: "accept_new db c river now = Inr ((p, rc), db')"
      using a unfolding acceptAndQueueTx_def none no_row
      by (simp add: v split: option.splits)
    from postD [OF accept_new_post new] obtain job ra rq where acc: "accepted db db' c job now ra rq"
      and pr: "p = \<lparr>prj_ID = effectID (db_NextEffect db), prj_Owner = env_Owner (acc_Envelope c),
        prj_Kind = env_Kind (acc_Envelope c), prj_State = StateQueued, prj_AttemptCount = 0,
        prj_Generation = 1, prj_UpdatedAt = utc now, prj_QueueJobID = job\<rparr>"
      "rc = \<lparr>rcp_ID = receipt_name (rct_ID ra), rcp_EffectID = effectID (db_NextEffect db),
        rcp_CommandDigest = AcceptCommand_Digest c, rcp_ActorAdminUserID = None,
        rcp_State = StateAccepted, rcp_CompletedAt = now,
        rcp_QueueReceiptID = receipt_name (rct_ID rq)\<rparr>" by auto
    show ?thesis
      using accepted_remembers [OF acc i]
      by (intro exI [of _ "db_NextEffect db"] exI [of _ "acc_Envelope c"]) (simp add: pr)
  qed
  with v inv show ?thesis by blast
qed

lemma remembers_mismatch:
  assumes r: "remembers db c k env rc" and v: "AcceptCommand_Valid d"
    and key: "acc_ReceiptKey d = acc_ReceiptKey c" and dig: "AcceptCommand_Digest d \<noteq> AcceptCommand_Digest c"
  shows "acceptAndQueueTx db d river now = Inl ErrPayloadMismatch"
  using assms by (auto simp: remembers_def acceptAndQueueTx_def find_acceptance_def)

subsection \<open>The checks of the attempts table\<close>

definition row_checked :: "attempt_row \<Rightarrow> bool" where
  "row_checked a \<longleftrightarrow> digest_option_column (atr_EvidenceDigest a) \<and> (atr_RealCall a \<longrightarrow> atr_CallAttempted a)"

definition rows_checked :: "effects_db \<Rightarrow> bool" where
  "rows_checked db \<longleftrightarrow> (\<forall>a \<in> set (db_Attempts db). row_checked a)"

lemma checked_bind:
  "post rows_checked r \<Longrightarrow> (\<And>x. rows_checked x \<Longrightarrow> post P (f x)) \<Longrightarrow>
     post P (case r of Inl e \<Rightarrow> Inl e | Inr x \<Rightarrow> f x)"
  by (cases r) simp_all

lemma id_bind: "(\<And>x :: int. post P (f x)) \<Longrightarrow> post P (case r of Inl e \<Rightarrow> Inl e | Inr x \<Rightarrow> f x)"
  by (cases r) simp_all

lemma next_bind:
  "(\<And>x :: effect_status \<times> int. post P (f x)) \<Longrightarrow> post P (case r of Inl e \<Rightarrow> Inl e | Inr x \<Rightarrow> f x)"
  by (cases r) simp_all

lemma checked_snd: "rows_checked db \<Longrightarrow> post (\<lambda>r. rows_checked (snd r)) (Inr (x, db))"
  by simp

lemma checked_inr: "rows_checked db \<Longrightarrow> post rows_checked (Inr db)"
  by simp

lemma checked_tables:
  assumes "rows_checked db"
  shows "post rows_checked (insert_receipt db operation i key command actor akind aref st now)"
    "post rows_checked (insert_generation db i g)"
    "post rows_checked (insert_job db i g job queue args at)"
    "post rows_checked (insert_attempt db a)"
    "post rows_checked (update_attempt db sel f err)"
    "post rows_checked (update_effect db i sele h err)"
    "post rows_checked (insert_effect db e)"
    "post rows_checked (CompleteEffect sink db i env a0 res)"
  using assms
  by (auto simp: post_iff rows_checked_def row_checked_def insert_receipt_def insert_generation_def
      insert_job_def insert_attempt_def update_attempt_def update_effect_def insert_effect_def
      CompleteEffect_def list_ex_iff split: if_splits option.splits)

lemmas checked = checked_tables checked_bind id_bind next_bind checked_snd checked_inr wp_Inl wp_if wp_option

lemma checked_acceptance:
  "rows_checked db \<Longrightarrow> post (\<lambda>r. rows_checked (snd r)) (acceptAndQueueTx db c river now)"
  by (rule post_mono [OF acceptAndQueueTx_post]) (auto simp: accepted_def rows_checked_def)

lemma checked_cancel:
  "rows_checked db \<Longrightarrow> post (\<lambda>r. rows_checked (snd r)) (CancelQueuedEffectWithin db cc now)"
  unfolding CancelQueuedEffectWithin_def Let_def cancel_queued_def
  by (intro checked) assumption+

lemma checked_client:
  "rows_checked db \<Longrightarrow> post (\<lambda>r. rows_checked (snd r)) (CompleteClientEffectWithin db cl now)"
  unfolding CompleteClientEffectWithin_def Let_def complete_client_def
  by (intro checked) assumption+

lemma checked_control_rows:
  "rows_checked db \<Longrightarrow> post rows_checked (control_rows db i e c operation g river now)"
  unfolding control_rows_def enqueue_retry_def reconcile_attempt_def
  by (intro checked) assumption+

lemma checked_control_commit:
  "rows_checked db \<Longrightarrow> post rows_checked (control_commit sink db i e c operation nxt g now)"
  unfolding control_commit_def
  by (intro checked) assumption+

lemma checked_control:
  "rows_checked db \<Longrightarrow> post (\<lambda>r. rows_checked (snd r)) (controlWithin sink db c operation river app now)"
  unfolding controlWithin_def
  by (intro checked checked_control_rows checked_control_commit) assumption+

lemma checked_tag_retry:
  assumes "rows_checked db"
  shows "post (\<lambda>r. rows_checked (snd r)) (RetryTagCatalogMutationWithin sink db c busy river app now)"
proof -
  have ready: "post rows_checked (tag_retry_ready db i e c)" for i e
    unfolding tag_retry_ready_def by (intro checked; rule assms)
  have control: "post (\<lambda>r. rows_checked (snd r)) (case controlWithin sink db1 k ''retry'' river app now of
      Inl err \<Rightarrow> Inl (h err) | Inr r \<Rightarrow> Inr r)" if "rows_checked db1" for db1 k and h :: "effect_error \<Rightarrow> effect_error"
    using checked_control [OF that, of sink k "''retry''" river app now]
    by (simp add: post_iff split: sum.splits)
  have if_err: "(if b then Inl x else Inl y) = Inl (if b then x else y)" for b and x y :: effect_error
    by simp
  have parse: "post P (case r of Inl _ \<Rightarrow> Inl x | Inr i \<Rightarrow> f i)" if "\<And>i. post P (f i)"
    for P x r and f :: "int \<Rightarrow> (effect_error, projection \<times> effects_db) result"
    using that by (cases r) simp_all
  show ?thesis
    unfolding RetryTagCatalogMutationWithin_def Let_def if_err
    by (intro checked parse ready control; (assumption | rule assms))
qed

lemma checked_invoice:
  "rows_checked db \<Longrightarrow> post rows_checked (invoiceFinality db ref evidence cancel busy now)"
  unfolding invoiceFinality_def invoice_receipt_def Let_def
  by (intro checked) assumption+

lemma checked_finish_rows:
  "rows_checked db \<Longrightarrow> post rows_checked (finish_rows db i a nxt persisted receipt res now)"
  unfolding finish_rows_def by (intro checked) assumption+

lemma checked_finish:
  "rows_checked db \<Longrightarrow> post (\<lambda>r. rows_checked (snd r)) (finish_attempt sink db i a queue env outcome now)"
  unfolding finish_attempt_def Let_def
  by (intro checked checked_finish_rows) assumption+

lemma checked_recover: "rows_checked db \<Longrightarrow> post rows_checked (recover_attempt sink db i e now)"
  unfolding recover_attempt_def recover_project_def by (intro checked) assumption+

lemma checked_start: "rows_checked db \<Longrightarrow> post rows_checked (start_attempt db i e now)"
  unfolding start_attempt_def Let_def by (intro checked) assumption+

lemma checked_claim:
  assumes c: "rows_checked db"
  shows "post (\<lambda>out. case out of ClaimRecovered db' \<Rightarrow> rows_checked db' | ClaimStarted db' a q \<Rightarrow> rows_checked db'
     | _ \<Rightarrow> True) (claim_attempt sink db i generation job app now)"
  unfolding claim_attempt_def
  using checked_recover [OF c] checked_start [OF c]
  by (auto simp: post_iff split: option.splits prod.splits if_splits sum.splits)

lemma checked_step:
  assumes "step sink w w'" and c: "rows_checked (w_db w)"
  shows "rows_checked (w_db w')"
  using assms(1)
proof cases
  case (step_recover i generation job app now db')
  with postD [OF checked_claim [OF c] step_recover(2)] show ?thesis by simp
next
  case (step_claim i generation job app now db' a queue)
  with postD [OF checked_claim [OF c] step_claim(2)] show ?thesis by simp
qed (use c postD [OF checked_acceptance [OF c]] postD [OF checked_cancel [OF c]]
    postD [OF checked_client [OF c]] postD [OF checked_control [OF c]] postD [OF checked_tag_retry [OF c]]
    postD [OF checked_invoice [OF c]] postD [OF checked_finish [OF c]] in \<open>fastforce+\<close>)

lemma reachable_checked: "reachable sink w \<Longrightarrow> rows_checked (w_db w)"
  unfolding reachable_def
proof (induction rule: rtranclp_induct)
  case base
  show ?case by (simp add: rows_checked_def initial_world_def empty_db_def)
qed (rule checked_step)

subsection \<open>Progress\<close>

lemma filter_one:
  assumes "distinct (map f xs)" and "x \<in> set xs" "P x" and "\<And>y. y \<in> set xs \<Longrightarrow> P y \<Longrightarrow> f y = f x"
  shows "length (filter P xs) = 1"
proof -
  have d: "distinct (map f (filter P xs))" by (rule distinct_map_filter [OF assms(1)])
  have "set (map f (filter P xs)) = {f x}"
  proof
    show "set (map f (filter P xs)) \<subseteq> {f x}"
    proof
      fix v assume "v \<in> set (map f (filter P xs))"
      then obtain z where "z \<in> set xs" "P z" "v = f z" by auto
      with assms(4) [of z] show "v \<in> {f x}" by simp
    qed
    show "{f x} \<subseteq> set (map f (filter P xs))" using assms(2,3) by simp
  qed
  then have "card (set (map f (filter P xs))) = 1" by simp
  then show ?thesis using distinct_card [OF d] by (simp only: length_map)
qed

lemma job_found:
  assumes "db_Effects db i = Some e" and "has_job db i (eff_Generation e)"
  shows "\<exists>j \<in> set (db_Jobs db). job_EffectID j = i \<and> job_Generation j = eff_Generation e \<and>
    (\<exists>k. current_job db i (eff_Generation e) (job_RiverJobID j) = Some (e, k))"
proof -
  obtain j where j: "j \<in> set (db_Jobs db)" "job_EffectID j = i" "job_Generation j = eff_Generation e"
    using assms(2) by (auto simp: has_job_def)
  then have "find (\<lambda>k. job_EffectID k = i \<and> job_Generation k = eff_Generation e \<and>
      job_RiverJobID k = job_RiverJobID j) (db_Jobs db) \<noteq> None"
    unfolding find_None_iff by blast
  then have "\<exists>k. current_job db i (eff_Generation e) (job_RiverJobID j) = Some (e, k)"
    using assms(1) by (auto simp: current_job_def)
  with j show ?thesis by blast
qed

lemma start_attempt_ok:
  assumes inv: "db_inv db" and e: "db_Effects db i = Some e" and q: "eff_State e = StateQueued"
    and small: "eff_AttemptCount e < 2 ^ 31 - 1" "eff_LeaseFence e < 2 ^ 63 - 1"
  shows "\<exists>db1. start_attempt db i e now = Inr db1"
proof -
  have i: "effect_inv (view e (rows_of i (db_Attempts db)))"
    using inv effects_okD effects_of_get [OF e] by (auto simp: db_inv_def)
  then have c: "0 \<le> eff_AttemptCount e" "1 \<le> eff_Generation e" "0 \<le> eff_LeaseFence e"
    by (simp_all add: effect_inv_def)
  then have w: "wrap32 (eff_AttemptCount e + 1) = eff_AttemptCount e + 1"
    "wrap64 (eff_LeaseFence e + 1) = eff_LeaseFence e + 1"
    using small by (simp_all add: in32_def in64_def)
  have "\<not> (atr_EffectID b = i \<and> atr_Number b = eff_AttemptCount e + 1)" if "b \<in> set (db_Attempts db)" for b
  proof
    assume b: "atr_EffectID b = i \<and> atr_Number b = eff_AttemptCount e + 1"
    with that have "b \<in> set (rows_of i (db_Attempts db))" by (simp add: rows_of_def)
    with i b show False by (auto simp: effect_inv_def list_all_iff attempt_inv_def)
  qed
  then show ?thesis
    using e q c w
    by (auto simp: start_attempt_def update_effect_def effect_checks_def insert_attempt_def
        digest_option_column_def list_ex_iff Let_def)
qed

lemma recover_attempt_ok:
  assumes inv: "db_inv db" and e: "db_Effects db i = Some e" and a: "eff_State e = StateAttempted"
    and lease: "eff_LeaseExpiresAt e = Some l" "l \<le> now"
    and rows: "rows_checked db"
    and sink: "\<And>f env at res. sink = Some f \<Longrightarrow> f (effectID i) env at res"
  shows "\<exists>db1. recover_attempt sink db i e now = Inr db1"
proof -
  let ?rows = "rows_of i (db_Attempts db)"
  let ?sel = "\<lambda>a. atr_EffectID a = i \<and> atr_Number a = eff_AttemptCount e \<and>
              atr_Generation a = eff_Generation e \<and> atr_Fence a = eff_LeaseFence e \<and>
              atr_State a = StateAttempted"
  have i: "effect_inv (view e ?rows)"
    using inv effects_okD effects_of_get [OF e] by (auto simp: db_inv_def)
  then obtain r where r: "r \<in> set ?rows" "atr_State r = StateAttempted"
    using a by (auto simp: effect_inv_def list_ex_iff)
  with i have k: "atr_Number r = eff_AttemptCount e" "atr_Generation r = eff_Generation e"
    "atr_Fence r = eff_LeaseFence e" "1 \<le> eff_AttemptCount e"
    by (auto simp: effect_inv_def list_all_iff attempt_inv_def)
  have "length (filter ?sel ?rows) = 1"
  proof (rule filter_one)
    show "distinct (map atr_Number ?rows)" using i by (simp add: effect_inv_def)
    show "r \<in> set ?rows" by (rule r)
    show "?sel r" using r k by (simp add: rows_of_def)
  qed (use k in simp)
  moreover have "filter ?sel ?rows = filter ?sel (db_Attempts db)"
    unfolding rows_of_def filter_filter by (rule filter_cong) auto
  ultimately have one: "length (filter ?sel (db_Attempts db)) = 1" by simp
  have c: "0 \<le> eff_AttemptCount e" "1 \<le> eff_Generation e" "0 \<le> eff_LeaseFence e"
    using i by (simp_all add: effect_inv_def)
  have ok: "\<not> (?sel x \<and> (\<not> digest_option_column (Some (recovery_digest i e)) \<or>
      \<not> digest_option_column (atr_EvidenceDigest x) \<or> (atr_RealCall x \<and> \<not> atr_CallAttempted x)))"
    if "x \<in> set (db_Attempts db)" for x
    using that rows by (auto simp: rows_checked_def row_checked_def digest_option_column_def recovery_digest_def)
  obtain db1 where 1: "update_attempt db ?sel (\<lambda>a. a\<lparr>atr_State := StateUnknown,
      atr_ReceiptDigest := Some (recovery_digest i e), atr_CompletedAt := Some now\<rparr>) ErrEffectTransition = Inr db1"
    and same: "db_Effects db1 = db_Effects db"
    using one ok by (simp add: update_attempt_def list_ex_iff)
  show ?thesis
    unfolding recover_attempt_def recover_project_def 1 sum.case
    using e a lease same k c sink
    by (auto simp: update_effect_def effect_checks_def CompleteEffect_def split: option.split)
qed

lemma recovery_lists:
  assumes inv: "db_inv db" and e: "db_Effects db i = Some e" and a: "eff_State e = StateAttempted"
    and lease: "eff_LeaseExpiresAt e = Some l" "l \<le> now" and own: "env_Owner (eff_Envelope e) \<noteq> OwnerPayment"
    and free: "i \<notin> set locked" and j: "j \<in> set (db_Jobs db)" "job_EffectID j = i" "job_Generation j = eff_Generation e"
  shows "j \<in> set (RecoverDiscardedAttempts db locked now)"
proof -
  have "effect_inv (view e (rows_of i (db_Attempts db)))"
    using inv effects_okD effects_of_get [OF e] by (auto simp: db_inv_def)
  then obtain r where "r \<in> set (rows_of i (db_Attempts db))" "atr_State r = StateAttempted"
    "atr_Number r = eff_AttemptCount e" "atr_Generation r = eff_Generation e" "atr_Fence r = eff_LeaseFence e"
    using a by (auto simp: effect_inv_def list_ex_iff list_all_iff attempt_inv_def)
  then have "recoverable db now i"
    using e a lease own by (auto simp: recoverable_def list_ex_iff rows_of_def)
  moreover have "1 \<le> i" "i \<le> db_NextEffect db - 1"
    using inv tables_okD(1,2) [OF _ e] by (auto simp: db_inv_def)
  ultimately show ?thesis
    using e j free by (auto simp: RecoverDiscardedAttempts_def intro!: exI [of _ i])
qed

lemma recovery_only:
  "j \<in> set (RecoverDiscardedAttempts db locked now) \<Longrightarrow> job_EffectID j \<notin> set locked \<and>
     (\<exists>e. db_Effects db (job_EffectID j) = Some e \<and> env_Owner (eff_Envelope e) \<noteq> OwnerPayment)"
  by (auto simp: RecoverDiscardedAttempts_def recoverable_def split: option.splits)

subsection \<open>What a classification says\<close>

lemma classify_retryable:
  "fst (classify_outcome b i n k queue outcome) = StateRetryable \<Longrightarrow> \<exists>r failed. outcome = Some (r, failed) \<and>
     (\<not> res_CallAttempted r \<or> (\<not> failed \<and> res_SafeToRetryRejected r \<and> \<not> res_RealExternalCallExecuted r \<and>
        (media_upload k queue \<or> excel_message k queue)))"
  by (auto simp: classify_outcome_def Let_def classify_call_def classify_answer_def
      split: option.splits if_splits)

lemma classify_executed:
  "fst (classify_outcome b i n k queue outcome) = StateExecuted \<Longrightarrow> \<exists>r. outcome = Some (r, False) \<and>
     res_Completion r = StateExecuted \<and> ValidDigest (res_ReceiptDigest r) \<and>
     (res_CallAttempted r \<and> res_RealExternalCallExecuted r \<or> Artifact_Valid (res_Artifact r)) \<and>
     (needs_artifact k \<longrightarrow> Artifact_Valid (res_Artifact r))"
  by (auto simp: classify_outcome_def Let_def classify_call_def classify_answer_def call_result_def
      split: option.splits if_splits)

lemma classify_error:
  "res_CallAttempted r \<Longrightarrow> fst (classify_outcome b i n k queue (Some (r, True))) = StateUnknown"
  by (simp add: classify_outcome_def Let_def classify_call_def)

end
