(* ===== verification/EffectProps.thy ===== *)
theory EffectProps
  imports EffectSafety
begin

text \<open>
  The properties of the external-effect kernel, each followed by its witness on the sample
  run of the first section: one media upload is accepted, claimed, sent to the provider and
  settled.
\<close>

subsection \<open>A sample run\<close>

definition sample_command :: accept_command where
  "sample_command = \<lparr>acc_ReceiptKey = Hash [''key''],
     acc_Envelope = \<lparr>env_Owner = OwnerOutbound, env_Kind = KindOutboundMedia,
       env_SourceRefDigest = Hash [''source''], env_TargetRefDigest = Hash [''target''],
       env_PayloadDigest = Hash [''payload''], env_PolicyVersionHash = Hash [''policy'']\<rparr>,
     acc_Lane = LaneOutboundMedia, acc_ScheduledAt = 0\<rparr>"

definition sample_row :: effect_row where
  "sample_row = \<lparr>eff_Envelope = acc_Envelope sample_command,
     eff_Fingerprint = Fingerprint (acc_Envelope sample_command), eff_Lane = LaneOutboundMedia,
     eff_State = StateQueued, eff_AttemptCount = 0, eff_Generation = 1, eff_LeaseFence = 0,
     eff_LeaseExpiresAt = None, eff_UpdatedAt = 5\<rparr>"

definition sample_queued :: effects_db where
  "sample_queued = \<lparr>db_Effects = [1 \<mapsto> sample_row], db_NextEffect = 2,
     db_Receipts =
       [\<lparr>rct_ID = 1, rct_Operation = ''accept'', rct_EffectID = 1, rct_ReceiptKey = Hash [''key''],
         rct_CommandDigest = AcceptCommand_Digest sample_command, rct_ActorAdminUserID = None,
         rct_ActorKind = None, rct_ActorRef = None, rct_State = StateAccepted, rct_CompletedAt = 5\<rparr>,
        \<lparr>rct_ID = 2, rct_Operation = ''queue'', rct_EffectID = 1,
         rct_ReceiptKey = Hash [''queue'', effectID 1],
         rct_CommandDigest = Hash [''queue'', effectID 1, format_int 7], rct_ActorAdminUserID = None,
         rct_ActorKind = None, rct_ActorRef = None, rct_State = StateQueued, rct_CompletedAt = 5\<rparr>],
     db_Generations = [(1, 1)], db_Attempts = [],
     db_Jobs = [\<lparr>job_EffectID = 1, job_Generation = 1, job_RiverJobID = 7,
       job_Queue = ''outbound_media'', job_ArgsDigest = Hash [''river-args'', effectID 1, ''1''],
       job_ScheduledAt = 6\<rparr>],
     db_Completions = []\<rparr>"

definition sample_attempt :: attempt where
  "sample_attempt = attempt_of 1 1 1 1"

definition sample_attempt_row :: attempt_row where
  "sample_attempt_row = \<lparr>atr_EffectID = 1, atr_Number = 1, atr_Generation = 1, atr_Fence = 1,
     atr_State = StateAttempted, atr_ReceiptDigest = None, atr_EvidenceDigest = None,
     atr_CallAttempted = False, atr_RealCall = False, atr_CompletedAt = None\<rparr>"

definition sample_claimed :: effects_db where
  "sample_claimed = sample_queued\<lparr>
     db_Effects := [1 \<mapsto> sample_row\<lparr>eff_State := StateAttempted, eff_AttemptCount := 1,
       eff_LeaseFence := 1, eff_LeaseExpiresAt := Some (10 + lease_duration), eff_UpdatedAt := 10\<rparr>],
     db_Attempts := [sample_attempt_row]\<rparr>"

definition sample_receipt :: receipt where
  "sample_receipt = \<lparr>rcp_ID = receipt_name 1, rcp_EffectID = effectID 1,
     rcp_CommandDigest = AcceptCommand_Digest sample_command, rcp_ActorAdminUserID = None,
     rcp_State = StateAccepted, rcp_CompletedAt = 5, rcp_QueueReceiptID = receipt_name 2\<rparr>"

definition sample_projection :: projection where
  "sample_projection = \<lparr>prj_ID = effectID 1, prj_Owner = OwnerOutbound, prj_Kind = KindOutboundMedia,
     prj_State = StateQueued, prj_AttemptCount = 0, prj_Generation = 1, prj_UpdatedAt = 5,
     prj_QueueJobID = 7\<rparr>"

lemma sample_envelope_valid [simp]: "Envelope_Valid (acc_Envelope sample_command)"
  by (simp add: Envelope_Valid_def digests_valid_def sample_command_def)

lemma sample_valid [simp]: "AcceptCommand_Valid sample_command"
  by (simp add: AcceptCommand_Valid_def) (simp add: sample_command_def)

lemma sample_digest_columns [simp]:
  "digest_column (Fingerprint (acc_Envelope sample_command))"
  "digest_column (AcceptCommand_Digest sample_command)"
  by (simp_all add: Fingerprint_def AcceptCommand_Digest_def)

lemma sample_accept:
  "acceptAndQueueTx empty_db sample_command (Some (7, 6)) 5 = Inr ((sample_projection, sample_receipt), sample_queued)"
  by (simp add: acceptAndQueueTx_def find_acceptance_def find_fingerprint_def empty_db_def accept_new_def Let_def
      insert_accepted_def insert_effect_def new_effect_row_def insert_receipt_def find_receipt_def principal_ok_def
      insert_generation_def queue_accepted_def update_effect_def effect_checks_def insert_job_def
      effectQueue_def effect_queues_def max_int64_def)
    (simp add: sample_projection_def sample_receipt_def sample_queued_def sample_row_def,
     simp add: sample_command_def)

lemma sample_claim:
  "claim_attempt sink sample_queued 1 1 7 app 10 =
     Inr (ClaimStarted sample_claimed sample_attempt ''outbound_media'')"
  by (simp add: claim_attempt_def current_job_def sample_queued_def sample_row_def start_attempt_def Let_def
      update_effect_def effect_checks_def insert_attempt_def digest_option_column_def in32_def in64_def)
    (simp add: sample_claimed_def sample_queued_def sample_attempt_row_def sample_row_def sample_attempt_def
      lease_duration_def)

definition sample_world :: "effects_db \<Rightarrow> flight list \<Rightarrow> (int \<times> attempt) list \<Rightarrow> world" where
  "sample_world db fs cs = \<lparr>w_db = db, w_flights = fs, w_calls = cs\<rparr>"

definition sample_flight :: "(envelope \<times> (adapter_result \<times> bool) option) option \<Rightarrow> flight" where
  "sample_flight answer = \<lparr>fl_Effect = 1, fl_Attempt = sample_attempt, fl_Queue = ''outbound_media'',
     fl_Answer = answer\<rparr>"

lemma sample_world_simps [simp]:
  "w_db (sample_world db fs cs) = db" "w_flights (sample_world db fs cs) = fs"
  "w_calls (sample_world db fs cs) = cs"
  "sample_world db fs cs\<lparr>w_db := db'\<rparr> = sample_world db' fs cs"
  "sample_world db fs cs\<lparr>w_flights := fs'\<rparr> = sample_world db fs' cs"
  "sample_world db fs cs\<lparr>w_calls := cs'\<rparr> = sample_world db fs cs'"
  by (simp_all add: sample_world_def)

lemma sample_step_accept: "step sink (sample_world empty_db [] []) (sample_world sample_queued [] [])"
  using step_accept [of "sample_world empty_db [] []" sample_command "Some (7, 6)" 5] sample_accept by simp

lemma sample_step_claim:
  "step sink (sample_world sample_queued [] []) (sample_world sample_claimed [sample_flight None] [])"
  using step_claim [of sink "sample_world sample_queued [] []" 1 1 7 10 10] sample_claim [of sink 10]
  by (simp add: sample_flight_def)

lemma sample_step_call:
  "step sink (sample_world sample_claimed [sample_flight None] [])
     (sample_world sample_claimed [sample_flight (Some (acc_Envelope sample_command, Some answer))]
       [(1, sample_attempt)])"
  using step_call [of "sample_world sample_claimed [sample_flight None] []" "[]" "sample_flight None" "[]"
      "acc_Envelope sample_command" sink answer]
  by (simp add: sample_flight_def claimed_envelope_def sample_claimed_def sample_queued_def sample_row_def
      sample_attempt_def attempt_of_def)

lemma reachable_step: "reachable sink w \<Longrightarrow> step sink w w' \<Longrightarrow> reachable sink w'"
  by (simp add: reachable_def)

lemma sample_reachable_queued: "reachable sink (sample_world sample_queued [] [])"
proof -
  have "initial_world = sample_world empty_db [] []" by (simp add: initial_world_def sample_world_def)
  with sample_step_accept show ?thesis by (simp add: reachable_def r_into_rtranclp)
qed

lemma sample_reachable_claimed: "reachable sink (sample_world sample_claimed [sample_flight None] [])"
  using sample_reachable_queued sample_step_claim by (rule reachable_step)

lemma sample_reachable_called:
  "reachable sink (sample_world sample_claimed
     [sample_flight (Some (acc_Envelope sample_command, Some answer))] [(1, sample_attempt)])"
  using sample_reachable_claimed sample_step_call by (rule reachable_step)

text \<open>The settlement of the sample attempt by an answer of the provider.\<close>

definition sample_settled :: "effect_status \<Rightarrow> effect_status \<Rightarrow> digest \<Rightarrow> adapter_result \<Rightarrow> effects_db" where
  "sample_settled nxt persisted receipt res = sample_claimed\<lparr>
     db_Effects := [1 \<mapsto> sample_row\<lparr>eff_State := persisted, eff_AttemptCount := 1,
       eff_LeaseFence := 1, eff_LeaseExpiresAt := Some (10 + lease_duration), eff_UpdatedAt := 20\<rparr>],
     db_Attempts := [sample_attempt_row\<lparr>atr_State := nxt, atr_ReceiptDigest := Some receipt,
       atr_CallAttempted := res_CallAttempted res, atr_RealCall := res_RealExternalCallExecuted res,
       atr_CompletedAt := Some 20\<rparr>]\<rparr>"

definition sample_rejection :: adapter_result where
  "sample_rejection = no_result\<lparr>res_Completion := StateRetryable, res_ReceiptDigest := Hash [''rejected''],
     res_CallAttempted := True, res_SafeToRetryRejected := True\<rparr>"

lemma sample_finish:
  assumes "digest_column receipt" "res_RealExternalCallExecuted res \<longrightarrow> res_CallAttempted res"
  shows "finish_rows sample_claimed 1 sample_attempt nxt persisted receipt res 20 =
     Inr (sample_settled nxt persisted receipt res)"
  using assms
  by (simp add: finish_rows_def update_attempt_def sample_claimed_def sample_queued_def sample_attempt_def
      attempt_of_def sample_attempt_row_def digest_option_column_def update_effect_def sample_row_def
      effect_checks_def sample_settled_def)

lemma sample_finish_rejected:
  "finish_attempt None sample_claimed 1 sample_attempt ''outbound_media'' (acc_Envelope sample_command)
     (Some (sample_rejection, False)) 20 =
   Inr (Some second, sample_settled StateRetryable StateQueued (Hash [''rejected'']) sample_rejection)"
proof -
  have c: "classify_outcome False 1 1 KindOutboundMedia ''outbound_media'' (Some (sample_rejection, False)) =
      (StateRetryable, Hash [''rejected''])"
    by (simp add: classify_outcome_def classify_call_def classify_answer_def Let_def sample_rejection_def
        no_result_def media_upload_def)
  have n: "atp_Number sample_attempt = 1" by (simp add: sample_attempt_def attempt_of_def)
  have k: "env_Kind (acc_Envelope sample_command) = KindOutboundMedia" by (simp add: sample_command_def)
  show ?thesis
    by (simp add: finish_attempt_def Let_def n k c autoRetryLane_def media_upload_def sample_finish
        call_result_def providerAutomaticRetryDelay_def) (simp add: sample_finish sample_rejection_def no_result_def n providerAutomaticRetryDelay_def)
qed

lemma sample_finish_disabled:
  "finish_attempt None sample_claimed 1 sample_attempt ''outbound_media'' (acc_Envelope sample_command) None 20 =
   Inr (None, sample_settled StateFinalFailed StateFinalFailed
     (Hash [''provider-disabled'', format_int 1, format_int 1]) no_result)"
proof -
  have n: "atp_Number sample_attempt = 1" by (simp add: sample_attempt_def attempt_of_def)
  show ?thesis
    by (simp add: finish_attempt_def Let_def n classify_outcome_def classify_call_def sample_finish
        call_result_def) (simp add: sample_finish no_result_def)
qed

lemma sample_reachable_disabled:
  "reachable None (sample_world (sample_settled StateFinalFailed StateFinalFailed
     (Hash [''provider-disabled'', format_int 1, format_int 1]) no_result) [] [])"
proof -
  let ?f = "sample_flight (Some (acc_Envelope sample_command, None))"
  have "step None (sample_world sample_claimed [sample_flight None] [])
      (sample_world sample_claimed [?f] [])"
    using step_no_adapter [of "sample_world sample_claimed [sample_flight None] []" "[]"
        "sample_flight None" "[]" "acc_Envelope sample_command" None]
    by (simp add: sample_flight_def claimed_envelope_def sample_claimed_def sample_queued_def
        sample_row_def sample_attempt_def attempt_of_def)
  then have r: "reachable None (sample_world sample_claimed [?f] [])"
    using sample_reachable_claimed reachable_step by blast
  have "step None (sample_world sample_claimed [?f] [])
      (sample_world (sample_settled StateFinalFailed StateFinalFailed
     (Hash [''provider-disabled'', format_int 1, format_int 1]) no_result) [] [])"
    using step_finish [of "sample_world sample_claimed [?f] []" "[]" ?f "[]"
        "acc_Envelope sample_command" None None 20] sample_finish_disabled
    by (simp add: sample_flight_def)
  with r show ?thesis by (rule reachable_step)
qed


text \<open>A receipt key that differs from the sample's, whatever the hash is.\<close>

definition sample_other_key :: digest where
  "sample_other_key = (let zeros = ''sha256:'' @ replicate 64 CHR ''0'' in
     if Hash [''key''] = zeros then ''sha256:'' @ replicate 64 CHR ''1'' else zeros)"

lemma replicate_numeral: "replicate (numeral k) x = x # replicate (pred_numeral k) x"
  by (simp add: numeral_eq_Suc)

lemma sample_other_key_fresh [simp]: "Hash [''key''] \<noteq> sample_other_key"
  by (simp add: sample_other_key_def Let_def replicate_numeral)

lemma sample_other_key_valid [simp]: "ValidDigest sample_other_key"
  by (simp add: sample_other_key_def Let_def ValidDigest_def has_prefix_def is_hex_def replicate_numeral)

subsection \<open>The properties\<close>

text \<open>C7. The provider is called at most once for an attempt, over every interleaving of
  workers, crashes, operators and recoveries: no two calls carry the same effect and attempt
  number, every call has its attempt row written and committed before it, and an effect is
  called at most five times plus once for every accepted retry command.\<close>

theorem provider_called_once_per_attempt:
  assumes "reachable sink w"
  shows "distinct (map call_key (w_calls w)) \<and>
    (\<forall>c \<in> set (w_calls w). \<exists>r \<in> set (db_Attempts (w_db w)). atr_EffectID r = fst c \<and>
       atr_Number r = atp_Number (snd c) \<and> atr_Generation r = atp_Generation (snd c) \<and>
       atr_Fence r = atp_Fence (snd c)) \<and>
    (\<forall>i e. db_Effects (w_db w) i = Some e \<longrightarrow>
       int (length (filter (\<lambda>c. fst c = i) (w_calls w))) \<le> eff_AttemptCount e \<and>
       eff_AttemptCount e \<le> 5 + int (retry_count (db_Receipts (w_db w)) i))"
proof -
  have inv: "world_inv w" using assms by (rule reachable_inv)
  then have "\<forall>c \<in> set (w_calls w). known (w_db w) (fst c) (snd c)" by (simp add: world_inv_def)
  then show ?thesis
    using inv calls_of_effect [OF inv] generation_of_effect [OF reachable_db_inv [OF assms]] known_row
    by (simp add: world_inv_def)
qed

theorem provider_called_once_per_attempt_witness:
  "w_calls (sample_world sample_claimed
     [sample_flight (Some (acc_Envelope sample_command, Some (sample_rejection, False)))]
     [(1, sample_attempt)]) = [(1, sample_attempt)] \<and> eff_AttemptCount (sample_row\<lparr>eff_State := StateAttempted,
       eff_AttemptCount := 1\<rparr>) \<le> 5 + int (retry_count (db_Receipts sample_claimed) 1) \<and>
   (\<exists>r \<in> set (db_Attempts sample_claimed). atr_EffectID r = 1 \<and> atr_Number r = atp_Number sample_attempt)"
  using provider_called_once_per_attempt [OF sample_reachable_called [of None "(sample_rejection, False)"]]
  by (auto simp: sample_claimed_def)

text \<open>C8. A settled effect is final: executed, reconciled and cancelled effects, and finally
  failed ones that are no tag catalog mutation, never change again; an unknown outcome can
  only be reconciled, keeps its attempts, and stays unknown for ever when Payment owns it.\<close>

theorem settled_effect_is_final:
  assumes "reachable sink w" and "(step sink)\<^sup>*\<^sup>* w w'" and "db_Effects (w_db w) i = Some e"
  shows "\<exists>e'. db_Effects (w_db w') i = Some e' \<and>
    (eff_State e \<in> {StateExecuted, StateReconciled, StateCancelled} \<or>
     (eff_State e = StateFinalFailed \<and> env_Kind (eff_Envelope e) \<noteq> KindWeComTagCatalogMutation) \<longrightarrow>
       eff_State e' = eff_State e \<and> eff_AttemptCount e' = eff_AttemptCount e \<and>
       rows_of i (db_Attempts (w_db w')) = rows_of i (db_Attempts (w_db w))) \<and>
    (eff_State e = StateUnknown \<longrightarrow> eff_State e' \<in> {StateUnknown, StateReconciled} \<and>
       eff_AttemptCount e' = eff_AttemptCount e \<and>
       (env_Owner (eff_Envelope e) = OwnerPayment \<longrightarrow> eff_State e' = StateUnknown))"
proof -
  let ?s = "view e (rows_of i (db_Attempts (w_db w)))"
  obtain t where t: "effects_of (w_db w') i = Some t" "estep\<^sup>*\<^sup>* ?s t"
    using history_effect [OF assms(2) reachable_inv [OF assms(1)] effects_of_get [OF assms(3)]] by blast
  then obtain e' where e': "db_Effects (w_db w') i = Some e'"
    "t = view e' (rows_of i (db_Attempts (w_db w')))" by (auto simp: effects_of_Some)
  have "eff_State e \<in> {StateExecuted, StateReconciled, StateCancelled} \<or>
     (eff_State e = StateFinalFailed \<and> env_Kind (eff_Envelope e) \<noteq> KindWeComTagCatalogMutation) \<or>
     (eff_State e = StateUnknown \<and> env_Owner (eff_Envelope e) = OwnerPayment) \<Longrightarrow> t = ?s"
    using final_estate_stays [OF t(2)] by (auto simp: final_estate_def)
  moreover have "eff_State e = StateUnknown \<Longrightarrow>
      t = ?s \<or> (es_State t = StateReconciled \<and> es_Count t = es_Count ?s)"
    using unknown_estate_steps [OF t(2)] by simp
  ultimately show ?thesis
    using e' by (auto simp: view_def)
qed

theorem settled_effect_is_final_witness:
  "\<exists>w. db_Effects (w_db w) 1 = Some (sample_row\<lparr>eff_State := StateFinalFailed, eff_AttemptCount := 1,
       eff_LeaseFence := 1, eff_LeaseExpiresAt := Some (10 + lease_duration), eff_UpdatedAt := 20\<rparr>) \<and>
     (\<forall>w'. (step None)\<^sup>*\<^sup>* w w' \<longrightarrow>
       (\<exists>e'. db_Effects (w_db w') 1 = Some e' \<and> eff_State e' = StateFinalFailed \<and> eff_AttemptCount e' = 1))"
proof -
  let ?w = "sample_world (sample_settled StateFinalFailed StateFinalFailed
     (Hash [''provider-disabled'', format_int 1, format_int 1]) no_result) [] []"
  let ?e = "sample_row\<lparr>eff_State := StateFinalFailed, eff_AttemptCount := 1,
       eff_LeaseFence := 1, eff_LeaseExpiresAt := Some (10 + lease_duration), eff_UpdatedAt := 20\<rparr>"
  have e: "db_Effects (w_db ?w) 1 = Some ?e" by (simp add: sample_settled_def)
  note fin = settled_effect_is_final [OF sample_reachable_disabled _ e]
  have "\<exists>e'. db_Effects (w_db w') 1 = Some e' \<and> eff_State e' = StateFinalFailed \<and> eff_AttemptCount e' = 1"
    if "(step None)\<^sup>*\<^sup>* ?w w'" for w'
    using fin [OF that] by (auto simp: sample_row_def sample_command_def)
  with e show ?thesis by blast
qed

text \<open>What a step may do to an effect, with what it records of its attempts: the worker claims it, settles
  its one open attempt, or settles it as rejected and queues it again, an operator cancels or retries it
  or reconciles an unknown outcome, and a client reports what it did itself.\<close>

definition settles_attempt :: "estate \<Rightarrow> estate \<Rightarrow> effect_status \<Rightarrow> bool" where
  "settles_attempt s t outcome \<longleftrightarrow> es_State s = StateAttempted \<and> es_Generation t = es_Generation s \<and>
     es_Count t = es_Count s \<and> es_Fence t = es_Fence s \<and>
     (\<exists>as a b bs. es_Attempts s = as @ a # bs \<and> es_Attempts t = as @ b # bs \<and> same_key a b \<and>
        atr_State a = StateAttempted \<and> atr_Number a = es_Count s \<and> atr_Fence a = es_Fence s \<and> atr_State b = outcome)"

definition adds_attempt :: "estate \<Rightarrow> estate \<Rightarrow> int \<Rightarrow> bool" where
  "adds_attempt s t fence \<longleftrightarrow> es_State s = StateQueued \<and> es_Generation t = es_Generation s \<and> es_Count t = es_Count s + 1 \<and>
     (\<exists>a. es_Attempts t = es_Attempts s @ [a] \<and> atr_Number a = es_Count t \<and> atr_Generation a = es_Generation s \<and>
        atr_Fence a = fence \<and> atr_State a = es_State t)"

definition lawful_move :: "estate \<Rightarrow> estate \<Rightarrow> bool" where
  "lawful_move s t \<longleftrightarrow>
     es_State t = StateAttempted \<and> es_Fence t = es_Fence s + 1 \<and> adds_attempt s t (es_Fence t) \<or>
     es_State t \<in> settled_states \<and> settles_attempt s t (es_State t) \<or>
     es_State t = StateQueued \<and> es_Count s < 5 \<and> settles_attempt s t StateRetryable \<or>
     es_State t = StateCancelled \<and> es_State s \<in> {StateAccepted, StateQueued} \<and> t = s\<lparr>es_State := StateCancelled\<rparr> \<or>
     es_State t = StateQueued \<and> t = s\<lparr>es_State := StateQueued, es_Generation := es_Generation s + 1\<rparr> \<and>
       (es_State s = StateRetryable \<or> es_State s = StateFinalFailed \<and> es_Kind s = KindWeComTagCatalogMutation \<and>
         (\<forall>a \<in> set (es_Attempts s). \<not> atr_RealCall a)) \<or>
     es_State t = StateReconciled \<and> es_State s = StateUnknown \<and> es_Owner s \<noteq> OwnerPayment \<and>
       es_Generation t = es_Generation s \<and> es_Count t = es_Count s \<or>
     es_State t \<in> {StateExecuted, StateUnknown, StateFinalFailed} \<and> es_Kind s = KindSidebarJSSDKSend \<and>
       es_Fence t = es_Fence s \<and> adds_attempt s t 0"

lemma rewrite_one:
  assumes "effect_inv s" "a \<in> set (es_Attempts s)" "atr_State a = StateAttempted" "sel a"
    and "\<And>b. sel b \<Longrightarrow> atr_State b = StateAttempted"
  shows "\<exists>as bs. es_Attempts s = as @ a # bs \<and> rewrite sel g (es_Attempts s) = as @ g a # bs"
proof -
  obtain as bs where split: "es_Attempts s = as @ a # bs" using split_list [OF assms(2)] by blast
  have "distinct (es_Attempts s)" using assms(1) by (auto simp: effect_inv_def distinct_map)
  have only: "\<not> sel b" if "b \<in> set as \<union> set bs" for b
  proof
    assume "sel b"
    moreover have "b \<in> set (es_Attempts s)" using that by (auto simp only: split set_append list.set)
    ultimately have "b = a" using attempted_unique [OF assms(1-3)] assms(5) by blast
    with \<open>distinct (es_Attempts s)\<close> that show False by (simp add: split)
  qed
  have "map (\<lambda>b. if sel b then g b else b) as = as" "map (\<lambda>b. if sel b then g b else b) bs = bs"
    using only by (simp_all add: map_idI)
  then have "rewrite sel g (es_Attempts s) = as @ g a # bs" using assms(4) by (simp add: split rewrite_def)
  with split show ?thesis by blast
qed

lemma estep_lawful:
  assumes "estep s t" and i: "effect_inv s"
  shows "lawful_move s t"
  using assms(1)
proof cases
  case (es_start n f a)
  have "n = es_Count s + 1" "f = es_Fence s + 1"
    using es_start i wrap32_Suc_pos wrap64_Suc_pos by (simp_all add: effect_inv_def)
  with es_start show ?thesis by (simp add: lawful_move_def adds_attempt_def)
next
  case (es_settle a sel g nxt persisted)
  have a: "atr_State a = StateAttempted" "same_key a (g a)" "atr_State (g a) = nxt" using es_settle(4,5) by blast+
  obtain as bs where parts: "es_Attempts s = as @ a # bs" "rewrite sel g (es_Attempts s) = as @ g a # bs"
    using rewrite_one [of s a sel g, OF i es_settle(3) a(1) es_settle(4)] es_settle(5) by blast
  have "atr_Number a = es_Count s" "atr_Fence a = es_Fence s"
    using i a(1) es_settle(3) by (auto simp: effect_inv_def list_all_iff attempt_inv_def)
  then have "settles_attempt s t nxt" using es_settle(1,2) a parts unfolding settles_attempt_def by auto
  with es_settle(1,6,7) \<open>atr_Number a = es_Count s\<close> show ?thesis by (auto simp: lawful_move_def)
next
  case (es_client n st a)
  have "n = es_Count s + 1" using es_client i wrap32_Suc_pos by (simp add: effect_inv_def)
  with es_client show ?thesis by (auto simp: lawful_move_def adds_attempt_def)
next
  case (es_retry g)
  have "g = es_Generation s + 1" using es_retry i wrap64_Suc_pos by (simp add: effect_inv_def)
  with es_retry show ?thesis by (auto simp: lawful_move_def)
qed (auto simp: lawful_move_def)

lemma lawful_published:
  "lawful_move s t \<Longrightarrow> CanTransition (es_State s) (es_State t) \<or>
     (es_State s, es_State t) \<in> {(StateAttempted, StateQueued), (StateFinalFailed, StateQueued)} \<or>
     es_State s = StateQueued \<and> es_Kind s = KindSidebarJSSDKSend"
  by (auto simp: lawful_move_def settled_states_def settles_attempt_def adds_attempt_def)

text \<open>C9. The store follows the published state machine.  A step of the system leaves an effect and
  its attempts as they are or makes one lawful move: it claims a queued effect under a new fence,
  settles the one open attempt of an attempted one as executed, unknown, retryable or failed, or as
  retryable and queues it again before the fifth attempt, cancels what has not been attempted,
  queues what is retryable under a new generation, or reconciles an unknown outcome that is not of
  Payment.  All of these but three are single transitions of \<open>CanTransition\<close>: the automatic retry
  skips the retryable state, a client's report of a sidebar message skips the attempted one, and an operator may retry
  a finally failed tag catalog mutation of which no attempt reached the provider.  Envelope and fingerprint never
  change.\<close>

theorem effects_follow_state_machine:
  assumes "reachable sink w" and "step sink w w'" and "db_Effects (w_db w) i = Some e"
  shows "\<exists>e'. db_Effects (w_db w') i = Some e' \<and> eff_Envelope e' = eff_Envelope e \<and>
    eff_Fingerprint e' = eff_Fingerprint e \<and>
    (let s = view e (rows_of i (db_Attempts (w_db w))); t = view e' (rows_of i (db_Attempts (w_db w'))) in
     t = s \<or> lawful_move s t \<and>
       (CanTransition (eff_State e) (eff_State e') \<or>
        (eff_State e, eff_State e') \<in> {(StateAttempted, StateQueued), (StateFinalFailed, StateQueued)} \<or>
        eff_State e = StateQueued \<and> env_Kind (eff_Envelope e) = KindSidebarJSSDKSend))"
proof -
  let ?s = "view e (rows_of i (db_Attempts (w_db w)))"
  note st = step_db [OF assms(2)] and inv = reachable_db_inv [OF assms(1)]
  obtain e' where e': "db_Effects (w_db w') i = Some e'" "eff_Envelope e' = eff_Envelope e"
    "eff_Fingerprint e' = eff_Fingerprint e"
    using db_step_envelope [OF st inv assms(3)] by blast
  have "effect_inv ?s" using inv effects_okD effects_of_get [OF assms(3)] by (auto simp: db_inv_def)
  moreover from db_step_effect [OF st inv effects_of_get [OF assms(3)]]
  have "view e' (rows_of i (db_Attempts (w_db w'))) = ?s \<or>
      estep ?s (view e' (rows_of i (db_Attempts (w_db w'))))"
    using effects_of_get [OF e'(1)] by simp
  ultimately show ?thesis using e' estep_lawful lawful_published by (fastforce simp: Let_def)
qed

theorem effects_follow_state_machine_witness:
  "\<exists>e'. db_Effects sample_claimed 1 = Some e' \<and> eff_State e' = StateAttempted \<and>
     lawful_move (view sample_row []) (view e' [sample_attempt_row])"
proof -
  have e: "db_Effects (w_db (sample_world sample_queued [] [])) 1 = Some sample_row"
    by (simp add: sample_queued_def)
  from effects_follow_state_machine [OF sample_reachable_queued [of None] sample_step_claim e]
  show ?thesis
    by (auto simp: sample_claimed_def sample_row_def sample_queued_def Let_def rows_of_def view_def sample_attempt_row_def)
qed

text \<open>C10. An attempt settles once.  When the worker's outcome of an attempt, or the recovery of
  its expired lease, has committed, every later outcome for that attempt is refused, whatever
  the system did in between: a late answer of the provider never overwrites the record.\<close>

theorem attempt_settles_once:
  assumes "reachable sink w" and "f \<in> set (w_flights w)"
    and settled: "finish_attempt sink (w_db w) (fl_Effect f) (fl_Attempt f) queue env outcome now = Inr (d, db') \<or>
      claim_attempt sink (w_db w) (fl_Effect f) generation job app now = Inr (ClaimRecovered db')"
    and later: "(step sink)\<^sup>*\<^sup>* (w\<lparr>w_db := db'\<rparr>) w'"
  shows "\<exists>err. finish_attempt sink (w_db w') (fl_Effect f) (fl_Attempt f) queue' env' outcome' now' = Inl err"
proof -
  have winv: "world_inv w" using assms(1) by (rule reachable_inv)
  then have inv: "db_inv (w_db w)" and k: "known (w_db w) (fl_Effect f) (fl_Attempt f)"
    using assms(2) by (simp_all add: world_inv_def)
  have "db_step (w_db w) db' \<and> (\<exists>e. db_Effects db' (fl_Effect f) = Some e \<and> eff_State e \<noteq> StateAttempted)"
    using settled
  proof
    assume fin: "finish_attempt sink (w_db w) (fl_Effect f) (fl_Attempt f) queue env outcome now = Inr (d, db')"
    show ?thesis
      using postD [OF finish_attempt_post fin] postD [OF finish_attempt_state fin] settled_not_attempted
      by (auto simp: db_step_def)
  next
    assume rec: "claim_attempt sink (w_db w) (fl_Effect f) generation job app now = Inr (ClaimRecovered db')"
    show ?thesis
      using postD [OF claim_attempt_post rec] claim_recovered_state [OF rec] by (auto simp: db_step_def)
  qed
  then have st: "db_step (w_db w) db'" and "\<not> attempt_open db' (fl_Effect f) (fl_Attempt f)"
    by (auto simp: attempt_open_def)
  then have "shut db' (fl_Effect f) (fl_Attempt f)" using known_step [OF st inv k] by (simp add: shut_def)
  with shut_history [OF later world_inv_db [OF winv st]]
  have "shut (w_db w') (fl_Effect f) (fl_Attempt f)" by simp
  then show ?thesis by (intro finish_needs_open) (simp add: shut_def)
qed

theorem attempt_settles_once_witness:
  "\<exists>db'. finish_attempt None sample_claimed 1 sample_attempt ''outbound_media'' (acc_Envelope sample_command)
       (Some (sample_rejection, False)) 20 = Inr (Some second, db') \<and>
     (\<exists>err. finish_attempt None db' 1 sample_attempt ''outbound_media'' (acc_Envelope sample_command)
       None 30 = Inl err)"
proof -
  let ?w = "sample_world sample_claimed [sample_flight None] []"
  have f: "sample_flight None \<in> set (w_flights ?w)" by simp
  have fin: "finish_attempt None (w_db ?w) (fl_Effect (sample_flight None)) (fl_Attempt (sample_flight None))
      ''outbound_media'' (acc_Envelope sample_command) (Some (sample_rejection, False)) 20 =
    Inr (Some second, sample_settled StateRetryable StateQueued (Hash [''rejected'']) sample_rejection)"
    using sample_finish_rejected by (simp add: sample_flight_def)
  show ?thesis
    using attempt_settles_once [OF sample_reachable_claimed f disjI1 [OF fin] rtranclp.rtrancl_refl,
        of "''outbound_media''" "acc_Envelope sample_command" None 30] sample_finish_rejected
    by (simp add: sample_flight_def)
qed

text \<open>C11. Acceptance is idempotent for ever: repeating an accepted command in any later state of
  the system writes nothing and returns the very receipt of the first answer and the same
  effect, and another command under the same receipt key is refused.\<close>

theorem acceptance_is_idempotent:
  assumes "reachable sink w" and acc: "acceptAndQueueTx (w_db w) c river now = Inr ((p, rc), db')"
    and later: "(step sink)\<^sup>*\<^sup>* (w\<lparr>w_db := db'\<rparr>) w'"
  shows "(\<exists>p'. acceptAndQueueTx (w_db w') c river' now' = Inr ((p', rc), w_db w') \<and>
      prj_ID p' = prj_ID p \<and> prj_Owner p' = prj_Owner p \<and> prj_Kind p' = prj_Kind p) \<and>
    (\<forall>d. AcceptCommand_Valid d \<and> acc_ReceiptKey d = acc_ReceiptKey c \<and>
       AcceptCommand_Digest d \<noteq> AcceptCommand_Digest c \<longrightarrow>
       acceptAndQueueTx (w_db w') d river' now' = Inl ErrPayloadMismatch)"
proof -
  have winv: "world_inv w" using assms(1) by (rule reachable_inv)
  then have inv: "db_inv (w_db w)" by (simp add: world_inv_def)
  from acceptAndQueueTx_cases [OF inv acc] obtain k env where v: "AcceptCommand_Valid c"
    and r: "remembers db' c k env rc" and p: "prj_ID p = effectID k" "prj_Owner p = env_Owner env"
      "prj_Kind p = env_Kind env" by blast
  have "db_step (w_db w) db'"
    using step_db [OF step_accept [OF acc]] by simp
  then have w: "world_inv (w\<lparr>w_db := db'\<rparr>)" by (rule world_inv_db [OF winv])
  have "remembers (w_db w') c k env rc"
    by (rule history [OF later w]) (use r remembers_step in auto)
  with remembers_replay [OF history_inv [OF later w] v] remembers_mismatch p show ?thesis by metis
qed

theorem acceptance_is_idempotent_witness:
  "acceptAndQueueTx empty_db sample_command (Some (7, 6)) 5 =
     Inr ((sample_projection, sample_receipt), sample_queued) \<and>
   (\<exists>p. acceptAndQueueTx sample_claimed sample_command None 99 = Inr ((p, sample_receipt), sample_claimed) \<and>
     prj_ID p = effectID 1)"
proof -
  have "reachable None (sample_world empty_db [] [])"
    by (simp add: reachable_def initial_world_def sample_world_def)
  moreover have "acceptAndQueueTx (w_db (sample_world empty_db [] [])) sample_command (Some (7, 6)) 5 =
     Inr ((sample_projection, sample_receipt), sample_queued)" using sample_accept by simp
  moreover have "(step None)\<^sup>*\<^sup>* (sample_world empty_db [] []\<lparr>w_db := sample_queued\<rparr>)
      (sample_world sample_claimed [sample_flight None] [])"
    using sample_step_claim by (simp add: r_into_rtranclp)
  ultimately show ?thesis
    using acceptance_is_idempotent [of None "sample_world empty_db [] []" sample_command "Some (7, 6)" 5
        sample_projection sample_receipt sample_queued "sample_world sample_claimed [sample_flight None] []"
        None 99] sample_accept
    by (auto simp: sample_projection_def)
qed

text \<open>C12. One effect per envelope: no two accepted effects have the same fingerprint, and asking
  again for an accepted envelope under a receipt key not used before is refused.\<close>

theorem one_effect_per_envelope:
  assumes "reachable sink w" and "db_Effects (w_db w) i = Some e"
  shows "(\<forall>j f. db_Effects (w_db w) j = Some f \<and> eff_Fingerprint f = eff_Fingerprint e \<longrightarrow> j = i) \<and>
    (\<forall>c river now. AcceptCommand_Valid c \<and> Fingerprint (acc_Envelope c) = eff_Fingerprint e \<and>
       find_acceptance (w_db w) (acc_ReceiptKey c) = None \<longrightarrow>
       acceptAndQueueTx (w_db w) c river now = Inl ErrPayloadMismatch)"
proof -
  have inv: "db_inv (w_db w)" by (rule reachable_db_inv [OF assms(1)])
  then have u: "fingerprints_unique (w_db w)" and t: "tables_ok (w_db w)" by (simp_all add: db_inv_def)
  have "acceptAndQueueTx (w_db w) c river now = Inl ErrPayloadMismatch"
    if v: "AcceptCommand_Valid c" and fp: "Fingerprint (acc_Envelope c) = eff_Fingerprint e"
      and none: "find_acceptance (w_db w) (acc_ReceiptKey c) = None" for c river now
  proof -
    have "i \<in> set [1..db_NextEffect (w_db w) - 1]" using tables_okD(1,2) [OF t assms(2)] by simp
    then have "find_fingerprint (w_db w) (Fingerprint (acc_Envelope c)) \<noteq> None"
      using assms(2) fp unfolding find_fingerprint_def find_None_iff' by force
    then obtain k where "find_fingerprint (w_db w) (Fingerprint (acc_Envelope c)) = Some k" by blast
    then show ?thesis
      unfolding acceptAndQueueTx_def none no_accept_row [OF inv none] by (simp add: v)
  qed
  with u assms(2) show ?thesis by (auto simp: fingerprints_unique_def)
qed

theorem one_effect_per_envelope_witness:
  "acceptAndQueueTx sample_queued (sample_command\<lparr>acc_ReceiptKey := sample_other_key\<rparr>) None 9 =
     Inl ErrPayloadMismatch"
proof -
  have e: "db_Effects (w_db (sample_world sample_queued [] [])) 1 = Some sample_row"
    by (simp add: sample_queued_def)
  have "AcceptCommand_Valid (sample_command\<lparr>acc_ReceiptKey := sample_other_key\<rparr>)"
    using sample_valid by (simp add: AcceptCommand_Valid_def)
  moreover have "Fingerprint (acc_Envelope (sample_command\<lparr>acc_ReceiptKey := sample_other_key\<rparr>)) =
      eff_Fingerprint sample_row" by (simp add: sample_row_def)
  moreover have "find_acceptance sample_queued sample_other_key = None"
    using sample_other_key_fresh by (simp add: find_acceptance_def sample_queued_def)
  ultimately show ?thesis
    using one_effect_per_envelope [OF sample_reachable_queued [of None] e] by simp
qed

text \<open>C13. The recorded outcome is justified by what the provider boundary returned.  A queued or
  retryable outcome means that no call was attempted, or that the provider rejected a media or
  Excel message in a way declared safe to retry; executed needs the adapter's own
  confirmation (and a valid artifact where the kind has one); an error after an attempted call
  is recorded as unknown, never retried.\<close>

theorem outcome_is_justified:
  assumes fin: "finish_attempt sink db i a queue env outcome now = Inr (d, db')"
    and e: "db_Effects db' i = Some e"
  shows "(eff_State e \<in> {StateQueued, StateRetryable} \<longrightarrow> (\<exists>r failed. outcome = Some (r, failed) \<and>
       (\<not> res_CallAttempted r \<or> (\<not> failed \<and> res_SafeToRetryRejected r \<and> \<not> res_RealExternalCallExecuted r \<and>
          (media_upload (env_Kind env) queue \<or> excel_message (env_Kind env) queue))))) \<and>
    (eff_State e = StateExecuted \<longrightarrow> (\<exists>r. outcome = Some (r, False) \<and> res_Completion r = StateExecuted \<and>
       ValidDigest (res_ReceiptDigest r) \<and>
       (res_CallAttempted r \<and> res_RealExternalCallExecuted r \<or> Artifact_Valid (res_Artifact r)) \<and>
       (needs_artifact (env_Kind env) \<longrightarrow> Artifact_Valid (res_Artifact r)))) \<and>
    (\<forall>r. outcome = Some (r, True) \<and> res_CallAttempted r \<longrightarrow> eff_State e = StateUnknown)"
proof -
  let ?c = "fst (classify_outcome (sink \<noteq> None) i (atp_Number a) (env_Kind env) queue outcome)"
  have "settled_as (sink \<noteq> None) i a queue env outcome (eff_State e)"
    using postD [OF finish_attempt_state fin] e by auto
  then have s: "eff_State e = ?c \<or> (?c = StateRetryable \<and> eff_State e = StateQueued)"
    by (simp add: settled_as_def Let_def)
  have "?c \<noteq> StateQueued"
    using classify_outcome_settled [of "sink \<noteq> None" i "atp_Number a" "env_Kind env" queue outcome]
    by (auto simp: settled_states_def)
  with s have retry: "eff_State e \<in> {StateQueued, StateRetryable} \<Longrightarrow> ?c = StateRetryable"
    and confirmed: "eff_State e = StateExecuted \<Longrightarrow> ?c = StateExecuted"
    and unknown: "?c = StateUnknown \<Longrightarrow> eff_State e = StateUnknown" by auto
  show ?thesis
  proof (intro conjI impI allI)
    assume "eff_State e \<in> {StateQueued, StateRetryable}"
    from classify_retryable [OF retry [OF this]] show "\<exists>r failed. outcome = Some (r, failed) \<and>
       (\<not> res_CallAttempted r \<or> (\<not> failed \<and> res_SafeToRetryRejected r \<and> \<not> res_RealExternalCallExecuted r \<and>
          (media_upload (env_Kind env) queue \<or> excel_message (env_Kind env) queue)))" .
  next
    assume "eff_State e = StateExecuted"
    from classify_executed [OF confirmed [OF this]] show "\<exists>r. outcome = Some (r, False) \<and>
       res_Completion r = StateExecuted \<and> ValidDigest (res_ReceiptDigest r) \<and>
       (res_CallAttempted r \<and> res_RealExternalCallExecuted r \<or> Artifact_Valid (res_Artifact r)) \<and>
       (needs_artifact (env_Kind env) \<longrightarrow> Artifact_Valid (res_Artifact r))" .
  next
    fix r assume "outcome = Some (r, True) \<and> res_CallAttempted r"
    then show "eff_State e = StateUnknown" by (intro unknown) (simp add: classify_error)
  qed
qed

theorem outcome_is_justified_witness:
  "\<exists>db' e. finish_attempt None sample_claimed 1 sample_attempt ''outbound_media'' (acc_Envelope sample_command)
       (Some (sample_rejection, False)) 20 = Inr (Some second, db') \<and> db_Effects db' 1 = Some e \<and>
     eff_State e = StateQueued \<and> res_CallAttempted sample_rejection \<and> res_SafeToRetryRejected sample_rejection"
  using outcome_is_justified [OF sample_finish_rejected, of "sample_row\<lparr>eff_State := StateQueued,
      eff_AttemptCount := 1, eff_LeaseFence := 1, eff_LeaseExpiresAt := Some (10 + lease_duration),
      eff_UpdatedAt := 20\<rparr>"] sample_finish_rejected
  by (auto simp: sample_settled_def sample_rejection_def)

text \<open>No queued effect is stranded: its current generation always has a River job, and a
  worker that runs that job, at any time, starts the next attempt.\<close>

lemma queued_effect_can_start:
  assumes "reachable sink w" and e: "db_Effects (w_db w) i = Some e" and q: "eff_State e = StateQueued"
    and small: "eff_AttemptCount e < 2 ^ 31 - 1" "eff_LeaseFence e < 2 ^ 63 - 1"
  shows "\<exists>j \<in> set (db_Jobs (w_db w)). job_EffectID j = i \<and> job_Generation j = eff_Generation e \<and>
    (\<exists>db' a queue. claim_attempt sink (w_db w) i (eff_Generation e) (job_RiverJobID j) app now =
       Inr (ClaimStarted db' a queue))"
proof -
  have inv: "db_inv (w_db w)" by (rule reachable_db_inv [OF assms(1)])
  then have "has_job (w_db w) i (eff_Generation e)" using tables_okD(4) [OF _ e] by (simp add: db_inv_def)
  from job_found [OF e this] obtain j k where j: "j \<in> set (db_Jobs (w_db w))" "job_EffectID j = i"
    "job_Generation j = eff_Generation e"
    "current_job (w_db w) i (eff_Generation e) (job_RiverJobID j) = Some (e, k)" by blast
  from start_attempt_ok [OF inv e q small] obtain db1 where "start_attempt (w_db w) i e now = Inr db1" by blast
  with j q show ?thesis by (auto simp: claim_attempt_def intro!: bexI [of _ j])
qed

lemma queued_effect_can_start_witness:
  "\<exists>j \<in> set (db_Jobs sample_queued). \<exists>db' a queue.
     claim_attempt None sample_queued 1 1 (job_RiverJobID j) 10 10 = Inr (ClaimStarted db' a queue)"
proof -
  have e: "db_Effects (w_db (sample_world sample_queued [] [])) 1 = Some sample_row"
    by (simp add: sample_queued_def)
  from queued_effect_can_start [OF sample_reachable_queued [of None] e]
  show ?thesis by (fastforce simp: sample_row_def)
qed



end
