(* ===== verification/Referral.thy ===== *)
theory Referral
  imports GoStrings
begin

text \<open>
  \<open>internal/referral/domain\<close>: campaigns with their life cycle and frozen rules, teams,
  participations, invitations, relationships, score events, sales facts with their
  refunds and the evidence of product sales.  Text that the code compares is a string;
  closed enumerations are datatypes with one constructor for every other string.
\<close>

datatype referral_error = RefInvalid | RefTransition | RefVersion

definition validText :: "string \<Rightarrow> nat \<Rightarrow> bool \<Rightarrow> bool" where
  "validText value maximum required \<longleftrightarrow>
     value = trim_space value \<and> length value \<le> maximum \<and> (\<not> required \<or> value \<noteq> [])"

subsection \<open>Campaign configuration\<close>

datatype team_mode = TeamModeTeam | TeamModeIndividual | TeamModeOther string

datatype qualification_mode =
  QualificationFreeSignup | QualificationProductPurchase | QualificationModeOther string

text \<open>\<open>LeaderboardSales\<close> is an alias of \<open>LeaderboardSalesAmount\<close>; older rows hold ''sales''.\<close>

datatype leaderboard_metric =
    LeaderboardInvites
  | LeaderboardSalesAmount
  | LeaderboardSalesOrders
  | LeaderboardOther string

definition TeamMode_Valid :: "team_mode \<Rightarrow> bool" where
  "TeamMode_Valid m \<longleftrightarrow> m = TeamModeTeam \<or> m = TeamModeIndividual"

definition QualificationMode_Valid :: "qualification_mode \<Rightarrow> bool" where
  "QualificationMode_Valid m \<longleftrightarrow> m = QualificationFreeSignup \<or> m = QualificationProductPurchase"

definition LeaderboardMetric_Valid :: "leaderboard_metric \<Rightarrow> bool" where
  "LeaderboardMetric_Valid m \<longleftrightarrow> m = LeaderboardInvites \<or> m = LeaderboardSalesAmount \<or>
     m = LeaderboardSalesOrders \<or> m = LeaderboardOther ''sales''"

record campaign_config =
  cfg_TeamMode :: team_mode
  cfg_QualificationMode :: qualification_mode
  cfg_ProductID :: int
  cfg_ProductType :: string
  cfg_LeaderboardMetric :: leaderboard_metric

definition DefaultCampaignConfig :: campaign_config where
  "DefaultCampaignConfig = \<lparr>cfg_TeamMode = TeamModeTeam,
     cfg_QualificationMode = QualificationFreeSignup, cfg_ProductID = 0, cfg_ProductType = [],
     cfg_LeaderboardMetric = LeaderboardInvites\<rparr>"

definition normalized :: "campaign_config \<Rightarrow> campaign_config" where
  "normalized c =
     c\<lparr>cfg_TeamMode := (if cfg_TeamMode c = TeamModeOther [] then cfg_TeamMode DefaultCampaignConfig
         else cfg_TeamMode c),
       cfg_QualificationMode := (if cfg_QualificationMode c = QualificationModeOther []
         then cfg_QualificationMode DefaultCampaignConfig else cfg_QualificationMode c),
       cfg_LeaderboardMetric := (if cfg_LeaderboardMetric c = LeaderboardOther []
         then cfg_LeaderboardMetric DefaultCampaignConfig
         else if cfg_LeaderboardMetric c = LeaderboardOther ''sales'' then LeaderboardSalesAmount
         else cfg_LeaderboardMetric c)\<rparr>"

definition known_product_type :: "string \<Rightarrow> bool" where
  "known_product_type t \<longleftrightarrow> t = ''standard_product'' \<or> t = ''service_period''"

definition CampaignConfig_Valid :: "campaign_config \<Rightarrow> bool" where
  "CampaignConfig_Valid c0 =
     (let c = normalized c0 in
      if \<not> TeamMode_Valid (cfg_TeamMode c) \<or> \<not> QualificationMode_Valid (cfg_QualificationMode c) \<or>
         \<not> LeaderboardMetric_Valid (cfg_LeaderboardMetric c)
      then False
      else if cfg_QualificationMode c = QualificationProductPurchase
      then cfg_ProductID c > 0 \<and> known_product_type (cfg_ProductType c)
      else cfg_ProductID c = 0 \<and> cfg_ProductType c = [])"

lemma normalized_idem [simp]: "normalized (normalized c) = normalized c"
  by (simp add: normalized_def DefaultCampaignConfig_def)

lemma normalized_valid [simp]: "CampaignConfig_Valid (normalized c) = CampaignConfig_Valid c"
  by (simp only: CampaignConfig_Valid_def normalized_idem)

subsection \<open>Campaigns\<close>

datatype campaign_state =
    CampaignDraft
  | CampaignScheduled
  | CampaignActive
  | CampaignEnded
  | CampaignDisabled
  | CampaignStateOther string

fun CampaignState_Valid :: "campaign_state \<Rightarrow> bool" where
  "CampaignState_Valid (CampaignStateOther _) = False"
| "CampaignState_Valid _ = True"

record campaign =
  cam_ID :: int
  cam_Name :: string
  cam_CoverURL :: string
  cam_Description :: string
  cam_RewardRules :: string
  cam_State :: campaign_state
  cam_StartsAt :: go_time
  cam_EndsAt :: go_time
  cam_Version :: int
  cam_CreatedBy :: int
  cam_CreatedAt :: go_time
  cam_UpdatedAt :: go_time
  cam_TeamMode :: team_mode
  cam_QualificationMode :: qualification_mode
  cam_ProductID :: int
  cam_ProductType :: string
  cam_LeaderboardMetric :: leaderboard_metric

definition Campaign_Config :: "campaign \<Rightarrow> campaign_config" where
  "Campaign_Config c = normalized \<lparr>cfg_TeamMode = cam_TeamMode c,
     cfg_QualificationMode = cam_QualificationMode c, cfg_ProductID = cam_ProductID c,
     cfg_ProductType = cam_ProductType c, cfg_LeaderboardMetric = cam_LeaderboardMetric c\<rparr>"

definition Campaign_Valid :: "campaign \<Rightarrow> bool" where
  "Campaign_Valid c \<longleftrightarrow> cam_ID c > 0 \<and> validText (cam_Name c) 200 True \<and>
     validText (cam_CoverURL c) 2000 False \<and> validText (cam_Description c) 5000 False \<and>
     validText (cam_RewardRules c) 5000 False \<and> CampaignState_Valid (cam_State c) \<and>
     \<not> is_zero (cam_StartsAt c) \<and> \<not> is_zero (cam_EndsAt c) \<and>
     after (cam_EndsAt c) (cam_StartsAt c) \<and> cam_Version c > 0 \<and> cam_CreatedBy c \<ge> 0 \<and>
     \<not> is_zero (cam_CreatedAt c) \<and> \<not> before (cam_UpdatedAt c) (cam_CreatedAt c) \<and>
     CampaignConfig_Valid (Campaign_Config c)"

definition Campaign_ValidForInsert :: "campaign \<Rightarrow> bool" where
  "Campaign_ValidForInsert c =
     (if cam_ID c \<noteq> 0 \<or> cam_Version c \<noteq> 1 then False else Campaign_Valid (c\<lparr>cam_ID := 1\<rparr>))"

definition AcceptingAt :: "campaign \<Rightarrow> go_time \<Rightarrow> bool" where
  "AcceptingAt c at =
     (if \<not> Campaign_Valid c \<or> is_zero at then False
      else (cam_State c = CampaignScheduled \<or> cam_State c = CampaignActive) \<and>
           \<not> before at (cam_StartsAt c) \<and> before at (cam_EndsAt c))"

definition EffectiveState :: "campaign \<Rightarrow> go_time \<Rightarrow> campaign_state" where
  "EffectiveState c at =
     (if \<not> Campaign_Valid c \<or> is_zero at \<or> cam_State c = CampaignDraft \<or>
         cam_State c = CampaignDisabled \<or> cam_State c = CampaignEnded
      then cam_State c
      else if \<not> before at (cam_EndsAt c) then CampaignEnded
      else if before at (cam_StartsAt c) then CampaignScheduled
      else CampaignActive)"

record campaign_text =
  txt_Name :: string
  txt_CoverURL :: string
  txt_Description :: string
  txt_RewardRules :: string

definition UpdateWithConfig ::
  "campaign \<Rightarrow> int \<Rightarrow> campaign_text \<Rightarrow> go_time \<Rightarrow> go_time \<Rightarrow> campaign_config \<Rightarrow> go_time
    \<Rightarrow> (referral_error, campaign) result" where
  "UpdateWithConfig c expectedVersion t startsAt endsAt config0 at =
     (if expectedVersion \<noteq> cam_Version c then Inl RefVersion
      else if cam_State c = CampaignDisabled \<or> EffectiveState c at = CampaignEnded
      then Inl RefTransition
      else let config = normalized config0 in
      if \<not> CampaignConfig_Valid config then Inl RefInvalid
      else if \<not> before at (cam_StartsAt c) \<and>
         (config \<noteq> Campaign_Config c \<or> startsAt \<noteq> cam_StartsAt c \<or> endsAt \<noteq> cam_EndsAt c)
      then Inl RefTransition
      else if config \<noteq> Campaign_Config c \<and> \<not> before at (utc startsAt) then Inl RefTransition
      else let nxt = c\<lparr>cam_Name := txt_Name t, cam_CoverURL := txt_CoverURL t,
            cam_Description := txt_Description t, cam_RewardRules := txt_RewardRules t,
            cam_StartsAt := utc startsAt, cam_EndsAt := utc endsAt,
            cam_Version := wrap64 (cam_Version c + 1), cam_UpdatedAt := utc at,
            cam_TeamMode := cfg_TeamMode config,
            cam_QualificationMode := cfg_QualificationMode config,
            cam_ProductID := cfg_ProductID config, cam_ProductType := cfg_ProductType config,
            cam_LeaderboardMetric := cfg_LeaderboardMetric config\<rparr> in
      if is_zero at \<or> before at (cam_UpdatedAt c) \<or> \<not> Campaign_Valid nxt then Inl RefInvalid
      else Inr nxt)"

definition Campaign_Update ::
  "campaign \<Rightarrow> int \<Rightarrow> campaign_text \<Rightarrow> go_time \<Rightarrow> go_time \<Rightarrow> go_time \<Rightarrow> (referral_error, campaign) result" where
  "Campaign_Update c expectedVersion t startsAt endsAt at =
     UpdateWithConfig c expectedVersion t startsAt endsAt (Campaign_Config c) at"

fun campaign_allowed :: "campaign_state \<Rightarrow> campaign_state \<Rightarrow> bool" where
  "campaign_allowed CampaignDraft target =
     (target = CampaignScheduled \<or> target = CampaignActive \<or> target = CampaignDisabled)"
| "campaign_allowed CampaignScheduled target =
     (target = CampaignActive \<or> target = CampaignDisabled \<or> target = CampaignEnded)"
| "campaign_allowed CampaignActive target = (target = CampaignEnded \<or> target = CampaignDisabled)"
| "campaign_allowed _ target = False"

definition Campaign_Transition ::
  "campaign \<Rightarrow> int \<Rightarrow> campaign_state \<Rightarrow> go_time \<Rightarrow> (referral_error, campaign) result" where
  "Campaign_Transition c expectedVersion target at =
     (if expectedVersion \<noteq> cam_Version c then Inl RefVersion
      else if is_zero at \<or> before at (cam_UpdatedAt c) \<or> \<not> CampaignState_Valid target
      then Inl RefInvalid
      else if \<not> campaign_allowed (cam_State c) target then Inl RefTransition
      else Inr (c\<lparr>cam_State := target, cam_Version := wrap64 (cam_Version c + 1),
                  cam_UpdatedAt := utc at\<rparr>))"

subsection \<open>Teams, participations, invitations, relationships\<close>

record team =
  tea_ID :: int
  tea_CampaignID :: int
  tea_CaptainCustomerID :: int
  tea_Name :: string
  tea_LogoURL :: string
  tea_Version :: int
  tea_CreatedAt :: go_time
  tea_UpdatedAt :: go_time

definition Team_Valid :: "team \<Rightarrow> bool" where
  "Team_Valid t \<longleftrightarrow> tea_ID t > 0 \<and> tea_CampaignID t > 0 \<and> tea_CaptainCustomerID t > 0 \<and>
     validText (tea_Name t) 100 True \<and> validText (tea_LogoURL t) 2000 False \<and>
     tea_Version t > 0 \<and> \<not> is_zero (tea_CreatedAt t) \<and>
     \<not> before (tea_UpdatedAt t) (tea_CreatedAt t)"

definition Team_ValidForInsert :: "team \<Rightarrow> bool" where
  "Team_ValidForInsert t =
     (if tea_ID t \<noteq> 0 \<or> tea_Version t \<noteq> 1 then False else Team_Valid (t\<lparr>tea_ID := 1\<rparr>))"

datatype participation_state = ParticipationActive | ParticipationReversed | ParticipationOther string

definition ParticipationState_Valid :: "participation_state \<Rightarrow> bool" where
  "ParticipationState_Valid s \<longleftrightarrow> s = ParticipationActive \<or> s = ParticipationReversed"

record participation =
  par_ID :: int
  par_CampaignID :: int
  par_CustomerID :: int
  par_TeamID :: int
  par_InvitationID :: int
  par_InviterCustomerID :: int
  par_InviterTeamID :: int
  par_State :: participation_state
  par_JoinedAt :: go_time

definition Participation_Valid :: "participation \<Rightarrow> bool" where
  "Participation_Valid p \<longleftrightarrow> par_ID p > 0 \<and> par_CampaignID p > 0 \<and> par_CustomerID p > 0 \<and>
     par_TeamID p \<ge> 0 \<and> par_InvitationID p \<ge> 0 \<and> par_InviterCustomerID p \<ge> 0 \<and>
     par_InviterTeamID p \<ge> 0 \<and> ParticipationState_Valid (par_State p) \<and>
     \<not> is_zero (par_JoinedAt p) \<and>
     ((par_InvitationID p = 0 \<and> par_InviterCustomerID p = 0 \<and> par_InviterTeamID p = 0) \<or>
      (par_InvitationID p > 0 \<and> par_InviterCustomerID p > 0 \<and> par_InviterTeamID p \<ge> 0))"

datatype invitation_state = InvitationActive | InvitationRevoked | InvitationExpired | InvitationOther string

definition InvitationState_Valid :: "invitation_state \<Rightarrow> bool" where
  "InvitationState_Valid s \<longleftrightarrow> s = InvitationActive \<or> s = InvitationRevoked \<or> s = InvitationExpired"

record invitation =
  ivt_ID :: int
  ivt_CampaignID :: int
  ivt_InviterCustomerID :: int
  ivt_TokenDigest :: string
  ivt_State :: invitation_state
  ivt_CreatedAt :: go_time
  ivt_ExpiresAt :: go_time
  ivt_RevokedAt :: "go_time option"
  ivt_IssuerIdentityID :: int
  ivt_IssuerAppID :: string
  ivt_IssuerAppScope :: string
  ivt_IssuerChannel :: string

definition ValidIssuerSnapshot :: "invitation \<Rightarrow> bool" where
  "ValidIssuerSnapshot i =
     (if ivt_IssuerIdentityID i = 0
      then ivt_IssuerAppID i = [] \<and> ivt_IssuerAppScope i = [] \<and> ivt_IssuerChannel i = []
      else ivt_IssuerIdentityID i > 0 \<and> ivt_IssuerAppID i = trim_space (ivt_IssuerAppID i) \<and>
        length (ivt_IssuerAppID i) \<ge> 1 \<and> length (ivt_IssuerAppID i) \<le> 160 \<and>
        ivt_IssuerAppScope i = trim_space (ivt_IssuerAppScope i) \<and>
        length (ivt_IssuerAppScope i) \<ge> 1 \<and> length (ivt_IssuerAppScope i) \<le> 240 \<and>
        (ivt_IssuerChannel i = ''mini_program'' \<or> ivt_IssuerChannel i = ''h5_official_account''))"

definition Invitation_Valid :: "invitation \<Rightarrow> bool" where
  "Invitation_Valid i \<longleftrightarrow> ivt_ID i > 0 \<and> ivt_CampaignID i > 0 \<and> ivt_InviterCustomerID i > 0 \<and>
     InvitationState_Valid (ivt_State i) \<and> \<not> is_zero (ivt_CreatedAt i) \<and>
     after (ivt_ExpiresAt i) (ivt_CreatedAt i) \<and>
     ((ivt_State i = InvitationRevoked) = (ivt_RevokedAt i \<noteq> None)) \<and> ValidIssuerSnapshot i"

record relationship =
  rel_ID :: int
  rel_CustomerID :: int
  rel_ReferrerCustomerID :: int
  rel_SourceCampaignID :: int
  rel_InvitationID :: int
  rel_Version :: int
  rel_EffectiveAt :: go_time

definition Relationship_Valid :: "relationship \<Rightarrow> bool" where
  "Relationship_Valid r \<longleftrightarrow> rel_ID r > 0 \<and> rel_CustomerID r > 0 \<and> rel_ReferrerCustomerID r > 0 \<and>
     rel_CustomerID r \<noteq> rel_ReferrerCustomerID r \<and> rel_SourceCampaignID r > 0 \<and>
     rel_InvitationID r > 0 \<and> rel_Version r > 0 \<and> \<not> is_zero (rel_EffectiveAt r)"

record relationship_history =
  rlh_ID :: int
  rlh_RelationshipID :: int
  rlh_Version :: int
  rlh_CustomerID :: int
  rlh_PreviousReferrerCustomerID :: int
  rlh_ReferrerCustomerID :: int
  rlh_SourceCampaignID :: int
  rlh_InvitationID :: int
  rlh_AcceptedAt :: go_time

definition RelationshipHistory_Valid :: "relationship_history \<Rightarrow> bool" where
  "RelationshipHistory_Valid h \<longleftrightarrow> rlh_ID h > 0 \<and> rlh_RelationshipID h > 0 \<and> rlh_Version h > 0 \<and>
     rlh_CustomerID h > 0 \<and> rlh_ReferrerCustomerID h > 0 \<and>
     rlh_CustomerID h \<noteq> rlh_ReferrerCustomerID h \<and> rlh_SourceCampaignID h > 0 \<and>
     rlh_InvitationID h > 0 \<and> \<not> is_zero (rlh_AcceptedAt h)"

subsection \<open>Scores, rewards, sales\<close>

datatype score_event_kind = ScoreCredit | ScoreReverse | ScoreOther string

definition ScoreEventKind_Valid :: "score_event_kind \<Rightarrow> bool" where
  "ScoreEventKind_Valid k \<longleftrightarrow> k = ScoreCredit \<or> k = ScoreReverse"

record score_event =
  sco_ID :: int
  sco_CampaignID :: int
  sco_ParticipationID :: int
  sco_InviterCustomerID :: int
  sco_TeamID :: int
  sco_Delta :: int
  sco_ReversesScoreEventID :: int
  sco_Kind :: score_event_kind
  sco_Reason :: string
  sco_OccurredAt :: go_time

definition ScoreEvent_Valid :: "score_event \<Rightarrow> bool" where
  "ScoreEvent_Valid e =
     (if sco_ID e < 1 \<or> sco_CampaignID e < 1 \<or> sco_ParticipationID e < 1 \<or>
         sco_InviterCustomerID e < 1 \<or> sco_TeamID e < 0 \<or> \<not> ScoreEventKind_Valid (sco_Kind e) \<or>
         is_zero (sco_OccurredAt e)
      then False
      else if sco_Kind e = ScoreCredit
      then sco_Delta e = 1 \<and> sco_ReversesScoreEventID e = 0 \<and> sco_Reason e = []
      else sco_Delta e = -1 \<and> sco_ReversesScoreEventID e > 0 \<and> validText (sco_Reason e) 500 True)"

datatype reward_state = RewardRecorded | RewardNeedsReview | RewardOther string

definition RewardState_Valid :: "reward_state \<Rightarrow> bool" where
  "RewardState_Valid s \<longleftrightarrow> s = RewardRecorded \<or> s = RewardNeedsReview"

record reward_record =
  rew_ID :: int
  rew_CampaignID :: int
  rew_CustomerID :: int
  rew_ScoreEventID :: int
  rew_Period :: string
  rew_Reward :: string
  rew_EvidenceReference :: string
  rew_State :: reward_state
  rew_RecordedBy :: int
  rew_RecordedAt :: go_time

definition RewardRecord_Valid :: "reward_record \<Rightarrow> bool" where
  "RewardRecord_Valid r \<longleftrightarrow> rew_ID r > 0 \<and> rew_CampaignID r > 0 \<and> rew_CustomerID r > 0 \<and>
     rew_ScoreEventID r \<ge> 0 \<and> validText (rew_Period r) 32 True \<and> validText (rew_Reward r) 500 True \<and>
     validText (rew_EvidenceReference r) 500 False \<and> RewardState_Valid (rew_State r) \<and>
     rew_RecordedBy r > 0 \<and> \<not> is_zero (rew_RecordedAt r)"

record sales_fact =
  sal_ID :: int
  sal_CampaignID :: int
  sal_OrderID :: int
  sal_ProductID :: int
  sal_PromoterCustomerID :: int
  sal_TeamID :: int
  sal_OrderItemLine :: int
  sal_ProductType :: string
  sal_SourceReference :: string
  sal_OriginalPaidMinor :: int
  sal_SuccessfulRefundMinor :: int
  sal_PaidAt :: go_time
  sal_CreatedAt :: go_time
  sal_UpdatedAt :: go_time
  sal_Version :: int

definition NetPaidMinor :: "sales_fact \<Rightarrow> int" where
  "NetPaidMinor s = wrap64 (sal_OriginalPaidMinor s - sal_SuccessfulRefundMinor s)"

definition SalesFact_Valid :: "sales_fact \<Rightarrow> bool" where
  "SalesFact_Valid s \<longleftrightarrow> sal_ID s > 0 \<and> sal_CampaignID s > 0 \<and> sal_OrderID s > 0 \<and>
     sal_OrderItemLine s > 0 \<and> sal_ProductID s > 0 \<and> sal_PromoterCustomerID s > 0 \<and>
     sal_TeamID s \<ge> 0 \<and> known_product_type (sal_ProductType s) \<and>
     sal_SourceReference s = trim_space (sal_SourceReference s) \<and>
     length (sal_SourceReference s) \<ge> 1 \<and> length (sal_SourceReference s) \<le> 200 \<and>
     sal_OriginalPaidMinor s > 0 \<and> sal_SuccessfulRefundMinor s \<ge> 0 \<and>
     sal_SuccessfulRefundMinor s \<le> sal_OriginalPaidMinor s \<and> \<not> is_zero (sal_PaidAt s) \<and>
     \<not> is_zero (sal_CreatedAt s) \<and> \<not> before (sal_UpdatedAt s) (sal_CreatedAt s) \<and>
     sal_Version s > 0"

definition SalesFact_ValidForInsert :: "sales_fact \<Rightarrow> bool" where
  "SalesFact_ValidForInsert s =
     (if sal_ID s \<noteq> 0 \<or> sal_Version s \<noteq> 1 then False else SalesFact_Valid (s\<lparr>sal_ID := 1\<rparr>))"

definition ApplySuccessfulRefund ::
  "sales_fact \<Rightarrow> int \<Rightarrow> int \<Rightarrow> go_time \<Rightarrow> (referral_error, sales_fact) result" where
  "ApplySuccessfulRefund s expectedVersion delta at =
     (if \<not> SalesFact_Valid s \<or> expectedVersion \<noteq> sal_Version s \<or> delta \<le> 0 \<or>
         wrap64 (sal_SuccessfulRefundMinor s + delta) > sal_OriginalPaidMinor s \<or>
         is_zero at \<or> before at (sal_UpdatedAt s)
      then Inl RefInvalid
      else Inr (s\<lparr>sal_SuccessfulRefundMinor := wrap64 (sal_SuccessfulRefundMinor s + delta),
                  sal_Version := wrap64 (sal_Version s + 1), sal_UpdatedAt := utc at\<rparr>))"

datatype product_sale_kind = ProductSaleCredit | ProductSaleReversal | ProductSaleOther string

definition ProductSaleEventKind_Valid :: "product_sale_kind \<Rightarrow> bool" where
  "ProductSaleEventKind_Valid k \<longleftrightarrow> k = ProductSaleCredit \<or> k = ProductSaleReversal"

record product_sale_event =
  pse_ID :: int
  pse_CampaignID :: int
  pse_OrderID :: int
  pse_OrderVersion :: int
  pse_ProductID :: int
  pse_ProductType :: string
  pse_ProductCode :: string
  pse_ProductName :: string
  pse_ProductVersion :: int
  pse_ParticipationID :: int
  pse_TeamID :: int
  pse_PromoterCustomerID :: int
  pse_PromotionCredentialRef :: string
  pse_PolicyVersion :: int
  pse_CommissionRateBasisPoints :: int
  pse_WaitDays :: int
  pse_BuyerCustomerID :: int
  pse_BeneficiaryCustomerID :: int
  pse_Kind :: product_sale_kind
  pse_AmountDeltaMinor :: int
  pse_OrderCountDelta :: int
  pse_SourcePaidEventID :: int
  pse_ReversesSaleEventID :: int
  pse_RefundReceiptKey :: string
  pse_Currency :: string
  pse_SourceDigest :: string
  pse_OccurredAt :: go_time

text \<open>A \<open>[32]byte\<close> is a string of 32 bytes; its zero value has 32 zero bytes.\<close>

definition zero_digest :: string where
  "zero_digest = replicate 32 CHR 0x00"

definition ProductSaleEvent_Valid :: "product_sale_event \<Rightarrow> bool" where
  "ProductSaleEvent_Valid e =
     (if pse_ID e < 1 \<or> pse_CampaignID e < 1 \<or> pse_OrderID e < 1 \<or> pse_OrderVersion e < 1 \<or>
         pse_ProductID e < 1 \<or> \<not> known_product_type (pse_ProductType e) \<or>
         pse_ProductCode e = [] \<or> length (pse_ProductCode e) > 200 \<or> pse_ProductName e = [] \<or>
         length (pse_ProductName e) > 500 \<or> pse_ProductVersion e < 1 \<or> pse_ParticipationID e < 0 \<or>
         pse_BuyerCustomerID e < 1 \<or> pse_BeneficiaryCustomerID e < 1 \<or>
         \<not> ProductSaleEventKind_Valid (pse_Kind e) \<or> pse_SourcePaidEventID e < 1 \<or>
         pse_Currency e \<noteq> ''CNY'' \<or> pse_SourceDigest e = zero_digest \<or> is_zero (pse_OccurredAt e)
      then False
      else if pse_Kind e = ProductSaleCredit
      then pse_AmountDeltaMinor e > 0 \<and> pse_OrderCountDelta e = 1 \<and> pse_ReversesSaleEventID e = 0 \<and>
           pse_RefundReceiptKey e = []
      else pse_AmountDeltaMinor e < 0 \<and> (pse_OrderCountDelta e = 0 \<or> pse_OrderCountDelta e = -1) \<and>
           pse_ReversesSaleEventID e > 0 \<and> pse_RefundReceiptKey e \<noteq> [])"

subsection \<open>Commands of a campaign and of a sales fact\<close>

datatype campaign_cmd =
    CampaignUpdate int campaign_text go_time go_time go_time
  | CampaignUpdateConfig int campaign_text go_time go_time campaign_config go_time
  | CampaignTransition int campaign_state go_time

fun apply_campaign :: "campaign \<Rightarrow> campaign_cmd \<Rightarrow> (referral_error, campaign) result" where
  "apply_campaign c (CampaignUpdate v t starts ends at) = Campaign_Update c v t starts ends at"
| "apply_campaign c (CampaignUpdateConfig v t starts ends config at) =
     UpdateWithConfig c v t starts ends config at"
| "apply_campaign c (CampaignTransition v target at) = Campaign_Transition c v target at"

fun campaign_expected :: "campaign_cmd \<Rightarrow> int" where
  "campaign_expected (CampaignUpdate v _ _ _ _) = v"
| "campaign_expected (CampaignUpdateConfig v _ _ _ _ _) = v"
| "campaign_expected (CampaignTransition v _ _) = v"

text \<open>Valid but for the version number, which may wrap.\<close>

definition campaign_inv :: "campaign \<Rightarrow> bool" where
  "campaign_inv c \<longleftrightarrow> Campaign_Valid (c\<lparr>cam_Version := 1\<rparr>)"

lemma Config_written:
  assumes "cam_TeamMode d = cfg_TeamMode k" "cam_QualificationMode d = cfg_QualificationMode k"
    "cam_ProductID d = cfg_ProductID k" "cam_ProductType d = cfg_ProductType k"
    "cam_LeaderboardMetric d = cfg_LeaderboardMetric k"
  shows "Campaign_Config d = normalized k"
  using assms by (cases k) (simp add: Campaign_Config_def)

lemma Config_normal [simp]: "normalized (Campaign_Config c) = Campaign_Config c"
  by (simp add: Campaign_Config_def)

lemma Update_post:
  "post (\<lambda>d. Campaign_Valid d \<and> v = cam_Version c \<and> cam_Version d = wrap64 (cam_Version c + 1) \<and>
      cam_UpdatedAt c \<le> cam_UpdatedAt d \<and> cam_State d = cam_State c \<and>
      cam_State c \<noteq> CampaignDisabled \<and> EffectiveState c (cam_UpdatedAt d) \<noteq> CampaignEnded \<and>
      (cam_StartsAt c \<le> cam_UpdatedAt d \<longrightarrow> Campaign_Config d = Campaign_Config c \<and>
         cam_StartsAt d = cam_StartsAt c \<and> cam_EndsAt d = cam_EndsAt c))
     (UpdateWithConfig c v t starts ends config at)"
  using Config_written [of _ "normalized config"]
  by (auto simp: UpdateWithConfig_def Let_def go_defs)

lemma Transition_post:
  "post (\<lambda>d. v = cam_Version c \<and> cam_Version d = wrap64 (cam_Version c + 1) \<and>
      cam_UpdatedAt c \<le> cam_UpdatedAt d \<and> campaign_allowed (cam_State c) (cam_State d) \<and>
      CampaignState_Valid (cam_State d) \<and> Campaign_Config d = Campaign_Config c \<and>
      cam_StartsAt d = cam_StartsAt c \<and> cam_EndsAt d = cam_EndsAt c \<and>
      d = c\<lparr>cam_State := cam_State d, cam_Version := cam_Version d, cam_UpdatedAt := cam_UpdatedAt d\<rparr>)
     (Campaign_Transition c v target at)"
  by (simp add: Campaign_Transition_def go_defs Campaign_Config_def)

lemma apply_campaign_cases:
  assumes "apply_campaign c cmd = Inr d"
  shows "(\<exists>t starts ends config at. UpdateWithConfig c (campaign_expected cmd) t starts ends config at = Inr d) \<or>
    (\<exists>target at. Campaign_Transition c (campaign_expected cmd) target at = Inr d)"
  using assms by (cases cmd) (auto simp: Campaign_Update_def)

lemma apply_campaign_cas:
  assumes "apply_campaign c cmd = Inr d"
  shows "campaign_expected cmd = cam_Version c \<and> cam_Version d = wrap64 (cam_Version c + 1) \<and>
    cam_UpdatedAt c \<le> cam_UpdatedAt d"
  using apply_campaign_cases [OF assms] postD [OF Update_post] postD [OF Transition_post] by blast

lemma Campaign_Valid_inv: "Campaign_Valid c \<Longrightarrow> campaign_inv c"
  by (simp add: campaign_inv_def Campaign_Valid_def Campaign_Config_def)

lemma campaign_inv_step:
  assumes i: "campaign_inv c" and a: "apply_campaign c cmd = Inr d"
  shows "campaign_inv d"
  using apply_campaign_cases [OF a]
proof
  assume "\<exists>t starts ends config at. UpdateWithConfig c (campaign_expected cmd) t starts ends config at = Inr d"
  then show ?thesis using postD [OF Update_post] Campaign_Valid_inv by blast
next
  assume "\<exists>target at. Campaign_Transition c (campaign_expected cmd) target at = Inr d"
  then obtain target at where t: "Campaign_Transition c (campaign_expected cmd) target at = Inr d" by blast
  then have "d = c\<lparr>cam_State := target, cam_Version := wrap64 (cam_Version c + 1), cam_UpdatedAt := at\<rparr>"
    "CampaignState_Valid target" "cam_UpdatedAt c \<le> at"
    by (auto simp: Campaign_Transition_def go_defs split: if_splits)
  with i show ?thesis by (simp add: campaign_inv_def Campaign_Valid_def go_defs Campaign_Config_def)
qed

interpretation campaign: cas_aggregate apply_campaign campaign_expected cam_Version cam_UpdatedAt campaign_inv
  by unfold_locales (auto dest: apply_campaign_cas intro: campaign_inv_step)

text \<open>A closed campaign accepts no command.\<close>

lemma campaign_closed:
  assumes "cam_State c \<in> {CampaignEnded, CampaignDisabled}"
  shows "\<exists>e. apply_campaign c cmd = Inl e"
proof (rule ccontr)
  assume "\<not> ?thesis"
  then obtain d where a: "apply_campaign c cmd = Inr d" by (cases "apply_campaign c cmd") auto
  have "EffectiveState c at = cam_State c" for at using assms by (auto simp: EffectiveState_def)
  with apply_campaign_cases [OF a] assms postD [OF Update_post] postD [OF Transition_post] show False
    by (metis campaign_allowed.simps(4,5) insertE singletonD)
qed

lemma run_campaign_closed:
  "cam_State c \<in> {CampaignEnded, CampaignDisabled} \<Longrightarrow> run apply_campaign c cmds = c"
proof (induction cmds)
  case (Cons cmd cmds)
  with campaign_closed [of c cmd] obtain e where "apply_campaign c cmd = Inl e" by blast
  with Cons show ?case by simp
qed simp

text \<open>Once written at or after its start, schedule and rules are frozen.\<close>

definition rules_of :: "campaign \<Rightarrow> campaign_config \<times> go_time \<times> go_time" where
  "rules_of c = (Campaign_Config c, cam_StartsAt c, cam_EndsAt c)"

lemma apply_campaign_rules:
  assumes s: "cam_StartsAt c \<le> cam_UpdatedAt c" and a: "apply_campaign c cmd = Inr d"
  shows "rules_of d = rules_of c"
  using apply_campaign_cases [OF a]
proof
  assume "\<exists>t starts ends config at. UpdateWithConfig c (campaign_expected cmd) t starts ends config at = Inr d"
  then obtain t starts ends config at where
    u: "UpdateWithConfig c (campaign_expected cmd) t starts ends config at = Inr d" by blast
  from postD [OF Update_post u] s show ?thesis by (auto simp: rules_of_def)
next
  assume "\<exists>target at. Campaign_Transition c (campaign_expected cmd) target at = Inr d"
  then show ?thesis using postD [OF Transition_post] by (fastforce simp: rules_of_def)
qed

lemma run_campaign_rules:
  assumes "cam_StartsAt c \<le> cam_UpdatedAt c"
  shows "rules_of (run apply_campaign c cmds) = rules_of c"
proof -
  have "cam_StartsAt (run apply_campaign c cmds) \<le> cam_UpdatedAt (run apply_campaign c cmds) \<and>
      rules_of (run apply_campaign c cmds) = rules_of c"
  proof (rule run_invariant)
    fix x cmd y assume i: "cam_StartsAt x \<le> cam_UpdatedAt x \<and> rules_of x = rules_of c"
      and a: "apply_campaign x cmd = Inr y"
    have "rules_of y = rules_of x" using i a by (blast intro: apply_campaign_rules)
    with i apply_campaign_cas [OF a] show "cam_StartsAt y \<le> cam_UpdatedAt y \<and> rules_of y = rules_of c"
      by (simp add: rules_of_def)
  qed (use assms in simp)
  then show ?thesis ..
qed

fun campaign_rank :: "campaign_state \<Rightarrow> nat" where
  "campaign_rank CampaignDraft = 0"
| "campaign_rank CampaignScheduled = 1"
| "campaign_rank CampaignActive = 2"
| "campaign_rank _ = 3"

lemma effective_state_mono:
  assumes "Campaign_Valid c" "s \<le> t" "0 < s"
  shows "campaign_rank (EffectiveState c s) \<le> campaign_rank (EffectiveState c t)"
  using assms by (auto simp: EffectiveState_def go_defs)

subsection \<open>Refunds of a sale\<close>

lemma Refund_post:
  "post (\<lambda>d. sal_Version s = v \<and> SalesFact_Valid s \<and> 0 < delta \<and>
      sal_SuccessfulRefundMinor d = wrap64 (sal_SuccessfulRefundMinor s + delta) \<and>
      sal_SuccessfulRefundMinor d \<le> sal_OriginalPaidMinor s \<and>
      sal_Version d = wrap64 (sal_Version s + 1) \<and> sal_UpdatedAt s \<le> sal_UpdatedAt d \<and>
      d = s\<lparr>sal_SuccessfulRefundMinor := sal_SuccessfulRefundMinor d, sal_Version := sal_Version d,
           sal_UpdatedAt := sal_UpdatedAt d\<rparr>) (ApplySuccessfulRefund s v delta at)"
  by (simp add: ApplySuccessfulRefund_def go_defs)

subsection \<open>Properties\<close>

definition sample_campaign :: campaign where
  "sample_campaign = \<lparr>cam_ID = 1, cam_Name = ''A'', cam_CoverURL = [], cam_Description = [],
     cam_RewardRules = [], cam_State = CampaignActive, cam_StartsAt = 10, cam_EndsAt = 20,
     cam_Version = 1, cam_CreatedBy = 0, cam_CreatedAt = 5, cam_UpdatedAt = 12,
     cam_TeamMode = TeamModeTeam, cam_QualificationMode = QualificationFreeSignup,
     cam_ProductID = 0, cam_ProductType = [], cam_LeaderboardMetric = LeaderboardInvites\<rparr>"

definition sample_sale :: sales_fact where
  "sample_sale = \<lparr>sal_ID = 1, sal_CampaignID = 1, sal_OrderID = 1, sal_ProductID = 1,
     sal_PromoterCustomerID = 1, sal_TeamID = 0, sal_OrderItemLine = 1,
     sal_ProductType = ''service_period'', sal_SourceReference = ''x'', sal_OriginalPaidMinor = 100,
     sal_SuccessfulRefundMinor = 1, sal_PaidAt = 5, sal_CreatedAt = 5, sal_UpdatedAt = 5,
     sal_Version = 1\<rparr>"

text \<open>C15. The configuration of a campaign is frozen once it runs.  After it has been written at or after its
  start, no sequence of updates and transitions changes its configuration, its start or its end; the
  descriptive texts are not part of it and may still be edited.  An ended or disabled campaign
  accepts nothing at all; and the state of a valid campaign that the public sees only moves
  forward with time.\<close>

theorem campaign_rules_frozen:
  assumes "cam_StartsAt c \<le> cam_UpdatedAt c"
  shows "Campaign_Config (run apply_campaign c cmds) = Campaign_Config c \<and>
    cam_StartsAt (run apply_campaign c cmds) = cam_StartsAt c \<and>
    cam_EndsAt (run apply_campaign c cmds) = cam_EndsAt c \<and>
    cam_UpdatedAt c \<le> cam_UpdatedAt (run apply_campaign c cmds) \<and>
    (cam_State c \<in> {CampaignEnded, CampaignDisabled} \<longrightarrow> run apply_campaign c cmds = c) \<and>
    (Campaign_Valid c \<and> 0 < s \<and> s \<le> t \<longrightarrow>
       campaign_rank (EffectiveState c s) \<le> campaign_rank (EffectiveState c t))"
  using run_campaign_rules [OF assms, of cmds] campaign.run_updated [of c cmds] run_campaign_closed
    effective_state_mono
  by (simp add: rules_of_def)

theorem campaign_rules_frozen_witness:
  "cam_EndsAt (run apply_campaign sample_campaign
     [CampaignUpdate 1 \<lparr>txt_Name = ''B'', txt_CoverURL = [], txt_Description = [], txt_RewardRules = []\<rparr> 10 30 15,
      CampaignTransition 1 CampaignEnded 16]) = 20 \<and>
   cam_State (run apply_campaign sample_campaign [CampaignTransition 1 CampaignEnded 16]) = CampaignEnded"
  using campaign_rules_frozen [of sample_campaign "[CampaignUpdate 1 \<lparr>txt_Name = ''B'', txt_CoverURL = [],
      txt_Description = [], txt_RewardRules = []\<rparr> 10 30 15, CampaignTransition 1 CampaignEnded 16]"]
  by (simp add: sample_campaign_def commit_def Campaign_Transition_def go_defs)

text \<open>What a successful refund does to a sale, at the width of the code: as long as the sum of
  the refunds fits in 64 bits the fact stays valid and its net amount falls by exactly the
  refund; beyond that the guard of the code is passed by the wrapped sum, and the fact that is
  stored is not valid.\<close>

lemma sales_refund_bounds:
  assumes "in64 (sal_OriginalPaidMinor s)" and "in64 delta" and "sal_Version s < max_int64"
    and "ApplySuccessfulRefund s v delta at = Inr d"
  shows "(SalesFact_Valid d \<longleftrightarrow> sal_SuccessfulRefundMinor s + delta \<le> max_int64) \<and>
    (sal_SuccessfulRefundMinor s + delta \<le> max_int64 \<longrightarrow>
       0 \<le> NetPaidMinor d \<and> NetPaidMinor d = NetPaidMinor s - delta) \<and>
    sal_OriginalPaidMinor d = sal_OriginalPaidMinor s \<and> sal_OrderID d = sal_OrderID s"
proof -
  note p = postD [OF Refund_post assms(4)]
  have v: "SalesFact_Valid s" and pos: "0 < delta" using p by simp_all
  have b: "0 \<le> sal_SuccessfulRefundMinor s" "sal_SuccessfulRefundMinor s \<le> sal_OriginalPaidMinor s"
    "0 < sal_Version s" using v by (simp_all add: SalesFact_Valid_def)
  obtain r w a where d: "d = s\<lparr>sal_SuccessfulRefundMinor := r, sal_Version := w, sal_UpdatedAt := a\<rparr>"
    and r: "r = wrap64 (sal_SuccessfulRefundMinor s + delta)" "r \<le> sal_OriginalPaidMinor s"
    and w: "w = wrap64 (sal_Version s + 1)" and a: "sal_UpdatedAt s \<le> a" using p by metis
  have w1: "0 < w" using w b(3) assms(3) by (simp add: wrap64_Suc_bounded)
  have valid: "SalesFact_Valid d \<longleftrightarrow> 0 \<le> r"
    using v w1 a r(2) by (auto simp: d SalesFact_Valid_def go_defs)
  show ?thesis
  proof (cases "sal_SuccessfulRefundMinor s + delta \<le> max_int64")
    case True
    then have "r = sal_SuccessfulRefundMinor s + delta"
      using r(1) b(1) pos by (simp add: in64_def max_int64_def)
    with True valid pos b r(2) assms(1) show ?thesis
      by (simp add: d NetPaidMinor_def in64_def)
  next
    case False
    have "r = sal_SuccessfulRefundMinor s + delta - 2 ^ 64"
      unfolding r(1) using False b assms(1,2) pos
      by (intro wrap64_over) (simp_all add: max_int64_def in64_def)
    then have "r < 0" using b assms(1,2) by (simp add: in64_def)
    with False valid show ?thesis by (simp add: d)
  qed
qed

lemma sales_refund_bounds_witness:
  "\<exists>d. ApplySuccessfulRefund sample_sale 1 (2 ^ 63 - 1) 6 = Inr d \<and> \<not> SalesFact_Valid d \<and>
     sal_SuccessfulRefundMinor d < 0"
proof -
  let ?d = "sample_sale\<lparr>sal_SuccessfulRefundMinor := - (2 ^ 63), sal_Version := 2, sal_UpdatedAt := 6\<rparr>"
  have "ApplySuccessfulRefund sample_sale 1 (2 ^ 63 - 1) 6 = Inr ?d"
    by (simp add: ApplySuccessfulRefund_def sample_sale_def SalesFact_Valid_def known_product_type_def
        go_defs wrap64_def trim_space_printable printable_def)
  with sales_refund_bounds [OF _ _ _ this] show ?thesis
    by (simp add: sample_sale_def in64_def max_int64_def)
qed

end
