(* ===== verification/GoJson.thy ===== *)
theory GoJson
  imports GoStrings
begin

text \<open>
  \<open>encoding/json\<close> as the code uses it: \<open>json.Valid\<close>, and \<open>json.Unmarshal\<close> into \<open>any\<close> and
  into \<open>map[string]json.RawMessage\<close>.  A lexer cuts the text into tokens; a stack machine
  over the tokens, in the manner of the scanner of the package (with its limit of 10000
  nested containers), builds the tree.  Both are total functions.  Numbers keep their
  text.  \<open>ToLower\<close> of \<open>strings\<close> is here too, since object keys are compared with it.
\<close>

subsection \<open>strings.ToLower\<close>

text \<open>
  Upper-case ASCII letters, and the two runes outside ASCII whose lower case is an ASCII
  letter: U+0130 (bytes C4 B0) gives i and U+212A (bytes E2 84 AA) gives k.  Other runes
  outside ASCII are left alone: the callers compare the result with ASCII text only, and
  no other rune is mapped into or out of ASCII.
\<close>

definition lower_char :: "char \<Rightarrow> char" where
  "lower_char c = (if 65 \<le> (of_char c :: nat) \<and> (of_char c :: nat) \<le> 90
     then char_of ((of_char c :: nat) + 32) else c)"

fun to_lower :: "string \<Rightarrow> string" where
  "to_lower [] = []"
| "to_lower (c # s) =
     (if c = CHR 0xC4 \<and> take 1 s = [CHR 0xB0] then CHR ''i'' # to_lower (drop 1 s)
      else if c = CHR 0xE2 \<and> take 2 s = [CHR 0x84, CHR 0xAA] then CHR ''k'' # to_lower (drop 2 s)
      else lower_char c # to_lower s)"

text \<open>\<open>strings.NewReplacer\<close> with single bytes replaced by nothing.\<close>

definition remove_chars :: "string \<Rightarrow> string \<Rightarrow> string" where
  "remove_chars cs s = filter (\<lambda>c. c \<notin> set cs) s"

subsection \<open>Tokens\<close>

definition encode_rune :: "nat \<Rightarrow> string" where
  "encode_rune r0 =
     (let r = (if r0 > 1114111 \<or> (55296 \<le> r0 \<and> r0 \<le> 57343) then rune_error else r0) in
      if r < 128 then [char_of r]
      else if r < 2048 then [char_of (192 + r div 64), char_of (128 + r mod 64)]
      else if r < 65536
      then [char_of (224 + r div 4096), char_of (128 + r div 64 mod 64), char_of (128 + r mod 64)]
      else [char_of (240 + r div 262144), char_of (128 + r div 4096 mod 64),
            char_of (128 + r div 64 mod 64), char_of (128 + r mod 64)])"

definition hex_value :: "char \<Rightarrow> nat option" where
  "hex_value c = (let b = (of_char c :: nat) in
     if 48 \<le> b \<and> b \<le> 57 then Some (b - 48)
     else if 97 \<le> b \<and> b \<le> 102 then Some (b - 87)
     else if 65 \<le> b \<and> b \<le> 70 then Some (b - 55)
     else None)"

fun hex4 :: "string \<Rightarrow> nat option" where
  "hex4 [a, b, c, d] = (case (hex_value a, hex_value b, hex_value c, hex_value d) of
       (Some w, Some x, Some y, Some z) \<Rightarrow> Some (((w * 16 + x) * 16 + y) * 16 + z)
     | _ \<Rightarrow> None)"
| "hex4 _ = None"

definition simple_escape :: "char \<Rightarrow> char option" where
  "simple_escape c = map_of [(CHR 0x22, CHR 0x22), (CHR 0x5C, CHR 0x5C), (CHR ''/'', CHR ''/''),
     (CHR ''b'', CHR 0x08), (CHR ''f'', CHR 0x0C), (CHR ''n'', CHR 0x0A), (CHR ''r'', CHR 0x0D),
     (CHR ''t'', CHR 0x09)] c"

text \<open>The inside of a string literal: bytes and the code units of the \<open>u\<close> escapes, up to the
  closing quote, and what follows it.\<close>

datatype text_unit = Byte char | Unit nat

function scan_string :: "string \<Rightarrow> (text_unit list \<times> string) option" where
  "scan_string s = (case s of
       [] \<Rightarrow> None
     | c # t \<Rightarrow>
         if c = CHR 0x22 then Some ([], t)
         else if c = CHR 0x5C then
           (case t of
              [] \<Rightarrow> None
            | e # u \<Rightarrow>
                (case simple_escape e of
                   Some b \<Rightarrow> map_option (\<lambda>(us, r). (Byte b # us, r)) (scan_string u)
                 | None \<Rightarrow>
                     if e \<noteq> CHR ''u'' then None
                     else (case hex4 (take 4 u) of
                         None \<Rightarrow> None
                       | Some n \<Rightarrow> map_option (\<lambda>(us, r). (Unit n # us, r)) (scan_string (drop 4 u)))))
         else if (of_char c :: nat) < 32 then None
         else map_option (\<lambda>(us, r). (Byte c # us, r)) (scan_string t))"
  by pat_completeness auto
termination
  by (relation "measure length") auto

declare scan_string.simps [simp del]

lemma scan_string_shorter: "scan_string s = Some (us, r) \<Longrightarrow> length r < length s"
proof (induction s arbitrary: us r rule: measure_induct_rule [of length])
  case (less s)
  show ?case
  proof (cases s)
    case Nil
    with less.prems show ?thesis by (simp add: scan_string.simps [of "[]"])
  next
    case (Cons c t)
    have IH: "length r' < length x" if "length x < length s" "scan_string x = Some (us', r')"
      for x us' r' using less.IH that by blast
    show ?thesis
      using less.prems unfolding Cons scan_string.simps [of "c # t"] list.case
      by (auto split: if_splits list.splits option.splits dest!: IH [unfolded Cons, rotated])
  qed
qed

text \<open>The bytes of the literal: code units are joined into runes and ill-formed UTF-8 is replaced.\<close>

fun leading_bytes :: "text_unit list \<Rightarrow> string" where
  "leading_bytes (Byte c # us) = c # leading_bytes us"
| "leading_bytes _ = []"

definition high_surrogate :: "nat \<Rightarrow> bool" where
  "high_surrogate u \<longleftrightarrow> 55296 \<le> u \<and> u < 56320"

definition low_surrogate :: "nat \<Rightarrow> bool" where
  "low_surrogate u \<longleftrightarrow> 56320 \<le> u \<and> u < 57344"

function unquote :: "text_unit list \<Rightarrow> string" where
  "unquote [] = []"
| "unquote (Byte c # us) =
     (if (of_char c :: nat) < 128 then c # unquote us
      else encode_rune (fst (decode_rune (c # leading_bytes us))) @
           unquote (drop (fst (snd (decode_rune (c # leading_bytes us))) - 1) us))"
| "unquote [Unit u] = encode_rune u"
| "unquote (Unit u # Byte c # us) = encode_rune u @ unquote (Byte c # us)"
| "unquote (Unit u # Unit v # us) =
     (if high_surrogate u \<and> low_surrogate v
      then encode_rune (65536 + (u - 55296) * 1024 + (v - 56320)) @ unquote us
      else encode_rune u @ unquote (Unit v # us))"
  by pat_completeness auto
termination
  by (relation "measure length") auto

text \<open>A number literal: an optional minus, an integer part without a leading zero, an optional
  fraction and an optional exponent.\<close>

definition digits :: "string \<Rightarrow> string \<times> string" where
  "digits s = (takeWhile is_digit s, dropWhile is_digit s)"

definition number_parts :: "string \<Rightarrow> (string \<times> string \<times> int) option" where
  "number_parts s =
     (let s1 = (case s of c # t \<Rightarrow> if c = CHR ''-'' then t else s | [] \<Rightarrow> s);
          (whole, s2) = digits s1 in
      if whole = [] \<or> (hd whole = CHR ''0'' \<and> length whole > 1) then None else
      (let (fraction, s3, ok1) = (case s2 of
             c # t \<Rightarrow> if c = CHR ''.'' then (let (f, r) = digits t in (f, r, f \<noteq> [])) else ([], s2, True)
           | [] \<Rightarrow> ([], [], True)) in
       if \<not> ok1 then None else
       (case s3 of
          [] \<Rightarrow> Some (whole, fraction, 0)
        | c # t \<Rightarrow>
            if c \<noteq> CHR ''e'' \<and> c \<noteq> CHR ''E'' then None
            else (let negative = (case t of d # _ \<Rightarrow> d = CHR ''-'' | [] \<Rightarrow> False);
                      u = (case t of d # r \<Rightarrow> if d = CHR ''-'' \<or> d = CHR ''+'' then r else t | [] \<Rightarrow> t);
                      (e, rest) = digits u in
                  if e = [] \<or> rest \<noteq> [] then None
                  else Some (whole, fraction,
                    if negative then - int (digits_value e) else int (digits_value e))))))"

text \<open>\<open>strconv.ParseFloat\<close> reports a range error when the nearest \<open>float64\<close> is infinite: from
  halfway between the largest finite number and \<open>2 ^ 1024\<close> upwards.\<close>

definition float_overflows :: "string \<Rightarrow> bool" where
  "float_overflows s = (case number_parts s of
       None \<Rightarrow> False
     | Some (whole, fraction, e) \<Rightarrow>
         (let m = int (digits_value (whole @ fraction)); k = e - int (length fraction);
              bound = 2 ^ 1024 - 2 ^ 970 in
          if k \<ge> 0 then m \<noteq> 0 \<and> (k > 400 \<or> m * 10 ^ nat k \<ge> bound)
          else m \<ge> bound * 10 ^ nat (- k)))"

datatype token =
    TLBrace | TRBrace | TLBracket | TRBracket | TColon | TComma
  | TNull | TBool bool | TNumber string | TString string

definition json_space :: "char \<Rightarrow> bool" where
  "json_space c \<longleftrightarrow> c \<in> {CHR 0x20, CHR 0x09, CHR 0x0A, CHR 0x0D}"

definition punctuation :: "char \<Rightarrow> token option" where
  "punctuation c = map_of [(CHR 0x7B, TLBrace), (CHR 0x7D, TRBrace), (CHR 0x5B, TLBracket),
     (CHR 0x5D, TRBracket), (CHR 0x3A, TColon), (CHR 0x2C, TComma)] c"

definition number_char :: "char \<Rightarrow> bool" where
  "number_char c \<longleftrightarrow> is_digit c \<or> c \<in> {CHR ''-'', CHR ''+'', CHR ''.'', CHR ''e'', CHR ''E''}"

definition lower_letter :: "char \<Rightarrow> bool" where
  "lower_letter c \<longleftrightarrow> 97 \<le> (of_char c :: nat) \<and> (of_char c :: nat) \<le> 122"

definition literal :: "string \<Rightarrow> token option" where
  "literal s = map_of [(''null'', TNull), (''true'', TBool True), (''false'', TBool False)] s"

function lex :: "string \<Rightarrow> token list option" where
  "lex s = (case s of
       [] \<Rightarrow> Some []
     | c # t \<Rightarrow>
         if json_space c then lex t
         else (case punctuation c of
             Some k \<Rightarrow> map_option (Cons k) (lex t)
           | None \<Rightarrow>
               if c = CHR 0x22 then
                 (case scan_string t of
                    None \<Rightarrow> None
                  | Some (us, r) \<Rightarrow> map_option (Cons (TString (unquote us))) (lex r))
               else if is_digit c \<or> c = CHR ''-'' then
                 (if number_parts (c # takeWhile number_char t) = None then None
                  else map_option (Cons (TNumber (c # takeWhile number_char t)))
                         (lex (dropWhile number_char t)))
               else if lower_letter c then
                 (case literal (c # takeWhile lower_letter t) of
                    None \<Rightarrow> None
                  | Some k \<Rightarrow> map_option (Cons k) (lex (dropWhile lower_letter t)))
               else None))"
  by pat_completeness auto
termination
  by (relation "measure length")
     (auto dest: scan_string_shorter intro: le_imp_less_Suc length_dropWhile_le)

declare lex.simps [simp del]

subsection \<open>The tree\<close>

datatype json =
    JNull | JBool bool | JNumber string | JString string
  | JArray "json list" | JObject "(string \<times> json) list"

text \<open>An unfinished container: the values read so far, latest first, and in an object the key
  whose value is being read.\<close>

datatype frame = ArrayFrame "json list" | ObjectFrame "(string \<times> json) list" "string option"

datatype expecting = Value | ValueOrClose | Key | KeyOrClose | Colon | CommaOrClose | Finished json

definition max_nesting :: nat where
  "max_nesting = 10000"

fun finish_value :: "json \<Rightarrow> frame list \<Rightarrow> (expecting \<times> frame list) option" where
  "finish_value v [] = Some (Finished v, [])"
| "finish_value v (ArrayFrame vs # fs) = Some (CommaOrClose, ArrayFrame (v # vs) # fs)"
| "finish_value v (ObjectFrame ps (Some k) # fs) =
     Some (CommaOrClose, ObjectFrame ((k, v) # ps) None # fs)"
| "finish_value v (ObjectFrame ps None # fs) = None"

fun begin_value :: "token \<Rightarrow> frame list \<Rightarrow> (expecting \<times> frame list) option" where
  "begin_value TNull fs = finish_value JNull fs"
| "begin_value (TBool b) fs = finish_value (JBool b) fs"
| "begin_value (TNumber s) fs = finish_value (JNumber s) fs"
| "begin_value (TString s) fs = finish_value (JString s) fs"
| "begin_value TLBracket fs =
     (if length fs < max_nesting then Some (ValueOrClose, ArrayFrame [] # fs) else None)"
| "begin_value TLBrace fs =
     (if length fs < max_nesting then Some (KeyOrClose, ObjectFrame [] None # fs) else None)"
| "begin_value _ fs = None"

fun close_container :: "token \<Rightarrow> frame list \<Rightarrow> (expecting \<times> frame list) option" where
  "close_container TRBracket (ArrayFrame vs # fs) = finish_value (JArray (rev vs)) fs"
| "close_container TRBrace (ObjectFrame ps None # fs) = finish_value (JObject (rev ps)) fs"
| "close_container _ _ = None"

fun json_step :: "expecting \<times> frame list \<Rightarrow> token \<Rightarrow> (expecting \<times> frame list) option" where
  "json_step (Value, fs) t = begin_value t fs"
| "json_step (ValueOrClose, fs) t = (if t = TRBracket then close_container t fs else begin_value t fs)"
| "json_step (KeyOrClose, ObjectFrame ps None # fs) (TString k) = Some (Colon, ObjectFrame ps (Some k) # fs)"
| "json_step (KeyOrClose, fs) TRBrace = close_container TRBrace fs"
| "json_step (Key, ObjectFrame ps None # fs) (TString k) = Some (Colon, ObjectFrame ps (Some k) # fs)"
| "json_step (Colon, fs) TColon = Some (Value, fs)"
| "json_step (CommaOrClose, ArrayFrame vs # fs) TComma = Some (Value, ArrayFrame vs # fs)"
| "json_step (CommaOrClose, ObjectFrame ps None # fs) TComma = Some (Key, ObjectFrame ps None # fs)"
| "json_step (CommaOrClose, fs) t = close_container t fs"
| "json_step _ _ = None"

fun json_steps :: "expecting \<times> frame list \<Rightarrow> token list \<Rightarrow> (expecting \<times> frame list) option" where
  "json_steps s [] = Some s"
| "json_steps s (t # ts) = (case json_step s t of None \<Rightarrow> None | Some s' \<Rightarrow> json_steps s' ts)"

definition parse_json :: "string \<Rightarrow> json option" where
  "parse_json s = (case lex s of
       None \<Rightarrow> None
     | Some ts \<Rightarrow> (case json_steps (Value, []) ts of Some (Finished v, _) \<Rightarrow> Some v | _ \<Rightarrow> None))"

definition json_valid :: "string \<Rightarrow> bool" where
  "json_valid s = (parse_json s \<noteq> None)"

text \<open>
  \<open>json.Unmarshal\<close> into \<open>any\<close>: an object becomes a map, so of equal keys the last value
  stays, and a number that does not fit a \<open>float64\<close> is an error wherever it stands.
\<close>

definition last_entries :: "(string \<times> 'a) list \<Rightarrow> (string \<times> 'a) list" where
  "last_entries ps = foldr (\<lambda>p acc. if list_ex (\<lambda>q. fst q = fst p) acc then acc else p # acc) ps []"

fun numbers_fit :: "json \<Rightarrow> bool" where
  "numbers_fit (JNumber s) = (\<not> float_overflows s)"
| "numbers_fit (JArray vs) = list_all numbers_fit vs"
| "numbers_fit (JObject ps) = list_all (\<lambda>(k, v). numbers_fit v) ps"
| "numbers_fit _ = True"

fun as_map :: "json \<Rightarrow> json" where
  "as_map (JArray vs) = JArray (map as_map vs)"
| "as_map (JObject ps) = JObject (last_entries (map (\<lambda>(k, v). (k, as_map v)) ps))"
| "as_map v = v"

definition unmarshal_any :: "string \<Rightarrow> json option" where
  "unmarshal_any s = (case parse_json s of
       None \<Rightarrow> None
     | Some v \<Rightarrow> if numbers_fit v then Some (as_map v) else None)"

text \<open>\<open>json.Unmarshal\<close> into \<open>map[string]json.RawMessage\<close> succeeds with a non-nil map exactly
  on an object.\<close>

definition is_json_object :: "string \<Rightarrow> bool" where
  "is_json_object s = (case parse_json s of Some (JObject _) \<Rightarrow> True | _ \<Rightarrow> False)"

lemma is_json_object_valid: "is_json_object s \<Longrightarrow> json_valid s"
  by (auto simp: is_json_object_def json_valid_def split: option.splits)

text \<open>What the readers of a decoded value look at: the keys and strings at any depth.\<close>

inductive inside :: "json \<Rightarrow> json \<Rightarrow> bool" where
  here: "inside v v"
| element: "w \<in> set vs \<Longrightarrow> inside v w \<Longrightarrow> inside v (JArray vs)"
| member: "(k, w) \<in> set ps \<Longrightarrow> inside v w \<Longrightarrow> inside v (JObject ps)"

inductive_simps inside_simps:
  "inside v JNull" "inside v (JBool b)" "inside v (JNumber s)" "inside v (JString s)"
  "inside v (JArray vs)" "inside v (JObject ps)"

lemma inside_trans: "inside v w \<Longrightarrow> inside u v \<Longrightarrow> inside u w"
  by (induction rule: inside.induct) (auto intro: inside.intros)

end
