(* ===== verification/Segment.thy ===== *)
theory Segment
  imports GoJson GoHash GoTime
begin

text \<open>
  \<open>internal/segment/domain\<close>: audience groups and packages with their life cycle, the
  versions of a package's configuration, the actors that may change them and the digests
  of a published snapshot.  A command that fails leaves the aggregate as it was; the
  methods of the code that assign several fields at once are record updates.
\<close>

datatype segment_error = SegInvalid | SegConflict | SegActiveEdit | SegArchived

datatype lifecycle = Paused | Active | Archived | LifecycleOther string

record audience_group =
  grp_ID :: int
  grp_Name :: string
  grp_SortOrder :: int
  grp_Version :: int
  grp_CreatedBy :: int
  grp_CreatedActorKind :: string
  grp_CreatedActorRef :: string
  grp_UpdatedBy :: int
  grp_UpdatedActorKind :: string
  grp_UpdatedActorRef :: string
  grp_CreatedAt :: go_time
  grp_UpdatedAt :: go_time

record audience_package =
  pkg_ID :: int
  pkg_GroupID :: "int option"
  pkg_Code :: string
  pkg_Name :: string
  pkg_Lifecycle :: lifecycle
  pkg_Version :: int
  pkg_CurrentConfigurationVersionID :: "int option"
  pkg_PublishedSnapshotID :: "int option"
  pkg_CurrentAutomationBindingID :: "int option"
  pkg_CurrentSenderSetID :: "int option"
  pkg_CreatedBy :: int
  pkg_CreatedActorKind :: string
  pkg_CreatedActorRef :: string
  pkg_UpdatedBy :: int
  pkg_UpdatedActorKind :: string
  pkg_UpdatedActorRef :: string
  pkg_CreatedAt :: go_time
  pkg_UpdatedAt :: go_time
  pkg_ArchivedAt :: "go_time option"

text \<open>The digest is the 256 bits of SHA-256 as eight words.\<close>

record configuration_version =
  cfv_ID :: int
  cfv_PackageID :: int
  cfv_Version :: int
  cfv_SchemaVersion :: int
  cfv_Definition :: string
  cfv_RefreshCronUTC :: string
  cfv_RefreshMode :: string
  cfv_Digest :: "w32 list"
  cfv_CreatedBy :: int
  cfv_CreatedActorKind :: string
  cfv_CreatedActorRef :: string
  cfv_CreatedAt :: go_time

subsection \<open>Actors\<close>

definition adminActor :: "int \<Rightarrow> string \<times> string" where
  "adminActor actorID = (if actorID < 1 then ([], []) else (''admin'', ''admin:'' @ format_int actorID))"

definition machine_rune :: "rune \<Rightarrow> bool" where
  "machine_rune r \<longleftrightarrow> (97 \<le> r \<and> r \<le> 122) \<or> (65 \<le> r \<and> r \<le> 90) \<or> (48 \<le> r \<and> r \<le> 57) \<or>
     r = 45 \<or> r = 95 \<or> r = 46"

definition validActor :: "int \<Rightarrow> string \<Rightarrow> string \<Rightarrow> bool" where
  "validActor actorID kind reference =
     (if kind = ''admin'' then actorID > 0 \<and> reference = ''admin:'' @ format_int actorID
      else if kind = ''machine'' then
        (if actorID \<noteq> 0 \<or> \<not> has_prefix reference ''machine:'' then False
         else let client = drop 8 reference in
           if client = [] \<or> length client > 160 \<or> trim_space client \<noteq> client then False
           else list_all machine_rune (runes client))
      else False)"

definition validRefreshMode :: "string \<Rightarrow> bool" where
  "validRefreshMode mode \<longleftrightarrow> mode = ''manual'' \<or> mode = ''every_1h'' \<or> mode = ''every_3m'' \<or>
     mode = ''daily_0200'' \<or> mode = ''every_3m_plus_daily_0200'' \<or> mode = ''legacy_custom''"

definition invalidOptionalID :: "int option \<Rightarrow> bool" where
  "invalidOptionalID i \<longleftrightarrow> (case i of None \<Rightarrow> False | Some n \<Rightarrow> n < 1)"

text \<open>Two pointers to equal values are equal values here.\<close>

definition cloneID :: "int option \<Rightarrow> int option" where
  "cloneID i = (case i of None \<Rightarrow> None | Some n \<Rightarrow> Some n)"

lemma cloneID_id [simp]: "cloneID i = i"
  by (simp add: cloneID_def split: option.split)

text \<open>The pattern for codes: a lower-case letter or digit, then at most 119 more of these,
  underscores or hyphens.\<close>

definition code_head :: "char \<Rightarrow> bool" where
  "code_head c \<longleftrightarrow> (let b = (of_char c :: nat) in (97 \<le> b \<and> b \<le> 122) \<or> (48 \<le> b \<and> b \<le> 57))"

definition code_pattern :: "string \<Rightarrow> bool" where
  "code_pattern s = (case s of
       [] \<Rightarrow> False
     | c # t \<Rightarrow> code_head c \<and> length t \<le> 119 \<and>
         list_all (\<lambda>d. code_head d \<or> d = CHR ''_'' \<or> d = CHR ''-'') t)"

subsection \<open>Groups\<close>

definition NewGroupWithActor ::
  "string \<Rightarrow> int \<Rightarrow> int \<Rightarrow> string \<Rightarrow> string \<Rightarrow> go_time \<Rightarrow> (segment_error, audience_group) result" where
  "NewGroupWithActor name0 sortOrder actorID actorKind actorReference now =
     (let name = trim_space name0 in
      if name = [] \<or> rune_count name > 100 \<or> sortOrder < 0 \<or>
         \<not> validActor actorID actorKind actorReference \<or> is_zero now
      then Inl SegInvalid
      else Inr \<lparr>grp_ID = 0, grp_Name = name, grp_SortOrder = sortOrder, grp_Version = 1,
        grp_CreatedBy = actorID, grp_CreatedActorKind = actorKind, grp_CreatedActorRef = actorReference,
        grp_UpdatedBy = actorID, grp_UpdatedActorKind = actorKind, grp_UpdatedActorRef = actorReference,
        grp_CreatedAt = now, grp_UpdatedAt = now\<rparr>)"

definition NewGroup :: "string \<Rightarrow> int \<Rightarrow> int \<Rightarrow> go_time \<Rightarrow> (segment_error, audience_group) result" where
  "NewGroup name sortOrder actor now =
     (let (kind, reference) = adminActor actor in
      NewGroupWithActor name sortOrder actor kind reference now)"

definition Group_UpdateWithActor ::
  "audience_group \<Rightarrow> string \<Rightarrow> int \<Rightarrow> int \<Rightarrow> int \<Rightarrow> string \<Rightarrow> string \<Rightarrow> go_time \<Rightarrow>
   (segment_error, audience_group) result" where
  "Group_UpdateWithActor g name0 sortOrder expectedVersion actorID actorKind actorReference now =
     (if expectedVersion \<noteq> grp_Version g then Inl SegConflict
      else let name = trim_space name0 in
      if name = [] \<or> rune_count name > 100 \<or> sortOrder < 0 \<or>
         \<not> validActor actorID actorKind actorReference \<or> is_zero now
      then Inl SegInvalid
      else Inr (g\<lparr>grp_Name := name, grp_SortOrder := sortOrder, grp_UpdatedBy := actorID,
        grp_UpdatedActorKind := actorKind, grp_UpdatedActorRef := actorReference,
        grp_UpdatedAt := now, grp_Version := wrap64 (grp_Version g + 1)\<rparr>))"

definition Group_Update ::
  "audience_group \<Rightarrow> string \<Rightarrow> int \<Rightarrow> int \<Rightarrow> int \<Rightarrow> go_time \<Rightarrow> (segment_error, audience_group) result" where
  "Group_Update g name sortOrder expectedVersion actor now =
     (let (kind, reference) = adminActor actor in
      Group_UpdateWithActor g name sortOrder expectedVersion actor kind reference now)"

subsection \<open>Packages\<close>

definition NewPackageWithActor ::
  "string \<Rightarrow> string \<Rightarrow> int option \<Rightarrow> int \<Rightarrow> string \<Rightarrow> string \<Rightarrow> go_time \<Rightarrow>
   (segment_error, audience_package) result" where
  "NewPackageWithActor code0 name0 groupID actorID actorKind actorReference now =
     (let code = trim_space (to_lower code0); name = trim_space name0 in
      if \<not> code_pattern code \<or> name = [] \<or> rune_count name > 200 \<or>
         \<not> validActor actorID actorKind actorReference \<or> is_zero now \<or> invalidOptionalID groupID
      then Inl SegInvalid
      else Inr \<lparr>pkg_ID = 0, pkg_GroupID = cloneID groupID, pkg_Code = code, pkg_Name = name,
        pkg_Lifecycle = Paused, pkg_Version = 1, pkg_CurrentConfigurationVersionID = None,
        pkg_PublishedSnapshotID = None, pkg_CurrentAutomationBindingID = None,
        pkg_CurrentSenderSetID = None, pkg_CreatedBy = actorID, pkg_CreatedActorKind = actorKind,
        pkg_CreatedActorRef = actorReference, pkg_UpdatedBy = actorID,
        pkg_UpdatedActorKind = actorKind, pkg_UpdatedActorRef = actorReference,
        pkg_CreatedAt = now, pkg_UpdatedAt = now, pkg_ArchivedAt = None\<rparr>)"

definition NewPackage ::
  "string \<Rightarrow> string \<Rightarrow> int option \<Rightarrow> int \<Rightarrow> go_time \<Rightarrow> (segment_error, audience_package) result" where
  "NewPackage code name groupID actor now =
     (let (kind, reference) = adminActor actor in
      NewPackageWithActor code name groupID actor kind reference now)"

definition CopyWithActor ::
  "audience_package \<Rightarrow> string \<Rightarrow> string \<Rightarrow> int \<Rightarrow> string \<Rightarrow> string \<Rightarrow> go_time \<Rightarrow>
   (segment_error, audience_package) result" where
  "CopyWithActor p code name actorID actorKind actorReference now =
     (if pkg_Lifecycle p = Archived then Inl SegArchived
      else NewPackageWithActor code name (pkg_GroupID p) actorID actorKind actorReference now)"

definition Package_Copy ::
  "audience_package \<Rightarrow> string \<Rightarrow> string \<Rightarrow> int \<Rightarrow> go_time \<Rightarrow> (segment_error, audience_package) result" where
  "Package_Copy p code name actor now =
     (let (kind, reference) = adminActor actor in CopyWithActor p code name actor kind reference now)"

definition UpdateDetailsWithActor ::
  "audience_package \<Rightarrow> string \<Rightarrow> int option \<Rightarrow> int \<Rightarrow> int \<Rightarrow> string \<Rightarrow> string \<Rightarrow> go_time \<Rightarrow>
   (segment_error, audience_package) result" where
  "UpdateDetailsWithActor p name0 groupID expectedVersion actorID actorKind actorReference now =
     (if expectedVersion \<noteq> pkg_Version p then Inl SegConflict
      else if pkg_Lifecycle p = Archived then Inl SegArchived
      else let name = trim_space name0 in
      if name = [] \<or> rune_count name > 200 \<or> invalidOptionalID groupID \<or>
         \<not> validActor actorID actorKind actorReference \<or> is_zero now
      then Inl SegInvalid
      else Inr (p\<lparr>pkg_Name := name, pkg_GroupID := cloneID groupID, pkg_UpdatedBy := actorID,
        pkg_UpdatedActorKind := actorKind, pkg_UpdatedActorRef := actorReference,
        pkg_UpdatedAt := now, pkg_Version := wrap64 (pkg_Version p + 1)\<rparr>))"

definition UpdateDetails ::
  "audience_package \<Rightarrow> string \<Rightarrow> int option \<Rightarrow> int \<Rightarrow> int \<Rightarrow> go_time \<Rightarrow>
   (segment_error, audience_package) result" where
  "UpdateDetails p name groupID expectedVersion actor now =
     (let (kind, reference) = adminActor actor in
      UpdateDetailsWithActor p name groupID expectedVersion actor kind reference now)"

definition TransitionWithActor ::
  "audience_package \<Rightarrow> lifecycle \<Rightarrow> int \<Rightarrow> int \<Rightarrow> string \<Rightarrow> string \<Rightarrow> go_time \<Rightarrow>
   (segment_error, audience_package) result" where
  "TransitionWithActor p target expectedVersion actorID actorKind actorReference now =
     (if expectedVersion \<noteq> pkg_Version p then Inl SegConflict
      else if pkg_Lifecycle p = Archived then Inl SegArchived
      else if \<not> validActor actorID actorKind actorReference \<or> is_zero now \<or>
         (target \<noteq> Paused \<and> target \<noteq> Active \<and> target \<noteq> Archived)
      then Inl SegInvalid
      else if pkg_Lifecycle p = target then Inr p
      else let q = p\<lparr>pkg_Lifecycle := target, pkg_UpdatedBy := actorID,
             pkg_UpdatedActorKind := actorKind, pkg_UpdatedActorRef := actorReference,
             pkg_UpdatedAt := now, pkg_Version := wrap64 (pkg_Version p + 1)\<rparr> in
      Inr (if target = Archived then q\<lparr>pkg_ArchivedAt := Some now\<rparr> else q))"

definition Package_Transition ::
  "audience_package \<Rightarrow> lifecycle \<Rightarrow> int \<Rightarrow> int \<Rightarrow> go_time \<Rightarrow> (segment_error, audience_package) result" where
  "Package_Transition p target expectedVersion actor now =
     (let (kind, reference) = adminActor actor in
      TransitionWithActor p target expectedVersion actor kind reference now)"

subsection \<open>Configurations\<close>

definition NewConfigurationVersionWithActor ::
  "int \<Rightarrow> int \<Rightarrow> string \<Rightarrow> string \<Rightarrow> string \<Rightarrow> int \<Rightarrow> string \<Rightarrow> string \<Rightarrow> go_time \<Rightarrow>
   (segment_error, configuration_version) result" where
  "NewConfigurationVersionWithActor packageID ver definition0 cron0 refreshMode actorID actorKind
       actorReference now =
     (let cron = trim_space cron0 in
      if packageID < 1 \<or> ver < 1 \<or> \<not> validActor actorID actorKind actorReference \<or> is_zero now \<or>
         \<not> is_json_object definition0 \<or> length cron > 100 \<or> \<not> validRefreshMode refreshMode
      then Inl SegInvalid
      else Inr \<lparr>cfv_ID = 0, cfv_PackageID = packageID, cfv_Version = ver, cfv_SchemaVersion = 1,
        cfv_Definition = definition0, cfv_RefreshCronUTC = cron, cfv_RefreshMode = refreshMode,
        cfv_Digest = Sum256 definition0, cfv_CreatedBy = actorID, cfv_CreatedActorKind = actorKind,
        cfv_CreatedActorRef = actorReference, cfv_CreatedAt = now\<rparr>)"

definition NewConfigurationVersion ::
  "int \<Rightarrow> int \<Rightarrow> string \<Rightarrow> string \<Rightarrow> string \<Rightarrow> int \<Rightarrow> go_time \<Rightarrow>
   (segment_error, configuration_version) result" where
  "NewConfigurationVersion packageID ver definition0 cron refreshMode actor now =
     (let (kind, reference) = adminActor actor in
      NewConfigurationVersionWithActor packageID ver definition0 cron refreshMode actor kind reference now)"

subsection \<open>Refreshes and snapshot digests\<close>

datatype refresh_kind =
    RefreshSourceRebase | RefreshLegacy | RefreshManual | RefreshIncremental | RefreshDaily
  | RefreshKindOther string

definition ValidRefreshKind :: "refresh_kind \<Rightarrow> bool" where
  "ValidRefreshKind v \<longleftrightarrow> v = RefreshSourceRebase \<or> v = RefreshLegacy \<or> v = RefreshManual \<or>
     v = RefreshIncremental \<or> v = RefreshDaily"

definition IsComplete :: "refresh_kind \<Rightarrow> bool" where
  "IsComplete v \<longleftrightarrow> v = RefreshSourceRebase \<or> v = RefreshDaily \<or> v = RefreshLegacy"

record snapshot_member_fact =
  smf_CustomerID :: int
  smf_PaidOrderID :: int
  smf_PaidAt :: "go_time option"

text \<open>\<open>binary.BigEndian.PutUint64\<close> of a converted \<open>int64\<close>, and \<open>PutUint32\<close>.\<close>

definition put_uint :: "nat \<Rightarrow> int \<Rightarrow> string" where
  "put_uint w i = map (\<lambda>k. char_of (nat (i mod 256 ^ w) div 256 ^ k mod 256)) (rev [0..<w])"

definition member_stream :: "int list \<Rightarrow> string" where
  "member_stream ids = concat (map (put_uint 8) ids)"

definition DigestMembers :: "int list \<Rightarrow> w32 list" where
  "DigestMembers ids = Sum256 (member_stream ids)"

definition paid_at_text :: "go_time \<Rightarrow> string" where
  "paid_at_text t = format_rfc3339_nano (trunc_time microsecond (utc t))"

definition fact_bytes :: "snapshot_member_fact \<Rightarrow> string" where
  "fact_bytes f = put_uint 8 (smf_CustomerID f) @
     (case smf_PaidAt f of
        None \<Rightarrow> [CHR 0x00]
      | Some t \<Rightarrow> CHR 0x01 # put_uint 8 (smf_PaidOrderID f) @
          put_uint 4 (int (length (paid_at_text t))) @ paid_at_text t)"

definition fact_stream :: "snapshot_member_fact list \<Rightarrow> string" where
  "fact_stream facts = concat (map fact_bytes facts)"

definition DigestSnapshotMemberFacts :: "snapshot_member_fact list \<Rightarrow> w32 list" where
  "DigestSnapshotMemberFacts facts = Sum256 (fact_stream facts)"

subsection \<open>Commands of a package and of a group\<close>

datatype package_cmd =
    PackageDetails int string "int option" int string string go_time
  | PackageMove int lifecycle int string string go_time

fun package_expected :: "package_cmd \<Rightarrow> int" where
  "package_expected (PackageDetails v _ _ _ _ _ _) = v"
| "package_expected (PackageMove v _ _ _ _ _) = v"

fun apply_package :: "audience_package \<Rightarrow> package_cmd \<Rightarrow> (segment_error, audience_package) result" where
  "apply_package p (PackageDetails v name g i kind r now) = UpdateDetailsWithActor p name g v i kind r now"
| "apply_package p (PackageMove v target i kind r now) = TransitionWithActor p target v i kind r now"

definition segment_text :: "nat \<Rightarrow> string \<Rightarrow> bool" where
  "segment_text n s \<longleftrightarrow> s \<noteq> [] \<and> trim_space s = s \<and> rune_count s \<le> n"

definition package_inv :: "audience_package \<Rightarrow> bool" where
  "package_inv p \<longleftrightarrow> code_pattern (pkg_Code p) \<and> segment_text 200 (pkg_Name p) \<and>
     \<not> invalidOptionalID (pkg_GroupID p) \<and> pkg_Lifecycle p \<in> {Paused, Active, Archived} \<and>
     (pkg_ArchivedAt p \<noteq> None \<longleftrightarrow> pkg_Lifecycle p = Archived) \<and>
     validActor (pkg_CreatedBy p) (pkg_CreatedActorKind p) (pkg_CreatedActorRef p) \<and>
     validActor (pkg_UpdatedBy p) (pkg_UpdatedActorKind p) (pkg_UpdatedActorRef p) \<and>
     \<not> is_zero (pkg_CreatedAt p) \<and> \<not> is_zero (pkg_UpdatedAt p)"

definition group_inv :: "audience_group \<Rightarrow> bool" where
  "group_inv g \<longleftrightarrow> segment_text 100 (grp_Name g) \<and> 0 \<le> grp_SortOrder g \<and>
     validActor (grp_CreatedBy g) (grp_CreatedActorKind g) (grp_CreatedActorRef g) \<and>
     validActor (grp_UpdatedBy g) (grp_UpdatedActorKind g) (grp_UpdatedActorRef g) \<and>
     \<not> is_zero (grp_CreatedAt g) \<and> \<not> is_zero (grp_UpdatedAt g)"

text \<open>What never changes in a package.\<close>

definition package_origin ::
  "audience_package \<Rightarrow> int \<times> string \<times> int \<times> string \<times> string \<times> go_time" where
  "package_origin p = (pkg_ID p, pkg_Code p, pkg_CreatedBy p, pkg_CreatedActorKind p,
     pkg_CreatedActorRef p, pkg_CreatedAt p)"

lemma UpdateDetails_post:
  "post (\<lambda>q. v = pkg_Version p \<and> pkg_Version q = wrap64 (pkg_Version p + 1) \<and>
      pkg_Lifecycle p \<noteq> Archived \<and> package_origin q = package_origin p \<and>
      (package_inv p \<longrightarrow> package_inv q)) (UpdateDetailsWithActor p name g v i kind r now)"
  by (simp add: UpdateDetailsWithActor_def Let_def package_inv_def package_origin_def segment_text_def)

lemma PackageMove_post:
  "post (\<lambda>q. v = pkg_Version p \<and> (q = p \<or> pkg_Version q = wrap64 (pkg_Version p + 1)) \<and>
      pkg_Lifecycle p \<noteq> Archived \<and> pkg_Lifecycle q = target \<and> package_origin q = package_origin p \<and>
      (package_inv p \<longrightarrow> package_inv q)) (TransitionWithActor p target v i kind r now)"
  by (auto simp: TransitionWithActor_def Let_def package_inv_def package_origin_def)

lemma apply_package_step:
  assumes "apply_package p c = Inr q"
  shows "package_expected c = pkg_Version p \<and> (q = p \<or> pkg_Version q = wrap64 (pkg_Version p + 1)) \<and>
    pkg_Lifecycle p \<noteq> Archived \<and> package_origin q = package_origin p \<and>
    (package_inv p \<longrightarrow> package_inv q)"
  using assms postD [OF UpdateDetails_post] postD [OF PackageMove_post] by (cases c) fastforce+

interpretation package: versioned_commands apply_package package_expected pkg_Version package_inv
  by unfold_locales (auto dest: apply_package_step)

lemma package_archived: "pkg_Lifecycle p = Archived \<Longrightarrow> run apply_package p cs = p"
proof (induction cs)
  case (Cons c cs)
  then have "commit apply_package p c = p"
    using apply_package_step [of p c] by (cases "apply_package p c") auto
  with Cons show ?case by simp
qed simp

lemma run_package_origin: "package_origin (run apply_package p cs) = package_origin p"
  by (rule run_invariant [of "\<lambda>q. package_origin q = package_origin p"]) (auto dest: apply_package_step)

lemma NewPackage_post:
  "post (\<lambda>p. package_inv p \<and> pkg_Lifecycle p = Paused \<and> pkg_Version p = 1 \<and>
      pkg_Code p = trim_space (to_lower code) \<and> pkg_CurrentConfigurationVersionID p = None)
     (NewPackageWithActor code name g i kind r now)"
  by (simp add: NewPackageWithActor_def Let_def package_inv_def segment_text_def)

text \<open>A valid reference names one actor.\<close>

lemma validActor_unique:
  assumes "validActor i kind r" "validActor j k r"
  shows "i = j \<and> kind = k"
proof -
  have pos: "format_int x = nat_digits (nat x)" if "0 < x" for x :: int
    using that by (simp add: format_int_def)
  have "i = j" if "0 < i" "0 < j" "format_int i = format_int j"
  proof -
    have "nat i = nat j" using that by (simp add: pos)
    with that(1,2) show ?thesis by simp
  qed
  with assms show ?thesis
    by (auto simp: validActor_def Let_def has_prefix_def prefix_def split: if_splits)
qed

subsection \<open>The framing of the snapshot digests\<close>

lemma put_uint_length [simp]: "length (put_uint w i) = w"
  by (simp add: put_uint_def)

text \<open>The value of \<open>w\<close> big-endian bytes.\<close>

definition get_uint :: "string \<Rightarrow> nat" where
  "get_uint s = foldl (\<lambda>a c. a * 256 + of_char c) 0 s"

lemma get_uint_digits:
  "get_uint (map (\<lambda>k. char_of (n div 256 ^ k mod 256)) (rev [0..<w])) = n mod 256 ^ w"
proof (induction w arbitrary: n)
  case 0
  then show ?case by (simp add: get_uint_def)
next
  case (Suc w)
  have split: "rev [0..<Suc w] = map Suc (rev [0..<w]) @ [0]"
    by (simp only: rev_map [symmetric] map_Suc_upt) (simp add: upt_conv_Cons del: upt_Suc)
  have "get_uint (map (\<lambda>k. char_of (n div 256 ^ k mod 256)) (rev [0..<Suc w])) =
      get_uint (map (\<lambda>k. char_of (n div 256 div 256 ^ k mod 256)) (rev [0..<w])) * 256 + n mod 256"
    unfolding split by (simp add: get_uint_def comp_def div_mult2_eq)
  also have "\<dots> = (n div 256 mod 256 ^ w) * 256 + n mod 256" by (simp only: Suc.IH)
  also have "\<dots> = n mod (256 * 256 ^ w)" by (simp add: mod_mult2_eq [of n 256] del: mult.commute)
  finally show ?case by (simp only: power_Suc)
qed

lemma put_uint_inject: "put_uint w i = put_uint w j \<longleftrightarrow> i mod 256 ^ w = j mod 256 ^ w"
proof
  have val: "int (get_uint (put_uint w x)) = x mod 256 ^ w" for x
    unfolding put_uint_def get_uint_digits by (simp add: zmod_int)
  assume "put_uint w i = put_uint w j"
  with val [of i] val [of j] show "i mod 256 ^ w = j mod 256 ^ w" by simp
qed (simp add: put_uint_def)

lemma in64_mod_inject:
  assumes "in64 i" "in64 j"
  shows "i mod 256 ^ 8 = j mod 256 ^ 8 \<longleftrightarrow> i = j"
proof
  assume "i mod 256 ^ 8 = j mod 256 ^ 8"
  then have "(i + 2 ^ 63) mod 2 ^ 64 = (j + 2 ^ 63) mod 2 ^ 64"
    by (intro mod_add_cong) simp_all
  with assms show "i = j" by (simp add: in64_def)
qed simp

lemma put_id_inject: "in64 i \<Longrightarrow> in64 j \<Longrightarrow> put_uint 8 i = put_uint 8 j \<longleftrightarrow> i = j"
  by (simp only: put_uint_inject in64_mod_inject)

lemma put_length_inject:
  assumes "length s < 2 ^ 32" "length t < 2 ^ 32"
  shows "put_uint 4 (int (length s)) = put_uint 4 (int (length t)) \<longleftrightarrow> length s = length t"
  using assms by (simp add: put_uint_inject)

lemma member_stream_inject:
  assumes "list_all in64 xs" "list_all in64 ys"
  shows "member_stream xs = member_stream ys \<longleftrightarrow> xs = ys"
  using assms
proof (induction xs arbitrary: ys)
  case Nil
  then show ?case
    by (cases ys) (auto simp: member_stream_def dest!: arg_cong [where f = length])
next
  case (Cons x xs)
  show ?case
  proof (cases ys)
    case Nil
    then show ?thesis by (auto simp: member_stream_def dest!: arg_cong [where f = length])
  next
    case (Cons y ys')
    with Cons.prems Cons.IH [of ys'] show ?thesis
      by (simp add: member_stream_def put_id_inject append_eq_append_conv)
  qed
qed

text \<open>What a fact contributes to the stream: the order is written only with a payment time, and
  the time with the precision of its text.\<close>

definition fact_key :: "snapshot_member_fact \<Rightarrow> int \<times> (int \<times> string) option" where
  "fact_key f = (smf_CustomerID f, map_option (\<lambda>t. (smf_PaidOrderID f, paid_at_text t)) (smf_PaidAt f))"

definition fact_fits :: "snapshot_member_fact \<Rightarrow> bool" where
  "fact_fits f \<longleftrightarrow> in64 (smf_CustomerID f) \<and> in64 (smf_PaidOrderID f) \<and>
     (case smf_PaidAt f of None \<Rightarrow> True | Some t \<Rightarrow> length (paid_at_text t) < 2 ^ 32)"

lemma framed_inject:
  assumes "length s < 2 ^ 32" "length t < 2 ^ 32"
  shows "put_uint 4 (int (length s)) @ s @ a = put_uint 4 (int (length t)) @ t @ b \<longleftrightarrow> s = t \<and> a = b"
  using put_length_inject [OF assms] by (auto simp: append_eq_append_conv)

lemma fact_bytes_inject:
  assumes "fact_fits f" "fact_fits g"
  shows "fact_bytes f @ a = fact_bytes g @ b \<longleftrightarrow> fact_key f = fact_key g \<and> a = b"
proof -
  have c: "put_uint 8 (smf_CustomerID f) = put_uint 8 (smf_CustomerID g) \<longleftrightarrow>
      smf_CustomerID f = smf_CustomerID g" "put_uint 8 (smf_PaidOrderID f) = put_uint 8 (smf_PaidOrderID g) \<longleftrightarrow>
      smf_PaidOrderID f = smf_PaidOrderID g"
    using assms by (simp_all add: fact_fits_def put_id_inject)
  show ?thesis
  proof (cases "smf_PaidAt f = None \<or> smf_PaidAt g = None")
    case True
    with c show ?thesis
      by (auto simp: fact_bytes_def fact_key_def append_eq_append_conv split: option.splits)
  next
    case False
    then obtain s t where st: "smf_PaidAt f = Some s" "smf_PaidAt g = Some t" by auto
    with assms have "length (paid_at_text s) < 2 ^ 32" "length (paid_at_text t) < 2 ^ 32"
      by (simp_all only: fact_fits_def option.case)
    note framed = framed_inject [OF this]
    show ?thesis
      using c framed by (simp add: fact_bytes_def fact_key_def st append_eq_append_conv)
  qed
qed

lemma fact_bytes_nonempty [simp]: "fact_bytes f \<noteq> []"
  using put_uint_length [of 8 "smf_CustomerID f"] by (auto simp: fact_bytes_def simp del: put_uint_length)

lemma fact_stream_inject:
  assumes "list_all fact_fits fs" "list_all fact_fits gs"
  shows "fact_stream fs = fact_stream gs \<longleftrightarrow> map fact_key fs = map fact_key gs"
  using assms
proof (induction fs arbitrary: gs)
  case Nil
  then show ?case by (cases gs) (simp_all add: fact_stream_def)
next
  case (Cons f fs)
  show ?case
  proof (cases gs)
    case Nil
    then show ?thesis by (simp add: fact_stream_def)
  next
    case (Cons g gs')
    with Cons.prems Cons.IH [of gs'] show ?thesis
      by (simp add: fact_stream_def fact_bytes_inject)
  qed
qed

subsection \<open>Properties\<close>

definition sample_package :: audience_package where
  "sample_package = \<lparr>pkg_ID = 7, pkg_GroupID = None, pkg_Code = ''vip'', pkg_Name = ''V'',
     pkg_Lifecycle = Active, pkg_Version = 3, pkg_CurrentConfigurationVersionID = Some 2,
     pkg_PublishedSnapshotID = None, pkg_CurrentAutomationBindingID = None,
     pkg_CurrentSenderSetID = None, pkg_CreatedBy = 4, pkg_CreatedActorKind = ''admin'',
     pkg_CreatedActorRef = ''admin:4'', pkg_UpdatedBy = 4, pkg_UpdatedActorKind = ''admin'',
     pkg_UpdatedActorRef = ''admin:4'', pkg_CreatedAt = 5, pkg_UpdatedAt = 6, pkg_ArchivedAt = None\<rparr>"

text \<open>C16. The life of an audience package under any sequence of edits and transitions: it stays well
  formed (a canonical code, a trimmed name of at most 200 runes, an archive time exactly when it is
  archived, valid actors), its identity, code and creator never change, and its version only
  counts upwards; once archived nothing changes it any more, and the reference recorded for an
  editor belongs to that editor alone.\<close>

theorem package_lifecycle:
  assumes "package_inv p" and "0 < pkg_Version p" and "pkg_Version p + int (length cs) \<le> max_int64"
  shows "package_inv (run apply_package p cs) \<and>
    package_origin (run apply_package p cs) = package_origin p \<and>
    pkg_Version p \<le> pkg_Version (run apply_package p cs) \<and>
    (pkg_Lifecycle (run apply_package p cs) = Archived \<longrightarrow>
       (\<forall>ds. run apply_package p (cs @ ds) = run apply_package p cs)) \<and>
    (\<forall>i k. validActor i k (pkg_UpdatedActorRef (run apply_package p cs)) \<longrightarrow>
       i = pkg_UpdatedBy (run apply_package p cs))"
proof (intro conjI allI impI)
  show i: "package_inv (run apply_package p cs)" by (rule package.run_invar [OF assms(1)])
  show "pkg_Version p \<le> pkg_Version (run apply_package p cs)"
    using package.run_version [OF assms(2,3)] ..
  show "run apply_package p (cs @ ds) = run apply_package p cs"
    if "pkg_Lifecycle (run apply_package p cs) = Archived" for ds
    using that by (simp add: run_append package_archived)
  show "j = pkg_UpdatedBy (run apply_package p cs)"
    if "validActor j k (pkg_UpdatedActorRef (run apply_package p cs))" for j k
    using that i validActor_unique unfolding package_inv_def by blast
qed (rule run_package_origin)

lemma sample_actor: "validActor 4 ''admin'' ''admin:4''"
  by code_simp

theorem package_lifecycle_witness:
  "pkg_Lifecycle (run apply_package sample_package
     [PackageMove 3 Paused 4 ''admin'' ''admin:4'' 7, PackageMove 4 Archived 4 ''admin'' ''admin:4'' 8]) = Archived \<and>
   run apply_package sample_package ([PackageMove 3 Paused 4 ''admin'' ''admin:4'' 7,
     PackageMove 4 Archived 4 ''admin'' ''admin:4'' 8] @ [PackageMove 5 Active 4 ''admin'' ''admin:4'' 9]) =
   run apply_package sample_package
     [PackageMove 3 Paused 4 ''admin'' ''admin:4'' 7, PackageMove 4 Archived 4 ''admin'' ''admin:4'' 8]"
  (is "?a \<and> ?b")
proof -
  have i: "package_inv sample_package" by code_simp
  have a: ?a
    by (simp add: sample_package_def commit_def TransitionWithActor_def Let_def sample_actor
        go_defs in64_def)
  have "0 < pkg_Version sample_package" "pkg_Version sample_package + int (length [PackageMove 3 Paused 4
      ''admin'' ''admin:4'' 7, PackageMove 4 Archived 4 ''admin'' ''admin:4'' 8]) \<le> max_int64"
    by (simp_all add: sample_package_def max_int64_def)
  from package_lifecycle [OF i this] a show ?thesis by blast
qed

text \<open>The digests of a snapshot frame their input without ambiguity: two member lists give the
  same bytes to hash only when they are equal, and two lists of payment facts only when they agree in
  length, customer, whether there is a payment time and, where there is one, the order and the time
  to the microsecond; facts that agree in these have the same digest.\<close>

lemma snapshot_digest_framing:
  assumes "list_all in64 xs" "list_all in64 ys" "list_all fact_fits fs" "list_all fact_fits gs"
  shows "(member_stream xs = member_stream ys \<longleftrightarrow> xs = ys) \<and>
    (fact_stream fs = fact_stream gs \<longleftrightarrow> map fact_key fs = map fact_key gs) \<and>
    (map fact_key fs = map fact_key gs \<longrightarrow> DigestSnapshotMemberFacts fs = DigestSnapshotMemberFacts gs) \<and>
    DigestMembers xs = Sum256 (member_stream xs)"
  using member_stream_inject [OF assms(1,2)] fact_stream_inject [OF assms(3,4)]
  by (auto simp: DigestSnapshotMemberFacts_def DigestMembers_def)

lemma snapshot_digest_framing_witness:
  "member_stream [1, 2] \<noteq> member_stream [2, 1] \<and>
   fact_stream [\<lparr>smf_CustomerID = 1, smf_PaidOrderID = 2, smf_PaidAt = None\<rparr>] =
   fact_stream [\<lparr>smf_CustomerID = 1, smf_PaidOrderID = 3, smf_PaidAt = None\<rparr>]"
  using snapshot_digest_framing [of "[1, 2]" "[2, 1]"
      "[\<lparr>smf_CustomerID = 1, smf_PaidOrderID = 2, smf_PaidAt = None\<rparr>]"
      "[\<lparr>smf_CustomerID = 1, smf_PaidOrderID = 3, smf_PaidAt = None\<rparr>]"]
  by (simp add: fact_fits_def in64_def fact_key_def)

end
