(* ===== verification/StatusMachine.thy ===== *)
theory StatusMachine
  imports Prelude
begin

text \<open>
  The life cycle that plans of \<open>internal/groupops\<close> and strategies of
  \<open>internal/operationcycle\<close> share: drafted once, then active or paused by turns,
  archived for good.  The locale states it for any transition test; each component
  interprets it with its own.
\<close>

locale lifecycle_machine =
  fixes can :: "'s \<Rightarrow> 's \<Rightarrow> bool"
    and draft active paused archived :: 's
  assumes states_distinct: "distinct [draft, active, paused, archived]"
    and can_iff: "can s t \<longleftrightarrow> s \<in> {draft, active, paused} \<and> t \<in> {draft, active, paused, archived} \<and>
      (t = draft \<longrightarrow> s = draft)"
begin

lemma can_trans: "can s t \<Longrightarrow> can t u \<Longrightarrow> can s u"
  by (auto simp: can_iff)

text \<open>A chain of transitions reaches nothing that a single one does not.\<close>

lemma reachable_iff: "rtranclp can s t \<longleftrightarrow> s = t \<or> can s t"
proof
  assume "rtranclp can s t"
  then show "s = t \<or> can s t"
    by (induction rule: rtranclp_induct) (auto intro: can_trans)
qed auto

lemma archived_final: "rtranclp can archived t \<longleftrightarrow> t = archived"
  using states_distinct by (auto simp: reachable_iff can_iff)

lemma draft_left_for_good: "rtranclp can s draft \<longleftrightarrow> s = draft"
  using states_distinct by (auto simp: reachable_iff can_iff)

lemma can_always_archive: "s \<in> {draft, active, paused} \<Longrightarrow> can s archived"
  using states_distinct by (auto simp: can_iff)

end

text \<open>The test as both components write it, with its guards and its switch.\<close>

lemma transition_test:
  assumes "distinct [d, a, p, z]"
  shows "(if \<not> (s = d \<or> s = a \<or> s = p \<or> s = z) \<or> \<not> (t = d \<or> t = a \<or> t = p \<or> t = z) \<or> s = z then False
      else if s = t then True
      else if s = d then t = a \<or> t = p \<or> t = z
      else if s = a then t = p \<or> t = z
      else if s = p then t = a \<or> t = z
      else False) \<longleftrightarrow>
    s \<in> {d, a, p} \<and> t \<in> {d, a, p, z} \<and> (t = d \<longrightarrow> s = d)"
  using assms by (cases "s = d"; cases "s = a"; cases "s = p"; cases "s = z") auto

end
