(* ===== verification/GroupOps.thy ===== *)
theory GroupOps
  imports GoJson StatusMachine
begin

text \<open>
  \<open>internal/groupops/domain\<close>: the rules of group operation plans.  Plans with their
  members, bound groups and ordered nodes, the material of a node, the messages a signed
  webhook may carry, the status machine of a plan and the scan of structured payloads for
  excluded identities.  The data types are those of \<open>internal/groupops/port\<close>.
\<close>

datatype groupops_error =
    GopInvalidPlan | GopInvalidDetail | GopInvalidNode | GopInvalidMaterial | GopInvalidWebhook

datatype plan_status = PlanDraft | PlanActive | PlanPaused | PlanArchived | PlanStatusOther string

datatype node_kind = NodeMessage | NodeDelay | NodeKindOther string

record material_reference =
  mrf_Kind :: string
  mrf_ID :: int

record plan_owner =
  own_StaffID :: int
  own_SenderUserID :: string
  own_DisplayName :: string
  own_NameSource :: string
  own_ProfileReadState :: string
  own_ProfileReadErrorCode :: string

record gops_plan =
  pln_Type :: string
  pln_ID :: int
  pln_Name :: string
  pln_Status :: plan_status
  pln_Revision :: int
  pln_CreatedBy :: int
  pln_UpdatedBy :: int
  pln_CreatedAt :: go_time
  pln_UpdatedAt :: go_time
  pln_Owner :: plan_owner

record group_asset =
  ast_ID :: int
  ast_AssetRef :: string
  ast_DisplayName :: string
  ast_OwnerStaffID :: int
  ast_MemberCount :: "int option"
  ast_ExternalMemberCount :: "int option"

record plan_node =
  nod_ID :: int
  nod_Position :: int
  nod_Kind :: node_kind
  nod_DayIndex :: int
  nod_ScheduledTime :: string
  nod_TriggerTimeLabel :: string
  nod_ActionTitle :: string
  nod_Status :: string
  nod_ScheduleSemantics :: string
  nod_MessageText :: string
  nod_DelayMinutes :: int
  nod_MaterialRef :: string
  nod_References :: "material_reference list"

record webhook_descriptor =
  whd_Configured :: bool
  whd_Reference :: string
  whd_Path :: string
  whd_URL :: string
  whd_SignatureAlgorithm :: string
  whd_SignatureHeader :: string
  whd_TimestampHeader :: string
  whd_NonceHeader :: string
  whd_ClientIDHeader :: string
  whd_ClientID :: string
  whd_Description :: string

text \<open>A nil slice is \<open>None\<close>; a member is its staff id.\<close>

record plan_detail =
  det_Plan :: gops_plan
  det_Members :: "int list option"
  det_GroupAssets :: "group_asset list option"
  det_Nodes :: "plan_node list option"
  det_WebhookDescriptor :: webhook_descriptor
  det_ProviderExecutionEligible :: bool
  det_RealExternalCallExecuted :: bool

record webhook_message =
  whm_Type :: string
  whm_Text :: string
  whm_AppID :: string
  whm_Path :: string
  whm_Title :: string
  whm_MiniProgramID :: int
  whm_ImageID :: int
  whm_AttachmentID :: int

record webhook_inbound =
  win_WebhookReference :: string
  win_TargetChatReferences :: "string list"
  win_Messages :: "webhook_message list"

definition MaxNameLength :: nat where "MaxNameLength = 128"
definition MaxMessageLength :: nat where "MaxMessageLength = 1000"
definition MaxMaterials :: nat where "MaxMaterials = 9"
definition MaxBatchTargetCount :: nat where "MaxBatchTargetCount = 2000"

lemmas groupops_limits = MaxNameLength_def MaxMessageLength_def MaxMaterials_def MaxBatchTargetCount_def

subsection \<open>Text\<close>

definition ValidText :: "string \<Rightarrow> nat \<Rightarrow> bool" where
  "ValidText value maximum \<longleftrightarrow> value \<noteq> [] \<and> value = trim_space value \<and> valid_utf8 value \<and>
     rune_count value \<le> maximum"

definition opaque_rune :: "rune \<Rightarrow> bool" where
  "opaque_rune r \<longleftrightarrow> (97 \<le> r \<and> r \<le> 122) \<or> (65 \<le> r \<and> r \<le> 90) \<or> (48 \<le> r \<and> r \<le> 57) \<or>
     r = 45 \<or> r = 95 \<or> r = 46 \<or> r = 58"

definition ValidOpaque :: "string \<Rightarrow> bool" where
  "ValidOpaque value =
     (if \<not> ValidText value MaxNameLength \<or> contains_str value ''://'' then False
      else list_all opaque_rune (runes value))"

definition validWebhookText :: "string \<Rightarrow> bool" where
  "validWebhookText value \<longleftrightarrow> ValidText value MaxMessageLength \<and> CHR 0x00 \<notin> set value"

definition validWebhookMiniProgramTitle :: "string \<Rightarrow> bool" where
  "validWebhookMiniProgramTitle value =
     (if \<not> ValidText value 64 \<or> length value > 64 then False
      else list_all (\<lambda>r. \<not> (r < 32 \<or> r = 127)) (runes value))"

subsection \<open>Material\<close>

text \<open>The digits of a positive number, written from the right.\<close>

function format_loop :: "int \<Rightarrow> string \<Rightarrow> string" where
  "format_loop v buffer =
     (if v > 0 then format_loop (v div 10) (char_of (48 + nat (v mod 10)) # buffer) else buffer)"
  by pat_completeness auto
termination
  by (relation "measure (\<lambda>(v, b). nat v)") auto

declare format_loop.simps [simp del]

definition formatID :: "int \<Rightarrow> string" where
  "formatID v =
     (if v = 0 then ''0''
      else if v < 0 then CHR ''-'' # format_loop (wrap64 (- v)) []
      else format_loop v [])"

text \<open>The switch of the loop: whether the kind is known and its count within its limit.\<close>

definition within_kind_limit :: "string \<Rightarrow> nat \<Rightarrow> bool" where
  "within_kind_limit kind count =
     (if kind = ''image'' then \<not> count > 3
      else if kind = ''miniprogram'' then \<not> count > 1
      else if kind = ''attachment'' then True
      else if kind = ''group_invite'' then \<not> count > 1
      else False)"

fun material_loop ::
  "string set \<Rightarrow> (string \<Rightarrow> nat) \<Rightarrow> material_reference list \<Rightarrow> groupops_error option" where
  "material_loop seen counts [] = None"
| "material_loop seen counts (r # rs) =
     (if mrf_ID r < 1 \<or> mrf_Kind r = [] then Some GopInvalidMaterial
      else let key = mrf_Kind r @ '':'' @ formatID (mrf_ID r) in
      if key \<in> seen then Some GopInvalidMaterial
      else let counts' = counts(mrf_Kind r := counts (mrf_Kind r) + 1) in
      if \<not> within_kind_limit (mrf_Kind r) (counts' (mrf_Kind r)) then Some GopInvalidMaterial
      else material_loop (insert key seen) counts' rs)"

definition ValidateMaterialPlan :: "material_reference list \<Rightarrow> groupops_error option" where
  "ValidateMaterialPlan references =
     (if length references > MaxMaterials then Some GopInvalidMaterial
      else material_loop {} (\<lambda>_. 0) references)"

subsection \<open>Inbound webhook messages\<close>

fun targets_loop :: "string set \<Rightarrow> string list \<Rightarrow> groupops_error option" where
  "targets_loop targets [] = None"
| "targets_loop targets (t # ts) =
     (if \<not> ValidOpaque t then Some GopInvalidWebhook
      else if t \<in> targets then Some GopInvalidWebhook
      else targets_loop (insert t targets) ts)"

text \<open>The message loop returns the number of attachments and of mini programs.\<close>

fun messages_loop ::
  "nat \<Rightarrow> nat \<Rightarrow> nat \<Rightarrow> webhook_message list \<Rightarrow> (groupops_error, nat \<times> nat) result" where
  "messages_loop index attachments miniPrograms [] = Inr (attachments, miniPrograms)"
| "messages_loop index attachments miniPrograms (m # ms) =
     (if whm_Type m = ''text'' then
        (if index \<noteq> 0 \<or> \<not> validWebhookText (whm_Text m) \<or> whm_AppID m \<noteq> [] \<or> whm_Path m \<noteq> [] \<or>
            whm_Title m \<noteq> [] \<or> whm_MiniProgramID m \<noteq> 0 \<or> whm_ImageID m \<noteq> 0 \<or> whm_AttachmentID m \<noteq> 0
         then Inl GopInvalidWebhook
         else messages_loop (index + 1) attachments miniPrograms ms)
      else if whm_Type m = ''image'' then
        (if whm_ImageID m < 1 \<or> whm_Text m \<noteq> [] \<or> whm_AppID m \<noteq> [] \<or> whm_Path m \<noteq> [] \<or>
            whm_Title m \<noteq> [] \<or> whm_MiniProgramID m \<noteq> 0 \<or> whm_AttachmentID m \<noteq> 0
         then Inl GopInvalidWebhook
         else messages_loop (index + 1) (attachments + 1) miniPrograms ms)
      else if whm_Type m = ''file'' then
        (if whm_AttachmentID m < 1 \<or> whm_Text m \<noteq> [] \<or> whm_AppID m \<noteq> [] \<or> whm_Path m \<noteq> [] \<or>
            whm_Title m \<noteq> [] \<or> whm_MiniProgramID m \<noteq> 0 \<or> whm_ImageID m \<noteq> 0
         then Inl GopInvalidWebhook
         else messages_loop (index + 1) (attachments + 1) miniPrograms ms)
      else if whm_Type m = ''miniprogram'' then
        (if whm_Text m \<noteq> [] \<or> whm_ImageID m \<noteq> 0 \<or> whm_AttachmentID m \<noteq> 0
         then Inl GopInvalidWebhook
         else if whm_MiniProgramID m \<noteq> 0 then
           (if whm_MiniProgramID m < 1 \<or> whm_AppID m \<noteq> [] \<or> whm_Path m \<noteq> [] \<or> whm_Title m \<noteq> []
            then Inl GopInvalidWebhook
            else messages_loop (index + 1) (attachments + 1) (miniPrograms + 1) ms)
         else if \<not> ValidText (whm_AppID m) 128 \<or> \<not> ValidText (whm_Path m) 1024 \<or>
            \<not> validWebhookMiniProgramTitle (whm_Title m)
         then Inl GopInvalidWebhook
         else messages_loop (index + 1) (attachments + 1) (miniPrograms + 1) ms)
      else Inl GopInvalidWebhook)"

definition ValidateWebhookInbound :: "webhook_inbound \<Rightarrow> groupops_error option" where
  "ValidateWebhookInbound v =
     (if \<not> ValidOpaque (win_WebhookReference v) \<or> win_TargetChatReferences v = [] \<or>
         length (win_TargetChatReferences v) > MaxBatchTargetCount \<or> win_Messages v = [] \<or>
         length (win_Messages v) > MaxMaterials + 1
      then Some GopInvalidWebhook
      else if targets_loop {} (win_TargetChatReferences v) \<noteq> None then Some GopInvalidWebhook
      else case messages_loop 0 0 0 (win_Messages v) of
        Inl e \<Rightarrow> Some e
      | Inr (attachments, miniPrograms) \<Rightarrow>
          if attachments > MaxMaterials \<or> miniPrograms > 1 then Some GopInvalidWebhook else None)"

subsection \<open>Plans\<close>

definition validStatus :: "plan_status \<Rightarrow> bool" where
  "validStatus s \<longleftrightarrow> s = PlanDraft \<or> s = PlanActive \<or> s = PlanPaused \<or> s = PlanArchived"

definition validPlanType :: "string \<Rightarrow> bool" where
  "validPlanType t \<longleftrightarrow> t = [] \<or> t = ''standard'' \<or> t = ''webhook''"

definition ValidatePlan :: "gops_plan \<Rightarrow> groupops_error option" where
  "ValidatePlan p =
     (if pln_ID p < 1 \<or> \<not> ValidText (pln_Name p) MaxNameLength \<or> \<not> validStatus (pln_Status p) \<or>
         pln_Revision p < 1 \<or> \<not> validPlanType (pln_Type p) \<or> pln_CreatedBy p < 1 \<or> pln_UpdatedBy p < 1 \<or>
         is_zero (pln_CreatedAt p) \<or> is_zero (pln_UpdatedAt p) \<or> before (pln_UpdatedAt p) (pln_CreatedAt p)
      then Some GopInvalidPlan else None)"

definition ValidateNode :: "plan_node \<Rightarrow> groupops_error option" where
  "ValidateNode n =
     (if nod_ID n < 1 \<or> nod_Position n < 1 \<or> (\<not> ValidOpaque (nod_MaterialRef n) \<and> nod_MaterialRef n \<noteq> []) \<or>
         ValidateMaterialPlan (nod_References n) \<noteq> None
      then Some GopInvalidNode
      else case nod_Kind n of
        NodeMessage \<Rightarrow>
          if nod_DelayMinutes n \<noteq> 0 \<or>
             (\<not> ValidText (nod_MessageText n) MaxMessageLength \<and> nod_MessageText n \<noteq> []) \<or>
             (nod_MessageText n = [] \<and> nod_References n = [])
          then Some GopInvalidNode else None
      | NodeDelay \<Rightarrow>
          if trim_space (nod_MessageText n) \<noteq> [] \<or> nod_MaterialRef n \<noteq> [] \<or> nod_References n \<noteq> [] \<or>
             nod_DelayMinutes n < 1 \<or> nod_DelayMinutes n > 10080
          then Some GopInvalidNode else None
      | NodeKindOther _ \<Rightarrow> Some GopInvalidNode)"

text \<open>The three loops compare each item with the one before it.\<close>

definition validMembers :: "int list option \<Rightarrow> bool" where
  "validMembers items = (case items of
       None \<Rightarrow> False
     | Some ids \<Rightarrow> list_all (\<lambda>i. \<not> i < 1) ids \<and> adjacent (\<lambda>a b. \<not> a \<ge> b) ids)"

definition asset_out_of_order :: "group_asset \<Rightarrow> group_asset \<Rightarrow> bool" where
  "asset_out_of_order a b \<longleftrightarrow> str_less (ast_AssetRef b) (ast_AssetRef a) \<or>
     (ast_AssetRef a = ast_AssetRef b \<and> ast_ID a \<ge> ast_ID b)"

definition validAssets :: "group_asset list option \<Rightarrow> bool" where
  "validAssets items = (case items of
       None \<Rightarrow> False
     | Some xs \<Rightarrow> list_all (\<lambda>a. \<not> (ast_ID a < 1 \<or> \<not> ValidOpaque (ast_AssetRef a))) xs \<and>
         adjacent (\<lambda>a b. \<not> asset_out_of_order a b) xs)"

fun nodes_loop :: "nat \<Rightarrow> plan_node list \<Rightarrow> bool" where
  "nodes_loop index [] = True"
| "nodes_loop index (n # ns) =
     (if nod_Position n \<noteq> wrap32 (int (index + 1)) \<or> ValidateNode n \<noteq> None then False
      else nodes_loop (index + 1) ns)"

definition validNodes :: "plan_node list option \<Rightarrow> bool" where
  "validNodes items = (case items of None \<Rightarrow> False | Some ns \<Rightarrow> nodes_loop 0 ns)"

definition validWebhook :: "webhook_descriptor \<Rightarrow> bool" where
  "validWebhook w =
     (if whd_Reference w = []
      then \<not> whd_Configured w \<and> whd_Path w = [] \<and> whd_URL w = [] \<and> whd_SignatureAlgorithm w = [] \<and>
        whd_SignatureHeader w = [] \<and> whd_TimestampHeader w = [] \<and> whd_NonceHeader w = [] \<and>
        whd_ClientIDHeader w = [] \<and> whd_ClientID w = []
      else whd_Configured w \<and> ValidOpaque (whd_Reference w) \<and> whd_Path w \<noteq> [] \<and> whd_URL w \<noteq> [] \<and>
        whd_SignatureAlgorithm w = ''HMAC-SHA256'' \<and> whd_SignatureHeader w = ''X-AICRM-Signature'' \<and>
        whd_TimestampHeader w = ''X-AICRM-Timestamp'' \<and> whd_NonceHeader w = ''X-AICRM-Event-Id'' \<and>
        whd_ClientIDHeader w = ''X-AICRM-Client-Id'' \<and> whd_ClientID w = ''aicrm-webhook-group-ops'')"

definition ValidateDetail :: "plan_detail \<Rightarrow> groupops_error option" where
  "ValidateDetail d =
     (if ValidatePlan (det_Plan d) \<noteq> None \<or> det_ProviderExecutionEligible d \<or>
         det_RealExternalCallExecuted d \<or> \<not> validMembers (det_Members d) \<or>
         \<not> validAssets (det_GroupAssets d) \<or> \<not> validNodes (det_Nodes d) \<or>
         \<not> validWebhook (det_WebhookDescriptor d)
      then Some GopInvalidDetail else None)"

definition CanTransitionPlanStatus :: "plan_status \<Rightarrow> plan_status \<Rightarrow> bool" where
  "CanTransitionPlanStatus source target =
     (if \<not> validStatus source \<or> \<not> validStatus target \<or> source = PlanArchived then False
      else if source = target then True
      else case source of
        PlanDraft \<Rightarrow> target = PlanActive \<or> target = PlanPaused \<or> target = PlanArchived
      | PlanActive \<Rightarrow> target = PlanPaused \<or> target = PlanArchived
      | PlanPaused \<Rightarrow> target = PlanActive \<or> target = PlanArchived
      | _ \<Rightarrow> False)"

subsection \<open>Excluded identities\<close>

definition normalized_key :: "string \<Rightarrow> string" where
  "normalized_key key = remove_chars ''_- '' (to_lower key)"

definition excluded_names :: "string list" where
  "excluded_names = [''customerid'', ''customerids'', ''openid'', ''openids'', ''unionid'', ''unionids'',
     ''externaluserid'', ''externaluserids'', ''phone'', ''phonenumber'', ''mobile'', ''segmentid'',
     ''segmentids'', ''audienceid'', ''audienceids'', ''campaignid'', ''campaignids'', ''recipientid'',
     ''recipientids'']"

definition excluded_key :: "string \<Rightarrow> bool" where
  "excluded_key key \<longleftrightarrow> (let n = normalized_key key in
     n \<in> set excluded_names \<or> contains_str n ''secret'' \<or> contains_str n ''credential'')"

fun containsForbiddenValue :: "json \<Rightarrow> bool" where
  "containsForbiddenValue (JObject ps) =
     list_ex (\<lambda>(key, child). excluded_key key \<or> containsForbiddenValue child) ps"
| "containsForbiddenValue (JArray vs) = list_ex containsForbiddenValue vs"
| "containsForbiddenValue _ = False"

definition ContainsForbidden :: "string \<Rightarrow> bool" where
  "ContainsForbidden value =
     (if value = [] then False
      else case unmarshal_any value of None \<Rightarrow> True | Some v \<Rightarrow> containsForbiddenValue v)"

subsection \<open>Material lists\<close>

lemma format_loop_digits: "format_loop v b = (if v > 0 then nat_digits (nat v) else []) @ b"
proof (induction v b rule: format_loop.induct)
  case (1 v b)
  show ?case
  proof (cases "v > 0")
    case False
    then show ?thesis by (simp add: format_loop.simps [of v])
  next
    case True
    let ?d = "char_of (48 + nat (v mod 10)) :: char"
    have d: "?d = digit (nat v mod 10)" using True by (simp add: digit_def nat_mod_distrib)
    have "format_loop v b = format_loop (v div 10) (?d # b)"
      using True by (simp add: format_loop.simps [of v])
    also have "\<dots> = (if v div 10 > 0 then nat_digits (nat (v div 10)) else []) @ ?d # b"
      using 1 [OF True] .
    also have "\<dots> = nat_digits (nat v) @ b"
    proof (cases "v < 10")
      case small: True
      have "nat_digits (nat v) = [digit (nat v)]" using small True by (subst nat_digits.simps) simp
      moreover have "v div 10 = 0" "nat v mod 10 = nat v" using small True by simp_all
      ultimately show ?thesis using small True by (simp add: digit_def)
    next
      case big: False
      have "nat_digits (nat v) = nat_digits (nat v div 10) @ [digit (nat v mod 10)]"
        using big by (subst nat_digits.simps) simp
      moreover have "nat (v div 10) = nat v div 10" "v div 10 > 0" using big by (simp_all add: nat_div_distrib)
      ultimately show ?thesis by (simp add: d)
    qed
    finally show ?thesis using True by simp
  qed
qed

text \<open>The hand-written formatter is \<open>strconv.FormatInt\<close> but for the smallest \<open>int64\<close>, whose
  negation overflows and leaves no digits.\<close>

lemma formatID_format_int:
  assumes "in64 v"
  shows "formatID v = (if v = - (2 ^ 63) then ''-'' else format_int v)"
proof -
  have z: "nat_digits 0 = ''0''" by code_simp
  have "wrap64 (- v) = - v" if "v \<noteq> - (2 ^ 63)" using assms that by (simp add: in64_def)
  moreover have "wrap64 (2 ^ 63) = - (2 ^ 63)" by (simp add: wrap64_def)
  ultimately show ?thesis using z by (auto simp: formatID_def format_int_def format_loop_digits)
qed

lemma formatID_pos: "1 \<le> v \<Longrightarrow> formatID v = nat_digits (nat v)"
  by (simp add: formatID_def format_loop_digits)

definition material_key :: "material_reference \<Rightarrow> string" where
  "material_key r = mrf_Kind r @ '':'' @ formatID (mrf_ID r)"

definition material_kinds :: "string set" where
  "material_kinds = {''image'', ''miniprogram'', ''attachment'', ''group_invite''}"

definition kind_count :: "string \<Rightarrow> material_reference list \<Rightarrow> nat" where
  "kind_count k rs = length (filter (\<lambda>r. mrf_Kind r = k) rs)"

lemma kind_count_Cons [simp]:
  "kind_count k (r # rs) = (if mrf_Kind r = k then 1 else 0) + kind_count k rs"
  by (simp add: kind_count_def)

lemma within_kind_limit_known: "within_kind_limit k n \<Longrightarrow> k \<in> material_kinds"
  by (auto simp: within_kind_limit_def material_kinds_def split: if_splits)

lemma within_kind_limit_mono: "within_kind_limit k n \<Longrightarrow> m \<le> n \<Longrightarrow> within_kind_limit k m"
  by (auto simp: within_kind_limit_def split: if_splits)

lemma material_loop_Cons:
  "material_loop seen counts (r # rs) =
     (if mrf_ID r < 1 \<or> mrf_Kind r = [] \<or> material_key r \<in> seen \<or>
         \<not> within_kind_limit (mrf_Kind r) (counts (mrf_Kind r) + 1)
      then Some GopInvalidMaterial
      else material_loop (insert (material_key r) seen) (counts(mrf_Kind r := counts (mrf_Kind r) + 1)) rs)"
  by (simp add: Let_def material_key_def)

lemma material_loop_exact:
  "material_loop seen counts rs = None \<longleftrightarrow>
     (\<forall>r \<in> set rs. 1 \<le> mrf_ID r \<and>
        within_kind_limit (mrf_Kind r) (counts (mrf_Kind r) + kind_count (mrf_Kind r) rs)) \<and>
     distinct (map material_key rs) \<and> set (map material_key rs) \<inter> seen = {}"
  (is "_ \<longleftrightarrow> ?exact seen counts rs")
proof (induction rs arbitrary: seen counts)
  case Nil
  then show ?case by simp
next
  case (Cons r rs)
  let ?k = "mrf_Kind r"
  let ?counts = "counts(?k := counts ?k + 1)"
  have sum: "?counts j + kind_count j rs = counts j + kind_count j (r # rs)" for j by simp
  have head: "within_kind_limit ?k (counts ?k + 1)" if "?exact seen counts (r # rs)"
    by (rule within_kind_limit_mono [of _ "counts ?k + kind_count ?k (r # rs)"]) (use that in simp_all)
  have known: "?k \<noteq> []" if "within_kind_limit ?k n" for n
    using within_kind_limit_known [OF that] by (auto simp: material_kinds_def)
  show ?case
  proof (cases "mrf_ID r < 1 \<or> ?k = [] \<or> material_key r \<in> seen \<or>
      \<not> within_kind_limit ?k (counts ?k + 1)")
    case True
    then have "material_loop seen counts (r # rs) \<noteq> None"
      by (simp only: material_loop_Cons) simp
    moreover have "\<not> ?exact seen counts (r # rs)"
    proof
      assume e: "?exact seen counts (r # rs)"
      then have "1 \<le> mrf_ID r" "material_key r \<notin> seen" by simp_all
      with head [OF e] known [OF head [OF e]] True show False by simp
    qed
    ultimately show ?thesis by blast
  next
    case False
    then have "material_loop seen counts (r # rs) =
        material_loop (insert (material_key r) seen) ?counts rs"
      by (simp only: material_loop_Cons) simp
    then have "material_loop seen counts (r # rs) = None \<longleftrightarrow>
        ?exact (insert (material_key r) seen) ?counts rs"
      by (simp only: Cons.IH)
    also have "\<dots> \<longleftrightarrow> ?exact seen counts (r # rs)"
    proof
      assume e: "?exact (insert (material_key r) seen) ?counts rs"
      have here: "within_kind_limit ?k (counts ?k + kind_count ?k (r # rs))"
      proof (cases "kind_count ?k rs = 0")
        case True
        with False show ?thesis by simp
      next
        case False
        then obtain q where "q \<in> set rs" "mrf_Kind q = ?k"
          by (auto simp: kind_count_def filter_empty_conv)
        with e sum [of ?k] show ?thesis by metis
      qed
      show "?exact seen counts (r # rs)"
        using e False here by (simp only: sum) auto
    next
      assume e: "?exact seen counts (r # rs)"
      then show "?exact (insert (material_key r) seen) ?counts rs"
        by (simp only: sum) auto
    qed
    finally show ?thesis .
  qed
qed

lemma material_key_inject:
  assumes "mrf_Kind r \<in> material_kinds" "mrf_Kind q \<in> material_kinds" "1 \<le> mrf_ID r" "1 \<le> mrf_ID q"
  shows "material_key r = material_key q \<longleftrightarrow> r = q"
proof
  assume e: "material_key r = material_key q"
  have "mrf_Kind r = mrf_Kind q \<and> formatID (mrf_ID r) = formatID (mrf_ID q)"
    using e assms(1,2) by (auto simp: material_key_def material_kinds_def)
  moreover from this have "nat (mrf_ID r) = nat (mrf_ID q)" using assms(3,4) by (simp add: formatID_pos)
  ultimately show "r = q" using assms(3,4) by (simp add: material_reference.equality)
qed simp

subsection \<open>Webhook messages\<close>

text \<open>The shape of one message, apart from its place.\<close>

definition text_message :: "webhook_message \<Rightarrow> bool" where
  "text_message m \<longleftrightarrow> m = \<lparr>whm_Type = ''text'', whm_Text = whm_Text m, whm_AppID = [], whm_Path = [],
     whm_Title = [], whm_MiniProgramID = 0, whm_ImageID = 0, whm_AttachmentID = 0\<rparr> \<and>
     validWebhookText (whm_Text m)"

definition image_message :: "webhook_message \<Rightarrow> bool" where
  "image_message m \<longleftrightarrow> m = \<lparr>whm_Type = ''image'', whm_Text = [], whm_AppID = [], whm_Path = [],
     whm_Title = [], whm_MiniProgramID = 0, whm_ImageID = whm_ImageID m, whm_AttachmentID = 0\<rparr> \<and>
     1 \<le> whm_ImageID m"

definition file_message :: "webhook_message \<Rightarrow> bool" where
  "file_message m \<longleftrightarrow> m = \<lparr>whm_Type = ''file'', whm_Text = [], whm_AppID = [], whm_Path = [],
     whm_Title = [], whm_MiniProgramID = 0, whm_ImageID = 0, whm_AttachmentID = whm_AttachmentID m\<rparr> \<and>
     1 \<le> whm_AttachmentID m"

definition mini_message :: "webhook_message \<Rightarrow> bool" where
  "mini_message m \<longleftrightarrow> whm_Type m = ''miniprogram'' \<and> whm_Text m = [] \<and> whm_ImageID m = 0 \<and>
     whm_AttachmentID m = 0 \<and>
     (1 \<le> whm_MiniProgramID m \<and> whm_AppID m = [] \<and> whm_Path m = [] \<and> whm_Title m = [] \<or>
      whm_MiniProgramID m = 0 \<and> ValidText (whm_AppID m) 128 \<and> ValidText (whm_Path m) 1024 \<and>
      validWebhookMiniProgramTitle (whm_Title m))"

lemmas message_shapes = text_message_def image_message_def file_message_def mini_message_def

definition attachment_message :: "webhook_message \<Rightarrow> bool" where
  "attachment_message m \<longleftrightarrow> image_message m \<or> file_message m \<or> mini_message m"

definition mini_count :: "webhook_message list \<Rightarrow> nat" where
  "mini_count ms = length (filter mini_message ms)"

text \<open>At most one text, in front; then attachments.\<close>

definition message_sequence :: "webhook_message list \<Rightarrow> webhook_message list \<Rightarrow> bool" where
  "message_sequence ms attachments \<longleftrightarrow> list_all attachment_message attachments \<and>
     (ms = attachments \<or> (\<exists>t. text_message t \<and> ms = t # attachments))"

lemma mini_is_attachment [simp]: "mini_message m \<Longrightarrow> attachment_message m"
  by (simp add: attachment_message_def)

lemma text_no_attachment: "text_message m \<Longrightarrow> \<not> attachment_message m"
  by (cases m) (auto simp: message_shapes attachment_message_def)

lemma messages_step:
  "messages_loop i a n (m # ms) =
     (if text_message m \<and> i = 0 then messages_loop (i + 1) a n ms
      else if mini_message m then messages_loop (i + 1) (a + 1) (n + 1) ms
      else if attachment_message m then messages_loop (i + 1) (a + 1) n ms
      else Inl GopInvalidWebhook)"
proof -
  consider "whm_Type m = ''text''" | "whm_Type m = ''image''" | "whm_Type m = ''file''"
    | "whm_Type m = ''miniprogram''"
    | "whm_Type m \<notin> {''text'', ''image'', ''file'', ''miniprogram''}" by blast
  then show ?thesis
  proof cases
    case 1
    then show ?thesis by (cases m) (simp add: message_shapes attachment_message_def)
  next
    case 2
    then show ?thesis by (cases m) (auto simp: message_shapes attachment_message_def)
  next
    case 3
    then show ?thesis by (cases m) (auto simp: message_shapes attachment_message_def)
  next
    case 4
    then show ?thesis by (cases m) (auto simp: message_shapes attachment_message_def)
  next
    case 5
    then show ?thesis by (cases m) (simp add: message_shapes attachment_message_def)
  qed
qed

lemma messages_attachments:
  "0 < i \<Longrightarrow> messages_loop i a n ms =
     (if list_all attachment_message ms then Inr (a + length ms, n + mini_count ms) else Inl GopInvalidWebhook)"
proof (induction ms arbitrary: i a n)
  case Nil
  then show ?case by (simp add: mini_count_def)
next
  case (Cons m ms)
  then show ?case by (simp only: messages_step) (simp add: mini_count_def)
qed

lemma messages_exact:
  "messages_loop 0 0 0 ms = Inr (a, n) \<longleftrightarrow>
     (\<exists>xs. message_sequence ms xs \<and> a = length xs \<and> n = mini_count xs)"
proof (cases ms)
  case Nil
  then show ?thesis by (auto simp: message_sequence_def mini_count_def)
next
  case (Cons m rest)
  note no = text_no_attachment [of m]
  show ?thesis
  proof (cases "text_message m")
    case True
    then have "message_sequence ms xs \<longleftrightarrow> xs = rest \<and> list_all attachment_message rest" for xs
      using no Cons by (auto simp: message_sequence_def)
    with True Cons show ?thesis by (auto simp: messages_step messages_attachments simp del: messages_loop.simps)
  next
    case False
    then have "message_sequence ms xs \<longleftrightarrow> xs = ms \<and> attachment_message m \<and> list_all attachment_message rest" for xs
      using Cons by (auto simp: message_sequence_def)
    with False Cons show ?thesis
      by (auto simp: messages_step messages_attachments mini_count_def
          simp del: messages_loop.simps)
  qed
qed

lemma targets_exact:
  "targets_loop seen ts = None \<longleftrightarrow> list_all ValidOpaque ts \<and> distinct ts \<and> set ts \<inter> seen = {}"
  by (induction ts arbitrary: seen) auto

subsection \<open>Details and statuses\<close>

definition asset_before :: "group_asset \<Rightarrow> group_asset \<Rightarrow> bool" where
  "asset_before a b \<longleftrightarrow> str_less (ast_AssetRef a) (ast_AssetRef b) \<or>
     (ast_AssetRef a = ast_AssetRef b \<and> ast_ID a < ast_ID b)"

lemma asset_in_order: "\<not> asset_out_of_order a b \<longleftrightarrow> asset_before a b"
proof -
  have "\<not> str_less (ast_AssetRef b) (ast_AssetRef a) \<longleftrightarrow>
      str_less (ast_AssetRef a) (ast_AssetRef b) \<or> ast_AssetRef a = ast_AssetRef b"
    using str_less_total str_less_trans str_less_irrefl by metis
  then show ?thesis by (auto simp: asset_out_of_order_def asset_before_def)
qed

lemma asset_before_trans: "transp asset_before"
  by (auto simp: transp_def asset_before_def dest: str_less_trans)

lemma validAssets_exact:
  "validAssets items \<longleftrightarrow> (\<exists>xs. items = Some xs \<and> sorted_wrt asset_before xs \<and>
     (\<forall>a \<in> set xs. 1 \<le> ast_ID a \<and> ValidOpaque (ast_AssetRef a)))"
  using asset_before_trans
  by (auto simp: validAssets_def list_all_iff asset_in_order adjacent_sorted_wrt split: option.split)

lemma validMembers_exact:
  "validMembers items \<longleftrightarrow> (\<exists>xs. items = Some xs \<and> sorted_wrt (<) xs \<and> (\<forall>i \<in> set xs. 1 \<le> i))"
  by (auto simp: validMembers_def list_all_iff not_le adjacent_sorted_wrt split: option.split)

lemma nodes_loop_exact:
  "int (k + length ns) < 2 ^ 31 \<Longrightarrow>
     nodes_loop k ns \<longleftrightarrow> map nod_Position ns = map int [k + 1..<k + 1 + length ns] \<and>
       (\<forall>n \<in> set ns. ValidateNode n = None)"
proof (induction ns arbitrary: k)
  case Nil
  then show ?case by simp
next
  case (Cons n ns)
  have "[k + 1..<k + 1 + length (n # ns)] = (k + 1) # [Suc k + 1..<Suc k + 1 + length ns]"
    by (subst upt_conv_Cons) simp_all
  moreover have "wrap32 (int (k + 1)) = int (k + 1)"
    using Cons.prems by (intro wrap32_id) (simp add: in32_def)
  moreover have "nodes_loop (Suc k) ns \<longleftrightarrow> map nod_Position ns = map int [Suc k + 1..<Suc k + 1 + length ns] \<and>
      (\<forall>n \<in> set ns. ValidateNode n = None)" using Cons.prems by (intro Cons.IH) simp
  ultimately show ?case by auto
qed

interpretation plan: lifecycle_machine CanTransitionPlanStatus PlanDraft PlanActive PlanPaused PlanArchived
proof unfold_locales
  fix s t
  show "CanTransitionPlanStatus s t \<longleftrightarrow> s \<in> {PlanDraft, PlanActive, PlanPaused} \<and>
      t \<in> {PlanDraft, PlanActive, PlanPaused, PlanArchived} \<and> (t = PlanDraft \<longrightarrow> s = PlanDraft)"
    by (cases s; cases t) (simp_all add: CanTransitionPlanStatus_def validStatus_def)
qed simp

subsection \<open>The scan\<close>

lemma containsForbiddenValue_iff:
  "containsForbiddenValue v \<longleftrightarrow>
     (\<exists>ps key child. inside (JObject ps) v \<and> (key, child) \<in> set ps \<and> excluded_key key)"
proof (induction v)
  case (JObject ps)
  have IH: "containsForbiddenValue child \<longleftrightarrow> (\<exists>qs k c. inside (JObject qs) child \<and> (k, c) \<in> set qs \<and> excluded_key k)"
    if "(key, child) \<in> set ps" for key child
    using JObject.IH [OF that, of child] by simp
  have "containsForbiddenValue (JObject ps) \<longleftrightarrow>
      (\<exists>key child. (key, child) \<in> set ps \<and> (excluded_key key \<or> containsForbiddenValue child))"
    by (auto simp: list_ex_iff)
  also have "\<dots> \<longleftrightarrow> (\<exists>key child. (key, child) \<in> set ps \<and> (excluded_key key \<or>
      (\<exists>qs k c. inside (JObject qs) child \<and> (k, c) \<in> set qs \<and> excluded_key k)))"
    using IH by (intro ex_cong1 conj_cong refl) simp
  finally show ?case by (simp only: inside_simps) blast
next
  case (JArray vs)
  then show ?case by (simp add: list_ex_iff inside_simps) blast
qed (simp_all add: inside_simps)

subsection \<open>Properties\<close>

definition sample_plan :: gops_plan where
  "sample_plan = \<lparr>pln_Type = [], pln_ID = 1, pln_Name = ''P'', pln_Status = PlanDraft, pln_Revision = 1,
     pln_CreatedBy = 1, pln_UpdatedBy = 1, pln_CreatedAt = 5, pln_UpdatedAt = 5,
     pln_Owner = \<lparr>own_StaffID = 0, own_SenderUserID = [], own_DisplayName = [], own_NameSource = [],
       own_ProfileReadState = [], own_ProfileReadErrorCode = []\<rparr>\<rparr>"

definition sample_node :: "int \<Rightarrow> plan_node" where
  "sample_node i = \<lparr>nod_ID = i, nod_Position = i, nod_Kind = NodeDelay, nod_DayIndex = 0,
     nod_ScheduledTime = [], nod_TriggerTimeLabel = [], nod_ActionTitle = [], nod_Status = [],
     nod_ScheduleSemantics = [], nod_MessageText = [], nod_DelayMinutes = 60, nod_MaterialRef = [],
     nod_References = []\<rparr>"

definition sample_detail :: plan_detail where
  "sample_detail = \<lparr>det_Plan = sample_plan, det_Members = Some [3, 8], det_GroupAssets = Some [],
     det_Nodes = Some [sample_node 1, sample_node 2],
     det_WebhookDescriptor = \<lparr>whd_Configured = False, whd_Reference = [], whd_Path = [], whd_URL = [],
       whd_SignatureAlgorithm = [], whd_SignatureHeader = [], whd_TimestampHeader = [],
       whd_NonceHeader = [], whd_ClientIDHeader = [], whd_ClientID = [], whd_Description = []\<rparr>,
     det_ProviderExecutionEligible = False, det_RealExternalCallExecuted = False\<rparr>"

text \<open>C17. The webhook accepts exactly the messages its contract describes: an opaque reference, 1 to
  2000 distinct opaque targets, and a non-empty sequence of at most one text, in front, followed by at
  most nine attachments of which at most one is a mini program, every message carrying the fields
  of its type and no others.  The loops of the code with their counters compute this.\<close>

theorem webhook_inbound_exact:
  "ValidateWebhookInbound v = None \<longleftrightarrow>
     ValidOpaque (win_WebhookReference v) \<and>
     1 \<le> length (win_TargetChatReferences v) \<and> length (win_TargetChatReferences v) \<le> 2000 \<and>
     list_all ValidOpaque (win_TargetChatReferences v) \<and> distinct (win_TargetChatReferences v) \<and>
     win_Messages v \<noteq> [] \<and>
     (\<exists>attachments. message_sequence (win_Messages v) attachments \<and> length attachments \<le> 9 \<and>
        mini_count attachments \<le> 1)"
proof (cases "messages_loop 0 0 0 (win_Messages v)")
  case (Inl e)
  then have "\<not> message_sequence (win_Messages v) xs" for xs
    using messages_exact [of "win_Messages v" "length xs" "mini_count xs"] by auto
  with Inl show ?thesis by (simp add: ValidateWebhookInbound_def)
next
  case (Inr r)
  then obtain xs where xs: "r = (length xs, mini_count xs)" "message_sequence (win_Messages v) xs"
    using messages_exact [of "win_Messages v" "fst r" "snd r"] by (cases r) auto
  have same: "length ys = length xs \<and> mini_count ys = mini_count xs" if "message_sequence (win_Messages v) ys" for ys
    using messages_exact [of "win_Messages v" "length ys" "mini_count ys"] that Inr xs(1) by auto
  have "length (win_Messages v) \<le> Suc (length xs)" using xs(2) by (auto simp: message_sequence_def)
  moreover have "(\<exists>ys. message_sequence (win_Messages v) ys \<and> length ys \<le> 9 \<and> mini_count ys \<le> 1) \<longleftrightarrow>
      length xs \<le> 9 \<and> mini_count xs \<le> 1" using xs(2) same by metis
  ultimately show ?thesis
    unfolding ValidateWebhookInbound_def Inr xs(1) targets_exact groupops_limits
    by (auto simp: not_less Suc_le_eq)
qed

text \<open>The material of a node is accepted exactly when it has at most nine references, none twice,
  each of a known kind with a positive id, and at most three images, one mini program and one group
  invitation: detecting duplicates by the text of kind and id is exact on what is accepted.\<close>

lemma material_plan_exact:
  "ValidateMaterialPlan rs = None \<longleftrightarrow>
     length rs \<le> 9 \<and> distinct rs \<and>
     (\<forall>r \<in> set rs. 1 \<le> mrf_ID r \<and> mrf_Kind r \<in> material_kinds) \<and>
     kind_count ''image'' rs \<le> 3 \<and> kind_count ''miniprogram'' rs \<le> 1 \<and>
     kind_count ''group_invite'' rs \<le> 1"
  (is "_ \<longleftrightarrow> ?spec")
proof -
  let ?ok = "\<lambda>r. 1 \<le> mrf_ID r \<and> mrf_Kind r \<in> material_kinds"
  have zero: "kind_count k rs = 0" if "\<forall>r \<in> set rs. mrf_Kind r \<noteq> k" for k
    using that by (simp add: kind_count_def)
  have limits: "(\<forall>r \<in> set rs. 1 \<le> mrf_ID r \<and> within_kind_limit (mrf_Kind r) (kind_count (mrf_Kind r) rs)) \<longleftrightarrow>
      (\<forall>r \<in> set rs. ?ok r) \<and> kind_count ''image'' rs \<le> 3 \<and> kind_count ''miniprogram'' rs \<le> 1 \<and>
      kind_count ''group_invite'' rs \<le> 1" (is "?l \<longleftrightarrow> ?r")
  proof
    assume l: ?l
    have bound: "kind_count k rs \<le> n" if "\<And>m. within_kind_limit k m \<longleftrightarrow> m \<le> n" for k n
      using l zero [of k] that by (cases "\<forall>r \<in> set rs. mrf_Kind r \<noteq> k") auto
    have "kind_count ''image'' rs \<le> 3" "kind_count ''miniprogram'' rs \<le> 1" "kind_count ''group_invite'' rs \<le> 1"
      by (rule bound, simp add: within_kind_limit_def not_less)+
    with l show ?r by (blast dest: within_kind_limit_known)
  next
    assume ?r
    then show ?l by (auto simp: within_kind_limit_def material_kinds_def)
  qed
  have keys: "distinct (map material_key rs) \<longleftrightarrow> distinct rs" if "\<forall>r \<in> set rs. ?ok r"
    using that by (auto simp: distinct_map inj_on_def material_key_inject)
  show ?thesis
    using limits keys by (auto simp: ValidateMaterialPlan_def material_loop_exact groupops_limits)
qed

lemma material_plan_exact_witness:
  "ValidateMaterialPlan [\<lparr>mrf_Kind = ''image'', mrf_ID = 1\<rparr>, \<lparr>mrf_Kind = ''image'', mrf_ID = 2\<rparr>] = None \<and>
   ValidateMaterialPlan [\<lparr>mrf_Kind = ''image'', mrf_ID = 1\<rparr>, \<lparr>mrf_Kind = ''image'', mrf_ID = 1\<rparr>] \<noteq> None"
  unfolding material_plan_exact by (simp add: material_kinds_def kind_count_def)

text \<open>C18. What a validated plan guarantees its readers: no external call is claimed, members ascend
  without repetition, bound groups ascend by reference and id, the nodes are numbered 1, 2, 3 and so
  on, each delays for 1 minute to 7 days or carries a text or material, and from its status a
  chain of allowed transitions reaches no more than one transition does, never a draft from
  another status and nothing from the archive.\<close>

theorem plan_detail_wellformed:
  assumes "ValidateDetail d = None" and "int (length (the (det_Nodes d))) < 2 ^ 31"
  shows "\<exists>ids assets nodes. det_Members d = Some ids \<and> det_GroupAssets d = Some assets \<and>
    det_Nodes d = Some nodes \<and> sorted_wrt (<) ids \<and> sorted_wrt asset_before assets \<and>
    map nod_Position nodes = map int [1..<1 + length nodes] \<and>
    (\<forall>n \<in> set nodes. nod_Kind n = NodeDelay \<and> nod_DelayMinutes n \<in> {1..10080} \<or>
       nod_Kind n = NodeMessage \<and> nod_DelayMinutes n = 0 \<and> (nod_MessageText n \<noteq> [] \<or> nod_References n \<noteq> [])) \<and>
    \<not> det_ProviderExecutionEligible d \<and> \<not> det_RealExternalCallExecuted d \<and>
    (\<forall>t. rtranclp CanTransitionPlanStatus (pln_Status (det_Plan d)) t \<longleftrightarrow>
       t = pln_Status (det_Plan d) \<or> CanTransitionPlanStatus (pln_Status (det_Plan d)) t) \<and>
    (\<forall>s t. rtranclp CanTransitionPlanStatus s t \<and> (t = PlanDraft \<or> s = PlanArchived) \<longrightarrow> s = t)"
proof -
  have v: "validMembers (det_Members d)" "validAssets (det_GroupAssets d)" "validNodes (det_Nodes d)"
    "\<not> det_ProviderExecutionEligible d" "\<not> det_RealExternalCallExecuted d"
    using assms(1) by (simp_all add: ValidateDetail_def split: if_splits)
  obtain ids where ids: "det_Members d = Some ids" "sorted_wrt (<) ids" using v(1) validMembers_exact by blast
  obtain assets where as: "det_GroupAssets d = Some assets" "sorted_wrt asset_before assets"
    using v(2) validAssets_exact by blast
  obtain nodes where ns: "det_Nodes d = Some nodes" "nodes_loop 0 nodes"
    using v(3) by (auto simp: validNodes_def split: option.splits)
  have pos: "map nod_Position nodes = map int [1..<1 + length nodes]" "\<forall>n \<in> set nodes. ValidateNode n = None"
    using ns assms(2) nodes_loop_exact [of 0 nodes] by simp_all
  have node: "nod_Kind n = NodeDelay \<and> nod_DelayMinutes n \<in> {1..10080} \<or>
      nod_Kind n = NodeMessage \<and> nod_DelayMinutes n = 0 \<and> (nod_MessageText n \<noteq> [] \<or> nod_References n \<noteq> [])"
    if "ValidateNode n = None" for n
    using that by (auto simp: ValidateNode_def split: if_splits node_kind.splits)
  have nodes_ok: "\<forall>n \<in> set nodes. nod_Kind n = NodeDelay \<and> nod_DelayMinutes n \<in> {1..10080} \<or>
      nod_Kind n = NodeMessage \<and> nod_DelayMinutes n = 0 \<and> (nod_MessageText n \<noteq> [] \<or> nod_References n \<noteq> [])"
    using pos(2) node by blast
  have reach: "\<forall>t. rtranclp CanTransitionPlanStatus (pln_Status (det_Plan d)) t \<longleftrightarrow>
      t = pln_Status (det_Plan d) \<or> CanTransitionPlanStatus (pln_Status (det_Plan d)) t"
    by (auto simp: plan.reachable_iff)
  have ends: "\<forall>s t. rtranclp CanTransitionPlanStatus s t \<and> (t = PlanDraft \<or> s = PlanArchived) \<longrightarrow> s = t"
    by (auto simp: plan.archived_final plan.draft_left_for_good)
  show ?thesis
    using ids as ns(1) pos(1) nodes_ok v(4,5) reach ends by (intro exI conjI)
qed

theorem plan_detail_wellformed_witness:
  "\<exists>nodes. det_Nodes sample_detail = Some nodes \<and> map nod_Position nodes = map int [1..<1 + length nodes]"
proof -
  have "ValidateDetail sample_detail = None"
    by (simp add: ValidateDetail_def sample_detail_def ValidatePlan_def sample_plan_def sample_node_def
        ValidText_def trim_space_printable printable_def groupops_limits validStatus_def validPlanType_def
        go_defs validMembers_def validAssets_def validNodes_def wrap32_def ValidateNode_def
        ValidateMaterialPlan_def validWebhook_def)
  from plan_detail_wellformed [OF this] show ?thesis by (auto simp: sample_detail_def)
qed

text \<open>The scan for excluded identities sees everything: a structured payload passes exactly when it
  is empty, or is valid JSON in which no object at any depth has an excluded key, in any
  capitalisation and with any underscores, hyphens or blanks in it; what does not parse is
  treated as forbidden.\<close>

lemma forbidden_scan_complete:
  "\<not> ContainsForbidden value \<longleftrightarrow> value = [] \<or>
     (\<exists>v. unmarshal_any value = Some v \<and>
        (\<forall>ps key child. inside (JObject ps) v \<and> (key, child) \<in> set ps \<longrightarrow>
           normalized_key key \<notin> set excluded_names \<and>
           \<not> (\<exists>a b. normalized_key key = a @ ''secret'' @ b \<or> normalized_key key = a @ ''credential'' @ b)))"
proof -
  have key: "excluded_key k \<longleftrightarrow> normalized_key k \<in> set excluded_names \<or>
      (\<exists>a b. normalized_key k = a @ ''secret'' @ b \<or> normalized_key k = a @ ''credential'' @ b)" for k
    by (auto simp: excluded_key_def Let_def contains_str_iff)
  have "\<not> ContainsForbidden value \<longleftrightarrow> value = [] \<or>
     (\<exists>v. unmarshal_any value = Some v \<and>
        (\<forall>ps key child. inside (JObject ps) v \<and> (key, child) \<in> set ps \<longrightarrow> \<not> excluded_key key))"
    by (cases "unmarshal_any value") (auto simp: ContainsForbidden_def containsForbiddenValue_iff)
  then show ?thesis by (simp only: key de_Morgan_disj)
qed

lemma forbidden_scan_complete_witness:
  "ContainsForbidden (''{'' @ [CHR 0x22] @ ''Open-ID'' @ [CHR 0x22] @ '':1}'')"
proof -
  let ?v = "''{'' @ [CHR 0x22] @ ''Open-ID'' @ [CHR 0x22] @ '':1}''"
  have v: "unmarshal_any ?v = Some (JObject [(''Open-ID'', JNumber ''1'')])" by code_simp
  have n: "normalized_key ''Open-ID'' \<in> set excluded_names" by code_simp
  show ?thesis
  proof (rule ccontr)
    assume "\<not> ContainsForbidden ?v"
    then have "?v = [] \<or> (\<exists>w. unmarshal_any ?v = Some w \<and>
        (\<forall>ps key child. inside (JObject ps) w \<and> (key, child) \<in> set ps \<longrightarrow>
           normalized_key key \<notin> set excluded_names \<and>
           \<not> (\<exists>a b. normalized_key key = a @ ''secret'' @ b \<or> normalized_key key = a @ ''credential'' @ b)))"
      by (rule forbidden_scan_complete [THEN iffD1])
    then obtain w where w: "unmarshal_any ?v = Some w"
      and free: "\<And>ps key child. inside (JObject ps) w \<and> (key, child) \<in> set ps \<Longrightarrow>
        normalized_key key \<notin> set excluded_names" by fastforce
    have "w = JObject [(''Open-ID'', JNumber ''1'')]" using v w by simp
    with free [of "[(''Open-ID'', JNumber ''1'')]" "''Open-ID''" "JNumber ''1''"] n inside.here show False
      by simp
  qed
qed

end
