(* ===== verification/OperationCycle.thy ===== *)
theory OperationCycle
  imports GoJson StatusMachine
begin

text \<open>
  \<open>internal/operationcycle/domain/cycle.go\<close>: the validity rules of strategies, runs,
  runners, action requests and proposals, the status machines of actions and strategies and
  the scan that keeps identities, contact data and secrets out of the local records.
  Statuses are the code's strings; an \<open>int\<close> of the code has 64 bits.
\<close>

record strategy =
  str_Key :: string
  str_Title :: string
  str_Status :: string
  str_Version :: int
  str_Definition :: string
  str_Snapshot :: string
  str_UpdatedAt :: go_time

record cycle_run =
  cyr_Key :: string
  cyr_StrategyKey :: string
  cyr_Revision :: int
  cyr_Snapshot :: string
  cyr_ReceivedAt :: go_time

record runner =
  rnr_ID :: string
  rnr_PrincipalID :: string
  rnr_ConnectorVersion :: string
  rnr_CodexVersion :: string
  rnr_CompatibilityStatus :: string
  rnr_BindingKeys :: "string list"
  rnr_LastHeartbeatAt :: go_time

record action_request =
  acr_ID :: string
  acr_StrategyKey :: string
  acr_RunKey :: string
  acr_ActionKey :: string
  acr_ActionTitle :: string
  acr_StrategyVersion :: int
  acr_RunnerID :: string
  acr_Status :: string
  acr_ParentRequestID :: string
  acr_ThreadID :: string
  acr_TurnID :: string
  acr_FinalResult :: string
  acr_FailureCode :: string
  acr_CreatedBy :: string
  acr_CreatedAt :: go_time
  acr_UpdatedAt :: go_time
  acr_CompletedAt :: "go_time option"

record proposal =
  prp_ID :: string
  prp_StrategyKey :: string
  prp_BaseStrategyVersion :: int
  prp_Status :: string
  prp_Payload :: string
  prp_CreatedBy :: string
  prp_DecidedBy :: string
  prp_CreatedAt :: go_time
  prp_DecidedAt :: "go_time option"

datatype cycle_error = InvalidStrategy | InvalidRun | InvalidRunner | InvalidAction | InvalidProposal

subsection \<open>Statuses\<close>

definition validStrategyStatus :: "string \<Rightarrow> bool" where
  "validStrategyStatus v \<longleftrightarrow> v = ''draft'' \<or> v = ''active'' \<or> v = ''paused'' \<or> v = ''archived''"

definition validCompatibilityStatus :: "string \<Rightarrow> bool" where
  "validCompatibilityStatus v \<longleftrightarrow> v = ''ready'' \<or> v = ''incompatible'' \<or> v = ''unavailable''"

definition validActionStatus :: "string \<Rightarrow> bool" where
  "validActionStatus v \<longleftrightarrow> v = ''queued'' \<or> v = ''claimed'' \<or> v = ''thread_bound'' \<or>
     v = ''turn_started'' \<or> v = ''completed'' \<or> v = ''failed''"

definition validProposalStatus :: "string \<Rightarrow> bool" where
  "validProposalStatus v \<longleftrightarrow> v = ''pending'' \<or> v = ''accepted'' \<or> v = ''rejected''"

definition CanTransitionActionStatus :: "string \<Rightarrow> string \<Rightarrow> bool" where
  "CanTransitionActionStatus source target =
     (if source = target \<and> validActionStatus source then True
      else if \<not> validActionStatus source \<or> \<not> validActionStatus target then False
      else if target = ''failed'' then source = ''queued'' \<or> source = ''claimed'' \<or>
        source = ''thread_bound'' \<or> source = ''turn_started''
      else if source = ''queued'' then target = ''claimed''
      else if source = ''claimed'' then target = ''thread_bound''
      else if source = ''thread_bound'' then target = ''turn_started''
      else if source = ''turn_started'' then target = ''completed''
      else False)"

definition CanTransitionStrategyStatus :: "string \<Rightarrow> string \<Rightarrow> bool" where
  "CanTransitionStrategyStatus source target =
     (if \<not> validStrategyStatus source \<or> \<not> validStrategyStatus target \<or> source = ''archived'' then False
      else if source = target then True
      else if source = ''draft'' then target = ''active'' \<or> target = ''paused'' \<or> target = ''archived''
      else if source = ''active'' then target = ''paused'' \<or> target = ''archived''
      else if source = ''paused'' then target = ''active'' \<or> target = ''archived''
      else False)"

subsection \<open>Keys and text\<close>

text \<open>The key is trimmed before it is measured; \<open>ContainsAny\<close> looks for tabs and line breaks.\<close>

definition ValidKey :: "string \<Rightarrow> nat \<Rightarrow> bool" where
  "ValidKey value0 maximum =
     (let value = trim_space value0 in
      value \<noteq> [] \<and> valid_utf8 value \<and> length value \<le> maximum \<and>
      \<not> list_ex (\<lambda>c. c \<in> {CHR 0x09, CHR 0x0D, CHR 0x0A}) value)"

definition Cycle_ValidText :: "string \<Rightarrow> nat \<Rightarrow> bool" where
  "Cycle_ValidText value maximum \<longleftrightarrow> value \<noteq> [] \<and> value = trim_space value \<and> valid_utf8 value \<and>
     rune_count value \<le> maximum"

definition ValidJSON :: "string \<Rightarrow> bool" where
  "ValidJSON value \<longleftrightarrow> value \<noteq> [] \<and> json_valid value"

subsection \<open>The scan\<close>

text \<open>The two patterns, over runes.  A phone number is eleven digits, the first not zero, with no
  digit on either side.  In the case-insensitive pattern for addresses the long s (U+017F) and
  the Kelvin sign (U+212A) count as letters.\<close>

definition digit_rune :: "rune \<Rightarrow> bool" where
  "digit_rune r \<longleftrightarrow> 48 \<le> r \<and> r \<le> 57"

definition letter_rune :: "rune \<Rightarrow> bool" where
  "letter_rune r \<longleftrightarrow> (97 \<le> r \<and> r \<le> 122) \<or> (65 \<le> r \<and> r \<le> 90) \<or> r = 383 \<or> r = 8490"

definition phone_here :: "rune list \<Rightarrow> bool" where
  "phone_here rs \<longleftrightarrow> 11 \<le> length rs \<and> list_all digit_rune (take 11 rs) \<and> hd rs \<noteq> 48 \<and>
     (case drop 11 rs of [] \<Rightarrow> True | r # _ \<Rightarrow> \<not> digit_rune r)"

fun phone_after_boundary :: "rune list \<Rightarrow> bool" where
  "phone_after_boundary [] = False"
| "phone_after_boundary (r # rs) = ((\<not> digit_rune r \<and> phone_here rs) \<or> phone_after_boundary rs)"

definition phone_number :: "string \<Rightarrow> bool" where
  "phone_number s \<longleftrightarrow> phone_here (runes s) \<or> phone_after_boundary (runes s)"

definition local_rune :: "rune \<Rightarrow> bool" where
  "local_rune r \<longleftrightarrow> letter_rune r \<or> digit_rune r \<or> r \<in> {46, 95, 37, 43, 45}"

definition domain_rune :: "rune \<Rightarrow> bool" where
  "domain_rune r \<longleftrightarrow> letter_rune r \<or> digit_rune r \<or> r \<in> {46, 45}"

text \<open>At least one rune of a domain, then a dot and two letters.\<close>

fun domain_tail :: "rune list \<Rightarrow> bool" where
  "domain_tail (d # rs) =
     (domain_rune d \<and>
      ((case rs of dot # a # b # _ \<Rightarrow> dot = 46 \<and> letter_rune a \<and> letter_rune b | _ \<Rightarrow> False) \<or>
       domain_tail rs))"
| "domain_tail [] = False"

fun address_in :: "rune list \<Rightarrow> bool" where
  "address_in (l # rs) =
     ((local_rune l \<and> (case rs of at # ds \<Rightarrow> at = 64 \<and> domain_tail ds | [] \<Rightarrow> False)) \<or> address_in rs)"
| "address_in [] = False"

definition email_address :: "string \<Rightarrow> bool" where
  "email_address s = address_in (runes s)"

definition forbidden_text :: "string \<Rightarrow> bool" where
  "forbidden_text s \<longleftrightarrow> contains_str s ''/Users/'' \<or> has_prefix s ''file://'' \<or> phone_number s \<or>
     email_address s"

definition forbidden_names :: "string list" where
  "forbidden_names = [''tenant'', ''tenantid'', ''tenantids'', ''customerid'', ''customerids'',
     ''externaluserid'', ''externaluserids'', ''externalidentityid'', ''externalidentityids'',
     ''identityid'', ''identityids'', ''identitykey'', ''identitykeys'', ''oneid'', ''oneidid'',
     ''oneidids'', ''openid'', ''openids'', ''unionid'', ''unionids'', ''mobile'', ''phone'',
     ''phonenumber'', ''email'', ''emailaddress'', ''segmentid'', ''segmentids'', ''campaignid'',
     ''campaignids'', ''recipientid'', ''recipientids'', ''audienceid'', ''audienceids'', ''orderid'',
     ''orderids'', ''orderstate'', ''orderstatus'', ''entitlementid'', ''entitlementids'',
     ''entitlementstate'', ''entitlementstatus'', ''membershipid'', ''membershipids'',
     ''membershipstate'', ''membershipstatus'', ''subscriptionid'', ''subscriptionids'',
     ''subscriptionstate'', ''subscriptionstatus'', ''serviceperiodid'', ''serviceperiodids'',
     ''serviceperiodstate'', ''serviceperiodstatus'', ''token'', ''accesstoken'', ''refreshtoken'',
     ''password'', ''cookie'', ''privatekey'', ''apikey'', ''authorization'']"

definition forbiddenKey :: "string \<Rightarrow> bool" where
  "forbiddenKey key \<longleftrightarrow> key \<in> set forbidden_names \<or> contains_str key ''credential'' \<or>
     contains_str key ''secret'' \<or> contains_str key ''token'' \<or> contains_str key ''password'' \<or>
     contains_str key ''cookie'' \<or> contains_str key ''privatekey''"

definition normalizedKey :: "string \<Rightarrow> string" where
  "normalizedKey key = remove_chars ''_- '' (to_lower key)"

text \<open>\<open>resultString\<close> of the value found under the key.\<close>

definition resultString :: "json \<Rightarrow> string" where
  "resultString v = (case v of JString s \<Rightarrow> trim_space s | _ \<Rightarrow> [])"

definition forbidden_entry :: "string \<Rightarrow> json \<Rightarrow> bool" where
  "forbidden_entry key child \<longleftrightarrow> forbiddenKey (normalizedKey key) \<or>
     (normalizedKey key = ''externaleffects'' \<and> resultString child \<noteq> [] \<and> resultString child \<noteq> ''none'')"

fun forbidden_value :: "json \<Rightarrow> bool" where
  "forbidden_value (JObject ps) =
     list_ex (\<lambda>(key, child). forbidden_entry key child \<or> forbidden_value child) ps"
| "forbidden_value (JArray vs) = list_ex forbidden_value vs"
| "forbidden_value (JString s) = forbidden_text s"
| "forbidden_value _ = False"

text \<open>The case \<open>json.RawMessage\<close> of \<open>ContainsForbidden\<close>.\<close>

definition forbidden_raw :: "string \<Rightarrow> bool" where
  "forbidden_raw item =
     (if item = [] then False
      else case unmarshal_any item of None \<Rightarrow> True | Some v \<Rightarrow> forbidden_value v)"

subsection \<open>Validation\<close>

definition ValidateStrategy :: "strategy \<Rightarrow> cycle_error option" where
  "ValidateStrategy v =
     (if \<not> ValidKey (str_Key v) 120 \<or> \<not> Cycle_ValidText (str_Title v) 200 \<or>
         \<not> validStrategyStatus (str_Status v) \<or> str_Version v < 1 \<or> \<not> ValidJSON (str_Definition v) \<or>
         \<not> ValidJSON (str_Snapshot v) \<or> is_zero (str_UpdatedAt v) \<or> forbidden_raw (str_Definition v) \<or>
         forbidden_raw (str_Snapshot v)
      then Some InvalidStrategy else None)"

definition ValidateRun :: "cycle_run \<Rightarrow> cycle_error option" where
  "ValidateRun v =
     (if \<not> ValidKey (cyr_Key v) 160 \<or> \<not> ValidKey (cyr_StrategyKey v) 120 \<or> cyr_Revision v < 1 \<or>
         \<not> ValidJSON (cyr_Snapshot v) \<or> is_zero (cyr_ReceivedAt v) \<or> forbidden_raw (cyr_Snapshot v)
      then Some InvalidRun else None)"

definition ValidateRunner :: "runner \<Rightarrow> cycle_error option" where
  "ValidateRunner v =
     (if \<not> ValidKey (rnr_ID v) 160 \<or> \<not> ValidKey (rnr_PrincipalID v) 240 \<or>
         \<not> ValidKey (rnr_ConnectorVersion v) 120 \<or> \<not> ValidKey (rnr_CodexVersion v) 120 \<or>
         \<not> validCompatibilityStatus (rnr_CompatibilityStatus v) \<or> length (rnr_BindingKeys v) > 32 \<or>
         is_zero (rnr_LastHeartbeatAt v)
      then Some InvalidRunner
      else if list_ex (\<lambda>key. \<not> ValidKey key 240) (rnr_BindingKeys v) then Some InvalidRunner
      else None)"

definition ValidateAction :: "action_request \<Rightarrow> cycle_error option" where
  "ValidateAction v =
     (if \<not> ValidKey (acr_ID v) 160 \<or> \<not> ValidKey (acr_StrategyKey v) 120 \<or> \<not> ValidKey (acr_RunKey v) 160 \<or>
         \<not> ValidKey (acr_ActionKey v) 120 \<or> \<not> Cycle_ValidText (acr_ActionTitle v) 200 \<or>
         acr_StrategyVersion v < 1 \<or> \<not> ValidKey (acr_RunnerID v) 160 \<or>
         \<not> validActionStatus (acr_Status v) \<or> \<not> ValidKey (acr_CreatedBy v) 240 \<or>
         is_zero (acr_CreatedAt v) \<or> is_zero (acr_UpdatedAt v) \<or> forbidden_raw (acr_FinalResult v)
      then Some InvalidAction
      else if acr_ParentRequestID v \<noteq> [] \<and> \<not> ValidKey (acr_ParentRequestID v) 160
      then Some InvalidAction
      else if (acr_ThreadID v \<noteq> [] \<and> \<not> ValidKey (acr_ThreadID v) 200) \<or>
         (acr_TurnID v \<noteq> [] \<and> \<not> ValidKey (acr_TurnID v) 200)
      then Some InvalidAction
      else if acr_Status v = ''completed'' \<or> acr_Status v = ''failed'' then
        (case acr_CompletedAt v of
           None \<Rightarrow> Some InvalidAction
         | Some t \<Rightarrow> if is_zero t then Some InvalidAction else None)
      else if acr_CompletedAt v \<noteq> None then Some InvalidAction
      else None)"

definition ValidateProposal :: "proposal \<Rightarrow> cycle_error option" where
  "ValidateProposal v =
     (if \<not> ValidKey (prp_ID v) 160 \<or> \<not> ValidKey (prp_StrategyKey v) 120 \<or> prp_BaseStrategyVersion v < 1 \<or>
         \<not> validProposalStatus (prp_Status v) \<or> \<not> ValidJSON (prp_Payload v) \<or>
         \<not> ValidKey (prp_CreatedBy v) 240 \<or> is_zero (prp_CreatedAt v) \<or> forbidden_raw (prp_Payload v)
      then Some InvalidProposal
      else if prp_Status v = ''pending'' then
        (if prp_DecidedBy v \<noteq> [] \<or> prp_DecidedAt v \<noteq> None then Some InvalidProposal else None)
      else if \<not> ValidKey (prp_DecidedBy v) 240 then Some InvalidProposal
      else (case prp_DecidedAt v of
          None \<Rightarrow> Some InvalidProposal
        | Some t \<Rightarrow> if is_zero t then Some InvalidProposal else None))"

subsection \<open>The status machines\<close>

interpretation strategy_status: lifecycle_machine CanTransitionStrategyStatus
  "''draft''" "''active''" "''paused''" "''archived''"
proof unfold_locales
  fix s t
  show "CanTransitionStrategyStatus s t \<longleftrightarrow> s \<in> {''draft'', ''active'', ''paused''} \<and>
      t \<in> {''draft'', ''active'', ''paused'', ''archived''} \<and> (t = ''draft'' \<longrightarrow> s = ''draft'')"
    unfolding CanTransitionStrategyStatus_def validStrategyStatus_def
    using transition_test [of "''draft''" "''active''" "''paused''" "''archived''" s t] by simp
qed simp

text \<open>The main line of an action; failure leaves it from any place before the end.\<close>

definition action_line :: "string list" where
  "action_line = [''queued'', ''claimed'', ''thread_bound'', ''turn_started'', ''completed'']"

definition action_place :: "string \<Rightarrow> nat" where
  "action_place s = length (takeWhile (\<lambda>x. x \<noteq> s) action_line)"

definition action_open :: "string \<Rightarrow> bool" where
  "action_open s \<longleftrightarrow> s \<in> set action_line \<and> s \<noteq> ''completed''"

definition action_reach :: "string \<Rightarrow> string \<Rightarrow> bool" where
  "action_reach s t \<longleftrightarrow> s = t \<or> (action_open s \<and>
     (t = ''failed'' \<or> (t \<in> set action_line \<and> action_place s < action_place t)))"

lemmas action_line_defs = action_line_def action_place_def action_open_def

lemma validActionStatus_iff: "validActionStatus s \<longleftrightarrow> s \<in> set action_line \<or> s = ''failed''"
  by (auto simp: validActionStatus_def action_line_def)

lemma action_step:
  assumes "validActionStatus s"
  shows "CanTransitionActionStatus s t \<longleftrightarrow>
    s = t \<or> (action_open s \<and> (t = ''failed'' \<or> (t \<in> set action_line \<and> action_place t = Suc (action_place s))))"
  using assms by (auto simp: CanTransitionActionStatus_def validActionStatus_def action_line_defs)

lemma action_place_nth: "s \<in> set action_line \<Longrightarrow> action_line ! action_place s = s"
  by (auto simp: action_line_defs)

lemma action_place_inject:
  "s \<in> set action_line \<Longrightarrow> t \<in> set action_line \<Longrightarrow> action_place s = action_place t \<Longrightarrow> s = t"
  by (metis action_place_nth)

lemma action_place_open: "s \<in> set action_line \<Longrightarrow> action_open s \<longleftrightarrow> action_place s < 4"
  by (auto simp: action_line_defs)

lemma action_line_place: "k < 5 \<Longrightarrow> \<exists>s \<in> set action_line. action_place s = k"
proof -
  assume "k < 5"
  then have "k \<in> {0, 1, 2, 3, 4}" by auto
  then show ?thesis by (auto simp: action_line_defs)
qed

lemma action_place_less: "s \<in> set action_line \<Longrightarrow> action_place s < 5"
  by (auto simp: action_line_defs)

lemma action_advance:
  "s \<in> set action_line \<Longrightarrow> t \<in> set action_line \<Longrightarrow> action_place t = action_place s + n \<Longrightarrow>
     rtranclp CanTransitionActionStatus s t"
proof (induction n arbitrary: t)
  case 0
  then have "s = t" by (intro action_place_inject) simp_all
  then show ?case by simp
next
  case (Suc n)
  from Suc.prems(3) have "action_place s + n < 5" using action_place_less [OF Suc.prems(2)] by simp
  then obtain u where u: "u \<in> set action_line" "action_place u = action_place s + n"
    using action_line_place by blast
  have "rtranclp CanTransitionActionStatus s u" by (rule Suc.IH [OF Suc.prems(1) u])
  moreover have "action_open u"
    using action_place_open [OF u(1)] action_place_less [OF Suc.prems(2)] Suc.prems(3) u(2) by simp
  then have "CanTransitionActionStatus u t"
    using action_step [of u t] u Suc.prems by (simp add: validActionStatus_iff)
  ultimately show ?case by (rule rtranclp.rtrancl_into_rtrancl)
qed

lemma action_reach_trans:
  assumes "action_reach s t" "validActionStatus t" "CanTransitionActionStatus t u"
  shows "action_reach s u"
proof -
  have "\<not> action_open ''failed''" by (simp add: action_line_defs)
  with assms action_step [OF assms(2), of u] show ?thesis by (auto simp: action_reach_def)
qed

lemma action_step_valid: "CanTransitionActionStatus s t \<Longrightarrow> validActionStatus s \<and> validActionStatus t"
  by (auto simp: CanTransitionActionStatus_def split: if_splits)

lemma action_reachable:
  assumes "validActionStatus s"
  shows "rtranclp CanTransitionActionStatus s t \<longleftrightarrow> action_reach s t"
proof
  assume "rtranclp CanTransitionActionStatus s t"
  then have "action_reach s t \<and> validActionStatus t"
  proof (induction rule: rtranclp_induct)
    case base
    then show ?case using assms by (simp add: action_reach_def)
  next
    case (step t u)
    then show ?case using action_reach_trans action_step_valid by blast
  qed
  then show "action_reach s t" ..
next
  assume r: "action_reach s t"
  show "rtranclp CanTransitionActionStatus s t"
  proof (cases "s = t")
    case False
    with r have o: "action_open s" "s \<in> set action_line"
      by (auto simp: action_reach_def action_open_def)
    show ?thesis
    proof (cases "t = ''failed''")
      case True
      with o(1) show ?thesis using action_step [OF assms, of t] by auto
    next
      case no: False
      with False r have t: "t \<in> set action_line" "action_place s < action_place t"
        by (auto simp: action_reach_def)
      with action_advance [OF o(2) t(1), of "action_place t - action_place s"] show ?thesis by simp
    qed
  qed simp
qed

subsection \<open>What the scan looks for\<close>

lemma phone_here_iff:
  "phone_here rs \<longleftrightarrow> (\<exists>d b. rs = d @ b \<and> length d = 11 \<and> list_all digit_rune d \<and> hd d \<noteq> 48 \<and>
     (b = [] \<or> \<not> digit_rune (hd b)))"
proof
  assume p: "phone_here rs"
  have "rs = take 11 rs @ drop 11 rs" by simp
  moreover have "hd (take 11 rs) = hd rs" by simp
  ultimately show "\<exists>d b. rs = d @ b \<and> length d = 11 \<and> list_all digit_rune d \<and> hd d \<noteq> 48 \<and>
     (b = [] \<or> \<not> digit_rune (hd b))"
    using p by (intro exI [of _ "take 11 rs"] exI [of _ "drop 11 rs"])
      (auto simp: phone_here_def split: list.splits)
next
  assume "\<exists>d b. rs = d @ b \<and> length d = 11 \<and> list_all digit_rune d \<and> hd d \<noteq> 48 \<and>
     (b = [] \<or> \<not> digit_rune (hd b))"
  then obtain d b where d: "rs = d @ b" "length d = 11" "list_all digit_rune d" "hd d \<noteq> 48"
    "b = [] \<or> \<not> digit_rune (hd b)" by blast
  moreover from d have "hd rs = hd d" by (cases d) auto
  ultimately show "phone_here rs" by (simp add: phone_here_def split: list.split) auto
qed

lemma phone_after_iff:
  "phone_after_boundary rs \<longleftrightarrow> (\<exists>a r b. rs = a @ r # b \<and> \<not> digit_rune r \<and> phone_here b)"
proof (induction rs)
  case (Cons r rs)
  have "(\<exists>a q b. r # rs = a @ q # b \<and> \<not> digit_rune q \<and> phone_here b) \<longleftrightarrow>
      (\<not> digit_rune r \<and> phone_here rs) \<or> (\<exists>a q b. rs = a @ q # b \<and> \<not> digit_rune q \<and> phone_here b)"
    by (auto simp: Cons_eq_append_conv)
  with Cons.IH show ?case by simp
qed simp

text \<open>Eleven digits in a row, the first not zero, with no digit before or after them.\<close>

definition phone_inside :: "rune list \<Rightarrow> bool" where
  "phone_inside rs \<longleftrightarrow> (\<exists>a d b. rs = a @ d @ b \<and> length d = 11 \<and> list_all digit_rune d \<and> hd d \<noteq> 48 \<and>
     (a = [] \<or> \<not> digit_rune (last a)) \<and> (b = [] \<or> \<not> digit_rune (hd b)))"

lemma phone_number_iff: "phone_number s \<longleftrightarrow> phone_inside (runes s)"
proof
  assume "phone_number s"
  then consider "phone_here (runes s)" | a r b where "runes s = a @ r # b" "\<not> digit_rune r" "phone_here b"
    by (auto simp: phone_number_def phone_after_iff)
  then show "phone_inside (runes s)"
  proof cases
    case 1
    then show ?thesis unfolding phone_inside_def phone_here_iff by - (rule exI [of _ "[]"], simp)
  next
    case (2 a r b)
    then show ?thesis unfolding phone_inside_def phone_here_iff by - (rule exI [of _ "a @ [r]"], auto)
  qed
next
  assume "phone_inside (runes s)"
  then obtain a d b where d: "runes s = a @ d @ b" "a = [] \<or> \<not> digit_rune (last a)"
    and e: "length d = 11 \<and> list_all digit_rune d \<and> hd d \<noteq> 48 \<and> (b = [] \<or> \<not> digit_rune (hd b))"
    unfolding phone_inside_def by blast
  from e have p: "phone_here (d @ b)" unfolding phone_here_iff by blast
  show "phone_number s"
  proof (cases a rule: rev_cases)
    case Nil
    with d p show ?thesis by (simp add: phone_number_def)
  next
    case (snoc a' r)
    with d have "runes s = a' @ r # (d @ b)" "\<not> digit_rune r" by simp_all
    with p show ?thesis unfolding phone_number_def phone_after_iff by blast
  qed
qed

lemma forbidden_value_iff:
  "forbidden_value v \<longleftrightarrow>
     (\<exists>ps key child. inside (JObject ps) v \<and> (key, child) \<in> set ps \<and> forbidden_entry key child) \<or>
     (\<exists>s. inside (JString s) v \<and> forbidden_text s)"
proof (induction v)
  case (JObject ps)
  let ?bad = "\<lambda>w. (\<exists>qs k c. inside (JObject qs) w \<and> (k, c) \<in> set qs \<and> forbidden_entry k c) \<or>
     (\<exists>s. inside (JString s) w \<and> forbidden_text s)"
  have IH: "forbidden_value child \<longleftrightarrow> ?bad child" if "(key, child) \<in> set ps" for key child
    using JObject.IH [OF that, of child] by simp
  have "forbidden_value (JObject ps) \<longleftrightarrow>
      (\<exists>key child. (key, child) \<in> set ps \<and> (forbidden_entry key child \<or> forbidden_value child))"
    by (auto simp: list_ex_iff)
  also have "\<dots> \<longleftrightarrow> (\<exists>key child. (key, child) \<in> set ps \<and> (forbidden_entry key child \<or> ?bad child))"
    using IH by (intro ex_cong1 conj_cong refl) simp
  finally show ?case by (simp only: inside_simps json.distinct) blast
next
  case (JArray vs)
  then show ?case by (simp add: list_ex_iff inside_simps) blast
qed (simp_all add: inside_simps)

subsection \<open>Properties\<close>

text \<open>Nothing excluded hides in a record of the operation cycle: a raw payload passes the scan
  exactly when it is empty or parses to a value in which, at any depth, no object has a forbidden
  key or announces an external effect, and no string holds a local path, a file address, an
  e-mail address or eleven digits in a row, the first not zero, between non-digits; every payload of a
  validated strategy, run, action or proposal has passed it.\<close>

lemma cycle_scan_complete:
  "(\<not> forbidden_raw item \<longleftrightarrow> item = [] \<or>
     (\<exists>v. unmarshal_any item = Some v \<and>
        (\<forall>ps key child. inside (JObject ps) v \<and> (key, child) \<in> set ps \<longrightarrow> \<not> forbidden_entry key child) \<and>
        (\<forall>s. inside (JString s) v \<longrightarrow> \<not> contains_str s ''/Users/'' \<and> \<not> has_prefix s ''file://'' \<and>
           \<not> phone_inside (runes s) \<and> \<not> email_address s))) \<and>
   (ValidateStrategy st = None \<longrightarrow> \<not> forbidden_raw (str_Definition st) \<and> \<not> forbidden_raw (str_Snapshot st)) \<and>
   (ValidateRun rn = None \<longrightarrow> \<not> forbidden_raw (cyr_Snapshot rn)) \<and>
   (ValidateAction ac = None \<longrightarrow> \<not> forbidden_raw (acr_FinalResult ac)) \<and>
   (ValidateProposal pr = None \<longrightarrow> \<not> forbidden_raw (prp_Payload pr))"
proof (intro conjI)
  have "\<not> forbidden_raw item \<longleftrightarrow> item = [] \<or> (\<exists>v. unmarshal_any item = Some v \<and> \<not> forbidden_value v)"
    by (cases "unmarshal_any item") (auto simp: forbidden_raw_def)
  then show "\<not> forbidden_raw item \<longleftrightarrow> item = [] \<or>
     (\<exists>v. unmarshal_any item = Some v \<and>
        (\<forall>ps key child. inside (JObject ps) v \<and> (key, child) \<in> set ps \<longrightarrow> \<not> forbidden_entry key child) \<and>
        (\<forall>s. inside (JString s) v \<longrightarrow> \<not> contains_str s ''/Users/'' \<and> \<not> has_prefix s ''file://'' \<and>
           \<not> phone_inside (runes s) \<and> \<not> email_address s))"
    by (simp only: forbidden_value_iff forbidden_text_def phone_number_iff de_Morgan_disj not_ex) blast
qed (auto simp: ValidateStrategy_def ValidateRun_def ValidateAction_def ValidateProposal_def split: if_splits)

lemma cycle_scan_complete_witness:
  "\<not> forbidden_raw (''['' @ [CHR 0x22] @ ''ok'' @ [CHR 0x22] @ '']'')"
proof -
  let ?i = "''['' @ [CHR 0x22] @ ''ok'' @ [CHR 0x22] @ '']''"
  have "unmarshal_any ?i = Some (JArray [JString ''ok''])" by code_simp
  moreover have "\<not> contains_str ''ok'' ''/Users/''" "\<not> has_prefix ''ok'' ''file://''"
    "\<not> email_address ''ok''" by code_simp+
  moreover have "\<not> phone_inside (runes ''ok'')" by (auto simp: phone_inside_def dest!: arg_cong [where f = length])
  ultimately show ?thesis
    by (intro cycle_scan_complete [THEN conjunct1, THEN iffD2] disjI2 exI [of _ "JArray [JString ''ok'']"])
      (simp add: inside_simps)
qed

text \<open>The life of an action: from a valid status a chain of allowed transitions reaches exactly
  the later places of the line queued, claimed, thread bound, turn started, completed, and failure
  from any place but the last; completed and failed are final, and a validated action carries a
  completion time exactly when it is in one of them.\<close>

lemma action_life_cycle:
  assumes "validActionStatus s"
  shows "(rtranclp CanTransitionActionStatus s t \<longleftrightarrow> s = t \<or>
      (s \<in> set action_line \<and> s \<noteq> ''completed'' \<and>
       (t = ''failed'' \<or> (t \<in> set action_line \<and> action_place s < action_place t)))) \<and>
    (\<forall>u. s \<in> {''completed'', ''failed''} \<and> rtranclp CanTransitionActionStatus s u \<longrightarrow> u = s) \<and>
    (ValidateAction v = None \<and> acr_Status v = s \<longrightarrow>
       (acr_CompletedAt v \<noteq> None \<longleftrightarrow> s \<in> {''completed'', ''failed''}))"
proof (intro conjI allI impI)
  show "rtranclp CanTransitionActionStatus s t \<longleftrightarrow> s = t \<or>
      (s \<in> set action_line \<and> s \<noteq> ''completed'' \<and>
       (t = ''failed'' \<or> (t \<in> set action_line \<and> action_place s < action_place t)))"
    by (simp only: action_reachable [OF assms] action_reach_def action_open_def conj_assoc)
  fix u assume u: "s \<in> {''completed'', ''failed''} \<and> rtranclp CanTransitionActionStatus s u"
  then have "action_reach s u" using action_reachable [OF assms] by blast
  moreover have "\<not> action_open s" using u by (auto simp: action_line_defs)
  ultimately show "u = s" by (auto simp: action_reach_def)
next
  assume v: "ValidateAction v = None \<and> acr_Status v = s"
  then show "acr_CompletedAt v \<noteq> None \<longleftrightarrow> s \<in> {''completed'', ''failed''}"
    by (auto simp: ValidateAction_def split: if_splits option.splits)
qed

lemma action_life_cycle_witness:
  "rtranclp CanTransitionActionStatus ''queued'' ''completed'' \<and>
   \<not> rtranclp CanTransitionActionStatus ''claimed'' ''queued''"
proof -
  have "validActionStatus ''queued''" "validActionStatus ''claimed''" by (simp_all add: validActionStatus_def)
  from action_life_cycle [OF this(1), of "''completed''"] action_life_cycle [OF this(2), of "''queued''"]
  show ?thesis by (simp add: action_line_defs)
qed

end
