(* ===== verification/Channel.thy ===== *)
theory Channel
  imports GoStrings
begin

text \<open>
  \<open>internal/channel/domain\<close>: the catalog of acquisition channels with their versioned
  updates and the assignment of staff, the resolution of a registered state, and the
  templates of welcome messages.  \<open>url.Parse\<close>, whose treatment of hosts differs between
  releases of the library, is the argument \<open>parse\<close> of the definitions that reach it: the
  theorems hold for any such function.
\<close>

datatype channel_error =
  InvalidChannel | InvalidAssignment | ImmutableCode | VersionConflict | InvalidWelcomeTemplate
| WelcomeMessageTooLong | InvalidChannelTemplate

text \<open>\<open>InvalidChannelTemplate\<close> is the join of \<open>InvalidChannel\<close> and \<open>InvalidWelcomeTemplate\<close>.\<close>

datatype channel_type = ChannelQRCode | ChannelAcquisition | ChannelTypeOther string
datatype carrier_type = CarrierQRCode | CarrierLink | CarrierOther string
datatype channel_status = StatusActive | StatusInactive | StatusArchived | ChannelStatusOther string
datatype assignment_mode = AssignmentSingle | AssignmentMulti | AssignmentModeOther string
datatype assignment_strategy = StrategyRatio | StrategyCapSwitch | StrategyOther string

definition MaximumAssignees :: nat where "MaximumAssignees = 5"
definition MaximumMediaItems :: nat where "MaximumMediaItems = 12"

record media_references =
  med_Images :: "int list"
  med_MiniPrograms :: "int list"
  med_Attachments :: "int list"
  med_GroupInvites :: "int list"

record assignee =
  asg_StaffID :: int
  asg_Priority :: int
  asg_Ratio :: int
  asg_MaxScans24h :: int

record assignment =
  asn_Mode :: assignment_mode
  asn_Strategy :: assignment_strategy
  asn_OverflowPolicy :: string
  asn_Assignees :: "assignee list"

record channel_config =
  ccf_Type :: channel_type
  ccf_Carrier :: carrier_type
  ccf_Name :: string
  ccf_SceneValue :: string
  ccf_QRCodeURL :: string
  ccf_CustomerChannel :: string
  ccf_LinkURL :: string
  ccf_FinalURL :: string
  ccf_WelcomeMessage :: string
  ccf_Media :: media_references
  ccf_AutoAcceptFriend :: bool
  ccf_EntryTagID :: int
  ccf_EntryTagName :: string
  ccf_EntryTagGroupName :: string
  ccf_Assignment :: assignment

record channel =
  chn_ID :: int
  chn_Code :: string
  chn_Status :: channel_status
  chn_Config :: channel_config
  chn_ConfigVersion :: int
  chn_Version :: int
  chn_CreatedAt :: go_time
  chn_UpdatedAt :: go_time

record create_channel =
  crc_Code :: string
  crc_Status :: channel_status
  crc_Config :: channel_config

record update_channel =
  upc_ExpectedVersion :: int
  upc_Code :: string
  upc_Status :: channel_status
  upc_Config :: channel_config

text \<open>What the code reads of a parsed URL: the last component tells whether a user is given.\<close>

record parsed_url =
  url_Scheme :: string
  url_Host :: string
  url_HasUser :: bool
  url_Fragment :: string

subsection \<open>Welcome messages\<close>

text \<open>The marker is two braces, three Chinese characters (\<open>customer name\<close>) and two braces, in UTF-8;
  the fallback name is two characters (\<open>friend\<close>).\<close>

definition WelcomeCustomerNameVariable :: string where
  "WelcomeCustomerNameVariable = ''{{'' @ [CHR 0xE5, CHR 0xAE, CHR 0xA2, CHR 0xE6, CHR 0x88, CHR 0xB7,
     CHR 0xE5, CHR 0x90, CHR 0x8D] @ ''}}''"

definition WelcomeCustomerNameFallback :: string where
  "WelcomeCustomerNameFallback = [CHR 0xE6, CHR 0x9C, CHR 0x8B, CHR 0xE5, CHR 0x8F, CHR 0x8B]"

definition WelcomeMessageMaxRunes :: nat where "WelcomeMessageMaxRunes = 4000"

definition ValidateWelcomeMessageTemplate :: "string \<Rightarrow> channel_error option" where
  "ValidateWelcomeMessageTemplate message =
     (let remaining = replace_all WelcomeCustomerNameVariable [] message in
      if contains_str remaining ''{{'' \<or> contains_str remaining ''}}'' then Some InvalidWelcomeTemplate
      else None)"

definition RenderWelcomeMessage :: "string \<Rightarrow> string \<Rightarrow> (channel_error, string) result" where
  "RenderWelcomeMessage template displayName =
     (case ValidateWelcomeMessageTemplate template of
        Some e \<Rightarrow> Inl e
      | None \<Rightarrow>
          let name = (if trim_space displayName = [] then WelcomeCustomerNameFallback else displayName)
          in Inr (replace_all WelcomeCustomerNameVariable name template))"

definition ValidateRenderedWelcomeMessage :: "string \<Rightarrow> channel_error option" where
  "ValidateRenderedWelcomeMessage message =
     (if \<not> valid_utf8 message \<or> rune_count message > WelcomeMessageMaxRunes
      then Some WelcomeMessageTooLong else None)"

subsection \<open>Fields\<close>

definition validOptionalText :: "string \<Rightarrow> nat \<Rightarrow> bool" where
  "validOptionalText value maximum \<longleftrightarrow> valid_utf8 value \<and> value = trim_space value \<and>
     rune_count value \<le> maximum"

definition Channel_validText :: "string \<Rightarrow> nat \<Rightarrow> bool" where
  "Channel_validText value maximum \<longleftrightarrow> value \<noteq> [] \<and> validOptionalText value maximum"

definition validOptionalOpaque :: "string \<Rightarrow> nat \<Rightarrow> bool" where
  "validOptionalOpaque value maximum \<longleftrightarrow> value = [] \<or>
     (Channel_validText value maximum \<and> \<not> contains_str value ''://'')"

definition validOptionalHTTPS :: "(string \<Rightarrow> parsed_url option) \<Rightarrow> string \<Rightarrow> bool" where
  "validOptionalHTTPS parse value =
     (if value = [] then True
      else if \<not> Channel_validText value 10000 then False
      else case parse value of
          None \<Rightarrow> False
        | Some u \<Rightarrow> url_Scheme u = ''https'' \<and> url_Host u \<noteq> [] \<and> \<not> url_HasUser u \<and> url_Fragment u = [])"

fun ids_loop :: "int set \<Rightarrow> int list \<Rightarrow> bool" where
  "ids_loop seen [] = True"
| "ids_loop seen (v # vs) = (if v < 1 then False else if v \<in> seen then False else ids_loop (insert v seen) vs)"

definition validIDs :: "int list \<Rightarrow> bool" where
  "validIDs values = (if length values > MaximumMediaItems then False else ids_loop {} values)"

definition validMedia :: "media_references \<Rightarrow> bool" where
  "validMedia m \<longleftrightarrow> validIDs (med_Images m) \<and> validIDs (med_MiniPrograms m) \<and>
     validIDs (med_Attachments m) \<and> validIDs (med_GroupInvites m)"

definition validTypeCarrier :: "channel_type \<Rightarrow> carrier_type \<Rightarrow> bool" where
  "validTypeCarrier t c \<longleftrightarrow> (t = ChannelQRCode \<and> c = CarrierQRCode) \<or> (t = ChannelAcquisition \<and> c = CarrierLink)"

definition Channel_validStatus :: "channel_status \<Rightarrow> bool" where
  "Channel_validStatus s \<longleftrightarrow> s = StatusActive \<or> s = StatusInactive \<or> s = StatusArchived"

definition validEntryTag :: "channel_config \<Rightarrow> bool" where
  "validEntryTag c =
     (if ccf_EntryTagID c = 0 then ccf_EntryTagName c = [] \<and> ccf_EntryTagGroupName c = []
      else ccf_EntryTagID c > 0 \<and> Channel_validText (ccf_EntryTagName c) 200 \<and>
           Channel_validText (ccf_EntryTagGroupName c) 200)"

text \<open>The pattern for codes: a letter or digit, then at most 199 more of these, dots, underscores,
  colons or hyphens.\<close>

definition alphanumeric :: "char \<Rightarrow> bool" where
  "alphanumeric c \<longleftrightarrow> (let b = (of_char c :: nat) in
     (97 \<le> b \<and> b \<le> 122) \<or> (65 \<le> b \<and> b \<le> 90) \<or> (48 \<le> b \<and> b \<le> 57))"

definition opaque_code :: "string \<Rightarrow> bool" where
  "opaque_code s = (case s of
       [] \<Rightarrow> False
     | c # t \<Rightarrow> alphanumeric c \<and> length t \<le> 199 \<and>
         list_all (\<lambda>d. alphanumeric d \<or> d \<in> {CHR ''.'', CHR ''_'', CHR '':'', CHR ''-''}) t)"

subsection \<open>Assignment\<close>

text \<open>The loop over the assignees; it returns the sum of the ratios.  An \<open>int\<close> has 64 bits.\<close>

fun assignees_loop ::
  "assignment_strategy \<Rightarrow> int set \<Rightarrow> int \<Rightarrow> int \<Rightarrow> assignee list \<Rightarrow> (channel_error, int) result" where
  "assignees_loop strategy seen ratio index [] = Inr ratio"
| "assignees_loop strategy seen ratio index (a # as) =
     (if asg_StaffID a < 1 \<or> asg_Priority a \<noteq> index + 1 then Inl InvalidAssignment
      else if asg_StaffID a \<in> seen then Inl InvalidAssignment
      else case strategy of
          StrategyRatio \<Rightarrow>
            if asg_Ratio a < 1 \<or> asg_Ratio a > 100 \<or> asg_MaxScans24h a \<noteq> 0 then Inl InvalidAssignment
            else assignees_loop strategy (insert (asg_StaffID a) seen)
                   (wrap64 (ratio + asg_Ratio a)) (index + 1) as
        | StrategyCapSwitch \<Rightarrow>
            if asg_MaxScans24h a < 1 \<or> asg_Ratio a \<noteq> 0 then Inl InvalidAssignment
            else assignees_loop strategy (insert (asg_StaffID a) seen) ratio (index + 1) as
        | StrategyOther _ \<Rightarrow> assignees_loop strategy (insert (asg_StaffID a) seen) ratio (index + 1) as)"

definition ValidateAssignment :: "assignment \<Rightarrow> channel_error option" where
  "ValidateAssignment a =
     (if (asn_Mode a \<noteq> AssignmentSingle \<and> asn_Mode a \<noteq> AssignmentMulti) \<or>
         (asn_Strategy a \<noteq> StrategyRatio \<and> asn_Strategy a \<noteq> StrategyCapSwitch) \<or>
         \<not> validOptionalOpaque (asn_OverflowPolicy a) 128 \<or> length (asn_Assignees a) < 1 \<or>
         length (asn_Assignees a) > MaximumAssignees \<or>
         (asn_Mode a = AssignmentSingle \<and> length (asn_Assignees a) \<noteq> 1)
      then Some InvalidAssignment
      else case assignees_loop (asn_Strategy a) {} 0 0 (asn_Assignees a) of
          Inl e \<Rightarrow> Some e
        | Inr ratio \<Rightarrow>
            if asn_Strategy a = StrategyRatio \<and> ratio \<noteq> 100 then Some InvalidAssignment else None)"

subsection \<open>Channels\<close>

definition ValidateConfig :: "(string \<Rightarrow> parsed_url option) \<Rightarrow> channel_config \<Rightarrow> channel_error option" where
  "ValidateConfig parse c =
     (if \<not> Channel_validText (ccf_Name c) 200 \<or> \<not> validOptionalText (ccf_SceneValue c) 10000 \<or>
         \<not> validOptionalText (ccf_CustomerChannel c) 10000 \<or>
         \<not> validOptionalText (ccf_WelcomeMessage c) 10000 \<or>
         \<not> validOptionalHTTPS parse (ccf_QRCodeURL c) \<or> \<not> validOptionalHTTPS parse (ccf_LinkURL c) \<or>
         \<not> validOptionalHTTPS parse (ccf_FinalURL c) \<or> \<not> validTypeCarrier (ccf_Type c) (ccf_Carrier c) \<or>
         \<not> validMedia (ccf_Media c) \<or> \<not> validEntryTag c \<or> ValidateAssignment (ccf_Assignment c) \<noteq> None
      then Some InvalidChannel
      else case ValidateWelcomeMessageTemplate (ccf_WelcomeMessage c) of
          Some e \<Rightarrow> Some InvalidChannelTemplate
        | None \<Rightarrow> None)"

definition ValidateChannel :: "(string \<Rightarrow> parsed_url option) \<Rightarrow> channel \<Rightarrow> channel_error option" where
  "ValidateChannel parse c =
     (if \<not> opaque_code (chn_Code c) \<or> \<not> Channel_validStatus (chn_Status c) \<or> chn_ConfigVersion c < 1 \<or>
         chn_Version c < 1 \<or> is_zero (chn_CreatedAt c) \<or> is_zero (chn_UpdatedAt c) \<or>
         before (chn_UpdatedAt c) (chn_CreatedAt c)
      then Some InvalidChannel
      else ValidateConfig parse (chn_Config c))"

definition NewChannel ::
  "(string \<Rightarrow> parsed_url option) \<Rightarrow> create_channel \<Rightarrow> go_time \<Rightarrow> (channel_error, channel) result" where
  "NewChannel parse command now =
     (let c = \<lparr>chn_ID = 0, chn_Code = crc_Code command, chn_Status = crc_Status command,
          chn_Config = crc_Config command, chn_ConfigVersion = 1, chn_Version = 1,
          chn_CreatedAt = utc now, chn_UpdatedAt = utc now\<rparr> in
      case ValidateChannel parse c of Some e \<Rightarrow> Inl e | None \<Rightarrow> Inr c)"

definition Channel_Update ::
  "(string \<Rightarrow> parsed_url option) \<Rightarrow> channel \<Rightarrow> update_channel \<Rightarrow> go_time \<Rightarrow> (channel_error, channel) result" where
  "Channel_Update parse c command now =
     (if chn_Version c < 1 \<or> upc_ExpectedVersion command \<noteq> chn_Version c then Inl VersionConflict
      else if upc_Code command \<noteq> chn_Code c then Inl ImmutableCode
      else let d = c\<lparr>chn_Status := upc_Status command, chn_Config := upc_Config command,
             chn_ConfigVersion := wrap64 (chn_ConfigVersion c + 1),
             chn_Version := wrap64 (chn_Version c + 1), chn_UpdatedAt := utc now\<rparr> in
      case ValidateChannel parse d of Some e \<Rightarrow> Inl e | None \<Rightarrow> Inr d)"

definition CanPublish :: "(string \<Rightarrow> parsed_url option) \<Rightarrow> channel \<Rightarrow> bool" where
  "CanPublish parse c \<longleftrightarrow> chn_Status c = StatusActive \<and> ValidateChannel parse c = None"

subsection \<open>Resolving a registered state\<close>

datatype resolution_status = StateAttributed | StateUnmatched | StateAmbiguous | ResolutionOther string

record acquisition_asset =
  aqa_ChannelID :: int
  aqa_Kind :: string
  aqa_AssetVersion :: int

definition AcquisitionAsset_Valid :: "acquisition_asset \<Rightarrow> bool" where
  "AcquisitionAsset_Valid a \<longleftrightarrow> aqa_ChannelID a > 0 \<and> aqa_AssetVersion a > 0 \<and>
     (aqa_Kind a = ''qrcode'' \<or> aqa_Kind a = ''link'')"

record state_resolution =
  srs_Status :: resolution_status
  srs_Asset :: acquisition_asset

definition StateResolution_Valid :: "state_resolution \<Rightarrow> bool" where
  "StateResolution_Valid r = (case srs_Status r of
       StateAttributed \<Rightarrow> AcquisitionAsset_Valid (srs_Asset r)
     | StateUnmatched \<Rightarrow> srs_Asset r = \<lparr>aqa_ChannelID = 0, aqa_Kind = [], aqa_AssetVersion = 0\<rparr>
     | StateAmbiguous \<Rightarrow> srs_Asset r = \<lparr>aqa_ChannelID = 0, aqa_Kind = [], aqa_AssetVersion = 0\<rparr>
     | ResolutionOther _ \<Rightarrow> False)"

subsection \<open>Replacing the marker\<close>

text \<open>The text between the occurrences of a pattern, found from the left.\<close>

function split_on :: "string \<Rightarrow> string \<Rightarrow> string list" where
  "split_on old s =
     (if old = [] \<or> s = [] then [s]
      else if prefix old s then [] # split_on old (drop (length old) s)
      else (case split_on old (tl s) of p # ps \<Rightarrow> (hd s # p) # ps | [] \<Rightarrow> []))"
  by pat_completeness auto
termination
  by (relation "measure (\<lambda>(old, s). length s)") auto

declare split_on.simps [simp del]

lemma split_on_nonempty [simp]: "split_on old s \<noteq> []"
  by (induction old s rule: split_on.induct) (subst split_on.simps, auto split: list.split)

lemma join_Cons [simp]: "join sep (p # q # ps) = p @ sep @ join sep (q # ps)"
  by (simp add: join_def)

lemma join_single [simp]: "join sep [p] = p"
  by (simp add: join_def)

lemma join_push: "join sep ((c # p) # ps) = c # join sep (p # ps)"
  by (cases ps) simp_all

lemma replace_all_pieces: "old \<noteq> [] \<Longrightarrow> replace_all old new s = join new (split_on old s)"
proof (induction old new s rule: replace_all.induct)
  case (1 old new s)
  show ?case
  proof (cases "s = []")
    case True
    then show ?thesis by (simp add: replace_all.simps [of old] split_on.simps [of old])
  next
    case False
    show ?thesis
    proof (cases "prefix old s")
      case True
      have "replace_all old new (drop (length old) s) = join new (split_on old (drop (length old) s))"
        using 1 False True by simp
      moreover obtain q qs where "split_on old (drop (length old) s) = q # qs"
        by (cases "split_on old (drop (length old) s)") auto
      ultimately show ?thesis
        using False True "1.prems" by (simp add: replace_all.simps [of old new s] split_on.simps [of old s])
    next
      case no: False
      have "replace_all old new (tl s) = join new (split_on old (tl s))" using 1 False no by simp
      moreover obtain q qs where "split_on old (tl s) = q # qs" by (cases "split_on old (tl s)") auto
      ultimately show ?thesis
        using False no "1.prems"
        by (simp add: replace_all.simps [of old new s] split_on.simps [of old s] join_push)
    qed
  qed
qed

lemma replace_all_same: "new = old \<Longrightarrow> replace_all old new s = s"
proof (induction old new s rule: replace_all.induct)
  case (1 old new s)
  show ?case
  proof (cases "old = [] \<or> s = []")
    case True
    then show ?thesis by (subst replace_all.simps) simp
  next
    case False
    show ?thesis
    proof (cases "prefix old s")
      case True
      then have "old @ drop (length old) s = s" by (auto simp: prefix_def)
      with 1 False True show ?thesis by (subst replace_all.simps) simp
    next
      case no: False
      with 1 False show ?thesis by (subst replace_all.simps) simp
    qed
  qed
qed

lemma join_pieces: "old \<noteq> [] \<Longrightarrow> join old (split_on old s) = s"
  using replace_all_pieces [of old old s] replace_all_same [of old old s] by simp

lemma join_empty: "join [] ps = concat ps"
  by (cases ps) (simp_all add: join_def map_idI)

lemma marker_nonempty [simp]: "WelcomeCustomerNameVariable \<noteq> []"
  by (simp add: WelcomeCustomerNameVariable_def)

lemma template_pieces:
  "ValidateWelcomeMessageTemplate t = None \<longleftrightarrow>
     \<not> contains_str (concat (split_on WelcomeCustomerNameVariable t)) ''{{'' \<and>
     \<not> contains_str (concat (split_on WelcomeCustomerNameVariable t)) ''}}''"
  by (simp add: ValidateWelcomeMessageTemplate_def Let_def replace_all_pieces join_empty)

subsection \<open>Assignments\<close>

definition assignee_ok :: "assignment_strategy \<Rightarrow> assignee \<Rightarrow> bool" where
  "assignee_ok s a \<longleftrightarrow> 1 \<le> asg_StaffID a \<and>
     (s = StrategyRatio \<longrightarrow> 1 \<le> asg_Ratio a \<and> asg_Ratio a \<le> 100 \<and> asg_MaxScans24h a = 0) \<and>
     (s = StrategyCapSwitch \<longrightarrow> 1 \<le> asg_MaxScans24h a \<and> asg_Ratio a = 0)"

lemma assignees_step:
  "assignees_loop s seen r i (a # as) =
     (if assignee_ok s a \<and> asg_Priority a = i + 1 \<and> asg_StaffID a \<notin> seen
      then assignees_loop s (insert (asg_StaffID a) seen)
        (if s = StrategyRatio then wrap64 (r + asg_Ratio a) else r) (i + 1) as
      else Inl InvalidAssignment)"
  by (cases s) (auto simp: assignee_ok_def)

lemma assignees_exact:
  assumes "0 \<le> r" "r + 100 * int (length as) < 2 ^ 63"
  shows "assignees_loop s seen r i as = Inr x \<longleftrightarrow>
    (\<forall>a \<in> set as. assignee_ok s a) \<and> map asg_Priority as = map (\<lambda>k. i + 1 + int k) [0..<length as] \<and>
    distinct (map asg_StaffID as) \<and> asg_StaffID ` set as \<inter> seen = {} \<and>
    x = r + (if s = StrategyRatio then sum_list (map asg_Ratio as) else 0)"
  using assms
proof (induction as arbitrary: seen r i)
  case Nil
  then show ?case by auto
next
  case (Cons a as)
  let ?r = "if s = StrategyRatio then wrap64 (r + asg_Ratio a) else r"
  let ?head = "assignee_ok s a \<and> asg_Priority a = i + 1 \<and> asg_StaffID a \<notin> seen"
  have upt: "map (\<lambda>k. i + 1 + int k) [0..<length (a # as)] =
      (i + 1) # map (\<lambda>k. i + 1 + 1 + int k) [0..<length as]"
    by (simp only: length_Cons upt_conv_Cons zero_less_Suc map_Suc_upt [symmetric])
       (simp add: comp_def)
  show ?case
  proof (cases ?head)
    case False
    then show ?thesis unfolding assignees_step upt by auto
  next
    case True
    have w: "wrap64 (r + asg_Ratio a) = r + asg_Ratio a" if "s = StrategyRatio"
      using True that Cons.prems by (intro wrap64_id) (simp add: assignee_ok_def in64_def)
    have b: "0 \<le> ?r" "?r + 100 * int (length as) < 2 ^ 63"
      using True Cons.prems w by (auto simp: assignee_ok_def)
    have "assignees_loop s seen r i (a # as) = Inr x \<longleftrightarrow>
        assignees_loop s (insert (asg_StaffID a) seen) ?r (i + 1) as = Inr x"
      using True by (simp only: assignees_step if_True simp_thms)
    also have "\<dots> \<longleftrightarrow> (\<forall>a \<in> set as. assignee_ok s a) \<and>
        map asg_Priority as = map (\<lambda>k. i + 1 + 1 + int k) [0..<length as] \<and>
        distinct (map asg_StaffID as) \<and> asg_StaffID ` set as \<inter> insert (asg_StaffID a) seen = {} \<and>
        x = ?r + (if s = StrategyRatio then sum_list (map asg_Ratio as) else 0)"
      by (rule Cons.IH [OF b])
    also have "\<dots> \<longleftrightarrow> (\<forall>b \<in> set (a # as). assignee_ok s b) \<and>
        map asg_Priority (a # as) = map (\<lambda>k. i + 1 + int k) [0..<length (a # as)] \<and>
        distinct (map asg_StaffID (a # as)) \<and> asg_StaffID ` set (a # as) \<inter> seen = {} \<and>
        x = r + (if s = StrategyRatio then sum_list (map asg_Ratio (a # as)) else 0)"
      unfolding upt using True w by auto
    finally show ?thesis .
  qed
qed

subsection \<open>Updates\<close>

type_synonym channel_cmd = "update_channel \<times> go_time"

definition apply_channel ::
  "(string \<Rightarrow> parsed_url option) \<Rightarrow> channel \<Rightarrow> channel_cmd \<Rightarrow> (channel_error, channel) result" where
  "apply_channel parse c cmd = Channel_Update parse c (fst cmd) (snd cmd)"

lemma Channel_Update_post:
  "post (\<lambda>d. upc_ExpectedVersion u = chn_Version c \<and> ValidateChannel parse d = None \<and>
      chn_Version d = wrap64 (chn_Version c + 1) \<and> chn_ConfigVersion d = wrap64 (chn_ConfigVersion c + 1) \<and>
      chn_ID d = chn_ID c \<and> chn_Code d = chn_Code c \<and> chn_CreatedAt d = chn_CreatedAt c \<and>
      chn_Config d = upc_Config u \<and> chn_Status d = upc_Status u \<and> 1 \<le> chn_Version d \<and> 1 \<le> chn_ConfigVersion d)
     (Channel_Update parse c u now)"
  by (auto simp: Channel_Update_def Let_def ValidateChannel_def split: option.split)

lemma apply_channel_step:
  assumes "apply_channel parse c cmd = Inr d"
  shows "upc_ExpectedVersion (fst cmd) = chn_Version c \<and> ValidateChannel parse d = None \<and>
      chn_Version d = wrap64 (chn_Version c + 1) \<and> chn_ConfigVersion d = wrap64 (chn_ConfigVersion c + 1) \<and>
      chn_ID d = chn_ID c \<and> chn_Code d = chn_Code c \<and> chn_CreatedAt d = chn_CreatedAt c \<and>
      1 \<le> chn_Version d \<and> 1 \<le> chn_ConfigVersion d"
  using postD [OF Channel_Update_post assms [unfolded apply_channel_def]] by blast

interpretation channel: versioned_commands "apply_channel parse" "\<lambda>cmd. upc_ExpectedVersion (fst cmd)"
  chn_Version "\<lambda>c. ValidateChannel parse c = None" for parse
  by unfold_locales (auto dest: apply_channel_step)

text \<open>A version that would overflow is refused, so the counters are exact.\<close>

lemma wrap_positive: "in64 v \<Longrightarrow> 1 \<le> wrap64 (v + 1) \<Longrightarrow> wrap64 (v + 1) = v + 1"
proof -
  assume v: "in64 v" "1 \<le> wrap64 (v + 1)"
  show ?thesis
  proof (cases "v + 1 < 2 ^ 63")
    case True
    with v show ?thesis by (simp add: in64_def)
  next
    case False
    with v(1) have "v = 2 ^ 63 - 1" by (simp add: in64_def)
    with v(2) show ?thesis by (simp add: wrap64_def)
  qed
qed

definition channel_frame :: "channel \<Rightarrow> channel \<Rightarrow> bool" where
  "channel_frame c d \<longleftrightarrow> chn_ID d = chn_ID c \<and> chn_Code d = chn_Code c \<and> chn_CreatedAt d = chn_CreatedAt c \<and>
     chn_Version d - chn_ConfigVersion d = chn_Version c - chn_ConfigVersion c \<and>
     chn_Version c \<le> chn_Version d \<and> in64 (chn_Version d) \<and> in64 (chn_ConfigVersion d)"

lemma run_channel_frame:
  assumes "in64 (chn_Version c)" "in64 (chn_ConfigVersion c)"
  shows "channel_frame c (run (apply_channel parse) c cmds)"
proof (rule run_invariant)
  show "channel_frame c c" using assms by (simp add: channel_frame_def)
next
  fix d cmd e assume f: "channel_frame c d" and a: "apply_channel parse d cmd = Inr e"
  note s = apply_channel_step [OF a]
  have "chn_Version e = chn_Version d + 1" "chn_ConfigVersion e = chn_ConfigVersion d + 1"
    using f s wrap_positive [of "chn_Version d"] wrap_positive [of "chn_ConfigVersion d"]
    by (simp_all add: channel_frame_def)
  moreover have "in64 (chn_Version e)" "in64 (chn_ConfigVersion e)" using s in64_wrap64 by metis+
  ultimately show "channel_frame c e" using f s by (simp add: channel_frame_def)
qed

subsection \<open>Properties\<close>

definition sample_assignment :: assignment where
  "sample_assignment = \<lparr>asn_Mode = AssignmentMulti, asn_Strategy = StrategyRatio, asn_OverflowPolicy = [],
     asn_Assignees = [\<lparr>asg_StaffID = 5, asg_Priority = 1, asg_Ratio = 60, asg_MaxScans24h = 0\<rparr>,
       \<lparr>asg_StaffID = 4, asg_Priority = 2, asg_Ratio = 40, asg_MaxScans24h = 0\<rparr>]\<rparr>"

definition sample_channel :: channel where
  "sample_channel = \<lparr>chn_ID = 1, chn_Code = ''c1'', chn_Status = StatusActive,
     chn_Config = \<lparr>ccf_Type = ChannelQRCode, ccf_Carrier = CarrierQRCode, ccf_Name = ''n'', ccf_SceneValue = [],
       ccf_QRCodeURL = [], ccf_CustomerChannel = [], ccf_LinkURL = [], ccf_FinalURL = [],
       ccf_WelcomeMessage = ''hi'', ccf_Media = \<lparr>med_Images = [], med_MiniPrograms = [], med_Attachments = [],
         med_GroupInvites = []\<rparr>, ccf_AutoAcceptFriend = True, ccf_EntryTagID = 0, ccf_EntryTagName = [],
       ccf_EntryTagGroupName = [], ccf_Assignment = sample_assignment\<rparr>,
     chn_ConfigVersion = 1, chn_Version = 1, chn_CreatedAt = 5, chn_UpdatedAt = 5\<rparr>"

definition sample_update :: "int \<Rightarrow> channel_status \<Rightarrow> update_channel" where
  "sample_update v s = \<lparr>upc_ExpectedVersion = v, upc_Code = ''c1'', upc_Status = s,
     upc_Config = chn_Config sample_channel\<rparr>"

text \<open>C19. Updates of a channel, under any sequence of them and whatever \<open>url.Parse\<close> does: the channel
  stays valid, its id, code and creation time never change, both version counters advance together
  and never wrap, of two updates prepared against one version only one is applied, and what can be
  published is active.\<close>

theorem channel_updates:
  assumes "ValidateChannel parse c = None" and "in64 (chn_Version c)" and "in64 (chn_ConfigVersion c)"
  shows "ValidateChannel parse (run (apply_channel parse) c cmds) = None \<and>
    channel_frame c (run (apply_channel parse) c cmds) \<and>
    (Channel_Update parse c u now = Inr d \<and> upc_ExpectedVersion w = upc_ExpectedVersion u \<longrightarrow>
       (\<exists>e. Channel_Update parse d w later = Inl e)) \<and>
    (CanPublish parse c \<longrightarrow> chn_Status c = StatusActive)"
proof (intro conjI impI)
  show "ValidateChannel parse (run (apply_channel parse) c cmds) = None" by (rule channel.run_invar [OF assms(1)])
  show "channel_frame c (run (apply_channel parse) c cmds)" by (rule run_channel_frame [OF assms(2,3)])
  assume a: "Channel_Update parse c u now = Inr d \<and> upc_ExpectedVersion w = upc_ExpectedVersion u"
  then have "apply_channel parse c (u, now) = Inr d" by (simp add: apply_channel_def)
  moreover from apply_channel_step [OF this] have "d \<noteq> c" by (metis wrap64_Suc_neq)
  ultimately show "\<exists>e. Channel_Update parse d w later = Inl e"
    using channel.change_spends_version [of parse c "(u, now)" d "(w, later)"] a
    by (simp add: apply_channel_def)
qed (simp add: CanPublish_def)

lemma sample_channel_valid: "ValidateChannel parse sample_channel = None"
proof -
  have "opaque_code ''c1''" "ValidateAssignment sample_assignment = None"
    "ValidateWelcomeMessageTemplate ''hi'' = None" by code_simp+
  then show ?thesis
    by (simp add: ValidateChannel_def sample_channel_def Channel_validStatus_def go_defs ValidateConfig_def
        Channel_validText_def validOptionalText_def trim_space_printable printable_def validOptionalHTTPS_def
        validTypeCarrier_def validMedia_def validIDs_def validEntryTag_def)
qed

theorem channel_updates_witness:
  "chn_Code (run (apply_channel (\<lambda>_. None)) sample_channel [(sample_update 1 StatusArchived, 6)]) = ''c1''"
proof -
  have "in64 (chn_Version sample_channel)" "in64 (chn_ConfigVersion sample_channel)"
    by (simp_all add: sample_channel_def in64_def)
  from channel_updates [OF sample_channel_valid this, of "\<lambda>_. None" "[(sample_update 1 StatusArchived, 6)]"]
  show ?thesis by (simp add: channel_frame_def sample_channel_def)
qed

text \<open>The assignment of staff is accepted exactly when one person (in the single mode) or one to
  five (in the other) are listed, none twice, with priorities 1, 2, 3 and so on, and either every
  ratio is between 1 and 100 and they sum to exactly 100, or everyone has a positive cap.\<close>

lemma channel_assignment_exact:
  "ValidateAssignment a = None \<longleftrightarrow>
     (asn_Mode a = AssignmentSingle \<and> length (asn_Assignees a) = 1 \<or>
      asn_Mode a = AssignmentMulti \<and> length (asn_Assignees a) \<in> {1..5}) \<and>
     validOptionalOpaque (asn_OverflowPolicy a) 128 \<and>
     distinct (map asg_StaffID (asn_Assignees a)) \<and>
     map asg_Priority (asn_Assignees a) = map (\<lambda>k. 1 + int k) [0..<length (asn_Assignees a)] \<and>
     (\<forall>x \<in> set (asn_Assignees a). assignee_ok (asn_Strategy a) x) \<and>
     (asn_Strategy a = StrategyCapSwitch \<or>
      asn_Strategy a = StrategyRatio \<and> sum_list (map asg_Ratio (asn_Assignees a)) = 100)"
  (is "_ \<longleftrightarrow> ?spec")
proof (cases "length (asn_Assignees a) \<in> {1..5}")
  case False
  then have "asn_Assignees a = [] \<or> 5 < length (asn_Assignees a)" by (cases "asn_Assignees a") auto
  then have "ValidateAssignment a \<noteq> None \<and> \<not> ?spec"
    by (auto simp: ValidateAssignment_def MaximumAssignees_def)
  then show ?thesis by blast
next
  case True
  let ?as = "asn_Assignees a"
  have b: "0 \<le> (0::int)" "0 + 100 * int (length ?as) < 2 ^ 63" using True by auto
  note loop = assignees_exact [OF b, of "asn_Strategy a" "{}" 0]
  show ?thesis
  proof (cases "assignees_loop (asn_Strategy a) {} 0 0 ?as")
    case (Inl e)
    have "\<not> ?spec" using loop Inl by auto
    moreover have "ValidateAssignment a \<noteq> None" using Inl by (simp add: ValidateAssignment_def)
    ultimately show ?thesis by blast
  next
    case (Inr x)
    with loop [of x] have x: "(\<forall>y \<in> set ?as. assignee_ok (asn_Strategy a) y)"
      "map asg_Priority ?as = map (\<lambda>k. 1 + int k) [0..<length ?as]" "distinct (map asg_StaffID ?as)"
      "x = (if asn_Strategy a = StrategyRatio then sum_list (map asg_Ratio ?as) else 0)" by simp_all
    have "ValidateAssignment a = None \<longleftrightarrow> (asn_Mode a = AssignmentSingle \<and> length ?as = 1 \<or>
        asn_Mode a = AssignmentMulti) \<and> validOptionalOpaque (asn_OverflowPolicy a) 128 \<and>
        (asn_Strategy a = StrategyCapSwitch \<or>
         asn_Strategy a = StrategyRatio \<and> sum_list (map asg_Ratio ?as) = 100)"
      using True by (auto simp: ValidateAssignment_def MaximumAssignees_def Inr x(4))
    with x(1-3) True show ?thesis by simp
  qed
qed

lemma channel_assignment_exact_witness:
  "ValidateAssignment sample_assignment = None \<and>
   ValidateAssignment (sample_assignment\<lparr>asn_Mode := AssignmentSingle\<rparr>) \<noteq> None"
  unfolding channel_assignment_exact
  by (simp add: sample_assignment_def assignee_ok_def validOptionalOpaque_def)

text \<open>A welcome template means what it looks like: it is accepted exactly when the text around its
  customer-name markers, put together, has no double brace; rendering then puts the customer's name,
  or the fallback when it is blank, once at each marker and changes nothing else, so a name that
  itself contains a marker is not expanded again.\<close>

lemma welcome_rendering:
  "\<exists>pieces. pieces \<noteq> [] \<and> template = join WelcomeCustomerNameVariable pieces \<and>
    (ValidateWelcomeMessageTemplate template = None \<longleftrightarrow>
       \<not> contains_str (concat pieces) ''{{'' \<and> \<not> contains_str (concat pieces) ''}}'') \<and>
    (\<forall>name. RenderWelcomeMessage template name =
       (if ValidateWelcomeMessageTemplate template \<noteq> None then Inl InvalidWelcomeTemplate
        else Inr (join (if trim_space name = [] then WelcomeCustomerNameFallback else name) pieces)))"
proof (intro exI conjI allI)
  let ?p = "split_on WelcomeCustomerNameVariable template"
  show "?p \<noteq> []" by simp
  show "template = join WelcomeCustomerNameVariable ?p" by (simp add: join_pieces)
  show "ValidateWelcomeMessageTemplate template = None \<longleftrightarrow>
      \<not> contains_str (concat ?p) ''{{'' \<and> \<not> contains_str (concat ?p) ''}}''" by (rule template_pieces)
  fix name
  have "ValidateWelcomeMessageTemplate template = Some e \<Longrightarrow> e = InvalidWelcomeTemplate" for e
    by (simp add: ValidateWelcomeMessageTemplate_def Let_def split: if_splits)
  then show "RenderWelcomeMessage template name =
       (if ValidateWelcomeMessageTemplate template \<noteq> None then Inl InvalidWelcomeTemplate
        else Inr (join (if trim_space name = [] then WelcomeCustomerNameFallback else name) ?p))"
    by (auto simp: RenderWelcomeMessage_def replace_all_pieces split: option.split)
qed

end
