(* ===== verification/GoBase64.thy ===== *)
theory GoBase64
  imports GoHash
begin

text \<open>
  The unpadded base64 encodings of Go's \<open>encoding/base64\<close>, on lists of byte values.
\<close>

text \<open>\<open>base64.RawURLEncoding\<close>: groups of three bytes, no padding.\<close>

definition base64_char :: "nat \<Rightarrow> char" where
  "base64_char d =
     (if d < 26 then char_of (65 + d) else if d < 52 then char_of (71 + d)
      else if d < 62 then char_of (d - 4) else if d = 62 then CHR ''-'' else CHR ''_'')"

fun base64_url :: "nat list \<Rightarrow> string" where
  "base64_url [] = []"
| "base64_url [a] = [base64_char (a div 4), base64_char (a mod 4 * 16)]"
| "base64_url [a, b] =
     [base64_char (a div 4), base64_char (a mod 4 * 16 + b div 16), base64_char (b mod 16 * 4)]"
| "base64_url (a # b # c # bs) =
     base64_char (a div 4) # base64_char (a mod 4 * 16 + b div 16) #
     base64_char (b mod 16 * 4 + c div 64) # base64_char (c mod 64) # base64_url bs"

definition word_bytes :: "w32 \<Rightarrow> string" where
  "word_bytes w = map (\<lambda>i. char_of (unat w div 256 ^ i mod 256)) [3, 2, 1, 0]"

text \<open>\<open>base64.RawStdEncoding\<close> differs in the last two characters of the alphabet.\<close>

definition std_char :: "char \<Rightarrow> char" where
  "std_char c = (if c = CHR ''-'' then CHR ''+'' else if c = CHR ''_'' then CHR ''/'' else c)"

definition base64_std :: "nat list \<Rightarrow> string" where
  "base64_std bs = map std_char (base64_url bs)"

definition digest_bytes :: "w32 list \<Rightarrow> nat list" where
  "digest_bytes d = map of_char (concat (map word_bytes d))"

lemma base64_char_printable: "printable (base64_char d)"
  by (auto simp: printable_def base64_char_def)

lemma base64_url_printable: "list_all printable (base64_url bs)"
  by (induction bs rule: base64_url.induct) (simp_all add: base64_char_printable)

end
