(* ===== verification/AccessDomain.thy ===== *)
theory AccessDomain
  imports GoHash GoTime GoBase64
begin

text \<open>
  The values of the access component (\<open>internal/access/domain/access.go\<close>,
  \<open>principal.go\<close>) and its credentials (\<open>internal/access/credential\<close>): roles, users,
  sessions, principals and the normal forms of identifiers.

  \<open>strings.ToLower\<close> of a text that is ASCII only maps the capital letters; for any other
  text it applies the Unicode tables, which are the argument \<open>tables\<close>.
\<close>

datatype access_error =
    AccInvalidInput
  | AccAuthentication
  | AccPermissionDenied
  | AccCSRFRequired
  | AccInvalidCredentials
  | AccInvalidPassword
  | AccRateLimited
  | AccInvalidPrincipal
  | AccConflict
  | AccNotFound
  | AccDirectoryUnavailable
  | AccProjectionUnavailable
  | AccRandom
  | AccDatabase

datatype role = RoleSuperAdmin | RoleAdmin | RoleViewer | RoleOther string

fun role_text :: "role \<Rightarrow> string" where
  "role_text RoleSuperAdmin = ''super_admin''"
| "role_text RoleAdmin = ''admin''"
| "role_text RoleViewer = ''viewer''"
| "role_text (RoleOther s) = s"

definition Role_Valid :: "role \<Rightarrow> bool" where
  "Role_Valid r = (case r of RoleSuperAdmin \<Rightarrow> True | RoleAdmin \<Rightarrow> True | RoleViewer \<Rightarrow> True
     | RoleOther _ \<Rightarrow> False)"

fun roles_loop :: "role list \<Rightarrow> role list \<Rightarrow> (access_error, role list) result" where
  "roles_loop [] seen = Inr seen"
| "roles_loop (r # rs) seen =
     (if \<not> Role_Valid r then Inl AccInvalidInput
      else if r \<in> set seen then roles_loop rs seen
      else roles_loop rs (seen @ [r]))"

definition NormalizeRoles :: "role list \<Rightarrow> (access_error, role list) result" where
  "NormalizeRoles values =
     (case roles_loop values [] of
        Inl e \<Rightarrow> Inl e
      | Inr roles \<Rightarrow> if roles = [] then Inl AccInvalidInput else Inr roles)"

definition SingleRole :: "role list \<Rightarrow> (access_error, role) result" where
  "SingleRole values =
     (case NormalizeRoles values of
        Inl e \<Rightarrow> Inl AccInvalidInput
      | Inr roles \<Rightarrow> if length roles \<noteq> 1 then Inl AccInvalidInput else Inr (hd roles))"

subsection \<open>Users, sessions, principals\<close>

text \<open>\<open>usr_WeComUserID\<close> is empty where the column \<open>wecom_userid\<close> is NULL.\<close>

record access_user =
  usr_ID :: int
  usr_Username :: string
  usr_PasswordHash :: string
  usr_DisplayName :: string
  usr_WeComUserID :: string
  usr_Active :: bool
  usr_LoginEnabled :: bool
  usr_LegacyPending :: bool
  usr_AccessGrantedAt :: "go_time option"
  usr_SessionVersion :: int
  usr_Roles :: "role list"
  usr_LastLoginAt :: "go_time option"
  usr_CreatedAt :: go_time
  usr_UpdatedAt :: go_time

definition HasRole :: "access_user \<Rightarrow> role \<Rightarrow> bool" where
  "HasRole u r = list_ex (\<lambda>x. x = r) (usr_Roles u)"

type_synonym token_digest = "w32 list"

record session_row =
  ses_ID :: int
  ses_TokenDigest :: token_digest
  ses_CSRFTokenDigest :: token_digest
  ses_AdminUserID :: int
  ses_SessionVersion :: int
  ses_ExpiresAt :: go_time
  ses_RevokedAt :: "go_time option"
  ses_RevokedReason :: string
  ses_CreatedAt :: go_time
  ses_LastSeenAt :: go_time

record login_audit =
  lau_AdminUserID :: "int option"
  lau_IdentifierDigest :: token_digest
  lau_RemoteDigest :: token_digest
  lau_Outcome :: string
  lau_Reason :: string
  lau_CreatedAt :: go_time

record login_limit =
  lim_WindowStartedAt :: go_time
  lim_FailureCount :: int
  lim_BlockedUntil :: "go_time option"
  lim_UpdatedAt :: go_time

record access_audit =
  aau_Actor :: int
  aau_Target :: int
  aau_Action :: string
  aau_Details :: string
  aau_CreatedAt :: go_time

datatype principal_kind = KindAdmin | KindStaff | KindCustomer | KindService | KindOther string

record principal =
  prn_Kind :: principal_kind
  prn_InternalID :: int
  prn_Roles :: "role list"
  prn_SessionVersion :: int

definition Principal_Validate :: "principal \<Rightarrow> (access_error, unit) result" where
  "Principal_Validate p =
     (if prn_InternalID p < 1 then Inl AccInvalidPrincipal
      else (case prn_Kind p of KindOther _ \<Rightarrow> Inl AccInvalidPrincipal | _ \<Rightarrow> Inr ()))"

definition IsSuperAdmin :: "principal \<Rightarrow> bool" where
  "IsSuperAdmin p = (prn_Kind p = KindAdmin \<and> list_ex (\<lambda>r. r = RoleSuperAdmin) (prn_Roles p))"

record super_admin_control =
  sac_AdminUserID :: int
  sac_Version :: int
  sac_UpdatedAt :: go_time

subsection \<open>Normal forms of identifiers\<close>

definition lower_ascii :: "char \<Rightarrow> char" where
  "lower_ascii c = (let b = (of_char c :: nat) in if 65 \<le> b \<and> b \<le> 90 then char_of (b + 32) else c)"

definition ToLower :: "(string \<Rightarrow> string) \<Rightarrow> string \<Rightarrow> string" where
  "ToLower tables s = (if list_all (\<lambda>c. byte c < 128) s then map lower_ascii s else tables s)"

definition contains_any :: "string \<Rightarrow> string \<Rightarrow> bool" where
  "contains_any s cs = list_ex (\<lambda>c. c \<in> set cs) s"

definition NormalizeUsername :: "(string \<Rightarrow> string) \<Rightarrow> string \<Rightarrow> (access_error, string) result" where
  "NormalizeUsername tables raw =
     (let value = ToLower tables (trim_space raw) in
      if length value < 3 \<or> 120 < length value \<or>
         contains_any value [CHR 0x00, CHR 0x0D, CHR 0x0A, CHR 0x09, CHR 0x20]
      then Inl AccInvalidInput else Inr value)"

definition wecom_rune :: "rune \<Rightarrow> bool" where
  "wecom_rune r \<longleftrightarrow> (97 \<le> r \<and> r \<le> 122) \<or> (65 \<le> r \<and> r \<le> 90) \<or> (48 \<le> r \<and> r \<le> 57) \<or>
     r \<in> {45, 95, 46, 64}"

definition NormalizeWeComUserID :: "string \<Rightarrow> (access_error, string) result" where
  "NormalizeWeComUserID raw =
     (let value = trim_space raw in
      if length value < 1 \<or> 128 < length value then Inl AccInvalidInput
      else if \<not> list_all wecom_rune (runes value) then Inl AccInvalidInput
      else Inr value)"

text \<open>\<open>sort.Slice\<close> by a string key, for keys that are distinct.\<close>

fun insert_by :: "('a \<Rightarrow> string) \<Rightarrow> 'a \<Rightarrow> 'a list \<Rightarrow> 'a list" where
  "insert_by k x [] = [x]"
| "insert_by k x (y # ys) = (if str_less (k y) (k x) then y # insert_by k x ys else x # y # ys)"

definition sort_by :: "('a \<Rightarrow> string) \<Rightarrow> 'a list \<Rightarrow> 'a list" where
  "sort_by k xs = foldr (insert_by k) xs []"

subsection \<open>Credentials\<close>

definition Digest :: "string \<Rightarrow> token_digest" where
  "Digest value = Sum256 value"

definition Matches :: "string \<Rightarrow> token_digest \<Rightarrow> bool" where
  "Matches value expected \<longleftrightarrow> Digest value = expected"

text \<open>The random bytes are an argument: \<open>None\<close> is the failure of the generator.\<close>

definition IssueOpaque ::
  "nat list option \<Rightarrow> string \<Rightarrow> (access_error, string \<times> token_digest) result" where
  "IssueOpaque random pre =
     (case random of
        None \<Rightarrow> Inl AccRandom
      | Some bytes \<Rightarrow> let value = pre @ base64_url bytes in Inr (value, Digest value))"

text \<open>HMAC-SHA256 of the standard library, for keys of at most one block.\<close>

definition xor_pad :: "nat \<Rightarrow> string \<Rightarrow> string" where
  "xor_pad b key = map (\<lambda>c. char_of (Bit_Operations.xor (of_char c :: nat) b))
     (key @ replicate (64 - length key) CHR 0x00)"

definition hmac_sha256 :: "string \<Rightarrow> string \<Rightarrow> token_digest" where
  "hmac_sha256 key m =
     Sum256 (xor_pad 92 key @ concat (map word_bytes (Sum256 (xor_pad 54 key @ m))))"

subsection \<open>Facts about the normal forms\<close>

lemma roles_loop_ok:
  "roles_loop rs seen = Inr out \<Longrightarrow> distinct seen \<Longrightarrow> list_all Role_Valid seen \<Longrightarrow>
   distinct out \<and> list_all Role_Valid out \<and> set out = set seen \<union> set rs"
proof (induction rs seen rule: roles_loop.induct)
  case (1 seen)
  then show ?case by simp
next
  case (2 r rs seen)
  then show ?case by (cases "r \<in> set seen") (auto split: if_splits)
qed

lemma NormalizeRoles_ok:
  "NormalizeRoles rs = Inr out \<Longrightarrow> distinct out \<and> list_all Role_Valid out \<and> set out = set rs \<and> out \<noteq> []"
  using roles_loop_ok [of rs "[]" out] by (auto simp: NormalizeRoles_def split: sum.splits if_splits)

lemma SingleRole_singleton [simp]: "Role_Valid r \<Longrightarrow> SingleRole [r] = Inr r"
  by (simp add: SingleRole_def NormalizeRoles_def)

lemma SingleRole_ok: "SingleRole rs = Inr r \<Longrightarrow> Role_Valid r \<and> set rs = {r}"
  using NormalizeRoles_ok [of rs]
  by (auto simp: SingleRole_def length_Suc_conv list_all_iff split: sum.splits if_splits)

lemma SingleRole_distinct: "SingleRole rs = Inr r \<Longrightarrow> length rs \<le> 1 \<Longrightarrow> rs = [r]"
  using SingleRole_ok [of rs r] by (cases rs) auto

lemma NormalizeWeComUserID_ok:
  "NormalizeWeComUserID raw = Inr v \<Longrightarrow>
   v = trim_space raw \<and> 1 \<le> length v \<and> length v \<le> 128 \<and> list_all wecom_rune (runes v)"
  by (auto simp: NormalizeWeComUserID_def Let_def Suc_le_eq split: if_splits)

end
