(* ===== verification/Postgres.thy ===== *)
theory Postgres
  imports GoTime
begin

text \<open>
  What PostgreSQL keeps of the values the code sends: a \<open>timestamptz\<close> has microseconds, a \<open>text\<close> is
  valid UTF-8 without zero bytes, a \<open>bigint\<close> that would overflow is an error.
\<close>

definition pg_time :: "go_time \<Rightarrow> go_time" where
  "pg_time t = trunc_time microsecond t"

definition pg_text :: "string \<Rightarrow> bool" where
  "pg_text s \<longleftrightarrow> valid_utf8 s \<and> CHR 0x00 \<notin> set s"

end
