(* ===== verification/AccessStore.thy ===== *)
theory AccessStore
  imports AccessDomain Postgres
begin

text \<open>
  The tables of the access component (\<open>migrations/0003_access.sql\<close>, \<open>0027\<close>, \<open>0151\<close>,
  \<open>0152\<close>, \<open>0238\<close>) and the operations of \<open>internal/access/store/postgres.go\<close> on them.

  A row of \<open>admin_users\<close> carries its rows of \<open>admin_user_roles\<close>.  A transaction is a
  function from the tables to an error, which is the rollback, or to an answer and new
  tables; row locks make transactions on the same rows run one after the other.  The
  deferred constraint trigger \<open>access_assert_super_admin_control\<close> runs at the commit.
  The instants of the process and of the database are arguments, one of each for a
  transaction; a \<open>timestamptz\<close> keeps microseconds.  \<open>lower\<close> of the database is the
  argument \<open>env_PgLower\<close>.
\<close>

subsection \<open>Tables\<close>

record pg_env =
  env_PgLower :: "string \<Rightarrow> string"

record access_clock =
  clk_Now :: go_time
  clk_Db :: go_time

record governance_receipt =
  grc_Actor :: int
  grc_Key :: string
  grc_Action :: string
  grc_Target :: int
  grc_Digest :: token_digest

record access_db =
  adb_Users :: "access_user list"
  adb_NextUser :: int
  adb_Sessions :: "session_row list"
  adb_Limits :: "token_digest \<Rightarrow> login_limit option"
  adb_LoginAudits :: "login_audit list"
  adb_AccessAudits :: "access_audit list"
  adb_LoginReceipts :: "(int \<times> string \<times> token_digest) list"
  adb_Receipts :: "governance_receipt list"
  adb_Control :: "super_admin_control option"

definition empty_access :: access_db where
  "empty_access = \<lparr>adb_Users = [], adb_NextUser = 1, adb_Sessions = [], adb_Limits = (\<lambda>_. None),
     adb_LoginAudits = [], adb_AccessAudits = [], adb_LoginReceipts = [], adb_Receipts = [],
     adb_Control = None\<rparr>"

type_synonym 'a access_tx = "(access_error, 'a \<times> access_db) result"

subsection \<open>Constraints\<close>

definition btrim :: "string \<Rightarrow> string" where
  "btrim s = rev (dropWhile (\<lambda>c. c = CHR '' '') (rev (dropWhile (\<lambda>c. c = CHR '' '') s)))"

definition user_checks :: "('e) pg_env_scheme \<Rightarrow> access_user \<Rightarrow> bool" where
  "user_checks env u \<longleftrightarrow>
     pg_text (usr_Username u) \<and> pg_text (usr_PasswordHash u) \<and> pg_text (usr_DisplayName u) \<and>
     pg_text (usr_WeComUserID u) \<and>
     usr_Username u = env_PgLower env (btrim (usr_Username u)) \<and>
     3 \<le> rune_count (usr_Username u) \<and> rune_count (usr_Username u) \<le> 120 \<and>
     has_prefix (usr_PasswordHash u) ''$argon2id$'' \<and>
     1 \<le> rune_count (btrim (usr_DisplayName u)) \<and> rune_count (btrim (usr_DisplayName u)) \<le> 160 \<and>
     (usr_WeComUserID u = [] \<or> usr_WeComUserID u = btrim (usr_WeComUserID u) \<and>
        rune_count (usr_WeComUserID u) \<le> 128) \<and>
     0 < usr_SessionVersion u \<and> usr_SessionVersion u \<le> max_int64 \<and>
     (usr_AccessGrantedAt u \<noteq> None \<or> \<not> usr_LoginEnabled u)"

definition users_unique :: "access_user list \<Rightarrow> bool" where
  "users_unique us \<longleftrightarrow> distinct (map usr_Username us) \<and>
     distinct (filter (\<lambda>w. w \<noteq> []) (map usr_WeComUserID us))"

definition super_rows :: "access_user list \<Rightarrow> role list" where
  "super_rows us = filter (\<lambda>r. r = RoleSuperAdmin) (concat (map usr_Roles us))"

text \<open>The assertion of the deferred triggers on users, roles and control.\<close>

definition access_assert :: "access_db \<Rightarrow> bool" where
  "access_assert db \<longleftrightarrow>
     (case adb_Control db of
        None \<Rightarrow> adb_Users db = []
      | Some c \<Rightarrow>
          (case find (\<lambda>u. usr_ID u = sac_AdminUserID c) (adb_Users db) of
             None \<Rightarrow> False
           | Some u \<Rightarrow> usr_Roles u = [RoleSuperAdmin] \<and> usr_Active u \<and> usr_LoginEnabled u \<and>
               usr_AccessGrantedAt u \<noteq> None) \<and>
          list_all (\<lambda>u. length (usr_Roles u) = 1) (adb_Users db) \<and>
          length (super_rows (adb_Users db)) = 1)"

definition within :: "access_db \<Rightarrow> 'a access_tx \<Rightarrow> 'a access_tx" where
  "within db r =
     (case r of
        Inl e \<Rightarrow> Inl e
      | Inr (a, db') \<Rightarrow>
          if (adb_Users db' = adb_Users db \<and> adb_Control db' = adb_Control db) \<or> access_assert db'
          then Inr (a, db') else Inl AccDatabase)"

subsection \<open>Users\<close>

definition UserByID :: "access_db \<Rightarrow> int \<Rightarrow> (access_error, access_user) result" where
  "UserByID db i =
     (case find (\<lambda>u. usr_ID u = i) (adb_Users db) of None \<Rightarrow> Inl AccNotFound | Some u \<Rightarrow> Inr u)"

definition UserByUsername :: "access_db \<Rightarrow> string \<Rightarrow> (access_error, access_user) result" where
  "UserByUsername db name =
     (if \<not> pg_text name then Inl AccDatabase else case find (\<lambda>u. usr_Username u = name) (adb_Users db) of None \<Rightarrow> Inl AccNotFound | Some u \<Rightarrow> Inr u)"

definition UserByWeComUserID :: "access_db \<Rightarrow> string \<Rightarrow> (access_error, access_user) result" where
  "UserByWeComUserID db w =
     (case find (\<lambda>u. usr_WeComUserID u = w \<and> w \<noteq> []) (adb_Users db) of
        None \<Rightarrow> Inl AccNotFound | Some u \<Rightarrow> Inr u)"

definition insert_role :: "access_db \<Rightarrow> int \<Rightarrow> role \<Rightarrow> (access_error, access_db) result" where
  "insert_role db i r =
     (if \<not> Role_Valid r \<or> UserByID db i = Inl AccNotFound then Inl AccDatabase
      else if list_ex (\<lambda>u. usr_ID u = i \<and> usr_Roles u \<noteq> []) (adb_Users db) \<or>
         (r = RoleSuperAdmin \<and> super_rows (adb_Users db) \<noteq> [])
      then Inl AccConflict
      else Inr (db\<lparr>adb_Users := map (\<lambda>u. if usr_ID u = i then u\<lparr>usr_Roles := usr_Roles u @ [r]\<rparr> else u)
         (adb_Users db)\<rparr>))"

fun insert_roles :: "access_db \<Rightarrow> int \<Rightarrow> role list \<Rightarrow> (access_error, access_db) result" where
  "insert_roles db i [] = Inr db"
| "insert_roles db i (r # rs) =
     (case insert_role db i r of Inl e \<Rightarrow> Inl e | Inr db' \<Rightarrow> insert_roles db' i rs)"

definition insert_user ::
  "'e pg_env_scheme \<Rightarrow> access_db \<Rightarrow> access_user \<Rightarrow> (access_error, access_db) result" where
  "insert_user env db row =
     (if max_int64 < adb_NextUser db \<or> \<not> user_checks env row then Inl AccDatabase
      else if \<not> users_unique (adb_Users db @ [row]) then Inl AccConflict
      else Inr (db\<lparr>adb_Users := adb_Users db @ [row], adb_NextUser := adb_NextUser db + 1\<rparr>))"

definition CreateUser ::
  "'e pg_env_scheme \<Rightarrow> access_clock \<Rightarrow> access_db \<Rightarrow> access_user \<Rightarrow> access_user access_tx" where
  "CreateUser env clk db u =
     (let i = adb_NextUser db;
          row = u\<lparr>usr_ID := i, usr_LoginEnabled := usr_Active u, usr_LegacyPending := False,
            usr_AccessGrantedAt := Some (clk_Db clk), usr_SessionVersion := 1, usr_Roles := [],
            usr_LastLoginAt := None, usr_CreatedAt := clk_Db clk, usr_UpdatedAt := clk_Db clk\<rparr> in
      case insert_user env db row of
        Inl e \<Rightarrow> Inl e
      | Inr db1 \<Rightarrow>
          (case insert_roles db1 i (usr_Roles u) of
             Inl e \<Rightarrow> Inl e
           | Inr db2 \<Rightarrow> Inr (row\<lparr>usr_Roles := usr_Roles u\<rparr>, db2)))"

definition CreateStaffProjection ::
  "'e pg_env_scheme \<Rightarrow> access_clock \<Rightarrow> access_db \<Rightarrow> access_user \<Rightarrow> access_user access_tx" where
  "CreateStaffProjection env clk db u =
     (if \<not> usr_Active u \<or> usr_WeComUserID u = [] \<or> length (usr_Roles u) \<noteq> 1 \<or>
         hd (usr_Roles u) \<noteq> RoleViewer then Inl AccInvalidInput
      else
       (let i = adb_NextUser db;
            row = u\<lparr>usr_ID := i, usr_Active := True, usr_LoginEnabled := False,
              usr_LegacyPending := False, usr_AccessGrantedAt := None, usr_SessionVersion := 1,
              usr_Roles := [], usr_LastLoginAt := None, usr_CreatedAt := clk_Db clk,
              usr_UpdatedAt := clk_Db clk\<rparr> in
        case insert_user env db row of
          Inl e \<Rightarrow> Inl e
        | Inr db1 \<Rightarrow>
            (case insert_role db1 i RoleViewer of
               Inl e \<Rightarrow> Inl e
             | Inr db2 \<Rightarrow> Inr (row\<lparr>usr_Roles := usr_Roles u\<rparr>, db2))))"

definition BootstrapUser ::
  "'e pg_env_scheme \<Rightarrow> access_clock \<Rightarrow> access_db \<Rightarrow> access_user \<Rightarrow> (access_user \<times> bool) access_tx" where
  "BootstrapUser env clk db u =
     (if 0 < length (adb_Users db) then
        (case UserByUsername db (usr_Username u) of
           Inr existing \<Rightarrow> Inr ((existing, False), db)
         | Inl e \<Rightarrow> if e = AccNotFound then Inl AccConflict else Inl e)
      else
        (case CreateUser env clk db u of
           Inl e \<Rightarrow> Inl e
         | Inr (created, db') \<Rightarrow> Inr ((created, True), db')))"

text \<open>\<open>UPDATE admin_users SET ... WHERE id = i\<close>; no row is updated when there is none.\<close>

definition update_user ::
  "'e pg_env_scheme \<Rightarrow> access_db \<Rightarrow> int \<Rightarrow> (access_user \<Rightarrow> access_user) \<Rightarrow> (access_error, access_db) result" where
  "update_user env db i f =
     (let us = map (\<lambda>u. if usr_ID u = i then f u else u) (adb_Users db) in
      if \<not> list_all (\<lambda>u. usr_ID u = i \<longrightarrow> user_checks env (f u)) (adb_Users db) then Inl AccDatabase
      else if \<not> users_unique us then Inl AccConflict
      else Inr (db\<lparr>adb_Users := us\<rparr>))"

definition ensureUserExists :: "access_db \<Rightarrow> int \<Rightarrow> (access_error, access_db) result" where
  "ensureUserExists db i =
     (if list_ex (\<lambda>u. usr_ID u = i) (adb_Users db) then Inr db else Inl AccNotFound)"

definition fence :: "go_time \<Rightarrow> access_user \<Rightarrow> access_user" where
  "fence now u = u\<lparr>usr_SessionVersion := usr_SessionVersion u + 1, usr_UpdatedAt := pg_time now\<rparr>"

definition SetLoginEnabled ::
  "'e pg_env_scheme \<Rightarrow> access_db \<Rightarrow> int \<Rightarrow> bool \<Rightarrow> go_time \<Rightarrow> (access_error, access_db) result" where
  "SetLoginEnabled env db i enabled now =
     (if list_ex (\<lambda>u. usr_ID u = i \<and> usr_AccessGrantedAt u \<noteq> None \<and> usr_LoginEnabled u \<noteq> enabled)
         (adb_Users db)
      then update_user env db i (\<lambda>u. fence now (u\<lparr>usr_LoginEnabled := enabled,
             usr_Active := (if enabled \<and> usr_LegacyPending u then True else usr_Active u),
             usr_LegacyPending := False\<rparr>))
      else ensureUserExists db i)"

definition delete_roles :: "access_db \<Rightarrow> int \<Rightarrow> access_db" where
  "delete_roles db i =
     db\<lparr>adb_Users := map (\<lambda>u. if usr_ID u = i then u\<lparr>usr_Roles := []\<rparr> else u) (adb_Users db)\<rparr>"

definition GrantAccess ::
  "'e pg_env_scheme \<Rightarrow> access_db \<Rightarrow> int \<Rightarrow> role \<Rightarrow> string \<Rightarrow> go_time \<Rightarrow> (access_error, access_db) result" where
  "GrantAccess env db i r displayName now =
     (if (r \<noteq> RoleAdmin \<and> r \<noteq> RoleViewer) \<or> trim_space displayName = [] then Inl AccInvalidInput
      else
       (case UserByID db i of
          Inl e \<Rightarrow> Inl e
        | Inr u \<Rightarrow>
            if \<not> usr_Active u \<or> usr_AccessGrantedAt u \<noteq> None then Inl AccConflict
            else
             (case insert_role (delete_roles db i) i r of
                Inl e \<Rightarrow> Inl e
              | Inr db' \<Rightarrow> update_user env db' i (\<lambda>u. fence now (u\<lparr>usr_DisplayName := trim_space displayName,
                    usr_LoginEnabled := True, usr_AccessGrantedAt := Some (pg_time now)\<rparr>)))))"

definition SetWeComUserID ::
  "'e pg_env_scheme \<Rightarrow> access_db \<Rightarrow> int \<Rightarrow> string \<Rightarrow> go_time \<Rightarrow> (access_error, access_db) result" where
  "SetWeComUserID env db i w now =
     (if list_ex (\<lambda>u. usr_ID u = i \<and> usr_WeComUserID u \<noteq> w) (adb_Users db)
      then update_user env db i (\<lambda>u. fence now (u\<lparr>usr_WeComUserID := w\<rparr>))
      else ensureUserExists db i)"

definition ReplaceRoles ::
  "'e pg_env_scheme \<Rightarrow> access_db \<Rightarrow> int \<Rightarrow> role list \<Rightarrow> go_time \<Rightarrow> (access_error, access_db) result" where
  "ReplaceRoles env db i roles now =
     (case ensureUserExists db i of
        Inl e \<Rightarrow> Inl e
      | Inr db0 \<Rightarrow>
          (case insert_roles (delete_roles db0 i) i roles of
             Inl e \<Rightarrow> Inl e
           | Inr db' \<Rightarrow> update_user env db' i (fence now)))"

definition SetPasswordHash ::
  "'e pg_env_scheme \<Rightarrow> access_db \<Rightarrow> int \<Rightarrow> string \<Rightarrow> go_time \<Rightarrow> (access_error, access_db) result" where
  "SetPasswordHash env db i hash now =
     (case ensureUserExists db i of
        Inl e \<Rightarrow> Inl e
      | Inr db0 \<Rightarrow> update_user env db0 i (\<lambda>u. fence now (u\<lparr>usr_PasswordHash := hash\<rparr>)))"

definition SetLastLogin ::
  "'e pg_env_scheme \<Rightarrow> access_db \<Rightarrow> int \<Rightarrow> go_time \<Rightarrow> (access_error, access_db) result" where
  "SetLastLogin env db i now =
     (case ensureUserExists db i of
        Inl e \<Rightarrow> Inl e
      | Inr db0 \<Rightarrow> update_user env db0 i
          (\<lambda>u. u\<lparr>usr_LastLoginAt := Some (pg_time now), usr_UpdatedAt := pg_time now\<rparr>))"

definition SetStaffDisplayName ::
  "'e pg_env_scheme \<Rightarrow> access_db \<Rightarrow> int \<Rightarrow> string \<Rightarrow> string \<Rightarrow> go_time \<Rightarrow> (access_error, access_db) result" where
  "SetStaffDisplayName env db i providerID name now =
     (if trim_space name = [] \<or> 160 < rune_count name \<or>
         contains_any name [CHR 0x00, CHR 0x0D, CHR 0x0A] then Inl AccInvalidInput
      else if \<not> list_ex (\<lambda>u. usr_ID u = i \<and> usr_WeComUserID u = providerID \<and> providerID \<noteq> [])
        (adb_Users db) then Inl AccConflict
      else update_user env db i (\<lambda>u. u\<lparr>usr_DisplayName := name, usr_UpdatedAt := pg_time now\<rparr>))"

subsection \<open>Sessions\<close>

definition CreateSession ::
  "access_clock \<Rightarrow> access_db \<Rightarrow> token_digest \<Rightarrow> token_digest \<Rightarrow> int \<Rightarrow> int \<Rightarrow> go_time
    \<Rightarrow> (access_error, access_db) result" where
  "CreateSession clk db token csrf user version expires =
     (if list_ex (\<lambda>s. ses_TokenDigest s = token) (adb_Sessions db) \<or>
         \<not> list_ex (\<lambda>u. usr_ID u = user) (adb_Users db) \<or> version < 1 \<or>
         pg_time expires \<le> clk_Db clk then Inl AccDatabase
      else Inr (db\<lparr>adb_Sessions := adb_Sessions db @
        [\<lparr>ses_ID = int (length (adb_Sessions db)) + 1, ses_TokenDigest = token,
          ses_CSRFTokenDigest = csrf, ses_AdminUserID = user, ses_SessionVersion = version,
          ses_ExpiresAt = pg_time expires, ses_RevokedAt = None, ses_RevokedReason = [],
          ses_CreatedAt = clk_Db clk, ses_LastSeenAt = clk_Db clk\<rparr>]\<rparr>))"

definition SessionByTokenDigest ::
  "access_db \<Rightarrow> token_digest \<Rightarrow> (access_error, session_row \<times> access_user) result" where
  "SessionByTokenDigest db digest =
     (case find (\<lambda>s. ses_TokenDigest s = digest) (adb_Sessions db) of
        None \<Rightarrow> Inl AccNotFound
      | Some s \<Rightarrow>
          (case UserByID db (ses_AdminUserID s) of Inl e \<Rightarrow> Inl e | Inr u \<Rightarrow> Inr (s, u)))"

definition TouchSession :: "access_db \<Rightarrow> int \<Rightarrow> go_time \<Rightarrow> access_db" where
  "TouchSession db i now = db\<lparr>adb_Sessions :=
     map (\<lambda>s. if ses_ID s = i then s\<lparr>ses_LastSeenAt := pg_time now\<rparr> else s) (adb_Sessions db)\<rparr>"

definition RevokeSession :: "access_db \<Rightarrow> token_digest \<Rightarrow> string \<Rightarrow> go_time \<Rightarrow> access_db" where
  "RevokeSession db digest reason now = db\<lparr>adb_Sessions :=
     map (\<lambda>s. if ses_TokenDigest s = digest
        then s\<lparr>ses_RevokedAt := Some (case ses_RevokedAt s of None \<Rightarrow> pg_time now | Some t \<Rightarrow> t),
               ses_RevokedReason := (if ses_RevokedReason s = [] then reason else ses_RevokedReason s)\<rparr>
        else s) (adb_Sessions db)\<rparr>"

subsection \<open>Login limits and audits\<close>

definition LoginRateLimit :: "access_clock \<Rightarrow> access_db \<Rightarrow> token_digest \<Rightarrow> login_limit \<times> access_db" where
  "LoginRateLimit clk db digest =
     (case adb_Limits db digest of
        Some l \<Rightarrow> (l, db)
      | None \<Rightarrow>
          (let l = \<lparr>lim_WindowStartedAt = clk_Db clk, lim_FailureCount = 0, lim_BlockedUntil = None,
             lim_UpdatedAt = clk_Db clk\<rparr>
           in (l, db\<lparr>adb_Limits := (adb_Limits db)(digest := Some l)\<rparr>)))"

definition SaveLoginRateLimit ::
  "access_db \<Rightarrow> token_digest \<Rightarrow> login_limit \<Rightarrow> (access_error, access_db) result" where
  "SaveLoginRateLimit db digest l =
     (if lim_FailureCount l < 0 \<or> \<not> in32 (lim_FailureCount l) then Inl AccDatabase
      else Inr (db\<lparr>adb_Limits := (adb_Limits db)(digest := Some
        \<lparr>lim_WindowStartedAt = pg_time (lim_WindowStartedAt l), lim_FailureCount = lim_FailureCount l,
         lim_BlockedUntil = map_option pg_time (lim_BlockedUntil l),
         lim_UpdatedAt = pg_time (lim_UpdatedAt l)\<rparr>)\<rparr>))"

definition AppendLoginAudit :: "access_db \<Rightarrow> login_audit \<Rightarrow> (access_error, access_db) result" where
  "AppendLoginAudit db a =
     (if lau_Outcome a \<notin> {''succeeded'', ''invalid_credentials'', ''disabled'', ''rate_limited''}
      then Inl AccDatabase
      else Inr (db\<lparr>adb_LoginAudits := adb_LoginAudits db @ [a]\<rparr>))"

definition access_actions :: "string list" where
  "access_actions = [''bootstrap'', ''create'', ''disable'', ''bind_wecom_userid'', ''change_roles'',
     ''reset_password'', ''set_login_enabled'', ''provision_admin'', ''provision_viewer'',
     ''enable_login'', ''disable_login'', ''set_role'', ''transfer_super_admin'', ''refresh_staff_name'']"

definition AppendAccessAudit :: "access_db \<Rightarrow> access_audit \<Rightarrow> (access_error, access_db) result" where
  "AppendAccessAudit db a =
     (if aau_Action a \<notin> set access_actions \<or>
         \<not> list_ex (\<lambda>u. usr_ID u = aau_Actor a) (adb_Users db) \<or>
         \<not> list_ex (\<lambda>u. usr_ID u = aau_Target a) (adb_Users db) then Inl AccDatabase
      else Inr (db\<lparr>adb_AccessAudits := adb_AccessAudits db @ [a]\<rparr>))"

subsection \<open>Receipts and the super administrator\<close>

definition receipt_key_ok :: "string \<Rightarrow> bool" where
  "receipt_key_ok key \<longleftrightarrow> pg_text key \<and> 1 \<le> rune_count key \<and> rune_count key \<le> 200"

definition ReserveLoginAccessRequest ::
  "access_db \<Rightarrow> int \<Rightarrow> string \<Rightarrow> token_digest \<Rightarrow> bool access_tx" where
  "ReserveLoginAccessRequest db actor key digest =
     (if \<not> receipt_key_ok key \<or> \<not> list_ex (\<lambda>u. usr_ID u = actor) (adb_Users db) then Inl AccDatabase
      else
       (case find (\<lambda>(a, k, d). a = actor \<and> k = key) (adb_LoginReceipts db) of
          None \<Rightarrow> Inr (True, db\<lparr>adb_LoginReceipts := adb_LoginReceipts db @ [(actor, key, digest)]\<rparr>)
        | Some (a, k, stored) \<Rightarrow> if stored \<noteq> digest then Inl AccConflict else Inr (False, db)))"

definition ReserveGovernanceMutation ::
  "access_db \<Rightarrow> int \<Rightarrow> string \<Rightarrow> string \<Rightarrow> int \<Rightarrow> token_digest \<Rightarrow> bool access_tx" where
  "ReserveGovernanceMutation db actor key action target digest =
     (if \<not> receipt_key_ok key \<or> \<not> list_ex (\<lambda>u. usr_ID u = actor) (adb_Users db) \<or>
         \<not> list_ex (\<lambda>u. usr_ID u = target) (adb_Users db) then Inl AccDatabase
      else
       (case find (\<lambda>r. grc_Actor r = actor \<and> grc_Key r = key) (adb_Receipts db) of
          None \<Rightarrow> Inr (True, db\<lparr>adb_Receipts := adb_Receipts db @
            [\<lparr>grc_Actor = actor, grc_Key = key, grc_Action = action, grc_Target = target,
              grc_Digest = digest\<rparr>]\<rparr>)
        | Some r \<Rightarrow>
            if grc_Action r \<noteq> action \<or> grc_Target r \<noteq> target \<or> grc_Digest r \<noteq> digest
            then Inl AccConflict else Inr (False, db)))"

definition SuperAdminControl :: "access_db \<Rightarrow> (access_error, super_admin_control) result" where
  "SuperAdminControl db = (case adb_Control db of None \<Rightarrow> Inl AccNotFound | Some c \<Rightarrow> Inr c)"

definition InitializeSuperAdminControl ::
  "access_db \<Rightarrow> int \<Rightarrow> go_time \<Rightarrow> (access_error, access_db) result" where
  "InitializeSuperAdminControl db i now =
     (if adb_Control db \<noteq> None then Inl AccConflict
      else if \<not> list_ex (\<lambda>u. usr_ID u = i) (adb_Users db) then Inl AccDatabase
      else Inr (db\<lparr>adb_Control :=
        Some \<lparr>sac_AdminUserID = i, sac_Version = 1, sac_UpdatedAt = pg_time now\<rparr>\<rparr>))"

definition SetSuperAdminControl ::
  "access_db \<Rightarrow> int \<Rightarrow> go_time \<Rightarrow> (access_error, access_db) result" where
  "SetSuperAdminControl db i now =
     (case adb_Control db of
        None \<Rightarrow> Inl AccNotFound
      | Some c \<Rightarrow>
          if max_int64 < sac_Version c + 1 \<or> \<not> list_ex (\<lambda>u. usr_ID u = i) (adb_Users db)
          then Inl AccDatabase
          else Inr (db\<lparr>adb_Control :=
            Some \<lparr>sac_AdminUserID = i, sac_Version = sac_Version c + 1, sac_UpdatedAt = pg_time now\<rparr>\<rparr>))"

end
