(* ===== verification/AccessAuth.thy ===== *)
theory AccessAuth
  imports AccessStore
begin

text \<open>
  \<open>internal/access/app/authentication.go\<close>: local and WeCom logins with their durable
  rate limit, authentication of session tokens, the CSRF check and the logout, and the
  safe summary of a user (\<open>management.go\<close>).

  A login that is refused still commits: the limit and the audit are stored and the
  refusal is the answer.  So a transaction answers \<open>Inl\<close> for a rollback and
  \<open>Inr (answer, tables)\<close> otherwise, where the answer may be an error.  The password hasher,
  the Unicode tables of \<open>strings.ToLower\<close> and the configuration are fields of the
  environment.
\<close>

record access_env = pg_env +
  env_LowerTables :: "string \<Rightarrow> string"
  env_Hash :: "nat list option \<Rightarrow> string \<Rightarrow> (access_error, string) result"
  env_Verify :: "string \<Rightarrow> string \<Rightarrow> bool"
  env_SessionTTL :: duration
  env_Window :: duration
  env_MaxFailures :: int
  env_BlockFor :: duration
  env_GovernanceKey :: string
  env_CorpScope :: string

text \<open>\<open>NewAuthentication\<close> replaces what is not positive by its defaults.\<close>

definition NewAuthentication :: "access_env \<Rightarrow> access_env" where
  "NewAuthentication env = env\<lparr>
     env_SessionTTL := (if env_SessionTTL env \<le> 0 then 8 * hour else env_SessionTTL env),
     env_Window := (if env_Window env \<le> 0 then 15 * minute else env_Window env),
     env_MaxFailures := (if env_MaxFailures env \<le> 0 then 5 else env_MaxFailures env),
     env_BlockFor := (if env_BlockFor env \<le> 0 then 15 * minute else env_BlockFor env)\<rparr>"

text \<open>\<open>Time.Sub\<close> saturates.\<close>

definition time_sub :: "go_time \<Rightarrow> go_time \<Rightarrow> duration" where
  "time_sub a b = max (- (2 ^ 63)) (min (2 ^ 63 - 1) (a - b))"

record user_summary =
  sum_ID :: int
  sum_Username :: string
  sum_DisplayName :: string
  sum_WeComUserID :: string
  sum_Active :: bool
  sum_SessionVersion :: int
  sum_Roles :: "role list"
  sum_LoginEnabled :: bool
  sum_AccessGrantedAt :: "go_time option"
  sum_LastLoginAt :: "go_time option"
  sum_CreatedAt :: go_time
  sum_UpdatedAt :: go_time

definition summarizeUser :: "access_user \<Rightarrow> user_summary" where
  "summarizeUser u = \<lparr>sum_ID = usr_ID u, sum_Username = usr_Username u,
     sum_DisplayName = usr_DisplayName u, sum_WeComUserID = usr_WeComUserID u,
     sum_Active = usr_Active u, sum_SessionVersion = usr_SessionVersion u, sum_Roles = usr_Roles u,
     sum_LoginEnabled = usr_LoginEnabled u, sum_AccessGrantedAt = usr_AccessGrantedAt u,
     sum_LastLoginAt = usr_LastLoginAt u, sum_CreatedAt = usr_CreatedAt u,
     sum_UpdatedAt = usr_UpdatedAt u\<rparr>"

record login_command =
  lgc_Username :: string
  lgc_Password :: string
  lgc_Remote :: string

record wecom_login_command =
  wlc_WeComUserID :: string
  wlc_Remote :: string

record issued_session =
  iss_SessionToken :: string
  iss_CSRFToken :: string
  iss_ExpiresAt :: go_time
  iss_User :: user_summary

type_synonym token_randoms = "nat list option \<times> nat list option"

definition login_usable :: "access_user \<Rightarrow> bool" where
  "login_usable u \<longleftrightarrow> usr_Active u \<and> usr_LoginEnabled u \<and> usr_AccessGrantedAt u \<noteq> None"

definition auditLogin ::
  "access_db \<Rightarrow> int option \<Rightarrow> token_digest \<Rightarrow> token_digest \<Rightarrow> string \<Rightarrow> string \<Rightarrow> go_time
    \<Rightarrow> (access_error, access_db) result" where
  "auditLogin db user identifier remote outcome reason now =
     AppendLoginAudit db \<lparr>lau_AdminUserID = user, lau_IdentifierDigest = identifier,
       lau_RemoteDigest = remote, lau_Outcome = outcome, lau_Reason = reason, lau_CreatedAt = now\<rparr>"

definition refuse ::
  "access_db \<Rightarrow> int option \<Rightarrow> token_digest \<Rightarrow> token_digest \<Rightarrow> string \<Rightarrow> string \<Rightarrow> go_time \<Rightarrow> access_error
    \<Rightarrow> (access_error, issued_session) result access_tx" where
  "refuse db user identifier remote outcome reason now err =
     (case auditLogin db user identifier remote outcome reason now of
        Inl e \<Rightarrow> Inl e
      | Inr db' \<Rightarrow> Inr (Inl err, db'))"

definition issueSession ::
  "access_env \<Rightarrow> access_clock \<Rightarrow> token_randoms \<Rightarrow> access_db \<Rightarrow> access_user \<Rightarrow> token_digest \<Rightarrow> token_digest
    \<Rightarrow> string \<Rightarrow> (access_error, issued_session) result access_tx" where
  "issueSession env clk randoms db u identifier remote reason =
     (case IssueOpaque (fst randoms) ''as_'' of
        Inl e \<Rightarrow> Inl e
      | Inr (token, tokenDigest) \<Rightarrow>
          (case IssueOpaque (snd randoms) ''ac_'' of
             Inl e \<Rightarrow> Inl e
           | Inr (csrf, csrfDigest) \<Rightarrow>
               (let now = clk_Now clk; expires = now + env_SessionTTL env in
                case CreateSession clk db tokenDigest csrfDigest (usr_ID u) (usr_SessionVersion u) expires of
                  Inl e \<Rightarrow> Inl e
                | Inr db1 \<Rightarrow>
                    (case SetLastLogin env db1 (usr_ID u) now of
                       Inl e \<Rightarrow> Inl e
                     | Inr db2 \<Rightarrow>
                         (case auditLogin db2 (Some (usr_ID u)) identifier remote ''succeeded'' reason now of
                            Inl e \<Rightarrow> Inl e
                          | Inr db3 \<Rightarrow>
                              Inr (Inr \<lparr>iss_SessionToken = token, iss_CSRFToken = csrf,
                                iss_ExpiresAt = expires,
                                iss_User = summarizeUser (u\<lparr>usr_LastLoginAt := Some now\<rparr>)\<rparr>, db3))))))"

subsection \<open>Local login\<close>

definition current_limit :: "access_env \<Rightarrow> go_time \<Rightarrow> login_limit \<Rightarrow> login_limit" where
  "current_limit env now l =
     (if env_Window env \<le> time_sub now (lim_WindowStartedAt l)
      then l\<lparr>lim_WindowStartedAt := now, lim_FailureCount := 0, lim_BlockedUntil := None\<rparr> else l)"

definition throttled :: "go_time \<Rightarrow> login_limit \<Rightarrow> bool" where
  "throttled now l \<longleftrightarrow> (case lim_BlockedUntil l of None \<Rightarrow> False | Some t \<Rightarrow> before now t)"

definition failed_limit :: "access_env \<Rightarrow> go_time \<Rightarrow> login_limit \<Rightarrow> login_limit" where
  "failed_limit env now l =
     (let n = wrap64 (lim_FailureCount l + 1) in
      l\<lparr>lim_FailureCount := n, lim_UpdatedAt := now,
        lim_BlockedUntil := (if env_MaxFailures env \<le> n then Some (now + env_BlockFor env)
                             else lim_BlockedUntil l)\<rparr>)"

definition cleared_limit :: "go_time \<Rightarrow> login_limit \<Rightarrow> login_limit" where
  "cleared_limit now l = l\<lparr>lim_FailureCount := 0, lim_BlockedUntil := None,
     lim_WindowStartedAt := now, lim_UpdatedAt := now\<rparr>"

definition login_candidate :: "access_env \<Rightarrow> login_command \<Rightarrow> string" where
  "login_candidate env command = ToLower (env_LowerTables env) (trim_space (lgc_Username command))"

definition rate_digest :: "access_env \<Rightarrow> login_command \<Rightarrow> token_digest" where
  "rate_digest env command =
     Digest (login_candidate env command @ [CHR 0x00] @ trim_space (lgc_Remote command))"

definition Login_body ::
  "access_env \<Rightarrow> access_clock \<Rightarrow> token_randoms \<Rightarrow> login_command \<Rightarrow> access_db
    \<Rightarrow> (access_error, issued_session) result access_tx" where
  "Login_body env clk randoms command db =
     (let candidate = login_candidate env command;
          username = NormalizeUsername (env_LowerTables env) candidate;
          now = clk_Now clk;
          identifier = Digest candidate;
          remote = Digest (trim_space (lgc_Remote command));
          key = rate_digest env command;
          (stored, db0) = LoginRateLimit clk db key;
          l = current_limit env now stored in
      if throttled now l then
        refuse db0 None identifier remote ''rate_limited'' ''threshold_exceeded'' now
          (if is_ok username then AccRateLimited else AccInvalidCredentials)
      else
       (let found = UserByUsername db0
              (case username of Inl _ \<Rightarrow> replicate 121 CHR ''x'' | Inr name \<Rightarrow> name);
            valid = (case found of Inl _ \<Rightarrow> False
                     | Inr u \<Rightarrow> env_Verify env (lgc_Password command) (usr_PasswordHash u)) in
        (case found of
            Inl e \<Rightarrow> if e \<noteq> AccNotFound then Inl e else
              (case SaveLoginRateLimit db0 key (failed_limit env now l) of
                 Inl e \<Rightarrow> Inl e
               | Inr db1 \<Rightarrow> refuse db1 None identifier remote ''invalid_credentials''
                   (if is_ok username then ''credentials_rejected'' else ''malformed_identifier'') now
                   AccInvalidCredentials)
          | Inr u \<Rightarrow>
              if \<not> valid \<or> \<not> login_usable u then
                (case SaveLoginRateLimit db0 key (failed_limit env now l) of
                   Inl e \<Rightarrow> Inl e
                 | Inr db1 \<Rightarrow> refuse db1 (Some (usr_ID u)) identifier remote
                     (if login_usable u then ''invalid_credentials'' else ''disabled'')
                     (if login_usable u then
                        (if is_ok username then ''credentials_rejected'' else ''malformed_identifier'')
                      else ''account_disabled'') now AccInvalidCredentials)
              else if usr_Roles u = [] then
                refuse db0 (Some (usr_ID u)) identifier remote ''invalid_credentials'' ''no_roles'' now
                  AccPermissionDenied
              else
                (case SaveLoginRateLimit db0 key (cleared_limit now l) of
                   Inl e \<Rightarrow> Inl e
                 | Inr db1 \<Rightarrow> issueSession env clk randoms db1 u identifier remote ''local_password''))))"

definition Login ::
  "access_env \<Rightarrow> access_clock \<Rightarrow> token_randoms \<Rightarrow> login_command \<Rightarrow> access_db
    \<Rightarrow> (access_error, issued_session) result access_tx" where
  "Login env clk randoms command db = within db (Login_body env clk randoms command db)"

subsection \<open>Login with a verified WeCom identity\<close>

definition WeComLogin_body ::
  "access_env \<Rightarrow> access_clock \<Rightarrow> token_randoms \<Rightarrow> wecom_login_command \<Rightarrow> access_db
    \<Rightarrow> (access_error, issued_session) result access_tx" where
  "WeComLogin_body env clk randoms command db =
     (let candidate = trim_space (wlc_WeComUserID command);
          now = clk_Now clk;
          identifier = Digest candidate;
          remote = Digest (trim_space (wlc_Remote command)) in
      case NormalizeWeComUserID candidate of
        Inl _ \<Rightarrow> refuse db None identifier remote ''invalid_credentials'' ''malformed_wecom_userid'' now
                  AccInvalidCredentials
      | Inr w \<Rightarrow>
          (case UserByWeComUserID db w of
             Inl e \<Rightarrow>
               if e = AccNotFound then refuse db None identifier remote ''invalid_credentials''
                 ''wecom_user_not_authorized'' now AccInvalidCredentials
               else Inl e
           | Inr u \<Rightarrow>
               if \<not> login_usable u then
                 refuse db (Some (usr_ID u)) identifier remote ''disabled'' ''account_disabled'' now
                   AccInvalidCredentials
               else if usr_Roles u = [] then
                 refuse db (Some (usr_ID u)) identifier remote ''invalid_credentials'' ''no_roles'' now
                   AccPermissionDenied
               else issueSession env clk randoms db u identifier remote ''wecom_oauth''))"

definition LoginWithWeComUserID ::
  "access_env \<Rightarrow> access_clock \<Rightarrow> token_randoms \<Rightarrow> wecom_login_command \<Rightarrow> access_db
    \<Rightarrow> (access_error, issued_session) result access_tx" where
  "LoginWithWeComUserID env clk randoms command db = within db (WeComLogin_body env clk randoms command db)"

subsection \<open>Sessions\<close>

definition session_live :: "go_time \<Rightarrow> session_row \<Rightarrow> access_user \<Rightarrow> bool" where
  "session_live now s u \<longleftrightarrow> ses_RevokedAt s = None \<and> before now (ses_ExpiresAt s) \<and> login_usable u \<and>
     ses_SessionVersion s = usr_SessionVersion u"

definition session_principal :: "session_row \<Rightarrow> access_user \<Rightarrow> principal" where
  "session_principal s u = \<lparr>prn_Kind = KindAdmin, prn_InternalID = usr_ID u, prn_Roles = usr_Roles u,
     prn_SessionVersion = ses_SessionVersion s\<rparr>"

definition Authenticate :: "access_clock \<Rightarrow> string \<Rightarrow> access_db \<Rightarrow> principal access_tx" where
  "Authenticate clk token db =
     (if trim_space token = [] then Inl AccAuthentication
      else within db
       (case SessionByTokenDigest db (Digest token) of
          Inl e \<Rightarrow> Inl (if e = AccNotFound then AccAuthentication else e)
        | Inr (s, u) \<Rightarrow>
            if \<not> session_live (clk_Now clk) s u then Inl AccAuthentication
            else if usr_Roles u = [] then Inl AccPermissionDenied
            else Inr (session_principal s u, TouchSession db (ses_ID s) (clk_Now clk))))"

definition AuthorizeCSRF ::
  "access_clock \<Rightarrow> string \<Rightarrow> string \<Rightarrow> string \<Rightarrow> access_db \<Rightarrow> (access_error, principal) result" where
  "AuthorizeCSRF clk token cookie request db =
     (if token = [] \<or> cookie = [] \<or> request = [] then Inl AccCSRFRequired
      else
       (case SessionByTokenDigest db (Digest token) of
          Inl e \<Rightarrow> Inl AccAuthentication
        | Inr (s, u) \<Rightarrow>
            if \<not> session_live (clk_Now clk) s u then Inl AccAuthentication
            else if \<not> Matches cookie (ses_CSRFTokenDigest s) \<or> \<not> Matches request (ses_CSRFTokenDigest s)
            then Inl AccCSRFRequired
            else Inr (session_principal s u)))"

text \<open>The check and the revocation are two transactions: \<open>seen\<close> is what the first one read.\<close>

definition Logout ::
  "access_clock \<Rightarrow> string \<Rightarrow> string \<Rightarrow> string \<Rightarrow> access_db \<Rightarrow> access_db \<Rightarrow> unit access_tx" where
  "Logout clk token cookie request seen db =
     (case AuthorizeCSRF clk token cookie request seen of
        Inl e \<Rightarrow> Inl e
      | Inr _ \<Rightarrow> within db (Inr ((), RevokeSession db (Digest token) ''logout'' (clk_Now clk))))"

end
