(* ===== verification/AccessManage.thy ===== *)
theory AccessManage
  imports AccessAuth
begin

text \<open>
  \<open>internal/access/app/management.go\<close> and the authority rules of \<open>governance.go\<close>: the
  bootstrap of the first super administrator, the commands on local accounts, the panel
  of login switches with its idempotency receipts, and the check of the acting
  administrator under the row lock.
\<close>

subsection \<open>Authority\<close>

definition requireSuperAdmin :: "principal \<Rightarrow> (access_error, unit) result" where
  "requireSuperAdmin actor =
     (case Principal_Validate actor of
        Inl e \<Rightarrow> Inl AccAuthentication
      | Inr _ \<Rightarrow> if \<not> IsSuperAdmin actor then Inl AccPermissionDenied else Inr ())"

definition currentGovernanceActor :: "access_db \<Rightarrow> principal \<Rightarrow> (access_error, access_user \<times> role) result" where
  "currentGovernanceActor db actor =
     (if prn_Kind actor \<noteq> KindAdmin \<or> prn_InternalID actor < 1 \<or> prn_SessionVersion actor < 1
      then Inl AccAuthentication
      else
       (case UserByID db (prn_InternalID actor) of
          Inl e \<Rightarrow> Inl e
        | Inr u \<Rightarrow>
            if \<not> usr_Active u \<or> \<not> usr_LoginEnabled u \<or> usr_AccessGrantedAt u = None \<or>
               usr_SessionVersion u \<noteq> prn_SessionVersion actor then Inl AccAuthentication
            else
             (case SingleRole (usr_Roles u) of
                Inl e \<Rightarrow> Inl AccConflict
              | Inr r \<Rightarrow> if r \<noteq> RoleSuperAdmin \<and> r \<noteq> RoleAdmin then Inl AccPermissionDenied
                  else Inr (u, r))))"

definition canProvision :: "role \<Rightarrow> role \<Rightarrow> bool" where
  "canProvision actor wanted \<longleftrightarrow>
     (actor = RoleSuperAdmin \<and> (wanted = RoleAdmin \<or> wanted = RoleViewer)) \<or>
     (actor = RoleAdmin \<and> wanted = RoleViewer)"

definition canManageTarget :: "role \<Rightarrow> role \<Rightarrow> bool" where
  "canManageTarget actor target \<longleftrightarrow>
     (actor = RoleSuperAdmin \<and> (target = RoleAdmin \<or> target = RoleViewer)) \<or>
     (actor = RoleAdmin \<and> target = RoleViewer)"

definition canAnyGovernanceMutation :: "role \<Rightarrow> role \<Rightarrow> bool" where
  "canAnyGovernanceMutation actor target \<longleftrightarrow>
     canManageTarget actor target \<or> (actor = RoleSuperAdmin \<and> target = RoleSuperAdmin)"

subsection \<open>Audit\<close>

definition json_bool :: "bool \<Rightarrow> string" where
  "json_bool b = (if b then ''true'' else ''false'')"

definition quoted :: "string \<Rightarrow> string" where
  "quoted s = CHR 0x22 # s @ [CHR 0x22]"

definition json_object :: "(string \<times> string) list \<Rightarrow> string" where
  "json_object kvs = ''{'' @ join '','' (map (\<lambda>(k, v). quoted k @ '':'' @ v) kvs) @ ''}''"

definition roles_details :: "role list \<Rightarrow> string" where
  "roles_details rs = json_object [(''roles'', ''['' @ join '','' (map (quoted \<circ> role_text) rs) @ '']'')]"

definition audit ::
  "access_db \<Rightarrow> int \<Rightarrow> int \<Rightarrow> string \<Rightarrow> string \<Rightarrow> go_time \<Rightarrow> (access_error, access_db) result" where
  "audit db actor target action details now =
     AppendAccessAudit db \<lparr>aau_Actor = actor, aau_Target = target, aau_Action = action,
       aau_Details = details, aau_CreatedAt = now\<rparr>"

definition passwordInputError :: "access_error \<Rightarrow> access_error" where
  "passwordInputError e = (if e = AccInvalidPassword \<or> e = AccInvalidInput then AccInvalidInput else e)"

subsection \<open>Bootstrap and local accounts\<close>

record bootstrap_input =
  bsi_Username :: string
  bsi_Password :: string
  bsi_DisplayName :: string

definition new_user :: "string \<Rightarrow> string \<Rightarrow> string \<Rightarrow> string \<Rightarrow> role list \<Rightarrow> access_user" where
  "new_user username hash displayName wecom roles =
     \<lparr>usr_ID = 0, usr_Username = username, usr_PasswordHash = hash, usr_DisplayName = displayName,
      usr_WeComUserID = wecom, usr_Active = True, usr_LoginEnabled = False, usr_LegacyPending = False,
      usr_AccessGrantedAt = None, usr_SessionVersion = 0, usr_Roles = roles, usr_LastLoginAt = None,
      usr_CreatedAt = 0, usr_UpdatedAt = 0\<rparr>"

definition Bootstrap ::
  "access_env \<Rightarrow> access_clock \<Rightarrow> nat list option \<Rightarrow> bootstrap_input \<Rightarrow> access_db
    \<Rightarrow> (access_user \<times> bool) access_tx" where
  "Bootstrap env clk salt input db =
     (case NormalizeUsername (env_LowerTables env) (bsi_Username input) of
        Inl e \<Rightarrow> Inl AccInvalidInput
      | Inr username \<Rightarrow>
          if trim_space (bsi_DisplayName input) = [] then Inl AccInvalidInput
          else
           (case env_Hash env salt (bsi_Password input) of
              Inl e \<Rightarrow> Inl (passwordInputError e)
            | Inr hash \<Rightarrow> within db
                (case BootstrapUser env clk db
                    (new_user username hash (trim_space (bsi_DisplayName input)) [] [RoleSuperAdmin]) of
                   Inl e \<Rightarrow> Inl e
                 | Inr ((u, created), db1) \<Rightarrow>
                     if \<not> created then Inr ((u, created), db1)
                     else
                      (case InitializeSuperAdminControl db1 (usr_ID u) (clk_Now clk) of
                         Inl e \<Rightarrow> Inl e
                       | Inr db2 \<Rightarrow>
                           (case audit db2 (usr_ID u) (usr_ID u) ''bootstrap'' (roles_details (usr_Roles u))
                               (clk_Now clk) of
                              Inl e \<Rightarrow> Inl e
                            | Inr db3 \<Rightarrow> Inr ((u, created), db3))))))"

record add_user_input =
  aui_Username :: string
  aui_Password :: string
  aui_DisplayName :: string
  aui_Roles :: "role list"

definition AddUser ::
  "access_env \<Rightarrow> access_clock \<Rightarrow> nat list option \<Rightarrow> principal \<Rightarrow> add_user_input \<Rightarrow> access_db
    \<Rightarrow> access_user access_tx" where
  "AddUser env clk salt actor input db =
     (case requireSuperAdmin actor of
        Inl e \<Rightarrow> Inl e
      | Inr _ \<Rightarrow>
          (case NormalizeUsername (env_LowerTables env) (aui_Username input) of
             Inl e \<Rightarrow> Inl AccInvalidInput
           | Inr username \<Rightarrow>
               if trim_space (aui_DisplayName input) = [] then Inl AccInvalidInput
               else
                (case NormalizeRoles (aui_Roles input) of
                   Inl e \<Rightarrow> Inl e
                 | Inr roles \<Rightarrow>
                     (case env_Hash env salt (aui_Password input) of
                        Inl e \<Rightarrow> Inl (passwordInputError e)
                      | Inr hash \<Rightarrow> within db
                          (case CreateUser env clk db
                              (new_user username hash (trim_space (aui_DisplayName input)) [] roles) of
                             Inl e \<Rightarrow> Inl e
                           | Inr (u, db1) \<Rightarrow>
                               (case audit db1 (prn_InternalID actor) (usr_ID u) ''create''
                                   (roles_details roles) (clk_Now clk) of
                                  Inl e \<Rightarrow> Inl e
                                | Inr db2 \<Rightarrow> Inr (u, db2)))))))"

text \<open>A command on a user followed by its audit, in one transaction.\<close>

definition audited ::
  "access_db \<Rightarrow> (access_error, access_db) result \<Rightarrow> principal \<Rightarrow> int \<Rightarrow> string \<Rightarrow> string \<Rightarrow> go_time
    \<Rightarrow> unit access_tx" where
  "audited db r actor target action details now = within db
     (case r of
        Inl e \<Rightarrow> Inl e
      | Inr db1 \<Rightarrow>
          (case audit db1 (prn_InternalID actor) target action details now of
             Inl e \<Rightarrow> Inl e
           | Inr db2 \<Rightarrow> Inr ((), db2)))"

definition DisableUser ::
  "access_env \<Rightarrow> access_clock \<Rightarrow> principal \<Rightarrow> int \<Rightarrow> access_db \<Rightarrow> unit access_tx" where
  "DisableUser env clk actor target db =
     (case requireSuperAdmin actor of
        Inl e \<Rightarrow> Inl e
      | Inr _ \<Rightarrow>
          if target < 1 \<or> prn_InternalID actor = target then Inl AccPermissionDenied
          else audited db (SetLoginEnabled env db target False (clk_Now clk)) actor target ''disable''
            ''{}'' (clk_Now clk))"

definition BindWeComUserID ::
  "access_env \<Rightarrow> access_clock \<Rightarrow> principal \<Rightarrow> int \<Rightarrow> string \<Rightarrow> access_db \<Rightarrow> unit access_tx" where
  "BindWeComUserID env clk actor target raw db =
     (case requireSuperAdmin actor of
        Inl e \<Rightarrow> Inl e
      | Inr _ \<Rightarrow>
          let value = trim_space raw in
          if target < 1 then Inl AccInvalidInput
          else
           (case (if value = [] then Inr [] else NormalizeWeComUserID value) of
              Inl e \<Rightarrow> Inl AccInvalidInput
            | Inr w \<Rightarrow> audited db (SetWeComUserID env db target w (clk_Now clk)) actor target
                ''bind_wecom_userid'' (json_object [(''bound'', json_bool (w \<noteq> []))]) (clk_Now clk)))"

definition ChangeRoles ::
  "access_env \<Rightarrow> access_clock \<Rightarrow> principal \<Rightarrow> int \<Rightarrow> role list \<Rightarrow> access_db \<Rightarrow> unit access_tx" where
  "ChangeRoles env clk actor target input db =
     (case requireSuperAdmin actor of
        Inl e \<Rightarrow> Inl e
      | Inr _ \<Rightarrow>
          (case NormalizeRoles input of
             Inl e \<Rightarrow> Inl AccInvalidInput
           | Inr roles \<Rightarrow>
               if target < 1 then Inl AccInvalidInput
               else if prn_InternalID actor = target \<and> RoleSuperAdmin \<notin> set roles
               then Inl AccPermissionDenied
               else audited db (ReplaceRoles env db target roles (clk_Now clk)) actor target
                 ''change_roles'' (roles_details roles) (clk_Now clk)))"

definition ResetPassword ::
  "access_env \<Rightarrow> access_clock \<Rightarrow> nat list option \<Rightarrow> principal \<Rightarrow> int \<Rightarrow> string \<Rightarrow> access_db \<Rightarrow> unit access_tx" where
  "ResetPassword env clk salt actor target password db =
     (case requireSuperAdmin actor of
        Inl e \<Rightarrow> Inl e
      | Inr _ \<Rightarrow>
          if target < 1 then Inl AccInvalidInput
          else
           (case env_Hash env salt password of
              Inl e \<Rightarrow> Inl (passwordInputError e)
            | Inr hash \<Rightarrow> audited db (SetPasswordHash env db target hash (clk_Now clk)) actor target
                ''reset_password'' ''{}'' (clk_Now clk)))"

subsection \<open>The panel of login switches\<close>

record login_access_change =
  lac_AdminUserID :: int
  lac_LoginEnabled :: bool

definition validLoginAccessIdempotencyKey :: "string \<Rightarrow> bool" where
  "validLoginAccessIdempotencyKey raw \<longleftrightarrow>
     (let key = trim_space raw in
      key \<noteq> [] \<and> length key \<le> 200 \<and> \<not> contains_any key [CHR 0x00, CHR 0x0D, CHR 0x0A])"

fun check_changes ::
  "principal \<Rightarrow> login_access_change list \<Rightarrow> int list \<Rightarrow> (access_error, unit) result" where
  "check_changes actor [] seen = Inr ()"
| "check_changes actor (c # cs) seen =
     (if lac_AdminUserID c < 1 \<or> lac_AdminUserID c \<in> set seen then Inl AccInvalidInput
      else if lac_AdminUserID c = prn_InternalID actor \<and> \<not> lac_LoginEnabled c
      then Inl AccPermissionDenied
      else check_changes actor cs (lac_AdminUserID c # seen))"

definition loginAccessRequestDigest :: "login_access_change list \<Rightarrow> token_digest" where
  "loginAccessRequestDigest cs = Sum256 (json_object [(''members'',
     ''['' @ join '','' (map (\<lambda>c. json_object
       [(''AdminUserID'', format_int (lac_AdminUserID c)),
        (''LoginEnabled'', json_bool (lac_LoginEnabled c))]) cs) @ '']'')])"

fun mutable_changes ::
  "access_user list \<Rightarrow> role \<Rightarrow> login_access_change list \<Rightarrow> (access_error, login_access_change list) result" where
  "mutable_changes listed actorRole [] = Inr []"
| "mutable_changes listed actorRole (c # cs) =
     (case find (\<lambda>u. usr_ID u = lac_AdminUserID c) listed of
        None \<Rightarrow> Inl AccNotFound
      | Some u \<Rightarrow>
          (case SingleRole (usr_Roles u) of
             Inl e \<Rightarrow> Inl AccConflict
           | Inr r \<Rightarrow>
               if usr_AccessGrantedAt u = None then Inl AccNotFound
               else if usr_LoginEnabled u = lac_LoginEnabled c then mutable_changes listed actorRole cs
               else if \<not> canManageTarget actorRole r then Inl AccPermissionDenied
               else (case mutable_changes listed actorRole cs of
                       Inl e \<Rightarrow> Inl e | Inr ms \<Rightarrow> Inr (c # ms))))"

text \<open>\<open>locked\<close> is the state in which the rows were read under their locks.\<close>

fun apply_changes ::
  "access_env \<Rightarrow> go_time \<Rightarrow> principal \<Rightarrow> role \<Rightarrow> access_db \<Rightarrow> login_access_change list \<Rightarrow> access_db
    \<Rightarrow> (access_error, access_db) result" where
  "apply_changes env now actor actorRole locked [] db = Inr db"
| "apply_changes env now actor actorRole locked (c # cs) db =
     (case UserByID locked (lac_AdminUserID c) of
        Inl e \<Rightarrow> Inl e
      | Inr u \<Rightarrow>
          (case SingleRole (usr_Roles u) of
             Inl e \<Rightarrow> Inl AccConflict
           | Inr r \<Rightarrow>
               if usr_AccessGrantedAt u = None then Inl AccNotFound
               else if usr_LoginEnabled u = lac_LoginEnabled c
               then apply_changes env now actor actorRole locked cs db
               else if \<not> canManageTarget actorRole r then Inl AccPermissionDenied
               else
                (case SetLoginEnabled env db (usr_ID u) (lac_LoginEnabled c) now of
                   Inl e \<Rightarrow> Inl e
                 | Inr db1 \<Rightarrow>
                     (case audit db1 (prn_InternalID actor) (usr_ID u) ''set_login_enabled''
                         (json_object [(''login_enabled'', json_bool (lac_LoginEnabled c))]) now of
                        Inl e \<Rightarrow> Inl e
                      | Inr db2 \<Rightarrow> apply_changes env now actor actorRole locked cs db2))))"

definition granted_summaries :: "access_db \<Rightarrow> user_summary list" where
  "granted_summaries db =
     map summarizeUser (filter (\<lambda>u. usr_AccessGrantedAt u \<noteq> None) (adb_Users db))"

definition ListUsers :: "principal \<Rightarrow> access_db \<Rightarrow> (access_error, user_summary list) result" where
  "ListUsers actor db =
     (case currentGovernanceActor db actor of
        Inl e \<Rightarrow> Inl e
      | Inr _ \<Rightarrow> Inr (granted_summaries db))"

definition login_access_body ::
  "access_env \<Rightarrow> access_clock \<Rightarrow> principal \<Rightarrow> string \<Rightarrow> login_access_change list \<Rightarrow> access_db
    \<Rightarrow> user_summary list access_tx" where
  "login_access_body env clk actor key canonical db =
     (case currentGovernanceActor db actor of
        Inl e \<Rightarrow> Inl e
      | Inr (_, actorRole) \<Rightarrow>
          (case ReserveLoginAccessRequest db (prn_InternalID actor) key
              (loginAccessRequestDigest canonical) of
             Inl e \<Rightarrow> Inl e
           | Inr (reserved, db1) \<Rightarrow>
               if \<not> reserved then Inr (granted_summaries db1, db1)
               else
                (case mutable_changes (adb_Users db1) actorRole canonical of
                   Inl e \<Rightarrow> Inl e
                 | Inr mutable \<Rightarrow>
                     (case apply_changes env (clk_Now clk) actor actorRole db1 mutable db1 of
                        Inl e \<Rightarrow> Inl e
                      | Inr db2 \<Rightarrow> Inr (granted_summaries db2, db2)))))"

definition SetLoginAccess ::
  "access_env \<Rightarrow> access_clock \<Rightarrow> principal \<Rightarrow> string \<Rightarrow> login_access_change list \<Rightarrow> access_db
    \<Rightarrow> user_summary list access_tx" where
  "SetLoginAccess env clk actor key changes db =
     (if \<not> validLoginAccessIdempotencyKey key \<or> length changes = 0 \<or> 200 < length changes
      then Inl AccInvalidInput
      else
       (case check_changes actor changes [] of
          Inl e \<Rightarrow> Inl e
        | Inr _ \<Rightarrow> within db
            (login_access_body env clk actor key (sort_key lac_AdminUserID changes) db)))"

end
