(* ===== verification/AccessGovern.thy ===== *)
theory AccessGovern
  imports AccessManage
begin

text \<open>
  The governed commands of \<open>internal/access/app/governance.go\<close>: provisioning a verified
  employee, switching a login, changing a role, binding an identity, resetting a password
  and transferring the super administrator, each under an idempotency receipt; the
  listing with the actions it offers; and the projection of the enterprise directory
  into staff records (\<open>wecom_staff.go\<close>).

  The enterprise directory and the platform's audit log are other components: the answers
  of the directory in one call are an argument, and so is whether the log accepts the
  event of a new record.  A command that reads before its transaction gets the tables
  of that read as \<open>seen\<close>.
\<close>

subsection \<open>The enterprise directory\<close>

datatype directory_error = EmployeeNotFound | DirectoryFailure

record employee =
  emp_UserID :: string
  emp_DisplayName :: string

record directory =
  dir_Ready :: bool
  dir_CorpID :: string
  dir_Read :: "string \<Rightarrow> (directory_error, employee) result"
  dir_List :: "(directory_error, employee list) result"

definition enterpriseDirectoryReady :: "access_env \<Rightarrow> directory option \<Rightarrow> bool" where
  "enterpriseDirectoryReady env dir =
     (case dir of None \<Rightarrow> False | Some d \<Rightarrow> dir_Ready d \<and> dir_CorpID d = env_CorpScope env)"

definition verifiedEnterpriseEmployee ::
  "access_env \<Rightarrow> directory option \<Rightarrow> string \<Rightarrow> (access_error, employee) result" where
  "verifiedEnterpriseEmployee env dir raw =
     (case NormalizeWeComUserID raw of
        Inl e \<Rightarrow> Inl AccInvalidInput
      | Inr userID \<Rightarrow>
          if userID \<noteq> raw then Inl AccInvalidInput
          else if \<not> enterpriseDirectoryReady env dir then Inl AccDirectoryUnavailable
          else
           (case dir_Read (the dir) userID of
              Inl e \<Rightarrow> if e = EmployeeNotFound then Inl AccNotFound else Inl AccDirectoryUnavailable
            | Inr m \<Rightarrow>
                if emp_UserID m \<noteq> userID \<or> trim_space (emp_DisplayName m) = []
                then Inl AccDirectoryUnavailable else Inr m))"

fun directory_loop :: "employee list \<Rightarrow> string list \<Rightarrow> bool" where
  "directory_loop [] seen = True"
| "directory_loop (m # ms) seen =
     (if \<not> is_ok (NormalizeWeComUserID (emp_UserID m)) \<or> trim_space (emp_UserID m) \<noteq> emp_UserID m \<or>
         trim_space (emp_DisplayName m) = [] then False
      else if emp_UserID m \<in> set seen then False
      else directory_loop ms (emp_UserID m # seen))"

definition completeEnterpriseDirectory ::
  "access_env \<Rightarrow> directory option \<Rightarrow> (access_error, employee list) result" where
  "completeEnterpriseDirectory env dir =
     (case dir of
        None \<Rightarrow> Inl AccDirectoryUnavailable
      | Some d \<Rightarrow>
          if dir_CorpID d \<noteq> env_CorpScope env then Inl AccDirectoryUnavailable
          else
           (case dir_List d of
              Inl e \<Rightarrow> Inl AccDirectoryUnavailable
            | Inr ms \<Rightarrow>
                if 10000 < length ms \<or> \<not> directory_loop ms [] then Inl AccDirectoryUnavailable
                else Inr (sort_by emp_UserID ms)))"

subsection \<open>Receipts and targets\<close>

definition validGovernanceIdempotencyKey :: "string \<Rightarrow> bool" where
  "validGovernanceIdempotencyKey key \<longleftrightarrow> trim_space key \<noteq> [] \<and> length (trim_space key) \<le> 200 \<and>
     \<not> contains_any key [CHR 0x00, CHR 0x0D, CHR 0x0A]"

definition governanceDigest :: "access_env \<Rightarrow> string list \<Rightarrow> token_digest" where
  "governanceDigest env parts = hmac_sha256 (env_GovernanceKey env) (join [CHR 0x00] parts)"

text \<open>The part of \<open>withGovernanceTarget\<close> inside its transaction.\<close>

definition governance_target ::
  "access_db \<Rightarrow> principal \<Rightarrow> int \<Rightarrow> string \<Rightarrow> string \<Rightarrow> token_digest
    \<Rightarrow> (role \<Rightarrow> access_user \<Rightarrow> role \<Rightarrow> access_db \<Rightarrow> (access_error, access_db) result)
    \<Rightarrow> unit access_tx" where
  "governance_target db actor target key action digest apply =
     (case currentGovernanceActor db actor of
        Inl e \<Rightarrow> Inl e
      | Inr (_, actorRole) \<Rightarrow>
          (case UserByID db target of
             Inl e \<Rightarrow> Inl e
           | Inr u \<Rightarrow>
               (case SingleRole (usr_Roles u) of
                  Inl e \<Rightarrow> Inl AccConflict
                | Inr targetRole \<Rightarrow>
                    if usr_AccessGrantedAt u = None then Inl AccNotFound
                    else if \<not> canAnyGovernanceMutation actorRole targetRole then Inl AccPermissionDenied
                    else
                     (case ReserveGovernanceMutation db (prn_InternalID actor) key action target digest of
                        Inl e \<Rightarrow> Inl e
                      | Inr (reserved, db1) \<Rightarrow>
                          if \<not> reserved then Inr ((), db1)
                          else
                           (case apply actorRole u targetRole db1 of
                              Inl e \<Rightarrow> Inl e
                            | Inr db2 \<Rightarrow> Inr ((), db2))))))"

definition withGovernanceTarget ::
  "access_db \<Rightarrow> principal \<Rightarrow> int \<Rightarrow> string \<Rightarrow> string \<Rightarrow> token_digest
    \<Rightarrow> (role \<Rightarrow> access_user \<Rightarrow> role \<Rightarrow> access_db \<Rightarrow> (access_error, access_db) result)
    \<Rightarrow> unit access_tx" where
  "withGovernanceTarget db actor target key action digest apply =
     (if target < 1 \<or> \<not> validGovernanceIdempotencyKey key then Inl AccInvalidInput
      else within db (governance_target db actor target key action digest apply))"

subsection \<open>Governed commands\<close>

record provision_input =
  pvi_WeComUserID :: string
  pvi_Role :: role
  pvi_IdempotencyKey :: string

text \<open>After the reservation: grant an existing staff record, or create an account.\<close>

definition provision_rows ::
  "access_env \<Rightarrow> access_clock \<Rightarrow> principal \<Rightarrow> role \<Rightarrow> employee \<Rightarrow> string \<Rightarrow> access_db
    \<Rightarrow> access_user access_tx" where
  "provision_rows env clk actor r m hash db =
     (let now = clk_Now clk; action = ''provision_'' @ role_text r;
          role_json = (''role'', quoted (role_text r)) in
      case UserByWeComUserID db (emp_UserID m) of
        Inr existing \<Rightarrow>
          if usr_AccessGrantedAt existing \<noteq> None then Inl AccConflict
          else
           (case GrantAccess env db (usr_ID existing) r (emp_DisplayName m) now of
              Inl e \<Rightarrow> Inl e
            | Inr db2 \<Rightarrow>
                (case UserByID db2 (usr_ID existing) of
                   Inl e \<Rightarrow> Inl e
                 | Inr u \<Rightarrow>
                     (case audit db2 (prn_InternalID actor) (usr_ID u) action
                         (json_object [(''existing_staff_projection'', ''true''), role_json,
                           (''wecom_verified'', ''true'')]) now of
                        Inl e \<Rightarrow> Inl e
                      | Inr db3 \<Rightarrow> Inr (u, db3))))
      | Inl e \<Rightarrow>
          if e \<noteq> AccNotFound then Inl e
          else
           (case CreateUser env clk db
               (new_user (''wecom-staff-'' @ hex_encode (Sum256 (emp_UserID m))) hash
                  (emp_DisplayName m) (emp_UserID m) [r]) of
              Inl e \<Rightarrow> Inl e
            | Inr (u, db2) \<Rightarrow>
                (case audit db2 (prn_InternalID actor) (usr_ID u) action
                    (json_object [role_json, (''wecom_verified'', ''true'')]) now of
                   Inl e \<Rightarrow> Inl e
                 | Inr db3 \<Rightarrow> Inr (u, db3))))"

definition provision_body ::
  "access_env \<Rightarrow> access_clock \<Rightarrow> principal \<Rightarrow> provision_input \<Rightarrow> employee \<Rightarrow> string \<Rightarrow> access_db
    \<Rightarrow> access_user access_tx" where
  "provision_body env clk actor input m hash db =
     (case currentGovernanceActor db actor of
        Inl e \<Rightarrow> Inl e
      | Inr (_, actorRole) \<Rightarrow>
          if \<not> canProvision actorRole (pvi_Role input) then Inl AccPermissionDenied
          else
           (case ReserveGovernanceMutation db (prn_InternalID actor) (pvi_IdempotencyKey input)
               (''provision_'' @ role_text (pvi_Role input)) (prn_InternalID actor)
               (governanceDigest env [''provision'', emp_UserID m, role_text (pvi_Role input)]) of
              Inl e \<Rightarrow> Inl e
            | Inr (reserved, db1) \<Rightarrow>
                if \<not> reserved then
                  (case UserByWeComUserID db1 (emp_UserID m) of Inl e \<Rightarrow> Inl e | Inr u \<Rightarrow> Inr (u, db1))
                else provision_rows env clk actor (pvi_Role input) m hash db1))"

definition ProvisionEnterpriseEmployee ::
  "access_env \<Rightarrow> access_clock \<Rightarrow> token_randoms \<Rightarrow> directory option \<Rightarrow> access_db \<Rightarrow> principal
    \<Rightarrow> provision_input \<Rightarrow> access_db \<Rightarrow> access_user access_tx" where
  "ProvisionEnterpriseEmployee env clk randoms dir seen actor input db =
     (if env_GovernanceKey env = [] then Inl AccDirectoryUnavailable
      else if (pvi_Role input \<noteq> RoleAdmin \<and> pvi_Role input \<noteq> RoleViewer) \<or>
         \<not> validGovernanceIdempotencyKey (pvi_IdempotencyKey input) then Inl AccInvalidInput
      else
       (case currentGovernanceActor seen actor of
          Inl e \<Rightarrow> Inl e
        | Inr _ \<Rightarrow>
            (case verifiedEnterpriseEmployee env dir (pvi_WeComUserID input) of
               Inl e \<Rightarrow> Inl e
             | Inr m \<Rightarrow>
                 (case IssueOpaque (fst randoms) ''access_'' of
                    Inl e \<Rightarrow> Inl e
                  | Inr (password, _) \<Rightarrow>
                      (case env_Hash env (snd randoms) password of
                         Inl e \<Rightarrow> Inl e
                       | Inr hash \<Rightarrow> within db (provision_body env clk actor input m hash db))))))"

record set_login_input =
  sli_TargetID :: int
  sli_LoginEnabled :: bool
  sli_IdempotencyKey :: string

definition apply_login ::
  "access_env \<Rightarrow> go_time \<Rightarrow> principal \<Rightarrow> bool \<Rightarrow> role \<Rightarrow> access_user \<Rightarrow> role \<Rightarrow> access_db
    \<Rightarrow> (access_error, access_db) result" where
  "apply_login env now actor enabled actorRole u targetRole db =
     (if \<not> canManageTarget actorRole targetRole then Inl AccPermissionDenied
      else if \<not> usr_Active u \<and> \<not> (enabled \<and> usr_LegacyPending u) then Inl AccConflict
      else if usr_LoginEnabled u = enabled then Inr db
      else
       (case SetLoginEnabled env db (usr_ID u) enabled now of
          Inl e \<Rightarrow> Inl e
        | Inr db1 \<Rightarrow> audit db1 (prn_InternalID actor) (usr_ID u)
            (if enabled then ''enable_login'' else ''disable_login'')
            (json_object [(''login_enabled'', json_bool enabled)]) now))"

definition SetGovernanceLoginEnabled ::
  "access_env \<Rightarrow> access_clock \<Rightarrow> principal \<Rightarrow> set_login_input \<Rightarrow> access_db \<Rightarrow> unit access_tx" where
  "SetGovernanceLoginEnabled env clk actor input db =
     (if env_GovernanceKey env = [] then Inl AccDirectoryUnavailable
      else withGovernanceTarget db actor (sli_TargetID input) (sli_IdempotencyKey input)
        ''set_login_enabled'' (governanceDigest env [''login'', json_bool (sli_LoginEnabled input)])
        (apply_login env (clk_Now clk) actor (sli_LoginEnabled input)))"

record set_role_input =
  sri_TargetID :: int
  sri_Role :: role
  sri_IdempotencyKey :: string

definition apply_role ::
  "access_env \<Rightarrow> go_time \<Rightarrow> principal \<Rightarrow> role \<Rightarrow> role \<Rightarrow> access_user \<Rightarrow> role \<Rightarrow> access_db
    \<Rightarrow> (access_error, access_db) result" where
  "apply_role env now actor r actorRole u targetRole db =
     (if \<not> canManageTarget actorRole targetRole \<or> actorRole \<noteq> RoleSuperAdmin
      then Inl AccPermissionDenied
      else if targetRole = r then Inr db
      else
       (case ReplaceRoles env db (usr_ID u) [r] now of
          Inl e \<Rightarrow> Inl e
        | Inr db1 \<Rightarrow> audit db1 (prn_InternalID actor) (usr_ID u) ''set_role''
            (json_object [(''role'', quoted (role_text r))]) now))"

definition SetGovernanceRole ::
  "access_env \<Rightarrow> access_clock \<Rightarrow> principal \<Rightarrow> set_role_input \<Rightarrow> access_db \<Rightarrow> unit access_tx" where
  "SetGovernanceRole env clk actor input db =
     (if env_GovernanceKey env = [] then Inl AccDirectoryUnavailable
      else if sri_Role input \<noteq> RoleAdmin \<and> sri_Role input \<noteq> RoleViewer then Inl AccInvalidInput
      else withGovernanceTarget db actor (sri_TargetID input) (sri_IdempotencyKey input)
        ''set_role'' (governanceDigest env [''role'', role_text (sri_Role input)])
        (apply_role env (clk_Now clk) actor (sri_Role input)))"

record bind_input =
  bni_TargetID :: int
  bni_WeComUserID :: string
  bni_IdempotencyKey :: string

definition apply_bind ::
  "access_env \<Rightarrow> go_time \<Rightarrow> principal \<Rightarrow> string \<Rightarrow> role \<Rightarrow> access_user \<Rightarrow> role \<Rightarrow> access_db
    \<Rightarrow> (access_error, access_db) result" where
  "apply_bind env now actor w actorRole u targetRole db =
     (if actorRole \<noteq> RoleSuperAdmin \<or> targetRole = RoleSuperAdmin then Inl AccPermissionDenied
      else if usr_WeComUserID u = w then Inr db
      else
       (case (if w = [] then None
              else (case UserByWeComUserID db w of
                      Inr x \<Rightarrow> if usr_ID x \<noteq> usr_ID u then Some AccConflict else None
                    | Inl e \<Rightarrow> if e \<noteq> AccNotFound then Some e else None)) of
          Some e \<Rightarrow> Inl e
        | None \<Rightarrow>
            (case SetWeComUserID env db (usr_ID u) w now of
               Inl e \<Rightarrow> Inl e
             | Inr db1 \<Rightarrow> audit db1 (prn_InternalID actor) (usr_ID u) ''bind_wecom_userid''
                 (json_object [(''bound'', json_bool (w \<noteq> []))]) now)))"

definition BindGovernanceWeComUserID ::
  "access_env \<Rightarrow> access_clock \<Rightarrow> directory option \<Rightarrow> access_db \<Rightarrow> principal \<Rightarrow> bind_input \<Rightarrow> access_db
    \<Rightarrow> unit access_tx" where
  "BindGovernanceWeComUserID env clk dir seen actor input db =
     (if env_GovernanceKey env = [] then Inl AccDirectoryUnavailable
      else if \<not> validGovernanceIdempotencyKey (bni_IdempotencyKey input) \<or> bni_TargetID input < 1
      then Inl AccInvalidInput
      else
       (case currentGovernanceActor seen actor of
          Inl e \<Rightarrow> Inl e
        | Inr _ \<Rightarrow>
            (case (if bni_WeComUserID input = [] then Inr []
                   else (case verifiedEnterpriseEmployee env dir (bni_WeComUserID input) of
                           Inl e \<Rightarrow> Inl e | Inr m \<Rightarrow> Inr (emp_UserID m))) of
               Inl e \<Rightarrow> Inl e
             | Inr w \<Rightarrow> withGovernanceTarget db actor (bni_TargetID input) (bni_IdempotencyKey input)
                 ''bind_wecom_userid'' (governanceDigest env [''bind'', w])
                 (apply_bind env (clk_Now clk) actor w))))"

record reset_password_input =
  rpi_TargetID :: int
  rpi_Password :: string
  rpi_IdempotencyKey :: string

definition apply_password ::
  "access_env \<Rightarrow> go_time \<Rightarrow> principal \<Rightarrow> string \<Rightarrow> role \<Rightarrow> access_user \<Rightarrow> role \<Rightarrow> access_db
    \<Rightarrow> (access_error, access_db) result" where
  "apply_password env now actor hash actorRole u targetRole db =
     (if actorRole \<noteq> RoleSuperAdmin \<or> targetRole = RoleSuperAdmin then Inl AccPermissionDenied
      else
       (case SetPasswordHash env db (usr_ID u) hash now of
          Inl e \<Rightarrow> Inl e
        | Inr db1 \<Rightarrow> audit db1 (prn_InternalID actor) (usr_ID u) ''reset_password'' ''{}'' now))"

definition ResetGovernancePassword ::
  "access_env \<Rightarrow> access_clock \<Rightarrow> nat list option \<Rightarrow> principal \<Rightarrow> reset_password_input \<Rightarrow> access_db
    \<Rightarrow> unit access_tx" where
  "ResetGovernancePassword env clk salt actor input db =
     (if env_GovernanceKey env = [] then Inl AccDirectoryUnavailable
      else if \<not> validGovernanceIdempotencyKey (rpi_IdempotencyKey input) \<or> rpi_TargetID input < 1
      then Inl AccInvalidInput
      else
       (case env_Hash env salt (rpi_Password input) of
          Inl e \<Rightarrow> Inl (passwordInputError e)
        | Inr hash \<Rightarrow> withGovernanceTarget db actor (rpi_TargetID input) (rpi_IdempotencyKey input)
            ''reset_password'' (governanceDigest env [''password'', rpi_Password input])
            (apply_password env (clk_Now clk) actor hash)))"

record transfer_input =
  tri_TargetID :: int
  tri_IdempotencyKey :: string

text \<open>The old owner is lowered before the target is raised.\<close>

definition transfer_rows ::
  "access_env \<Rightarrow> go_time \<Rightarrow> int \<Rightarrow> int \<Rightarrow> access_db \<Rightarrow> (access_error, access_db) result" where
  "transfer_rows env now current target db =
     (case ReplaceRoles env db current [RoleAdmin] now of
        Inl e \<Rightarrow> Inl e
      | Inr db2 \<Rightarrow>
          (case ReplaceRoles env db2 target [RoleSuperAdmin] now of
             Inl e \<Rightarrow> Inl e
           | Inr db3 \<Rightarrow>
               (case SetSuperAdminControl db3 target now of
                  Inl e \<Rightarrow> Inl e
                | Inr db4 \<Rightarrow> audit db4 current target ''transfer_super_admin''
                    (json_object [(''previous_super_admin_id'', format_int current)]) now)))"

definition transfer_body ::
  "access_env \<Rightarrow> access_clock \<Rightarrow> principal \<Rightarrow> transfer_input \<Rightarrow> access_db \<Rightarrow> unit access_tx" where
  "transfer_body env clk actor input db =
     (let now = clk_Now clk in
      case currentGovernanceActor db actor of
        Inl e \<Rightarrow> Inl e
      | Inr (current, r) \<Rightarrow>
          if r \<noteq> RoleSuperAdmin \<or> usr_ID current = tri_TargetID input then Inl AccPermissionDenied
          else
           (case SuperAdminControl db of
              Inl e \<Rightarrow> Inl e
            | Inr control \<Rightarrow>
                if sac_AdminUserID control \<noteq> usr_ID current then Inl AccAuthentication
                else
                 (case UserByID db (tri_TargetID input) of
                    Inl e \<Rightarrow> Inl e
                  | Inr target \<Rightarrow>
                      (case SingleRole (usr_Roles target) of
                         Inl e \<Rightarrow> Inl AccConflict
                       | Inr targetRole \<Rightarrow>
                           if usr_AccessGrantedAt target = None then Inl AccNotFound
                           else if \<not> usr_Active target \<or> \<not> usr_LoginEnabled target \<or>
                              usr_AccessGrantedAt target = None \<or> targetRole \<noteq> RoleAdmin
                           then Inl AccPermissionDenied
                           else
                            (case ReserveGovernanceMutation db (usr_ID current) (tri_IdempotencyKey input)
                                ''transfer_super_admin'' (usr_ID target)
                                (governanceDigest env [''transfer'', format_int (usr_ID target)]) of
                               Inl e \<Rightarrow> Inl e
                             | Inr (reserved, db1) \<Rightarrow>
                                 if \<not> reserved then Inr ((), db1)
                                 else
                                  (case transfer_rows env now (usr_ID current) (usr_ID target) db1 of
                                     Inl e \<Rightarrow> Inl e
                                   | Inr db2 \<Rightarrow> Inr ((), db2)))))))"

definition TransferGovernanceSuperAdmin ::
  "access_env \<Rightarrow> access_clock \<Rightarrow> principal \<Rightarrow> transfer_input \<Rightarrow> access_db \<Rightarrow> unit access_tx" where
  "TransferGovernanceSuperAdmin env clk actor input db =
     (if env_GovernanceKey env = [] then Inl AccDirectoryUnavailable
      else if tri_TargetID input < 1 \<or> \<not> validGovernanceIdempotencyKey (tri_IdempotencyKey input)
      then Inl AccInvalidInput
      else within db (transfer_body env clk actor input db))"

subsection \<open>The listing and the actions it offers\<close>

record governance_actions =
  gva_ProvisionAccess :: bool
  gva_SetLoginEnabled :: bool
  gva_ChangeRole :: bool
  gva_BindWeComUserID :: bool
  gva_ResetPassword :: bool
  gva_TransferSuperAdmin :: bool

definition no_actions :: governance_actions where
  "no_actions = \<lparr>gva_ProvisionAccess = False, gva_SetLoginEnabled = False, gva_ChangeRole = False,
     gva_BindWeComUserID = False, gva_ResetPassword = False, gva_TransferSuperAdmin = False\<rparr>"

definition actionsFor :: "role \<Rightarrow> int \<Rightarrow> access_user \<Rightarrow> role \<Rightarrow> governance_actions" where
  "actionsFor actorRole actorID target targetRole =
     (if usr_AccessGrantedAt target = None then
        no_actions\<lparr>gva_ProvisionAccess := usr_Active target \<and> usr_WeComUserID target \<noteq> [] \<and>
          canProvision actorRole RoleViewer\<rparr>
      else if usr_ID target = actorID \<or> targetRole = RoleSuperAdmin then
        no_actions\<lparr>gva_TransferSuperAdmin := actorRole = RoleSuperAdmin \<and> usr_ID target \<noteq> actorID \<and>
          usr_Active target \<and> usr_LoginEnabled target \<and> usr_AccessGrantedAt target \<noteq> None \<and>
          targetRole = RoleAdmin\<rparr>
      else
       (let canManage = canManageTarget actorRole targetRole;
            super = actorRole = RoleSuperAdmin \<and> canManage in
        \<lparr>gva_ProvisionAccess = False, gva_SetLoginEnabled = canManage, gva_ChangeRole = super,
         gva_BindWeComUserID = super, gva_ResetPassword = super,
         gva_TransferSuperAdmin = actorRole = RoleSuperAdmin \<and> usr_Active target \<and>
           usr_LoginEnabled target \<and> usr_AccessGrantedAt target \<noteq> None \<and> targetRole = RoleAdmin\<rparr>))"

record governance_capabilities =
  gvc_ProvisionAdmin :: bool
  gvc_ProvisionViewer :: bool
  gvc_TransferSuperAdmin :: bool

definition capabilitiesFor :: "role \<Rightarrow> governance_capabilities" where
  "capabilitiesFor r = \<lparr>gvc_ProvisionAdmin = r = RoleSuperAdmin,
     gvc_ProvisionViewer = r = RoleAdmin \<or> r = RoleSuperAdmin,
     gvc_TransferSuperAdmin = r = RoleSuperAdmin\<rparr>"

record governance_user =
  gvu_Summary :: user_summary
  gvu_AuthorizedAccount :: bool
  gvu_Role :: role
  gvu_Actions :: governance_actions

record governance_listing =
  gvl_ActorID :: int
  gvl_ActorRole :: role
  gvl_Capabilities :: governance_capabilities
  gvl_Users :: "governance_user list"

fun governance_users ::
  "role \<Rightarrow> int \<Rightarrow> access_user list \<Rightarrow> (access_error, governance_user list) result" where
  "governance_users r actorID [] = Inr []"
| "governance_users r actorID (u # us) =
     (case SingleRole (usr_Roles u) of
        Inl e \<Rightarrow> Inl AccConflict
      | Inr ur \<Rightarrow>
          (case governance_users r actorID us of
             Inl e \<Rightarrow> Inl e
           | Inr gs \<Rightarrow> Inr (\<lparr>gvu_Summary = summarizeUser u,
               gvu_AuthorizedAccount = usr_AccessGrantedAt u \<noteq> None, gvu_Role = ur,
               gvu_Actions = actionsFor r actorID u ur\<rparr> # gs)))"

definition ListGovernance :: "principal \<Rightarrow> access_db \<Rightarrow> (access_error, governance_listing) result" where
  "ListGovernance actor db =
     (case currentGovernanceActor db actor of
        Inl e \<Rightarrow> Inl e
      | Inr (current, r) \<Rightarrow>
          (case governance_users r (usr_ID current) (adb_Users db) of
             Inl e \<Rightarrow> Inl e
           | Inr gs \<Rightarrow> Inr \<lparr>gvl_ActorID = usr_ID current, gvl_ActorRole = r,
               gvl_Capabilities = capabilitiesFor r, gvl_Users = gs\<rparr>))"

end
