(* ===== verification/AccessStaff.thy ===== *)
theory AccessStaff
  imports AccessGovern
begin

text \<open>
  Staff records discovered in the enterprise directory
  (\<open>internal/access/app/wecom_staff.go\<close>, \<open>RefreshStaffDirectory\<close> of \<open>governance.go\<close>,
  \<open>internal/platform/idempotency/key.go\<close>).  A discovered employee becomes a viewer
  without a grant; a refresh renames the staff that the directory names differently.
\<close>

record staff_projection =
  spj_WeComUserID :: string
  spj_DisplayName :: string

record projection_result =
  spr_Discovered :: int
  spr_Created :: int
  spr_Existing :: int
  spr_Inactive :: int

definition validStaffRunKey :: "string \<Rightarrow> bool" where
  "validStaffRunKey raw \<longleftrightarrow>
     (let value = trim_space raw in
      value \<noteq> [] \<and> length value \<le> 120 \<and> \<not> contains_any value [CHR 0x00, CHR 0x0D, CHR 0x0A])"

definition ParseKey :: "string \<Rightarrow> (access_error, string) result" where
  "ParseKey raw =
     (if trim_space raw \<noteq> raw \<or> length raw < 8 \<or> 200 < length raw \<or> contains_control raw \<or>
         contains_space raw then Inl AccInvalidInput
      else Inr raw)"

fun canonical_staff ::
  "staff_projection list \<Rightarrow> string list \<Rightarrow> (access_error, staff_projection list) result" where
  "canonical_staff [] seen = Inr []"
| "canonical_staff (m # ms) seen =
     (case NormalizeWeComUserID (spj_WeComUserID m) of
        Inl e \<Rightarrow> Inl AccInvalidInput
      | Inr providerID \<Rightarrow>
          if providerID \<in> set seen then canonical_staff ms seen
          else
           (let trimmed = trim_space (spj_DisplayName m);
                displayName = (if trimmed = [] then providerID else trimmed) in
            if 160 < rune_count displayName \<or>
               contains_any displayName [CHR 0x00, CHR 0x0D, CHR 0x0A] then Inl AccInvalidInput
            else
             (case canonical_staff ms (providerID # seen) of
                Inl e \<Rightarrow> Inl e
              | Inr rest \<Rightarrow>
                  Inr (\<lparr>spj_WeComUserID = providerID, spj_DisplayName = displayName\<rparr> # rest))))"

text \<open>\<open>log\<close> tells whether the platform's audit log takes the event of the new record.\<close>

fun project_loop ::
  "access_env \<Rightarrow> access_clock \<Rightarrow> (int \<Rightarrow> bool) \<Rightarrow> string \<Rightarrow> string \<Rightarrow> staff_projection list
    \<Rightarrow> projection_result \<Rightarrow> access_db \<Rightarrow> projection_result access_tx" where
  "project_loop env clk log hash runKey [] res db = Inr (res, db)"
| "project_loop env clk log hash runKey (m # ms) res db =
     (case UserByWeComUserID db (spj_WeComUserID m) of
        Inr u \<Rightarrow> project_loop env clk log hash runKey ms
          (res\<lparr>spr_Existing := wrap64 (spr_Existing res + 1),
               spr_Inactive := (if usr_Active u then spr_Inactive res
                                else wrap64 (spr_Inactive res + 1))\<rparr>) db
      | Inl e \<Rightarrow>
          if e \<noteq> AccNotFound then Inl e
          else
           (let digest = hex_encode (Sum256 (spj_WeComUserID m)) in
            case CreateStaffProjection env clk db
                (new_user (''wecom-staff-'' @ digest) hash (spj_DisplayName m) (spj_WeComUserID m)
                   [RoleViewer]) of
              Inl e \<Rightarrow> Inl e
            | Inr (u, db1) \<Rightarrow>
                (case ParseKey (''wecom-staff-project:'' @ runKey @ '':'' @ take 24 digest) of
                   Inl e \<Rightarrow> Inl e
                 | Inr _ \<Rightarrow>
                     if \<not> log (usr_ID u) then Inl AccDatabase
                     else project_loop env clk log hash runKey ms
                       (res\<lparr>spr_Created := wrap64 (spr_Created res + 1)\<rparr>) db1)))"

definition projectStaffWithin ::
  "access_env \<Rightarrow> access_clock \<Rightarrow> (int \<Rightarrow> bool) \<Rightarrow> string \<Rightarrow> string \<Rightarrow> staff_projection list \<Rightarrow> access_db
    \<Rightarrow> projection_result access_tx" where
  "projectStaffWithin env clk log hash runKey input db =
     (if \<not> validStaffRunKey runKey \<or> 10000 < length input then Inl AccProjectionUnavailable
      else
       (case canonical_staff input [] of
          Inl e \<Rightarrow> Inl e
        | Inr canonical \<Rightarrow>
            project_loop env clk log hash runKey (sort_by spj_WeComUserID canonical)
              \<lparr>spr_Discovered = int (length canonical), spr_Created = 0, spr_Existing = 0,
               spr_Inactive = 0\<rparr> db))"

subsection \<open>Refresh\<close>

text \<open>The map from identifiers to names: a later employee of the same identifier wins.\<close>

definition directory_names :: "employee list \<Rightarrow> string \<Rightarrow> string" where
  "directory_names ms w =
     (case find (\<lambda>m. emp_UserID m = w) (rev ms) of
        None \<Rightarrow> [] | Some m \<Rightarrow> trim_space (emp_DisplayName m))"

fun rename_loop ::
  "access_env \<Rightarrow> go_time \<Rightarrow> principal \<Rightarrow> employee list \<Rightarrow> access_user list \<Rightarrow> int \<Rightarrow> access_db
    \<Rightarrow> int access_tx" where
  "rename_loop env now actor ms [] n db = Inr (n, db)"
| "rename_loop env now actor ms (u # us) n db =
     (let name = directory_names ms (usr_WeComUserID u) in
      if name = [] \<or> name = usr_DisplayName u then rename_loop env now actor ms us n db
      else
       (case SetStaffDisplayName env db (usr_ID u) (usr_WeComUserID u) name now of
          Inl e \<Rightarrow> Inl e
        | Inr db1 \<Rightarrow>
            (case audit db1 (prn_InternalID actor) (usr_ID u) ''refresh_staff_name'' ''{}'' now of
               Inl e \<Rightarrow> Inl e
             | Inr db2 \<Rightarrow> rename_loop env now actor ms us (wrap64 (n + 1)) db2)))"

record refresh_result =
  srr_Discovered :: int
  srr_Created :: int
  srr_NamesUpdated :: int

text \<open>\<open>projector\<close> holds the hash of the discarded password, when a projector is configured.\<close>

definition RefreshStaffDirectory ::
  "access_env \<Rightarrow> access_clock \<Rightarrow> nat list option \<Rightarrow> directory option \<Rightarrow> string option \<Rightarrow> (int \<Rightarrow> bool)
    \<Rightarrow> access_db \<Rightarrow> principal \<Rightarrow> access_db \<Rightarrow> refresh_result access_tx" where
  "RefreshStaffDirectory env clk random dir projector log seen actor db =
     (case currentGovernanceActor seen actor of
        Inl e \<Rightarrow> Inl e
      | Inr _ \<Rightarrow>
          if \<not> enterpriseDirectoryReady env dir \<or> projector = None then Inl AccDirectoryUnavailable
          else
           (case completeEnterpriseDirectory env dir of
              Inl e \<Rightarrow> Inl e
            | Inr ms \<Rightarrow>
                (case IssueOpaque random ''directory_'' of
                   Inl e \<Rightarrow> Inl e
                 | Inr (runKey, _) \<Rightarrow> within db
                     (case currentGovernanceActor db actor of
                        Inl e \<Rightarrow> Inl e
                      | Inr _ \<Rightarrow>
                          (case projectStaffWithin env clk log (the projector) runKey
                              (map (\<lambda>m. \<lparr>spj_WeComUserID = emp_UserID m,
                                 spj_DisplayName = trim_space (emp_DisplayName m)\<rparr>) ms) db of
                             Inl e \<Rightarrow> Inl e
                           | Inr (projected, db1) \<Rightarrow>
                               (case rename_loop env (clk_Now clk) actor ms (adb_Users db1) 0 db1 of
                                  Inl e \<Rightarrow> Inl e
                                | Inr (n, db2) \<Rightarrow>
                                    Inr (\<lparr>srr_Discovered = spr_Discovered projected,
                                      srr_Created = spr_Created projected, srr_NamesUpdated = n\<rparr>, db2)))))))"

end
