(* ===== verification/AccessRun.thy ===== *)
theory AccessRun
  imports AccessStaff
begin

text \<open>
  The commands of the access component as calls on its tables, runs of calls from the
  empty tables, and how the operations of the store change the users: every row keeps
  its identifier, and a change of what a login rests on moves the session version.
\<close>

subsection \<open>Calls\<close>

datatype access_call =
    CallBootstrap "nat list option" bootstrap_input
  | CallAddUser "nat list option" principal add_user_input
  | CallDisableUser principal int
  | CallBindWeComUserID principal int string
  | CallChangeRoles principal int "role list"
  | CallResetPassword "nat list option" principal int string
  | CallSetLoginAccess principal string "login_access_change list"
  | CallProvision token_randoms "directory option" access_db principal provision_input
  | CallSetGovernanceLogin principal set_login_input
  | CallSetGovernanceRole principal set_role_input
  | CallBindGovernance "directory option" access_db principal bind_input
  | CallResetGovernancePassword "nat list option" principal reset_password_input
  | CallTransfer principal transfer_input
  | CallRefreshStaff "nat list option" "directory option" "string option" "int \<Rightarrow> bool" access_db principal
  | CallProjectStaff "int \<Rightarrow> bool" string string "staff_projection list"
  | CallLogin token_randoms login_command
  | CallWeComLogin token_randoms wecom_login_command
  | CallAuthenticate string
  | CallLogout string string string access_db

definition tables_of :: "'a access_tx \<Rightarrow> (access_error, access_db) result" where
  "tables_of r = (case r of Inl e \<Rightarrow> Inl e | Inr (_, db) \<Rightarrow> Inr db)"

fun exec :: "access_env \<Rightarrow> access_db \<Rightarrow> access_clock \<times> access_call \<Rightarrow> (access_error, access_db) result" where
  "exec env db (clk, CallBootstrap salt input) = tables_of (Bootstrap env clk salt input db)"
| "exec env db (clk, CallAddUser salt actor input) = tables_of (AddUser env clk salt actor input db)"
| "exec env db (clk, CallDisableUser actor target) = tables_of (DisableUser env clk actor target db)"
| "exec env db (clk, CallBindWeComUserID actor target w) =
     tables_of (BindWeComUserID env clk actor target w db)"
| "exec env db (clk, CallChangeRoles actor target roles) =
     tables_of (ChangeRoles env clk actor target roles db)"
| "exec env db (clk, CallResetPassword salt actor target password) =
     tables_of (ResetPassword env clk salt actor target password db)"
| "exec env db (clk, CallSetLoginAccess actor key changes) =
     tables_of (SetLoginAccess env clk actor key changes db)"
| "exec env db (clk, CallProvision randoms dir seen actor input) =
     tables_of (ProvisionEnterpriseEmployee env clk randoms dir seen actor input db)"
| "exec env db (clk, CallSetGovernanceLogin actor input) =
     tables_of (SetGovernanceLoginEnabled env clk actor input db)"
| "exec env db (clk, CallSetGovernanceRole actor input) =
     tables_of (SetGovernanceRole env clk actor input db)"
| "exec env db (clk, CallBindGovernance dir seen actor input) =
     tables_of (BindGovernanceWeComUserID env clk dir seen actor input db)"
| "exec env db (clk, CallResetGovernancePassword salt actor input) =
     tables_of (ResetGovernancePassword env clk salt actor input db)"
| "exec env db (clk, CallTransfer actor input) =
     tables_of (TransferGovernanceSuperAdmin env clk actor input db)"
| "exec env db (clk, CallRefreshStaff random dir projector log seen actor) =
     tables_of (RefreshStaffDirectory env clk random dir projector log seen actor db)"
| "exec env db (clk, CallProjectStaff log hash runKey input) =
     tables_of (within db (projectStaffWithin env clk log hash runKey input db))"
| "exec env db (clk, CallLogin randoms command) = tables_of (Login env clk randoms command db)"
| "exec env db (clk, CallWeComLogin randoms command) =
     tables_of (LoginWithWeComUserID env clk randoms command db)"
| "exec env db (clk, CallAuthenticate token) = tables_of (Authenticate clk token db)"
| "exec env db (clk, CallLogout token cookie request seen) =
     tables_of (Logout clk token cookie request seen db)"

definition access_reachable :: "access_env \<Rightarrow> access_db \<Rightarrow> bool" where
  "access_reachable env db \<longleftrightarrow> (\<exists>calls. db = run (exec env) empty_access calls)"

subsection \<open>Rows under an operation\<close>

definition upd :: "int \<Rightarrow> (access_user \<Rightarrow> access_user) \<Rightarrow> access_db \<Rightarrow> access_db" where
  "upd i f db = db\<lparr>adb_Users := map (\<lambda>u. if usr_ID u = i then f u else u) (adb_Users db)\<rparr>"

definition keeps_id :: "(access_user \<Rightarrow> access_user) \<Rightarrow> bool" where
  "keeps_id f \<longleftrightarrow> (\<forall>u. usr_ID (f u) = usr_ID u)"

lemma upd_sel [simp]:
  "adb_NextUser (upd i f db) = adb_NextUser db" "adb_Sessions (upd i f db) = adb_Sessions db"
  "adb_Limits (upd i f db) = adb_Limits db" "adb_Receipts (upd i f db) = adb_Receipts db"
  "adb_Control (upd i f db) = adb_Control db" "adb_LoginReceipts (upd i f db) = adb_LoginReceipts db"
  by (simp_all add: upd_def)

lemma upd_users: "adb_Users (upd i f db) = map (\<lambda>u. if usr_ID u = i then f u else u) (adb_Users db)"
  by (simp add: upd_def)

lemma upd_ids [simp]: "keeps_id f \<Longrightarrow> map usr_ID (adb_Users (upd i f db)) = map usr_ID (adb_Users db)"
  by (simp add: upd_users keeps_id_def)

lemma upd_upd: "keeps_id f \<Longrightarrow> upd i g (upd i f db) = upd i (\<lambda>u. g (f u)) db"
  by (simp add: upd_def keeps_id_def)

lemma upd_cong: "(\<And>u. u \<in> set (adb_Users db) \<Longrightarrow> usr_ID u = i \<Longrightarrow> f u = g u) \<Longrightarrow> upd i f db = upd i g db"
  by (simp add: upd_def)

lemma keeps_id_record [simp]:
  "keeps_id (\<lambda>u. u\<lparr>usr_Roles := h u\<rparr>)" "keeps_id (fence now)"
  by (simp_all add: keeps_id_def fence_def)

lemma delete_roles_upd: "delete_roles db i = upd i (\<lambda>u. u\<lparr>usr_Roles := []\<rparr>) db"
  by (simp add: delete_roles_def upd_def)

lemma find_ok: "find P xs = Some x \<Longrightarrow> x \<in> set xs \<and> P x"
  by (induction xs) (auto split: if_splits)

lemma upd_id [simp]: "upd i (\<lambda>u. u) db = db"
  by (simp add: upd_def)

lemma UserByID_ok: "UserByID db i = Inr u \<Longrightarrow> u \<in> set (adb_Users db) \<and> usr_ID u = i"
  by (auto simp: UserByID_def split: option.splits dest: find_ok)

lemma UserByID_missing: "UserByID db i = Inl e \<longleftrightarrow> e = AccNotFound \<and> (\<forall>u \<in> set (adb_Users db). usr_ID u \<noteq> i)"
  by (auto simp: UserByID_def find_None_iff split: option.splits dest: find_ok)

lemma insert_role_upd:
  "insert_role db i r = Inr db' \<Longrightarrow>
   db' = upd i (\<lambda>u. u\<lparr>usr_Roles := usr_Roles u @ [r]\<rparr>) db \<and> Role_Valid r \<and>
   (\<exists>u \<in> set (adb_Users db). usr_ID u = i) \<and>
   (\<forall>u \<in> set (adb_Users db). usr_ID u = i \<longrightarrow> usr_Roles u = []) \<and>
   (r = RoleSuperAdmin \<longrightarrow> super_rows (adb_Users db) = [])"
  by (auto simp: insert_role_def upd_def UserByID_missing list_ex_iff split: if_splits)

lemma insert_roles_upd:
  "insert_roles db i rs = Inr db' \<Longrightarrow>
   db' = upd i (\<lambda>u. u\<lparr>usr_Roles := usr_Roles u @ rs\<rparr>) db \<and> list_all Role_Valid rs \<and>
   (rs \<noteq> [] \<longrightarrow> (\<exists>u \<in> set (adb_Users db). usr_ID u = i) \<and> length rs = 1 \<and>
     (\<forall>u \<in> set (adb_Users db). usr_ID u = i \<longrightarrow> usr_Roles u = []))"
proof (induction rs arbitrary: db)
  case Nil
  then show ?case by (simp add: upd_def)
next
  case (Cons r rs)
  then obtain db1 where 1: "insert_role db i r = Inr db1" and 2: "insert_roles db1 i rs = Inr db'"
    by (auto split: sum.splits)
  note a = insert_role_upd [OF 1]
  from a have db1: "db1 = upd i (\<lambda>u. u\<lparr>usr_Roles := usr_Roles u @ [r]\<rparr>) db" by blast
  from a obtain u where u: "u \<in> set (adb_Users db)" "usr_ID u = i" by blast
  then have u1: "u\<lparr>usr_Roles := usr_Roles u @ [r]\<rparr> \<in> set (adb_Users db1)"
    unfolding db1 upd_users by (intro list.set_map [THEN equalityD2, THEN subsetD] image_eqI) auto
  have "rs = []"
  proof (rule ccontr)
    assume "rs \<noteq> []"
    with Cons.IH [OF 2] u1 u(2) have "usr_Roles (u\<lparr>usr_Roles := usr_Roles u @ [r]\<rparr>) = []" by fastforce
    then show False by simp
  qed
  with 2 have "db' = db1" by simp
  moreover have "list_all Role_Valid [r]" "length [r] = 1" using a by simp_all
  ultimately show ?case using a unfolding \<open>rs = []\<close> by blast
qed

end
