(* ===== verification/AccessInv.thy ===== *)
theory AccessInv
  imports AccessRun
begin

text \<open>
  The invariant of the access tables and its preservation.  Every operation of the store
  is described by one of three shapes: it changes the row of one user and moves its
  session version (\<open>fenced\<close>), it changes a row without touching what a login rests on
  (\<open>idle\<close>), or it adds a row (\<open>added\<close>).  The rules in \<open>access_wp\<close> carry the relation
  \<open>good\<close>, which holds the invariant and the history of the rows, through a handler.
\<close>

named_theorems access_wp "rules that carry the access invariant through an operation"

subsection \<open>Rows\<close>

definition rows_ok :: "access_env \<Rightarrow> access_db \<Rightarrow> bool" where
  "rows_ok env db \<longleftrightarrow> distinct (map usr_ID (adb_Users db)) \<and> users_unique (adb_Users db) \<and>
     0 < adb_NextUser db \<and>
     (\<forall>u \<in> set (adb_Users db). 0 < usr_ID u \<and> usr_ID u < adb_NextUser db \<and> user_checks env u \<and>
        list_all Role_Valid (usr_Roles u) \<and> length (usr_Roles u) \<le> 1)"

text \<open>What a login rests on.\<close>

definition cred :: "access_user \<Rightarrow> string \<times> string \<times> bool \<times> bool \<times> go_time option \<times> role list" where
  "cred u = (usr_PasswordHash u, usr_WeComUserID u, usr_Active u, usr_LoginEnabled u,
     usr_AccessGrantedAt u, usr_Roles u)"

definition fenced :: "access_env \<Rightarrow> access_db \<Rightarrow> int \<Rightarrow> role list option \<Rightarrow> access_db \<Rightarrow> bool" where
  "fenced env db i rs db' \<longleftrightarrow>
     (\<exists>f. db' = upd i f db \<and> keeps_id f \<and>
       (\<forall>u. usr_Roles (f u) = (case rs of None \<Rightarrow> usr_Roles u | Some r \<Rightarrow> r) \<and>
          (usr_SessionVersion (f u) = usr_SessionVersion u + 1 \<or>
           usr_SessionVersion (f u) = usr_SessionVersion u \<and> cred (f u) = cred u))) \<and> rows_ok env db'"

definition idle :: "access_env \<Rightarrow> access_db \<Rightarrow> int \<Rightarrow> access_db \<Rightarrow> bool" where
  "idle env db i db' \<longleftrightarrow>
     (\<exists>f. db' = upd i f db \<and> keeps_id f \<and>
       (\<forall>u. usr_SessionVersion (f u) = usr_SessionVersion u \<and> cred (f u) = cred u)) \<and> rows_ok env db'"

definition added :: "access_env \<Rightarrow> access_db \<Rightarrow> access_user \<Rightarrow> access_db \<Rightarrow> bool" where
  "added env db row db' \<longleftrightarrow> db' = db\<lparr>adb_Users := adb_Users db @ [row], adb_NextUser := adb_NextUser db + 1\<rparr> \<and>
     usr_ID row = adb_NextUser db \<and> rows_ok env db'"

lemma rows_ok_upd:
  assumes "rows_ok env db" "keeps_id f" "users_unique (adb_Users (upd i f db))"
    and "\<And>u. u \<in> set (adb_Users db) \<Longrightarrow> usr_ID u = i \<Longrightarrow> user_checks env (f u) \<and>
           list_all Role_Valid (usr_Roles (f u)) \<and> length (usr_Roles (f u)) \<le> 1"
  shows "rows_ok env (upd i f db)"
proof -
  have "map usr_ID (adb_Users (upd i f db)) = map usr_ID (adb_Users db)" by (rule upd_ids [OF assms(2)])
  moreover have "0 < usr_ID u \<and> usr_ID u < adb_NextUser db \<and> user_checks env u \<and>
      list_all Role_Valid (usr_Roles u) \<and> length (usr_Roles u) \<le> 1"
    if "u \<in> set (adb_Users (upd i f db))" for u
    using that assms(1,2,4) by (auto simp: upd_users keeps_id_def rows_ok_def)
  ultimately show ?thesis using assms(1,3) by (simp add: rows_ok_def)
qed

lemma users_unique_upd:
  "users_unique (adb_Users db) \<Longrightarrow> (\<And>u. usr_Username (f u) = usr_Username u) \<Longrightarrow>
   (\<And>u. usr_WeComUserID (f u) = usr_WeComUserID u) \<Longrightarrow> users_unique (adb_Users (upd i f db))"
proof -
  assume u: "users_unique (adb_Users db)" and f: "\<And>u. usr_Username (f u) = usr_Username u"
    "\<And>u. usr_WeComUserID (f u) = usr_WeComUserID u"
  have "map usr_Username (adb_Users (upd i f db)) = map usr_Username (adb_Users db)"
    and "map usr_WeComUserID (adb_Users (upd i f db)) = map usr_WeComUserID (adb_Users db)"
    using f by (simp_all add: upd_users)
  with u show ?thesis by (simp only: users_unique_def)
qed

lemma user_checks_roles [simp]: "user_checks env (u\<lparr>usr_Roles := rs\<rparr>) = user_checks env u"
  by (simp add: user_checks_def)

lemma update_user_upd:
  "update_user env db i f = Inr db' \<Longrightarrow>
   db' = upd i f db \<and> users_unique (adb_Users db') \<and>
   (\<forall>u \<in> set (adb_Users db). usr_ID u = i \<longrightarrow> user_checks env (f u))"
  by (auto simp: update_user_def upd_def Let_def list_all_iff split: if_splits)

lemma update_user_rows:
  assumes "update_user env db i f = Inr db'" "rows_ok env db" "keeps_id f"
    "\<And>u. usr_Roles (f u) = usr_Roles u"
  shows "db' = upd i f db" and "rows_ok env db'"
proof -
  have f: "db' = upd i f db" "users_unique (adb_Users db')"
    "\<And>u. u \<in> set (adb_Users db) \<Longrightarrow> usr_ID u = i \<Longrightarrow> user_checks env (f u)"
    using update_user_upd [OF assms(1)] by blast+
  have "rows_ok env (upd i f db)"
    using assms(2) f by (intro rows_ok_upd assms(2,3)) (simp_all add: rows_ok_def assms(4))
  with f(1) show "db' = upd i f db" and "rows_ok env db'" by blast+
qed

lemma roles_rows:
  assumes "rows_ok env db" "list_all Role_Valid rs" "length rs \<le> 1"
  shows "rows_ok env (upd i (\<lambda>u. u\<lparr>usr_Roles := rs\<rparr>) db)"
  using assms by (intro rows_ok_upd users_unique_upd) (auto simp: rows_ok_def)

lemma keeps_id_simps [simp]:
  "keeps_id f \<Longrightarrow> keeps_id (\<lambda>u. fence now (f u))"
  "keeps_id (\<lambda>u. u\<lparr>usr_PasswordHash := h\<rparr>)" "keeps_id (\<lambda>u. u\<lparr>usr_WeComUserID := w\<rparr>)"
  by (simp_all add: keeps_id_def fence_def)

lemma fence_sel [simp]:
  "usr_ID (fence now u) = usr_ID u" "usr_Roles (fence now u) = usr_Roles u"
  "usr_SessionVersion (fence now u) = usr_SessionVersion u + 1" "usr_Active (fence now u) = usr_Active u"
  "usr_LoginEnabled (fence now u) = usr_LoginEnabled u"
  "usr_AccessGrantedAt (fence now u) = usr_AccessGrantedAt u"
  "usr_WeComUserID (fence now u) = usr_WeComUserID u" "usr_Username (fence now u) = usr_Username u"
  by (simp_all add: fence_def)

subsection \<open>The shape of each operation\<close>

lemma fenced_refl: "rows_ok env db \<Longrightarrow> fenced env db i None db"
  unfolding fenced_def by (intro conjI exI [of _ "\<lambda>u. u"]) (simp_all add: keeps_id_def)

lemma fencedI:
  "db' = upd i f db \<Longrightarrow> rows_ok env db' \<Longrightarrow> keeps_id f \<Longrightarrow>
   (\<And>u. usr_SessionVersion (f u) = usr_SessionVersion u + 1) \<Longrightarrow>
   (\<And>u. usr_Roles (f u) = (case rs of None \<Rightarrow> usr_Roles u | Some r \<Rightarrow> r)) \<Longrightarrow> fenced env db i rs db'"
  unfolding fenced_def by blast

lemma update_user_fenced:
  assumes "update_user env db i f = Inr db'" "rows_ok env db" "keeps_id f"
    "\<And>u. usr_Roles (f u) = usr_Roles u" "\<And>u. usr_SessionVersion (f u) = usr_SessionVersion u + 1"
  shows "fenced env db i None db'"
proof -
  note d = update_user_rows [OF assms(1-4)]
  show ?thesis using assms(3-5) by (intro fencedI [OF d]) simp_all
qed

lemma ensureUserExists_ok: "ensureUserExists db i = Inr db' \<Longrightarrow>
  db' = db \<and> (\<exists>u \<in> set (adb_Users db). usr_ID u = i)"
  by (auto simp: ensureUserExists_def list_ex_iff split: if_splits)

lemma SetLoginEnabled_fenced:
  assumes "SetLoginEnabled env db i enabled now = Inr db'" "rows_ok env db"
  shows "fenced env db i None db'"
  using assms
  by (auto simp: SetLoginEnabled_def keeps_id_def split: if_splits
      dest!: ensureUserExists_ok intro: fenced_refl elim!: update_user_fenced)

lemma SetWeComUserID_fenced:
  assumes "SetWeComUserID env db i w now = Inr db'" "rows_ok env db"
  shows "fenced env db i None db'"
  using assms
  by (auto simp: SetWeComUserID_def split: if_splits
      dest!: ensureUserExists_ok intro: fenced_refl elim!: update_user_fenced)

lemma SetPasswordHash_fenced:
  assumes "SetPasswordHash env db i h now = Inr db'" "rows_ok env db"
  shows "fenced env db i None db'"
  using assms
  by (auto simp: SetPasswordHash_def split: sum.splits dest!: ensureUserExists_ok
      elim!: update_user_fenced)

lemma insert_roles_valid:
  assumes "insert_roles db i rs = Inr db'"
  shows "list_all Role_Valid rs" and "length rs \<le> 1"
  using insert_roles_upd [OF assms, THEN conjunct2] by (cases "rs = []"; simp)+

lemma ReplaceRoles_upd:
  assumes "ReplaceRoles env db i rs now = Inr db'" "rows_ok env db"
  shows "db' = upd i (\<lambda>u. fence now (u\<lparr>usr_Roles := rs\<rparr>)) db" and "rows_ok env db'"
    and "\<exists>u \<in> set (adb_Users db). usr_ID u = i"
proof -
  obtain db1 where ex: "\<exists>u \<in> set (adb_Users db). usr_ID u = i"
    and 1: "insert_roles (delete_roles db i) i rs = Inr db1" and 2: "update_user env db1 i (fence now) = Inr db'"
    using assms(1) by (auto simp: ReplaceRoles_def split: sum.splits dest!: ensureUserExists_ok)
  have rs: "list_all Role_Valid rs" "length rs \<le> 1" and db1: "db1 = upd i (\<lambda>u. u\<lparr>usr_Roles := rs\<rparr>) db"
    using insert_roles_upd [OF 1] by (cases rs; auto simp: delete_roles_upd upd_upd)+
  have "rows_ok env db1" unfolding db1 by (rule roles_rows [OF assms(2) rs])
  then have "db' = upd i (fence now) db1" "rows_ok env db'" by (rule update_user_rows [OF 2]; simp)+
  then show "db' = upd i (\<lambda>u. fence now (u\<lparr>usr_Roles := rs\<rparr>)) db" "rows_ok env db'"
    by (simp_all add: db1 upd_upd)
  show "\<exists>u \<in> set (adb_Users db). usr_ID u = i" by (rule ex)
qed

lemma ReplaceRoles_fenced:
  assumes "ReplaceRoles env db i rs now = Inr db'" "rows_ok env db"
  shows "fenced env db i (Some rs) db'"
  by (rule fencedI [OF ReplaceRoles_upd(1,2) [OF assms]]) simp_all

lemma SetLastLogin_idle:
  assumes "SetLastLogin env db i now = Inr db'" "rows_ok env db"
  shows "idle env db i db'"
proof -
  let ?f = "\<lambda>u. u\<lparr>usr_LastLoginAt := Some (pg_time now), usr_UpdatedAt := pg_time now\<rparr>"
  have u: "update_user env db i ?f = Inr db'"
    using assms(1) by (auto simp: SetLastLogin_def split: sum.splits dest!: ensureUserExists_ok)
  have d: "db' = upd i ?f db" "rows_ok env db'"
    by (rule update_user_rows [OF u assms(2)]; simp add: keeps_id_def)+
  show ?thesis unfolding idle_def
    by (intro conjI exI [of _ ?f] d) (simp_all add: keeps_id_def cred_def)
qed

lemma SetStaffDisplayName_idle:
  assumes "SetStaffDisplayName env db i w name now = Inr db'" "rows_ok env db"
  shows "idle env db i db'"
proof -
  let ?f = "\<lambda>u. u\<lparr>usr_DisplayName := name, usr_UpdatedAt := pg_time now\<rparr>"
  have u: "update_user env db i ?f = Inr db'"
    using assms(1) by (auto simp: SetStaffDisplayName_def split: if_splits)
  have d: "db' = upd i ?f db" "rows_ok env db'"
    by (rule update_user_rows [OF u assms(2)]; simp add: keeps_id_def)+
  show ?thesis unfolding idle_def
    by (intro conjI exI [of _ ?f] d) (simp_all add: keeps_id_def cred_def)
qed

lemma GrantAccess_fenced:
  assumes "GrantAccess env db i r name now = Inr db'" "rows_ok env db"
  shows "fenced env db i (Some [r]) db' \<and> (r = RoleAdmin \<or> r = RoleViewer) \<and>
    (\<exists>u \<in> set (adb_Users db). usr_ID u = i \<and> usr_AccessGrantedAt u = None)"
proof -
  let ?g = "\<lambda>u. u\<lparr>usr_DisplayName := trim_space name, usr_LoginEnabled := True,
      usr_AccessGrantedAt := Some (pg_time now)\<rparr>"
  from assms(1) obtain u db1 where r: "r = RoleAdmin \<or> r = RoleViewer"
    and u: "UserByID db i = Inr u" "usr_AccessGrantedAt u = None"
    and 1: "insert_role (delete_roles db i) i r = Inr db1"
    and 2: "update_user env db1 i (\<lambda>u. fence now (?g u)) = Inr db'"
    by (auto simp: GrantAccess_def split: if_splits sum.splits)
  have db1: "db1 = upd i (\<lambda>u. u\<lparr>usr_Roles := [r]\<rparr>) db" and v: "Role_Valid r"
    using insert_role_upd [OF 1] by (auto simp: delete_roles_upd upd_upd)
  have "rows_ok env db1" unfolding db1 by (rule roles_rows [OF assms(2)]) (simp_all add: v)
  then have d: "db' = upd i (\<lambda>u. fence now (?g u)) db1" "rows_ok env db'"
    by (rule update_user_rows [OF 2]; simp add: keeps_id_def)+
  have "db' = upd i (\<lambda>u. fence now (?g (u\<lparr>usr_Roles := [r]\<rparr>))) db"
    unfolding d(1) db1 by (simp add: upd_upd)
  then have "fenced env db i (Some [r]) db'" by (rule fencedI [OF _ d(2)]) (simp_all add: keeps_id_def)
  with r UserByID_ok [OF u(1)] u(2) show ?thesis by blast
qed

lemma insert_user_added:
  assumes "insert_user env db row = Inr db1" "rows_ok env db" "usr_ID row = adb_NextUser db" "usr_Roles row = []"
  shows "added env db row db1"
proof -
  from assms(1) have d: "db1 = db\<lparr>adb_Users := adb_Users db @ [row], adb_NextUser := adb_NextUser db + 1\<rparr>"
    and "user_checks env row" "users_unique (adb_Users db @ [row])"
    by (auto simp: insert_user_def split: if_splits)
  moreover have "adb_NextUser db \<notin> usr_ID ` set (adb_Users db)"
    using assms(2) by (auto simp: rows_ok_def)
  ultimately have "rows_ok env db1" using assms(2-4) unfolding rows_ok_def by fastforce
  with d assms(3) show ?thesis by (simp only: added_def)
qed

lemma added_roles:
  assumes "added env db row db1" "insert_roles db1 i rs = Inr db2" "i = adb_NextUser db"
    "usr_Roles row = []" "rows_ok env db"
  shows "added env db (row\<lparr>usr_Roles := rs\<rparr>) db2 \<and> list_all Role_Valid rs \<and> length rs \<le> 1"
proof -
  have d1: "db1 = db\<lparr>adb_Users := adb_Users db @ [row], adb_NextUser := adb_NextUser db + 1\<rparr>"
    and id: "usr_ID row = i" and ok: "rows_ok env db1" using assms(1,3) unfolding added_def by blast+
  have d2: "db2 = upd i (\<lambda>u. u\<lparr>usr_Roles := usr_Roles u @ rs\<rparr>) db1"
    by (rule insert_roles_upd [OF assms(2), THEN conjunct1])
  note rs = insert_roles_valid [OF assms(2)]
  have e: "db2 = upd i (\<lambda>u. u\<lparr>usr_Roles := rs\<rparr>) db1"
    unfolding d2
  proof (rule upd_cong)
    fix u assume "u \<in> set (adb_Users db1)" "usr_ID u = i"
    moreover have "usr_ID v < i" if "v \<in> set (adb_Users db)" for v
      using that assms(3,5) unfolding rows_ok_def by blast
    ultimately have "u = row" unfolding d1 by fastforce
    with assms(4) show "u\<lparr>usr_Roles := usr_Roles u @ rs\<rparr> = u\<lparr>usr_Roles := rs\<rparr>" by simp
  qed
  have "map (\<lambda>u. if usr_ID u = i then u\<lparr>usr_Roles := rs\<rparr> else u) (adb_Users db) = adb_Users db"
  proof (rule map_idI)
    fix u assume "u \<in> set (adb_Users db)"
    then have "usr_ID u < adb_NextUser db" using assms(5) unfolding rows_ok_def by blast
    then have "usr_ID u \<noteq> i" using assms(3) by simp
    then show "(if usr_ID u = i then u\<lparr>usr_Roles := rs\<rparr> else u) = u" by (rule if_not_P)
  qed
  then have "db2 = db\<lparr>adb_Users := adb_Users db @ [row\<lparr>usr_Roles := rs\<rparr>], adb_NextUser := adb_NextUser db + 1\<rparr>"
    unfolding e by (simp add: upd_def d1 id)
  moreover have "rows_ok env db2" unfolding e by (rule roles_rows [OF ok rs])
  ultimately show ?thesis using rs id assms(3) by (simp add: added_def)
qed

lemma CreateUser_added:
  assumes "CreateUser env clk db u = Inr (v, db')" "rows_ok env db"
  shows "added env db v db' \<and> usr_Roles v = usr_Roles u \<and> length (usr_Roles u) \<le> 1 \<and>
    usr_SessionVersion v = 1 \<and> usr_LoginEnabled v = usr_Active u \<and> usr_Active v = usr_Active u \<and>
    usr_AccessGrantedAt v \<noteq> None"
proof -
  obtain row db1 where row: "row = u\<lparr>usr_ID := adb_NextUser db, usr_LoginEnabled := usr_Active u,
      usr_LegacyPending := False, usr_AccessGrantedAt := Some (clk_Db clk), usr_SessionVersion := 1,
      usr_Roles := [], usr_LastLoginAt := None, usr_CreatedAt := clk_Db clk, usr_UpdatedAt := clk_Db clk\<rparr>"
    and 1: "insert_user env db row = Inr db1"
    and 2: "insert_roles db1 (adb_NextUser db) (usr_Roles u) = Inr db'"
    and v: "v = row\<lparr>usr_Roles := usr_Roles u\<rparr>"
    using assms(1) by (auto simp: CreateUser_def Let_def split: sum.splits)
  have "added env db row db1" by (rule insert_user_added [OF 1 assms(2)]) (simp_all add: row)
  from added_roles [OF this 2 refl _ assms(2)] show ?thesis by (simp add: v row)
qed

lemma CreateStaffProjection_added:
  assumes "CreateStaffProjection env clk db u = Inr (v, db')" "rows_ok env db"
  shows "added env db v db' \<and> usr_Roles v = [RoleViewer] \<and> usr_SessionVersion v = 1 \<and>
    \<not> usr_LoginEnabled v \<and> usr_AccessGrantedAt v = None"
proof -
  obtain row db1 where row: "row = u\<lparr>usr_ID := adb_NextUser db, usr_Active := True, usr_LoginEnabled := False,
      usr_LegacyPending := False, usr_AccessGrantedAt := None, usr_SessionVersion := 1,
      usr_Roles := [], usr_LastLoginAt := None, usr_CreatedAt := clk_Db clk, usr_UpdatedAt := clk_Db clk\<rparr>"
    and 1: "insert_user env db row = Inr db1"
    and 2: "insert_role db1 (adb_NextUser db) RoleViewer = Inr db'"
    and v: "v = row\<lparr>usr_Roles := usr_Roles u\<rparr>" and r: "usr_Roles u = [RoleViewer]"
    using assms(1) by (auto simp: CreateStaffProjection_def Let_def length_Suc_conv split: sum.splits if_splits)
  have "added env db row db1" by (rule insert_user_added [OF 1 assms(2)]) (simp_all add: row)
  moreover have "insert_roles db1 (adb_NextUser db) [RoleViewer] = Inr db'" using 2 by simp
  ultimately show ?thesis using added_roles [of env db row db1 _ _ db'] assms(2) by (simp add: v row r)
qed

subsection \<open>The history of the tables\<close>

definition same_session :: "session_row \<Rightarrow> session_row \<Rightarrow> bool" where
  "same_session s s' \<longleftrightarrow> ses_TokenDigest s' = ses_TokenDigest s \<and>
     ses_CSRFTokenDigest s' = ses_CSRFTokenDigest s \<and> ses_AdminUserID s' = ses_AdminUserID s \<and>
     ses_SessionVersion s' = ses_SessionVersion s \<and> ses_ExpiresAt s' = ses_ExpiresAt s \<and>
     (ses_RevokedAt s \<noteq> None \<longrightarrow> ses_RevokedAt s' \<noteq> None)"

definition same_user :: "access_user \<Rightarrow> access_user \<Rightarrow> bool" where
  "same_user u u' \<longleftrightarrow> usr_ID u' = usr_ID u \<and> usr_SessionVersion u \<le> usr_SessionVersion u' \<and>
     (usr_SessionVersion u' = usr_SessionVersion u \<longrightarrow> cred u' = cred u)"

definition evolves :: "access_db \<Rightarrow> access_db \<Rightarrow> bool" where
  "evolves db db' \<longleftrightarrow>
     (\<forall>u \<in> set (adb_Users db). \<exists>u' \<in> set (adb_Users db'). same_user u u') \<and>
     (\<forall>s \<in> set (adb_Sessions db). \<exists>s' \<in> set (adb_Sessions db'). same_session s s') \<and>
     set (adb_Receipts db) \<subseteq> set (adb_Receipts db') \<and>
     set (adb_LoginReceipts db) \<subseteq> set (adb_LoginReceipts db')"

definition sessions_ok :: "access_db \<Rightarrow> bool" where
  "sessions_ok db \<longleftrightarrow> distinct (map ses_TokenDigest (adb_Sessions db)) \<and>
     (\<forall>s \<in> set (adb_Sessions db). \<exists>u \<in> set (adb_Users db).
        usr_ID u = ses_AdminUserID s \<and> ses_SessionVersion s \<le> usr_SessionVersion u)"

definition receipts_ok :: "access_db \<Rightarrow> bool" where
  "receipts_ok db \<longleftrightarrow> distinct (map (\<lambda>r. (grc_Actor r, grc_Key r)) (adb_Receipts db)) \<and>
     distinct (map (\<lambda>(a, k, d). (a, k)) (adb_LoginReceipts db))"

definition good :: "access_env \<Rightarrow> access_db \<Rightarrow> access_db \<Rightarrow> bool" where
  "good env db0 db \<longleftrightarrow> rows_ok env db \<and> sessions_ok db \<and> receipts_ok db \<and> evolves db0 db"

lemma same_user_refl [simp]: "same_user u u"
  by (simp add: same_user_def)

lemma same_session_refl [simp]: "same_session s s"
  by (simp add: same_session_def)

lemma same_user_trans: "same_user u v \<Longrightarrow> same_user v w \<Longrightarrow> same_user u w"
  by (auto simp: same_user_def)

lemma same_session_trans: "same_session u v \<Longrightarrow> same_session v w \<Longrightarrow> same_session u w"
  by (auto simp: same_session_def)

lemma evolves_refl [simp]: "evolves db db"
  by (auto simp: evolves_def intro: same_user_refl same_session_refl)

lemma evolves_trans: "evolves a b \<Longrightarrow> evolves b c \<Longrightarrow> evolves a c"
  unfolding evolves_def by (blast intro: same_user_trans same_session_trans)

lemma good_rows: "good env db0 db \<Longrightarrow> rows_ok env db"
  by (simp add: good_def)

lemma good_step:
  assumes "good env db0 db" "rows_ok env db'" "sessions_ok db'" "receipts_ok db'" "evolves db db'"
  shows "good env db0 db'"
  using assms unfolding good_def by (blast intro: evolves_trans)

lemma idle_fenced: "idle env db i db' \<Longrightarrow> fenced env db i None db'"
  by (auto simp: idle_def fenced_def cred_def)

text \<open>A change of the users alone.\<close>

lemma good_users:
  assumes "good env db0 db" "rows_ok env db'" and same: "adb_Sessions db' = adb_Sessions db"
    "adb_Receipts db' = adb_Receipts db" "adb_LoginReceipts db' = adb_LoginReceipts db"
    and users: "\<And>u. u \<in> set (adb_Users db) \<Longrightarrow> \<exists>u' \<in> set (adb_Users db'). same_user u u'"
  shows "good env db0 db'"
proof (rule good_step [OF assms(1,2)])
  show "evolves db db'" using users same by (auto simp: evolves_def intro: same_session_refl)
  show "receipts_ok db'" using assms(1) same by (simp add: good_def receipts_ok_def)
  have ok: "sessions_ok db" using assms(1) by (simp add: good_def)
  have "\<exists>u \<in> set (adb_Users db'). usr_ID u = ses_AdminUserID s \<and> ses_SessionVersion s \<le> usr_SessionVersion u"
    if s: "s \<in> set (adb_Sessions db)" for s
  proof -
    obtain u where "u \<in> set (adb_Users db)" "usr_ID u = ses_AdminUserID s"
      "ses_SessionVersion s \<le> usr_SessionVersion u" using ok s unfolding sessions_ok_def by blast
    moreover from users [OF this(1)] obtain u' where "u' \<in> set (adb_Users db')" "same_user u u'" by blast
    ultimately show ?thesis unfolding same_user_def by (intro bexI [of _ u']) auto
  qed
  with ok same(1) show "sessions_ok db'" by (simp add: sessions_ok_def)
qed

lemma good_fenced:
  assumes "good env db0 db" "fenced env db i rs db'"
  shows "good env db0 db'"
proof -
  obtain f where f: "db' = upd i f db" "keeps_id f"
      "\<And>u. usr_SessionVersion (f u) = usr_SessionVersion u + 1 \<or>
        usr_SessionVersion (f u) = usr_SessionVersion u \<and> cred (f u) = cred u"
    and ok: "rows_ok env db'" using assms(2) unfolding fenced_def by blast
  show ?thesis
  proof (rule good_users [OF assms(1) ok])
    fix u assume u: "u \<in> set (adb_Users db)"
    let ?u = "if usr_ID u = i then f u else u"
    have "?u \<in> set (adb_Users db')" unfolding f(1) upd_users using u by simp
    moreover have "same_user u ?u" using f(2) f(3) [of u] by (auto simp: same_user_def keeps_id_def)
    ultimately show "\<exists>u' \<in> set (adb_Users db'). same_user u u'" by blast
  qed (simp_all add: f(1))
qed

lemma good_added:
  assumes "good env db0 db" "added env db row db'"
  shows "good env db0 db'"
proof -
  have d: "db' = db\<lparr>adb_Users := adb_Users db @ [row], adb_NextUser := adb_NextUser db + 1\<rparr>"
    and ok: "rows_ok env db'" using assms(2) unfolding added_def by blast+
  show ?thesis
    by (rule good_users [OF assms(1) ok]) (auto simp: d intro: same_user_refl)
qed

lemma good_simps [simp]:
  "good env db0 (db\<lparr>adb_Limits := x\<rparr>) = good env db0 db"
  "good env db0 (db\<lparr>adb_LoginAudits := y\<rparr>) = good env db0 db"
  "good env db0 (db\<lparr>adb_AccessAudits := z\<rparr>) = good env db0 db"
  "good env db0 (db\<lparr>adb_Control := c\<rparr>) = good env db0 db"
  by (simp_all add: good_def rows_ok_def sessions_ok_def receipts_ok_def evolves_def)

lemma good_sessions:
  assumes "good env db0 db" "adb_Users db' = adb_Users db" "adb_NextUser db' = adb_NextUser db"
    "adb_Receipts db' = adb_Receipts db" "adb_LoginReceipts db' = adb_LoginReceipts db"
    and f: "adb_Sessions db' = map f (adb_Sessions db)" "\<And>s. same_session s (f s)"
  shows "good env db0 db'"
proof (rule good_step [OF assms(1)])
  have ok: "rows_ok env db" "sessions_ok db" "receipts_ok db" using assms(1) by (simp_all add: good_def)
  show "rows_ok env db'" "receipts_ok db'" using ok assms(2-5) by (simp_all add: rows_ok_def receipts_ok_def)
  have tok: "map ses_TokenDigest (map f (adb_Sessions db)) = map ses_TokenDigest (adb_Sessions db)"
    using f(2) by (simp add: same_session_def)
  have ref: "\<exists>u \<in> set (adb_Users db). usr_ID u = ses_AdminUserID (f s) \<and>
      ses_SessionVersion (f s) \<le> usr_SessionVersion u" if "s \<in> set (adb_Sessions db)" for s
    using ok(2) that f(2) [of s] by (auto simp: sessions_ok_def same_session_def)
  show "sessions_ok db'"
    unfolding sessions_ok_def f(1) tok assms(2) using ok(2) ref by (auto simp: sessions_ok_def)
  show "evolves db db'" using assms(2,4,5) f by (auto simp: evolves_def intro: same_user_refl)
qed

subsection \<open>Rules for the operations\<close>

lemma post_bind:
  "post (\<lambda>x. post P (f x)) r \<Longrightarrow> (\<And>e. r = Inl e \<Longrightarrow> post P (g e)) \<Longrightarrow>
   post P (case r of Inl e \<Rightarrow> g e | Inr x \<Rightarrow> f x)"
  by (cases r) auto

lemma wp_fenced:
  assumes "good env db0 db" "\<And>db'. op = Inr db' \<Longrightarrow> rows_ok env db \<Longrightarrow> fenced env db i rs db'"
    and "\<And>db'. good env db0 db' \<Longrightarrow> Q db'"
  shows "post Q op"
  using assms good_rows [OF assms(1)] by (intro postI) (blast intro: good_fenced)

lemma wp_SetLoginEnabled [access_wp]:
  "good env db0 db \<Longrightarrow> (\<And>db'. good env db0 db' \<Longrightarrow> Q db') \<Longrightarrow> post Q (SetLoginEnabled env db i b now)"
  by (rule wp_fenced [OF _ SetLoginEnabled_fenced])

lemma wp_SetWeComUserID [access_wp]:
  "good env db0 db \<Longrightarrow> (\<And>db'. good env db0 db' \<Longrightarrow> Q db') \<Longrightarrow> post Q (SetWeComUserID env db i w now)"
  by (rule wp_fenced [OF _ SetWeComUserID_fenced])

lemma wp_SetPasswordHash [access_wp]:
  "good env db0 db \<Longrightarrow> (\<And>db'. good env db0 db' \<Longrightarrow> Q db') \<Longrightarrow> post Q (SetPasswordHash env db i h now)"
  by (rule wp_fenced [OF _ SetPasswordHash_fenced])

lemma wp_ReplaceRoles [access_wp]:
  "good env db0 db \<Longrightarrow> (\<And>db'. good env db0 db' \<Longrightarrow> Q db') \<Longrightarrow> post Q (ReplaceRoles env db i rs now)"
  by (rule wp_fenced [OF _ ReplaceRoles_fenced])

lemma wp_GrantAccess [access_wp]:
  "good env db0 db \<Longrightarrow> (\<And>db'. good env db0 db' \<Longrightarrow> Q db') \<Longrightarrow> post Q (GrantAccess env db i r name now)"
  by (rule wp_fenced [OF _ GrantAccess_fenced [THEN conjunct1]])

lemma wp_SetLastLogin [access_wp]:
  "good env db0 db \<Longrightarrow> (\<And>db'. good env db0 db' \<Longrightarrow> Q db') \<Longrightarrow> post Q (SetLastLogin env db i now)"
  by (rule wp_fenced [OF _ idle_fenced [OF SetLastLogin_idle]])

lemma wp_SetStaffDisplayName [access_wp]:
  "good env db0 db \<Longrightarrow> (\<And>db'. good env db0 db' \<Longrightarrow> Q db') \<Longrightarrow>
   post Q (SetStaffDisplayName env db i w name now)"
  by (rule wp_fenced [OF _ idle_fenced [OF SetStaffDisplayName_idle]])

lemma wp_CreateUser [access_wp]:
  "good env db0 db \<Longrightarrow> (\<And>v db'. good env db0 db' \<Longrightarrow> Q (v, db')) \<Longrightarrow> post Q (CreateUser env clk db u)"
  by (intro postI) (metis CreateUser_added good_added good_rows surj_pair)

lemma wp_CreateStaffProjection [access_wp]:
  "good env db0 db \<Longrightarrow> (\<And>v db'. good env db0 db' \<Longrightarrow> Q (v, db')) \<Longrightarrow>
   post Q (CreateStaffProjection env clk db u)"
  by (intro postI) (metis CreateStaffProjection_added good_added good_rows surj_pair)

lemma wp_BootstrapUser [access_wp]:
  assumes "good env db0 db" "\<And>v b db'. good env db0 db' \<Longrightarrow> Q ((v, b), db')"
  shows "post Q (BootstrapUser env clk db u)"
proof (cases "0 < length (adb_Users db)")
  case True
  then show ?thesis using assms by (auto simp: BootstrapUser_def split: sum.splits)
next
  case False
  have "post (\<lambda>p. post Q (case p of (created, db') \<Rightarrow> Inr ((created, True), db'))) (CreateUser env clk db u)"
    using assms by (intro wp_CreateUser) simp_all
  then show ?thesis using False by (simp add: BootstrapUser_def del: length_greater_0_conv)
qed

lemma wp_AppendLoginAudit [access_wp]:
  "good env db0 db \<Longrightarrow> (\<And>db'. good env db0 db' \<Longrightarrow> Q db') \<Longrightarrow> post Q (AppendLoginAudit db a)"
  by (simp add: AppendLoginAudit_def)

lemma wp_AppendAccessAudit [access_wp]:
  "good env db0 db \<Longrightarrow> (\<And>db'. good env db0 db' \<Longrightarrow> Q db') \<Longrightarrow> post Q (AppendAccessAudit db a)"
  by (simp add: AppendAccessAudit_def)

lemma wp_auditLogin [access_wp]:
  "good env db0 db \<Longrightarrow> (\<And>db'. good env db0 db' \<Longrightarrow> Q db') \<Longrightarrow> post Q (auditLogin db u a b out why now)"
  by (simp add: auditLogin_def wp_AppendLoginAudit)

lemma wp_audit [access_wp]:
  "good env db0 db \<Longrightarrow> (\<And>db'. good env db0 db' \<Longrightarrow> Q db') \<Longrightarrow> post Q (audit db a t act det now)"
  by (simp add: audit_def wp_AppendAccessAudit)

lemma wp_SaveLoginRateLimit [access_wp]:
  "good env db0 db \<Longrightarrow> (\<And>db'. good env db0 db' \<Longrightarrow> adb_Users db' = adb_Users db \<Longrightarrow> Q db') \<Longrightarrow>
   post Q (SaveLoginRateLimit db k l)"
  by (simp add: SaveLoginRateLimit_def)

lemma wp_InitializeSuperAdminControl [access_wp]:
  "good env db0 db \<Longrightarrow> (\<And>db'. good env db0 db' \<Longrightarrow> Q db') \<Longrightarrow>
   post Q (InitializeSuperAdminControl db i now)"
  by (simp add: InitializeSuperAdminControl_def)

lemma wp_SetSuperAdminControl [access_wp]:
  "good env db0 db \<Longrightarrow> (\<And>db'. good env db0 db' \<Longrightarrow> Q db') \<Longrightarrow> post Q (SetSuperAdminControl db i now)"
  by (auto simp: SetSuperAdminControl_def split: option.splits)

lemma good_receipt:
  assumes "good env db0 db" "db' = db\<lparr>adb_Receipts := adb_Receipts db @ [r]\<rparr>"
    "\<forall>q \<in> set (adb_Receipts db). grc_Actor q = grc_Actor r \<longrightarrow> grc_Key q \<noteq> grc_Key r"
  shows "good env db0 db'"
  using assms(1)
proof (rule good_step)
  show "rows_ok env db'" "sessions_ok db'" "receipts_ok db'" "evolves db db'"
    using assms by (auto simp: good_def rows_ok_def sessions_ok_def receipts_ok_def evolves_def
        intro: same_user_refl same_session_refl)
qed

lemma good_login_receipt:
  assumes "good env db0 db" "db' = db\<lparr>adb_LoginReceipts := adb_LoginReceipts db @ [(a, k, d)]\<rparr>"
    "\<forall>(a', k', d') \<in> set (adb_LoginReceipts db). a' = a \<longrightarrow> k' \<noteq> k"
  shows "good env db0 db'"
  using assms(1)
proof (rule good_step)
  show "rows_ok env db'" "sessions_ok db'" "receipts_ok db'" "evolves db db'"
    using assms by (auto simp: good_def rows_ok_def sessions_ok_def receipts_ok_def evolves_def
        intro: same_user_refl same_session_refl)
qed

lemma wp_ReserveGovernanceMutation [access_wp]:
  assumes "good env db0 db"
    and "\<And>b db'. good env db0 db' \<Longrightarrow> adb_Users db' = adb_Users db \<Longrightarrow> adb_Control db' = adb_Control db \<Longrightarrow>
      Q (b, db')"
  shows "post Q (ReserveGovernanceMutation db a k act t d)"
  unfolding ReserveGovernanceMutation_def using assms
  by (auto simp: find_None_iff split: option.splits intro!: assms(2) good_receipt [OF assms(1) refl])

lemma wp_ReserveLoginAccessRequest [access_wp]:
  assumes "good env db0 db"
    and "\<And>b db'. good env db0 db' \<Longrightarrow> adb_Users db' = adb_Users db \<Longrightarrow> adb_Control db' = adb_Control db \<Longrightarrow>
      Q (b, db')"
  shows "post Q (ReserveLoginAccessRequest db a k d)"
  unfolding ReserveLoginAccessRequest_def using assms
  by (auto simp: find_None_iff split: option.splits intro!: assms(2) good_login_receipt [OF assms(1) refl])

lemma wp_CreateSession [access_wp]:
  assumes "good env db0 db" "\<exists>u \<in> set (adb_Users db). usr_ID u = i \<and> v \<le> usr_SessionVersion u"
    and "\<And>db'. good env db0 db' \<Longrightarrow> Q db'"
  shows "post Q (CreateSession clk db token csrf i v expires)"
proof (rule postI)
  fix db' assume op: "CreateSession clk db token csrf i v expires = Inr db'"
  let ?s = "\<lparr>ses_ID = int (length (adb_Sessions db)) + 1, ses_TokenDigest = token,
      ses_CSRFTokenDigest = csrf, ses_AdminUserID = i, ses_SessionVersion = v,
      ses_ExpiresAt = pg_time expires, ses_RevokedAt = None, ses_RevokedReason = [],
      ses_CreatedAt = clk_Db clk, ses_LastSeenAt = clk_Db clk\<rparr>"
  have d: "db' = db\<lparr>adb_Sessions := adb_Sessions db @ [?s]\<rparr>"
    and new: "token \<notin> ses_TokenDigest ` set (adb_Sessions db)"
    using op by (auto simp: CreateSession_def list_ex_iff split: if_splits)
  have "good env db0 db'"
  proof (rule good_step [OF assms(1)])
    show "rows_ok env db'" "receipts_ok db'" "evolves db db'"
      using assms(1) by (auto simp: d good_def rows_ok_def receipts_ok_def evolves_def
          intro: same_user_refl same_session_refl)
    show "sessions_ok db'" using assms(1,2) new by (auto simp: d good_def sessions_ok_def)
  qed
  then show "Q db'" by (rule assms(3))
qed

lemma good_TouchSession [access_wp]: "good env db0 db \<Longrightarrow> good env db0 (TouchSession db i now)"
  by (rule good_sessions) (auto simp: TouchSession_def same_session_def)

lemma good_RevokeSession [access_wp]: "good env db0 db \<Longrightarrow> good env db0 (RevokeSession db d why now)"
  by (rule good_sessions) (auto simp: RevokeSession_def same_session_def)

lemma good_LoginRateLimit [access_wp]: "good env db0 db \<Longrightarrow> good env db0 (snd (LoginRateLimit clk db k))"
  by (simp add: LoginRateLimit_def Let_def split: option.splits)

lemma LoginRateLimit_users [simp]: "adb_Users (snd (LoginRateLimit clk db k)) = adb_Users db"
  by (simp add: LoginRateLimit_def Let_def split: option.splits)

subsection \<open>Handlers\<close>

lemmas wp_reads [access_wp] =
  postI [where r = "UserByID db i" for db i] postI [where r = "UserByWeComUserID db w" for db w]
  postI [where r = "UserByUsername db w" for db w] postI [where r = "SingleRole rs" for rs]
  postI [where r = "currentGovernanceActor db a" for db a] postI [where r = "requireSuperAdmin a" for a]
  postI [where r = "NormalizeUsername t n" for t n] postI [where r = "NormalizeRoles rs" for rs]
  postI [where r = "NormalizeWeComUserID w" for w] postI [where r = "env_Hash env salt pw" for env salt pw]
  postI [where r = "IssueOpaque r p" for r p] postI [where r = "SuperAdminControl db" for db]
  postI [where r = "SessionByTokenDigest db d" for db d]
  postI [where r = "AuthorizeCSRF clk t c q db" for clk t c q db]
  postI [where r = "verifiedEnterpriseEmployee env dir w" for env dir w]
  postI [where r = "completeEnterpriseDirectory env dir" for env dir]
  postI [where r = "mutable_changes us r cs" for us r cs] postI [where r = "check_changes a cs seen" for a cs seen]
  postI [where r = "ParseKey k" for k] postI [where r = "canonical_staff ms seen" for ms seen]

abbreviation good_after :: "access_env \<Rightarrow> access_db \<Rightarrow> 'a access_tx \<Rightarrow> bool" where
  "good_after env db0 \<equiv> post (\<lambda>p. good env db0 (snd p))"

lemma wp_within [access_wp]: "good_after env db0 r \<Longrightarrow> good_after env db0 (within db r)"
  by (auto simp: within_def post_iff split: sum.splits if_splits prod.splits)

lemma wp_governance_target:
  assumes "good env db0 db"
    and "\<And>ra u rt db1. good env db0 db1 \<Longrightarrow> post (good env db0) (apply ra u rt db1)"
  shows "good_after env db0 (governance_target db actor target key action digest apply)"
  unfolding governance_target_def using assms(1)
  by (auto intro!: post_bind access_wp post_mono [OF assms(2)] split: prod.splits)

lemma wp_withGovernanceTarget:
  assumes "good env db0 db"
    and "\<And>ra u rt db1. good env db0 db1 \<Longrightarrow> post (good env db0) (apply ra u rt db1)"
  shows "good_after env db0 (withGovernanceTarget db actor target key action digest apply)"
  unfolding withGovernanceTarget_def using assms
  by (auto intro!: wp_within wp_governance_target)

lemma wp_applies [access_wp]:
  assumes "good env db0 db"
  shows "post (good env db0) (apply_login env now actor b ra u rt db)"
    and "post (good env db0) (apply_role env now actor r ra u rt db)"
    and "post (good env db0) (apply_bind env now actor w ra u rt db)"
    and "post (good env db0) (apply_password env now actor h ra u rt db)"
  unfolding apply_login_def apply_role_def apply_bind_def apply_password_def using assms
  by (auto intro!: post_bind access_wp split: option.splits)

lemma wp_governed [access_wp]:
  assumes "good env db0 db"
  shows "good_after env db0 (SetGovernanceLoginEnabled env clk actor i1 db)"
    and "good_after env db0 (SetGovernanceRole env clk actor i2 db)"
    and "good_after env db0 (BindGovernanceWeComUserID env clk dir seen actor i3 db)"
    and "good_after env db0 (ResetGovernancePassword env clk salt actor i4 db)"
  unfolding SetGovernanceLoginEnabled_def SetGovernanceRole_def BindGovernanceWeComUserID_def
    ResetGovernancePassword_def using assms
  by (auto intro!: post_bind wp_withGovernanceTarget access_wp)

lemma wp_transfer_body:
  assumes "good env db0 db"
  shows "good_after env db0 (transfer_body env clk actor input db)"
  unfolding transfer_body_def transfer_rows_def Let_def using assms
  by (auto intro!: post_bind access_wp split: prod.splits)

lemma wp_provision_body:
  assumes "good env db0 db"
  shows "good_after env db0 (provision_body env clk actor input m hash db)"
  unfolding provision_body_def provision_rows_def Let_def using assms
  by (auto intro!: post_bind access_wp split: prod.splits)

lemma wp_transactions [access_wp]:
  assumes "good env db0 db"
  shows "good_after env db0 (TransferGovernanceSuperAdmin env clk actor input db)"
    and "good_after env db0 (ProvisionEnterpriseEmployee env clk randoms dir seen actor input' db)"
  unfolding TransferGovernanceSuperAdmin_def ProvisionEnterpriseEmployee_def using assms
  by (auto intro!: post_bind access_wp wp_transfer_body wp_provision_body split: prod.splits)

lemma wp_audited [access_wp]:
  "post (good env db0) r \<Longrightarrow> good_after env db0 (audited db r actor target action details now)"
  unfolding audited_def by (auto intro!: wp_within access_wp elim!: post_mono)

lemma wp_accounts [access_wp]:
  assumes "good env db0 db"
  shows "good_after env db0 (Bootstrap env clk salt i1 db)"
    and "good_after env db0 (AddUser env clk salt actor i2 db)"
    and "good_after env db0 (DisableUser env clk actor target db)"
    and "good_after env db0 (BindWeComUserID env clk actor target w db)"
    and "good_after env db0 (ChangeRoles env clk actor target rs db)"
    and "good_after env db0 (ResetPassword env clk salt actor target pw db)"
  unfolding Bootstrap_def AddUser_def DisableUser_def BindWeComUserID_def ChangeRoles_def
    ResetPassword_def Let_def using assms
  by (auto intro!: post_bind access_wp split: prod.splits)

lemma wp_apply_changes [access_wp]:
  "good env db0 db \<Longrightarrow> (\<And>db'. good env db0 db' \<Longrightarrow> Q db') \<Longrightarrow>
   post Q (apply_changes env now actor ra locked cs db)"
proof (induction cs arbitrary: db)
  case Nil
  then show ?case by simp
next
  case (Cons c cs)
  then show ?case by (auto intro!: post_bind access_wp)
qed

lemma wp_login_access_body:
  assumes "good env db0 db"
  shows "good_after env db0 (login_access_body env clk actor key cs db)"
  unfolding login_access_body_def using assms
  by (auto intro!: post_bind access_wp split: prod.splits)

lemma wp_SetLoginAccess [access_wp]:
  assumes "good env db0 db"
  shows "good_after env db0 (SetLoginAccess env clk actor key cs db)"
  unfolding SetLoginAccess_def using assms
  by (auto intro!: post_bind wp_within wp_login_access_body access_wp)

lemma wp_project_loop [access_wp]:
  "good env db0 db \<Longrightarrow> (\<And>r db'. good env db0 db' \<Longrightarrow> Q (r, db')) \<Longrightarrow>
   post Q (project_loop env clk log hash runKey ms res db)"
proof (induction ms arbitrary: res db)
  case Nil
  then show ?case by simp
next
  case (Cons m ms)
  then show ?case by (auto intro!: post_bind access_wp simp: Let_def split: prod.splits)
qed

lemma wp_projectStaffWithin [access_wp]:
  "good env db0 db \<Longrightarrow> (\<And>r db'. good env db0 db' \<Longrightarrow> Q (r, db')) \<Longrightarrow>
   post Q (projectStaffWithin env clk log hash runKey input db)"
  unfolding projectStaffWithin_def by (auto intro!: post_bind access_wp)

lemma wp_rename_loop [access_wp]:
  "good env db0 db \<Longrightarrow> (\<And>n db'. good env db0 db' \<Longrightarrow> Q (n, db')) \<Longrightarrow>
   post Q (rename_loop env now actor ms us n db)"
proof (induction us arbitrary: n db)
  case Nil
  then show ?case by simp
next
  case (Cons u us)
  then show ?case by (auto intro!: post_bind access_wp simp: Let_def)
qed

lemma wp_RefreshStaffDirectory [access_wp]:
  assumes "good env db0 db"
  shows "good_after env db0 (RefreshStaffDirectory env clk random dir projector log seen actor db)"
  unfolding RefreshStaffDirectory_def using assms
  by (auto intro!: post_bind access_wp split: prod.splits)

lemma wp_refuse [access_wp]:
  "good env db0 db \<Longrightarrow> good_after env db0 (refuse db u a b out why now err)"
  unfolding refuse_def by (auto intro!: post_bind access_wp)

lemma wp_issueSession [access_wp]:
  assumes "good env db0 db" "u \<in> set (adb_Users db)"
  shows "good_after env db0 (issueSession env clk randoms db u a b why)"
  unfolding issueSession_def Let_def using assms
  by (auto intro!: post_bind access_wp split: prod.splits)

lemma UserByUsername_ok: "UserByUsername db n = Inr u \<Longrightarrow> u \<in> set (adb_Users db) \<and> usr_Username u = n"
  by (auto simp: UserByUsername_def split: option.splits if_splits dest: find_ok)

lemma UserByWeComUserID_ok:
  "UserByWeComUserID db w = Inr u \<Longrightarrow> u \<in> set (adb_Users db) \<and> usr_WeComUserID u = w \<and> w \<noteq> []"
  by (auto simp: UserByWeComUserID_def split: option.splits if_splits dest: find_ok)

lemma wp_Login_body:
  assumes "good env db0 db"
  shows "good_after env db0 (Login_body env clk randoms command db)"
proof -
  obtain l dbl where l: "LoginRateLimit clk db (rate_digest env command) = (l, dbl)" by fastforce
  with good_LoginRateLimit [OF assms] have g: "good env db0 dbl" by (metis snd_conv)
  show ?thesis
    unfolding Login_body_def Let_def l using g
    by (auto intro!: post_bind access_wp dest!: UserByUsername_ok)
qed

lemma wp_logins [access_wp]:
  assumes "good env db0 db"
  shows "good_after env db0 (Login env clk randoms command db)"
    and "good_after env db0 (LoginWithWeComUserID env clk randoms command' db)"
proof -
  show "good_after env db0 (Login env clk randoms command db)"
    unfolding Login_def by (intro wp_within wp_Login_body assms)
  show "good_after env db0 (LoginWithWeComUserID env clk randoms command' db)"
    unfolding LoginWithWeComUserID_def WeComLogin_body_def Let_def using assms
    by (auto intro!: post_bind access_wp dest: UserByWeComUserID_ok)
qed

lemma wp_sessions [access_wp]:
  assumes "good env db0 db"
  shows "good_after env db0 (Authenticate clk token db)"
    and "good_after env db0 (Logout clk token cookie request seen db)"
  unfolding Authenticate_def Logout_def using assms
  by (auto intro!: post_bind access_wp split: prod.splits)

lemma tables_of_post: "post P (tables_of r) \<longleftrightarrow> post (\<lambda>p. P (snd p)) r"
  by (cases r) (auto simp: tables_of_def split: prod.splits)

lemma exec_good: "good env db0 db \<Longrightarrow> post (good env db0) (exec env db (clk, call))"
  by (cases call) (simp_all only: exec.simps tables_of_post, (blast intro: access_wp wp_within | auto intro!: access_wp)+)

text \<open>Every call ends in \<open>within\<close>, so the assertion of the triggers holds after it.\<close>

lemma assert_frame:
  "adb_Users db' = adb_Users db \<Longrightarrow> adb_Control db' = adb_Control db \<Longrightarrow>
   access_assert db' = access_assert db"
  by (simp add: access_assert_def cong: option.case_cong)

lemma within_assert [access_wp]:
  "access_assert db \<Longrightarrow> post (\<lambda>p. access_assert (snd p)) (within db r)"
  by (auto simp: within_def post_iff dest: assert_frame split: sum.splits if_splits prod.splits)

lemma assert_handlers:
  assumes "access_assert db"
  shows "post (\<lambda>p. access_assert (snd p)) (Bootstrap env clk salt b db)"
    "post (\<lambda>p. access_assert (snd p)) (AddUser env clk salt actor a db)"
    "post (\<lambda>p. access_assert (snd p)) (audited db r actor target action details now)"
    "post (\<lambda>p. access_assert (snd p)) (SetLoginAccess env clk actor key cs db)"
    "post (\<lambda>p. access_assert (snd p)) (ProvisionEnterpriseEmployee env clk rnd dir seen actor v db)"
    "post (\<lambda>p. access_assert (snd p)) (withGovernanceTarget db actor target key action digest apply)"
    "post (\<lambda>p. access_assert (snd p)) (TransferGovernanceSuperAdmin env clk actor t db)"
    "post (\<lambda>p. access_assert (snd p)) (RefreshStaffDirectory env clk salt dir projector log seen actor db)"
    "post (\<lambda>p. access_assert (snd p)) (Login env clk rnd lc db)"
    "post (\<lambda>p. access_assert (snd p)) (LoginWithWeComUserID env clk rnd wc db)"
    "post (\<lambda>p. access_assert (snd p)) (Authenticate clk token db)"
    "post (\<lambda>p. access_assert (snd p)) (Logout clk token cookie request seen db)"
  unfolding Bootstrap_def AddUser_def audited_def SetLoginAccess_def ProvisionEnterpriseEmployee_def
    withGovernanceTarget_def TransferGovernanceSuperAdmin_def RefreshStaffDirectory_def Login_def
    LoginWithWeComUserID_def Authenticate_def Logout_def Let_def using assms
  by (auto intro!: post_bind access_wp split: prod.splits)

lemma exec_assert: "access_assert db \<Longrightarrow> post access_assert (exec env db (clk, call))"
  by (cases call) (auto simp only: exec.simps tables_of_post DisableUser_def BindWeComUserID_def
      ChangeRoles_def ResetPassword_def SetGovernanceLoginEnabled_def SetGovernanceRole_def
      BindGovernanceWeComUserID_def ResetGovernancePassword_def Let_def post_Inl post_Inr
      split: if_splits intro!: post_bind assert_handlers access_wp)

subsection \<open>The invariant\<close>

definition access_inv :: "access_env \<Rightarrow> access_db \<Rightarrow> bool" where
  "access_inv env db \<longleftrightarrow> good env db db \<and> access_assert db"

lemma good_self: "good env db0 db \<Longrightarrow> good env db db"
  by (simp add: good_def)

lemma access_inv_empty: "access_inv env empty_access"
  by (simp add: access_inv_def good_def rows_ok_def users_unique_def sessions_ok_def receipts_ok_def
      access_assert_def empty_access_def)

lemma exec_inv: "access_inv env db \<Longrightarrow> exec env db c = Inr db' \<Longrightarrow> access_inv env db'"
  using postD [OF exec_good, of env db db "fst c" "snd c" db'] postD [OF exec_assert, of db env "fst c" "snd c" db']
  by (simp add: access_inv_def) (blast intro: good_self)

lemma reachable_access_inv: "access_reachable env db \<Longrightarrow> access_inv env db"
  unfolding access_reachable_def
  using run_invariant [where P = "access_inv env" and f = "exec env", OF access_inv_empty] exec_inv by blast

lemma run_good: "access_inv env db \<Longrightarrow> good env db (run (exec env) db calls)"
proof (rule run_invariant [of "good env db"])
  show "access_inv env db \<Longrightarrow> good env db db" by (simp add: access_inv_def)
  show "good env db s' " if "good env db s" "exec env s c = Inr s'" for s c s'
    using postD [OF exec_good [OF that(1), of "fst c" "snd c"]] that(2) by simp
qed

lemma reachable_run: "access_reachable env db \<Longrightarrow> access_reachable env (run (exec env) db calls)"
  unfolding access_reachable_def using run_append by metis

end
