(* ===== verification/AccessProps.thy ===== *)
theory AccessProps
  imports AccessInv
begin

text \<open>
  Properties of the access component: there is exactly one super administrator and only
  a transfer moves the role; a session is worth what its user was when it was issued; the
  login limit; and who may do what to whom, at most once for an idempotency key.
\<close>

subsection \<open>One super administrator\<close>

definition one_super :: "access_db \<Rightarrow> bool" where
  "one_super db \<longleftrightarrow>
     (adb_Users db = [] \<and> adb_Control db = None) \<or>
     (\<exists>c u. adb_Control db = Some c \<and> u \<in> set (adb_Users db) \<and> usr_ID u = sac_AdminUserID c \<and>
        usr_Roles u = [RoleSuperAdmin] \<and> login_usable u \<and>
        (\<forall>v \<in> set (adb_Users db). \<exists>r. usr_Roles v = [r]) \<and>
        (\<forall>v \<in> set (adb_Users db). usr_Roles v = [RoleSuperAdmin] \<longrightarrow> v = u))"

lemma super_rows_length:
  "\<forall>u \<in> set us. \<exists>r. usr_Roles u = [r] \<Longrightarrow>
   length (super_rows us) = length (filter (\<lambda>u. usr_Roles u = [RoleSuperAdmin]) us)"
  by (induction us) (auto simp: super_rows_def)

lemma unique_filter:
  assumes "distinct us" "u \<in> set us" "P u"
  shows "length (filter P us) = 1 \<longleftrightarrow> (\<forall>v \<in> set us. P v \<longrightarrow> v = u)"
proof
  assume "length (filter P us) = 1"
  then obtain x where "filter P us = [x]" by (auto simp: length_Suc_conv)
  then have "{v \<in> set us. P v} = {x}" by (metis set_filter list.set(1,2))
  then have one: "v \<in> set us \<and> P v \<longleftrightarrow> v = x" for v by blast
  have "u = x" using one [of u] assms by blast
  with one show "\<forall>v \<in> set us. P v \<longrightarrow> v = u" by blast
next
  assume "\<forall>v \<in> set us. P v \<longrightarrow> v = u"
  then have "set (filter P us) = {u}" using assms(2,3) unfolding set_filter by blast
  then show "length (filter P us) = 1" using distinct_card [of "filter P us"] assms(1) by simp
qed

lemma assert_iff:
  assumes "distinct (map usr_ID (adb_Users db))"
  shows "access_assert db \<longleftrightarrow> one_super db"
proof (cases "adb_Control db")
  case None
  then show ?thesis by (simp add: access_assert_def one_super_def)
next
  case (Some c)
  let ?us = "adb_Users db"
  have d: "distinct ?us" using assms by (simp add: distinct_map)
  have single: "list_all (\<lambda>u. length (usr_Roles u) = 1) ?us \<longleftrightarrow> (\<forall>v \<in> set ?us. \<exists>r. usr_Roles v = [r])"
    by (auto simp: list_all_iff length_Suc_conv)
  have count: "length (super_rows ?us) = 1 \<longleftrightarrow> (\<forall>v \<in> set ?us. usr_Roles v = [RoleSuperAdmin] \<longrightarrow> v = u)"
    if "u \<in> set ?us" "usr_Roles u = [RoleSuperAdmin]" "\<forall>v \<in> set ?us. \<exists>r. usr_Roles v = [r]" for u
    unfolding super_rows_length [OF that(3)]
    by (rule unique_filter [of _ _ "\<lambda>v. usr_Roles v = [RoleSuperAdmin]"]) (rule d that)+
  show ?thesis
  proof (cases "find (\<lambda>u. usr_ID u = sac_AdminUserID c) ?us")
    case None
    then have "\<not> access_assert db" using Some by (simp add: access_assert_def)
    moreover have "\<not> one_super db" using None Some by (auto simp: one_super_def find_None_iff)
    ultimately show ?thesis by blast
  next
    case f: (Some u)
    from find_ok [OF f] have u: "u \<in> set ?us" "usr_ID u = sac_AdminUserID c" by simp_all
    have only: "v = u" if "v \<in> set ?us" "usr_ID v = sac_AdminUserID c" for v
      using that u assms by (auto simp: distinct_map inj_on_def)
    have "access_assert db \<longleftrightarrow> usr_Roles u = [RoleSuperAdmin] \<and> login_usable u \<and>
        (\<forall>v \<in> set ?us. \<exists>r. usr_Roles v = [r]) \<and> length (super_rows ?us) = 1"
      unfolding access_assert_def Some option.case f login_usable_def single by blast
    also have "\<dots> \<longleftrightarrow> one_super db"
    proof
      assume a: "usr_Roles u = [RoleSuperAdmin] \<and> login_usable u \<and>
        (\<forall>v \<in> set ?us. \<exists>r. usr_Roles v = [r]) \<and> length (super_rows ?us) = 1"
      then have "\<forall>v \<in> set ?us. usr_Roles v = [RoleSuperAdmin] \<longrightarrow> v = u" using count [OF u(1)] by blast
      with a u Some show "one_super db" unfolding one_super_def by blast
    next
      assume "one_super db"
      with u(1) obtain c' u' where c': "adb_Control db = Some c'" and u': "u' \<in> set ?us"
          "usr_ID u' = sac_AdminUserID c'" "usr_Roles u' = [RoleSuperAdmin]" "login_usable u'"
        and single': "\<forall>v \<in> set ?us. \<exists>r. usr_Roles v = [r]"
        and only': "\<forall>v \<in> set ?us. usr_Roles v = [RoleSuperAdmin] \<longrightarrow> v = u'"
        unfolding one_super_def by (metis list.set(1) empty_iff)
      have "u' = u" using only u' c' Some by simp
      with u' single' only' count [OF u(1)] show "usr_Roles u = [RoleSuperAdmin] \<and> login_usable u \<and>
        (\<forall>v \<in> set ?us. \<exists>r. usr_Roles v = [r]) \<and> length (super_rows ?us) = 1" by blast
    qed
    finally show ?thesis .
  qed
qed

lemma inv_one_super: "access_inv env db \<Longrightarrow> one_super db"
  using assert_iff by (auto simp: access_inv_def good_def rows_ok_def)

lemma rows_assert: "rows_ok env db \<Longrightarrow> access_assert db = one_super db"
  by (rule assert_iff) (simp add: rows_ok_def)

text \<open>A change of the row of a user who is not the super administrator, to a role below.\<close>

lemma one_super_upd:
  assumes "one_super db" "keeps_id f" "adb_Users db' = adb_Users (upd i f db)" "adb_Control db' = adb_Control db"
    and other: "\<And>u. u \<in> set (adb_Users db) \<Longrightarrow> usr_ID u = i \<Longrightarrow>
      usr_Roles u \<noteq> [RoleSuperAdmin] \<and> (\<exists>r. usr_Roles (f u) = [r] \<and> r \<noteq> RoleSuperAdmin)"
  shows "one_super db'"
proof (cases "adb_Users db = []")
  case True
  with assms(1,3,4) show ?thesis by (auto simp: one_super_def upd_users)
next
  case False
  then obtain c u where c: "adb_Control db = Some c" and u: "u \<in> set (adb_Users db)"
      "usr_ID u = sac_AdminUserID c" "usr_Roles u = [RoleSuperAdmin]" "login_usable u"
    and single: "\<forall>v \<in> set (adb_Users db). \<exists>r. usr_Roles v = [r]"
    and only: "\<forall>v \<in> set (adb_Users db). usr_Roles v = [RoleSuperAdmin] \<longrightarrow> v = u"
    using assms(1) unfolding one_super_def by blast
  have i: "usr_ID u \<noteq> i" using other [OF u(1)] u(3) by blast
  have us: "adb_Users db' = map (\<lambda>u. if usr_ID u = i then f u else u) (adb_Users db)"
    using assms(3) by (simp add: upd_users)
  have "u \<in> set (adb_Users db')" unfolding us using u(1) i by (auto intro!: image_eqI [of _ _ u])
  moreover have "\<forall>v \<in> set (adb_Users db'). \<exists>r. usr_Roles v = [r]"
    unfolding us using single other by auto
  moreover have "\<forall>v \<in> set (adb_Users db'). usr_Roles v = [RoleSuperAdmin] \<longrightarrow> v = u"
    unfolding us using only other by fastforce
  moreover have "adb_Control db' = Some c" using c assms(4) by simp
  ultimately show ?thesis using u(2-4) unfolding one_super_def by blast
qed

lemma one_super_fenced:
  assumes "one_super db" "fenced env db i rs db1" "adb_Users db' = adb_Users db1" "adb_Control db' = adb_Control db"
    and rs: "rs = None \<or> (\<exists>r. rs = Some [r] \<and> r \<noteq> RoleSuperAdmin)"
    and other: "\<And>u. u \<in> set (adb_Users db) \<Longrightarrow> usr_ID u = i \<Longrightarrow> usr_Roles u \<noteq> [RoleSuperAdmin]"
  shows "one_super db'"
proof -
  obtain f where f: "db1 = upd i f db" "keeps_id f"
    "\<And>u. usr_Roles (f u) = (case rs of None \<Rightarrow> usr_Roles u | Some r \<Rightarrow> r)"
    using assms(2) unfolding fenced_def by blast
  show ?thesis
  proof (rule one_super_upd [OF assms(1) f(2)])
    fix u assume u: "u \<in> set (adb_Users db)" "usr_ID u = i"
    then obtain r where "usr_Roles u = [r]" using assms(1) unfolding one_super_def by auto
    with other [OF u] rs show "usr_Roles u \<noteq> [RoleSuperAdmin] \<and> (\<exists>r. usr_Roles (f u) = [r] \<and> r \<noteq> RoleSuperAdmin)"
      by (auto simp: f(3))
  qed (simp_all add: assms(3,4) f(1))
qed

lemma one_super_added:
  assumes "one_super db" "adb_Users db \<noteq> []" "added env db row db1" "adb_Users db' = adb_Users db1"
    "adb_Control db' = adb_Control db" "usr_Roles row = [r]" "r \<noteq> RoleSuperAdmin"
  shows "one_super db'"
proof -
  have "adb_Users db' = adb_Users db @ [row]" using assms(3,4) by (simp add: added_def)
  then show ?thesis using assms(1,2,5-7) unfolding one_super_def by auto
qed

subsection \<open>What a governed command changes\<close>

definition row_change :: "access_env \<Rightarrow> access_db \<Rightarrow> int \<Rightarrow> access_db \<Rightarrow> bool" where
  "row_change env db i db' \<longleftrightarrow>
     (\<exists>rs db1. fenced env db i rs db1 \<and> (rs = None \<or> rs = Some [RoleAdmin] \<or> rs = Some [RoleViewer]) \<and>
        adb_Users db' = adb_Users db1 \<and> adb_NextUser db' = adb_NextUser db \<and>
        adb_Control db' = adb_Control db \<and> adb_Receipts db' = adb_Receipts db)"

lemma fenced_same:
  "fenced env db i rs db' \<Longrightarrow> adb_NextUser db' = adb_NextUser db \<and> adb_Control db' = adb_Control db \<and>
   adb_Receipts db' = adb_Receipts db"
  by (auto simp: fenced_def)

lemma row_change_audit:
  assumes "fenced env db i rs db1" "rs = None \<or> rs = Some [RoleAdmin] \<or> rs = Some [RoleViewer]"
    "audit db1 a t act det now = Inr db'"
  shows "row_change env db i db'"
proof -
  obtain x where "db' = db1\<lparr>adb_AccessAudits := adb_AccessAudits db1 @ [x]\<rparr>"
    using assms(3) by (auto simp: audit_def AppendAccessAudit_def split: if_splits)
  then have "adb_Users db' = adb_Users db1" "adb_NextUser db' = adb_NextUser db1"
    "adb_Control db' = adb_Control db1" "adb_Receipts db' = adb_Receipts db1" by simp_all
  with assms(1,2) fenced_same [OF assms(1)] show ?thesis unfolding row_change_def by metis
qed

lemma row_change_refl: "rows_ok env db \<Longrightarrow> row_change env db i db"
  unfolding row_change_def using fenced_refl by blast

lemma apply_login_ok:
  assumes "apply_login env now actor b ra u rt db = Inr db'" "rows_ok env db"
  shows "canManageTarget ra rt \<and> row_change env db (usr_ID u) db'"
proof (cases "db' = db")
  case True
  with assms show ?thesis by (auto simp: apply_login_def intro: row_change_refl split: if_splits)
next
  case False
  then obtain db1 act det where "canManageTarget ra rt" and 1: "SetLoginEnabled env db (usr_ID u) b now = Inr db1"
    and 2: "audit db1 (prn_InternalID actor) (usr_ID u) act det now = Inr db'"
    using assms(1) by (auto simp: apply_login_def split: if_splits sum.splits)
  with row_change_audit [OF SetLoginEnabled_fenced [OF 1 assms(2)] _ 2] show ?thesis by blast
qed

lemma apply_role_ok:
  assumes "apply_role env now actor r ra u rt db = Inr db'" "rows_ok env db" "r = RoleAdmin \<or> r = RoleViewer"
  shows "ra = RoleSuperAdmin \<and> canManageTarget ra rt \<and> row_change env db (usr_ID u) db'"
proof (cases "db' = db")
  case True
  with assms show ?thesis by (auto simp: apply_role_def intro: row_change_refl split: if_splits)
next
  case False
  then obtain db1 act det where "ra = RoleSuperAdmin" "canManageTarget ra rt"
    and 1: "ReplaceRoles env db (usr_ID u) [r] now = Inr db1"
    and 2: "audit db1 (prn_InternalID actor) (usr_ID u) act det now = Inr db'"
    using assms(1) by (auto simp: apply_role_def split: if_splits sum.splits)
  with row_change_audit [OF ReplaceRoles_fenced [OF 1 assms(2)] _ 2] assms(3) show ?thesis by blast
qed

lemma apply_bind_ok:
  assumes "apply_bind env now actor w ra u rt db = Inr db'" "rows_ok env db"
  shows "ra = RoleSuperAdmin \<and> rt \<noteq> RoleSuperAdmin \<and> row_change env db (usr_ID u) db'"
proof (cases "db' = db")
  case True
  with assms show ?thesis by (auto simp: apply_bind_def intro: row_change_refl split: if_splits)
next
  case False
  then obtain db1 act det where "ra = RoleSuperAdmin" "rt \<noteq> RoleSuperAdmin"
    and 1: "SetWeComUserID env db (usr_ID u) w now = Inr db1"
    and 2: "audit db1 (prn_InternalID actor) (usr_ID u) act det now = Inr db'"
    using assms(1) by (auto simp: apply_bind_def split: if_splits sum.splits option.splits)
  with row_change_audit [OF SetWeComUserID_fenced [OF 1 assms(2)] _ 2] show ?thesis by blast
qed

lemma apply_password_ok:
  assumes "apply_password env now actor h ra u rt db = Inr db'" "rows_ok env db"
  shows "ra = RoleSuperAdmin \<and> rt \<noteq> RoleSuperAdmin \<and> row_change env db (usr_ID u) db'"
proof -
  obtain db1 act det where "ra = RoleSuperAdmin" "rt \<noteq> RoleSuperAdmin"
    and 1: "SetPasswordHash env db (usr_ID u) h now = Inr db1"
    and 2: "audit db1 (prn_InternalID actor) (usr_ID u) act det now = Inr db'"
    using assms(1) by (auto simp: apply_password_def split: if_splits sum.splits)
  with row_change_audit [OF SetPasswordHash_fenced [OF 1 assms(2)] _ 2] show ?thesis by blast
qed

text \<open>A receipt is new or it is the one of the same command.\<close>

definition has_receipt :: "access_db \<Rightarrow> int \<Rightarrow> string \<Rightarrow> bool" where
  "has_receipt db a k \<longleftrightarrow> (\<exists>r \<in> set (adb_Receipts db). grc_Actor r = a \<and> grc_Key r = k)"

lemma reserve_cases:
  assumes "ReserveGovernanceMutation db a k act t d = Inr (fresh, db1)"
  shows "(fresh \<longleftrightarrow> \<not> has_receipt db a k) \<and> has_receipt db1 a k \<and>
    (\<not> fresh \<longrightarrow> db1 = db) \<and> (\<exists>rs. db1 = db\<lparr>adb_Receipts := rs\<rparr>)"
proof (cases "find (\<lambda>r. grc_Actor r = a \<and> grc_Key r = k) (adb_Receipts db)")
  case None
  with assms obtain r where "fresh" "db1 = db\<lparr>adb_Receipts := adb_Receipts db @ [r]\<rparr>"
      "grc_Actor r = a" "grc_Key r = k"
    by (auto simp: ReserveGovernanceMutation_def split: if_splits)
  moreover have "\<not> has_receipt db a k" using None by (auto simp: has_receipt_def find_None_iff)
  ultimately show ?thesis by (auto simp: has_receipt_def)
next
  case (Some r)
  with assms have "fresh = False" "db1 = db" by (auto simp: ReserveGovernanceMutation_def split: if_splits)
  moreover have "db = db\<lparr>adb_Receipts := adb_Receipts db\<rparr>" by simp
  ultimately show ?thesis using find_ok [OF Some] unfolding has_receipt_def by blast
qed

lemma governance_target_cases:
  assumes "governance_target db actor target key action digest apply = Inr ((), db')"
  obtains (replay) "has_receipt db (prn_InternalID actor) key" "db' = db"
  | (fresh) a ra t rt db1 where "\<not> has_receipt db (prn_InternalID actor) key"
      "currentGovernanceActor db actor = Inr (a, ra)" "UserByID db target = Inr t"
      "SingleRole (usr_Roles t) = Inr rt" "usr_AccessGrantedAt t \<noteq> None"
      "ReserveGovernanceMutation db (prn_InternalID actor) key action target digest = Inr (True, db1)"
      "apply ra t rt db1 = Inr db'"
proof -
  from assms obtain a ra t rt b db1 where
      c: "currentGovernanceActor db actor = Inr (a, ra)" "UserByID db target = Inr t"
      "SingleRole (usr_Roles t) = Inr rt" "usr_AccessGrantedAt t \<noteq> None"
    and r: "ReserveGovernanceMutation db (prn_InternalID actor) key action target digest = Inr (b, db1)"
    and d: "if b then apply ra t rt db1 = Inr db' else db' = db1"
    unfolding governance_target_def by (auto split: sum.splits if_splits prod.splits)
  show thesis
  proof (cases b)
    case True
    with c r d reserve_cases [OF r] show thesis by (intro fresh) simp_all
  next
    case False
    with d reserve_cases [OF r] show thesis by (intro replay) auto
  qed
qed

definition acting :: "access_db \<Rightarrow> principal \<Rightarrow> access_user \<Rightarrow> role \<Rightarrow> bool" where
  "acting db p a r \<longleftrightarrow> a \<in> set (adb_Users db) \<and> prn_Kind p = KindAdmin \<and> usr_ID a = prn_InternalID p \<and>
     usr_SessionVersion a = prn_SessionVersion p \<and> login_usable a \<and> usr_Roles a = [r] \<and>
     (r = RoleSuperAdmin \<or> r = RoleAdmin)"

lemma single_role:
  assumes "rows_ok env db" "u \<in> set (adb_Users db)" "SingleRole (usr_Roles u) = Inr r"
  shows "usr_Roles u = [r]"
proof -
  have "length (usr_Roles u) \<le> 1" using assms(1,2) unfolding rows_ok_def by blast
  with assms(3) show ?thesis by (rule SingleRole_distinct)
qed

lemma current_actor:
  assumes "currentGovernanceActor db p = Inr (a, r)" "rows_ok env db"
  shows "acting db p a r"
proof -
  from assms(1) have u: "UserByID db (prn_InternalID p) = Inr a" and s: "SingleRole (usr_Roles a) = Inr r"
    and "prn_Kind p = KindAdmin" "usr_SessionVersion a = prn_SessionVersion p" "login_usable a"
      "r = RoleSuperAdmin \<or> r = RoleAdmin"
    by (auto simp: currentGovernanceActor_def login_usable_def split: if_splits sum.splits)
  with UserByID_ok [OF u] single_role [OF assms(2) _ s] show ?thesis by (simp add: acting_def)
qed

definition transferred :: "go_time \<Rightarrow> int \<Rightarrow> int \<Rightarrow> access_user \<Rightarrow> access_user" where
  "transferred now a t u =
     (if usr_ID u = a then fence now (u\<lparr>usr_Roles := [RoleAdmin]\<rparr>)
      else if usr_ID u = t then fence now (u\<lparr>usr_Roles := [RoleSuperAdmin]\<rparr>) else u)"

lemma transfer_cases:
  assumes "transfer_body env clk p input db = Inr ((), db')" "rows_ok env db"
  obtains (replay) "has_receipt db (prn_InternalID p) (tri_IdempotencyKey input)" "db' = db"
  | (fresh) a t c where "\<not> has_receipt db (prn_InternalID p) (tri_IdempotencyKey input)"
      "acting db p a RoleSuperAdmin" "t \<in> set (adb_Users db)" "usr_ID t = tri_TargetID input"
      "usr_Roles t = [RoleAdmin]" "login_usable t" "usr_ID a \<noteq> usr_ID t"
      "adb_Users db' = map (transferred (clk_Now clk) (usr_ID a) (usr_ID t)) (adb_Users db)"
      "adb_Control db' = Some c" "sac_AdminUserID c = usr_ID t"
      "has_receipt db' (prn_InternalID p) (tri_IdempotencyKey input)"
proof -
  let ?now = "clk_Now clk" and ?k = "tri_IdempotencyKey input"
  from assms(1) obtain a t b db1 d where
      a: "currentGovernanceActor db p = Inr (a, RoleSuperAdmin)" and ne: "usr_ID a \<noteq> tri_TargetID input"
    and t: "UserByID db (tri_TargetID input) = Inr t" "SingleRole (usr_Roles t) = Inr RoleAdmin"
      "login_usable t"
    and r: "ReserveGovernanceMutation db (usr_ID a) ?k ''transfer_super_admin'' (usr_ID t) d = Inr (b, db1)"
    and rest: "if b then transfer_rows env ?now (usr_ID a) (usr_ID t) db1 = Inr db' else db' = db1"
    unfolding transfer_body_def Let_def login_usable_def
    by (auto split: sum.splits if_splits prod.splits)
  note act = current_actor [OF a assms(2)]
  then have id: "usr_ID a = prn_InternalID p" by (simp add: acting_def)
  note t' = UserByID_ok [OF t(1)]
  show thesis
  proof (cases b)
    case False
    with rest reserve_cases [OF r] id show thesis by (intro replay) auto
  next
    case True
    from reserve_cases [OF r] True obtain rs where db1: "db1 = db\<lparr>adb_Receipts := rs\<rparr>"
      and has: "\<not> has_receipt db (usr_ID a) ?k" "has_receipt db1 (usr_ID a) ?k" by blast
    have ok1: "rows_ok env db1" using assms(2) by (simp add: db1 rows_ok_def)
    from rest True obtain db2 db3 db4 det where
        2: "ReplaceRoles env db1 (usr_ID a) [RoleAdmin] ?now = Inr db2"
      and 3: "ReplaceRoles env db2 (usr_ID t) [RoleSuperAdmin] ?now = Inr db3"
      and 4: "SetSuperAdminControl db3 (usr_ID t) ?now = Inr db4"
      and 5: "audit db4 (usr_ID a) (usr_ID t) ''transfer_super_admin'' det ?now = Inr db'"
      by (auto simp: transfer_rows_def split: sum.splits)
    note d2 = ReplaceRoles_upd [OF 2 ok1]
    note d3 = ReplaceRoles_upd [OF 3 d2(2)]
    obtain c where d4: "db4 = db3\<lparr>adb_Control := Some c\<rparr>" "sac_AdminUserID c = usr_ID t"
      using 4 by (auto simp: SetSuperAdminControl_def split: option.splits if_splits)
    obtain x where d5: "db' = db4\<lparr>adb_AccessAudits := adb_AccessAudits db4 @ [x]\<rparr>"
      using 5 by (auto simp: audit_def AppendAccessAudit_def split: if_splits)
    show thesis
    proof (rule fresh)
      show "adb_Users db' = map (transferred ?now (usr_ID a) (usr_ID t)) (adb_Users db)"
        using ne t' by (simp add: d5 d4 d3(1) d2(1) db1 upd_users transferred_def)
      show "adb_Control db' = Some c" by (simp add: d5 d4)
      show "has_receipt db' (prn_InternalID p) ?k"
        using has(2) id by (simp add: has_receipt_def d5 d4 d3(1) d2(1))
      show "usr_Roles t = [RoleAdmin]" using single_role [OF assms(2) _ t(2)] t' by blast
    qed (use act has(1) id t' t(3) ne d4(2) in simp_all)
  qed
qed

subsection \<open>Governed commands keep the assertion\<close>

lemma acting_not_empty: "acting db p a r \<Longrightarrow> adb_Users db \<noteq> []"
  by (auto simp: acting_def)

lemma one_super_row_change:
  assumes "one_super db" "row_change env db i db'"
    and "\<And>u. u \<in> set (adb_Users db) \<Longrightarrow> usr_ID u = i \<Longrightarrow> usr_Roles u \<noteq> [RoleSuperAdmin]"
  shows "one_super db'"
  using assms unfolding row_change_def by (blast intro: one_super_fenced)

lemma one_super_frame:
  "adb_Users db' = adb_Users db \<Longrightarrow> adb_Control db' = adb_Control db \<Longrightarrow> one_super db' = one_super db"
  unfolding one_super_def by simp

lemma row_change_rows: "row_change env db i db' \<Longrightarrow> rows_ok env db'"
  unfolding row_change_def fenced_def rows_ok_def by fastforce

lemma target_only:
  assumes "rows_ok env db" "t \<in> set (adb_Users db)" "u \<in> set (adb_Users db)" "usr_ID u = usr_ID t"
  shows "u = t"
  using assms by (auto simp: rows_ok_def distinct_map inj_on_def)

lemma super_cannot_be_managed: "canManageTarget ra rt \<Longrightarrow> rt \<noteq> RoleSuperAdmin"
  by (auto simp: canManageTarget_def)

text \<open>\<open>spares\<close>: when the handler accepts, the target was not the super administrator.\<close>

definition spares :: "access_env \<Rightarrow> (role \<Rightarrow> access_user \<Rightarrow> role \<Rightarrow> access_db \<Rightarrow> (access_error, access_db) result) \<Rightarrow> bool" where
  "spares env apply \<longleftrightarrow> (\<forall>ra u rt db db'. apply ra u rt db = Inr db' \<longrightarrow> rows_ok env db \<longrightarrow>
     rt \<noteq> RoleSuperAdmin \<and> row_change env db (usr_ID u) db')"

lemma spares_applies:
  "spares env (apply_login env now p b)" "spares env (apply_bind env now p w)"
  "spares env (apply_password env now p h)"
  "r = RoleAdmin \<or> r = RoleViewer \<Longrightarrow> spares env (apply_role env now p r)"
  unfolding spares_def
  by (blast dest: apply_login_ok apply_bind_ok apply_password_ok apply_role_ok super_cannot_be_managed)+

lemma governance_target_one_super:
  assumes "rows_ok env db" "one_super db" "spares env apply"
    "governance_target db p target key action digest apply = Inr ((), db')"
  shows "one_super db' \<and> rows_ok env db'"
  using assms(4)
proof (cases rule: governance_target_cases)
  case replay
  with assms show ?thesis by simp
next
  case (fresh a ra t rt db1)
  note t = UserByID_ok [OF fresh(3)]
  obtain rs where db1: "db1 = db\<lparr>adb_Receipts := rs\<rparr>" using reserve_cases [OF fresh(6)] by blast
  have ok1: "rows_ok env db1" "one_super db1"
    using assms(1,2) by (simp_all add: db1 rows_ok_def one_super_def)
  with assms(3) fresh(7) have c: "rt \<noteq> RoleSuperAdmin" "row_change env db1 (usr_ID t) db'"
    unfolding spares_def by blast+
  have roles: "usr_Roles t = [rt]" using single_role [OF assms(1) _ fresh(4)] t by blast
  have "one_super db'"
  proof (rule one_super_row_change [OF ok1(2) c(2)])
    fix u assume "u \<in> set (adb_Users db1)" "usr_ID u = usr_ID t"
    then have "u = t" using target_only [OF assms(1)] t by (simp add: db1)
    with roles c(1) show "usr_Roles u \<noteq> [RoleSuperAdmin]" by simp
  qed
  with row_change_rows [OF c(2)] show ?thesis by blast
qed

lemma transfer_one_super:
  assumes "rows_ok env db" "one_super db" "transfer_body env clk p input db = Inr ((), db')"
  shows "one_super db'"
  using assms(3,1)
proof (cases rule: transfer_cases)
  case replay
  with assms(2) show ?thesis by simp
next
  case (fresh a t c)
  let ?f = "transferred (clk_Now clk) (usr_ID a) (usr_ID t)"
  have a: "a \<in> set (adb_Users db)" "usr_Roles a = [RoleSuperAdmin]" using fresh(2) by (simp_all add: acting_def)
  then obtain u where single: "\<forall>v \<in> set (adb_Users db). \<exists>r. usr_Roles v = [r]"
    and "\<forall>v \<in> set (adb_Users db). usr_Roles v = [RoleSuperAdmin] \<longrightarrow> v = u"
    using assms(2) unfolding one_super_def by (metis empty_iff list.set(1))
  then have only: "\<forall>v \<in> set (adb_Users db). usr_Roles v = [RoleSuperAdmin] \<longrightarrow> v = a" using a by blast
  have t: "?f t \<in> set (adb_Users db')" unfolding fresh(8) using fresh(3) by simp
  have ft: "?f t = fence (clk_Now clk) (t\<lparr>usr_Roles := [RoleSuperAdmin]\<rparr>)"
    using fresh(7) by (auto simp: transferred_def)
  have "\<exists>r. usr_Roles (?f v) = [r]" if "v \<in> set (adb_Users db)" for v
    using that single by (auto simp: transferred_def)
  moreover have "?f v = ?f t" if "v \<in> set (adb_Users db)" "usr_Roles (?f v) = [RoleSuperAdmin]" for v
  proof -
    have "usr_ID v = usr_ID t" using that only by (auto simp: transferred_def split: if_splits)
    with target_only [OF assms(1) fresh(3) that(1)] show ?thesis by simp
  qed
  ultimately show ?thesis
    unfolding one_super_def fresh(8)
    using fresh(6,9,10) t ft unfolding fresh(8)
    by (intro disjI2 exI [of _ c] exI [of _ "?f t"] conjI) (auto simp: login_usable_def)
qed

lemma reserved_state:
  assumes "ReserveGovernanceMutation db a k act t d = Inr (b, db1)"
  shows "rows_ok env db1 = rows_ok env db" and "one_super db1 = one_super db"
    and "adb_Users db1 = adb_Users db" and "adb_Control db1 = adb_Control db"
proof -
  obtain rs where "db1 = db\<lparr>adb_Receipts := rs\<rparr>" using reserve_cases [OF assms] by blast
  then show "rows_ok env db1 = rows_ok env db" "one_super db1 = one_super db"
    "adb_Users db1 = adb_Users db" "adb_Control db1 = adb_Control db"
    by (simp_all add: rows_ok_def one_super_def)
qed

lemma audit_state:
  assumes "audit db a t act det now = Inr db'"
  shows "adb_Users db' = adb_Users db" and "adb_Control db' = adb_Control db"
    and "adb_Receipts db' = adb_Receipts db" and "adb_NextUser db' = adb_NextUser db"
  using assms by (auto simp: audit_def AppendAccessAudit_def split: if_splits)

lemma rows_frame:
  "adb_Users db' = adb_Users db \<Longrightarrow> adb_NextUser db' = adb_NextUser db \<Longrightarrow> rows_ok env db' = rows_ok env db"
  by (simp add: rows_ok_def)

lemma provision_rows_one_super:
  assumes "rows_ok env db" "one_super db" "adb_Users db \<noteq> []" "r = RoleAdmin \<or> r = RoleViewer"
    "provision_rows env clk p r m hash db = Inr (v, db')"
  shows "one_super db'"
proof (cases "UserByWeComUserID db (emp_UserID m)")
  case (Inr u)
  with assms(5) obtain db2 t act det where g: "GrantAccess env db (usr_ID u) r (emp_DisplayName m) (clk_Now clk) = Inr db2"
    and au: "audit db2 (prn_InternalID p) t act det (clk_Now clk) = Inr db'"
    by (auto simp: provision_rows_def Let_def split: if_splits sum.splits)
  note f = GrantAccess_fenced [OF g assms(1)]
  then obtain x where x: "x \<in> set (adb_Users db)" "usr_ID x = usr_ID u" "usr_AccessGrantedAt x = None" by blast
  show ?thesis
  proof (rule one_super_fenced [OF assms(2) f [THEN conjunct1] audit_state(1) [OF au]])
    show "adb_Control db' = adb_Control db"
      using audit_state(2) [OF au] fenced_same [OF f [THEN conjunct1]] by simp
    show "Some [r] = None \<or> (\<exists>q. Some [r] = Some [q] \<and> q \<noteq> RoleSuperAdmin)" using assms(4) by auto
    fix y assume y: "y \<in> set (adb_Users db)" "usr_ID y = usr_ID u"
    with target_only [OF assms(1) x(1)] x(2,3) have "usr_AccessGrantedAt y = None" by simp
    then have "\<not> login_usable y" by (simp add: login_usable_def)
    with y(1) assms(2) show "usr_Roles y \<noteq> [RoleSuperAdmin]"
      unfolding one_super_def by (metis empty_iff list.set(1))
  qed
next
  case (Inl e)
  with assms(5) obtain u db2 t act det n w where
      c: "CreateUser env clk db (new_user n hash (emp_DisplayName m) w [r]) = Inr (u, db2)"
    and au: "audit db2 (prn_InternalID p) t act det (clk_Now clk) = Inr db'"
    by (auto simp: provision_rows_def Let_def split: if_splits sum.splits prod.splits)
  note f = CreateUser_added [OF c assms(1)]
  have "adb_Control db2 = adb_Control db" using f by (auto simp: added_def)
  with f audit_state [OF au] assms(4) show ?thesis
    by (intro one_super_added [OF assms(2,3) f [THEN conjunct1]]) (auto simp: new_user_def)
qed

lemma provision_one_super:
  assumes "rows_ok env db" "one_super db" "pvi_Role input = RoleAdmin \<or> pvi_Role input = RoleViewer"
    "provision_body env clk p input m hash db = Inr (v, db')"
  shows "one_super db'"
proof -
  from assms(4) obtain a ra b db1 act d where
      a: "currentGovernanceActor db p = Inr (a, ra)"
    and r: "ReserveGovernanceMutation db (prn_InternalID p) (pvi_IdempotencyKey input) act (prn_InternalID p) d = Inr (b, db1)"
    and rest: "if b then provision_rows env clk p (pvi_Role input) m hash db1 = Inr (v, db') else db' = db1"
    unfolding provision_body_def by (auto split: sum.splits if_splits prod.splits)
  have ok: "rows_ok env db1" "one_super db1" "adb_Users db1 \<noteq> []"
    using reserved_state [OF r] assms(1,2) acting_not_empty [OF current_actor [OF a assms(1)]] by simp_all
  from rest ok provision_rows_one_super [OF ok assms(3)] show ?thesis by (cases b) auto
qed

lemma apply_changes_one_super:
  assumes "rows_ok env locked" and "one_super locked"
  shows "apply_changes env now p ra locked cs db = Inr db' \<Longrightarrow> rows_ok env db \<Longrightarrow> one_super db \<Longrightarrow>
    \<forall>u \<in> set (adb_Users db). \<exists>v \<in> set (adb_Users locked). usr_ID v = usr_ID u \<and> usr_Roles v = usr_Roles u \<Longrightarrow>
    one_super db'"
proof (induction cs arbitrary: db)
  case Nil
  then show ?case by simp
next
  case (Cons c cs)
  from Cons.prems(1) obtain u r where u: "UserByID locked (lac_AdminUserID c) = Inr u"
      "SingleRole (usr_Roles u) = Inr r"
    and rest: "apply_changes env now p ra locked cs db = Inr db' \<or> (canManageTarget ra r \<and>
      (\<exists>db1 db2 act det. SetLoginEnabled env db (usr_ID u) (lac_LoginEnabled c) now = Inr db1 \<and>
        audit db1 (prn_InternalID p) (usr_ID u) act det now = Inr db2 \<and>
        apply_changes env now p ra locked cs db2 = Inr db'))"
    by (auto split: sum.splits if_splits) blast+
  from rest show ?case
  proof (elim disjE exE conjE)
    assume "apply_changes env now p ra locked cs db = Inr db'"
    then show ?case using Cons.prems(2-4) by (rule Cons.IH)
  next
    fix db1 db2 act det
    assume m: "canManageTarget ra r" and 1: "SetLoginEnabled env db (usr_ID u) (lac_LoginEnabled c) now = Inr db1"
      and 2: "audit db1 (prn_InternalID p) (usr_ID u) act det now = Inr db2"
      and 3: "apply_changes env now p ra locked cs db2 = Inr db'"
    note f = SetLoginEnabled_fenced [OF 1 Cons.prems(2)]
    have rc: "row_change env db (usr_ID u) db2" by (rule row_change_audit [OF f _ 2]) simp
    have roles: "usr_Roles u = [r]" using single_role [OF assms(1) _ u(2)] UserByID_ok [OF u(1)] by blast
    have "one_super db2"
    proof (rule one_super_row_change [OF Cons.prems(3) rc])
      fix x assume "x \<in> set (adb_Users db)" "usr_ID x = usr_ID u"
      with Cons.prems(4) obtain v where "v \<in> set (adb_Users locked)" "usr_ID v = usr_ID u"
        "usr_Roles v = usr_Roles x" by metis
      moreover have "v = u" using target_only [OF assms(1)] UserByID_ok [OF u(1)] calculation by blast
      ultimately show "usr_Roles x \<noteq> [RoleSuperAdmin]"
        using roles super_cannot_be_managed [OF m] by (metis list.inject)
    qed
    moreover have "\<exists>v \<in> set (adb_Users locked). usr_ID v = usr_ID x \<and> usr_Roles v = usr_Roles x"
      if "x \<in> set (adb_Users db2)" for x
    proof -
      from f obtain g where g: "db1 = upd (usr_ID u) g db" "keeps_id g" "\<And>y. usr_Roles (g y) = usr_Roles y"
        by (auto simp: fenced_def)
      from that obtain y where "y \<in> set (adb_Users db)" "usr_ID x = usr_ID y" "usr_Roles x = usr_Roles y"
        using g by (auto simp: audit_state(1) [OF 2] upd_users keeps_id_def split: if_splits)
      with Cons.prems(4) show ?thesis by metis
    qed
    ultimately show ?case using Cons.IH [OF 3 row_change_rows [OF rc]] by blast
  qed
qed

lemma login_access_one_super:
  assumes "rows_ok env db" "one_super db" "login_access_body env clk p key cs db = Inr (us, db')"
  shows "one_super db'"
proof -
  from assms(3) obtain a ra b db1 d where a: "currentGovernanceActor db p = Inr (a, ra)"
    and r: "ReserveLoginAccessRequest db (prn_InternalID p) key d = Inr (b, db1)"
    and rest: "db' = db1 \<or> (\<exists>ms. apply_changes env (clk_Now clk) p ra db1 ms db1 = Inr db')"
    unfolding login_access_body_def by (auto split: sum.splits if_splits prod.splits) blast+
  have "adb_Users db1 = adb_Users db \<and> adb_Control db1 = adb_Control db \<and> adb_NextUser db1 = adb_NextUser db"
    using r by (auto simp: ReserveLoginAccessRequest_def split: if_splits option.splits prod.splits)
  with assms(1,2) have ok: "rows_ok env db1" "one_super db1" by (simp_all add: rows_ok_def one_super_def)
  from rest show ?thesis using apply_changes_one_super [OF ok _ ok] ok by blast
qed

lemma rows_unique_names:
  assumes "rows_ok env db" "u \<in> set (adb_Users db)" "v \<in> set (adb_Users db)"
    "usr_Username u = usr_Username v \<or> usr_WeComUserID u = usr_WeComUserID v \<and> usr_WeComUserID u \<noteq> []"
  shows "u = v"
proof -
  let ?w = "filter (\<lambda>u. usr_WeComUserID u \<noteq> []) (adb_Users db)"
  have "distinct (map usr_Username (adb_Users db))" using assms(1) by (simp add: rows_ok_def users_unique_def)
  moreover have "distinct (map usr_WeComUserID ?w)"
    using assms(1) by (simp add: rows_ok_def users_unique_def filter_map comp_def)
  ultimately show ?thesis using assms(2-4) by (auto simp: distinct_map inj_on_def)
qed

lemma governed_asserts:
  assumes "rows_ok env db" "one_super db" "spares env apply"
  shows "post (\<lambda>p. access_assert (snd p)) (governance_target db actor target key action digest apply)"
proof (rule postI)
  fix p assume p: "governance_target db actor target key action digest apply = Inr p"
  then have "governance_target db actor target key action digest apply = Inr ((), snd p)"
    by (cases p) simp
  from governance_target_one_super [OF assms this] show "access_assert (snd p)" using rows_assert by blast
qed

text \<open>C21. Exactly one super administrator: in every state that bootstrap, local commands, governed
  commands, logins, directory refreshes and logouts reach, either there are no accounts or exactly
  one account has the super-administrator role, it is the one the control row names and it can
  log in; every account has exactly one role, user names and bound WeCom identities are unique, and
  a login switch is on only for a granted account.  The governed commands keep this by their own
  rules: what their transactions write already satisfies the assertion of the deferred triggers, so
  their commits never fail on it.\<close>

theorem single_super_administrator:
  assumes "access_reachable env db"
  shows "one_super db \<and>
    (\<forall>u \<in> set (adb_Users db). \<forall>v \<in> set (adb_Users db).
       usr_Username u = usr_Username v \<or> usr_WeComUserID u = usr_WeComUserID v \<and> usr_WeComUserID u \<noteq> []
       \<longrightarrow> u = v) \<and>
    (\<forall>u \<in> set (adb_Users db). usr_LoginEnabled u \<longrightarrow> usr_AccessGrantedAt u \<noteq> None) \<and>
    post (\<lambda>p. access_assert (snd p)) (transfer_body env clk actor ti db) \<and>
    post (\<lambda>p. access_assert (snd p)) (login_access_body env clk actor key changes db) \<and>
    post (\<lambda>p. access_assert (snd p)) (governance_target db actor i key act d (apply_login env now actor b)) \<and>
    post (\<lambda>p. access_assert (snd p)) (governance_target db actor i key act d (apply_bind env now actor w)) \<and>
    post (\<lambda>p. access_assert (snd p)) (governance_target db actor i key act d (apply_password env now actor h)) \<and>
    (r \<in> {RoleAdmin, RoleViewer} \<longrightarrow>
       post (\<lambda>p. access_assert (snd p)) (governance_target db actor i key act d (apply_role env now actor r))) \<and>
    (pvi_Role pv \<in> {RoleAdmin, RoleViewer} \<longrightarrow>
       post (\<lambda>p. access_assert (snd p)) (provision_body env clk actor pv m h db))"
proof (intro conjI)
  have inv: "access_inv env db" by (rule reachable_access_inv [OF assms])
  then have ok: "rows_ok env db" by (simp add: access_inv_def good_def)
  show one: "one_super db" by (rule inv_one_super [OF inv])
  have good: "good env db db" using inv by (simp add: access_inv_def)
  show "\<forall>u \<in> set (adb_Users db). \<forall>v \<in> set (adb_Users db).
       usr_Username u = usr_Username v \<or> usr_WeComUserID u = usr_WeComUserID v \<and> usr_WeComUserID u \<noteq> []
       \<longrightarrow> u = v" using rows_unique_names [OF ok] by blast
  show "\<forall>u \<in> set (adb_Users db). usr_LoginEnabled u \<longrightarrow> usr_AccessGrantedAt u \<noteq> None"
    using ok by (auto simp: rows_ok_def user_checks_def)
  show "post (\<lambda>p. access_assert (snd p)) (transfer_body env clk actor ti db)"
    using postD [OF wp_transfer_body [OF good]] transfer_one_super [OF ok one]
    by (intro postI) (metis good_rows rows_assert snd_conv surj_pair unit.exhaust)
  show "post (\<lambda>p. access_assert (snd p)) (login_access_body env clk actor key changes db)"
    using postD [OF wp_login_access_body [OF good]] login_access_one_super [OF ok one]
    by (intro postI) (metis good_rows rows_assert snd_conv surj_pair)
  show "pvi_Role pv \<in> {RoleAdmin, RoleViewer} \<longrightarrow>
       post (\<lambda>p. access_assert (snd p)) (provision_body env clk actor pv m h db)"
    using postD [OF wp_provision_body [OF good]] provision_one_super [OF ok one]
    by (intro impI postI) (metis good_rows rows_assert snd_conv surj_pair insert_iff empty_iff)
  show "r \<in> {RoleAdmin, RoleViewer} \<longrightarrow>
       post (\<lambda>p. access_assert (snd p)) (governance_target db actor i key act d (apply_role env now actor r))"
    by (intro impI governed_asserts [OF ok one] spares_applies) simp
  show "post (\<lambda>p. access_assert (snd p)) (governance_target db actor i key act d (apply_login env now actor b))"
    "post (\<lambda>p. access_assert (snd p)) (governance_target db actor i key act d (apply_bind env now actor w))"
    "post (\<lambda>p. access_assert (snd p)) (governance_target db actor i key act d (apply_password env now actor h))"
    by (intro governed_asserts [OF ok one] spares_applies)+
qed

subsection \<open>A concrete history\<close>

definition sample_access_env :: access_env where
  "sample_access_env = \<lparr>env_PgLower = (\<lambda>s. s), env_LowerTables = (\<lambda>s. s),
     env_Hash = (\<lambda>salt pw. Inr (''$argon2id$'' @ pw)), env_Verify = (\<lambda>pw h. h = ''$argon2id$'' @ pw),
     env_SessionTTL = 8 * hour, env_Window = 15 * minute, env_MaxFailures = 2,
     env_BlockFor = 15 * minute, env_GovernanceKey = ''key'', env_CorpScope = ''corp''\<rparr>"

definition sample_clock :: access_clock where
  "sample_clock = \<lparr>clk_Now = 1000000, clk_Db = 1000000\<rparr>"

definition sample_bootstrap :: access_call where
  "sample_bootstrap = CallBootstrap None
     \<lparr>bsi_Username = ''root'', bsi_Password = ''secret'', bsi_DisplayName = ''Root''\<rparr>"

definition sample_root :: access_user where
  "sample_root = (new_user ''root'' ''$argon2id$secret'' ''Root'' [] [RoleSuperAdmin])
     \<lparr>usr_ID := 1, usr_LoginEnabled := True, usr_AccessGrantedAt := Some 1000000, usr_SessionVersion := 1,
      usr_CreatedAt := 1000000, usr_UpdatedAt := 1000000\<rparr>"

lemma sample_bootstrapped:
  "adb_Users (run (exec sample_access_env) empty_access [(sample_clock, sample_bootstrap)]) = [sample_root]"
  by code_simp

definition sample_db :: access_db where
  "sample_db = run (exec sample_access_env) empty_access [(sample_clock, sample_bootstrap)]"

definition sample_actor :: principal where
  "sample_actor = \<lparr>prn_Kind = KindAdmin, prn_InternalID = 1, prn_Roles = [RoleSuperAdmin],
     prn_SessionVersion = 1\<rparr>"

lemma sample_reachable: "access_reachable sample_access_env sample_db"
  unfolding access_reachable_def sample_db_def by blast

theorem single_super_administrator_witness:
  "adb_Users sample_db = [sample_root] \<and> one_super sample_db \<and>
   post (\<lambda>p. access_assert (snd p)) (governance_target sample_db sample_actor 1 ''k'' ''set_role'' []
     (apply_role sample_access_env 5 sample_actor RoleAdmin))"
  using single_super_administrator [OF sample_reachable, of sample_clock sample_actor
      "\<lparr>tri_TargetID = 2, tri_IdempotencyKey = ''k''\<rparr>" "''k''" "[]" 1 "''set_role''" "[]" 5 True "[]" "[]"
      RoleAdmin "\<lparr>pvi_WeComUserID = [], pvi_Role = RoleAdmin, pvi_IdempotencyKey = []\<rparr>"
      "\<lparr>emp_UserID = [], emp_DisplayName = []\<rparr>"]
    sample_bootstrapped unfolding sample_db_def by blast

end
