(* ===== verification/AccessSession.thy ===== *)
theory AccessSession
  imports AccessProps
begin

text \<open>
  What a session is worth: which token authenticates as whom, what a login proves, and why a
  session dies with the password, the identity binding, the roles, the switches of its user or
  its own logout.
\<close>

subsection \<open>Sessions\<close>

lemma issued_token:
  "IssueOpaque random ''as_'' = Inr (token, d) \<Longrightarrow> d = Digest token \<and> trim_space token = token \<and> token \<noteq> []"
proof -
  assume "IssueOpaque random ''as_'' = Inr (token, d)"
  then obtain bs where t: "token = ''as_'' @ base64_url bs" and d: "d = Digest token"
    by (auto simp: IssueOpaque_def Let_def split: option.splits)
  have "list_all printable token" using base64_url_printable by (simp add: t) (simp add: printable_def)
  then have "printable (hd token)" "printable (last token)" by (simp_all add: t list_all_iff)
  with d t show ?thesis by (simp add: trim_space_printable)
qed

lemma find_unique:
  assumes "x \<in> set xs" "P x" "\<And>y. y \<in> set xs \<Longrightarrow> P y \<Longrightarrow> y = x"
  shows "find P xs = Some x"
proof (cases "find P xs")
  case None
  with assms(1,2) show ?thesis by (simp add: find_None_iff)
next
  case (Some y)
  with find_ok [OF this] assms(3) [of y] show ?thesis by simp
qed

lemma UserByID_in: "rows_ok env db \<Longrightarrow> u \<in> set (adb_Users db) \<Longrightarrow> UserByID db (usr_ID u) = Inr u"
  using find_unique [of u "adb_Users db" "\<lambda>v. usr_ID v = usr_ID u"] target_only [of env db u]
  by (simp add: UserByID_def)

lemma session_only:
  "sessions_ok db \<Longrightarrow> s \<in> set (adb_Sessions db) \<Longrightarrow> t \<in> set (adb_Sessions db) \<Longrightarrow>
   ses_TokenDigest t = ses_TokenDigest s \<Longrightarrow> t = s"
  by (auto simp: sessions_ok_def distinct_map inj_on_def)

lemma SessionByTokenDigest_iff:
  assumes "rows_ok env db" "sessions_ok db"
  shows "SessionByTokenDigest db d = Inr (s, u) \<longleftrightarrow> s \<in> set (adb_Sessions db) \<and> u \<in> set (adb_Users db) \<and>
    ses_TokenDigest s = d \<and> usr_ID u = ses_AdminUserID s" (is "_ \<longleftrightarrow> ?r")
proof
  assume "SessionByTokenDigest db d = Inr (s, u)"
  then show ?r by (auto simp: SessionByTokenDigest_def dest: find_ok UserByID_ok split: option.splits sum.splits)
next
  assume r: ?r
  then have "find (\<lambda>s. ses_TokenDigest s = d) (adb_Sessions db) = Some s"
    using session_only [OF assms(2)] by (intro find_unique) auto
  moreover have "UserByID db (ses_AdminUserID s) = Inr u" using UserByID_in [OF assms(1), of u] r by simp
  ultimately show "SessionByTokenDigest db d = Inr (s, u)" by (simp add: SessionByTokenDigest_def)
qed

lemma Authenticate_iff:
  assumes "rows_ok env db" "sessions_ok db"
  shows "Authenticate clk token db = Inr (p, db') \<longleftrightarrow> trim_space token \<noteq> [] \<and>
    (\<exists>s \<in> set (adb_Sessions db). \<exists>u \<in> set (adb_Users db). ses_TokenDigest s = Digest token \<and>
       usr_ID u = ses_AdminUserID s \<and> session_live (clk_Now clk) s u \<and> usr_Roles u \<noteq> [] \<and>
       p = session_principal s u \<and> db' = TouchSession db (ses_ID s) (clk_Now clk))"
proof (cases "SessionByTokenDigest db (Digest token)")
  case (Inl e)
  then show ?thesis
    using SessionByTokenDigest_iff [OF assms, of "Digest token"]
    by (auto simp: Authenticate_def within_def)
next
  case (Inr q)
  then obtain s u where q: "SessionByTokenDigest db (Digest token) = Inr (s, u)" by (cases q) auto
  have touch: "within db (Inr (p, TouchSession db i now)) = Inr (p, TouchSession db i now)" for p i now
    by (simp add: within_def TouchSession_def)
  have only: "s' = s \<and> u' = u" if "s' \<in> set (adb_Sessions db)" "u' \<in> set (adb_Users db)"
    "ses_TokenDigest s' = Digest token" "usr_ID u' = ses_AdminUserID s'" for s' u'
    using SessionByTokenDigest_iff [OF assms, of "Digest token" s' u'] that q by simp
  have su: "s \<in> set (adb_Sessions db)" "u \<in> set (adb_Users db)" "ses_TokenDigest s = Digest token"
    "usr_ID u = ses_AdminUserID s" using SessionByTokenDigest_iff [OF assms] q by simp_all
  have "Authenticate clk token db = Inr (p, db') \<longleftrightarrow> trim_space token \<noteq> [] \<and>
      session_live (clk_Now clk) s u \<and> usr_Roles u \<noteq> [] \<and> p = session_principal s u \<and>
      db' = TouchSession db (ses_ID s) (clk_Now clk)"
  proof -
    have "within db (Inl e) = (Inl e :: principal access_tx)" for e by (simp add: within_def)
    then have "Authenticate clk token db =
        (if trim_space token = [] then Inl AccAuthentication
         else if \<not> session_live (clk_Now clk) s u then Inl AccAuthentication
         else if usr_Roles u = [] then Inl AccPermissionDenied
         else Inr (session_principal s u, TouchSession db (ses_ID s) (clk_Now clk)))"
      by (simp add: Authenticate_def q touch)
    then show ?thesis by (simp split: if_splits) blast
  qed
  then show ?thesis using su only by blast
qed

lemma issueSession_ok:
  assumes "issueSession env clk randoms db u a b why = Inr (Inr iss, db')" "rows_ok env db"
    "u \<in> set (adb_Users db)"
  obtains s v where "s \<in> set (adb_Sessions db')" "ses_TokenDigest s = Digest (iss_SessionToken iss)"
    "ses_AdminUserID s = usr_ID u" "ses_SessionVersion s = usr_SessionVersion u" "ses_RevokedAt s = None"
    "ses_ExpiresAt s = pg_time (iss_ExpiresAt iss)" "trim_space (iss_SessionToken iss) \<noteq> []"
    "v \<in> set (adb_Users db')" "usr_ID v = usr_ID u" "usr_SessionVersion v = usr_SessionVersion u"
    "cred v = cred u"
proof -
  let ?exp = "clk_Now clk + env_SessionTTL env"
  from assms(1) obtain token td csrf cd db1 db2 where
      t: "IssueOpaque (fst randoms) ''as_'' = Inr (token, td)"
    and 1: "CreateSession clk db td cd (usr_ID u) (usr_SessionVersion u) ?exp = Inr db1"
    and 2: "SetLastLogin env db1 (usr_ID u) (clk_Now clk) = Inr db2"
    and 3: "auditLogin db2 (Some (usr_ID u)) a b ''succeeded'' why (clk_Now clk) = Inr db'"
    and iss: "iss_SessionToken iss = token" "iss_ExpiresAt iss = ?exp"
    unfolding issueSession_def Let_def by (auto split: sum.splits prod.splits)
  note tok = issued_token [OF t]
  obtain s where s: "db1 = db\<lparr>adb_Sessions := adb_Sessions db @ [s]\<rparr>" "ses_TokenDigest s = td"
      "ses_AdminUserID s = usr_ID u" "ses_SessionVersion s = usr_SessionVersion u" "ses_RevokedAt s = None"
      "ses_ExpiresAt s = pg_time ?exp"
    using 1 by (auto simp: CreateSession_def split: if_splits)
  have ok1: "rows_ok env db1" using assms(2) by (simp add: s(1) rows_ok_def)
  obtain f where f: "db2 = upd (usr_ID u) f db1" "keeps_id f"
      "\<And>x. usr_SessionVersion (f x) = usr_SessionVersion x \<and> cred (f x) = cred x"
    using SetLastLogin_idle [OF 2 ok1] unfolding idle_def by blast
  obtain x where d: "db' = db2\<lparr>adb_LoginAudits := adb_LoginAudits db2 @ [x]\<rparr>"
    using 3 by (auto simp: auditLogin_def AppendLoginAudit_def split: if_splits)
  have "f u \<in> set (adb_Users db')" using assms(3) by (auto simp: d f(1) upd_users s(1))
  moreover have "s \<in> set (adb_Sessions db')" by (simp add: d f(1) s(1))
  ultimately show thesis using that [of s "f u"] s tok iss f(2,3) by (simp add: keeps_id_def)
qed

lemma Login_ok:
  assumes "Login env clk randoms command db = Inr (Inr iss, db')"
  obtains u db1 a b where "u \<in> set (adb_Users db)" "env_Verify env (lgc_Password command) (usr_PasswordHash u)"
    "login_usable u" "usr_Roles u \<noteq> []" "adb_Users db1 = adb_Users db" "adb_NextUser db1 = adb_NextUser db"
    "NormalizeUsername (env_LowerTables env) (login_candidate env command) = Inr (usr_Username u) \<or>
       usr_Username u = replicate 121 CHR ''x''"
    "issueSession env clk randoms db1 u a b ''local_password'' = Inr (Inr iss, db')"
proof -
  let ?c = "login_candidate env command" and ?now = "clk_Now clk"
  obtain l db0 where l: "LoginRateLimit clk db (rate_digest env command) = (l, db0)" by fastforce
  have db0: "adb_Users db0 = adb_Users db" "adb_NextUser db0 = adb_NextUser db"
    using l by (auto simp: LoginRateLimit_def Let_def split: option.splits)
  from assms have body: "Login_body env clk randoms command db = Inr (Inr iss, db')"
    by (auto simp: Login_def within_def split: sum.splits if_splits prod.splits)
  have no: "refuse d u x y out why t e \<noteq> Inr (Inr iss, db')" for d u x y out why t e
    by (auto simp: refuse_def split: sum.splits)
  define name where "name = (case NormalizeUsername (env_LowerTables env) ?c of
    Inl _ \<Rightarrow> replicate 121 CHR ''x'' | Inr n \<Rightarrow> n)"
  from body obtain u db1 where u: "UserByUsername db0 name = Inr u"
    and v: "env_Verify env (lgc_Password command) (usr_PasswordHash u)" "login_usable u" "usr_Roles u \<noteq> []"
    and 1: "SaveLoginRateLimit db0 (rate_digest env command) (cleared_limit ?now (current_limit env ?now l)) = Inr db1"
    and 2: "issueSession env clk randoms db1 u (Digest ?c) (Digest (trim_space (lgc_Remote command)))
        ''local_password'' = Inr (Inr iss, db')"
    unfolding Login_body_def Let_def l name_def [symmetric]
    by (auto simp: no split: sum.splits if_splits)
  have "adb_Users db1 = adb_Users db0" "adb_NextUser db1 = adb_NextUser db0"
    using 1 by (auto simp: SaveLoginRateLimit_def split: if_splits)
  moreover have "NormalizeUsername (env_LowerTables env) ?c = Inr (usr_Username u) \<or>
      usr_Username u = replicate 121 CHR ''x''"
    using UserByUsername_ok [OF u] by (auto simp: name_def split: sum.splits)
  ultimately show thesis
    using UserByUsername_ok [OF u] db0 by (intro that [OF _ v _ _ _ 2]) simp_all
qed

lemma rune_count_replicate: "rune_count (replicate n CHR ''x'') = n"
  by (induction n) (simp_all add: rune_count_def)

lemma Login_authenticates:
  assumes "access_inv env db" "Login env clk randoms command db = Inr (Inr iss, db')"
  obtains u where "u \<in> set (adb_Users db)" "env_Verify env (lgc_Password command) (usr_PasswordHash u)"
    "login_usable u" "NormalizeUsername (env_LowerTables env) (login_candidate env command) = Inr (usr_Username u)"
    "\<And>clk2. clk_Now clk2 < pg_time (iss_ExpiresAt iss) \<Longrightarrow>
       \<exists>db2. Authenticate clk2 (iss_SessionToken iss) db' = Inr (\<lparr>prn_Kind = KindAdmin,
         prn_InternalID = usr_ID u, prn_Roles = usr_Roles u, prn_SessionVersion = usr_SessionVersion u\<rparr>, db2)"
proof -
  have g: "good env db db" using assms(1) by (simp add: access_inv_def)
  obtain u db1 a b where u: "u \<in> set (adb_Users db)" "env_Verify env (lgc_Password command) (usr_PasswordHash u)"
      "login_usable u" "usr_Roles u \<noteq> []" and d1: "adb_Users db1 = adb_Users db" "adb_NextUser db1 = adb_NextUser db"
    and n: "NormalizeUsername (env_LowerTables env) (login_candidate env command) = Inr (usr_Username u) \<or>
       usr_Username u = replicate 121 CHR ''x''"
    and 2: "issueSession env clk randoms db1 u a b ''local_password'' = Inr (Inr iss, db')"
    by (rule Login_ok [OF assms(2)])
  have ok1: "rows_ok env db1" "u \<in> set (adb_Users db1)" using rows_frame [OF d1] good_rows [OF g] u(1) d1 by simp_all
  have "user_checks env u" using good_rows [OF g] u(1) unfolding rows_ok_def by blast
  then have "rune_count (usr_Username u) \<le> 120" by (simp add: user_checks_def)
  then have "usr_Username u \<noteq> replicate 121 CHR ''x''" using rune_count_replicate [of 121] by auto
  with n have name: "NormalizeUsername (env_LowerTables env) (login_candidate env command) = Inr (usr_Username u)" by simp
  have g': "good env db db'" using postD [OF wp_logins(1) [OF g] assms(2)] by simp
  then have ok': "rows_ok env db'" "sessions_ok db'" by (simp_all add: good_def)
  obtain s v where s: "s \<in> set (adb_Sessions db')" "ses_TokenDigest s = Digest (iss_SessionToken iss)"
    "ses_AdminUserID s = usr_ID u" "ses_SessionVersion s = usr_SessionVersion u" "ses_RevokedAt s = None"
    "ses_ExpiresAt s = pg_time (iss_ExpiresAt iss)" "trim_space (iss_SessionToken iss) \<noteq> []"
    and v: "v \<in> set (adb_Users db')" "usr_ID v = usr_ID u" "usr_SessionVersion v = usr_SessionVersion u"
    "cred v = cred u"
    by (rule issueSession_ok [OF 2 ok1])
  have "\<exists>db2. Authenticate clk2 (iss_SessionToken iss) db' = Inr (\<lparr>prn_Kind = KindAdmin,
         prn_InternalID = usr_ID u, prn_Roles = usr_Roles u, prn_SessionVersion = usr_SessionVersion u\<rparr>, db2)"
    if "clk_Now clk2 < pg_time (iss_ExpiresAt iss)" for clk2
  proof -
    have "session_live (clk_Now clk2) s v" "session_principal s v = \<lparr>prn_Kind = KindAdmin,
         prn_InternalID = usr_ID u, prn_Roles = usr_Roles u, prn_SessionVersion = usr_SessionVersion u\<rparr>"
      "usr_Roles v \<noteq> []"
      using s v u that by (auto simp: session_live_def login_usable_def cred_def before_def session_principal_def)
    then show ?thesis unfolding Authenticate_iff [OF ok'] using s v by metis
  qed
  with u name show thesis by (intro that) auto
qed

lemma session_survives:
  assumes inv: "access_inv env db" and ev: "good env db db2"
    and 1: "Authenticate clk token db = Inr (p, db1)" and 2: "Authenticate clk2 token db2 = Inr (p2, db3)"
  obtains u u2 where "u \<in> set (adb_Users db)" "u2 \<in> set (adb_Users db2)" "usr_ID u = prn_InternalID p"
    "usr_ID u2 = usr_ID u" "cred u2 = cred u" "p2 = p"
proof -
  have ok: "rows_ok env db" "sessions_ok db" using inv by (simp_all add: access_inv_def good_def)
  have ok2: "rows_ok env db2" "sessions_ok db2" "evolves db db2" using ev by (simp_all add: good_def)
  from 1 obtain s u where s: "s \<in> set (adb_Sessions db)" "ses_TokenDigest s = Digest token"
      "u \<in> set (adb_Users db)" "usr_ID u = ses_AdminUserID s" "session_live (clk_Now clk) s u" "p = session_principal s u"
    unfolding Authenticate_iff [OF ok] by blast
  from 2 obtain t v where t: "t \<in> set (adb_Sessions db2)" "ses_TokenDigest t = Digest token"
      "v \<in> set (adb_Users db2)" "usr_ID v = ses_AdminUserID t" "session_live (clk_Now clk2) t v" "p2 = session_principal t v"
    unfolding Authenticate_iff [OF ok2(1,2)] by blast
  from ok2(3) s(1) obtain s' where s': "s' \<in> set (adb_Sessions db2)" "same_session s s'" unfolding evolves_def by blast
  from ok2(3) s(3) obtain u' where u': "u' \<in> set (adb_Users db2)" "same_user u u'" unfolding evolves_def by blast
  have "t = s'" using session_only [OF ok2(2) s'(1) t(1)] s'(2) s(2) t(2) by (simp add: same_session_def)
  moreover have "v = u'" using target_only [OF ok2(1) u'(1) t(3)] u'(2) s'(2) s(4) t(4) calculation
    by (simp add: same_user_def same_session_def)
  ultimately have "usr_SessionVersion u' = usr_SessionVersion u" "ses_SessionVersion t = ses_SessionVersion s"
    using s(5) t(5) s'(2) by (simp_all add: session_live_def same_session_def)
  with u'(2) have "cred u' = cred u" "usr_ID u' = usr_ID u" by (simp_all add: same_user_def)
  then show thesis
    using that [OF s(3) u'(1)] s(6) t(6) \<open>v = u'\<close> \<open>ses_SessionVersion t = ses_SessionVersion s\<close>
    by (simp add: session_principal_def cred_def)
qed

lemma revoked_session:
  assumes "s \<in> set (adb_Sessions db)" "ses_TokenDigest s = d"
  shows "\<exists>x \<in> set (adb_Sessions (RevokeSession db d why now)). ses_TokenDigest x = d \<and> ses_RevokedAt x \<noteq> None"
proof -
  have "(\<lambda>s. if ses_TokenDigest s = d
        then s\<lparr>ses_RevokedAt := Some (case ses_RevokedAt s of None \<Rightarrow> pg_time now | Some t \<Rightarrow> t),
               ses_RevokedReason := (if ses_RevokedReason s = [] then why else ses_RevokedReason s)\<rparr>
        else s) s \<in> set (adb_Sessions (RevokeSession db d why now))"
    unfolding RevokeSession_def using assms(1) by simp
  then show ?thesis by (rule bexI [rotated]) (simp add: assms(2))
qed

lemma logged_out:
  assumes inv: "access_inv env db" and 1: "Authenticate clk token db = Inr (p, db1)"
    and out: "Logout clk' token cookie request seen db = Inr ((), dbx)" and ev: "good env dbx db2"
  shows "Authenticate clk2 token db2 = Inl AccAuthentication"
proof -
  have ok: "rows_ok env db" "sessions_ok db" using inv by (simp_all add: access_inv_def good_def)
  have ok2: "rows_ok env db2" "sessions_ok db2" "evolves dbx db2" using ev by (simp_all add: good_def)
  from 1 obtain s where s: "s \<in> set (adb_Sessions db)" "ses_TokenDigest s = Digest token"
    unfolding Authenticate_iff [OF ok] by blast
  have "dbx = RevokeSession db (Digest token) ''logout'' (clk_Now clk')"
    using out by (auto simp: Logout_def within_def split: sum.splits if_splits)
  with s revoked_session obtain x where x: "x \<in> set (adb_Sessions dbx)" "ses_TokenDigest x = Digest token"
      "ses_RevokedAt x \<noteq> None" by blast
  from ok2(3) x(1) obtain y where y: "y \<in> set (adb_Sessions db2)" "same_session x y" unfolding evolves_def by blast
  then have d: "ses_TokenDigest y = Digest token" "ses_RevokedAt y \<noteq> None" using x by (simp_all add: same_session_def)
  from ok2(2) y(1) obtain u where u: "u \<in> set (adb_Users db2)" "usr_ID u = ses_AdminUserID y"
    unfolding sessions_ok_def by blast
  have "SessionByTokenDigest db2 (Digest token) = Inr (y, u)"
    using y(1) d(1) u by (simp add: SessionByTokenDigest_iff [OF ok2(1,2)])
  with d(2) show ?thesis by (simp add: Authenticate_def within_def session_live_def)
qed

text \<open>C22. A session is worth what its user was when it was issued.  In every reachable state: a
  successful local login proves the stored password of a granted, active, enabled account of that
  user name, and its token authenticates as that account until the stored expiry; a token that
  authenticates names a usable account with a role; if the same token authenticates again
  in any later state, it yields the same principal, and password, identity binding, activity, login
  switch, grant and role of its user are what they were; and once the session has been logged out
  its token is refused for ever.\<close>

theorem session_authority:
  assumes "access_reachable env db"
  shows "(\<forall>clk randoms command iss db'. Login env clk randoms command db = Inr (Inr iss, db') \<longrightarrow>
      (\<exists>u \<in> set (adb_Users db). login_usable u \<and>
         env_Verify env (lgc_Password command) (usr_PasswordHash u) \<and>
         NormalizeUsername (env_LowerTables env) (login_candidate env command) = Inr (usr_Username u) \<and>
         (\<forall>clk2. clk_Now clk2 < pg_time (iss_ExpiresAt iss) \<longrightarrow>
           (\<exists>db2. Authenticate clk2 (iss_SessionToken iss) db' = Inr (\<lparr>prn_Kind = KindAdmin,
              prn_InternalID = usr_ID u, prn_Roles = usr_Roles u,
              prn_SessionVersion = usr_SessionVersion u\<rparr>, db2))))) \<and>
    (\<forall>clk token p db1. Authenticate clk token db = Inr (p, db1) \<longrightarrow>
      (\<exists>u \<in> set (adb_Users db). usr_ID u = prn_InternalID p \<and> usr_Roles u = prn_Roles p \<and>
         prn_Roles p \<noteq> [] \<and> login_usable u) \<and>
      (\<forall>calls clk2 p2 db3. Authenticate clk2 token (run (exec env) db calls) = Inr (p2, db3) \<longrightarrow> p2 = p \<and>
         (\<exists>u \<in> set (adb_Users db). \<exists>u2 \<in> set (adb_Users (run (exec env) db calls)).
            usr_ID u = prn_InternalID p \<and> usr_ID u2 = usr_ID u \<and> cred u2 = cred u)) \<and>
      (\<forall>clk' cookie request seen dbx calls clk2. Logout clk' token cookie request seen db = Inr ((), dbx) \<longrightarrow>
         Authenticate clk2 token (run (exec env) dbx calls) = Inl AccAuthentication))"
proof (intro conjI allI impI)
  note inv = reachable_access_inv [OF assms]
  then have ok: "rows_ok env db" "sessions_ok db" by (simp_all add: access_inv_def good_def)
  fix clk token p db1 assume 1: "Authenticate clk token db = Inr (p, db1)"
  then show "\<exists>u \<in> set (adb_Users db). usr_ID u = prn_InternalID p \<and> usr_Roles u = prn_Roles p \<and>
         prn_Roles p \<noteq> [] \<and> login_usable u"
    unfolding Authenticate_iff [OF ok] by (auto simp: session_live_def session_principal_def)
  fix calls clk2
  {
    fix p2 db3 assume "Authenticate clk2 token (run (exec env) db calls) = Inr (p2, db3)"
    from session_survives [OF inv run_good [OF inv] 1 this]
    show "p2 = p" "\<exists>u \<in> set (adb_Users db). \<exists>u2 \<in> set (adb_Users (run (exec env) db calls)).
            usr_ID u = prn_InternalID p \<and> usr_ID u2 = usr_ID u \<and> cred u2 = cred u" by blast+
  next
    fix clk' cookie request seen dbx assume out: "Logout clk' token cookie request seen db = Inr ((), dbx)"
    then have "exec env db (clk', CallLogout token cookie request seen) = Inr dbx" by (simp add: tables_of_def)
    from logged_out [OF inv 1 out run_good [OF exec_inv [OF inv this]]]
    show "Authenticate clk2 token (run (exec env) dbx calls) = Inl AccAuthentication" .
  }
next
  fix clk randoms command iss db' assume "Login env clk randoms command db = Inr (Inr iss, db')"
  from Login_authenticates [OF reachable_access_inv [OF assms] this]
  show "\<exists>u \<in> set (adb_Users db). login_usable u \<and>
         env_Verify env (lgc_Password command) (usr_PasswordHash u) \<and>
         NormalizeUsername (env_LowerTables env) (login_candidate env command) = Inr (usr_Username u) \<and>
         (\<forall>clk2. clk_Now clk2 < pg_time (iss_ExpiresAt iss) \<longrightarrow>
           (\<exists>db2. Authenticate clk2 (iss_SessionToken iss) db' = Inr (\<lparr>prn_Kind = KindAdmin,
              prn_InternalID = usr_ID u, prn_Roles = usr_Roles u,
              prn_SessionVersion = usr_SessionVersion u\<rparr>, db2)))" by metis
qed

definition sample_login :: login_command where
  "sample_login = \<lparr>lgc_Username = ''root'', lgc_Password = ''secret'', lgc_Remote = []\<rparr>"

lemma sample_login_accepted:
  "\<exists>iss db'. Login sample_access_env sample_clock (Some [2], Some [3]) sample_login sample_db = Inr (Inr iss, db') \<and>
     pg_time (iss_ExpiresAt iss) = 1000000 + 8 * hour"
proof -
  have c: "login_candidate sample_access_env sample_login = ''root''" by code_simp
  have n: "NormalizeUsername (env_LowerTables sample_access_env) ''root'' = Inr ''root''" by code_simp
  have e: "adb_Sessions sample_db = []" unfolding sample_db_def by code_simp
  have k: "adb_Control sample_db = Some \<lparr>sac_AdminUserID = 1, sac_Version = 1, sac_UpdatedAt = pg_time 1000000\<rparr>" unfolding sample_db_def by code_simp
  have l: "adb_Limits sample_db d = None" for d unfolding sample_db_def by code_simp
  have u: "UserByUsername (sample_db\<lparr>adb_Limits := m\<rparr>) ''root'' = Inr sample_root" for m
    unfolding UserByUsername_def by (simp add: sample_bootstrapped [folded sample_db_def]) code_simp
  have v: "env_Verify sample_access_env (lgc_Password sample_login) (usr_PasswordHash sample_root)"
     "login_usable sample_root" "usr_Roles sample_root = [RoleSuperAdmin]" "usr_ID sample_root = 1" "usr_SessionVersion sample_root = 1" by code_simp+
  have t: "\<exists>token. IssueOpaque (Some bs) pre = Inr (token, Digest token)" for bs pre by (simp add: IssueOpaque_def Let_def)
  then obtain t1 t2 where pq: "IssueOpaque (Some [2]) ''as_'' = Inr (t1, Digest t1)" "IssueOpaque (Some [3]) ''ac_'' = Inr (t2, Digest t2)" by blast
  let ?r = "sample_root\<lparr>usr_LastLoginAt := Some 1000000, usr_UpdatedAt := 1000000\<rparr>"
  have w: "user_checks sample_access_env ?r" "users_unique [?r]" "length (super_rows [?r]) = 1"
    "usr_LoginEnabled sample_root" "usr_Active sample_root" "usr_AccessGrantedAt sample_root = Some 1000000"
    by code_simp+
  have y: "pg_time 1000000 = 1000000" "pg_time 28800001000000 = 28800001000000" "in32 0" by code_simp+
  have x: "env_SessionTTL sample_access_env = 8 * hour"  "env_Window sample_access_env = 15 * minute"  "env_MaxFailures sample_access_env = 2" by code_simp+
  show ?thesis
    by (simp add: Login_def Login_body_def c n e l v u k x LoginRateLimit_def Let_def current_limit_def time_sub_def throttled_def sample_bootstrapped [folded sample_db_def] pq issueSession_def CreateSession_def SetLastLogin_def ensureUserExists_def update_user_def auditLogin_def AppendLoginAudit_def SaveLoginRateLimit_def cleared_limit_def within_def access_assert_def sample_clock_def w y second_def minute_def hour_def)
qed

theorem session_authority_witness:
  "\<exists>iss db' p db2. Login sample_access_env sample_clock (Some [2], Some [3]) sample_login sample_db = Inr (Inr iss, db') \<and>
     Authenticate sample_clock (iss_SessionToken iss) db' = Inr (p, db2) \<and>
     prn_InternalID p = 1 \<and> prn_Roles p = [RoleSuperAdmin] \<and>
     (\<forall>clk' cookie request seen dbx clk2. Logout clk' (iss_SessionToken iss) cookie request seen db' = Inr ((), dbx) \<longrightarrow>
        Authenticate clk2 (iss_SessionToken iss) dbx = Inl AccAuthentication)"
proof -
  obtain iss db' where l: "Login sample_access_env sample_clock (Some [2], Some [3]) sample_login sample_db = Inr (Inr iss, db')"
    "pg_time (iss_ExpiresAt iss) = 1000000 + 8 * hour" using sample_login_accepted by blast
  have now: "clk_Now sample_clock < pg_time (iss_ExpiresAt iss)"
    by (simp add: l(2) sample_clock_def second_def minute_def hour_def)
  note first = session_authority [OF sample_reachable, THEN conjunct1, rule_format, OF l(1)]
  from first obtain u where u: "u \<in> set (adb_Users sample_db)"
    and 1: "\<forall>clk2. clk_Now clk2 < pg_time (iss_ExpiresAt iss) \<longrightarrow>
      (\<exists>db2. Authenticate clk2 (iss_SessionToken iss) db' = Inr (\<lparr>prn_Kind = KindAdmin,
         prn_InternalID = usr_ID u, prn_Roles = usr_Roles u, prn_SessionVersion = usr_SessionVersion u\<rparr>, db2))"
    by (elim bexE conjE) (rule that)
  from mp [OF spec [OF 1] now] obtain db2 where a: "Authenticate sample_clock (iss_SessionToken iss) db' =
      Inr (\<lparr>prn_Kind = KindAdmin, prn_InternalID = usr_ID u, prn_Roles = usr_Roles u,
       prn_SessionVersion = usr_SessionVersion u\<rparr>, db2)" by (elim exE) (rule that)
  have "u = sample_root" using u sample_bootstrapped [folded sample_db_def] by simp
  then have r: "usr_ID u = 1" "usr_Roles u = [RoleSuperAdmin]" by (simp_all add: sample_root_def new_user_def)
  have "exec sample_access_env sample_db (sample_clock, CallLogin (Some [2], Some [3]) sample_login) = Inr db'"
    using l(1) by (simp add: tables_of_def)
  then have "run (exec sample_access_env) sample_db
      [(sample_clock, CallLogin (Some [2], Some [3]) sample_login)] = db'" by simp
  then have "access_reachable sample_access_env db'" using reachable_run [OF sample_reachable] by metis
  from session_authority [OF this, THEN conjunct2, rule_format, OF a, THEN conjunct2, THEN conjunct2, rule_format]
  have "Authenticate clk2 (iss_SessionToken iss) dbx = Inl AccAuthentication"
    if "Logout clk' (iss_SessionToken iss) cookie request seen db' = Inr ((), dbx)"
    for clk' cookie request seen dbx clk2
    using that by (metis run.simps(1))
  then have "\<forall>clk' cookie request seen dbx clk2. Logout clk' (iss_SessionToken iss) cookie request seen db' = Inr ((), dbx) \<longrightarrow>
        Authenticate clk2 (iss_SessionToken iss) dbx = Inl AccAuthentication" by blast
  with r show ?thesis by (intro exI conjI) (rule l(1), rule a, simp_all)
qed

end
