(* ===== verification/AccessLogin.thy ===== *)
theory AccessLogin
  imports AccessSession
begin

text \<open>
  What the durable login limit gives: how many passwords can be tried on one identifier from one
  remote address in a window, that a blocked attempt never looks at the password, and when a
  block ends.
\<close>

type_synonym attempt = "access_clock \<times> token_randoms \<times> login_command"

definition attempt_key :: "access_env \<Rightarrow> attempt \<Rightarrow> token_digest" where
  "attempt_key env a = rate_digest env (snd (snd a))"

definition attempt_time :: "attempt \<Rightarrow> go_time" where
  "attempt_time a = clk_Now (fst a)"

definition attempt_login ::
  "access_env \<Rightarrow> access_db \<Rightarrow> attempt \<Rightarrow> (access_error, issued_session) result access_tx" where
  "attempt_login env db a = Login env (fst a) (fst (snd a)) (snd (snd a)) db"

definition attempt_limit :: "access_env \<Rightarrow> access_db \<Rightarrow> attempt \<Rightarrow> login_limit" where
  "attempt_limit env db a =
     current_limit env (attempt_time a) (fst (LoginRateLimit (fst a) db (attempt_key env a)))"

definition blocked :: "access_env \<Rightarrow> access_db \<Rightarrow> attempt \<Rightarrow> bool" where
  "blocked env db a \<longleftrightarrow> throttled (attempt_time a) (attempt_limit env db a)"

definition attempt_step :: "access_env \<Rightarrow> access_db \<Rightarrow> attempt \<Rightarrow> (access_error, access_db) result" where
  "attempt_step env db a = tables_of (attempt_login env db a)"

text \<open>Each attempt with the tables it found.\<close>

fun login_trace :: "access_env \<Rightarrow> access_db \<Rightarrow> attempt list \<Rightarrow> (access_db \<times> attempt) list" where
  "login_trace env db [] = []"
| "login_trace env db (a # as) = (db, a) # login_trace env (commit (attempt_step env) db a) as"

text \<open>A guess was tested when the attempt was not blocked and its password was refused.\<close>

definition tested :: "access_env \<Rightarrow> token_digest \<Rightarrow> access_db \<times> attempt \<Rightarrow> bool" where
  "tested env key p \<longleftrightarrow> attempt_key env (snd p) = key \<and> \<not> blocked env (fst p) (snd p) \<and>
     (\<exists>db'. attempt_login env (fst p) (snd p) = Inr (Inl AccInvalidCredentials, db'))"

definition accepted :: "access_env \<Rightarrow> token_digest \<Rightarrow> access_db \<times> attempt \<Rightarrow> bool" where
  "accepted env key p \<longleftrightarrow> attempt_key env (snd p) = key \<and>
     (\<exists>iss db'. attempt_login env (fst p) (snd p) = Inr (Inr iss, db'))"

definition pg_limit :: "login_limit \<Rightarrow> login_limit" where
  "pg_limit l = \<lparr>lim_WindowStartedAt = pg_time (lim_WindowStartedAt l), lim_FailureCount = lim_FailureCount l,
     lim_BlockedUntil = map_option pg_time (lim_BlockedUntil l), lim_UpdatedAt = pg_time (lim_UpdatedAt l)\<rparr>"

subsection \<open>One attempt\<close>

lemma refuse_ok:
  "refuse db u x y out why t e = Inr (ans, db') \<Longrightarrow>
    ans = Inl e \<and> (\<exists>a. db' = db\<lparr>adb_LoginAudits := adb_LoginAudits db @ [a]\<rparr>)"
  by (auto simp: refuse_def auditLogin_def AppendLoginAudit_def split: sum.splits if_splits)

lemma LoginRateLimit_row:
  "LoginRateLimit clk db key = (l, db0) \<Longrightarrow>
    adb_Limits db0 = (adb_Limits db)(key \<mapsto> l) \<and> adb_Users db0 = adb_Users db \<and> adb_Sessions db0 = adb_Sessions db"
  by (auto simp: LoginRateLimit_def Let_def split: option.splits)

lemma SaveLoginRateLimit_row:
  "SaveLoginRateLimit db key l = Inr db' \<Longrightarrow>
    adb_Limits db' = (adb_Limits db)(key \<mapsto> pg_limit l) \<and> 0 \<le> lim_FailureCount l \<and> in32 (lim_FailureCount l)"
  by (auto simp: SaveLoginRateLimit_def pg_limit_def split: if_splits)

lemma issueSession_limits:
  "issueSession env clk randoms db u a b why = Inr (ans, db') \<Longrightarrow>
    adb_Limits db' = adb_Limits db \<and> (\<exists>iss. ans = Inr iss)"
  unfolding issueSession_def Let_def CreateSession_def SetLastLogin_def ensureUserExists_def update_user_def
    auditLogin_def AppendLoginAudit_def
  by (auto split: sum.splits prod.splits if_splits)

lemma Login_outcomes:
  assumes "Login_body env clk randoms command db = Inr (ans, db')"
    and l: "LoginRateLimit clk db (rate_digest env command) = (l0, db0)" "l = current_limit env (clk_Now clk) l0"
  shows "throttled (clk_Now clk) l \<and>
       ans = Inl (if is_ok (NormalizeUsername (env_LowerTables env) (login_candidate env command))
                  then AccRateLimited else AccInvalidCredentials) \<and>
       adb_Limits db' = adb_Limits db0 \<and> adb_Users db' = adb_Users db0 \<and> adb_Sessions db' = adb_Sessions db0 \<or>
     \<not> throttled (clk_Now clk) l \<and>
       (ans = Inl AccInvalidCredentials \<and>
          (\<exists>db1. SaveLoginRateLimit db0 (rate_digest env command) (failed_limit env (clk_Now clk) l) = Inr db1 \<and>
            adb_Limits db' = adb_Limits db1) \<or>
        ans = Inl AccPermissionDenied \<and> adb_Limits db' = adb_Limits db0 \<or>
        is_ok ans \<and>
          (\<exists>db1. SaveLoginRateLimit db0 (rate_digest env command) (cleared_limit (clk_Now clk) l) = Inr db1 \<and>
            adb_Limits db' = adb_Limits db1))"
proof (cases "throttled (clk_Now clk) l")
  case True
  with assms show ?thesis by (auto simp: Login_body_def Let_def dest!: refuse_ok)
next
  case False
  with assms(1) show ?thesis
    unfolding Login_body_def Let_def l(1) prod.case l(2) [symmetric]
    by (auto split: sum.splits if_splits dest!: refuse_ok issueSession_limits)
qed

text \<open>What an attempt leaves.\<close>

definition attempt_row :: "access_env \<Rightarrow> access_db \<Rightarrow> attempt \<Rightarrow> login_limit" where
  "attempt_row env db a = fst (LoginRateLimit (fst a) db (attempt_key env a))"

lemma attempt_cases:
  assumes "attempt_login env db a = Inr (ans, db')"
  shows "blocked env db a \<and> ans = Inl (if is_ok (NormalizeUsername (env_LowerTables env)
         (login_candidate env (snd (snd a)))) then AccRateLimited else AccInvalidCredentials) \<and>
       adb_Limits db' = (adb_Limits db)(attempt_key env a \<mapsto> attempt_row env db a) \<and>
       adb_Users db' = adb_Users db \<and> adb_Sessions db' = adb_Sessions db \<or>
     \<not> blocked env db a \<and>
       (ans = Inl AccInvalidCredentials \<and> in32 (lim_FailureCount (failed_limit env (attempt_time a) (attempt_limit env db a))) \<and>
          adb_Limits db' = (adb_Limits db)(attempt_key env a \<mapsto>
            pg_limit (failed_limit env (attempt_time a) (attempt_limit env db a))) \<or>
        ans = Inl AccPermissionDenied \<and>
          adb_Limits db' = (adb_Limits db)(attempt_key env a \<mapsto> attempt_row env db a) \<or>
        is_ok ans \<and> adb_Limits db' = (adb_Limits db)(attempt_key env a \<mapsto>
            pg_limit (cleared_limit (attempt_time a) (attempt_limit env db a))))"
proof -
  obtain l0 db0 where l: "LoginRateLimit (fst a) db (attempt_key env a) = (l0, db0)" by fastforce
  have "Login_body env (fst a) (fst (snd a)) (snd (snd a)) db = Inr (ans, db')"
    using assms by (auto simp: attempt_login_def Login_def within_def split: sum.splits if_splits prod.splits)
  from Login_outcomes [OF this l [unfolded attempt_key_def] refl] LoginRateLimit_row [OF l]
  show ?thesis
    by (auto simp: blocked_def attempt_limit_def attempt_time_def attempt_row_def attempt_key_def l [unfolded attempt_key_def]
        dest!: SaveLoginRateLimit_row)
qed

lemma attempt_other_key:
  assumes "attempt_key env a \<noteq> key"
  shows "adb_Limits (commit (attempt_step env) db a) key = adb_Limits db key"
proof (cases "attempt_login env db a")
  case (Inl e)
  then show ?thesis by (simp add: commit_def attempt_step_def tables_of_def)
next
  case (Inr p)
  then obtain ans db' where p: "attempt_login env db a = Inr (ans, db')" by (cases p) auto
  with attempt_cases [OF p] assms show ?thesis by (auto simp: commit_def attempt_step_def tables_of_def)
qed

subsection \<open>Guessing in one window\<close>

lemma pg_time_mono: "s \<le> t \<Longrightarrow> pg_time s \<le> pg_time t"
  by (simp add: pg_time_def trunc_time_def microsecond_def minus_mod_eq_mult_div zdiv_mono1)

text \<open>How many more guesses a row lets through before \<open>s + BlockFor\<close>.\<close>

definition guesses_left :: "access_env \<Rightarrow> go_time \<Rightarrow> login_limit \<Rightarrow> int" where
  "guesses_left env s l = (case lim_BlockedUntil l of
      Some t \<Rightarrow> if pg_time (s + env_BlockFor env) \<le> t then 0 else max 1 (env_MaxFailures env - lim_FailureCount l)
    | None \<Rightarrow> max 1 (env_MaxFailures env - lim_FailureCount l))"

definition counting :: "go_time \<Rightarrow> login_limit \<Rightarrow> bool" where
  "counting w l \<longleftrightarrow> lim_WindowStartedAt l = w \<and> pg_time w = w \<and> 0 \<le> lim_FailureCount l \<and> in32 (lim_FailureCount l)"

lemma current_in_window:
  "counting w l \<Longrightarrow> w \<le> now \<Longrightarrow> now - w < env_Window env \<Longrightarrow> current_limit env now l = l"
  by (auto simp: current_limit_def time_sub_def counting_def)

lemma counting_failed:
  assumes "counting w l" "in32 (lim_FailureCount (failed_limit env now l))"
  shows "counting w (pg_limit (failed_limit env now l))"
  using assms by (auto simp: counting_def failed_limit_def pg_limit_def Let_def in32_def wrap64_def)

lemma guesses_left_failed:
  assumes "counting w l" "\<not> throttled now l" "s \<le> now" "now < pg_time (s + env_BlockFor env)"
  shows "1 + guesses_left env s (pg_limit (failed_limit env now l)) \<le> guesses_left env s l"
proof -
  let ?n = "lim_FailureCount l"
  have n: "wrap64 (?n + 1) = ?n + 1" using assms(1) by (auto simp: counting_def in32_def wrap64_def)
  have left: "guesses_left env s l = max 1 (env_MaxFailures env - ?n)"
    using assms(2,4) by (auto simp: guesses_left_def throttled_def before_def split: option.splits)
  have blocks: "pg_time (s + env_BlockFor env) \<le> pg_time (now + env_BlockFor env)"
    using assms(3) by (intro pg_time_mono) simp
  show ?thesis
  proof (cases "env_MaxFailures env \<le> ?n + 1")
    case True
    with blocks have "guesses_left env s (pg_limit (failed_limit env now l)) = 0"
      by (simp add: guesses_left_def failed_limit_def pg_limit_def Let_def n)
    then show ?thesis by (simp add: left)
  next
    case False
    then have "guesses_left env s (pg_limit (failed_limit env now l)) \<le> env_MaxFailures env - ?n - 1"
      by (auto simp: guesses_left_def failed_limit_def pg_limit_def Let_def n split: option.splits)
    with False show ?thesis by (simp add: left)
  qed
qed

lemma guesses_left_nonneg: "0 \<le> guesses_left env s l"
  by (auto simp: guesses_left_def split: option.splits)

lemma guesses_bound:
  assumes "adb_Limits db key = Some l" "counting w l"
    and "\<And>a. a \<in> set as \<Longrightarrow> attempt_key env a = key \<Longrightarrow> w \<le> attempt_time a \<and>
       attempt_time a - w < env_Window env \<and> s \<le> attempt_time a \<and>
       attempt_time a < pg_time (s + env_BlockFor env)"
    and "\<And>p. p \<in> set (login_trace env db as) \<Longrightarrow> \<not> accepted env key p"
  shows "int (length (filter (tested env key) (login_trace env db as))) \<le> guesses_left env s l"
  using assms
proof (induction as arbitrary: db l)
  case Nil
  then show ?case by (simp add: guesses_left_nonneg)
next
  case (Cons a as)
  let ?db = "commit (attempt_step env) db a"
  have rest: "int (length (filter (tested env key) (login_trace env ?db as))) \<le> guesses_left env s l'"
    if "adb_Limits ?db key = Some l'" "counting w l'" for l'
    using Cons.prems(3,4) by (intro Cons.IH [OF that]) auto
  show ?case
  proof (cases "attempt_key env a = key")
    case False
    then have "\<not> tested env key (db, a)" by (simp add: tested_def)
    with rest Cons.prems(1,2) False show ?thesis by (simp add: attempt_other_key)
  next
    case True
    note time = Cons.prems(3) [OF list.set_intros(1) True]
    have row: "attempt_row env db a = l" using Cons.prems(1) True by (simp add: attempt_row_def LoginRateLimit_def)
    have cur: "attempt_limit env db a = l"
      using current_in_window [OF Cons.prems(2)] time row by (simp add: attempt_limit_def attempt_row_def)
    show ?thesis
    proof (cases "tested env key (db, a)")
      case tested: True
      then obtain db' where db': "attempt_login env db a = Inr (Inl AccInvalidCredentials, db')"
        and free: "\<not> throttled (attempt_time a) l" by (auto simp: tested_def blocked_def cur)
      with attempt_cases [OF db'] have "adb_Limits db' key = Some (pg_limit (failed_limit env (attempt_time a) l))"
        "in32 (lim_FailureCount (failed_limit env (attempt_time a) l))"
        by (auto simp: cur True tested_def blocked_def)
      with rest counting_failed [OF Cons.prems(2)] db'
      have "int (length (filter (tested env key) (login_trace env ?db as)))
          \<le> guesses_left env s (pg_limit (failed_limit env (attempt_time a) l))"
        by (simp add: commit_def attempt_step_def tables_of_def)
      with guesses_left_failed [OF Cons.prems(2) free, of s env] time tested show ?thesis by simp
    next
      case False
      have "\<not> accepted env key (db, a)" using Cons.prems(4) by simp
      then have "adb_Limits ?db key = Some l"
        using attempt_cases [of env db a] False Cons.prems(1) True row
        by (auto simp: commit_def attempt_step_def tables_of_def accepted_def tested_def is_ok_def split: sum.splits)
      with rest Cons.prems(2) False show ?thesis by simp
    qed
  qed
qed

subsection \<open>Blocks\<close>

lemma blocked_blind:
  "blocked env db a \<Longrightarrow> attempt_login env db (fst a, randoms, (snd (snd a))\<lparr>lgc_Password := pw\<rparr>) = attempt_login env db a"
  by (auto simp: blocked_def attempt_login_def attempt_limit_def attempt_key_def attempt_time_def Login_def
      Login_body_def Let_def rate_digest_def login_candidate_def split: prod.splits)

lemma window_frees:
  assumes "in64 (env_Window env)" "env_Window env \<le> attempt_time a - lim_WindowStartedAt (attempt_row env db a)"
  shows "\<not> blocked env db a"
  using assms by (auto simp: blocked_def attempt_limit_def attempt_row_def current_limit_def time_sub_def in64_def throttled_def)

text \<open>C23. Guessing is bounded, blocks are blind and they end with the window.  Consider a limit row whose window
  runs, and any sequence of local logins of which those with the key of the row come within the window
  and within \<open>BlockFor\<close> of some instant that none of them precedes, so that a block set by any of them is still on
  for the later ones.  Of these no more than \<open>MaxFailures\<close> (but one in any case) wrong passwords are tested on the
  key, unless one of them is accepted; logins with other keys may come between and at any time.  A blocked login
  answers the same whatever the password, is refused, and changes no user and no session.  Once the window has
  passed no login is blocked, whatever \<open>blocked_until\<close> the row holds; so a block ends with the window it was
  set in even when \<open>BlockFor\<close> reaches further, and one shorter than the window lets the guessing
  go on, which is why the first part speaks of attempts within \<open>BlockFor\<close>.  An accepted login
  clears the row.\<close>

theorem login_throttle:
  assumes "adb_Limits db key = Some l" "counting (lim_WindowStartedAt l) l" "in64 (env_Window env)"
    and "\<forall>a \<in> set as. attempt_key env a = key \<longrightarrow> lim_WindowStartedAt l \<le> attempt_time a \<and>
       attempt_time a - lim_WindowStartedAt l < env_Window env \<and> s \<le> attempt_time a \<and>
       attempt_time a < pg_time (s + env_BlockFor env)"
    and "\<forall>p \<in> set (login_trace env db as). \<not> accepted env key p"
  shows "int (length (filter (tested env key) (login_trace env db as))) \<le> max 1 (env_MaxFailures env) \<and>
    (\<forall>db a. blocked env db a \<longrightarrow>
      (\<forall>randoms pw. attempt_login env db (fst a, randoms, (snd (snd a))\<lparr>lgc_Password := pw\<rparr>) = attempt_login env db a) \<and>
      (\<forall>ans db'. attempt_login env db a = Inr (ans, db') \<longrightarrow> ans \<in> {Inl AccRateLimited, Inl AccInvalidCredentials} \<and>
         adb_Users db' = adb_Users db \<and> adb_Sessions db' = adb_Sessions db)) \<and>
    (\<forall>db a. env_Window env \<le> attempt_time a - lim_WindowStartedAt (attempt_row env db a) \<longrightarrow> \<not> blocked env db a) \<and>
    (\<forall>db a iss db'. attempt_login env db a = Inr (Inr iss, db') \<longrightarrow>
      (\<exists>r. adb_Limits db' (attempt_key env a) = Some r \<and> lim_FailureCount r = 0 \<and> lim_BlockedUntil r = None))"
proof (intro conjI allI impI)
  have "guesses_left env s l \<le> max 1 (env_MaxFailures env)"
    using assms(2) by (auto simp: guesses_left_def counting_def split: option.splits)
  moreover have "int (length (filter (tested env key) (login_trace env db as))) \<le> guesses_left env s l"
    using assms(4,5) by (intro guesses_bound [OF assms(1,2)]) blast+
  ultimately show "int (length (filter (tested env key) (login_trace env db as))) \<le> max 1 (env_MaxFailures env)" by simp
next
  fix db a assume b: "blocked env db a"
  then show "attempt_login env db (fst a, randoms, (snd (snd a))\<lparr>lgc_Password := pw\<rparr>) = attempt_login env db a" for randoms pw
    by (rule blocked_blind)
  fix ans db' assume "attempt_login env db a = Inr (ans, db')"
  from attempt_cases [OF this] b show "ans \<in> {Inl AccRateLimited, Inl AccInvalidCredentials}"
    "adb_Users db' = adb_Users db" "adb_Sessions db' = adb_Sessions db" by auto
next
  fix db a assume "env_Window env \<le> attempt_time a - lim_WindowStartedAt (attempt_row env db a)"
  with assms(3) show "\<not> blocked env db a" by (rule window_frees)
next
  fix db a iss db' assume "attempt_login env db a = Inr (Inr iss, db')"
  from attempt_cases [OF this]
  show "\<exists>r. adb_Limits db' (attempt_key env a) = Some r \<and> lim_FailureCount r = 0 \<and> lim_BlockedUntil r = None"
    by (auto simp: pg_limit_def cleared_limit_def split: if_splits)
qed

definition closed_env :: access_env where
  "closed_env = sample_access_env\<lparr>env_Verify := (\<lambda>_ _. False)\<rparr>"

definition sample_guess :: attempt where
  "sample_guess = (sample_clock, (None, None), sample_login)"

definition sample_counter :: access_db where
  "sample_counter = sample_db\<lparr>adb_Limits := (adb_Limits sample_db)(attempt_key closed_env sample_guess \<mapsto>
     \<lparr>lim_WindowStartedAt = 0, lim_FailureCount = 0, lim_BlockedUntil = None, lim_UpdatedAt = 0\<rparr>)\<rparr>"

theorem login_throttle_witness:
  "length (filter (tested closed_env (attempt_key closed_env sample_guess))
     (login_trace closed_env sample_counter (replicate 5 sample_guess))) \<le> 2"
proof -
  have e: "env_Window closed_env = 15 * minute" "env_BlockFor closed_env = 15 * minute" "env_MaxFailures closed_env = 2"
    by code_simp+
  have "\<not> accepted closed_env k p" for k p
    by (auto simp: accepted_def attempt_login_def closed_env_def elim!: Login_ok)
  moreover have "counting 0 \<lparr>lim_WindowStartedAt = 0, lim_FailureCount = 0, lim_BlockedUntil = None, lim_UpdatedAt = 0\<rparr>"
    by code_simp
  moreover have "attempt_time sample_guess = 1000000" "15 * minute = 900000000000"
    "pg_time (0 + 15 * minute) = 900000000000" by code_simp+
  moreover have "in64 (15 * minute)" by code_simp
  ultimately have "int (length (filter (tested closed_env (attempt_key closed_env sample_guess))
     (login_trace closed_env sample_counter (replicate 5 sample_guess)))) \<le> max 1 2"
    using login_throttle [of sample_counter "attempt_key closed_env sample_guess"
      "\<lparr>lim_WindowStartedAt = 0, lim_FailureCount = 0, lim_BlockedUntil = None, lim_UpdatedAt = 0\<rparr>" closed_env
      "replicate 5 sample_guess" 0, THEN conjunct1]
    by (simp add: sample_counter_def e del: replicate.simps)
  then show ?thesis by simp
qed

end
