(* ===== verification/Receipted.thy ===== *)
theory Receipted
  imports Prelude
begin

text \<open>
  Commands with idempotency keys: a command that carries a key records it in the state when it
  takes effect, and a command whose key is recorded changes nothing.  From these laws every
  command takes effect at most once, whatever runs in between.
\<close>

locale receipted_commands =
  fixes step :: "'s \<Rightarrow> 'c \<Rightarrow> ('e, 's) result"
    and valid :: "'s \<Rightarrow> bool"
    and key_of :: "'c \<Rightarrow> 'k option"
    and used :: "'s \<Rightarrow> 'k \<Rightarrow> bool"
  assumes valid_step: "valid s \<Longrightarrow> step s c = Inr s' \<Longrightarrow> valid s'"
    and keeps_used: "valid s \<Longrightarrow> step s c = Inr s' \<Longrightarrow> used s k \<Longrightarrow> used s' k"
    and replay_inert: "valid s \<Longrightarrow> key_of c = Some k \<Longrightarrow> used s k \<Longrightarrow> step s c = Inr s' \<Longrightarrow> s' = s"
    and records: "valid s \<Longrightarrow> key_of c = Some k \<Longrightarrow> step s c = Inr s' \<Longrightarrow> used s' k"
begin

lemma run_used: "valid s \<Longrightarrow> used s k \<Longrightarrow> used (run step s cs) k \<and> valid (run step s cs)"
  using run_invariant [of "\<lambda>s. used s k \<and> valid s" s step cs] valid_step keeps_used by blast

lemma used_inert:
  assumes "valid s" "used s k" "key_of c = Some k"
  shows "commit step s c = s"
proof (cases "step s c")
  case (Inr s')
  with replay_inert [OF assms(1,3,2)] show ?thesis by simp
qed simp

lemma used_for_ever:
  assumes "valid s" "used s k" "key_of c = Some k"
  shows "commit step (run step s cs) c = run step s cs"
  using run_used [OF assms(1,2)] used_inert [OF _ _ assms(3)] by blast

lemma at_most_once:
  assumes "valid s" "key_of c = Some k" "step s c = Inr s'" "key_of c' = Some k"
  shows "commit step (run step s' cs) c' = run step s' cs"
  using used_for_ever [OF valid_step [OF assms(1,3)] records [OF assms(1-3)] assms(4)] .

end

end
