(* ===== verification/AccessAuthority.thy ===== *)
theory AccessAuthority
  imports AccessLogin Receipted
begin

text \<open>
  Who may do what to whom: every governed command is one that the listing offers its actor on
  the target, changes the rows of the target only, and takes effect at most once for an
  idempotency key of its actor.
\<close>

text \<open>The governed commands with the key they record.\<close>

fun receipt_of :: "access_call \<Rightarrow> (int \<times> string) option" where
  "receipt_of (CallProvision randoms dir seen p input) = Some (prn_InternalID p, pvi_IdempotencyKey input)"
| "receipt_of (CallSetGovernanceLogin p input) = Some (prn_InternalID p, sli_IdempotencyKey input)"
| "receipt_of (CallSetGovernanceRole p input) = Some (prn_InternalID p, sri_IdempotencyKey input)"
| "receipt_of (CallBindGovernance dir seen p input) = Some (prn_InternalID p, bni_IdempotencyKey input)"
| "receipt_of (CallResetGovernancePassword salt p input) = Some (prn_InternalID p, rpi_IdempotencyKey input)"
| "receipt_of (CallTransfer p input) = Some (prn_InternalID p, tri_IdempotencyKey input)"
| "receipt_of _ = None"

text \<open>The ones on a target, with the action that stands for them in the listing.\<close>

fun target_of :: "access_call \<Rightarrow> (principal \<times> int \<times> (governance_actions \<Rightarrow> bool)) option" where
  "target_of (CallSetGovernanceLogin p input) = Some (p, sli_TargetID input, gva_SetLoginEnabled)"
| "target_of (CallSetGovernanceRole p input) = Some (p, sri_TargetID input, gva_ChangeRole)"
| "target_of (CallBindGovernance dir seen p input) = Some (p, bni_TargetID input, gva_BindWeComUserID)"
| "target_of (CallResetGovernancePassword salt p input) = Some (p, rpi_TargetID input, gva_ResetPassword)"
| "target_of (CallTransfer p input) = Some (p, tri_TargetID input, gva_TransferSuperAdmin)"
| "target_of _ = None"

text \<open>An \<open>apply\<close> of a governed command obeys an action when it accepts only what the action offers.\<close>

definition obeys ::
  "access_env \<Rightarrow> (governance_actions \<Rightarrow> bool)
    \<Rightarrow> (role \<Rightarrow> access_user \<Rightarrow> role \<Rightarrow> access_db \<Rightarrow> (access_error, access_db) result) \<Rightarrow> bool" where
  "obeys env act apply \<longleftrightarrow> (\<forall>ra u rt db db' i. apply ra u rt db = Inr db' \<longrightarrow> rows_ok env db \<longrightarrow>
     row_change env db (usr_ID u) db' \<and>
     (Role_Valid rt \<longrightarrow> usr_AccessGrantedAt u \<noteq> None \<longrightarrow> (usr_ID u = i \<longrightarrow> rt = ra) \<longrightarrow> act (actionsFor ra i u rt)))"

lemma obeys_applies:
  "obeys env gva_SetLoginEnabled (apply_login env now p b)"
  "r = RoleAdmin \<or> r = RoleViewer \<Longrightarrow> obeys env gva_ChangeRole (apply_role env now p r)"
  "obeys env gva_BindWeComUserID (apply_bind env now p w)"
  "obeys env gva_ResetPassword (apply_password env now p h)"
  unfolding obeys_def
  by (auto dest!: apply_login_ok apply_role_ok apply_bind_ok apply_password_ok
      simp: actionsFor_def Let_def canManageTarget_def Role_Valid_def split: role.splits)

lemma within_ok: "within db r = Inr p \<Longrightarrow> r = Inr p"
  by (auto simp: within_def split: sum.splits if_splits prod.splits)

lemma tables_of_ok: "tables_of r = Inr db' \<Longrightarrow> \<exists>x. r = Inr (x, db')"
  by (auto simp: tables_of_def split: sum.splits)

lemma withGovernanceTarget_ok:
  "withGovernanceTarget db p i k action d apply = Inr ((), db') \<Longrightarrow>
    governance_target db p i k action d apply = Inr ((), db')"
  by (auto simp: withGovernanceTarget_def dest: within_ok split: if_splits)

lemma governed_call:
  assumes "exec env db (clk, call) = Inr db'" "target_of call = Some (p, i, act)" "receipt_of call = Some (a, k)"
  shows "a = prn_InternalID p \<and>
    ((\<exists>action d apply. governance_target db p i k action d apply = Inr ((), db') \<and> obeys env act apply) \<or>
     (\<exists>input. call = CallTransfer p input \<and> i = tri_TargetID input \<and> k = tri_IdempotencyKey input \<and>
        act = gva_TransferSuperAdmin \<and> transfer_body env clk p input db = Inr ((), db')))"
proof (cases call)
  case (CallSetGovernanceLogin q input)
  with assms have "SetGovernanceLoginEnabled env clk q input db = Inr ((), db')"
    by (auto dest!: tables_of_ok)
  then have "\<exists>d. governance_target db q (sli_TargetID input) (sli_IdempotencyKey input) ''set_login_enabled'' d
      (apply_login env (clk_Now clk) q (sli_LoginEnabled input)) = Inr ((), db')"
    by (auto simp: SetGovernanceLoginEnabled_def split: if_splits dest!: withGovernanceTarget_ok)
  with assms CallSetGovernanceLogin show ?thesis by simp (blast intro: obeys_applies)
next
  case (CallSetGovernanceRole q input)
  with assms have "SetGovernanceRole env clk q input db = Inr ((), db')"
    by (auto dest!: tables_of_ok)
  then have "(\<exists>d. governance_target db q (sri_TargetID input) (sri_IdempotencyKey input) ''set_role'' d
      (apply_role env (clk_Now clk) q (sri_Role input)) = Inr ((), db')) \<and>
      (sri_Role input = RoleAdmin \<or> sri_Role input = RoleViewer)"
    by (auto simp: SetGovernanceRole_def split: if_splits dest!: withGovernanceTarget_ok)
  with assms CallSetGovernanceRole show ?thesis by simp (blast intro: obeys_applies)
next
  case (CallBindGovernance dir seen q input)
  with assms have "BindGovernanceWeComUserID env clk dir seen q input db = Inr ((), db')"
    by (auto dest!: tables_of_ok)
  then have "\<exists>d w. governance_target db q (bni_TargetID input) (bni_IdempotencyKey input) ''bind_wecom_userid'' d
      (apply_bind env (clk_Now clk) q w) = Inr ((), db')"
    by (auto simp: BindGovernanceWeComUserID_def split: if_splits sum.splits dest!: withGovernanceTarget_ok)
  with assms CallBindGovernance show ?thesis by simp (blast intro: obeys_applies)
next
  case (CallResetGovernancePassword salt q input)
  with assms have "ResetGovernancePassword env clk salt q input db = Inr ((), db')"
    by (auto dest!: tables_of_ok)
  then have "\<exists>d h. governance_target db q (rpi_TargetID input) (rpi_IdempotencyKey input) ''reset_password'' d
      (apply_password env (clk_Now clk) q h) = Inr ((), db')"
    by (auto simp: ResetGovernancePassword_def split: if_splits sum.splits dest!: withGovernanceTarget_ok)
  with assms CallResetGovernancePassword show ?thesis by simp (blast intro: obeys_applies)
next
  case (CallTransfer q input)
  with assms have "TransferGovernanceSuperAdmin env clk q input db = Inr ((), db')"
    by (auto dest!: tables_of_ok)
  then have "transfer_body env clk q input db = Inr ((), db')"
    by (auto simp: TransferGovernanceSuperAdmin_def split: if_splits dest!: within_ok)
  with assms CallTransfer show ?thesis by auto
qed (use assms in simp_all)

subsection \<open>Every command at most once\<close>

lemma provision_receipt:
  assumes "exec env db (clk, CallProvision randoms dir seen p input) = Inr db'" "rows_ok env db"
  shows "has_receipt db' (prn_InternalID p) (pvi_IdempotencyKey input) \<and>
    (has_receipt db (prn_InternalID p) (pvi_IdempotencyKey input) \<longrightarrow> db' = db)"
proof -
  from assms(1) obtain u where "ProvisionEnterpriseEmployee env clk randoms dir seen p input db = Inr (u, db')"
    by (auto dest!: tables_of_ok)
  then obtain m hash where b: "provision_body env clk p input m hash db = Inr (u, db')"
    by (auto simp: ProvisionEnterpriseEmployee_def split: if_splits sum.splits prod.splits dest!: within_ok)
  then obtain act d fresh db1 where
      r: "ReserveGovernanceMutation db (prn_InternalID p) (pvi_IdempotencyKey input) act (prn_InternalID p) d = Inr (fresh, db1)"
    and rest: "if fresh then provision_rows env clk p (pvi_Role input) m hash db1 = Inr (u, db') else db' = db1"
    unfolding provision_body_def by (auto split: sum.splits if_splits prod.splits)
  note rc = reserve_cases [OF r]
  have ok1: "rows_ok env db1" using reserved_state [OF r] assms(2) by simp
  have "adb_Receipts db' = adb_Receipts db1" if "provision_rows env clk p (pvi_Role input) m hash db1 = Inr (u, db')"
    using that audit_state(3)
    by (auto simp: provision_rows_def Let_def added_def split: if_splits sum.splits prod.splits
        dest!: GrantAccess_fenced [OF _ ok1] CreateUser_added [OF _ ok1] fenced_same)
  with rest rc show ?thesis by (auto simp: has_receipt_def split: if_splits)
qed

text \<open>Provisioning has no target: it grants a record of the staff that nobody had granted, or adds an
  account.\<close>

definition provisioned :: "access_db \<Rightarrow> principal \<Rightarrow> role \<Rightarrow> access_db \<Rightarrow> bool" where
  "provisioned db p r db' \<longleftrightarrow>
     (\<exists>a ra v. acting db p a ra \<and> canProvision ra r \<and> v \<in> set (adb_Users db') \<and> usr_Roles v = [r] \<and>
        (\<forall>u \<in> set (adb_Users db). u \<in> set (adb_Users db') \<or> usr_ID u = usr_ID v \<and> usr_AccessGrantedAt u = None))"

lemma provision_fresh:
  assumes "exec env db (clk, CallProvision randoms dir seen p input) = Inr db'" "rows_ok env db"
    and new: "\<not> has_receipt db (prn_InternalID p) (pvi_IdempotencyKey input)"
  shows "provisioned db p (pvi_Role input) db'"
proof -
  let ?r = "pvi_Role input"
  from assms(1) obtain u where "ProvisionEnterpriseEmployee env clk randoms dir seen p input db = Inr (u, db')"
    by (auto dest!: tables_of_ok)
  then obtain m hash where b: "provision_body env clk p input m hash db = Inr (u, db')"
    by (auto simp: ProvisionEnterpriseEmployee_def split: if_splits sum.splits prod.splits dest!: within_ok)
  then obtain a ra act d fresh db1 where actor: "currentGovernanceActor db p = Inr (a, ra)" "canProvision ra ?r"
    and r: "ReserveGovernanceMutation db (prn_InternalID p) (pvi_IdempotencyKey input) act (prn_InternalID p) d = Inr (fresh, db1)"
    and rest: "fresh \<longrightarrow> provision_rows env clk p ?r m hash db1 = Inr (u, db')"
    unfolding provision_body_def by (auto split: sum.splits if_splits prod.splits)
  note act = current_actor [OF actor(1) assms(2)] and s = reserved_state [OF r]
  have ok1: "rows_ok env db1" using s(1) assms(2) by simp
  have "provision_rows env clk p ?r m hash db1 = Inr (u, db')" using rest reserve_cases [OF r] new by blast
  then consider i name now db2 c v act' det where "GrantAccess env db1 i ?r name now = Inr db2" "audit db2 c v act' det now = Inr db'"
    | nu v db2 c act' det now where "CreateUser env clk db1 nu = Inr (v, db2)" "usr_Roles nu = [?r]" "audit db2 c (usr_ID v) act' det now = Inr db'"
    by (auto simp: provision_rows_def Let_def new_user_def split: if_splits sum.splits prod.splits)
  then show ?thesis
  proof cases
    case 1
    from GrantAccess_fenced [OF 1(1) ok1] obtain f w where f: "db2 = upd i f db1" "keeps_id f" "\<And>u. usr_Roles (f u) = [?r]"
      and w: "w \<in> set (adb_Users db1)" "usr_ID w = i" "usr_AccessGrantedAt w = None"
      unfolding fenced_def by auto
    have users: "adb_Users db' = map (\<lambda>u. if usr_ID u = i then f u else u) (adb_Users db)"
      using audit_state(1) [OF 1(2)] f(1) s(3) by (simp add: upd_users)
    have unique: "u = w" if "u \<in> set (adb_Users db)" "usr_ID u = i" for u
      using that w s(3) assms(2) by (auto simp: rows_ok_def users_unique_def distinct_map inj_on_def)
    have "f w \<in> set (adb_Users db')" using w s(3) by (auto simp: users intro!: image_eqI [of _ _ w])
    moreover have "u \<in> set (adb_Users db') \<or> usr_ID u = usr_ID (f w) \<and> usr_AccessGrantedAt u = None"
      if "u \<in> set (adb_Users db)" for u
      using that unique [OF that] w f(2) by (auto simp: users keeps_id_def intro!: image_eqI [of _ _ u])
    ultimately show ?thesis using act actor(2) f(3) unfolding provisioned_def by blast
  next
    case 2
    from CreateUser_added [OF 2(1) ok1] 2(2) have "adb_Users db2 = adb_Users db1 @ [v]" "usr_Roles v = [?r]"
      by (simp_all add: added_def)
    moreover have "adb_Users db' = adb_Users db2" using audit_state(1) [OF 2(3)] by simp
    ultimately show ?thesis using act actor(2) s(3) unfolding provisioned_def by (intro exI [of _ a] exI [of _ ra] exI [of _ v]) simp
  qed
qed

text \<open>What an accepted fresh command on a target rests on and touches.\<close>

definition entitled ::
  "access_db \<Rightarrow> access_call \<Rightarrow> principal \<Rightarrow> int \<Rightarrow> (governance_actions \<Rightarrow> bool) \<Rightarrow> access_db \<Rightarrow> bool" where
  "entitled db call p i act db' \<longleftrightarrow>
     (\<exists>a ra t rt. acting db p a ra \<and> t \<in> set (adb_Users db) \<and> usr_ID t = i \<and> usr_Roles t = [rt] \<and>
        act (actionsFor ra (usr_ID a) t rt) \<and>
        (\<forall>u \<in> set (adb_Users db). u \<in> set (adb_Users db') \<or> usr_ID u = i \<or>
           usr_ID u = usr_ID a \<and> (\<exists>input. call = CallTransfer p input)))"

lemma row_change_others:
  "row_change env db i db' \<Longrightarrow> u \<in> set (adb_Users db) \<Longrightarrow> usr_ID u \<noteq> i \<Longrightarrow> u \<in> set (adb_Users db')"
  unfolding row_change_def fenced_def by (auto simp: upd_users intro!: image_eqI [of _ _ u])

lemma governed_fresh:
  assumes "governance_target db p i k action d apply = Inr ((), db')" "obeys env act apply" "rows_ok env db"
  shows "has_receipt db' (prn_InternalID p) k \<and> (has_receipt db (prn_InternalID p) k \<longrightarrow> db' = db) \<and>
    (\<not> has_receipt db (prn_InternalID p) k \<longrightarrow> entitled db call p i act db')"
  using assms(1)
proof (cases rule: governance_target_cases)
  case replay
  then show ?thesis by simp
next
  case (fresh a ra t rt db1)
  note act = current_actor [OF fresh(2) assms(3)] and t = UserByID_ok [OF fresh(3)]
  have roles: "usr_Roles t = [rt]" using single_role [OF assms(3) _ fresh(4)] t by blast
  have valid: "Role_Valid rt" using SingleRole_ok [OF fresh(4)] by blast
  have same: "rt = ra" if "usr_ID t = usr_ID a"
    using target_only [OF assms(3), of a t] that act t roles by (simp add: acting_def)
  note r = reserve_cases [OF fresh(6)] and s = reserved_state [OF fresh(6)]
  have "row_change env db1 (usr_ID t) db' \<and> act (actionsFor ra (usr_ID a) t rt)"
    using assms(2) fresh(5,7) s(1) assms(3) valid same unfolding obeys_def by blast
  moreover from this have "u \<in> set (adb_Users db')" if "u \<in> set (adb_Users db)" "usr_ID u \<noteq> i" for u
    using row_change_others [of env db1 "usr_ID t" db' u] that s(3) t by simp
  moreover have "has_receipt db' (prn_InternalID p) k"
    using r calculation(1) by (auto simp: has_receipt_def row_change_def)
  ultimately show ?thesis using fresh(1) act t roles unfolding entitled_def by blast
qed

lemma transfer_fresh:
  assumes "transfer_body env clk p input db = Inr ((), db')" "rows_ok env db"
  shows "has_receipt db' (prn_InternalID p) (tri_IdempotencyKey input) \<and>
    (has_receipt db (prn_InternalID p) (tri_IdempotencyKey input) \<longrightarrow> db' = db) \<and>
    (\<not> has_receipt db (prn_InternalID p) (tri_IdempotencyKey input) \<longrightarrow>
       entitled db (CallTransfer p input) p (tri_TargetID input) gva_TransferSuperAdmin db')"
  using assms
proof (cases rule: transfer_cases)
  case replay
  then show ?thesis by simp
next
  case (fresh a t c)
  have "gva_TransferSuperAdmin (actionsFor RoleSuperAdmin (usr_ID a) t RoleAdmin)"
    using fresh(6,7) by (auto simp: actionsFor_def login_usable_def Let_def)
  moreover have "u \<in> set (adb_Users db')" if "u \<in> set (adb_Users db)" "usr_ID u \<noteq> usr_ID a" "usr_ID u \<noteq> usr_ID t" for u
    unfolding fresh(8) using that by (auto simp: transferred_def intro!: image_eqI [of _ _ u])
  ultimately show ?thesis using fresh unfolding entitled_def by metis
qed

lemma target_receipt:
  assumes "exec env db (clk, call) = Inr db'" "target_of call = Some (p, i, act)" "receipt_of call = Some (a, k)"
    "rows_ok env db"
  shows "a = prn_InternalID p \<and> has_receipt db' a k \<and> (has_receipt db a k \<longrightarrow> db' = db) \<and>
    (\<not> has_receipt db a k \<longrightarrow> entitled db call p i act db')"
  using governed_call [OF assms(1-3)] governed_fresh [OF _ _ assms(4)] transfer_fresh [OF _ assms(4)] by blast

lemma exec_receipt:
  assumes "exec env db (clk, call) = Inr db'" "receipt_of call = Some (a, k)" "rows_ok env db"
  shows "has_receipt db' a k \<and> (has_receipt db a k \<longrightarrow> db' = db)"
proof (cases "target_of call")
  case None
  with assms(2) obtain randoms dir seen p input where "call = CallProvision randoms dir seen p input"
    by (cases call) simp_all
  with provision_receipt [of env db clk randoms dir seen p input db'] assms show ?thesis
    by (simp del: exec.simps)
next
  case (Some q)
  then obtain p i act where "target_of call = Some (p, i, act)" by (cases q) auto
  from target_receipt [OF assms(1) this assms(2,3)] show ?thesis by blast
qed

interpretation governed: receipted_commands "exec env" "access_inv env" "\<lambda>c. receipt_of (snd c)"
    "\<lambda>db k. has_receipt db (fst k) (snd k)" for env
proof unfold_locales
  fix s :: access_db and c s' and k :: "int \<times> string"
  show "access_inv env s \<Longrightarrow> exec env s c = Inr s' \<Longrightarrow> access_inv env s'" by (rule exec_inv)
  show "has_receipt s' (fst k) (snd k)"
    if "access_inv env s" "exec env s c = Inr s'" "has_receipt s (fst k) (snd k)"
  proof -
    have "good env s s" using that(1) by (simp add: access_inv_def)
    from postD [OF exec_good [OF this, of "fst c" "snd c"], of s'] that(2) have "evolves s s'"
      by (simp add: good_def)
    with that(3) show ?thesis by (auto simp: has_receipt_def evolves_def)
  qed
  show "s' = s" if "access_inv env s" "receipt_of (snd c) = Some k" "has_receipt s (fst k) (snd k)" "exec env s c = Inr s'"
    using exec_receipt [of env s "fst c" "snd c" s' "fst k" "snd k"] that by (simp add: access_inv_def good_def)
  show "has_receipt s' (fst k) (snd k)"
    if "access_inv env s" "receipt_of (snd c) = Some k" "exec env s c = Inr s'"
    using exec_receipt [of env s "fst c" "snd c" s' "fst k" "snd k"] that by (simp add: access_inv_def good_def)
qed


subsection \<open>A governed command\<close>

definition sample_add :: access_call where
  "sample_add = CallAddUser None sample_actor
     \<lparr>aui_Username = ''second'', aui_Password = ''secret'', aui_DisplayName = ''Second'',
       aui_Roles = [RoleAdmin]\<rparr>"

definition sample_two :: access_db where
  "sample_two = run (exec sample_access_env) empty_access
     [(sample_clock, sample_bootstrap), (sample_clock, sample_add)]"

definition sample_switch :: set_login_input where
  "sample_switch = \<lparr>sli_TargetID = 2, sli_LoginEnabled = False, sli_IdempotencyKey = ''k1''\<rparr>"

lemma sample_switched:
  "case governance_target sample_two sample_actor 2 ''k1'' ''set_login_enabled'' d
      (apply_login sample_access_env 1000000 sample_actor False) of
    Inl e \<Rightarrow> False
  | Inr (x, db') \<Rightarrow> access_assert db' \<and> map usr_LoginEnabled (adb_Users db') = [True, False]"
  unfolding sample_two_def by code_simp


end
