(* ===== verification/IdentityDomain.thy ===== *)
theory IdentityDomain
  imports GoBase64
begin

text \<open>
  \<open>internal/identity/domain\<close>: scoped references to people (\<open>reference.go\<close>), facts verified by a
  provider (\<open>fact.go\<close>) and the evidence for a link (\<open>link.go\<close>), with the customer status of
  \<open>internal/customer/domain\<close>.
\<close>

subsection \<open>Errors\<close>

datatype identity_error =
    IdtInvalidReference
  | IdtInvalidLinkCommand
  | IdtInvalidMergeID
  | IdtInsufficientEvidence
  | IdtIntentPayloadMismatch
  | IdtDeclaredPayloadMismatch
  | IdtHistoricalConflict
  | IdtResolveConflict
  | IdtMergeNotReversible
  | IdtRandom
  | IdtObserver

subsection \<open>References\<close>

datatype identity_kind =
    KindWeComExternalUserID
  | KindUnionID
  | KindMPOpenID
  | KindOAOpenID
  | KindAlipayUserID
  | KindAlipayOAuthUserID
  | KindAlipayOAuthOpenID
  | KindAlipayBuyerID
  | KindAlipayBuyerOpenID
  | KindFirstPartyMemberID
  | KindPhone
  | KindExtension
  | KindOther string

fun kind_text :: "identity_kind \<Rightarrow> string" where
  "kind_text KindWeComExternalUserID = ''wecom_external_userid''"
| "kind_text KindUnionID = ''unionid''"
| "kind_text KindMPOpenID = ''mp_openid''"
| "kind_text KindOAOpenID = ''oa_openid''"
| "kind_text KindAlipayUserID = ''alipay_user_id''"
| "kind_text KindAlipayOAuthUserID = ''alipay_oauth_user_id''"
| "kind_text KindAlipayOAuthOpenID = ''alipay_oauth_open_id''"
| "kind_text KindAlipayBuyerID = ''alipay_buyer_id''"
| "kind_text KindAlipayBuyerOpenID = ''alipay_buyer_open_id''"
| "kind_text KindFirstPartyMemberID = ''first_party_member_id''"
| "kind_text KindPhone = ''phone''"
| "kind_text KindExtension = ''ext''"
| "kind_text (KindOther s) = s"

datatype assurance = AssuranceVerified | AssuranceDeclared | AssuranceOther string

fun assurance_text :: "assurance \<Rightarrow> string" where
  "assurance_text AssuranceVerified = ''verified''"
| "assurance_text AssuranceDeclared = ''declared''"
| "assurance_text (AssuranceOther s) = s"

record identity_reference =
  ref_Kind :: identity_kind
  ref_Scope :: string
  ref_Value :: string
  ref_Assurance :: assurance
  ref_Source :: string

record normalized_reference =
  nrf_Kind :: identity_kind
  nrf_Scope :: string
  nrf_NormalizedValue :: string
  nrf_Assurance :: assurance
  nrf_Source :: string
  nrf_NormalizerVersion :: int

definition NormalizerVersion :: int where
  "NormalizerVersion = 1"

fun validKind :: "identity_kind \<Rightarrow> bool" where
  "validKind (KindOther s) = False"
| "validKind _ = True"

definition validAssurance :: "assurance \<Rightarrow> bool" where
  "validAssurance a \<longleftrightarrow> a = AssuranceVerified \<or> a = AssuranceDeclared"

definition hasNamespace :: "string \<Rightarrow> string \<Rightarrow> bool" where
  "hasNamespace scope pre \<longleftrightarrow> has_prefix scope pre \<and> length pre < length scope"

fun kind_scope :: "identity_kind \<Rightarrow> string \<Rightarrow> bool" where
  "kind_scope KindWeComExternalUserID scope = hasNamespace scope ''wecom-corp:''"
| "kind_scope KindUnionID scope = hasNamespace scope ''wechat-open-platform:''"
| "kind_scope KindMPOpenID scope = hasNamespace scope ''wechat-app:''"
| "kind_scope KindOAOpenID scope = hasNamespace scope ''wechat-app:''"
| "kind_scope KindFirstPartyMemberID scope = hasNamespace scope ''first-party:''"
| "kind_scope KindPhone scope = (scope = ''phone:e164'' \<or> scope = ''phone:cn11'')"
| "kind_scope KindExtension scope = hasNamespace scope ''ext:''"
| "kind_scope (KindOther s) scope = False"
| "kind_scope _ scope = hasNamespace scope ''alipay-app:''"

definition validScope :: "identity_kind \<Rightarrow> string \<Rightarrow> bool" where
  "validScope kind scope \<longleftrightarrow>
     scope \<noteq> [] \<and> length scope \<le> 256 \<and> \<not> contains_space scope \<and> kind_scope kind scope"

definition ValidateKind :: "identity_kind \<Rightarrow> bool" where
  "ValidateKind kind \<longleftrightarrow> validKind kind"

definition ValidateNamespace :: "identity_kind \<Rightarrow> string \<Rightarrow> bool" where
  "ValidateNamespace kind scope \<longleftrightarrow> validKind kind \<and> validScope kind scope"

text \<open>The regular expressions \<open>^\+[1-9][0-9]{1,14}$\<close> and \<open>^1[3-9][0-9]{9}$\<close>.\<close>

definition phoneE164 :: "string \<Rightarrow> bool" where
  "phoneE164 s \<longleftrightarrow>
     (case s of
        p # d # ds \<Rightarrow> p = CHR ''+'' \<and> is_digit d \<and> d \<noteq> CHR ''0'' \<and> list_all is_digit ds \<and>
          1 \<le> length ds \<and> length ds \<le> 14
      | _ \<Rightarrow> False)"

definition phoneCN11 :: "string \<Rightarrow> bool" where
  "phoneCN11 s \<longleftrightarrow>
     (case s of
        p # d # ds \<Rightarrow> p = CHR ''1'' \<and> is_digit d \<and>
          d \<notin> {CHR ''0'', CHR ''1'', CHR ''2''} \<and>
          list_all is_digit ds \<and> length ds = 9
      | _ \<Rightarrow> False)"

text \<open>\<open>compactPhone\<close>: digits and plus signs stay, separators go, anything else empties it.\<close>

definition phone_separator :: "rune \<Rightarrow> bool" where
  "phone_separator r \<longleftrightarrow> is_space r \<or> r = 45 \<or> r = 40 \<or> r = 41 \<or> r = 46"

fun compact_loop :: "rune list \<Rightarrow> string \<Rightarrow> string" where
  "compact_loop [] out = out"
| "compact_loop (r # rs) out =
     (if r = 43 \<or> 48 \<le> r \<and> r \<le> 57 then compact_loop rs (out @ [char_of r])
      else if phone_separator r then compact_loop rs out
      else [])"

definition compactPhone :: "string \<Rightarrow> string" where
  "compactPhone value = compact_loop (runes value) []"

definition Normalize :: "identity_reference \<Rightarrow> (identity_error, normalized_reference) result" where
  "Normalize r =
     (if contains_control (ref_Scope r) \<or> contains_control (ref_Value r) \<or> contains_control (ref_Source r)
      then Inl IdtInvalidReference
      else
       (let scope = trim_space (ref_Scope r);
            trimmed = trim_space (ref_Value r);
            source = trim_space (ref_Source r) in
        if \<not> validKind (ref_Kind r) \<or> \<not> validScope (ref_Kind r) scope \<or> trimmed = [] \<or> source = [] \<or>
           1024 < length trimmed \<or> 128 < length source \<or> contains_space source \<or>
           \<not> validAssurance (ref_Assurance r)
        then Inl IdtInvalidReference
        else
         (let value = (if ref_Kind r = KindPhone \<and> scope = ''phone:e164'' then compactPhone trimmed else trimmed) in
          if ref_Kind r = KindPhone \<and> scope = ''phone:cn11'' \<and> value \<noteq> ref_Value r then Inl IdtInvalidReference
          else if ref_Kind r = KindPhone \<and>
             (scope = ''phone:e164'' \<and> \<not> phoneE164 value \<or> scope = ''phone:cn11'' \<and> \<not> phoneCN11 value)
          then Inl IdtInvalidReference
          else Inr \<lparr>nrf_Kind = ref_Kind r, nrf_Scope = scope, nrf_NormalizedValue = value,
            nrf_Assurance = ref_Assurance r, nrf_Source = source,
            nrf_NormalizerVersion = NormalizerVersion\<rparr>)))"

subsection \<open>Verified facts and evidence\<close>

text \<open>The reference of a \<open>VerifiedFact\<close> is not exported: other packages build facts with \<open>NewVerifiedFact\<close> only.\<close>

record verified_fact =
  fct_Reference :: normalized_reference

record verified_input =
  vin_Kind :: identity_kind
  vin_Scope :: string
  vin_Value :: string
  vin_Source :: string

definition NewVerifiedFact :: "verified_input \<Rightarrow> (identity_error, verified_fact) result" where
  "NewVerifiedFact input =
     (case Normalize \<lparr>ref_Kind = vin_Kind input, ref_Scope = vin_Scope input, ref_Value = vin_Value input,
         ref_Assurance = AssuranceVerified, ref_Source = vin_Source input\<rparr> of
        Inl e \<Rightarrow> Inl IdtInvalidReference
      | Inr n \<Rightarrow> Inr \<lparr>fct_Reference = n\<rparr>)"

definition Fact_Valid :: "verified_fact \<Rightarrow> bool" where
  "Fact_Valid f \<longleftrightarrow>
     nrf_Assurance (fct_Reference f) = AssuranceVerified \<and> validKind (nrf_Kind (fct_Reference f)) \<and>
     validScope (nrf_Kind (fct_Reference f)) (nrf_Scope (fct_Reference f)) \<and>
     nrf_NormalizedValue (fct_Reference f) \<noteq> [] \<and> nrf_Source (fct_Reference f) \<noteq> []"

datatype evidence_strength = EvidenceStrong | EvidenceMedium | EvidenceWeak | EvidenceOther string

fun strength_text :: "evidence_strength \<Rightarrow> string" where
  "strength_text EvidenceStrong = ''strong''"
| "strength_text EvidenceMedium = ''medium''"
| "strength_text EvidenceWeak = ''weak''"
| "strength_text (EvidenceOther s) = s"

record link_evidence =
  evd_Type :: string
  evd_Strength :: evidence_strength
  evd_Source :: string
  evd_EventID :: string
  evd_Digest :: string
  evd_PolicyVersion :: string

definition Evidence_Valid :: "link_evidence \<Rightarrow> bool" where
  "Evidence_Valid e \<longleftrightarrow>
     evd_Type e \<noteq> [] \<and> evd_Source e \<noteq> [] \<and> evd_Digest e \<noteq> [] \<and> evd_PolicyVersion e \<noteq> [] \<and>
     evd_Strength e \<in> {EvidenceStrong, EvidenceMedium, EvidenceWeak}"

datatype customer_status = CustomerActive | CustomerMerged | CustomerClosed | CustomerStatusOther string

end
