(* ===== verification/IdentityStore.thy ===== *)
theory IdentityStore
  imports IdentityDomain GoTime
begin

text \<open>
  \<open>internal/identity/app/memory_store.go\<close>, the in-memory implementation of the transaction contract
  \<open>Store\<close> of \<open>oneid.go\<close>: customers with their merge lineage, identities by key, merge
  candidates, conflicts, merge records, one-time link intents and receipts of declared phones.

  Every method holds the mutex, so it is a function of the store.  The maps of customers and
  identities, which the code ranges over, are lists in the order of creation; the other maps are
  functions.  Reading a missing key yields the zero value.  Methods return their result together
  with the store, which keeps what was written before an error.
\<close>

subsection \<open>Rows\<close>

record memory_customer =
  cus_ID :: int
  cus_Status :: customer_status
  cus_MergedTo :: int
  cus_Version :: int
  cus_Lineage :: int

record stored_identity =
  sid_ID :: int
  sid_CustomerID :: int
  sid_Reference :: normalized_reference

record memory_identity = stored_identity +
  mid_Active :: bool
  mid_Version :: int

datatype candidate_status = CandidateNone | CandidateOpen | CandidateRejected | CandidateConfirmed

record merge_candidate =
  cnd_ID :: int
  cnd_LeftCustomerID :: int
  cnd_RightCustomerID :: int
  cnd_Evidence :: link_evidence
  cnd_Reason :: string
  cnd_Status :: candidate_status
  cnd_LeftVersion :: int
  cnd_RightVersion :: int

record conflict =
  cnf_ID :: int
  cnf_LeftCustomerID :: int
  cnf_RightCustomerID :: int
  cnf_Reason :: string
  cnf_Evidence :: link_evidence

record merge_record =
  mrg_ID :: int
  mrg_CandidateID :: int
  mrg_FromCustomerID :: int
  mrg_ToCustomerID :: int
  mrg_FromVersionBefore :: int
  mrg_FromVersionAfter :: int
  mrg_ToVersionBefore :: int
  mrg_ToVersionAfter :: int
  mrg_FromLineageBefore :: int
  mrg_FromLineageAfter :: int
  mrg_ToLineageBefore :: int
  mrg_ToLineageAfter :: int
  mrg_Evidence :: link_evidence
  mrg_Rule :: string
  mrg_Operator :: string
  mrg_Reversed :: bool

record merge_member =
  mbr_IdentityID :: int
  mbr_From :: int
  mbr_To :: int
  mbr_VersionAfter :: int

datatype link_status =
    LinkNone
  | LinkAttached
  | LinkAlreadyLinked
  | LinkCandidate
  | LinkCandidateRejected
  | LinkConflict
  | LinkMerged
  | LinkIntentExpired
  | LinkIntentReplay
  | LinkIntentInvalidated
  | LinkScopeMismatch

record link_result =
  lkr_Status :: link_status
  lkr_ReplayOf :: link_status
  lkr_CustomerID :: int
  lkr_IdentityID :: int
  lkr_Candidate :: "merge_candidate option"
  lkr_Conflict :: "conflict option"
  lkr_Merge :: "merge_record option"

definition no_result :: link_result where
  "no_result = \<lparr>lkr_Status = LinkNone, lkr_ReplayOf = LinkNone, lkr_CustomerID = 0, lkr_IdentityID = 0,
     lkr_Candidate = None, lkr_Conflict = None, lkr_Merge = None\<rparr>"

record link_command =
  lkc_SourceCustomerID :: int
  lkc_Target :: verified_fact
  lkc_Evidence :: link_evidence

datatype intent_purpose = LinkIntentBindWeCom | LinkIntentBindProviderIdentity | IntentPurposeOther string

record link_intent_command =
  lic_SourceCustomerID :: int
  lic_Purpose :: intent_purpose
  lic_TargetKind :: identity_kind
  lic_ExpectedScope :: string
  lic_ExpiresAt :: go_time
  lic_Source :: string
  lic_SourceEventID :: string

record created_link_intent =
  cli_ID :: int
  cli_Token :: string
  cli_ExpiresAt :: go_time

record consume_intent_command =
  cic_Token :: string
  cic_Target :: verified_fact
  cic_Evidence :: link_evidence

record confirm_merge_command =
  cmc_CandidateID :: int
  cmc_SurvivorCustomerID :: int
  cmc_Operator :: string

datatype intent_status = IntentPending | IntentConsumed | IntentExpired | IntentCancelled

record memory_link_intent =
  mli_ID :: int
  mli_Hash :: string
  mli_Command :: link_intent_command
  mli_SourceVersion :: int
  mli_Status :: intent_status
  mli_ExpiresAt :: go_time
  mli_ConsumptionFingerprint :: string
  mli_Result :: link_result

datatype declared_status =
    DeclaredNone
  | DeclaredAttached
  | DeclaredAlreadyLinked
  | DeclaredConflict
  | DeclaredInvalid
  | DeclaredReplayed

record declared_result =
  dar_Status :: declared_status
  dar_ReplayOf :: declared_status
  dar_CustomerID :: int
  dar_IdentityID :: int

record declared_phone_command =
  dpc_OnlyIfEmpty :: bool
  dpc_CustomerID :: int
  dpc_Phone :: string
  dpc_Source :: string
  dpc_SourceEventID :: string
  dpc_IdempotencyKey :: string

record provisioned_identity =
  pid_CustomerID :: int
  pid_IdentityID :: int
  pid_Created :: bool

record memory_store =
  mst_NextCustomerID :: int
  mst_NextIdentityID :: int
  mst_NextCandidateID :: int
  mst_NextConflictID :: int
  mst_NextMergeID :: int
  mst_NextIntentID :: int
  mst_Customers :: "memory_customer list"
  mst_Identities :: "memory_identity list"
  mst_IdentityByKey :: "string \<Rightarrow> int option"
  mst_Candidates :: "int \<Rightarrow> merge_candidate option"
  mst_CandidateByPair :: "string \<Rightarrow> int option"
  mst_Conflicts :: "string \<Rightarrow> conflict option"
  mst_Merges :: "int \<Rightarrow> merge_record option"
  mst_MovedByMerge :: "int \<Rightarrow> merge_member list"
  mst_IntentsByHash :: "string \<Rightarrow> memory_link_intent option"
  mst_PhoneReceipts :: "string \<Rightarrow> (w32 list \<times> declared_result) option"

definition NewMemoryStore :: memory_store where
  "NewMemoryStore = \<lparr>mst_NextCustomerID = 0, mst_NextIdentityID = 0, mst_NextCandidateID = 0,
     mst_NextConflictID = 0, mst_NextMergeID = 0, mst_NextIntentID = 0, mst_Customers = [],
     mst_Identities = [], mst_IdentityByKey = Map.empty, mst_Candidates = Map.empty,
     mst_CandidateByPair = Map.empty, mst_Conflicts = Map.empty, mst_Merges = Map.empty,
     mst_MovedByMerge = (\<lambda>_. []), mst_IntentsByHash = Map.empty, mst_PhoneReceipts = Map.empty\<rparr>"

subsection \<open>Customers and their roots\<close>

definition next64 :: "int \<Rightarrow> int" where
  "next64 x = wrap64 (x + 1)"

definition find_customer :: "memory_customer list \<Rightarrow> int \<Rightarrow> memory_customer option" where
  "find_customer cs i = find (\<lambda>c. cus_ID c = i) cs"

definition zero_customer :: memory_customer where
  "zero_customer = \<lparr>cus_ID = 0, cus_Status = CustomerStatusOther [], cus_MergedTo = 0, cus_Version = 0,
     cus_Lineage = 0\<rparr>"

definition customer_at :: "memory_store \<Rightarrow> int \<Rightarrow> memory_customer" where
  "customer_at st i =
     (case find_customer (mst_Customers st) i of None \<Rightarrow> zero_customer | Some c \<Rightarrow> c)"

text \<open>Assignment to a key of the map.\<close>

definition put_customer :: "int \<Rightarrow> memory_customer \<Rightarrow> memory_store \<Rightarrow> memory_store" where
  "put_customer i c st = st\<lparr>mst_Customers :=
     (if find_customer (mst_Customers st) i = None then mst_Customers st @ [c]
      else map (\<lambda>x. if cus_ID x = i then c else x) (mst_Customers st))\<rparr>"

text \<open>The walk to the root remembers the customers it has seen, so it ends on any table.\<close>

function rootLocked_from :: "memory_customer list \<Rightarrow> int list \<Rightarrow> int \<Rightarrow> int" where
  "rootLocked_from cs seen i =
     (if i \<le> 0 then 0
      else if i \<in> set seen then 0
      else
       (case find_customer cs i of
          None \<Rightarrow> 0
        | Some c \<Rightarrow>
            if cus_Status c \<noteq> CustomerMerged then i
            else rootLocked_from cs (i # seen) (cus_MergedTo c)))"
  by pat_completeness auto
termination
proof (relation "measure (\<lambda>(cs, seen, i). card (cus_ID ` set cs - set seen))", goal_cases)
  case (2 cs seen i c)
  then have "i \<in> cus_ID ` set cs"
    by (auto simp: find_customer_def find_Some_iff)
  with 2(2) have "cus_ID ` set cs - set (i # seen) \<subset> cus_ID ` set cs - set seen" by auto
  then show ?case by (simp add: psubset_card_mono)
qed simp

declare rootLocked_from.simps [simp del]

definition rootLocked :: "memory_store \<Rightarrow> int \<Rightarrow> int" where
  "rootLocked st i = rootLocked_from (mst_Customers st) [] i"

definition activeRootLocked :: "memory_store \<Rightarrow> int \<Rightarrow> int" where
  "activeRootLocked st i =
     (let root = rootLocked st i in
      if root < 1 \<or> cus_Status (customer_at st root) \<noteq> CustomerActive then 0 else root)"

definition createCustomerLocked :: "memory_store \<Rightarrow> int \<times> memory_store" where
  "createCustomerLocked st =
     (let i = next64 (mst_NextCustomerID st) in
      (i, put_customer i \<lparr>cus_ID = i, cus_Status = CustomerActive, cus_MergedTo = 0, cus_Version = 1,
            cus_Lineage = 1\<rparr> (st\<lparr>mst_NextCustomerID := i\<rparr>)))"

definition touchCustomerLocked :: "int \<Rightarrow> memory_store \<Rightarrow> memory_store" where
  "touchCustomerLocked i st =
     (let c = customer_at st i in put_customer i (c\<lparr>cus_Version := next64 (cus_Version c)\<rparr>) st)"

subsection \<open>Identities\<close>

definition identityKey :: "normalized_reference \<Rightarrow> string" where
  "identityKey r = kind_text (nrf_Kind r) @ [CHR 0x00] @ nrf_Scope r @ [CHR 0x00] @ nrf_NormalizedValue r"

definition find_identity :: "memory_store \<Rightarrow> int \<Rightarrow> memory_identity option" where
  "find_identity st i = find (\<lambda>x. sid_ID x = i) (mst_Identities st)"

definition zero_reference :: normalized_reference where
  "zero_reference = \<lparr>nrf_Kind = KindOther [], nrf_Scope = [], nrf_NormalizedValue = [],
     nrf_Assurance = AssuranceOther [], nrf_Source = [], nrf_NormalizerVersion = 0\<rparr>"

definition zero_identity :: memory_identity where
  "zero_identity = \<lparr>sid_ID = 0, sid_CustomerID = 0, sid_Reference = zero_reference, mid_Active = False,
     mid_Version = 0\<rparr>"

definition identity_at :: "memory_store \<Rightarrow> int \<Rightarrow> memory_identity" where
  "identity_at st i = (case find_identity st i of None \<Rightarrow> zero_identity | Some x \<Rightarrow> x)"

definition put_identity :: "int \<Rightarrow> memory_identity \<Rightarrow> memory_store \<Rightarrow> memory_store" where
  "put_identity i x st = st\<lparr>mst_Identities :=
     (if find_identity st i = None then mst_Identities st @ [x]
      else map (\<lambda>y. if sid_ID y = i then x else y) (mst_Identities st))\<rparr>"

definition createIdentityLocked :: "int \<Rightarrow> normalized_reference \<Rightarrow> memory_store \<Rightarrow> int \<times> memory_store" where
  "createIdentityLocked customer r st =
     (let i = next64 (mst_NextIdentityID st);
          x = \<lparr>sid_ID = i, sid_CustomerID = customer, sid_Reference = r, mid_Active = True, mid_Version = 1\<rparr>;
          st1 = put_identity i x (st\<lparr>mst_NextIdentityID := i\<rparr>) in
      (i, st1\<lparr>mst_IdentityByKey := (mst_IdentityByKey st1)(identityKey r \<mapsto> i)\<rparr>))"

fun singleValueStrong :: "identity_kind \<Rightarrow> bool" where
  "singleValueStrong KindPhone = False"
| "singleValueStrong KindExtension = False"
| "singleValueStrong (KindOther s) = False"
| "singleValueStrong _ = True"

definition owned :: "memory_store \<Rightarrow> int \<Rightarrow> memory_identity \<Rightarrow> bool" where
  "owned st root x \<longleftrightarrow> mid_Active x \<and> rootLocked st (sid_CustomerID x) = root"

definition hasWeComLocked :: "memory_store \<Rightarrow> int \<Rightarrow> bool" where
  "hasWeComLocked st root \<longleftrightarrow>
     list_ex (\<lambda>x. owned st root x \<and> nrf_Kind (sid_Reference x) = KindWeComExternalUserID) (mst_Identities st)"

definition strongConflictLocked :: "memory_store \<Rightarrow> int \<Rightarrow> int \<Rightarrow> string" where
  "strongConflictLocked st left right =
     (if hasWeComLocked st left \<and> hasWeComLocked st right then ''two_wecom_roots''
      else if list_ex (\<lambda>l. owned st left l \<and> singleValueStrong (nrf_Kind (sid_Reference l)) \<and>
          list_ex (\<lambda>r. owned st right r \<and> nrf_Kind (sid_Reference r) = nrf_Kind (sid_Reference l) \<and>
             nrf_Scope (sid_Reference r) = nrf_Scope (sid_Reference l) \<and>
             nrf_NormalizedValue (sid_Reference r) \<noteq> nrf_NormalizedValue (sid_Reference l)) (mst_Identities st))
        (mst_Identities st)
      then ''single_value_strong_namespace'' else [])"

definition sameRootStrongConflictLocked :: "memory_store \<Rightarrow> int \<Rightarrow> normalized_reference \<Rightarrow> string" where
  "sameRootStrongConflictLocked st customer r =
     (if \<not> singleValueStrong (nrf_Kind r) then []
      else if list_ex (\<lambda>x. owned st customer x \<and> nrf_Kind (sid_Reference x) = nrf_Kind r \<and>
          nrf_Scope (sid_Reference x) = nrf_Scope r \<and>
          nrf_NormalizedValue (sid_Reference x) \<noteq> nrf_NormalizedValue r) (mst_Identities st)
      then (if nrf_Kind r = KindWeComExternalUserID then ''two_wecom_identities_same_root''
            else ''single_value_strong_namespace'')
      else [])"

subsection \<open>Candidates and conflicts\<close>

definition evidenceRank :: "evidence_strength \<Rightarrow> int" where
  "evidenceRank s = (case s of EvidenceStrong \<Rightarrow> 3 | EvidenceMedium \<Rightarrow> 2 | EvidenceWeak \<Rightarrow> 1 | EvidenceOther _ \<Rightarrow> 0)"

definition candidatePairKey :: "int \<Rightarrow> int \<Rightarrow> string" where
  "candidatePairKey left right =
     (if right < left then format_int right @ '':'' @ format_int left
      else format_int left @ '':'' @ format_int right)"

definition candidateVersionsMatchLocked :: "memory_store \<Rightarrow> merge_candidate \<Rightarrow> bool" where
  "candidateVersionsMatchLocked st c \<longleftrightarrow>
     (case (find_customer (mst_Customers st) (cnd_LeftCustomerID c),
            find_customer (mst_Customers st) (cnd_RightCustomerID c)) of
        (Some l, Some r) \<Rightarrow> cus_Status l = CustomerActive \<and> cus_Status r = CustomerActive \<and>
          cus_Version l = cnd_LeftVersion c \<and> cus_Version r = cnd_RightVersion c
      | _ \<Rightarrow> False)"

definition rejectCandidateLocked :: "merge_candidate \<Rightarrow> memory_store \<Rightarrow> merge_candidate \<times> memory_store" where
  "rejectCandidateLocked c st =
     (let r = c\<lparr>cnd_Status := CandidateRejected\<rparr> in
      (r, st\<lparr>mst_Candidates := (mst_Candidates st)(cnd_ID c \<mapsto> r),
             mst_CandidateByPair := (mst_CandidateByPair st)
               (candidatePairKey (cnd_LeftCustomerID c) (cnd_RightCustomerID c) := None)\<rparr>))"

definition new_candidate ::
  "int \<Rightarrow> int \<Rightarrow> link_evidence \<Rightarrow> string \<Rightarrow> memory_store \<Rightarrow> merge_candidate \<times> memory_store" where
  "new_candidate left right evidence reason st =
     (let i = next64 (mst_NextCandidateID st);
          c = \<lparr>cnd_ID = i, cnd_LeftCustomerID = left, cnd_RightCustomerID = right, cnd_Evidence = evidence,
            cnd_Reason = reason, cnd_Status = CandidateOpen, cnd_LeftVersion = cus_Version (customer_at st left),
            cnd_RightVersion = cus_Version (customer_at st right)\<rparr> in
      (c, st\<lparr>mst_NextCandidateID := i, mst_Candidates := (mst_Candidates st)(i \<mapsto> c),
             mst_CandidateByPair := (mst_CandidateByPair st)(candidatePairKey left right \<mapsto> i)\<rparr>))"

text \<open>A pair that names a missing candidate reads the zero candidate, which is not open and is rejected.\<close>

definition zero_evidence :: link_evidence where
  "zero_evidence = \<lparr>evd_Type = [], evd_Strength = EvidenceOther [], evd_Source = [], evd_EventID = [],
     evd_Digest = [], evd_PolicyVersion = []\<rparr>"

definition zero_candidate :: merge_candidate where
  "zero_candidate = \<lparr>cnd_ID = 0, cnd_LeftCustomerID = 0, cnd_RightCustomerID = 0, cnd_Evidence = zero_evidence,
     cnd_Reason = [], cnd_Status = CandidateNone, cnd_LeftVersion = 0, cnd_RightVersion = 0\<rparr>"

definition createCandidateLocked ::
  "int \<Rightarrow> int \<Rightarrow> link_evidence \<Rightarrow> string \<Rightarrow> memory_store \<Rightarrow> merge_candidate \<times> memory_store" where
  "createCandidateLocked left right evidence reason st =
     (case mst_CandidateByPair st (candidatePairKey left right) of
        None \<Rightarrow> new_candidate left right evidence reason st
      | Some i \<Rightarrow>
          (let existing = (case mst_Candidates st i of None \<Rightarrow> zero_candidate | Some c \<Rightarrow> c) in
           if cnd_Status existing = CandidateOpen \<and> candidateVersionsMatchLocked st existing then
             (if evidenceRank (evd_Strength (cnd_Evidence existing)) < evidenceRank (evd_Strength evidence) then
                (let c = existing\<lparr>cnd_Evidence := evidence, cnd_Reason := reason\<rparr> in
                 (c, st\<lparr>mst_Candidates := (mst_Candidates st)(cnd_ID existing \<mapsto> c)\<rparr>))
              else (existing, st))
           else new_candidate left right evidence reason (snd (rejectCandidateLocked existing st))))"

definition createConflictLocked ::
  "int \<Rightarrow> int \<Rightarrow> string \<Rightarrow> link_evidence \<Rightarrow> memory_store \<Rightarrow> conflict \<times> memory_store" where
  "createConflictLocked a b reason evidence st =
     (let left = min a b; right = max a b;
          key = format_int left @ '':'' @ format_int right @ '':'' @ reason in
      case mst_Conflicts st key of
        Some existing \<Rightarrow> (existing, st)
      | None \<Rightarrow>
          (let i = next64 (mst_NextConflictID st);
               c = \<lparr>cnf_ID = i, cnf_LeftCustomerID = left, cnf_RightCustomerID = right, cnf_Reason = reason,
                 cnf_Evidence = evidence\<rparr> in
           (c, st\<lparr>mst_NextConflictID := i, mst_Conflicts := (mst_Conflicts st)(key \<mapsto> c)\<rparr>)))"

subsection \<open>Resolving, provisioning, linking\<close>

definition Store_Resolve :: "memory_store \<Rightarrow> normalized_reference \<Rightarrow> stored_identity option" where
  "Store_Resolve st r =
     (case mst_IdentityByKey st (identityKey r) of
        None \<Rightarrow> None
      | Some i \<Rightarrow>
          (let x = identity_at st i in
           if \<not> mid_Active x then None
           else Some \<lparr>sid_ID = sid_ID x, sid_CustomerID = rootLocked st (sid_CustomerID x),
             sid_Reference = sid_Reference x\<rparr>))"

definition Store_Provision :: "verified_fact \<Rightarrow> memory_store \<Rightarrow> provisioned_identity \<times> memory_store" where
  "Store_Provision vf st =
     (case mst_IdentityByKey st (identityKey (fct_Reference vf)) of
        Some i \<Rightarrow> (\<lparr>pid_CustomerID = rootLocked st (sid_CustomerID (identity_at st i)), pid_IdentityID = i,
          pid_Created = False\<rparr>, st)
      | None \<Rightarrow>
          (let (customer, st1) = createCustomerLocked st;
               (i, st2) = createIdentityLocked customer (fct_Reference vf) st1 in
           (\<lparr>pid_CustomerID = customer, pid_IdentityID = i, pid_Created = True\<rparr>, st2)))"

type_synonym 'a store_answer = "(identity_error, 'a) result \<times> memory_store"

definition linkLocked :: "link_command \<Rightarrow> memory_store \<Rightarrow> link_result store_answer" where
  "linkLocked command st =
     (let source = activeRootLocked st (lkc_SourceCustomerID command);
          r = fct_Reference (lkc_Target command); evidence = lkc_Evidence command in
      if source < 1 then (Inl IdtInvalidLinkCommand, st)
      else
       (case mst_IdentityByKey st (identityKey r) of
          None \<Rightarrow>
            if evd_Strength evidence \<noteq> EvidenceStrong then (Inl IdtInsufficientEvidence, st)
            else if sameRootStrongConflictLocked st source r \<noteq> [] then
              (let (c, st1) = createConflictLocked source source (sameRootStrongConflictLocked st source r) evidence st in
               (Inr (no_result\<lparr>lkr_Status := LinkConflict, lkr_CustomerID := source, lkr_Conflict := Some c\<rparr>), st1))
            else
              (let (i, st1) = createIdentityLocked source r st in
               (Inr (no_result\<lparr>lkr_Status := LinkAttached, lkr_CustomerID := source, lkr_IdentityID := i\<rparr>),
                touchCustomerLocked source st1))
        | Some i \<Rightarrow>
            (let target = rootLocked st (sid_CustomerID (identity_at st i)) in
             if target = source then
               (Inr (no_result\<lparr>lkr_Status := LinkAlreadyLinked, lkr_CustomerID := source, lkr_IdentityID := i\<rparr>), st)
             else
               (let (c, st1) = createCandidateLocked source target evidence
                   (if evd_Strength evidence \<noteq> EvidenceStrong then ''non_strong_evidence''
                    else ''cross_root_link_requires_confirmation'') st in
                (Inr (no_result\<lparr>lkr_Status := LinkCandidate, lkr_CustomerID := source, lkr_IdentityID := i,
                   lkr_Candidate := Some c\<rparr>), st1)))))"

definition Store_Link :: "link_command \<Rightarrow> memory_store \<Rightarrow> link_result store_answer" where
  "Store_Link command st = linkLocked command st"

subsection \<open>Merges\<close>

text \<open>The identities of the loser move; the records of the moves are sorted by identity.\<close>

definition mergeLocked ::
  "int \<Rightarrow> int \<Rightarrow> int \<Rightarrow> link_evidence \<Rightarrow> string \<Rightarrow> memory_store \<Rightarrow> merge_record \<times> memory_store" where
  "mergeLocked candidate loser survivor evidence operator st =
     (let i = next64 (mst_NextMergeID st);
          l = customer_at st loser; s = customer_at st survivor;
          moves = (\<lambda>x. owned st loser x);
          identities = map (\<lambda>x. if moves x
            then x\<lparr>sid_CustomerID := survivor, mid_Version := next64 (mid_Version x)\<rparr> else x) (mst_Identities st);
          moved = sort_key mbr_IdentityID (map (\<lambda>x. \<lparr>mbr_IdentityID = sid_ID x, mbr_From = loser,
            mbr_To = survivor, mbr_VersionAfter = next64 (mid_Version x)\<rparr>) (filter moves (mst_Identities st)));
          l' = l\<lparr>cus_Status := CustomerMerged, cus_MergedTo := survivor, cus_Version := next64 (cus_Version l),
            cus_Lineage := next64 (cus_Lineage l)\<rparr>;
          s' = s\<lparr>cus_Version := next64 (cus_Version s), cus_Lineage := next64 (cus_Lineage s)\<rparr>;
          m = \<lparr>mrg_ID = i, mrg_CandidateID = candidate, mrg_FromCustomerID = loser, mrg_ToCustomerID = survivor,
            mrg_FromVersionBefore = cus_Version l, mrg_FromVersionAfter = cus_Version l',
            mrg_ToVersionBefore = cus_Version s, mrg_ToVersionAfter = cus_Version s',
            mrg_FromLineageBefore = cus_Lineage l, mrg_FromLineageAfter = cus_Lineage l',
            mrg_ToLineageBefore = cus_Lineage s, mrg_ToLineageAfter = cus_Lineage s',
            mrg_Evidence = evidence, mrg_Rule = ''confirmed_candidate'', mrg_Operator = operator,
            mrg_Reversed = False\<rparr>;
          st1 = put_customer survivor s' (put_customer loser l'
            (st\<lparr>mst_NextMergeID := i, mst_Identities := identities\<rparr>)) in
      (m, st1\<lparr>mst_Merges := (mst_Merges st1)(i \<mapsto> m), mst_MovedByMerge := (mst_MovedByMerge st1)(i := moved)\<rparr>))"

definition Store_ConfirmMerge :: "confirm_merge_command \<Rightarrow> memory_store \<Rightarrow> link_result store_answer" where
  "Store_ConfirmMerge command st =
     (case mst_Candidates st (cmc_CandidateID command) of
        None \<Rightarrow> (Inl IdtInvalidLinkCommand, st)
      | Some candidate \<Rightarrow>
          (let left = cnd_LeftCustomerID candidate; right = cnd_RightCustomerID candidate;
               survivor = cmc_SurvivorCustomerID command in
           if cnd_Status candidate \<noteq> CandidateOpen \<or> evd_Strength (cnd_Evidence candidate) \<noteq> EvidenceStrong
           then (Inl IdtInvalidLinkCommand, st)
           else if left = right \<or> (survivor \<noteq> left \<and> survivor \<noteq> right) then (Inl IdtInvalidLinkCommand, st)
           else if \<not> candidateVersionsMatchLocked st candidate then
             (let (c, st1) = rejectCandidateLocked candidate st in
              (Inr (no_result\<lparr>lkr_Status := LinkCandidateRejected, lkr_CustomerID := survivor,
                 lkr_Candidate := Some c\<rparr>), st1))
           else if strongConflictLocked st left right \<noteq> [] then
             (let (x, st1) = createConflictLocked left right (strongConflictLocked st left right)
                  (cnd_Evidence candidate) st;
                  (c, st2) = rejectCandidateLocked candidate st1 in
              (Inr (no_result\<lparr>lkr_Status := LinkConflict, lkr_CustomerID := survivor, lkr_Candidate := Some c,
                 lkr_Conflict := Some x\<rparr>), st2))
           else if hasWeComLocked st left \<noteq> hasWeComLocked st right \<and>
               survivor \<noteq> (if hasWeComLocked st left then left else right)
           then (Inl IdtInvalidLinkCommand, st)
           else
             (let loser = (if survivor = left then right else left);
                  (m, st1) = mergeLocked (cnd_ID candidate) loser survivor (cnd_Evidence candidate)
                    (cmc_Operator command) st;
                  c = candidate\<lparr>cnd_Status := CandidateConfirmed\<rparr> in
              (Inr (no_result\<lparr>lkr_Status := LinkMerged, lkr_CustomerID := survivor, lkr_Candidate := Some c,
                 lkr_Merge := Some m\<rparr>),
               st1\<lparr>mst_Candidates := (mst_Candidates st1)(cnd_ID candidate \<mapsto> c),
                   mst_CandidateByPair := (mst_CandidateByPair st1)(candidatePairKey left right := None)\<rparr>))))"

definition member_unmoved :: "memory_store \<Rightarrow> merge_member \<Rightarrow> bool" where
  "member_unmoved st m \<longleftrightarrow>
     (case find_identity st (mbr_IdentityID m) of
        None \<Rightarrow> False
      | Some x \<Rightarrow> mid_Active x \<and> sid_CustomerID x = mbr_To m \<and> mid_Version x = mbr_VersionAfter m)"

definition move_back :: "merge_member \<Rightarrow> memory_store \<Rightarrow> memory_store" where
  "move_back m st =
     (let x = identity_at st (mbr_IdentityID m) in
      put_identity (mbr_IdentityID m)
        (x\<lparr>sid_CustomerID := mbr_From m, mid_Version := next64 (mid_Version x)\<rparr>) st)"

definition Store_RevertMerge :: "int \<Rightarrow> memory_store \<Rightarrow> merge_record store_answer" where
  "Store_RevertMerge mergeID st =
     (case mst_Merges st mergeID of
        None \<Rightarrow> (Inl IdtMergeNotReversible, st)
      | Some m \<Rightarrow>
          (let from = customer_at st (mrg_FromCustomerID m) in
           if mrg_Reversed m then (Inl IdtMergeNotReversible, st)
           else if cus_Status from \<noteq> CustomerMerged \<or> cus_MergedTo from \<noteq> mrg_ToCustomerID m
           then (Inl IdtMergeNotReversible, st)
           else
            (case find_customer (mst_Customers st) (mrg_ToCustomerID m) of
               None \<Rightarrow> (Inl IdtMergeNotReversible, st)
             | Some to \<Rightarrow>
                 if cus_Status to \<noteq> CustomerActive \<or> cus_Lineage from \<noteq> mrg_FromLineageAfter m \<or>
                    cus_Lineage to \<noteq> mrg_ToLineageAfter m then (Inl IdtMergeNotReversible, st)
                 else if \<not> list_all (member_unmoved st) (mst_MovedByMerge st mergeID)
                 then (Inl IdtMergeNotReversible, st)
                 else
                   (let st1 = fold move_back (mst_MovedByMerge st mergeID) st;
                        from' = from\<lparr>cus_Status := CustomerActive, cus_MergedTo := 0,
                          cus_Version := next64 (cus_Version from), cus_Lineage := next64 (cus_Lineage from)\<rparr>;
                        to' = to\<lparr>cus_Version := next64 (cus_Version to), cus_Lineage := next64 (cus_Lineage to)\<rparr>;
                        m' = m\<lparr>mrg_Reversed := True\<rparr>;
                        st2 = put_customer (cus_ID to) to' (put_customer (cus_ID from) from' st1) in
                    (Inr m', st2\<lparr>mst_Merges := (mst_Merges st2)(mergeID \<mapsto> m')\<rparr>)))))"

subsection \<open>Link intents\<close>

definition linkTokenHash :: "string \<Rightarrow> string" where
  "linkTokenHash token = base64_std (digest_bytes (Sum256 token))"

definition linkIntentConsumptionFingerprint :: "consume_intent_command \<Rightarrow> string" where
  "linkIntentConsumptionFingerprint command =
     (let r = fct_Reference (cic_Target command); e = cic_Evidence command;
          fields = [kind_text (nrf_Kind r), nrf_Scope r, nrf_NormalizedValue r, assurance_text (nrf_Assurance r),
            nrf_Source r, format_int (nrf_NormalizerVersion r), evd_Type e, strength_text (evd_Strength e),
            evd_Source e, evd_EventID e, evd_Digest e, evd_PolicyVersion e] in
      base64_std (digest_bytes (Sum256
        (concat (map (\<lambda>f. format_int (int (length f)) @ '':'' @ f) fields)))))"

definition replayLinkResult :: "link_result \<Rightarrow> link_result" where
  "replayLinkResult r = r\<lparr>lkr_ReplayOf := lkr_Status r, lkr_Status := LinkIntentReplay\<rparr>"

text \<open>The random bytes of the token are an argument.\<close>

definition Store_CreateLinkIntent ::
  "nat list option \<Rightarrow> link_intent_command \<Rightarrow> memory_store \<Rightarrow> created_link_intent store_answer" where
  "Store_CreateLinkIntent random command st =
     (let source = activeRootLocked st (lic_SourceCustomerID command);
          bound = command\<lparr>lic_SourceCustomerID := source\<rparr> in
      if source < 1 then (Inl IdtInvalidLinkCommand, st)
      else
       (case random of
          None \<Rightarrow> (Inl IdtRandom, st)
        | Some bytes \<Rightarrow>
            (let token = base64_url bytes; hash = linkTokenHash token; i = next64 (mst_NextIntentID st);
                 intent = \<lparr>mli_ID = i, mli_Hash = hash, mli_Command = bound,
                   mli_SourceVersion = cus_Version (customer_at st source), mli_Status = IntentPending,
                   mli_ExpiresAt = lic_ExpiresAt command, mli_ConsumptionFingerprint = [], mli_Result = no_result\<rparr> in
             (Inr \<lparr>cli_ID = i, cli_Token = token, cli_ExpiresAt = lic_ExpiresAt command\<rparr>,
              st\<lparr>mst_NextIntentID := i, mst_IntentsByHash := (mst_IntentsByHash st)(hash \<mapsto> intent)\<rparr>))))"

definition put_intent :: "string \<Rightarrow> memory_link_intent \<Rightarrow> memory_store \<Rightarrow> memory_store" where
  "put_intent hash intent st = st\<lparr>mst_IntentsByHash := (mst_IntentsByHash st)(hash \<mapsto> intent)\<rparr>"

definition Store_ConsumeLinkIntent ::
  "go_time \<Rightarrow> consume_intent_command \<Rightarrow> memory_store \<Rightarrow> link_result store_answer" where
  "Store_ConsumeLinkIntent now command st =
     (let hash = linkTokenHash (cic_Token command); r = fct_Reference (cic_Target command) in
      case mst_IntentsByHash st hash of
        None \<Rightarrow> (Inr (no_result\<lparr>lkr_Status := LinkIntentReplay\<rparr>), st)
      | Some intent \<Rightarrow>
          (let fingerprint = linkIntentConsumptionFingerprint command; source = lic_SourceCustomerID (mli_Command intent) in
           case mli_Status intent of
             IntentConsumed \<Rightarrow>
               if mli_ConsumptionFingerprint intent \<noteq> fingerprint then (Inl IdtIntentPayloadMismatch, st)
               else (Inr (replayLinkResult (mli_Result intent)), st)
           | IntentExpired \<Rightarrow> (Inr (no_result\<lparr>lkr_Status := LinkIntentExpired\<rparr>), st)
           | IntentCancelled \<Rightarrow> (Inr (no_result\<lparr>lkr_Status := LinkIntentInvalidated\<rparr>), st)
           | IntentPending \<Rightarrow>
               if \<not> before now (mli_ExpiresAt intent) then
                 (Inr (no_result\<lparr>lkr_Status := LinkIntentExpired\<rparr>),
                  put_intent hash (intent\<lparr>mli_Status := IntentExpired\<rparr>) st)
               else if nrf_Kind r \<noteq> lic_TargetKind (mli_Command intent) \<or>
                  lic_ExpectedScope (mli_Command intent) \<noteq> [] \<and>
                  nrf_Scope r \<noteq> lic_ExpectedScope (mli_Command intent)
               then (Inr (no_result\<lparr>lkr_Status := LinkScopeMismatch\<rparr>), st)
               else if activeRootLocked st source \<noteq> source \<or>
                  cus_Version (customer_at st source) \<noteq> mli_SourceVersion intent
               then (Inr (no_result\<lparr>lkr_Status := LinkIntentInvalidated\<rparr>),
                     put_intent hash (intent\<lparr>mli_Status := IntentCancelled\<rparr>) st)
               else
                (case linkLocked \<lparr>lkc_SourceCustomerID = source, lkc_Target = cic_Target command,
                    lkc_Evidence = cic_Evidence command\<rparr> st of
                   (Inl e, st1) \<Rightarrow> (Inl e, st1)
                 | (Inr result, st1) \<Rightarrow>
                     (Inr result, put_intent hash (intent\<lparr>mli_Status := IntentConsumed,
                        mli_ConsumptionFingerprint := fingerprint, mli_Result := result\<rparr>) st1))))"

subsection \<open>Declared phones\<close>

definition Store_AttachDeclaredPhone ::
  "declared_phone_command \<Rightarrow> normalized_reference \<Rightarrow> memory_store \<Rightarrow> declared_result store_answer" where
  "Store_AttachDeclaredPhone command r st =
     (let digest = Sum256 (nrf_NormalizedValue r); customer = dpc_CustomerID command;
          key = dpc_IdempotencyKey command;
          base = \<lparr>dar_Status = DeclaredNone, dar_ReplayOf = DeclaredNone, dar_CustomerID = customer,
            dar_IdentityID = 0\<rparr>;
          remember = (\<lambda>result s. (Inr result, s\<lparr>mst_PhoneReceipts := (mst_PhoneReceipts s)(key \<mapsto> (digest, result))\<rparr>)) in
      case mst_PhoneReceipts st key of
        Some (stored, result) \<Rightarrow>
          if stored \<noteq> digest then (Inl IdtDeclaredPayloadMismatch, st)
          else (Inr (result\<lparr>dar_ReplayOf := dar_Status result, dar_Status := DeclaredReplayed\<rparr>), st)
      | None \<Rightarrow>
          if activeRootLocked st customer \<noteq> customer then remember (base\<lparr>dar_Status := DeclaredInvalid\<rparr>) st
          else
           (case mst_IdentityByKey st (identityKey r) of
              Some i \<Rightarrow> remember (base\<lparr>dar_IdentityID := i,
                dar_Status := (if sid_CustomerID (identity_at st i) = customer then DeclaredAlreadyLinked
                               else DeclaredConflict)\<rparr>) st
            | None \<Rightarrow>
                (let (i, st1) = createIdentityLocked customer r st in
                 remember (base\<lparr>dar_Status := DeclaredAttached, dar_IdentityID := i\<rparr>) st1)))"


subsection \<open>Counts\<close>

definition CustomerCount :: "memory_store \<Rightarrow> nat" where
  "CustomerCount st = length (mst_Customers st)"

definition ActiveIdentityCount :: "memory_store \<Rightarrow> nat" where
  "ActiveIdentityCount st = length (filter mid_Active (mst_Identities st))"

end
