(* ===== verification/IdentityService.thy ===== *)
theory IdentityService
  imports IdentityStore
begin

text \<open>
  \<open>internal/identity/app/oneid.go\<close>, \<open>oauth.go\<close> and \<open>audience.go\<close>: the use cases of \<open>OneIDService\<close> over the
  interface \<open>Store\<close>, a record of operations with \<open>MemoryStore\<close> as an instance.  The observers that the
  composition root installs are optional functions that may fail.  A use case returns the
  store as it left it; on an error the caller's transaction rolls the database back, while the
  in-memory store keeps it.
\<close>

record 's identity_ops =
  sto_Resolve :: "normalized_reference \<Rightarrow> 's \<Rightarrow> (identity_error, stored_identity option) result"
  sto_Provision :: "verified_fact \<Rightarrow> 's \<Rightarrow> (identity_error, provisioned_identity) result \<times> 's"
  sto_Link :: "link_command \<Rightarrow> 's \<Rightarrow> (identity_error, link_result) result \<times> 's"
  sto_CreateLinkIntent ::
    "nat list option \<Rightarrow> link_intent_command \<Rightarrow> 's \<Rightarrow> (identity_error, created_link_intent) result \<times> 's"
  sto_ConsumeLinkIntent ::
    "go_time \<Rightarrow> consume_intent_command \<Rightarrow> 's \<Rightarrow> (identity_error, link_result) result \<times> 's"
  sto_ConfirmMerge :: "confirm_merge_command \<Rightarrow> 's \<Rightarrow> (identity_error, link_result) result \<times> 's"
  sto_RevertMerge :: "int \<Rightarrow> 's \<Rightarrow> (identity_error, merge_record) result \<times> 's"
  sto_AttachDeclaredPhone ::
    "declared_phone_command \<Rightarrow> normalized_reference \<Rightarrow> 's \<Rightarrow> (identity_error, declared_result) result \<times> 's"

definition memory_ops :: "memory_store identity_ops" where
  "memory_ops = \<lparr>
     sto_Resolve = (\<lambda>r st. Inr (Store_Resolve st r)),
     sto_Provision = (\<lambda>vf st. let (p, st1) = Store_Provision vf st in (Inr p, st1)),
     sto_Link = Store_Link,
     sto_CreateLinkIntent = Store_CreateLinkIntent,
     sto_ConsumeLinkIntent = Store_ConsumeLinkIntent,
     sto_ConfirmMerge = Store_ConfirmMerge,
     sto_RevertMerge = Store_RevertMerge,
     sto_AttachDeclaredPhone = Store_AttachDeclaredPhone\<rparr>"

record one_id_observers =
  obs_Provisioned :: "(int \<Rightarrow> string \<Rightarrow> identity_error option) option"
  obs_Verified :: "(int \<Rightarrow> verified_fact \<Rightarrow> identity_error option) option"

definition observeVerifiedIdentity ::
  "one_id_observers \<Rightarrow> int \<Rightarrow> verified_fact \<Rightarrow> identity_error option" where
  "observeVerifiedIdentity obs customer vf =
     (case obs_Verified obs of None \<Rightarrow> None | Some f \<Rightarrow> f customer vf)"

definition observeProvisionedCustomer ::
  "one_id_observers \<Rightarrow> provisioned_identity \<Rightarrow> string \<Rightarrow> identity_error option" where
  "observeProvisionedCustomer obs p source =
     (if \<not> pid_Created p then None
      else case obs_Provisioned obs of None \<Rightarrow> None | Some f \<Rightarrow> f (pid_CustomerID p) source)"

subsection \<open>Resolving\<close>

datatype resolve_status = ResolveFound | ResolveNotFound | ResolveConflict

record resolve_result =
  rsr_Status :: resolve_status
  rsr_CustomerID :: int
  rsr_IdentityID :: int

definition Service_Resolve ::
  "'s identity_ops \<Rightarrow> identity_reference \<Rightarrow> 's \<Rightarrow> (identity_error, resolve_result) result" where
  "Service_Resolve ops r st =
     (case Normalize r of
        Inl e \<Rightarrow> Inl e
      | Inr n \<Rightarrow>
          (case sto_Resolve ops n st of
             Inl e \<Rightarrow> if e = IdtResolveConflict
               then Inr \<lparr>rsr_Status = ResolveConflict, rsr_CustomerID = 0, rsr_IdentityID = 0\<rparr> else Inl e
           | Inr None \<Rightarrow> Inr \<lparr>rsr_Status = ResolveNotFound, rsr_CustomerID = 0, rsr_IdentityID = 0\<rparr>
           | Inr (Some x) \<Rightarrow> Inr \<lparr>rsr_Status = ResolveFound, rsr_CustomerID = sid_CustomerID x,
               rsr_IdentityID = sid_ID x\<rparr>))"

datatype audience_status = AudienceResolved | AudienceUnresolved | AudienceConflict | AudienceInvalid

record audience_resolution =
  aur_Status :: audience_status
  aur_CustomerID :: int
  aur_IdentityID :: int

definition ResolveAudienceFact ::
  "'s identity_ops \<Rightarrow> verified_fact \<Rightarrow> 's \<Rightarrow> (identity_error, audience_resolution) result" where
  "ResolveAudienceFact ops vf st =
     (if \<not> Fact_Valid vf
      then Inr \<lparr>aur_Status = AudienceInvalid, aur_CustomerID = 0, aur_IdentityID = 0\<rparr>
      else
       (let n = fct_Reference vf in
        case Service_Resolve ops \<lparr>ref_Kind = nrf_Kind n, ref_Scope = nrf_Scope n,
            ref_Value = nrf_NormalizedValue n, ref_Assurance = nrf_Assurance n, ref_Source = nrf_Source n\<rparr> st of
          Inl e \<Rightarrow> Inl e
        | Inr r \<Rightarrow>
            (case rsr_Status r of
               ResolveFound \<Rightarrow> Inr \<lparr>aur_Status = AudienceResolved, aur_CustomerID = rsr_CustomerID r,
                 aur_IdentityID = rsr_IdentityID r\<rparr>
             | ResolveNotFound \<Rightarrow> Inr \<lparr>aur_Status = AudienceUnresolved, aur_CustomerID = 0, aur_IdentityID = 0\<rparr>
             | ResolveConflict \<Rightarrow> Inr \<lparr>aur_Status = AudienceConflict, aur_CustomerID = 0, aur_IdentityID = 0\<rparr>)))"

subsection \<open>Provisioning\<close>

definition ProvisionCustomerFromVerifiedIdentity ::
  "'s identity_ops \<Rightarrow> one_id_observers \<Rightarrow> verified_fact \<Rightarrow> 's
    \<Rightarrow> (identity_error, provisioned_identity) result \<times> 's" where
  "ProvisionCustomerFromVerifiedIdentity ops obs vf st =
     (if \<not> Fact_Valid vf \<or> nrf_Kind (fct_Reference vf) = KindPhone then (Inl IdtInvalidReference, st)
      else
       (case sto_Provision ops vf st of
          (Inl e, st1) \<Rightarrow> (Inl e, st1)
        | (Inr p, st1) \<Rightarrow>
            (case observeProvisionedCustomer obs p (nrf_Source (fct_Reference vf)) of
               Some e \<Rightarrow> (Inl e, st1)
             | None \<Rightarrow>
                 (case observeVerifiedIdentity obs (pid_CustomerID p) vf of
                    Some e \<Rightarrow> (Inl e, st1)
                  | None \<Rightarrow> (Inr p, st1)))))"

subsection \<open>Linking and intents\<close>

definition LinkVerifiedIdentity ::
  "'s identity_ops \<Rightarrow> one_id_observers \<Rightarrow> link_command \<Rightarrow> 's \<Rightarrow> (identity_error, link_result) result \<times> 's" where
  "LinkVerifiedIdentity ops obs command st =
     (if lkc_SourceCustomerID command < 1 \<or> \<not> Fact_Valid (lkc_Target command) \<or>
         nrf_Kind (fct_Reference (lkc_Target command)) = KindPhone \<or> \<not> Evidence_Valid (lkc_Evidence command)
      then (Inl IdtInvalidLinkCommand, st)
      else
       (case sto_Link ops command st of
          (Inl e, st1) \<Rightarrow> (Inl e, st1)
        | (Inr r, st1) \<Rightarrow>
            if lkr_Status r = LinkAttached \<or> lkr_Status r = LinkAlreadyLinked then
              (case observeVerifiedIdentity obs (lkr_CustomerID r) (lkc_Target command) of
                 Some e \<Rightarrow> (Inl e, st1)
               | None \<Rightarrow> (Inr r, st1))
            else (Inr r, st1)))"

fun validLinkIntentPurpose :: "intent_purpose \<Rightarrow> bool" where
  "validLinkIntentPurpose (IntentPurposeOther s) = False"
| "validLinkIntentPurpose _ = True"

text \<open>The zero time is the origin of \<open>go_time\<close>.\<close>

definition Service_CreateLinkIntent ::
  "'s identity_ops \<Rightarrow> go_time \<Rightarrow> nat list option \<Rightarrow> link_intent_command \<Rightarrow> 's
    \<Rightarrow> (identity_error, created_link_intent) result \<times> 's" where
  "Service_CreateLinkIntent ops now random command st =
     (if lic_SourceCustomerID command < 1 \<or> \<not> validLinkIntentPurpose (lic_Purpose command) \<or>
         \<not> ValidateKind (lic_TargetKind command) \<or> lic_TargetKind command = KindPhone \<or>
         (lic_ExpectedScope command \<noteq> [] \<and>
            \<not> ValidateNamespace (lic_TargetKind command) (lic_ExpectedScope command)) \<or>
         (lic_Purpose command = LinkIntentBindWeCom \<and> lic_TargetKind command \<noteq> KindWeComExternalUserID) \<or>
         lic_ExpiresAt command = 0 \<or> \<not> before now (lic_ExpiresAt command) \<or> lic_Source command = []
      then (Inl IdtInvalidLinkCommand, st)
      else sto_CreateLinkIntent ops random command st)"

definition Service_ConsumeLinkIntent ::
  "'s identity_ops \<Rightarrow> go_time \<Rightarrow> consume_intent_command \<Rightarrow> 's \<Rightarrow> (identity_error, link_result) result \<times> 's" where
  "Service_ConsumeLinkIntent ops now command st =
     (if cic_Token command = [] \<or> \<not> Fact_Valid (cic_Target command) \<or>
         nrf_Kind (fct_Reference (cic_Target command)) = KindPhone \<or> \<not> Evidence_Valid (cic_Evidence command) \<or>
         evd_Strength (cic_Evidence command) \<noteq> EvidenceStrong
      then (Inl IdtInvalidLinkCommand, st)
      else sto_ConsumeLinkIntent ops now command st)"

subsection \<open>Merges\<close>

definition Service_ConfirmMerge ::
  "'s identity_ops \<Rightarrow> confirm_merge_command \<Rightarrow> 's \<Rightarrow> (identity_error, link_result) result \<times> 's" where
  "Service_ConfirmMerge ops command st =
     (if cmc_CandidateID command < 1 \<or> cmc_SurvivorCustomerID command < 1 \<or> cmc_Operator command = []
      then (Inl IdtInvalidLinkCommand, st)
      else sto_ConfirmMerge ops command st)"

definition RevertConfirmedMerge ::
  "'s identity_ops \<Rightarrow> int \<Rightarrow> 's \<Rightarrow> (identity_error, merge_record) result \<times> 's" where
  "RevertConfirmedMerge ops mergeID st =
     (if mergeID < 1 then (Inl IdtInvalidMergeID, st) else sto_RevertMerge ops mergeID st)"

subsection \<open>Declared phones\<close>

definition invalid_declared :: declared_result where
  "invalid_declared = \<lparr>dar_Status = DeclaredInvalid, dar_ReplayOf = DeclaredNone, dar_CustomerID = 0,
     dar_IdentityID = 0\<rparr>"

definition AttachDeclaredPhoneToCustomer ::
  "'s identity_ops \<Rightarrow> declared_phone_command \<Rightarrow> 's \<Rightarrow> (identity_error, declared_result) result \<times> 's" where
  "AttachDeclaredPhoneToCustomer ops command st =
     (if dpc_CustomerID command < 1 \<or>
         dpc_Source command \<notin> {''survey'', ''phone_import'', ''sidebar'', ''hxc'', ''order''} \<or>
         dpc_SourceEventID command = [] \<or> 200 < length (dpc_SourceEventID command) \<or>
         dpc_IdempotencyKey command = [] \<or> 200 < length (dpc_IdempotencyKey command)
      then (Inr invalid_declared, st)
      else
       (case Normalize \<lparr>ref_Kind = KindPhone, ref_Scope = ''phone:cn11'', ref_Value = dpc_Phone command,
           ref_Assurance = AssuranceDeclared, ref_Source = dpc_Source command\<rparr> of
          Inl e \<Rightarrow> (Inr invalid_declared, st)
        | Inr n \<Rightarrow> sto_AttachDeclaredPhone ops command n st))"

record declared_attach_command =
  dac_CustomerID :: int
  dac_Reference :: identity_reference
  dac_ImportRunID :: int
  dac_SourceRowID :: string
  dac_SourceRowDigest :: "w32 list"
  dac_IdempotencyKey :: string

definition trim_prefix :: "string \<Rightarrow> string \<Rightarrow> string" where
  "trim_prefix s pre = (if has_prefix s pre then drop (length pre) s else s)"

definition AttachDeclaredIdentity ::
  "'s identity_ops \<Rightarrow> declared_attach_command \<Rightarrow> 's \<Rightarrow> (identity_error, declared_result) result \<times> 's" where
  "AttachDeclaredIdentity ops command st =
     (if dac_CustomerID command < 1 \<or> dac_ImportRunID command < 1 \<or> dac_SourceRowID command = [] \<or>
         dac_IdempotencyKey command = [] \<or> ref_Assurance (dac_Reference command) \<noteq> AssuranceDeclared \<or>
         ref_Kind (dac_Reference command) \<noteq> KindPhone \<or> ref_Scope (dac_Reference command) \<noteq> ''phone:e164'' \<or>
         ref_Source (dac_Reference command) \<noteq> ''phone_import''
      then (Inr invalid_declared, st)
      else
       (case Normalize (dac_Reference command) of
          Inl e \<Rightarrow> (Inr invalid_declared, st)
        | Inr n \<Rightarrow> AttachDeclaredPhoneToCustomer ops
            \<lparr>dpc_OnlyIfEmpty = False, dpc_CustomerID = dac_CustomerID command,
             dpc_Phone = trim_prefix (nrf_NormalizedValue n) ''+86'', dpc_Source = ''phone_import'',
             dpc_SourceEventID = ''phone-import:'' @ format_int (dac_ImportRunID command) @ '':'' @
               hex_encode (dac_SourceRowDigest command),
             dpc_IdempotencyKey = dac_IdempotencyKey command\<rparr> st))"

subsection \<open>Subjects with several identities\<close>

record historical_command =
  hsc_SubjectKey :: string
  hsc_Facts :: "verified_fact list"
  hsc_SourceDigest :: "w32 list"

record historical_result =
  hsr_CustomerID :: int
  hsr_IdentityIDs :: "int list"

definition historical_evidence :: "historical_command \<Rightarrow> link_evidence" where
  "historical_evidence command = \<lparr>evd_Type = ''provider_history_subject'', evd_Strength = EvidenceStrong,
     evd_Source = ''commerce_history'', evd_EventID = hsc_SubjectKey command,
     evd_Digest = ''sha256:'' @ hex_encode (hsc_SourceDigest command),
     evd_PolicyVersion = ''commerce-history-v1''\<rparr>"

fun historical_loop ::
  "'s identity_ops \<Rightarrow> historical_command \<Rightarrow> int \<Rightarrow> verified_fact list \<Rightarrow> int list \<Rightarrow> 's
    \<Rightarrow> (identity_error, historical_result) result \<times> 's" where
  "historical_loop ops command customer [] ids st =
     (Inr \<lparr>hsr_CustomerID = customer, hsr_IdentityIDs = ids\<rparr>, st)"
| "historical_loop ops command customer (vf # vfs) ids st =
     (case sto_Link ops \<lparr>lkc_SourceCustomerID = customer, lkc_Target = vf,
         lkc_Evidence = historical_evidence command\<rparr> st of
        (Inl e, st1) \<Rightarrow> (Inl e, st1)
      | (Inr r, st1) \<Rightarrow>
          if (lkr_Status r \<noteq> LinkAttached \<and> lkr_Status r \<noteq> LinkAlreadyLinked) \<or>
             lkr_CustomerID r \<noteq> customer \<or> lkr_IdentityID r < 1
          then (Inl IdtHistoricalConflict, st1)
          else historical_loop ops command customer vfs (ids @ [lkr_IdentityID r]) st1)"

text \<open>The digest is compared with the zero array of 32 bytes.\<close>

definition ProvisionHistoricalSubject ::
  "'s identity_ops \<Rightarrow> one_id_observers \<Rightarrow> historical_command \<Rightarrow> 's
    \<Rightarrow> (identity_error, historical_result) result \<times> 's" where
  "ProvisionHistoricalSubject ops obs command st =
     (if hsc_SubjectKey command = [] \<or> 200 < length (hsc_SubjectKey command) \<or>
         hsc_SourceDigest command = replicate 8 0 then (Inl IdtHistoricalConflict, st)
      else
       (case hsc_Facts command of
          [] \<Rightarrow> (Inl IdtHistoricalConflict, st)
        | vf # vfs \<Rightarrow>
            if \<not> list_all (\<lambda>f. Fact_Valid f \<and> nrf_Kind (fct_Reference f) \<noteq> KindPhone) (vf # vfs)
            then (Inl IdtHistoricalConflict, st)
            else
             (case sto_Provision ops vf st of
                (Inl e, st1) \<Rightarrow> (Inl e, st1)
              | (Inr p, st1) \<Rightarrow>
                  (case observeProvisionedCustomer obs p (nrf_Source (fct_Reference vf)) of
                     Some e \<Rightarrow> (Inl e, st1)
                   | None \<Rightarrow> historical_loop ops command (pid_CustomerID p) vfs [pid_IdentityID p] st1))))"

record oauth_subject_command =
  osc_OpenID :: verified_fact
  osc_UnionID :: verified_fact
  osc_EventID :: string

record oauth_subject_result =
  osr_Provisioned :: provisioned_identity
  osr_Conflict :: bool

definition oauth_evidence :: "oauth_subject_command \<Rightarrow> link_evidence" where
  "oauth_evidence c = \<lparr>evd_Type = ''provider_oauth_userinfo'', evd_Strength = EvidenceStrong,
     evd_Source = ''wechat.oauth.userinfo'', evd_EventID = osc_EventID c,
     evd_Digest = ''sha256:'' @ hex_encode (Sum256 (osc_EventID c)),
     evd_PolicyVersion = ''oauth-userinfo-v1''\<rparr>"

text \<open>The rest after the choice of the fact that names the customer.\<close>

definition oauth_subject ::
  "'s identity_ops \<Rightarrow> one_id_observers \<Rightarrow> oauth_subject_command \<Rightarrow> verified_fact \<Rightarrow> verified_fact \<Rightarrow> 's
    \<Rightarrow> (identity_error, oauth_subject_result) result \<times> 's" where
  "oauth_subject ops obs c first target st =
     (case sto_Provision ops first st of
        (Inl e, st1) \<Rightarrow> (Inl e, st1)
      | (Inr p, st1) \<Rightarrow>
          (case observeProvisionedCustomer obs p (nrf_Source (fct_Reference first)) of
             Some e \<Rightarrow> (Inl e, st1)
           | None \<Rightarrow>
               (case observeVerifiedIdentity obs (pid_CustomerID p) first of
                  Some e \<Rightarrow> (Inl e, st1)
                | None \<Rightarrow>
                    (case sto_Link ops \<lparr>lkc_SourceCustomerID = pid_CustomerID p, lkc_Target = target,
                        lkc_Evidence = oauth_evidence c\<rparr> st1 of
                       (Inl e, st2) \<Rightarrow> (Inl e, st2)
                     | (Inr linked, st2) \<Rightarrow>
                         (case (if lkr_Status linked = LinkAttached \<or> lkr_Status linked = LinkAlreadyLinked
                                then observeVerifiedIdentity obs (lkr_CustomerID linked) target else None) of
                            Some e \<Rightarrow> (Inl e, st2)
                          | None \<Rightarrow>
                              (Inr \<lparr>osr_Provisioned = (if nrf_Kind (fct_Reference target) = KindOAOpenID
                                   then p\<lparr>pid_IdentityID := lkr_IdentityID linked\<rparr> else p),
                                 osr_Conflict = (lkr_Status linked \<noteq> LinkAttached \<and>
                                   lkr_Status linked \<noteq> LinkAlreadyLinked) \<or>
                                   lkr_CustomerID linked \<noteq> pid_CustomerID p\<rparr>, st2))))))"

definition ProvisionVerifiedOAuthSubject ::
  "'s identity_ops \<Rightarrow> one_id_observers \<Rightarrow> oauth_subject_command \<Rightarrow> 's
    \<Rightarrow> (identity_error, oauth_subject_result) result \<times> 's" where
  "ProvisionVerifiedOAuthSubject ops obs c st =
     (if \<not> Fact_Valid (osc_OpenID c) \<or> \<not> Fact_Valid (osc_UnionID c) \<or>
         nrf_Kind (fct_Reference (osc_OpenID c)) \<noteq> KindOAOpenID \<or>
         nrf_Kind (fct_Reference (osc_UnionID c)) \<noteq> KindUnionID \<or>
         length (osc_EventID c) < 16 \<or> 200 < length (osc_EventID c)
      then (Inl IdtInvalidLinkCommand, st)
      else
       (case sto_Resolve ops (fct_Reference (osc_OpenID c)) st of
          Inl e \<Rightarrow> (Inl e, st)
        | Inr None \<Rightarrow> oauth_subject ops obs c (osc_UnionID c) (osc_OpenID c) st
        | Inr (Some _) \<Rightarrow> oauth_subject ops obs c (osc_OpenID c) (osc_UnionID c) st))"


subsection \<open>Linking through the port\<close>

record verified_link_command =
  vlc_CustomerID :: int
  vlc_Fact :: verified_fact
  vlc_Evidence :: link_evidence

record verified_link_result =
  vlr_Status :: link_status
  vlr_CustomerID :: int
  vlr_IdentityID :: int
  vlr_MergeCandidateID :: int

definition LinkVerifiedIdentityToCustomer ::
  "'s identity_ops \<Rightarrow> one_id_observers \<Rightarrow> verified_link_command \<Rightarrow> 's
    \<Rightarrow> (identity_error, verified_link_result) result \<times> 's" where
  "LinkVerifiedIdentityToCustomer ops obs command st =
     (case LinkVerifiedIdentity ops obs \<lparr>lkc_SourceCustomerID = vlc_CustomerID command,
         lkc_Target = vlc_Fact command, lkc_Evidence = vlc_Evidence command\<rparr> st of
        (Inl e, st1) \<Rightarrow> (Inl e, st1)
      | (Inr linked, st1) \<Rightarrow>
          (Inr \<lparr>vlr_Status = lkr_Status linked, vlr_CustomerID = lkr_CustomerID linked,
             vlr_IdentityID = lkr_IdentityID linked,
             vlr_MergeCandidateID = (case lkr_Candidate linked of None \<Rightarrow> 0 | Some c \<Rightarrow> cnd_ID c)\<rparr>, st1))"

end
