(* ===== verification/IdentityRoots.thy ===== *)
theory IdentityRoots
  imports IdentityService
begin

text \<open>
  The walk of \<open>rootLocked\<close> against a relation that says where a lineage ends: chains of merged
  customers.  The walk ends on every table, also on cyclic ones, and finds the end of the chain when
  there is one.
\<close>

fun chain :: "memory_customer list \<Rightarrow> nat \<Rightarrow> int \<Rightarrow> int \<Rightarrow> bool" where
  "chain cs 0 i r \<longleftrightarrow> 0 < i \<and> i = r \<and> (\<exists>c. find_customer cs i = Some c \<and> cus_Status c \<noteq> CustomerMerged)"
| "chain cs (Suc n) i r \<longleftrightarrow> 0 < i \<and> (\<exists>c. find_customer cs i = Some c \<and> cus_Status c = CustomerMerged \<and>
     chain cs n (cus_MergedTo c) r)"

lemma find_customer_in: "find_customer cs i = Some c \<Longrightarrow> c \<in> set cs \<and> cus_ID c = i"
  by (auto simp: find_customer_def find_Some_iff)

lemma chain_end: "chain cs n i r \<Longrightarrow> 0 < r \<and> (\<exists>c. find_customer cs r = Some c \<and> cus_Status c \<noteq> CustomerMerged)"
  by (induction n arbitrary: i) auto

lemma chain_deterministic: "chain cs n i r \<Longrightarrow> chain cs m i q \<Longrightarrow> n = m \<and> r = q"
proof (induction n arbitrary: m i)
  case 0
  then show ?case by (cases m) auto
next
  case (Suc n)
  then show ?case by (cases m) auto
qed

lemma chain_root:
  "chain cs n i r \<Longrightarrow> \<forall>s \<in> set seen. \<forall>m q. chain cs m s q \<longrightarrow> n < m \<Longrightarrow> rootLocked_from cs seen i = r"
proof (induction n arbitrary: i seen)
  case 0
  then have "i \<notin> set seen" by (metis less_irrefl)
  with 0 show ?case by (subst rootLocked_from.simps) auto
next
  case (Suc n)
  then have "i \<notin> set seen" by (metis less_irrefl)
  obtain c where c: "0 < i" "find_customer cs i = Some c" "cus_Status c = CustomerMerged"
    "chain cs n (cus_MergedTo c) r" using Suc.prems(1) by auto
  have "rootLocked_from cs (i # seen) (cus_MergedTo c) = r"
  proof (rule Suc.IH [OF c(4)], intro ballI allI impI)
    fix s m q assume s: "s \<in> set (i # seen)" "chain cs m s q"
    show "n < m"
    proof (cases "s = i")
      case True
      with chain_deterministic [OF Suc.prems(1)] s(2) show ?thesis by blast
    next
      case False
      with s Suc.prems(2) show ?thesis by (metis Suc_lessD set_ConsD)
    qed
  qed
  with c \<open>i \<notin> set seen\<close> show ?case by (subst rootLocked_from.simps) simp
qed

lemma root_chain:
  "rootLocked_from cs seen i = r \<Longrightarrow> r \<noteq> 0 \<Longrightarrow> \<exists>n < card (cus_ID ` set cs - set seen). chain cs n i r"
proof (induction cs seen i rule: rootLocked_from.induct)
  case (1 cs seen i)
  note root = "1.prems"(1) [unfolded rootLocked_from.simps [of cs seen i]]
  with "1.prems"(2) obtain c where i: "0 < i" "i \<notin> set seen" and c: "find_customer cs i = Some c"
    by (auto split: if_splits option.splits)
  have "i \<in> cus_ID ` set cs - set seen" using find_customer_in [OF c] i by blast
  then have less: "card (cus_ID ` set cs - set (i # seen)) < card (cus_ID ` set cs - set seen)"
    by (intro psubset_card_mono) auto
  show ?case
  proof (cases "cus_Status c = CustomerMerged")
    case False
    with root i c have "chain cs 0 i r" by simp
    with less show ?thesis by (metis gr_implies_not0 not_gr_zero)
  next
    case True
    with root i c have "rootLocked_from cs (i # seen) (cus_MergedTo c) = r" by simp
    then obtain n where "n < card (cus_ID ` set cs - set (i # seen))" "chain cs n (cus_MergedTo c) r"
      using "1.IH" i c True "1.prems"(2) by (metis linorder_not_le)
    with less i c True show ?thesis by (intro exI [of _ "Suc n"]) auto
  qed
qed

lemma rootLocked_nonneg: "0 \<le> rootLocked_from cs seen i"
  by (induction cs seen i rule: rootLocked_from.induct) (subst rootLocked_from.simps, auto split: option.splits)

lemma rootLocked_chain: "0 < r \<Longrightarrow> rootLocked st i = r \<longleftrightarrow> (\<exists>n. chain (mst_Customers st) n i r)"
  unfolding rootLocked_def using chain_root [where seen = "[]"] root_chain [of "mst_Customers st" "[]" i r] by auto


text \<open>A table with a lineage and a cycle.\<close>

definition looped_store :: memory_store where
  "looped_store = NewMemoryStore\<lparr>mst_Customers :=
     [\<lparr>cus_ID = 1, cus_Status = CustomerMerged, cus_MergedTo = 2, cus_Version = 1, cus_Lineage = 1\<rparr>,
      \<lparr>cus_ID = 2, cus_Status = CustomerActive, cus_MergedTo = 0, cus_Version = 1, cus_Lineage = 1\<rparr>,
      \<lparr>cus_ID = 3, cus_Status = CustomerMerged, cus_MergedTo = 4, cus_Version = 1, cus_Lineage = 1\<rparr>,
      \<lparr>cus_ID = 4, cus_Status = CustomerMerged, cus_MergedTo = 3, cus_Version = 1, cus_Lineage = 1\<rparr>]\<rparr>"


end
