(* ===== verification/IdentityInv.thy ===== *)
theory IdentityInv
  imports IdentityRoots
begin

text \<open>
  The invariant of the identity store and that every operation keeps it.  \<open>room k\<close> says that every
  counter can still grow by \<open>k\<close> without wrapping; an operation uses up one.
\<close>

named_theorems identity_wp

subsection \<open>The invariant\<close>

definition room :: "int \<Rightarrow> int \<Rightarrow> bool" where
  "room k x \<longleftrightarrow> 0 \<le> x \<and> x + k \<le> max_int64"

lemma next64_room: "room (k + 1) x \<Longrightarrow> 0 \<le> k \<Longrightarrow> next64 x = x + 1 \<and> room k (x + 1) \<and> room k x"
  by (simp add: room_def next64_def wrap64_id in64_def max_int64_def)

definition customers_ok :: "int \<Rightarrow> memory_store \<Rightarrow> bool" where
  "customers_ok k st \<longleftrightarrow> distinct (map cus_ID (mst_Customers st)) \<and> room k (mst_NextCustomerID st) \<and>
     (\<forall>c \<in> set (mst_Customers st). 0 < cus_ID c \<and> cus_ID c \<le> mst_NextCustomerID st \<and>
        room k (cus_Version c) \<and> room k (cus_Lineage c) \<and>
        (cus_Status c = CustomerActive \<or> cus_Status c = CustomerMerged) \<and>
        (\<exists>n r. chain (mst_Customers st) n (cus_ID c) r))"

definition active_root :: "memory_store \<Rightarrow> int \<Rightarrow> bool" where
  "active_root st i \<longleftrightarrow> (\<exists>c \<in> set (mst_Customers st). cus_ID c = i \<and> cus_Status c = CustomerActive)"

definition identities_ok :: "int \<Rightarrow> memory_store \<Rightarrow> bool" where
  "identities_ok k st \<longleftrightarrow> distinct (map sid_ID (mst_Identities st)) \<and> room k (mst_NextIdentityID st) \<and>
     (\<forall>x \<in> set (mst_Identities st). 0 < sid_ID x \<and> sid_ID x \<le> mst_NextIdentityID st \<and>
        room k (mid_Version x) \<and> mid_Active x \<and> active_root st (sid_CustomerID x)) \<and>
     (\<forall>key i. mst_IdentityByKey st key = Some i \<longleftrightarrow>
        (\<exists>x \<in> set (mst_Identities st). sid_ID x = i \<and> identityKey (sid_Reference x) = key))"

definition exclusive :: "memory_identity list \<Rightarrow> bool" where
  "exclusive xs \<longleftrightarrow> (\<forall>x \<in> set xs. \<forall>y \<in> set xs. sid_CustomerID x = sid_CustomerID y \<longrightarrow>
     singleValueStrong (nrf_Kind (sid_Reference x)) \<longrightarrow>
     nrf_Kind (sid_Reference x) = nrf_Kind (sid_Reference y) \<longrightarrow>
     nrf_Scope (sid_Reference x) = nrf_Scope (sid_Reference y) \<longrightarrow> x = y)"

definition merges_ok :: "int \<Rightarrow> memory_store \<Rightarrow> bool" where
  "merges_ok k st \<longleftrightarrow> room k (mst_NextMergeID st) \<and>
     (\<forall>i m. mst_Merges st i = Some m \<longrightarrow> i \<le> mst_NextMergeID st \<and> mrg_FromCustomerID m \<noteq> mrg_ToCustomerID m \<and>
        distinct (map mbr_IdentityID (mst_MovedByMerge st i)) \<and>
        (\<forall>b \<in> set (mst_MovedByMerge st i). mbr_From b = mrg_FromCustomerID m \<and> mbr_To b = mrg_ToCustomerID m))"

definition candidates_ok :: "int \<Rightarrow> memory_store \<Rightarrow> bool" where
  "candidates_ok k st \<longleftrightarrow> room k (mst_NextCandidateID st) \<and> room k (mst_NextConflictID st) \<and>
     (\<forall>i c. mst_Candidates st i = Some c \<longrightarrow> cnd_ID c = i \<and> i \<le> mst_NextCandidateID st) \<and>
     (\<forall>p i. mst_CandidateByPair st p = Some i \<longrightarrow> mst_Candidates st i \<noteq> None)"

definition store_ok :: "int \<Rightarrow> memory_store \<Rightarrow> bool" where
  "store_ok k st \<longleftrightarrow> customers_ok k st \<and> identities_ok k st \<and> exclusive (mst_Identities st) \<and>
     merges_ok k st \<and> candidates_ok k st \<and> room k (mst_NextIntentID st)"

lemma room_less: "room k x \<Longrightarrow> j \<le> k \<Longrightarrow> room j x"
  by (simp add: room_def)

lemma customers_less: "customers_ok k st \<Longrightarrow> j \<le> k \<Longrightarrow> customers_ok j st"
  unfolding customers_ok_def by (blast intro: room_less)

lemma identities_less: "identities_ok k st \<Longrightarrow> j \<le> k \<Longrightarrow> identities_ok j st"
  unfolding identities_ok_def by (blast intro: room_less)

lemma store_ok_less: "store_ok k st \<Longrightarrow> j \<le> k \<Longrightarrow> store_ok j st"
  unfolding store_ok_def merges_ok_def candidates_ok_def
  by (blast intro: room_less customers_less identities_less)

lemma new_store_ok: "k \<le> max_int64 \<Longrightarrow> store_ok k NewMemoryStore"
  by (simp add: store_ok_def customers_ok_def identities_ok_def exclusive_def merges_ok_def candidates_ok_def
      NewMemoryStore_def room_def)

subsection \<open>Customers\<close>

lemma customer_unique:
  "customers_ok k st \<Longrightarrow> c \<in> set (mst_Customers st) \<Longrightarrow> d \<in> set (mst_Customers st) \<Longrightarrow> cus_ID c = cus_ID d \<Longrightarrow> c = d"
  by (auto simp: customers_ok_def distinct_map inj_on_def)

lemma find_customer_iff:
  assumes "customers_ok k st"
  shows "find_customer (mst_Customers st) i = Some c \<longleftrightarrow> c \<in> set (mst_Customers st) \<and> cus_ID c = i"
proof
  assume c: "c \<in> set (mst_Customers st) \<and> cus_ID c = i"
  show "find_customer (mst_Customers st) i = Some c"
  proof (cases "find_customer (mst_Customers st) i")
    case None
    with c show ?thesis by (auto simp: find_customer_def find_None_iff)
  next
    case (Some d)
    with find_customer_in [OF Some] customer_unique [OF assms] c show ?thesis by simp
  qed
qed (rule find_customer_in)

lemma customer_at_in:
  assumes "customers_ok k st" "c \<in> set (mst_Customers st)"
  shows "customer_at st (cus_ID c) = c"
proof -
  have "find_customer (mst_Customers st) (cus_ID c) = Some c" using assms by (simp add: find_customer_iff)
  then show ?thesis by (simp add: customer_at_def)
qed

lemma customer_here:
  assumes "find_customer (mst_Customers st) i \<noteq> None"
  shows "customer_at st i \<in> set (mst_Customers st) \<and> cus_ID (customer_at st i) = i"
  using assms find_customer_in [of "mst_Customers st" i] by (auto simp: customer_at_def)

lemma root_of_active: "customers_ok k st \<Longrightarrow> active_root st i \<Longrightarrow> rootLocked st i = i \<and> 0 < i"
proof -
  assume ok: "customers_ok k st" and "active_root st i"
  then obtain c where c: "c \<in> set (mst_Customers st)" "cus_ID c = i" "cus_Status c = CustomerActive"
    unfolding active_root_def by blast
  have "0 < i" using ok c by (auto simp: customers_ok_def)
  moreover have "chain (mst_Customers st) 0 i i" using c ok \<open>0 < i\<close> by (auto simp: find_customer_iff)
  ultimately show ?thesis using rootLocked_chain by blast
qed

lemma root_is_active:
  assumes "customers_ok k st" "0 < rootLocked st i"
  shows "active_root st (rootLocked st i)"
proof -
  obtain n where "chain (mst_Customers st) n i (rootLocked st i)" using rootLocked_chain [OF assms(2)] by blast
  from chain_end [OF this] obtain c where "find_customer (mst_Customers st) (rootLocked st i) = Some c"
    "cus_Status c \<noteq> CustomerMerged" by blast
  with find_customer_in [of "mst_Customers st"] assms(1) show ?thesis
    unfolding active_root_def customers_ok_def by blast
qed

lemma customer_has_root:
  "customers_ok k st \<Longrightarrow> c \<in> set (mst_Customers st) \<Longrightarrow> active_root st (rootLocked st (cus_ID c))"
  using rootLocked_chain chain_end root_is_active unfolding customers_ok_def by metis

lemma active_row:
  assumes "customers_ok k st" "active_root st i"
  shows "customer_at st i \<in> set (mst_Customers st) \<and> cus_ID (customer_at st i) = i \<and>
    cus_Status (customer_at st i) = CustomerActive \<and> room k (cus_Version (customer_at st i)) \<and>
    room k (cus_Lineage (customer_at st i)) \<and> find_customer (mst_Customers st) i = Some (customer_at st i)"
proof -
  obtain c where c: "c \<in> set (mst_Customers st)" "cus_ID c = i" "cus_Status c = CustomerActive"
    using assms(2) unfolding active_root_def by blast
  with customer_at_in [OF assms(1) c(1)] assms(1) show ?thesis
    by (auto simp: customers_ok_def find_customer_iff [OF assms(1)])
qed

lemma activeRoot_cases:
  assumes "customers_ok k st"
  shows "activeRootLocked st i = rootLocked st i"
proof (cases "0 < rootLocked st i")
  case True
  with root_is_active [OF assms True] obtain c where c: "c \<in> set (mst_Customers st)"
    "cus_ID c = rootLocked st i" "cus_Status c = CustomerActive" unfolding active_root_def by blast
  with customer_at_in [OF assms c(1)] True show ?thesis by (simp add: activeRootLocked_def Let_def)
next
  case False
  then have "rootLocked st i = 0" using rootLocked_nonneg [of "mst_Customers st" "[]" i] by (simp add: rootLocked_def)
  then show ?thesis by (simp add: activeRootLocked_def)
qed

text \<open>Replacing a row.\<close>

definition replace_customer :: "memory_customer \<Rightarrow> memory_customer list \<Rightarrow> memory_customer list" where
  "replace_customer c cs = map (\<lambda>x. if cus_ID x = cus_ID c then c else x) cs"

lemma put_existing:
  "find_customer (mst_Customers st) i \<noteq> None \<Longrightarrow> cus_ID c = i \<Longrightarrow>
    put_customer i c st = st\<lparr>mst_Customers := replace_customer c (mst_Customers st)\<rparr>"
  by (simp add: put_customer_def replace_customer_def)

lemma find_replace:
  "find_customer (replace_customer c cs) j =
    (if j = cus_ID c \<and> find_customer cs j \<noteq> None then Some c else find_customer cs j)"
  by (induction cs) (auto simp: replace_customer_def find_customer_def)

lemma replace_ids [simp]: "map cus_ID (replace_customer c cs) = map cus_ID cs"
  by (induction cs) (auto simp: replace_customer_def)

lemma in_replace:
  "x \<in> set (replace_customer c cs) \<Longrightarrow> x = c \<or> x \<in> set cs \<and> cus_ID x \<noteq> cus_ID c"
  by (auto simp: replace_customer_def split: if_splits)

lemma replaced_in: "x \<in> set cs \<Longrightarrow> (if cus_ID x = cus_ID c then c else x) \<in> set (replace_customer c cs)"
  by (auto simp: replace_customer_def)

lemma customers_ok_replace:
  assumes ok: "customers_ok k st" and c: "d \<in> set (mst_Customers st)" "cus_ID c = cus_ID d"
    and counters: "room k (cus_Version c)" "room k (cus_Lineage c)"
    and status: "cus_Status c = CustomerActive \<or> cus_Status c = CustomerMerged"
    and chains: "\<And>n j r. chain (mst_Customers st) n j r \<Longrightarrow> \<exists>m q. chain (replace_customer c (mst_Customers st)) m j q"
    and st': "mst_Customers st' = replace_customer c (mst_Customers st)" "mst_NextCustomerID st' = mst_NextCustomerID st"
  shows "customers_ok k st'"
  unfolding customers_ok_def st'
proof (intro conjI ballI)
  show "distinct (map cus_ID (replace_customer c (mst_Customers st)))" using ok by (simp add: customers_ok_def)
  show "room k (mst_NextCustomerID st)" using ok by (simp add: customers_ok_def)
  fix x assume "x \<in> set (replace_customer c (mst_Customers st))"
  then obtain y where y: "y \<in> set (mst_Customers st)" "cus_ID x = cus_ID y" "x = c \<or> x = y"
    using in_replace c by metis
  then obtain n r where "chain (mst_Customers st) n (cus_ID x) r" using ok by (auto simp: customers_ok_def)
  with chains show "\<exists>n r. chain (replace_customer c (mst_Customers st)) n (cus_ID x) r" by blast
  show "0 < cus_ID x" "cus_ID x \<le> mst_NextCustomerID st" using y ok by (auto simp: customers_ok_def)
  show "room k (cus_Version x)" "room k (cus_Lineage x)" "cus_Status x = CustomerActive \<or> cus_Status x = CustomerMerged"
    using y counters status ok by (auto simp: customers_ok_def)
qed

text \<open>A change of the counters only moves no root.\<close>

lemma chain_same:
  assumes "find_customer cs (cus_ID c) = Some d" "cus_Status c = cus_Status d" "cus_MergedTo c = cus_MergedTo d"
  shows "chain (replace_customer c cs) n j r = chain cs n j r"
  using assms by (induction n arbitrary: j) (auto simp: find_replace)

lemma roots_cong:
  assumes "\<And>n j r. chain (mst_Customers st') n j r = chain (mst_Customers st) n j r"
  shows "rootLocked st' i = rootLocked st i"
proof -
  have eq: "rootLocked st' i = r \<longleftrightarrow> rootLocked st i = r" if "0 < r" for r using rootLocked_chain [OF that] assms by simp
  have "0 \<le> rootLocked st i" "0 \<le> rootLocked st' i" by (simp_all add: rootLocked_def rootLocked_nonneg)
  with eq [of "rootLocked st i"] eq [of "rootLocked st' i"] show ?thesis by linarith
qed

text \<open>A merge sends every lineage that ended at the loser to the survivor.\<close>

lemma chain_merged:
  assumes "find_customer cs l = Some d" "cus_Status d \<noteq> CustomerMerged" "cus_ID c = l" "cus_Status c = CustomerMerged"
    "cus_MergedTo c = s" "s \<noteq> l" "find_customer cs s = Some e" "cus_Status e \<noteq> CustomerMerged" "0 < s"
  shows "chain cs n j r \<Longrightarrow> \<exists>m. chain (replace_customer c cs) m j (if r = l then s else r)"
proof (induction n arbitrary: j)
  case 0
  show ?case
  proof (cases "j = l")
    case True
    have "chain (replace_customer c cs) (Suc 0) j s" using assms 0 True by (auto simp: find_replace)
    moreover have "r = l" using 0 True by simp
    ultimately show ?thesis by metis
  next
    case False
    then have "chain (replace_customer c cs) 0 j j" using assms 0 by (auto simp: find_replace)
    moreover have "r = j" using 0 by simp
    ultimately show ?thesis using False by metis
  qed
next
  case (Suc n)
  then obtain x where x: "0 < j" "find_customer cs j = Some x" "cus_Status x = CustomerMerged"
    "chain cs n (cus_MergedTo x) r" by auto
  from Suc.IH [OF x(4)] obtain m where "chain (replace_customer c cs) m (cus_MergedTo x) (if r = l then s else r)" ..
  moreover have "j \<noteq> l" using x assms(1,2) by auto
  ultimately have "chain (replace_customer c cs) (Suc m) j (if r = l then s else r)"
    using x assms(3) by (auto simp: find_replace)
  then show ?case ..
qed

text \<open>Reactivating a merged customer cuts the chains that pass through it.\<close>

lemma chain_reactivated:
  assumes "find_customer cs l = Some d" "cus_ID c = l" "cus_Status c \<noteq> CustomerMerged"
  shows "chain cs n j r \<Longrightarrow> \<exists>m q. chain (replace_customer c cs) m j q \<and> (q = r \<or> q = l \<and> (\<exists>m. chain cs m l r))"
proof (induction n arbitrary: j)
  case 0
  then have "chain (replace_customer c cs) 0 j j" "r = j" using assms by (auto simp: find_replace)
  then show ?case by blast
next
  case (Suc n)
  then obtain x where x: "0 < j" "find_customer cs j = Some x" "cus_Status x = CustomerMerged"
    "chain cs n (cus_MergedTo x) r" by auto
  show ?case
  proof (cases "j = l")
    case True
    then have "chain (replace_customer c cs) 0 j j" using assms x by (auto simp: find_replace)
    with True Suc.prems show ?thesis by blast
  next
    case False
    from Suc.IH [OF x(4)] obtain m q where "chain (replace_customer c cs) m (cus_MergedTo x) q"
      "q = r \<or> q = l \<and> (\<exists>m. chain cs m l r)" by blast
    with x False assms(2) have "chain (replace_customer c cs) (Suc m) j q" by (auto simp: find_replace)
    with \<open>q = r \<or> q = l \<and> _\<close> show ?thesis by blast
  qed
qed

lemma chain_append: "chain cs n j r \<Longrightarrow> chain (cs @ [c]) n j r"
proof (induction n arbitrary: j)
  have "find_customer cs j = Some d \<Longrightarrow> find_customer (cs @ [c]) j = Some d" for j d
    by (induction cs) (auto simp: find_customer_def)
  note found = this
  { case 0 then show ?case using found by auto }
  { case (Suc n) then show ?case using found by auto }
qed

subsection \<open>New customers and identities\<close>

lemma created_customer:
  assumes "createCustomerLocked st = (i, st')" "customers_ok (k + 1) st" "0 \<le> k"
  shows "customers_ok k st'" and "i = mst_NextCustomerID st + 1" and "0 < i"
    and "st' = st\<lparr>mst_NextCustomerID := i, mst_Customers := mst_Customers st @
      [\<lparr>cus_ID = i, cus_Status = CustomerActive, cus_MergedTo = 0, cus_Version = 1, cus_Lineage = 1\<rparr>]\<rparr>"
proof -
  let ?c = "\<lparr>cus_ID = i, cus_Status = CustomerActive, cus_MergedTo = 0, cus_Version = 1, cus_Lineage = 1\<rparr>"
  have r: "room (k + 1) (mst_NextCustomerID st)" using assms(2) by (simp add: customers_ok_def)
  show i: "i = mst_NextCustomerID st + 1"
    using assms(1) next64_room [OF r assms(3)] by (simp add: createCustomerLocked_def Let_def)
  show pos: "0 < i" using r by (simp add: i room_def)
  have fresh: "cus_ID c \<noteq> i" if "c \<in> set (mst_Customers st)" for c
    using assms(2) that i by (fastforce simp: customers_ok_def)
  then have none: "find_customer (mst_Customers st) i = None" by (simp add: find_customer_def find_None_iff)
  show st': "st' = st\<lparr>mst_NextCustomerID := i, mst_Customers := mst_Customers st @ [?c]\<rparr>"
    using assms(1) none by (auto simp: createCustomerLocked_def Let_def put_customer_def)
  have "find_customer (mst_Customers st @ [?c]) i = Some ?c"
    using none unfolding find_customer_def by (simp add: find_append)
  then have new: "chain (mst_Customers st @ [?c]) 0 i i" using pos by simp
  show "customers_ok k st'"
    unfolding customers_ok_def
  proof (intro conjI ballI)
    show "distinct (map cus_ID (mst_Customers st'))" using assms(2) fresh by (auto simp: st' customers_ok_def)
    show "room k (mst_NextCustomerID st')" using next64_room [OF r assms(3)] by (simp add: st' i)
    fix c assume "c \<in> set (mst_Customers st')"
    then have c: "c = ?c \<or> c \<in> set (mst_Customers st)" by (auto simp: st')
    show "\<exists>n r. chain (mst_Customers st') n (cus_ID c) r"
    proof (cases "c = ?c")
      case True
      with new show ?thesis by (intro exI [of _ 0] exI [of _ i]) (simp add: st' del: chain.simps)
    next
      case False
      with c assms(2) obtain n r where "chain (mst_Customers st) n (cus_ID c) r" unfolding customers_ok_def by blast
      from chain_append [OF this] show ?thesis by (auto simp: st' simp del: chain.simps)
    qed
    have "room k 1" using r assms(3) by (simp add: room_def)
    with c show "0 < cus_ID c" "cus_ID c \<le> mst_NextCustomerID st'" "room k (cus_Version c)" "room k (cus_Lineage c)"
      "cus_Status c = CustomerActive \<or> cus_Status c = CustomerMerged"
      using assms(2) pos room_less [of "k + 1" _ k] by (auto simp: st' i customers_ok_def)
  qed
qed

definition fits :: "memory_store \<Rightarrow> int \<Rightarrow> normalized_reference \<Rightarrow> bool" where
  "fits st customer r \<longleftrightarrow> (\<forall>x \<in> set (mst_Identities st). sid_CustomerID x = customer \<longrightarrow>
     singleValueStrong (nrf_Kind r) \<longrightarrow> nrf_Kind (sid_Reference x) = nrf_Kind r \<longrightarrow>
     nrf_Scope (sid_Reference x) \<noteq> nrf_Scope r)"

lemma created_identity:
  assumes "createIdentityLocked customer r st = (i, st')" "store_ok k st" "0 \<le> k" "room (k + 1) (mst_NextIdentityID st)"
    "mst_IdentityByKey st (identityKey r) = None" "active_root st customer" "fits st customer r"
  shows "store_ok k st'" and "0 < i"
    and "st' = st\<lparr>mst_NextIdentityID := i, mst_Identities := mst_Identities st @
      [\<lparr>sid_ID = i, sid_CustomerID = customer, sid_Reference = r, mid_Active = True, mid_Version = 1\<rparr>],
      mst_IdentityByKey := (mst_IdentityByKey st)(identityKey r \<mapsto> i)\<rparr>"
proof -
  let ?x = "\<lparr>sid_ID = i, sid_CustomerID = customer, sid_Reference = r, mid_Active = True, mid_Version = 1\<rparr>"
  have ids: "identities_ok k st" using assms(2) by (simp add: store_ok_def)
  note r = assms(4)
  have i: "i = mst_NextIdentityID st + 1"
    using assms(1) next64_room [OF r assms(3)] by (simp add: createIdentityLocked_def Let_def)
  show pos: "0 < i" using r by (simp add: i room_def)
  have fresh: "sid_ID x \<noteq> i" if "x \<in> set (mst_Identities st)" for x
    using ids that i by (fastforce simp: identities_ok_def)
  then have "find_identity (st\<lparr>mst_NextIdentityID := i\<rparr>) i = None" by (simp add: find_identity_def find_None_iff)
  with assms(1) show st': "st' = st\<lparr>mst_NextIdentityID := i, mst_Identities := mst_Identities st @ [?x],
      mst_IdentityByKey := (mst_IdentityByKey st)(identityKey r \<mapsto> i)\<rparr>"
    by (auto simp: createIdentityLocked_def Let_def put_identity_def)
  have keys: "mst_IdentityByKey st' key = Some j \<longleftrightarrow>
      (\<exists>x \<in> set (mst_Identities st'). sid_ID x = j \<and> identityKey (sid_Reference x) = key)" for key j
  proof (cases "key = identityKey r")
    case True
    have "identityKey (sid_Reference x) \<noteq> identityKey r" if "x \<in> set (mst_Identities st)" for x
      using ids that assms(5) unfolding identities_ok_def by (metis option.distinct(1))
    with True show ?thesis by (auto simp: st')
  next
    case False
    then show ?thesis using ids by (auto simp: st' identities_ok_def)
  qed
  have "identities_ok k st'"
    unfolding identities_ok_def
  proof (intro conjI ballI allI)
    show "distinct (map sid_ID (mst_Identities st'))" using ids fresh by (auto simp: st' identities_ok_def)
    show "room k (mst_NextIdentityID st')" using next64_room [OF r assms(3)] by (simp add: st' i)
    have "room k 1" using r assms(3) by (simp add: room_def)
    fix x assume "x \<in> set (mst_Identities st')"
    then have "x = ?x \<or> x \<in> set (mst_Identities st)" by (auto simp: st')
    then show "0 < sid_ID x" "sid_ID x \<le> mst_NextIdentityID st'" "room k (mid_Version x)" "mid_Active x"
      "active_root st' (sid_CustomerID x)"
      using ids pos \<open>room k 1\<close> assms(6)
      by (auto simp: st' i identities_ok_def active_root_def)
  qed (rule keys)
  moreover have "exclusive (mst_Identities st')"
    using assms(2,7) unfolding store_ok_def st' exclusive_def fits_def by auto
  moreover have "customers_ok k st'" "merges_ok k st'" "candidates_ok k st'" "room k (mst_NextIntentID st')"
    using assms(2)
    by (simp_all add: st' store_ok_def customers_ok_def merges_ok_def candidates_ok_def)
  ultimately show "store_ok k st'" by (simp add: store_ok_def)
qed

subsection \<open>Steps that move nobody\<close>

text \<open>Customers keep their roots, identities keep their owners; new rows may appear.\<close>

definition quiet :: "memory_store \<Rightarrow> memory_store \<Rightarrow> bool" where
  "quiet st st' \<longleftrightarrow> (\<forall>i. 0 < rootLocked st i \<longrightarrow> rootLocked st' i = rootLocked st i) \<and>
     (\<exists>new. mst_Identities st' = mst_Identities st @ new) \<and>
     (\<forall>key i. mst_IdentityByKey st key = Some i \<longrightarrow> mst_IdentityByKey st' key = Some i)"

lemma quiet_refl [simp]: "quiet st st"
  by (simp add: quiet_def)

lemma quiet_trans:
  assumes "quiet a b" "quiet b c"
  shows "quiet a c"
proof -
  obtain new more where "mst_Identities b = mst_Identities a @ new" "mst_Identities c = mst_Identities b @ more"
    using assms unfolding quiet_def by blast
  then have "mst_Identities c = mst_Identities a @ (new @ more)" by simp
  moreover have "rootLocked c i = rootLocked a i" if "0 < rootLocked a i" for i
    using assms that unfolding quiet_def by metis
  ultimately show ?thesis using assms unfolding quiet_def by metis
qed

lemma roots_same_customers: "mst_Customers st' = mst_Customers st \<Longrightarrow> rootLocked st' i = rootLocked st i"
  by (simp add: rootLocked_def)

lemma active_same_customers: "mst_Customers st' = mst_Customers st \<Longrightarrow> active_root st' i = active_root st i"
  by (simp add: active_root_def)

text \<open>Books: candidates, conflicts, intents and receipts are not customers or identities.\<close>

definition same_people :: "memory_store \<Rightarrow> memory_store \<Rightarrow> bool" where
  "same_people st st' \<longleftrightarrow> mst_Customers st' = mst_Customers st \<and> mst_Identities st' = mst_Identities st \<and>
     mst_IdentityByKey st' = mst_IdentityByKey st \<and> mst_NextCustomerID st' = mst_NextCustomerID st \<and>
     mst_NextIdentityID st' = mst_NextIdentityID st \<and> mst_Merges st' = mst_Merges st \<and>
     mst_MovedByMerge st' = mst_MovedByMerge st \<and> mst_NextMergeID st' = mst_NextMergeID st"

lemma same_people_quiet: "same_people st st' \<Longrightarrow> quiet st st'"
  unfolding same_people_def quiet_def by (simp add: rootLocked_def)

lemma same_people_ok:
  assumes "store_ok (k + 1) st" "0 \<le> k" "same_people st st'" "candidates_ok k st'" "room k (mst_NextIntentID st')"
  shows "store_ok k st'"
proof -
  have "store_ok k st" using store_ok_less [OF assms(1)] assms(2) by simp
  moreover have "customers_ok k st' = customers_ok k st" using assms(3) by (simp add: same_people_def customers_ok_def)
  moreover have "active_root st' = active_root st"
    using assms(3) by (simp add: same_people_def active_root_def fun_eq_iff)
  then have "identities_ok k st' = identities_ok k st" unfolding identities_ok_def
    using assms(3) by (simp only: same_people_def)
  moreover have "merges_ok k st' = merges_ok k st" unfolding merges_ok_def using assms(3) by (simp only: same_people_def)
  ultimately show ?thesis using assms(3-) by (simp add: store_ok_def same_people_def)
qed

lemma rejected_candidate:
  assumes "rejectCandidateLocked c st = (r, st')" "candidates_ok k st" "mst_Candidates st (cnd_ID c) \<noteq> None"
  shows "candidates_ok k st' \<and> same_people st st' \<and> mst_NextIntentID st' = mst_NextIntentID st \<and>
    cnd_Status r = CandidateRejected"
  using assms
  by (auto simp: rejectCandidateLocked_def Let_def candidates_ok_def same_people_def room_def
      split: if_splits)

lemma new_candidate_ok:
  assumes "new_candidate a b e w st = (c, st')" "candidates_ok (k + 1) st" "0 \<le> k"
  shows "candidates_ok k st' \<and> same_people st st' \<and> mst_NextIntentID st' = mst_NextIntentID st"
proof -
  let ?n = "mst_NextCandidateID st"
  have r: "room (k + 1) ?n" using assms(2) by (simp add: candidates_ok_def)
  note n = next64_room [OF r assms(3)]
  have st': "st' = st\<lparr>mst_NextCandidateID := ?n + 1, mst_Candidates := (mst_Candidates st)(?n + 1 \<mapsto> c),
      mst_CandidateByPair := (mst_CandidateByPair st)(candidatePairKey a b \<mapsto> ?n + 1)\<rparr>"
    and c: "cnd_ID c = ?n + 1"
    using assms(1) n by (auto simp: new_candidate_def Let_def)
  have old: "cnd_ID d = i \<and> i \<le> ?n + 1" if "mst_Candidates st i = Some d" for i d
    using assms(2) that unfolding candidates_ok_def by force
  have pairs: "mst_Candidates st i \<noteq> None" if "mst_CandidateByPair st p = Some i" for p i
    using assms(2) that unfolding candidates_ok_def by blast
  have "room k (mst_NextConflictID st)" using assms(2) room_less [of "k + 1" _ k] by (simp add: candidates_ok_def)
  then show ?thesis using n c old pairs by (simp add: st' candidates_ok_def same_people_def)
qed

lemma createConflict_ok:
  assumes "createConflictLocked a b why e st = (c, st')" "candidates_ok (k + 1) st" "0 \<le> k"
  shows "candidates_ok k st' \<and> same_people st st' \<and> mst_NextIntentID st' = mst_NextIntentID st \<and>
    mst_Candidates st' = mst_Candidates st"
proof -
  have r: "room (k + 1) (mst_NextConflictID st)" using assms(2) by (simp add: candidates_ok_def)
  note n = next64_room [OF r assms(3)]
  have "st' = st \<or> (\<exists>m. st' = st\<lparr>mst_NextConflictID := mst_NextConflictID st + 1, mst_Conflicts := m\<rparr>)"
    using assms(1) n by (auto simp: createConflictLocked_def Let_def split: option.splits)
  moreover have "room k (mst_NextCandidateID st)" using assms(2) room_less [of "k + 1" _ k] by (simp add: candidates_ok_def)
  ultimately show ?thesis using assms(2) n unfolding candidates_ok_def same_people_def by auto
qed

lemma same_people_trans: "same_people a b \<Longrightarrow> same_people b c \<Longrightarrow> same_people a c"
  unfolding same_people_def by metis

lemma same_people_refl [simp]: "same_people st st"
  by (simp add: same_people_def)

lemma candidates_less: "candidates_ok k st \<Longrightarrow> j \<le> k \<Longrightarrow> candidates_ok j st"
  unfolding candidates_ok_def by (blast intro: room_less)

lemma createCandidate_ok:
  assumes "createCandidateLocked a b e w st = (c, st')" "candidates_ok (k + 1) st" "0 \<le> k"
  shows "candidates_ok k st' \<and> same_people st st' \<and> mst_NextIntentID st' = mst_NextIntentID st"
proof (cases "mst_CandidateByPair st (candidatePairKey a b)")
  case None
  with assms(1) have "new_candidate a b e w st = (c, st')" by (simp add: createCandidateLocked_def)
  from new_candidate_ok [OF this assms(2,3)] show ?thesis .
next
  case (Some i)
  then obtain d where d: "mst_Candidates st i = Some d" using assms(2) unfolding candidates_ok_def by blast
  have id: "cnd_ID d = i" "i \<le> mst_NextCandidateID st" using d assms(2) unfolding candidates_ok_def by blast+
  have less: "candidates_ok k st" using candidates_less [OF assms(2)] by simp
  let ?d = "d\<lparr>cnd_Evidence := e, cnd_Reason := w\<rparr>"
  have eq: "(if cnd_Status d = CandidateOpen \<and> candidateVersionsMatchLocked st d then
      (if evidenceRank (evd_Strength (cnd_Evidence d)) < evidenceRank (evd_Strength e)
       then (?d, st\<lparr>mst_Candidates := (mst_Candidates st)(i \<mapsto> ?d)\<rparr>) else (d, st))
     else new_candidate a b e w (snd (rejectCandidateLocked d st))) = (c, st')"
    using assms(1) unfolding createCandidateLocked_def Some Let_def option.case d id(1) .
  consider "(d, st) = (c, st')" | "(?d, st\<lparr>mst_Candidates := (mst_Candidates st)(i \<mapsto> ?d)\<rparr>) = (c, st')"
    | "new_candidate a b e w (snd (rejectCandidateLocked d st)) = (c, st')"
    using eq by metis
  then show ?thesis
  proof cases
    case 1
    with less show ?thesis by simp
  next
    case 2
    then have st': "st' = st\<lparr>mst_Candidates := (mst_Candidates st)(i \<mapsto> d\<lparr>cnd_Evidence := e, cnd_Reason := w\<rparr>)\<rparr>" by auto
    have "mst_Candidates st j \<noteq> None" if "mst_CandidateByPair st p = Some j" for p j
      using less that unfolding candidates_ok_def by blast
    with less id show ?thesis by (simp add: st' candidates_ok_def same_people_def)
  next
    case 3
    obtain r st1 where r: "rejectCandidateLocked d st = (r, st1)" by fastforce
    note rej = rejected_candidate [OF r assms(2)]
    have "mst_Candidates st (cnd_ID d) \<noteq> None" using d id by simp
    note rej = rej [OF this]
    have "new_candidate a b e w st1 = (c, st')" using 3 r by simp
    from new_candidate_ok [OF this rej [THEN conjunct1] assms(3)] rej same_people_trans [of st st1 st']
    show ?thesis by simp
  qed
qed

lemma touched_customer:
  assumes "store_ok k st" "0 \<le> k" "active_root st i" "room (k + 1) (cus_Version (customer_at st i))"
  shows "store_ok k (touchCustomerLocked i st) \<and> quiet st (touchCustomerLocked i st) \<and>
    mst_Identities (touchCustomerLocked i st) = mst_Identities st \<and>
    mst_IdentityByKey (touchCustomerLocked i st) = mst_IdentityByKey st"
proof -
  have ok: "customers_ok k st" using assms(1) by (simp add: store_ok_def)
  obtain d where d: "d \<in> set (mst_Customers st)" "cus_ID d = i" "cus_Status d = CustomerActive"
    using assms(3) unfolding active_root_def by blast
  let ?c = "d\<lparr>cus_Version := next64 (cus_Version d)\<rparr>"
  let ?st = "touchCustomerLocked i st"
  have f: "find_customer (mst_Customers st) i = Some d" using d ok by (simp add: find_customer_iff)
  have st': "?st = st\<lparr>mst_Customers := replace_customer ?c (mst_Customers st)\<rparr>"
    using customer_at_in [OF ok d(1)] d(2) f by (simp add: touchCustomerLocked_def Let_def put_existing)
  have same: "chain (mst_Customers ?st) n j r = chain (mst_Customers st) n j r" for n j r
    unfolding st' using chain_same [of "mst_Customers st" ?c d] f d(2) by simp
  have rooms: "room (k + 1) (cus_Version d)" "room k (cus_Lineage d)"
    using ok d assms(4) customer_at_in [OF ok d(1)] by (simp_all add: customers_ok_def)
  have "customers_ok k ?st"
    using same next64_room [OF rooms(1) assms(2)] rooms(2) d
    by (intro customers_ok_replace [OF ok d(1)]) (auto simp: st')
  moreover have roots: "rootLocked ?st j = rootLocked st j" for j by (rule roots_cong) (rule same)
  have act: "active_root ?st j" if j: "active_root st j" for j
  proof -
    obtain x where x: "x \<in> set (mst_Customers st)" "cus_ID x = j" "cus_Status x = CustomerActive"
      using j unfolding active_root_def by blast
    let ?x = "if cus_ID x = cus_ID ?c then ?c else x"
    have "?x \<in> set (mst_Customers ?st)" using replaced_in [OF x(1), of ?c] by (simp add: st')
    moreover have "cus_ID ?x = j" "cus_Status ?x = CustomerActive" using x d by auto
    ultimately show ?thesis unfolding active_root_def by blast
  qed
  have ids: "identities_ok k st" using assms(1) by (simp add: store_ok_def)
  then have "identities_ok k ?st"
    using act unfolding identities_ok_def st' by simp
  ultimately show ?thesis
    using roots assms(1) by (simp add: st' store_ok_def merges_ok_def candidates_ok_def quiet_def)
qed

subsection \<open>Provisioning and linking\<close>

lemma identity_of_key:
  assumes "identities_ok k st" "mst_IdentityByKey st key = Some i"
  shows "identity_at st i \<in> set (mst_Identities st) \<and> sid_ID (identity_at st i) = i \<and>
    identityKey (sid_Reference (identity_at st i)) = key"
proof -
  obtain x where x: "x \<in> set (mst_Identities st)" "sid_ID x = i" "identityKey (sid_Reference x) = key"
    using assms unfolding identities_ok_def by blast
  obtain y where y: "find_identity st i = Some y"
    using x by (cases "find_identity st i") (auto simp: find_identity_def find_None_iff)
  then have "y \<in> set (mst_Identities st)" "sid_ID y = i" by (auto simp: find_identity_def find_Some_iff)
  with x assms(1) have "y = x" by (auto simp: identities_ok_def distinct_map inj_on_def)
  with x y show ?thesis by (simp add: identity_at_def)
qed

lemma owner_is_root:
  assumes "store_ok k st" "x \<in> set (mst_Identities st)"
  shows "rootLocked st (sid_CustomerID x) = sid_CustomerID x \<and> 0 < sid_CustomerID x \<and> mid_Active x \<and>
    active_root st (sid_CustomerID x)"
  using assms root_of_active by (auto simp: store_ok_def identities_ok_def)

lemma owned_iff: "store_ok k st \<Longrightarrow> x \<in> set (mst_Identities st) \<Longrightarrow> owned st i x \<longleftrightarrow> sid_CustomerID x = i"
  using owner_is_root by (auto simp: owned_def)

lemma Provision_known:
  assumes "mst_IdentityByKey st (identityKey (fct_Reference vf)) = Some i" "store_ok k st"
  shows "Store_Provision vf st = (\<lparr>pid_CustomerID = sid_CustomerID (identity_at st i), pid_IdentityID = i,
    pid_Created = False\<rparr>, st) \<and> active_root st (sid_CustomerID (identity_at st i)) \<and> 0 < i"
proof -
  have ids: "identities_ok k st" using assms(2) by (simp add: store_ok_def)
  note here = identity_of_key [OF ids assms(1)]
  then have "0 < sid_ID (identity_at st i)" using ids unfolding identities_ok_def by blast
  with here owner_is_root [OF assms(2), of "identity_at st i"] show ?thesis
    by (simp add: Store_Provision_def assms(1))
qed

lemma Provision_new:
  assumes "mst_IdentityByKey st (identityKey (fct_Reference vf)) = None" "store_ok (k + 1) st" "0 \<le> k"
    "Store_Provision vf st = (p, st')"
  shows "store_ok k st' \<and> quiet st st' \<and> active_root st' (pid_CustomerID p) \<and> 0 < pid_IdentityID p \<and>
    mst_IdentityByKey st' (identityKey (fct_Reference vf)) = Some (pid_IdentityID p)"
proof -
  obtain c st1 where 1: "createCustomerLocked st = (c, st1)" by fastforce
  obtain i st2 where 2: "createIdentityLocked c (fct_Reference vf) st1 = (i, st2)" by fastforce
  have p: "p = \<lparr>pid_CustomerID = c, pid_IdentityID = i, pid_Created = True\<rparr>" "st' = st2"
    using assms(1,4) 1 2 by (simp_all add: Store_Provision_def)
  have ok: "customers_ok (k + 1) st" using assms(2) by (simp add: store_ok_def)
  note cu = created_customer [OF 1 ok assms(3)]
  have act: "active_root st1 j" if "active_root st j" for j using that unfolding cu(4) active_root_def by auto
  have act1: "active_root st1 c" unfolding cu(4) active_root_def by simp
  have less: "store_ok k st" using store_ok_less [OF assms(2)] by simp
  have "identities_ok k st1"
    using less act unfolding store_ok_def identities_ok_def by (simp add: cu(4))
  then have ok1: "store_ok k st1"
    using less cu(1) by (simp add: store_ok_def cu(4) merges_ok_def candidates_ok_def)
  have roots: "rootLocked st1 j = rootLocked st j" if j: "0 < rootLocked st j" for j
  proof -
    obtain n where "chain (mst_Customers st) n j (rootLocked st j)" using rootLocked_chain [OF j] by blast
    from chain_append [OF this] show ?thesis using rootLocked_chain [OF j, of st1] by (auto simp: cu(4))
  qed
  have "fits st1 c (fct_Reference vf)"
    unfolding fits_def
  proof (intro ballI impI)
    fix x assume x: "x \<in> set (mst_Identities st1)" "sid_CustomerID x = c"
    then have "active_root st c" using less by (auto simp: cu(4) store_ok_def identities_ok_def)
    then show "nrf_Scope (sid_Reference x) \<noteq> nrf_Scope (fct_Reference vf)"
      using less cu(2) by (fastforce simp: active_root_def store_ok_def customers_ok_def)
  qed
  moreover have "room (k + 1) (mst_NextIdentityID st1)" using assms(2) by (simp add: cu(4) store_ok_def identities_ok_def)
  moreover have "mst_IdentityByKey st1 (identityKey (fct_Reference vf)) = None" using assms(1) by (simp add: cu(4))
  ultimately have id: "store_ok k st2" "0 < i"
    and st2: "st2 = st1\<lparr>mst_NextIdentityID := i, mst_Identities := mst_Identities st1 @
      [\<lparr>sid_ID = i, sid_CustomerID = c, sid_Reference = fct_Reference vf, mid_Active = True, mid_Version = 1\<rparr>],
      mst_IdentityByKey := (mst_IdentityByKey st1)(identityKey (fct_Reference vf) \<mapsto> i)\<rparr>"
    using created_identity [OF 2 ok1 assms(3)] act1 by blast+
  have "quiet st st2"
    unfolding quiet_def
  proof (intro conjI allI impI)
    show "rootLocked st2 j = rootLocked st j" if "0 < rootLocked st j" for j
      using roots [OF that] by (simp add: st2 rootLocked_def)
    show "\<exists>new. mst_Identities st2 = mst_Identities st @ new" by (simp add: st2 cu(4))
    show "mst_IdentityByKey st2 key = Some j" if "mst_IdentityByKey st key = Some j" for key j
      using that assms(1) by (auto simp: st2 cu(4))
  qed
  moreover have "active_root st2 c" using act1 by (simp add: st2 active_root_def)
  ultimately show ?thesis using id p by (simp add: st2)
qed

definition link_room :: "int \<Rightarrow> memory_store \<Rightarrow> memory_store \<Rightarrow> bool" where
  "link_room k st st' \<longleftrightarrow> store_ok k st' \<and> quiet st st' \<and> mst_NextIntentID st' = mst_NextIntentID st"

lemma no_conflict_fits:
  assumes "store_ok k st" "sameRootStrongConflictLocked st i r = []"
    "mst_IdentityByKey st (identityKey r) = None"
  shows "fits st i r"
  unfolding fits_def
proof (intro ballI impI notI)
  fix x assume x: "x \<in> set (mst_Identities st)" "sid_CustomerID x = i" "singleValueStrong (nrf_Kind r)"
    "nrf_Kind (sid_Reference x) = nrf_Kind r" "nrf_Scope (sid_Reference x) = nrf_Scope r"
  with assms(1,2) owned_iff [OF assms(1) x(1)] have "nrf_NormalizedValue (sid_Reference x) = nrf_NormalizedValue r"
    by (auto simp: sameRootStrongConflictLocked_def list_ex_iff split: if_splits)
  with x have "identityKey (sid_Reference x) = identityKey r" by (simp add: identityKey_def)
  with x(1) assms(1,3) show False
    unfolding store_ok_def identities_ok_def by (metis option.distinct(1))
qed

lemma linkLocked_ok:
  assumes "linkLocked command st = (res, st')" "store_ok (k + 1) st" "0 \<le> k"
  shows "link_room k st st'"
proof -
  let ?source = "activeRootLocked st (lkc_SourceCustomerID command)" and ?r = "fct_Reference (lkc_Target command)"
  let ?e = "lkc_Evidence command"
  have less: "store_ok k st" using store_ok_less [OF assms(2)] by simp
  have cands: "candidates_ok (k + 1) st" "room k (mst_NextIntentID st)"
    using assms(2) less by (simp_all add: store_ok_def)
  have books: "link_room k st st1" if "candidates_ok k st1 \<and> same_people st st1 \<and> mst_NextIntentID st1 = mst_NextIntentID st" for st1
    using that same_people_ok [OF assms(2,3), of st1] same_people_quiet [of st st1] cands(2) by (simp add: link_room_def)
  have same: "link_room k st st" using less by (simp add: link_room_def)
  show ?thesis
  proof (cases "?source < 1")
    case True
    with assms(1) same show ?thesis by (simp add: linkLocked_def)
  next
    case source: False
    have ok: "customers_ok (k + 1) st" using assms(2) by (simp add: store_ok_def)
    have act: "active_root st ?source" using root_is_active [OF ok] source by (simp add: activeRoot_cases [OF ok])
    show ?thesis
    proof (cases "mst_IdentityByKey st (identityKey ?r)")
      case (Some i)
      let ?t = "rootLocked st (sid_CustomerID (identity_at st i))"
      obtain c st1 where c: "createCandidateLocked ?source ?t ?e
          (if evd_Strength ?e \<noteq> EvidenceStrong then ''non_strong_evidence''
           else ''cross_root_link_requires_confirmation'') st = (c, st1)" by fastforce
      have "st' = st \<or> st' = st1" using assms(1) source c by (auto simp: linkLocked_def Let_def Some split: if_splits)
      with same books [of st1] createCandidate_ok [OF c cands(1) assms(3)] show ?thesis by auto
    next
      case None
      obtain c st1 where c: "createConflictLocked ?source ?source (sameRootStrongConflictLocked st ?source ?r) ?e st = (c, st1)"
        by fastforce
      obtain i st2 where i: "createIdentityLocked ?source ?r st = (i, st2)" by fastforce
      consider "st' = st" | "st' = st1"
        | "st' = touchCustomerLocked ?source st2" "sameRootStrongConflictLocked st ?source ?r = []"
        using assms(1) source c i by (auto simp: linkLocked_def Let_def None split: if_splits)
      then show ?thesis
      proof cases
        case 3
        have "room (k + 1) (mst_NextIdentityID st)" using assms(2) by (simp add: store_ok_def identities_ok_def)
        note new = created_identity [OF i less assms(3) this None act no_conflict_fits [OF less 3(2) None]]
        have act2: "active_root st2 ?source" using act by (simp add: new(3) active_root_def)
        have "customer_at st2 ?source = customer_at st ?source" by (simp add: new(3) customer_at_def)
        moreover have "room (k + 1) (cus_Version (customer_at st ?source))"
          using active_row [OF ok act] by blast
        ultimately have touched: "store_ok k st' \<and> quiet st2 st'"
          using touched_customer [OF new(1) assms(3) act2] 3(1) by simp
        have "quiet st st2"
          using None by (auto simp: quiet_def new(3) rootLocked_def)
        moreover have "mst_NextIntentID st' = mst_NextIntentID st"
          by (simp add: 3(1) new(3) touchCustomerLocked_def Let_def put_customer_def)
        ultimately show ?thesis using touched quiet_trans unfolding link_room_def by blast
      qed (use same books createConflict_ok [OF c cands(1) assms(3)] in auto)
    qed
  qed
qed

subsection \<open>Intents and declared phones\<close>

definition settled :: "int \<Rightarrow> memory_store \<Rightarrow> memory_store \<Rightarrow> bool" where
  "settled k st st' \<longleftrightarrow> store_ok k st' \<and> quiet st st'"

lemma settled_refl: "store_ok k st \<Longrightarrow> settled k st st"
  by (simp add: settled_def)

lemma settled_books:
  assumes "settled k st st1"
  shows "settled k st (put_intent h x st1)" "settled k st (st1\<lparr>mst_PhoneReceipts := m\<rparr>)"
  using assms by (simp_all add: settled_def put_intent_def store_ok_def customers_ok_def identities_ok_def
      merges_ok_def candidates_ok_def active_root_def quiet_def rootLocked_def)

lemma CreateLinkIntent_ok:
  assumes "Store_CreateLinkIntent random command st = (res, st')" "store_ok (k + 1) st" "0 \<le> k"
  shows "settled k st st'"
proof -
  have less: "store_ok k st" using store_ok_less [OF assms(2)] by simp
  have "room (k + 1) (mst_NextIntentID st)" using assms(2) by (simp add: store_ok_def)
  note n = next64_room [OF this assms(3)]
  have "st' = st \<or> (\<exists>m. st' = st\<lparr>mst_NextIntentID := mst_NextIntentID st + 1, mst_IntentsByHash := m\<rparr>)"
    using assms(1) n by (auto simp: Store_CreateLinkIntent_def Let_def split: if_splits option.splits)
  with less n show ?thesis
    by (auto simp: settled_def store_ok_def customers_ok_def identities_ok_def
      merges_ok_def candidates_ok_def active_root_def quiet_def rootLocked_def)
qed

lemma ConsumeLinkIntent_ok:
  assumes "Store_ConsumeLinkIntent now command st = (res, st')" "store_ok (k + 1) st" "0 \<le> k"
  shows "settled k st st'"
proof -
  have less: "store_ok k st" using store_ok_less [OF assms(2)] by simp
  consider "st' = st" | h x where "st' = put_intent h x st"
    | c r st1 where "linkLocked c st = (r, st1)" "st' = st1"
    | c r st1 h x where "linkLocked c st = (r, st1)" "st' = put_intent h x st1"
    using assms(1)
    by (auto simp: Store_ConsumeLinkIntent_def Let_def split: option.splits intent_status.splits if_splits prod.splits sum.splits)
  moreover have "settled k st st1" if "linkLocked c st = (r, st1)" for c r st1
    using linkLocked_ok [OF that assms(2,3)] by (simp add: link_room_def settled_def)
  ultimately show ?thesis using settled_refl [OF less] settled_books [of k st] by cases blast+
qed

lemma AttachDeclaredPhone_ok:
  assumes "Store_AttachDeclaredPhone command r st = (res, st')" "store_ok (k + 1) st" "0 \<le> k" "nrf_Kind r = KindPhone"
    "0 < dpc_CustomerID command"
  shows "settled k st st'"
proof -
  let ?c = "dpc_CustomerID command"
  have less: "store_ok k st" using store_ok_less [OF assms(2)] by simp
  have ok: "customers_ok (k + 1) st" using assms(2) by (simp add: store_ok_def)
  note books = settled_books(2) [OF settled_refl [OF less]]
  show ?thesis
  proof (cases "mst_PhoneReceipts st (dpc_IdempotencyKey command)")
    case (Some q)
    with assms(1) have "st' = st"
      by (cases q) (simp add: Store_AttachDeclaredPhone_def Let_def split: if_splits)
    with settled_refl [OF less] show ?thesis by simp
  next
    case receipt: None
    show ?thesis
    proof (cases "activeRootLocked st ?c = ?c \<and> mst_IdentityByKey st (identityKey r) = None")
      case False
      with assms(1) receipt obtain m where "st' = st\<lparr>mst_PhoneReceipts := m\<rparr>"
        by (auto simp: Store_AttachDeclaredPhone_def Let_def split: if_splits option.splits)
      with books show ?thesis by simp
    next
      case True
      obtain i st1 where i: "createIdentityLocked ?c r st = (i, st1)" by fastforce
      with assms(1) receipt True obtain m where m: "st' = st1\<lparr>mst_PhoneReceipts := m\<rparr>"
        by (auto simp: Store_AttachDeclaredPhone_def Let_def)
      have act: "active_root st ?c" using root_is_active [OF ok, of ?c] True assms(5) by (simp add: activeRoot_cases [OF ok])
      have fit: "fits st ?c r" using assms(4) by (simp add: fits_def)
      have rm: "room (k + 1) (mst_NextIdentityID st)" using assms(2) by (simp add: store_ok_def identities_ok_def)
      note new = created_identity(1,3) [OF i less assms(3) rm True [THEN conjunct2] act fit]
      have "quiet st st1" using True by (auto simp: quiet_def new(2) rootLocked_def)
      with new(1) have "settled k st st1" by (simp add: settled_def)
      then show ?thesis unfolding m by (rule settled_books)
    qed
  qed
qed

subsection \<open>Merges\<close>

lemma conflict_free:
  assumes ok: "store_ok k st" and free: "strongConflictLocked st a b = []"
    and x: "x \<in> set (mst_Identities st)" "sid_CustomerID x = a" and y: "y \<in> set (mst_Identities st)" "sid_CustomerID y = b"
    and same: "singleValueStrong (nrf_Kind (sid_Reference x))" "nrf_Kind (sid_Reference x) = nrf_Kind (sid_Reference y)"
      "nrf_Scope (sid_Reference x) = nrf_Scope (sid_Reference y)"
  shows "x = y"
proof -
  have "nrf_NormalizedValue (sid_Reference y) = nrf_NormalizedValue (sid_Reference x)"
  proof (rule ccontr)
    assume "nrf_NormalizedValue (sid_Reference y) \<noteq> nrf_NormalizedValue (sid_Reference x)"
    with x y same owned_iff [OF ok] have "list_ex (\<lambda>l. owned st a l \<and> singleValueStrong (nrf_Kind (sid_Reference l)) \<and>
          list_ex (\<lambda>r. owned st b r \<and> nrf_Kind (sid_Reference r) = nrf_Kind (sid_Reference l) \<and>
             nrf_Scope (sid_Reference r) = nrf_Scope (sid_Reference l) \<and>
             nrf_NormalizedValue (sid_Reference r) \<noteq> nrf_NormalizedValue (sid_Reference l)) (mst_Identities st))
        (mst_Identities st)" by (fastforce simp: list_ex_iff)
    with free show False by (simp add: strongConflictLocked_def split: if_splits)
  qed
  with same have "identityKey (sid_Reference x) = identityKey (sid_Reference y)" by (simp add: identityKey_def)
  moreover have ids: "identities_ok k st" using ok by (simp add: store_ok_def)
  ultimately have "Some (sid_ID x) = Some (sid_ID y)" using x(1) y(1) unfolding identities_ok_def by metis
  with ids x(1) y(1) show ?thesis by (auto simp: identities_ok_def distinct_map inj_on_def)
qed

definition moved_identity :: "int \<Rightarrow> int \<Rightarrow> memory_identity \<Rightarrow> memory_identity" where
  "moved_identity l s x = (if sid_CustomerID x = l
     then x\<lparr>sid_CustomerID := s, mid_Version := next64 (mid_Version x)\<rparr> else x)"

lemma moved_identity_simps [simp]:
  "sid_ID (moved_identity l s x) = sid_ID x" "sid_Reference (moved_identity l s x) = sid_Reference x"
  "mid_Active (moved_identity l s x) = mid_Active x"
  "sid_CustomerID (moved_identity l s x) = (if sid_CustomerID x = l then s else sid_CustomerID x)"
  by (simp_all add: moved_identity_def)

definition merged_row :: "int \<Rightarrow> memory_customer \<Rightarrow> memory_customer" where
  "merged_row s c = c\<lparr>cus_Status := CustomerMerged, cus_MergedTo := s, cus_Version := next64 (cus_Version c),
     cus_Lineage := next64 (cus_Lineage c)\<rparr>"

definition bumped_row :: "memory_customer \<Rightarrow> memory_customer" where
  "bumped_row c = c\<lparr>cus_Version := next64 (cus_Version c), cus_Lineage := next64 (cus_Lineage c)\<rparr>"

lemma row_ids [simp]: "cus_ID (merged_row s c) = cus_ID c" "cus_ID (bumped_row c) = cus_ID c"
  by (simp_all add: merged_row_def bumped_row_def)

lemma mergeLocked_rows:
  assumes "mergeLocked cand l s e op st = (m, st')" "store_ok (k + 1) st" "active_root st l" "active_root st s" "l \<noteq> s"
  shows "mst_Identities st' = map (moved_identity l s) (mst_Identities st)"
    and "mst_Customers st' = replace_customer (bumped_row (customer_at st s))
      (replace_customer (merged_row s (customer_at st l)) (mst_Customers st))"
    and "mst_NextCustomerID st' = mst_NextCustomerID st" "mst_NextIdentityID st' = mst_NextIdentityID st"
      "mst_IdentityByKey st' = mst_IdentityByKey st" "mst_Candidates st' = mst_Candidates st"
      "mst_CandidateByPair st' = mst_CandidateByPair st" "mst_NextCandidateID st' = mst_NextCandidateID st"
      "mst_NextConflictID st' = mst_NextConflictID st" "mst_NextIntentID st' = mst_NextIntentID st"
    and "mst_NextMergeID st' = next64 (mst_NextMergeID st)" "mrg_ID m = mst_NextMergeID st'"
      "mst_Merges st' = (mst_Merges st)(mrg_ID m \<mapsto> m)"
      "mst_MovedByMerge st' = (mst_MovedByMerge st)(mrg_ID m := sort_key mbr_IdentityID
        (map (\<lambda>x. \<lparr>mbr_IdentityID = sid_ID x, mbr_From = l, mbr_To = s, mbr_VersionAfter = next64 (mid_Version x)\<rparr>)
          (filter (\<lambda>x. sid_CustomerID x = l) (mst_Identities st))))"
    and "mrg_FromCustomerID m = l" "mrg_ToCustomerID m = s" "\<not> mrg_Reversed m"
      "mrg_FromLineageAfter m = next64 (cus_Lineage (customer_at st l))"
      "mrg_ToLineageAfter m = next64 (cus_Lineage (customer_at st s))"
proof -
  have ok: "customers_ok (k + 1) st" using assms(2) by (simp add: store_ok_def)
  note l = active_row [OF ok assms(3)] and s = active_row [OF ok assms(4)]
  have owned: "map (\<lambda>x. if owned st l x then x\<lparr>sid_CustomerID := s, mid_Version := next64 (mid_Version x)\<rparr> else x)
      (mst_Identities st) = map (moved_identity l s) (mst_Identities st)"
    "filter (owned st l) (mst_Identities st) = filter (\<lambda>x. sid_CustomerID x = l) (mst_Identities st)"
    using owned_iff [OF assms(2)] by (auto simp: moved_identity_def cong: filter_cong)
  have f: "find_customer (mst_Customers (st\<lparr>mst_NextMergeID := n, mst_Identities := xs\<rparr>)) l \<noteq> None"
    "find_customer (replace_customer c (mst_Customers st)) s \<noteq> None" for n xs c
    using l s by (auto simp: find_replace)
  have puts: "put_customer s (bumped_row (customer_at st s)) (put_customer l (merged_row s (customer_at st l))
      (st\<lparr>mst_NextMergeID := n, mst_Identities := xs\<rparr>)) = st\<lparr>mst_NextMergeID := n, mst_Identities := xs,
      mst_Customers := replace_customer (bumped_row (customer_at st s))
      (replace_customer (merged_row s (customer_at st l)) (mst_Customers st))\<rparr>" for n xs
    using l s put_existing [OF f(1)] f(2) by (simp add: put_existing)
  note defs = mergeLocked_def Let_def owned merged_row_def [symmetric] bumped_row_def [symmetric] puts
  show "mst_Identities st' = map (moved_identity l s) (mst_Identities st)"
    "mst_Customers st' = replace_customer (bumped_row (customer_at st s))
      (replace_customer (merged_row s (customer_at st l)) (mst_Customers st))"
    "mst_NextCustomerID st' = mst_NextCustomerID st" "mst_NextIdentityID st' = mst_NextIdentityID st"
    "mst_IdentityByKey st' = mst_IdentityByKey st" "mst_Candidates st' = mst_Candidates st"
    "mst_CandidateByPair st' = mst_CandidateByPair st" "mst_NextCandidateID st' = mst_NextCandidateID st"
    "mst_NextConflictID st' = mst_NextConflictID st" "mst_NextIntentID st' = mst_NextIntentID st"
    "mst_NextMergeID st' = next64 (mst_NextMergeID st)" "mrg_ID m = mst_NextMergeID st'"
    "mst_Merges st' = (mst_Merges st)(mrg_ID m \<mapsto> m)"
    "mst_MovedByMerge st' = (mst_MovedByMerge st)(mrg_ID m := sort_key mbr_IdentityID
        (map (\<lambda>x. \<lparr>mbr_IdentityID = sid_ID x, mbr_From = l, mbr_To = s, mbr_VersionAfter = next64 (mid_Version x)\<rparr>)
          (filter (\<lambda>x. sid_CustomerID x = l) (mst_Identities st))))"
    "mrg_FromCustomerID m = l" "mrg_ToCustomerID m = s" "\<not> mrg_Reversed m"
    "mrg_FromLineageAfter m = next64 (cus_Lineage (customer_at st l))"
    "mrg_ToLineageAfter m = next64 (cus_Lineage (customer_at st s))"
    using assms(1) unfolding defs by (auto simp: merged_row_def bumped_row_def)
qed

end
