(* ===== verification/IdentityMerge.thy ===== *)
theory IdentityMerge
  imports IdentityInv
begin

text \<open>
  Merges and their reversal: both keep the invariant of the store, a merge sends the lineage of the
  loser to the survivor and leaves every other lineage alone, a reversal gives back exactly the
  identities the merge moved.
\<close>

subsection \<open>The effect of a merge on the roots\<close>

lemma root_zero:
  assumes "customers_ok k st"
  shows "rootLocked st j = 0 \<longleftrightarrow> find_customer (mst_Customers st) j = None"
proof
  assume "rootLocked st j = 0"
  then have "\<not> active_root st (rootLocked st j)" using root_of_active [OF assms] by force
  with customer_has_root [OF assms] find_customer_in show "find_customer (mst_Customers st) j = None"
    by (metis not_None_eq)
next
  assume "find_customer (mst_Customers st) j = None"
  then have "\<not> chain (mst_Customers st) n j r" for n r by (cases n) auto
  then show "rootLocked st j = 0" using rootLocked_chain rootLocked_nonneg
    by (metis order_le_less rootLocked_def)
qed

lemma root_by_chains:
  assumes ok: "customers_ok k st" "customers_ok j st'"
    and same: "\<And>i. find_customer (mst_Customers st') i = None \<longleftrightarrow> find_customer (mst_Customers st) i = None"
    and chains: "\<And>n i r. chain (mst_Customers st) n i r \<Longrightarrow> \<exists>m. chain (mst_Customers st') m i (f r)"
  shows "rootLocked st' i = (if rootLocked st i = 0 then 0 else f (rootLocked st i))"
proof (cases "rootLocked st i = 0")
  case True
  with root_zero [OF ok(1)] root_zero [OF ok(2)] same show ?thesis by simp
next
  case False
  then have pos: "0 < rootLocked st i" using rootLocked_nonneg [of "mst_Customers st" "[]" i] by (simp add: rootLocked_def)
  then obtain n where "chain (mst_Customers st) n i (rootLocked st i)" using rootLocked_chain by blast
  then obtain m where m: "chain (mst_Customers st') m i (f (rootLocked st i))" using chains by blast
  with chain_end [OF m] rootLocked_chain False show ?thesis by auto
qed

lemma merge_chain:
  assumes "customers_ok (k + 1) st" "active_root st l" "active_root st s" "l \<noteq> s"
    and "cs = replace_customer (bumped_row (customer_at st s)) (replace_customer (merged_row s (customer_at st l)) (mst_Customers st))"
  shows "chain (mst_Customers st) n j r \<Longrightarrow> \<exists>m. chain cs m j (if r = l then s else r)"
proof -
  note l = active_row [OF assms(1,2)] and s = active_row [OF assms(1,3)]
  assume "chain (mst_Customers st) n j r"
  from chain_merged [OF _ _ _ _ _ _ _ _ _ this, of l "customer_at st l" "merged_row s (customer_at st l)" s "customer_at st s"]
  obtain m where m: "chain (replace_customer (merged_row s (customer_at st l)) (mst_Customers st)) m j (if r = l then s else r)"
    using l s assms(4) root_of_active [OF assms(1,3)] by (auto simp: merged_row_def)
  have "chain cs m j (if r = l then s else r)"
    unfolding assms(5)
    by (rule chain_same [THEN iffD2, OF _ _ _ m]) (use s assms(4) l in \<open>auto simp: find_replace bumped_row_def\<close>)
  then show ?thesis ..
qed

lemma merge_customers_ok:
  assumes ok: "customers_ok (k + 1) st" "0 \<le> k" and rows: "active_root st l" "active_root st s" "l \<noteq> s"
    and st': "mst_Customers st' = replace_customer (bumped_row (customer_at st s))
      (replace_customer (merged_row s (customer_at st l)) (mst_Customers st))" "mst_NextCustomerID st' = mst_NextCustomerID st"
  shows "customers_ok k st'"
proof -
  note l = active_row [OF ok(1) rows(1)] and s = active_row [OF ok(1) rows(2)]
  let ?L = "merged_row s (customer_at st l)" and ?S = "bumped_row (customer_at st s)"
  let ?st1 = "st\<lparr>mst_Customers := replace_customer ?L (mst_Customers st)\<rparr>"
  have less: "customers_ok k st" using customers_less [OF ok(1)] by simp
  note nl = next64_room [OF _ ok(2), of "cus_Version (customer_at st l)"] next64_room [OF _ ok(2), of "cus_Lineage (customer_at st l)"]
  note ns = next64_room [OF _ ok(2), of "cus_Version (customer_at st s)"] next64_room [OF _ ok(2), of "cus_Lineage (customer_at st s)"]
  have s1: "find_customer (mst_Customers ?st1) s = Some (customer_at st s)" using l s rows(3) by (auto simp: find_replace)
  have c1: "chain (mst_Customers ?st1) n j r = chain (mst_Customers st') n j r" for n j r
    unfolding st' by (subst chain_same [OF _]) (use s1 s in \<open>auto simp: bumped_row_def\<close>)
  have 1: "customers_ok k ?st1"
  proof (rule customers_ok_replace [OF less, of "customer_at st l" ?L])
    fix n j r assume "chain (mst_Customers st) n j r"
    from merge_chain [OF ok(1) rows refl this] show "\<exists>m q. chain (replace_customer ?L (mst_Customers st)) m j q"
      using c1 unfolding st' by simp blast
  qed (use l nl in \<open>auto simp: merged_row_def\<close>)
  from find_customer_in [OF s1] show ?thesis
    by (intro customers_ok_replace [OF 1, of "customer_at st s" ?S])
      (use s ns c1 st' in \<open>auto simp: bumped_row_def\<close>)
qed


lemma merge_active:
  assumes "store_ok (k + 1) st" "active_root st l" "active_root st s" "l \<noteq> s"
    and st': "mst_Customers st' = replace_customer (bumped_row (customer_at st s))
      (replace_customer (merged_row s (customer_at st l)) (mst_Customers st))"
  shows "active_root st' i \<longleftrightarrow> active_root st i \<and> i \<noteq> l"
proof -
  have ok: "customers_ok (k + 1) st" using assms(1) by (simp add: store_ok_def)
  note l = active_row [OF ok assms(2)] and s = active_row [OF ok assms(3)]
  let ?L = "merged_row s (customer_at st l)" and ?S = "bumped_row (customer_at st s)"
  have cs: "set (mst_Customers st') = (\<lambda>x. if cus_ID x = s then ?S else if cus_ID x = l then ?L else x) ` set (mst_Customers st)"
    unfolding st' replace_customer_def using l s assms(4) by (auto simp: image_image image_iff)
  show ?thesis
  proof
    assume "active_root st' i"
    then obtain y where "y \<in> set (mst_Customers st')" and y: "cus_ID y = i" "cus_Status y = CustomerActive"
      unfolding active_root_def by blast
    then obtain x where x: "x \<in> set (mst_Customers st)" "y = (if cus_ID x = s then ?S else if cus_ID x = l then ?L else x)"
      unfolding cs by blast
    consider "cus_ID x = s" | "cus_ID x = l" "cus_ID x \<noteq> s" | "cus_ID x \<noteq> l" "cus_ID x \<noteq> s" by blast
    then show "active_root st i \<and> i \<noteq> l"
    proof cases
      case 1
      with x y s assms(3,4) show ?thesis by simp
    next
      case 2
      with x y show ?thesis by (simp add: merged_row_def)
    next
      case 3
      with x y show ?thesis unfolding active_root_def by auto
    qed
  next
    assume "active_root st i \<and> i \<noteq> l"
    then obtain x where x: "x \<in> set (mst_Customers st)" "cus_ID x = i" "cus_Status x = CustomerActive" "i \<noteq> l"
      unfolding active_root_def by blast
    then have "(if cus_ID x = s then ?S else if cus_ID x = l then ?L else x) \<in> set (mst_Customers st')"
      unfolding cs by blast
    moreover have "cus_ID (if cus_ID x = s then ?S else if cus_ID x = l then ?L else x) = i \<and>
        cus_Status (if cus_ID x = s then ?S else if cus_ID x = l then ?L else x) = CustomerActive"
      using x s by (simp add: bumped_row_def)
    ultimately show "active_root st' i" unfolding active_root_def by blast
  qed
qed

lemma map_moved_ok:
  assumes ids: "identities_ok (k + 1) st" "0 \<le> k" and act: "\<And>i. active_root st i \<Longrightarrow> i \<noteq> l \<Longrightarrow> active_root st' i"
    "active_root st' s"
    and st': "mst_Identities st' = map (moved_identity l s) (mst_Identities st)"
      "mst_NextIdentityID st' = mst_NextIdentityID st" "mst_IdentityByKey st' = mst_IdentityByKey st"
  shows "identities_ok k st'"
  unfolding identities_ok_def st'
proof (intro conjI ballI allI)
  show "distinct (map sid_ID (map (moved_identity l s) (mst_Identities st)))"
    using ids by (simp add: identities_ok_def comp_def)
  show "room k (mst_NextIdentityID st)" using ids room_less [of "k + 1" _ k] by (simp add: identities_ok_def)
  fix x assume "x \<in> set (map (moved_identity l s) (mst_Identities st))"
  then obtain y where y: "y \<in> set (mst_Identities st)" "x = moved_identity l s y" by auto
  then have r: "room (k + 1) (mid_Version y)" using ids by (simp add: identities_ok_def)
  show "0 < sid_ID x" "sid_ID x \<le> mst_NextIdentityID st" "mid_Active x" using y ids by (auto simp: identities_ok_def)
  show "room k (mid_Version x)" using next64_room [OF r ids(2)] by (simp add: y(2) moved_identity_def)
  show "active_root st' (sid_CustomerID x)" using y ids act by (auto simp: identities_ok_def)
next
  fix key i
  show "mst_IdentityByKey st key = Some i \<longleftrightarrow> (\<exists>x \<in> set (map (moved_identity l s) (mst_Identities st)).
      sid_ID x = i \<and> identityKey (sid_Reference x) = key)"
    using ids by (auto simp: identities_ok_def)
qed

lemma map_moved_exclusive:
  assumes ok: "store_ok k st" and free: "strongConflictLocked st l s = [] \<or> strongConflictLocked st s l = []"
  shows "exclusive (map (moved_identity l s) (mst_Identities st))"
  unfolding exclusive_def set_map
proof (intro ballI impI, elim imageE, goal_cases)
  case (1 _ _ x y)
  then have same: "singleValueStrong (nrf_Kind (sid_Reference x))"
    "nrf_Kind (sid_Reference x) = nrf_Kind (sid_Reference y)"
    "nrf_Scope (sid_Reference x) = nrf_Scope (sid_Reference y)" by simp_all
  then have same': "singleValueStrong (nrf_Kind (sid_Reference y))"
    "nrf_Kind (sid_Reference y) = nrf_Kind (sid_Reference x)"
    "nrf_Scope (sid_Reference y) = nrf_Scope (sid_Reference x)" by simp_all
  note xy = 1(6,8)
  have "x = y" if "sid_CustomerID x = sid_CustomerID y" 
    using ok xy same that unfolding store_ok_def exclusive_def by blast
  moreover have "x = y" if "sid_CustomerID x = l" "sid_CustomerID y = s"
    using free conflict_free [OF ok _ xy(1) that(1) xy(2) that(2) same]
      conflict_free [OF ok _ xy(2) that(2) xy(1) that(1) same'] by blast
  moreover have "x = y" if "sid_CustomerID x = s" "sid_CustomerID y = l"
    using free conflict_free [OF ok _ xy(1) that(1) xy(2) that(2) same]
      conflict_free [OF ok _ xy(2) that(2) xy(1) that(1) same'] by blast
  moreover have "(if sid_CustomerID x = l then s else sid_CustomerID x) = (if sid_CustomerID y = l then s else sid_CustomerID y)"
    using 1 by simp
  ultimately have "x = y" by (simp split: if_splits)
  with 1 show ?case by simp
qed

lemma mergeLocked_ok:
  assumes "mergeLocked cand l s e op st = (m, st')" "store_ok (k + 1) st" "0 \<le> k"
    and rows: "active_root st l" "active_root st s" "l \<noteq> s"
    and free: "strongConflictLocked st l s = [] \<or> strongConflictLocked st s l = []"
  shows "store_ok k st'" and "rootLocked st' i = (if rootLocked st i = l then s else rootLocked st i)"
proof -
  note m = mergeLocked_rows [OF assms(1,2) rows]
  have less: "store_ok k st" using store_ok_less [OF assms(2)] by simp
  have cok: "customers_ok (k + 1) st" and iok: "identities_ok (k + 1) st" and mok: "merges_ok (k + 1) st"
    using assms(2) by (simp_all add: store_ok_def)
  have 1: "customers_ok k st'" by (rule merge_customers_ok [OF cok assms(3) rows m(2,3)])
  have act: "active_root st' j \<longleftrightarrow> active_root st j \<and> j \<noteq> l" for j by (rule merge_active [OF assms(2) rows m(2)])
  have 2: "identities_ok k st'" by (rule map_moved_ok [OF iok assms(3) _ _ m(1,4,5)]) (use act rows in auto)
  have 3: "exclusive (mst_Identities st')" unfolding m(1) by (rule map_moved_exclusive [OF less free])
  have r: "room (k + 1) (mst_NextMergeID st)" using mok by (simp add: merges_ok_def)
  note n = next64_room [OF r assms(3)]
  have "distinct (map sid_ID (filter (\<lambda>x. sid_CustomerID x = l) (mst_Identities st)))"
    using iok by (auto simp: identities_ok_def distinct_map inj_on_def)
  then have d: "distinct (map mbr_IdentityID (mst_MovedByMerge st' (mrg_ID m)))"
    unfolding m(14) by (auto simp: distinct_map inj_on_def)
  have 4: "merges_ok k st'"
    unfolding merges_ok_def
  proof (rule conjI; (intro allI impI)?)
    show "room k (mst_NextMergeID st')" using n by (simp add: m(11))
    fix i q assume q: "mst_Merges st' i = Some q"
    show "i \<le> mst_NextMergeID st' \<and> mrg_FromCustomerID q \<noteq> mrg_ToCustomerID q \<and>
        distinct (map mbr_IdentityID (mst_MovedByMerge st' i)) \<and>
        (\<forall>b \<in> set (mst_MovedByMerge st' i). mbr_From b = mrg_FromCustomerID q \<and> mbr_To b = mrg_ToCustomerID q)"
    proof (cases "i = mrg_ID m")
      case True
      then have "q = m" using q by (simp add: m(13))
      with d True rows(3) show ?thesis by (auto simp: m(12,14,15,16))
    next
      case False
      then have "mst_Merges st i = Some q" "mst_MovedByMerge st' i = mst_MovedByMerge st i" using q by (simp_all add: m(13,14))
      with mok n show ?thesis unfolding merges_ok_def m(11) by force
    qed
  qed
  have 5: "candidates_ok k st'" "room k (mst_NextIntentID st')"
    using less by (simp_all add: store_ok_def candidates_ok_def m)
  show "store_ok k st'" using 1 2 3 4 5 by (simp add: store_ok_def)
  have find: "find_customer (mst_Customers st') j = None \<longleftrightarrow> find_customer (mst_Customers st) j = None" for j
    unfolding m(2) by (auto simp: find_replace)
  have "l \<noteq> 0" using root_of_active [OF cok rows(1)] by simp
  with root_by_chains [OF cok 1 find, where f = "\<lambda>r. if r = l then s else r"] merge_chain [OF cok rows m(2)]
  show "rootLocked st' i = (if rootLocked st i = l then s else rootLocked st i)" by auto
qed


subsection \<open>Confirming a candidate\<close>

lemma candidate_live:
  assumes "candidateVersionsMatchLocked st c"
  shows "active_root st (cnd_LeftCustomerID c)" "active_root st (cnd_RightCustomerID c)"
  using assms find_customer_in unfolding candidateVersionsMatchLocked_def active_root_def
  by (fastforce split: option.splits)+

text \<open>A merge moved the lineage and the identities of \<open>l\<close> to \<open>s\<close> and nothing else.\<close>

definition moved_people :: "int \<Rightarrow> int \<Rightarrow> memory_store \<Rightarrow> memory_store \<Rightarrow> bool" where
  "moved_people l s st st' \<longleftrightarrow> mst_Identities st' = map (moved_identity l s) (mst_Identities st) \<and>
     mst_IdentityByKey st' = mst_IdentityByKey st \<and>
     (\<forall>i. rootLocked st' i = (if rootLocked st i = l then s else rootLocked st i))"

text \<open>What licenses a merge: an open candidate for the pair, backed by strong evidence, whose
  customers are active and unchanged since the candidate was recorded, and no conflict of strong
  identities between them.\<close>

definition mergeable :: "memory_store \<Rightarrow> int \<Rightarrow> int \<Rightarrow> int \<Rightarrow> bool" where
  "mergeable st i l s \<longleftrightarrow> (\<exists>c. mst_Candidates st i = Some c \<and> cnd_Status c = CandidateOpen \<and>
     evd_Strength (cnd_Evidence c) = EvidenceStrong \<and> candidateVersionsMatchLocked st c \<and> l \<noteq> s \<and>
     {l, s} = {cnd_LeftCustomerID c, cnd_RightCustomerID c} \<and>
     strongConflictLocked st (cnd_LeftCustomerID c) (cnd_RightCustomerID c) = [] \<and>
     \<not> (hasWeComLocked st l \<and> \<not> hasWeComLocked st s))"

lemma candidate_books_ok:
  assumes "store_ok k st" "mst_Candidates st i \<noteq> None" "cnd_ID c = i"
  shows "store_ok k (st\<lparr>mst_Candidates := (mst_Candidates st)(i \<mapsto> c),
    mst_CandidateByPair := (mst_CandidateByPair st)(p := None)\<rparr>)"
proof -
  have "candidates_ok k st" using assms(1) by (simp add: store_ok_def)
  then have "candidates_ok k (st\<lparr>mst_Candidates := (mst_Candidates st)(i \<mapsto> c),
    mst_CandidateByPair := (mst_CandidateByPair st)(p := None)\<rparr>)"
    using assms(2,3) unfolding candidates_ok_def by auto
  with assms(1) show ?thesis
    by (simp add: store_ok_def customers_ok_def identities_ok_def merges_ok_def active_root_def)
qed

lemma ConfirmMerge_merges:
  assumes "mst_Candidates st i = Some c" "cnd_Status c = CandidateOpen" "evd_Strength (cnd_Evidence c) = EvidenceStrong"
    "cnd_LeftCustomerID c \<noteq> cnd_RightCustomerID c" "s = cnd_LeftCustomerID c \<or> s = cnd_RightCustomerID c"
    "candidateVersionsMatchLocked st c" "strongConflictLocked st (cnd_LeftCustomerID c) (cnd_RightCustomerID c) = []"
    "hasWeComLocked st (cnd_LeftCustomerID c) \<noteq> hasWeComLocked st (cnd_RightCustomerID c) \<longrightarrow>
      s = (if hasWeComLocked st (cnd_LeftCustomerID c) then cnd_LeftCustomerID c else cnd_RightCustomerID c)"
    and l: "l = (if s = cnd_LeftCustomerID c then cnd_RightCustomerID c else cnd_LeftCustomerID c)"
    and m: "mergeLocked (cnd_ID c) l s (cnd_Evidence c) op st = (m, st1)"
    and ok: "store_ok (k + 1) st" "0 \<le> k"
  shows "mergeable st i l s" and "moved_people l s st st1" "store_ok k st1" "mst_Candidates st1 = mst_Candidates st"
proof -
  have "active_root st l" "active_root st s" "l \<noteq> s" using candidate_live [OF assms(6)] assms(4,5) l by auto
  note rows = this
  have free: "strongConflictLocked st l s = [] \<or> strongConflictLocked st s l = []" using assms(5,7) l by auto
  note new = mergeLocked_ok [OF m ok rows free] and r = mergeLocked_rows [OF m ok(1) rows]
  show "store_ok k st1" by (rule new(1))
  show "moved_people l s st st1" using new(2) r(1,5) by (simp add: moved_people_def)
  show "mst_Candidates st1 = mst_Candidates st" by (rule r(6))
  show "mergeable st i l s"
    unfolding mergeable_def using assms(1-8) l rows(3) by (intro exI [of _ c]) (auto split: if_splits)
qed

lemma ConfirmMerge_ok:
  assumes "Store_ConfirmMerge command st = (res, st')" "store_ok (k + 1) st" "0 \<le> k"
  shows "store_ok k st' \<and> (quiet st st' \<or>
    (\<exists>l r. mergeable st (cmc_CandidateID command) l (cmc_SurvivorCustomerID command) \<and>
       moved_people l (cmc_SurvivorCustomerID command) st st' \<and> res = Inr r \<and> lkr_Status r = LinkMerged))"
proof (cases "mst_Candidates st (cmc_CandidateID command)")
  case None
  with assms store_ok_less [OF assms(2), of k] show ?thesis by (simp add: Store_ConfirmMerge_def)
next
  case (Some c)
  let ?left = "cnd_LeftCustomerID c" and ?right = "cnd_RightCustomerID c" and ?s = "cmc_SurvivorCustomerID command"
  let ?why = "strongConflictLocked st ?left ?right"
  have less: "store_ok k st" using store_ok_less [OF assms(2)] by simp
  have cands: "candidates_ok (k + 1) st" "candidates_ok k st" "room k (mst_NextIntentID st)"
    using assms(2) less by (simp_all add: store_ok_def)
  have id: "cnd_ID c = cmc_CandidateID command" using Some cands unfolding candidates_ok_def by blast
  obtain r1 st1 where 1: "rejectCandidateLocked c st = (r1, st1)" by fastforce
  obtain x st2 where 2: "createConflictLocked ?left ?right ?why (cnd_Evidence c) st = (x, st2)" by fastforce
  obtain r3 st3 where 3: "rejectCandidateLocked c st2 = (r3, st3)" by fastforce
  have books: ?thesis if "st' = st1 \<or> st' = st3 \<or> st' = st"
  proof -
    have "candidates_ok k st1 \<and> same_people st st1 \<and> mst_NextIntentID st1 = mst_NextIntentID st"
      using rejected_candidate [OF 1 cands(2)] Some id by simp
    moreover note c2 = createConflict_ok [OF 2 cands(1) assms(3)]
    then have "candidates_ok k st3 \<and> same_people st2 st3 \<and> mst_NextIntentID st3 = mst_NextIntentID st2"
      using rejected_candidate [OF 3, of k] Some id by simp
    ultimately have "candidates_ok k st' \<and> same_people st st' \<and> mst_NextIntentID st' = mst_NextIntentID st"
      using that c2 cands(2) same_people_trans [of st st2 st3] by auto
    with same_people_ok [OF assms(2,3), of st'] same_people_quiet [of st st'] cands(3) show ?thesis by simp
  qed
  show ?thesis
  proof (cases "cnd_Status c = CandidateOpen \<and> evd_Strength (cnd_Evidence c) = EvidenceStrong \<and> ?left \<noteq> ?right \<and>
      (?s = ?left \<or> ?s = ?right) \<and> candidateVersionsMatchLocked st c \<and> ?why = [] \<and>
      (hasWeComLocked st ?left \<noteq> hasWeComLocked st ?right \<longrightarrow> ?s = (if hasWeComLocked st ?left then ?left else ?right))")
    case False
    then have "st' = st1 \<or> st' = st3 \<or> st' = st"
      using assms(1) 1 2 3 by (auto simp: Store_ConfirmMerge_def Some Let_def split: if_splits)
    with books show ?thesis .
  next
    case True
    let ?l = "if ?s = ?left then ?right else ?left"
    obtain m st4 where m: "mergeLocked (cnd_ID c) ?l ?s (cnd_Evidence c) (cmc_Operator command) st = (m, st4)" by fastforce
    let ?c = "c\<lparr>cnd_Status := CandidateConfirmed\<rparr>"
    have st': "st' = st4\<lparr>mst_Candidates := (mst_Candidates st4)(cnd_ID c \<mapsto> ?c),
        mst_CandidateByPair := (mst_CandidateByPair st4)(candidatePairKey ?left ?right := None)\<rparr>"
      and res: "\<exists>r. res = Inr r \<and> lkr_Status r = LinkMerged"
      using assms(1) True m by (auto simp: Store_ConfirmMerge_def Some Let_def split: if_splits)
    note new = ConfirmMerge_merges [OF Some _ _ _ _ _ _ _ refl m assms(2,3)]
    have "mergeable st (cmc_CandidateID command) ?l ?s" "moved_people ?l ?s st st4" "store_ok k st4"
      "mst_Candidates st4 = mst_Candidates st" using new True by blast+
    moreover from this have "store_ok k st'"
      unfolding st' using id Some by (intro candidate_books_ok) simp_all
    moreover have "moved_people ?l ?s st st'" using \<open>moved_people ?l ?s st st4\<close>
      by (simp add: st' moved_people_def rootLocked_def)
    ultimately show ?thesis using res by blast
  qed
qed


subsection \<open>Reversal\<close>

definition given_to :: "int \<Rightarrow> memory_identity \<Rightarrow> memory_identity" where
  "given_to f x = x\<lparr>sid_CustomerID := f, mid_Version := next64 (mid_Version x)\<rparr>"

lemma given_to_simps [simp]:
  "sid_ID (given_to f x) = sid_ID x" "sid_Reference (given_to f x) = sid_Reference x"
  "mid_Active (given_to f x) = mid_Active x" "sid_CustomerID (given_to f x) = f"
  "mid_Version (given_to f x) = next64 (mid_Version x)"
  by (simp_all add: given_to_def)

definition give_back :: "int \<Rightarrow> int set \<Rightarrow> memory_identity \<Rightarrow> memory_identity" where
  "give_back f A x = (if sid_ID x \<in> A then given_to f x else x)"

lemma give_back_simps [simp]:
  "sid_ID (give_back f A x) = sid_ID x" "sid_Reference (give_back f A x) = sid_Reference x"
  "mid_Active (give_back f A x) = mid_Active x"
  "sid_CustomerID (give_back f A x) = (if sid_ID x \<in> A then f else sid_CustomerID x)"
  by (simp_all add: give_back_def)

lemma find_identity_unique:
  assumes "distinct (map sid_ID (mst_Identities st))" "x \<in> set (mst_Identities st)"
  shows "find_identity st (sid_ID x) = Some x"
proof (cases "find_identity st (sid_ID x)")
  case None
  with assms show ?thesis by (auto simp: find_identity_def find_None_iff)
next
  case (Some y)
  then have "y \<in> set (mst_Identities st)" "sid_ID y = sid_ID x" by (auto simp: find_identity_def find_Some_iff)
  with assms Some show ?thesis by (auto simp: distinct_map inj_on_def)
qed

lemma move_back_rows:
  assumes "distinct (map sid_ID (mst_Identities st))" "find_identity st (mbr_IdentityID b) \<noteq> None"
  shows "move_back b st = st\<lparr>mst_Identities := map (give_back (mbr_From b) {mbr_IdentityID b}) (mst_Identities st)\<rparr>"
proof -
  have "(if sid_ID y = mbr_IdentityID b then given_to (mbr_From b) (identity_at st (mbr_IdentityID b)) else y) =
      give_back (mbr_From b) {mbr_IdentityID b} y" if "y \<in> set (mst_Identities st)" for y
    using find_identity_unique [OF assms(1) that] by (auto simp: identity_at_def give_back_def)
  with assms(2) show ?thesis
    by (simp add: move_back_def put_identity_def Let_def given_to_def [symmetric])
qed

lemma fold_move_back:
  assumes "distinct (map sid_ID (mst_Identities st))" "distinct (map mbr_IdentityID ms)"
    and "\<forall>b \<in> set ms. find_identity st (mbr_IdentityID b) \<noteq> None \<and> mbr_From b = f"
  shows "fold move_back ms st = st\<lparr>mst_Identities := map (give_back f (mbr_IdentityID ` set ms)) (mst_Identities st)\<rparr>"
  using assms
proof (induction ms arbitrary: st)
  case Nil
  have "map (give_back f {}) xs = xs" for xs by (induction xs) (simp_all add: give_back_def)
  then show ?case by simp
next
  case (Cons b ms)
  let ?st = "st\<lparr>mst_Identities := map (give_back f {mbr_IdentityID b}) (mst_Identities st)\<rparr>"
  have step: "move_back b st = ?st" using move_back_rows [of st b] Cons.prems by simp
  have found: "find_identity ?st i = None \<longleftrightarrow> find_identity st i = None" for i
    by (auto simp: find_identity_def find_None_iff)
  have "give_back f (mbr_IdentityID ` set ms) (give_back f {mbr_IdentityID b} x) =
      give_back f (mbr_IdentityID ` set (b # ms)) x" for x
    using Cons.prems(2) by (auto simp: give_back_def)
  moreover have "fold move_back ms ?st =
      ?st\<lparr>mst_Identities := map (give_back f (mbr_IdentityID ` set ms)) (mst_Identities ?st)\<rparr>"
    by (rule Cons.IH) (use Cons.prems found in \<open>auto simp: comp_def\<close>)
  ultimately show ?case using step by (simp add: comp_def)
qed

definition freed_row :: "memory_customer \<Rightarrow> memory_customer" where
  "freed_row c = c\<lparr>cus_Status := CustomerActive, cus_MergedTo := 0, cus_Version := next64 (cus_Version c),
     cus_Lineage := next64 (cus_Lineage c)\<rparr>"

lemma freed_id [simp]: "cus_ID (freed_row c) = cus_ID c"
  by (simp add: freed_row_def)

text \<open>What licenses a reversal.\<close>

definition reversible :: "memory_store \<Rightarrow> int \<Rightarrow> merge_record \<Rightarrow> bool" where
  "reversible st i m \<longleftrightarrow> mst_Merges st i = Some m \<and> \<not> mrg_Reversed m \<and>
     find_customer (mst_Customers st) (mrg_FromCustomerID m) \<noteq> None \<and>
     find_customer (mst_Customers st) (mrg_ToCustomerID m) \<noteq> None \<and>
     (let from = customer_at st (mrg_FromCustomerID m); to = customer_at st (mrg_ToCustomerID m) in
      cus_Status from = CustomerMerged \<and> cus_MergedTo from = mrg_ToCustomerID m \<and> cus_Status to = CustomerActive \<and>
      cus_Lineage from = mrg_FromLineageAfter m \<and> cus_Lineage to = mrg_ToLineageAfter m) \<and>
     list_all (member_unmoved st) (mst_MovedByMerge st i)"

lemma RevertMerge_cases:
  assumes "Store_RevertMerge i st = (res, st')"
  obtains "res = Inl IdtMergeNotReversible" "st' = st" "\<nexists>m. reversible st i m"
  | m where "reversible st i m" "res = Inr (m\<lparr>mrg_Reversed := True\<rparr>)"
      "st' = (let from = customer_at st (mrg_FromCustomerID m); to = customer_at st (mrg_ToCustomerID m);
         st2 = put_customer (cus_ID to) (bumped_row to) (put_customer (cus_ID from) (freed_row from)
            (fold move_back (mst_MovedByMerge st i) st)) in
         st2\<lparr>mst_Merges := (mst_Merges st2)(i \<mapsto> m\<lparr>mrg_Reversed := True\<rparr>)\<rparr>)"
proof (cases "\<exists>m. reversible st i m")
  case True
  then obtain m where m: "reversible st i m" ..
  then obtain to where "find_customer (mst_Customers st) (mrg_ToCustomerID m) = Some to" unfolding reversible_def by blast
  with m that(2) [OF m] assms show ?thesis
    by (simp add: Store_RevertMerge_def reversible_def Let_def bumped_row_def freed_row_def customer_at_def)
next
  case False
  show ?thesis
  proof (cases "mst_Merges st i")
    case None
    with assms that(1) False show ?thesis by (simp add: Store_RevertMerge_def)
  next
    case (Some m)
    have "find_customer (mst_Customers st) (mrg_FromCustomerID m) = None \<Longrightarrow>
        cus_Status (customer_at st (mrg_FromCustomerID m)) \<noteq> CustomerMerged"
      by (simp add: customer_at_def zero_customer_def)
    with False Some have "\<not> (cus_Status (customer_at st (mrg_FromCustomerID m)) = CustomerMerged \<and> \<not> mrg_Reversed m \<and>
        cus_MergedTo (customer_at st (mrg_FromCustomerID m)) = mrg_ToCustomerID m \<and>
        find_customer (mst_Customers st) (mrg_ToCustomerID m) \<noteq> None \<and>
        cus_Status (customer_at st (mrg_ToCustomerID m)) = CustomerActive \<and>
        cus_Lineage (customer_at st (mrg_FromCustomerID m)) = mrg_FromLineageAfter m \<and>
        cus_Lineage (customer_at st (mrg_ToCustomerID m)) = mrg_ToLineageAfter m \<and>
        list_all (member_unmoved st) (mst_MovedByMerge st i))"
      unfolding reversible_def Let_def by blast
    then have "Store_RevertMerge i st = (Inl IdtMergeNotReversible, st)"
      by (auto simp: Store_RevertMerge_def Some Let_def customer_at_def split: option.splits)
    with assms that(1) False show ?thesis by simp
  qed
qed


text \<open>A reversal gives the moved identities back and cuts the lineage at the freed customer; only
  customers whose root was the survivor are affected.  The merge cannot be reverted again.\<close>

definition parted_people :: "memory_store \<Rightarrow> int \<Rightarrow> merge_record \<Rightarrow> memory_store \<Rightarrow> bool" where
  "parted_people st i m st' \<longleftrightarrow>
     mst_Identities st' = map (give_back (mrg_FromCustomerID m) (mbr_IdentityID ` set (mst_MovedByMerge st i))) (mst_Identities st) \<and>
     mst_IdentityByKey st' = mst_IdentityByKey st \<and>
     mst_Merges st' = (mst_Merges st)(i \<mapsto> m\<lparr>mrg_Reversed := True\<rparr>) \<and>
     rootLocked st' (mrg_FromCustomerID m) = mrg_FromCustomerID m \<and>
     (\<forall>j. rootLocked st' j = rootLocked st j \<or>
        rootLocked st j = mrg_ToCustomerID m \<and> rootLocked st' j = mrg_FromCustomerID m)"

lemma RevertMerge_rows:
  assumes "Store_RevertMerge i st = (res, st')" "reversible st i m" "store_ok k st"
  shows "mst_Identities st' = map (give_back (mrg_FromCustomerID m) (mbr_IdentityID ` set (mst_MovedByMerge st i))) (mst_Identities st)"
    and "mst_Customers st' = replace_customer (bumped_row (customer_at st (mrg_ToCustomerID m)))
      (replace_customer (freed_row (customer_at st (mrg_FromCustomerID m))) (mst_Customers st))"
    and "mst_NextCustomerID st' = mst_NextCustomerID st" "mst_NextIdentityID st' = mst_NextIdentityID st"
      "mst_IdentityByKey st' = mst_IdentityByKey st" "mst_Candidates st' = mst_Candidates st"
      "mst_CandidateByPair st' = mst_CandidateByPair st" "mst_NextCandidateID st' = mst_NextCandidateID st"
      "mst_NextConflictID st' = mst_NextConflictID st" "mst_NextIntentID st' = mst_NextIntentID st"
      "mst_NextMergeID st' = mst_NextMergeID st" "mst_MovedByMerge st' = mst_MovedByMerge st"
      "mst_Merges st' = (mst_Merges st)(i \<mapsto> m\<lparr>mrg_Reversed := True\<rparr>)"
    and "res = Inr (m\<lparr>mrg_Reversed := True\<rparr>)"
proof -
  let ?F = "customer_at st (mrg_FromCustomerID m)" and ?T = "customer_at st (mrg_ToCustomerID m)"
  let ?ms = "mst_MovedByMerge st i"
  have rows: "find_customer (mst_Customers st) (mrg_FromCustomerID m) \<noteq> None"
    "find_customer (mst_Customers st) (mrg_ToCustomerID m) \<noteq> None" and m: "mst_Merges st i = Some m"
    and unmoved: "list_all (member_unmoved st) ?ms"
    using assms(2) by (simp_all add: reversible_def)
  note F = customer_here [OF rows(1)] and T = customer_here [OF rows(2)]
  have ids: "distinct (map sid_ID (mst_Identities st))" using assms(3) by (simp add: store_ok_def identities_ok_def)
  have dist: "distinct (map mbr_IdentityID ?ms)" and giver: "\<forall>b \<in> set ?ms. mbr_From b = mrg_FromCustomerID m"
    using assms(3) m unfolding store_ok_def merges_ok_def by blast+
  have "\<forall>b \<in> set ?ms. find_identity st (mbr_IdentityID b) \<noteq> None \<and> mbr_From b = mrg_FromCustomerID m"
    using unmoved giver by (auto simp: list_all_iff member_unmoved_def split: option.splits)
  note fold = fold_move_back [OF ids dist this]
  let ?st1 = "st\<lparr>mst_Identities := map (give_back (mrg_FromCustomerID m) (mbr_IdentityID ` set ?ms)) (mst_Identities st)\<rparr>"
  have f: "find_customer (mst_Customers ?st1) (mrg_FromCustomerID m) \<noteq> None"
    "find_customer (mst_Customers (?st1\<lparr>mst_Customers := replace_customer (freed_row ?F) (mst_Customers st)\<rparr>)) (mrg_ToCustomerID m) \<noteq> None"
    using rows F by (auto simp: find_replace)
  have puts: "put_customer (cus_ID ?T) (bumped_row ?T) (put_customer (cus_ID ?F) (freed_row ?F) ?st1) =
      ?st1\<lparr>mst_Customers := replace_customer (bumped_row ?T) (replace_customer (freed_row ?F) (mst_Customers st))\<rparr>"
    using F T put_existing [OF f(1), of "freed_row ?F"] put_existing [OF f(2), of "bumped_row ?T"] by simp
  have "\<exists>n. reversible st i n" using assms(2) by blast
  with RevertMerge_cases [OF assms(1)] obtain n where n: "reversible st i n" "res = Inr (n\<lparr>mrg_Reversed := True\<rparr>)"
    "st' = (let from = customer_at st (mrg_FromCustomerID n); to = customer_at st (mrg_ToCustomerID n);
         st2 = put_customer (cus_ID to) (bumped_row to) (put_customer (cus_ID from) (freed_row from)
            (fold move_back (mst_MovedByMerge st i) st)) in
         st2\<lparr>mst_Merges := (mst_Merges st2)(i \<mapsto> n\<lparr>mrg_Reversed := True\<rparr>)\<rparr>)" by metis
  have "n = m" using n(1) m by (simp add: reversible_def)
  note st' = n(3) [unfolded this Let_def fold puts]
  show "res = Inr (m\<lparr>mrg_Reversed := True\<rparr>)" using n(2) \<open>n = m\<close> by simp
  show "mst_Identities st' = map (give_back (mrg_FromCustomerID m) (mbr_IdentityID ` set ?ms)) (mst_Identities st)"
    "mst_Customers st' = replace_customer (bumped_row ?T) (replace_customer (freed_row ?F) (mst_Customers st))"
    "mst_NextCustomerID st' = mst_NextCustomerID st" "mst_NextIdentityID st' = mst_NextIdentityID st"
    "mst_IdentityByKey st' = mst_IdentityByKey st" "mst_Candidates st' = mst_Candidates st"
    "mst_CandidateByPair st' = mst_CandidateByPair st" "mst_NextCandidateID st' = mst_NextCandidateID st"
    "mst_NextConflictID st' = mst_NextConflictID st" "mst_NextIntentID st' = mst_NextIntentID st"
    "mst_NextMergeID st' = mst_NextMergeID st" "mst_MovedByMerge st' = mst_MovedByMerge st"
    "mst_Merges st' = (mst_Merges st)(i \<mapsto> m\<lparr>mrg_Reversed := True\<rparr>)"
    by (simp_all add: st')
qed

lemma freed_chain:
  assumes "customers_ok k st" "f \<noteq> t" "find_customer (mst_Customers st) f \<noteq> None" "find_customer (mst_Customers st) t \<noteq> None"
    and merged: "cus_Status (customer_at st f) = CustomerMerged" "cus_MergedTo (customer_at st f) = t"
      "cus_Status (customer_at st t) = CustomerActive"
    and cs: "cs = replace_customer (bumped_row (customer_at st t)) (replace_customer (freed_row (customer_at st f)) (mst_Customers st))"
    and chain: "chain (mst_Customers st) n j r"
  shows "\<exists>m q. chain cs m j q \<and> (q = r \<or> q = f \<and> r = t)"
proof -
  let ?F = "customer_at st f" and ?T = "customer_at st t"
  note F = customer_here [OF assms(3)] and T = customer_here [OF assms(4)]
  have f: "find_customer (mst_Customers st) f = Some ?F" "find_customer (mst_Customers st) t = Some ?T"
    using assms(3,4) by (auto simp: customer_at_def)
  have pos: "0 < f" "0 < t" using assms(1) F T by (auto simp: customers_ok_def)
  have "\<exists>m q. chain (replace_customer (freed_row ?F) (mst_Customers st)) m j q \<and>
      (q = r \<or> q = f \<and> (\<exists>m. chain (mst_Customers st) m f r))"
    by (rule chain_reactivated [OF f(1) _ _ chain]) (use F in \<open>simp_all add: freed_row_def\<close>)
  then obtain m q where q: "chain (replace_customer (freed_row ?F) (mst_Customers st)) m j q"
    "q = r \<or> q = f \<and> (\<exists>m. chain (mst_Customers st) m f r)" by blast
  have "chain cs m j q"
    unfolding cs by (rule chain_same [THEN iffD2, OF _ _ _ q(1)]) (use T F f assms(2) in \<open>auto simp: find_replace bumped_row_def\<close>)
  moreover have "chain (mst_Customers st) (Suc 0) f t" using f merged pos by simp
  then have "r = t" if "chain (mst_Customers st) p f r" for p using chain_deterministic [OF that] by blast
  ultimately show ?thesis using q(2) by blast
qed


lemma freed_customers_ok:
  assumes ok: "customers_ok (k + 1) st" "0 \<le> k" and rows: "f \<noteq> t" "find_customer (mst_Customers st) f \<noteq> None"
      "find_customer (mst_Customers st) t \<noteq> None"
    and merged: "cus_Status (customer_at st f) = CustomerMerged" "cus_MergedTo (customer_at st f) = t"
      "cus_Status (customer_at st t) = CustomerActive"
    and st': "mst_Customers st' = replace_customer (bumped_row (customer_at st t))
      (replace_customer (freed_row (customer_at st f)) (mst_Customers st))" "mst_NextCustomerID st' = mst_NextCustomerID st"
  shows "customers_ok k st'"
proof -
  let ?F = "customer_at st f" and ?T = "customer_at st t"
  note F = customer_here [OF rows(2)] and T = customer_here [OF rows(3)]
  let ?st1 = "st\<lparr>mst_Customers := replace_customer (freed_row ?F) (mst_Customers st)\<rparr>"
  have less: "customers_ok k st" using customers_less [OF ok(1)] by simp
  have counters: "room (k + 1) (cus_Version x)" "room (k + 1) (cus_Lineage x)" if "x \<in> set (mst_Customers st)" for x
    using ok(1) that by (simp_all add: customers_ok_def)
  note n = next64_room [OF counters(1) ok(2)] next64_room [OF counters(2) ok(2)]
  have t1: "find_customer (mst_Customers ?st1) t = Some ?T" using F T rows by (auto simp: find_replace customer_at_def)
  have c1: "chain (mst_Customers ?st1) n j r = chain (mst_Customers st') n j r" for n j r
    unfolding st' by (subst chain_same [OF _]) (use t1 T in \<open>auto simp: bumped_row_def\<close>)
  have 1: "customers_ok k ?st1"
  proof (rule customers_ok_replace [OF less, of ?F "freed_row ?F"])
    fix n j r assume "chain (mst_Customers st) n j r"
    from freed_chain [OF ok(1) rows merged refl this] c1
    show "\<exists>m q. chain (replace_customer (freed_row ?F) (mst_Customers st)) m j q"
      unfolding st' by simp blast
  qed (use F n in \<open>auto simp: freed_row_def\<close>)
  from find_customer_in [OF t1] show ?thesis
    by (intro customers_ok_replace [OF 1, of ?T "bumped_row ?T"])
      (use T n c1 st' merged in \<open>auto simp: bumped_row_def\<close>)
qed

lemma freed_active:
  assumes rows: "f \<noteq> t" "find_customer (mst_Customers st) f \<noteq> None" "find_customer (mst_Customers st) t \<noteq> None"
    and st': "mst_Customers st' = replace_customer (bumped_row (customer_at st t))
      (replace_customer (freed_row (customer_at st f)) (mst_Customers st))" and status: "cus_Status (customer_at st t) = CustomerActive"
    and ok: "customers_ok k st"
  shows "active_root st j \<Longrightarrow> active_root st' j" "active_root st' f"
proof -
  let ?F = "customer_at st f" and ?T = "customer_at st t"
  note F = customer_here [OF rows(2)] and T = customer_here [OF rows(3)]
  have cs: "set (mst_Customers st') = (\<lambda>x. if cus_ID x = t then bumped_row ?T else if cus_ID x = f then freed_row ?F else x) ` set (mst_Customers st)"
    unfolding st' replace_customer_def using F T rows(1) by (auto simp: image_image image_iff)
  have "freed_row ?F \<in> set (mst_Customers st')" unfolding cs using F rows(1) by (intro image_eqI [of _ _ ?F]) auto
  then show f: "active_root st' f" unfolding active_root_def using F by (intro bexI [of _ "freed_row ?F"]) (auto simp: freed_row_def)
  assume "active_root st j"
  then obtain x where x: "x \<in> set (mst_Customers st)" "cus_ID x = j" "cus_Status x = CustomerActive"
    unfolding active_root_def by blast
  show "active_root st' j"
  proof (cases "j = f")
    case False
    then have "(if j = t then bumped_row ?T else x) \<in> set (mst_Customers st')" unfolding cs using x by force
    moreover have "cus_ID (if j = t then bumped_row ?T else x) = j \<and> cus_Status (if j = t then bumped_row ?T else x) = CustomerActive"
      using x T status by (simp add: bumped_row_def)
    ultimately show ?thesis unfolding active_root_def by blast
  qed (use f in simp)
qed

lemma give_back_ok:
  assumes ids: "identities_ok (k + 1) st" "0 \<le> k" and act: "\<And>i. active_root st i \<Longrightarrow> active_root st' i" "active_root st' f"
    and st': "mst_Identities st' = map (give_back f A) (mst_Identities st)"
      "mst_NextIdentityID st' = mst_NextIdentityID st" "mst_IdentityByKey st' = mst_IdentityByKey st"
  shows "identities_ok k st'"
  unfolding identities_ok_def st'
proof (intro conjI ballI allI)
  show "distinct (map sid_ID (map (give_back f A) (mst_Identities st)))"
    using ids by (simp add: identities_ok_def comp_def)
  show "room k (mst_NextIdentityID st)" using ids room_less [of "k + 1" _ k] by (simp add: identities_ok_def)
  fix x assume "x \<in> set (map (give_back f A) (mst_Identities st))"
  then obtain y where y: "y \<in> set (mst_Identities st)" "x = give_back f A y" by auto
  then have r: "room (k + 1) (mid_Version y)" using ids by (simp add: identities_ok_def)
  show "0 < sid_ID x" "sid_ID x \<le> mst_NextIdentityID st" "mid_Active x" using y ids by (auto simp: identities_ok_def)
  show "room k (mid_Version x)" using next64_room [OF r ids(2)] by (simp add: y(2) give_back_def)
  show "active_root st' (sid_CustomerID x)" using y ids act by (auto simp: identities_ok_def)
next
  fix key i
  show "mst_IdentityByKey st key = Some i \<longleftrightarrow> (\<exists>x \<in> set (map (give_back f A) (mst_Identities st)).
      sid_ID x = i \<and> identityKey (sid_Reference x) = key)"
    using ids by (auto simp: identities_ok_def)
qed

lemma give_back_exclusive:
  assumes "exclusive xs" "\<forall>x \<in> set xs. sid_CustomerID x \<noteq> f" "\<forall>x \<in> set xs. sid_ID x \<in> A \<longrightarrow> sid_CustomerID x = t"
  shows "exclusive (map (give_back f A) xs)"
  unfolding exclusive_def set_map
proof (intro ballI impI, elim imageE, goal_cases)
  case (1 _ _ x y)
  then have "sid_CustomerID x = sid_CustomerID y" using assms(2,3) by (auto split: if_splits)
  with 1 assms(1) have "x = y" unfolding exclusive_def by simp
  with 1 show ?case by simp
qed

lemma RevertMerge_ok:
  assumes "Store_RevertMerge i st = (res, st')" "store_ok (k + 1) st" "0 \<le> k"
  shows "store_ok k st' \<and> (res = Inl IdtMergeNotReversible \<and> st' = st \<or>
    (\<exists>m. reversible st i m \<and> parted_people st i m st' \<and> res = Inr (m\<lparr>mrg_Reversed := True\<rparr>)))"
proof (cases "\<exists>m. reversible st i m")
  case False
  with RevertMerge_cases [OF assms(1)] store_ok_less [OF assms(2), of k] show ?thesis by auto
next
  case True
  then obtain m where m: "reversible st i m" ..
  let ?f = "mrg_FromCustomerID m" and ?t = "mrg_ToCustomerID m" and ?ms = "mst_MovedByMerge st i"
  note r = RevertMerge_rows [OF assms(1) m assms(2)]
  have parts: "customers_ok (k + 1) st" "identities_ok (k + 1) st" "merges_ok (k + 1) st" "exclusive (mst_Identities st)"
    using assms(2) by (simp_all add: store_ok_def)
  have here: "mst_Merges st i = Some m" using m by (simp add: reversible_def)
  have ne: "?f \<noteq> ?t" using parts(3) here unfolding merges_ok_def by blast
  have rows: "find_customer (mst_Customers st) ?f \<noteq> None" "find_customer (mst_Customers st) ?t \<noteq> None"
    and merged: "cus_Status (customer_at st ?f) = CustomerMerged" "cus_MergedTo (customer_at st ?f) = ?t"
      "cus_Status (customer_at st ?t) = CustomerActive"
    using m by (simp_all add: reversible_def Let_def)
  note F = customer_here [OF rows(1)] and T = customer_here [OF rows(2)]
  have 1: "customers_ok k st'" by (rule freed_customers_ok [OF parts(1) assms(3) ne rows merged r(2,3)])
  note act = freed_active [OF ne rows r(2) merged(3) parts(1)]
  have 2: "identities_ok k st'" by (rule give_back_ok [OF parts(2) assms(3) act r(1,4,5)])
  have "\<not> active_root st ?f" using F merged customer_unique [OF parts(1)] unfolding active_root_def by fastforce
  then have none: "\<forall>x \<in> set (mst_Identities st). sid_CustomerID x \<noteq> ?f" using parts(2) by (auto simp: identities_ok_def)
  have dist: "distinct (map sid_ID (mst_Identities st))" using parts(2) by (simp add: identities_ok_def)
  have "\<forall>b \<in> set ?ms. mbr_To b = ?t" using parts(3) here unfolding merges_ok_def by blast
  moreover have "\<forall>b \<in> set ?ms. member_unmoved st b" using m by (simp add: reversible_def list_all_iff)
  ultimately have owner: "\<forall>x \<in> set (mst_Identities st). sid_ID x \<in> mbr_IdentityID ` set ?ms \<longrightarrow> sid_CustomerID x = ?t"
    using find_identity_unique [OF dist] by (fastforce simp: member_unmoved_def)
  have 3: "exclusive (mst_Identities st')" unfolding r(1) by (rule give_back_exclusive [OF parts(4) none owner])
  have less: "store_ok k st" using store_ok_less [OF assms(2)] by simp
  then have "merges_ok k st" by (simp add: store_ok_def)
  then have 4: "merges_ok k st'" unfolding merges_ok_def r(11-13) using here by auto
  have 5: "candidates_ok k st'" "room k (mst_NextIntentID st')" using less by (simp_all add: store_ok_def candidates_ok_def r)
  have "rootLocked st' j = rootLocked st j \<or> rootLocked st j = ?t \<and> rootLocked st' j = ?f" for j
  proof (cases "rootLocked st j = 0")
    case True
    then have "find_customer (mst_Customers st') j = None" using root_zero [OF parts(1)] by (auto simp: r(2) find_replace)
    with True root_zero [OF 1] show ?thesis by simp
  next
    case False
    then have pos: "0 < rootLocked st j" using rootLocked_nonneg [of "mst_Customers st" "[]" j] by (simp add: rootLocked_def)
    then obtain n where "chain (mst_Customers st) n j (rootLocked st j)" using rootLocked_chain by blast
    from freed_chain [OF parts(1) ne rows merged r(2) this] obtain p q where
      q: "chain (mst_Customers st') p j q" "q = rootLocked st j \<or> q = ?f \<and> rootLocked st j = ?t" by blast
    from rootLocked_chain [of q st' j] chain_end [OF q(1)] q show ?thesis by auto
  qed
  moreover have "rootLocked st' ?f = ?f" using root_of_active [OF 1 act(2)] by simp
  ultimately have "parted_people st i m st'" unfolding parted_people_def using r(1,5,13) by blast
  moreover have "store_ok k st'" using 1 2 3 4 5 by (simp add: store_ok_def)
  ultimately show ?thesis using m r(14) by blast
qed


subsection \<open>A merge can be taken back\<close>

lemma chain_similar:
  assumes "\<And>j. rel_option (\<lambda>c d. (cus_Status c = CustomerMerged) = (cus_Status d = CustomerMerged) \<and>
    (cus_Status c = CustomerMerged \<longrightarrow> cus_MergedTo c = cus_MergedTo d)) (find_customer cs j) (find_customer ds j)"
  shows "chain cs n i r = chain ds n i r"
proof (induction n arbitrary: i)
  case 0
  show ?case
    by (rule option.rel_cases [OF assms [of i]]) simp_all
next
  case (Suc n)
  show ?case
  proof (rule option.rel_cases [OF assms [of i]], goal_cases)
    case 1
    then show ?case by simp
  next
    case (2 x y)
    with Suc [of "cus_MergedTo y"] show ?case by (cases "cus_Status x = CustomerMerged") simp_all
  qed
qed

lemma find_mapped:
  assumes "mst_Identities st' = map f (mst_Identities st)" "\<And>x. sid_ID (f x) = sid_ID x"
  shows "find_identity st' i = map_option f (find_identity st i)"
proof -
  have "find (\<lambda>x. sid_ID x = i) (map f xs) = map_option f (find (\<lambda>x. sid_ID x = i) xs)" for xs
    using assms(2) by (induction xs) simp_all
  then show ?thesis by (simp add: find_identity_def assms(1))
qed

lemma merge_reversible:
  assumes "mergeLocked cand l s e op st = (m, st')" "store_ok (k + 1) st" and rows: "active_root st l" "active_root st s" "l \<noteq> s"
  shows "reversible st' (mrg_ID m) m"
proof -
  note r = mergeLocked_rows [OF assms(1,2) rows]
  have ok: "customers_ok (k + 1) st" and ids: "distinct (map sid_ID (mst_Identities st))"
    and active: "\<forall>x \<in> set (mst_Identities st). mid_Active x"
    using assms(2) by (simp_all add: store_ok_def identities_ok_def)
  note L = active_row [OF ok rows(1)] and S = active_row [OF ok rows(2)]
  have at: "find_customer (mst_Customers st') l = Some (merged_row s (customer_at st l))"
    "find_customer (mst_Customers st') s = Some (bumped_row (customer_at st s))"
    using L S rows(3) by (auto simp: r(2) find_replace)
  have "member_unmoved st' b" if b: "b \<in> set (mst_MovedByMerge st' (mrg_ID m))" for b
  proof -
    from b obtain x where x: "x \<in> set (mst_Identities st)" "sid_CustomerID x = l"
      "b = \<lparr>mbr_IdentityID = sid_ID x, mbr_From = l, mbr_To = s, mbr_VersionAfter = next64 (mid_Version x)\<rparr>"
      by (auto simp: r(14))
    have "find_identity st' (sid_ID x) = Some (moved_identity l s x)"
      using find_mapped [OF r(1) moved_identity_simps(1)] find_identity_unique [OF ids x(1)] by simp
    with x active show ?thesis by (simp add: member_unmoved_def moved_identity_def)
  qed
  then have "list_all (member_unmoved st') (mst_MovedByMerge st' (mrg_ID m))" by (simp add: list_all_iff)
  moreover have "customer_at st' l = merged_row s (customer_at st l)" "customer_at st' s = bumped_row (customer_at st s)"
    using at by (simp_all add: customer_at_def)
  moreover have "mst_Merges st' (mrg_ID m) = Some m" by (simp add: r(13))
  ultimately show ?thesis
    unfolding reversible_def r(15,16) Let_def using at r(17-19) S by (simp add: merged_row_def bumped_row_def)
qed

lemma reverted_chain:
  assumes cs: "cs = replace_customer S' (replace_customer L' (replace_customer S (replace_customer L ds)))"
    and ids: "cus_ID L = l" "cus_ID L' = l" "cus_ID S = s" "cus_ID S' = s" "l \<noteq> s"
    and found: "find_customer ds l = Some c" "find_customer ds s = Some d"
    and status: "cus_Status c = CustomerActive" "cus_Status d = CustomerActive" "cus_Status L' = CustomerActive"
      "cus_Status S' = CustomerActive"
  shows "chain cs n i r = chain ds n i r"
proof (rule chain_similar)
  fix j
  show "rel_option (\<lambda>c d. (cus_Status c = CustomerMerged) = (cus_Status d = CustomerMerged) \<and>
    (cus_Status c = CustomerMerged \<longrightarrow> cus_MergedTo c = cus_MergedTo d)) (find_customer cs j) (find_customer ds j)"
  proof (cases "j = l \<or> j = s")
    case True
    then show ?thesis using ids found status by (auto simp: cs find_replace)
  next
    case False
    then have "find_customer cs j = find_customer ds j" using ids by (simp add: cs find_replace)
    then show ?thesis by (simp add: option.rel_refl)
  qed
qed

definition sid_owner :: "memory_identity \<Rightarrow> int \<times> int \<times> normalized_reference" where
  "sid_owner x = (sid_ID x, sid_CustomerID x, sid_Reference x)"

lemma same_owners_resolve:
  assumes "mst_Identities st' = map f (mst_Identities st)" "\<And>x. sid_ID (f x) = sid_ID x" "\<And>x. mid_Active (f x) = mid_Active x"
    "\<And>x. x \<in> set (mst_Identities st) \<Longrightarrow> sid_owner (f x) = sid_owner x"
    "mst_IdentityByKey st' = mst_IdentityByKey st" "\<And>i. rootLocked st' i = rootLocked st i"
  shows "Store_Resolve st' r = Store_Resolve st r"
proof (cases "mst_IdentityByKey st (identityKey r)")
  case None
  then show ?thesis by (simp add: Store_Resolve_def assms(5))
next
  case (Some i)
  show ?thesis
  proof (cases "find_identity st i")
    case None
    then show ?thesis
      by (simp add: Store_Resolve_def assms(5) Some identity_at_def find_mapped [OF assms(1,2)] zero_identity_def)
  next
    case (Some x)
    then have "x \<in> set (mst_Identities st)" by (auto simp: find_identity_def find_Some_iff)
    with assms(4) have "sid_owner (f x) = sid_owner x" .
    with \<open>mst_IdentityByKey st (identityKey r) = Some i\<close> Some assms(3,6) show ?thesis
      by (simp add: Store_Resolve_def assms(5) identity_at_def find_mapped [OF assms(1,2)] sid_owner_def)
  qed
qed


lemma merge_undone:
  assumes m: "mergeLocked cand l s e op st = (m, st1)" and ok: "store_ok (k + 2) st" "0 \<le> k"
    and rows: "active_root st l" "active_root st s" "l \<noteq> s"
    and free: "strongConflictLocked st l s = [] \<or> strongConflictLocked st s l = []"
    and st2: "mst_Customers st2 = mst_Customers st1" "mst_Identities st2 = mst_Identities st1"
      "mst_IdentityByKey st2 = mst_IdentityByKey st1" "mst_Merges st2 = mst_Merges st1"
      "mst_MovedByMerge st2 = mst_MovedByMerge st1" "store_ok (k + 1) st2"
  shows "\<exists>st3. Store_RevertMerge (mrg_ID m) st2 = (Inr (m\<lparr>mrg_Reversed := True\<rparr>), st3) \<and>
    (\<forall>i. rootLocked st3 i = rootLocked st i) \<and> map sid_owner (mst_Identities st3) = map sid_owner (mst_Identities st) \<and>
    (\<forall>r. Store_Resolve st3 r = Store_Resolve st r)"
proof -
  have ok1: "store_ok (k + 1 + 1) st" "0 \<le> k + 1" using ok by (simp_all add: add.assoc)
  note r = mergeLocked_rows [OF m ok1(1) rows]
  have cok: "customers_ok (k + 1 + 1) st" using ok1 by (simp add: store_ok_def)
  note L = active_row [OF cok rows(1)] and S = active_row [OF cok rows(2)]
  have "reversible st1 (mrg_ID m) m" by (rule merge_reversible [OF m ok1(1) rows])
  moreover have "customer_at st2 = customer_at st1" "member_unmoved st2 = member_unmoved st1"
    by (simp_all add: customer_at_def member_unmoved_def find_identity_def st2 fun_eq_iff)
  ultimately have rev: "reversible st2 (mrg_ID m) m" by (simp add: reversible_def st2)
  obtain res st3 where v: "Store_RevertMerge (mrg_ID m) st2 = (res, st3)" by fastforce
  note q = RevertMerge_rows [OF v rev st2(6)]
  have at: "customer_at st2 l = merged_row s (customer_at st l)" "customer_at st2 s = bumped_row (customer_at st s)"
    using L S rows(3) by (auto simp: customer_at_def [of st2] st2 r(2) find_replace)
  have "chain (mst_Customers st3) n i j = chain (mst_Customers st) n i j" for n i j
    by (rule reverted_chain [OF q(2) [unfolded st2 r(2)], of l s "customer_at st l" "customer_at st s"])
      (use L S rows(3) in \<open>simp_all add: r(15,16) at freed_row_def bumped_row_def merged_row_def\<close>)
  then have roots: "rootLocked st3 i = rootLocked st i" for i by (rule roots_cong)
  let ?f = "\<lambda>x. give_back l (sid_ID ` {x \<in> set (mst_Identities st). sid_CustomerID x = l}) (moved_identity l s x)"
  have "mbr_IdentityID ` set (mst_MovedByMerge st1 (mrg_ID m)) = sid_ID ` {x \<in> set (mst_Identities st). sid_CustomerID x = l}"
    by (force simp: r(14))
  then have ids: "mst_Identities st3 = map ?f (mst_Identities st)" using q(1) by (simp add: st2 r(1,15) comp_def)
  have dist: "distinct (map sid_ID (mst_Identities st))" using ok1 by (simp add: store_ok_def identities_ok_def)
  have owner: "sid_owner (?f x) = sid_owner x" if x: "x \<in> set (mst_Identities st)" for x
  proof -
    have "sid_ID x \<in> sid_ID ` {x \<in> set (mst_Identities st). sid_CustomerID x = l} \<longleftrightarrow> sid_CustomerID x = l"
      using x dist by (auto simp: distinct_map dest: inj_onD)
    then show ?thesis by (simp add: sid_owner_def)
  qed
  have "Store_Resolve st3 ref = Store_Resolve st ref" for ref
    by (rule same_owners_resolve [OF ids _ _ owner _ roots]) (simp_all add: q(5) st2 r(5))
  moreover have "map sid_owner (mst_Identities st3) = map sid_owner (mst_Identities st)"
    using owner by (simp add: ids)
  ultimately show ?thesis using v q(14) roots by blast
qed


lemma confirmed_merge:
  assumes "Store_ConfirmMerge command st = (Inr r, st')" "lkr_Merge r = Some m" "store_ok (k + 1) st" "0 \<le> k"
  obtains cand l s e op st1 where "mergeLocked cand l s e op st = (m, st1)" "active_root st l" "active_root st s" "l \<noteq> s"
    "strongConflictLocked st l s = [] \<or> strongConflictLocked st s l = []"
    "mst_Customers st' = mst_Customers st1" "mst_Identities st' = mst_Identities st1"
    "mst_IdentityByKey st' = mst_IdentityByKey st1" "mst_Merges st' = mst_Merges st1"
    "mst_MovedByMerge st' = mst_MovedByMerge st1" "store_ok k st'"
proof (cases "mst_Candidates st (cmc_CandidateID command)")
  case None
  with assms(1) show ?thesis by (simp add: Store_ConfirmMerge_def)
next
  case (Some c)
  let ?left = "cnd_LeftCustomerID c" and ?right = "cnd_RightCustomerID c" and ?s = "cmc_SurvivorCustomerID command"
  let ?l = "if ?s = ?left then ?right else ?left"
  obtain n st1 where n: "mergeLocked (cnd_ID c) ?l ?s (cnd_Evidence c) (cmc_Operator command) st = (n, st1)" by fastforce
  have guards: "?left \<noteq> ?right" "?s = ?left \<or> ?s = ?right" "candidateVersionsMatchLocked st c" "strongConflictLocked st ?left ?right = []"
    and n': "n = m" and st': "st' = st1\<lparr>mst_Candidates := (mst_Candidates st1)(cnd_ID c \<mapsto> c\<lparr>cnd_Status := CandidateConfirmed\<rparr>),
        mst_CandidateByPair := (mst_CandidateByPair st1)(candidatePairKey ?left ?right := None)\<rparr>"
    using assms(1,2) n by (auto simp: Store_ConfirmMerge_def Some Let_def no_result_def split: if_splits prod.splits)
  have "store_ok k st'" using ConfirmMerge_ok [OF assms(1,3,4)] by blast
  with that [OF n [unfolded n']] candidate_live [OF guards(3)] guards show ?thesis by (auto simp: st')
qed

end
