(* ===== verification/IdentityContract.thy ===== *)
theory IdentityContract
  imports IdentityMerge
begin

text \<open>
  The interface \<open>Store\<close> of \<open>oneid.go\<close> as a contract: what the use cases rely on when they call it.
  \<open>ok k\<close> is the invariant of a store that can take \<open>k\<close> more calls, \<open>steady\<close> relates a store to a later
  one in which nobody has moved.  The use cases are proved against the contract once; \<open>MemoryStore\<close>
  is shown to provide it.
\<close>

definition resolves :: "'s identity_ops \<Rightarrow> 's \<Rightarrow> normalized_reference \<Rightarrow> int \<Rightarrow> int \<Rightarrow> bool" where
  "resolves ops st r customer i \<longleftrightarrow>
     (\<exists>x. sto_Resolve ops r st = Inr (Some x) \<and> sid_CustomerID x = customer \<and> sid_ID x = i)"

locale identity_store =
  fixes ops :: "'s identity_ops" and ok :: "int \<Rightarrow> 's \<Rightarrow> bool" and steady :: "'s \<Rightarrow> 's \<Rightarrow> bool"
  assumes ok_less: "ok k st \<Longrightarrow> j \<le> k \<Longrightarrow> ok j st"
    and steady_refl: "steady st st"
    and steady_trans: "steady st0 st \<Longrightarrow> steady st st' \<Longrightarrow> steady st0 st'"
    and steady_resolves: "ok 0 st \<Longrightarrow> steady st st' \<Longrightarrow> resolves ops st r c i \<Longrightarrow> resolves ops st' r c i"
    and provision: "sto_Provision ops vf st = (p, st') \<Longrightarrow> ok (k + 1) st \<Longrightarrow> 0 \<le> k \<Longrightarrow> ok k st' \<and> steady st st' \<and>
      (\<forall>q. p = Inr q \<longrightarrow> resolves ops st' (fct_Reference vf) (pid_CustomerID q) (pid_IdentityID q))"
    and link: "sto_Link ops command st = (l, st') \<Longrightarrow> ok (k + 1) st \<Longrightarrow> 0 \<le> k \<Longrightarrow> ok k st' \<and> steady st st' \<and>
      (\<forall>q. l = Inr q \<longrightarrow> lkr_Status q = LinkAttached \<or> lkr_Status q = LinkAlreadyLinked \<longrightarrow>
        resolves ops st' (fct_Reference (lkc_Target command)) (lkr_CustomerID q) (lkr_IdentityID q))"
    and create_intent: "sto_CreateLinkIntent ops random intent st = (ci, st') \<Longrightarrow> ok (k + 1) st \<Longrightarrow> 0 \<le> k \<Longrightarrow>
      ok k st' \<and> steady st st'"
    and consume_intent: "sto_ConsumeLinkIntent ops now consume st = (l, st') \<Longrightarrow> ok (k + 1) st \<Longrightarrow> 0 \<le> k \<Longrightarrow>
      ok k st' \<and> steady st st'"
    and attach_phone: "sto_AttachDeclaredPhone ops phone n st = (d, st') \<Longrightarrow> ok (k + 1) st \<Longrightarrow> 0 \<le> k \<Longrightarrow>
      nrf_Kind n = KindPhone \<Longrightarrow> 0 < dpc_CustomerID phone \<Longrightarrow> ok k st' \<and> steady st st'"
begin

lemma service_provision:
  assumes "ProvisionCustomerFromVerifiedIdentity ops obs vf st = (res, st')" "ok (k + 1) st" "0 \<le> k"
  shows "ok k st' \<and> steady st st' \<and>
    (\<forall>q. res = Inr q \<longrightarrow> resolves ops st' (fct_Reference vf) (pid_CustomerID q) (pid_IdentityID q))"
proof (cases "\<not> Fact_Valid vf \<or> nrf_Kind (fct_Reference vf) = KindPhone")
  case True
  with assms ok_less [OF assms(2)] steady_refl show ?thesis
    by (auto simp: ProvisionCustomerFromVerifiedIdentity_def)
next
  case False
  obtain p st1 where p: "sto_Provision ops vf st = (p, st1)" by fastforce
  have "st' = st1" "\<forall>q. res = Inr q \<longrightarrow> p = Inr q"
    using assms(1) False p
    by (auto simp: ProvisionCustomerFromVerifiedIdentity_def split: sum.splits option.splits)
  with provision [OF p assms(2,3)] show ?thesis by blast
qed

lemma service_link:
  assumes "LinkVerifiedIdentity ops obs command st = (res, st')" "ok (k + 1) st" "0 \<le> k"
  shows "ok k st' \<and> steady st st'"
proof (cases "lkc_SourceCustomerID command < 1 \<or> \<not> Fact_Valid (lkc_Target command) \<or>
    nrf_Kind (fct_Reference (lkc_Target command)) = KindPhone \<or> \<not> Evidence_Valid (lkc_Evidence command)")
  case True
  with assms ok_less [OF assms(2)] steady_refl show ?thesis by (simp add: LinkVerifiedIdentity_def)
next
  case False
  obtain l st1 where l: "sto_Link ops command st = (l, st1)" by fastforce
  have "st' = st1"
    using assms(1) False l
    by (auto simp: LinkVerifiedIdentity_def split: sum.splits option.splits if_splits)
  with link [OF l assms(2,3)] show ?thesis by blast
qed

lemma service_intents:
  assumes "ok (k + 1) st" "0 \<le> k"
  shows "Service_CreateLinkIntent ops now random intent st = (ci, st') \<Longrightarrow> ok k st' \<and> steady st st'"
    and "Service_ConsumeLinkIntent ops now consume st = (l, st') \<Longrightarrow> ok k st' \<and> steady st st'"
  using ok_less [OF assms(1), of k] assms steady_refl
  by (auto simp: Service_CreateLinkIntent_def Service_ConsumeLinkIntent_def split: if_splits
      dest: create_intent [OF _ assms] consume_intent [OF _ assms])

lemma service_phone:
  assumes "AttachDeclaredPhoneToCustomer ops command st = (res, st')" "ok (k + 1) st" "0 \<le> k"
  shows "ok k st' \<and> steady st st'"
proof -
  let ?r = "\<lparr>ref_Kind = KindPhone, ref_Scope = ''phone:cn11'', ref_Value = dpc_Phone command,
    ref_Assurance = AssuranceDeclared, ref_Source = dpc_Source command\<rparr>"
  have kind: "nrf_Kind n = KindPhone" if "Normalize ?r = Inr n" for n
    using that by (auto simp: Normalize_def Let_def split: if_splits)
  consider "st' = st" | n where "Normalize ?r = Inr n" "sto_AttachDeclaredPhone ops command n st = (res, st')"
      "0 < dpc_CustomerID command"
    using assms(1) by (auto simp: AttachDeclaredPhoneToCustomer_def split: if_splits sum.splits)
  then show ?thesis
  proof cases
    case 1
    with ok_less [OF assms(2)] steady_refl show ?thesis by simp
  next
    case 2
    from attach_phone [OF 2(2) assms(2,3) kind [OF 2(1)] 2(3)] show ?thesis .
  qed
qed

lemma service_declared:
  assumes "AttachDeclaredIdentity ops command st = (res, st')" "ok (k + 1) st" "0 \<le> k"
  shows "ok k st' \<and> steady st st'"
proof -
  consider "st' = st" | c where "AttachDeclaredPhoneToCustomer ops c st = (res, st')"
    using assms(1) by (auto simp: AttachDeclaredIdentity_def split: if_splits sum.splits)
  then show ?thesis
    using ok_less [OF assms(2)] steady_refl service_phone [OF _ assms(2,3)] by cases auto
qed

text \<open>A subject of the provider's history: the first fact names the customer, the others are linked
  to it, and the call fails unless every one of them ends there.\<close>

lemma historical_links:
  assumes "historical_loop ops command customer vfs ids st = (res, st')" "ok (k + int (length vfs)) st" "0 \<le> k"
  shows "ok k st' \<and> steady st st' \<and> (\<forall>r. res = Inr r \<longrightarrow> hsr_CustomerID r = customer \<and>
    (\<exists>js. hsr_IdentityIDs r = ids @ js \<and> list_all2 (\<lambda>vf. resolves ops st' (fct_Reference vf) customer) vfs js))"
  using assms
proof (induction vfs arbitrary: ids st)
  case Nil
  then show ?case using steady_refl by auto
next
  case (Cons vf vfs)
  let ?c = "\<lparr>lkc_SourceCustomerID = customer, lkc_Target = vf, lkc_Evidence = historical_evidence command\<rparr>"
  obtain l st1 where l: "sto_Link ops ?c st = (l, st1)" by fastforce
  have room: "ok (k + int (length vfs) + 1) st" "0 \<le> k + int (length vfs)" using Cons.prems by (simp_all add: algebra_simps)
  note one = link [OF l room]
  have less: "ok k st1" using ok_less [of "k + int (length vfs)" st1 k] one by simp
  consider e where "res = Inl e" "st' = st1"
    | q where "l = Inr q" "lkr_Status q = LinkAttached \<or> lkr_Status q = LinkAlreadyLinked" "lkr_CustomerID q = customer"
      "historical_loop ops command customer vfs (ids @ [lkr_IdentityID q]) st1 = (res, st')"
    using Cons.prems(1) l by (auto split: sum.splits if_splits)
  then show ?case
  proof cases
    case 1
    with one less show ?thesis by simp
  next
    case 2
    note rest = Cons.IH [OF 2(4) _ Cons.prems(3)]
    have rest: "ok k st' \<and> steady st1 st' \<and> (\<forall>r. res = Inr r \<longrightarrow> hsr_CustomerID r = customer \<and>
      (\<exists>js. hsr_IdentityIDs r = (ids @ [lkr_IdentityID q]) @ js \<and>
        list_all2 (\<lambda>vf. resolves ops st' (fct_Reference vf) customer) vfs js))"
      using rest one by blast
    have "resolves ops st1 (fct_Reference vf) customer (lkr_IdentityID q)" using one 2(1-3) by auto
    then have "resolves ops st' (fct_Reference vf) customer (lkr_IdentityID q)"
      using steady_resolves ok_less [OF less Cons.prems(3)] rest by blast
    note here = this
    have "\<exists>js. hsr_IdentityIDs r = ids @ js \<and> list_all2 (\<lambda>vf. resolves ops st' (fct_Reference vf) customer) (vf # vfs) js"
      if r: "res = Inr r" for r
    proof -
      obtain js where "hsr_IdentityIDs r = ids @ (lkr_IdentityID q # js)"
        "list_all2 (\<lambda>vf. resolves ops st' (fct_Reference vf) customer) vfs js" using rest r by auto
      with here show ?thesis by blast
    qed
    with rest one steady_trans [of st st1 st'] show ?thesis by blast
  qed
qed

lemma historical_subject:
  assumes "ProvisionHistoricalSubject ops obs command st = (res, st')" "ok (k + int (length (hsc_Facts command))) st" "0 \<le> k"
  shows "ok k st' \<and> steady st st' \<and> (\<forall>r. res = Inr r \<longrightarrow> hsc_Facts command \<noteq> [] \<and>
    list_all2 (\<lambda>vf. resolves ops st' (fct_Reference vf) (hsr_CustomerID r)) (hsc_Facts command) (hsr_IdentityIDs r))"
proof (cases "hsc_Facts command")
  case Nil
  then have "st' = st" "\<exists>e. res = Inl e" using assms(1) by (auto simp: ProvisionHistoricalSubject_def split: if_splits)
  with assms(2) Nil steady_refl show ?thesis by auto
next
  case (Cons vf vfs)
  have room: "ok (k + int (length vfs) + 1) st" "0 \<le> k + int (length vfs)"
    using assms(2,3) by (simp_all add: Cons algebra_simps)
  obtain p st1 where p: "sto_Provision ops vf st = (p, st1)" by fastforce
  note one = provision [OF p room]
  have less: "ok k st" "ok k st1" using ok_less [OF room(1), of k] one ok_less [of "k + int (length vfs)" st1 k] by simp_all
  consider e where "res = Inl e" "st' = st" | e where "res = Inl e" "st' = st1"
    | q where "p = Inr q" "historical_loop ops command (pid_CustomerID q) vfs [pid_IdentityID q] st1 = (res, st')"
    using assms(1) p by (auto simp: ProvisionHistoricalSubject_def Cons split: sum.splits option.splits if_splits)
  then show ?thesis
  proof cases
    case 3
    note rest = historical_links [OF 3(2) _ assms(3)]
    have rest: "ok k st' \<and> steady st1 st' \<and> (\<forall>r. res = Inr r \<longrightarrow> hsr_CustomerID r = pid_CustomerID q \<and>
      (\<exists>js. hsr_IdentityIDs r = [pid_IdentityID q] @ js \<and>
        list_all2 (\<lambda>vf. resolves ops st' (fct_Reference vf) (pid_CustomerID q)) vfs js))"
      using rest one by blast
    have "resolves ops st' (fct_Reference vf) (pid_CustomerID q) (pid_IdentityID q)"
      using steady_resolves ok_less [OF less(2) assms(3)] rest one 3(1) by blast
    with rest one steady_trans [of st st1 st'] show ?thesis by (auto simp: Cons)
  qed (use one less steady_refl in auto)
qed

lemma oauth_links:
  assumes "oauth_subject ops obs c first target st = (res, st')" "ok (k + 2) st" "0 \<le> k"
  shows "ok k st' \<and> steady st st' \<and> (\<forall>r. res = Inr r \<longrightarrow> \<not> osr_Conflict r \<longrightarrow>
    (\<exists>i. resolves ops st' (fct_Reference first) (pid_CustomerID (osr_Provisioned r)) i) \<and>
    (\<exists>i. resolves ops st' (fct_Reference target) (pid_CustomerID (osr_Provisioned r)) i))"
proof -
  have room: "ok (k + 1 + 1) st" "0 \<le> k + 1" using assms(2,3) by (simp_all add: add.assoc)
  obtain p st1 where p: "sto_Provision ops first st = (p, st1)" by fastforce
  note one = provision [OF p room]
  then have one': "ok (k + 1) st1" "ok k st1" "ok 0 st1" using ok_less [of "k + 1" st1] assms(3) by simp_all
  consider e where "res = Inl e" "st' = st1"
    | q l where "p = Inr q" "sto_Link ops \<lparr>lkc_SourceCustomerID = pid_CustomerID q, lkc_Target = target,
        lkc_Evidence = oauth_evidence c\<rparr> st1 = (l, st')"
      "\<And>r. res = Inr r \<Longrightarrow> \<not> osr_Conflict r \<Longrightarrow> \<exists>x. l = Inr x \<and> (lkr_Status x = LinkAttached \<or> lkr_Status x = LinkAlreadyLinked) \<and>
        lkr_CustomerID x = pid_CustomerID q \<and> pid_CustomerID (osr_Provisioned r) = pid_CustomerID q"
    using assms(1) p
    by (auto simp: oauth_subject_def split: sum.splits option.splits prod.splits if_splits)
  then show ?thesis
  proof cases
    case 1
    with one one' show ?thesis by simp
  next
    case 2
    note two = link [OF 2(2) one'(1) assms(3)]
    have "resolves ops st' (fct_Reference first) (pid_CustomerID q) (pid_IdentityID q)"
      using steady_resolves [OF one'(3)] two one 2(1) by blast
    then show ?thesis using 2(3) two one steady_trans [of st st1 st'] by fastforce
  qed
qed

lemma oauth_subject_facts:
  assumes "ProvisionVerifiedOAuthSubject ops obs c st = (res, st')" "ok (k + 2) st" "0 \<le> k"
  shows "ok k st' \<and> steady st st' \<and> (\<forall>r. res = Inr r \<longrightarrow> \<not> osr_Conflict r \<longrightarrow>
    (\<exists>i. resolves ops st' (fct_Reference (osc_OpenID c)) (pid_CustomerID (osr_Provisioned r)) i) \<and>
    (\<exists>i. resolves ops st' (fct_Reference (osc_UnionID c)) (pid_CustomerID (osr_Provisioned r)) i))"
proof -
  consider e where "res = Inl e" "st' = st" | "oauth_subject ops obs c (osc_UnionID c) (osc_OpenID c) st = (res, st')"
    | "oauth_subject ops obs c (osc_OpenID c) (osc_UnionID c) st = (res, st')"
    using assms(1) by (auto simp: ProvisionVerifiedOAuthSubject_def split: if_splits sum.splits option.splits)
  then show ?thesis
    using ok_less [OF assms(2), of k] steady_refl oauth_links [OF _ assms(2,3)] by cases auto
qed

end

end
