(* ===== verification/IdentityProvider.thy ===== *)
theory IdentityProvider
  imports IdentityContract
begin

text \<open>
  \<open>MemoryStore\<close> provides the contract, and whole histories of calls: every use case of \<open>OneIDService\<close> as a
  call, a history as a list of calls on one store.
\<close>

subsection \<open>The contract\<close>

lemma resolve_known:
  assumes "store_ok k st" "mst_IdentityByKey st (identityKey r) = Some i"
  shows "resolves memory_ops st r (sid_CustomerID (identity_at st i)) i"
proof -
  have ids: "identities_ok k st" using assms(1) by (simp add: store_ok_def)
  note x = identity_of_key [OF ids assms(2)]
  with owner_is_root [OF assms(1), of "identity_at st i"] show ?thesis
    by (auto simp: resolves_def memory_ops_def Store_Resolve_def assms(2) Let_def)
qed

lemma resolves_iff:
  assumes "store_ok k st"
  shows "resolves memory_ops st r c i \<longleftrightarrow>
    mst_IdentityByKey st (identityKey r) = Some i \<and> sid_CustomerID (identity_at st i) = c"
proof (cases "mst_IdentityByKey st (identityKey r)")
  case None
  then show ?thesis by (simp add: resolves_def memory_ops_def Store_Resolve_def)
next
  case (Some j)
  from resolve_known [OF assms this] Some show ?thesis by (auto simp: resolves_def)
qed

lemma quiet_resolves:
  assumes "store_ok k st" "quiet st st'" "resolves memory_ops st r c i"
  shows "resolves memory_ops st' r c i"
proof -
  have key: "mst_IdentityByKey st (identityKey r) = Some i" and c: "sid_CustomerID (identity_at st i) = c"
    using assms(3) resolves_iff [OF assms(1)] by blast+
  have ids: "identities_ok k st" using assms(1) by (simp add: store_ok_def)
  note x = identity_of_key [OF ids key]
  then have "find_identity st i \<noteq> None" by (auto simp: find_identity_def find_None_iff)
  moreover obtain new where "mst_Identities st' = mst_Identities st @ new" using assms(2) unfolding quiet_def by blast
  ultimately have at: "identity_at st' i = identity_at st i"
    by (auto simp: identity_at_def find_identity_def find_append split: option.splits)
  have "mst_IdentityByKey st' (identityKey r) = Some i" using assms(2) key unfolding quiet_def by blast
  moreover have "rootLocked st' c = c" using owner_is_root [OF assms(1)] x assms(2) c unfolding quiet_def by metis
  moreover have "mid_Active (identity_at st i)" using owner_is_root [OF assms(1)] x by blast
  ultimately show ?thesis using x c by (auto simp: resolves_def memory_ops_def Store_Resolve_def at Let_def)
qed

lemma Provision_contract:
  assumes "Store_Provision vf st = (p, st')" "store_ok (k + 1) st" "0 \<le> k"
  shows "store_ok k st' \<and> quiet st st' \<and> resolves memory_ops st' (fct_Reference vf) (pid_CustomerID p) (pid_IdentityID p)"
proof (cases "mst_IdentityByKey st (identityKey (fct_Reference vf))")
  case None
  note new = Provision_new [OF None assms(2,3,1)]
  obtain c st1 i where 1: "createCustomerLocked st = (c, st1)"
    and 2: "createIdentityLocked c (fct_Reference vf) st1 = (i, st')" and p: "pid_CustomerID p = c" "pid_IdentityID p = i"
    using assms(1) None by (auto simp: Store_Provision_def split: prod.splits)
  let ?x = "\<lparr>sid_ID = i, sid_CustomerID = c, sid_Reference = fct_Reference vf, mid_Active = True, mid_Version = 1\<rparr>"
  have "?x \<in> set (mst_Identities st')"
    using 2 by (auto simp: createIdentityLocked_def Let_def put_identity_def find_identity_def find_None_iff)
  moreover have "distinct (map sid_ID (mst_Identities st'))" using new by (simp add: store_ok_def identities_ok_def)
  ultimately have "identity_at st' i = ?x" using find_identity_unique [of st' ?x] by (simp add: identity_at_def)
  with new p show ?thesis by (simp add: resolves_iff [of k st'])
next
  case (Some i)
  have less: "store_ok k st" using store_ok_less [OF assms(2)] by simp
  from Provision_known [OF Some assms(2)] assms(1) less Some show ?thesis
    by (auto simp: resolves_iff [OF less])
qed

lemma Link_resolves:
  assumes "linkLocked command st = (Inr q, st')" "store_ok (k + 1) st" "0 \<le> k"
    "lkr_Status q = LinkAttached \<or> lkr_Status q = LinkAlreadyLinked"
  shows "resolves memory_ops st' (fct_Reference (lkc_Target command)) (lkr_CustomerID q) (lkr_IdentityID q)"
proof -
  let ?source = "activeRootLocked st (lkc_SourceCustomerID command)" and ?r = "fct_Reference (lkc_Target command)"
  note ok' = linkLocked_ok [OF assms(1-3), unfolded link_room_def]
  have source: "\<not> ?source < 1" using assms(1) by (auto simp: linkLocked_def Let_def split: if_splits)
  show ?thesis
  proof (cases "mst_IdentityByKey st (identityKey ?r)")
    case (Some i)
    have ids: "identities_ok (k + 1) st" using assms(2) by (simp add: store_ok_def)
    have root: "rootLocked st (sid_CustomerID (identity_at st i)) = sid_CustomerID (identity_at st i)"
      using owner_is_root [OF assms(2)] identity_of_key [OF ids Some] by blast
    have "st' = st \<and> lkr_CustomerID q = sid_CustomerID (identity_at st i) \<and> lkr_IdentityID q = i"
      using assms(1,4) source root
      by (auto simp: linkLocked_def Let_def Some no_result_def split: if_splits prod.splits)
    with resolve_known [OF assms(2) Some] show ?thesis by simp
  next
    case None
    obtain i st1 where i: "createIdentityLocked ?source ?r st = (i, st1)" by fastforce
    have st': "st' = touchCustomerLocked ?source st1" and q: "lkr_CustomerID q = ?source" "lkr_IdentityID q = i"
      using assms(1,4) source i
      by (auto simp: linkLocked_def Let_def None no_result_def split: if_splits prod.splits)
    let ?x = "\<lparr>sid_ID = i, sid_CustomerID = ?source, sid_Reference = ?r, mid_Active = True, mid_Version = 1\<rparr>"
    have "?x \<in> set (mst_Identities st')" "mst_IdentityByKey st' (identityKey ?r) = Some i"
      using i by (auto simp: st' touchCustomerLocked_def put_customer_def createIdentityLocked_def Let_def
          put_identity_def find_identity_def find_None_iff)
    moreover have "distinct (map sid_ID (mst_Identities st'))" using ok' by (simp add: store_ok_def identities_ok_def)
    ultimately show ?thesis
      using find_identity_unique [of st' ?x] ok' q by (auto simp: identity_at_def resolves_iff)
  qed
qed

interpretation memory: identity_store memory_ops store_ok quiet
proof (unfold_locales, goal_cases)
  case (4 st st' r c i)
  then show ?case by (rule quiet_resolves)
next
  case (5 vf st p st' k)
  then show ?case using Provision_contract [of vf st _ st' k] by (auto simp: memory_ops_def split: prod.splits)
next
  case (6 command st l st' k)
  then have "linkLocked command st = (l, st')" by (simp add: memory_ops_def Store_Link_def)
  with linkLocked_ok [OF this 6(2,3)] Link_resolves [OF _ 6(2,3)] show ?case by (auto simp: link_room_def)
next
  case (7 random intent st ci st' k)
  then show ?case using CreateLinkIntent_ok [of random intent st ci st' k] by (simp add: memory_ops_def settled_def)
next
  case (8 now consume st l st' k)
  then show ?case using ConsumeLinkIntent_ok [of now consume st l st' k] by (simp add: memory_ops_def settled_def)
next
  case (9 phone n st d st' k)
  then show ?case using AttachDeclaredPhone_ok [of phone n st d st' k] by (simp add: memory_ops_def settled_def)
qed (use store_ok_less quiet_trans in auto)


subsection \<open>Histories of calls\<close>

datatype identity_call =
    ProvisionCall verified_fact
  | LinkCall link_command
  | CreateIntentCall go_time "nat list option" link_intent_command
  | ConsumeIntentCall go_time consume_intent_command
  | ConfirmCall confirm_merge_command
  | RevertCall int
  | DeclaredPhoneCall declared_phone_command
  | DeclaredIdentityCall declared_attach_command
  | HistoricalCall historical_command
  | OAuthCall oauth_subject_command

primrec serve :: "one_id_observers \<Rightarrow> identity_call \<Rightarrow> memory_store \<Rightarrow> memory_store" where
  "serve obs (ProvisionCall vf) st = snd (ProvisionCustomerFromVerifiedIdentity memory_ops obs vf st)"
| "serve obs (LinkCall command) st = snd (LinkVerifiedIdentity memory_ops obs command st)"
| "serve obs (CreateIntentCall now random command) st = snd (Service_CreateLinkIntent memory_ops now random command st)"
| "serve obs (ConsumeIntentCall now command) st = snd (Service_ConsumeLinkIntent memory_ops now command st)"
| "serve obs (ConfirmCall command) st = snd (Service_ConfirmMerge memory_ops command st)"
| "serve obs (RevertCall i) st = snd (RevertConfirmedMerge memory_ops i st)"
| "serve obs (DeclaredPhoneCall command) st = snd (AttachDeclaredPhoneToCustomer memory_ops command st)"
| "serve obs (DeclaredIdentityCall command) st = snd (AttachDeclaredIdentity memory_ops command st)"
| "serve obs (HistoricalCall command) st = snd (ProvisionHistoricalSubject memory_ops obs command st)"
| "serve obs (OAuthCall command) st = snd (ProvisionVerifiedOAuthSubject memory_ops obs command st)"

text \<open>The calls of the store a use case makes at most; each uses up one number of a counter.\<close>

fun call_weight :: "identity_call \<Rightarrow> int" where
  "call_weight (HistoricalCall command) = int (length (hsc_Facts command))"
| "call_weight (OAuthCall command) = 2"
| "call_weight _ = 1"

definition history :: "one_id_observers \<Rightarrow> identity_call list \<Rightarrow> memory_store \<Rightarrow> memory_store" where
  "history obs cs st = fold (serve obs) cs st"

definition calls_weight :: "identity_call list \<Rightarrow> int" where
  "calls_weight cs = sum_list (map call_weight cs)"

definition relinks :: "identity_call \<Rightarrow> bool" where
  "relinks c \<longleftrightarrow> (\<exists>command. c = ConfirmCall command) \<or> (\<exists>i. c = RevertCall i)"

lemma weight_nonneg: "0 \<le> call_weight c" "0 \<le> calls_weight cs"
proof -
  show w: "0 \<le> call_weight c" for c by (cases c) simp_all
  show "0 \<le> calls_weight cs" unfolding calls_weight_def by (induction cs) (use w in auto)
qed

lemma serve_quiet:
  assumes "store_ok (k + call_weight c) st" "0 \<le> k" "\<not> relinks c"
  shows "store_ok k (serve obs c st) \<and> quiet st (serve obs c st)"
proof (cases c)
  case (ProvisionCall vf)
  from memory.service_provision [OF surjective_pairing] assms show ?thesis by (simp add: ProvisionCall)
next
  case (LinkCall command)
  from memory.service_link [OF surjective_pairing] assms show ?thesis by (simp add: LinkCall)
next
  case (CreateIntentCall now random command)
  from memory.service_intents(1) [OF _ _ surjective_pairing] assms show ?thesis by (simp add: CreateIntentCall)
next
  case (ConsumeIntentCall now command)
  from memory.service_intents(2) [OF _ _ surjective_pairing] assms show ?thesis by (simp add: ConsumeIntentCall)
next
  case (DeclaredPhoneCall command)
  from memory.service_phone [OF surjective_pairing] assms show ?thesis by (simp add: DeclaredPhoneCall)
next
  case (DeclaredIdentityCall command)
  from memory.service_declared [OF surjective_pairing] assms show ?thesis by (simp add: DeclaredIdentityCall)
next
  case (HistoricalCall command)
  from memory.historical_subject [OF surjective_pairing] assms show ?thesis by (simp add: HistoricalCall)
next
  case (OAuthCall command)
  from memory.oauth_subject_facts [OF surjective_pairing] assms show ?thesis by (simp add: OAuthCall)
qed (use assms(3) in \<open>auto simp: relinks_def\<close>)

lemma serve_step:
  assumes "store_ok (k + call_weight c) st" "0 \<le> k"
  shows "store_ok k (serve obs c st) \<and> (quiet st (serve obs c st) \<or>
    (\<exists>command l. c = ConfirmCall command \<and> mergeable st (cmc_CandidateID command) l (cmc_SurvivorCustomerID command) \<and>
       moved_people l (cmc_SurvivorCustomerID command) st (serve obs c st)) \<or>
    (\<exists>i m. c = RevertCall i \<and> reversible st i m \<and> parted_people st i m (serve obs c st)))"
proof (cases "relinks c")
  case False
  with serve_quiet [OF assms] show ?thesis by blast
next
  case True
  have less: "store_ok k st" using store_ok_less [OF assms(1)] weight_nonneg by simp
  consider command where "c = ConfirmCall command" | i where "c = RevertCall i" using True unfolding relinks_def by blast
  then show ?thesis
  proof cases
    case 1
    obtain res st' where r: "Store_ConfirmMerge command st = (res, st')" by fastforce
    have "serve obs c st = st \<or> serve obs c st = st'" using r by (auto simp: 1 Service_ConfirmMerge_def memory_ops_def)
    moreover have "store_ok (k + 1) st" using assms(1) by (simp add: 1)
    note ConfirmMerge_ok [OF r this assms(2)]
    ultimately show ?thesis using less 1 by auto
  next
    case 2
    obtain res st' where r: "Store_RevertMerge i st = (res, st')" by fastforce
    have "serve obs c st = st \<or> serve obs c st = st'" using r by (auto simp: 2 RevertConfirmedMerge_def memory_ops_def)
    moreover have "store_ok (k + 1) st" using assms(1) by (simp add: 2)
    note RevertMerge_ok [OF r this assms(2)]
    ultimately show ?thesis using less 2 by auto
  qed
qed

lemma history_ok: "store_ok (k + calls_weight cs) st \<Longrightarrow> 0 \<le> k \<Longrightarrow> store_ok k (history obs cs st)"
proof (induction cs arbitrary: st)
  case (Cons c cs)
  have "store_ok (k + calls_weight cs + call_weight c) st" using Cons.prems(1) by (simp add: calls_weight_def algebra_simps)
  moreover have "0 \<le> k + calls_weight cs" using Cons.prems(2) weight_nonneg(2) [of cs] by linarith
  ultimately have "store_ok (k + calls_weight cs) (serve obs c st)" using serve_step by blast
  with Cons show ?case by (simp add: history_def)
qed (simp add: history_def calls_weight_def)

lemma history_quiet:
  "store_ok (k + calls_weight cs) st \<Longrightarrow> 0 \<le> k \<Longrightarrow> list_all (\<lambda>c. \<not> relinks c) cs \<Longrightarrow> quiet st (history obs cs st)"
proof (induction cs arbitrary: st)
  case (Cons c cs)
  have "store_ok (k + calls_weight cs + call_weight c) st" using Cons.prems(1) by (simp add: calls_weight_def algebra_simps)
  moreover have "0 \<le> k + calls_weight cs" using Cons.prems(2) weight_nonneg(2) [of cs] by linarith
  ultimately have "store_ok (k + calls_weight cs) (serve obs c st) \<and> quiet st (serve obs c st)"
    using serve_quiet Cons.prems(3) by simp
  with Cons quiet_trans [of st "serve obs c st"] show ?case by (auto simp: history_def)
qed (simp add: history_def)

lemma history_start: "k + calls_weight cs \<le> max_int64 \<Longrightarrow> 0 \<le> k \<Longrightarrow> store_ok k (history obs cs NewMemoryStore)"
  by (intro history_ok new_store_ok)

end
