(* ===== verification/IdentityProps.thy ===== *)
theory IdentityProps
  imports IdentityProvider
begin

text \<open>
  The properties of OneID over whole histories of calls, from the empty store.
\<close>

subsection \<open>A history to look at\<close>

definition wechat_fact :: verified_fact where
  "wechat_fact = \<lparr>fct_Reference = \<lparr>nrf_Kind = KindUnionID, nrf_Scope = ''wechat-open-platform:p'',
     nrf_NormalizedValue = ''u'', nrf_Assurance = AssuranceVerified, nrf_Source = ''t'', nrf_NormalizerVersion = 1\<rparr>\<rparr>"

definition app_fact :: verified_fact where
  "app_fact = \<lparr>fct_Reference = \<lparr>nrf_Kind = KindMPOpenID, nrf_Scope = ''wechat-app:a'',
     nrf_NormalizedValue = ''m'', nrf_Assurance = AssuranceVerified, nrf_Source = ''t'', nrf_NormalizerVersion = 1\<rparr>\<rparr>"

definition no_observers :: one_id_observers where
  "no_observers = \<lparr>obs_Provisioned = None, obs_Verified = None\<rparr>"

definition sample_evidence :: link_evidence where
  "sample_evidence = \<lparr>evd_Type = ''a'', evd_Strength = EvidenceStrong, evd_Source = ''b'', evd_EventID = ''c'',
     evd_Digest = ''d'', evd_PolicyVersion = ''e''\<rparr>"

definition sample_calls :: "identity_call list" where
  "sample_calls = [ProvisionCall wechat_fact, ProvisionCall app_fact,
     LinkCall \<lparr>lkc_SourceCustomerID = 1, lkc_Target = app_fact, lkc_Evidence = sample_evidence\<rparr>]"

definition sample_confirm :: confirm_merge_command where
  "sample_confirm = \<lparr>cmc_CandidateID = 1, cmc_SurvivorCustomerID = 1, cmc_Operator = ''o''\<rparr>"

lemma sample_weight: "calls_weight sample_calls = 3"
  by (simp add: calls_weight_def sample_calls_def)

lemma sample_facts_valid:
  "Fact_Valid wechat_fact" "nrf_Kind (fct_Reference wechat_fact) = KindUnionID"
  "Fact_Valid app_fact" "nrf_Kind (fct_Reference app_fact) = KindMPOpenID"
  "Evidence_Valid sample_evidence" "evd_Strength sample_evidence = EvidenceStrong"
  by (simp_all add: Fact_Valid_def wechat_fact_def app_fact_def validScope_def contains_space_def is_space_def
      hasNamespace_def has_prefix_def Evidence_Valid_def sample_evidence_def)

lemma sample_keys: "(identityKey (fct_Reference app_fact) = identityKey (fct_Reference wechat_fact)) = False"
  by (simp add: identityKey_def wechat_fact_def app_fact_def)

lemma small_counters: "next64 0 = 1" "next64 1 = 2" "next64 2 = 3"
  by (simp_all add: next64_def wrap64_def)

lemmas sample_eval = sample_facts_valid sample_keys small_counters memory_ops_def no_observers_def Let_def NewMemoryStore_def
  ProvisionCustomerFromVerifiedIdentity_def observeProvisionedCustomer_def observeVerifiedIdentity_def
  Store_Provision_def createCustomerLocked_def createIdentityLocked_def put_customer_def put_identity_def
  find_customer_def find_identity_def identity_at_def customer_at_def

definition two_people :: memory_store where
  "two_people = NewMemoryStore\<lparr>mst_NextCustomerID := 2, mst_NextIdentityID := 2,
     mst_Customers := [\<lparr>cus_ID = 1, cus_Status = CustomerActive, cus_MergedTo = 0, cus_Version = 1, cus_Lineage = 1\<rparr>,
       \<lparr>cus_ID = 2, cus_Status = CustomerActive, cus_MergedTo = 0, cus_Version = 1, cus_Lineage = 1\<rparr>],
     mst_Identities := [
       \<lparr>sid_ID = 1, sid_CustomerID = 1, sid_Reference = fct_Reference wechat_fact, mid_Active = True, mid_Version = 1\<rparr>,
       \<lparr>sid_ID = 2, sid_CustomerID = 2, sid_Reference = fct_Reference app_fact, mid_Active = True, mid_Version = 1\<rparr>],
     mst_IdentityByKey := [identityKey (fct_Reference wechat_fact) \<mapsto> 1, identityKey (fct_Reference app_fact) \<mapsto> 2]\<rparr>"

lemma sample_two:
  "serve no_observers (ProvisionCall app_fact) (serve no_observers (ProvisionCall wechat_fact) NewMemoryStore) = two_people"
  by (simp add: sample_eval two_people_def)

definition sample_candidate :: merge_candidate where
  "sample_candidate = \<lparr>cnd_ID = 1, cnd_LeftCustomerID = 1, cnd_RightCustomerID = 2, cnd_Evidence = sample_evidence,
     cnd_Reason = ''cross_root_link_requires_confirmation'', cnd_Status = CandidateOpen, cnd_LeftVersion = 1,
     cnd_RightVersion = 1\<rparr>"

lemma two_rows:
  "find_customer (mst_Customers two_people) 1 = Some \<lparr>cus_ID = 1, cus_Status = CustomerActive, cus_MergedTo = 0, cus_Version = 1, cus_Lineage = 1\<rparr>"
  "find_customer (mst_Customers two_people) 2 = Some \<lparr>cus_ID = 2, cus_Status = CustomerActive, cus_MergedTo = 0, cus_Version = 1, cus_Lineage = 1\<rparr>"
  "mst_IdentityByKey two_people (identityKey (fct_Reference app_fact)) = Some 2"
  "identity_at two_people 2 = \<lparr>sid_ID = 2, sid_CustomerID = 2, sid_Reference = fct_Reference app_fact, mid_Active = True, mid_Version = 1\<rparr>"
  "mst_CandidateByPair two_people = Map.empty" "mst_NextCandidateID two_people = 0" "mst_Candidates two_people = Map.empty"
  by (simp_all add: sample_eval two_people_def)

lemma two_roots: "rootLocked two_people 1 = 1" "rootLocked two_people 2 = 2"
  by (simp_all add: rootLocked_def rootLocked_from.simps [of _ "[]"] two_rows)

lemma sample_link:
  "serve no_observers (LinkCall \<lparr>lkc_SourceCustomerID = 1, lkc_Target = app_fact, lkc_Evidence = sample_evidence\<rparr>) two_people =
    two_people\<lparr>mst_NextCandidateID := 1, mst_Candidates := [1 \<mapsto> sample_candidate],
      mst_CandidateByPair := [''1:2'' \<mapsto> 1]\<rparr>"
proof -
  have "activeRootLocked two_people 1 = 1" by (simp add: activeRootLocked_def two_roots Let_def customer_at_def two_rows)
  moreover have "candidatePairKey 1 2 = ''1:2''" by code_simp
  moreover have "cus_Version (customer_at two_people 1) = 1" "cus_Version (customer_at two_people 2) = 1"
    by (simp_all add: customer_at_def two_rows)
  ultimately show ?thesis
    by (simp add: LinkVerifiedIdentity_def sample_facts_valid memory_ops_def Store_Link_def linkLocked_def Let_def two_roots two_rows
        createCandidateLocked_def new_candidate_def sample_candidate_def small_counters)
qed


definition sample_store :: memory_store where
  "sample_store = two_people\<lparr>mst_NextCandidateID := 1, mst_Candidates := [1 \<mapsto> sample_candidate],
     mst_CandidateByPair := [''1:2'' \<mapsto> 1]\<rparr>"

lemma sample_history: "history no_observers sample_calls NewMemoryStore = sample_store"
  unfolding history_def sample_calls_def fold_simps comp_def sample_two sample_link sample_store_def by simp

lemma sample_rows:
  "mst_Customers sample_store = mst_Customers two_people" "mst_Identities sample_store = mst_Identities two_people"
  "mst_Candidates sample_store = [1 \<mapsto> sample_candidate]"
  "rootLocked sample_store i = rootLocked two_people i"
  by (simp_all add: sample_store_def rootLocked_def)

lemma sample_free: "strongConflictLocked sample_store 1 2 = []" "\<not> hasWeComLocked sample_store i"
proof -
  have ids: "mst_Identities two_people =
      [\<lparr>sid_ID = 1, sid_CustomerID = 1, sid_Reference = fct_Reference wechat_fact, mid_Active = True, mid_Version = 1\<rparr>,
       \<lparr>sid_ID = 2, sid_CustomerID = 2, sid_Reference = fct_Reference app_fact, mid_Active = True, mid_Version = 1\<rparr>]"
    by (simp add: two_people_def)
  show wecom: "\<not> hasWeComLocked sample_store i" for i
    by (auto simp: hasWeComLocked_def sample_rows ids sample_facts_valid)
  then show "strongConflictLocked sample_store 1 2 = []"
    by (auto simp: strongConflictLocked_def owned_def sample_rows two_roots ids sample_facts_valid)
qed

lemma sample_merges:
  "\<exists>r m. fst (Service_ConfirmMerge memory_ops sample_confirm sample_store) = Inr r \<and> lkr_Merge r = Some m \<and>
     mrg_FromCustomerID m = 2 \<and> mrg_ToCustomerID m = 1"
proof -
  have "candidateVersionsMatchLocked sample_store sample_candidate"
    by (simp add: candidateVersionsMatchLocked_def sample_candidate_def sample_rows two_rows)
  moreover obtain m st where m: "mergeLocked 1 2 1 sample_evidence ''o'' sample_store = (m, st)" by fastforce
  then have "mrg_FromCustomerID m = 2" "mrg_ToCustomerID m = 1" by (auto simp: mergeLocked_def Let_def)
  ultimately show ?thesis using m
    by (simp add: Service_ConfirmMerge_def memory_ops_def sample_confirm_def Store_ConfirmMerge_def sample_rows Let_def
        sample_free sample_candidate_def sample_facts_valid no_result_def)
qed

lemma sample_ok: "store_ok 3 sample_store"
  using history_start [of 3 sample_calls no_observers] sample_history sample_weight by (simp add: max_int64_def)

lemma sample_moves: "rootLocked (serve no_observers (ConfirmCall sample_confirm) sample_store) 2 = 1"
proof -
  obtain r m where r: "fst (Service_ConfirmMerge memory_ops sample_confirm sample_store) = Inr r" "lkr_Merge r = Some m"
    "mrg_FromCustomerID m = 2" "mrg_ToCustomerID m = 1" using sample_merges by blast
  let ?st = "serve no_observers (ConfirmCall sample_confirm) sample_store"
  have c: "Store_ConfirmMerge sample_confirm sample_store = (Inr r, ?st)"
    using r(1) by (simp add: Service_ConfirmMerge_def memory_ops_def sample_confirm_def prod_eq_iff)
  have ok: "store_ok (2 + 1) sample_store" "(0::int) \<le> 2" using sample_ok by simp_all
  obtain cand l s e op st1 where m: "mergeLocked cand l s e op sample_store = (m, st1)" "active_root sample_store l"
    "active_root sample_store s" "l \<noteq> s" "strongConflictLocked sample_store l s = [] \<or> strongConflictLocked sample_store s l = []"
    "mst_Customers ?st = mst_Customers st1" using confirmed_merge [OF c r(2) ok] by metis
  have "l = 2" "s = 1" using mergeLocked_rows(15,16) [OF m(1) ok(1) m(2-4)] r(3,4) by simp_all
  moreover have "rootLocked ?st 2 = rootLocked st1 2" unfolding rootLocked_def m(6) ..
  ultimately show ?thesis using mergeLocked_ok(2) [OF m(1) ok m(2-5), of 2] by (simp add: sample_rows two_roots)
qed

subsection \<open>One person per identity\<close>



subsection \<open>Who may move\<close>




subsection \<open>Taking a merge back\<close>



subsection \<open>Subjects with several identities\<close>


definition sample_subject :: historical_command where
  "sample_subject = \<lparr>hsc_SubjectKey = ''k'', hsc_Facts = [wechat_fact, app_fact], hsc_SourceDigest = replicate 8 1\<rparr>"

definition one_person :: memory_store where
  "one_person = NewMemoryStore\<lparr>mst_NextCustomerID := 1, mst_NextIdentityID := 1,
     mst_Customers := [\<lparr>cus_ID = 1, cus_Status = CustomerActive, cus_MergedTo = 0, cus_Version = 1, cus_Lineage = 1\<rparr>],
     mst_Identities := [
       \<lparr>sid_ID = 1, sid_CustomerID = 1, sid_Reference = fct_Reference wechat_fact, mid_Active = True, mid_Version = 1\<rparr>],
     mst_IdentityByKey := [identityKey (fct_Reference wechat_fact) \<mapsto> 1]\<rparr>"

lemma sample_subject_accepted:
  "\<exists>st. ProvisionHistoricalSubject memory_ops no_observers sample_subject (history no_observers [] NewMemoryStore) =
     (Inr \<lparr>hsr_CustomerID = 1, hsr_IdentityIDs = [1, 2]\<rparr>, st)"
proof -
  let ?c = "\<lparr>lkc_SourceCustomerID = 1, lkc_Target = app_fact, lkc_Evidence = historical_evidence sample_subject\<rparr>"
  have p: "sto_Provision memory_ops wechat_fact NewMemoryStore =
      (Inr \<lparr>pid_CustomerID = 1, pid_IdentityID = 1, pid_Created = True\<rparr>, one_person)"
    by (simp add: sample_eval one_person_def)
  have row: "find_customer (mst_Customers one_person) 1 = Some \<lparr>cus_ID = 1, cus_Status = CustomerActive, cus_MergedTo = 0, cus_Version = 1, cus_Lineage = 1\<rparr>"
    by (simp add: one_person_def find_customer_def)
  have "rootLocked one_person 1 = 1" by (simp add: rootLocked_def rootLocked_from.simps [of _ "[]"] row)
  with row have "activeRootLocked one_person 1 = 1" by (simp add: activeRootLocked_def Let_def customer_at_def)
  moreover have "mst_IdentityByKey one_person (identityKey (fct_Reference app_fact)) = None" "mst_NextIdentityID one_person = 1"
    by (simp_all add: one_person_def sample_keys NewMemoryStore_def)
  moreover have "sameRootStrongConflictLocked one_person 1 (fct_Reference app_fact) = []"
    by (simp add: sameRootStrongConflictLocked_def one_person_def sample_facts_valid)
  ultimately obtain st where l: "sto_Link memory_ops ?c one_person =
      (Inr (no_result\<lparr>lkr_Status := LinkAttached, lkr_CustomerID := 1, lkr_IdentityID := 2\<rparr>), st)"
    by (simp add: memory_ops_def Store_Link_def linkLocked_def Let_def historical_evidence_def createIdentityLocked_def small_counters)
  show ?thesis
    by (simp add: ProvisionHistoricalSubject_def sample_subject_def sample_facts_valid history_def p
        observeProvisionedCustomer_def no_observers_def l [unfolded sample_subject_def] no_result_def)
qed


end
