(* ===== verification/GoMarshal.thy ===== *)
theory GoMarshal
  imports GoTime GoHash
begin

text \<open>
  What \<open>json.Marshal\<close> writes for the structs of the code: strings with the escapes of
  \<open>encoding/json\<close> (HTML characters included), integers, instants in UTC, and \<open>null\<close>.  An instant
  outside the years 0 to 9999 cannot be written.  Also \<open>strconv.ParseInt\<close> and \<open>strings.Split\<close>.
\<close>

definition json_safe :: "nat \<Rightarrow> bool" where
  "json_safe b \<longleftrightarrow> 32 \<le> b \<and> b \<noteq> 34 \<and> b \<noteq> 92 \<and> b \<noteq> 60 \<and> b \<noteq> 62 \<and> b \<noteq> 38"

definition json_escape :: "char \<Rightarrow> string" where
  "json_escape c =
     (let b = byte c in
      if json_safe b then [c]
      else if b = 92 \<or> b = 34 then [CHR 0x5C, c]
      else if b = 8 then [CHR 0x5C, CHR ''b'']
      else if b = 12 then [CHR 0x5C, CHR ''f'']
      else if b = 10 then [CHR 0x5C, CHR ''n'']
      else if b = 13 then [CHR 0x5C, CHR ''r'']
      else if b = 9 then [CHR 0x5C, CHR ''t'']
      else [CHR 0x5C] @ ''u00'' @ [hex_digit (b div 16), hex_digit (b mod 16)])"

function json_body :: "string \<Rightarrow> string" where
  "json_body s =
     (case s of [] \<Rightarrow> []
      | c # cs \<Rightarrow>
          if byte c < 128 then json_escape c @ json_body cs
          else
           (let (r, width, ok) = decode_rune s in
            (if \<not> ok then [CHR 0x5C] @ ''ufffd''
             else if r = 8232 \<or> r = 8233 then [CHR 0x5C] @ ''u202'' @ [hex_digit (r mod 16)]
             else take width s) @ json_body (drop width s)))"
  by pat_completeness auto
termination
proof (relation "measure length", goal_cases)
  case (3 s c cs x r y width ok)
  then have "0 < fst (snd (decode_rune s))" by (intro decode_rune_width) simp
  with 3 show ?case by (metis diff_less fst_conv in_measure length_drop length_greater_0_conv list.discI snd_conv)
qed auto

declare json_body.simps [simp del]

definition json_string :: "string \<Rightarrow> string" where
  "json_string s = [CHR 0x22] @ json_body s @ [CHR 0x22]"

definition json_member :: "string \<Rightarrow> string \<Rightarrow> string" where
  "json_member name v = json_string name @ '':'' @ v"

definition json_object :: "string list \<Rightarrow> string" where
  "json_object members = ''{'' @ join '','' members @ ''}''"

definition json_array :: "string list \<Rightarrow> string" where
  "json_array vs = ''['' @ join '','' vs @ '']''"

definition time_marshals :: "go_time \<Rightarrow> bool" where
  "time_marshals t \<longleftrightarrow> (let (y, yday, leap) = year_of (t div day) in 0 \<le> y \<and> y \<le> 9999)"

definition json_time :: "go_time \<Rightarrow> string" where
  "json_time t = [CHR 0x22] @ format_rfc3339_nano t @ [CHR 0x22]"

definition json_pointer :: "('a \<Rightarrow> string) \<Rightarrow> 'a option \<Rightarrow> string" where
  "json_pointer f p = (case p of None \<Rightarrow> ''null'' | Some x \<Rightarrow> f x)"

subsection \<open>Numbers and pieces of strings\<close>

definition ParseInt64 :: "string \<Rightarrow> int option" where
  "ParseInt64 s =
     (let negative = (s \<noteq> [] \<and> hd s = CHR ''-'');
          ds = (if s \<noteq> [] \<and> (hd s = CHR ''-'' \<or> hd s = CHR ''+'') then tl s else s);
          v = (if negative then - int (digits_value ds) else int (digits_value ds)) in
      if ds = [] \<or> \<not> list_all is_digit ds \<or> \<not> in64 v then None else Some v)"

fun split_on :: "char \<Rightarrow> string \<Rightarrow> string list" where
  "split_on sep [] = [[]]"
| "split_on sep (c # cs) =
     (if c = sep then [] # split_on sep cs
      else (case split_on sep cs of [] \<Rightarrow> [[c]] | p # ps \<Rightarrow> (c # p) # ps))"

end
