(* ===== verification/CouponDomain.thy ===== *)
theory CouponDomain
  imports GoMarshal GoJson
begin

text \<open>
  The data and the pure rules of \<open>internal/coupon\<close>: \<open>port/port.go\<close>, \<open>port/checkout.go\<close>, the
  validation and comparison functions of \<open>app/service.go\<close> and \<open>app/checkout.go\<close>, and the
  validity of a claim (\<open>couponClaimValidity\<close> of \<open>store/checkout.go\<close>).
\<close>

subsection \<open>Errors\<close>

text \<open>\<open>CpnStorage\<close> stands for every error that \<open>classify\<close> does not know.\<close>

datatype coupon_error =
    CpnInvalidCoupon
  | CpnInvalidTarget
  | CpnNotFound
  | CpnConflict
  | CpnRulesFrozen
  | CpnUnavailable
  | CpnNoEligible
  | CpnReauthorization
  | CpnClaimNotEligible
  | CpnStorage

subsection \<open>Rules\<close>

datatype validity_mode = ValidityFixedRange | ValidityRelativeDays | ValidityOther string

fun validity_text :: "validity_mode \<Rightarrow> string" where
  "validity_text ValidityFixedRange = ''fixed_range''"
| "validity_text ValidityRelativeDays = ''relative_days''"
| "validity_text (ValidityOther s) = s"

record coupon =
  cpn_ID :: int
  cpn_Name :: string
  cpn_DiscountAmountTotal :: int
  cpn_Currency :: string
  cpn_Status :: string
  cpn_AvailabilityStatus :: string
  cpn_TotalIssueLimit :: int
  cpn_PerUserIssueLimit :: int
  cpn_IssuedCount :: int
  cpn_ClaimStartsAt :: go_time
  cpn_ClaimEndsAt :: go_time
  cpn_ValidityMode :: validity_mode
  cpn_UseStartsAt :: "go_time option"
  cpn_UseEndsAt :: "go_time option"
  cpn_RelativeValidityDays :: "int option"
  cpn_Instructions :: string
  cpn_TargetRefs :: "string list"
  cpn_CreatedBy :: int
  cpn_UpdatedBy :: int
  cpn_Version :: int
  cpn_HistoryOnly :: bool
  cpn_CreatedAt :: go_time
  cpn_UpdatedAt :: go_time

definition zero_coupon :: coupon where
  "zero_coupon = \<lparr>cpn_ID = 0, cpn_Name = [], cpn_DiscountAmountTotal = 0, cpn_Currency = [], cpn_Status = [],
     cpn_AvailabilityStatus = [], cpn_TotalIssueLimit = 0, cpn_PerUserIssueLimit = 0, cpn_IssuedCount = 0,
     cpn_ClaimStartsAt = 0, cpn_ClaimEndsAt = 0, cpn_ValidityMode = ValidityOther [], cpn_UseStartsAt = None,
     cpn_UseEndsAt = None, cpn_RelativeValidityDays = None, cpn_Instructions = [], cpn_TargetRefs = [],
     cpn_CreatedBy = 0, cpn_UpdatedBy = 0, cpn_Version = 0, cpn_HistoryOnly = False, cpn_CreatedAt = 0,
     cpn_UpdatedAt = 0\<rparr>"

record upsert_command =
  ups_Coupon :: coupon
  ups_Actor :: int
  ups_IdempotencyKey :: string

definition AvailabilityStatusAt :: "coupon \<Rightarrow> go_time \<Rightarrow> string" where
  "AvailabilityStatusAt c at =
     (if cpn_Status c = ''published'' \<and> cpn_TotalIssueLimit c \<le> cpn_IssuedCount c then ''sold_out''
      else if cpn_Status c = ''published'' \<and> before at (cpn_ClaimStartsAt c) then ''scheduled''
      else if cpn_Status c = ''published'' \<and> \<not> before at (cpn_ClaimEndsAt c) then ''ended''
      else if cpn_Status c = ''published'' \<and> cpn_ValidityMode c = ValidityFixedRange \<and>
         (case cpn_UseEndsAt c of None \<Rightarrow> False | Some e \<Rightarrow> \<not> before at e) then ''ended''
      else if cpn_Status c = ''published'' then ''active''
      else cpn_Status c)"

definition withAvailability :: "coupon \<Rightarrow> go_time \<Rightarrow> coupon" where
  "withAvailability c now = c\<lparr>cpn_AvailabilityStatus := AvailabilityStatusAt c now\<rparr>"

definition canonicalTime :: "go_time \<Rightarrow> go_time" where
  "canonicalTime t = trunc_time microsecond t"

text \<open>The loop over the target references of \<open>normalize\<close>.\<close>

definition target_id :: "string \<Rightarrow> int option" where
  "target_id ref =
     (case split_on CHR '':'' ref of
        [kind, n] \<Rightarrow>
          if kind \<noteq> ''standard_product'' \<and> kind \<noteq> ''service_period'' then None
          else (case ParseInt64 n of
                  None \<Rightarrow> None
                | Some i \<Rightarrow> if i < 1 \<or> n \<noteq> format_int i then None else Some i)
      | _ \<Rightarrow> None)"

fun target_ids :: "string list \<Rightarrow> string list \<Rightarrow> int list option" where
  "target_ids seen [] = Some []"
| "target_ids seen (ref # refs) =
     (if ref \<in> set seen then None
      else
       (case target_id ref of
          None \<Rightarrow> None
        | Some i \<Rightarrow> (case target_ids (ref # seen) refs of None \<Rightarrow> None | Some is \<Rightarrow> Some (i # is))))"

definition canonical_coupon :: "coupon \<Rightarrow> coupon" where
  "canonical_coupon c = c\<lparr>cpn_Name := trim_space (cpn_Name c), cpn_Instructions := trim_space (cpn_Instructions c),
     cpn_ClaimStartsAt := canonicalTime (cpn_ClaimStartsAt c), cpn_ClaimEndsAt := canonicalTime (cpn_ClaimEndsAt c),
     cpn_UseStartsAt := map_option canonicalTime (cpn_UseStartsAt c),
     cpn_UseEndsAt := map_option canonicalTime (cpn_UseEndsAt c),
     cpn_Currency := ''CNY'', cpn_Status := ''draft''\<rparr>"

definition coupon_numbers_ok :: "coupon \<Rightarrow> bool" where
  "coupon_numbers_ok c \<longleftrightarrow> \<not> (cpn_Name c = [] \<or> 45 < rune_count (cpn_Name c) \<or> cpn_DiscountAmountTotal c < 1 \<or>
     cpn_TotalIssueLimit c < 1 \<or> cpn_PerUserIssueLimit c < 1 \<or> cpn_TotalIssueLimit c < cpn_PerUserIssueLimit c \<or>
     \<not> after (cpn_ClaimEndsAt c) (cpn_ClaimStartsAt c) \<or> 200 < rune_count (cpn_Instructions c) \<or>
     length (cpn_TargetRefs c) < 1 \<or> 100 < length (cpn_TargetRefs c))"

definition coupon_validity_ok :: "coupon \<Rightarrow> bool" where
  "coupon_validity_ok c \<longleftrightarrow>
     (case cpn_ValidityMode c of
        ValidityFixedRange \<Rightarrow>
          (case (cpn_UseStartsAt c, cpn_UseEndsAt c) of
             (Some s, Some e) \<Rightarrow> after e s \<and> cpn_RelativeValidityDays c = None
           | _ \<Rightarrow> False)
      | ValidityRelativeDays \<Rightarrow>
          cpn_UseStartsAt c = None \<and> cpn_UseEndsAt c = None \<and>
          (case cpn_RelativeValidityDays c of None \<Rightarrow> False | Some d \<Rightarrow> 1 \<le> d)
      | ValidityOther _ \<Rightarrow> False)"

definition normalize_coupon :: "upsert_command \<Rightarrow> (coupon_error, upsert_command \<times> int list) result" where
  "normalize_coupon input =
     (let c = canonical_coupon (ups_Coupon input) in
      if \<not> coupon_numbers_ok c \<or> \<not> coupon_validity_ok c then Inl CpnInvalidCoupon
      else
       (case target_ids [] (cpn_TargetRefs c) of
          None \<Rightarrow> Inl CpnInvalidTarget
        | Some is \<Rightarrow> Inr (input\<lparr>ups_Coupon := c\<rparr>, is)))"

text \<open>\<open>ReadProductTarget\<close> belongs to the product component: kind, identifier and the prices it answers
  are an argument, as the kind and identifier it was asked for.\<close>

record product_option =
  pdo_ID :: int
  pdo_ProductType :: string
  pdo_Currency :: string
  pdo_PriceMinor :: int
  pdo_VariantsEnabled :: bool
  pdo_MaxPriceMinor :: int

type_synonym product_reader = "string \<Rightarrow> int \<Rightarrow> product_option option"

fun validateProducts_loop :: "product_reader \<Rightarrow> int \<Rightarrow> string list \<Rightarrow> string list \<Rightarrow> bool" where
  "validateProducts_loop products discount seen [] = True"
| "validateProducts_loop products discount seen (ref # refs) =
     (case split_on CHR '':'' ref of
        [kind, n] \<Rightarrow>
          if kind \<noteq> ''standard_product'' \<and> kind \<noteq> ''service_period'' then False
          else
           (case ParseInt64 n of
              None \<Rightarrow> False
            | Some i \<Rightarrow>
                if i < 1 \<or> ref \<in> set seen then False
                else
                 (let option_kind = (if kind = ''service_period'' then ''service_period'' else ''standard'') in
                  case products option_kind i of
                    None \<Rightarrow> False
                  | Some p \<Rightarrow>
                      (let price = (if pdo_VariantsEnabled p then pdo_MaxPriceMinor p else pdo_PriceMinor p) in
                       if pdo_ID p \<noteq> i \<or> pdo_ProductType p \<noteq> option_kind \<or> pdo_Currency p \<noteq> ''CNY'' \<or>
                          price \<le> discount then False
                       else validateProducts_loop products discount (ref # seen) refs)))
      | _ \<Rightarrow> False)"

definition validateProducts :: "product_reader \<Rightarrow> coupon \<Rightarrow> (coupon_error, unit) result" where
  "validateProducts products c =
     (if validateProducts_loop products (cpn_DiscountAmountTotal c) [] (cpn_TargetRefs c) then Inr ()
      else Inl CpnInvalidTarget)"

definition claimedUpdateAllowed :: "coupon \<Rightarrow> coupon \<Rightarrow> bool" where
  "claimedUpdateAllowed old next \<longleftrightarrow>
     cpn_TotalIssueLimit old \<le> cpn_TotalIssueLimit next \<and> cpn_Name old = cpn_Name next \<and>
     cpn_DiscountAmountTotal old = cpn_DiscountAmountTotal next \<and>
     cpn_PerUserIssueLimit old = cpn_PerUserIssueLimit next \<and>
     cpn_ClaimStartsAt old = cpn_ClaimStartsAt next \<and> cpn_ClaimEndsAt old = cpn_ClaimEndsAt next \<and>
     cpn_ValidityMode old = cpn_ValidityMode next \<and> cpn_UseStartsAt old = cpn_UseStartsAt next \<and>
     cpn_UseEndsAt old = cpn_UseEndsAt next \<and> cpn_RelativeValidityDays old = cpn_RelativeValidityDays next \<and>
     cpn_Instructions old = cpn_Instructions next \<and> cpn_TargetRefs old = cpn_TargetRefs next"

definition validStored :: "coupon \<Rightarrow> bool" where
  "validStored c \<longleftrightarrow>
     \<not> (cpn_ID c < 1 \<or> cpn_CreatedBy c < 1 \<or> cpn_UpdatedBy c < 1 \<or> cpn_Version c < 1 \<or> cpn_IssuedCount c < 0 \<or>
        cpn_TotalIssueLimit c < cpn_IssuedCount c \<or> is_zero (cpn_CreatedAt c) \<or> is_zero (cpn_UpdatedAt c)) \<and>
     is_ok (normalize_coupon \<lparr>ups_Coupon = c, ups_Actor = cpn_UpdatedBy c, ups_IdempotencyKey = replicate 16 CHR ''v''\<rparr>)"

definition validRuleMutationKey :: "string \<Rightarrow> bool" where
  "validRuleMutationKey key \<longleftrightarrow> 16 \<le> length key \<and> length key \<le> 128 \<and> trim_space key = key"

text \<open>The suffix is a space and two Chinese characters, three runes.\<close>

definition copy_suffix :: string where
  "copy_suffix = map char_of [32, 229, 137, 175, 230, 156, 172 :: nat]"

definition copiedCouponName :: "string \<Rightarrow> string" where
  "copiedCouponName name =
     concat (map encode_rune (take (45 - rune_count copy_suffix) (runes (trim_space name)))) @ copy_suffix"

definition eventType :: "string \<Rightarrow> string" where
  "eventType operation =
     (if operation = ''create'' then ''coupon.created''
      else if operation = ''update'' then ''coupon.updated''
      else if operation = ''publish'' then ''coupon.published''
      else if operation = ''stop'' then ''coupon.stopped''
      else if operation = ''archive'' then ''coupon.archived''
      else if operation = ''delete'' then ''coupon.deleted''
      else if operation = ''copy'' then ''coupon.copied''
      else [])"

definition classify :: "coupon_error \<Rightarrow> coupon_error" where
  "classify e = (if e \<in> {CpnInvalidCoupon, CpnInvalidTarget, CpnNotFound, CpnConflict, CpnRulesFrozen} then e
     else CpnUnavailable)"

subsection \<open>Claims and reservations\<close>

record customer_coupon =
  ccp_ClaimID :: int
  ccp_CouponID :: int
  ccp_Name :: string
  ccp_DiscountMinor :: int
  ccp_Currency :: string
  ccp_Status :: string
  ccp_ClaimNoMasked :: string
  ccp_ClaimedAt :: go_time
  ccp_ValidFrom :: "go_time option"
  ccp_ValidUntil :: "go_time option"
  ccp_RedeemedAt :: "go_time option"

record claim_command =
  clc_CouponID :: int
  clc_HolderCustomerID :: int
  clc_HolderIdentityID :: int
  clc_ActorScope :: string
  clc_IdempotencyKey :: string
  clc_ClaimedAt :: go_time
  clc_RecoveryOnly :: bool

record reservation_snapshot =
  rsv_CouponApplied :: bool
  rsv_ReservationRef :: string
  rsv_ClaimID :: int
  rsv_CouponID :: int
  rsv_ProductID :: int
  rsv_ProductType :: string
  rsv_ProductCode :: string
  rsv_RuleVersion :: int
  rsv_GrossAmountMinor :: int
  rsv_DiscountAmountMinor :: int
  rsv_PayableAmountMinor :: int
  rsv_Currency :: string

record reserve_command =
  rvc_HolderCustomerID :: int
  rvc_ClaimID :: int
  rvc_ProductID :: int
  rvc_ProductCode :: string
  rvc_ProductType :: string
  rvc_GrossAmountMinor :: int
  rvc_Currency :: string
  rvc_OrderReference :: string
  rvc_ActorScope :: string
  rvc_IdempotencyKey :: string
  rvc_ReservedAt :: go_time

record consume_command =
  csc_ReservationRef :: string
  csc_OrderReference :: string
  csc_SettledAmountMinor :: int
  csc_SettledCurrency :: string
  csc_ActorScope :: string
  csc_IdempotencyKey :: string
  csc_SettledAt :: go_time

record release_command =
  rlc_ReservationRef :: string
  rlc_OrderReference :: string
  rlc_CloseReason :: string
  rlc_ActorScope :: string
  rlc_IdempotencyKey :: string
  rlc_ClosedAt :: go_time

definition checkoutTime :: "go_time \<Rightarrow> go_time \<Rightarrow> go_time" where
  "checkoutTime v now = trunc_time microsecond (if is_zero v then now else v)"

definition valid_checkout_scope :: "string \<Rightarrow> bool" where
  "valid_checkout_scope v \<longleftrightarrow> v \<noteq> [] \<and> length v \<le> 200 \<and> trim_space v = v"

definition valid_checkout_key :: "string \<Rightarrow> bool" where
  "valid_checkout_key v \<longleftrightarrow> 16 \<le> length v \<and> length v \<le> 128 \<and> trim_space v = v"

definition valid_checkout_ref :: "string \<Rightarrow> bool" where
  "valid_checkout_ref v \<longleftrightarrow> v \<noteq> [] \<and> length v \<le> 200 \<and> trim_space v = v"

text \<open>The loop ranges over runes; a digit is one byte, and the first rune that is not a digit refuses.\<close>

definition validReservationRef :: "string \<Rightarrow> bool" where
  "validReservationRef v \<longleftrightarrow> has_prefix v ''cr_'' \<and> 3 < length v \<and> length v \<le> 40 \<and>
     list_all (\<lambda>r. 48 \<le> r \<and> r \<le> 57) (runes (drop 3 v))"

definition validReserve :: "reserve_command \<Rightarrow> bool" where
  "validReserve c \<longleftrightarrow> 0 < rvc_HolderCustomerID c \<and> 0 \<le> rvc_ClaimID c \<and> 0 < rvc_ProductID c \<and>
     valid_checkout_ref (rvc_ProductCode c) \<and> rvc_ProductType c \<in> {''standard_product'', ''service_period''} \<and>
     0 < rvc_GrossAmountMinor c \<and> rvc_Currency c = ''CNY'' \<and> valid_checkout_ref (rvc_OrderReference c) \<and>
     valid_checkout_scope (rvc_ActorScope c) \<and> valid_checkout_key (rvc_IdempotencyKey c) \<and>
     \<not> is_zero (rvc_ReservedAt c)"

definition validConsume :: "consume_command \<Rightarrow> bool" where
  "validConsume c \<longleftrightarrow> validReservationRef (csc_ReservationRef c) \<and> valid_checkout_ref (csc_OrderReference c) \<and>
     0 < csc_SettledAmountMinor c \<and> csc_SettledCurrency c = ''CNY'' \<and> valid_checkout_scope (csc_ActorScope c) \<and>
     valid_checkout_key (csc_IdempotencyKey c) \<and> \<not> is_zero (csc_SettledAt c)"

definition validRelease :: "release_command \<Rightarrow> bool" where
  "validRelease c \<longleftrightarrow> validReservationRef (rlc_ReservationRef c) \<and> valid_checkout_ref (rlc_OrderReference c) \<and>
     rlc_CloseReason c \<noteq> [] \<and> length (rlc_CloseReason c) \<le> 120 \<and> valid_checkout_scope (rlc_ActorScope c) \<and>
     valid_checkout_key (rlc_IdempotencyKey c) \<and> \<not> is_zero (rlc_ClosedAt c)"

definition classifyCheckout :: "coupon_error \<Rightarrow> coupon_error" where
  "classifyCheckout e = (if e \<in> {CpnInvalidCoupon, CpnConflict, CpnNotFound, CpnNoEligible, CpnReauthorization} then e
     else CpnUnavailable)"

text \<open>Midnight in Shanghai of the day that is \<open>d\<close> days after the day of the claim.\<close>

definition shanghai_offset :: duration where
  "shanghai_offset = 8 * hour"

definition shanghai_midnight :: "go_time \<Rightarrow> int \<Rightarrow> go_time" where
  "shanghai_midnight at d = ((at + shanghai_offset) div day + d) * day - shanghai_offset"

definition couponClaimValidity :: "coupon \<Rightarrow> go_time \<Rightarrow> (coupon_error, go_time \<times> go_time) result" where
  "couponClaimValidity r at =
     (if cpn_ValidityMode r = ValidityFixedRange then
        (case (cpn_UseStartsAt r, cpn_UseEndsAt r) of
           (Some s, Some e) \<Rightarrow>
             (let from = (if after s at then s else at) in
              if \<not> before from e then Inl CpnNoEligible else Inr (from, e))
         | _ \<Rightarrow> Inl CpnConflict)
      else if cpn_ValidityMode r \<noteq> ValidityRelativeDays then Inl CpnConflict
      else
       (case cpn_RelativeValidityDays r of
          None \<Rightarrow> Inl CpnConflict
        | Some d \<Rightarrow>
            if d < 1 then Inl CpnConflict
            else
             (let until = shanghai_midnight at d in
              if \<not> before at until then Inl CpnNoEligible else Inr (at, until))))"

subsection \<open>Payloads\<close>

definition claim_payload :: "int \<Rightarrow> int \<Rightarrow> string \<Rightarrow> w32 list" where
  "claim_payload coupon holder scope = Sum256 (json_object [json_member ''CouponID'' (format_int coupon),
     json_member ''Holder'' (format_int holder), json_member ''Scope'' (json_string scope)])"

definition reserve_payload :: "int \<Rightarrow> reserve_command \<Rightarrow> w32 list" where
  "reserve_payload holder c = Sum256 (json_object [json_member ''Holder'' (format_int holder),
     json_member ''Claim'' (format_int (rvc_ClaimID c)), json_member ''Product'' (format_int (rvc_ProductID c)),
     json_member ''Code'' (json_string (rvc_ProductCode c)), json_member ''Type'' (json_string (rvc_ProductType c)),
     json_member ''Currency'' (json_string (rvc_Currency c)), json_member ''Order'' (json_string (rvc_OrderReference c)),
     json_member ''Scope'' (json_string (rvc_ActorScope c)), json_member ''Gross'' (format_int (rvc_GrossAmountMinor c))])"

definition consume_payload :: "consume_command \<Rightarrow> w32 list" where
  "consume_payload c = Sum256 (json_object [json_member ''Ref'' (json_string (csc_ReservationRef c)),
     json_member ''Order'' (json_string (csc_OrderReference c)),
     json_member ''Currency'' (json_string (csc_SettledCurrency c)), json_member ''Scope'' (json_string (csc_ActorScope c)),
     json_member ''Amount'' (format_int (csc_SettledAmountMinor c))])"

definition release_payload :: "release_command \<Rightarrow> w32 list" where
  "release_payload c = Sum256 (json_object [json_member ''Ref'' (json_string (rlc_ReservationRef c)),
     json_member ''Order'' (json_string (rlc_OrderReference c)), json_member ''Reason'' (json_string (rlc_CloseReason c)),
     json_member ''Scope'' (json_string (rlc_ActorScope c))])"

text \<open>The error of \<open>json.Marshal\<close> in \<open>mutate\<close> is ignored: the digest of an instant that cannot be
  written is that of no bytes.\<close>

definition coupon_times :: "coupon \<Rightarrow> go_time list" where
  "coupon_times c = [cpn_ClaimStartsAt c, cpn_ClaimEndsAt c, cpn_CreatedAt c, cpn_UpdatedAt c] @
     (case cpn_UseStartsAt c of None \<Rightarrow> [] | Some t \<Rightarrow> [t]) @ (case cpn_UseEndsAt c of None \<Rightarrow> [] | Some t \<Rightarrow> [t])"

definition coupon_marshals :: "coupon \<Rightarrow> bool" where
  "coupon_marshals c \<longleftrightarrow> list_all time_marshals (coupon_times c)"

definition coupon_members :: "coupon \<Rightarrow> string list" where
  "coupon_members c = [json_member ''id'' (format_int (cpn_ID c)), json_member ''name'' (json_string (cpn_Name c)),
     json_member ''discount_amount_total'' (format_int (cpn_DiscountAmountTotal c)),
     json_member ''currency'' (json_string (cpn_Currency c)), json_member ''status'' (json_string (cpn_Status c)),
     json_member ''availability_status'' (json_string (cpn_AvailabilityStatus c)),
     json_member ''total_issue_limit'' (format_int (cpn_TotalIssueLimit c)),
     json_member ''per_user_issue_limit'' (format_int (cpn_PerUserIssueLimit c)),
     json_member ''issued_count'' (format_int (cpn_IssuedCount c)),
     json_member ''claim_starts_at'' (json_time (cpn_ClaimStartsAt c)),
     json_member ''claim_ends_at'' (json_time (cpn_ClaimEndsAt c)),
     json_member ''validity_mode'' (json_string (validity_text (cpn_ValidityMode c))),
     json_member ''use_starts_at'' (json_pointer json_time (cpn_UseStartsAt c)),
     json_member ''use_ends_at'' (json_pointer json_time (cpn_UseEndsAt c)),
     json_member ''relative_validity_days'' (json_pointer format_int (cpn_RelativeValidityDays c)),
     json_member ''instructions'' (json_string (cpn_Instructions c)),
     json_member ''target_refs'' (if cpn_TargetRefs c = [] then ''null'' else json_array (map json_string (cpn_TargetRefs c))),
     json_member ''created_by'' (format_int (cpn_CreatedBy c)), json_member ''updated_by'' (format_int (cpn_UpdatedBy c)),
     json_member ''version'' (format_int (cpn_Version c))] @
     (if cpn_HistoryOnly c then [json_member ''history_only'' ''true''] else []) @
     [json_member ''created_at'' (json_time (cpn_CreatedAt c)), json_member ''updated_at'' (json_time (cpn_UpdatedAt c))]"

definition mutate_payload :: "string \<Rightarrow> upsert_command \<Rightarrow> string \<Rightarrow> w32 list" where
  "mutate_payload operation command desired =
     Sum256 (if \<not> coupon_marshals (ups_Coupon command) then []
       else json_object [json_member ''Operation'' (json_string operation),
         json_member ''Command'' (json_object (coupon_members (ups_Coupon command) @
           [json_member ''Actor'' (format_int (ups_Actor command)),
            json_member ''IdempotencyKey'' (json_string (ups_IdempotencyKey command))])),
         json_member ''Desired'' (json_string desired)])"

definition rule_payload :: "int \<Rightarrow> string \<Rightarrow> int \<Rightarrow> w32 list" where
  "rule_payload i operation expected = Sum256 (json_object ([json_member ''coupon_id'' (format_int i),
     json_member ''operation'' (json_string operation)] @
     (if expected = 0 then [] else [json_member ''expected_version'' (format_int expected)])))"

end
