(* ===== verification/CouponStore.thy ===== *)
theory CouponStore
  imports CouponDomain Postgres
begin

text \<open>
  The tables of the coupon component (\<open>migrations/0011_coupon_rules.sql\<close>, \<open>0056\<close>, \<open>0069\<close>, \<open>0077\<close>) and the
  statements of \<open>store/postgres.go\<close> and \<open>store/checkout.go\<close> on them.

  A row of \<open>coupon_rules\<close> carries its rows of \<open>coupon_rule_targets\<close>; its column \<open>public_slug\<close>, which no
  read of a rule returns, is the list \<open>cdb_Slugs\<close>.  A statement takes the tables to
  an error, which rolls the transaction back, or to an answer and new tables.  A transaction
  locks the rule, the lineage of the customer, the redemption and the claim it works on, so
  transactions that meet run one after the other.  Result snapshots are kept as values: they are
  JSON objects that the code reads back into the same struct.
\<close>

subsection \<open>Tables\<close>

datatype claim_status = ClaimClaimed | ClaimAvailable | ClaimReserved | ClaimRedeemed | ClaimExpired | ClaimCancelled

fun claim_status_text :: "claim_status \<Rightarrow> string" where
  "claim_status_text ClaimClaimed = ''claimed''"
| "claim_status_text ClaimAvailable = ''available''"
| "claim_status_text ClaimReserved = ''reserved''"
| "claim_status_text ClaimRedeemed = ''redeemed''"
| "claim_status_text ClaimExpired = ''expired''"
| "claim_status_text ClaimCancelled = ''cancelled''"

record claim_row =
  clm_ID :: int
  clm_SourceKey :: string
  clm_CustomerID :: int
  clm_CouponID :: int
  clm_Status :: claim_status
  clm_ClaimedAt :: go_time
  clm_ReservedAt :: "go_time option"
  clm_ValidFrom :: "go_time option"
  clm_ValidUntil :: "go_time option"
  clm_RedeemedAt :: "go_time option"
  clm_ExpiredAt :: "go_time option"
  clm_Digest :: "w32 list"

datatype redemption_status = RedemptionReserved | RedemptionConsumed | RedemptionReleased

record redemption_row =
  rdm_ID :: int
  rdm_ClaimID :: int
  rdm_OrderReference :: string
  rdm_ProductID :: int
  rdm_ProductType :: string
  rdm_ProductCode :: string
  rdm_RuleVersion :: int
  rdm_GrossAmountMinor :: int
  rdm_DiscountAmountMinor :: int
  rdm_PayableAmountMinor :: int
  rdm_Currency :: string
  rdm_Status :: redemption_status
  rdm_ReservedAt :: go_time
  rdm_ConsumedAt :: "go_time option"
  rdm_ReleasedAt :: "go_time option"
  rdm_ReleaseReason :: string

record rule_receipt =
  rrc_ID :: int
  rrc_Operation :: string
  rrc_ActorScope :: string
  rrc_KeyDigest :: "w32 list"
  rrc_PayloadDigest :: "w32 list"
  rrc_Snapshot :: "coupon option"

record claim_receipt =
  crc_ActorScope :: string
  crc_KeyDigest :: "w32 list"
  crc_PayloadDigest :: "w32 list"
  crc_ClaimID :: int
  crc_Snapshot :: customer_coupon

record redemption_receipt =
  orc_Operation :: string
  orc_ActorScope :: string
  orc_KeyDigest :: "w32 list"
  orc_PayloadDigest :: "w32 list"
  orc_RedemptionID :: int
  orc_Snapshot :: reservation_snapshot

record rule_event =
  rev_Type :: string
  rev_CouponID :: int
  rev_Actor :: int
  rev_Status :: string
  rev_Key :: string

record claim_fact =
  cft_ClaimID :: int
  cft_RedemptionID :: int
  cft_Operation :: string
  cft_Digest :: "w32 list"

record coupon_db =
  cdb_Rules :: "coupon list"
  cdb_NextRule :: int
  cdb_Slugs :: "(int \<times> string) list"
  cdb_Claims :: "claim_row list"
  cdb_NextClaim :: int
  cdb_Redemptions :: "redemption_row list"
  cdb_NextRedemption :: int
  cdb_RuleReceipts :: "rule_receipt list"
  cdb_NextReceipt :: int
  cdb_ClaimReceipts :: "claim_receipt list"
  cdb_RedemptionReceipts :: "redemption_receipt list"
  cdb_RuleEvents :: "rule_event list"
  cdb_ClaimFacts :: "claim_fact list"

definition empty_coupons :: coupon_db where
  "empty_coupons = \<lparr>cdb_Rules = [], cdb_NextRule = 1, cdb_Slugs = [], cdb_Claims = [], cdb_NextClaim = 1, cdb_Redemptions = [],
     cdb_NextRedemption = 1, cdb_RuleReceipts = [], cdb_NextReceipt = 1, cdb_ClaimReceipts = [],
     cdb_RedemptionReceipts = [], cdb_RuleEvents = [], cdb_ClaimFacts = []\<rparr>"

type_synonym 'a coupon_tx = "(coupon_error, 'a \<times> coupon_db) result"

subsection \<open>Constraints\<close>

definition target_check :: "string \<Rightarrow> bool" where
  "target_check ref \<longleftrightarrow>
     (case split_on CHR '':'' ref of
        [kind, n] \<Rightarrow> kind \<in> {''standard_product'', ''service_period''} \<and>
          (case n of [] \<Rightarrow> False | d # ds \<Rightarrow> is_digit d \<and> d \<noteq> CHR ''0'' \<and> list_all is_digit ds)
      | _ \<Rightarrow> False)"

definition rule_checks :: "coupon \<Rightarrow> bool" where
  "rule_checks c \<longleftrightarrow>
     pg_text (cpn_Name c) \<and> 1 \<le> rune_count (cpn_Name c) \<and> rune_count (cpn_Name c) \<le> 45 \<and>
     0 < cpn_DiscountAmountTotal c \<and> cpn_Currency c = ''CNY'' \<and>
     cpn_Status c \<in> {''draft'', ''published'', ''stopped'', ''archived''} \<and>
     0 < cpn_TotalIssueLimit c \<and> 0 < cpn_PerUserIssueLimit c \<and> cpn_PerUserIssueLimit c \<le> cpn_TotalIssueLimit c \<and>
     0 \<le> cpn_IssuedCount c \<and> cpn_IssuedCount c \<le> cpn_TotalIssueLimit c \<and>
     cpn_ClaimStartsAt c < cpn_ClaimEndsAt c \<and>
     pg_text (cpn_Instructions c) \<and> rune_count (cpn_Instructions c) \<le> 200 \<and>
     0 < cpn_CreatedBy c \<and> 0 < cpn_UpdatedBy c \<and> 0 < cpn_Version c \<and> cpn_Version c \<le> max_int64 \<and>
     (case cpn_ValidityMode c of
        ValidityFixedRange \<Rightarrow>
          (case (cpn_UseStartsAt c, cpn_UseEndsAt c) of (Some s, Some e) \<Rightarrow> s < e | _ \<Rightarrow> False) \<and>
          cpn_RelativeValidityDays c = None
      | ValidityRelativeDays \<Rightarrow>
          cpn_UseStartsAt c = None \<and> cpn_UseEndsAt c = None \<and>
          (case cpn_RelativeValidityDays c of None \<Rightarrow> False | Some d \<Rightarrow> 0 < d \<and> d < 2 ^ 31)
      | ValidityOther _ \<Rightarrow> False) \<and>
     list_all target_check (cpn_TargetRefs c) \<and> distinct (cpn_TargetRefs c)"

definition redemption_checks :: "redemption_row \<Rightarrow> bool" where
  "redemption_checks r \<longleftrightarrow>
     pg_text (rdm_OrderReference r) \<and> 1 \<le> rune_count (rdm_OrderReference r) \<and> rune_count (rdm_OrderReference r) \<le> 200 \<and>
     0 < rdm_ProductID r \<and> rdm_ProductType r \<in> {''standard_product'', ''service_period''} \<and>
     pg_text (rdm_ProductCode r) \<and> 1 \<le> rune_count (rdm_ProductCode r) \<and> rune_count (rdm_ProductCode r) \<le> 200 \<and>
     0 < rdm_RuleVersion r \<and> 0 < rdm_GrossAmountMinor r \<and> 0 < rdm_DiscountAmountMinor r \<and>
     rdm_DiscountAmountMinor r < rdm_GrossAmountMinor r \<and>
     rdm_PayableAmountMinor r = rdm_GrossAmountMinor r - rdm_DiscountAmountMinor r \<and> rdm_Currency r = ''CNY'' \<and>
     pg_text (rdm_ReleaseReason r) \<and> rune_count (rdm_ReleaseReason r) \<le> 120 \<and>
     (case rdm_Status r of
        RedemptionReserved \<Rightarrow> rdm_ConsumedAt r = None \<and> rdm_ReleasedAt r = None
      | RedemptionConsumed \<Rightarrow> rdm_ConsumedAt r \<noteq> None \<and> rdm_ReleasedAt r = None
      | RedemptionReleased \<Rightarrow> rdm_ConsumedAt r = None \<and> rdm_ReleasedAt r \<noteq> None)"

text \<open>The partial unique index on live redemptions of a claim, and the unique order reference.\<close>

definition live_redemption :: "redemption_row \<Rightarrow> bool" where
  "live_redemption r \<longleftrightarrow> rdm_Status r = RedemptionReserved \<or> rdm_Status r = RedemptionConsumed"

definition redemptions_unique :: "redemption_row list \<Rightarrow> bool" where
  "redemptions_unique rs \<longleftrightarrow> distinct (map rdm_OrderReference rs) \<and>
     distinct (map rdm_ClaimID (filter live_redemption rs))"

subsection \<open>Rules\<close>

definition get_rule :: "coupon_db \<Rightarrow> int \<Rightarrow> (coupon_error, coupon) result" where
  "get_rule db i =
     (case find (\<lambda>c. cpn_ID c = i) (cdb_Rules db) of None \<Rightarrow> Inl CpnNotFound | Some c \<Rightarrow> Inr c)"

definition rule_of_command :: "upsert_command \<Rightarrow> int \<Rightarrow> go_time \<Rightarrow> coupon" where
  "rule_of_command cmd i now = (let c = ups_Coupon cmd in
     zero_coupon\<lparr>cpn_ID := i, cpn_Name := cpn_Name c, cpn_DiscountAmountTotal := cpn_DiscountAmountTotal c,
       cpn_Currency := ''CNY'', cpn_Status := ''draft'', cpn_TotalIssueLimit := cpn_TotalIssueLimit c,
       cpn_PerUserIssueLimit := cpn_PerUserIssueLimit c, cpn_ClaimStartsAt := pg_time (cpn_ClaimStartsAt c),
       cpn_ClaimEndsAt := pg_time (cpn_ClaimEndsAt c), cpn_ValidityMode := cpn_ValidityMode c,
       cpn_UseStartsAt := map_option pg_time (cpn_UseStartsAt c), cpn_UseEndsAt := map_option pg_time (cpn_UseEndsAt c),
       cpn_RelativeValidityDays := cpn_RelativeValidityDays c, cpn_Instructions := cpn_Instructions c,
       cpn_TargetRefs := cpn_TargetRefs c, cpn_CreatedBy := ups_Actor cmd, cpn_UpdatedBy := ups_Actor cmd,
       cpn_Version := 1, cpn_CreatedAt := pg_time now, cpn_UpdatedAt := pg_time now\<rparr>)"

definition Rule_Create :: "upsert_command \<Rightarrow> go_time \<Rightarrow> coupon_db \<Rightarrow> coupon coupon_tx" where
  "Rule_Create cmd now db =
     (let i = cdb_NextRule db; row = rule_of_command cmd i now in
      if max_int64 < i \<or> \<not> rule_checks row then Inl CpnStorage
      else Inr (row, db\<lparr>cdb_Rules := cdb_Rules db @ [row], cdb_NextRule := i + 1\<rparr>))"

definition put_rule :: "coupon \<Rightarrow> coupon list \<Rightarrow> coupon list" where
  "put_rule row cs = map (\<lambda>c. if cpn_ID c = cpn_ID row then row else c) cs"

text \<open>An update of one row by its identifier.\<close>

definition update_rule :: "int \<Rightarrow> (coupon \<Rightarrow> coupon) \<Rightarrow> coupon_db \<Rightarrow> coupon coupon_tx" where
  "update_rule i f db =
     (case get_rule db i of
        Inl e \<Rightarrow> Inl e
      | Inr old \<Rightarrow>
          (let row = f old in
           if \<not> rule_checks row then Inl CpnStorage
           else Inr (row, db\<lparr>cdb_Rules := put_rule row (cdb_Rules db)\<rparr>)))"

definition Rule_Update :: "upsert_command \<Rightarrow> go_time \<Rightarrow> coupon_db \<Rightarrow> coupon coupon_tx" where
  "Rule_Update cmd now db =
     (let c = ups_Coupon cmd in
      update_rule (cpn_ID c)
        (\<lambda>old. old\<lparr>cpn_Name := cpn_Name c, cpn_DiscountAmountTotal := cpn_DiscountAmountTotal c,
           cpn_TotalIssueLimit := cpn_TotalIssueLimit c, cpn_PerUserIssueLimit := cpn_PerUserIssueLimit c,
           cpn_ClaimStartsAt := pg_time (cpn_ClaimStartsAt c), cpn_ClaimEndsAt := pg_time (cpn_ClaimEndsAt c),
           cpn_ValidityMode := cpn_ValidityMode c, cpn_UseStartsAt := map_option pg_time (cpn_UseStartsAt c),
           cpn_UseEndsAt := map_option pg_time (cpn_UseEndsAt c),
           cpn_RelativeValidityDays := cpn_RelativeValidityDays c, cpn_Instructions := cpn_Instructions c,
           cpn_TargetRefs := cpn_TargetRefs c, cpn_UpdatedBy := ups_Actor cmd, cpn_UpdatedAt := pg_time now,
           cpn_Version := cpn_Version old + 1\<rparr>) db)"

definition Rule_SetStatus :: "int \<Rightarrow> string \<Rightarrow> int \<Rightarrow> go_time \<Rightarrow> coupon_db \<Rightarrow> coupon coupon_tx" where
  "Rule_SetStatus i status actor now db =
     update_rule i (\<lambda>old. old\<lparr>cpn_Status := status, cpn_UpdatedBy := actor, cpn_UpdatedAt := pg_time now,
       cpn_Version := cpn_Version old + 1\<rparr>) db"

text \<open>Claims reference their rule, so a rule with claims cannot be deleted.\<close>

definition Rule_DeleteDraft :: "int \<Rightarrow> coupon_db \<Rightarrow> unit coupon_tx" where
  "Rule_DeleteDraft i db =
     (case get_rule db i of
        Inl e \<Rightarrow> Inl CpnConflict
      | Inr c \<Rightarrow>
          if cpn_Status c \<noteq> ''draft'' \<or> cpn_IssuedCount c \<noteq> 0 then Inl CpnConflict
          else if list_ex (\<lambda>x. clm_CouponID x = i) (cdb_Claims db) then Inl CpnStorage
          else Inr ((), db\<lparr>cdb_Rules := filter (\<lambda>x. cpn_ID x \<noteq> i) (cdb_Rules db)\<rparr>))"

subsection \<open>Receipts and events of rules\<close>

definition find_rule_receipt :: "coupon_db \<Rightarrow> string \<Rightarrow> string \<Rightarrow> w32 list \<Rightarrow> rule_receipt option" where
  "find_rule_receipt db operation scope key =
     find (\<lambda>r. rrc_Operation r = operation \<and> rrc_ActorScope r = scope \<and> rrc_KeyDigest r = key) (cdb_RuleReceipts db)"

definition Receipt_Reserve ::
  "string \<Rightarrow> string \<Rightarrow> w32 list \<Rightarrow> w32 list \<Rightarrow> coupon_db \<Rightarrow> (rule_receipt \<times> bool) coupon_tx" where
  "Receipt_Reserve operation scope key payload db =
     (case find_rule_receipt db operation scope key of
        Some r \<Rightarrow> Inr ((r, False), db)
      | None \<Rightarrow>
          (let r = \<lparr>rrc_ID = cdb_NextReceipt db, rrc_Operation = operation, rrc_ActorScope = scope,
             rrc_KeyDigest = key, rrc_PayloadDigest = payload, rrc_Snapshot = None\<rparr> in
           if max_int64 < cdb_NextReceipt db then Inl CpnStorage
           else Inr ((r, True), db\<lparr>cdb_RuleReceipts := cdb_RuleReceipts db @ [r],
             cdb_NextReceipt := cdb_NextReceipt db + 1\<rparr>)))"

definition Receipt_Complete :: "int \<Rightarrow> coupon \<Rightarrow> coupon_db \<Rightarrow> unit coupon_tx" where
  "Receipt_Complete i snapshot db =
     (if \<not> list_ex (\<lambda>r. rrc_ID r = i \<and> rrc_Snapshot r = None) (cdb_RuleReceipts db) then Inl CpnConflict
      else Inr ((), db\<lparr>cdb_RuleReceipts := map (\<lambda>r. if rrc_ID r = i \<and> rrc_Snapshot r = None
        then r\<lparr>rrc_Snapshot := Some snapshot\<rparr> else r) (cdb_RuleReceipts db)\<rparr>))"

definition Event_Append :: "rule_event \<Rightarrow> coupon_db \<Rightarrow> unit coupon_tx" where
  "Event_Append e db =
     (if rev_CouponID e < 1 \<or> rev_Actor e < 1 then Inl CpnConflict
      else if list_ex (\<lambda>x. rev_Key x = rev_Key e) (cdb_RuleEvents db) \<or> 240 < length (rev_Key e) then Inl CpnStorage
      else Inr ((), db\<lparr>cdb_RuleEvents := cdb_RuleEvents db @ [e]\<rparr>))"

end
