(* ===== verification/CouponService.thy ===== *)
theory CouponService
  imports CouponStore
begin

text \<open>
  The transactions of \<open>app/service.go\<close> on coupon rules, and the public share of a rule
  (\<open>EnsurePublicShare\<close> of \<open>app/public.go\<close> with \<open>EnsurePublicCouponSlug\<close> of \<open>store/public.go\<close>).

  \<open>coupon_env\<close> is what a call meets: the clock, the other components it asks (products, the
  lineage and the subjects of the identity component, the customers that exist) and the claims
  that other transactions hold a lock on.  The two readers of identity may be unbound.
\<close>

record coupon_env =
  cen_Now :: go_time
  cen_Products :: product_reader
  cen_Lineage :: "(int \<Rightarrow> int list option) option"
  cen_Subjects :: "(int \<Rightarrow> (int \<times> int list) option option) option"
  cen_Customers :: "int \<Rightarrow> bool"
  cen_Busy :: "int \<Rightarrow> bool"

definition admin_scope :: "int \<Rightarrow> string" where
  "admin_scope actor = ''admin:'' @ format_int actor"

definition receiptMatches :: "rule_receipt \<Rightarrow> string \<Rightarrow> string \<Rightarrow> w32 list \<Rightarrow> bool" where
  "receiptMatches r operation scope key \<longleftrightarrow> 0 < rrc_ID r \<and> rrc_Operation r = operation \<and> rrc_ActorScope r = scope \<and>
     rrc_KeyDigest r = key"

definition rule_event_of :: "string \<Rightarrow> coupon \<Rightarrow> int \<Rightarrow> string \<Rightarrow> rule_event" where
  "rule_event_of operation item actor key =
     \<lparr>rev_Type = eventType operation, rev_CouponID = cpn_ID item, rev_Actor = actor, rev_Status = cpn_Status item,
      rev_Key = ''coupon.'' @ operation @ '':'' @
        hex_encode (Sum256 (admin_scope actor @ [CHR 0x00] @ operation @ [CHR 0x00] @ key))\<rparr>"

type_synonym rule_step = "coupon_db \<Rightarrow> (coupon \<times> bool) coupon_tx"

text \<open>
  The transaction that \<open>mutate\<close> and \<open>ruleMutation\<close> share: the receipt decides whether the step runs;
  a step that changed the rule is published; the answer is frozen in the receipt.
\<close>

definition record_change :: "string \<Rightarrow> coupon \<Rightarrow> int \<Rightarrow> string \<Rightarrow> bool \<Rightarrow> coupon_db \<Rightarrow> unit coupon_tx" where
  "record_change operation item actor key changed db =
     (if changed then Event_Append (rule_event_of operation item actor key) db else Inr ((), db))"

definition freeze_result :: "int \<Rightarrow> coupon \<Rightarrow> coupon_db \<Rightarrow> coupon coupon_tx" where
  "freeze_result i item db =
     (if \<not> coupon_marshals item then Inl CpnStorage
      else
       (case Receipt_Complete i item db of
          Inl _ \<Rightarrow> Inl CpnUnavailable
        | Inr (_, db') \<Rightarrow> Inr (item, db')))"

definition receipted_rule_tx ::
  "string \<Rightarrow> int \<Rightarrow> string \<Rightarrow> w32 list \<Rightarrow> (coupon \<Rightarrow> coupon) \<Rightarrow> rule_step \<Rightarrow> coupon_db \<Rightarrow> coupon coupon_tx" where
  "receipted_rule_tx operation actor key payload finish step db =
     (case Receipt_Reserve operation (admin_scope actor) (Sum256 key) payload db of
        Inl e \<Rightarrow> Inl e
      | Inr ((r, owned), db1) \<Rightarrow>
          if \<not> receiptMatches r operation (admin_scope actor) (Sum256 key) \<or> rrc_PayloadDigest r \<noteq> payload
          then Inl CpnConflict
          else if \<not> owned then
            (case rrc_Snapshot r of
               None \<Rightarrow> Inl CpnUnavailable
             | Some item \<Rightarrow> if validStored item then Inr (item, db1) else Inl CpnUnavailable)
          else
           (case step db1 of
              Inl e \<Rightarrow> Inl e
            | Inr ((item, changed), db2) \<Rightarrow>
                if \<not> validStored item then Inl CpnUnavailable
                else
                 (case record_change operation (finish item) actor key changed db2 of
                    Inl e \<Rightarrow> Inl e
                  | Inr (_, db3) \<Rightarrow> freeze_result (rrc_ID r) (finish item) db3)))"

definition classified :: "'a coupon_tx \<Rightarrow> 'a coupon_tx" where
  "classified r = (case r of Inl e \<Rightarrow> Inl (classify e) | Inr x \<Rightarrow> Inr x)"

subsection \<open>Create, update, publish, stop\<close>

definition always_changed :: "coupon coupon_tx \<Rightarrow> (coupon \<times> bool) coupon_tx" where
  "always_changed r = (case r of Inl e \<Rightarrow> Inl e | Inr (c, db) \<Rightarrow> Inr ((c, True), db))"

definition update_step :: "bool \<Rightarrow> upsert_command \<Rightarrow> go_time \<Rightarrow> rule_step" where
  "update_step draft_only command now db =
     (case get_rule db (cpn_ID (ups_Coupon command)) of
        Inl e \<Rightarrow> Inl e
      | Inr old \<Rightarrow>
          if cpn_HistoryOnly old \<or> cpn_Status old = ''archived'' then Inl CpnConflict
          else if draft_only \<and> (cpn_Status old \<noteq> ''draft'' \<or> cpn_IssuedCount old \<noteq> 0) then Inl CpnConflict
          else if \<not> draft_only \<and> cpn_Status old \<noteq> ''draft'' \<and> cpn_IssuedCount old = 0 then Inl CpnConflict
          else if \<not> draft_only \<and> 0 < cpn_IssuedCount old \<and> \<not> claimedUpdateAllowed old (ups_Coupon command)
          then Inl CpnRulesFrozen
          else always_changed (Rule_Update command now db))"

definition status_step :: "coupon_env \<Rightarrow> string \<Rightarrow> string \<Rightarrow> int \<Rightarrow> int \<Rightarrow> rule_step" where
  "status_step env operation desired i actor db =
     (case get_rule db i of
        Inl e \<Rightarrow> Inl e
      | Inr old \<Rightarrow>
          if cpn_Status old = desired then Inr ((old, False), db)
          else if operation = ''publish'' \<and> cpn_Status old \<noteq> ''draft'' \<or> operation = ''stop'' \<and> cpn_Status old \<noteq> ''published''
          then Inl CpnConflict
          else
           (case (if operation = ''publish'' then validateProducts (cen_Products env) old else Inr ()) of
              Inl e \<Rightarrow> Inl e
            | Inr _ \<Rightarrow> always_changed (Rule_SetStatus i desired actor (cen_Now env) db)))"

definition mutate_step :: "coupon_env \<Rightarrow> string \<Rightarrow> upsert_command \<Rightarrow> string \<Rightarrow> bool \<Rightarrow> rule_step" where
  "mutate_step env operation command desired draft_only db =
     (if operation = ''create'' then always_changed (Rule_Create command (cen_Now env) db)
      else if operation = ''update'' then update_step draft_only command (cen_Now env) db
      else if operation = ''publish'' \<or> operation = ''stop''
      then status_step env operation desired (cpn_ID (ups_Coupon command)) (ups_Actor command) db
      else Inl CpnInvalidCoupon)"

definition writes_rule :: "string \<Rightarrow> bool" where
  "writes_rule operation \<longleftrightarrow> operation = ''create'' \<or> operation = ''update''"

definition valid_mutation :: "string \<Rightarrow> upsert_command \<Rightarrow> bool" where
  "valid_mutation operation input \<longleftrightarrow>
     \<not> (ups_Actor input < 1 \<or> length (ups_IdempotencyKey input) < (if writes_rule operation then 16 else 1) \<or>
        128 < length (ups_IdempotencyKey input) \<or> trim_space (ups_IdempotencyKey input) \<noteq> ups_IdempotencyKey input)"

definition mutation_command :: "string \<Rightarrow> upsert_command \<Rightarrow> (coupon_error, upsert_command) result" where
  "mutation_command operation input =
     (if writes_rule operation then (case normalize_coupon input of Inl e \<Rightarrow> Inl e | Inr (c, _) \<Rightarrow> Inr c) else Inr input)"

definition mutate :: "coupon_env \<Rightarrow> string \<Rightarrow> upsert_command \<Rightarrow> string \<Rightarrow> bool \<Rightarrow> coupon_db \<Rightarrow> coupon coupon_tx" where
  "mutate env operation input desired draft_only db =
     (if \<not> valid_mutation operation input then Inl CpnInvalidCoupon
      else if is_zero (cen_Now env) then Inl CpnUnavailable
      else
       (case mutation_command operation input of
          Inl e \<Rightarrow> Inl e
        | Inr command \<Rightarrow>
            classified (receipted_rule_tx operation (ups_Actor input) (ups_IdempotencyKey input)
              (mutate_payload operation command desired) (\<lambda>c. withAvailability c (cen_Now env))
              (mutate_step env operation command desired draft_only) db)))"

definition Create :: "coupon_env \<Rightarrow> upsert_command \<Rightarrow> coupon_db \<Rightarrow> coupon coupon_tx" where
  "Create env input db = mutate env ''create'' (input\<lparr>ups_Coupon := (ups_Coupon input)\<lparr>cpn_ID := 0\<rparr>\<rparr>) [] False db"

definition Update :: "coupon_env \<Rightarrow> upsert_command \<Rightarrow> coupon_db \<Rightarrow> coupon coupon_tx" where
  "Update env input db =
     (if cpn_ID (ups_Coupon input) < 1 then Inl CpnNotFound else mutate env ''update'' input [] False db)"

definition UpdateDraft :: "coupon_env \<Rightarrow> upsert_command \<Rightarrow> coupon_db \<Rightarrow> coupon coupon_tx" where
  "UpdateDraft env input db =
     (if cpn_ID (ups_Coupon input) < 1 then Inl CpnNotFound else mutate env ''update'' input [] True db)"

definition by_id :: "int \<Rightarrow> int \<Rightarrow> string \<Rightarrow> upsert_command" where
  "by_id i actor key = \<lparr>ups_Coupon = zero_coupon\<lparr>cpn_ID := i\<rparr>, ups_Actor = actor, ups_IdempotencyKey = key\<rparr>"

definition Publish :: "coupon_env \<Rightarrow> int \<Rightarrow> int \<Rightarrow> string \<Rightarrow> coupon_db \<Rightarrow> coupon coupon_tx" where
  "Publish env i actor key db = mutate env ''publish'' (by_id i actor key) ''published'' False db"

definition Stop :: "coupon_env \<Rightarrow> int \<Rightarrow> int \<Rightarrow> string \<Rightarrow> coupon_db \<Rightarrow> coupon coupon_tx" where
  "Stop env i actor key db = mutate env ''stop'' (by_id i actor key) ''stopped'' False db"

subsection \<open>Archive, delete, copy\<close>

definition archive_step :: "coupon_env \<Rightarrow> int \<Rightarrow> int \<Rightarrow> int \<Rightarrow> rule_step" where
  "archive_step env i expected actor db =
     (case get_rule db i of
        Inl e \<Rightarrow> Inl e
      | Inr old \<Rightarrow>
          if cpn_Version old \<noteq> expected then Inl CpnConflict
          else if cpn_HistoryOnly old then Inl CpnConflict
          else if cpn_Status old = ''archived'' then Inr ((withAvailability old (cen_Now env), False), db)
          else if cpn_Status old \<noteq> ''draft'' \<and> cpn_Status old \<noteq> ''published'' \<and> cpn_Status old \<noteq> ''stopped''
          then Inl CpnConflict
          else
           (case Rule_SetStatus i ''archived'' actor (cen_Now env) db of
              Inl e \<Rightarrow> Inl e
            | Inr (item, db') \<Rightarrow> Inr ((withAvailability item (cen_Now env), True), db')))"

definition delete_step :: "coupon_env \<Rightarrow> int \<Rightarrow> rule_step" where
  "delete_step env i db =
     (case get_rule db i of
        Inl e \<Rightarrow> Inl e
      | Inr old \<Rightarrow>
          if cpn_Status old \<noteq> ''draft'' \<or> cpn_IssuedCount old \<noteq> 0 then Inl CpnConflict
          else
           (case Rule_DeleteDraft i db of
              Inl e \<Rightarrow> Inl e
            | Inr (_, db') \<Rightarrow> Inr ((old\<lparr>cpn_Status := ''deleted'', cpn_AvailabilityStatus := ''deleted''\<rparr>, True), db')))"

definition copy_of :: "coupon \<Rightarrow> coupon" where
  "copy_of old = zero_coupon\<lparr>cpn_Name := copiedCouponName (cpn_Name old),
     cpn_DiscountAmountTotal := cpn_DiscountAmountTotal old, cpn_TotalIssueLimit := cpn_TotalIssueLimit old,
     cpn_PerUserIssueLimit := cpn_PerUserIssueLimit old, cpn_ClaimStartsAt := cpn_ClaimStartsAt old,
     cpn_ClaimEndsAt := cpn_ClaimEndsAt old, cpn_ValidityMode := cpn_ValidityMode old,
     cpn_UseStartsAt := cpn_UseStartsAt old, cpn_UseEndsAt := cpn_UseEndsAt old,
     cpn_RelativeValidityDays := cpn_RelativeValidityDays old, cpn_Instructions := cpn_Instructions old,
     cpn_TargetRefs := cpn_TargetRefs old\<rparr>"

definition copy_step :: "coupon_env \<Rightarrow> int \<Rightarrow> int \<Rightarrow> string \<Rightarrow> rule_step" where
  "copy_step env i actor key db =
     (case get_rule db i of
        Inl e \<Rightarrow> Inl e
      | Inr old \<Rightarrow>
          if cpn_HistoryOnly old \<or> cpn_Status old = ''archived'' then Inl CpnConflict
          else
           (case normalize_coupon \<lparr>ups_Coupon = copy_of old, ups_Actor = actor, ups_IdempotencyKey = key\<rparr> of
              Inl e \<Rightarrow> Inl e
            | Inr (command, _) \<Rightarrow>
                (case Rule_Create command (cen_Now env) db of
                   Inl e \<Rightarrow> Inl e
                 | Inr (item, db') \<Rightarrow> Inr ((withAvailability item (cen_Now env), True), db'))))"

definition ruleMutation ::
  "string \<Rightarrow> int \<Rightarrow> int \<Rightarrow> string \<Rightarrow> int \<Rightarrow> rule_step \<Rightarrow> coupon_db \<Rightarrow> coupon coupon_tx" where
  "ruleMutation operation i actor key expected step db =
     (if i < 1 \<or> actor < 1 \<or> \<not> validRuleMutationKey key then Inl CpnInvalidCoupon
      else classified (receipted_rule_tx operation actor key (rule_payload i operation expected) id step db))"

definition Archive :: "coupon_env \<Rightarrow> int \<Rightarrow> int \<Rightarrow> int \<Rightarrow> string \<Rightarrow> coupon_db \<Rightarrow> coupon coupon_tx" where
  "Archive env i expected actor key db =
     (if expected < 1 then Inl CpnInvalidCoupon
      else ruleMutation ''archive'' i actor key expected (archive_step env i expected actor) db)"

definition Delete :: "coupon_env \<Rightarrow> int \<Rightarrow> int \<Rightarrow> string \<Rightarrow> coupon_db \<Rightarrow> coupon coupon_tx" where
  "Delete env i actor key db = ruleMutation ''delete'' i actor key 0 (delete_step env i) db"

definition Copy :: "coupon_env \<Rightarrow> int \<Rightarrow> int \<Rightarrow> string \<Rightarrow> coupon_db \<Rightarrow> coupon coupon_tx" where
  "Copy env i actor key db = ruleMutation ''copy'' i actor key 0 (copy_step env i actor key) db"

subsection \<open>Reads\<close>

definition read_rule :: "int \<Rightarrow> coupon_db \<Rightarrow> (coupon_error, coupon) result" where
  "read_rule i db =
     (if i < 1 then Inl CpnNotFound
      else
       (case get_rule db i of
          Inl e \<Rightarrow> Inl (classify e)
        | Inr c \<Rightarrow> if validStored c then Inr c else Inl CpnUnavailable))"

definition Get :: "coupon_env \<Rightarrow> int \<Rightarrow> coupon_db \<Rightarrow> (coupon_error, coupon) result" where
  "Get env i db = (case read_rule i db of Inl e \<Rightarrow> Inl e | Inr c \<Rightarrow> Inr (withAvailability c (cen_Now env)))"

record rule_stats =
  rst_CouponID :: int
  rst_TotalIssueLimit :: int
  rst_IssuedCount :: int
  rst_RemainingIssueCount :: int
  rst_Status :: string
  rst_AvailabilityStatus :: string
  rst_UpdatedAt :: go_time

definition Stats :: "coupon_env \<Rightarrow> int \<Rightarrow> coupon_db \<Rightarrow> (coupon_error, rule_stats) result" where
  "Stats env i db =
     (case read_rule i db of
        Inl e \<Rightarrow> Inl e
      | Inr c \<Rightarrow>
          (let remaining = cpn_TotalIssueLimit c - cpn_IssuedCount c in
           if remaining < 0 then Inl CpnUnavailable
           else Inr \<lparr>rst_CouponID = cpn_ID c, rst_TotalIssueLimit = cpn_TotalIssueLimit c,
             rst_IssuedCount = cpn_IssuedCount c, rst_RemainingIssueCount = remaining, rst_Status = cpn_Status c,
             rst_AvailabilityStatus = AvailabilityStatusAt c (cen_Now env), rst_UpdatedAt = cpn_UpdatedAt c\<rparr>))"

subsection \<open>The public link\<close>

text \<open>
  A rule gets its public slug once, while it is published.  A slug that another rule has violates
  the unique index; PostgreSQL then refuses every further statement of the transaction, so the
  retries of \<open>EnsurePublicShare\<close> end in a storage error.  The random bytes of an attempt are an
  argument: \<open>None\<close> where the generator fails.
\<close>

definition validPublicSlug :: "string \<Rightarrow> bool" where
  "validPublicSlug v \<longleftrightarrow> 6 \<le> length v \<and> length v \<le> 120 \<and> v = trim_space v \<and>
     list_all (\<lambda>r. 97 \<le> r \<and> r \<le> 122 \<or> 65 \<le> r \<and> r \<le> 90 \<or> 48 \<le> r \<and> r \<le> 57 \<or> r = 45 \<or> r = 95) (runes v)"

definition newPublicSlug :: "w32 list option \<Rightarrow> string option" where
  "newPublicSlug raw = (case raw of None \<Rightarrow> None | Some ws \<Rightarrow> Some (''cp-'' @ hex_encode ws))"

definition slug_of :: "coupon_db \<Rightarrow> int \<Rightarrow> string option" where
  "slug_of db i = map_of (cdb_Slugs db) i"

definition slug_check :: "string \<Rightarrow> bool" where
  "slug_check v \<longleftrightarrow> 6 \<le> length v \<and> length v \<le> 120 \<and>
     list_all (\<lambda>c. is_digit c \<or> 97 \<le> byte c \<and> byte c \<le> 122 \<or> 65 \<le> byte c \<and> byte c \<le> 90 \<or> c = CHR ''_'' \<or> c = CHR ''-'') v"

definition EnsurePublicCouponSlug :: "int \<Rightarrow> string \<Rightarrow> int \<Rightarrow> go_time \<Rightarrow> coupon_db \<Rightarrow> (coupon \<times> string) coupon_tx" where
  "EnsurePublicCouponSlug i proposed actor at db =
     (case get_rule db i of
        Inl e \<Rightarrow> Inl e
      | Inr c \<Rightarrow>
          if cpn_Status c \<noteq> ''published'' then Inl CpnConflict
          else
           (case slug_of db i of
              Some slug \<Rightarrow> Inr ((c, slug), db)
            | None \<Rightarrow>
                (case update_rule i (\<lambda>old. old\<lparr>cpn_UpdatedBy := actor, cpn_UpdatedAt := pg_time at,
                        cpn_Version := cpn_Version old + 1\<rparr>) db of
                   Inl e \<Rightarrow> Inl e
                 | Inr (_, db1) \<Rightarrow>
                     if \<not> slug_check proposed then Inl CpnStorage
                     else if proposed \<in> snd ` set (cdb_Slugs db) then Inl CpnConflict
                     else
                      (case Event_Append \<lparr>rev_Type = ''coupon.public_shared'', rev_CouponID = i, rev_Actor = actor,
                              rev_Status = [], rev_Key = ''coupon:public-share:'' @ format_int i\<rparr>
                              (db1\<lparr>cdb_Slugs := (i, proposed) # cdb_Slugs db1\<rparr>) of
                         Inl e \<Rightarrow> Inl e
                       | Inr (_, db2) \<Rightarrow>
                           Inr ((c\<lparr>cpn_Version := wrap64 (cpn_Version c + 1), cpn_UpdatedAt := at, cpn_UpdatedBy := actor\<rparr>,
                             proposed), db2)))))"

text \<open>Whether the attempt leaves the transaction refused, and the four attempts.\<close>

definition slug_violation :: "int \<Rightarrow> string \<Rightarrow> coupon_db \<Rightarrow> bool" where
  "slug_violation i proposed db \<longleftrightarrow> slug_of db i = None \<and> proposed \<in> snd ` set (cdb_Slugs db) \<and>
     (case get_rule db i of Inl _ \<Rightarrow> False | Inr c \<Rightarrow> cpn_Status c = ''published'')"

fun share_attempts ::
  "int \<Rightarrow> int \<Rightarrow> go_time \<Rightarrow> bool \<Rightarrow> w32 list option list \<Rightarrow> coupon_db \<Rightarrow> (coupon \<times> string) coupon_tx" where
  "share_attempts i actor at refused [] db = Inl CpnUnavailable"
| "share_attempts i actor at refused (raw # raws) db =
     (case newPublicSlug raw of
        None \<Rightarrow> Inl CpnUnavailable
      | Some slug \<Rightarrow>
          if refused then Inl CpnStorage
          else
           (case EnsurePublicCouponSlug i slug actor at db of
              Inr r \<Rightarrow> Inr r
            | Inl e \<Rightarrow>
                if e = CpnConflict then share_attempts i actor at (slug_violation i slug db) raws db
                else Inl e))"

text \<open>A refusal by the last check comes after the transaction has committed; the columns of a slug
  leave it nothing to refuse.\<close>

definition EnsurePublicShare :: "coupon_env \<Rightarrow> int \<Rightarrow> int \<Rightarrow> w32 list option list \<Rightarrow> coupon_db \<Rightarrow> string coupon_tx" where
  "EnsurePublicShare env i actor raws db =
     (if i < 1 \<or> actor < 1 then Inl CpnInvalidCoupon
      else
       (case share_attempts i actor (cen_Now env) False (take 4 raws) db of
          Inl e \<Rightarrow> Inl (classifyCheckout e)
        | Inr ((c, slug), db') \<Rightarrow>
            if cpn_ID c \<noteq> i \<or> \<not> validPublicSlug slug \<or> cpn_Status c \<noteq> ''published'' then Inl CpnConflict
            else Inr (''/c/'' @ slug, db')))"

end
