(* ===== verification/CouponCheckout.thy ===== *)
theory CouponCheckout
  imports CouponService
begin

text \<open>
  The life of a claim: \<open>store/checkout.go\<close>, \<open>store/lineage.go\<close>, \<open>app/checkout.go\<close> and
  \<open>app/subjects.go\<close>.  A customer claims a coupon; an order reserves the claim, and its payment
  consumes it or its close releases it.
\<close>

subsection \<open>Whose claims\<close>

definition couponCustomerIDs :: "coupon_env \<Rightarrow> int \<Rightarrow> (coupon_error, int list) result" where
  "couponCustomerIDs env i =
     (if i < 1 then Inl CpnInvalidCoupon
      else
       (case cen_Lineage env of
          None \<Rightarrow> Inr [i]
        | Some lineage \<Rightarrow>
            (case lineage i of
               None \<Rightarrow> Inl CpnUnavailable
             | Some members \<Rightarrow>
                 if members = [] \<or> list_ex (\<lambda>m. m < 1) members \<or> \<not> distinct members \<or> i \<notin> set members
                 then Inl CpnUnavailable else Inr members)))"

definition currentCouponSubjectWithin :: "coupon_env \<Rightarrow> int \<Rightarrow> (coupon_error, int) result" where
  "currentCouponSubjectWithin env identity =
     (case cen_Subjects env of
        None \<Rightarrow> Inl CpnUnavailable
      | Some reader \<Rightarrow>
          (case reader identity of
             None \<Rightarrow> Inl CpnUnavailable
           | Some None \<Rightarrow> Inl CpnReauthorization
           | Some (Some (customer, lineage)) \<Rightarrow>
               if customer < 1 \<or> lineage = [] \<or> hd lineage \<noteq> customer then Inl CpnUnavailable else Inr customer))"

definition claimPayloadMatchesLineage :: "claim_command \<Rightarrow> int list \<Rightarrow> w32 list \<Rightarrow> bool" where
  "claimPayloadMatchesLineage c ids prior =
     list_ex (\<lambda>holder. prior = claim_payload (clc_CouponID c) holder (clc_ActorScope c)) ids"

definition reservePayloadMatchesLineage :: "reserve_command \<Rightarrow> int list \<Rightarrow> w32 list \<Rightarrow> bool" where
  "reservePayloadMatchesLineage c ids prior = list_ex (\<lambda>holder. prior = reserve_payload holder c) ids"

subsection \<open>Rows\<close>

definition claim_by_id :: "coupon_db \<Rightarrow> int \<Rightarrow> claim_row option" where
  "claim_by_id db i = find (\<lambda>c. clm_ID c = i) (cdb_Claims db)"

definition redemption_by_id :: "coupon_db \<Rightarrow> int \<Rightarrow> redemption_row option" where
  "redemption_by_id db i = find (\<lambda>r. rdm_ID r = i) (cdb_Redemptions db)"

definition put_claim :: "claim_row \<Rightarrow> claim_row list \<Rightarrow> claim_row list" where
  "put_claim row cs = map (\<lambda>c. if clm_ID c = clm_ID row then row else c) cs"

definition put_redemption :: "redemption_row \<Rightarrow> redemption_row list \<Rightarrow> redemption_row list" where
  "put_redemption row rs = map (\<lambda>r. if rdm_ID r = rdm_ID row then row else r) rs"

definition redemptionRef :: "int \<Rightarrow> string" where
  "redemptionRef i = ''cr_'' @ format_int i"

definition parseRedemptionRef :: "string \<Rightarrow> int option" where
  "parseRedemptionRef v =
     (if \<not> has_prefix v ''cr_'' then None
      else
       (case ParseInt64 (drop 3 v) of
          None \<Rightarrow> None
        | Some i \<Rightarrow> if i < 1 \<or> redemptionRef i \<noteq> v then None else Some i))"

text \<open>The bytes of a digest, and the outbox row that every step of a claim appends once.\<close>

definition digest_bytes :: "w32 list \<Rightarrow> string" where
  "digest_bytes ws = concat (map (\<lambda>w. map (\<lambda>i. char_of (unat w div 256 ^ i mod 256)) (rev [0..<4])) ws)"

definition appendClaimFact ::
  "int \<Rightarrow> int \<Rightarrow> string \<Rightarrow> string \<Rightarrow> w32 list \<Rightarrow> w32 list \<Rightarrow> coupon_db \<Rightarrow> unit coupon_tx" where
  "appendClaimFact claim redemption operation scope payload key db =
     (let d = Sum256 (operation @ [CHR 0x00] @ scope @ [CHR 0x00] @ digest_bytes key @ digest_bytes payload) in
      if list_ex (\<lambda>f. cft_Digest f = d) (cdb_ClaimFacts db) then Inl CpnStorage
      else Inr ((), db\<lparr>cdb_ClaimFacts := cdb_ClaimFacts db @
        [\<lparr>cft_ClaimID = claim, cft_RedemptionID = redemption, cft_Operation = operation, cft_Digest = d\<rparr>]\<rparr>))"

subsection \<open>Claiming\<close>

definition find_claim_receipt :: "coupon_db \<Rightarrow> string \<Rightarrow> w32 list \<Rightarrow> claim_receipt option" where
  "find_claim_receipt db scope key =
     find (\<lambda>r. crc_ActorScope r = scope \<and> crc_KeyDigest r = key) (cdb_ClaimReceipts db)"

definition findClaimReceipt ::
  "coupon_db \<Rightarrow> claim_command \<Rightarrow> int list \<Rightarrow> w32 list \<Rightarrow> w32 list \<Rightarrow> (coupon_error, customer_coupon option) result" where
  "findClaimReceipt db c ids key payload =
     (case find_claim_receipt db (clc_ActorScope c) key of
        None \<Rightarrow> Inr None
      | Some r \<Rightarrow>
          (case claim_by_id db (crc_ClaimID r) of
             None \<Rightarrow> Inr None
           | Some claim \<Rightarrow>
               if clm_CustomerID claim \<notin> set ids \<or> clm_CouponID claim \<noteq> clc_CouponID c \<or>
                  ccp_ClaimID (crc_Snapshot r) \<noteq> clm_ID claim \<or> ccp_CouponID (crc_Snapshot r) \<noteq> clm_CouponID claim
               then Inl CpnConflict
               else if crc_PayloadDigest r \<noteq> payload \<and> \<not> claimPayloadMatchesLineage c ids (crc_PayloadDigest r)
               then Inl CpnConflict
               else Inr (Some (crc_Snapshot r))))"

definition held_claims :: "coupon_db \<Rightarrow> int \<Rightarrow> int list \<Rightarrow> int" where
  "held_claims db coupon ids =
     int (length (filter (\<lambda>c. clm_CouponID c = coupon \<and> clm_CustomerID c \<in> set ids) (cdb_Claims db)))"

text \<open>The rule's counter goes up by one under the lock of its row.\<close>

definition count_issue :: "int \<Rightarrow> go_time \<Rightarrow> coupon_db \<Rightarrow> coupon coupon_tx" where
  "count_issue i at db =
     (case get_rule db i of
        Inl _ \<Rightarrow> Inl CpnNoEligible
      | Inr c \<Rightarrow>
          if \<not> cpn_IssuedCount c < cpn_TotalIssueLimit c then Inl CpnNoEligible
          else update_rule i (\<lambda>old. old\<lparr>cpn_IssuedCount := cpn_IssuedCount old + 1, cpn_UpdatedAt := pg_time at\<rparr>) db)"

definition claim_source_key :: "string \<Rightarrow> w32 list \<Rightarrow> string" where
  "claim_source_key scope key = ''claim:'' @ hex_encode (Sum256 scope) @ '':'' @ hex_encode key"

definition new_claim ::
  "claim_command \<Rightarrow> int \<Rightarrow> int \<Rightarrow> go_time \<Rightarrow> go_time \<Rightarrow> go_time \<Rightarrow> w32 list \<Rightarrow> w32 list \<Rightarrow> claim_row" where
  "new_claim c i customer at start until key payload =
     \<lparr>clm_ID = i, clm_SourceKey = claim_source_key (clc_ActorScope c) key, clm_CustomerID = customer,
      clm_CouponID = clc_CouponID c, clm_Status = ClaimAvailable, clm_ClaimedAt = pg_time at, clm_ReservedAt = None,
      clm_ValidFrom = Some (pg_time start), clm_ValidUntil = Some (pg_time until), clm_RedeemedAt = None,
      clm_ExpiredAt = None, clm_Digest = payload\<rparr>"

definition insert_claim ::
  "coupon_env \<Rightarrow> claim_command \<Rightarrow> int \<Rightarrow> go_time \<Rightarrow> go_time \<Rightarrow> go_time \<Rightarrow> w32 list \<Rightarrow> w32 list \<Rightarrow> coupon_db \<Rightarrow> int coupon_tx" where
  "insert_claim env c customer at start until key payload db =
     (let i = cdb_NextClaim db; row = new_claim c i customer at start until key payload in
      if max_int64 < i \<or> \<not> cen_Customers env customer \<or> pg_time until < pg_time start \<or>
         list_ex (\<lambda>x. clm_SourceKey x = clm_SourceKey row) (cdb_Claims db) then Inl CpnStorage
      else Inr (i, db\<lparr>cdb_Claims := cdb_Claims db @ [row], cdb_NextClaim := i + 1\<rparr>))"

definition claimed_item :: "int \<Rightarrow> coupon \<Rightarrow> go_time \<Rightarrow> go_time \<Rightarrow> go_time \<Rightarrow> customer_coupon" where
  "claimed_item i rule at start until =
     \<lparr>ccp_ClaimID = i, ccp_CouponID = cpn_ID rule, ccp_Name = cpn_Name rule,
      ccp_DiscountMinor = cpn_DiscountAmountTotal rule, ccp_Currency = cpn_Currency rule, ccp_Status = ''available'',
      ccp_ClaimNoMasked = [], ccp_ClaimedAt = at, ccp_ValidFrom = Some start, ccp_ValidUntil = Some until,
      ccp_RedeemedAt = None\<rparr>"

definition record_claim ::
  "claim_command \<Rightarrow> customer_coupon \<Rightarrow> w32 list \<Rightarrow> w32 list \<Rightarrow> coupon_db \<Rightarrow> customer_coupon coupon_tx" where
  "record_claim c item key payload db =
     (if \<not> list_all (ptr_all time_marshals) [Some (ccp_ClaimedAt item), ccp_ValidFrom item, ccp_ValidUntil item] \<or>
         \<not> pg_text (clc_ActorScope c)
      then Inl CpnStorage
      else
       (case appendClaimFact (ccp_ClaimID item) 0 ''claim'' (clc_ActorScope c) payload key
               (db\<lparr>cdb_ClaimReceipts := cdb_ClaimReceipts db @ [\<lparr>crc_ActorScope = clc_ActorScope c, crc_KeyDigest = key,
                  crc_PayloadDigest = payload, crc_ClaimID = ccp_ClaimID item, crc_Snapshot = item\<rparr>]\<rparr>) of
          Inl e \<Rightarrow> Inl e
        | Inr (_, db') \<Rightarrow> Inr (item, db')))"

definition issue_claim ::
  "coupon_env \<Rightarrow> claim_command \<Rightarrow> int \<Rightarrow> coupon \<Rightarrow> w32 list \<Rightarrow> w32 list \<Rightarrow> go_time \<Rightarrow> coupon_db \<Rightarrow> customer_coupon coupon_tx" where
  "issue_claim env c customer rule key payload at db =
     (case couponClaimValidity rule at of
        Inl e \<Rightarrow> Inl e
      | Inr (start, until) \<Rightarrow>
          (case count_issue (cpn_ID rule) at db of
             Inl e \<Rightarrow> Inl e
           | Inr (_, db1) \<Rightarrow>
               (case insert_claim env c customer at start until key payload db1 of
                  Inl e \<Rightarrow> Inl e
                | Inr (i, db2) \<Rightarrow> record_claim c (claimed_item i rule at start until) key payload db2)))"

definition claimable :: "coupon \<Rightarrow> go_time \<Rightarrow> bool" where
  "claimable rule at \<longleftrightarrow> \<not> (cpn_Status rule \<noteq> ''published'' \<or> before at (cpn_ClaimStartsAt rule) \<or>
     \<not> before at (cpn_ClaimEndsAt rule) \<or> cpn_TotalIssueLimit rule \<le> cpn_IssuedCount rule)"

definition ClaimCoupon ::
  "coupon_env \<Rightarrow> claim_command \<Rightarrow> w32 list \<Rightarrow> w32 list \<Rightarrow> go_time \<Rightarrow> coupon_db \<Rightarrow> customer_coupon coupon_tx" where
  "ClaimCoupon env c key payload at db =
     (case couponCustomerIDs env (clc_HolderCustomerID c) of
        Inl e \<Rightarrow> Inl e
      | Inr ids \<Rightarrow>
          (case findClaimReceipt db c ids key payload of
             Inl e \<Rightarrow> Inl e
           | Inr (Some prior) \<Rightarrow> Inr (prior, db)
           | Inr None \<Rightarrow>
               if clc_RecoveryOnly c then Inl CpnNoEligible
               else
                (case get_rule db (clc_CouponID c) of
                   Inl e \<Rightarrow> Inl e
                 | Inr rule \<Rightarrow>
                     if \<not> claimable rule at \<or> cpn_PerUserIssueLimit rule \<le> held_claims db (cpn_ID rule) ids
                     then Inl CpnNoEligible
                     else issue_claim env c (hd ids) rule key payload at db)))"

subsection \<open>Reserving\<close>

definition find_redemption_receipt :: "coupon_db \<Rightarrow> string \<Rightarrow> string \<Rightarrow> w32 list \<Rightarrow> redemption_receipt option" where
  "find_redemption_receipt db operation scope key =
     find (\<lambda>r. orc_Operation r = operation \<and> orc_ActorScope r = scope \<and> orc_KeyDigest r = key) (cdb_RedemptionReceipts db)"

definition findReservationReceipt ::
  "coupon_db \<Rightarrow> reserve_command \<Rightarrow> int list \<Rightarrow> w32 list \<Rightarrow> w32 list \<Rightarrow> (coupon_error, reservation_snapshot option) result" where
  "findReservationReceipt db c ids key payload =
     (case find_redemption_receipt db ''reserve'' (rvc_ActorScope c) key of
        None \<Rightarrow> Inr None
      | Some r \<Rightarrow>
          (case redemption_by_id db (orc_RedemptionID r) of
             None \<Rightarrow> Inr None
           | Some redemption \<Rightarrow>
               (case claim_by_id db (rdm_ClaimID redemption) of
                  None \<Rightarrow> Inr None
                | Some claim \<Rightarrow>
                    if clm_CustomerID claim \<notin> set ids \<or> rsv_ClaimID (orc_Snapshot r) \<noteq> clm_ID claim \<or>
                       rsv_ReservationRef (orc_Snapshot r) \<noteq> redemptionRef (rdm_ID redemption)
                    then Inl CpnConflict
                    else if orc_PayloadDigest r \<noteq> payload \<and> \<not> reservePayloadMatchesLineage c ids (orc_PayloadDigest r)
                    then Inl CpnConflict
                    else Inr (Some (orc_Snapshot r)))))"

definition findRedemptionReceipt ::
  "coupon_db \<Rightarrow> string \<Rightarrow> string \<Rightarrow> w32 list \<Rightarrow> w32 list \<Rightarrow> (coupon_error, reservation_snapshot option) result" where
  "findRedemptionReceipt db operation scope key payload =
     (case find_redemption_receipt db operation scope key of
        None \<Rightarrow> Inr None
      | Some r \<Rightarrow> if orc_PayloadDigest r \<noteq> payload then Inl CpnConflict else Inr (Some (orc_Snapshot r)))"

definition recordRedemptionReceipt ::
  "string \<Rightarrow> string \<Rightarrow> w32 list \<Rightarrow> w32 list \<Rightarrow> int \<Rightarrow> reservation_snapshot \<Rightarrow> coupon_db \<Rightarrow> unit coupon_tx" where
  "recordRedemptionReceipt operation scope key payload i s db =
     (if \<not> pg_text scope \<or>
         list_ex (\<lambda>r. orc_Operation r = operation \<and>
           (orc_ActorScope r = scope \<and> orc_KeyDigest r = key \<or> orc_RedemptionID r = i)) (cdb_RedemptionReceipts db)
      then Inl CpnStorage
      else Inr ((), db\<lparr>cdb_RedemptionReceipts := cdb_RedemptionReceipts db @
        [\<lparr>orc_Operation = operation, orc_ActorScope = scope, orc_KeyDigest = key, orc_PayloadDigest = payload,
          orc_RedemptionID = i, orc_Snapshot = s\<rparr>]\<rparr>))"

text \<open>The query of \<open>selectReservationClaim\<close>: the claims it joins with their rules, and the first of
  them in its order that no other transaction has locked.\<close>

definition open_claim :: "claim_row \<Rightarrow> bool" where
  "open_claim c \<longleftrightarrow> clm_Status c = ClaimAvailable \<or> clm_Status c = ClaimClaimed"

definition valid_at :: "claim_row \<Rightarrow> go_time \<Rightarrow> bool" where
  "valid_at c at \<longleftrightarrow>
     (case (clm_ValidFrom c, clm_ValidUntil c) of (Some start, Some until) \<Rightarrow> start \<le> at \<and> at < until | _ \<Rightarrow> False)"

definition reserve_target :: "reserve_command \<Rightarrow> string" where
  "reserve_target c = rvc_ProductType c @ '':'' @ format_int (rvc_ProductID c)"

definition eligible_claim :: "reserve_command \<Rightarrow> int list \<Rightarrow> claim_row \<times> coupon \<Rightarrow> bool" where
  "eligible_claim c ids x \<longleftrightarrow> (case x of (claim, rule) \<Rightarrow>
     clm_CustomerID claim \<in> set ids \<and> (rvc_ClaimID c = 0 \<or> clm_ID claim = rvc_ClaimID c) \<and> open_claim claim \<and>
     valid_at claim (rvc_ReservedAt c) \<and> cpn_Currency rule = rvc_Currency c \<and>
     reserve_target c \<in> set (cpn_TargetRefs rule) \<and> cpn_Status rule = ''published'' \<and>
     0 < cpn_DiscountAmountTotal rule \<and> 1 < rvc_GrossAmountMinor c)"

definition joined_claims :: "coupon_db \<Rightarrow> (claim_row \<times> coupon) list" where
  "joined_claims db = concat (map (\<lambda>c. case get_rule db (clm_CouponID c) of Inl _ \<Rightarrow> [] | Inr r \<Rightarrow> [(c, r)]) (cdb_Claims db))"

definition claim_until :: "claim_row \<Rightarrow> go_time" where
  "claim_until c = (case clm_ValidUntil c of None \<Rightarrow> 0 | Some t \<Rightarrow> t)"

definition claim_precedes :: "claim_row \<times> coupon \<Rightarrow> claim_row \<times> coupon \<Rightarrow> bool" where
  "claim_precedes x y \<longleftrightarrow>
     (let d = cpn_DiscountAmountTotal (snd x); e = cpn_DiscountAmountTotal (snd y); a = fst x; b = fst y in
      e < d \<or> e = d \<and> (claim_until a < claim_until b \<or> claim_until a = claim_until b \<and>
        (clm_ClaimedAt a < clm_ClaimedAt b \<or> clm_ClaimedAt a = clm_ClaimedAt b \<and> clm_ID a \<le> clm_ID b)))"

fun first_claim :: "(claim_row \<times> coupon) list \<Rightarrow> (claim_row \<times> coupon) option" where
  "first_claim [] = None"
| "first_claim (x # xs) = (case first_claim xs of None \<Rightarrow> Some x | Some y \<Rightarrow> Some (if claim_precedes x y then x else y))"

definition selectReservationClaim ::
  "coupon_env \<Rightarrow> coupon_db \<Rightarrow> reserve_command \<Rightarrow> int list \<Rightarrow> (claim_row \<times> coupon) option" where
  "selectReservationClaim env db c ids =
     first_claim (filter (\<lambda>x. eligible_claim c ids x \<and> \<not> cen_Busy env (clm_ID (fst x))) (joined_claims db))"

definition original_price :: "reserve_command \<Rightarrow> reservation_snapshot" where
  "original_price c = \<lparr>rsv_CouponApplied = False, rsv_ReservationRef = [], rsv_ClaimID = 0, rsv_CouponID = 0,
     rsv_ProductID = rvc_ProductID c, rsv_ProductType = rvc_ProductType c, rsv_ProductCode = rvc_ProductCode c,
     rsv_RuleVersion = 0, rsv_GrossAmountMinor = rvc_GrossAmountMinor c, rsv_DiscountAmountMinor = 0,
     rsv_PayableAmountMinor = rvc_GrossAmountMinor c, rsv_Currency = rvc_Currency c\<rparr>"

definition reserved_row :: "reserve_command \<Rightarrow> int \<Rightarrow> claim_row \<Rightarrow> coupon \<Rightarrow> go_time \<Rightarrow> redemption_row" where
  "reserved_row c i claim rule at =
     (let discount = min (cpn_DiscountAmountTotal rule) (rvc_GrossAmountMinor c - 1) in
      \<lparr>rdm_ID = i, rdm_ClaimID = clm_ID claim, rdm_OrderReference = rvc_OrderReference c, rdm_ProductID = rvc_ProductID c,
       rdm_ProductType = rvc_ProductType c, rdm_ProductCode = rvc_ProductCode c, rdm_RuleVersion = cpn_Version rule,
       rdm_GrossAmountMinor = rvc_GrossAmountMinor c, rdm_DiscountAmountMinor = discount,
       rdm_PayableAmountMinor = rvc_GrossAmountMinor c - discount, rdm_Currency = rvc_Currency c,
       rdm_Status = RedemptionReserved, rdm_ReservedAt = pg_time at, rdm_ConsumedAt = None, rdm_ReleasedAt = None,
       rdm_ReleaseReason = []\<rparr>)"

definition snapshot_of :: "redemption_row \<Rightarrow> int \<Rightarrow> reservation_snapshot" where
  "snapshot_of r coupon = \<lparr>rsv_CouponApplied = True, rsv_ReservationRef = redemptionRef (rdm_ID r),
     rsv_ClaimID = rdm_ClaimID r, rsv_CouponID = coupon, rsv_ProductID = rdm_ProductID r,
     rsv_ProductType = rdm_ProductType r, rsv_ProductCode = rdm_ProductCode r, rsv_RuleVersion = rdm_RuleVersion r,
     rsv_GrossAmountMinor = rdm_GrossAmountMinor r, rsv_DiscountAmountMinor = rdm_DiscountAmountMinor r,
     rsv_PayableAmountMinor = rdm_PayableAmountMinor r, rsv_Currency = rdm_Currency r\<rparr>"

definition insert_redemption :: "redemption_row \<Rightarrow> coupon_db \<Rightarrow> unit coupon_tx" where
  "insert_redemption row db =
     (if max_int64 < rdm_ID row \<or> \<not> redemption_checks row \<or> \<not> redemptions_unique (cdb_Redemptions db @ [row])
      then Inl CpnStorage
      else Inr ((), db\<lparr>cdb_Redemptions := cdb_Redemptions db @ [row], cdb_NextRedemption := rdm_ID row + 1\<rparr>))"

definition record_step ::
  "string \<Rightarrow> string \<Rightarrow> w32 list \<Rightarrow> w32 list \<Rightarrow> redemption_row \<Rightarrow> reservation_snapshot \<Rightarrow> coupon_db \<Rightarrow> reservation_snapshot coupon_tx" where
  "record_step operation scope key payload row s db =
     (case recordRedemptionReceipt operation scope key payload (rdm_ID row) s db of
        Inl e \<Rightarrow> Inl e
      | Inr (_, db1) \<Rightarrow>
          (case appendClaimFact (rdm_ClaimID row) (rdm_ID row) operation scope payload key db1 of
             Inl e \<Rightarrow> Inl e
           | Inr (_, db2) \<Rightarrow> Inr (s, db2)))"

definition apply_reservation ::
  "reserve_command \<Rightarrow> claim_row \<Rightarrow> coupon \<Rightarrow> w32 list \<Rightarrow> w32 list \<Rightarrow> go_time \<Rightarrow> coupon_db \<Rightarrow> reservation_snapshot coupon_tx" where
  "apply_reservation c claim rule key payload at db =
     (if cpn_DiscountAmountTotal rule \<le> 0 \<or> rvc_GrossAmountMinor c \<le> 1 \<or> cpn_Currency rule \<noteq> rvc_Currency c
      then Inl CpnConflict
      else
       (let row = reserved_row c (cdb_NextRedemption db) claim rule at;
            db1 = db\<lparr>cdb_Claims := put_claim (claim\<lparr>clm_Status := ClaimReserved, clm_ReservedAt := Some (pg_time at)\<rparr>)
              (cdb_Claims db)\<rparr> in
        case insert_redemption row db1 of
          Inl e \<Rightarrow> Inl e
        | Inr (_, db2) \<Rightarrow>
            record_step ''reserve'' (rvc_ActorScope c) key payload row (snapshot_of row (cpn_ID rule)) db2))"

definition ReserveCoupon ::
  "coupon_env \<Rightarrow> reserve_command \<Rightarrow> w32 list \<Rightarrow> w32 list \<Rightarrow> go_time \<Rightarrow> coupon_db \<Rightarrow> reservation_snapshot coupon_tx" where
  "ReserveCoupon env c key payload at db =
     (case couponCustomerIDs env (rvc_HolderCustomerID c) of
        Inl e \<Rightarrow> Inl e
      | Inr ids \<Rightarrow>
          (case findReservationReceipt db c ids key payload of
             Inl e \<Rightarrow> Inl e
           | Inr (Some prior) \<Rightarrow> Inr (prior, db)
           | Inr None \<Rightarrow>
               if list_ex (\<lambda>r. rdm_OrderReference r = rvc_OrderReference c) (cdb_Redemptions db) then Inl CpnConflict
               else
                (case selectReservationClaim env db c ids of
                   None \<Rightarrow> if rvc_ClaimID c = 0 then Inr (original_price c, db) else Inl CpnNoEligible
                 | Some (claim, rule) \<Rightarrow> apply_reservation c claim rule key payload at db)))"

subsection \<open>Consuming and releasing\<close>

definition readRedemption :: "coupon_db \<Rightarrow> string \<Rightarrow> (coupon_error, redemption_row \<times> claim_row) result" where
  "readRedemption db ref =
     (case parseRedemptionRef ref of
        None \<Rightarrow> Inl CpnNotFound
      | Some i \<Rightarrow>
          (case redemption_by_id db i of
             None \<Rightarrow> Inl CpnNotFound
           | Some r \<Rightarrow>
               (case claim_by_id db (rdm_ClaimID r) of None \<Rightarrow> Inl CpnNotFound | Some c \<Rightarrow> Inr (r, c))))"

text \<open>Both rows change; the constraints of the redemption are checked again.\<close>

definition settle_rows :: "redemption_row \<Rightarrow> claim_row \<Rightarrow> coupon_db \<Rightarrow> unit coupon_tx" where
  "settle_rows row claim db =
     (if \<not> redemption_checks row then Inl CpnStorage
      else Inr ((), db\<lparr>cdb_Redemptions := put_redemption row (cdb_Redemptions db),
        cdb_Claims := put_claim claim (cdb_Claims db)\<rparr>))"

definition ConsumeCoupon ::
  "consume_command \<Rightarrow> w32 list \<Rightarrow> w32 list \<Rightarrow> go_time \<Rightarrow> coupon_db \<Rightarrow> reservation_snapshot coupon_tx" where
  "ConsumeCoupon c key payload at db =
     (case findRedemptionReceipt db ''consume'' (csc_ActorScope c) key payload of
        Inl e \<Rightarrow> Inl e
      | Inr (Some prior) \<Rightarrow> Inr (prior, db)
      | Inr None \<Rightarrow>
          (case readRedemption db (csc_ReservationRef c) of
             Inl e \<Rightarrow> Inl e
           | Inr (r, claim) \<Rightarrow>
               if rdm_OrderReference r \<noteq> csc_OrderReference c \<or> rdm_PayableAmountMinor r \<noteq> csc_SettledAmountMinor c \<or>
                  rdm_Currency r \<noteq> csc_SettledCurrency c then Inl CpnConflict
               else if rdm_Status r = RedemptionConsumed then
                 (if clm_Status claim \<noteq> ClaimRedeemed then Inl CpnConflict
                  else Inr (snapshot_of r (clm_CouponID claim), db))
               else if rdm_Status r \<noteq> RedemptionReserved \<or> clm_Status claim \<noteq> ClaimReserved then Inl CpnConflict
               else
                (case settle_rows (r\<lparr>rdm_Status := RedemptionConsumed, rdm_ConsumedAt := Some (pg_time at)\<rparr>)
                        (claim\<lparr>clm_Status := ClaimRedeemed, clm_RedeemedAt := Some (pg_time at)\<rparr>) db of
                   Inl e \<Rightarrow> Inl e
                 | Inr (_, db1) \<Rightarrow>
                     record_step ''consume'' (csc_ActorScope c) key payload r (snapshot_of r (clm_CouponID claim)) db1)))"

definition released_claim :: "claim_row \<Rightarrow> go_time \<Rightarrow> claim_row" where
  "released_claim claim at =
     (if (case clm_ValidUntil claim of None \<Rightarrow> True | Some until \<Rightarrow> \<not> before at until)
      then claim\<lparr>clm_Status := ClaimExpired, clm_ExpiredAt := Some (pg_time at)\<rparr>
      else claim\<lparr>clm_Status := ClaimAvailable\<rparr>)"

definition ReleaseCoupon ::
  "release_command \<Rightarrow> w32 list \<Rightarrow> w32 list \<Rightarrow> go_time \<Rightarrow> coupon_db \<Rightarrow> reservation_snapshot coupon_tx" where
  "ReleaseCoupon c key payload at db =
     (case findRedemptionReceipt db ''release'' (rlc_ActorScope c) key payload of
        Inl e \<Rightarrow> Inl e
      | Inr (Some prior) \<Rightarrow> Inr (prior, db)
      | Inr None \<Rightarrow>
          (case readRedemption db (rlc_ReservationRef c) of
             Inl e \<Rightarrow> Inl e
           | Inr (r, claim) \<Rightarrow>
               if rdm_OrderReference r \<noteq> rlc_OrderReference c then Inl CpnConflict
               else if rdm_Status r = RedemptionReleased then Inr (snapshot_of r (clm_CouponID claim), db)
               else if rdm_Status r \<noteq> RedemptionReserved \<or> clm_Status claim \<noteq> ClaimReserved then Inl CpnConflict
               else
                (case settle_rows (r\<lparr>rdm_Status := RedemptionReleased, rdm_ReleasedAt := Some (pg_time at),
                          rdm_ReleaseReason := rlc_CloseReason c\<rparr>) (released_claim claim at) db of
                   Inl e \<Rightarrow> Inl e
                 | Inr (_, db1) \<Rightarrow>
                     record_step ''release'' (rlc_ActorScope c) key payload r (snapshot_of r (clm_CouponID claim)) db1)))"

subsection \<open>The application\<close>

definition checkout_answer :: "'a coupon_tx \<Rightarrow> 'a coupon_tx" where
  "checkout_answer r = (case r of Inl e \<Rightarrow> Inl (classifyCheckout e) | Inr x \<Rightarrow> Inr x)"

definition claim_holder :: "coupon_env \<Rightarrow> claim_command \<Rightarrow> (coupon_error, int) result" where
  "claim_holder env c =
     (if 0 < clc_HolderIdentityID c then currentCouponSubjectWithin env (clc_HolderIdentityID c)
      else Inr (clc_HolderCustomerID c))"

definition valid_claim :: "claim_command \<Rightarrow> bool" where
  "valid_claim c \<longleftrightarrow> \<not> (clc_CouponID c < 1 \<or> clc_HolderIdentityID c < 0 \<or>
     clc_HolderIdentityID c = 0 \<and> clc_HolderCustomerID c < 1 \<or> \<not> valid_checkout_scope (clc_ActorScope c) \<or>
     \<not> valid_checkout_key (clc_IdempotencyKey c) \<or> is_zero (clc_ClaimedAt c))"

definition Claim :: "coupon_env \<Rightarrow> claim_command \<Rightarrow> coupon_db \<Rightarrow> customer_coupon coupon_tx" where
  "Claim env input db =
     (let c = input\<lparr>clc_ClaimedAt := checkoutTime (clc_ClaimedAt input) (cen_Now env)\<rparr> in
      if \<not> valid_claim c then Inl CpnInvalidCoupon
      else checkout_answer
       (case claim_holder env c of
          Inl e \<Rightarrow> Inl e
        | Inr holder \<Rightarrow> ClaimCoupon env (c\<lparr>clc_HolderCustomerID := holder\<rparr>) (Sum256 (clc_IdempotencyKey c))
            (claim_payload (clc_CouponID c) holder (clc_ActorScope c)) (clc_ClaimedAt c) db))"

definition ReserveWithin :: "coupon_env \<Rightarrow> reserve_command \<Rightarrow> coupon_db \<Rightarrow> reservation_snapshot coupon_tx" where
  "ReserveWithin env input db =
     (let c = input\<lparr>rvc_ReservedAt := checkoutTime (rvc_ReservedAt input) (cen_Now env)\<rparr> in
      if \<not> validReserve c then Inl CpnInvalidCoupon
      else
       (case ReserveCoupon env c (Sum256 (rvc_IdempotencyKey c)) (reserve_payload (rvc_HolderCustomerID c) c)
               (rvc_ReservedAt c) db of
          Inl e \<Rightarrow> Inl (if e = CpnNoEligible then CpnClaimNotEligible else classifyCheckout e)
        | Inr x \<Rightarrow> Inr x))"

definition ConsumeWithin :: "coupon_env \<Rightarrow> consume_command \<Rightarrow> coupon_db \<Rightarrow> reservation_snapshot coupon_tx" where
  "ConsumeWithin env input db =
     (let c = input\<lparr>csc_SettledAt := checkoutTime (csc_SettledAt input) (cen_Now env)\<rparr> in
      if \<not> validConsume c then Inl CpnInvalidCoupon
      else checkout_answer (ConsumeCoupon c (Sum256 (csc_IdempotencyKey c)) (consume_payload c) (csc_SettledAt c) db))"

definition ReleaseWithin :: "coupon_env \<Rightarrow> release_command \<Rightarrow> coupon_db \<Rightarrow> reservation_snapshot coupon_tx" where
  "ReleaseWithin env input db =
     (let c = input\<lparr>rlc_ClosedAt := checkoutTime (rlc_ClosedAt input) (cen_Now env),
        rlc_CloseReason := trim_space (rlc_CloseReason input)\<rparr> in
      if \<not> validRelease c then Inl CpnInvalidCoupon
      else checkout_answer (ReleaseCoupon c (Sum256 (rlc_IdempotencyKey c)) (release_payload c) (rlc_ClosedAt c) db))"

end
