(* ===== verification/CouponInv.thy ===== *)
theory CouponInv
  imports CouponCheckout
begin

text \<open>
  The invariant of the coupon tables and its preservation by every transaction: the counter of a
  rule is the number of its claims, no customer holds more claims of a rule than the rule allows,
  a claim is reserved or redeemed exactly when a redemption of it is reserved or consumed, and a
  claim has at most one live redemption.
\<close>

named_theorems coupon_steps "operations of the coupon store, unfolded to the tables"

subsection \<open>The invariant\<close>

definition rules_ok :: "coupon_db \<Rightarrow> bool" where
  "rules_ok db \<longleftrightarrow> distinct (map cpn_ID (cdb_Rules db)) \<and>
     list_all (\<lambda>c. 0 < cpn_ID c \<and> cpn_ID c < cdb_NextRule db \<and> rule_checks c) (cdb_Rules db) \<and> 0 < cdb_NextRule db"

definition claims_ok :: "coupon_db \<Rightarrow> bool" where
  "claims_ok db \<longleftrightarrow> distinct (map clm_ID (cdb_Claims db)) \<and> 0 < cdb_NextClaim db \<and>
     list_all (\<lambda>c. 0 < clm_ID c \<and> clm_ID c < cdb_NextClaim db \<and> clm_CouponID c \<in> cpn_ID ` set (cdb_Rules db))
       (cdb_Claims db)"

definition claims_of :: "coupon_db \<Rightarrow> int \<Rightarrow> int" where
  "claims_of db coupon = int (length (filter (\<lambda>c. clm_CouponID c = coupon) (cdb_Claims db)))"

definition counted :: "coupon_db \<Rightarrow> coupon \<Rightarrow> bool" where
  "counted db r \<longleftrightarrow> cpn_IssuedCount r = claims_of db (cpn_ID r) \<and>
     (\<forall>k. held_claims db (cpn_ID r) [k] \<le> cpn_PerUserIssueLimit r) \<and>
     (cpn_Status r = ''draft'' \<longrightarrow> cpn_IssuedCount r = 0)"

definition counts_ok :: "coupon_db \<Rightarrow> bool" where
  "counts_ok db \<longleftrightarrow> list_all (counted db) (cdb_Rules db)"

definition redemptions_ok :: "coupon_db \<Rightarrow> bool" where
  "redemptions_ok db \<longleftrightarrow> distinct (map rdm_ID (cdb_Redemptions db)) \<and> redemptions_unique (cdb_Redemptions db) \<and>
     0 < cdb_NextRedemption db \<and>
     list_all (\<lambda>r. 0 < rdm_ID r \<and> rdm_ID r < cdb_NextRedemption db \<and> redemption_checks r \<and>
       rdm_ClaimID r \<in> clm_ID ` set (cdb_Claims db)) (cdb_Redemptions db)"

definition redemption_with :: "coupon_db \<Rightarrow> redemption_status \<Rightarrow> int \<Rightarrow> bool" where
  "redemption_with db s i \<longleftrightarrow> list_ex (\<lambda>r. rdm_ClaimID r = i \<and> rdm_Status r = s) (cdb_Redemptions db)"

definition coupled :: "coupon_db \<Rightarrow> bool" where
  "coupled db \<longleftrightarrow> list_all (\<lambda>c.
     (clm_Status c = ClaimReserved \<longleftrightarrow> redemption_with db RedemptionReserved (clm_ID c)) \<and>
     (clm_Status c = ClaimRedeemed \<longleftrightarrow> redemption_with db RedemptionConsumed (clm_ID c))) (cdb_Claims db)"

definition coupon_inv :: "coupon_db \<Rightarrow> bool" where
  "coupon_inv db \<longleftrightarrow> rules_ok db \<and> claims_ok db \<and> counts_ok db \<and> redemptions_ok db \<and> coupled db"

lemma coupon_inv_empty [simp]: "coupon_inv empty_coupons"
  by (simp add: coupon_inv_def rules_ok_def claims_ok_def counts_ok_def redemptions_ok_def coupled_def
      redemptions_unique_def empty_coupons_def)

text \<open>The tables the invariant reads; receipts, events and facts are not among them.\<close>

definition same_books :: "coupon_db \<Rightarrow> coupon_db \<Rightarrow> bool" where
  "same_books a b \<longleftrightarrow> cdb_Rules a = cdb_Rules b \<and> cdb_NextRule a = cdb_NextRule b \<and>
     cdb_Claims a = cdb_Claims b \<and> cdb_NextClaim a = cdb_NextClaim b \<and>
     cdb_Redemptions a = cdb_Redemptions b \<and> cdb_NextRedemption a = cdb_NextRedemption b"

lemma same_books_refl [simp]: "same_books db db"
  by (simp add: same_books_def)

lemma same_books_trans: "same_books a b \<Longrightarrow> same_books b c \<Longrightarrow> same_books a c"
  by (simp add: same_books_def)

lemma same_books_inv: "same_books a b \<Longrightarrow> coupon_inv a \<longleftrightarrow> coupon_inv b"
proof -
  assume s: "same_books a b"
  have counted: "counted a = counted b" using s
    by (simp add: fun_eq_iff counted_def claims_of_def held_claims_def same_books_def)
  have redemption: "redemption_with a = redemption_with b" using s
    by (simp add: fun_eq_iff redemption_with_def same_books_def)
  show ?thesis using s
    by (simp add: coupon_inv_def rules_ok_def claims_ok_def counts_ok_def redemptions_ok_def coupled_def counted
        redemption) (simp add: same_books_def)
qed

lemma same_books_rule: "same_books a b \<Longrightarrow> get_rule a i = get_rule b i"
  by (simp add: same_books_def get_rule_def)

subsection \<open>Looking rows up\<close>

lemma get_rule_SomeD: "get_rule db i = Inr c \<Longrightarrow> c \<in> set (cdb_Rules db) \<and> cpn_ID c = i"
  by (auto simp: get_rule_def find_Some_iff split: option.splits)

lemma get_rule_Some: "rules_ok db \<Longrightarrow> c \<in> set (cdb_Rules db) \<Longrightarrow> get_rule db (cpn_ID c) = Inr c"
proof -
  assume ok: "rules_ok db" and c: "c \<in> set (cdb_Rules db)"
  then have inj: "inj_on cpn_ID (set (cdb_Rules db))" by (simp add: rules_ok_def distinct_map)
  obtain x where x: "find (\<lambda>y. cpn_ID y = cpn_ID c) (cdb_Rules db) = Some x"
    using c by (cases "find (\<lambda>y. cpn_ID y = cpn_ID c) (cdb_Rules db)") (auto simp: find_None_iff)
  then have "x \<in> set (cdb_Rules db)" "cpn_ID x = cpn_ID c" by (auto simp: find_Some_iff)
  with inj c have "x = c" by (auto dest: inj_onD)
  with x show ?thesis by (simp add: get_rule_def)
qed

lemma claim_by_idD: "claim_by_id db i = Some c \<Longrightarrow> c \<in> set (cdb_Claims db) \<and> clm_ID c = i"
  by (auto simp: claim_by_id_def find_Some_iff)

lemma redemption_by_idD: "redemption_by_id db i = Some r \<Longrightarrow> r \<in> set (cdb_Redemptions db) \<and> rdm_ID r = i"
  by (auto simp: redemption_by_id_def find_Some_iff)

subsection \<open>Writes outside the books\<close>

lemma Receipt_Reserve_books: "Receipt_Reserve operation scope key payload db = Inr (x, db') \<Longrightarrow> same_books db db'"
  by (auto simp: Receipt_Reserve_def same_books_def Let_def split: option.splits if_splits)

lemma Receipt_Complete_books: "Receipt_Complete i s db = Inr (x, db') \<Longrightarrow> same_books db db'"
  by (auto simp: Receipt_Complete_def same_books_def split: if_splits)

lemma Event_Append_books: "Event_Append e db = Inr (x, db') \<Longrightarrow> same_books db db'"
  by (auto simp: Event_Append_def same_books_def split: if_splits)

lemma record_change_books: "record_change operation item actor key changed db = Inr (x, db') \<Longrightarrow> same_books db db'"
  by (auto simp: record_change_def dest: Event_Append_books split: if_splits)

lemma freeze_result_books: "freeze_result i item db = Inr (x, db') \<Longrightarrow> same_books db db'"
  by (auto simp: freeze_result_def dest: Receipt_Complete_books split: if_splits sum.splits)

lemma appendClaimFact_books: "appendClaimFact c r operation scope payload key db = Inr (x, db') \<Longrightarrow> same_books db db'"
  by (auto simp: appendClaimFact_def Let_def same_books_def split: if_splits)

lemma recordRedemptionReceipt_books:
  "recordRedemptionReceipt operation scope key payload i s db = Inr (x, db') \<Longrightarrow> same_books db db'"
  by (auto simp: recordRedemptionReceipt_def same_books_def split: if_splits)

lemma record_claim_books: "record_claim c item key payload db = Inr (x, db') \<Longrightarrow> same_books db db'"
  by (auto simp: record_claim_def same_books_def split: if_splits sum.splits prod.splits dest!: appendClaimFact_books)

lemma record_step_books:
  assumes "record_step operation scope key payload row s db = Inr (x, db')"
  shows "same_books db db'"
proof -
  from assms obtain db1 where "recordRedemptionReceipt operation scope key payload (rdm_ID row) s db = Inr ((), db1)"
    and "appendClaimFact (rdm_ClaimID row) (rdm_ID row) operation scope payload key db1 = Inr ((), db')"
    by (auto simp: record_step_def split: sum.splits prod.splits)
  then show ?thesis by (blast intro: same_books_trans appendClaimFact_books recordRedemptionReceipt_books)
qed

subsection \<open>Rewriting a rule\<close>

lemma set_put_rule:
  assumes "distinct (map cpn_ID cs)" "old \<in> set cs" "cpn_ID row = cpn_ID old"
  shows "set (put_rule row cs) = insert row (set cs - {old})"
proof -
  have "c = old" if "c \<in> set cs" "cpn_ID c = cpn_ID row" for c
    using assms that by (metis distinct_map inj_onD)
  with assms show ?thesis by (auto simp: put_rule_def image_iff)
qed

lemma map_put_rule: "map cpn_ID (put_rule row cs) = map cpn_ID cs"
  by (simp add: put_rule_def)

lemma image_put_rule: "cpn_ID ` set (put_rule row cs) = cpn_ID ` set cs"
  by (metis list.set_map map_put_rule)

lemma held_claims_nonneg: "0 \<le> held_claims db i ks"
  by (simp add: held_claims_def)

lemma held_claims_le: "held_claims db i ks \<le> claims_of db i"
  by (auto simp: held_claims_def claims_of_def intro!: length_filter_mono)

text \<open>The rewritten rule keeps its counter; a rule with claims keeps its limit per customer.\<close>

lemma update_rule_inv:
  assumes inv: "coupon_inv db" and old: "get_rule db i = Inr old"
    and f: "cpn_ID (f old) = cpn_ID old" "cpn_IssuedCount (f old) = cpn_IssuedCount old"
      "cpn_IssuedCount old = 0 \<or> cpn_PerUserIssueLimit old \<le> cpn_PerUserIssueLimit (f old)"
      "cpn_Status (f old) = ''draft'' \<Longrightarrow> cpn_Status old = ''draft''"
    and upd: "update_rule i f db = Inr (row, db')"
  shows "coupon_inv db'"
proof -
  from upd old have row: "row = f old" and checks: "rule_checks row"
    and db': "db' = db\<lparr>cdb_Rules := put_rule row (cdb_Rules db)\<rparr>"
    by (auto simp: update_rule_def Let_def split: if_splits)
  from get_rule_SomeD [OF old] have mem: "old \<in> set (cdb_Rules db)" by simp
  from inv have dist: "distinct (map cpn_ID (cdb_Rules db))" by (simp add: coupon_inv_def rules_ok_def)
  have rules: "set (cdb_Rules db') = insert row (set (cdb_Rules db) - {old})"
    using set_put_rule [OF dist mem] f(1) row by (simp add: db')
  have ids: "cpn_ID ` set (cdb_Rules db') = cpn_ID ` set (cdb_Rules db)"
    by (simp add: db' image_put_rule)
  have counted: "counted db' c = counted db c" for c
    by (simp add: counted_def claims_of_def held_claims_def db')
  have "counted db old" using inv mem by (auto simp: coupon_inv_def counts_ok_def list_all_iff)
  moreover have "held_claims db (cpn_ID old) [k] \<le> cpn_PerUserIssueLimit row" for k
  proof (cases "cpn_IssuedCount old = 0")
    case True
    have "held_claims db (cpn_ID old) [k] \<le> claims_of db (cpn_ID old)" by (rule held_claims_le)
    also have "\<dots> = 0" using \<open>counted db old\<close> True by (simp add: counted_def)
    also have "0 \<le> cpn_PerUserIssueLimit row" using checks by (simp add: rule_checks_def)
    finally show ?thesis .
  next
    case False
    with f(3) row have "cpn_PerUserIssueLimit old \<le> cpn_PerUserIssueLimit row" by simp
    moreover have "held_claims db (cpn_ID old) [k] \<le> cpn_PerUserIssueLimit old"
      using \<open>counted db old\<close> by (simp add: counted_def)
    ultimately show ?thesis by simp
  qed
  ultimately have new: "counted db row" using f row by (auto simp: counted_def)
  from inv f(1) mem checks have "rules_ok db'"
    by (auto simp: coupon_inv_def rules_ok_def list_all_iff rules row) (simp_all add: db' map_put_rule)
  moreover from inv have "claims_ok db'"
    by (simp add: coupon_inv_def claims_ok_def ids) (simp add: db')
  moreover from inv new have "counts_ok db'"
    by (auto simp: coupon_inv_def counts_ok_def list_all_iff rules counted)
  moreover from inv have "redemptions_ok db' \<and> coupled db'"
    by (simp add: coupon_inv_def redemptions_ok_def coupled_def redemption_with_def db')
  ultimately show ?thesis by (simp add: coupon_inv_def)
qed

subsection \<open>The transactions on rules\<close>

definition keeps_books :: "rule_step \<Rightarrow> bool" where
  "keeps_books step \<longleftrightarrow> (\<forall>db x db'. coupon_inv db \<longrightarrow> step db = Inr (x, db') \<longrightarrow> coupon_inv db')"

lemma always_changed_Inr: "always_changed r = Inr ((c, b), db) \<longleftrightarrow> r = Inr (c, db) \<and> b"
  by (auto simp: always_changed_def split: sum.splits)

lemma inv_rule: "coupon_inv db \<Longrightarrow> c \<in> set (cdb_Rules db) \<Longrightarrow> rule_checks c \<and> counted db c \<and> 0 < cpn_ID c"
  by (auto simp: coupon_inv_def rules_ok_def counts_ok_def list_all_iff)

lemma create_inv:
  assumes inv: "coupon_inv db" and create: "Rule_Create cmd now db = Inr (row, db')"
  shows "coupon_inv db'"
proof -
  let ?row = "rule_of_command cmd (cdb_NextRule db) now"
  from create have checks: "rule_checks ?row"
    and db': "db' = db\<lparr>cdb_Rules := cdb_Rules db @ [?row], cdb_NextRule := cdb_NextRule db + 1\<rparr>"
    by (auto simp: Rule_Create_def Let_def split: if_splits)
  have row: "cpn_ID ?row = cdb_NextRule db" "cpn_IssuedCount ?row = 0"
    by (simp_all add: rule_of_command_def Let_def zero_coupon_def)
  have fresh: "cdb_NextRule db \<notin> cpn_ID ` set (cdb_Rules db)"
    using inv by (fastforce simp: coupon_inv_def rules_ok_def list_all_iff)
  have "clm_CouponID c \<noteq> cdb_NextRule db" if "c \<in> set (cdb_Claims db)" for c
  proof -
    from inv that have "clm_CouponID c \<in> cpn_ID ` set (cdb_Rules db)"
      by (simp add: coupon_inv_def claims_ok_def list_all_iff)
    with fresh show ?thesis by metis
  qed
  then have none: "filter (\<lambda>c. clm_CouponID c = cdb_NextRule db) (cdb_Claims db) = []"
    by (simp add: filter_empty_conv)
  have zero: "claims_of db (cdb_NextRule db) = 0" by (simp add: claims_of_def none)
  have "held_claims db (cdb_NextRule db) [k] \<le> cpn_PerUserIssueLimit ?row" for k
    using held_claims_le [of db "cdb_NextRule db" "[k]"] zero checks by (simp add: rule_checks_def)
  with zero row have "counted db ?row" by (simp add: counted_def)
  moreover have same: "counted db' c \<longleftrightarrow> counted db c" for c
    by (simp add: counted_def claims_of_def held_claims_def db')
  moreover have "list_all (counted db) (cdb_Rules db)" using inv by (simp add: coupon_inv_def counts_ok_def)
  ultimately have "list_all (counted db) (cdb_Rules db @ [?row])" by simp
  then have "list_all (counted db') (cdb_Rules db @ [?row])" using same by (simp add: list_all_iff)
  then have "counts_ok db'" by (simp add: counts_ok_def db')
  moreover have "rules_ok db'" using inv checks row fresh
    by (auto simp: coupon_inv_def rules_ok_def db' list_all_iff)
  moreover have "claims_ok db' \<and> redemptions_ok db' \<and> coupled db'" using inv
    by (auto simp: coupon_inv_def claims_ok_def redemptions_ok_def coupled_def redemption_with_def db' list_all_iff)
  ultimately show ?thesis by (simp add: coupon_inv_def)
qed

lemma delete_inv:
  assumes inv: "coupon_inv db" and delete: "Rule_DeleteDraft i db = Inr (x, db')"
  shows "coupon_inv db'"
proof -
  from delete obtain c where c: "get_rule db i = Inr c" and none: "\<not> list_ex (\<lambda>x. clm_CouponID x = i) (cdb_Claims db)"
    and db': "db' = db\<lparr>cdb_Rules := filter (\<lambda>x. cpn_ID x \<noteq> i) (cdb_Rules db)\<rparr>"
    by (auto simp: Rule_DeleteDraft_def split: sum.splits if_splits)
  have "counted db' c = counted db c" for c
    by (simp add: counted_def claims_of_def held_claims_def db')
  then have "counts_ok db'" using inv by (auto simp: coupon_inv_def counts_ok_def list_all_iff) (auto simp: db')
  moreover have "rules_ok db'" using inv
    by (auto simp: coupon_inv_def rules_ok_def db' list_all_iff distinct_map_filter)
  moreover have "claims_ok db'" using inv none
    by (fastforce simp: coupon_inv_def claims_ok_def db' list_all_iff list_ex_iff)
  moreover have "redemptions_ok db' \<and> coupled db'" using inv
    by (simp add: coupon_inv_def redemptions_ok_def coupled_def redemption_with_def db')
  ultimately show ?thesis by (simp add: coupon_inv_def)
qed

lemma status_inv:
  assumes "coupon_inv db" "get_rule db i = Inr old" "status \<noteq> ''draft''"
    "Rule_SetStatus i status actor now db = Inr (row, db')"
  shows "coupon_inv db'"
  using update_rule_inv [OF assms(1,2) _ _ _ _ assms(4) [unfolded Rule_SetStatus_def]] assms(3) by simp

lemma update_step_keeps: "keeps_books (update_step draft_only command now)"
  unfolding keeps_books_def
proof (intro allI impI)
  fix db x db'
  assume inv: "coupon_inv db" and step: "update_step draft_only command now db = Inr (x, db')"
  from step obtain old where old: "get_rule db (cpn_ID (ups_Coupon command)) = Inr old"
    by (auto simp: update_step_def split: sum.splits)
  from step old have upd: "Rule_Update command now db = Inr (fst x, db')"
    by (cases x) (simp add: update_step_def always_changed_Inr split: if_splits)
  have "0 \<le> cpn_IssuedCount old"
    using inv_rule [OF inv, of old] get_rule_SomeD [OF old] by (simp add: rule_checks_def)
  with step old have guard: "cpn_IssuedCount old = 0 \<or> claimedUpdateAllowed old (ups_Coupon command)"
    by (simp add: update_step_def split: if_splits) linarith
  show "coupon_inv db'"
    by (rule update_rule_inv [OF inv old _ _ _ _ upd [unfolded Rule_Update_def Let_def]])
      (use guard get_rule_SomeD [OF old] in \<open>auto simp: claimedUpdateAllowed_def\<close>)
qed

lemma status_step_keeps: "desired \<noteq> ''draft'' \<Longrightarrow> keeps_books (status_step env operation desired i actor)"
  unfolding keeps_books_def
proof (intro allI impI)
  fix db x db'
  assume d: "desired \<noteq> ''draft''" and inv: "coupon_inv db"
    and step: "status_step env operation desired i actor db = Inr (x, db')"
  from step obtain old where old: "get_rule db i = Inr old" by (auto simp: status_step_def split: sum.splits)
  from step old consider "db' = db" | "Rule_SetStatus i desired actor (cen_Now env) db = Inr (fst x, db')"
    by (cases x) (auto simp: status_step_def always_changed_Inr split: if_splits sum.splits)
  then show "coupon_inv db'" using inv status_inv [OF inv old d] by cases auto
qed

lemma archive_step_keeps: "keeps_books (archive_step env i expected actor)"
  unfolding keeps_books_def
proof (intro allI impI)
  fix db x db'
  assume inv: "coupon_inv db" and step: "archive_step env i expected actor db = Inr (x, db')"
  from step obtain old where old: "get_rule db i = Inr old" by (auto simp: archive_step_def split: sum.splits)
  from step old obtain item where "db' = db \<or> Rule_SetStatus i ''archived'' actor (cen_Now env) db = Inr (item, db')"
    by (simp add: archive_step_def split: if_splits sum.splits prod.splits) blast+
  then show "coupon_inv db'" using inv status_inv [OF inv old, of "''archived''"] by auto
qed

lemma delete_step_keeps: "keeps_books (delete_step env i)"
  by (auto simp: keeps_books_def delete_step_def split: sum.splits if_splits prod.splits intro: delete_inv)

lemma copy_step_keeps: "keeps_books (copy_step env i actor key)"
  by (auto simp: keeps_books_def copy_step_def split: sum.splits if_splits prod.splits intro: create_inv)

lemma mutate_step_keeps:
  assumes "desired \<noteq> ''draft''"
  shows "keeps_books (mutate_step env operation command desired draft_only)"
  unfolding keeps_books_def
proof (intro allI impI)
  fix db x db'
  assume inv: "coupon_inv db" and step: "mutate_step env operation command desired draft_only db = Inr (x, db')"
  from step consider "always_changed (Rule_Create command (cen_Now env) db) = Inr (x, db')"
    | "update_step draft_only command (cen_Now env) db = Inr (x, db')"
    | "status_step env operation desired (cpn_ID (ups_Coupon command)) (ups_Actor command) db = Inr (x, db')"
    unfolding mutate_step_def by (metis sum.distinct(1))
  then show "coupon_inv db'"
  proof cases
    case 1
    then have "Rule_Create command (cen_Now env) db = Inr (fst x, db')" by (cases x) (simp add: always_changed_Inr)
    then show ?thesis by (rule create_inv [OF inv])
  next
    case 2
    then show ?thesis using update_step_keeps inv unfolding keeps_books_def by blast
  next
    case 3
    then show ?thesis using status_step_keeps [OF assms] inv unfolding keeps_books_def by blast
  qed
qed

text \<open>A receipted transaction keeps the invariant when its step does.\<close>

lemma receipted_rule_tx_cases:
  assumes "receipted_rule_tx operation actor key payload finish step db = Inr (item, db')"
  obtains (replayed) r where "find_rule_receipt db operation (admin_scope actor) (Sum256 key) = Some r"
      "rrc_Snapshot r = Some item" "db' = db"
    | (stepped) r db1 db2 db3 c changed where "Receipt_Reserve operation (admin_scope actor) (Sum256 key) payload db = Inr ((r, True), db1)"
      "find_rule_receipt db operation (admin_scope actor) (Sum256 key) = None"
      "step db1 = Inr ((c, changed), db2)" "validStored c" "item = finish c"
      "record_change operation item actor key changed db2 = Inr ((), db3)" "freeze_result (rrc_ID r) item db3 = Inr (item, db')"
proof -
  have owned: "\<exists>r. find_rule_receipt db operation (admin_scope actor) (Sum256 key) = Some r \<and> x = (r, False) \<and> db1 = db"
    if "Receipt_Reserve operation (admin_scope actor) (Sum256 key) payload db = Inr (x, db1)" "\<not> snd x" for x db1
    using that by (auto simp: Receipt_Reserve_def Let_def split: option.splits if_splits)
  from assms obtain r own db1 where reserve: "Receipt_Reserve operation (admin_scope actor) (Sum256 key) payload db = Inr ((r, own), db1)"
    by (auto simp: receipted_rule_tx_def split: sum.splits prod.splits)
  show thesis
  proof (cases own)
    case False
    with owned [OF reserve] have "find_rule_receipt db operation (admin_scope actor) (Sum256 key) = Some r" "db1 = db" by auto
    moreover from assms reserve False have "rrc_Snapshot r = Some item" "db' = db1"
      by (auto simp: receipted_rule_tx_def split: if_splits option.splits)
    ultimately show thesis using replayed by simp
  next
    case True
    with reserve have none: "find_rule_receipt db operation (admin_scope actor) (Sum256 key) = None"
      by (auto simp: Receipt_Reserve_def Let_def split: option.splits)
    from assms reserve True obtain c changed db2 db3 where s: "step db1 = Inr ((c, changed), db2)" "validStored c"
      "record_change operation (finish c) actor key changed db2 = Inr ((), db3)"
      "freeze_result (rrc_ID r) (finish c) db3 = Inr (item, db')"
      by (auto simp: receipted_rule_tx_def split: if_splits sum.splits prod.splits)
    then have "item = finish c" by (auto simp: freeze_result_def split: if_splits sum.splits)
    with s reserve True none show thesis by (intro stepped) simp_all
  qed
qed

lemma receipted_rule_tx_inv:
  assumes keeps: "keeps_books step" and inv: "coupon_inv db"
    and tx: "receipted_rule_tx operation actor key payload finish step db = Inr (item, db')"
  shows "coupon_inv db'"
  using tx
proof (cases rule: receipted_rule_tx_cases)
  case (stepped r db1 db2 db3 c changed)
  from Receipt_Reserve_books [OF stepped(1)] inv have "coupon_inv db1" by (simp add: same_books_inv)
  with keeps stepped(3) have "coupon_inv db2" by (auto simp: keeps_books_def)
  with record_change_books [OF stepped(6)] freeze_result_books [OF stepped(7)] show ?thesis
    by (simp add: same_books_inv)
qed (use inv in simp)

subsection \<open>Claiming\<close>

lemma held_hd: "ids \<noteq> [] \<Longrightarrow> held_claims db i [hd ids] \<le> held_claims db i ids"
  by (auto simp: held_claims_def intro!: length_filter_mono)

lemma couponCustomerIDs_nonempty: "couponCustomerIDs env i = Inr ids \<Longrightarrow> ids \<noteq> [] \<and> i \<in> set ids"
  by (auto simp: couponCustomerIDs_def split: if_splits option.splits)

lemma issue_books:
  assumes inv: "coupon_inv db" and rule: "get_rule db (clc_CouponID c) = Inr rule"
    and fits: "held_claims db (cpn_ID rule) [k] < cpn_PerUserIssueLimit rule" and status: "cpn_Status rule \<noteq> ''draft''"
    and count: "count_issue (cpn_ID rule) at db = Inr (row, db1)"
    and insert: "insert_claim env c k at start until key payload db1 = Inr (i, db2)"
  shows "coupon_inv db2"
proof -
  from get_rule_SomeD [OF rule] have mem: "rule \<in> set (cdb_Rules db)" and id: "cpn_ID rule = clc_CouponID c" by auto
  define r where "r = rule\<lparr>cpn_IssuedCount := cpn_IssuedCount rule + 1, cpn_UpdatedAt := pg_time at\<rparr>"
  from count rule id have checks: "rule_checks r" and db1: "db1 = db\<lparr>cdb_Rules := put_rule r (cdb_Rules db)\<rparr>"
    by (auto simp: count_issue_def update_rule_def Let_def r_def split: if_splits)
  define claim where "claim = new_claim c (cdb_NextClaim db) k at start until key payload"
  then have new: "clm_ID claim = cdb_NextClaim db" "clm_CustomerID claim = k"
      "clm_CouponID claim = cpn_ID rule" "clm_Status claim = ClaimAvailable"
    by (simp_all add: new_claim_def id)
  from insert have db2: "db2 = db1\<lparr>cdb_Claims := cdb_Claims db @ [claim], cdb_NextClaim := cdb_NextClaim db + 1\<rparr>"
    by (auto simp: insert_claim_def Let_def db1 claim_def split: if_splits)
  from inv have dist: "distinct (map cpn_ID (cdb_Rules db))" by (simp add: coupon_inv_def rules_ok_def)
  have rules: "set (cdb_Rules db2) = insert r (set (cdb_Rules db) - {rule})"
    using set_put_rule [OF dist mem, of r] by (simp add: db2 db1 r_def)
  have ids: "cpn_ID ` set (cdb_Rules db2) = cpn_ID ` set (cdb_Rules db)"
    by (simp add: db2 db1 image_put_rule)
  have of: "claims_of db2 j = claims_of db j + (if j = cpn_ID rule then 1 else 0)" for j
    by (simp add: claims_of_def db2 new)
  have held: "held_claims db2 j [m] = held_claims db j [m] + (if j = cpn_ID rule \<and> m = k then 1 else 0)" for j m
    by (simp add: held_claims_def db2 new)
  have old: "counted db x" if "x \<in> set (cdb_Rules db)" for x
    using inv that by (simp add: coupon_inv_def counts_ok_def list_all_iff)
  have "counted db2 r"
    using old [OF mem] fits status by (auto simp: counted_def of held r_def)
  moreover have "counted db2 x" if "x \<in> set (cdb_Rules db)" "x \<noteq> rule" for x
  proof -
    from dist mem that have "cpn_ID x \<noteq> cpn_ID rule" by (metis distinct_map inj_onD)
    with old [OF that(1)] show ?thesis by (auto simp: counted_def of held)
  qed
  ultimately have "counts_ok db2" by (auto simp: counts_ok_def list_all_iff rules)
  moreover have "rules_ok db2"
  proof -
    have "cdb_NextRule db2 = cdb_NextRule db" and "map cpn_ID (cdb_Rules db2) = map cpn_ID (cdb_Rules db)"
      by (simp_all add: db2 db1 map_put_rule)
    moreover have "cpn_ID r = cpn_ID rule" by (simp add: r_def)
    ultimately show ?thesis using inv mem checks by (auto simp: coupon_inv_def rules_ok_def list_all_iff rules)
  qed
  moreover have "claims_ok db2"
  proof -
    have "cpn_ID rule \<in> cpn_ID ` set (cdb_Rules db)" using mem by simp
    moreover have "claims_ok db" using inv by (simp add: coupon_inv_def)
    moreover have "cdb_Claims db2 = cdb_Claims db @ [claim]" "cdb_NextClaim db2 = cdb_NextClaim db + 1"
      by (simp_all add: db2)
    ultimately show ?thesis using new by (fastforce simp: claims_ok_def list_all_iff ids)
  qed
  moreover have "redemptions_ok db2" using inv
    by (auto simp: coupon_inv_def redemptions_ok_def list_all_iff db2 db1)
  moreover have "coupled db2"
  proof -
    have "rdm_ClaimID x \<noteq> cdb_NextClaim db" if "x \<in> set (cdb_Redemptions db)" for x
      using inv that by (fastforce simp: coupon_inv_def redemptions_ok_def claims_ok_def list_all_iff)
    then have "\<not> redemption_with db s (cdb_NextClaim db)" for s by (simp add: redemption_with_def list_ex_iff)
    moreover have "redemption_with db2 = redemption_with db" by (simp add: redemption_with_def fun_eq_iff db2 db1)
    ultimately show ?thesis using inv new by (simp add: coupon_inv_def coupled_def db2)
  qed
  ultimately show ?thesis by (simp add: coupon_inv_def)
qed

lemma ClaimCoupon_cases:
  assumes "ClaimCoupon env c key payload at db = Inr (item, db')"
  obtains (replayed) ids where "couponCustomerIDs env (clc_HolderCustomerID c) = Inr ids"
      "findClaimReceipt db c ids key payload = Inr (Some item)" "db' = db"
    | (issued) ids rule start until row db1 i db2 where "couponCustomerIDs env (clc_HolderCustomerID c) = Inr ids"
      "findClaimReceipt db c ids key payload = Inr None" "get_rule db (clc_CouponID c) = Inr rule"
      "claimable rule at" "held_claims db (cpn_ID rule) ids < cpn_PerUserIssueLimit rule"
      "couponClaimValidity rule at = Inr (start, until)" "count_issue (cpn_ID rule) at db = Inr (row, db1)"
      "insert_claim env c (hd ids) at start until key payload db1 = Inr (i, db2)"
      "item = claimed_item i rule at start until" "record_claim c item key payload db2 = Inr (item, db')"
proof -
  from assms obtain ids where ids: "couponCustomerIDs env (clc_HolderCustomerID c) = Inr ids"
    by (auto simp: ClaimCoupon_def split: sum.splits)
  show thesis
  proof (cases "findClaimReceipt db c ids key payload")
    case (Inr p)
    show thesis
    proof (cases p)
      case None
      from assms ids Inr None obtain rule where rule: "get_rule db (clc_CouponID c) = Inr rule" "claimable rule at"
        "held_claims db (cpn_ID rule) ids < cpn_PerUserIssueLimit rule"
        and issue: "issue_claim env c (hd ids) rule key payload at db = Inr (item, db')"
        by (auto simp: ClaimCoupon_def split: if_splits sum.splits)
      from issue obtain start until row db1 i db2 where s: "couponClaimValidity rule at = Inr (start, until)"
        "count_issue (cpn_ID rule) at db = Inr (row, db1)"
        "insert_claim env c (hd ids) at start until key payload db1 = Inr (i, db2)"
        "record_claim c (claimed_item i rule at start until) key payload db2 = Inr (item, db')"
        by (auto simp: issue_claim_def split: sum.splits prod.splits)
      then have "item = claimed_item i rule at start until"
        by (auto simp: record_claim_def split: if_splits sum.splits prod.splits)
      with s ids Inr None rule show thesis by (intro issued) simp_all
    next
      case (Some prior)
      with assms ids Inr have "prior = item" "db' = db" by (simp_all add: ClaimCoupon_def)
      with ids Inr Some show thesis by (intro replayed) simp_all
    qed
  next
    case (Inl e)
    with assms ids show thesis by (simp add: ClaimCoupon_def)
  qed
qed

lemma ClaimCoupon_inv:
  assumes inv: "coupon_inv db" and claim: "ClaimCoupon env c key payload at db = Inr (item, db')"
  shows "coupon_inv db'"
  using claim
proof (cases rule: ClaimCoupon_cases)
  case (issued ids rule start until row db1 i db2)
  from issued(5) held_hd [of ids db "cpn_ID rule"] couponCustomerIDs_nonempty [OF issued(1)]
  have "held_claims db (cpn_ID rule) [hd ids] < cpn_PerUserIssueLimit rule" by simp
  moreover have "cpn_Status rule \<noteq> ''draft''" using issued(4) by (auto simp: claimable_def)
  ultimately have "coupon_inv db2" using issue_books [OF inv issued(3) _ _ issued(7,8)] by simp
  with record_claim_books [OF issued(10)] show ?thesis by (simp add: same_books_inv)
qed (use inv in simp)

subsection \<open>Reserving and settling\<close>

lemma set_put_claim:
  assumes "distinct (map clm_ID cs)" "old \<in> set cs" "clm_ID row = clm_ID old"
  shows "set (put_claim row cs) = insert row (set cs - {old})"
proof -
  have "c = old" if "c \<in> set cs" "clm_ID c = clm_ID row" for c
    using assms that by (metis distinct_map inj_onD)
  with assms show ?thesis by (auto simp: put_claim_def image_iff)
qed

lemma set_put_redemption:
  assumes "distinct (map rdm_ID rs)" "old \<in> set rs" "rdm_ID row = rdm_ID old"
  shows "set (put_redemption row rs) = insert row (set rs - {old})"
proof -
  have "r = old" if "r \<in> set rs" "rdm_ID r = rdm_ID row" for r
    using assms that by (metis distinct_map inj_onD)
  with assms show ?thesis by (auto simp: put_redemption_def image_iff)
qed

lemma map_put_claim: "map clm_ID (put_claim row cs) = map clm_ID cs"
  by (simp add: put_claim_def)

lemma map_put_redemption: "map rdm_ID (put_redemption row rs) = map rdm_ID rs"
  by (simp add: put_redemption_def)

lemma image_put_claim: "clm_ID ` set (put_claim row cs) = clm_ID ` set cs"
  by (metis list.set_map map_put_claim)

lemma put_claim_Cons: "put_claim row (c # cs) = (if clm_ID c = clm_ID row then row else c) # put_claim row cs"
  by (simp add: put_claim_def)

lemma put_claim_absent: "\<forall>x \<in> set cs. clm_ID x \<noteq> clm_ID row \<Longrightarrow> put_claim row cs = cs"
  by (simp add: put_claim_def map_idI)

lemma filter_put_claim:
  assumes "distinct (map clm_ID cs)" "old \<in> set cs" "clm_ID row = clm_ID old" "P row = P old"
  shows "length (filter P (put_claim row cs)) = length (filter P cs)"
  using assms
proof (induction cs)
  case (Cons c cs)
  show ?case
  proof (cases "c = old")
    case True
    with Cons.prems have "\<forall>x \<in> set cs. clm_ID x \<noteq> clm_ID row" by (auto simp: image_iff)
    then have "put_claim row cs = cs" by (rule put_claim_absent)
    with True Cons.prems show ?thesis by (simp add: put_claim_Cons)
  next
    case False
    with Cons.prems have "clm_ID c \<noteq> clm_ID row" by auto
    moreover have "length (filter P (put_claim row cs)) = length (filter P cs)"
      using Cons.IH Cons.prems False by simp
    ultimately show ?thesis by (simp add: put_claim_Cons)
  qed
qed simp

text \<open>Rewriting the status of one claim leaves the counts alone.\<close>

definition same_claim :: "claim_row \<Rightarrow> claim_row \<Rightarrow> bool" where
  "same_claim a b \<longleftrightarrow> clm_ID a = clm_ID b \<and> clm_CustomerID a = clm_CustomerID b \<and> clm_CouponID a = clm_CouponID b"

lemma rewrite_claim_counts:
  assumes inv: "coupon_inv db" and old: "old \<in> set (cdb_Claims db)" and same: "same_claim row old"
    and db': "cdb_Claims db' = put_claim row (cdb_Claims db)" "cdb_Rules db' = cdb_Rules db"
      "cdb_NextRule db' = cdb_NextRule db" "cdb_NextClaim db' = cdb_NextClaim db"
  shows "rules_ok db' \<and> claims_ok db' \<and> counts_ok db'"
proof -
  have dist: "distinct (map clm_ID (cdb_Claims db))" using inv by (simp add: coupon_inv_def claims_ok_def)
  have set: "set (cdb_Claims db') = insert row (set (cdb_Claims db) - {old})"
    using set_put_claim [OF dist old] same by (simp add: db' same_claim_def)
  have "counted db' r = counted db r" for r
    using filter_put_claim [OF dist old, of row] same
    by (simp add: counted_def claims_of_def held_claims_def db' same_claim_def)
  then have "counts_ok db'" using inv by (simp add: coupon_inv_def counts_ok_def db' list_all_iff)
  moreover have "claims_ok db'" using inv old same
    by (auto simp: coupon_inv_def claims_ok_def list_all_iff set) (simp_all add: db' map_put_claim same_claim_def)
  moreover have "rules_ok db'" using inv by (simp add: coupon_inv_def rules_ok_def db')
  ultimately show ?thesis by simp
qed

text \<open>The coupling, claim by claim: only the claim that was rewritten needs an argument.\<close>

lemma coupled_rewrite:
  assumes inv: "coupon_inv db" and old: "old \<in> set (cdb_Claims db)" and same: "clm_ID row = clm_ID old"
    and db': "cdb_Claims db' = put_claim row (cdb_Claims db)"
    and row: "clm_Status row = ClaimReserved \<longleftrightarrow> redemption_with db' RedemptionReserved (clm_ID row)"
      "clm_Status row = ClaimRedeemed \<longleftrightarrow> redemption_with db' RedemptionConsumed (clm_ID row)"
    and others: "\<And>s i. i \<noteq> clm_ID old \<Longrightarrow> redemption_with db' s i = redemption_with db s i"
  shows "coupled db'"
proof -
  have dist: "distinct (map clm_ID (cdb_Claims db))" using inv by (simp add: coupon_inv_def claims_ok_def)
  have "clm_ID c \<noteq> clm_ID old" if "c \<in> set (cdb_Claims db)" "c \<noteq> old" for c
    using dist old that by (metis distinct_map inj_onD)
  with inv row show ?thesis
    by (auto simp: coupon_inv_def coupled_def list_all_iff db' set_put_claim [OF dist old same] others)
qed

lemma reserve_books:
  assumes inv: "coupon_inv db" and claim: "claim \<in> set (cdb_Claims db)" and open_: "open_claim claim"
    and insert: "insert_redemption (reserved_row c (cdb_NextRedemption db) claim rule at)
      (db\<lparr>cdb_Claims := put_claim (claim\<lparr>clm_Status := ClaimReserved, clm_ReservedAt := t\<rparr>) (cdb_Claims db)\<rparr>) = Inr (x, db')"
  shows "coupon_inv db'"
proof -
  define row where "row = claim\<lparr>clm_Status := ClaimReserved, clm_ReservedAt := t\<rparr>"
  define new where "new = reserved_row c (cdb_NextRedemption db) claim rule at"
  have rowp: "same_claim row claim" "clm_ID row = clm_ID claim" "clm_Status row = ClaimReserved"
    by (simp_all add: row_def same_claim_def)
  have newp: "rdm_ID new = cdb_NextRedemption db" "rdm_ClaimID new = clm_ID claim" "rdm_Status new = RedemptionReserved"
    by (simp_all add: new_def reserved_row_def Let_def)
  from insert have checks: "redemption_checks new" "redemptions_unique (cdb_Redemptions db @ [new])"
    and db': "db' = db\<lparr>cdb_Claims := put_claim row (cdb_Claims db), cdb_Redemptions := cdb_Redemptions db @ [new],
      cdb_NextRedemption := cdb_NextRedemption db + 1\<rparr>"
    by (auto simp: insert_redemption_def row_def [symmetric] new_def [symmetric] newp split: if_splits)
  have "rules_ok db' \<and> claims_ok db' \<and> counts_ok db'"
    by (rule rewrite_claim_counts [OF inv claim rowp(1)]) (simp_all add: db')
  moreover have "redemptions_ok db'"
  proof -
    have "cdb_NextRedemption db \<notin> rdm_ID ` set (cdb_Redemptions db)"
      using inv by (fastforce simp: coupon_inv_def redemptions_ok_def list_all_iff)
    moreover have "clm_ID claim \<in> clm_ID ` set (cdb_Claims db)" using claim by simp
    ultimately show ?thesis using inv checks newp
      by (fastforce simp: coupon_inv_def redemptions_ok_def list_all_iff db' image_put_claim)
  qed
  moreover have "coupled db'"
  proof (rule coupled_rewrite [OF inv claim rowp(2)])
    have "\<not> redemption_with db RedemptionConsumed (clm_ID claim)"
      using inv claim open_ by (auto simp: coupon_inv_def coupled_def list_all_iff open_claim_def)
    then show "clm_Status row = ClaimRedeemed \<longleftrightarrow> redemption_with db' RedemptionConsumed (clm_ID row)"
      by (auto simp: rowp redemption_with_def db' newp)
    show "clm_Status row = ClaimReserved \<longleftrightarrow> redemption_with db' RedemptionReserved (clm_ID row)"
      by (simp add: rowp redemption_with_def db' newp)
  qed (auto simp: db' redemption_with_def newp)
  ultimately show ?thesis by (simp add: coupon_inv_def)
qed

lemma first_claim_in: "first_claim xs = Some x \<Longrightarrow> x \<in> set xs"
  by (induction xs arbitrary: x) (auto split: option.splits if_splits)

lemma joined_claims_iff:
  "(claim, rule) \<in> set (joined_claims db) \<longleftrightarrow> claim \<in> set (cdb_Claims db) \<and> get_rule db (clm_CouponID claim) = Inr rule"
  by (auto simp: joined_claims_def split: sum.splits)

lemma selectReservationClaim_SomeD:
  assumes "selectReservationClaim env db c ids = Some (claim, rule)"
  shows "claim \<in> set (cdb_Claims db) \<and> get_rule db (clm_CouponID claim) = Inr rule \<and> eligible_claim c ids (claim, rule) \<and>
    \<not> cen_Busy env (clm_ID claim)"
  using first_claim_in [OF assms [unfolded selectReservationClaim_def]] by (simp add: joined_claims_iff)

lemma ReserveCoupon_cases:
  assumes "ReserveCoupon env c key payload at db = Inr (s, db')"
  obtains (replayed) ids where "couponCustomerIDs env (rvc_HolderCustomerID c) = Inr ids"
      "findReservationReceipt db c ids key payload = Inr (Some s)" "db' = db"
    | (original) ids where "couponCustomerIDs env (rvc_HolderCustomerID c) = Inr ids"
      "selectReservationClaim env db c ids = None" "rvc_ClaimID c = 0" "s = original_price c" "db' = db"
    | (reserved) ids claim rule db2 where "couponCustomerIDs env (rvc_HolderCustomerID c) = Inr ids"
      "findReservationReceipt db c ids key payload = Inr None"
      "\<not> list_ex (\<lambda>r. rdm_OrderReference r = rvc_OrderReference c) (cdb_Redemptions db)"
      "selectReservationClaim env db c ids = Some (claim, rule)"
      "insert_redemption (reserved_row c (cdb_NextRedemption db) claim rule at)
        (db\<lparr>cdb_Claims := put_claim (claim\<lparr>clm_Status := ClaimReserved, clm_ReservedAt := Some (pg_time at)\<rparr>)
          (cdb_Claims db)\<rparr>) = Inr ((), db2)"
      "s = snapshot_of (reserved_row c (cdb_NextRedemption db) claim rule at) (cpn_ID rule)"
      "record_step ''reserve'' (rvc_ActorScope c) key payload (reserved_row c (cdb_NextRedemption db) claim rule at) s db2 =
        Inr (s, db')"
proof -
  from assms obtain ids where ids: "couponCustomerIDs env (rvc_HolderCustomerID c) = Inr ids"
    by (auto simp: ReserveCoupon_def split: sum.splits)
  from assms ids obtain p where p: "findReservationReceipt db c ids key payload = Inr p"
    by (auto simp: ReserveCoupon_def split: sum.splits)
  show thesis
  proof (cases p)
    case (Some prior)
    with assms ids p have "prior = s" "db' = db" by (simp_all add: ReserveCoupon_def)
    with ids p Some show thesis by (intro replayed) simp_all
  next
    case None
    with assms ids p have fresh: "\<not> list_ex (\<lambda>r. rdm_OrderReference r = rvc_OrderReference c) (cdb_Redemptions db)"
      by (simp add: ReserveCoupon_def split: if_splits)
    note nothing_found = None
    show thesis
    proof (cases "selectReservationClaim env db c ids")
      case None
      note none = this
      with assms ids p nothing_found fresh have "rvc_ClaimID c = 0" "s = original_price c" "db' = db"
        by (simp_all add: ReserveCoupon_def split: if_splits)
      then show thesis using original [OF ids none] by simp
    next
      case (Some y)
      obtain claim rule where y: "y = (claim, rule)" by force
      from assms ids p nothing_found fresh Some y have "apply_reservation c claim rule key payload at db = Inr (s, db')"
        by (simp add: ReserveCoupon_def)
      then obtain db2 where ins: "insert_redemption (reserved_row c (cdb_NextRedemption db) claim rule at)
          (db\<lparr>cdb_Claims := put_claim (claim\<lparr>clm_Status := ClaimReserved, clm_ReservedAt := Some (pg_time at)\<rparr>)
            (cdb_Claims db)\<rparr>) = Inr ((), db2)"
        and rec: "record_step ''reserve'' (rvc_ActorScope c) key payload (reserved_row c (cdb_NextRedemption db) claim rule at)
          (snapshot_of (reserved_row c (cdb_NextRedemption db) claim rule at) (cpn_ID rule)) db2 = Inr (s, db')"
        by (auto simp: apply_reservation_def Let_def split: if_splits sum.splits prod.splits)
      from rec have "s = snapshot_of (reserved_row c (cdb_NextRedemption db) claim rule at) (cpn_ID rule)"
        by (auto simp: record_step_def split: sum.splits prod.splits)
      with ids p nothing_found fresh Some y ins rec show thesis by (intro reserved) simp_all
    qed
  qed
qed

lemma ReserveCoupon_inv:
  assumes inv: "coupon_inv db" and reserve: "ReserveCoupon env c key payload at db = Inr (s, db')"
  shows "coupon_inv db'"
  using reserve
proof (cases rule: ReserveCoupon_cases)
  case (reserved ids claim rule db2)
  from selectReservationClaim_SomeD [OF reserved(4)] have "claim \<in> set (cdb_Claims db)" "open_claim claim"
    by (auto simp: eligible_claim_def)
  with reserve_books [OF inv _ _ reserved(5)] have "coupon_inv db2" by simp
  with record_step_books [OF reserved(7)] show ?thesis by (simp add: same_books_inv)
qed (use inv in simp_all)

end
