(* ===== verification/CouponRun.thy ===== *)
theory CouponRun
  imports CouponInv Receipted
begin

text \<open>
  Consuming and releasing keep the invariant, and so does every call of the coupon component: the
  calls as one datatype, run against the tables.
\<close>

subsection \<open>Settling a redemption\<close>

lemma live_unique:
  assumes "redemptions_ok db" "r \<in> set (cdb_Redemptions db)" "x \<in> set (cdb_Redemptions db)"
    "live_redemption r" "live_redemption x" "rdm_ClaimID x = rdm_ClaimID r"
  shows "x = r"
proof -
  from assms(1) have "inj_on rdm_ClaimID (set (filter live_redemption (cdb_Redemptions db)))"
    by (simp add: redemptions_ok_def redemptions_unique_def distinct_map)
  with assms show ?thesis by (auto dest: inj_onD)
qed

lemma redemptions_unique_put:
  assumes dist: "distinct (map rdm_ID rs)" and uni: "redemptions_unique rs" and old: "old \<in> set rs" "live_redemption old"
    and row: "rdm_ID row = rdm_ID old" "rdm_ClaimID row = rdm_ClaimID old" "rdm_OrderReference row = rdm_OrderReference old"
  shows "redemptions_unique (put_redemption row rs)"
proof -
  have refs: "map rdm_OrderReference (put_redemption row rs) = map rdm_OrderReference rs"
  proof -
    have "rdm_OrderReference x = rdm_OrderReference row" if "x \<in> set rs" "rdm_ID x = rdm_ID row" for x
      using dist old that row by (metis distinct_map inj_onD)
    then show ?thesis by (simp add: put_redemption_def)
  qed
  have rs': "distinct (put_redemption row rs)"
    using dist by (metis distinct_map map_put_redemption)
  have "inj_on rdm_ClaimID {r \<in> set (put_redemption row rs). live_redemption r}"
  proof -
    have "inj_on rdm_ClaimID {r \<in> set rs. live_redemption r}"
      using uni by (simp add: redemptions_unique_def distinct_map)
    with old row(2) show ?thesis
      by (auto simp: set_put_redemption [OF dist old(1) row(1)] inj_on_def)
  qed
  with rs' refs uni show ?thesis by (simp add: redemptions_unique_def distinct_map)
qed

lemma settle_books:
  assumes inv: "coupon_inv db" and r: "r \<in> set (cdb_Redemptions db)" "rdm_Status r = RedemptionReserved"
    and claim: "claim \<in> set (cdb_Claims db)" "clm_ID claim = rdm_ClaimID r"
    and row: "rdm_ID row = rdm_ID r" "rdm_ClaimID row = rdm_ClaimID r" "rdm_OrderReference row = rdm_OrderReference r"
      "rdm_Status row \<noteq> RedemptionReserved"
    and claim': "same_claim claim' claim" "clm_Status claim' \<noteq> ClaimReserved"
      "clm_Status claim' = ClaimRedeemed \<longleftrightarrow> rdm_Status row = RedemptionConsumed"
    and settle: "settle_rows row claim' db = Inr (x, db')"
  shows "coupon_inv db'"
proof -
  from settle have checks: "redemption_checks row"
    and db': "db' = db\<lparr>cdb_Redemptions := put_redemption row (cdb_Redemptions db),
      cdb_Claims := put_claim claim' (cdb_Claims db)\<rparr>"
    by (auto simp: settle_rows_def split: if_splits)
  have live: "live_redemption r" using r by (simp add: live_redemption_def)
  have red: "redemptions_ok db" using inv by (simp add: coupon_inv_def)
  then have dist: "distinct (map rdm_ID (cdb_Redemptions db))" by (simp add: redemptions_ok_def)
  note rows = set_put_redemption [OF dist r(1) row(1)]
  have "rules_ok db' \<and> claims_ok db' \<and> counts_ok db'"
    by (rule rewrite_claim_counts [OF inv claim(1) claim'(1)]) (simp_all add: db')
  moreover have "redemptions_ok db'"
  proof -
    have "redemptions_unique (put_redemption row (cdb_Redemptions db))"
      using redemptions_unique_put [OF dist _ r(1) live row(1-3)] red by (simp add: redemptions_ok_def)
    moreover have "0 < rdm_ID r \<and> rdm_ID r < cdb_NextRedemption db \<and> rdm_ClaimID r \<in> clm_ID ` set (cdb_Claims db)"
      using red r by (simp add: redemptions_ok_def list_all_iff)
    ultimately show ?thesis using red checks row
      by (auto simp: redemptions_ok_def list_all_iff db' rows image_put_claim map_put_redemption)
  qed
  moreover have "coupled db'"
  proof (rule coupled_rewrite [OF inv claim(1)])
    have none: "rdm_ClaimID y \<noteq> rdm_ClaimID r" if "y \<in> set (cdb_Redemptions db)" "y \<noteq> r" "live_redemption y" for y
      using live_unique [OF red r(1) that(1) live that(3)] that(2) by blast
    have id: "clm_ID claim' = rdm_ClaimID r" using claim claim' by (simp add: same_claim_def)
    have "\<not> redemption_with db' RedemptionReserved (rdm_ClaimID r)"
      using none row by (auto simp: redemption_with_def list_ex_iff db' rows live_redemption_def)
    then show "clm_Status claim' = ClaimReserved \<longleftrightarrow> redemption_with db' RedemptionReserved (clm_ID claim')"
      using claim' id by simp
    have "redemption_with db' RedemptionConsumed (rdm_ClaimID r) \<longleftrightarrow> rdm_Status row = RedemptionConsumed"
      using none row by (auto simp: redemption_with_def list_ex_iff db' rows live_redemption_def)
    then show "clm_Status claim' = ClaimRedeemed \<longleftrightarrow> redemption_with db' RedemptionConsumed (clm_ID claim')"
      using claim' id by simp
    show "clm_ID claim' = clm_ID claim" using claim' by (simp add: same_claim_def)
    show "redemption_with db' s i = redemption_with db s i" if "i \<noteq> clm_ID claim" for s i
      using that claim row by (auto simp: redemption_with_def list_ex_iff db' rows)
  qed (simp add: db')
  ultimately show ?thesis by (simp add: coupon_inv_def)
qed

lemma readRedemptionD:
  "readRedemption db ref = Inr (r, claim) \<Longrightarrow>
     r \<in> set (cdb_Redemptions db) \<and> claim \<in> set (cdb_Claims db) \<and> clm_ID claim = rdm_ClaimID r \<and>
     parseRedemptionRef ref = Some (rdm_ID r)"
  by (auto simp: readRedemption_def split: option.splits dest: redemption_by_idD claim_by_idD)

lemma ConsumeCoupon_cases:
  assumes "ConsumeCoupon c key payload at db = Inr (s, db')"
  obtains (replayed) "findRedemptionReceipt db ''consume'' (csc_ActorScope c) key payload = Inr (Some s)" "db' = db"
    | (already) r claim where "readRedemption db (csc_ReservationRef c) = Inr (r, claim)" "rdm_Status r = RedemptionConsumed"
      "clm_Status claim = ClaimRedeemed" "s = snapshot_of r (clm_CouponID claim)" "db' = db"
    | (settled) r claim db1 where "readRedemption db (csc_ReservationRef c) = Inr (r, claim)"
      "rdm_OrderReference r = csc_OrderReference c" "rdm_PayableAmountMinor r = csc_SettledAmountMinor c"
      "rdm_Status r = RedemptionReserved" "clm_Status claim = ClaimReserved"
      "settle_rows (r\<lparr>rdm_Status := RedemptionConsumed, rdm_ConsumedAt := Some (pg_time at)\<rparr>)
        (claim\<lparr>clm_Status := ClaimRedeemed, clm_RedeemedAt := Some (pg_time at)\<rparr>) db = Inr ((), db1)"
      "s = snapshot_of r (clm_CouponID claim)"
      "record_step ''consume'' (csc_ActorScope c) key payload r s db1 = Inr (s, db')"
proof -
  from assms obtain p where p: "findRedemptionReceipt db ''consume'' (csc_ActorScope c) key payload = Inr p"
    by (auto simp: ConsumeCoupon_def split: sum.splits)
  show thesis
  proof (cases p)
    case (Some prior)
    with assms p show thesis by (intro replayed) (simp_all add: ConsumeCoupon_def)
  next
    case None
    from assms p None obtain r claim where read: "readRedemption db (csc_ReservationRef c) = Inr (r, claim)"
      by (auto simp: ConsumeCoupon_def split: sum.splits)
    show thesis
    proof (cases "rdm_Status r = RedemptionConsumed")
      case True
      with assms p None read show thesis by (intro already) (auto simp: ConsumeCoupon_def split: if_splits)
    next
      case False
      note step = assms p None read False
      from step have guard: "rdm_OrderReference r = csc_OrderReference c" "rdm_PayableAmountMinor r = csc_SettledAmountMinor c"
        "rdm_Status r = RedemptionReserved" "clm_Status claim = ClaimReserved"
        by (simp_all add: ConsumeCoupon_def split: if_splits)
      from step guard obtain db1 where db1: "settle_rows (r\<lparr>rdm_Status := RedemptionConsumed, rdm_ConsumedAt := Some (pg_time at)\<rparr>)
          (claim\<lparr>clm_Status := ClaimRedeemed, clm_RedeemedAt := Some (pg_time at)\<rparr>) db = Inr ((), db1)"
        and rec: "record_step ''consume'' (csc_ActorScope c) key payload r (snapshot_of r (clm_CouponID claim)) db1 = Inr (s, db')"
        by (auto simp: ConsumeCoupon_def split: if_splits sum.splits prod.splits)
      from rec have "s = snapshot_of r (clm_CouponID claim)" by (auto simp: record_step_def split: sum.splits prod.splits)
      with read guard db1 rec show thesis by (intro settled) simp_all
    qed
  qed
qed

lemma ReleaseCoupon_cases:
  assumes "ReleaseCoupon c key payload at db = Inr (s, db')"
  obtains (replayed) "findRedemptionReceipt db ''release'' (rlc_ActorScope c) key payload = Inr (Some s)" "db' = db"
    | (already) r claim where "readRedemption db (rlc_ReservationRef c) = Inr (r, claim)" "rdm_Status r = RedemptionReleased"
      "s = snapshot_of r (clm_CouponID claim)" "db' = db"
    | (settled) r claim db1 where "readRedemption db (rlc_ReservationRef c) = Inr (r, claim)"
      "rdm_OrderReference r = rlc_OrderReference c" "rdm_Status r = RedemptionReserved" "clm_Status claim = ClaimReserved"
      "settle_rows (r\<lparr>rdm_Status := RedemptionReleased, rdm_ReleasedAt := Some (pg_time at),
        rdm_ReleaseReason := rlc_CloseReason c\<rparr>) (released_claim claim at) db = Inr ((), db1)"
      "s = snapshot_of r (clm_CouponID claim)"
      "record_step ''release'' (rlc_ActorScope c) key payload r s db1 = Inr (s, db')"
proof -
  from assms obtain p where p: "findRedemptionReceipt db ''release'' (rlc_ActorScope c) key payload = Inr p"
    by (auto simp: ReleaseCoupon_def split: sum.splits)
  show thesis
  proof (cases p)
    case (Some prior)
    with assms p show thesis by (intro replayed) (simp_all add: ReleaseCoupon_def)
  next
    case None
    from assms p None obtain r claim where read: "readRedemption db (rlc_ReservationRef c) = Inr (r, claim)"
      by (auto simp: ReleaseCoupon_def split: sum.splits)
    show thesis
    proof (cases "rdm_Status r = RedemptionReleased")
      case True
      with assms p None read show thesis by (intro already) (auto simp: ReleaseCoupon_def split: if_splits)
    next
      case False
      note step = assms p None read False
      from step have guard: "rdm_OrderReference r = rlc_OrderReference c"
        "rdm_Status r = RedemptionReserved" "clm_Status claim = ClaimReserved"
        by (simp_all add: ReleaseCoupon_def split: if_splits)
      from step guard obtain db1 where db1: "settle_rows (r\<lparr>rdm_Status := RedemptionReleased, rdm_ReleasedAt := Some (pg_time at),
          rdm_ReleaseReason := rlc_CloseReason c\<rparr>) (released_claim claim at) db = Inr ((), db1)"
        and rec: "record_step ''release'' (rlc_ActorScope c) key payload r (snapshot_of r (clm_CouponID claim)) db1 = Inr (s, db')"
        by (auto simp: ReleaseCoupon_def split: if_splits sum.splits prod.splits)
      from rec have "s = snapshot_of r (clm_CouponID claim)" by (auto simp: record_step_def split: sum.splits prod.splits)
      with read guard db1 rec show thesis by (intro settled) simp_all
    qed
  qed
qed

lemma released_claim_simps [simp]:
  "same_claim (released_claim claim at) claim"
  "clm_Status (released_claim claim at) \<noteq> ClaimReserved" "clm_Status (released_claim claim at) \<noteq> ClaimRedeemed"
  by (simp_all add: released_claim_def same_claim_def)

lemma ConsumeCoupon_inv:
  assumes inv: "coupon_inv db" and consume: "ConsumeCoupon c key payload at db = Inr (s, db')"
  shows "coupon_inv db'"
  using consume
proof (cases rule: ConsumeCoupon_cases)
  case (settled r claim db1)
  from readRedemptionD [OF settled(1)] settled(4) have "coupon_inv db1"
    by (intro settle_books [where r = r and claim = claim, OF inv _ _ _ _ _ _ _ _ _ _ _ settled(6)]) (simp_all add: same_claim_def)
  with record_step_books [OF settled(8)] show ?thesis by (simp add: same_books_inv)
qed (use inv in simp_all)

lemma ReleaseCoupon_inv:
  assumes inv: "coupon_inv db" and release: "ReleaseCoupon c key payload at db = Inr (s, db')"
  shows "coupon_inv db'"
  using release
proof (cases rule: ReleaseCoupon_cases)
  case (settled r claim db1)
  from readRedemptionD [OF settled(1)] settled(3) have "coupon_inv db1"
    by (intro settle_books [where r = r and claim = claim, OF inv _ _ _ _ _ _ _ _ _ _ _ settled(5)]) simp_all
  with record_step_books [OF settled(7)] show ?thesis by (simp add: same_books_inv)
qed (use inv in simp_all)

subsection \<open>The calls of the component\<close>

datatype coupon_call =
    CallCreate upsert_command
  | CallUpdate upsert_command
  | CallUpdateDraft upsert_command
  | CallPublish int int string
  | CallStop int int string
  | CallArchive int int int string
  | CallDelete int int string
  | CallCopy int int string
  | CallShare int int "w32 list option list"
  | CallClaim claim_command
  | CallReserve reserve_command
  | CallConsume consume_command
  | CallRelease release_command

definition new_state :: "'a coupon_tx \<Rightarrow> (coupon_error, coupon_db) result" where
  "new_state r = map_sum id snd r"

lemma new_state_Inr [simp]: "new_state r = Inr db' \<longleftrightarrow> (\<exists>x. r = Inr (x, db'))"
  by (cases r) (auto simp: new_state_def)

text \<open>A call commits when it succeeds; an error rolls back and leaves the tables.\<close>

fun coupon_exec :: "coupon_db \<Rightarrow> coupon_env \<times> coupon_call \<Rightarrow> (coupon_error, coupon_db) result" where
  "coupon_exec db (env, CallCreate cmd) = new_state (Create env cmd db)"
| "coupon_exec db (env, CallUpdate cmd) = new_state (Update env cmd db)"
| "coupon_exec db (env, CallUpdateDraft cmd) = new_state (UpdateDraft env cmd db)"
| "coupon_exec db (env, CallPublish i actor key) = new_state (Publish env i actor key db)"
| "coupon_exec db (env, CallStop i actor key) = new_state (Stop env i actor key db)"
| "coupon_exec db (env, CallArchive i version actor key) = new_state (Archive env i version actor key db)"
| "coupon_exec db (env, CallDelete i actor key) = new_state (Delete env i actor key db)"
| "coupon_exec db (env, CallCopy i actor key) = new_state (Copy env i actor key db)"
| "coupon_exec db (env, CallShare i actor raws) = new_state (EnsurePublicShare env i actor raws db)"
| "coupon_exec db (env, CallClaim c) = new_state (Claim env c db)"
| "coupon_exec db (env, CallReserve c) = new_state (ReserveWithin env c db)"
| "coupon_exec db (env, CallConsume c) = new_state (ConsumeWithin env c db)"
| "coupon_exec db (env, CallRelease c) = new_state (ReleaseWithin env c db)"

lemma classified_Inr [simp]: "classified r = Inr x \<longleftrightarrow> r = Inr x"
  by (simp add: classified_def split: sum.splits)

lemma checkout_answer_Inr [simp]: "checkout_answer r = Inr x \<longleftrightarrow> r = Inr x"
  by (simp add: checkout_answer_def split: sum.splits)

text \<open>Every successful call is one of a receipted rule transaction, a public share or a step of a claim.\<close>

definition rule_tx_of :: "coupon_env \<Rightarrow> string \<Rightarrow> int \<Rightarrow> string \<Rightarrow> rule_step \<Rightarrow> bool" where
  "rule_tx_of env operation actor key step \<longleftrightarrow>
     (\<exists>input command desired draft_only. mutation_command operation input = Inr command \<and> desired \<noteq> ''draft'' \<and>
        (writes_rule operation \<or> operation = ''publish'' \<or> operation = ''stop'') \<and>
        actor = ups_Actor input \<and> key = ups_IdempotencyKey input \<and>
        step = mutate_step env operation command desired draft_only) \<or>
     (\<exists>i expected. operation = ''archive'' \<and> step = archive_step env i expected actor) \<or>
     (\<exists>i. operation = ''delete'' \<and> step = delete_step env i) \<or>
     (\<exists>i. operation = ''copy'' \<and> step = copy_step env i actor key)"

definition rule_key_of :: "coupon_call \<Rightarrow> (string \<times> int \<times> string) option" where
  "rule_key_of call =
     (case call of
        CallCreate cmd \<Rightarrow> Some (''create'', ups_Actor cmd, ups_IdempotencyKey cmd)
      | CallUpdate cmd \<Rightarrow> Some (''update'', ups_Actor cmd, ups_IdempotencyKey cmd)
      | CallUpdateDraft cmd \<Rightarrow> Some (''update'', ups_Actor cmd, ups_IdempotencyKey cmd)
      | CallPublish i actor key \<Rightarrow> Some (''publish'', actor, key)
      | CallStop i actor key \<Rightarrow> Some (''stop'', actor, key)
      | CallArchive i version actor key \<Rightarrow> Some (''archive'', actor, key)
      | CallDelete i actor key \<Rightarrow> Some (''delete'', actor, key)
      | CallCopy i actor key \<Rightarrow> Some (''copy'', actor, key)
      | _ \<Rightarrow> None)"

definition rule_run :: "coupon_env \<Rightarrow> string \<Rightarrow> int \<Rightarrow> string \<Rightarrow> coupon_db \<Rightarrow> coupon_db \<Rightarrow> bool" where
  "rule_run env operation actor key db db' \<longleftrightarrow>
     (\<exists>payload finish step item. rule_tx_of env operation actor key step \<and>
        receipted_rule_tx operation actor key payload finish step db = Inr (item, db'))"

lemma mutate_rule_run:
  assumes "mutate env operation input desired draft_only db = Inr (x, db')" "desired \<noteq> ''draft''"
    "writes_rule operation \<or> operation = ''publish'' \<or> operation = ''stop''"
  shows "rule_run env operation (ups_Actor input) (ups_IdempotencyKey input) db db'"
proof -
  from assms(1) obtain command where command: "mutation_command operation input = Inr command"
    and tx: "receipted_rule_tx operation (ups_Actor input) (ups_IdempotencyKey input) (mutate_payload operation command desired)
      (\<lambda>c. withAvailability c (cen_Now env)) (mutate_step env operation command desired draft_only) db = Inr (x, db')"
    by (auto simp: mutate_def split: if_splits sum.splits)
  have "rule_tx_of env operation (ups_Actor input) (ups_IdempotencyKey input)
      (mutate_step env operation command desired draft_only)"
    unfolding rule_tx_of_def by (rule disjI1, intro exI conjI) (use command assms(2,3) in simp_all)
  with tx show ?thesis unfolding rule_run_def by (intro exI conjI)
qed

lemma ruleMutation_run:
  assumes "ruleMutation operation i actor key expected step db = Inr (x, db')" "rule_tx_of env operation actor key step"
  shows "rule_run env operation actor key db db'"
proof -
  from assms(1) have "receipted_rule_tx operation actor key (rule_payload i operation expected) id step db = Inr (x, db')"
    by (auto simp: ruleMutation_def split: if_splits)
  with assms(2) show ?thesis unfolding rule_run_def by (intro exI conjI)
qed

lemma step_rule_tx_of:
  "rule_tx_of env ''archive'' actor key (archive_step env i expected actor)"
  "rule_tx_of env ''delete'' actor key (delete_step env i)"
  "rule_tx_of env ''copy'' actor key (copy_step env i actor key)"
  by (auto simp: rule_tx_of_def)

lemma coupon_exec_rule:
  assumes exec: "coupon_exec db (env, call) = Inr db'" and key: "rule_key_of call = Some (operation, actor, key)"
  shows "rule_run env operation actor key db db'"
proof (cases call)
  case (CallCreate cmd)
  with exec obtain x where "mutate env ''create'' (cmd\<lparr>ups_Coupon := (ups_Coupon cmd)\<lparr>cpn_ID := 0\<rparr>\<rparr>) [] False db = Inr (x, db')"
    by (auto simp: Create_def)
  from mutate_rule_run [OF this] CallCreate key show ?thesis by (simp add: rule_key_of_def writes_rule_def)
next
  case (CallUpdate cmd)
  with exec obtain x where "mutate env ''update'' cmd [] False db = Inr (x, db')"
    by (auto simp: Update_def split: if_splits)
  from mutate_rule_run [OF this] CallUpdate key show ?thesis by (simp add: rule_key_of_def writes_rule_def)
next
  case (CallUpdateDraft cmd)
  with exec obtain x where "mutate env ''update'' cmd [] True db = Inr (x, db')"
    by (auto simp: UpdateDraft_def split: if_splits)
  from mutate_rule_run [OF this] CallUpdateDraft key show ?thesis by (simp add: rule_key_of_def writes_rule_def)
next
  case (CallPublish i a k)
  with exec obtain x where "mutate env ''publish'' (by_id i a k) ''published'' False db = Inr (x, db')"
    by (auto simp: Publish_def)
  from mutate_rule_run [OF this] CallPublish key show ?thesis by (simp add: rule_key_of_def by_id_def)
next
  case (CallStop i a k)
  with exec obtain x where "mutate env ''stop'' (by_id i a k) ''stopped'' False db = Inr (x, db')"
    by (auto simp: Stop_def)
  from mutate_rule_run [OF this] CallStop key show ?thesis by (simp add: rule_key_of_def by_id_def)
next
  case (CallArchive i v a k)
  with exec obtain x where "ruleMutation ''archive'' i a k v (archive_step env i v a) db = Inr (x, db')"
    by (auto simp: Archive_def split: if_splits)
  from ruleMutation_run [OF this step_rule_tx_of(1)] CallArchive key show ?thesis by (simp add: rule_key_of_def)
next
  case (CallDelete i a k)
  with exec obtain x where "ruleMutation ''delete'' i a k 0 (delete_step env i) db = Inr (x, db')"
    by (auto simp: Delete_def)
  from ruleMutation_run [OF this step_rule_tx_of(2)] CallDelete key show ?thesis by (simp add: rule_key_of_def)
next
  case (CallCopy i a k)
  with exec obtain x where "ruleMutation ''copy'' i a k 0 (copy_step env i a k) db = Inr (x, db')"
    by (auto simp: Copy_def)
  from ruleMutation_run [OF this step_rule_tx_of(3)] CallCopy key show ?thesis by (simp add: rule_key_of_def)
qed (use key in \<open>simp_all add: rule_key_of_def\<close>)

lemma rule_run_inv: "coupon_inv db \<Longrightarrow> rule_run env operation actor key db db' \<Longrightarrow> coupon_inv db'"
  using mutate_step_keeps archive_step_keeps delete_step_keeps copy_step_keeps
  unfolding rule_run_def rule_tx_of_def by (metis receipted_rule_tx_inv)

text \<open>The calls that are not rule transactions, each as the operation of the store that it runs.\<close>

lemma share_attempts_Inr:
  "share_attempts i actor at refused raws db = Inr (x, db') \<Longrightarrow>
     \<exists>slug. EnsurePublicCouponSlug i slug actor at db = Inr (x, db')"
  by (induction i actor at refused raws db rule: share_attempts.induct)
    (auto split: option.splits if_splits sum.splits)

lemma coupon_exec_other:
  assumes exec: "coupon_exec db (env, call) = Inr db'" and key: "rule_key_of call = None"
  obtains (share) i slug actor x where "EnsurePublicCouponSlug i slug actor (cen_Now env) db = Inr (x, db')"
      "\<exists>raws. call = CallShare i actor raws"
    | (claim) c holder at item where "call = CallClaim c" "claim_holder env c = Inr holder"
      "ClaimCoupon env (c\<lparr>clc_HolderCustomerID := holder, clc_ClaimedAt := at\<rparr>) (Sum256 (clc_IdempotencyKey c))
        (claim_payload (clc_CouponID c) holder (clc_ActorScope c)) at db = Inr (item, db')"
    | (reserve) c at s where "call = CallReserve c" "validReserve (c\<lparr>rvc_ReservedAt := at\<rparr>)"
      "ReserveCoupon env (c\<lparr>rvc_ReservedAt := at\<rparr>) (Sum256 (rvc_IdempotencyKey c))
        (reserve_payload (rvc_HolderCustomerID c) (c\<lparr>rvc_ReservedAt := at\<rparr>)) at db = Inr (s, db')"
    | (consume) c at s where "call = CallConsume c"
      "ConsumeCoupon (c\<lparr>csc_SettledAt := at\<rparr>) (Sum256 (csc_IdempotencyKey c)) (consume_payload (c\<lparr>csc_SettledAt := at\<rparr>)) at db =
        Inr (s, db')"
    | (release) c c' at s where "call = CallRelease c" "ReleaseCoupon c' (Sum256 (rlc_IdempotencyKey c')) (release_payload c') at db = Inr (s, db')"
proof (cases call)
  case (CallShare i actor raws)
  with exec obtain x where "share_attempts i actor (cen_Now env) False (take 4 raws) db = Inr (x, db')"
    by (auto simp: EnsurePublicShare_def split: if_splits sum.splits prod.splits)
  from share_attempts_Inr [OF this] CallShare share show thesis by (cases x) blast
next
  case (CallClaim c)
  define at where "at = checkoutTime (clc_ClaimedAt c) (cen_Now env)"
  have holder: "claim_holder env (c\<lparr>clc_ClaimedAt := at\<rparr>) = claim_holder env c" by (simp add: claim_holder_def)
  from exec CallClaim obtain h item where "claim_holder env c = Inr h"
    and "ClaimCoupon env (c\<lparr>clc_ClaimedAt := at, clc_HolderCustomerID := h\<rparr>) (Sum256 (clc_IdempotencyKey c))
        (claim_payload (clc_CouponID c) h (clc_ActorScope c)) at db = Inr (item, db')"
    by (auto simp: Claim_def Let_def at_def [symmetric] holder split: if_splits sum.splits)
  moreover have "c\<lparr>clc_ClaimedAt := at, clc_HolderCustomerID := h\<rparr> = c\<lparr>clc_HolderCustomerID := h, clc_ClaimedAt := at\<rparr>" by simp
  ultimately show thesis using claim CallClaim by metis
next
  case (CallReserve c)
  define at where "at = checkoutTime (rvc_ReservedAt c) (cen_Now env)"
  from exec CallReserve obtain s where "validReserve (c\<lparr>rvc_ReservedAt := at\<rparr>)"
    "ReserveCoupon env (c\<lparr>rvc_ReservedAt := at\<rparr>) (Sum256 (rvc_IdempotencyKey c))
      (reserve_payload (rvc_HolderCustomerID c) (c\<lparr>rvc_ReservedAt := at\<rparr>)) at db = Inr (s, db')"
    by (auto simp: ReserveWithin_def Let_def at_def [symmetric] split: if_splits sum.splits)
  with CallReserve reserve show thesis by blast
next
  case (CallConsume c)
  define at where "at = checkoutTime (csc_SettledAt c) (cen_Now env)"
  from exec CallConsume obtain s where "ConsumeCoupon (c\<lparr>csc_SettledAt := at\<rparr>) (Sum256 (csc_IdempotencyKey c))
      (consume_payload (c\<lparr>csc_SettledAt := at\<rparr>)) at db = Inr (s, db')"
    by (auto simp: ConsumeWithin_def Let_def at_def [symmetric] split: if_splits)
  with CallConsume consume show thesis by blast
next
  case (CallRelease c)
  define at where "at = checkoutTime (rlc_ClosedAt c) (cen_Now env)"
  define c' where "c' = c\<lparr>rlc_ClosedAt := at, rlc_CloseReason := trim_space (rlc_CloseReason c)\<rparr>"
  from exec CallRelease obtain s where "ReleaseCoupon c' (Sum256 (rlc_IdempotencyKey c')) (release_payload c') at db = Inr (s, db')"
    by (auto simp: ReleaseWithin_def Let_def at_def [symmetric] c'_def split: if_splits)
  with CallRelease release show thesis by blast
qed (use key in \<open>simp_all add: rule_key_of_def\<close>)

lemma share_books:
  assumes "EnsurePublicCouponSlug i slug actor at db = Inr (x, db')"
  obtains "db' = db"
    | old row db1 where "get_rule db i = Inr old"
      "update_rule i (\<lambda>old. old\<lparr>cpn_UpdatedBy := actor, cpn_UpdatedAt := pg_time at, cpn_Version := cpn_Version old + 1\<rparr>) db =
        Inr (row, db1)" "same_books db1 db'"
      "cdb_RuleReceipts db' = cdb_RuleReceipts db1" "cdb_ClaimReceipts db' = cdb_ClaimReceipts db1"
proof -
  from assms obtain old where old: "get_rule db i = Inr old" "cpn_Status old = ''published''"
    by (auto simp: EnsurePublicCouponSlug_def split: sum.splits if_splits)
  show thesis
  proof (cases "slug_of db i")
    case (Some s)
    with assms old show thesis by (intro that(1)) (simp add: EnsurePublicCouponSlug_def)
  next
    case None
    with assms old obtain row db1 db2 where upd: "update_rule i (\<lambda>old. old\<lparr>cpn_UpdatedBy := actor,
        cpn_UpdatedAt := pg_time at, cpn_Version := cpn_Version old + 1\<rparr>) db = Inr (row, db1)"
      and ev: "Event_Append \<lparr>rev_Type = ''coupon.public_shared'', rev_CouponID = i, rev_Actor = actor,
        rev_Status = [], rev_Key = ''coupon:public-share:'' @ format_int i\<rparr>
        (db1\<lparr>cdb_Slugs := (i, slug) # cdb_Slugs db1\<rparr>) = Inr ((), db')"
      by (auto simp: EnsurePublicCouponSlug_def split: sum.splits if_splits prod.splits)
    from Event_Append_books [OF ev] have "same_books db1 db'" by (simp add: same_books_def)
    moreover from ev have "cdb_RuleReceipts db' = cdb_RuleReceipts db1" "cdb_ClaimReceipts db' = cdb_ClaimReceipts db1"
      by (auto simp: Event_Append_def split: if_splits)
    ultimately show thesis using that(2) old upd by blast
  qed
qed

lemma share_inv:
  assumes inv: "coupon_inv db" and share: "EnsurePublicCouponSlug i slug actor at db = Inr (x, db')"
  shows "coupon_inv db'"
  using share
proof (cases rule: share_books)
  case (2 old row db1)
  from update_rule_inv [OF inv 2(1) _ _ _ _ 2(2)] have "coupon_inv db1" by simp
  with 2(3) show ?thesis by (simp add: same_books_inv)
qed (use inv in simp)

lemma coupon_exec_inv:
  assumes inv: "coupon_inv db" and exec: "coupon_exec db (env, call) = Inr db'"
  shows "coupon_inv db'"
proof (cases "rule_key_of call")
  case (Some k)
  then obtain operation actor key where "rule_key_of call = Some (operation, actor, key)" by (cases k) auto
  with rule_run_inv [OF inv coupon_exec_rule [OF exec]] show ?thesis by blast
next
  case None
  with exec show ?thesis
    by (cases rule: coupon_exec_other)
      (auto intro: share_inv [OF inv] ClaimCoupon_inv [OF inv] ReserveCoupon_inv [OF inv] ConsumeCoupon_inv [OF inv]
        ReleaseCoupon_inv [OF inv])
qed

lemma coupon_run_inv: "coupon_inv db \<Longrightarrow> coupon_inv (run coupon_exec db calls)"
  by (rule run_invariant) (auto intro: coupon_exec_inv)

end
