(* ===== verification/CouponHistory.thy ===== *)
theory CouponHistory
  imports CouponRun
begin

text \<open>
  What no call of the coupon component takes back: the terms of a rule that has been issued, the
  owner and the validity of a claim, a redeemed claim, the amounts of a redemption and its end.
\<close>

definition same_terms :: "coupon \<Rightarrow> coupon \<Rightarrow> bool" where
  "same_terms old new \<longleftrightarrow> cpn_ID new = cpn_ID old \<and> claimedUpdateAllowed old new \<and> cpn_IssuedCount old \<le> cpn_IssuedCount new"

definition later_claim :: "claim_row \<Rightarrow> claim_row \<Rightarrow> bool" where
  "later_claim a b \<longleftrightarrow> same_claim b a \<and> clm_ClaimedAt b = clm_ClaimedAt a \<and> clm_ValidFrom b = clm_ValidFrom a \<and>
     clm_ValidUntil b = clm_ValidUntil a \<and> (clm_Status a = ClaimRedeemed \<longrightarrow> b = a)"

definition same_order :: "redemption_row \<Rightarrow> redemption_row \<Rightarrow> bool" where
  "same_order a b \<longleftrightarrow> rdm_ID b = rdm_ID a \<and> rdm_ClaimID b = rdm_ClaimID a \<and>
     rdm_OrderReference b = rdm_OrderReference a \<and> rdm_RuleVersion b = rdm_RuleVersion a \<and>
     rdm_ProductID b = rdm_ProductID a \<and> rdm_ProductType b = rdm_ProductType a \<and> rdm_ProductCode b = rdm_ProductCode a \<and>
     rdm_GrossAmountMinor b = rdm_GrossAmountMinor a \<and> rdm_DiscountAmountMinor b = rdm_DiscountAmountMinor a \<and>
     rdm_PayableAmountMinor b = rdm_PayableAmountMinor a \<and> rdm_Currency b = rdm_Currency a"

definition later_redemption :: "redemption_row \<Rightarrow> redemption_row \<Rightarrow> bool" where
  "later_redemption a b \<longleftrightarrow> same_order a b \<and> (rdm_Status a \<noteq> RedemptionReserved \<longrightarrow> b = a)"

definition rules_after :: "coupon_db \<Rightarrow> coupon_db \<Rightarrow> bool" where
  "rules_after db db' \<longleftrightarrow> (\<forall>old \<in> set (cdb_Rules db). 0 < cpn_IssuedCount old \<longrightarrow> (\<exists>new \<in> set (cdb_Rules db'). same_terms old new))"

definition claims_after :: "coupon_db \<Rightarrow> coupon_db \<Rightarrow> bool" where
  "claims_after db db' \<longleftrightarrow> (\<forall>a \<in> set (cdb_Claims db). \<exists>b \<in> set (cdb_Claims db'). later_claim a b)"

definition redemptions_after :: "coupon_db \<Rightarrow> coupon_db \<Rightarrow> bool" where
  "redemptions_after db db' \<longleftrightarrow> (\<forall>a \<in> set (cdb_Redemptions db). \<exists>b \<in> set (cdb_Redemptions db'). later_redemption a b)"

definition coupon_after :: "coupon_db \<Rightarrow> coupon_db \<Rightarrow> bool" where
  "coupon_after db db' \<longleftrightarrow> rules_after db db' \<and> claims_after db db' \<and> redemptions_after db db'"

lemma same_terms_refl [simp]: "same_terms c c"
  by (simp add: same_terms_def claimedUpdateAllowed_def)

lemma same_terms_trans: "same_terms a b \<Longrightarrow> same_terms b c \<Longrightarrow> same_terms a c"
  by (auto simp: same_terms_def claimedUpdateAllowed_def)

lemma later_claim_refl [simp]: "later_claim c c"
  by (simp add: later_claim_def same_claim_def)

lemma later_claim_trans: "later_claim a b \<Longrightarrow> later_claim b c \<Longrightarrow> later_claim a c"
  by (auto simp: later_claim_def same_claim_def)

lemma later_redemption_refl [simp]: "later_redemption c c"
  by (simp add: later_redemption_def same_order_def)

lemma later_redemption_trans: "later_redemption a b \<Longrightarrow> later_redemption b c \<Longrightarrow> later_redemption a c"
  by (auto simp: later_redemption_def same_order_def)

lemma same_terms_issued: "same_terms a b \<Longrightarrow> 0 < cpn_IssuedCount a \<Longrightarrow> 0 < cpn_IssuedCount b"
  by (simp add: same_terms_def)

lemma coupon_after_trans: "coupon_after a b \<Longrightarrow> coupon_after b c \<Longrightarrow> coupon_after a c"
  unfolding coupon_after_def rules_after_def claims_after_def redemptions_after_def
  by (meson later_claim_trans later_redemption_trans same_terms_trans same_terms_issued)

lemma coupon_after_refl [simp]: "coupon_after db db"
  unfolding coupon_after_def rules_after_def claims_after_def redemptions_after_def
  using same_terms_refl later_claim_refl later_redemption_refl by blast

text \<open>Tables that are kept, or only grow, stay as they were; of a table with one row rewritten, that
  row is to be checked.\<close>

lemma same_terms_bex: "c \<in> A \<Longrightarrow> \<exists>x \<in> A. same_terms c x"
  using same_terms_refl by blast

lemma later_claim_bex: "c \<in> A \<Longrightarrow> \<exists>x \<in> A. later_claim c x"
  using later_claim_refl by blast

lemma later_redemption_bex: "c \<in> A \<Longrightarrow> \<exists>x \<in> A. later_redemption c x"
  using later_redemption_refl by blast

lemma rewritten_bex:
  assumes "B = insert row (A - {old})" "c \<in> A" "P old row" "\<And>y. P y y"
  shows "\<exists>x \<in> B. P c x"
  using assms by (cases "c = old") blast+

lemma rules_after_subset: "set (cdb_Rules db) \<subseteq> set (cdb_Rules db') \<Longrightarrow> rules_after db db'"
  by (auto simp: rules_after_def intro: same_terms_bex)

lemma claims_after_subset: "set (cdb_Claims db) \<subseteq> set (cdb_Claims db') \<Longrightarrow> claims_after db db'"
  by (auto simp: claims_after_def intro: later_claim_bex)

lemma redemptions_after_subset: "set (cdb_Redemptions db) \<subseteq> set (cdb_Redemptions db') \<Longrightarrow> redemptions_after db db'"
  by (auto simp: redemptions_after_def intro: later_redemption_bex)

lemmas after_subsets = rules_after_subset claims_after_subset redemptions_after_subset

lemma same_books_after: "same_books a b \<Longrightarrow> coupon_after a b"
  by (simp add: coupon_after_def same_books_def after_subsets)

lemma after_same_books: "same_books a b \<Longrightarrow> coupon_after b c \<Longrightarrow> coupon_after a c"
  by (blast intro: coupon_after_trans same_books_after)

subsection \<open>Rules\<close>

lemma update_rule_after:
  assumes inv: "coupon_inv db" and old: "get_rule db i = Inr old"
    and f: "cpn_ID (f old) = cpn_ID old" "cpn_IssuedCount old \<le> cpn_IssuedCount (f old)"
      "0 < cpn_IssuedCount old \<Longrightarrow> claimedUpdateAllowed old (f old)"
    and upd: "update_rule i f db = Inr (row, db')"
  shows "coupon_after db db'"
proof -
  from upd old have db': "db' = db\<lparr>cdb_Rules := put_rule (f old) (cdb_Rules db)\<rparr>"
    by (auto simp: update_rule_def Let_def split: if_splits)
  from get_rule_SomeD [OF old] have mem: "old \<in> set (cdb_Rules db)" by simp
  from inv have "distinct (map cpn_ID (cdb_Rules db))" by (simp add: coupon_inv_def rules_ok_def)
  from set_put_rule [OF this mem f(1)]
  have rows: "set (cdb_Rules db') = insert (f old) (set (cdb_Rules db) - {old})" by (simp add: db')
  have "\<exists>new \<in> set (cdb_Rules db'). same_terms c new" if "c \<in> set (cdb_Rules db)" "0 < cpn_IssuedCount c" for c
  proof (cases "c = old")
    case True
    with that f have "same_terms c (f old)" by (simp add: same_terms_def)
    then show ?thesis by (simp add: rows)
  qed (use that rows same_terms_bex in auto)
  then have "rules_after db db'" by (simp add: rules_after_def)
  then show ?thesis by (simp add: coupon_after_def db' after_subsets)
qed

lemma pg_time_canonical [simp]: "pg_time (canonicalTime t) = canonicalTime t"
  by (simp add: pg_time_def canonicalTime_def trunc_time_def microsecond_def mod_diff_left_eq [symmetric])

definition canonical_times :: "coupon \<Rightarrow> bool" where
  "canonical_times c \<longleftrightarrow> pg_time (cpn_ClaimStartsAt c) = cpn_ClaimStartsAt c \<and> pg_time (cpn_ClaimEndsAt c) = cpn_ClaimEndsAt c \<and>
     map_option pg_time (cpn_UseStartsAt c) = cpn_UseStartsAt c \<and> map_option pg_time (cpn_UseEndsAt c) = cpn_UseEndsAt c"

lemma normalize_canonical: "normalize_coupon input = Inr (command, ids) \<Longrightarrow> canonical_times (ups_Coupon command)"
  by (auto simp: normalize_coupon_def Let_def canonical_times_def canonical_coupon_def option.map_comp comp_def
      split: if_splits option.splits)

definition advances :: "rule_step \<Rightarrow> bool" where
  "advances step \<longleftrightarrow> (\<forall>db x db'. coupon_inv db \<longrightarrow> step db = Inr (x, db') \<longrightarrow> coupon_after db db')"

lemma create_after: "Rule_Create cmd now db = Inr (row, db') \<Longrightarrow> coupon_after db db'"
  by (auto simp: Rule_Create_def Let_def coupon_after_def split: if_splits intro!: after_subsets)

lemma status_after:
  assumes "coupon_inv db" "get_rule db i = Inr old" "Rule_SetStatus i status actor now db = Inr (row, db')"
  shows "coupon_after db db'"
  by (rule update_rule_after [OF assms(1,2) _ _ _ assms(3) [unfolded Rule_SetStatus_def]])
    (simp_all add: claimedUpdateAllowed_def)

lemma delete_after:
  assumes inv: "coupon_inv db" and delete: "Rule_DeleteDraft i db = Inr (x, db')"
  shows "coupon_after db db'"
proof -
  from delete obtain c where c: "get_rule db i = Inr c" "cpn_IssuedCount c = 0"
    and db': "db' = db\<lparr>cdb_Rules := filter (\<lambda>x. cpn_ID x \<noteq> i) (cdb_Rules db)\<rparr>"
    by (auto simp: Rule_DeleteDraft_def split: sum.splits if_splits)
  have "cpn_ID old \<noteq> i" if "old \<in> set (cdb_Rules db)" "0 < cpn_IssuedCount old" for old
    using get_rule_Some [of db old] inv c that by (auto simp: coupon_inv_def)
  then have "rules_after db db'" by (simp add: rules_after_def db') (blast intro: same_terms_refl)
  then show ?thesis by (simp add: coupon_after_def db' after_subsets)
qed

lemma update_step_after:
  assumes canonical: "canonical_times (ups_Coupon command)"
  shows "advances (update_step draft_only command now)"
  unfolding advances_def
proof (intro allI impI)
  fix db x db'
  assume inv: "coupon_inv db" and step: "update_step draft_only command now db = Inr (x, db')"
  from step obtain old where old: "get_rule db (cpn_ID (ups_Coupon command)) = Inr old"
    by (auto simp: update_step_def split: sum.splits)
  from step old have upd: "Rule_Update command now db = Inr (fst x, db')"
    by (cases x) (simp add: update_step_def always_changed_Inr split: if_splits)
  from step old have guard: "\<not> 0 < cpn_IssuedCount old \<or> claimedUpdateAllowed old (ups_Coupon command)"
    by (auto simp: update_step_def split: if_splits)
  show "coupon_after db db'"
    by (rule update_rule_after [OF inv old _ _ _ upd [unfolded Rule_Update_def Let_def]])
      (use guard canonical get_rule_SomeD [OF old] in \<open>auto simp: claimedUpdateAllowed_def canonical_times_def\<close>)
qed

lemma status_step_after: "advances (status_step env operation desired i actor)"
  unfolding advances_def
proof (intro allI impI)
  fix db x db'
  assume inv: "coupon_inv db" and step: "status_step env operation desired i actor db = Inr (x, db')"
  from step obtain old where old: "get_rule db i = Inr old" by (auto simp: status_step_def split: sum.splits)
  from step old consider "db' = db" | "Rule_SetStatus i desired actor (cen_Now env) db = Inr (fst x, db')"
    by (cases x) (auto simp: status_step_def always_changed_Inr split: if_splits sum.splits)
  then show "coupon_after db db'" using status_after [OF inv old] by cases auto
qed

lemma archive_step_after: "advances (archive_step env i expected actor)"
  unfolding advances_def
proof (intro allI impI)
  fix db x db'
  assume inv: "coupon_inv db" and step: "archive_step env i expected actor db = Inr (x, db')"
  from step obtain old where old: "get_rule db i = Inr old" by (auto simp: archive_step_def split: sum.splits)
  from step old obtain item where "db' = db \<or> Rule_SetStatus i ''archived'' actor (cen_Now env) db = Inr (item, db')"
    by (simp add: archive_step_def split: if_splits sum.splits prod.splits) blast+
  then show "coupon_after db db'" using status_after [OF inv old] by auto
qed

lemma delete_step_after: "advances (delete_step env i)"
  by (auto simp: advances_def delete_step_def split: sum.splits if_splits prod.splits intro: delete_after)

lemma copy_step_after: "advances (copy_step env i actor key)"
  by (auto simp: advances_def copy_step_def split: sum.splits if_splits prod.splits intro: create_after)

lemma mutate_step_after:
  assumes "mutation_command operation input = Inr command"
  shows "advances (mutate_step env operation command desired draft_only)"
  unfolding advances_def
proof (intro allI impI)
  fix db x db'
  assume inv: "coupon_inv db" and step: "mutate_step env operation command desired draft_only db = Inr (x, db')"
  from step consider "always_changed (Rule_Create command (cen_Now env) db) = Inr (x, db')"
    | "operation = ''update''" "update_step draft_only command (cen_Now env) db = Inr (x, db')"
    | "status_step env operation desired (cpn_ID (ups_Coupon command)) (ups_Actor command) db = Inr (x, db')"
    unfolding mutate_step_def by (metis sum.distinct(1))
  then show "coupon_after db db'"
  proof cases
    case 1
    then have "Rule_Create command (cen_Now env) db = Inr (fst x, db')" by (cases x) (simp add: always_changed_Inr)
    then show ?thesis by (rule create_after)
  next
    case 2
    with assms have "canonical_times (ups_Coupon command)"
      by (auto simp: mutation_command_def writes_rule_def split: sum.splits prod.splits dest: normalize_canonical)
    from update_step_after [OF this] 2 inv show ?thesis unfolding advances_def by blast
  next
    case 3
    then show ?thesis using status_step_after inv unfolding advances_def by blast
  qed
qed

lemma receipted_rule_tx_after:
  assumes adv: "advances step" and inv: "coupon_inv db"
    and tx: "receipted_rule_tx operation actor key payload finish step db = Inr (item, db')"
  shows "coupon_after db db'"
  using tx
proof (cases rule: receipted_rule_tx_cases)
  case (stepped r db1 db2 db3 c changed)
  from Receipt_Reserve_books [OF stepped(1)] inv have "coupon_inv db1" by (simp add: same_books_inv)
  with adv stepped(3) have "coupon_after db1 db2" by (auto simp: advances_def)
  moreover have "coupon_after db2 db'"
    using record_change_books [OF stepped(6)] freeze_result_books [OF stepped(7)]
    by (blast intro: same_books_after same_books_trans)
  ultimately show ?thesis using Receipt_Reserve_books [OF stepped(1)]
    by (blast intro: after_same_books coupon_after_trans)
qed simp

lemma rule_run_after: "coupon_inv db \<Longrightarrow> rule_run env operation actor key db db' \<Longrightarrow> coupon_after db db'"
  using mutate_step_after archive_step_after delete_step_after copy_step_after
  unfolding rule_run_def rule_tx_of_def by (metis receipted_rule_tx_after)

lemma share_after:
  assumes inv: "coupon_inv db" and share: "EnsurePublicCouponSlug i slug actor at db = Inr (x, db')"
  shows "coupon_after db db'"
  using share
proof (cases rule: share_books)
  case (2 old row db1)
  from update_rule_after [OF inv 2(1) _ _ _ 2(2)] have "coupon_after db db1"
    by (simp add: claimedUpdateAllowed_def)
  with 2(3) show ?thesis by (blast intro: coupon_after_trans same_books_after)
qed simp

subsection \<open>Claims and redemptions\<close>

lemma ClaimCoupon_after:
  assumes inv: "coupon_inv db" and claim: "ClaimCoupon env c key payload at db = Inr (item, db')"
  shows "coupon_after db db'"
  using claim
proof (cases rule: ClaimCoupon_cases)
  case (issued ids rule start until row db1 i db2)
  from issued(3) get_rule_SomeD have id: "cpn_ID rule = clc_CouponID c" by blast
  with issued(3,7) have upd: "update_rule (cpn_ID rule) (\<lambda>old. old\<lparr>cpn_IssuedCount := cpn_IssuedCount old + 1,
      cpn_UpdatedAt := pg_time at\<rparr>) db = Inr (row, db1)"
    by (auto simp: count_issue_def split: if_splits)
  have "coupon_after db db1"
    by (rule update_rule_after [OF inv _ _ _ _ upd, of rule]) (use id issued(3) in \<open>simp_all add: claimedUpdateAllowed_def\<close>)
  moreover have "coupon_after db1 db2" using issued(8)
    by (auto simp: insert_claim_def Let_def coupon_after_def split: if_splits intro!: after_subsets)
  moreover have "coupon_after db2 db'" by (rule same_books_after [OF record_claim_books [OF issued(10)]])
  ultimately show ?thesis by (blast intro: coupon_after_trans)
qed simp

lemma claims_after_put:
  assumes inv: "coupon_inv db" and old: "old \<in> set (cdb_Claims db)" and row: "later_claim old row"
    and db': "cdb_Claims db' = put_claim row (cdb_Claims db)"
  shows "claims_after db db'"
proof -
  from inv have "distinct (map clm_ID (cdb_Claims db))" by (simp add: coupon_inv_def claims_ok_def)
  moreover from row have "clm_ID row = clm_ID old" by (simp add: later_claim_def same_claim_def)
  ultimately have "set (cdb_Claims db') = insert row (set (cdb_Claims db) - {old})"
    by (simp add: db' set_put_claim old)
  from rewritten_bex [where P = later_claim, OF this _ row] show ?thesis by (simp add: claims_after_def)
qed

lemma ReserveCoupon_after:
  assumes inv: "coupon_inv db" and reserve: "ReserveCoupon env c key payload at db = Inr (s, db')"
  shows "coupon_after db db'"
  using reserve
proof (cases rule: ReserveCoupon_cases)
  case (reserved ids claim rule db2)
  from selectReservationClaim_SomeD [OF reserved(4)] have mem: "claim \<in> set (cdb_Claims db)" and "open_claim claim"
    by (auto simp: eligible_claim_def)
  then have later: "later_claim claim (claim\<lparr>clm_Status := ClaimReserved, clm_ReservedAt := Some (pg_time at)\<rparr>)"
    by (auto simp: later_claim_def same_claim_def open_claim_def)
  have "coupon_after db db2"
  proof -
    from reserved(5) have "cdb_Rules db2 = cdb_Rules db" "set (cdb_Redemptions db) \<subseteq> set (cdb_Redemptions db2)"
      and "cdb_Claims db2 = put_claim (claim\<lparr>clm_Status := ClaimReserved, clm_ReservedAt := Some (pg_time at)\<rparr>) (cdb_Claims db)"
      by (auto simp: insert_redemption_def split: if_splits)
    with claims_after_put [OF inv mem later] show ?thesis by (simp add: coupon_after_def after_subsets)
  qed
  moreover have "coupon_after db2 db'" by (rule same_books_after [OF record_step_books [OF reserved(7)]])
  ultimately show ?thesis by (rule coupon_after_trans)
qed simp_all

lemma settle_after:
  assumes inv: "coupon_inv db" and r: "r \<in> set (cdb_Redemptions db)" "rdm_Status r = RedemptionReserved"
    and claim: "claim \<in> set (cdb_Claims db)" "later_claim claim claim'" and row: "same_order r row"
    and settle: "settle_rows row claim' db = Inr (x, db')"
  shows "coupon_after db db'"
proof -
  from settle have db': "db' = db\<lparr>cdb_Redemptions := put_redemption row (cdb_Redemptions db),
      cdb_Claims := put_claim claim' (cdb_Claims db)\<rparr>"
    by (auto simp: settle_rows_def split: if_splits)
  have "claims_after db db'" by (rule claims_after_put [OF inv claim]) (simp add: db')
  moreover have "redemptions_after db db'"
  proof -
    from inv have "distinct (map rdm_ID (cdb_Redemptions db))" by (simp add: coupon_inv_def redemptions_ok_def)
    then have rows: "set (cdb_Redemptions db') = insert row (set (cdb_Redemptions db) - {r})"
      using row by (simp add: db' set_put_redemption r same_order_def)
    have "later_redemption r row" using row r(2) by (simp add: later_redemption_def)
    from rewritten_bex [where P = later_redemption, OF rows _ this] show ?thesis by (simp add: redemptions_after_def)
  qed
  ultimately show ?thesis by (simp add: coupon_after_def db' after_subsets)
qed

lemma ConsumeCoupon_after:
  assumes inv: "coupon_inv db" and consume: "ConsumeCoupon c key payload at db = Inr (s, db')"
  shows "coupon_after db db'"
  using consume
proof (cases rule: ConsumeCoupon_cases)
  case (settled r claim db1)
  from readRedemptionD [OF settled(1)] settled(4,5) have "coupon_after db db1"
    by (intro settle_after [where r = r and claim = claim, OF inv _ _ _ _ _ settled(6)])
      (simp_all add: same_order_def later_claim_def same_claim_def)
  with same_books_after [OF record_step_books [OF settled(8)]] show ?thesis by (blast intro: coupon_after_trans)
qed simp_all

lemma ReleaseCoupon_after:
  assumes inv: "coupon_inv db" and release: "ReleaseCoupon c key payload at db = Inr (s, db')"
  shows "coupon_after db db'"
  using release
proof (cases rule: ReleaseCoupon_cases)
  case (settled r claim db1)
  from readRedemptionD [OF settled(1)] settled(3,4) have "coupon_after db db1"
    by (intro settle_after [where r = r and claim = claim, OF inv _ _ _ _ _ settled(5)])
      (simp_all add: same_order_def later_claim_def released_claim_def same_claim_def)
  with same_books_after [OF record_step_books [OF settled(7)]] show ?thesis by (blast intro: coupon_after_trans)
qed simp_all

subsection \<open>Histories\<close>

lemma coupon_exec_after:
  assumes inv: "coupon_inv db" and exec: "coupon_exec db (env, call) = Inr db'"
  shows "coupon_after db db'"
proof (cases "rule_key_of call")
  case (Some k)
  then obtain operation actor key where "rule_key_of call = Some (operation, actor, key)" by (cases k) auto
  with rule_run_after [OF inv coupon_exec_rule [OF exec]] show ?thesis by blast
next
  case None
  with exec show ?thesis
    by (cases rule: coupon_exec_other)
      (auto intro: share_after [OF inv] ClaimCoupon_after [OF inv] ReserveCoupon_after [OF inv] ConsumeCoupon_after [OF inv]
        ReleaseCoupon_after [OF inv])
qed

lemma coupon_run_after:
  assumes "coupon_inv db"
  shows "coupon_inv (run coupon_exec db calls) \<and> coupon_after db (run coupon_exec db calls)"
  by (rule run_invariant [where P = "\<lambda>s. coupon_inv s \<and> coupon_after db s"])
    (use assms in \<open>auto intro: coupon_exec_inv dest: coupon_exec_after coupon_after_trans\<close>)

end
