(* ===== verification/CouponReplay.thy ===== *)
theory CouponReplay
  imports CouponHistory
begin

text \<open>
  The receipts of the coupon component: every rule command and every claim carries a key, records
  it when it takes effect and changes nothing when the key is known.  \<open>receipted_commands\<close> is
  interpreted on the calls of the component.

  A reservation without an eligible coupon answers the original price and records nothing, and a
  settlement of what another key has settled answers without a receipt, so these calls carry no
  key here.
\<close>

datatype coupon_key = RuleKey string string "w32 list" | ClaimKey string "w32 list"

definition coupon_key_of :: "coupon_env \<times> coupon_call \<Rightarrow> coupon_key option" where
  "coupon_key_of c =
     (case rule_key_of (snd c) of
        Some (operation, actor, key) \<Rightarrow> Some (RuleKey operation (admin_scope actor) (Sum256 key))
      | None \<Rightarrow> (case snd c of
                   CallClaim cmd \<Rightarrow> Some (ClaimKey (clc_ActorScope cmd) (Sum256 (clc_IdempotencyKey cmd)))
                 | _ \<Rightarrow> None))"

fun coupon_used :: "coupon_db \<Rightarrow> coupon_key \<Rightarrow> bool" where
  "coupon_used db (RuleKey operation scope key) \<longleftrightarrow> find_rule_receipt db operation scope key \<noteq> None"
| "coupon_used db (ClaimKey scope key) \<longleftrightarrow> find_claim_receipt db scope key \<noteq> None"

text \<open>The claim of a receipt exists, and the receipt names it.\<close>

definition receipts_known :: "coupon_db \<Rightarrow> bool" where
  "receipts_known db \<longleftrightarrow> list_all (\<lambda>r. crc_ClaimID r \<in> clm_ID ` set (cdb_Claims db)) (cdb_ClaimReceipts db)"

definition coupon_valid :: "coupon_db \<Rightarrow> bool" where
  "coupon_valid db \<longleftrightarrow> coupon_inv db \<and> receipts_known db"

lemma coupon_valid_empty [simp]: "coupon_valid empty_coupons"
  by (simp add: coupon_valid_def receipts_known_def) (simp add: empty_coupons_def)

subsection \<open>Receipts only grow\<close>

definition same_receipts :: "coupon_db \<Rightarrow> coupon_db \<Rightarrow> bool" where
  "same_receipts a b \<longleftrightarrow> cdb_RuleReceipts b = cdb_RuleReceipts a \<and> cdb_ClaimReceipts b = cdb_ClaimReceipts a"

lemma same_receipts_refl [simp]: "same_receipts a a"
  by (simp add: same_receipts_def)

lemma same_receipts_trans: "same_receipts a b \<Longrightarrow> same_receipts b c \<Longrightarrow> same_receipts a c"
  by (simp add: same_receipts_def)

definition receipts_grow :: "coupon_db \<Rightarrow> coupon_db \<Rightarrow> bool" where
  "receipts_grow a b \<longleftrightarrow> (\<forall>operation scope key. find_rule_receipt a operation scope key \<noteq> None \<longrightarrow>
       find_rule_receipt b operation scope key \<noteq> None) \<and>
     (\<exists>more. cdb_ClaimReceipts b = cdb_ClaimReceipts a @ more)"

lemma same_receipts_grow: "same_receipts a b \<Longrightarrow> receipts_grow a b"
  by (simp add: same_receipts_def receipts_grow_def find_rule_receipt_def)

lemma update_rule_receipts: "update_rule i f db = Inr (x, db') \<Longrightarrow> same_receipts db db'"
  by (auto simp: update_rule_def Let_def same_receipts_def split: sum.splits if_splits)

lemma Rule_Create_receipts: "Rule_Create cmd now db = Inr (x, db') \<Longrightarrow> same_receipts db db'"
  by (auto simp: Rule_Create_def Let_def same_receipts_def split: if_splits)

lemma Rule_SetStatus_receipts: "Rule_SetStatus i status actor now db = Inr (x, db') \<Longrightarrow> same_receipts db db'"
  by (auto simp: Rule_SetStatus_def dest: update_rule_receipts)

lemma Rule_Update_receipts: "Rule_Update cmd now db = Inr (x, db') \<Longrightarrow> same_receipts db db'"
  by (auto simp: Rule_Update_def Let_def dest: update_rule_receipts)

lemma Rule_DeleteDraft_receipts: "Rule_DeleteDraft i db = Inr (x, db') \<Longrightarrow> same_receipts db db'"
  by (auto simp: Rule_DeleteDraft_def same_receipts_def split: if_splits sum.splits)

lemma record_change_receipts:
  "record_change operation item actor key changed db = Inr (x, db') \<Longrightarrow> same_receipts db db'"
  by (auto simp: record_change_def Event_Append_def same_receipts_def split: if_splits)

lemmas rule_receipts = Rule_Create_receipts Rule_SetStatus_receipts Rule_Update_receipts Rule_DeleteDraft_receipts

lemma mutate_step_receipts:
  "mutate_step env operation command desired draft_only db = Inr (x, db') \<Longrightarrow> same_receipts db db'"
  by (cases x) (auto simp: mutate_step_def update_step_def status_step_def always_changed_Inr
      split: if_splits sum.splits dest: rule_receipts)

lemma other_step_receipts:
  "archive_step env i expected actor db = Inr (x, db') \<Longrightarrow> same_receipts db db'"
  "delete_step env i db = Inr (x, db') \<Longrightarrow> same_receipts db db'"
  "copy_step env i actor key db = Inr (x, db') \<Longrightarrow> same_receipts db db'"
  by (auto simp: archive_step_def delete_step_def copy_step_def split: if_splits sum.splits prod.splits dest: rule_receipts)

lemma rule_tx_of_receipts: "rule_tx_of env operation actor key step \<Longrightarrow> step db = Inr (x, db') \<Longrightarrow> same_receipts db db'"
  unfolding rule_tx_of_def by (metis mutate_step_receipts other_step_receipts)

lemma Receipt_Complete_find:
  assumes "Receipt_Complete i s db = Inr (x, db')"
  shows "find_rule_receipt db' operation scope key = None \<longleftrightarrow> find_rule_receipt db operation scope key = None"
proof -
  let ?f = "\<lambda>r. if rrc_ID r = i \<and> rrc_Snapshot r = None then r\<lparr>rrc_Snapshot := Some s\<rparr> else r"
  from assms have "cdb_RuleReceipts db' = map ?f (cdb_RuleReceipts db)"
    by (auto simp: Receipt_Complete_def split: if_splits)
  then show ?thesis by (simp add: find_rule_receipt_def) (rule find_map_None, simp)
qed

lemma freeze_result_receipts:
  assumes "freeze_result i item db = Inr (x, db')"
  shows "(find_rule_receipt db' operation scope key = None \<longleftrightarrow> find_rule_receipt db operation scope key = None) \<and>
    cdb_ClaimReceipts db' = cdb_ClaimReceipts db"
proof -
  from assms have c: "Receipt_Complete i item db = Inr ((), db')"
    by (auto simp: freeze_result_def split: if_splits sum.splits)
  then have "cdb_ClaimReceipts db' = cdb_ClaimReceipts db" by (auto simp: Receipt_Complete_def split: if_splits)
  with Receipt_Complete_find [OF c] show ?thesis by simp
qed

lemma Receipt_Reserve_new:
  assumes "Receipt_Reserve operation scope key payload db = Inr ((r, True), db')"
  shows "receipts_grow db db' \<and> find_rule_receipt db' operation scope key \<noteq> None"
  using assms
  by (auto simp: Receipt_Reserve_def Let_def receipts_grow_def find_rule_receipt_def find_append
      split: option.splits if_splits)

text \<open>What a receipted transaction does to the receipts.\<close>

lemma rule_run_receipts:
  assumes "rule_run env operation actor key db db'"
  shows "receipts_grow db db' \<and> cdb_ClaimReceipts db' = cdb_ClaimReceipts db \<and>
    find_rule_receipt db' operation (admin_scope actor) (Sum256 key) \<noteq> None \<and>
    (find_rule_receipt db operation (admin_scope actor) (Sum256 key) \<noteq> None \<longrightarrow> db' = db)"
proof -
  from assms obtain payload finish step item where step: "rule_tx_of env operation actor key step"
    and tx: "receipted_rule_tx operation actor key payload finish step db = Inr (item, db')"
    by (auto simp: rule_run_def)
  from tx show ?thesis
  proof (cases rule: receipted_rule_tx_cases)
    case (replayed r)
    then show ?thesis by (simp add: same_receipts_grow)
  next
    case (stepped r db1 db2 db3 c changed)
    have same: "same_receipts db1 db3"
      using rule_tx_of_receipts [OF step stepped(3)] record_change_receipts [OF stepped(6)] by (rule same_receipts_trans)
    have finds: "find_rule_receipt db' o' s' k' = None \<longleftrightarrow> find_rule_receipt db1 o' s' k' = None" for o' s' k'
      using freeze_result_receipts [OF stepped(7)] same by (simp add: same_receipts_def find_rule_receipt_def)
    have claims: "cdb_ClaimReceipts db' = cdb_ClaimReceipts db1"
      using freeze_result_receipts [OF stepped(7)] same by (simp add: same_receipts_def)
    have "cdb_ClaimReceipts db1 = cdb_ClaimReceipts db" using stepped(1)
      by (auto simp: Receipt_Reserve_def Let_def split: option.splits if_splits)
    with Receipt_Reserve_new [OF stepped(1)] finds claims stepped(2) show ?thesis
      by (simp add: receipts_grow_def)
  qed
qed

lemma appendClaimFact_receipts: "appendClaimFact c r operation scope payload key db = Inr (x, db') \<Longrightarrow> same_receipts db db'"
  by (auto simp: appendClaimFact_def Let_def same_receipts_def split: if_splits)

lemma record_step_receipts:
  assumes "record_step operation scope key payload row s db = Inr (x, db')"
  shows "same_receipts db db'"
proof -
  from assms obtain db1 where r: "recordRedemptionReceipt operation scope key payload (rdm_ID row) s db = Inr ((), db1)"
    and a: "appendClaimFact (rdm_ClaimID row) (rdm_ID row) operation scope payload key db1 = Inr ((), db')"
    by (auto simp: record_step_def split: sum.splits prod.splits)
  from r have "same_receipts db db1"
    by (auto simp: recordRedemptionReceipt_def same_receipts_def split: if_splits)
  with appendClaimFact_receipts [OF a] show ?thesis by (blast intro: same_receipts_trans)
qed

lemma settle_rows_receipts: "settle_rows row claim db = Inr (x, db') \<Longrightarrow> same_receipts db db'"
  by (auto simp: settle_rows_def same_receipts_def split: if_splits)

lemma checkout_receipts:
  "ReserveCoupon env rc key payload at db = Inr (s, db') \<Longrightarrow> same_receipts db db'"
  "ConsumeCoupon cc key payload at db = Inr (s, db') \<Longrightarrow> same_receipts db db'"
  "ReleaseCoupon lc key payload at db = Inr (s, db') \<Longrightarrow> same_receipts db db'"
proof -
  assume "ReserveCoupon env rc key payload at db = Inr (s, db')"
  then show "same_receipts db db'"
  proof (cases rule: ReserveCoupon_cases)
    case (reserved ids claim rule db2)
    from reserved(5) have "same_receipts db db2"
      by (auto simp: insert_redemption_def same_receipts_def split: if_splits)
    with record_step_receipts [OF reserved(7)] show ?thesis by (blast intro: same_receipts_trans)
  qed simp_all
next
  assume "ConsumeCoupon cc key payload at db = Inr (s, db')"
  then show "same_receipts db db'"
    by (cases rule: ConsumeCoupon_cases) (auto intro: same_receipts_trans dest: settle_rows_receipts record_step_receipts)
next
  assume "ReleaseCoupon lc key payload at db = Inr (s, db')"
  then show "same_receipts db db'"
    by (cases rule: ReleaseCoupon_cases) (auto intro: same_receipts_trans dest: settle_rows_receipts record_step_receipts)
qed

subsection \<open>Claims\<close>

definition receipt_of_claim :: "claim_command \<Rightarrow> customer_coupon \<Rightarrow> w32 list \<Rightarrow> w32 list \<Rightarrow> claim_receipt" where
  "receipt_of_claim c item key payload = \<lparr>crc_ActorScope = clc_ActorScope c, crc_KeyDigest = key,
     crc_PayloadDigest = payload, crc_ClaimID = ccp_ClaimID item, crc_Snapshot = item\<rparr>"

lemma record_claim_receipts:
  assumes "record_claim c item key payload db = Inr (x, db')"
  shows "cdb_RuleReceipts db' = cdb_RuleReceipts db \<and>
    cdb_ClaimReceipts db' = cdb_ClaimReceipts db @ [receipt_of_claim c item key payload]"
proof -
  from assms have "appendClaimFact (ccp_ClaimID item) 0 ''claim'' (clc_ActorScope c) payload key
      (db\<lparr>cdb_ClaimReceipts := cdb_ClaimReceipts db @ [receipt_of_claim c item key payload]\<rparr>) = Inr ((), db')"
    by (auto simp: record_claim_def receipt_of_claim_def split: if_splits sum.splits prod.splits)
  from appendClaimFact_receipts [OF this] show ?thesis by (simp add: same_receipts_def)
qed

lemma issued_receipts:
  assumes count: "count_issue i at db = Inr (row, db1)"
    and insert: "insert_claim env c k at start until key payload db1 = Inr (j, db2)"
    and recorded: "record_claim c item key payload db2 = Inr (x, db')" and item: "ccp_ClaimID item = j"
  shows "cdb_RuleReceipts db' = cdb_RuleReceipts db \<and>
    cdb_ClaimReceipts db' = cdb_ClaimReceipts db @ [receipt_of_claim c item key payload] \<and>
    new_claim c j k at start until key payload \<in> set (cdb_Claims db') \<and> j = clm_ID (new_claim c j k at start until key payload)"
proof -
  from count have "same_receipts db db1"
    by (auto simp: count_issue_def split: sum.splits if_splits dest: update_rule_receipts)
  moreover from insert have "same_receipts db1 db2" "new_claim c j k at start until key payload \<in> set (cdb_Claims db2)"
    by (auto simp: insert_claim_def Let_def same_receipts_def split: if_splits)
  moreover have "cdb_Claims db' = cdb_Claims db2" using record_claim_books [OF recorded] by (simp add: same_books_def)
  ultimately show ?thesis using record_claim_receipts [OF recorded] item
    by (simp add: same_receipts_def new_claim_def)
qed

lemma known_receipt:
  assumes "receipts_known db" "find_claim_receipt db scope key = Some r"
  shows "\<exists>claim. claim_by_id db (crc_ClaimID r) = Some claim"
proof -
  from assms have "crc_ClaimID r \<in> clm_ID ` set (cdb_Claims db)"
    by (auto simp: receipts_known_def find_claim_receipt_def list_all_iff find_Some_iff)
  then show ?thesis by (cases "claim_by_id db (crc_ClaimID r)") (auto simp: claim_by_id_def find_None_iff)
qed

lemma findClaimReceipt_used:
  assumes "receipts_known db" "findClaimReceipt db c ids key payload = Inr None"
  shows "find_claim_receipt db (clc_ActorScope c) key = None"
proof (cases "find_claim_receipt db (clc_ActorScope c) key")
  case (Some r)
  with known_receipt [OF assms(1) Some] assms(2) show ?thesis
    by (auto simp: findClaimReceipt_def split: if_splits)
qed

lemma ClaimCoupon_receipts:
  assumes known: "receipts_known db" and claim: "ClaimCoupon env c key payload at db = Inr (item, db')"
  shows "receipts_grow db db' \<and> find_claim_receipt db' (clc_ActorScope c) key \<noteq> None \<and>
    (find_claim_receipt db (clc_ActorScope c) key \<noteq> None \<longrightarrow> db' = db)"
  using claim
proof (cases rule: ClaimCoupon_cases)
  case (replayed ids)
  then have "find_claim_receipt db (clc_ActorScope c) key \<noteq> None"
    by (auto simp: findClaimReceipt_def split: option.splits)
  with replayed show ?thesis by (simp add: same_receipts_grow)
next
  case (issued ids rule start until row db1 i db2)
  have "ccp_ClaimID item = i" by (simp add: issued(9) claimed_item_def)
  from issued_receipts [OF issued(7,8,10) this] findClaimReceipt_used [OF known issued(2)] show ?thesis
    by (simp add: receipts_grow_def find_rule_receipt_def find_claim_receipt_def find_append receipt_of_claim_def)
qed

subsection \<open>The laws\<close>

lemma share_receipts:
  assumes "EnsurePublicCouponSlug i slug actor at db = Inr (x, db')"
  shows "same_receipts db db'"
  using assms
  by (cases rule: share_books) (auto simp: same_receipts_def dest!: update_rule_receipts)

lemma coupon_exec_receipts:
  assumes known: "receipts_known db" and exec: "coupon_exec db (env, call) = Inr db'"
  shows "receipts_grow db db'"
proof (cases "rule_key_of call")
  case (Some k)
  then obtain operation actor key where "rule_key_of call = Some (operation, actor, key)" by (cases k) auto
  with rule_run_receipts [OF coupon_exec_rule [OF exec]] show ?thesis by blast
next
  case None
  with exec show ?thesis
    by (cases rule: coupon_exec_other)
      (auto intro: same_receipts_grow share_receipts checkout_receipts dest: ClaimCoupon_receipts [OF known])
qed

lemma claims_after_ids: "claims_after db db' \<Longrightarrow> clm_ID ` set (cdb_Claims db) \<subseteq> clm_ID ` set (cdb_Claims db')"
proof
  fix i
  assume "claims_after db db'" "i \<in> clm_ID ` set (cdb_Claims db)"
  then obtain a b where ab: "clm_ID a = i" "b \<in> set (cdb_Claims db')" "later_claim a b"
    by (auto simp: claims_after_def)
  from ab(1,3) have "clm_ID b = i" by (simp add: later_claim_def same_claim_def)
  with imageI [OF ab(2), of clm_ID] show "i \<in> clm_ID ` set (cdb_Claims db')" by simp
qed

lemma receipts_known_step:
  assumes valid: "coupon_valid db" and exec: "coupon_exec db (env, call) = Inr db'"
  shows "receipts_known db'"
proof -
  from valid have inv: "coupon_inv db" and known: "receipts_known db" by (simp_all add: coupon_valid_def)
  have ids: "clm_ID ` set (cdb_Claims db) \<subseteq> clm_ID ` set (cdb_Claims db')"
    using coupon_exec_after [OF inv exec] by (simp add: coupon_after_def claims_after_ids)
  have same: "receipts_known db'" if "cdb_ClaimReceipts db' = cdb_ClaimReceipts db"
    using known ids that by (auto simp: receipts_known_def list_all_iff)
  show ?thesis
  proof (cases "rule_key_of call")
    case (Some k)
    then obtain operation actor key where "rule_key_of call = Some (operation, actor, key)" by (cases k) auto
    with rule_run_receipts [OF coupon_exec_rule [OF exec]] show ?thesis by (blast intro: same)
  next
    case None
    with exec show ?thesis
    proof (cases rule: coupon_exec_other)
      case (claim c holder at item)
      from claim(3) show ?thesis
      proof (cases rule: ClaimCoupon_cases)
        case (issued ids' rule start until row db1 i db2)
        have "ccp_ClaimID item = i" by (simp add: issued(9) claimed_item_def)
        from issued_receipts [OF issued(7,8,10) this] known ids this show ?thesis
          by (fastforce simp: receipts_known_def list_all_iff receipt_of_claim_def)
      next
        case (replayed ids')
        then show ?thesis by (intro same) simp
      qed
    qed (auto intro!: same dest: share_receipts checkout_receipts simp: same_receipts_def)
  qed
qed

lemma coupon_valid_step: "coupon_valid db \<Longrightarrow> coupon_exec db (env, call) = Inr db' \<Longrightarrow> coupon_valid db'"
  by (auto simp: coupon_valid_def intro: coupon_exec_inv receipts_known_step)

lemma coupon_used_step:
  assumes "coupon_valid db" "coupon_exec db (env, call) = Inr db'" "coupon_used db k"
  shows "coupon_used db' k"
proof -
  have "receipts_grow db db'" using assms coupon_exec_receipts by (auto simp: coupon_valid_def)
  with assms(3) show ?thesis
    by (cases k) (auto simp: receipts_grow_def find_claim_receipt_def find_append split: option.splits)
qed

lemma coupon_key_laws:
  assumes valid: "coupon_valid db" and key: "coupon_key_of (env, call) = Some k"
    and exec: "coupon_exec db (env, call) = Inr db'"
  shows "coupon_used db' k \<and> (coupon_used db k \<longrightarrow> db' = db)"
proof (cases "rule_key_of call")
  case (Some y)
  then obtain operation actor ikey where y: "rule_key_of call = Some (operation, actor, ikey)" by (cases y) auto
  with key have "k = RuleKey operation (admin_scope actor) (Sum256 ikey)" by (simp add: coupon_key_of_def)
  with rule_run_receipts [OF coupon_exec_rule [OF exec y]] show ?thesis by simp
next
  case None
  with key obtain c where c: "call = CallClaim c" "k = ClaimKey (clc_ActorScope c) (Sum256 (clc_IdempotencyKey c))"
    by (auto simp: coupon_key_of_def split: coupon_call.splits)
  have known: "receipts_known db" using valid by (simp add: coupon_valid_def)
  from exec None show ?thesis
    by (cases rule: coupon_exec_other) (use c in \<open>auto dest: ClaimCoupon_receipts [OF known]\<close>)
qed

interpretation coupons: receipted_commands coupon_exec coupon_valid coupon_key_of coupon_used
proof unfold_locales
  fix s c s'
  assume "coupon_valid s" "coupon_exec s c = Inr s'"
  then show "coupon_valid s'" by (cases c) (auto intro: coupon_valid_step)
next
  fix s c s' k
  assume "coupon_valid s" "coupon_exec s c = Inr s'" "coupon_used s k"
  then show "coupon_used s' k" by (cases c) (auto intro: coupon_used_step)
next
  fix s c s' k
  assume "coupon_valid s" "coupon_key_of c = Some k" "coupon_used s k" "coupon_exec s c = Inr s'"
  then show "s' = s" by (cases c) (auto dest: coupon_key_laws)
next
  fix s c s' k
  assume "coupon_valid s" "coupon_key_of c = Some k" "coupon_exec s c = Inr s'"
  then show "coupon_used s' k" by (cases c) (auto dest: coupon_key_laws)
qed

end
