(* ===== verification/CouponProps.thy ===== *)
theory CouponProps
  imports CouponReplay
begin

text \<open>
  The properties of the coupon component, over every history of calls from the empty tables, and
  the concrete tables on which the conditional ones are applied.
\<close>

abbreviation coupons_of :: "(coupon_env \<times> coupon_call) list \<Rightarrow> coupon_db" where
  "coupons_of calls \<equiv> run coupon_exec empty_coupons calls"

text \<open>C30. The coupon books balance, as long as only the services modelled here write them: the management of
  rules, public links, claims of customers, and reservations, consumptions and releases by checkouts,
  from empty tables.  Whatever is asked of these, in any order, with any clock, product
  prices, customer lineages and concurrent locks: the counter of every rule is the number of claims of
  it, it does not exceed the rule's total, and no customer holds more claims of a rule than the rule
  allows per customer.  (The one-off imports of the cutover set counters and add claims by themselves.)\<close>

theorem coupon_books_balance:
  "list_all (\<lambda>r. cpn_IssuedCount r = claims_of (coupons_of calls) (cpn_ID r) \<and>
      cpn_IssuedCount r \<le> cpn_TotalIssueLimit r \<and>
      (\<forall>customer. held_claims (coupons_of calls) (cpn_ID r) [customer] \<le> cpn_PerUserIssueLimit r))
    (cdb_Rules (coupons_of calls))"
proof -
  have "coupon_inv (coupons_of calls)" by (simp add: coupon_run_inv)
  then show ?thesis
    by (auto simp: list_all_iff counted_def rule_checks_def dest!: inv_rule)
qed

text \<open>C31. One coupon, one order.  In every state that calls reach, a claim has at most one
  redemption that is reserved or consumed, an order reference has at most one redemption at all, a
  redemption splits the gross amount into a positive discount and a positive payable amount, and
  a claim is reserved or redeemed exactly when a redemption of it is reserved or consumed.\<close>

theorem one_coupon_one_order:
  "distinct (map rdm_ClaimID (filter live_redemption (cdb_Redemptions (coupons_of calls)))) \<and>
   distinct (map rdm_OrderReference (cdb_Redemptions (coupons_of calls))) \<and>
   list_all (\<lambda>r. 0 < rdm_DiscountAmountMinor r \<and> 0 < rdm_PayableAmountMinor r \<and>
      rdm_PayableAmountMinor r + rdm_DiscountAmountMinor r = rdm_GrossAmountMinor r) (cdb_Redemptions (coupons_of calls)) \<and>
   list_all (\<lambda>c. (clm_Status c = ClaimReserved \<longleftrightarrow> redemption_with (coupons_of calls) RedemptionReserved (clm_ID c)) \<and>
      (clm_Status c = ClaimRedeemed \<longleftrightarrow> redemption_with (coupons_of calls) RedemptionConsumed (clm_ID c)))
     (cdb_Claims (coupons_of calls))"
proof -
  have inv: "coupon_inv (coupons_of calls)" by (simp add: coupon_run_inv)
  then have checks: "redemption_checks r" if "r \<in> set (cdb_Redemptions (coupons_of calls))" for r
    using that by (auto simp: coupon_inv_def redemptions_ok_def list_all_iff)
  from inv show ?thesis
    unfolding coupon_inv_def redemptions_ok_def redemptions_unique_def coupled_def
    by (auto simp: list_all_iff redemption_checks_def dest!: checks)
qed

text \<open>C32. What has been issued stays.  Whatever calls follow a history: a rule that has been issued
  is still there with its name, discount, limit per customer, dates, validity, instructions and
  targets, and a total that has not shrunk; a claim keeps its owner, rule and validity, and once
  redeemed does not change again; a redemption keeps its order, product, rule version and amounts,
  and once consumed or released does not change again.\<close>

theorem issued_coupons_stay:
  "list_all (\<lambda>r. list_ex (same_terms r) (cdb_Rules (run coupon_exec (coupons_of calls) next_calls)))
     (filter (\<lambda>r. 0 < cpn_IssuedCount r) (cdb_Rules (coupons_of calls))) \<and>
   list_all (\<lambda>c. list_ex (later_claim c) (cdb_Claims (run coupon_exec (coupons_of calls) next_calls)))
     (cdb_Claims (coupons_of calls)) \<and>
   list_all (\<lambda>r. list_ex (later_redemption r) (cdb_Redemptions (run coupon_exec (coupons_of calls) next_calls)))
     (cdb_Redemptions (coupons_of calls))"
proof -
  have "coupon_inv (coupons_of calls)" by (simp add: coupon_run_inv)
  from coupon_run_after [OF this, of next_calls] show ?thesis
    by (simp add: coupon_after_def rules_after_def claims_after_def redemptions_after_def list_all_iff list_ex_iff)
qed

subsection \<open>Retrying a claim\<close>

lemma receipts_grow_trans: "receipts_grow a b \<Longrightarrow> receipts_grow b c \<Longrightarrow> receipts_grow a c"
  by (auto simp: receipts_grow_def)

lemma coupon_run_receipts:
  assumes "coupon_valid db"
  shows "coupon_valid (run coupon_exec db calls) \<and> receipts_grow db (run coupon_exec db calls) \<and>
    coupon_after db (run coupon_exec db calls)"
proof (rule run_invariant [where P = "\<lambda>s. coupon_valid s \<and> receipts_grow db s \<and> coupon_after db s"])
  show "coupon_valid db \<and> receipts_grow db db \<and> coupon_after db db"
    using assms by (simp add: same_receipts_grow)
next
  fix s c s'
  assume s: "coupon_valid s \<and> receipts_grow db s \<and> coupon_after db s" and exec: "coupon_exec s c = Inr s'"
  obtain env call where c: "c = (env, call)" by force
  from s have "receipts_known s" "coupon_inv s" by (simp_all add: coupon_valid_def)
  with s exec c show "coupon_valid s' \<and> receipts_grow db s' \<and> coupon_after db s'"
    by (blast intro: coupon_valid_step receipts_grow_trans coupon_exec_receipts coupon_after_trans coupon_exec_after)
qed

text \<open>A receipt that answers a command answers it in every later state and for every family that
  has not lost a member.\<close>

definition answers :: "coupon_db \<Rightarrow> claim_command \<Rightarrow> int list \<Rightarrow> w32 list \<Rightarrow> customer_coupon \<Rightarrow> bool" where
  "answers db c ids key item \<longleftrightarrow> (\<exists>r claim. find_claim_receipt db (clc_ActorScope c) key = Some r \<and>
     claim_by_id db (crc_ClaimID r) = Some claim \<and> crc_Snapshot r = item \<and> clm_CustomerID claim \<in> set ids \<and>
     clm_CouponID claim = clc_CouponID c \<and> ccp_ClaimID item = clm_ID claim \<and> ccp_CouponID item = clm_CouponID claim \<and>
     claimPayloadMatchesLineage c ids (crc_PayloadDigest r))"

lemma claim_by_id_Some: "claims_ok db \<Longrightarrow> c \<in> set (cdb_Claims db) \<Longrightarrow> claim_by_id db (clm_ID c) = Some c"
proof -
  assume ok: "claims_ok db" and c: "c \<in> set (cdb_Claims db)"
  then have inj: "inj_on clm_ID (set (cdb_Claims db))" by (simp add: claims_ok_def distinct_map)
  obtain x where x: "claim_by_id db (clm_ID c) = Some x"
    using c by (cases "claim_by_id db (clm_ID c)") (auto simp: claim_by_id_def find_None_iff)
  from claim_by_idD [OF this] inj c have "x = c" by (auto dest: inj_onD)
  with x show ?thesis by simp
qed

lemma answers_later:
  assumes "answers db c ids key item" "set ids \<subseteq> set ids'" "receipts_grow db db'" "coupon_after db db'" "coupon_inv db'"
  shows "answers db' c ids' key item"
proof -
  from assms(1) obtain r claim where r: "find_claim_receipt db (clc_ActorScope c) key = Some r"
    and claim: "claim_by_id db (crc_ClaimID r) = Some claim" "crc_Snapshot r = item" "clm_CustomerID claim \<in> set ids"
      "clm_CouponID claim = clc_CouponID c" "ccp_ClaimID item = clm_ID claim" "ccp_CouponID item = clm_CouponID claim"
      "claimPayloadMatchesLineage c ids (crc_PayloadDigest r)"
    by (auto simp: answers_def)
  from r assms(3) have r': "find_claim_receipt db' (clc_ActorScope c) key = Some r"
    by (auto simp: find_claim_receipt_def receipts_grow_def find_append)
  from claim_by_idD [OF claim(1)] assms(4) obtain claim' where later: "claim' \<in> set (cdb_Claims db')" "later_claim claim claim'"
    by (auto simp: coupon_after_def claims_after_def)
  moreover from later(2) claim_by_idD [OF claim(1)] have "clm_ID claim' = crc_ClaimID r"
    by (simp add: later_claim_def same_claim_def)
  ultimately have "claim_by_id db' (crc_ClaimID r) = Some claim'"
    using claim_by_id_Some [of db' claim'] assms(5) by (simp add: coupon_inv_def)
  with r' claim later(2) assms(2) show ?thesis
    by (auto simp: answers_def later_claim_def same_claim_def claimPayloadMatchesLineage_def list_ex_iff)
qed

lemma answers_found:
  "answers db c ids key item \<Longrightarrow> findClaimReceipt db c ids key payload = Inr (Some item)"
  by (auto simp: answers_def findClaimReceipt_def)

lemma ClaimCoupon_answers:
  assumes valid: "coupon_valid db" and ids: "couponCustomerIDs env (clc_HolderCustomerID c) = Inr ids"
    and payload: "payload = claim_payload (clc_CouponID c) (clc_HolderCustomerID c) (clc_ActorScope c)"
    and claim: "ClaimCoupon env c key payload at db = Inr (item, db')"
  shows "answers db' c ids key item"
  using claim
proof (cases rule: ClaimCoupon_cases)
  case (replayed ids')
  from couponCustomerIDs_nonempty [OF ids] payload have own: "claimPayloadMatchesLineage c ids payload"
    by (auto simp: claimPayloadMatchesLineage_def list_ex_iff)
  from replayed ids have "findClaimReceipt db c ids key payload = Inr (Some item)" by simp
  with own replayed(3) show ?thesis
    by (auto simp: answers_def findClaimReceipt_def split: option.splits if_splits)
next
  case (issued ids' rule start until row db1 i db2)
  let ?new = "new_claim c i (hd ids) at start until key payload"
  from issued ids have same: "ids' = ids" by simp
  have item: "ccp_ClaimID item = i" "ccp_CouponID item = cpn_ID rule" by (simp_all add: issued(9) claimed_item_def)
  note receipts = issued_receipts [OF issued(7,8,10) item(1), unfolded same]
  have known: "receipts_known db" using valid by (simp add: coupon_valid_def)
  from receipts findClaimReceipt_used [OF known issued(2)]
  have "find_claim_receipt db' (clc_ActorScope c) key = Some (receipt_of_claim c item key payload)"
    by (simp add: find_claim_receipt_def find_append receipt_of_claim_def)
  moreover have "claim_by_id db' i = Some ?new"
    using claim_by_id_Some [of db' ?new] receipts ClaimCoupon_inv [OF _ claim] valid
    by (simp add: coupon_valid_def coupon_inv_def)
  moreover have "claimPayloadMatchesLineage c ids payload"
    using couponCustomerIDs_nonempty [OF ids] payload by (auto simp: claimPayloadMatchesLineage_def list_ex_iff)
  ultimately show ?thesis
    using couponCustomerIDs_nonempty [OF ids] get_rule_SomeD [OF issued(3)] item receipts
    by (simp add: answers_def receipt_of_claim_def new_claim_def)
qed

lemma answers_cong [simp]:
  "answers db (c\<lparr>clc_ClaimedAt := a, clc_HolderCustomerID := h\<rparr>) ids key item = answers db c ids key item"
  "answers db (c\<lparr>clc_HolderCustomerID := h, clc_ClaimedAt := a\<rparr>) ids key item = answers db c ids key item"
  by (simp_all add: answers_def claimPayloadMatchesLineage_def)

lemma claim_holder_time [simp]: "claim_holder env (c\<lparr>clc_ClaimedAt := a\<rparr>) = claim_holder env c"
  by (simp add: claim_holder_def)

text \<open>C33. A claim can be retried.  When a claim has succeeded on valid tables, which all reachable ones
  are, the same command answers the same claim at any later time and changes nothing, whatever
  calls came in between: also after the rule has been sold out, stopped, archived or its claim
  window has closed, and after the family of the customer has grown by a merge.\<close>

theorem claim_retry_answers:
  assumes valid: "coupon_valid db" and claimed: "Claim env c db = Inr (item, db1)"
    and owner: "claim_holder env c = Inr holder" "couponCustomerIDs env holder = Inr ids"
    and retry: "claim_holder env' c = Inr holder'" "couponCustomerIDs env' holder' = Inr ids'" "set ids \<subseteq> set ids'"
    and clock: "checkoutTime (clc_ClaimedAt c) (cen_Now env') \<noteq> 0"
  shows "Claim env' c (run coupon_exec db1 calls) = Inr (item, run coupon_exec db1 calls)"
proof -
  let ?c = "c\<lparr>clc_ClaimedAt := checkoutTime (clc_ClaimedAt c) (cen_Now env), clc_HolderCustomerID := holder\<rparr>"
  have exec: "coupon_exec db (env, CallClaim c) = Inr db1" using claimed by auto
  from claimed owner have ok: "valid_claim (c\<lparr>clc_ClaimedAt := checkoutTime (clc_ClaimedAt c) (cen_Now env)\<rparr>)"
    and store: "ClaimCoupon env ?c (Sum256 (clc_IdempotencyKey c)) (claim_payload (clc_CouponID c) holder (clc_ActorScope c))
      (checkoutTime (clc_ClaimedAt c) (cen_Now env)) db = Inr (item, db1)"
    by (auto simp: Claim_def Let_def split: if_splits)
  have "answers db1 ?c ids (Sum256 (clc_IdempotencyKey c)) item"
    by (rule ClaimCoupon_answers [OF valid _ _ store]) (simp_all add: owner)
  with coupon_run_receipts [OF coupon_valid_step [OF valid exec], of calls] retry(3)
  have found: "answers (run coupon_exec db1 calls) c ids' (Sum256 (clc_IdempotencyKey c)) item"
    by (auto simp: coupon_valid_def intro: answers_later)
  then have "ClaimCoupon env' (c\<lparr>clc_ClaimedAt := at, clc_HolderCustomerID := holder'\<rparr>) (Sum256 (clc_IdempotencyKey c))
      payload at (run coupon_exec db1 calls) = Inr (item, run coupon_exec db1 calls)" for payload at
    by (simp add: ClaimCoupon_def retry answers_found)
  moreover have "valid_claim (c\<lparr>clc_ClaimedAt := checkoutTime (clc_ClaimedAt c) (cen_Now env')\<rparr>)"
    using ok clock by (simp add: valid_claim_def is_zero_def)
  ultimately show ?thesis by (simp add: Claim_def Let_def retry checkout_answer_def)
qed

text \<open>Concrete tables: a published rule for one product.\<close>

definition sample_rule :: coupon where
  "sample_rule = zero_coupon\<lparr>cpn_ID := 1, cpn_Name := ''Gift'', cpn_DiscountAmountTotal := 500, cpn_Currency := ''CNY'',
     cpn_Status := ''published'', cpn_TotalIssueLimit := 10, cpn_PerUserIssueLimit := 2, cpn_ClaimStartsAt := 1000,
     cpn_ClaimEndsAt := 9000000, cpn_ValidityMode := ValidityFixedRange, cpn_UseStartsAt := Some 1000,
     cpn_UseEndsAt := Some 9000000, cpn_TargetRefs := [''standard_product:6''], cpn_CreatedBy := 3, cpn_UpdatedBy := 3,
     cpn_Version := 2, cpn_CreatedAt := 1000, cpn_UpdatedAt := 1000\<rparr>"

definition sample_coupons :: coupon_db where
  "sample_coupons = empty_coupons\<lparr>cdb_Rules := [sample_rule], cdb_NextRule := 2\<rparr>"

definition sample_coupon_env :: coupon_env where
  "sample_coupon_env = \<lparr>cen_Now = 5000000, cen_Products = \<lambda>_ _. None, cen_Lineage = None, cen_Subjects = None,
     cen_Customers = \<lambda>_. True, cen_Busy = \<lambda>_. False\<rparr>"

definition sample_claim :: claim_command where
  "sample_claim = \<lparr>clc_CouponID = 1, clc_HolderCustomerID = 7, clc_HolderIdentityID = 0, clc_ActorScope = ''customer:7'',
     clc_IdempotencyKey = ''claim-key-0000001'', clc_ClaimedAt = 0, clc_RecoveryOnly = False\<rparr>"

lemma target_check_sample: "target_check ''standard_product:6''"
  by (simp add: target_check_def is_digit_def)

lemma sample_checks: "0 \<le> n \<Longrightarrow> n \<le> 10 \<Longrightarrow> rule_checks (sample_rule\<lparr>cpn_IssuedCount := n, cpn_UpdatedAt := t\<rparr>)"
  by (simp add: rule_checks_def sample_rule_def zero_coupon_def pg_text_def target_check_sample max_int64_def)

lemma sample_coupons_valid: "coupon_valid sample_coupons"
proof -
  have "rule_checks sample_rule" using sample_checks [of 0 1000]
    by (simp add: sample_rule_def zero_coupon_def)
  moreover have "cpn_ID sample_rule = 1" "cpn_IssuedCount sample_rule = 0" "cpn_PerUserIssueLimit sample_rule = 2"
    by (simp_all add: sample_rule_def zero_coupon_def)
  ultimately show ?thesis
    by (simp add: coupon_valid_def coupon_inv_def rules_ok_def claims_ok_def counts_ok_def counted_def claims_of_def
        held_claims_def redemptions_ok_def redemptions_unique_def coupled_def receipts_known_def sample_coupons_def
        empty_coupons_def)
qed

lemma sample_times: "checkoutTime 0 5000000 = 5000000" "pg_time 5000000 = 5000000" "pg_time 9000000 = 9000000"
  "pg_time 1000 = 1000" "time_marshals 5000000" "time_marshals 9000000"
  by (simp_all add: checkoutTime_def trunc_time_def microsecond_def is_zero_def pg_time_def time_marshals_def)
   (code_simp)+

lemma sample_rule_simps [simp]:
  "cpn_ID sample_rule = 1" "cpn_Status sample_rule = ''published''" "cpn_TotalIssueLimit sample_rule = 10"
  "cpn_PerUserIssueLimit sample_rule = 2" "cpn_IssuedCount sample_rule = 0" "cpn_ClaimStartsAt sample_rule = 1000"
  "cpn_ClaimEndsAt sample_rule = 9000000" "cpn_ValidityMode sample_rule = ValidityFixedRange"
  "cpn_UseStartsAt sample_rule = Some 1000" "cpn_UseEndsAt sample_rule = Some 9000000"
  by (simp_all add: sample_rule_def zero_coupon_def)

lemma sample_tables [simp]:
  "cdb_Rules sample_coupons = [sample_rule]" "cdb_Claims sample_coupons = []" "cdb_NextClaim sample_coupons = 1"
  "cdb_ClaimReceipts sample_coupons = []" "cdb_ClaimFacts sample_coupons = []"
  by (simp_all add: sample_coupons_def empty_coupons_def)

lemma sample_env_simps [simp]:
  "cen_Now sample_coupon_env = 5000000" "cen_Lineage sample_coupon_env = None" "cen_Customers sample_coupon_env i"
  "cen_Busy sample_coupon_env i = False"
  by (simp_all add: sample_coupon_env_def)

lemma sample_claim_simps [simp]:
  "clc_CouponID sample_claim = 1" "clc_HolderCustomerID sample_claim = 7" "clc_HolderIdentityID sample_claim = 0"
  "clc_ActorScope sample_claim = ''customer:7''" "clc_IdempotencyKey sample_claim = ''claim-key-0000001''"
  "clc_ClaimedAt sample_claim = 0" "clc_RecoveryOnly sample_claim = False"
  by (simp_all add: sample_claim_def)

lemma sample_scope: "valid_checkout_key ''claim-key-0000001''" "valid_checkout_scope ''customer:7''"
  "valid_checkout_key ''reserve-key-00001''"
  by (simp_all add: valid_checkout_key_def valid_checkout_scope_def trim_space_printable printable_def)

lemma record_claim_fresh:
  assumes "ccp_ClaimedAt item = 5000000" "ccp_ValidFrom item = Some 5000000" "ccp_ValidUntil item = Some 9000000"
    "pg_text (clc_ActorScope c)" "cdb_ClaimFacts db = []"
  shows "\<exists>db'. record_claim c item key payload db = Inr (item, db')"
  using assms by (simp add: record_claim_def sample_times appendClaimFact_def Let_def)

lemma sample_claim_ok: "\<exists>item db1. Claim sample_coupon_env sample_claim sample_coupons = Inr (item, db1)"
proof -
  let ?c = "sample_claim\<lparr>clc_ClaimedAt := 5000000\<rparr>"
  let ?r = "sample_rule\<lparr>cpn_IssuedCount := 1, cpn_UpdatedAt := 5000000\<rparr>"
  let ?key = "Sum256 ''claim-key-0000001''" and ?payload = "claim_payload 1 7 ''customer:7''"
  let ?db1 = "sample_coupons\<lparr>cdb_Rules := [?r]\<rparr>"
  let ?row = "new_claim ?c 1 7 5000000 5000000 9000000 ?key ?payload"
  let ?db2 = "?db1\<lparr>cdb_Claims := [?row], cdb_NextClaim := 2\<rparr>"
  let ?item = "claimed_item 1 sample_rule 5000000 5000000 9000000"
  have rule: "get_rule sample_coupons 1 = Inr sample_rule" by (simp add: get_rule_def)
  have count: "count_issue 1 5000000 sample_coupons = Inr (?r, ?db1)"
    using sample_checks [of 1 5000000] by (simp add: count_issue_def rule update_rule_def Let_def put_rule_def sample_times)
  have insert: "insert_claim sample_coupon_env ?c 7 5000000 5000000 9000000 ?key ?payload ?db1 = Inr (1, ?db2)"
    by (simp add: insert_claim_def Let_def sample_times max_int64_def)
  obtain db' where recorded: "record_claim ?c ?item ?key ?payload ?db2 = Inr (?item, db')"
    using record_claim_fresh [of ?item ?c ?db2 ?key ?payload] by (auto simp: claimed_item_def pg_text_def)
  have "couponClaimValidity sample_rule 5000000 = Inr (5000000, 9000000)"
    by (simp add: couponClaimValidity_def after_def before_def)
  then have issue: "issue_claim sample_coupon_env ?c 7 sample_rule ?key ?payload 5000000 sample_coupons = Inr (?item, db')"
    by (simp add: issue_claim_def count insert recorded)
  have store: "ClaimCoupon sample_coupon_env ?c ?key ?payload 5000000 sample_coupons = Inr (?item, db')"
    by (simp add: ClaimCoupon_def couponCustomerIDs_def findClaimReceipt_def find_claim_receipt_def rule claimable_def
        held_claims_def issue before_def)
  have same: "sample_claim\<lparr>clc_ClaimedAt := 5000000, clc_HolderCustomerID := 7\<rparr> = ?c" by (simp add: sample_claim_def)
  have "ClaimCoupon sample_coupon_env (sample_claim\<lparr>clc_ClaimedAt := 5000000, clc_HolderCustomerID := 7\<rparr>) ?key ?payload
      5000000 sample_coupons = Inr (?item, db')"
    by (simp only: same store)
  moreover have "valid_claim ?c" by (simp add: valid_claim_def sample_scope is_zero_def)
  ultimately show ?thesis
    by (simp add: Claim_def Let_def sample_times claim_holder_def checkout_answer_def)
qed

text \<open>The retry comes after the rule has been stopped, at a later time, by a merged family.\<close>

definition later_coupon_env :: coupon_env where
  "later_coupon_env = sample_coupon_env\<lparr>cen_Now := 8000000, cen_Lineage := Some (\<lambda>_. Some [9, 7])\<rparr>"

theorem claim_retry_answers_witness:
  "\<exists>item db1. Claim sample_coupon_env sample_claim sample_coupons = Inr (item, db1) \<and>
     Claim later_coupon_env sample_claim (run coupon_exec db1 [(sample_coupon_env, CallStop 1 3 ''stop'')]) =
       Inr (item, run coupon_exec db1 [(sample_coupon_env, CallStop 1 3 ''stop'')])"
proof -
  obtain item db1 where claimed: "Claim sample_coupon_env sample_claim sample_coupons = Inr (item, db1)"
    using sample_claim_ok by blast
  have "Claim later_coupon_env sample_claim (run coupon_exec db1 [(sample_coupon_env, CallStop 1 3 ''stop'')]) =
       Inr (item, run coupon_exec db1 [(sample_coupon_env, CallStop 1 3 ''stop'')])"
    by (rule claim_retry_answers [OF sample_coupons_valid claimed, where holder = 7 and ids = "[7]" and holder' = 7
          and ids' = "[9, 7]"])
      (simp_all add: claim_holder_def couponCustomerIDs_def later_coupon_env_def checkoutTime_def is_zero_def
        trunc_time_def microsecond_def)
  with claimed show ?thesis by blast
qed

subsection \<open>Reserving\<close>

lemma claim_precedes_refl: "claim_precedes x x"
  by (simp add: claim_precedes_def Let_def)

lemma claim_precedes_total: "\<not> claim_precedes x y \<Longrightarrow> claim_precedes y x"
  by (auto simp: claim_precedes_def Let_def)

lemma claim_precedes_trans: "claim_precedes x y \<Longrightarrow> claim_precedes y z \<Longrightarrow> claim_precedes x z"
  unfolding claim_precedes_def Let_def by (elim disjE conjE) simp_all

lemma first_claim_least: "first_claim xs = Some x \<Longrightarrow> y \<in> set xs \<Longrightarrow> claim_precedes x y"
proof (induction xs arbitrary: x y)
  case (Cons z zs)
  show ?case
  proof (cases "first_claim zs")
    case None
    then have "zs = []" by (cases zs) (auto split: option.splits)
    with Cons.prems show ?thesis by (simp add: claim_precedes_refl)
  next
    case (Some w)
    with Cons.prems(1) have x: "x = (if claim_precedes z w then z else w)" by simp
    have w: "claim_precedes w v" if "v \<in> set zs" for v by (rule Cons.IH [OF Some that])
    from Cons.prems(2) consider "y = z" | "y \<in> set zs" by auto
    then show ?thesis
      by cases (auto simp: x claim_precedes_refl intro: claim_precedes_total claim_precedes_trans w)
  qed
qed simp

text \<open>C34. A reservation takes the best coupon.  When an order reserves a coupon with a new key, the
  claim belongs to the family of the holder, is open and valid at that time for a published rule
  of the product, and is first among all such claims that no other transaction has locked: the
  largest discount, then the earliest end.  The order pays the rest, at least one cent.\<close>

theorem reservation_takes_best:
  assumes reserved: "ReserveWithin env c db = Inr (s, db')" and applied: "rsv_CouponApplied s"
    and fresh: "find_redemption_receipt db ''reserve'' (rvc_ActorScope c) (Sum256 (rvc_IdempotencyKey c)) = None"
  shows "\<exists>ids claim rule. let at = checkoutTime (rvc_ReservedAt c) (cen_Now env);
      candidates = filter (\<lambda>x. eligible_claim (c\<lparr>rvc_ReservedAt := at\<rparr>) ids x \<and> \<not> cen_Busy env (clm_ID (fst x))) (joined_claims db) in
    couponCustomerIDs env (rvc_HolderCustomerID c) = Inr ids \<and> (claim, rule) \<in> set candidates \<and>
    list_all (\<lambda>(c', r). cpn_DiscountAmountTotal r < cpn_DiscountAmountTotal rule \<or>
      cpn_DiscountAmountTotal r = cpn_DiscountAmountTotal rule \<and> claim_until claim \<le> claim_until c') candidates \<and>
    rsv_ClaimID s = clm_ID claim \<and>
    rsv_DiscountAmountMinor s = min (cpn_DiscountAmountTotal rule) (rvc_GrossAmountMinor c - 1) \<and>
    rsv_PayableAmountMinor s = rvc_GrossAmountMinor c - rsv_DiscountAmountMinor s \<and> 1 \<le> rsv_PayableAmountMinor s"
proof -
  define at where "at = checkoutTime (rvc_ReservedAt c) (cen_Now env)"
  let ?c = "c\<lparr>rvc_ReservedAt := at\<rparr>"
  from reserved have "ReserveCoupon env ?c (Sum256 (rvc_IdempotencyKey c)) (reserve_payload (rvc_HolderCustomerID c) ?c) at db = Inr (s, db')"
    by (auto simp: ReserveWithin_def Let_def at_def [symmetric] split: if_splits sum.splits)
  then show ?thesis
  proof (cases rule: ReserveCoupon_cases)
    case (replayed ids)
    with fresh show ?thesis by (simp add: findReservationReceipt_def)
  next
    case (original ids)
    with applied show ?thesis by (simp add: original_price_def)
  next
    case (reserved ids claim rule db2)
    let ?candidates = "filter (\<lambda>x. eligible_claim ?c ids x \<and> \<not> cen_Busy env (clm_ID (fst x))) (joined_claims db)"
    from reserved(4) have first: "first_claim ?candidates = Some (claim, rule)" by (simp add: selectReservationClaim_def)
    have "list_all (\<lambda>(c', r). cpn_DiscountAmountTotal r < cpn_DiscountAmountTotal rule \<or>
      cpn_DiscountAmountTotal r = cpn_DiscountAmountTotal rule \<and> claim_until claim \<le> claim_until c') ?candidates"
      unfolding list_all_iff
    proof (intro ballI)
      fix y
      assume "y \<in> set ?candidates"
      from first_claim_least [OF first this] show "case y of (c', r) \<Rightarrow> cpn_DiscountAmountTotal r < cpn_DiscountAmountTotal rule \<or>
          cpn_DiscountAmountTotal r = cpn_DiscountAmountTotal rule \<and> claim_until claim \<le> claim_until c'"
        by (cases y) (auto simp: claim_precedes_def Let_def)
    qed
    moreover have "1 \<le> rsv_PayableAmountMinor s" by (simp add: reserved(6) snapshot_of_def reserved_row_def Let_def)
    ultimately show ?thesis
      using reserved(1,6) first_claim_in [OF first]
      by (intro exI [of _ ids] exI [of _ claim] exI [of _ rule])
        (simp add: Let_def at_def [symmetric] snapshot_of_def reserved_row_def)
  qed
qed

text \<open>Two open claims of one customer, under rules with different discounts.\<close>

definition better_rule :: coupon where
  "better_rule = sample_rule\<lparr>cpn_ID := 2, cpn_DiscountAmountTotal := 800\<rparr>"

definition open_row :: "int \<Rightarrow> int \<Rightarrow> claim_row" where
  "open_row i coupon = \<lparr>clm_ID = i, clm_SourceKey = format_int i, clm_CustomerID = 7, clm_CouponID = coupon,
     clm_Status = ClaimAvailable, clm_ClaimedAt = 2000, clm_ReservedAt = None, clm_ValidFrom = Some 2000,
     clm_ValidUntil = Some 9000000, clm_RedeemedAt = None, clm_ExpiredAt = None, clm_Digest = []\<rparr>"

definition two_coupons :: coupon_db where
  "two_coupons = empty_coupons\<lparr>cdb_Rules := [sample_rule, better_rule], cdb_NextRule := 3,
     cdb_Claims := [open_row 1 1, open_row 2 2], cdb_NextClaim := 3\<rparr>"

definition sample_reserve :: reserve_command where
  "sample_reserve = \<lparr>rvc_HolderCustomerID = 7, rvc_ClaimID = 0, rvc_ProductID = 6, rvc_ProductCode = ''p6'',
     rvc_ProductType = ''standard_product'', rvc_GrossAmountMinor = 700, rvc_Currency = ''CNY'',
     rvc_OrderReference = ''order-1'', rvc_ActorScope = ''customer:7'', rvc_IdempotencyKey = ''reserve-key-00001'',
     rvc_ReservedAt = 0\<rparr>"

lemma sample_reserve_simps [simp]:
  "rvc_HolderCustomerID sample_reserve = 7" "rvc_ClaimID sample_reserve = 0" "rvc_ProductID sample_reserve = 6"
  "rvc_ProductCode sample_reserve = ''p6''" "rvc_ProductType sample_reserve = ''standard_product''"
  "rvc_GrossAmountMinor sample_reserve = 700" "rvc_Currency sample_reserve = ''CNY''"
  "rvc_OrderReference sample_reserve = ''order-1''" "rvc_ActorScope sample_reserve = ''customer:7''"
  "rvc_IdempotencyKey sample_reserve = ''reserve-key-00001''" "rvc_ReservedAt sample_reserve = 0"
  by (simp_all add: sample_reserve_def)

text \<open>The discount of 800 exceeds the price of 700, so the order pays one cent.\<close>

lemma sample_reserve_ok:
  "\<exists>s db'. ReserveWithin sample_coupon_env sample_reserve two_coupons = Inr (s, db') \<and> rsv_CouponApplied s \<and>
     rsv_ClaimID s = 2 \<and> rsv_PayableAmountMinor s = 1"
proof -
  let ?c = "sample_reserve\<lparr>rvc_ReservedAt := 5000000\<rparr>"
  let ?key = "Sum256 ''reserve-key-00001''" and ?payload = "reserve_payload 7 ?c"
  let ?row = "reserved_row ?c 1 (open_row 2 2) better_rule 5000000"
  let ?s = "snapshot_of ?row 2"
  have "get_rule two_coupons 1 = Inr sample_rule" "get_rule two_coupons 2 = Inr better_rule"
    by (simp_all add: get_rule_def two_coupons_def better_rule_def)
  then have joined: "joined_claims two_coupons = [(open_row 1 1, sample_rule), (open_row 2 2, better_rule)]"
    by (simp add: joined_claims_def) (simp add: two_coupons_def open_row_def)
  have "format_int 6 = ''6''" by code_simp
  then have "reserve_target ?c = ''standard_product:6''"
    by (simp add: reserve_target_def)
  then have "eligible_claim ?c [7] (open_row 1 1, sample_rule)" "eligible_claim ?c [7] (open_row 2 2, better_rule)"
    by (simp_all add: eligible_claim_def open_row_def open_claim_def valid_at_def better_rule_def)
      (simp_all add: sample_reserve_def sample_rule_def zero_coupon_def)
  then have select: "selectReservationClaim sample_coupon_env two_coupons ?c [7] = Some (open_row 2 2, better_rule)"
    by (simp add: selectReservationClaim_def joined claim_precedes_def Let_def better_rule_def)
      (simp add: sample_rule_def zero_coupon_def)
  have checks: "redemption_checks ?row"
    by (simp add: redemption_checks_def reserved_row_def Let_def sample_reserve_def better_rule_def open_row_def pg_text_def)
      (simp add: sample_rule_def zero_coupon_def)
  have tables: "cdb_Redemptions two_coupons = []" "cdb_RedemptionReceipts two_coupons = []" "cdb_ClaimFacts two_coupons = []"
    "cdb_NextRedemption two_coupons = 1"
    by (simp_all add: two_coupons_def empty_coupons_def)
  have id: "rdm_ID ?row = 1" by (simp add: reserved_row_def Let_def)
  have "\<exists>db'. apply_reservation ?c (open_row 2 2) better_rule ?key ?payload 5000000 two_coupons = Inr (?s, db')"
    by (simp add: apply_reservation_def Let_def tables insert_redemption_def checks id redemptions_unique_def max_int64_def
        record_step_def recordRedemptionReceipt_def appendClaimFact_def pg_text_def)
      (simp add: better_rule_def sample_reserve_def sample_rule_def zero_coupon_def pg_text_def)
  then obtain db' where applied: "apply_reservation ?c (open_row 2 2) better_rule ?key ?payload 5000000 two_coupons = Inr (?s, db')"
    by blast
  have "ReserveCoupon sample_coupon_env ?c ?key ?payload 5000000 two_coupons = Inr (?s, db')"
    by (simp add: ReserveCoupon_def couponCustomerIDs_def findReservationReceipt_def find_redemption_receipt_def tables select applied)
  moreover have "validReserve ?c"
    by (simp add: validReserve_def sample_scope valid_checkout_ref_def trim_space_printable printable_def is_zero_def)
  moreover have "rsv_CouponApplied ?s \<and> rsv_ClaimID ?s = 2 \<and> rsv_PayableAmountMinor ?s = 1"
    by (simp add: snapshot_of_def reserved_row_def Let_def open_row_def better_rule_def)
  ultimately show ?thesis
    by (simp add: ReserveWithin_def Let_def sample_times)
qed

theorem reservation_takes_best_witness:
  "\<exists>s db' ids claim rule. ReserveWithin sample_coupon_env sample_reserve two_coupons = Inr (s, db') \<and>
     couponCustomerIDs sample_coupon_env 7 = Inr ids \<and> (claim, rule) \<in> set (joined_claims two_coupons) \<and>
     rsv_ClaimID s = clm_ID claim \<and> rsv_PayableAmountMinor s = 1"
proof -
  from sample_reserve_ok obtain s db' where s: "ReserveWithin sample_coupon_env sample_reserve two_coupons = Inr (s, db')"
    "rsv_CouponApplied s" "rsv_PayableAmountMinor s = 1"
    by blast
  have "find_redemption_receipt two_coupons ''reserve'' (rvc_ActorScope sample_reserve)
      (Sum256 (rvc_IdempotencyKey sample_reserve)) = None"
    by (simp add: find_redemption_receipt_def two_coupons_def empty_coupons_def)
  from reservation_takes_best [OF s(1,2) this] s(1,3) show ?thesis
    by (auto simp: Let_def)
qed

subsection \<open>Sharing\<close>

lemma share_attempts_unpublished:
  assumes "get_rule db i = Inr c" "cpn_Status c \<noteq> ''published''"
  shows "share_attempts i actor at False raws db = Inl CpnUnavailable"
proof (induction raws)
  case (Cons raw raws)
  have "EnsurePublicCouponSlug i slug actor at db = Inl CpnConflict" "\<not> slug_violation i slug db" for slug
    using assms by (simp_all add: EnsurePublicCouponSlug_def slug_violation_def)
  with Cons.IH show ?case by (simp split: option.splits)
qed simp

text \<open>C35. Sharing a coupon that is not published is answered like an outage.  The store refuses with a
  conflict, which the loop takes for a slug that is already in use: it draws the next one, and
  after the last attempt the application answers that the service is unavailable, whatever the
  random generator gives.\<close>

theorem unpublished_share_unavailable:
  assumes "get_rule db i = Inr c" "cpn_Status c \<noteq> ''published''" "1 \<le> i" "1 \<le> actor"
  shows "EnsurePublicShare env i actor raws db = Inl CpnUnavailable"
  using assms by (simp add: EnsurePublicShare_def share_attempts_unpublished classifyCheckout_def)

theorem unpublished_share_unavailable_witness:
  "EnsurePublicShare sample_coupon_env 1 3 [Some [1, 2, 3], Some [4, 5, 6], Some [7, 8, 9], Some [10, 11, 12]]
     (sample_coupons\<lparr>cdb_Rules := [sample_rule\<lparr>cpn_Status := ''stopped''\<rparr>]\<rparr>) = Inl CpnUnavailable"
  by (rule unpublished_share_unavailable [where c = "sample_rule\<lparr>cpn_Status := ''stopped''\<rparr>"]) (simp_all add: get_rule_def)

subsection \<open>Days of validity\<close>

text \<open>A coupon that is valid for a number of days ends at a midnight in Shanghai, more than the days
  less one and at most the days after it was claimed.\<close>

lemma relative_validity:
  assumes mode: "cpn_ValidityMode r = ValidityRelativeDays" and days: "cpn_RelativeValidityDays r = Some d"
    and ok: "couponClaimValidity r at = Inr (start, until)"
  shows "start = at \<and> (until + shanghai_offset) mod day = 0 \<and> (d - 1) * day < until - at \<and> until - at \<le> d * day"
proof -
  let ?t = "at + shanghai_offset"
  from assms have until: "start = at" "until = (?t div day + d) * day - shanghai_offset"
    by (auto simp: couponClaimValidity_def shanghai_midnight_def Let_def split: if_splits)
  have "0 < day" by (simp add: day_def hour_def minute_def second_def)
  then have m: "?t mod day < day" "0 \<le> ?t mod day" by simp_all
  have "?t div day * day = ?t - ?t mod day" by (simp add: minus_mod_eq_div_mult)
  then have e: "until - at = d * day - ?t mod day" using until(2) by (simp add: distrib_right)
  have "(until + shanghai_offset) mod day = 0" using until(2) by simp
  moreover have "(d - 1) * day = d * day - day" by (simp add: left_diff_distrib)
  ultimately show ?thesis using until(1) e m by linarith
qed

end
