(* ===== verification/Transactions.thy ===== *)
theory Transactions
  imports Prelude
begin

text \<open>
  Steps of one database transaction: a function from the tables to an error, which rolls the
  transaction back, or to an answer and the new tables.  \<open>tx_then\<close> is sequencing with the early
  return of Go's \<open>if err != nil\<close>; \<open>tx_error\<close> passes an error through a translation such as
  \<open>classify\<close>; \<open>tx_part\<close> runs a step of one component on its part of a larger state.
\<close>

type_synonym ('s, 'e, 'a) tx = "'s \<Rightarrow> ('e, 'a \<times> 's) result"

definition tx_return :: "'a \<Rightarrow> ('s, 'e, 'a) tx" where
  "tx_return x s = Inr (x, s)"

definition tx_fail :: "'e \<Rightarrow> ('s, 'e, 'a) tx" where
  "tx_fail e s = Inl e"

definition tx_then :: "('s, 'e, 'a) tx \<Rightarrow> ('a \<Rightarrow> ('s, 'e, 'b) tx) \<Rightarrow> ('s, 'e, 'b) tx" where
  "tx_then m k s = (case m s of Inl e \<Rightarrow> Inl e | Inr (x, s') \<Rightarrow> k x s')"

definition tx_error :: "('e \<Rightarrow> 'f) \<Rightarrow> ('s, 'e, 'a) tx \<Rightarrow> ('s, 'f, 'a) tx" where
  "tx_error f m s = (case m s of Inl e \<Rightarrow> Inl (f e) | Inr r \<Rightarrow> Inr r)"

definition tx_value :: "('e, 'a) result \<Rightarrow> ('s, 'e, 'a) tx" where
  "tx_value r s = (case r of Inl e \<Rightarrow> Inl e | Inr x \<Rightarrow> Inr (x, s))"

definition tx_part :: "('s \<Rightarrow> 'p) \<Rightarrow> ('p \<Rightarrow> 's \<Rightarrow> 's) \<Rightarrow> ('p, 'e, 'a) tx \<Rightarrow> ('s, 'e, 'a) tx" where
  "tx_part part put m s = (case m (part s) of Inl e \<Rightarrow> Inl e | Inr (x, p) \<Rightarrow> Inr (x, put p s))"

text \<open>A successful run, taken apart.\<close>

lemma tx_return_Inr [simp]: "tx_return x s = Inr r \<longleftrightarrow> r = (x, s)"
  by (auto simp: tx_return_def)

lemma tx_fail_Inr [simp]: "tx_fail e s = Inr r \<longleftrightarrow> False"
  by (simp add: tx_fail_def)

lemma tx_then_Inr: "tx_then m k s = Inr r \<longleftrightarrow> (\<exists>x s'. m s = Inr (x, s') \<and> k x s' = Inr r)"
  by (auto simp: tx_then_def split: sum.splits prod.splits)

lemma tx_error_Inr [simp]: "tx_error f m s = Inr r \<longleftrightarrow> m s = Inr r"
  by (auto simp: tx_error_def split: sum.splits)

lemma tx_value_Inr [simp]: "tx_value v s = Inr (x, s') \<longleftrightarrow> v = Inr x \<and> s' = s"
  by (auto simp: tx_value_def split: sum.splits)

lemma tx_part_Inr: "tx_part part put m s = Inr (x, s') \<longleftrightarrow> (\<exists>p. m (part s) = Inr (x, p) \<and> s' = put p s)"
  by (auto simp: tx_part_def split: sum.splits prod.splits)

lemma tx_if_Inr: "(if b then m else n) s = Inr r \<longleftrightarrow> (b \<longrightarrow> m s = Inr r) \<and> (\<not> b \<longrightarrow> n s = Inr r)"
  by simp

text \<open>A successful run, put together.\<close>

lemma tx_then_ok: "m s = Inr (x, s') \<Longrightarrow> tx_then m k s = k x s'"
  by (simp add: tx_then_def)

lemma tx_error_ok: "m s = Inr r \<Longrightarrow> tx_error f m s = Inr r"
  by (simp add: tx_error_def)

lemma tx_part_ok: "m (part s) = Inr (x, p) \<Longrightarrow> tx_part part put m s = Inr (x, put p s)"
  by (simp add: tx_part_def)

text \<open>What every step of a transaction keeps, the transaction keeps.\<close>

definition tx_keeps :: "('s \<Rightarrow> bool) \<Rightarrow> ('s, 'e, 'a) tx \<Rightarrow> bool" where
  "tx_keeps P m \<longleftrightarrow> (\<forall>s x s'. P s \<longrightarrow> m s = Inr (x, s') \<longrightarrow> P s')"

lemma tx_keepsD: "tx_keeps P m \<Longrightarrow> P s \<Longrightarrow> m s = Inr (x, s') \<Longrightarrow> P s'"
  by (auto simp: tx_keeps_def)

lemma tx_keeps_simple [simp]: "tx_keeps P (tx_return x)" "tx_keeps P (tx_fail e)" "tx_keeps P (tx_value v)"
  by (auto simp: tx_keeps_def)

lemma tx_keeps_then: "tx_keeps P m \<Longrightarrow> (\<And>x. tx_keeps P (k x)) \<Longrightarrow> tx_keeps P (tx_then m k)"
  unfolding tx_keeps_def tx_then_Inr by metis

lemma tx_keeps_error [simp]: "tx_keeps P (tx_error f m) \<longleftrightarrow> tx_keeps P m"
  by (simp add: tx_keeps_def)

lemma tx_keeps_part: "tx_keeps Q m \<Longrightarrow> (\<And>p s. part (put p s) = p) \<Longrightarrow> tx_keeps (\<lambda>s. Q (part s)) (tx_part part put m)"
  unfolding tx_keeps_def tx_part_Inr by metis

end
