(* ===== verification/OrderStore.thy ===== *)
theory OrderStore
  imports Order CouponDomain GoJson Postgres Transactions
begin

text \<open>
  The tables of the Order component and the statements on them: \<open>store/postgres.go\<close> and
  \<open>store/checkout_snapshot.go\<close> with the constraints of the migrations.  A row of \<open>orders\<close> is kept with its
  items as one \<open>snapshot\<close>; a receipt is completed when it has a result.

  How PostgreSQL renders a \<open>jsonb\<close> value as text is a parameter (\<open>jsonb\<close>, \<open>None\<close> when the value is
  refused).  The attributes of a variant are a list that is present, as \<open>Clone\<close> makes it.
\<close>

datatype order_app_error =
    OrdNotFound | OrdConflict | OrdUnavailable | OrdPriceChanged
  | OrdInvalidRequest | OrdStorage | OrdDomain order_error | OrdCoupon coupon_error

subsection \<open>Texts\<close>

fun provider_text :: "provider \<Rightarrow> string" where
  "provider_text ProviderNoPayment = ''no_payment''"
| "provider_text ProviderWeChatPay = ''wechat_pay''"
| "provider_text ProviderWeChatShop = ''wechat_shop''"
| "provider_text ProviderAlipay = ''alipay''"
| "provider_text ProviderExternalHistory = ''external_history''"
| "provider_text (ProviderOther s) = s"

fun order_status_text :: "order_status \<Rightarrow> string" where
  "order_status_text StatusPendingPayment = ''pending_payment''"
| "order_status_text StatusPaid = ''paid''"
| "order_status_text StatusPartiallyRefunded = ''partially_refunded''"
| "order_status_text StatusRefunded = ''refunded''"
| "order_status_text StatusCancelled = ''cancelled''"
| "order_status_text StatusPaymentFailed = ''payment_failed''"
| "order_status_text StatusClosed = ''closed''"
| "order_status_text (StatusOther s) = s"

fun record_origin_text :: "record_origin \<Rightarrow> string" where
  "record_origin_text RecordOriginNative = ''native''"
| "record_origin_text RecordOriginHistory = ''history''"
| "record_origin_text RecordOriginExternal = ''external''"
| "record_origin_text (RecordOriginOther s) = s"

text \<open>What \<open>json.Unmarshal\<close> gives back for a marshalled string: ill-formed bytes are replaced.\<close>

function json_text :: "string \<Rightarrow> string" where
  "json_text s = (if s = [] then []
     else encode_rune (fst (decode_rune s)) @ json_text (drop (fst (snd (decode_rune s))) s))"
  by pat_completeness auto
termination
  by (relation "measure length") (auto intro!: diff_less decode_rune_width)

declare json_text.simps [simp del]

lemma json_text_Nil [simp]: "json_text [] = []"
  by (subst json_text.simps) simp

lemma json_text_ascii [simp]: "(of_char c :: nat) < 128 \<Longrightarrow> json_text (c # s) = c # json_text s"
  by (subst json_text.simps) (simp add: encode_rune_def)

text \<open>A well-formed string comes back as it was.\<close>

lemma second_byte_bounds: "second_byte_ok b0 b1 \<Longrightarrow> 128 \<le> b1 \<and> b1 \<le> 191"
  by (auto simp: second_byte_ok_def continuation_def split: if_splits)

lemma nat_above: "a \<le> (b :: nat) \<Longrightarrow> \<exists>x. b = a + x"
  by (rule le_Suc_ex)

lemma digits64: "(z :: nat) < 64 \<Longrightarrow> (a * 64 + z) div 64 = a" "z < 64 \<Longrightarrow> (a * 64 + z) mod 64 = z"
  by auto

lemma div_4096: "(r :: nat) div 4096 = r div 64 div 64" "r div 262144 = r div 64 div 64 div 64"
  by (simp_all add: div_mult2_eq [symmetric])

lemma encode_sizes:
  "128 \<le> r \<Longrightarrow> r < 2048 \<Longrightarrow> encode_rune r = [char_of (192 + r div 64), char_of (128 + r mod 64)]"
  "2048 \<le> r \<Longrightarrow> r < 65536 \<Longrightarrow> \<not> (55296 \<le> r \<and> r \<le> 57343) \<Longrightarrow>
     encode_rune r = [char_of (224 + r div 4096), char_of (128 + r div 64 mod 64), char_of (128 + r mod 64)]"
  "65536 \<le> r \<Longrightarrow> r \<le> 1114111 \<Longrightarrow> encode_rune r = [char_of (240 + r div 262144), char_of (128 + r div 4096 mod 64),
     char_of (128 + r div 64 mod 64), char_of (128 + r mod 64)]"
  by (auto simp: encode_rune_def)

lemma encode_two:
  assumes "194 \<le> b0" "b0 \<le> 223" "second_byte_ok b0 b1"
  shows "encode_rune ((b0 - 192) * 64 + (b1 - 128)) = [char_of b0, char_of b1]"
proof -
  from assms(1) obtain x where x: "b0 = 194 + x" using nat_above by blast
  from second_byte_bounds [OF assms(3)] obtain y where y: "b1 = 128 + y" using nat_above by blast
  have z: "y < 64" "x < 30" using assms(2) second_byte_bounds [OF assms(3)] by (simp_all add: x y)
  let ?r = "(x + 2) * 64 + y"
  have low: "128 \<le> ?r" "?r < 2048" using z by simp_all
  have d: "?r div 64 = x + 2" "?r mod 64 = y" by (simp_all only: digits64 [OF z(1)])
  have r: "(b0 - 192) * 64 + (b1 - 128) = ?r" by (simp add: x y)
  show ?thesis unfolding r encode_sizes(1) [OF low] d by (simp add: x y)
qed

lemma encode_three:
  assumes "224 \<le> b0" "b0 \<le> 239" "second_byte_ok b0 b1" "continuation b2"
  shows "encode_rune ((b0 - 224) * 4096 + (b1 - 128) * 64 + (b2 - 128)) = [char_of b0, char_of b1, char_of b2]"
proof -
  from assms second_byte_bounds obtain x y z where b: "b0 = 224 + x" "b1 = 128 + y" "b2 = 128 + z"
    unfolding continuation_def by (meson nat_above)
  have z: "z < 64" "y < 64" "x < 16" using assms b second_byte_bounds [OF assms(3)] by (auto simp: continuation_def)
  let ?r = "(x * 64 + y) * 64 + z"
  have low: "2048 \<le> ?r" "?r < 65536" using assms(3) b z by (auto simp: second_byte_ok_def continuation_def split: if_splits)
  have gap: "\<not> (55296 \<le> ?r \<and> ?r \<le> 57343)" using assms(3) b z by (auto simp: second_byte_ok_def continuation_def split: if_splits)
  have d: "?r div 4096 = x" "?r div 64 mod 64 = y" "?r mod 64 = z" by (simp_all only: div_4096 digits64 [OF z(1)] digits64 [OF z(2)])
  have r: "(b0 - 224) * 4096 + (b1 - 128) * 64 + (b2 - 128) = ?r" by (simp add: b)
  show ?thesis unfolding r encode_sizes(2) [OF low gap] d by (simp only: b)
qed

lemma encode_four:
  assumes "240 \<le> b0" "b0 \<le> 244" "second_byte_ok b0 b1" "continuation b2" "continuation b3"
  shows "encode_rune ((b0 - 240) * 262144 + (b1 - 128) * 4096 + (b2 - 128) * 64 + (b3 - 128)) =
    [char_of b0, char_of b1, char_of b2, char_of b3]"
proof -
  from assms second_byte_bounds obtain w x y z where b: "b0 = 240 + w" "b1 = 128 + x" "b2 = 128 + y" "b3 = 128 + z"
    unfolding continuation_def by (meson nat_above)
  have z: "z < 64" "y < 64" "x < 64" "w < 5" using assms b second_byte_bounds [OF assms(3)] by (auto simp: continuation_def)
  let ?r = "((w * 64 + x) * 64 + y) * 64 + z"
  have low: "65536 \<le> ?r" "?r \<le> 1114111" using assms(3) b z by (auto simp: second_byte_ok_def continuation_def split: if_splits)
  have d: "?r div 262144 = w" "?r div 4096 mod 64 = x" "?r div 64 mod 64 = y" "?r mod 64 = z"
    by (simp_all only: div_4096 digits64 [OF z(1)] digits64 [OF z(2)] digits64 [OF z(3)])
  have r: "(b0 - 240) * 262144 + (b1 - 128) * 4096 + (b2 - 128) * 64 + (b3 - 128) = ?r" by (simp add: b)
  show ?thesis unfolding r encode_sizes(3) [OF low] d by (simp only: b)
qed

lemma encode_decode: "snd (snd (decode_rune s)) \<Longrightarrow> encode_rune (fst (decode_rune s)) = take (fst (snd (decode_rune s))) s"
proof (cases s)
  case (Cons c t)
  assume ok: "snd (snd (decode_rune s))"
  show ?thesis
  proof (cases "byte c < 128")
    case True
    then show ?thesis by (simp add: Cons encode_rune_def Let_def)
  next
    case False
    with ok show ?thesis
      by (auto simp: Cons Let_def encode_two encode_three encode_four simp del: Nat.add_diff_assoc Nat.add_diff_assoc2 split: list.splits if_splits)
  qed
qed simp

lemma json_text_valid: "valid_utf8 s \<Longrightarrow> json_text s = s"
proof (induction s rule: json_text.induct)
  case (1 s)
  show ?case
  proof (cases "s = []")
    case False
    with 1 have "snd (snd (decode_rune s))" "valid_utf8 (drop (fst (snd (decode_rune s))) s)" by (simp_all add: valid_utf8.simps [of s])
    with 1(1) False encode_decode show ?thesis by (simp add: json_text.simps [of s])
  qed simp
qed

definition json_variant :: "variant_snapshot \<Rightarrow> variant_snapshot" where
  "json_variant v = v\<lparr>var_Name := json_text (var_Name v), var_Description := json_text (var_Description v),
     var_Attributes := map (\<lambda>(k, x). (json_text k, json_text x)) (var_Attributes v)\<rparr>"

definition variant_texts :: "variant_snapshot \<Rightarrow> string list" where
  "variant_texts v = var_Name v # var_Description v # concat (map (\<lambda>(k, x). [k, x]) (var_Attributes v))"

definition jsonb_text :: "string \<Rightarrow> bool" where
  "jsonb_text s \<longleftrightarrow> CHR 0x00 \<notin> set s"

definition item_texts :: "item_snapshot \<Rightarrow> string list" where
  "item_texts item = [itm_ProductCode item, itm_ProductName item]"

definition json_item :: "item_snapshot \<Rightarrow> item_snapshot" where
  "json_item item = item\<lparr>itm_Variant := map_option json_variant (itm_Variant item),
     itm_ProductCode := json_text (itm_ProductCode item), itm_ProductName := json_text (itm_ProductName item)\<rparr>"

text \<open>A snapshot after \<open>json.Marshal\<close> and \<open>json.Unmarshal\<close>, and whether \<open>json.Marshal\<close> writes it.\<close>

definition json_snapshot :: "snapshot \<Rightarrow> snapshot" where
  "json_snapshot s = s\<lparr>snp_SourceSystem := json_text (snp_SourceSystem s), snp_SourceKey := json_text (snp_SourceKey s),
     snp_MerchantOrderNo := json_text (snp_MerchantOrderNo s),
     snp_ProviderTransactionNo := json_text (snp_ProviderTransactionNo s), snp_Items := map json_item (snp_Items s)\<rparr>"

definition snapshot_marshals :: "snapshot \<Rightarrow> bool" where
  "snapshot_marshals s \<longleftrightarrow> time_marshals (snp_CreatedAt s) \<and> time_marshals (snp_UpdatedAt s) \<and>
     ptr_all (\<lambda>f. time_marshals (ehf_ImportedAt f) \<and> ptr_all time_marshals (ehf_SourcePaidAt f)) (snp_ExternalHistory s)"

definition snapshot_texts :: "snapshot \<Rightarrow> string list" where
  "snapshot_texts s = [snp_SourceSystem s, snp_SourceKey s, snp_MerchantOrderNo s, snp_ProviderTransactionNo s,
     Currency (snp_Amount s)] @ concat (map item_texts (snp_Items s))"

definition item_variant_texts :: "snapshot \<Rightarrow> string list" where
  "item_variant_texts s =
     concat (map (\<lambda>i. case itm_Variant i of None \<Rightarrow> [] | Some v \<Rightarrow> variant_texts v) (snp_Items s))"

subsection \<open>Rows\<close>

record order_receipt =
  orr_ID :: int
  orr_Operation :: string
  orr_ActorScope :: string
  orr_KeyDigest :: "w32 list"
  orr_PayloadDigest :: "w32 list"
  orr_Result :: "snapshot option"

record order_reservation =
  ors_Operation :: string
  ors_ActorScope :: string
  ors_KeyDigest :: "w32 list"
  ors_PayloadDigest :: "w32 list"
  ors_CreatedAt :: go_time

record status_row =
  osh_OrderID :: int
  osh_From :: "order_status option"
  osh_To :: order_status
  osh_RefundedMinor :: int
  osh_Version :: int
  osh_ActorScope :: string
  osh_OccurredAt :: go_time

record audit_row =
  oau_Type :: string
  oau_OrderID :: int
  oau_ActorScope :: string
  oau_Payload :: string
  oau_OccurredAt :: go_time

record outbox_row =
  oob_ID :: int
  oob_Type :: string
  oob_Key :: string
  oob_OrderID :: int
  oob_Payload :: string
  oob_OccurredAt :: go_time

record paid_row =
  ope_ID :: int
  ope_OrderID :: int
  ope_Version :: int
  ope_SourceDigest :: "w32 list"
  ope_OccurredAt :: go_time

record checkout_snapshot =
  ckt_OrderID :: int
  ckt_ProductType :: string
  ckt_ProductID :: int
  ckt_ProductCode :: string
  ckt_ProductName :: string
  ckt_ProductVersion :: int
  ckt_ServicePeriodDurationDays :: int
  ckt_GrossAmountMinor :: int
  ckt_DiscountAmountMinor :: int
  ckt_PayableAmountMinor :: int
  ckt_Currency :: string
  ckt_CouponApplied :: bool
  ckt_CouponReservationRef :: string
  ckt_CouponClaimID :: int
  ckt_CouponID :: int
  ckt_CouponRuleVersion :: int
  ckt_ProfitSharingRequired :: bool
  ckt_ReferralActivityContextDigest :: "w32 list"
  ckt_PromotionContextDigest :: "w32 list"
  ckt_PostPurchaseAction :: string
  ckt_ReservedAt :: go_time

record shipping_address =
  shp_RecipientName :: string
  shp_ProvinceCode :: string
  shp_ProvinceName :: string
  shp_CityCode :: string
  shp_CityName :: string
  shp_DistrictCode :: string
  shp_DistrictName :: string
  shp_DetailAddress :: string

record contact_row =
  ocn_OrderID :: int
  ocn_Ciphertext :: string
  ocn_KeyVersion :: int
  ocn_CreatedAt :: go_time

record order_db =
  odb_Orders :: "snapshot list"
  odb_NextOrder :: int
  odb_Receipts :: "order_receipt list"
  odb_NextReceipt :: int
  odb_History :: "status_row list"
  odb_Audit :: "audit_row list"
  odb_Outbox :: "outbox_row list"
  odb_NextOutbox :: int
  odb_PaidEvents :: "paid_row list"
  odb_NextPaidEvent :: int
  odb_Checkouts :: "checkout_snapshot list"
  odb_Contacts :: "contact_row list"
  odb_Addresses :: "(int \<times> shipping_address) list"

definition empty_orders :: order_db where
  "empty_orders = \<lparr>odb_Orders = [], odb_NextOrder = 1, odb_Receipts = [], odb_NextReceipt = 1, odb_History = [],
     odb_Audit = [], odb_Outbox = [], odb_NextOutbox = 1, odb_PaidEvents = [], odb_NextPaidEvent = 1,
     odb_Checkouts = [], odb_Contacts = [], odb_Addresses = []\<rparr>"

type_synonym 'a order_tx = "(order_db, order_app_error, 'a) tx"

subsection \<open>Receipts\<close>

definition find_order_receipt :: "order_db \<Rightarrow> string \<Rightarrow> string \<Rightarrow> w32 list \<Rightarrow> order_receipt option" where
  "find_order_receipt db operation scope key =
     find (\<lambda>r. orr_Operation r = operation \<and> orr_ActorScope r = scope \<and> orr_KeyDigest r = key) (odb_Receipts db)"

definition Order_Reserve :: "order_reservation \<Rightarrow> (order_receipt \<times> bool) order_tx" where
  "Order_Reserve v db =
     (if ors_Operation v = [] \<or> ors_ActorScope v = [] \<or> is_zero (ors_CreatedAt v) then Inl OrdInvalidRequest
      else
       (case find_order_receipt db (ors_Operation v) (ors_ActorScope v) (ors_KeyDigest v) of
          Some r \<Rightarrow> Inr ((r, False), db)
        | None \<Rightarrow>
            if \<not> pg_text (ors_ActorScope v) \<or> max_int64 < odb_NextReceipt db then Inl OrdStorage
            else if ors_Operation v \<notin> {''create'', ''settlement''} \<or> 200 < rune_count (ors_ActorScope v) then Inl OrdConflict
            else
             (let r = \<lparr>orr_ID = odb_NextReceipt db, orr_Operation = ors_Operation v, orr_ActorScope = ors_ActorScope v,
                orr_KeyDigest = ors_KeyDigest v, orr_PayloadDigest = ors_PayloadDigest v, orr_Result = None\<rparr> in
              Inr ((r, True), db\<lparr>odb_Receipts := odb_Receipts db @ [r], odb_NextReceipt := odb_NextReceipt db + 1\<rparr>))))"

definition Order_Complete :: "int \<Rightarrow> snapshot \<Rightarrow> go_time \<Rightarrow> unit order_tx" where
  "Order_Complete i s at db =
     (if i < 1 \<or> \<not> snapshot_marshals s \<or> is_zero at then Inl OrdInvalidRequest
      else if \<not> list_all jsonb_text (snapshot_texts s @ item_variant_texts s) then Inl OrdStorage
      else if \<not> list_ex (\<lambda>r. orr_ID r = i \<and> orr_Result r = None) (odb_Receipts db) then Inl OrdNotFound
      else Inr ((), db\<lparr>odb_Receipts := map (\<lambda>r. if orr_ID r = i \<and> orr_Result r = None
        then r\<lparr>orr_Result := Some (json_snapshot s)\<rparr> else r) (odb_Receipts db)\<rparr>))"

definition ReadCreateReceipt :: "order_db \<Rightarrow> string \<Rightarrow> w32 list \<Rightarrow> (order_app_error, order_receipt option) result" where
  "ReadCreateReceipt db scope key =
     (if \<not> pg_text scope then Inl OrdStorage else Inr (find_order_receipt db ''create'' scope key))"

subsection \<open>Orders\<close>

definition trimmed_column :: "string \<Rightarrow> bool" where
  "trimmed_column s \<longleftrightarrow> s = [] \<or> hd s \<noteq> CHR '' '' \<and> last s \<noteq> CHR '' ''"

definition text_check :: "nat \<Rightarrow> nat \<Rightarrow> string \<Rightarrow> bool" where
  "text_check low high s \<longleftrightarrow> low \<le> rune_count s \<and> rune_count s \<le> high \<and> trimmed_column s"

text \<open>The constraints of the table on one row.  The statements here write native orders only, so of
  the alternatives for native, imported and external rows the native one is kept.\<close>

definition order_amount_checks :: "snapshot \<Rightarrow> bool" where
  "order_amount_checks s \<longleftrightarrow>
     (let amount = AmountMinor (snp_Amount s); refunded = snp_RefundedMinor s in
      (0 < amount \<or> amount = 0 \<and> (snp_RecordOrigin s = RecordOriginExternal \<or>
         snp_RecordOrigin s = RecordOriginNative \<and> snp_Provider s = ProviderNoPayment)) \<and>
      0 \<le> refunded \<and> refunded \<le> amount \<and>
      (snp_Status s = StatusPartiallyRefunded \<and> 0 < refunded \<and> refunded < amount \<or>
       snp_Status s = StatusRefunded \<and> refunded = amount \<or>
       snp_Status s \<noteq> StatusPartiallyRefunded \<and> snp_Status s \<noteq> StatusRefunded \<and> refunded = 0))"

definition order_shape_checks :: "snapshot \<Rightarrow> bool" where
  "order_shape_checks s \<longleftrightarrow>
     (snp_RecordOrigin s = RecordOriginNative \<and> snp_EffectEligible s \<and>
        snp_PayerCustomerID s \<noteq> None \<and> snp_BeneficiaryCustomerID s \<noteq> None) \<and>
     (snp_Provider s = ProviderNoPayment \<longrightarrow> AmountMinor (snp_Amount s) = 0 \<and> Currency (snp_Amount s) = ''CNY'' \<and>
        snp_ProviderTransactionNo s = [] \<and> snp_RefundedMinor s = 0 \<and>
        snp_Status s \<notin> {StatusRefunded, StatusPartiallyRefunded, StatusPaymentFailed}) \<and>
     snp_Provider s \<noteq> ProviderExternalHistory"

definition order_checks :: "snapshot \<Rightarrow> bool" where
  "order_checks s \<longleftrightarrow> validProvider (snp_Provider s) \<and> text_check 1 100 (snp_SourceSystem s) \<and>
     text_check 1 200 (snp_SourceKey s) \<and> text_check 1 200 (snp_MerchantOrderNo s) \<and>
     text_check 0 200 (snp_ProviderTransactionNo s) \<and> ptr_all (\<lambda>i. 0 < i) (snp_PayerCustomerID s) \<and>
     ptr_all (\<lambda>i. 0 < i) (snp_BeneficiaryCustomerID s) \<and> validCurrency (Currency (snp_Amount s)) \<and>
     order_amount_checks s \<and> order_shape_checks s \<and> (\<forall>x. snp_Status s \<noteq> StatusOther x) \<and> 0 < snp_Version s \<and>
     snp_CreatedAt s \<le> snp_UpdatedAt s"

definition order_clash :: "snapshot \<Rightarrow> snapshot \<Rightarrow> bool" where
  "order_clash a b \<longleftrightarrow> snp_ID a \<noteq> snp_ID b \<and>
     (snp_SourceSystem a = snp_SourceSystem b \<and> snp_SourceKey a = snp_SourceKey b \<or>
      snp_Provider a = snp_Provider b \<and>
       (snp_MerchantOrderNo a = snp_MerchantOrderNo b \<or>
        snp_ProviderTransactionNo a \<noteq> [] \<and> snp_ProviderTransactionNo a = snp_ProviderTransactionNo b))"

text \<open>What the table keeps of a snapshot: instants with microseconds, variants as JSON.\<close>

definition stored_order :: "snapshot \<Rightarrow> snapshot" where
  "stored_order s = s\<lparr>snp_CreatedAt := pg_time (snp_CreatedAt s), snp_UpdatedAt := pg_time (snp_UpdatedAt s),
     snp_Items := map (\<lambda>i. i\<lparr>itm_Variant := map_option json_variant (itm_Variant i)\<rparr>) (snp_Items s),
     snp_ProfitSharingRequired := False\<rparr>"

text \<open>The facts every write of an order appends: its status history, the audit and the outbox.\<close>

definition fact_payload :: "snapshot \<Rightarrow> string" where
  "fact_payload s = json_object [json_member ''order_id'' (format_int (snp_ID s)),
     json_member ''record_origin'' (json_string (record_origin_text (snp_RecordOrigin s))),
     json_member ''status'' (json_string (order_status_text (snp_Status s))),
     json_member ''version'' (format_int (snp_Version s))]"

definition outbox_key :: "string \<Rightarrow> int \<Rightarrow> int \<Rightarrow> string" where
  "outbox_key event i version = event @ '':'' @ format_int i @ '':'' @ format_int version"

definition append_outbox :: "string \<Rightarrow> string \<Rightarrow> int \<Rightarrow> string \<Rightarrow> go_time \<Rightarrow> int order_tx" where
  "append_outbox event key i payload at db =
     (if list_ex (\<lambda>r. oob_Key r = key) (odb_Outbox db) then Inl OrdConflict
      else if max_int64 < odb_NextOutbox db then Inl OrdStorage
      else Inr (odb_NextOutbox db, db\<lparr>odb_Outbox := odb_Outbox db @ [\<lparr>oob_ID = odb_NextOutbox db, oob_Type = event,
        oob_Key = key, oob_OrderID = i, oob_Payload = payload, oob_OccurredAt = pg_time at\<rparr>],
        odb_NextOutbox := odb_NextOutbox db + 1\<rparr>))"

definition status_row_of :: "snapshot \<Rightarrow> order_status option \<Rightarrow> string \<Rightarrow> go_time \<Rightarrow> status_row" where
  "status_row_of s frm scope at = \<lparr>osh_OrderID = snp_ID s, osh_From = frm, osh_To = snp_Status s,
     osh_RefundedMinor = snp_RefundedMinor s, osh_Version = snp_Version s, osh_ActorScope = scope,
     osh_OccurredAt = pg_time at\<rparr>"

definition appendFacts ::
  "snapshot \<Rightarrow> order_status option \<Rightarrow> string \<Rightarrow> string \<Rightarrow> go_time \<Rightarrow> unit order_tx" where
  "appendFacts s frm scope event at db =
     (if \<not> pg_text scope then Inl OrdStorage
      else if scope = [] \<or> 200 < rune_count scope \<or>
        list_ex (\<lambda>h. osh_OrderID h = snp_ID s \<and> osh_Version h = snp_Version s) (odb_History db) then Inl OrdConflict
      else tx_then (append_outbox event (outbox_key event (snp_ID s) (snp_Version s)) (snp_ID s) (fact_payload s) at)
        (\<lambda>_. tx_return ())
        (db\<lparr>odb_History := odb_History db @ [status_row_of s frm scope at],
            odb_Audit := odb_Audit db @ [\<lparr>oau_Type = event, oau_OrderID = snp_ID s, oau_ActorScope = scope,
              oau_Payload = fact_payload s, oau_OccurredAt = pg_time at\<rparr>]\<rparr>))"

definition restored :: "snapshot \<Rightarrow> order order_tx" where
  "restored s = tx_value (map_sum OrdDomain id (Restore s))"

definition insert_row :: "snapshot \<Rightarrow> unit order_tx" where
  "insert_row s db =
     (let row = stored_order s in
      if max_int64 < odb_NextOrder db \<or> \<not> list_all pg_text (snapshot_texts s) \<or>
         \<not> list_all jsonb_text (item_variant_texts s) then Inl OrdStorage
      else if \<not> order_checks row \<or> list_ex (order_clash row) (odb_Orders db) then Inl OrdConflict
      else Inr ((), db\<lparr>odb_Orders := odb_Orders db @ [row], odb_NextOrder := odb_NextOrder db + 1\<rparr>))"

definition insert_order :: "order \<Rightarrow> string \<Rightarrow> go_time \<Rightarrow> string \<Rightarrow> order order_tx" where
  "insert_order o' scope now event db =
     (let s = (Snapshot o')\<lparr>snp_ID := odb_NextOrder db\<rparr> in
      if snp_ID (Snapshot o') \<noteq> 0 \<or> scope = [] \<or> is_zero now then Inl OrdInvalidRequest
      else tx_then (insert_row s) (\<lambda>_. tx_then (appendFacts s None scope event now) (\<lambda>_. restored s)) db)"

definition InsertScoped :: "order \<Rightarrow> string \<Rightarrow> go_time \<Rightarrow> order order_tx" where
  "InsertScoped o' scope now =
     (if scope = [] \<or> 200 < length scope \<or> trim_space scope \<noteq> scope then tx_fail OrdInvalidRequest
      else insert_order o' scope now ''order.created'')"

definition Order_Insert :: "order \<Rightarrow> int \<Rightarrow> go_time \<Rightarrow> order order_tx" where
  "Order_Insert o' actor now =
     (if actor < 1 then tx_fail OrdInvalidRequest
      else insert_order o' (''admin:'' @ format_int actor) now ''order.created'')"

definition order_row :: "order_db \<Rightarrow> int \<Rightarrow> snapshot option" where
  "order_row db i = find (\<lambda>s. snp_ID s = i) (odb_Orders db)"

definition Order_Get :: "int \<Rightarrow> order order_tx" where
  "Order_Get i db =
     (if i < 1 then Inl OrdNotFound
      else
       (case order_row db i of
          None \<Rightarrow> Inl OrdNotFound
        | Some s \<Rightarrow> (case Restore s of Inl _ \<Rightarrow> Inl OrdUnavailable | Inr o' \<Rightarrow> Inr (o', db))))"

definition settled_row :: "snapshot \<Rightarrow> snapshot \<Rightarrow> snapshot" where
  "settled_row s row = row\<lparr>snp_Status := snp_Status s, snp_RefundedMinor := snp_RefundedMinor s,
     snp_ProviderTransactionNo := snp_ProviderTransactionNo s, snp_Version := snp_Version s,
     snp_UpdatedAt := pg_time (snp_UpdatedAt s)\<rparr>"

definition put_order :: "snapshot \<Rightarrow> snapshot list \<Rightarrow> snapshot list" where
  "put_order row ss = map (\<lambda>s. if snp_ID s = snp_ID row then row else s) ss"

definition update_row :: "snapshot \<Rightarrow> unit order_tx" where
  "update_row s db =
     (if \<not> pg_text (snp_ProviderTransactionNo s) then Inl OrdStorage
      else
       (case order_row db (snp_ID s) of
          None \<Rightarrow> Inl OrdConflict
        | Some row \<Rightarrow>
            if snp_Version row \<noteq> snp_Version s - 1 \<or> \<not> order_checks (settled_row s row) \<or>
               list_ex (order_clash (settled_row s row)) (odb_Orders db) then Inl OrdConflict
            else Inr ((), db\<lparr>odb_Orders := put_order (settled_row s row) (odb_Orders db)\<rparr>)))"

definition UpdateSettlement :: "order \<Rightarrow> status_event \<Rightarrow> string \<Rightarrow> order order_tx" where
  "UpdateSettlement o' event scope =
     (let s = Snapshot o' in
      if snp_ID s < 1 \<or> snp_Version s < 2 \<or> scope = [] \<or> evt_Version event \<noteq> snp_Version s then tx_fail OrdInvalidRequest
      else tx_then (update_row s) (\<lambda>_.
        tx_then (appendFacts s (Some (evt_From event)) scope ''order.status_changed'' (evt_OccurredAt event)) (\<lambda>_.
          restored s)))"

subsection \<open>The checkout of an order\<close>

definition free_checkout :: "checkout_snapshot \<Rightarrow> bool" where
  "free_checkout c \<longleftrightarrow> ckt_GrossAmountMinor c = 0 \<and> ckt_PayableAmountMinor c = 0 \<and> ckt_ProductType c = ''standard_product'' \<and>
     \<not> ckt_CouponApplied c \<and> \<not> ckt_ProfitSharingRequired c"

definition checkout_fields_ok :: "checkout_snapshot \<Rightarrow> bool" where
  "checkout_fields_ok c \<longleftrightarrow>
     \<not> (ckt_OrderID c < 1 \<or> ckt_ProductID c < 1 \<or> ckt_ProductCode c = [] \<or> 200 < length (ckt_ProductCode c) \<or>
        ckt_ProductName c = [] \<or> 500 < length (ckt_ProductName c) \<or> ckt_ProductVersion c < 1 \<or>
        \<not> free_checkout c \<and> (ckt_GrossAmountMinor c < 1 \<or> ckt_PayableAmountMinor c < 1) \<or>
        ckt_DiscountAmountMinor c < 0 \<or>
        ckt_PayableAmountMinor c \<noteq> wrap64 (ckt_GrossAmountMinor c - ckt_DiscountAmountMinor c) \<or>
        ckt_Currency c \<noteq> ''CNY'' \<or> ckt_PostPurchaseAction c \<noteq> [] \<and> \<not> json_valid (ckt_PostPurchaseAction c) \<or>
        8192 < length (ckt_PostPurchaseAction c) \<or> is_zero (ckt_ReservedAt c))"

definition checkout_period_ok :: "checkout_snapshot \<Rightarrow> bool" where
  "checkout_period_ok c \<longleftrightarrow>
     \<not> (ckt_ProductType c = ''standard_product'' \<and> ckt_ServicePeriodDurationDays c \<noteq> 0 \<or>
        ckt_ProductType c = ''service_period'' \<and> ckt_ServicePeriodDurationDays c < 1 \<or>
        ckt_ProductType c \<noteq> ''standard_product'' \<and> ckt_ProductType c \<noteq> ''service_period'')"

definition checkout_coupon_ok :: "checkout_snapshot \<Rightarrow> bool" where
  "checkout_coupon_ok c \<longleftrightarrow>
     (if \<not> ckt_CouponApplied c then
        ckt_CouponReservationRef c = [] \<and> ckt_CouponClaimID c = 0 \<and> ckt_CouponID c = 0 \<and> ckt_CouponRuleVersion c = 0 \<and>
        ckt_DiscountAmountMinor c = 0 \<and> ckt_PayableAmountMinor c = ckt_GrossAmountMinor c
      else
        ckt_CouponReservationRef c \<noteq> [] \<and> length (ckt_CouponReservationRef c) \<le> 240 \<and> 0 < ckt_CouponClaimID c \<and>
        0 < ckt_CouponID c \<and> 0 < ckt_CouponRuleVersion c \<and> 0 < ckt_DiscountAmountMinor c \<and>
        ckt_DiscountAmountMinor c < ckt_GrossAmountMinor c)"

definition validCheckoutSnapshot :: "checkout_snapshot \<Rightarrow> bool" where
  "validCheckoutSnapshot c \<longleftrightarrow> checkout_fields_ok c \<and> checkout_period_ok c \<and> checkout_coupon_ok c"

text \<open>The trigger lets a checkout of nothing stand only beside a local order of nothing.\<close>

definition free_order :: "snapshot \<Rightarrow> bool" where
  "free_order s \<longleftrightarrow> snp_Provider s = ProviderNoPayment \<and> snp_RecordOrigin s = RecordOriginNative \<and>
     AmountMinor (snp_Amount s) = 0"

definition InsertCheckoutSnapshot :: "(string \<Rightarrow> string option) \<Rightarrow> checkout_snapshot \<Rightarrow> unit order_tx" where
  "InsertCheckoutSnapshot jsonb c db =
     (if \<not> validCheckoutSnapshot c then Inl OrdInvalidRequest
      else if \<not> list_all pg_text [ckt_ProductCode c, ckt_ProductName c, ckt_CouponReservationRef c] then Inl OrdStorage
      else
       (case jsonb (ckt_PostPurchaseAction c) of
          None \<Rightarrow> Inl OrdStorage
        | Some action \<Rightarrow>
            if ckt_GrossAmountMinor c = 0 \<and> \<not> list_ex (\<lambda>s. snp_ID s = ckt_OrderID c \<and> free_order s) (odb_Orders db)
            then Inl OrdStorage
            else if 8192 < length action \<or> list_ex (\<lambda>x. ckt_OrderID x = ckt_OrderID c) (odb_Checkouts db) \<or>
               order_row db (ckt_OrderID c) = None then Inl OrdConflict
            else Inr ((), db\<lparr>odb_Checkouts := odb_Checkouts db @
              [c\<lparr>ckt_PostPurchaseAction := action, ckt_ReservedAt := pg_time (ckt_ReservedAt c)\<rparr>]\<rparr>)))"

definition ReadCheckoutSnapshot :: "int \<Rightarrow> checkout_snapshot order_tx" where
  "ReadCheckoutSnapshot i db =
     (if i < 1 then Inl OrdNotFound
      else
       (case find (\<lambda>c. ckt_OrderID c = i) (odb_Checkouts db) of
          None \<Rightarrow> Inl OrdNotFound
        | Some c \<Rightarrow> if \<not> validCheckoutSnapshot c then Inl OrdUnavailable else Inr (c, db)))"

definition InsertContactSnapshot :: "int \<Rightarrow> string \<Rightarrow> int \<Rightarrow> go_time \<Rightarrow> unit order_tx" where
  "InsertContactSnapshot i ciphertext version at db =
     (if i < 1 \<or> length ciphertext < 28 \<or> version \<noteq> 1 \<or> is_zero at then Inl OrdInvalidRequest
      else if list_ex (\<lambda>c. ocn_OrderID c = i) (odb_Contacts db) \<or> order_row db i = None then Inl OrdConflict
      else Inr ((), db\<lparr>odb_Contacts := odb_Contacts db @
        [\<lparr>ocn_OrderID = i, ocn_Ciphertext = ciphertext, ocn_KeyVersion = version, ocn_CreatedAt = pg_time at\<rparr>]\<rparr>))"

definition address_fields :: "shipping_address \<Rightarrow> string list" where
  "address_fields a = [shp_RecipientName a, shp_ProvinceCode a, shp_ProvinceName a, shp_CityCode a, shp_CityName a,
     shp_DistrictCode a, shp_DistrictName a, shp_DetailAddress a]"

definition address_limits :: "nat list" where
  "address_limits = [80, 32, 80, 32, 80, 32, 80, 300]"

definition InsertShippingAddressSnapshot :: "int \<Rightarrow> shipping_address \<Rightarrow> go_time \<Rightarrow> unit order_tx" where
  "InsertShippingAddressSnapshot i a at db =
     (if i < 1 \<or> [] \<in> set (address_fields a) \<or> is_zero at then Inl OrdInvalidRequest
      else if \<not> list_all pg_text (address_fields a) then Inl OrdStorage
      else if \<not> list_all2 (\<lambda>f n. rune_count f \<le> n) (address_fields a) address_limits \<or>
         list_ex (\<lambda>x. fst x = i) (odb_Addresses db) \<or> order_row db i = None then Inl OrdConflict
      else Inr ((), db\<lparr>odb_Addresses := odb_Addresses db @ [(i, a)]\<rparr>))"

subsection \<open>The paid event\<close>

record paid_event =
  pev_ID :: int
  pev_OrderID :: int
  pev_OrderVersion :: int
  pev_OutboxID :: int
  pev_CheckoutProductID :: int
  pev_CheckoutGrossAmountMinor :: int
  pev_CheckoutPayableAmountMinor :: int
  pev_CheckoutProductType :: string
  pev_ReferralActivityContextDigest :: "w32 list"
  pev_PromotionContextDigest :: "w32 list"
  pev_OccurredAt :: go_time
  pev_SourceDigest :: "w32 list"
  pev_Order :: snapshot

definition zero_sha256 :: "w32 list" where
  "zero_sha256 = replicate 8 0"

definition NewPaidEventSourceDigest :: "int \<Rightarrow> int \<Rightarrow> w32 list" where
  "NewPaidEventSourceDigest i version =
     Sum256 (''order.paid.v1'' @ [CHR 0x00] @ format_int i @ [CHR 0x00] @ format_int version)"

definition ValidOrderFact :: "paid_event \<Rightarrow> bool" where
  "ValidOrderFact e \<longleftrightarrow> 0 < pev_ID e \<and> 0 < pev_OrderID e \<and> 0 < pev_OrderVersion e \<and> \<not> is_zero (pev_OccurredAt e) \<and>
     pev_SourceDigest e \<noteq> zero_sha256 \<and> snp_ID (pev_Order e) = pev_OrderID e \<and>
     snp_Version (pev_Order e) = pev_OrderVersion e \<and> snp_RecordOrigin (pev_Order e) = RecordOriginNative \<and>
     snp_EffectEligible (pev_Order e) \<and> snp_Status (pev_Order e) = StatusPaid"

definition PaidEvent_Valid :: "paid_event \<Rightarrow> bool" where
  "PaidEvent_Valid e \<longleftrightarrow> ValidOrderFact e \<and> 0 < pev_OutboxID e \<and>
     (snp_Provider (pev_Order e) = ProviderNoPayment \<and> AmountMinor (snp_Amount (pev_Order e)) = 0 \<and>
        0 < pev_CheckoutProductID e \<and> pev_CheckoutProductType e = ''standard_product'' \<and>
        pev_CheckoutGrossAmountMinor e = 0 \<and> pev_CheckoutPayableAmountMinor e = 0 \<or>
      pev_CheckoutProductID e = 0 \<and> pev_CheckoutGrossAmountMinor e = 0 \<or>
      0 < pev_CheckoutProductID e \<and> 0 < pev_CheckoutGrossAmountMinor e \<and>
        pev_CheckoutProductType e \<in> {[], ''standard_product'', ''service_period''} \<and>
        (pev_CheckoutPayableAmountMinor e = 0 \<or> 0 < pev_CheckoutPayableAmountMinor e))"

text \<open>The row of the event, new or the one that the order has already.\<close>

definition paid_row_for :: "snapshot \<Rightarrow> go_time \<Rightarrow> (paid_row \<times> bool) order_tx" where
  "paid_row_for s at db =
     (let source = NewPaidEventSourceDigest (snp_ID s) (snp_Version s) in
      case find (\<lambda>e. ope_OrderID e = snp_ID s) (odb_PaidEvents db) of
        Some e \<Rightarrow>
          if ope_Version e \<noteq> snp_Version s \<or> ope_SourceDigest e \<noteq> source then Inl OrdConflict else Inr ((e, False), db)
      | None \<Rightarrow>
          if max_int64 < odb_NextPaidEvent db then Inl OrdStorage
          else if order_row db (snp_ID s) = None then Inl OrdConflict
          else
           (let e = \<lparr>ope_ID = odb_NextPaidEvent db, ope_OrderID = snp_ID s, ope_Version = snp_Version s,
              ope_SourceDigest = source, ope_OccurredAt = pg_time at\<rparr> in
            Inr ((e, True), db\<lparr>odb_PaidEvents := odb_PaidEvents db @ [e], odb_NextPaidEvent := odb_NextPaidEvent db + 1\<rparr>)))"

definition event_of_row :: "paid_row \<Rightarrow> snapshot \<Rightarrow> paid_event" where
  "event_of_row e s = \<lparr>pev_ID = ope_ID e, pev_OrderID = ope_OrderID e, pev_OrderVersion = ope_Version e, pev_OutboxID = 0,
     pev_CheckoutProductID = 0, pev_CheckoutGrossAmountMinor = 0, pev_CheckoutPayableAmountMinor = 0,
     pev_CheckoutProductType = [], pev_ReferralActivityContextDigest = zero_sha256,
     pev_PromotionContextDigest = zero_sha256, pev_OccurredAt = ope_OccurredAt e,
     pev_SourceDigest = ope_SourceDigest e, pev_Order = s\<rparr>"

definition with_checkout :: "paid_event \<Rightarrow> paid_event order_tx" where
  "with_checkout e db =
     (case ReadCheckoutSnapshot (pev_OrderID e) db of
        Inl OrdNotFound \<Rightarrow> Inr (e, db)
      | Inl x \<Rightarrow> Inl x
      | Inr (c, _) \<Rightarrow> Inr (e\<lparr>pev_CheckoutProductID := ckt_ProductID c, pev_CheckoutGrossAmountMinor := ckt_GrossAmountMinor c,
          pev_CheckoutProductType := ckt_ProductType c, pev_CheckoutPayableAmountMinor := ckt_PayableAmountMinor c,
          pev_ReferralActivityContextDigest := ckt_ReferralActivityContextDigest c,
          pev_PromotionContextDigest := ckt_PromotionContextDigest c\<rparr>, db))"

definition paid_key :: "int \<Rightarrow> string" where
  "paid_key i = ''order.paid.v1:'' @ format_int i"

definition paid_payload :: "paid_event \<Rightarrow> string" where
  "paid_payload e = json_object [json_member ''order_id'' (format_int (pev_OrderID e)),
     json_member ''order_version'' (format_int (pev_OrderVersion e)), json_member ''paid_event_id'' (format_int (pev_ID e))]"

definition paid_outbox :: "paid_event \<Rightarrow> bool \<Rightarrow> int order_tx" where
  "paid_outbox e created db =
     (if created then append_outbox ''order.paid.v1'' (paid_key (pev_ID e)) (pev_OrderID e) (paid_payload e) (pev_OccurredAt e) db
      else
       (case find (\<lambda>r. oob_Type r = ''order.paid.v1'' \<and> oob_Key r = paid_key (pev_ID e) \<and> oob_OrderID r = pev_OrderID e)
               (odb_Outbox db) of
          None \<Rightarrow> Inl OrdConflict
        | Some r \<Rightarrow> Inr (oob_ID r, db)))"

definition AppendPaidEvent :: "snapshot \<Rightarrow> go_time \<Rightarrow> (paid_event \<times> bool) order_tx" where
  "AppendPaidEvent s at =
     (if snp_ID s < 1 \<or> snp_Version s < 2 \<or> snp_Status s \<noteq> StatusPaid \<or> snp_RecordOrigin s \<noteq> RecordOriginNative \<or>
         \<not> snp_EffectEligible s \<or> is_zero (snp_UpdatedAt s) \<or> is_zero at then tx_fail OrdInvalidRequest
      else tx_then (paid_row_for s at) (\<lambda>(row, created).
        if \<not> ValidOrderFact (event_of_row row s) then tx_fail OrdInvalidRequest
        else tx_then (with_checkout (event_of_row row s)) (\<lambda>e.
          tx_then (paid_outbox e created) (\<lambda>i.
            if \<not> PaidEvent_Valid (e\<lparr>pev_OutboxID := i\<rparr>) then tx_fail OrdInvalidRequest
            else tx_return (e\<lparr>pev_OutboxID := i\<rparr>, created)))))"

definition PaymentConfirmationOccurredAtWithin :: "int \<Rightarrow> go_time order_tx" where
  "PaymentConfirmationOccurredAtWithin i db =
     (if i < 1 then Inl OrdInvalidRequest
      else
       (case find (\<lambda>e. ope_OrderID e = i) (odb_PaidEvents db) of
          None \<Rightarrow> Inl OrdNotFound
        | Some e \<Rightarrow> if is_zero (ope_OccurredAt e) then Inl OrdInvalidRequest else Inr (ope_OccurredAt e, db)))"

text \<open>At most two matches: the callers only ask whether there is exactly one.\<close>

definition has_reference :: "string \<Rightarrow> snapshot \<Rightarrow> bool" where
  "has_reference ref s \<longleftrightarrow> snp_MerchantOrderNo s = ref \<or> snp_ProviderTransactionNo s = ref \<or> snp_SourceKey s = ref"

definition findByReference :: "provider option \<Rightarrow> string \<Rightarrow> order_db \<Rightarrow> (order_app_error, order list) result" where
  "findByReference p ref db =
     (if ref = [] \<or> 200 < length ref then Inl OrdInvalidRequest
      else if \<not> pg_text ref then Inl OrdStorage
      else
       (let rows = take 2 (filter (\<lambda>s. has_reference ref s \<and> ptr_all (\<lambda>q. snp_Provider s = q) p) (odb_Orders db)) in
        if list_ex (\<lambda>s. \<not> is_ok (Restore s)) rows then Inl OrdUnavailable
        else Inr (concat (map (\<lambda>s. case Restore s of Inl _ \<Rightarrow> [] | Inr o' \<Rightarrow> [o']) rows))))"

end
