(* ===== verification/OrderCheckout.thy ===== *)
theory OrderCheckout
  imports OrderStore CouponCheckout
begin

text \<open>
  The order service, \<open>internal/order/app/service.go\<close>: creating an order from a checkout, with the
  reservation of a coupon, and settling its payment, with the end of that reservation.

  The coupon component is its own model: a step here runs \<open>ReserveWithin\<close>, \<open>ConsumeWithin\<close> or
  \<open>ReleaseWithin\<close> on the coupon tables of the same transaction.  The other collaborators that the
  composition binds (attribution, product sales, entitlements, consumers of paid and refund events,
  contacts) are functions on a state of their own, of which nothing is assumed; each may be unbound.
  An error of a step rolls everything back.
\<close>

subsection \<open>Commands\<close>

record payment_order_command =
  poc_Variant :: "variant_snapshot option"
  poc_Provider :: provider
  poc_MerchantOrderNo :: string
  poc_PayerCustomerID :: int
  poc_BeneficiaryCustomerID :: int
  poc_ProductID :: int
  poc_CouponClaimID :: int
  poc_ProductCode :: string
  poc_ProductName :: string
  poc_ProductVersion :: int
  poc_UnitAmountMinor :: int
  poc_ProductType :: string
  poc_ServicePeriodDurationDays :: int
  poc_PostPurchaseAction :: "string option"
  poc_Currency :: string
  poc_MobileE164 :: string
  poc_ContactCollectionLevel :: string
  poc_ShippingAddress :: shipping_address
  poc_PromotionContext :: string
  poc_ReferralActivityContext :: string
  poc_ActorScope :: string
  poc_IdempotencyKey :: string
  poc_ExpectedAmountMinor :: "int option"

record payment_settlement_command =
  psc_OrderID :: int
  psc_RefundedDelta :: int
  psc_Failed :: bool
  psc_ProviderTransactionNo :: string
  psc_OccurredAt :: go_time
  psc_ReceiptKey :: string

record order_create_command =
  occ_Input :: new_order_input
  occ_Actor :: int
  occ_IdempotencyKey :: string

record settlement_command =
  osc_OrderID :: int
  osc_ExpectedVersion :: int
  osc_Status :: order_status
  osc_RefundedMinor :: int
  osc_OccurredAt :: go_time
  osc_ActorScope :: string
  osc_IdempotencyKey :: string

record confirmation_evidence =
  pce_OrderID :: int
  pce_ProviderTransactionNo :: string
  pce_OccurredAt :: go_time

text \<open>What the collaborators are told.\<close>

record attribution_command =
  cac_OrderID :: int
  cac_OrderItemLine :: int
  cac_ProductID :: int
  cac_ProductType :: string
  cac_ProductCode :: string
  cac_ProductName :: string
  cac_PayerCustomerID :: int
  cac_BeneficiaryCustomerID :: int
  cac_PromotionContext :: string
  cac_ReferralActivityContext :: string
  cac_ItemPaidMinor :: int
  cac_OccurredAt :: go_time

record attribution_result =
  car_ProfitSharingRequired :: bool
  car_PromoterCustomerID :: int
  car_PromotionCredentialRef :: string
  car_PolicyVersion :: int
  car_CommissionRateBasisPoints :: int
  car_WaitDays :: int

record product_sale_command =
  pcc_OrderID :: int
  pcc_OrderVersion :: int
  pcc_ProductID :: int
  pcc_ProductType :: string
  pcc_ProductCode :: string
  pcc_ProductName :: string
  pcc_ProductVersion :: int
  pcc_Attribution :: attribution_result
  pcc_BuyerCustomerID :: int
  pcc_BeneficiaryCustomerID :: int
  pcc_PromotionContext :: string
  pcc_ReferralActivityContext :: string
  pcc_OccurredAt :: go_time

record grant_command =
  sgc_SourceOrderID :: int
  sgc_BeneficiaryCustomerID :: int
  sgc_ServiceProductID :: int
  sgc_ProductName :: string
  sgc_DurationDays :: int
  sgc_PaidAt :: go_time
  sgc_ProcessedAt :: go_time

record period_refund_command =
  srf_SourceOrderID :: int
  srf_RefundAmountMinor :: int
  srf_ProcessedAt :: go_time

record refund_event =
  rfe_Order :: snapshot
  rfe_RefundedDelta :: int
  rfe_CheckoutProductID :: int
  rfe_CheckoutProductType :: string
  rfe_OccurredAt :: go_time
  rfe_ReceiptKey :: string

record contact_update =
  cup_CustomerID :: int
  cup_MobileE164 :: string
  cup_Source :: string
  cup_Shipping :: "shipping_address option"

record phone_command =
  phc_CustomerID :: int
  phc_Phone :: string
  phc_SourceEventID :: string
  phc_IdempotencyKey :: string
  phc_CollectedAt :: go_time

record address_node =
  adn_Code :: string
  adn_Name :: string

text \<open>A province with its cities, each with its districts.\<close>

type_synonym address_catalog = "(address_node \<times> (address_node \<times> address_node list) list) list"

record 'w order_env =
  oen_Now :: go_time
  oen_Jsonb :: "string \<Rightarrow> string option"
  oen_Catalog :: address_catalog
  oen_Coupons :: "coupon_env option"
  oen_Cipher :: "(string \<Rightarrow> (string \<times> int) option) option"
  oen_Attribution :: "(attribution_command \<Rightarrow> ('w, order_app_error, attribution_result) tx) option"
  oen_ProductSale :: "(product_sale_command \<Rightarrow> ('w, order_app_error, unit) tx) option"
  oen_Grant :: "(grant_command \<Rightarrow> ('w, order_app_error, unit) tx) option"
  oen_PeriodRefund :: "(period_refund_command \<Rightarrow> ('w, order_app_error, unit) tx) option"
  oen_PaidEvents :: "(paid_event \<Rightarrow> ('w, order_app_error, unit) tx) option"
  oen_RefundEvents :: "(refund_event \<Rightarrow> ('w, order_app_error, unit) tx) option"
  oen_Contacts :: "(contact_update \<Rightarrow> ('w, order_app_error, unit) tx) option"
  oen_Phones :: "(phone_command \<Rightarrow> ('w, order_app_error, unit) tx) option"

record 'w sale =
  sal_Orders :: order_db
  sal_Coupons :: coupon_db
  sal_Others :: 'w

type_synonym ('w, 'a) sale_tx = "('w sale, order_app_error, 'a) tx"

definition on_orders :: "'a order_tx \<Rightarrow> ('w, 'a) sale_tx" where
  "on_orders m = tx_part sal_Orders (\<lambda>p s. s\<lparr>sal_Orders := p\<rparr>) m"

definition on_coupons :: "(coupon_db, coupon_error, 'a) tx \<Rightarrow> ('w, 'a) sale_tx" where
  "on_coupons m = tx_error OrdCoupon (tx_part sal_Coupons (\<lambda>p s. s\<lparr>sal_Coupons := p\<rparr>) m)"

definition on_others :: "('w, order_app_error, 'a) tx \<Rightarrow> ('w, 'a) sale_tx" where
  "on_others m = tx_part sal_Others (\<lambda>p s. s\<lparr>sal_Others := p\<rparr>) m"

fun order_classify :: "order_app_error \<Rightarrow> order_app_error" where
  "order_classify OrdPriceChanged = OrdPriceChanged"
| "order_classify OrdNotFound = OrdNotFound"
| "order_classify OrdConflict = OrdConflict"
| "order_classify (OrdDomain e) = OrdConflict"
| "order_classify (OrdCoupon e) = (if e = CpnClaimNotEligible then OrdConflict else OrdUnavailable)"
| "order_classify OrdUnavailable = OrdUnavailable"
| "order_classify OrdInvalidRequest = OrdUnavailable"
| "order_classify OrdStorage = OrdUnavailable"

abbreviation classified_tx :: "('w, 'a) sale_tx \<Rightarrow> ('w, 'a) sale_tx" where
  "classified_tx m \<equiv> tx_error order_classify m"

definition unavailable :: "('w, 'a) sale_tx \<Rightarrow> ('w, 'a) sale_tx" where
  "unavailable m = tx_error (\<lambda>_. OrdUnavailable) m"

subsection \<open>Checks\<close>

definition order_validKey :: "string \<Rightarrow> bool" where
  "order_validKey v \<longleftrightarrow> v = trim_space v \<and> 16 \<le> length v \<and> length v \<le> 200"

definition order_validScope :: "string \<Rightarrow> bool" where
  "order_validScope v \<longleftrightarrow> v = trim_space v \<and> 1 \<le> length v \<and> length v \<le> 200"

definition validPaymentProductType :: "string \<Rightarrow> int \<Rightarrow> bool" where
  "validPaymentProductType kind days \<longleftrightarrow>
     kind = ''standard_product'' \<and> days = 0 \<or> kind = ''service_period'' \<and> 0 < days"

definition validPostPurchaseAction :: "string option \<Rightarrow> bool" where
  "validPostPurchaseAction raw \<longleftrightarrow>
     (case raw of None \<Rightarrow> True | Some s \<Rightarrow> s = [] \<or> length s \<le> 8192 \<and> json_valid s)"

definition opaque_context :: "string \<Rightarrow> bool" where
  "opaque_context v \<longleftrightarrow> length v \<le> 512 \<and> v = trim_space v \<and> list_all (\<lambda>r. 33 \<le> r \<and> r \<le> 126) (runes v)"

definition valid_mobile :: "string \<Rightarrow> bool" where
  "valid_mobile m \<longleftrightarrow> length m = 14 \<and> has_prefix m ''+861'' \<and> 51 \<le> byte (m ! 4) \<and> byte (m ! 4) \<le> 57 \<and>
     list_all (\<lambda>r. 48 \<le> r \<and> r \<le> 57) (runes (tl m))"

definition no_address :: shipping_address where
  "no_address = \<lparr>shp_RecipientName = [], shp_ProvinceCode = [], shp_ProvinceName = [], shp_CityCode = [],
     shp_CityName = [], shp_DistrictCode = [], shp_DistrictName = [], shp_DetailAddress = []\<rparr>"

definition validContactCollection :: "string \<Rightarrow> string \<Rightarrow> shipping_address \<Rightarrow> bool" where
  "validContactCollection level mobile a \<longleftrightarrow> (mobile = [] \<or> valid_mobile mobile) \<and>
     (level = ''none'' \<and> mobile = [] \<and> a = no_address \<or>
      level = ''mobile'' \<and> mobile \<noteq> [] \<and> a = no_address \<or>
      level = ''shipping_address'' \<and> mobile \<noteq> [] \<and> [] \<notin> set (address_fields a))"

text \<open>\<open>Validate\<close> of \<open>internal/address/port\<close> on the catalogue that the build embeds.\<close>

definition address_listed :: "address_catalog \<Rightarrow> shipping_address \<Rightarrow> bool" where
  "address_listed catalog a \<longleftrightarrow>
     trim_space (shp_ProvinceCode a) \<noteq> [] \<and> trim_space (shp_CityCode a) \<noteq> [] \<and> trim_space (shp_DistrictCode a) \<noteq> [] \<and>
     shp_ProvinceName a \<noteq> [] \<and> shp_CityName a \<noteq> [] \<and> shp_DistrictName a \<noteq> [] \<and>
     list_ex (\<lambda>(p, cities). adn_Code p = shp_ProvinceCode a \<and> adn_Name p = shp_ProvinceName a \<and>
       list_ex (\<lambda>(c, districts). adn_Code c = shp_CityCode a \<and> adn_Name c = shp_CityName a \<and>
         list_ex (\<lambda>d. adn_Code d = shp_DistrictCode a \<and> adn_Name d = shp_DistrictName a) districts) cities) catalog"

definition no_payment :: "payment_order_command \<Rightarrow> w32 list option \<Rightarrow> bool" where
  "no_payment c digest \<longleftrightarrow> digest \<noteq> None \<and> poc_Provider c = ProviderNoPayment \<and> poc_UnitAmountMinor c = 0 \<and>
     poc_ProductType c = ''standard_product'' \<and> poc_CouponClaimID c = 0"

definition with_contact_level :: "payment_order_command \<Rightarrow> payment_order_command" where
  "with_contact_level c = (if poc_ContactCollectionLevel c = []
     then c\<lparr>poc_ContactCollectionLevel := (if poc_MobileE164 c \<noteq> [] then ''mobile'' else ''none'')\<rparr> else c)"

definition valid_checkout_command :: "bool \<Rightarrow> payment_order_command \<Rightarrow> bool" where
  "valid_checkout_command free c \<longleftrightarrow>
     \<not> (poc_Variant c \<noteq> None \<and> poc_ProductType c \<noteq> ''standard_product'' \<or> \<not> Variant_Valid (poc_Variant c) \<or>
        \<not> free \<and> poc_Provider c \<noteq> ProviderWeChatPay \<and> poc_Provider c \<noteq> ProviderAlipay \<or>
        poc_PayerCustomerID c < 1 \<or> poc_BeneficiaryCustomerID c < 1 \<or> poc_ProductID c < 1 \<or> poc_ProductVersion c < 1 \<or>
        \<not> free \<and> poc_UnitAmountMinor c < 1 \<or> poc_Currency c \<noteq> ''CNY'' \<or> poc_CouponClaimID c < 0 \<or>
        \<not> validPaymentProductType (poc_ProductType c) (poc_ServicePeriodDurationDays c) \<or>
        \<not> validPostPurchaseAction (poc_PostPurchaseAction c) \<or> \<not> opaque_context (poc_PromotionContext c) \<or>
        \<not> opaque_context (poc_ReferralActivityContext c) \<or> \<not> order_validKey (poc_IdempotencyKey c) \<or>
        \<not> order_validKey (poc_ActorScope c) \<or>
        \<not> validContactCollection (poc_ContactCollectionLevel c) (poc_MobileE164 c) (poc_ShippingAddress c))"

subsection \<open>The payload of a checkout\<close>

text \<open>\<open>json.Marshal\<close> compacts a \<open>RawMessage\<close>: it drops the space outside of strings and escapes the HTML
  characters and the two line separators.\<close>

function json_compact :: "bool \<Rightarrow> string \<Rightarrow> string" where
  "json_compact quoted s =
     (case s of [] \<Rightarrow> []
      | c # t \<Rightarrow>
          if quoted \<and> c = CHR 0x5C then (case t of [] \<Rightarrow> [c] | d # u \<Rightarrow> c # d # json_compact True u)
          else if c = CHR 0x22 then c # json_compact (\<not> quoted) t
          else if \<not> quoted \<and> json_space c then json_compact quoted t
          else if c \<in> {CHR ''<'', CHR ''>'', CHR ''&''} then json_escape c @ json_compact quoted t
          else if c = CHR 0xE2 \<and> take 2 t \<in> {[CHR 0x80, CHR 0xA8], [CHR 0x80, CHR 0xA9]}
          then [CHR 0x5C] @ ''u202'' @ [hex_digit (byte (t ! 1) mod 16)] @ json_compact quoted (drop 2 t)
          else c # json_compact quoted t)"
  by pat_completeness auto
termination
  by (relation "measure (\<lambda>(q, s). length s)") auto

declare json_compact.simps [simp del]

definition member_unless :: "bool \<Rightarrow> string \<Rightarrow> string \<Rightarrow> string list" where
  "member_unless omitted name v = (if omitted then [] else [json_member name v])"

definition variant_json :: "variant_snapshot \<Rightarrow> string" where
  "variant_json v = json_object [json_member ''id'' (format_int (var_ID v)), json_member ''version'' (format_int (var_Version v)),
     json_member ''name'' (json_string (var_Name v)), json_member ''description'' (json_string (var_Description v)),
     json_member ''attributes'' (json_array (map (\<lambda>(k, x). json_object [json_member ''key'' (json_string k),
       json_member ''value'' (json_string x)]) (var_Attributes v)))]"

definition address_json :: "shipping_address \<Rightarrow> string" where
  "address_json a = json_object (concat (map (\<lambda>(name, v). member_unless (v = []) name (json_string v))
     (zip [''recipient_name'', ''province_code'', ''province_name'', ''city_code'', ''city_name'', ''district_code'',
       ''district_name'', ''detail_address''] (address_fields a))))"

definition command_json :: "payment_order_command \<Rightarrow> string" where
  "command_json c = json_object
     (member_unless (poc_Variant c = None) ''Variant'' (json_pointer variant_json (poc_Variant c)) @
      [json_member ''Provider'' (json_string (provider_text (poc_Provider c))),
       json_member ''MerchantOrderNo'' (json_string (poc_MerchantOrderNo c)),
       json_member ''PayerCustomerID'' (format_int (poc_PayerCustomerID c)),
       json_member ''BeneficiaryCustomerID'' (format_int (poc_BeneficiaryCustomerID c)),
       json_member ''ProductID'' (format_int (poc_ProductID c)), json_member ''CouponClaimID'' (format_int (poc_CouponClaimID c)),
       json_member ''ProductCode'' (json_string (poc_ProductCode c)), json_member ''ProductName'' (json_string (poc_ProductName c)),
       json_member ''ProductVersion'' (format_int (poc_ProductVersion c)),
       json_member ''UnitAmountMinor'' (format_int (poc_UnitAmountMinor c)),
       json_member ''ProductType'' (json_string (poc_ProductType c)),
       json_member ''ServicePeriodDurationDays'' (format_int (poc_ServicePeriodDurationDays c)),
       json_member ''PostPurchaseAction'' (json_pointer (json_compact False) (poc_PostPurchaseAction c)),
       json_member ''Currency'' (json_string (poc_Currency c)), json_member ''MobileE164'' (json_string (poc_MobileE164 c)),
       json_member ''ContactCollectionLevel'' (json_string (poc_ContactCollectionLevel c)),
       json_member ''ShippingAddress'' (address_json (poc_ShippingAddress c)),
       json_member ''PromotionContext'' (json_string (poc_PromotionContext c)),
       json_member ''ReferralActivityContext'' (json_string (poc_ReferralActivityContext c)),
       json_member ''ActorScope'' (json_string (poc_ActorScope c)),
       json_member ''IdempotencyKey'' (json_string (poc_IdempotencyKey c))] @
      member_unless (poc_ExpectedAmountMinor c = None) ''ExpectedAmountMinor'' (json_pointer format_int (poc_ExpectedAmountMinor c)))"

definition digest_array :: "w32 list \<Rightarrow> string" where
  "digest_array d = json_array (map (\<lambda>b. format_int (int (byte b))) (CouponCheckout.digest_bytes d))"

text \<open>An action that is present and empty is not JSON, so \<open>json.Marshal\<close> refuses it.\<close>

definition checkout_payload :: "payment_order_command \<Rightarrow> (w32 list) option" where
  "checkout_payload c =
     (if poc_PostPurchaseAction c = Some [] then None
      else Some (Sum256 (json_object [json_member ''Command'' (command_json c),
        json_member ''PhoneDigest'' (digest_array (if poc_MobileE164 c = [] then zero_sha256 else Sum256 (poc_MobileE164 c)))])))"

definition checkout_reservation :: "payment_order_command \<Rightarrow> w32 list option \<Rightarrow> w32 list \<Rightarrow> go_time \<Rightarrow> order_reservation" where
  "checkout_reservation c digest payload now = \<lparr>ors_Operation = ''create'', ors_ActorScope = poc_ActorScope c,
     ors_KeyDigest = Sum256 (poc_IdempotencyKey c),
     ors_PayloadDigest = (case digest of None \<Rightarrow> payload | Some d \<Rightarrow> d), ors_CreatedAt = now\<rparr>"

definition order_validReceipt :: "order_receipt \<Rightarrow> order_reservation \<Rightarrow> bool" where
  "order_validReceipt r v \<longleftrightarrow> 0 < orr_ID r \<and> orr_Operation r = ors_Operation v \<and> orr_ActorScope r = ors_ActorScope v \<and>
     orr_KeyDigest r = ors_KeyDigest v"

subsection \<open>The coupon of a checkout\<close>

definition plain_checkout :: "payment_order_command \<Rightarrow> go_time \<Rightarrow> checkout_snapshot" where
  "plain_checkout c at = \<lparr>ckt_OrderID = 0, ckt_ProductType = poc_ProductType c, ckt_ProductID = poc_ProductID c,
     ckt_ProductCode = poc_ProductCode c, ckt_ProductName = poc_ProductName c, ckt_ProductVersion = poc_ProductVersion c,
     ckt_ServicePeriodDurationDays = poc_ServicePeriodDurationDays c, ckt_GrossAmountMinor = poc_UnitAmountMinor c,
     ckt_DiscountAmountMinor = 0, ckt_PayableAmountMinor = poc_UnitAmountMinor c, ckt_Currency = poc_Currency c,
     ckt_CouponApplied = False, ckt_CouponReservationRef = [], ckt_CouponClaimID = 0, ckt_CouponID = 0,
     ckt_CouponRuleVersion = 0, ckt_ProfitSharingRequired = False,
     ckt_ReferralActivityContextDigest =
       (if poc_ReferralActivityContext c = [] then zero_sha256 else Sum256 (poc_ReferralActivityContext c)),
     ckt_PromotionContextDigest = (if poc_PromotionContext c = [] then zero_sha256 else Sum256 (poc_PromotionContext c)),
     ckt_PostPurchaseAction = (case poc_PostPurchaseAction c of None \<Rightarrow> ''{}'' | Some a \<Rightarrow> if a = [] then ''{}'' else a),
     ckt_ReservedAt = at\<rparr>"

definition coupon_reserve :: "payment_order_command \<Rightarrow> go_time \<Rightarrow> reserve_command" where
  "coupon_reserve c at = \<lparr>rvc_HolderCustomerID = poc_PayerCustomerID c, rvc_ClaimID = poc_CouponClaimID c,
     rvc_ProductID = poc_ProductID c, rvc_ProductCode = poc_ProductCode c, rvc_ProductType = poc_ProductType c,
     rvc_GrossAmountMinor = poc_UnitAmountMinor c, rvc_Currency = poc_Currency c,
     rvc_OrderReference = poc_MerchantOrderNo c, rvc_ActorScope = poc_ActorScope c,
     rvc_IdempotencyKey = poc_IdempotencyKey c, rvc_ReservedAt = at\<rparr>"

definition reservation_matches :: "payment_order_command \<Rightarrow> reservation_snapshot \<Rightarrow> bool" where
  "reservation_matches c r \<longleftrightarrow> rsv_ProductID r = poc_ProductID c \<and> rsv_ProductType r = poc_ProductType c \<and>
     rsv_ProductCode r = poc_ProductCode c \<and> rsv_GrossAmountMinor r = poc_UnitAmountMinor c \<and>
     rsv_Currency r = poc_Currency c \<and> 0 \<le> rsv_DiscountAmountMinor r \<and> 1 \<le> rsv_PayableAmountMinor r \<and>
     rsv_PayableAmountMinor r = rsv_GrossAmountMinor r - rsv_DiscountAmountMinor r"

definition discounted_checkout ::
  "payment_order_command \<Rightarrow> go_time \<Rightarrow> reservation_snapshot \<Rightarrow> (order_app_error, checkout_snapshot) result" where
  "discounted_checkout c at r =
     (if \<not> reservation_matches c r then Inl OrdConflict
      else if \<not> rsv_CouponApplied r then
        (if rsv_ReservationRef r \<noteq> [] \<or> rsv_ClaimID r \<noteq> 0 \<or> rsv_CouponID r \<noteq> 0 \<or> rsv_RuleVersion r \<noteq> 0 \<or>
            rsv_DiscountAmountMinor r \<noteq> 0 \<or> rsv_PayableAmountMinor r \<noteq> poc_UnitAmountMinor c then Inl OrdConflict
         else Inr (plain_checkout c at))
      else if rsv_ReservationRef r = [] \<or> 240 < length (rsv_ReservationRef r) \<or> rsv_ClaimID r < 1 \<or> rsv_CouponID r < 1 \<or>
         rsv_RuleVersion r < 1 \<or> rsv_DiscountAmountMinor r < 1 \<or> rsv_GrossAmountMinor r \<le> rsv_DiscountAmountMinor r
      then Inl OrdConflict
      else Inr ((plain_checkout c at)\<lparr>ckt_CouponApplied := True, ckt_CouponReservationRef := rsv_ReservationRef r,
        ckt_CouponClaimID := rsv_ClaimID r, ckt_CouponID := rsv_CouponID r, ckt_CouponRuleVersion := rsv_RuleVersion r,
        ckt_DiscountAmountMinor := rsv_DiscountAmountMinor r, ckt_PayableAmountMinor := rsv_PayableAmountMinor r\<rparr>))"

definition reserveCheckout :: "'w order_env \<Rightarrow> payment_order_command \<Rightarrow> go_time \<Rightarrow> ('w, checkout_snapshot) sale_tx" where
  "reserveCheckout env c at =
     (case oen_Coupons env of
        None \<Rightarrow> tx_return (plain_checkout c at)
      | Some coupons \<Rightarrow>
          if poc_Provider c = ProviderNoPayment then tx_return (plain_checkout c at)
          else tx_then (on_coupons (ReserveWithin coupons (coupon_reserve c at)))
            (\<lambda>r. tx_value (discounted_checkout c at r)))"

subsection \<open>Creating an order\<close>

definition checkout_order :: "payment_order_command \<Rightarrow> checkout_snapshot \<Rightarrow> go_time \<Rightarrow> new_order_input" where
  "checkout_order c k at = \<lparr>inp_Provider = poc_Provider c, inp_SourceSystem = ''v3-checkout'',
     inp_SourceKey = poc_MerchantOrderNo c, inp_MerchantOrderNo = poc_MerchantOrderNo c, inp_ProviderTransactionNo = [],
     inp_PayerCustomerID = Some (poc_PayerCustomerID c), inp_BeneficiaryCustomerID = Some (poc_BeneficiaryCustomerID c),
     inp_Amount = \<lparr>AmountMinor = ckt_PayableAmountMinor k, Currency = poc_Currency c\<rparr>,
     inp_Items = [\<lparr>itm_Variant = poc_Variant c, itm_LineNo = 1, itm_ProductID = Some (poc_ProductID c),
       itm_ProductVersion = Some (poc_ProductVersion c), itm_ProductCode = poc_ProductCode c,
       itm_ProductName = poc_ProductName c, itm_UnitAmountMinor = ckt_PayableAmountMinor k, itm_Quantity = 1,
       itm_LineAmountMinor = ckt_PayableAmountMinor k\<rparr>],
     inp_RecordOrigin = RecordOriginNative, inp_EffectEligible = True, inp_CreatedAt = at\<rparr>"

definition no_attribution :: attribution_result where
  "no_attribution = \<lparr>car_ProfitSharingRequired = False, car_PromoterCustomerID = 0, car_PromotionCredentialRef = [],
     car_PolicyVersion = 0, car_CommissionRateBasisPoints = 0, car_WaitDays = 0\<rparr>"

definition record_attribution ::
  "'w order_env \<Rightarrow> bool \<Rightarrow> payment_order_command \<Rightarrow> checkout_snapshot \<Rightarrow> int \<Rightarrow> ('w, attribution_result) sale_tx" where
  "record_attribution env free c k i =
     (case oen_Attribution env of
        None \<Rightarrow> tx_return no_attribution
      | Some f \<Rightarrow>
          if free \<or> poc_PromotionContext c = [] \<and> poc_ReferralActivityContext c = [] then tx_return no_attribution
          else classified_tx (on_others (f \<lparr>cac_OrderID = i, cac_OrderItemLine = 1, cac_ProductID = poc_ProductID c,
            cac_ProductType = poc_ProductType c, cac_ProductCode = poc_ProductCode c, cac_ProductName = poc_ProductName c,
            cac_PayerCustomerID = poc_PayerCustomerID c, cac_BeneficiaryCustomerID = poc_BeneficiaryCustomerID c,
            cac_PromotionContext = poc_PromotionContext c, cac_ReferralActivityContext = poc_ReferralActivityContext c,
            cac_ItemPaidMinor = ckt_PayableAmountMinor k, cac_OccurredAt = oen_Now env\<rparr>)))"

definition record_product_sale ::
  "'w order_env \<Rightarrow> bool \<Rightarrow> payment_order_command \<Rightarrow> attribution_result \<Rightarrow> snapshot \<Rightarrow> ('w, unit) sale_tx" where
  "record_product_sale env free c a s =
     (case oen_ProductSale env of
        None \<Rightarrow> tx_return ()
      | Some f \<Rightarrow>
          if free \<or> poc_ReferralActivityContext c = [] then tx_return ()
          else classified_tx (on_others (f \<lparr>pcc_OrderID = snp_ID s, pcc_OrderVersion = snp_Version s,
            pcc_ProductID = poc_ProductID c, pcc_ProductType = poc_ProductType c, pcc_ProductCode = poc_ProductCode c,
            pcc_ProductName = poc_ProductName c, pcc_ProductVersion = poc_ProductVersion c, pcc_Attribution = a,
            pcc_BuyerCustomerID = poc_PayerCustomerID c, pcc_BeneficiaryCustomerID = poc_BeneficiaryCustomerID c,
            pcc_PromotionContext = poc_PromotionContext c, pcc_ReferralActivityContext = poc_ReferralActivityContext c,
            pcc_OccurredAt = oen_Now env\<rparr>)))"

text \<open>The phone is encrypted before anything is written; without a cipher it cannot be taken.\<close>

definition phone_cipher ::
  "'w order_env \<Rightarrow> payment_order_command \<Rightarrow> (order_app_error, (string \<times> int) option) result" where
  "phone_cipher env c =
     (if poc_MobileE164 c = [] then Inr None
      else if \<not> valid_mobile (poc_MobileE164 c) then Inl OrdConflict
      else
       (case oen_Cipher env of
          None \<Rightarrow> Inl OrdConflict
        | Some f \<Rightarrow> (case f (poc_MobileE164 c) of None \<Rightarrow> Inl OrdUnavailable | Some x \<Rightarrow> Inr (Some x))))"

definition record_contact ::
  "'w order_env \<Rightarrow> payment_order_command \<Rightarrow> (string \<times> int) option \<Rightarrow> int \<Rightarrow> ('w, unit) sale_tx" where
  "record_contact env c phone i =
     (case phone of
        None \<Rightarrow> tx_return ()
      | Some (ciphertext, version) \<Rightarrow>
          if ciphertext = [] then tx_return ()
          else if oen_Phones env = None then tx_fail OrdUnavailable
          else unavailable (on_orders (InsertContactSnapshot i ciphertext version (oen_Now env))))"

definition record_address :: "'w order_env \<Rightarrow> payment_order_command \<Rightarrow> int \<Rightarrow> ('w, unit) sale_tx" where
  "record_address env c i =
     (if poc_ContactCollectionLevel c = ''shipping_address''
      then unavailable (on_orders (InsertShippingAddressSnapshot i (poc_ShippingAddress c) (oen_Now env)))
      else tx_return ())"

definition update_contact :: "'w order_env \<Rightarrow> payment_order_command \<Rightarrow> int \<Rightarrow> ('w, unit) sale_tx" where
  "update_contact env c i =
     (case oen_Contacts env of
        None \<Rightarrow> tx_return ()
      | Some f \<Rightarrow> on_others (f \<lparr>cup_CustomerID = poc_PayerCustomerID c, cup_MobileE164 = poc_MobileE164 c,
          cup_Source = ''order:'' @ format_int i,
          cup_Shipping = (if poc_ContactCollectionLevel c = ''shipping_address'' then Some (poc_ShippingAddress c) else None)\<rparr>))"

text \<open>Without a recorder the call would panic, which ends the transaction like an error.\<close>

definition collect_phone :: "'w order_env \<Rightarrow> payment_order_command \<Rightarrow> int \<Rightarrow> ('w, unit) sale_tx" where
  "collect_phone env c i =
     (case oen_Phones env of
        None \<Rightarrow> tx_fail OrdStorage
      | Some f \<Rightarrow> classified_tx (on_others (f \<lparr>phc_CustomerID = poc_PayerCustomerID c, phc_Phone = poc_MobileE164 c,
          phc_SourceEventID = ''order:'' @ format_int i @ '':contact'', phc_IdempotencyKey = ''order-phone:'' @ format_int i,
          phc_CollectedAt = oen_Now env\<rparr>)))"

definition share_contact :: "'w order_env \<Rightarrow> payment_order_command \<Rightarrow> int \<Rightarrow> ('w, unit) sale_tx" where
  "share_contact env c i =
     (if poc_MobileE164 c = [] then tx_return () else tx_then (update_contact env c i) (\<lambda>_. collect_phone env c i))"

definition first_paid :: "snapshot \<Rightarrow> snapshot \<Rightarrow> bool" where
  "first_paid previous current \<longleftrightarrow>
     \<not> (snp_Status previous = StatusPaid \<or> snp_Status current \<noteq> StatusPaid \<or>
        snp_RecordOrigin current \<noteq> RecordOriginNative \<or> \<not> snp_EffectEligible current \<or>
        snp_Version current = snp_Version previous)"

definition consumeFirstNativePaidEvent ::
  "'w order_env \<Rightarrow> snapshot \<Rightarrow> snapshot \<Rightarrow> go_time \<Rightarrow> ('w, unit) sale_tx" where
  "consumeFirstNativePaidEvent env previous current at =
     (if \<not> first_paid previous current then tx_return ()
      else tx_then (classified_tx (on_orders (AppendPaidEvent current at))) (\<lambda>(e, created).
        if \<not> PaidEvent_Valid e then tx_fail OrdUnavailable
        else
         (case oen_PaidEvents env of
            None \<Rightarrow> tx_return ()
          | Some f \<Rightarrow> if \<not> created \<and> pev_OrderID e \<noteq> snp_ID current then tx_fail OrdConflict else on_others (f e))))"

text \<open>An order of nothing is paid at once.\<close>

definition settle_free :: "'w order_env \<Rightarrow> bool \<Rightarrow> payment_order_command \<Rightarrow> order \<Rightarrow> ('w, order) sale_tx" where
  "settle_free env free c o' =
     (if \<not> free then tx_return o'
      else
       (case ApplySettlement o' (ord_Version o') StatusPaid 0 (oen_Now env) of
          Inl _ \<Rightarrow> tx_fail OrdConflict
        | Inr (updated, event) \<Rightarrow>
            tx_then (classified_tx (on_orders (UpdateSettlement updated event (poc_ActorScope c)))) (\<lambda>final.
              tx_then (consumeFirstNativePaidEvent env (Snapshot o') (Snapshot final) (evt_OccurredAt event)) (\<lambda>_.
                tx_return final))))"

definition complete_order :: "'w order_env \<Rightarrow> int \<Rightarrow> snapshot \<Rightarrow> ('w, snapshot) sale_tx" where
  "complete_order env receipt s =
     (if \<not> snapshot_marshals s then tx_fail OrdUnavailable
      else tx_then (unavailable (on_orders (Order_Complete receipt s (oen_Now env)))) (\<lambda>_. tx_return s))"

definition place_order ::
  "'w order_env \<Rightarrow> bool \<Rightarrow> payment_order_command \<Rightarrow> (string \<times> int) option \<Rightarrow> int \<Rightarrow> ('w, snapshot) sale_tx" where
  "place_order env free c phone receipt =
     tx_then (classified_tx (reserveCheckout env c (oen_Now env))) (\<lambda>k.
     if \<not> ptr_all (\<lambda>a. a = ckt_PayableAmountMinor k) (poc_ExpectedAmountMinor c) then tx_fail OrdPriceChanged
     else
      (case NewOrder (checkout_order c k (oen_Now env)) of
         Inl _ \<Rightarrow> tx_fail OrdConflict
       | Inr new \<Rightarrow>
           tx_then (classified_tx (on_orders (InsertScoped new (poc_ActorScope c) (oen_Now env)))) (\<lambda>o'.
           tx_then (record_attribution env free c k (ord_ID o')) (\<lambda>a.
           tx_then (record_product_sale env free c a (Snapshot o')) (\<lambda>_.
           tx_then (classified_tx (on_orders (InsertCheckoutSnapshot (oen_Jsonb env)
             (k\<lparr>ckt_OrderID := ord_ID o', ckt_ProfitSharingRequired := car_ProfitSharingRequired a\<rparr>)))) (\<lambda>_.
           tx_then (record_contact env c phone (ord_ID o')) (\<lambda>_.
           tx_then (record_address env c (ord_ID o')) (\<lambda>_.
           tx_then (share_contact env c (ord_ID o')) (\<lambda>_.
           tx_then (settle_free env free c o') (\<lambda>final.
             complete_order env receipt
               ((Snapshot final)\<lparr>snp_ProfitSharingRequired := car_ProfitSharingRequired a\<rparr>)))))))))))"

definition replayed_order :: "order_receipt \<Rightarrow> (order_app_error, snapshot) result" where
  "replayed_order r =
     (case orr_Result r of
        None \<Rightarrow> Inl OrdUnavailable
      | Some s \<Rightarrow> if is_ok (Restore s) then Inr s else Inl OrdConflict)"

definition createCheckoutOrderWithin ::
  "'w order_env \<Rightarrow> payment_order_command \<Rightarrow> w32 list option \<Rightarrow> ('w, snapshot) sale_tx" where
  "createCheckoutOrderWithin env input digest =
     (let free = no_payment input digest; c = with_contact_level input in
      if \<not> valid_checkout_command free c then tx_fail OrdConflict
      else
       (case phone_cipher env c of
          Inl e \<Rightarrow> tx_fail e
        | Inr phone \<Rightarrow>
            if poc_ContactCollectionLevel c = ''shipping_address'' \<and> \<not> address_listed (oen_Catalog env) (poc_ShippingAddress c)
            then tx_fail OrdConflict
            else
             (case checkout_payload c of
                None \<Rightarrow> tx_fail OrdUnavailable
              | Some payload \<Rightarrow>
                  (let v = checkout_reservation c digest payload (oen_Now env) in
                   tx_then (classified_tx (on_orders (Order_Reserve v))) (\<lambda>(r, owned).
                     if \<not> order_validReceipt r v \<or> orr_PayloadDigest r \<noteq> ors_PayloadDigest v then tx_fail OrdConflict
                     else if \<not> owned then tx_value (replayed_order r)
                     else place_order env free c phone (orr_ID r))))))"

definition CreatePaymentOrderWithin :: "'w order_env \<Rightarrow> payment_order_command \<Rightarrow> ('w, snapshot) sale_tx" where
  "CreatePaymentOrderWithin env c = createCheckoutOrderWithin env c None"

definition CreateNoPaymentCheckoutWithin ::
  "'w order_env \<Rightarrow> payment_order_command \<Rightarrow> w32 list \<Rightarrow> ('w, snapshot) sale_tx" where
  "CreateNoPaymentCheckoutWithin env c digest =
     (if poc_Provider c \<noteq> ProviderNoPayment \<or> digest = zero_sha256 then tx_fail OrdConflict
      else createCheckoutOrderWithin env c (Some digest))"

end
