(* ===== verification/OrderSettle.thy ===== *)
theory OrderSettle
  imports OrderCheckout
begin

text \<open>
  The rest of \<open>internal/order/app/service.go\<close> that changes an order: the settlement of a payment with
  what it does to the coupon and the service period of the checkout, the administrative create and
  settlement with their receipts, and the reads by identifier and by reference.
\<close>

subsection \<open>What a settlement does to the checkout\<close>

definition settlement_scope :: "int \<Rightarrow> string" where
  "settlement_scope i = ''payment:order:'' @ format_int i"

definition coupon_release :: "checkout_snapshot \<Rightarrow> snapshot \<Rightarrow> payment_settlement_command \<Rightarrow> release_command" where
  "coupon_release k s c = \<lparr>rlc_ReservationRef = ckt_CouponReservationRef k, rlc_OrderReference = snp_MerchantOrderNo s,
     rlc_CloseReason = ''payment_final_failed'', rlc_ActorScope = settlement_scope (snp_ID s),
     rlc_IdempotencyKey = ''payment.release:'' @ psc_ReceiptKey c, rlc_ClosedAt = psc_OccurredAt c\<rparr>"

definition coupon_consume :: "checkout_snapshot \<Rightarrow> snapshot \<Rightarrow> payment_settlement_command \<Rightarrow> consume_command" where
  "coupon_consume k s c = \<lparr>csc_ReservationRef = ckt_CouponReservationRef k, csc_OrderReference = snp_MerchantOrderNo s,
     csc_SettledAmountMinor = ckt_PayableAmountMinor k, csc_SettledCurrency = ckt_Currency k,
     csc_ActorScope = settlement_scope (snp_ID s), csc_IdempotencyKey = ''payment.consume:'' @ psc_ReceiptKey c,
     csc_SettledAt = psc_OccurredAt c\<rparr>"

definition release_coupon ::
  "'w order_env \<Rightarrow> checkout_snapshot \<Rightarrow> snapshot \<Rightarrow> payment_settlement_command \<Rightarrow> ('w, unit) sale_tx" where
  "release_coupon env k s c =
     (case oen_Coupons env of
        None \<Rightarrow> tx_return ()
      | Some coupons \<Rightarrow>
          if ckt_CouponApplied k
          then tx_then (on_coupons (ReleaseWithin coupons (coupon_release k s c))) (\<lambda>_. tx_return ())
          else tx_return ())"

definition consume_coupon ::
  "'w order_env \<Rightarrow> checkout_snapshot \<Rightarrow> snapshot \<Rightarrow> payment_settlement_command \<Rightarrow> ('w, unit) sale_tx" where
  "consume_coupon env k s c =
     (case oen_Coupons env of
        None \<Rightarrow> tx_return ()
      | Some coupons \<Rightarrow>
          if ckt_CouponApplied k
          then tx_then (on_coupons (ConsumeWithin coupons (coupon_consume k s c))) (\<lambda>_. tx_return ())
          else tx_return ())"

definition refund_period ::
  "'w order_env \<Rightarrow> checkout_snapshot \<Rightarrow> snapshot \<Rightarrow> payment_settlement_command \<Rightarrow> go_time \<Rightarrow> ('w, unit) sale_tx" where
  "refund_period env k s c processed =
     (case oen_PeriodRefund env of
        None \<Rightarrow> tx_return ()
      | Some f \<Rightarrow>
          if ckt_ProductType k = ''service_period''
          then on_others (f \<lparr>srf_SourceOrderID = snp_ID s, srf_RefundAmountMinor = psc_RefundedDelta c,
            srf_ProcessedAt = processed\<rparr>)
          else tx_return ())"

definition grant_period ::
  "'w order_env \<Rightarrow> checkout_snapshot \<Rightarrow> snapshot \<Rightarrow> payment_settlement_command \<Rightarrow> ('w, unit) sale_tx" where
  "grant_period env k s c =
     (case oen_Grant env of
        None \<Rightarrow> tx_return ()
      | Some f \<Rightarrow>
          if ckt_ProductType k \<noteq> ''service_period'' then tx_return ()
          else
           (case snp_BeneficiaryCustomerID s of
              None \<Rightarrow> tx_fail OrdConflict
            | Some b \<Rightarrow>
                if b < 1 then tx_fail OrdConflict
                else on_others (f \<lparr>sgc_SourceOrderID = snp_ID s, sgc_BeneficiaryCustomerID = b,
                  sgc_ServiceProductID = ckt_ProductID k, sgc_ProductName = ckt_ProductName k,
                  sgc_DurationDays = ckt_ServicePeriodDurationDays k, sgc_PaidAt = psc_OccurredAt c,
                  sgc_ProcessedAt = oen_Now env\<rparr>)))"

definition checkout_of_order :: "checkout_snapshot \<Rightarrow> snapshot \<Rightarrow> bool" where
  "checkout_of_order k s \<longleftrightarrow> ckt_OrderID k = snp_ID s \<and> ckt_PayableAmountMinor k = AmountMinor (snp_Amount s) \<and>
     ckt_Currency k = Currency (snp_Amount s) \<and>
     validPaymentProductType (ckt_ProductType k) (ckt_ServicePeriodDurationDays k)"

definition settle_checkout ::
  "'w order_env \<Rightarrow> checkout_snapshot \<Rightarrow> snapshot \<Rightarrow> payment_settlement_command \<Rightarrow> go_time \<Rightarrow> ('w, unit) sale_tx" where
  "settle_checkout env k s c processed =
     (if psc_Failed c then release_coupon env k s c
      else if 0 < psc_RefundedDelta c then refund_period env k s c processed
      else tx_then (consume_coupon env k s c) (\<lambda>_. grant_period env k s c))"

text \<open>The checkout of an order, which orders older than the table of checkouts do not have.\<close>

definition find_checkout :: "int \<Rightarrow> ('w, checkout_snapshot option) sale_tx" where
  "find_checkout i st =
     (case on_orders (ReadCheckoutSnapshot i) st of
        Inl e \<Rightarrow> if e = OrdNotFound then Inr (None, st) else Inl (order_classify e)
      | Inr (k, st') \<Rightarrow> Inr (Some k, st'))"

definition applyCheckoutSettlement ::
  "'w order_env \<Rightarrow> snapshot \<Rightarrow> payment_settlement_command \<Rightarrow> go_time \<Rightarrow> ('w, unit) sale_tx" where
  "applyCheckoutSettlement env s c processed =
     tx_then (find_checkout (snp_ID s)) (\<lambda>found.
       case found of
         None \<Rightarrow> tx_return ()
       | Some k \<Rightarrow> if \<not> checkout_of_order k s then tx_fail OrdConflict else settle_checkout env k s c processed)"

subsection \<open>Settling a payment\<close>

definition valid_settlement :: "payment_settlement_command \<Rightarrow> bool" where
  "valid_settlement c \<longleftrightarrow> \<not> (psc_OrderID c < 1 \<or> psc_RefundedDelta c < 0 \<or> psc_Failed c \<and> psc_RefundedDelta c \<noteq> 0 \<or>
     \<not> order_validKey (psc_ReceiptKey c) \<or> is_zero (psc_OccurredAt c))"

text \<open>The status the order moves to and its refunded amount.\<close>

definition settlement_target :: "payment_settlement_command \<Rightarrow> order \<Rightarrow> (order_status \<times> int) option" where
  "settlement_target c o' =
     (if psc_Failed c then (if ord_Status o' \<noteq> StatusPendingPayment then None else Some (StatusPaymentFailed, 0))
      else if 0 < psc_RefundedDelta c then
        (if ord_Status o' \<noteq> StatusPaid \<and> ord_Status o' \<noteq> StatusPartiallyRefunded then None
         else
          (let refunded = wrap64 (ord_RefundedMinor o' + psc_RefundedDelta c) in
           if refunded < ord_RefundedMinor o' \<or> AmountMinor (ord_Amount o') < refunded then None
           else Some (if refunded = AmountMinor (ord_Amount o') then StatusRefunded else StatusPartiallyRefunded, refunded)))
      else if ord_Status o' \<noteq> StatusPendingPayment then None else Some (StatusPaid, 0))"

definition settle_order ::
  "payment_settlement_command \<Rightarrow> order \<Rightarrow> order_status \<Rightarrow> int \<Rightarrow> go_time \<Rightarrow> (order_error, order \<times> status_event) result" where
  "settle_order c o' nxt refunded now =
     (if 0 < psc_RefundedDelta c
      then ApplyVerifiedRefundFact o' (ord_Version o') nxt refunded (psc_OccurredAt c) now
      else if ord_Provider o' = ProviderAlipay \<and> nxt = StatusPaid
      then ApplyVerifiedAlipayPayment o' (ord_Version o') (psc_OccurredAt c)
      else ApplySettlement o' (ord_Version o') nxt refunded (psc_OccurredAt c))"

definition confirm_transaction :: "payment_settlement_command \<Rightarrow> order \<Rightarrow> (order_error, order) result" where
  "confirm_transaction c o' =
     (if \<not> psc_Failed c \<and> psc_RefundedDelta c = 0 then WithVerifiedProviderTransaction o' (psc_ProviderTransactionNo c)
      else Inr o')"

definition settled_order ::
  "payment_settlement_command \<Rightarrow> order \<Rightarrow> go_time \<Rightarrow> (order_app_error, order \<times> status_event) result" where
  "settled_order c o' now =
     (case settlement_target c o' of
        None \<Rightarrow> Inl OrdConflict
      | Some (nxt, refunded) \<Rightarrow>
          (case settle_order c o' nxt refunded now of
             Inl _ \<Rightarrow> Inl OrdConflict
           | Inr (updated, event) \<Rightarrow>
               (case confirm_transaction c updated of
                  Inl _ \<Rightarrow> Inl OrdConflict
                | Inr final \<Rightarrow> Inr (final, event))))"

definition refund_notice :: "snapshot \<Rightarrow> payment_settlement_command \<Rightarrow> checkout_snapshot option \<Rightarrow> refund_event" where
  "refund_notice s c k = \<lparr>rfe_Order = s, rfe_RefundedDelta = psc_RefundedDelta c,
     rfe_CheckoutProductID = (case k of None \<Rightarrow> 0 | Some k \<Rightarrow> ckt_ProductID k),
     rfe_CheckoutProductType = (case k of None \<Rightarrow> [] | Some k \<Rightarrow> ckt_ProductType k),
     rfe_OccurredAt = psc_OccurredAt c, rfe_ReceiptKey = psc_ReceiptKey c\<rparr>"

definition notify_refund :: "'w order_env \<Rightarrow> snapshot \<Rightarrow> payment_settlement_command \<Rightarrow> ('w, unit) sale_tx" where
  "notify_refund env s c =
     (case oen_RefundEvents env of
        None \<Rightarrow> tx_return ()
      | Some f \<Rightarrow>
          if psc_RefundedDelta c \<le> 0 then tx_return ()
          else tx_then (find_checkout (snp_ID s)) (\<lambda>k. on_others (f (refund_notice s c k))))"

definition SettlePaymentWithin :: "'w order_env \<Rightarrow> payment_settlement_command \<Rightarrow> ('w, snapshot) sale_tx" where
  "SettlePaymentWithin env c =
     (if \<not> valid_settlement c then tx_fail OrdConflict
      else tx_then (classified_tx (on_orders (Order_Get (psc_OrderID c)))) (\<lambda>current.
        if ord_Provider current = ProviderNoPayment then tx_fail OrdConflict
        else
         (case settled_order c current (oen_Now env) of
            Inl e \<Rightarrow> tx_fail e
          | Inr (updated, event) \<Rightarrow>
              tx_then (classified_tx (on_orders (UpdateSettlement updated event (''payment:'' @ psc_ReceiptKey c)))) (\<lambda>final.
              tx_then (applyCheckoutSettlement env (Snapshot final) c
                (if 0 < psc_RefundedDelta c then ord_UpdatedAt updated else 0)) (\<lambda>_.
              tx_then (consumeFirstNativePaidEvent env (Snapshot current) (Snapshot final) (evt_OccurredAt event)) (\<lambda>_.
              tx_then (notify_refund env (Snapshot final) c) (\<lambda>_.
                tx_return (Snapshot final))))))))"

definition ReservePaymentWithin :: "int \<Rightarrow> ('w, snapshot) sale_tx" where
  "ReservePaymentWithin i =
     (if i < 1 then tx_fail OrdConflict
      else tx_then (classified_tx (on_orders (Order_Get i))) (\<lambda>o'.
        let s = Snapshot o' in
        if snp_RecordOrigin s \<noteq> RecordOriginNative \<or> \<not> snp_EffectEligible s \<or> snp_Status s \<noteq> StatusPendingPayment
        then tx_fail OrdConflict else tx_return s))"

definition VerifyPaymentConfirmationEvidenceWithin :: "confirmation_evidence \<Rightarrow> ('w, snapshot) sale_tx" where
  "VerifyPaymentConfirmationEvidenceWithin e =
     (if pce_OrderID e < 1 \<or> pce_ProviderTransactionNo e = [] \<or>
         pce_ProviderTransactionNo e \<noteq> trim_space (pce_ProviderTransactionNo e) \<or> is_zero (pce_OccurredAt e)
      then tx_fail OrdConflict
      else tx_then (classified_tx (on_orders (Order_Get (pce_OrderID e)))) (\<lambda>o'.
        if ord_RecordOrigin o' \<noteq> RecordOriginNative \<or> ord_Status o' \<noteq> StatusPaid \<or>
           ord_ProviderTransactionNo o' \<noteq> pce_ProviderTransactionNo e then tx_fail OrdConflict
        else tx_then (classified_tx (on_orders (PaymentConfirmationOccurredAtWithin (pce_OrderID e)))) (\<lambda>at.
          if at \<noteq> pce_OccurredAt e then tx_fail OrdConflict else tx_return (Snapshot o'))))"

definition ReadCheckoutSnapshotWithin :: "int \<Rightarrow> ('w, checkout_snapshot) sale_tx" where
  "ReadCheckoutSnapshotWithin i = (if i < 1 then tx_fail OrdNotFound else on_orders (ReadCheckoutSnapshot i))"

subsection \<open>Administrative commands\<close>

definition money_json :: "money \<Rightarrow> string" where
  "money_json m = json_object [json_member ''amount_minor'' (format_int (AmountMinor m)),
     json_member ''currency'' (json_string (Currency m))]"

definition item_json :: "item_snapshot \<Rightarrow> string" where
  "item_json i = json_object
     (member_unless (itm_Variant i = None) ''variant'' (json_pointer variant_json (itm_Variant i)) @
      [json_member ''line_no'' (format_int (itm_LineNo i))] @
      member_unless (itm_ProductID i = None) ''product_id'' (json_pointer format_int (itm_ProductID i)) @
      member_unless (itm_ProductVersion i = None) ''product_version'' (json_pointer format_int (itm_ProductVersion i)) @
      [json_member ''product_code'' (json_string (itm_ProductCode i)), json_member ''product_name'' (json_string (itm_ProductName i)),
       json_member ''unit_amount_minor'' (format_int (itm_UnitAmountMinor i)),
       json_member ''quantity'' (format_int (itm_Quantity i)),
       json_member ''line_amount_minor'' (format_int (itm_LineAmountMinor i))])"

definition create_payload :: "new_order_input \<Rightarrow> w32 list" where
  "create_payload input = Sum256 (json_object
     [json_member ''Provider'' (json_string (provider_text (inp_Provider input))),
      json_member ''SourceSystem'' (json_string (inp_SourceSystem input)),
      json_member ''SourceKey'' (json_string (inp_SourceKey input)),
      json_member ''MerchantOrderNo'' (json_string (inp_MerchantOrderNo input)),
      json_member ''ProviderTransactionNo'' (json_string (inp_ProviderTransactionNo input)),
      json_member ''PayerCustomerID'' (json_pointer format_int (inp_PayerCustomerID input)),
      json_member ''BeneficiaryCustomerID'' (json_pointer format_int (inp_BeneficiaryCustomerID input)),
      json_member ''Amount'' (money_json (inp_Amount input)),
      json_member ''Items'' (json_array (map item_json (inp_Items input))),
      json_member ''RecordOrigin'' (json_string (record_origin_text (inp_RecordOrigin input))),
      json_member ''EffectEligible'' (if inp_EffectEligible input then ''true'' else ''false''),
      json_member ''CreatedAt'' (json_time 0)])"

definition settlement_payload :: "settlement_command \<Rightarrow> w32 list" where
  "settlement_payload c = Sum256 (if \<not> time_marshals (osc_OccurredAt c) then []
     else json_object [json_member ''OrderID'' (format_int (osc_OrderID c)),
       json_member ''ExpectedVersion'' (format_int (osc_ExpectedVersion c)),
       json_member ''Status'' (json_string (order_status_text (osc_Status c))),
       json_member ''RefundedMinor'' (format_int (osc_RefundedMinor c)),
       json_member ''OccurredAt'' (json_time (osc_OccurredAt c)), json_member ''ActorScope'' (json_string (osc_ActorScope c)),
       json_member ''IdempotencyKey'' (json_string (osc_IdempotencyKey c))])"

text \<open>The receipt decides whether the step runs; its answer is frozen in the receipt.\<close>

definition replayed_admin :: "order_receipt \<Rightarrow> (order_app_error, snapshot) result" where
  "replayed_admin r =
     (case orr_Result r of
        None \<Rightarrow> Inl OrdUnavailable
      | Some s \<Rightarrow> (case Restore s of Inl e \<Rightarrow> Inl (OrdDomain e) | Inr _ \<Rightarrow> Inr s))"

definition receipted_order_tx :: "order_reservation \<Rightarrow> go_time \<Rightarrow> ('w, snapshot) sale_tx \<Rightarrow> ('w, snapshot) sale_tx" where
  "receipted_order_tx v at step =
     classified_tx (tx_then (on_orders (Order_Reserve v)) (\<lambda>(r, owned).
       if \<not> order_validReceipt r v \<or> orr_PayloadDigest r \<noteq> ors_PayloadDigest v then tx_fail OrdConflict
       else if \<not> owned then tx_value (replayed_admin r)
       else tx_then step (\<lambda>s. tx_then (unavailable (on_orders (Order_Complete (orr_ID r) s at))) (\<lambda>_. tx_return s))))"

definition native_input :: "new_order_input \<Rightarrow> go_time \<Rightarrow> new_order_input" where
  "native_input input now = input\<lparr>inp_RecordOrigin := RecordOriginNative, inp_CreatedAt := now\<rparr>"

definition Order_Create :: "'w order_env \<Rightarrow> order_create_command \<Rightarrow> ('w, snapshot) sale_tx" where
  "Order_Create env c =
     (let input = native_input (occ_Input c) (oen_Now env) in
      if occ_Actor c < 1 \<or> \<not> order_validKey (occ_IdempotencyKey c) \<or>
         inp_RecordOrigin (occ_Input c) = RecordOriginHistory \<or> inp_Provider (occ_Input c) = ProviderNoPayment
      then tx_fail OrdConflict
      else
       (case NewOrder input of
          Inl _ \<Rightarrow> tx_fail OrdConflict
        | Inr new \<Rightarrow>
            receipted_order_tx \<lparr>ors_Operation = ''create'', ors_ActorScope = ''admin:'' @ format_int (occ_Actor c),
              ors_KeyDigest = Sum256 (occ_IdempotencyKey c), ors_PayloadDigest = create_payload input,
              ors_CreatedAt = oen_Now env\<rparr> (oen_Now env)
              (tx_then (on_orders (Order_Insert new (occ_Actor c) (oen_Now env))) (\<lambda>o'. tx_return (Snapshot o')))))"

definition admin_settlement :: "'w order_env \<Rightarrow> settlement_command \<Rightarrow> ('w, snapshot) sale_tx" where
  "admin_settlement env c =
     tx_then (on_orders (Order_Get (osc_OrderID c))) (\<lambda>current.
       (case ApplySettlement current (osc_ExpectedVersion c) (osc_Status c) (osc_RefundedMinor c) (osc_OccurredAt c) of
          Inl e \<Rightarrow> tx_fail (OrdDomain e)
        | Inr (updated, event) \<Rightarrow>
            if ord_Version updated = ord_Version current then tx_return (Snapshot updated)
            else tx_then (on_orders (UpdateSettlement updated event (osc_ActorScope c))) (\<lambda>final.
              tx_then (consumeFirstNativePaidEvent env (Snapshot current) (Snapshot final) (evt_OccurredAt event)) (\<lambda>_.
                tx_return (Snapshot final)))))"

definition Order_ApplySettlement :: "'w order_env \<Rightarrow> settlement_command \<Rightarrow> ('w, snapshot) sale_tx" where
  "Order_ApplySettlement env c =
     (if osc_OrderID c < 1 \<or> osc_ExpectedVersion c < 1 \<or> \<not> order_validKey (osc_IdempotencyKey c) \<or>
         \<not> order_validScope (osc_ActorScope c) then tx_fail OrdConflict
      else receipted_order_tx \<lparr>ors_Operation = ''settlement'', ors_ActorScope = osc_ActorScope c,
        ors_KeyDigest = Sum256 (osc_IdempotencyKey c), ors_PayloadDigest = settlement_payload c,
        ors_CreatedAt = osc_OccurredAt c\<rparr> (osc_OccurredAt c) (admin_settlement env c))"

subsection \<open>Reads\<close>

text \<open>The answer of a replay, with whether a receipt was found.\<close>

definition ReplayNoPaymentCheckoutWithin ::
  "string \<Rightarrow> string \<Rightarrow> w32 list \<Rightarrow> order_db \<Rightarrow> bool \<times> (order_app_error, snapshot option) result" where
  "ReplayNoPaymentCheckoutWithin scope key digest db =
     (case ReadCreateReceipt db scope (Sum256 key) of
        Inl e \<Rightarrow> (False, Inl e)
      | Inr None \<Rightarrow> (False, Inr None)
      | Inr (Some r) \<Rightarrow>
          if orr_PayloadDigest r \<noteq> digest then (True, Inl OrdConflict)
          else
           (case orr_Result r of
              None \<Rightarrow> (True, Inl OrdUnavailable)
            | Some s \<Rightarrow>
                if snp_Provider s \<noteq> ProviderNoPayment \<or> snp_Status s \<noteq> StatusPaid \<or> \<not> is_ok (Restore s)
                then (True, Inl OrdConflict) else (True, Inr (Some s))))"

definition ReadNoPaymentCheckoutWithin :: "string \<Rightarrow> order_db \<Rightarrow> (order_app_error, snapshot) result" where
  "ReadNoPaymentCheckoutWithin ref db =
     (case findByReference None ref db of
        Inl e \<Rightarrow> Inl (order_classify e)
      | Inr os \<Rightarrow>
          (case find (\<lambda>o'. ord_Provider o' = ProviderNoPayment \<and> ord_MerchantOrderNo o' = ref) os of
             None \<Rightarrow> Inl OrdNotFound
           | Some o' \<Rightarrow> Inr (Snapshot o')))"

definition single_order :: "(order_app_error, order list) result \<Rightarrow> (order_app_error, snapshot) result" where
  "single_order r =
     (case r of
        Inl e \<Rightarrow> Inl (order_classify e)
      | Inr os \<Rightarrow> (case os of [] \<Rightarrow> Inl OrdNotFound | [o'] \<Rightarrow> Inr (Snapshot o') | _ \<Rightarrow> Inl OrdConflict))"

definition GetByReference :: "string \<Rightarrow> order_db \<Rightarrow> (order_app_error, snapshot) result" where
  "GetByReference ref db = (if \<not> order_validScope ref then Inl OrdNotFound else single_order (findByReference None ref db))"

definition GetByReferenceForProvider :: "provider \<Rightarrow> string \<Rightarrow> order_db \<Rightarrow> (order_app_error, snapshot) result" where
  "GetByReferenceForProvider p ref db =
     (if \<not> order_validScope ref \<or> \<not> validProvider p then Inl OrdNotFound
      else single_order (findByReference (Some p) ref db))"

definition Order_Read :: "int \<Rightarrow> order_db \<Rightarrow> (order_app_error, snapshot) result" where
  "Order_Read i db =
     (if i < 1 then Inl OrdNotFound
      else (case Order_Get i db of Inl e \<Rightarrow> Inl (order_classify e) | Inr (o', _) \<Rightarrow> Inr (Snapshot o')))"

end
