(* ===== verification/OrderBooks.thy ===== *)
theory OrderBooks
  imports OrderSettle
begin

text \<open>
  What each statement of the order store does to the tables, and the books of the orders: the
  histories, the paid events and the checkouts, which the writes of the service keep in step.
\<close>

subsection \<open>Effects of the statements\<close>

lemma append_outbox_effect:
  assumes "append_outbox event key i payload at db = Inr (n, db')"
  obtains rows m where "db' = db\<lparr>odb_Outbox := rows, odb_NextOutbox := m\<rparr>"
  using assms by (auto simp: append_outbox_def split: if_splits)

lemma appendFacts_effect:
  assumes "appendFacts s frm scope event at db = Inr (x, db')"
  obtains audit rows m where "db' = db\<lparr>odb_History := odb_History db @ [status_row_of s frm scope at],
      odb_Audit := audit, odb_Outbox := rows, odb_NextOutbox := m\<rparr>"
    "\<not> list_ex (\<lambda>h. osh_OrderID h = snp_ID s \<and> osh_Version h = snp_Version s) (odb_History db)"
  using assms by (fastforce simp: appendFacts_def tx_then_Inr split: if_splits elim!: append_outbox_effect)

lemma insert_row_effect:
  assumes "insert_row s db = Inr (x, db')"
  shows "db' = db\<lparr>odb_Orders := odb_Orders db @ [stored_order s], odb_NextOrder := odb_NextOrder db + 1\<rparr> \<and>
    order_checks (stored_order s) \<and> \<not> list_ex (order_clash (stored_order s)) (odb_Orders db) \<and>
    list_all pg_text (snapshot_texts s)"
  using assms by (auto simp: insert_row_def Let_def split: if_splits)

lemma restored_Inr [simp]: "restored s db = Inr (o', db') \<longleftrightarrow> Restore s = Inr o' \<and> db' = db"
  by (cases "Restore s") (auto simp: restored_def)

lemma Restore_Snapshot: "Restore s = Inr o' \<Longrightarrow> validate o' \<and> Snapshot o' = s\<lparr>snp_ProfitSharingRequired := False\<rparr>"
  by (auto simp: Restore_def checked_def Snapshot_def split: if_splits)

lemma Snapshot_Restore: "validate o' \<Longrightarrow> Restore (Snapshot o') = Inr o'"
  by (cases o') (simp add: Restore_def checked_def Snapshot_def)

lemma Snapshot_simps [simp]:
  "snp_ID (Snapshot o') = ord_ID o'" "snp_Version (Snapshot o') = ord_Version o'" "snp_Status (Snapshot o') = ord_Status o'"
  "snp_RefundedMinor (Snapshot o') = ord_RefundedMinor o'" "snp_Amount (Snapshot o') = ord_Amount o'"
  "snp_MerchantOrderNo (Snapshot o') = ord_MerchantOrderNo o'" "snp_RecordOrigin (Snapshot o') = ord_RecordOrigin o'"
  "snp_EffectEligible (Snapshot o') = ord_EffectEligible o'" "snp_Provider (Snapshot o') = ord_Provider o'"
  "snp_ProviderTransactionNo (Snapshot o') = ord_ProviderTransactionNo o'" "snp_UpdatedAt (Snapshot o') = ord_UpdatedAt o'"
  "snp_ProfitSharingRequired (Snapshot o') = False" "snp_BeneficiaryCustomerID (Snapshot o') = ord_BeneficiaryCustomerID o'"
  by (simp_all add: Snapshot_def)

lemma insert_order_effect:
  assumes "insert_order o' scope now event db = Inr (p, db')"
  obtains s audit rows m where "s = (Snapshot o')\<lparr>snp_ID := odb_NextOrder db\<rparr>" "Restore s = Inr p" "Snapshot p = s"
    "order_checks (stored_order s)" "\<not> list_ex (order_clash (stored_order s)) (odb_Orders db)"
    "list_all pg_text (snapshot_texts s)"
    "db' = db\<lparr>odb_Orders := odb_Orders db @ [stored_order s], odb_NextOrder := odb_NextOrder db + 1,
       odb_History := odb_History db @ [status_row_of s None scope now],
       odb_Audit := audit, odb_Outbox := rows, odb_NextOutbox := m\<rparr>"
proof -
  define s where "s = (Snapshot o')\<lparr>snp_ID := odb_NextOrder db\<rparr>"
  from assms obtain db1 db2 where row: "insert_row s db = Inr ((), db1)"
    and facts: "appendFacts s None scope event now db1 = Inr ((), db2)" and rs: "Restore s = Inr p" "db' = db2"
    by (auto simp: insert_order_def Let_def s_def [symmetric] tx_then_Inr split: if_splits)
  from rs(1) have "Snapshot p = s" by (auto simp: s_def dest!: Restore_Snapshot)
  from facts show thesis
  proof (rule appendFacts_effect)
    fix audit rows m
    assume "db2 = db1\<lparr>odb_History := odb_History db1 @ [status_row_of s None scope now], odb_Audit := audit,
      odb_Outbox := rows, odb_NextOutbox := m\<rparr>"
    with insert_row_effect [OF row] rs \<open>Snapshot p = s\<close> show thesis
      by (intro that [where s = s and audit = audit and rows = rows and m = m]) (simp_all add: s_def)
  qed
qed

lemma InsertScoped_effect:
  assumes "InsertScoped o' scope now db = Inr (p, db')"
  shows "insert_order o' scope now ''order.created'' db = Inr (p, db')"
  using assms by (simp add: InsertScoped_def split: if_splits)

lemma Order_Insert_effect:
  assumes "Order_Insert o' actor now db = Inr (p, db')"
  shows "insert_order o' (''admin:'' @ format_int actor) now ''order.created'' db = Inr (p, db')"
  using assms by (simp add: Order_Insert_def split: if_splits)

lemma order_row_Some: "order_row db i = Some s \<Longrightarrow> s \<in> set (odb_Orders db) \<and> snp_ID s = i"
  by (auto simp: order_row_def find_Some_iff)

lemma UpdateSettlement_effect:
  assumes "UpdateSettlement o' event scope db = Inr (p, db')"
  obtains row audit rows m where "p = o'" "validate o'" "order_row db (ord_ID o') = Some row"
    "snp_Version row = ord_Version o' - 1" "evt_Version event = ord_Version o'"
    "order_checks (settled_row (Snapshot o') row)" "\<not> list_ex (order_clash (settled_row (Snapshot o') row)) (odb_Orders db)"
    "db' = db\<lparr>odb_Orders := put_order (settled_row (Snapshot o') row) (odb_Orders db),
       odb_History := odb_History db @ [status_row_of (Snapshot o') (Some (evt_From event)) scope (evt_OccurredAt event)],
       odb_Audit := audit, odb_Outbox := rows, odb_NextOutbox := m\<rparr>"
proof -
  from assms obtain db1 db2 where upd: "update_row (Snapshot o') db = Inr ((), db1)"
    and facts: "appendFacts (Snapshot o') (Some (evt_From event)) scope ''order.status_changed'' (evt_OccurredAt event) db1 =
      Inr ((), db2)"
    and rs: "Restore (Snapshot o') = Inr p" "db' = db2" and ev: "evt_Version event = ord_Version o'"
    by (auto simp: UpdateSettlement_def Let_def tx_then_Inr split: if_splits)
  from rs(1) Restore_Snapshot [OF rs(1)] have p: "validate p" "Snapshot p = Snapshot o'"
    by (auto simp: Snapshot_def)
  then have "p = o'" by (cases p, cases o') (simp add: Snapshot_def)
  from upd obtain row where row: "order_row db (ord_ID o') = Some row" "snp_Version row = ord_Version o' - 1"
    "order_checks (settled_row (Snapshot o') row)" "\<not> list_ex (order_clash (settled_row (Snapshot o') row)) (odb_Orders db)"
    "db1 = db\<lparr>odb_Orders := put_order (settled_row (Snapshot o') row) (odb_Orders db)\<rparr>"
    by (auto simp: update_row_def split: if_splits option.splits)
  from facts show thesis
    by (rule appendFacts_effect) (use that [OF \<open>p = o'\<close>] p \<open>p = o'\<close> row rs ev in simp)
qed

lemma Order_Get_Inr:
  "Order_Get i db = Inr (o', db') \<longleftrightarrow> 0 < i \<and> db' = db \<and> (\<exists>s. order_row db i = Some s \<and> Restore s = Inr o')"
  by (auto simp: Order_Get_def split: option.splits sum.splits)

lemma Order_Reserve_effect:
  assumes "Order_Reserve v db = Inr ((r, owned), db')"
  obtains (known) "\<not> owned" "db' = db" "find_order_receipt db (ors_Operation v) (ors_ActorScope v) (ors_KeyDigest v) = Some r"
    | (fresh) "owned" "find_order_receipt db (ors_Operation v) (ors_ActorScope v) (ors_KeyDigest v) = None"
      "r = \<lparr>orr_ID = odb_NextReceipt db, orr_Operation = ors_Operation v, orr_ActorScope = ors_ActorScope v,
        orr_KeyDigest = ors_KeyDigest v, orr_PayloadDigest = ors_PayloadDigest v, orr_Result = None\<rparr>"
      "db' = db\<lparr>odb_Receipts := odb_Receipts db @ [r], odb_NextReceipt := odb_NextReceipt db + 1\<rparr>"
  using assms by (auto simp: Order_Reserve_def Let_def split: if_splits option.splits)

lemma Order_Complete_effect:
  assumes "Order_Complete i s at db = Inr (x, db')"
  shows "db' = db\<lparr>odb_Receipts := map (\<lambda>r. if orr_ID r = i \<and> orr_Result r = None
    then r\<lparr>orr_Result := Some (json_snapshot s)\<rparr> else r) (odb_Receipts db)\<rparr>"
  using assms by (auto simp: Order_Complete_def split: if_splits)

lemma InsertCheckoutSnapshot_effect:
  assumes "InsertCheckoutSnapshot jsonb k db = Inr (x, db')"
  obtains action where "jsonb (ckt_PostPurchaseAction k) = Some action" "validCheckoutSnapshot k"
    "\<not> list_ex (\<lambda>x. ckt_OrderID x = ckt_OrderID k) (odb_Checkouts db)" "order_row db (ckt_OrderID k) \<noteq> None"
    "db' = db\<lparr>odb_Checkouts := odb_Checkouts db @
      [k\<lparr>ckt_PostPurchaseAction := action, ckt_ReservedAt := pg_time (ckt_ReservedAt k)\<rparr>]\<rparr>"
  using assms by (auto simp: InsertCheckoutSnapshot_def split: if_splits option.splits)

lemma ReadCheckoutSnapshot_Inr:
  assumes "ReadCheckoutSnapshot i db = Inr (k, db')"
  shows "db' = db \<and> k \<in> set (odb_Checkouts db) \<and> ckt_OrderID k = i"
  using assms by (auto simp: ReadCheckoutSnapshot_def find_Some_iff split: if_splits option.splits)

lemma InsertContactSnapshot_effect:
  assumes "InsertContactSnapshot i ciphertext version at db = Inr (x, db')"
  obtains rows where "db' = db\<lparr>odb_Contacts := rows\<rparr>"
  using assms by (auto simp: InsertContactSnapshot_def split: if_splits)

lemma InsertShippingAddressSnapshot_effect:
  assumes "InsertShippingAddressSnapshot i a at db = Inr (x, db')"
  obtains rows where "db' = db\<lparr>odb_Addresses := rows\<rparr>"
  using assms by (auto simp: InsertShippingAddressSnapshot_def split: if_splits)

text \<open>The paid event that an order gets, or the one that it has already.\<close>

definition paid_row_of :: "order_db \<Rightarrow> snapshot \<Rightarrow> go_time \<Rightarrow> paid_row" where
  "paid_row_of db s at = \<lparr>ope_ID = odb_NextPaidEvent db, ope_OrderID = snp_ID s, ope_Version = snp_Version s,
     ope_SourceDigest = NewPaidEventSourceDigest (snp_ID s) (snp_Version s), ope_OccurredAt = pg_time at\<rparr>"

lemma paid_row_for_effect:
  assumes "paid_row_for s at db = Inr ((e, created), db')"
  obtains (known) "\<not> created" "e \<in> set (odb_PaidEvents db)" "ope_OrderID e = snp_ID s" "ope_Version e = snp_Version s" "db' = db"
    | (fresh) "created" "e = paid_row_of db s at" "snp_ID s \<notin> ope_OrderID ` set (odb_PaidEvents db)"
      "db' = db\<lparr>odb_PaidEvents := odb_PaidEvents db @ [paid_row_of db s at], odb_NextPaidEvent := odb_NextPaidEvent db + 1\<rparr>"
proof (cases "find (\<lambda>e. ope_OrderID e = snp_ID s) (odb_PaidEvents db)")
  case None
  with assms show thesis
    by (intro fresh) (auto simp: paid_row_for_def Let_def paid_row_of_def find_None_iff split: if_splits)
next
  case (Some x)
  then have "x \<in> set (odb_PaidEvents db)" "ope_OrderID x = snp_ID s" by (auto simp: find_Some_iff)
  with Some assms show thesis by (intro known) (auto simp: paid_row_for_def Let_def split: if_splits)
qed

lemma with_checkout_effect: "with_checkout e db = Inr (x, db') \<Longrightarrow> db' = db"
  by (auto simp: with_checkout_def split: sum.splits prod.splits order_app_error.splits)

lemma paid_outbox_effect:
  assumes "paid_outbox e created db = Inr (n, db')"
  obtains rows m where "db' = db\<lparr>odb_Outbox := rows, odb_NextOutbox := m\<rparr>"
proof (cases created)
  case True
  with assms show thesis by (auto simp: paid_outbox_def elim: append_outbox_effect intro: that)
next
  case False
  with assms have "db' = db\<lparr>odb_Outbox := odb_Outbox db, odb_NextOutbox := odb_NextOutbox db\<rparr>"
    by (auto simp: paid_outbox_def split: option.splits)
  then show thesis by (rule that)
qed

lemma AppendPaidEvent_effect:
  assumes "AppendPaidEvent s at db = Inr ((e, created), db')"
  obtains events n rows m where
    "db' = db\<lparr>odb_PaidEvents := events, odb_NextPaidEvent := n, odb_Outbox := rows, odb_NextOutbox := m\<rparr>"
    "events = odb_PaidEvents db \<and> (\<exists>x \<in> set events. ope_OrderID x = snp_ID s \<and> ope_Version x = snp_Version s) \<or>
     events = odb_PaidEvents db @ [paid_row_of db s at] \<and> snp_ID s \<notin> ope_OrderID ` set (odb_PaidEvents db)"
proof -
  from assms obtain row db1 f db2 n where row: "paid_row_for s at db = Inr ((row, created), db1)"
    and f: "with_checkout (event_of_row row s) db1 = Inr (f, db2)" and out: "paid_outbox f created db2 = Inr (n, db')"
    by (auto simp: AppendPaidEvent_def tx_then_Inr split: if_splits)
  from out obtain rows m where out': "db' = db2\<lparr>odb_Outbox := rows, odb_NextOutbox := m\<rparr>" by (rule paid_outbox_effect)
  from row show thesis
  proof (cases rule: paid_row_for_effect)
    case known
    with f out' show thesis
      by (intro that [where events = "odb_PaidEvents db" and n = "odb_NextPaidEvent db" and rows = rows and m = m]) (auto dest!: with_checkout_effect)
  next
    case fresh
    with f out' show thesis
      by (intro that [where events = "odb_PaidEvents db @ [paid_row_of db s at]" and n = "odb_NextPaidEvent db + 1" and rows = rows and m = m])
        (auto dest!: with_checkout_effect)
  qed
qed

subsection \<open>The books\<close>

definition history_of :: "order_db \<Rightarrow> int \<Rightarrow> status_row list" where
  "history_of db i = filter (\<lambda>h. osh_OrderID h = i) (odb_History db)"

definition follows :: "status_row \<Rightarrow> status_row \<Rightarrow> bool" where
  "follows a b \<longleftrightarrow> osh_From b = Some (osh_To a) \<and> mayTransition (osh_To a) (osh_To b)"

text \<open>The history of an order: one row per version, along allowed transitions, from a pending order to
  what the order is now.\<close>

definition explained :: "order_db \<Rightarrow> snapshot \<Rightarrow> bool" where
  "explained db s \<longleftrightarrow>
     (let hs = history_of db (snp_ID s) in
      hs \<noteq> [] \<and> osh_From (hd hs) = None \<and> osh_To (hd hs) = StatusPendingPayment \<and>
      map osh_Version hs = [1..snp_Version s] \<and> adjacent follows hs \<and>
      osh_To (last hs) = snp_Status s \<and> osh_RefundedMinor (last hs) = snp_RefundedMinor s)"

definition paid_rows :: "order_db \<Rightarrow> (int \<times> int) set" where
  "paid_rows db = (\<lambda>h. (osh_OrderID h, osh_Version h)) ` {h \<in> set (odb_History db). osh_To h = StatusPaid}"

definition paid_events :: "order_db \<Rightarrow> (int \<times> int) set" where
  "paid_events db = (\<lambda>e. (ope_OrderID e, ope_Version e)) ` set (odb_PaidEvents db)"

definition order_books :: "order_db \<Rightarrow> bool" where
  "order_books db \<longleftrightarrow> distinct (map snp_ID (odb_Orders db)) \<and> 0 < odb_NextOrder db \<and> 0 < odb_NextReceipt db \<and>
     list_all (\<lambda>s. 0 < snp_ID s \<and> snp_ID s < odb_NextOrder db \<and> order_checks s \<and> explained db s) (odb_Orders db) \<and>
     list_all (\<lambda>h. osh_OrderID h \<in> snp_ID ` set (odb_Orders db)) (odb_History db) \<and>
     distinct (map ope_OrderID (odb_PaidEvents db))"

lemma order_books_empty [simp]: "order_books empty_orders"
  by (simp add: order_books_def empty_orders_def)

lemma paid_empty [simp]: "paid_rows empty_orders = {}" "paid_events empty_orders = {}"
  by (simp_all add: paid_rows_def paid_events_def empty_orders_def)

lemma explained_cong: "odb_History a = odb_History b \<Longrightarrow> explained a s \<longleftrightarrow> explained b s"
  by (simp add: explained_def history_of_def)

lemma order_books_cong:
  assumes "odb_Orders a = odb_Orders b" "odb_NextOrder a = odb_NextOrder b" "odb_History a = odb_History b"
    "odb_PaidEvents a = odb_PaidEvents b" "0 < odb_NextReceipt a \<longleftrightarrow> 0 < odb_NextReceipt b"
  shows "order_books a \<longleftrightarrow> order_books b"
  using assms explained_cong [OF assms(3)] by (simp add: order_books_def)

lemma order_row_ID: "order_books db \<Longrightarrow> s \<in> set (odb_Orders db) \<Longrightarrow> order_row db (snp_ID s) = Some s"
proof -
  assume books: "order_books db" and s: "s \<in> set (odb_Orders db)"
  then have inj: "inj_on snp_ID (set (odb_Orders db))" by (simp add: order_books_def distinct_map)
  obtain x where x: "order_row db (snp_ID s) = Some x"
    using s by (cases "order_row db (snp_ID s)") (auto simp: order_row_def find_None_iff)
  with order_row_Some [OF x] inj s show ?thesis by (auto dest: inj_onD)
qed

lemma adjacent_snoc: "adjacent R (xs @ [x]) \<longleftrightarrow> adjacent R xs \<and> (xs = [] \<or> R (last xs) x)"
  by (induction R xs rule: adjacent.induct) auto

lemma insert_books:
  assumes books: "order_books db" and ok: "order_checks (stored_order s)"
    and s: "snp_ID s = odb_NextOrder db" "snp_Status s = StatusPendingPayment" "snp_Version s = 1" "snp_RefundedMinor s = 0"
    and db': "odb_Orders db' = odb_Orders db @ [stored_order s]" "odb_NextOrder db' = odb_NextOrder db + 1"
      "odb_History db' = odb_History db @ [status_row_of s None scope now]" "odb_PaidEvents db' = odb_PaidEvents db"
      "odb_NextReceipt db' = odb_NextReceipt db"
  shows "order_books db'"
proof -
  have old: "snp_ID x < odb_NextOrder db" if "x \<in> set (odb_Orders db)" for x
    using books that by (auto simp: order_books_def list_all_iff)
  have rows: "osh_OrderID h < odb_NextOrder db" if "h \<in> set (odb_History db)" for h
    using books that old by (auto simp: order_books_def list_all_iff)
  have "history_of db (odb_NextOrder db) = []" using rows
    by (simp add: history_of_def filter_empty_conv) (metis less_irrefl)
  then have "history_of db' (odb_NextOrder db) = [status_row_of s None scope now]"
    by (simp add: history_of_def db' status_row_of_def s)
  then have new: "explained db' (stored_order s)"
    by (simp add: explained_def stored_order_def status_row_of_def s Let_def)
  have "history_of db' (snp_ID x) = history_of db (snp_ID x)" if "x \<in> set (odb_Orders db)" for x
    using old [OF that] by (simp add: history_of_def db' status_row_of_def s)
  then have "explained db' x" if "x \<in> set (odb_Orders db)" for x
    using books that by (simp add: order_books_def list_all_iff explained_def)
  moreover have "snp_ID (stored_order s) = odb_NextOrder db" using s by (simp add: stored_order_def)
  moreover have "odb_NextOrder db \<notin> snp_ID ` set (odb_Orders db)" using old by (metis imageE less_irrefl)
  ultimately show ?thesis using books new ok old s
    by (auto simp: order_books_def db' list_all_iff status_row_of_def dest: less_imp_le)
qed

lemma set_put_order:
  assumes "distinct (map snp_ID ss)" "old \<in> set ss" "snp_ID row = snp_ID old"
  shows "set (put_order row ss) = insert row (set ss - {old})"
proof -
  have "s = old" if "s \<in> set ss" "snp_ID s = snp_ID row" for s
    using assms that by (auto simp: distinct_map dest: inj_onD)
  then show ?thesis using assms by (auto simp: put_order_def image_iff)
qed

lemma map_put_order [simp]: "map snp_ID (put_order row ss) = map snp_ID ss"
  by (induction ss) (auto simp: put_order_def)

lemma image_put_order [simp]: "snp_ID ` set (put_order row ss) = snp_ID ` set ss"
  using map_put_order [of row ss] by (metis list.set_map)

lemma settled_row_simps [simp]:
  "snp_ID (settled_row s row) = snp_ID row" "snp_Status (settled_row s row) = snp_Status s"
  "snp_Version (settled_row s row) = snp_Version s" "snp_RefundedMinor (settled_row s row) = snp_RefundedMinor s"
  "snp_Amount (settled_row s row) = snp_Amount row" "snp_MerchantOrderNo (settled_row s row) = snp_MerchantOrderNo row"
  "snp_Provider (settled_row s row) = snp_Provider row"
  by (simp_all add: settled_row_def)

lemma update_books:
  assumes books: "order_books db" and row: "order_row db (snp_ID s) = Some row" "snp_Version row = snp_Version s - 1"
    and ok: "order_checks (settled_row s row)" and frm: "frm = snp_Status row" and step: "mayTransition frm (snp_Status s)"
    and db': "odb_Orders db' = put_order (settled_row s row) (odb_Orders db)" "odb_NextOrder db' = odb_NextOrder db"
      "odb_History db' = odb_History db @ [status_row_of s (Some frm) scope at]" "odb_PaidEvents db' = odb_PaidEvents db"
      "odb_NextReceipt db' = odb_NextReceipt db"
  shows "order_books db'"
proof -
  from row have r: "row \<in> set (odb_Orders db)" "snp_ID row = snp_ID s" by (auto dest: order_row_Some)
  with books have e: "explained db row" "0 < snp_ID s" "snp_ID s < odb_NextOrder db"
    by (auto simp: order_books_def list_all_iff)
  let ?hs = "history_of db (snp_ID s)" and ?h = "status_row_of s (Some frm) scope at"
  have hs: "history_of db' (snp_ID s) = ?hs @ [?h]" by (simp add: history_of_def db' status_row_of_def)
  from e(1) have old: "?hs \<noteq> []" "map osh_Version ?hs = [1..snp_Version row]" "osh_To (last ?hs) = snp_Status row"
    by (simp_all add: explained_def r(2) Let_def)
  have "0 \<le> snp_Version row" using arg_cong [OF old(2), of length] old(1) by (cases "0 \<le> snp_Version row") auto
  then have "[1..snp_Version s] = [1..snp_Version row] @ [snp_Version s]" using row(2)
    by (simp add: upto_rec2)
  with e(1) old step frm row(2) have new: "explained db' (settled_row s row)"
    by (simp add: explained_def r(2) hs Let_def adjacent_snoc follows_def status_row_of_def)
  have "explained db' x" if "x \<in> set (odb_Orders db)" "snp_ID x \<noteq> snp_ID s" for x
  proof -
    have "history_of db' (snp_ID x) = history_of db (snp_ID x)" using that(2) by (simp add: history_of_def db' status_row_of_def)
    with books that(1) show ?thesis by (simp add: order_books_def list_all_iff explained_def)
  qed
  moreover have "snp_ID x \<noteq> snp_ID s" if "x \<in> set (odb_Orders db) - {row}" for x
    using order_row_ID [OF books r(1)] order_row_ID [OF books, of x] r(2) that by auto
  moreover have set': "set (odb_Orders db') = insert (settled_row s row) (set (odb_Orders db) - {row})"
    using books r by (simp add: db' set_put_order order_books_def)
  ultimately have rows: "list_all (\<lambda>s. 0 < snp_ID s \<and> snp_ID s < odb_NextOrder db \<and> order_checks s \<and> explained db' s)
      (odb_Orders db')"
    using books new ok e r by (auto simp: order_books_def list_all_iff)
  have "osh_OrderID ?h \<in> snp_ID ` set (odb_Orders db)" using r(1) r(2) [symmetric] by (simp add: status_row_of_def)
  with rows books show ?thesis by (simp add: order_books_def db')
qed

lemma paid_rows_append:
  assumes "odb_History db' = odb_History db @ [status_row_of s frm scope at]"
  shows "paid_rows db' = (if snp_Status s = StatusPaid then insert (snp_ID s, snp_Version s) (paid_rows db) else paid_rows db)"
proof -
  let ?h = "status_row_of s frm scope at"
  have "{h \<in> set (odb_History db'). osh_To h = StatusPaid} =
      (if osh_To ?h = StatusPaid then insert ?h else id) {h \<in> set (odb_History db). osh_To h = StatusPaid}"
    using assms by auto
  then show ?thesis by (simp add: paid_rows_def status_row_of_def)
qed

end
