(* ===== verification/OrderFlow.thy ===== *)
theory OrderFlow
  imports OrderBooks CouponHistory
begin

text \<open>
  The transactions of the order service taken apart: which statement of which component runs on which
  tables, and that the books of the orders are kept.
\<close>

subsection \<open>Steps of one component\<close>

lemma on_orders_Inr: "on_orders m st = Inr (x, st') \<longleftrightarrow> (\<exists>p. m (sal_Orders st) = Inr (x, p) \<and> st' = st\<lparr>sal_Orders := p\<rparr>)"
  by (simp add: on_orders_def tx_part_Inr)

lemma on_coupons_Inr: "on_coupons m st = Inr (x, st') \<longleftrightarrow> (\<exists>p. m (sal_Coupons st) = Inr (x, p) \<and> st' = st\<lparr>sal_Coupons := p\<rparr>)"
  by (simp add: on_coupons_def tx_part_Inr)

lemma on_others_Inr: "on_others m st = Inr (x, st') \<longleftrightarrow> (\<exists>w. m (sal_Others st) = Inr (x, w) \<and> st' = st\<lparr>sal_Others := w\<rparr>)"
  by (simp add: on_others_def tx_part_Inr)

lemma unavailable_Inr [simp]: "unavailable m st = Inr r \<longleftrightarrow> m st = Inr r"
  by (simp add: unavailable_def)

lemmas sale_steps = tx_then_Inr on_orders_Inr on_coupons_Inr on_others_Inr

text \<open>Steps that leave the tables of orders and of coupons alone.\<close>

definition elsewhere :: "'w sale \<Rightarrow> 'w sale \<Rightarrow> bool" where
  "elsewhere a b \<longleftrightarrow> sal_Orders b = sal_Orders a \<and> sal_Coupons b = sal_Coupons a"

lemma elsewhere_refl [simp]: "elsewhere a a"
  by (simp add: elsewhere_def)

lemma on_others_elsewhere: "on_others m st = Inr (x, st') \<Longrightarrow> elsewhere st st'"
  by (auto simp: on_others_Inr elsewhere_def)

lemma record_attribution_elsewhere: "record_attribution env free c k i st = Inr (x, st') \<Longrightarrow> elsewhere st st'"
  by (auto simp: record_attribution_def split: option.splits if_splits dest: on_others_elsewhere)

lemma record_product_sale_elsewhere: "record_product_sale env free c a s st = Inr (x, st') \<Longrightarrow> elsewhere st st'"
  by (auto simp: record_product_sale_def split: option.splits if_splits dest: on_others_elsewhere)

lemma share_contact_elsewhere: "share_contact env c i st = Inr (x, st') \<Longrightarrow> elsewhere st st'"
  by (auto simp: share_contact_def update_contact_def collect_phone_def tx_then_Inr elsewhere_def on_others_Inr
      split: option.splits if_splits)

lemma grant_period_elsewhere: "grant_period env k s c st = Inr (x, st') \<Longrightarrow> elsewhere st st'"
  by (auto simp: grant_period_def split: option.splits if_splits dest: on_others_elsewhere)

lemma refund_period_elsewhere: "refund_period env k s c at st = Inr (x, st') \<Longrightarrow> elsewhere st st'"
  by (auto simp: refund_period_def split: option.splits if_splits dest: on_others_elsewhere)

lemma find_checkout_Inr:
  "find_checkout i st = Inr (found, st') \<Longrightarrow> st' = st \<and>
     (\<forall>k. found = Some k \<longrightarrow> k \<in> set (odb_Checkouts (sal_Orders st)) \<and> ckt_OrderID k = i)"
  by (auto simp: find_checkout_def on_orders_def tx_part_def split: sum.splits if_splits prod.splits
      dest: ReadCheckoutSnapshot_Inr)

lemma notify_refund_elsewhere: "notify_refund env s c st = Inr (x, st') \<Longrightarrow> elsewhere st st'"
  by (auto simp: notify_refund_def tx_then_Inr split: option.splits if_splits dest!: find_checkout_Inr on_others_elsewhere)

text \<open>The contact of a checkout is written beside the books.\<close>

lemma contact_steps:
  assumes "record_contact env c phone i st = Inr (x, st1)" "record_address env c i st1 = Inr (y, st2)"
    "share_contact env c i st2 = Inr (z, st3)"
  obtains contacts addresses where
    "sal_Orders st3 = (sal_Orders st)\<lparr>odb_Contacts := contacts, odb_Addresses := addresses\<rparr>"
    "sal_Coupons st3 = sal_Coupons st"
proof -
  have "\<exists>rows. sal_Orders st1 = (sal_Orders st)\<lparr>odb_Contacts := rows\<rparr> \<and> sal_Coupons st1 = sal_Coupons st"
    using assms(1)
    by (fastforce simp: record_contact_def on_orders_Inr split: option.splits if_splits prod.splits
        elim!: InsertContactSnapshot_effect intro: exI [of _ "odb_Contacts (sal_Orders st)"])
  moreover have "\<exists>rows. sal_Orders st2 = (sal_Orders st1)\<lparr>odb_Addresses := rows\<rparr> \<and> sal_Coupons st2 = sal_Coupons st1"
    using assms(2)
    by (fastforce simp: record_address_def on_orders_Inr split: if_splits elim!: InsertShippingAddressSnapshot_effect
        intro: exI [of _ "odb_Addresses (sal_Orders st1)"])
  ultimately show thesis using share_contact_elsewhere [OF assms(3)] that by (auto simp: elsewhere_def)
qed

lemma consumeFirst_effect:
  assumes "consumeFirstNativePaidEvent env previous current at st = Inr (x, st')"
  obtains (quiet) "\<not> first_paid previous current" "st' = st"
    | (paid) e created db' w where "first_paid previous current"
      "AppendPaidEvent current at (sal_Orders st) = Inr ((e, created), db')"
      "st' = st\<lparr>sal_Orders := db', sal_Others := w\<rparr>"
proof (cases "first_paid previous current")
  case False
  with assms show thesis by (intro quiet) (simp_all add: consumeFirstNativePaidEvent_def)
next
  case True
  with assms obtain e created st1 where app: "on_orders (AppendPaidEvent current at) st = Inr ((e, created), st1)"
    and rest: "(case oen_PaidEvents env of None \<Rightarrow> tx_return ()
      | Some f \<Rightarrow> if \<not> created \<and> pev_OrderID e \<noteq> snp_ID current then tx_fail OrdConflict else on_others (f e)) st1 = Inr (x, st')"
    by (auto simp: consumeFirstNativePaidEvent_def tx_then_Inr split: if_splits)
  from app obtain db' where db': "AppendPaidEvent current at (sal_Orders st) = Inr ((e, created), db')"
    "st1 = st\<lparr>sal_Orders := db'\<rparr>" by (auto simp: on_orders_Inr)
  from rest have "\<exists>w. st' = st1\<lparr>sal_Others := w\<rparr>"
    by (auto simp: on_others_Inr split: option.splits if_splits intro: exI [of _ "sal_Others st1"])
  then obtain w where "st' = st1\<lparr>sal_Others := w\<rparr>" ..
  with True db' show thesis by (intro paid [of e created db' w]) simp_all
qed

subsection \<open>Moving an order\<close>

definition moved :: "order \<Rightarrow> order \<Rightarrow> status_event \<Rightarrow> bool" where
  "moved cur o' ev \<longleftrightarrow> mayTransition (ord_Status cur) (ord_Status o') \<and> evt_From ev = ord_Status cur \<and>
     ord_ID o' = ord_ID cur \<and> ord_RecordOrigin o' = ord_RecordOrigin cur \<and>
     ord_EffectEligible o' = ord_EffectEligible cur \<and> ord_Amount o' = ord_Amount cur \<and>
     ord_MerchantOrderNo o' = ord_MerchantOrderNo cur \<and> ord_Provider o' = ord_Provider cur"

lemma ApplySettlement_moved:
  assumes "ApplySettlement o' v nxt r at = Inr (u, ev)"
  shows "u = o' \<and> nxt = ord_Status o' \<or> moved o' u ev \<and> ord_Status u = nxt"
  using assms by (auto simp: ApplySettlement_def moved_def Let_def split: if_splits)

lemma ApplyVerifiedAlipayPayment_moved:
  assumes "ApplyVerifiedAlipayPayment o' v at = Inr (u, ev)"
  shows "moved o' u ev \<and> ord_Status u = StatusPaid"
proof -
  from assms obtain stateAt e where a: "ApplySettlement o' v StatusPaid 0 stateAt = Inr (u, e)"
    and e: "evt_From ev = evt_From e" and "ord_Status o' = StatusPendingPayment"
    by (auto simp: ApplyVerifiedAlipayPayment_def Let_def split: if_splits sum.splits)
  with ApplySettlement_moved [OF a] show ?thesis by (auto simp: moved_def)
qed

lemma ApplyVerifiedRefundFact_moved:
  assumes "ApplyVerifiedRefundFact o' v nxt r at processed = Inr (u, ev)"
  shows "moved o' u ev \<and> ord_Status u = nxt"
  using assms by (auto simp: ApplyVerifiedRefundFact_def moved_def Let_def split: if_splits)

lemma confirm_transaction_moved:
  assumes "confirm_transaction c u = Inr o'" "moved cur u ev"
  shows "moved cur o' ev \<and> ord_Status o' = ord_Status u"
  using assms by (auto simp: confirm_transaction_def WithVerifiedProviderTransaction_def checked_def moved_def split: if_splits)

lemma settled_order_moved:
  assumes "settled_order c cur now = Inr (o', ev)"
  shows "moved cur o' ev \<and> (\<exists>refunded. settlement_target c cur = Some (ord_Status o', refunded))"
proof -
  from assms obtain nxt refunded u where t: "settlement_target c cur = Some (nxt, refunded)"
    and u: "settle_order c cur nxt refunded now = Inr (u, ev)" and f: "confirm_transaction c u = Inr o'"
    by (auto simp: settled_order_def split: option.splits sum.splits)
  have "nxt \<noteq> ord_Status cur \<or> 0 < psc_RefundedDelta c" using t
    by (auto simp: settlement_target_def split: if_splits)
  with u have "moved cur u ev \<and> ord_Status u = nxt"
    by (auto simp: settle_order_def split: if_splits
        dest: ApplySettlement_moved ApplyVerifiedAlipayPayment_moved ApplyVerifiedRefundFact_moved)
  with confirm_transaction_moved [OF f, of cur ev] t show ?thesis by auto
qed

lemma moved_to_paid: "mayTransition s t \<Longrightarrow> t = StatusPaid \<Longrightarrow> s = StatusPendingPayment"
  by (cases s) auto

lemma order_checks_native: "order_checks s \<Longrightarrow> snp_RecordOrigin s = RecordOriginNative \<and> snp_EffectEligible s"
  by (simp add: order_checks_def order_shape_checks_def)

text \<open>The books after an order has moved and its paid event, if it has one, has been appended.\<close>

definition balanced :: "order_db \<Rightarrow> bool" where
  "balanced db \<longleftrightarrow> order_books db \<and> paid_events db = paid_rows db"

lemma balanced_empty [simp]: "balanced empty_orders"
  by (simp add: balanced_def)

lemma balanced_cong:
  assumes "odb_Orders a = odb_Orders b" "odb_NextOrder a = odb_NextOrder b" "odb_History a = odb_History b"
    "odb_PaidEvents a = odb_PaidEvents b" "0 < odb_NextReceipt a \<longleftrightarrow> 0 < odb_NextReceipt b"
  shows "balanced a \<longleftrightarrow> balanced b"
  using order_books_cong [OF assms] assms by (simp add: balanced_def paid_rows_def paid_events_def)

text \<open>What moving the order of a row does to the tables of the orders.\<close>

definition order_moved_in :: "order_db \<Rightarrow> snapshot \<Rightarrow> order \<Rightarrow> order_db \<Rightarrow> bool" where
  "order_moved_in db row o' db' \<longleftrightarrow> balanced db' \<and> row \<in> set (odb_Orders db) \<and> snp_ID row = ord_ID o' \<and>
     mayTransition (snp_Status row) (ord_Status o') \<and>
     odb_Orders db' = put_order (settled_row (Snapshot o') row) (odb_Orders db) \<and>
     odb_Checkouts db' = odb_Checkouts db \<and> odb_Receipts db' = odb_Receipts db \<and> odb_NextReceipt db' = odb_NextReceipt db"

text \<open>The fields of a row that a move reads.\<close>

definition reads :: "snapshot \<Rightarrow> order \<Rightarrow> bool" where
  "reads row cur \<longleftrightarrow> snp_ID row = ord_ID cur \<and> snp_Status row = ord_Status cur \<and> snp_Version row = ord_Version cur \<and>
     snp_RecordOrigin row = ord_RecordOrigin cur \<and> snp_EffectEligible row = ord_EffectEligible cur \<and>
     snp_Amount row = ord_Amount cur"

lemma Restore_reads: "Restore s = Inr o' \<Longrightarrow> reads s o'"
  by (auto simp: Restore_def checked_def reads_def split: if_splits)

lemma stored_reads: "Restore s = Inr o' \<Longrightarrow> reads (stored_order s) o'"
  by (auto simp: stored_order_def reads_def dest: Restore_reads)

lemma advance:
  assumes bal: "balanced db" and row: "order_row db (ord_ID cur) = Some row" "reads row cur"
    and moved: "moved cur o' ev" and upd: "UpdateSettlement o' ev scope db = Inr (p, db1)"
    and st: "sal_Orders st = db1"
    and paid: "consumeFirstNativePaidEvent env (Snapshot cur) (Snapshot o') at st = Inr (x, st')"
  shows "order_moved_in db row o' (sal_Orders st') \<and> sal_Coupons st' = sal_Coupons st"
proof -
  note s = row(2) [unfolded reads_def]
  have m: "ord_ID o' = ord_ID cur" "evt_From ev = snp_Status row" "mayTransition (snp_Status row) (ord_Status o')"
    using moved by (simp_all add: moved_def s)
  from upd obtain audit rows n where step: "snp_Version row = ord_Version o' - 1"
      "order_checks (settled_row (Snapshot o') row)"
      "db1 = db\<lparr>odb_Orders := put_order (settled_row (Snapshot o') row) (odb_Orders db),
         odb_History := odb_History db @ [status_row_of (Snapshot o') (Some (evt_From ev)) scope (evt_OccurredAt ev)],
         odb_Audit := audit, odb_Outbox := rows, odb_NextOutbox := n\<rparr>"
    by (rule UpdateSettlement_effect) (simp only: row(1) m(1) option.inject)
  have tables: "odb_Orders db1 = put_order (settled_row (Snapshot o') row) (odb_Orders db)"
    "odb_History db1 = odb_History db @ [status_row_of (Snapshot o') (Some (evt_From ev)) scope (evt_OccurredAt ev)]"
    "odb_NextOrder db1 = odb_NextOrder db" "odb_PaidEvents db1 = odb_PaidEvents db" "odb_NextReceipt db1 = odb_NextReceipt db"
    by (simp_all add: step(3))
  have row': "order_row db (snp_ID (Snapshot o')) = Some row" by (simp only: row(1) m(1) Snapshot_simps)
  have books: "order_books db1"
    by (rule update_books [OF _ row' _ step(2) m(2) _ tables(1) tables(3) tables(2) tables(4) tables(5)])
      (simp_all only: bal [unfolded balanced_def] step(1) m(3) m(2) Snapshot_simps)
  have rows: "paid_rows db1 = (if ord_Status o' = StatusPaid then insert (ord_ID o', ord_Version o') (paid_rows db) else paid_rows db)"
    using paid_rows_append [of db1 db "Snapshot o'"] step(3) by simp
  have events: "paid_events db1 = paid_events db" using step(3) by (simp add: paid_events_def)
  have native: "ord_RecordOrigin o' = RecordOriginNative" "ord_EffectEligible o'"
    using order_checks_native [OF step(2)] moved by (simp_all add: moved_def s settled_row_def)
  from paid have "balanced (sal_Orders st') \<and> odb_Orders (sal_Orders st') = odb_Orders db1 \<and>
      odb_Checkouts (sal_Orders st') = odb_Checkouts db1 \<and> odb_Receipts (sal_Orders st') = odb_Receipts db1 \<and>
      odb_NextReceipt (sal_Orders st') = odb_NextReceipt db1 \<and> sal_Coupons st' = sal_Coupons st"
  proof (cases rule: consumeFirst_effect)
    case quiet
    then have "ord_Status o' \<noteq> StatusPaid" using native step(1) m(3) s
      by (auto simp: first_paid_def dest: moved_to_paid)
    with quiet books rows events bal st show ?thesis by (simp add: balanced_def)
  next
    case (paid e created db' w)
    then have is_paid: "ord_Status o' = StatusPaid" by (simp add: first_paid_def)
    from paid(2) obtain events' k rows' n' where db': "db' = db1\<lparr>odb_PaidEvents := events', odb_NextPaidEvent := k,
        odb_Outbox := rows', odb_NextOutbox := n'\<rparr>"
      and e: "events' = odb_PaidEvents db1 \<and> (\<exists>x \<in> set events'. ope_OrderID x = ord_ID o' \<and> ope_Version x = ord_Version o') \<or>
        events' = odb_PaidEvents db1 @ [paid_row_of db1 (Snapshot o') at] \<and> ord_ID o' \<notin> ope_OrderID ` set (odb_PaidEvents db1)"
      by (rule AppendPaidEvent_effect) (simp add: st)
    have "paid_events db' = insert (ord_ID o', ord_Version o') (paid_events db1)"
      using e by (auto simp: paid_events_def db' paid_row_of_def intro: rev_image_eqI)
    moreover have "paid_rows db' = paid_rows db1" by (simp add: paid_rows_def db')
    moreover have "distinct (map ope_OrderID events')" using e books by (auto simp: order_books_def paid_row_of_def)
    then have "order_books db'" using books explained_cong [of db' db1] by (simp add: order_books_def db')
    ultimately have "balanced db'" using rows is_paid events bal by (simp add: balanced_def)
    with paid(3) db' st show ?thesis by simp
  qed
  then show ?thesis using order_row_Some [OF row(1)] m tables by (simp add: order_moved_in_def step(3))
qed

subsection \<open>Placing an order\<close>

lemma reserveCheckout_effect:
  assumes "reserveCheckout env c at st = Inr (k, st')"
  obtains (plain) "k = plain_checkout c at" "st' = st"
    | (priced) coupons r p where "oen_Coupons env = Some coupons"
      "ReserveWithin coupons (coupon_reserve c at) (sal_Coupons st) = Inr (r, p)"
      "discounted_checkout c at r = Inr k" "st' = st\<lparr>sal_Coupons := p\<rparr>" "poc_Provider c \<noteq> ProviderNoPayment"
  using assms by (auto simp: reserveCheckout_def sale_steps split: option.splits if_splits)

lemma discounted_checkout_cases:
  assumes "discounted_checkout c at r = Inr k"
  obtains (original) "k = plain_checkout c at" "\<not> rsv_CouponApplied r"
    | (applied) "rsv_CouponApplied r" "ckt_CouponApplied k" "ckt_CouponReservationRef k = rsv_ReservationRef r"
      "ckt_DiscountAmountMinor k = rsv_DiscountAmountMinor r" "ckt_PayableAmountMinor k = rsv_PayableAmountMinor r"
  using assms by (auto simp: discounted_checkout_def split: if_splits)

lemma plain_checkout_simps [simp]: "\<not> ckt_CouponApplied (plain_checkout c at)"
  by (simp add: plain_checkout_def)

lemma NewOrder_fields:
  assumes "NewOrder input = Inr new"
  shows "ord_Status new = StatusPendingPayment" "ord_Version new = 1" "ord_RefundedMinor new = 0" "ord_ID new = 0"
    "ord_Amount new = inp_Amount input" "ord_MerchantOrderNo new = trim_space (inp_MerchantOrderNo input)"
  using assms by (auto simp: NewOrder_def checked_def Let_def split: if_splits)

text \<open>An order that has been added, pending, with its rows of the books.\<close>

definition order_added :: "order_db \<Rightarrow> snapshot \<Rightarrow> order_db \<Rightarrow> bool" where
  "order_added db row db' \<longleftrightarrow> balanced db' \<and> snp_ID row = odb_NextOrder db \<and> snp_Status row = StatusPendingPayment \<and>
     odb_Orders db' = odb_Orders db @ [row] \<and> odb_NextOrder db' = odb_NextOrder db + 1 \<and>
     odb_Receipts db' = odb_Receipts db \<and> odb_NextReceipt db' = odb_NextReceipt db"

lemma json_snapshot_id:
  assumes "list_all pg_text (snapshot_texts s)" "list_all (\<lambda>i. map_option json_variant (itm_Variant i) = itm_Variant i) (snp_Items s)"
  shows "json_snapshot s = s"
proof -
  have same: "json_text t = t" if "t \<in> set (snapshot_texts s)" for t
    using assms(1) that by (auto simp: list_all_iff pg_text_def json_text_valid)
  have "json_item i = i" if i: "i \<in> set (snp_Items s)" for i
  proof -
    have "set (item_texts i) \<subseteq> set (snapshot_texts s)" using i by (auto simp: snapshot_texts_def)
    then have "json_text (itm_ProductCode i) = itm_ProductCode i" "json_text (itm_ProductName i) = itm_ProductName i"
      using same by (auto simp: item_texts_def)
    with assms(2) i show ?thesis by (simp add: json_item_def list_all_iff)
  qed
  then have "map json_item (snp_Items s) = snp_Items s" by (simp add: map_idI)
  with same show ?thesis by (simp add: json_snapshot_def snapshot_texts_def)
qed

lemma insert_order_added:
  assumes bal: "balanced db" and new: "NewOrder input = Inr new" and ins: "insert_order new scope now event db = Inr (p, db')"
  obtains row where "order_added db row db'" "odb_Checkouts db' = odb_Checkouts db" "reads row p" "order_row db' (ord_ID p) = Some row"
    "snp_Amount row = inp_Amount input" "snp_MerchantOrderNo row = trim_space (inp_MerchantOrderNo input)"
    "validate p" "list_all pg_text (snapshot_texts (Snapshot p))" "ord_items p = inp_Items input"
  using ins
proof (rule insert_order_effect)
  fix s audit rows m
  assume s: "s = (Snapshot new)\<lparr>snp_ID := odb_NextOrder db\<rparr>" and rs: "Restore s = Inr p"
    and snap: "Snapshot p = s" and ok: "order_checks (stored_order s)" and texts: "list_all pg_text (snapshot_texts s)"
    and db': "db' = db\<lparr>odb_Orders := odb_Orders db @ [stored_order s], odb_NextOrder := odb_NextOrder db + 1,
       odb_History := odb_History db @ [status_row_of s None scope now], odb_Audit := audit, odb_Outbox := rows, odb_NextOutbox := m\<rparr>"
  note fields = NewOrder_fields [OF new]
  have tables: "odb_Orders db' = odb_Orders db @ [stored_order s]" "odb_NextOrder db' = odb_NextOrder db + 1"
    "odb_History db' = odb_History db @ [status_row_of s None scope now]" "odb_PaidEvents db' = odb_PaidEvents db"
    "odb_NextReceipt db' = odb_NextReceipt db" "odb_Receipts db' = odb_Receipts db" "odb_Checkouts db' = odb_Checkouts db"
    by (simp_all add: db')
  have sp: "snp_ID s = odb_NextOrder db" "snp_Status s = StatusPendingPayment" "snp_Version s = 1" "snp_RefundedMinor s = 0"
    "snp_Amount s = inp_Amount input" "snp_MerchantOrderNo s = trim_space (inp_MerchantOrderNo input)"
    using fields by (simp_all add: s)
  have books: "order_books db'"
    using insert_books [OF _ ok sp(1-4) tables(1-5)] bal by (simp add: balanced_def)
  have "paid_rows db' = paid_rows db" using paid_rows_append [OF tables(3)] sp by simp
  then have "balanced db'" using books bal tables(4) by (simp add: balanced_def paid_events_def)
  moreover have "snp_ID (stored_order s) = ord_ID p" using stored_reads [OF rs] by (simp add: reads_def)
  with order_row_ID [OF books, of "stored_order s"] have "order_row db' (ord_ID p) = Some (stored_order s)"
    by (simp add: tables)
  moreover have "ord_items p = inp_Items input"
  proof -
    have "ord_items p = snp_Items (Snapshot p)" by (simp add: Snapshot_def)
    also have "\<dots> = ord_items new" unfolding snap s by (simp add: Snapshot_def)
    also have "\<dots> = inp_Items input" using new by (auto simp: NewOrder_def checked_def Let_def split: if_splits)
    finally show ?thesis .
  qed
  ultimately show thesis using sp tables stored_reads [OF rs] Restore_Snapshot [OF rs] texts snap
    by (intro that [of "stored_order s"]) (simp_all add: order_added_def stored_order_def)
qed

lemma order_added_beside:
  assumes "order_added db row a" "odb_Orders b = odb_Orders a" "odb_NextOrder b = odb_NextOrder a" "odb_History b = odb_History a"
    "odb_PaidEvents b = odb_PaidEvents a" "odb_NextReceipt b = odb_NextReceipt a" "odb_Receipts b = odb_Receipts a"
  shows "order_added db row b"
  using assms balanced_cong [of b a] by (simp add: order_added_def)

lemma place_order_added:
  assumes bal: "balanced (sal_Orders st)" and place: "place_order env free c phone receipt st = Inr (s, st')"
  obtains k0 st0 k row o' st1 final st2 snap shared where
    "reserveCheckout env c (oen_Now env) st = Inr (k0, st0)" "sal_Coupons st1 = sal_Coupons st0"
    "order_added (sal_Orders st) row (sal_Orders st1)" "odb_Checkouts (sal_Orders st1) = odb_Checkouts (sal_Orders st) @ [k]"
    "ckt_OrderID k = snp_ID row" "ckt_CouponApplied k = ckt_CouponApplied k0"
    "ckt_CouponReservationRef k = ckt_CouponReservationRef k0" "ckt_DiscountAmountMinor k = ckt_DiscountAmountMinor k0"
    "ckt_PayableAmountMinor k = ckt_PayableAmountMinor k0" "AmountMinor (snp_Amount row) = ckt_PayableAmountMinor k0"
    "snp_MerchantOrderNo row = trim_space (poc_MerchantOrderNo c)"
    "reads row o'" "order_row (sal_Orders st1) (ord_ID o') = Some row" "settle_free env free c o' st1 = Inr (final, st2)"
    "complete_order env receipt snap st2 = Inr (s, st')" "snap = (Snapshot final)\<lparr>snp_ProfitSharingRequired := shared\<rparr>"
    "ptr_all (\<lambda>x. x = ckt_PayableAmountMinor k0) (poc_ExpectedAmountMinor c)" "validate o'"
    "map_option json_variant (poc_Variant c) = poc_Variant c \<Longrightarrow> json_snapshot (Snapshot o') = Snapshot o'"
    "\<not> list_ex (\<lambda>x. ckt_OrderID x = ckt_OrderID k) (odb_Checkouts (sal_Orders st))"
proof -
  from place obtain k0 st0 where res: "reserveCheckout env c (oen_Now env) st = Inr (k0, st0)"
    and agreed: "ptr_all (\<lambda>x. x = ckt_PayableAmountMinor k0) (poc_ExpectedAmountMinor c)"
    and rest: "(case NewOrder (checkout_order c k0 (oen_Now env)) of
         Inl _ \<Rightarrow> tx_fail OrdConflict
       | Inr new \<Rightarrow>
           tx_then (classified_tx (on_orders (InsertScoped new (poc_ActorScope c) (oen_Now env)))) (\<lambda>o'.
           tx_then (record_attribution env free c k0 (ord_ID o')) (\<lambda>a.
           tx_then (record_product_sale env free c a (Snapshot o')) (\<lambda>_.
           tx_then (classified_tx (on_orders (InsertCheckoutSnapshot (oen_Jsonb env)
             (k0\<lparr>ckt_OrderID := ord_ID o', ckt_ProfitSharingRequired := car_ProfitSharingRequired a\<rparr>)))) (\<lambda>_.
           tx_then (record_contact env c phone (ord_ID o')) (\<lambda>_.
           tx_then (record_address env c (ord_ID o')) (\<lambda>_.
           tx_then (share_contact env c (ord_ID o')) (\<lambda>_.
           tx_then (settle_free env free c o') (\<lambda>final.
             complete_order env receipt
               ((Snapshot final)\<lparr>snp_ProfitSharingRequired := car_ProfitSharingRequired a\<rparr>)))))))))) st0 = Inr (s, st')"
    unfolding place_order_def tx_then_Inr tx_error_Inr by (auto split: if_splits)
  from res have ord0: "sal_Orders st0 = sal_Orders st" by (cases rule: reserveCheckout_effect) simp_all
  from rest obtain new where new: "NewOrder (checkout_order c k0 (oen_Now env)) = Inr new" by (auto split: sum.splits)
  from rest [unfolded new sum.case tx_then_Inr tx_error_Inr] obtain o' sta a stb u stc std ste stf v w x st1 final st2 where
    steps: "on_orders (InsertScoped new (poc_ActorScope c) (oen_Now env)) st0 = Inr (o', sta)"
      "record_attribution env free c k0 (ord_ID o') sta = Inr (a, stb)"
      "record_product_sale env free c a (Snapshot o') stb = Inr (u, stc)"
      "on_orders (InsertCheckoutSnapshot (oen_Jsonb env)
        (k0\<lparr>ckt_OrderID := ord_ID o', ckt_ProfitSharingRequired := car_ProfitSharingRequired a\<rparr>)) stc = Inr (v, std)"
      "record_contact env c phone (ord_ID o') std = Inr (w, ste)" "record_address env c (ord_ID o') ste = Inr (x, stf)"
      "share_contact env c (ord_ID o') stf = Inr ((), st1)"
    and tail: "settle_free env free c o' st1 = Inr (final, st2)"
      "complete_order env receipt ((Snapshot final)\<lparr>snp_ProfitSharingRequired := car_ProfitSharingRequired a\<rparr>) st2 = Inr (s, st')"
    by (auto simp: unit_eq)
  from steps(1) obtain db1 where db1: "insert_order new (poc_ActorScope c) (oen_Now env) ''order.created'' (sal_Orders st) = Inr (o', db1)"
    "sta = st0\<lparr>sal_Orders := db1\<rparr>" using ord0 by (auto simp: on_orders_Inr dest: InsertScoped_effect)
  from insert_order_added [OF bal new db1(1)] obtain row where row: "order_added (sal_Orders st) row db1"
    "odb_Checkouts db1 = odb_Checkouts (sal_Orders st)" "reads row o'" "order_row db1 (ord_ID o') = Some row"
    "snp_Amount row = inp_Amount (checkout_order c k0 (oen_Now env))"
    "snp_MerchantOrderNo row = trim_space (inp_MerchantOrderNo (checkout_order c k0 (oen_Now env)))"
    "validate o'" "list_all pg_text (snapshot_texts (Snapshot o'))" "ord_items o' = inp_Items (checkout_order c k0 (oen_Now env))"
    by blast
  have json: "json_snapshot (Snapshot o') = Snapshot o'" if "map_option json_variant (poc_Variant c) = poc_Variant c"
    by (rule json_snapshot_id [OF row(8)]) (use that row(9) in \<open>simp add: Snapshot_def checkout_order_def\<close>)
  have stc: "sal_Orders stc = db1" "sal_Coupons stc = sal_Coupons st0"
    using record_attribution_elsewhere [OF steps(2)] record_product_sale_elsewhere [OF steps(3)] db1(2)
    by (simp_all add: elsewhere_def)
  from steps(4) obtain db2 where ins: "InsertCheckoutSnapshot (oen_Jsonb env)
      (k0\<lparr>ckt_OrderID := ord_ID o', ckt_ProfitSharingRequired := car_ProfitSharingRequired a\<rparr>) db1 = Inr (v, db2)"
    and std: "std = stc\<lparr>sal_Orders := db2\<rparr>" using stc by (auto simp: on_orders_Inr)
  from ins obtain k where k: "db2 = db1\<lparr>odb_Checkouts := odb_Checkouts db1 @ [k]\<rparr>"
    "ckt_OrderID k = ord_ID o'" "ckt_CouponApplied k = ckt_CouponApplied k0"
    "ckt_CouponReservationRef k = ckt_CouponReservationRef k0" "ckt_DiscountAmountMinor k = ckt_DiscountAmountMinor k0"
    "ckt_PayableAmountMinor k = ckt_PayableAmountMinor k0" "\<not> list_ex (\<lambda>x. ckt_OrderID x = ord_ID o') (odb_Checkouts db1)"
    by (rule InsertCheckoutSnapshot_effect) simp
  obtain contacts addresses where "sal_Orders st1 = (sal_Orders std)\<lparr>odb_Contacts := contacts, odb_Addresses := addresses\<rparr>"
    "sal_Coupons st1 = sal_Coupons std" by (rule contact_steps [OF steps(5-7)])
  then have st1: "sal_Orders st1 = db2\<lparr>odb_Contacts := contacts, odb_Addresses := addresses\<rparr>" "sal_Coupons st1 = sal_Coupons st0"
    using std stc by simp_all
  have "order_added (sal_Orders st) row (sal_Orders st1)"
    by (rule order_added_beside [OF row(1)]) (simp_all add: st1 k(1))
  moreover have "order_row (sal_Orders st1) (ord_ID o') = Some row" using row(4) by (simp add: st1 k(1) order_row_def)
  moreover have "AmountMinor (snp_Amount row) = ckt_PayableAmountMinor k0" "snp_MerchantOrderNo row = trim_space (poc_MerchantOrderNo c)"
    using row(5,6) by (simp_all add: checkout_order_def)
  moreover have "snp_ID row = ord_ID o'" using row(3) by (simp add: reads_def)
  ultimately show thesis using res agreed json tail k row(2,3,7) st1
    by (intro that [where k = k and ?k0.0 = k0 and shared = "car_ProfitSharingRequired a"]) simp_all
qed

lemma settle_free_effect:
  assumes bal: "balanced (sal_Orders st)" and row: "order_row (sal_Orders st) (ord_ID o') = Some row" "reads row o'"
    and settle: "settle_free env free c o' st = Inr (final, st')"
  obtains (kept) "st' = st" | (paid) u where "free" "ord_Status u = StatusPaid" "order_moved_in (sal_Orders st) row u (sal_Orders st')"
    "sal_Coupons st' = sal_Coupons st"
proof (cases free)
  case False
  with settle kept show thesis by (simp add: settle_free_def)
next
  case True
  with settle obtain u ev where applied: "ApplySettlement o' (ord_Version o') StatusPaid 0 (oen_Now env) = Inr (u, ev)"
    and tx: "tx_then (classified_tx (on_orders (UpdateSettlement u ev (poc_ActorScope c)))) (\<lambda>final.
        tx_then (consumeFirstNativePaidEvent env (Snapshot o') (Snapshot final) (evt_OccurredAt ev)) (\<lambda>_.
          tx_return final)) st = Inr (final, st')"
    by (auto simp: settle_free_def split: sum.splits)
  from tx obtain p db1 x where upd: "UpdateSettlement u ev (poc_ActorScope c) (sal_Orders st) = Inr (p, db1)"
    and app: "consumeFirstNativePaidEvent env (Snapshot o') (Snapshot p) (evt_OccurredAt ev) (st\<lparr>sal_Orders := db1\<rparr>) = Inr (x, st')"
    by (auto simp: sale_steps)
  from upd have p: "p = u" by (rule UpdateSettlement_effect)
  have "moved o' u ev"
  proof (rule ccontr)
    assume no: "\<not> moved o' u ev"
    with ApplySettlement_moved [OF applied] have "u = o'" by simp
    with upd have "order_row (sal_Orders st) (ord_ID o') \<noteq> Some row \<or> snp_Version row = ord_Version o' - 1"
      by (auto elim: UpdateSettlement_effect)
    with row show False by (simp add: reads_def)
  qed
  moreover have "ord_Status u = StatusPaid" using ApplySettlement_moved [OF applied] by auto
  ultimately show thesis using advance [OF bal row _ upd, of "st\<lparr>sal_Orders := db1\<rparr>"] app p True by (intro paid [of u]) simp_all
qed

definition receipt_key :: "order_receipt \<Rightarrow> string \<times> string \<times> w32 list" where
  "receipt_key r = (orr_Operation r, orr_ActorScope r, orr_KeyDigest r)"

text \<open>Completing a receipt writes its answer once; its key stays.\<close>

definition receipt_later :: "order_receipt \<Rightarrow> order_receipt \<Rightarrow> bool" where
  "receipt_later r r' \<longleftrightarrow> receipt_key r' = receipt_key r \<and> (orr_Result r \<noteq> None \<longrightarrow> r' = r)"

definition receipts_kept :: "order_db \<Rightarrow> order_db \<Rightarrow> bool" where
  "receipts_kept a b \<longleftrightarrow> (\<exists>rs. b = a\<lparr>odb_Receipts := rs\<rparr> \<and> list_all2 receipt_later (odb_Receipts a) rs)"

lemma Order_Complete_kept: "Order_Complete i s at db = Inr (x, db') \<Longrightarrow> receipts_kept db db'"
  unfolding receipts_kept_def
  by (drule Order_Complete_effect, rule exI, rule conjI, assumption)
    (simp add: list.rel_map receipt_later_def receipt_key_def list.rel_refl)

lemma complete_order_kept:
  "complete_order env i s st = Inr (x, st') \<Longrightarrow> receipts_kept (sal_Orders st) (sal_Orders st') \<and> sal_Coupons st' = sal_Coupons st"
  by (auto simp: complete_order_def sale_steps split: if_splits dest: Order_Complete_kept)

lemma Order_Reserve_new:
  assumes "on_orders (Order_Reserve v) st = Inr ((r, owned), st')"
  obtains (known) "\<not> owned" "st' = st" "find_order_receipt (sal_Orders st) (ors_Operation v) (ors_ActorScope v) (ors_KeyDigest v) = Some r"
    | (fresh) "owned" "find_order_receipt (sal_Orders st) (ors_Operation v) (ors_ActorScope v) (ors_KeyDigest v) = None"
      "receipt_key r = (ors_Operation v, ors_ActorScope v, ors_KeyDigest v)" "orr_Result r = None"
      "st' = st\<lparr>sal_Orders := (sal_Orders st)\<lparr>odb_Receipts := odb_Receipts (sal_Orders st) @ [r],
        odb_NextReceipt := odb_NextReceipt (sal_Orders st) + 1\<rparr>\<rparr>"
proof -
  from assms obtain db' where db': "Order_Reserve v (sal_Orders st) = Inr ((r, owned), db')" "st' = st\<lparr>sal_Orders := db'\<rparr>"
    by (auto simp: on_orders_Inr)
  from db'(1) show thesis
    by (cases rule: Order_Reserve_effect) (use db'(2) that in \<open>simp_all add: receipt_key_def\<close>)
qed

text \<open>A call with a key replays the receipt or takes it and runs its step.\<close>

definition receipt_fits :: "order_receipt \<Rightarrow> payment_order_command \<Rightarrow> w32 list option \<Rightarrow> bool" where
  "receipt_fits r c digest \<longleftrightarrow> 0 < orr_ID r \<and> receipt_key r = (''create'', poc_ActorScope c, Sum256 (poc_IdempotencyKey c)) \<and>
     (case checkout_payload (with_contact_level c) of None \<Rightarrow> False
      | Some payload \<Rightarrow> orr_PayloadDigest r = (case digest of None \<Rightarrow> payload | Some d \<Rightarrow> d))"

lemma createCheckoutOrderWithin_cases:
  assumes "createCheckoutOrderWithin env input digest st = Inr (s, st')"
  obtains (replayed) r where "st' = st" "replayed_order r = Inr s"
      "find_order_receipt (sal_Orders st) ''create'' (poc_ActorScope input) (Sum256 (poc_IdempotencyKey input)) = Some r"
      "receipt_fits r input digest"
    | (placed) r c phone st1 where "c = with_contact_level input" "valid_checkout_command (no_payment input digest) c"
      "find_order_receipt (sal_Orders st) ''create'' (poc_ActorScope input) (Sum256 (poc_IdempotencyKey input)) = None"
      "receipt_fits r input digest" "orr_Result r = None"
      "st1 = st\<lparr>sal_Orders := (sal_Orders st)\<lparr>odb_Receipts := odb_Receipts (sal_Orders st) @ [r],
        odb_NextReceipt := odb_NextReceipt (sal_Orders st) + 1\<rparr>\<rparr>"
      "place_order env (no_payment input digest) c phone (orr_ID r) st1 = Inr (s, st')"
proof -
  define c where "c = with_contact_level input"
  have same: "poc_ActorScope c = poc_ActorScope input" "poc_IdempotencyKey c = poc_IdempotencyKey input"
    by (simp_all add: c_def with_contact_level_def)
  from assms obtain phone payload where valid: "valid_checkout_command (no_payment input digest) c"
    and payload: "checkout_payload c = Some payload"
    and tx: "tx_then (classified_tx (on_orders (Order_Reserve (checkout_reservation c digest payload (oen_Now env))))) (\<lambda>(r, owned).
      if \<not> order_validReceipt r (checkout_reservation c digest payload (oen_Now env)) \<or>
        orr_PayloadDigest r \<noteq> ors_PayloadDigest (checkout_reservation c digest payload (oen_Now env)) then tx_fail OrdConflict
      else if \<not> owned then tx_value (replayed_order r)
      else place_order env (no_payment input digest) c phone (orr_ID r)) st = Inr (s, st')"
    by (auto simp: createCheckoutOrderWithin_def Let_def c_def [symmetric] split: if_splits sum.splits option.splits)
  from tx obtain r owned st1 where res: "on_orders (Order_Reserve (checkout_reservation c digest payload (oen_Now env))) st = Inr ((r, owned), st1)"
    and fits: "receipt_fits r input digest"
    and run: "(if \<not> owned then tx_value (replayed_order r) else place_order env (no_payment input digest) c phone (orr_ID r)) st1 = Inr (s, st')"
    by (auto simp: tx_then_Inr receipt_fits_def order_validReceipt_def checkout_reservation_def receipt_key_def c_def [symmetric]
        same payload split: if_splits)
  from res show thesis
  proof (cases rule: Order_Reserve_new)
    case known
    with run same fits show thesis by (intro replayed [of r]) (simp_all add: checkout_reservation_def)
  next
    case fresh
    with run same valid c_def fits show thesis by (intro placed [of c r st1 phone]) (simp_all add: checkout_reservation_def)
  qed
qed

lemma receipted_order_tx_cases:
  assumes "receipted_order_tx v at step st = Inr (s, st')"
  obtains (replayed) r where "st' = st" "replayed_admin r = Inr s"
      "find_order_receipt (sal_Orders st) (ors_Operation v) (ors_ActorScope v) (ors_KeyDigest v) = Some r"
    | (stepped) r st1 st2 where
      "find_order_receipt (sal_Orders st) (ors_Operation v) (ors_ActorScope v) (ors_KeyDigest v) = None"
      "receipt_key r = (ors_Operation v, ors_ActorScope v, ors_KeyDigest v)"
      "st1 = st\<lparr>sal_Orders := (sal_Orders st)\<lparr>odb_Receipts := odb_Receipts (sal_Orders st) @ [r],
        odb_NextReceipt := odb_NextReceipt (sal_Orders st) + 1\<rparr>\<rparr>"
      "step st1 = Inr (s, st2)" "receipts_kept (sal_Orders st2) (sal_Orders st')" "sal_Coupons st' = sal_Coupons st2"
proof -
  from assms obtain r owned st1 where res: "on_orders (Order_Reserve v) st = Inr ((r, owned), st1)"
    and run: "(if \<not> owned then tx_value (replayed_admin r)
       else tx_then step (\<lambda>s. tx_then (unavailable (on_orders (Order_Complete (orr_ID r) s at))) (\<lambda>_. tx_return s))) st1 = Inr (s, st')"
    by (auto simp: receipted_order_tx_def tx_then_Inr split: if_splits)
  from res show thesis
  proof (cases rule: Order_Reserve_new)
    case known
    with run show thesis by (intro replayed [of r]) simp_all
  next
    case fresh
    from run fresh(1) obtain st2 where "step st1 = Inr (s, st2)" "receipts_kept (sal_Orders st2) (sal_Orders st')"
      "sal_Coupons st' = sal_Coupons st2"
      by (auto simp: sale_steps dest: Order_Complete_kept)
    with fresh show thesis by (intro stepped [of r st1 st2]) simp_all
  qed
qed

subsection \<open>Settling a payment\<close>

lemma find_checkout_None:
  "find_checkout i st = Inr (None, st') \<Longrightarrow> 0 < i \<Longrightarrow> \<forall>k \<in> set (odb_Checkouts (sal_Orders st)). ckt_OrderID k \<noteq> i"
  by (auto simp: find_checkout_def on_orders_def tx_part_def ReadCheckoutSnapshot_def find_None_iff
      split: sum.splits if_splits prod.splits option.splits)

text \<open>The coupon of a checkout that a payment settles: released when it failed, consumed when it was
  paid, left alone by a refund, by an order without a coupon and by a service without coupons.\<close>

definition coupon_settled :: "'w order_env \<Rightarrow> payment_settlement_command \<Rightarrow> snapshot \<Rightarrow> 'w sale \<Rightarrow> 'w sale \<Rightarrow> bool" where
  "coupon_settled env c s st st' \<longleftrightarrow>
     (if oen_Coupons env = None \<or> \<not> psc_Failed c \<and> 0 < psc_RefundedDelta c then sal_Coupons st' = sal_Coupons st
      else sal_Coupons st' = sal_Coupons st \<and>
          (\<forall>k \<in> set (odb_Checkouts (sal_Orders st)). ckt_OrderID k = snp_ID s \<longrightarrow> \<not> ckt_CouponApplied k) \<or>
        (\<exists>k coupons x. k \<in> set (odb_Checkouts (sal_Orders st)) \<and> ckt_OrderID k = snp_ID s \<and> ckt_CouponApplied k \<and>
          oen_Coupons env = Some coupons \<and>
          (if psc_Failed c then ReleaseWithin coupons (coupon_release k s c) (sal_Coupons st)
           else ConsumeWithin coupons (coupon_consume k s c) (sal_Coupons st)) = Inr (x, sal_Coupons st')))"

lemma coupon_settled_cong:
  assumes "odb_Checkouts (sal_Orders a') = odb_Checkouts (sal_Orders a)" "sal_Coupons a' = sal_Coupons a" "sal_Coupons b' = sal_Coupons b"
  shows "coupon_settled env c s a' b' = coupon_settled env c s a b"
  by (simp only: coupon_settled_def assms)

lemma coupon_settled_quiet: "oen_Coupons env = None \<or> \<not> psc_Failed c \<and> 0 < psc_RefundedDelta c \<Longrightarrow>
    sal_Coupons st' = sal_Coupons st \<Longrightarrow> coupon_settled env c s st st'"
  by (simp only: coupon_settled_def if_True)

lemma coupon_settled_none:
  assumes "sal_Coupons st' = sal_Coupons st"
    "\<forall>k \<in> set (odb_Checkouts (sal_Orders st)). ckt_OrderID k = snp_ID s \<longrightarrow> \<not> ckt_CouponApplied k"
  shows "coupon_settled env c s st st'"
  using assms by (simp only: coupon_settled_def) simp

lemma coupon_settled_ended:
  assumes "k \<in> set (odb_Checkouts (sal_Orders st))" "ckt_OrderID k = snp_ID s" "ckt_CouponApplied k" "oen_Coupons env = Some coupons"
    "psc_Failed c \<or> psc_RefundedDelta c \<le> 0"
    "(if psc_Failed c then ReleaseWithin coupons (coupon_release k s c) (sal_Coupons st)
      else ConsumeWithin coupons (coupon_consume k s c) (sal_Coupons st)) = Inr (x, sal_Coupons st')"
  shows "coupon_settled env c s st st'"
proof -
  have "\<not> (oen_Coupons env = None \<or> \<not> psc_Failed c \<and> 0 < psc_RefundedDelta c)" using assms(4,5) by auto
  then show ?thesis unfolding coupon_settled_def if_not_P [OF \<open>\<not> _\<close>] using assms by blast
qed

lemma coupon_ended_effect:
  assumes run: "(if psc_Failed c then release_coupon env k s c else consume_coupon env k s c) st = Inr (x, st')"
    and quiet: "psc_Failed c \<or> psc_RefundedDelta c \<le> 0"
    and k: "k \<in> set (odb_Checkouts (sal_Orders st))" "ckt_OrderID k = snp_ID s"
      "\<forall>j \<in> set (odb_Checkouts (sal_Orders st)). ckt_OrderID j = snp_ID s \<longrightarrow> j = k"
  shows "coupon_settled env c s st st' \<and> sal_Orders st' = sal_Orders st"
proof (cases "oen_Coupons env")
  case None
  with run have "st' = st" by (simp add: release_coupon_def consume_coupon_def split: if_splits)
  with coupon_settled_quiet [of env c st' st s] None show ?thesis by simp
next
  case (Some coupons)
  show ?thesis
  proof (cases "ckt_CouponApplied k")
    case True
    with run Some obtain y p where "(if psc_Failed c then ReleaseWithin coupons (coupon_release k s c) (sal_Coupons st)
        else ConsumeWithin coupons (coupon_consume k s c) (sal_Coupons st)) = Inr (y, p)" "st' = st\<lparr>sal_Coupons := p\<rparr>"
      by (cases "psc_Failed c") (auto simp: release_coupon_def consume_coupon_def sale_steps)
    with coupon_settled_ended [OF k(1,2) True Some quiet, of y st'] show ?thesis by simp
  next
    case False
    with run Some have "st' = st" by (simp add: release_coupon_def consume_coupon_def split: if_splits)
    with coupon_settled_none [of st' st s env c] k False show ?thesis by metis
  qed
qed

lemma applyCheckoutSettlement_effect:
  assumes apply': "applyCheckoutSettlement env s c processed st = Inr (x, st')" and i: "0 < snp_ID s"
    and dist: "distinct (map ckt_OrderID (odb_Checkouts (sal_Orders st)))"
  shows "coupon_settled env c s st st' \<and> sal_Orders st' = sal_Orders st"
proof -
  from apply' obtain found st1 where found: "find_checkout (snp_ID s) st = Inr (found, st1)"
    and rest: "(case found of None \<Rightarrow> tx_return ()
      | Some k \<Rightarrow> if \<not> checkout_of_order k s then tx_fail OrdConflict else settle_checkout env k s c processed) st1 = Inr (x, st')"
    by (auto simp: applyCheckoutSettlement_def tx_then_Inr)
  show ?thesis
  proof (cases found)
    case None
    with find_checkout_None [of "snp_ID s" st st1] find_checkout_Inr [OF found] found rest i coupon_settled_none [of st' st s env c]
    show ?thesis by simp
  next
    case (Some k)
    with find_checkout_Inr [OF found] have k: "st1 = st" "k \<in> set (odb_Checkouts (sal_Orders st))" "ckt_OrderID k = snp_ID s" by auto
    have only: "\<forall>j \<in> set (odb_Checkouts (sal_Orders st)). ckt_OrderID j = snp_ID s \<longrightarrow> j = k"
      using dist k by (auto simp: distinct_map) (metis inj_onD)
    from rest Some k have run: "settle_checkout env k s c processed st = Inr (x, st')" by (simp split: if_splits)
    show ?thesis
    proof (cases "\<not> psc_Failed c \<and> 0 < psc_RefundedDelta c")
      case True
      with run have "elsewhere st st'" by (simp add: settle_checkout_def refund_period_elsewhere)
      with coupon_settled_quiet [of env c st' st s] True show ?thesis by (simp add: elsewhere_def)
    next
      case False
      with run obtain u st2 where "(if psc_Failed c then release_coupon env k s c else consume_coupon env k s c) st = Inr (u, st2)"
        and end': "elsewhere st2 st'"
        by (auto simp: settle_checkout_def tx_then_Inr split: if_splits dest: grant_period_elsewhere)
      from coupon_ended_effect [OF this(1) _ k(2,3) only] False
      have "coupon_settled env c s st st2 \<and> sal_Orders st2 = sal_Orders st" by auto
      with end' coupon_settled_cong [of st st st' st2 env c s] show ?thesis by (simp add: elsewhere_def)
    qed
  qed
qed

lemma SettlePaymentWithin_effect:
  assumes bal: "balanced (sal_Orders st)" and settle: "SettlePaymentWithin env c st = Inr (s, st')"
    and dist: "distinct (map ckt_OrderID (odb_Checkouts (sal_Orders st)))"
  obtains row cur o' refunded where "order_row (sal_Orders st) (psc_OrderID c) = Some row" "reads row cur"
    "settlement_target c cur = Some (ord_Status o', refunded)" "order_moved_in (sal_Orders st) row o' (sal_Orders st')"
    "coupon_settled env c (Snapshot o') st st'" "ord_ID o' = psc_OrderID c" "0 < psc_OrderID c" "s = Snapshot o'"
proof -
  from settle obtain cur where valid: "valid_settlement c" and get: "Order_Get (psc_OrderID c) (sal_Orders st) = Inr (cur, sal_Orders st)"
    by (auto simp: SettlePaymentWithin_def tx_then_Inr on_orders_Inr Order_Get_Inr split: if_splits)
  have get': "tx_then (classified_tx (on_orders (Order_Get (psc_OrderID c)))) k st = k cur st" for k :: "order \<Rightarrow> ('a, snapshot) sale_tx"
    by (rule tx_then_ok) (use get in \<open>simp add: on_orders_Inr\<close>)
  from get obtain row where row: "order_row (sal_Orders st) (psc_OrderID c) = Some row" "Restore row = Inr cur" "0 < psc_OrderID c"
    by (auto simp: Order_Get_Inr)
  from settle valid get' have "(if ord_Provider cur = ProviderNoPayment then tx_fail OrdConflict
      else (case settled_order c cur (oen_Now env) of
            Inl e \<Rightarrow> tx_fail e
          | Inr (updated, event) \<Rightarrow>
              tx_then (classified_tx (on_orders (UpdateSettlement updated event (''payment:'' @ psc_ReceiptKey c)))) (\<lambda>final.
              tx_then (applyCheckoutSettlement env (Snapshot final) c
                (if 0 < psc_RefundedDelta c then ord_UpdatedAt updated else 0)) (\<lambda>_.
              tx_then (consumeFirstNativePaidEvent env (Snapshot cur) (Snapshot final) (evt_OccurredAt event)) (\<lambda>_.
              tx_then (notify_refund env (Snapshot final) c) (\<lambda>_.
                tx_return (Snapshot final))))))) st = Inr (s, st')"
    by (simp add: SettlePaymentWithin_def)
  then obtain u ev where so: "settled_order c cur (oen_Now env) = Inr (u, ev)"
    and tx: "tx_then (classified_tx (on_orders (UpdateSettlement u ev (''payment:'' @ psc_ReceiptKey c)))) (\<lambda>final.
      tx_then (applyCheckoutSettlement env (Snapshot final) c (if 0 < psc_RefundedDelta c then ord_UpdatedAt u else 0)) (\<lambda>_.
      tx_then (consumeFirstNativePaidEvent env (Snapshot cur) (Snapshot final) (evt_OccurredAt ev)) (\<lambda>_.
      tx_then (notify_refund env (Snapshot final) c) (\<lambda>_. tx_return (Snapshot final))))) st = Inr (s, st')"
    by (auto split: if_splits sum.splits)
  from tx obtain p db1 x1 st2 x2 st3 x3 where
    upd: "UpdateSettlement u ev (''payment:'' @ psc_ReceiptKey c) (sal_Orders st) = Inr (p, db1)"
    and app: "applyCheckoutSettlement env (Snapshot p) c (if 0 < psc_RefundedDelta c then ord_UpdatedAt u else 0)
      (st\<lparr>sal_Orders := db1\<rparr>) = Inr (x1, st2)"
    and paid: "consumeFirstNativePaidEvent env (Snapshot cur) (Snapshot p) (evt_OccurredAt ev) st2 = Inr (x2, st3)"
    and told: "notify_refund env (Snapshot p) c st3 = Inr (x3, st')" and s: "s = Snapshot p"
    by (auto simp: tx_then_Inr on_orders_Inr)
  from upd obtain rows audit outbox m where p: "p = u"
    and db1: "db1 = (sal_Orders st)\<lparr>odb_Orders := rows, odb_History := audit, odb_Audit := outbox, odb_Outbox := fst m, odb_NextOutbox := snd m\<rparr>"
    by (rule UpdateSettlement_effect) auto
  from settled_order_moved [OF so] obtain refunded where mv: "moved cur u ev"
    and target: "settlement_target c cur = Some (ord_Status u, refunded)" by blast
  from Restore_reads [OF row(2)] order_row_Some [OF row(1)] mv have ids: "ord_ID cur = psc_OrderID c" "ord_ID u = psc_OrderID c"
    by (simp_all add: reads_def moved_def)
  have co: "odb_Checkouts db1 = odb_Checkouts (sal_Orders st)" by (simp add: db1)
  have settled: "coupon_settled env c (Snapshot u) (st\<lparr>sal_Orders := db1\<rparr>) st2 \<and> sal_Orders st2 = sal_Orders (st\<lparr>sal_Orders := db1\<rparr>)"
    by (rule applyCheckoutSettlement_effect [OF app [unfolded p]]) (use ids row(3) dist co in simp_all)
  have "order_moved_in (sal_Orders st) row u (sal_Orders st3) \<and> sal_Coupons st3 = sal_Coupons st2"
    using advance [OF bal _ Restore_reads [OF row(2)] mv upd, of st2] settled paid p row(1) ids by simp
  moreover have "elsewhere st3 st'" using notify_refund_elsewhere told by blast
  ultimately have "order_moved_in (sal_Orders st) row u (sal_Orders st')" "sal_Coupons st' = sal_Coupons st2"
    by (simp_all add: elsewhere_def)
  moreover from this have "coupon_settled env c (Snapshot u) st st'"
    using settled co coupon_settled_cong [of "st\<lparr>sal_Orders := db1\<rparr>" st st2 st' env c "Snapshot u"] by simp
  ultimately show thesis using row target ids s p Restore_reads [OF row(2)]
    by (intro that [of row cur u refunded]) simp_all
qed

end
