(* ===== verification/OrderRun.thy ===== *)
theory OrderRun
  imports OrderFlow CouponReplay
begin

text \<open>
  The calls of the order service on the tables of orders and coupons, one after another, and what
  they keep: the books of the orders, the checkout of each order and the keys of the receipts.
\<close>

subsection \<open>The calls\<close>

datatype sale_call =
    SaleCheckout payment_order_command
  | SaleFree payment_order_command "w32 list"
  | SaleSettle payment_settlement_command
  | SaleCreate order_create_command
  | SaleAdjust settlement_command
  | SaleCoupon coupon_env coupon_call

definition sale_state :: "(order_app_error, 'a \<times> 'w sale) result \<Rightarrow> (order_app_error, 'w sale) result" where
  "sale_state r = map_sum id snd r"

fun sale_exec :: "'w sale \<Rightarrow> 'w order_env \<times> sale_call \<Rightarrow> (order_app_error, 'w sale) result" where
  "sale_exec st (env, SaleCheckout c) = sale_state (CreatePaymentOrderWithin env c st)"
| "sale_exec st (env, SaleFree c digest) = sale_state (CreateNoPaymentCheckoutWithin env c digest st)"
| "sale_exec st (env, SaleSettle c) = sale_state (SettlePaymentWithin env c st)"
| "sale_exec st (env, SaleCreate c) = sale_state (Order_Create env c st)"
| "sale_exec st (env, SaleAdjust c) = sale_state (Order_ApplySettlement env c st)"
| "sale_exec st (env, SaleCoupon coupons call) =
     map_sum OrdCoupon (\<lambda>db. st\<lparr>sal_Coupons := db\<rparr>) (coupon_exec (sal_Coupons st) (coupons, call))"

lemma sale_state_Inr [simp]: "sale_state r = Inr st' \<longleftrightarrow> (\<exists>x. r = Inr (x, st'))"
  by (cases r) (auto simp: sale_state_def)

lemma map_sum_Inr: "map_sum f g r = Inr y \<longleftrightarrow> (\<exists>x. r = Inr x \<and> y = g x)"
  by (cases r) auto

definition empty_sale :: "'w \<Rightarrow> 'w sale" where
  "empty_sale w = \<lparr>sal_Orders = empty_orders, sal_Coupons = empty_coupons, sal_Others = w\<rparr>"

subsection \<open>What every call keeps\<close>

definition checkouts_ok :: "order_db \<Rightarrow> bool" where
  "checkouts_ok db \<longleftrightarrow> distinct (map ckt_OrderID (odb_Checkouts db)) \<and>
     list_all (\<lambda>k. ckt_OrderID k \<in> snp_ID ` set (odb_Orders db)) (odb_Checkouts db)"

definition orders_ok :: "order_db \<Rightarrow> bool" where
  "orders_ok db \<longleftrightarrow> balanced db \<and> checkouts_ok db"

lemma orders_ok_empty [simp]: "orders_ok empty_orders"
  by (simp add: orders_ok_def checkouts_ok_def) (simp add: empty_orders_def)

lemma orders_ok_cong:
  assumes "odb_Orders a = odb_Orders b" "odb_NextOrder a = odb_NextOrder b" "odb_History a = odb_History b"
    "odb_PaidEvents a = odb_PaidEvents b" "0 < odb_NextReceipt a \<longleftrightarrow> 0 < odb_NextReceipt b" "odb_Checkouts a = odb_Checkouts b"
  shows "orders_ok a \<longleftrightarrow> orders_ok b"
  using balanced_cong [OF assms(1-5)] assms by (simp add: orders_ok_def checkouts_ok_def)

definition receipt_keys :: "order_db \<Rightarrow> (string \<times> string \<times> w32 list) set" where
  "receipt_keys db = receipt_key ` set (odb_Receipts db)"

lemma find_order_receipt_None:
  "find_order_receipt db operation scope key = None \<longleftrightarrow> (operation, scope, key) \<notin> receipt_keys db"
  by (auto simp: find_order_receipt_def receipt_keys_def receipt_key_def find_None_iff)

lemma receipts_kept_keys:
  assumes "receipts_kept a b"
  shows "receipt_keys b = receipt_keys a"
proof -
  from assms obtain rs where b: "b = a\<lparr>odb_Receipts := rs\<rparr>" "list_all2 receipt_later (odb_Receipts a) rs"
    by (auto simp: receipts_kept_def)
  from b(2) have "map receipt_key rs = map receipt_key (odb_Receipts a)"
    by (induction rule: list_all2_induct) (auto simp: receipt_later_def)
  then show ?thesis by (simp add: receipt_keys_def b(1)) (metis list.set_map)
qed

text \<open>A receipt with an answer is found with that answer ever after.\<close>

definition receipts_frozen :: "order_db \<Rightarrow> order_db \<Rightarrow> bool" where
  "receipts_frozen a b \<longleftrightarrow> (\<forall>operation scope key r. find_order_receipt a operation scope key = Some r \<longrightarrow> orr_Result r \<noteq> None \<longrightarrow>
     find_order_receipt b operation scope key = Some r)"

lemma receipts_frozen_refl [simp]: "receipts_frozen a a"
  by (simp add: receipts_frozen_def)

lemma receipts_frozen_trans: "receipts_frozen a b \<Longrightarrow> receipts_frozen b c \<Longrightarrow> receipts_frozen a c"
  by (simp add: receipts_frozen_def)

lemma receipts_frozen_same: "odb_Receipts b = odb_Receipts a \<Longrightarrow> receipts_frozen a b"
  by (simp add: receipts_frozen_def find_order_receipt_def)

lemma receipts_kept_frozen:
  assumes "receipts_kept a b"
  shows "receipts_frozen a b"
proof -
  from assms obtain rs where b: "b = a\<lparr>odb_Receipts := rs\<rparr>" "list_all2 receipt_later (odb_Receipts a) rs"
    by (auto simp: receipts_kept_def)
  have "find P rs = Some r" if "find P xs = Some r" "orr_Result r \<noteq> None" "list_all2 receipt_later xs rs"
    "\<And>x y. receipt_key x = receipt_key y \<Longrightarrow> P x = P y" for xs rs P r
    using that(3,1,2)
  proof (induction rule: list_all2_induct)
    case (Cons x xs y ys)
    then have later: "receipt_key y = receipt_key x" "orr_Result x \<noteq> None \<longrightarrow> y = x" by (simp_all add: receipt_later_def)
    from that(4) [OF later(1)] have same: "P y = P x" .
    show ?case
    proof (cases "P x")
      case True
      with Cons.prems later(2) show ?thesis by simp
    next
      case False
      with Cons.prems Cons.IH same show ?thesis by simp
    qed
  qed simp
  note kept = this
  show ?thesis unfolding receipts_frozen_def
  proof (intro allI impI)
    fix operation scope key r
    assume r: "find_order_receipt a operation scope key = Some r" "orr_Result r \<noteq> None"
    have "find (\<lambda>r. orr_Operation r = operation \<and> orr_ActorScope r = scope \<and> orr_KeyDigest r = key) rs = Some r"
      by (rule kept [OF r(1) [unfolded find_order_receipt_def] r(2) b(2)]) (simp add: receipt_key_def)
    then show "find_order_receipt b operation scope key = Some r" by (simp add: find_order_receipt_def b(1))
  qed
qed

text \<open>The receipt that an order completes.\<close>

lemma complete_order_answer:
  assumes "complete_order env i snap st = Inr (s, st')"
  shows "s = snap \<and> odb_Receipts (sal_Orders st') = map (\<lambda>r. if orr_ID r = i \<and> orr_Result r = None
    then r\<lparr>orr_Result := Some (json_snapshot s)\<rparr> else r) (odb_Receipts (sal_Orders st))"
  using assms by (auto simp: complete_order_def sale_steps split: if_splits dest!: Order_Complete_effect)

lemma completed_receipt:
  assumes "odb_Receipts b = map (\<lambda>r. if orr_ID r = i \<and> orr_Result r = None
      then r\<lparr>orr_Result := Some (json_snapshot s)\<rparr> else r) (odb_Receipts a @ [r])"
    "(operation, scope, key) \<notin> receipt_keys a" "receipt_key r = (operation, scope, key)" "orr_ID r = i" "orr_Result r = None"
  shows "find_order_receipt b operation scope key = Some (r\<lparr>orr_Result := Some (json_snapshot s)\<rparr>)"
proof -
  let ?f = "\<lambda>r. if orr_ID r = i \<and> orr_Result r = None then r\<lparr>orr_Result := Some (json_snapshot s)\<rparr> else r"
  have "find (\<lambda>r. orr_Operation r = operation \<and> orr_ActorScope r = scope \<and> orr_KeyDigest r = key) (map ?f (odb_Receipts a)) = None"
    using assms(2) by (auto simp: find_None_iff receipt_keys_def receipt_key_def split: if_splits)
  then show ?thesis using assms by (simp add: find_order_receipt_def find_append receipt_key_def)
qed

lemma receipts_kept_ok: "receipts_kept a b \<Longrightarrow> orders_ok b \<longleftrightarrow> orders_ok a"
  unfolding receipts_kept_def by (elim exE conjE) (rule orders_ok_cong, simp_all)

text \<open>The tables after a receipt has been taken.\<close>

definition with_receipt :: "order_receipt \<Rightarrow> order_db \<Rightarrow> order_db" where
  "with_receipt r db = db\<lparr>odb_Receipts := odb_Receipts db @ [r], odb_NextReceipt := odb_NextReceipt db + 1\<rparr>"

lemma with_receipt_simps [simp]:
  "odb_Orders (with_receipt r db) = odb_Orders db" "odb_NextOrder (with_receipt r db) = odb_NextOrder db"
  "odb_History (with_receipt r db) = odb_History db" "odb_PaidEvents (with_receipt r db) = odb_PaidEvents db"
  "odb_Checkouts (with_receipt r db) = odb_Checkouts db"
  "receipt_keys (with_receipt r db) = insert (receipt_key r) (receipt_keys db)"
  by (simp_all add: with_receipt_def receipt_keys_def)

lemma with_receipt_ok:
  assumes "orders_ok db"
  shows "orders_ok (with_receipt r db)"
proof -
  have "0 < odb_NextReceipt db" using assms by (simp add: orders_ok_def balanced_def order_books_def)
  then show ?thesis using orders_ok_cong [of "with_receipt r db" db] assms by (simp add: with_receipt_def)
qed

lemma with_receipt_frozen: "receipts_frozen db (with_receipt r db)"
  by (simp add: receipts_frozen_def with_receipt_def find_order_receipt_def find_append)

text \<open>An order added without a checkout, and an order moved.\<close>

lemma order_added_ok:
  assumes "orders_ok db" "order_added db row db'" "odb_Checkouts db' = odb_Checkouts db"
  shows "orders_ok db' \<and> receipt_keys db' = receipt_keys db"
  using assms by (auto simp: orders_ok_def order_added_def checkouts_ok_def list_all_iff receipt_keys_def)

lemma order_added_checkout_ok:
  assumes ok: "orders_ok db" and added: "order_added db row db'" and k: "odb_Checkouts db' = odb_Checkouts db @ [k]"
    "ckt_OrderID k = snp_ID row" "\<not> list_ex (\<lambda>x. ckt_OrderID x = ckt_OrderID k) (odb_Checkouts db)"
  shows "orders_ok db' \<and> receipt_keys db' = receipt_keys db"
  using assms by (auto simp: orders_ok_def order_added_def checkouts_ok_def list_all_iff list_ex_iff receipt_keys_def)

lemma order_moved_ok:
  assumes "orders_ok db" "order_moved_in db row o' db'"
  shows "orders_ok db' \<and> receipt_keys db' = receipt_keys db"
  using assms by (auto simp: orders_ok_def order_moved_in_def checkouts_ok_def list_all_iff receipt_keys_def)

lemma orders_balanced: "orders_ok db \<Longrightarrow> balanced db"
  by (simp add: orders_ok_def)

subsection \<open>The effect of each call\<close>

text \<open>The order of a checkout: its row, pending or paid at once, its checkout and its receipt are new.\<close>

definition order_placed :: "order_db \<Rightarrow> string \<times> string \<times> w32 list \<Rightarrow> bool \<Rightarrow> snapshot \<Rightarrow> checkout_snapshot \<Rightarrow> order_db \<Rightarrow> bool" where
  "order_placed db key free row k db' \<longleftrightarrow> orders_ok db' \<and> snp_ID row = odb_NextOrder db \<and>
     (snp_Status row = StatusPendingPayment \<or> free \<and> snp_Status row = StatusPaid) \<and>
     odb_Orders db' = odb_Orders db @ [row] \<and> odb_Checkouts db' = odb_Checkouts db @ [k] \<and> ckt_OrderID k = snp_ID row \<and>
     receipts_frozen db db' \<and> key \<notin> receipt_keys db \<and> receipt_keys db' = insert key (receipt_keys db)"

lemma put_order_last:
  assumes "snp_ID x = snp_ID row" "\<And>s. s \<in> set ss \<Longrightarrow> snp_ID s \<noteq> snp_ID row"
  shows "put_order x (ss @ [row]) = ss @ [x]"
  using assms by (auto simp: put_order_def intro: map_idI)

lemma new_order_fresh: "orders_ok db \<Longrightarrow> s \<in> set (odb_Orders db) \<Longrightarrow> snp_ID s < odb_NextOrder db"
  by (auto simp: orders_ok_def balanced_def order_books_def list_all_iff)

lemma settle_free_receipts:
  assumes "balanced (sal_Orders st)" "order_row (sal_Orders st) (ord_ID o') = Some row" "reads row o'"
    "settle_free env free c o' st = Inr (final, st')"
  shows "odb_Receipts (sal_Orders st') = odb_Receipts (sal_Orders st) \<and> (\<not> free \<longrightarrow> final = o')"
proof
  show "odb_Receipts (sal_Orders st') = odb_Receipts (sal_Orders st)"
    using assms by (cases rule: settle_free_effect) (simp_all add: order_moved_in_def)
  show "\<not> free \<longrightarrow> final = o'" using assms(4) by (cases free) (simp_all add: settle_free_def)
qed

lemma checkout_effect:
  assumes ok: "orders_ok (sal_Orders st)" and run: "createCheckoutOrderWithin env input digest st = Inr (s, st')"
  obtains (replayed) q where "st' = st" "(''create'', poc_ActorScope input, Sum256 (poc_IdempotencyKey input)) \<in> receipt_keys (sal_Orders st)"
      "find_order_receipt (sal_Orders st') ''create'' (poc_ActorScope input) (Sum256 (poc_IdempotencyKey input)) = Some q"
      "receipt_fits q input digest" "replayed_order q = Inr s"
    | (placed) k0 st0 c row k st1 q where "order_placed (sal_Orders st) (''create'', poc_ActorScope input, Sum256 (poc_IdempotencyKey input))
        (no_payment input digest) row k (sal_Orders st')"
      "c = with_contact_level input" "reserveCheckout env c (oen_Now env) st1 = Inr (k0, st0)" "sal_Coupons st1 = sal_Coupons st"
      "sal_Coupons st' = sal_Coupons st0" "ckt_CouponApplied k = ckt_CouponApplied k0"
      "ckt_CouponReservationRef k = ckt_CouponReservationRef k0" "ckt_DiscountAmountMinor k = ckt_DiscountAmountMinor k0"
      "ckt_PayableAmountMinor k = ckt_PayableAmountMinor k0" "AmountMinor (snp_Amount row) = ckt_PayableAmountMinor k0"
      "snp_MerchantOrderNo row = trim_space (poc_MerchantOrderNo input)"
      "find_order_receipt (sal_Orders st') ''create'' (poc_ActorScope input) (Sum256 (poc_IdempotencyKey input)) = Some q"
      "receipt_fits q input digest" "orr_Result q = Some (json_snapshot s)"
      "ptr_all (\<lambda>x. x = ckt_PayableAmountMinor k0) (poc_ExpectedAmountMinor input)"
      "\<not> no_payment input digest \<Longrightarrow> \<exists>o'. validate o' \<and> ord_ID o' = ckt_OrderID k \<and> AmountMinor (ord_Amount o') = ckt_PayableAmountMinor k0 \<and>
        (\<exists>shared. s = (Snapshot o')\<lparr>snp_ProfitSharingRequired := shared\<rparr>) \<and>
        (map_option json_variant (poc_Variant input) = poc_Variant input \<longrightarrow> json_snapshot s = s)"
  using run
proof (cases rule: createCheckoutOrderWithin_cases)
  case (replayed r)
  then have "(''create'', poc_ActorScope input, Sum256 (poc_IdempotencyKey input)) \<in> receipt_keys (sal_Orders st)"
    using find_order_receipt_None [of "sal_Orders st"] by force
  with replayed that(1) [of r] show thesis by simp
next
  case (placed r c phone st1)
  let ?key = "(''create'', poc_ActorScope input, Sum256 (poc_IdempotencyKey input))"
  have key: "receipt_key r = ?key" using placed(4) by (simp add: receipt_fits_def)
  have st1: "sal_Orders st1 = with_receipt r (sal_Orders st)" "sal_Coupons st1 = sal_Coupons st"
    by (simp_all add: placed(6) with_receipt_def)
  have ok1: "orders_ok (sal_Orders st1)" using with_receipt_ok [OF ok] st1 by simp
  from placed(7) show thesis
  proof (rule place_order_added [OF orders_balanced [OF ok1]])
    fix k0 st0 k row o' st2 final st3 snap shared
    assume reserve: "reserveCheckout env c (oen_Now env) st1 = Inr (k0, st0)" "sal_Coupons st2 = sal_Coupons st0"
      and added: "order_added (sal_Orders st1) row (sal_Orders st2)" "odb_Checkouts (sal_Orders st2) = odb_Checkouts (sal_Orders st1) @ [k]"
      and k: "ckt_OrderID k = snp_ID row" "ckt_CouponApplied k = ckt_CouponApplied k0"
        "ckt_CouponReservationRef k = ckt_CouponReservationRef k0" "ckt_DiscountAmountMinor k = ckt_DiscountAmountMinor k0"
        "ckt_PayableAmountMinor k = ckt_PayableAmountMinor k0"
      and row: "AmountMinor (snp_Amount row) = ckt_PayableAmountMinor k0"
        "snp_MerchantOrderNo row = trim_space (poc_MerchantOrderNo c)" "reads row o'" "order_row (sal_Orders st2) (ord_ID o') = Some row"
      and tail: "settle_free env (no_payment input digest) c o' st2 = Inr (final, st3)" "complete_order env (orr_ID r) snap st3 = Inr (s, st')"
        "snap = (Snapshot final)\<lparr>snp_ProfitSharingRequired := shared\<rparr>"
      and price: "ptr_all (\<lambda>x. x = ckt_PayableAmountMinor k0) (poc_ExpectedAmountMinor c)" "validate o'"
        "map_option json_variant (poc_Variant c) = poc_Variant c \<Longrightarrow> json_snapshot (Snapshot o') = Snapshot o'"
      and fresh: "\<not> list_ex (\<lambda>x. ckt_OrderID x = ckt_OrderID k) (odb_Checkouts (sal_Orders st1))"
    from order_added_checkout_ok [OF ok1 added k(1) fresh] have ok2: "orders_ok (sal_Orders st2)"
      "receipt_keys (sal_Orders st2) = receipt_keys (sal_Orders st1)" by simp_all
    from complete_order_kept [OF tail(2)] have kept: "receipts_kept (sal_Orders st3) (sal_Orders st')" "sal_Coupons st' = sal_Coupons st3"
      by simp_all
    have same: "odb_Orders (sal_Orders st') = odb_Orders (sal_Orders st3)" "odb_Checkouts (sal_Orders st') = odb_Checkouts (sal_Orders st3)"
      using kept(1) by (auto simp: receipts_kept_def)
    from settle_free_receipts [OF orders_balanced [OF ok2(1)] row(4,3) tail(1)] added(1)
    have rs: "odb_Receipts (sal_Orders st3) = odb_Receipts (sal_Orders st1)" "\<not> no_payment input digest \<longrightarrow> final = o'"
      by (simp_all add: order_added_def)
    have frozen: "receipts_frozen (sal_Orders st) (sal_Orders st')"
      using with_receipt_frozen [of "sal_Orders st" r] st1(1) receipts_frozen_same [OF rs(1)] receipts_kept_frozen [OF kept(1)]
      by (metis receipts_frozen_trans)
    have new: "?key \<notin> receipt_keys (sal_Orders st)" using placed(3) find_order_receipt_None by simp
    have old: "snp_ID x \<noteq> snp_ID row" if "x \<in> set (odb_Orders (sal_Orders st))" for x
      using new_order_fresh [OF ok that] added(1) st1 by (simp add: order_added_def)
    from orders_balanced [OF ok2(1)] row(4,3) tail(1) have "\<exists>row'. order_placed (sal_Orders st) ?key (no_payment input digest) row' k (sal_Orders st') \<and>
        snp_Amount row' = snp_Amount row \<and> snp_MerchantOrderNo row' = snp_MerchantOrderNo row \<and> sal_Coupons st3 = sal_Coupons st2"
    proof (cases rule: settle_free_effect)
      case kept': kept
      with ok2 kept same st1 added k new key frozen receipts_kept_ok receipts_kept_keys show ?thesis
        by (intro exI [of _ row]) (simp add: order_placed_def order_added_def)
    next
      case (paid u)
      let ?row = "settled_row (Snapshot u) row"
      have "odb_Orders (sal_Orders st3) = odb_Orders (sal_Orders st) @ [?row]"
        using paid(3) added(1) st1 put_order_last [of ?row row "odb_Orders (sal_Orders st)"] old
        by (simp add: order_moved_in_def order_added_def)
      moreover from order_moved_ok [OF ok2(1) paid(3)] have "orders_ok (sal_Orders st')"
        "receipt_keys (sal_Orders st') = insert ?key (receipt_keys (sal_Orders st))"
        using kept receipts_kept_ok receipts_kept_keys ok2(2) st1 key by simp_all
      ultimately show ?thesis using paid same k(1) new frozen added st1
        by (intro exI [of _ ?row]) (simp add: order_placed_def order_added_def order_moved_in_def)
    qed
    then obtain row' where row': "order_placed (sal_Orders st) ?key (no_payment input digest) row' k (sal_Orders st')"
      "snp_Amount row' = snp_Amount row" "snp_MerchantOrderNo row' = snp_MerchantOrderNo row" "sal_Coupons st3 = sal_Coupons st2"
      by blast
    have c: "poc_MerchantOrderNo c = poc_MerchantOrderNo input" "poc_ExpectedAmountMinor c = poc_ExpectedAmountMinor input"
      "poc_Variant c = poc_Variant input" by (simp_all add: placed(1) with_contact_level_def)
    let ?q = "r\<lparr>orr_Result := Some (json_snapshot s)\<rparr>"
    from complete_order_answer [OF tail(2)] rs(1) st1(1) have s: "s = snap" "odb_Receipts (sal_Orders st') =
        map (\<lambda>x. if orr_ID x = orr_ID r \<and> orr_Result x = None then x\<lparr>orr_Result := Some (json_snapshot s)\<rparr> else x)
          (odb_Receipts (sal_Orders st) @ [r])" by (simp_all add: with_receipt_def)
    have q: "find_order_receipt (sal_Orders st') ''create'' (poc_ActorScope input) (Sum256 (poc_IdempotencyKey input)) = Some ?q"
      by (rule completed_receipt [OF s(2) new key refl placed(5)])
    have fits: "receipt_fits ?q input digest" using placed(4) by (simp add: receipt_fits_def receipt_key_def split: option.splits)
    have amount: "AmountMinor (ord_Amount o') = ckt_PayableAmountMinor k0" using row(1,3) by (simp add: reads_def)
    have answer: "\<exists>o'. validate o' \<and> ord_ID o' = ckt_OrderID k \<and> AmountMinor (ord_Amount o') = ckt_PayableAmountMinor k0 \<and>
        (\<exists>shared. s = (Snapshot o')\<lparr>snp_ProfitSharingRequired := shared\<rparr>) \<and>
        (map_option json_variant (poc_Variant input) = poc_Variant input \<longrightarrow> json_snapshot s = s)" if "\<not> no_payment input digest"
    proof (intro exI [of _ o'] conjI impI)
      show "\<exists>shared. s = (Snapshot o')\<lparr>snp_ProfitSharingRequired := shared\<rparr>" using s(1) tail(3) rs(2) that by auto
      show "json_snapshot s = s" if v: "map_option json_variant (poc_Variant input) = poc_Variant input"
      proof -
        have "json_snapshot (x\<lparr>snp_ProfitSharingRequired := b\<rparr>) = (json_snapshot x)\<lparr>snp_ProfitSharingRequired := b\<rparr>" for x b
          by (simp add: json_snapshot_def)
        with price(3) v c(3) s(1) tail(3) rs(2) \<open>\<not> no_payment input digest\<close> show ?thesis by simp
      qed
    qed (use amount price(2) k(1) row(3) in \<open>simp_all add: reads_def\<close>)
    from row' row(1,2) kept(2) reserve k st1 c q fits price(1) answer show thesis
      by (intro that(2) [where q = ?q, OF row'(1) placed(1) reserve(1)]) simp_all
  qed
qed

definition order_created :: "order_db \<Rightarrow> string \<times> string \<times> w32 list \<Rightarrow> snapshot \<Rightarrow> order_db \<Rightarrow> bool" where
  "order_created db key row db' \<longleftrightarrow> orders_ok db' \<and> snp_ID row = odb_NextOrder db \<and>
     odb_Orders db' = odb_Orders db @ [row] \<and> odb_Checkouts db' = odb_Checkouts db \<and>
     receipts_frozen db db' \<and> key \<notin> receipt_keys db \<and> receipt_keys db' = insert key (receipt_keys db)"

definition create_key :: "order_create_command \<Rightarrow> string \<times> string \<times> w32 list" where
  "create_key c = (''create'', ''admin:'' @ format_int (occ_Actor c), Sum256 (occ_IdempotencyKey c))"

definition adjust_key :: "settlement_command \<Rightarrow> string \<times> string \<times> w32 list" where
  "adjust_key c = (''settlement'', osc_ActorScope c, Sum256 (osc_IdempotencyKey c))"

lemma create_effect:
  assumes ok: "orders_ok (sal_Orders st)" and run: "Order_Create env c st = Inr (s, st')"
  obtains (replayed) "st' = st" "create_key c \<in> receipt_keys (sal_Orders st)"
    | (created) row where "order_created (sal_Orders st) (create_key c) row (sal_Orders st')" "sal_Coupons st' = sal_Coupons st"
proof -
  define v where "v = \<lparr>ors_Operation = ''create'', ors_ActorScope = ''admin:'' @ format_int (occ_Actor c),
    ors_KeyDigest = Sum256 (occ_IdempotencyKey c), ors_PayloadDigest = create_payload (native_input (occ_Input c) (oen_Now env)),
    ors_CreatedAt = oen_Now env\<rparr>"
  have v: "(ors_Operation v, ors_ActorScope v, ors_KeyDigest v) = create_key c" by (simp add: v_def create_key_def)
  from run obtain new where new: "NewOrder (native_input (occ_Input c) (oen_Now env)) = Inr new"
    and tx: "receipted_order_tx v (oen_Now env)
      (tx_then (on_orders (Order_Insert new (occ_Actor c) (oen_Now env))) (\<lambda>o'. tx_return (Snapshot o'))) st = Inr (s, st')"
    by (auto simp: Order_Create_def Let_def v_def split: if_splits sum.splits)
  from tx show thesis
  proof (cases rule: receipted_order_tx_cases)
    case (replayed r)
    with find_order_receipt_None [of "sal_Orders st" "ors_Operation v" "ors_ActorScope v" "ors_KeyDigest v"] v
    show thesis by (intro that(1)) simp_all
  next
    case (stepped r st1 st2)
    have st1: "sal_Orders st1 = with_receipt r (sal_Orders st)" "sal_Coupons st1 = sal_Coupons st"
      by (simp_all add: stepped(3) with_receipt_def)
    have ok1: "orders_ok (sal_Orders st1)" using with_receipt_ok [OF ok] st1 by simp
    from stepped(4) obtain p db2 where ins: "Order_Insert new (occ_Actor c) (oen_Now env) (sal_Orders st1) = Inr (p, db2)"
      and st2: "st2 = st1\<lparr>sal_Orders := db2\<rparr>" by (auto simp: sale_steps)
    from insert_order_added [OF orders_balanced [OF ok1] new Order_Insert_effect [OF ins]] obtain row where
      row: "order_added (sal_Orders st1) row db2" "odb_Checkouts db2 = odb_Checkouts (sal_Orders st1)" by blast
    from order_added_ok [OF ok1 row] stepped(5) st2 have "orders_ok (sal_Orders st')" "receipt_keys (sal_Orders st') = receipt_keys (sal_Orders st1)"
      by (simp_all add: receipts_kept_ok receipts_kept_keys)
    moreover have "odb_Orders (sal_Orders st') = odb_Orders db2 \<and> odb_Checkouts (sal_Orders st') = odb_Checkouts db2"
      using stepped(5) st2 by (auto simp: receipts_kept_def)
    moreover have "create_key c \<notin> receipt_keys (sal_Orders st)" using stepped(1) find_order_receipt_None v by simp
    moreover have "receipts_frozen (sal_Orders st) (sal_Orders st')"
      using with_receipt_frozen [of "sal_Orders st" r] receipts_frozen_same [of db2 "sal_Orders st1"] receipts_kept_frozen [OF stepped(5)]
        row(1) st1 st2 by (auto simp: order_added_def intro: receipts_frozen_trans)
    ultimately show thesis using row stepped(2,6) st1 st2 v
      by (intro that(2) [of row]) (simp_all add: order_created_def order_added_def)
  qed
qed

lemma adjust_effect:
  assumes ok: "orders_ok (sal_Orders st)" and run: "Order_ApplySettlement env c st = Inr (s, st')"
  obtains (replayed) "st' = st" "adjust_key c \<in> receipt_keys (sal_Orders st)"
    | (adjusted) "orders_ok (sal_Orders st')" "receipts_frozen (sal_Orders st) (sal_Orders st')" "adjust_key c \<notin> receipt_keys (sal_Orders st)" "receipt_keys (sal_Orders st') = insert (adjust_key c) (receipt_keys (sal_Orders st))"
proof -
  define v where "v = \<lparr>ors_Operation = ''settlement'', ors_ActorScope = osc_ActorScope c, ors_KeyDigest = Sum256 (osc_IdempotencyKey c),
    ors_PayloadDigest = settlement_payload c, ors_CreatedAt = osc_OccurredAt c\<rparr>"
  have v: "(ors_Operation v, ors_ActorScope v, ors_KeyDigest v) = adjust_key c" by (simp add: v_def adjust_key_def)
  from run have "receipted_order_tx v (osc_OccurredAt c) (admin_settlement env c) st = Inr (s, st')"
    by (auto simp: Order_ApplySettlement_def v_def split: if_splits)
  then show thesis
  proof (cases rule: receipted_order_tx_cases)
    case (replayed r)
    with find_order_receipt_None [of "sal_Orders st" "ors_Operation v" "ors_ActorScope v" "ors_KeyDigest v"] v
    show thesis by (intro that(1)) simp_all
  next
    case (stepped r st1 st2)
    have st1: "sal_Orders st1 = with_receipt r (sal_Orders st)" by (simp add: stepped(3) with_receipt_def)
    have ok1: "orders_ok (sal_Orders st1)" using with_receipt_ok [OF ok] st1 by simp
    have "orders_ok (sal_Orders st2) \<and> receipt_keys (sal_Orders st2) = receipt_keys (sal_Orders st1) \<and>
        receipts_frozen (sal_Orders st1) (sal_Orders st2)"
    proof -
      from stepped(4) obtain cur where get: "Order_Get (osc_OrderID c) (sal_Orders st1) = Inr (cur, sal_Orders st1)"
        by (auto simp: admin_settlement_def tx_then_Inr on_orders_Inr Order_Get_Inr)
      have "tx_then (on_orders (Order_Get (osc_OrderID c))) k st1 = k cur st1" for k :: "order \<Rightarrow> ('a, snapshot) sale_tx"
        by (rule tx_then_ok) (use get in \<open>simp add: on_orders_Inr\<close>)
      with stepped(4) obtain u ev where
        app: "ApplySettlement cur (osc_ExpectedVersion c) (osc_Status c) (osc_RefundedMinor c) (osc_OccurredAt c) = Inr (u, ev)"
        and rest: "(if ord_Version u = ord_Version cur then tx_return (Snapshot u)
            else tx_then (on_orders (UpdateSettlement u ev (osc_ActorScope c))) (\<lambda>final.
              tx_then (consumeFirstNativePaidEvent env (Snapshot cur) (Snapshot final) (evt_OccurredAt ev)) (\<lambda>_.
                tx_return (Snapshot final)))) st1 = Inr (s, st2)"
        unfolding admin_settlement_def
        by (cases "ApplySettlement cur (osc_ExpectedVersion c) (osc_Status c) (osc_RefundedMinor c) (osc_OccurredAt c)") auto
      show ?thesis
      proof (cases "ord_Version u = ord_Version cur")
        case True
        with rest ok1 show ?thesis by simp
      next
        case False
        with ApplySettlement_moved [OF app] have mv: "moved cur u ev" by auto
        from get obtain row where row: "order_row (sal_Orders st1) (osc_OrderID c) = Some row" "Restore row = Inr cur"
          by (auto simp: Order_Get_Inr)
        have "ord_ID cur = osc_OrderID c" using Restore_reads [OF row(2)] order_row_Some [OF row(1)] by (simp add: reads_def)
        from rest False obtain p db2 x where upd: "UpdateSettlement u ev (osc_ActorScope c) (sal_Orders st1) = Inr (p, db2)"
          and paid: "consumeFirstNativePaidEvent env (Snapshot cur) (Snapshot p) (evt_OccurredAt ev) (st1\<lparr>sal_Orders := db2\<rparr>) = Inr (x, st2)"
          by (auto simp: sale_steps)
        from upd have "p = u" by (rule UpdateSettlement_effect)
        with advance [OF orders_balanced [OF ok1] _ Restore_reads [OF row(2)] mv upd, of "st1\<lparr>sal_Orders := db2\<rparr>"] paid row(1)
          \<open>ord_ID cur = osc_OrderID c\<close> have "order_moved_in (sal_Orders st1) row u (sal_Orders st2)" by simp
        then show ?thesis using order_moved_ok [OF ok1] by (simp add: receipts_frozen_same order_moved_in_def)
      qed
    qed
    moreover from this have "receipts_frozen (sal_Orders st) (sal_Orders st')"
      using with_receipt_frozen [of "sal_Orders st" r] receipts_kept_frozen [OF stepped(5)] st1 by (auto intro: receipts_frozen_trans)
    ultimately show thesis using stepped(2,5) st1 v stepped(1) [unfolded find_order_receipt_None]
      by (intro that(2)) (simp_all add: receipts_kept_ok receipts_kept_keys)
  qed
qed

subsection \<open>The books after every call\<close>

fun sale_key :: "'w order_env \<times> sale_call \<Rightarrow> (string \<times> string \<times> w32 list) option" where
  "sale_key (env, SaleCheckout c) = Some (''create'', poc_ActorScope c, Sum256 (poc_IdempotencyKey c))"
| "sale_key (env, SaleFree c digest) = Some (''create'', poc_ActorScope c, Sum256 (poc_IdempotencyKey c))"
| "sale_key (env, SaleCreate c) = Some (create_key c)"
| "sale_key (env, SaleAdjust c) = Some (adjust_key c)"
| "sale_key (env, _) = None"

definition sale_ok :: "'w sale \<Rightarrow> bool" where
  "sale_ok st \<longleftrightarrow> orders_ok (sal_Orders st)"

lemma sale_ok_empty [simp]: "sale_ok (empty_sale w)"
  by (simp add: sale_ok_def empty_sale_def)

text \<open>A call with a key finds it and changes nothing, or adds it; no call removes a key.\<close>

lemma sale_exec_step:
  assumes ok: "sale_ok st" and exec: "sale_exec st (env, call) = Inr st'"
  shows "sale_ok st' \<and> receipt_keys (sal_Orders st') = receipt_keys (sal_Orders st) \<union> set_option (sale_key (env, call)) \<and>
    (set_option (sale_key (env, call)) \<inter> receipt_keys (sal_Orders st) \<noteq> {} \<longrightarrow> st' = st)"
proof -
  have checkout: "sale_ok st' \<and> receipt_keys (sal_Orders st') = insert (''create'', poc_ActorScope c, Sum256 (poc_IdempotencyKey c)) (receipt_keys (sal_Orders st)) \<and>
      ((''create'', poc_ActorScope c, Sum256 (poc_IdempotencyKey c)) \<in> receipt_keys (sal_Orders st) \<longrightarrow> st' = st)"
    if "createCheckoutOrderWithin env c digest st = Inr (s, st')" for c digest s
    using ok [unfolded sale_ok_def] that
    by (cases rule: checkout_effect) (use ok in \<open>auto simp: sale_ok_def order_placed_def\<close>)
  show ?thesis
  proof (cases call)
    case (SaleCheckout c)
    with exec checkout show ?thesis by (auto simp: CreatePaymentOrderWithin_def)
  next
    case (SaleFree c digest)
    with exec checkout show ?thesis by (auto simp: CreateNoPaymentCheckoutWithin_def split: if_splits)
  next
    case (SaleSettle c)
    with exec obtain s where "SettlePaymentWithin env c st = Inr (s, st')" by auto
    moreover have "distinct (map ckt_OrderID (odb_Checkouts (sal_Orders st)))" using ok
      by (simp add: sale_ok_def orders_ok_def checkouts_ok_def)
    ultimately obtain row o' where "order_moved_in (sal_Orders st) row o' (sal_Orders st')"
      using SettlePaymentWithin_effect [OF orders_balanced] ok unfolding sale_ok_def by blast
    with order_moved_ok ok SaleSettle show ?thesis by (auto simp: sale_ok_def)
  next
    case (SaleCreate c)
    with exec obtain s where "Order_Create env c st = Inr (s, st')" by auto
    with ok [unfolded sale_ok_def] show ?thesis
      by (cases rule: create_effect) (use ok SaleCreate in \<open>auto simp: sale_ok_def order_created_def\<close>)
  next
    case (SaleAdjust c)
    with exec obtain s where run: "Order_ApplySettlement env c st = Inr (s, st')" by auto
    from ok [unfolded sale_ok_def] run show ?thesis
    proof (cases rule: adjust_effect)
      case replayed
      with ok SaleAdjust show ?thesis by auto
    next
      case adjusted
      with ok SaleAdjust run show ?thesis by (auto simp: sale_ok_def)
    qed
  next
    case (SaleCoupon coupons c)
    with exec ok show ?thesis by (auto simp: sale_ok_def map_sum_Inr)
  qed
qed

lemma sale_exec_frozen:
  assumes ok: "sale_ok st" and exec: "sale_exec st (env, call) = Inr st'"
  shows "receipts_frozen (sal_Orders st) (sal_Orders st')"
proof -
  have checkout: "receipts_frozen (sal_Orders st) (sal_Orders st')" if "createCheckoutOrderWithin env c digest st = Inr (s, st')" for c digest s
    using ok [unfolded sale_ok_def] that by (cases rule: checkout_effect) (simp_all add: order_placed_def)
  show ?thesis
  proof (cases call)
    case (SaleCheckout c)
    with exec checkout show ?thesis by (auto simp: CreatePaymentOrderWithin_def)
  next
    case (SaleFree c digest)
    with exec checkout show ?thesis by (auto simp: CreateNoPaymentCheckoutWithin_def split: if_splits)
  next
    case (SaleSettle c)
    with exec obtain s where "SettlePaymentWithin env c st = Inr (s, st')" by auto
    moreover have "distinct (map ckt_OrderID (odb_Checkouts (sal_Orders st)))" using ok
      by (simp add: sale_ok_def orders_ok_def checkouts_ok_def)
    ultimately obtain row o' where "order_moved_in (sal_Orders st) row o' (sal_Orders st')"
      using SettlePaymentWithin_effect [OF orders_balanced] ok unfolding sale_ok_def by blast
    then show ?thesis by (simp add: order_moved_in_def receipts_frozen_same)
  next
    case (SaleCreate c)
    with exec obtain s where "Order_Create env c st = Inr (s, st')" by auto
    with ok [unfolded sale_ok_def] show ?thesis by (cases rule: create_effect) (simp_all add: order_created_def)
  next
    case (SaleAdjust c)
    with exec obtain s where "Order_ApplySettlement env c st = Inr (s, st')" by auto
    with ok [unfolded sale_ok_def] show ?thesis by (cases rule: adjust_effect) simp_all
  next
    case (SaleCoupon coupons c)
    with exec show ?thesis by (auto simp: map_sum_Inr)
  qed
qed

lemma sale_run_frozen:
  assumes "sale_ok st"
  shows "receipts_frozen (sal_Orders st) (sal_Orders (run sale_exec st calls)) \<and> sale_ok (run sale_exec st calls)"
proof (rule run_invariant [of "\<lambda>x. receipts_frozen (sal_Orders st) (sal_Orders x) \<and> sale_ok x"])
  fix x c x'
  assume x: "receipts_frozen (sal_Orders st) (sal_Orders x) \<and> sale_ok x" "sale_exec x c = Inr x'"
  obtain env call where c: "c = (env, call)" by force
  from x have ok: "sale_ok x" by simp
  from sale_exec_frozen [OF ok x(2) [unfolded c]] sale_exec_step [OF ok x(2) [unfolded c]] x(1)
  show "receipts_frozen (sal_Orders st) (sal_Orders x') \<and> sale_ok x'" using receipts_frozen_trans by blast
qed (use assms in simp)

definition sale_used :: "'w sale \<Rightarrow> string \<times> string \<times> w32 list \<Rightarrow> bool" where
  "sale_used st key \<longleftrightarrow> list_ex (\<lambda>r. receipt_key r = key) (odb_Receipts (sal_Orders st))"

lemma sale_used_iff: "sale_used st key \<longleftrightarrow> key \<in> receipt_keys (sal_Orders st)"
  by (auto simp: sale_used_def receipt_keys_def list_ex_iff)

interpretation sales: receipted_commands "sale_exec :: 'w sale \<Rightarrow> _" sale_ok sale_key sale_used
proof unfold_locales
  fix st st' :: "'w sale" and c :: "'w order_env \<times> sale_call" and k
  obtain env call where c: "c = (env, call)" by force
  show "sale_ok st'" if "sale_ok st" "sale_exec st c = Inr st'"
    using sale_exec_step [of st env call st'] that c by simp
  show "sale_used st' k" if "sale_ok st" "sale_exec st c = Inr st'" "sale_used st k"
    using sale_exec_step [of st env call st'] that c by (simp add: sale_used_iff)
  show "st' = st" if "sale_ok st" "sale_key c = Some k" "sale_used st k" "sale_exec st c = Inr st'"
    using sale_exec_step [of st env call st'] that c by (auto simp: sale_used_iff)
  show "sale_used st' k" if "sale_ok st" "sale_key c = Some k" "sale_exec st c = Inr st'"
    using sale_exec_step [of st env call st'] that c by (simp add: sale_used_iff)
qed

lemma sale_run_ok: "sale_ok st \<Longrightarrow> sale_ok (run sale_exec st calls)"
  by (rule run_invariant) (auto intro: sales.valid_step)

end
