(* ===== verification/OrderCoupons.thy ===== *)
theory OrderCoupons
  imports OrderRun
begin

text \<open>
  Orders and their coupons: the coupon of a checkout is reserved while its order waits for the
  payment, consumed once it is paid and released when the payment failed, and the order is charged
  what the reservation left of the price.
\<close>

subsection \<open>Calls that leave the redemptions alone\<close>

definition same_redemptions :: "coupon_db \<Rightarrow> coupon_db \<Rightarrow> bool" where
  "same_redemptions a b \<longleftrightarrow> cdb_Redemptions b = cdb_Redemptions a \<and> cdb_RedemptionReceipts b = cdb_RedemptionReceipts a"

lemma same_redemptions_refl [simp]: "same_redemptions a a"
  by (simp add: same_redemptions_def)

lemma same_redemptions_trans: "same_redemptions a b \<Longrightarrow> same_redemptions b c \<Longrightarrow> same_redemptions a c"
  by (simp add: same_redemptions_def)

lemma rule_redemptions:
  "update_rule i f db = Inr (x, db') \<Longrightarrow> same_redemptions db db'"
  "Rule_Create cmd now db = Inr (x, db') \<Longrightarrow> same_redemptions db db'"
  "Rule_DeleteDraft i db = Inr (y, db') \<Longrightarrow> same_redemptions db db'"
  "Receipt_Reserve operation scope key payload db = Inr (z, db') \<Longrightarrow> same_redemptions db db'"
  "Receipt_Complete j s db = Inr (u, db') \<Longrightarrow> same_redemptions db db'"
  "Event_Append e db = Inr (u, db') \<Longrightarrow> same_redemptions db db'"
  by (auto simp: update_rule_def Rule_Create_def Rule_DeleteDraft_def Receipt_Reserve_def Receipt_Complete_def Event_Append_def
      Let_def same_redemptions_def split: sum.splits if_splits option.splits)

lemma written_redemptions:
  "Rule_SetStatus i status actor now db = Inr (x, db') \<Longrightarrow> same_redemptions db db'"
  "Rule_Update cmd now db = Inr (x, db') \<Longrightarrow> same_redemptions db db'"
  "record_change operation item actor' key changed db = Inr (u, db') \<Longrightarrow> same_redemptions db db'"
  "freeze_result j item db = Inr (y, db') \<Longrightarrow> same_redemptions db db'"
  by (auto simp: Rule_SetStatus_def Rule_Update_def record_change_def freeze_result_def Let_def
      dest: rule_redemptions split: sum.splits if_splits)

lemma rule_step_redemptions:
  "mutate_step env operation command desired draft_only db = Inr (x, db') \<Longrightarrow> same_redemptions db db'"
  "archive_step env i expected actor db = Inr (x, db') \<Longrightarrow> same_redemptions db db'"
  "delete_step env i db = Inr (x, db') \<Longrightarrow> same_redemptions db db'"
  "copy_step env i actor key db = Inr (x, db') \<Longrightarrow> same_redemptions db db'"
  by (cases x; auto simp: mutate_step_def update_step_def status_step_def archive_step_def delete_step_def copy_step_def
      always_changed_Inr split: if_splits sum.splits prod.splits dest: rule_redemptions written_redemptions)+

lemma rule_run_redemptions:
  assumes "rule_run env operation actor key db db'"
  shows "same_redemptions db db'"
proof -
  from assms obtain payload finish step item where step: "rule_tx_of env operation actor key step"
    and tx: "receipted_rule_tx operation actor key payload finish step db = Inr (item, db')"
    by (auto simp: rule_run_def)
  have run: "same_redemptions a b" if "step a = Inr (x, b)" for a x b
    using step that unfolding rule_tx_of_def by (metis rule_step_redemptions)
  from tx show ?thesis
  proof (cases rule: receipted_rule_tx_cases)
    case (stepped r db1 db2 db3 c changed)
    from rule_redemptions(4) [OF stepped(1)] run [OF stepped(3)] written_redemptions(3) [OF stepped(6)]
      written_redemptions(4) [OF stepped(7)] show ?thesis by (simp add: same_redemptions_def)
  qed simp
qed

lemma appendClaimFact_redemptions:
  "appendClaimFact c r operation scope payload key db = Inr (x, db') \<Longrightarrow> same_redemptions db db'"
  by (auto simp: appendClaimFact_def Let_def same_redemptions_def split: if_splits)

lemma share_redemptions: "EnsurePublicCouponSlug i slug actor at db = Inr (x, db') \<Longrightarrow> same_redemptions db db'"
  by (auto simp: EnsurePublicCouponSlug_def same_redemptions_def split: sum.splits if_splits option.splits prod.splits
      dest!: rule_redemptions)

lemma claim_redemptions:
  assumes "ClaimCoupon env c key payload at db = Inr (item, db')"
  shows "same_redemptions db db'"
  using assms
proof (cases rule: ClaimCoupon_cases)
  case (issued ids rule start until row db1 i db2)
  have "same_redemptions db db1" using issued(7) by (auto simp: count_issue_def split: sum.splits if_splits dest: rule_redemptions)
  moreover have "same_redemptions db1 db2" using issued(8)
    by (auto simp: insert_claim_def Let_def same_redemptions_def split: if_splits)
  moreover have "same_redemptions db2 db'" using issued(10)
    by (auto simp: record_claim_def same_redemptions_def split: if_splits sum.splits prod.splits dest!: appendClaimFact_redemptions)
  ultimately show ?thesis by (blast intro: same_redemptions_trans)
qed simp

fun settles_coupon :: "coupon_call \<Rightarrow> bool" where
  "settles_coupon (CallReserve c) \<longleftrightarrow> True"
| "settles_coupon (CallConsume c) \<longleftrightarrow> True"
| "settles_coupon (CallRelease c) \<longleftrightarrow> True"
| "settles_coupon _ \<longleftrightarrow> False"

lemma coupon_exec_redemptions:
  assumes exec: "coupon_exec db (env, call) = Inr db'" and quiet: "\<not> settles_coupon call"
  shows "same_redemptions db db'"
proof (cases "rule_key_of call")
  case (Some k)
  then obtain operation actor key where "rule_key_of call = Some (operation, actor, key)" by (cases k) auto
  with rule_run_redemptions [OF coupon_exec_rule [OF exec]] show ?thesis by blast
next
  case None
  with exec show ?thesis
    by (cases rule: coupon_exec_other) (use quiet in \<open>auto intro: share_redemptions claim_redemptions\<close>)
qed

subsection \<open>Reserving and settling\<close>

definition redemption_key :: "redemption_receipt \<Rightarrow> string \<times> string \<times> w32 list" where
  "redemption_key r = (orc_Operation r, orc_ActorScope r, orc_KeyDigest r)"

lemma record_step_redemptions:
  assumes "record_step operation scope key payload row s db = Inr (x, db')"
  shows "cdb_Redemptions db' = cdb_Redemptions db \<and>
    map redemption_key (cdb_RedemptionReceipts db') = map redemption_key (cdb_RedemptionReceipts db) @ [(operation, scope, key)]"
proof -
  from assms obtain db1 where r: "recordRedemptionReceipt operation scope key payload (rdm_ID row) s db = Inr ((), db1)"
    and a: "appendClaimFact (rdm_ClaimID row) (rdm_ID row) operation scope payload key db1 = Inr ((), db')"
    by (auto simp: record_step_def split: sum.splits prod.splits)
  from r have "cdb_Redemptions db1 = cdb_Redemptions db"
    "map redemption_key (cdb_RedemptionReceipts db1) = map redemption_key (cdb_RedemptionReceipts db) @ [(operation, scope, key)]"
    by (auto simp: recordRedemptionReceipt_def redemption_key_def split: if_splits)
  with appendClaimFact_redemptions [OF a] show ?thesis by (simp add: same_redemptions_def)
qed

lemma ReserveWithin_effect:
  assumes run: "ReserveWithin env c db = Inr (r, db')"
    and fresh: "find_redemption_receipt db ''reserve'' (rvc_ActorScope c) (Sum256 (rvc_IdempotencyKey c)) = None"
  obtains (original) "\<not> rsv_CouponApplied r" "db' = db"
    | (reserved) row where "rsv_CouponApplied r" "rdm_ID row = cdb_NextRedemption db" "rdm_Status row = RedemptionReserved"
      "rdm_OrderReference row = trim_space (rvc_OrderReference c)" "rsv_ReservationRef r = redemptionRef (rdm_ID row)"
      "rsv_DiscountAmountMinor r = rdm_DiscountAmountMinor row" "rsv_PayableAmountMinor r = rdm_PayableAmountMinor row"
      "cdb_Redemptions db' = cdb_Redemptions db @ [row]"
      "map redemption_key (cdb_RedemptionReceipts db') =
        map redemption_key (cdb_RedemptionReceipts db) @ [(''reserve'', rvc_ActorScope c, Sum256 (rvc_IdempotencyKey c))]"
proof -
  define at where "at = checkoutTime (rvc_ReservedAt c) (cen_Now env)"
  let ?c = "c\<lparr>rvc_ReservedAt := at\<rparr>"
  from run have valid: "validReserve ?c"
    and tx: "ReserveCoupon env ?c (Sum256 (rvc_IdempotencyKey c)) (reserve_payload (rvc_HolderCustomerID c) ?c) at db = Inr (r, db')"
    by (auto simp: ReserveWithin_def Let_def at_def [symmetric] split: if_splits sum.splits)
  from valid have trimmed_column: "trim_space (rvc_OrderReference c) = rvc_OrderReference c"
    by (simp add: validReserve_def valid_checkout_ref_def)
  from tx show thesis
  proof (cases rule: ReserveCoupon_cases)
    case (replayed ids)
    with fresh show thesis by (simp add: findReservationReceipt_def)
  next
    case (original ids)
    then show thesis by (intro that(1)) (simp_all add: original_price_def)
  next
    case (reserved ids claim rule db2)
    let ?row = "reserved_row ?c (cdb_NextRedemption db) claim rule at"
    have id: "rdm_ID ?row = cdb_NextRedemption db" by (simp add: reserved_row_def Let_def)
    from reserved(5) have "cdb_Redemptions db2 = cdb_Redemptions db @ [?row]"
      "cdb_RedemptionReceipts db2 = cdb_RedemptionReceipts db"
      by (auto simp: insert_redemption_def split: if_splits)
    with record_step_redemptions [OF reserved(7)] id reserved(6) trimmed_column show thesis
      by (intro that(2) [of ?row]) (simp_all add: snapshot_of_def reserved_row_def Let_def)
  qed
qed

text \<open>A coupon that ends, when no receipt of the scope exists.\<close>

definition coupon_ended :: "string \<Rightarrow> string \<Rightarrow> string \<Rightarrow> redemption_status \<Rightarrow> coupon_db \<Rightarrow> coupon_db \<Rightarrow> bool" where
  "coupon_ended operation scope ref status db db' \<longleftrightarrow>
     (\<exists>r key row. r \<in> set (cdb_Redemptions db) \<and> redemptionRef (rdm_ID r) = ref \<and>
       (rdm_Status r = status \<and> db' = db \<or>
        rdm_Status row = status \<and> same_order r row \<and> cdb_Redemptions db' = put_redemption row (cdb_Redemptions db) \<and>
        map redemption_key (cdb_RedemptionReceipts db') = map redemption_key (cdb_RedemptionReceipts db) @ [(operation, scope, key)]))"

lemma parseRedemptionRef_Some: "parseRedemptionRef v = Some i \<Longrightarrow> redemptionRef i = v"
  by (auto simp: parseRedemptionRef_def split: option.splits if_splits)

lemma findRedemptionReceipt_absent:
  assumes "\<forall>r \<in> set (cdb_RedemptionReceipts db). orc_Operation r = operation \<longrightarrow> orc_ActorScope r \<noteq> scope"
  shows "findRedemptionReceipt db operation scope key payload = Inr None"
proof -
  have "find_redemption_receipt db operation scope key = None" using assms by (auto simp: find_redemption_receipt_def find_None_iff)
  then show ?thesis by (simp add: findRedemptionReceipt_def)
qed

lemma ConsumeWithin_effect:
  assumes run: "ConsumeWithin env c db = Inr (x, db')"
    and fresh: "\<forall>r \<in> set (cdb_RedemptionReceipts db). orc_Operation r = ''consume'' \<longrightarrow> orc_ActorScope r \<noteq> csc_ActorScope c"
  shows "coupon_ended ''consume'' (csc_ActorScope c) (csc_ReservationRef c) RedemptionConsumed db db'"
proof -
  define at where "at = checkoutTime (csc_SettledAt c) (cen_Now env)"
  from run have "ConsumeCoupon (c\<lparr>csc_SettledAt := at\<rparr>) (Sum256 (csc_IdempotencyKey c)) (consume_payload (c\<lparr>csc_SettledAt := at\<rparr>)) at db =
      Inr (x, db')"
    by (auto simp: ConsumeWithin_def Let_def at_def [symmetric] split: if_splits)
  then show ?thesis
  proof (cases rule: ConsumeCoupon_cases)
    case replayed
    with findRedemptionReceipt_absent [OF fresh] show ?thesis by simp
  next
    case (already r claim)
    with readRedemptionD [OF already(1)] show ?thesis
      unfolding coupon_ended_def by (intro exI [of _ r]) (auto dest: parseRedemptionRef_Some)
  next
    case (settled r claim db1)
    let ?row = "r\<lparr>rdm_Status := RedemptionConsumed, rdm_ConsumedAt := Some (pg_time at)\<rparr>"
    from settled(6) have "cdb_Redemptions db1 = put_redemption ?row (cdb_Redemptions db)"
      "cdb_RedemptionReceipts db1 = cdb_RedemptionReceipts db" by (auto simp: settle_rows_def split: if_splits)
    with record_step_redemptions [OF settled(8)] readRedemptionD [OF settled(1)] show ?thesis
      unfolding coupon_ended_def
      by (intro exI [of _ r] exI [of _ "Sum256 (csc_IdempotencyKey c)"] exI [of _ ?row])
        (auto simp: same_order_def dest: parseRedemptionRef_Some)
  qed
qed

lemma ReleaseWithin_effect:
  assumes run: "ReleaseWithin env c db = Inr (x, db')"
    and fresh: "\<forall>r \<in> set (cdb_RedemptionReceipts db). orc_Operation r = ''release'' \<longrightarrow> orc_ActorScope r \<noteq> rlc_ActorScope c"
  shows "coupon_ended ''release'' (rlc_ActorScope c) (rlc_ReservationRef c) RedemptionReleased db db'"
proof -
  define at where "at = checkoutTime (rlc_ClosedAt c) (cen_Now env)"
  define c' where "c' = c\<lparr>rlc_ClosedAt := at, rlc_CloseReason := trim_space (rlc_CloseReason c)\<rparr>"
  have same: "rlc_ActorScope c' = rlc_ActorScope c" "rlc_ReservationRef c' = rlc_ReservationRef c" by (simp_all add: c'_def)
  from run have "ReleaseCoupon c' (Sum256 (rlc_IdempotencyKey c')) (release_payload c') at db = Inr (x, db')"
    by (auto simp: ReleaseWithin_def Let_def at_def [symmetric] c'_def split: if_splits)
  then show ?thesis
  proof (cases rule: ReleaseCoupon_cases)
    case replayed
    with findRedemptionReceipt_absent [OF fresh] same show ?thesis by simp
  next
    case (already r claim)
    with readRedemptionD [OF already(1)] same show ?thesis
      unfolding coupon_ended_def by (intro exI [of _ r]) (auto dest: parseRedemptionRef_Some)
  next
    case (settled r claim db1)
    let ?row = "r\<lparr>rdm_Status := RedemptionReleased, rdm_ReleasedAt := Some (pg_time at), rdm_ReleaseReason := rlc_CloseReason c'\<rparr>"
    from settled(5) have "cdb_Redemptions db1 = put_redemption ?row (cdb_Redemptions db)"
      "cdb_RedemptionReceipts db1 = cdb_RedemptionReceipts db" by (auto simp: settle_rows_def split: if_splits)
    with record_step_redemptions [OF settled(7)] readRedemptionD [OF settled(1)] same show ?thesis
      unfolding coupon_ended_def
      by (intro exI [of _ r] exI [of _ "Sum256 (rlc_IdempotencyKey c')"] exI [of _ ?row])
        (auto simp: same_order_def dest: parseRedemptionRef_Some)
  qed
qed

subsection \<open>The phases of an order and of its coupon\<close>

fun redemption_phase :: "order_status \<Rightarrow> redemption_status option" where
  "redemption_phase StatusPendingPayment = Some RedemptionReserved"
| "redemption_phase StatusPaymentFailed = Some RedemptionReleased"
| "redemption_phase StatusPaid = Some RedemptionConsumed"
| "redemption_phase StatusPartiallyRefunded = Some RedemptionConsumed"
| "redemption_phase StatusRefunded = Some RedemptionConsumed"
| "redemption_phase _ = None"

definition backs :: "checkout_snapshot \<Rightarrow> snapshot \<Rightarrow> redemption_row \<Rightarrow> bool" where
  "backs k s r \<longleftrightarrow> snp_ID s = ckt_OrderID k \<and> redemptionRef (rdm_ID r) = ckt_CouponReservationRef k \<and>
     rdm_OrderReference r = snp_MerchantOrderNo s \<and> rdm_DiscountAmountMinor r = ckt_DiscountAmountMinor k \<and>
     rdm_PayableAmountMinor r = AmountMinor (snp_Amount s) \<and> redemption_phase (snp_Status s) = Some (rdm_Status r)"

definition backed :: "order_db \<Rightarrow> coupon_db \<Rightarrow> checkout_snapshot \<Rightarrow> bool" where
  "backed odb cdb k \<longleftrightarrow> list_ex (\<lambda>s. list_ex (backs k s) (cdb_Redemptions cdb)) (odb_Orders odb)"

definition discounted :: "order_db \<Rightarrow> checkout_snapshot list" where
  "discounted odb = filter ckt_CouponApplied (odb_Checkouts odb)"

text \<open>A reservation was made for an order, and a settlement for an order that no longer waits.\<close>

definition receipt_due :: "order_db \<Rightarrow> string \<times> string \<times> w32 list \<Rightarrow> bool" where
  "receipt_due odb = (\<lambda>(operation, scope, key).
     if operation = ''reserve'' then (''create'', scope, key) \<in> receipt_keys odb
     else list_ex (\<lambda>s. snp_Status s \<noteq> StatusPendingPayment \<and> scope = settlement_scope (snp_ID s)) (odb_Orders odb))"

definition coupling :: "order_db \<Rightarrow> coupon_db \<Rightarrow> bool" where
  "coupling odb cdb \<longleftrightarrow> orders_ok odb \<and> coupon_inv cdb \<and> list_all (backed odb cdb) (discounted odb) \<and>
     distinct (map ckt_CouponReservationRef (discounted odb)) \<and>
     list_all (receipt_due odb) (map redemption_key (cdb_RedemptionReceipts cdb))"

lemma coupling_empty: "coupling empty_orders empty_coupons"
  by (simp add: coupling_def discounted_def) (simp add: empty_orders_def empty_coupons_def)

lemma format_int_eq: "0 \<le> a \<Longrightarrow> 0 \<le> b \<Longrightarrow> format_int a = format_int b \<longleftrightarrow> a = b"
  by (auto simp: format_int_def dest: arg_cong [where f = digits_value])

lemma redemptionRef_eq: "0 \<le> a \<Longrightarrow> 0 \<le> b \<Longrightarrow> redemptionRef a = redemptionRef b \<longleftrightarrow> a = b"
  by (simp add: redemptionRef_def format_int_eq)

lemma settlement_scope_eq: "0 \<le> a \<Longrightarrow> 0 \<le> b \<Longrightarrow> settlement_scope a = settlement_scope b \<longleftrightarrow> a = b"
  by (simp add: settlement_scope_def format_int_eq)

lemma backed_iff: "backed odb cdb k \<longleftrightarrow> (\<exists>s \<in> set (odb_Orders odb). \<exists>r \<in> set (cdb_Redemptions cdb). backs k s r)"
  by (simp add: backed_def list_ex_iff)

lemma backed_mono:
  "set (odb_Orders odb) \<subseteq> set (odb_Orders odb') \<Longrightarrow> set (cdb_Redemptions cdb) \<subseteq> set (cdb_Redemptions cdb') \<Longrightarrow>
     backed odb cdb k \<Longrightarrow> backed odb' cdb' k"
  by (auto simp: backed_iff)

lemma receipt_due_mono:
  "set (odb_Orders odb) \<subseteq> set (odb_Orders odb') \<Longrightarrow> receipt_keys odb \<subseteq> receipt_keys odb' \<Longrightarrow> receipt_due odb x \<Longrightarrow> receipt_due odb' x"
  by (auto simp: receipt_due_def list_ex_iff split: prod.splits if_splits)

text \<open>An order is added, without a coupon or with one that was just reserved for it.\<close>

lemma coupling_grows:
  assumes c: "coupling odb cdb" and ok: "orders_ok odb'" and orders: "odb_Orders odb' = odb_Orders odb @ [row]"
    and keys: "receipt_keys odb \<subseteq> receipt_keys odb'" and same: "discounted odb' = discounted odb"
  shows "coupling odb' cdb"
proof -
  have "receipt_due odb' x" if "receipt_due odb x" for x by (rule receipt_due_mono [OF _ keys that]) (auto simp: orders)
  moreover have "backed odb' cdb j" if "backed odb cdb j" for j by (rule backed_mono [OF _ _ that]) (auto simp: orders)
  ultimately show ?thesis using c ok same by (simp add: coupling_def list_all_iff)
qed

lemma coupling_reserves:
  assumes c: "coupling odb cdb" and inv: "coupon_inv cdb'" and ok: "orders_ok odb'"
    and orders: "odb_Orders odb' = odb_Orders odb @ [row]" and keys: "receipt_keys odb' = insert (''create'', scope, key) (receipt_keys odb)"
    and k: "discounted odb' = discounted odb @ [k]" "backs k row r" and r: "rdm_ID r = cdb_NextRedemption cdb"
    and cdb': "cdb_Redemptions cdb' = cdb_Redemptions cdb @ [r]"
      "map redemption_key (cdb_RedemptionReceipts cdb') = map redemption_key (cdb_RedemptionReceipts cdb) @ [(''reserve'', scope, key)]"
  shows "coupling odb' cdb'"
proof -
  have due: "receipt_due odb' x" if "receipt_due odb x" for x
    by (rule receipt_due_mono [OF _ _ that]) (auto simp: orders keys)
  have old: "backed odb' cdb' j" if "backed odb cdb j" for j
    by (rule backed_mono [OF _ _ that]) (auto simp: orders cdb')
  have "ckt_CouponReservationRef j \<noteq> ckt_CouponReservationRef k" if j: "j \<in> set (discounted odb)" for j
  proof -
    from c j obtain s x where x: "x \<in> set (cdb_Redemptions cdb)" "backs j s x"
      by (auto simp: coupling_def list_all_iff backed_iff)
    with c have "0 < rdm_ID x" "rdm_ID x < rdm_ID r" by (auto simp: coupling_def coupon_inv_def redemptions_ok_def list_all_iff r)
    then have "redemptionRef (rdm_ID x) \<noteq> redemptionRef (rdm_ID r)" by (simp add: redemptionRef_eq)
    with x k(2) show ?thesis by (simp add: backs_def)
  qed
  then have "ckt_CouponReservationRef k \<notin> ckt_CouponReservationRef ` set (discounted odb)" by force
  moreover have "backed odb' cdb' k" using k orders cdb' by (auto simp: backed_iff)
  moreover have "receipt_due odb' (''reserve'', scope, key)" using keys by (simp add: receipt_due_def)
  ultimately show ?thesis using c inv ok old due k(1) cdb'(2)
    by (simp add: coupling_def list_all_iff)
qed

text \<open>An order moves: its coupon keeps its phase, or ends with it.\<close>

lemma orders_distinct: "orders_ok odb \<Longrightarrow> distinct (map snp_ID (odb_Orders odb))"
  by (simp add: orders_ok_def balanced_def order_books_def)

lemma order_row_unique: "orders_ok odb \<Longrightarrow> s \<in> set (odb_Orders odb) \<Longrightarrow> t \<in> set (odb_Orders odb) \<Longrightarrow> snp_ID s = snp_ID t \<Longrightarrow> s = t"
  using orders_distinct [of odb] by (auto simp: distinct_map dest: inj_onD)

lemma moved_orders:
  assumes ok: "orders_ok odb" and mv: "order_moved_in odb row o' odb'"
  shows "set (odb_Orders odb') = insert (settled_row (Snapshot o') row) (set (odb_Orders odb) - {row})"
    "discounted odb' = discounted odb" "receipt_keys odb' = receipt_keys odb"
  using set_put_order [OF orders_distinct [OF ok], of row "settled_row (Snapshot o') row"] mv
  by (auto simp: order_moved_in_def discounted_def receipt_keys_def)

lemma mayTransition_not_pending: "mayTransition s t \<Longrightarrow> t \<noteq> StatusPendingPayment"
  by (cases s) auto

lemma receipt_due_moved:
  assumes ok: "orders_ok odb" and mv: "order_moved_in odb row o' odb'" and due: "receipt_due odb x"
  shows "receipt_due odb' x"
proof -
  let ?row = "settled_row (Snapshot o') row"
  have "snp_Status ?row \<noteq> StatusPendingPayment" using mv mayTransition_not_pending by (auto simp: order_moved_in_def)
  then show ?thesis using due moved_orders [OF ok mv]
    by (auto simp: receipt_due_def list_ex_iff split: prod.splits if_splits)
qed

lemma backs_settled:
  "backs k row r \<Longrightarrow> redemption_phase (snp_Status s) = Some (rdm_Status r') \<Longrightarrow> same_order r r' \<Longrightarrow> backs k (settled_row s row) r'"
  by (simp add: backs_def same_order_def)

lemma coupling_moves:
  assumes c: "coupling odb cdb" and ok: "orders_ok odb'" and mv: "order_moved_in odb row o' odb'"
    and same: "redemption_phase (ord_Status o') = redemption_phase (snp_Status row) \<or>
      (\<forall>k \<in> set (odb_Checkouts odb). ckt_OrderID k = ord_ID o' \<longrightarrow> \<not> ckt_CouponApplied k)"
  shows "coupling odb' cdb"
proof -
  from c have ok0: "orders_ok odb" by (simp add: coupling_def)
  note m = moved_orders [OF ok0 mv]
  have "backed odb' cdb k" if k: "backed odb cdb k" "k \<in> set (discounted odb)" for k
  proof -
    from k(1) obtain s r where s: "s \<in> set (odb_Orders odb)" "r \<in> set (cdb_Redemptions cdb)" "backs k s r" by (auto simp: backed_iff)
    show ?thesis
    proof (cases "s = row")
      case True
      with s(3) mv k(2) have "\<not> (\<forall>k \<in> set (odb_Checkouts odb). ckt_OrderID k = ord_ID o' \<longrightarrow> \<not> ckt_CouponApplied k)"
        by (auto simp: backs_def order_moved_in_def discounted_def)
      with same s(3) True have "redemption_phase (snp_Status (Snapshot o')) = Some (rdm_Status r)" by (auto simp: backs_def)
      from backs_settled [OF s(3) [unfolded True] this] s(2) m(1) show ?thesis
        by (auto simp: backed_iff same_order_def)
    next
      case False
      with s m(1) show ?thesis by (auto simp: backed_iff)
    qed
  qed
  then show ?thesis using c ok m(2) receipt_due_moved [OF ok0 mv] by (simp add: coupling_def list_all_iff)
qed

lemma redemptions_distinct: "coupon_inv cdb \<Longrightarrow> distinct (map rdm_ID (cdb_Redemptions cdb))"
  by (simp add: coupon_inv_def redemptions_ok_def)

lemma redemptionRef_row:
  assumes "coupon_inv cdb" "r \<in> set (cdb_Redemptions cdb)" "x \<in> set (cdb_Redemptions cdb)"
    "redemptionRef (rdm_ID r) = redemptionRef (rdm_ID x)"
  shows "r = x"
proof -
  from assms have "rdm_ID r = rdm_ID x"
    by (subst redemptionRef_eq [symmetric]) (auto simp: coupon_inv_def redemptions_ok_def list_all_iff less_imp_le)
  with assms redemptions_distinct [OF assms(1)] show ?thesis by (auto simp: distinct_map dest: inj_onD)
qed

lemma coupling_ends:
  assumes c: "coupling odb cdb" and ok: "orders_ok odb'" and inv: "coupon_inv cdb'" and mv: "order_moved_in odb row o' odb'"
    and pending: "snp_Status row = StatusPendingPayment" and status: "redemption_phase (ord_Status o') = Some status"
      "status \<noteq> RedemptionReserved" and operation: "operation \<noteq> ''reserve''"
    and k: "k \<in> set (discounted odb)" "ckt_OrderID k = ord_ID o'"
    and ended: "coupon_ended operation (settlement_scope (ord_ID o')) (ckt_CouponReservationRef k) status cdb cdb'"
  shows "coupling odb' cdb'"
proof -
  from c have ok0: "orders_ok odb" and inv0: "coupon_inv cdb" by (simp_all add: coupling_def)
  note m = moved_orders [OF ok0 mv]
  from mv have row: "row \<in> set (odb_Orders odb)" "snp_ID row = ord_ID o'" by (simp_all add: order_moved_in_def)
  from c k obtain s r0 where s: "s \<in> set (odb_Orders odb)" "r0 \<in> set (cdb_Redemptions cdb)" "backs k s r0"
    by (auto simp: coupling_def list_all_iff backed_iff)
  then have "s = row" using order_row_unique [OF ok0 s(1) row(1)] row(2) k(2) by (simp add: backs_def)
  with s pending have reserved: "rdm_Status r0 = RedemptionReserved" "backs k row r0" by (simp_all add: backs_def)
  from ended obtain r key x where r: "r \<in> set (cdb_Redemptions cdb)" "redemptionRef (rdm_ID r) = ckt_CouponReservationRef k"
    and out: "rdm_Status r = status \<and> cdb' = cdb \<or> rdm_Status x = status \<and> same_order r x \<and>
        cdb_Redemptions cdb' = put_redemption x (cdb_Redemptions cdb) \<and>
        map redemption_key (cdb_RedemptionReceipts cdb') =
          map redemption_key (cdb_RedemptionReceipts cdb) @ [(operation, settlement_scope (ord_ID o'), key)]"
    by (auto simp: coupon_ended_def)
  from redemptionRef_row [OF inv0 r(1) s(2)] r(2) reserved(2) have "r = r0" by (simp add: backs_def)
  with out reserved(1) status(2) have x: "rdm_Status x = status" "same_order r0 x"
    "cdb_Redemptions cdb' = put_redemption x (cdb_Redemptions cdb)"
    "map redemption_key (cdb_RedemptionReceipts cdb') =
      map redemption_key (cdb_RedemptionReceipts cdb) @ [(operation, settlement_scope (ord_ID o'), key)]" by auto
  have reds: "set (cdb_Redemptions cdb') = insert x (set (cdb_Redemptions cdb) - {r0})"
    using set_put_redemption [OF redemptions_distinct [OF inv0] s(2)] x(2,3) by (simp add: same_order_def)
  have "backed odb' cdb' j" if j: "j \<in> set (discounted odb)" for j
  proof (cases "j = k")
    case True
    have "backs k (settled_row (Snapshot o') row) x"
      by (rule backs_settled [OF reserved(2) _ x(2)]) (simp add: status x(1))
    with m(1) reds show ?thesis by (auto simp: backed_iff True)
  next
    case False
    from c j obtain s' r' where s': "s' \<in> set (odb_Orders odb)" "r' \<in> set (cdb_Redemptions cdb)" "backs j s' r'"
      by (auto simp: coupling_def list_all_iff backed_iff)
    have "distinct (map ckt_CouponReservationRef (discounted odb))" using c by (simp add: coupling_def)
    with False j k(1) have "ckt_CouponReservationRef j \<noteq> ckt_CouponReservationRef k" by (auto simp: distinct_map dest: inj_onD)
    with s'(3) reserved(2) have "r' \<noteq> r0" by (auto simp: backs_def)
    moreover have "s' \<noteq> row"
    proof
      assume "s' = row"
      with s'(3) row(2) k(2) have "ckt_OrderID j = ckt_OrderID k" by (simp add: backs_def)
      moreover have "distinct (map ckt_OrderID (odb_Checkouts odb))" using ok0 by (simp add: orders_ok_def checkouts_ok_def)
      ultimately show False using False j k(1) by (auto simp: distinct_map discounted_def dest: inj_onD)
    qed
    ultimately show ?thesis using s' m(1) reds by (auto simp: backed_iff)
  qed
  moreover have "receipt_due odb' (operation, settlement_scope (ord_ID o'), key)"
  proof -
    have "snp_Status (settled_row (Snapshot o') row) \<noteq> StatusPendingPayment"
      using mv mayTransition_not_pending by (auto simp: order_moved_in_def)
    then show ?thesis using operation m(1) row(2) by (simp add: receipt_due_def list_ex_iff)
  qed
  ultimately show ?thesis using c ok inv m(2) x(4) receipt_due_moved [OF ok0 mv] by (simp add: coupling_def list_all_iff)
qed

text \<open>An order that waits has no receipt of a settlement.\<close>

lemma no_settlement_yet:
  assumes c: "coupling odb cdb" and row: "row \<in> set (odb_Orders odb)" "snp_Status row = StatusPendingPayment"
    and operation: "operation \<noteq> ''reserve''"
  shows "\<forall>r \<in> set (cdb_RedemptionReceipts cdb). orc_Operation r = operation \<longrightarrow> orc_ActorScope r \<noteq> settlement_scope (snp_ID row)"
proof (intro ballI impI notI)
  fix r
  assume r: "r \<in> set (cdb_RedemptionReceipts cdb)" "orc_Operation r = operation" "orc_ActorScope r = settlement_scope (snp_ID row)"
  with c operation have "list_ex (\<lambda>s. snp_Status s \<noteq> StatusPendingPayment \<and> settlement_scope (snp_ID row) = settlement_scope (snp_ID s))
      (odb_Orders odb)"
    by (auto simp: coupling_def list_all_iff receipt_due_def redemption_key_def)
  then obtain s where s: "s \<in> set (odb_Orders odb)" "snp_Status s \<noteq> StatusPendingPayment"
    "settlement_scope (snp_ID row) = settlement_scope (snp_ID s)" by (auto simp: list_ex_iff)
  have "orders_ok odb" using c by (simp add: coupling_def)
  moreover from this have "0 \<le> snp_ID t" if "t \<in> set (odb_Orders odb)" for t
    using that by (auto simp: orders_ok_def balanced_def order_books_def list_all_iff less_imp_le)
  ultimately have "snp_ID row = snp_ID s" using s row(1) settlement_scope_eq by blast
  with s row order_row_unique [OF \<open>orders_ok odb\<close> row(1) s(1)] show False by simp
qed

subsection \<open>The calls of the deployment\<close>

text \<open>The composition binds the coupon service, leaves the administrative settlement without a caller and
  reserves, consumes and releases coupons in the order service alone.\<close>

definition deployed :: "'w order_env \<times> sale_call \<Rightarrow> bool" where
  "deployed c \<longleftrightarrow> oen_Coupons (fst c) \<noteq> None \<and>
     (case snd c of SaleAdjust x \<Rightarrow> False | SaleCoupon coupons call \<Rightarrow> \<not> settles_coupon call | _ \<Rightarrow> True)"

lemma no_reservation_yet:
  assumes "coupling odb cdb" "(''create'', scope, key) \<notin> receipt_keys odb"
  shows "find_redemption_receipt cdb ''reserve'' scope key = None"
  using assms by (auto simp: find_redemption_receipt_def find_None_iff coupling_def list_all_iff redemption_key_def receipt_due_def)

lemma discounted_placed: "order_placed odb key free row k odb' \<Longrightarrow>
    discounted odb' = discounted odb @ (if ckt_CouponApplied k then [k] else [])"
  by (simp add: order_placed_def discounted_def)

lemma checkout_coupling:
  assumes c: "coupling (sal_Orders st) (sal_Coupons st)" and run: "createCheckoutOrderWithin env input digest st = Inr (s, st')"
  shows "coupling (sal_Orders st') (sal_Coupons st')"
proof -
  let ?key = "Sum256 (poc_IdempotencyKey input)"
  from c have "orders_ok (sal_Orders st)" by (simp add: coupling_def)
  from this run show ?thesis
  proof (cases rule: checkout_effect)
    case replayed
    with c show ?thesis by simp
  next
    case (placed k0 st0 c' row k st1)
    have same: "poc_ActorScope c' = poc_ActorScope input" "poc_IdempotencyKey c' = poc_IdempotencyKey input"
      "poc_MerchantOrderNo c' = poc_MerchantOrderNo input" "poc_Provider c' = poc_Provider input"
      by (simp_all add: placed(2) with_contact_level_def)
    from placed(1) have p: "orders_ok (sal_Orders st')" "odb_Orders (sal_Orders st') = odb_Orders (sal_Orders st) @ [row]"
      "receipt_keys (sal_Orders st') = insert (''create'', poc_ActorScope input, ?key) (receipt_keys (sal_Orders st))"
      "(''create'', poc_ActorScope input, ?key) \<notin> receipt_keys (sal_Orders st)" "ckt_OrderID k = snp_ID row"
      by (simp_all add: order_placed_def)
    have quiet: ?thesis if "\<not> ckt_CouponApplied k" "sal_Coupons st' = sal_Coupons st"
      using coupling_grows [OF c p(1,2)] p(3) discounted_placed [OF placed(1)] that by auto
    from placed(3) show ?thesis
    proof (cases rule: reserveCheckout_effect)
      case plain
      with quiet placed show ?thesis by simp
    next
      case (priced coupons r q)
      from priced(2) same placed(4) have res: "ReserveWithin coupons (coupon_reserve c' (oen_Now env)) (sal_Coupons st) = Inr (r, q)" by simp
      have inv: "coupon_inv q"
        using coupon_exec_inv [of "sal_Coupons st" coupons "CallReserve (coupon_reserve c' (oen_Now env))"] res c
        by (simp add: coupling_def)
      have key: "rvc_ActorScope (coupon_reserve c' (oen_Now env)) = poc_ActorScope input"
        "rvc_IdempotencyKey (coupon_reserve c' (oen_Now env)) = poc_IdempotencyKey input"
        "rvc_OrderReference (coupon_reserve c' (oen_Now env)) = poc_MerchantOrderNo input"
        using same by (simp_all add: coupon_reserve_def)
      have fresh: "find_redemption_receipt (sal_Coupons st) ''reserve'' (rvc_ActorScope (coupon_reserve c' (oen_Now env)))
          (Sum256 (rvc_IdempotencyKey (coupon_reserve c' (oen_Now env)))) = None"
        using no_reservation_yet [OF c p(4)] key by simp
      from res fresh show ?thesis
      proof (cases rule: ReserveWithin_effect)
        case original
        with priced(3) have "\<not> ckt_CouponApplied k0" by (cases rule: discounted_checkout_cases) simp_all
        with quiet original placed priced show ?thesis by simp
      next
        case (reserved x)
        from priced(3) have k0: "ckt_CouponApplied k0" "ckt_CouponReservationRef k0 = rsv_ReservationRef r"
          "ckt_DiscountAmountMinor k0 = rsv_DiscountAmountMinor r" "ckt_PayableAmountMinor k0 = rsv_PayableAmountMinor r"
          by (cases rule: discounted_checkout_cases; use reserved(1) in simp)+
        have "\<not> no_payment input digest" using priced(5) same by (simp add: no_payment_def)
        then have "snp_Status row = StatusPendingPayment" using placed(1) by (simp add: order_placed_def)
        then have "backs k row x" using placed k0 reserved p(5) key by (simp add: backs_def)
        moreover have "discounted (sal_Orders st') = discounted (sal_Orders st) @ [k]"
          using discounted_placed [OF placed(1)] placed k0 by simp
        ultimately show ?thesis
          using coupling_reserves [OF c inv p(1-3) _ _ reserved(2,8)] reserved(9) placed priced key by simp
      qed
    qed
  qed
qed

lemma settlement_phases:
  assumes "settlement_target c cur = Some (target, refunded)"
  shows "if psc_Failed c then ord_Status cur = StatusPendingPayment \<and> target = StatusPaymentFailed
    else if 0 < psc_RefundedDelta c then redemption_phase target = redemption_phase (ord_Status cur)
    else ord_Status cur = StatusPendingPayment \<and> target = StatusPaid"
  using assms by (auto simp: settlement_target_def Let_def split: if_splits)

lemma settle_coupling:
  assumes c: "coupling (sal_Orders st) (sal_Coupons st)" and bound: "oen_Coupons env \<noteq> None"
    and run: "SettlePaymentWithin env x st = Inr (s, st')"
  shows "coupling (sal_Orders st') (sal_Coupons st')"
proof -
  from c have ok: "orders_ok (sal_Orders st)" by (simp add: coupling_def)
  then have "distinct (map ckt_OrderID (odb_Checkouts (sal_Orders st)))" by (simp add: orders_ok_def checkouts_ok_def)
  from orders_balanced [OF ok] run this obtain row cur o' refunded where
    row: "order_row (sal_Orders st) (psc_OrderID x) = Some row" "reads row cur"
    and target: "settlement_target x cur = Some (ord_Status o', refunded)"
    and mv: "order_moved_in (sal_Orders st) row o' (sal_Orders st')"
    and settled: "coupon_settled env x (Snapshot o') st st'" and i: "ord_ID o' = psc_OrderID x"
    by (rule SettlePaymentWithin_effect)
  have ok': "orders_ok (sal_Orders st')" using order_moved_ok [OF ok mv] by simp
  from mv have r: "row \<in> set (odb_Orders (sal_Orders st))" "snp_ID row = ord_ID o'" by (simp_all add: order_moved_in_def)
  have status: "snp_Status row = ord_Status cur" using row(2) by (simp add: reads_def)
  note phases = settlement_phases [OF target]
  show ?thesis
  proof (cases "\<not> psc_Failed x \<and> 0 < psc_RefundedDelta x")
    case True
    with settled have "sal_Coupons st' = sal_Coupons st" by (simp add: coupon_settled_def)
    moreover have "redemption_phase (ord_Status o') = redemption_phase (snp_Status row)" using phases True status by simp
    ultimately show ?thesis using coupling_moves [OF c ok' mv] by simp
  next
    case False
    then have "\<not> (oen_Coupons env = None \<or> \<not> psc_Failed x \<and> 0 < psc_RefundedDelta x)" using bound by blast
    from settled [unfolded coupon_settled_def if_not_P [OF this]] show ?thesis
    proof (elim disjE exE conjE)
      assume "sal_Coupons st' = sal_Coupons st" "\<forall>k \<in> set (odb_Checkouts (sal_Orders st)). ckt_OrderID k = snp_ID (Snapshot o') \<longrightarrow> \<not> ckt_CouponApplied k"
      then show ?thesis using coupling_moves [OF c ok' mv] by simp
    next
      fix k coupons y
      assume k: "k \<in> set (odb_Checkouts (sal_Orders st))" "ckt_OrderID k = snp_ID (Snapshot o')" "ckt_CouponApplied k"
        and run': "(if psc_Failed x then ReleaseWithin coupons (coupon_release k (Snapshot o') x) (sal_Coupons st)
           else ConsumeWithin coupons (coupon_consume k (Snapshot o') x) (sal_Coupons st)) = Inr (y, sal_Coupons st')"
      have kd: "k \<in> set (discounted (sal_Orders st))" "ckt_OrderID k = ord_ID o'" using k by (simp_all add: discounted_def)
      have pending: "snp_Status row = StatusPendingPayment" using phases False status by (auto split: if_splits)
      note none = no_settlement_yet [OF c r(1) pending, unfolded r(2)]
      show ?thesis
      proof (cases "psc_Failed x")
        case True
        with run' have rel: "ReleaseWithin coupons (coupon_release k (Snapshot o') x) (sal_Coupons st) = Inr (y, sal_Coupons st')" by simp
        have inv: "coupon_inv (sal_Coupons st')"
          using coupon_exec_inv [of "sal_Coupons st" coupons "CallRelease (coupon_release k (Snapshot o') x)"] rel c
          by (simp add: coupling_def)
        have "coupon_ended ''release'' (settlement_scope (ord_ID o')) (ckt_CouponReservationRef k) RedemptionReleased
            (sal_Coupons st) (sal_Coupons st')"
          using ReleaseWithin_effect [OF rel] none [of "''release''"] by (simp add: coupon_release_def)
        from coupling_ends [OF c ok' inv mv pending _ _ _ kd this] phases True show ?thesis by simp
      next
        case False
        with run' have con: "ConsumeWithin coupons (coupon_consume k (Snapshot o') x) (sal_Coupons st) = Inr (y, sal_Coupons st')" by simp
        have inv: "coupon_inv (sal_Coupons st')"
          using coupon_exec_inv [of "sal_Coupons st" coupons "CallConsume (coupon_consume k (Snapshot o') x)"] con c
          by (simp add: coupling_def)
        have "coupon_ended ''consume'' (settlement_scope (ord_ID o')) (ckt_CouponReservationRef k) RedemptionConsumed
            (sal_Coupons st) (sal_Coupons st')"
          using ConsumeWithin_effect [OF con] none [of "''consume''"] by (simp add: coupon_consume_def)
        from coupling_ends [OF c ok' inv mv pending _ _ _ kd this] phases False
          \<open>\<not> (\<not> psc_Failed x \<and> 0 < psc_RefundedDelta x)\<close> show ?thesis by simp
      qed
    qed
  qed
qed

lemma coupling_step:
  assumes c: "coupling (sal_Orders st) (sal_Coupons st)" and deployed: "deployed (env, call)"
    and exec: "sale_exec st (env, call) = Inr st'"
  shows "coupling (sal_Orders st') (sal_Coupons st')"
proof (cases call)
  case (SaleCheckout x)
  with exec show ?thesis by (auto simp: CreatePaymentOrderWithin_def intro: checkout_coupling [OF c])
next
  case (SaleFree x digest)
  with exec show ?thesis by (auto simp: CreateNoPaymentCheckoutWithin_def split: if_splits intro: checkout_coupling [OF c])
next
  case (SaleSettle x)
  with exec deployed show ?thesis by (auto simp: deployed_def intro: settle_coupling [OF c])
next
  case (SaleCreate x)
  with exec obtain s where run: "Order_Create env x st = Inr (s, st')" by auto
  from c have "orders_ok (sal_Orders st)" by (simp add: coupling_def)
  from this run show ?thesis
  proof (cases rule: create_effect)
    case replayed
    with c show ?thesis by simp
  next
    case (created row)
    then have "orders_ok (sal_Orders st')" "odb_Orders (sal_Orders st') = odb_Orders (sal_Orders st) @ [row]"
      "receipt_keys (sal_Orders st) \<subseteq> receipt_keys (sal_Orders st')" "discounted (sal_Orders st') = discounted (sal_Orders st)"
      by (auto simp: order_created_def discounted_def)
    from coupling_grows [OF c this] created(2) show ?thesis by simp
  qed
next
  case (SaleAdjust x)
  with deployed show ?thesis by (simp add: deployed_def)
next
  case (SaleCoupon coupons x)
  with exec obtain db where db: "coupon_exec (sal_Coupons st) (coupons, x) = Inr db" "st' = st\<lparr>sal_Coupons := db\<rparr>"
    by (auto simp: map_sum_Inr)
  from deployed SaleCoupon have "\<not> settles_coupon x" by (simp add: deployed_def)
  from coupon_exec_redemptions [OF db(1) this] coupon_exec_inv [OF _ db(1)] c show ?thesis
    by (simp add: coupling_def db(2) same_redemptions_def backed_def list_all_iff)
qed

lemma coupling_run: "coupling (sal_Orders (run sale_exec (empty_sale w) (filter deployed calls)))
    (sal_Coupons (run sale_exec (empty_sale w) (filter deployed calls)))"
proof (induction calls rule: rev_induct)
  case Nil
  then show ?case by (simp add: empty_sale_def coupling_empty)
next
  case (snoc x xs)
  obtain env call where x: "x = (env, call)" by force
  let ?st = "run sale_exec (empty_sale w) (filter deployed xs)"
  show ?case
  proof (cases "deployed x")
    case True
    then show ?thesis using coupling_step [OF snoc.IH, of env call] x
      by (cases "sale_exec ?st x") (use snoc.IH in \<open>simp_all add: run_append\<close>)
  qed (use snoc.IH in simp)
qed

end
