(* ===== verification/OrderProps.thy ===== *)
theory OrderProps
  imports OrderCoupons CouponProps
begin

text \<open>
  What the order service guarantees: its histories explain its orders, its coupons follow its orders,
  a checkout that is sent again is answered as before, and an order is charged what was agreed.
\<close>

subsection \<open>Histories\<close>

lemma orders_ok_run: "orders_ok (sal_Orders (run sale_exec (empty_sale w) calls))"
  using sale_run_ok [OF sale_ok_empty, of w calls] by (simp add: sale_ok_def)

text \<open>C36. The history of an order explains it, and its payment is announced once.  This holds for the orders that
  checkouts and administrators create in tables that were empty, whatever these services are asked in
  any order and with any collaborators; imports and the external shop write orders in other ways and
  are not among the calls.  Every order has one history row per version, each from the status the row
  before led to along an allowed transition, from a pending order to the status and the refunded
  amount that the order has now; and there is exactly one paid event for each order that was ever paid,
  for the version at which it was.\<close>

theorem order_history_explains:
  "let db = sal_Orders (run sale_exec (empty_sale w) calls) in
     list_all (explained db) (odb_Orders db) \<and> paid_events db = paid_rows db \<and> distinct (map ope_OrderID (odb_PaidEvents db))"
  using orders_ok_run [of w calls]
  by (auto simp: Let_def orders_ok_def balanced_def order_books_def list_all_iff)

text \<open>C37. Coupons follow orders.  In the calls of the deployment, every checkout with a coupon has a
  reservation of its own, of the discount it shows and of the amount its order is charged, which is
  reserved while the order waits for its payment, consumed when it has been paid, also after
  refunds, and released when the payment failed.\<close>

theorem discounts_follow_orders:
  "let st = run sale_exec (empty_sale w) (filter deployed calls); db = sal_Orders st in
     list_all (backed db (sal_Coupons st)) (discounted db) \<and> distinct (map ckt_CouponReservationRef (discounted db))"
  using coupling_run [of w calls] by (simp add: Let_def coupling_def)

subsection \<open>Sending a checkout again\<close>

lemma Restore_sharing: "Restore (s\<lparr>snp_ProfitSharingRequired := b\<rparr>) = Restore s"
  by (simp add: Restore_def)

lemma payment_checkout_pays: "\<not> no_payment c None"
  by (simp add: no_payment_def)

lemma checkout_receipt:
  assumes ok: "orders_ok (sal_Orders st)" and run: "CreatePaymentOrderWithin env c st = Inr (s, st')"
    and texts: "map_option json_variant (poc_Variant c) = poc_Variant c"
  obtains r where "find_order_receipt (sal_Orders st') ''create'' (poc_ActorScope c) (Sum256 (poc_IdempotencyKey c)) = Some r"
    "receipt_fits r c None" "replayed_order r = Inr s"
  using ok run [unfolded CreatePaymentOrderWithin_def]
proof (cases rule: checkout_effect)
  case (replayed q)
  then show thesis by (intro that)
next
  case (placed k0 st0 c' row k st1 q)
  from placed(16) [OF payment_checkout_pays] obtain o' shared where o': "validate o'"
    "s = (Snapshot o')\<lparr>snp_ProfitSharingRequired := shared\<rparr>" "json_snapshot s = s" using texts by blast
  have "is_ok (Restore s)" by (simp add: o'(2) Restore_sharing Snapshot_Restore [OF o'(1)])
  moreover have "orr_Result q = Some s" using placed(14) o'(3) by simp
  ultimately have "replayed_order q = Inr s" by (simp add: replayed_order_def)
  with placed(12,13) show thesis by (rule that)
qed

text \<open>The receipt decides the answer.\<close>

lemma Order_Reserve_known:
  assumes "find_order_receipt db (ors_Operation v) (ors_ActorScope v) (ors_KeyDigest v) = Some r"
    "ors_Operation v \<noteq> []" "ors_ActorScope v \<noteq> []" "\<not> is_zero (ors_CreatedAt v)"
  shows "Order_Reserve v db = Inr ((r, False), db)"
  using assms by (simp add: Order_Reserve_def)

lemma known_checkout_answers:
  assumes valid: "valid_checkout_command (no_payment c digest) (with_contact_level c)"
    and phone: "phone_cipher env (with_contact_level c) = Inr phone"
    and listed: "poc_ContactCollectionLevel (with_contact_level c) = ''shipping_address'' \<Longrightarrow>
      address_listed (oen_Catalog env) (poc_ShippingAddress (with_contact_level c))"
    and now: "\<not> is_zero (oen_Now env)"
    and known: "find_order_receipt (sal_Orders st) ''create'' (poc_ActorScope c) (Sum256 (poc_IdempotencyKey c)) = Some r"
      "receipt_fits r c digest" "replayed_order r = Inr s"
  shows "createCheckoutOrderWithin env c digest st = Inr (s, st)"
proof -
  let ?c = "with_contact_level c"
  have same: "poc_ActorScope ?c = poc_ActorScope c" "poc_IdempotencyKey ?c = poc_IdempotencyKey c"
    by (simp_all add: with_contact_level_def)
  from known(2) obtain payload where payload: "checkout_payload ?c = Some payload"
    "orr_PayloadDigest r = (case digest of None \<Rightarrow> payload | Some d \<Rightarrow> d)" by (auto simp: receipt_fits_def split: option.splits)
  let ?v = "checkout_reservation ?c digest payload (oen_Now env)"
  have "poc_ActorScope ?c \<noteq> []" using valid by (auto simp: valid_checkout_command_def order_validKey_def)
  then have res: "Order_Reserve ?v (sal_Orders st) = Inr ((r, False), sal_Orders st)"
    by (intro Order_Reserve_known) (use known(1) now same in \<open>simp_all add: checkout_reservation_def\<close>)
  have "order_validReceipt r ?v" "orr_PayloadDigest r = ors_PayloadDigest ?v"
    using known(2) payload same by (simp_all add: receipt_fits_def order_validReceipt_def checkout_reservation_def receipt_key_def)
  moreover have "classified_tx (on_orders (Order_Reserve ?v)) st = Inr ((r, False), st)"
    by (rule tx_error_ok) (simp add: on_orders_Inr res)
  ultimately show ?thesis using valid phone listed payload(1) known(3)
    by (simp add: createCheckoutOrderWithin_def Let_def tx_then_ok tx_value_def)
qed

text \<open>What a checkout that was accepted has passed.\<close>

lemma accepted_checkout:
  assumes "createCheckoutOrderWithin env c digest st = Inr (s, st')"
  obtains phone where "valid_checkout_command (no_payment c digest) (with_contact_level c)"
    "phone_cipher env (with_contact_level c) = Inr phone"
    "poc_ContactCollectionLevel (with_contact_level c) = ''shipping_address'' \<Longrightarrow>
      address_listed (oen_Catalog env) (poc_ShippingAddress (with_contact_level c))"
  using assms by (auto simp: createCheckoutOrderWithin_def Let_def split: if_splits sum.splits)

subsection \<open>A checkout\<close>

text \<open>A customer buys a course for seven yuan, without a coupon, from a service that has no orders yet.\<close>

definition sample_checkout :: payment_order_command where
  "sample_checkout = \<lparr>poc_Variant = None, poc_Provider = ProviderWeChatPay, poc_MerchantOrderNo = ''order-1'',
     poc_PayerCustomerID = 7, poc_BeneficiaryCustomerID = 7, poc_ProductID = 6, poc_CouponClaimID = 0,
     poc_ProductCode = ''p6'', poc_ProductName = ''Course'', poc_ProductVersion = 1, poc_UnitAmountMinor = 700,
     poc_ProductType = ''standard_product'', poc_ServicePeriodDurationDays = 0, poc_PostPurchaseAction = None,
     poc_Currency = ''CNY'', poc_MobileE164 = [], poc_ContactCollectionLevel = ''none'', poc_ShippingAddress = no_address,
     poc_PromotionContext = [], poc_ReferralActivityContext = [], poc_ActorScope = ''customer:00000007'',
     poc_IdempotencyKey = ''checkout-key-0001'', poc_ExpectedAmountMinor = Some 700\<rparr>"

definition sample_order_env :: "unit order_env" where
  "sample_order_env = \<lparr>oen_Now = 5000000, oen_Jsonb = Some, oen_Catalog = [], oen_Coupons = Some sample_coupon_env,
     oen_Cipher = None, oen_Attribution = None, oen_ProductSale = None, oen_Grant = None, oen_PeriodRefund = None,
     oen_PaidEvents = None, oen_RefundEvents = None, oen_Contacts = None, oen_Phones = None\<rparr>"

lemma sample_checkout_level [simp]: "with_contact_level sample_checkout = sample_checkout"
  by (simp add: with_contact_level_def sample_checkout_def)

lemma sample_trims [simp]:
  "trim_space ''order-1'' = ''order-1''" "trim_space ''p6'' = ''p6''" "trim_space ''customer:00000007'' = ''customer:00000007''"
  "trim_space ''checkout-key-0001'' = ''checkout-key-0001''" "trim_space ''Course'' = ''Course''" "trim_space [] = []"
  "trim_space ''v3-checkout'' = ''v3-checkout''"
  by (simp_all add: trim_space_printable printable_def)

lemma sample_checkout_valid: "valid_checkout_command False sample_checkout"
  by (simp add: valid_checkout_command_def sample_checkout_def Variant_Valid_def validPaymentProductType_def
      validPostPurchaseAction_def opaque_context_def order_validKey_def validContactCollection_def)

definition sample_placed :: order where
  "sample_placed = \<lparr>ord_ExternalHistory = None, ord_ID = 1, ord_Provider = ProviderWeChatPay, ord_SourceSystem = ''v3-checkout'',
     ord_SourceKey = ''order-1'', ord_MerchantOrderNo = ''order-1'', ord_ProviderTransactionNo = [],
     ord_PayerCustomerID = Some 7, ord_BeneficiaryCustomerID = Some 7, ord_Amount = \<lparr>AmountMinor = 700, Currency = ''CNY''\<rparr>,
     ord_RefundedMinor = 0, ord_Status = StatusPendingPayment, ord_RecordOrigin = RecordOriginNative,
     ord_EffectEligible = True, ord_Version = 1, ord_CreatedAt = 5000000, ord_UpdatedAt = 5000000,
     ord_items = [\<lparr>itm_Variant = None, itm_LineNo = 1, itm_ProductID = Some 6, itm_ProductVersion = Some 1,
       itm_ProductCode = ''p6'', itm_ProductName = ''Course'', itm_UnitAmountMinor = 700, itm_Quantity = 1,
       itm_LineAmountMinor = 700\<rparr>]\<rparr>"

lemma sample_placed_valid: "validate sample_placed" "validate (sample_placed\<lparr>ord_ID := 0\<rparr>)"
  by (simp_all add: validate_iff noPayment_ok_def history_facts_ok_def references_ok_def
        external_order_def parties_ok_def state_ok_def items_ok_def sample_placed_def
        item_ok_def order_validText_def validCurrency_def validSettlement.simps validID_def
        Variant_Valid_def is_zero_def before_def second_def max_int64_def go_div_def wrap64_def)

abbreviation sample_plain :: checkout_snapshot where
  "sample_plain \<equiv> plain_checkout sample_checkout 5000000"

lemma sample_new_order: "NewOrder (checkout_order sample_checkout sample_plain 5000000) = Inr (sample_placed\<lparr>ord_ID := 0\<rparr>)"
proof -
  have "utc 5000000 = 5000000" by (simp add: utc_def)
  then show ?thesis using sample_placed_valid(2)
    by (simp add: NewOrder_def checkout_order_def checked_def Let_def) (simp add: sample_placed_def sample_checkout_def plain_checkout_def)
qed

lemma sample_reserve_original:
  "ReserveWithin sample_coupon_env (coupon_reserve sample_checkout 5000000) empty_coupons =
     Inr (original_price (coupon_reserve sample_checkout 5000000), empty_coupons)"
proof -
  have t: "checkoutTime 5000000 5000000 = 5000000" by (simp add: checkoutTime_def trunc_time_def microsecond_def is_zero_def)
  have same: "coupon_reserve sample_checkout 5000000\<lparr>rvc_ReservedAt := 5000000\<rparr> = coupon_reserve sample_checkout 5000000"
    by (simp add: coupon_reserve_def)
  have v: "validReserve (coupon_reserve sample_checkout 5000000)"
    by (simp add: validReserve_def coupon_reserve_def sample_checkout_def valid_checkout_ref_def valid_checkout_scope_def
        valid_checkout_key_def is_zero_def)
  have at: "rvc_ReservedAt (coupon_reserve sample_checkout 5000000) = 5000000" "rvc_HolderCustomerID (coupon_reserve sample_checkout 5000000) = 7"
    "rvc_ClaimID (coupon_reserve sample_checkout 5000000) = 0"
    by (simp_all add: coupon_reserve_def sample_checkout_def)
  have none: "cdb_Redemptions empty_coupons = []" "cdb_RedemptionReceipts empty_coupons = []" "cdb_Claims empty_coupons = []"
    by (simp_all add: empty_coupons_def)
  have "ReserveCoupon sample_coupon_env (coupon_reserve sample_checkout 5000000) key payload 5000000 empty_coupons =
      Inr (original_price (coupon_reserve sample_checkout 5000000), empty_coupons)" for key payload
    by (simp add: ReserveCoupon_def couponCustomerIDs_def at findReservationReceipt_def find_redemption_receipt_def none
        selectReservationClaim_def joined_claims_def)
  then show ?thesis by (simp add: ReserveWithin_def Let_def t same v at)
qed

lemma sample_reserved: "reserveCheckout sample_order_env sample_checkout 5000000 st = Inr (sample_plain, st)"
  if "sal_Coupons st = empty_coupons"
proof -
  have o: "discounted_checkout sample_checkout 5000000 (original_price (coupon_reserve sample_checkout 5000000)) = Inr sample_plain"
    by (simp add: discounted_checkout_def original_price_def reservation_matches_def coupon_reserve_def)
      (simp add: sample_checkout_def)
  have "on_coupons (ReserveWithin sample_coupon_env (coupon_reserve sample_checkout 5000000)) st =
      Inr (original_price (coupon_reserve sample_checkout 5000000), st)"
    using that sample_reserve_original by (simp add: on_coupons_Inr)
  then show ?thesis
    by (simp add: reserveCheckout_def sample_order_env_def tx_then_ok tx_value_def o sample_checkout_def [THEN arg_cong [where f = poc_Provider], simplified])
qed

lemma sample_inserted:
  assumes "odb_Orders db = []" "odb_NextOrder db = 1" "odb_History db = []" "odb_Outbox db = []" "odb_NextOutbox db = 1"
  shows "\<exists>db'. InsertScoped (sample_placed\<lparr>ord_ID := 0\<rparr>) ''customer:00000007'' 5000000 db = Inr (sample_placed, db') \<and>
    odb_Orders db' = [stored_order (Snapshot sample_placed)] \<and> odb_Receipts db' = odb_Receipts db \<and> odb_Checkouts db' = odb_Checkouts db"
proof -
  let ?s = "Snapshot sample_placed"
  have s: "(Snapshot (sample_placed\<lparr>ord_ID := 0\<rparr>))\<lparr>snp_ID := 1\<rparr> = ?s" by (simp add: Snapshot_def sample_placed_def)
  have row: "stored_order ?s = ?s\<lparr>snp_CreatedAt := 5000000, snp_UpdatedAt := 5000000\<rparr>"
    using sample_times by (simp add: stored_order_def Snapshot_def sample_placed_def)
  have checks: "order_checks (stored_order ?s)" unfolding row
    by (simp add: order_checks_def Snapshot_def sample_placed_def text_check_def trimmed_column_def validCurrency_def
        order_amount_checks_def order_shape_checks_def)
  have texts: "list_all pg_text (snapshot_texts ?s)" "list_all jsonb_text (item_variant_texts ?s)"
    by (simp_all add: snapshot_texts_def item_variant_texts_def Snapshot_def sample_placed_def item_texts_def pg_text_def jsonb_text_def)
  have ids: "snp_ID ?s = 1" "ord_ID sample_placed = 1" by (simp_all add: Snapshot_def sample_placed_def)
  define db1 where "db1 = db\<lparr>odb_Orders := [stored_order ?s], odb_NextOrder := 2\<rparr>"
  have row1: "insert_row ?s db = Inr ((), db1)"
    using assms checks texts by (simp add: insert_row_def Let_def max_int64_def db1_def)
  have scope: "pg_text ''customer:00000007''" "rune_count ''customer:00000007'' \<le> 200" by (simp_all add: pg_text_def)
  have "\<exists>db2. appendFacts ?s None ''customer:00000007'' ''order.created'' 5000000 db1 = Inr ((), db2) \<and>
      odb_Orders db2 = odb_Orders db1 \<and> odb_Receipts db2 = odb_Receipts db1 \<and> odb_Checkouts db2 = odb_Checkouts db1"
    using assms scope by (simp add: appendFacts_def append_outbox_def tx_then_def db1_def max_int64_def)
  then obtain db2 where facts: "appendFacts ?s None ''customer:00000007'' ''order.created'' 5000000 db1 = Inr ((), db2)"
    "odb_Orders db2 = odb_Orders db1" "odb_Receipts db2 = odb_Receipts db1" "odb_Checkouts db2 = odb_Checkouts db1" by blast
  have "restored ?s db2 = Inr (sample_placed, db2)" using Snapshot_Restore [OF sample_placed_valid(1)] by simp
  then have "insert_order (sample_placed\<lparr>ord_ID := 0\<rparr>) ''customer:00000007'' 5000000 ''order.created'' db = Inr (sample_placed, db2)"
    using assms(2) by (simp add: insert_order_def Let_def s is_zero_def tx_then_def row1 facts(1))
  then have "InsertScoped (sample_placed\<lparr>ord_ID := 0\<rparr>) ''customer:00000007'' 5000000 db = Inr (sample_placed, db2)"
    by (simp add: InsertScoped_def)
  with facts show ?thesis by (simp add: db1_def)
qed

lemma sample_checkout_written:
  assumes "odb_Checkouts db = []" "odb_Orders db = [stored_order (Snapshot sample_placed)]"
  shows "\<exists>db'. InsertCheckoutSnapshot Some (sample_plain\<lparr>ckt_OrderID := 1, ckt_ProfitSharingRequired := False\<rparr>) db = Inr ((), db') \<and>
    odb_Receipts db' = odb_Receipts db"
proof -
  let ?k = "sample_plain\<lparr>ckt_OrderID := 1, ckt_ProfitSharingRequired := False\<rparr>"
  have json: "json_valid ''{}''" by code_simp
  have "validCheckoutSnapshot ?k"
    by (simp add: validCheckoutSnapshot_def checkout_fields_ok_def checkout_period_ok_def checkout_coupon_ok_def free_checkout_def
        plain_checkout_def sample_checkout_def json is_zero_def wrap64_def)
  moreover have "list_all pg_text [ckt_ProductCode ?k, ckt_ProductName ?k, ckt_CouponReservationRef ?k]"
    by (simp add: plain_checkout_def sample_checkout_def pg_text_def)
  moreover have "ckt_GrossAmountMinor ?k = 700" "ckt_PostPurchaseAction ?k = ''{}''" "ckt_OrderID ?k = 1"
    by (simp_all add: plain_checkout_def sample_checkout_def)
  moreover have "order_row db 1 \<noteq> None" using assms(2) by (simp add: order_row_def stored_order_def Snapshot_def sample_placed_def)
  ultimately show ?thesis using assms(1) by (simp add: InsertCheckoutSnapshot_def)
qed

lemma sample_completed:
  assumes "odb_Receipts db = [r]" "orr_ID r = 1" "orr_Result r = None"
  shows "\<exists>db'. Order_Complete 1 (Snapshot sample_placed) 5000000 db = Inr ((), db')"
proof -
  have "snapshot_marshals (Snapshot sample_placed)"
    using sample_times by (simp add: snapshot_marshals_def Snapshot_def sample_placed_def)
  moreover have "list_all jsonb_text (snapshot_texts (Snapshot sample_placed) @ item_variant_texts (Snapshot sample_placed))"
    by (simp add: snapshot_texts_def item_variant_texts_def Snapshot_def sample_placed_def item_texts_def jsonb_text_def)
  ultimately show ?thesis using assms by (simp add: Order_Complete_def is_zero_def)
qed

lemma sample_checkout_ok:
  "\<exists>st'. CreatePaymentOrderWithin sample_order_env sample_checkout (empty_sale ()) = Inr (Snapshot sample_placed, st')"
proof -
  let ?st = "empty_sale ()"
  obtain payload where payload: "checkout_payload sample_checkout = Some payload"
    by (simp add: checkout_payload_def) (simp add: sample_checkout_def)
  let ?v = "checkout_reservation sample_checkout None payload 5000000"
  define r where "r = \<lparr>orr_ID = 1, orr_Operation = ''create'', orr_ActorScope = ''customer:00000007'',
    orr_KeyDigest = Sum256 ''checkout-key-0001'', orr_PayloadDigest = payload, orr_Result = None\<rparr>"
  define db1 where "db1 = empty_orders\<lparr>odb_Receipts := [r], odb_NextReceipt := 2\<rparr>"
  have scope: "pg_text ''customer:00000007''" "rune_count ''customer:00000007'' \<le> 200" by (simp_all add: pg_text_def)
  have v: "?v = \<lparr>ors_Operation = ''create'', ors_ActorScope = ''customer:00000007'',
     ors_KeyDigest = Sum256 ''checkout-key-0001'', ors_PayloadDigest = payload, ors_CreatedAt = 5000000\<rparr>"
    by (simp add: checkout_reservation_def sample_checkout_def)
  have res: "Order_Reserve ?v empty_orders = Inr ((r, True), db1)"
    using scope by (simp add: v Order_Reserve_def find_order_receipt_def is_zero_def max_int64_def r_def db1_def)
      (simp add: empty_orders_def Let_def)
  let ?st1 = "?st\<lparr>sal_Orders := db1\<rparr>"
  have res1: "classified_tx (on_orders (Order_Reserve ?v)) ?st = Inr ((r, True), ?st1)"
    by (simp add: on_orders_Inr empty_sale_def res)
  have fits: "order_validReceipt r ?v" "orr_PayloadDigest r = ors_PayloadDigest ?v" by (simp_all add: order_validReceipt_def r_def v)
  have env: "oen_Now sample_order_env = 5000000" "oen_Jsonb sample_order_env = Some" "oen_Attribution sample_order_env = None"
    "oen_ProductSale sample_order_env = None" by (simp_all add: sample_order_env_def)
  have cmd: "poc_ActorScope sample_checkout = ''customer:00000007''" "poc_ExpectedAmountMinor sample_checkout = Some 700"
    "poc_ContactCollectionLevel sample_checkout = ''none''" "poc_MobileE164 sample_checkout = []"
    by (simp_all add: sample_checkout_def)
  have payable: "ckt_PayableAmountMinor sample_plain = 700" by (simp add: plain_checkout_def sample_checkout_def)
  have coupons: "classified_tx (reserveCheckout sample_order_env sample_checkout 5000000) ?st1 = Inr (sample_plain, ?st1)"
    by (rule tx_error_ok, rule sample_reserved) (simp add: empty_sale_def)
  obtain db2 where db2: "InsertScoped (sample_placed\<lparr>ord_ID := 0\<rparr>) ''customer:00000007'' 5000000 db1 = Inr (sample_placed, db2)"
    "odb_Orders db2 = [stored_order (Snapshot sample_placed)]" "odb_Receipts db2 = [r]" "odb_Checkouts db2 = []"
    using sample_inserted [of db1] by (auto simp: db1_def empty_orders_def)
  obtain db3 where db3: "InsertCheckoutSnapshot Some (sample_plain\<lparr>ckt_OrderID := 1, ckt_ProfitSharingRequired := False\<rparr>) db2 = Inr ((), db3)"
    "odb_Receipts db3 = [r]" using sample_checkout_written [OF db2(4,2)] db2(3) by auto
  obtain db4 where db4: "Order_Complete 1 (Snapshot sample_placed) 5000000 db3 = Inr ((), db4)"
    using sample_completed [OF db3(2)] by (auto simp: r_def)
  have steps: "classified_tx (on_orders (InsertScoped (sample_placed\<lparr>ord_ID := 0\<rparr>) ''customer:00000007'' 5000000)) ?st1 =
      Inr (sample_placed, ?st\<lparr>sal_Orders := db2\<rparr>)"
    "classified_tx (on_orders (InsertCheckoutSnapshot Some (sample_plain\<lparr>ckt_OrderID := 1, ckt_ProfitSharingRequired := False\<rparr>)))
      (?st\<lparr>sal_Orders := db2\<rparr>) = Inr ((), ?st\<lparr>sal_Orders := db3\<rparr>)"
    "unavailable (on_orders (Order_Complete 1 (Snapshot sample_placed) 5000000)) (?st\<lparr>sal_Orders := db3\<rparr>) =
      Inr ((), ?st\<lparr>sal_Orders := db4\<rparr>)"
    by (simp_all add: on_orders_Inr db2 db3 db4)
  have placed: "ord_ID sample_placed = 1" "(Snapshot sample_placed)\<lparr>snp_ProfitSharingRequired := False\<rparr> = Snapshot sample_placed"
    "snapshot_marshals (Snapshot sample_placed)"
    using sample_times by (simp_all add: sample_placed_def Snapshot_def snapshot_marshals_def)
  have "place_order sample_order_env False sample_checkout None 1 ?st1 = Inr (Snapshot sample_placed, ?st\<lparr>sal_Orders := db4\<rparr>)"
    unfolding place_order_def env
    by (simp only: tx_then_def coupons sum.case prod.case cmd payable sample_new_order steps ptr_all_def option.case)
      (simp add: tx_then_def record_attribution_def record_product_sale_def env cmd placed no_attribution_def tx_return_def steps
        record_contact_def record_address_def share_contact_def settle_free_def complete_order_def)
  then have "createCheckoutOrderWithin sample_order_env sample_checkout None ?st = Inr (Snapshot sample_placed, ?st\<lparr>sal_Orders := db4\<rparr>)"
    using fits by (simp add: createCheckoutOrderWithin_def Let_def payment_checkout_pays sample_checkout_valid phone_cipher_def cmd payload env
        tx_then_def res1) (simp add: r_def)
  then show ?thesis by (simp add: CreatePaymentOrderWithin_def)
qed

subsection \<open>The same checkout again\<close>

text \<open>C38. A checkout that is sent again is answered as before.  Once a checkout for a payment has been accepted,
  the same command, after any calls and at any later time, is answered with the same snapshot of the
  order, changes nothing and takes no coupon, also when the order has been paid or refunded since.  Since the
  command is checked again before its receipt is looked up, the phone cipher and the catalogue of
  addresses must be what they were; the clock is set; and the texts of a variant, if there is one, are
  valid UTF-8, as JSON makes them.\<close>

theorem checkout_retry_answers:
  assumes first: "CreatePaymentOrderWithin env c (run sale_exec (empty_sale w) earlier) = Inr (s, st')"
    and same: "oen_Cipher env' = oen_Cipher env" "oen_Catalog env' = oen_Catalog env" "\<not> is_zero (oen_Now env')"
    and texts: "map_option json_variant (poc_Variant c) = poc_Variant c"
  shows "CreatePaymentOrderWithin env' c (run sale_exec st' calls) = Inr (s, run sale_exec st' calls)"
proof -
  let ?st = "run sale_exec (empty_sale w) earlier"
  have ok: "sale_ok ?st" using orders_ok_run by (simp add: sale_ok_def)
  from checkout_receipt [OF orders_ok_run first texts] obtain r where
    r: "find_order_receipt (sal_Orders st') ''create'' (poc_ActorScope c) (Sum256 (poc_IdempotencyKey c)) = Some r"
      "receipt_fits r c None" "replayed_order r = Inr s" .
  from r(3) have "orr_Result r \<noteq> None" by (auto simp: replayed_order_def split: option.splits)
  moreover have "sale_ok st'" using sales.valid_step [OF ok, of "(env, SaleCheckout c)"] first by simp
  ultimately have found: "find_order_receipt (sal_Orders (run sale_exec st' calls)) ''create'' (poc_ActorScope c) (Sum256 (poc_IdempotencyKey c)) = Some r"
    using r(1) sale_run_frozen [of st' calls] by (simp add: receipts_frozen_def)
  have phone: "phone_cipher env' x = phone_cipher env x" for x using same(1) by (simp add: phone_cipher_def)
  from first [unfolded CreatePaymentOrderWithin_def] show ?thesis unfolding CreatePaymentOrderWithin_def
    by (rule accepted_checkout) (rule known_checkout_answers, use same phone found r in simp_all)
qed

text \<open>The order is paid, and later the customer's browser sends the checkout again.\<close>

definition sample_settlement :: payment_settlement_command where
  "sample_settlement = \<lparr>psc_OrderID = 1, psc_RefundedDelta = 0, psc_Failed = False, psc_ProviderTransactionNo = ''4200000001'',
     psc_OccurredAt = 6000000, psc_ReceiptKey = ''payment-key-00001''\<rparr>"

theorem checkout_retry_answers_witness:
  "\<exists>st'. CreatePaymentOrderWithin sample_order_env sample_checkout (empty_sale ()) = Inr (Snapshot sample_placed, st') \<and>
     CreatePaymentOrderWithin (sample_order_env\<lparr>oen_Now := 8000000\<rparr>) sample_checkout
       (run sale_exec st' [(sample_order_env, SaleSettle sample_settlement)]) =
     Inr (Snapshot sample_placed, run sale_exec st' [(sample_order_env, SaleSettle sample_settlement)])"
proof -
  obtain st' where placed: "CreatePaymentOrderWithin sample_order_env sample_checkout (run sale_exec (empty_sale ()) []) =
      Inr (Snapshot sample_placed, st')"
    using sample_checkout_ok by auto
  from checkout_retry_answers [OF placed, of "sample_order_env\<lparr>oen_Now := 8000000\<rparr>"
      "[(sample_order_env, SaleSettle sample_settlement)]"] placed
  show ?thesis by (auto simp: is_zero_def sample_checkout_def [THEN arg_cong [where f = poc_Variant], simplified])
qed

subsection \<open>The price\<close>

lemma checkout_price:
  assumes reserve: "reserveCheckout env c at st = Inr (k, st')" and unit: "1 \<le> poc_UnitAmountMinor c"
  shows "1 \<le> ckt_PayableAmountMinor k \<and> ckt_PayableAmountMinor k = poc_UnitAmountMinor c - ckt_DiscountAmountMinor k \<and>
    0 \<le> ckt_DiscountAmountMinor k"
  using reserve
proof (cases rule: reserveCheckout_effect)
  case plain
  with unit show ?thesis by (simp add: plain_checkout_def)
next
  case (priced coupons r p)
  with unit show ?thesis by (auto simp: discounted_checkout_def reservation_matches_def plain_checkout_def split: if_splits)
qed

text \<open>C39. An order is charged what was agreed.  A checkout with a new key is accepted only for the amount
  that the customer saw, if the command carries one; the order is charged the price less the
  discount of its checkout, at least one cent and never more than the price.\<close>

theorem checkout_charges_agreed:
  assumes placed: "CreatePaymentOrderWithin env c (run sale_exec (empty_sale w) earlier) = Inr (s, st')"
    and fresh: "find_order_receipt (sal_Orders (run sale_exec (empty_sale w) earlier)) ''create'' (poc_ActorScope c)
      (Sum256 (poc_IdempotencyKey c)) = None"
  shows "ptr_all (\<lambda>a. a = AmountMinor (snp_Amount s)) (poc_ExpectedAmountMinor c) \<and>
    1 \<le> AmountMinor (snp_Amount s) \<and> AmountMinor (snp_Amount s) \<le> poc_UnitAmountMinor c \<and>
    list_ex (\<lambda>k. ckt_OrderID k = snp_ID s \<and> AmountMinor (snp_Amount s) = poc_UnitAmountMinor c - ckt_DiscountAmountMinor k)
      (odb_Checkouts (sal_Orders st'))"
proof -
  let ?st = "run sale_exec (empty_sale w) earlier"
  have unit: "1 \<le> poc_UnitAmountMinor (with_contact_level c)"
    using placed [unfolded CreatePaymentOrderWithin_def]
    by (rule accepted_checkout) (simp add: valid_checkout_command_def payment_checkout_pays)
  from orders_ok_run placed [unfolded CreatePaymentOrderWithin_def] show ?thesis
  proof (cases rule: checkout_effect)
    case (replayed q)
    with fresh show ?thesis by simp
  next
    case (placed k0 st0 c' row k st1 q)
    from placed(16) [OF payment_checkout_pays] obtain o' shared where o': "ord_ID o' = ckt_OrderID k"
      "AmountMinor (ord_Amount o') = ckt_PayableAmountMinor k0" "s = (Snapshot o')\<lparr>snp_ProfitSharingRequired := shared\<rparr>" by blast
    from checkout_price [OF placed(3)] unit have price: "1 \<le> ckt_PayableAmountMinor k0"
      "ckt_PayableAmountMinor k0 = poc_UnitAmountMinor c' - ckt_DiscountAmountMinor k0" "0 \<le> ckt_DiscountAmountMinor k0"
      by (simp_all add: placed(2))
    have "poc_UnitAmountMinor c' = poc_UnitAmountMinor c" by (simp add: placed(2) with_contact_level_def)
    moreover have "k \<in> set (odb_Checkouts (sal_Orders st'))" using placed(1) by (simp add: order_placed_def)
    ultimately show ?thesis using price o' placed(8,15) by (auto simp: list_ex_iff)
  qed
qed

theorem checkout_charges_agreed_witness:
  "\<exists>s st'. CreatePaymentOrderWithin sample_order_env sample_checkout (empty_sale ()) = Inr (s, st') \<and>
     AmountMinor (snp_Amount s) = 700 \<and>
     list_ex (\<lambda>k. ckt_OrderID k = snp_ID s \<and> AmountMinor (snp_Amount s) = poc_UnitAmountMinor sample_checkout - ckt_DiscountAmountMinor k)
       (odb_Checkouts (sal_Orders st'))"
proof -
  obtain st' where placed: "CreatePaymentOrderWithin sample_order_env sample_checkout (run sale_exec (empty_sale ()) []) =
      Inr (Snapshot sample_placed, st')"
    using sample_checkout_ok by auto
  have "find_order_receipt (sal_Orders (run sale_exec (empty_sale ()) [])) ''create'' (poc_ActorScope sample_checkout)
      (Sum256 (poc_IdempotencyKey sample_checkout)) = None"
    by (simp add: find_order_receipt_def empty_sale_def empty_orders_def)
  from checkout_charges_agreed [OF placed this] have "ptr_all (\<lambda>a. a = AmountMinor (snp_Amount (Snapshot sample_placed)))
      (poc_ExpectedAmountMinor sample_checkout)" and "list_ex (\<lambda>k. ckt_OrderID k = snp_ID (Snapshot sample_placed) \<and>
      AmountMinor (snp_Amount (Snapshot sample_placed)) = poc_UnitAmountMinor sample_checkout - ckt_DiscountAmountMinor k)
       (odb_Checkouts (sal_Orders st'))" by blast+
  moreover from this(1) have "AmountMinor (snp_Amount (Snapshot sample_placed)) = 700" by (simp add: sample_checkout_def)
  ultimately show ?thesis using placed by (intro exI [of _ "Snapshot sample_placed"] exI [of _ st']) simp
qed

subsection \<open>Long keys\<close>

text \<open>C40. A checkout with a long key is answered like an outage.  The order service takes idempotency
  keys of up to 200 bytes, the coupon service that every checkout for a payment goes through, when it is bound, takes
  up to 128.  So a checkout for a payment with a longer, unused key, which passes every check of
  the command, whose phone (if any) can be encrypted and whose address (if any) is in the
  catalogue, is refused by the reservation, also when it uses no coupon, and the customer is told that the
  service is unavailable.\<close>

theorem long_checkout_key_unavailable:
  assumes bound: "oen_Coupons env = Some coupons" and long: "128 < length (poc_IdempotencyKey c)"
    and valid: "valid_checkout_command False (with_contact_level c)"
    and phone: "phone_cipher env (with_contact_level c) = Inr phone"
    and address: "poc_ContactCollectionLevel c = ''shipping_address'' \<Longrightarrow> address_listed (oen_Catalog env) (poc_ShippingAddress c)"
    and fresh: "find_order_receipt (sal_Orders st) ''create'' (poc_ActorScope c) (Sum256 (poc_IdempotencyKey c)) = None"
    and stored: "pg_text (poc_ActorScope c)" "0 < odb_NextReceipt (sal_Orders st)" "odb_NextReceipt (sal_Orders st) \<le> max_int64"
      "\<not> is_zero (oen_Now env)"
  shows "CreatePaymentOrderWithin env c st = Inl OrdUnavailable"
proof (cases "checkout_payload (with_contact_level c)")
  case None
  let ?c = "with_contact_level c"
  have "poc_ContactCollectionLevel ?c = ''shipping_address'' \<longrightarrow> address_listed (oen_Catalog env) (poc_ShippingAddress ?c)"
    using address by (auto simp: with_contact_level_def)
  with None valid phone show ?thesis
    by (auto simp: CreatePaymentOrderWithin_def createCheckoutOrderWithin_def Let_def payment_checkout_pays tx_fail_def)
next
  case (Some payload)
  let ?c = "with_contact_level c"
  have listed: "poc_ContactCollectionLevel ?c = ''shipping_address'' \<longrightarrow> address_listed (oen_Catalog env) (poc_ShippingAddress ?c)"
    using address by (auto simp: with_contact_level_def)
  have same: "poc_ActorScope ?c = poc_ActorScope c" "poc_IdempotencyKey ?c = poc_IdempotencyKey c" "poc_Provider ?c = poc_Provider c"
    by (simp_all add: with_contact_level_def)
  let ?v = "checkout_reservation ?c None payload (oen_Now env)"
  have scope: "poc_ActorScope c \<noteq> []" "rune_count (poc_ActorScope c) \<le> 200"
    using valid same(1) rune_count_le_length [of "poc_ActorScope c"] by (auto simp: valid_checkout_command_def order_validKey_def)
  let ?r = "\<lparr>orr_ID = odb_NextReceipt (sal_Orders st), orr_Operation = ''create'', orr_ActorScope = poc_ActorScope c,
    orr_KeyDigest = Sum256 (poc_IdempotencyKey c), orr_PayloadDigest = payload, orr_Result = None\<rparr>"
  have res: "Order_Reserve ?v (sal_Orders st) = Inr ((?r, True), with_receipt ?r (sal_Orders st))"
    using scope stored fresh same by (simp add: Order_Reserve_def checkout_reservation_def with_receipt_def Let_def)
  let ?st = "st\<lparr>sal_Orders := with_receipt ?r (sal_Orders st)\<rparr>"
  have res': "classified_tx (on_orders (Order_Reserve ?v)) st = Inr ((?r, True), ?st)"
    by (simp add: on_orders_Inr res)
  have paid: "poc_Provider c \<noteq> ProviderNoPayment" using valid same(3) by (auto simp: valid_checkout_command_def)
  have "\<not> validReserve ((coupon_reserve ?c (oen_Now env))\<lparr>rvc_ReservedAt := at\<rparr>)" for at
    using long same(2) by (simp add: validReserve_def valid_checkout_key_def coupon_reserve_def)
  then have "ReserveWithin coupons (coupon_reserve ?c (oen_Now env)) db = Inl CpnInvalidCoupon" for db
    by (simp add: ReserveWithin_def Let_def)
  then have "reserveCheckout env ?c (oen_Now env) ?st = Inl (OrdCoupon CpnInvalidCoupon)"
    using bound paid same(3) by (simp add: reserveCheckout_def tx_then_def on_coupons_def tx_error_def tx_part_def)
  then have "place_order env False ?c phone (odb_NextReceipt (sal_Orders st)) ?st = Inl OrdUnavailable"
    by (simp add: place_order_def tx_then_def tx_error_def)
  moreover have "order_validReceipt ?r ?v" "orr_PayloadDigest ?r = ors_PayloadDigest ?v"
    using stored(2) same by (simp_all add: order_validReceipt_def checkout_reservation_def)
  moreover have "\<not> (poc_ContactCollectionLevel ?c = ''shipping_address'' \<and> \<not> address_listed (oen_Catalog env) (poc_ShippingAddress ?c))"
    using listed by blast
  ultimately show ?thesis using valid Some phone
    by (simp only: CreatePaymentOrderWithin_def createCheckoutOrderWithin_def Let_def payment_checkout_pays not_False_eq_True
      if_True if_False not_True_eq_False simp_thms sum.case option.case tx_then_def res' prod.case)
      simp
qed

theorem long_checkout_key_unavailable_witness:
  "order_validKey (replicate 129 (CHR ''k'')) \<and>
   CreatePaymentOrderWithin sample_order_env (sample_checkout\<lparr>poc_IdempotencyKey := replicate 129 (CHR ''k'')\<rparr>) (empty_sale ()) =
     Inl OrdUnavailable"
proof -
  let ?c = "sample_checkout\<lparr>poc_IdempotencyKey := replicate 129 (CHR ''k'')\<rparr>"
  have level: "with_contact_level ?c = ?c" by (simp add: with_contact_level_def sample_checkout_def)
  have key: "order_validKey (replicate 129 (CHR ''k''))"
    by (simp add: order_validKey_def trim_space_printable printable_def)
  with sample_checkout_valid have "valid_checkout_command False ?c" by (simp add: valid_checkout_command_def)
  moreover have "phone_cipher sample_order_env ?c = Inr None" "poc_ContactCollectionLevel ?c \<noteq> ''shipping_address''"
      "pg_text (poc_ActorScope ?c)"
    by (simp_all add: sample_checkout_def pg_text_def phone_cipher_def)
  moreover have "find_order_receipt (sal_Orders (empty_sale ())) ''create'' (poc_ActorScope ?c) (Sum256 (poc_IdempotencyKey ?c)) = None"
    "0 < odb_NextReceipt (sal_Orders (empty_sale ()))" "odb_NextReceipt (sal_Orders (empty_sale ())) \<le> max_int64"
    by (simp_all add: find_order_receipt_def empty_sale_def empty_orders_def max_int64_def)
  moreover have "oen_Coupons sample_order_env = Some sample_coupon_env" "\<not> is_zero (oen_Now sample_order_env)"
    by (simp_all add: sample_order_env_def is_zero_def)
  moreover have "128 < length (poc_IdempotencyKey ?c)" by simp
  ultimately have "CreatePaymentOrderWithin sample_order_env ?c (empty_sale ()) = Inl OrdUnavailable"
    using long_checkout_key_unavailable [of sample_order_env sample_coupon_env ?c None "empty_sale ()"] level by simp
  with key show ?thesis by simp
qed

end
