(* ===== verification/Spec2Isabelle.thy ===== *)
theory Spec2Isabelle
  imports Commission Payment EffectProps Referral Segment GroupOps OperationCycle Channel
    AccessAuthority IdentityProps CouponProps OrderProps
begin

text \<open>
  A verification development of the core of AI-CRM, a customer-relationship system in Go.

  \<^bold>\<open>The program.\<close>  The server keeps one PostgreSQL database.  Each subsystem under
  \<open>src/internal\<close> owns its tables and has a \<open>domain\<close> package of pure rules, an \<open>app\<close> package of
  transactions, a \<open>store\<close> of SQL and an \<open>http\<close> package of handlers.  Orders are paid
  through payments, paid orders earn commissions for distributors and count as sales in referral
  campaigns; audiences, group-operation plans, acquisition channels and operation cycles are
  configured by staff and machines.  Nothing calls an external provider inside a transaction:
  a subsystem accepts an external effect (\<open>internal/externaleffects\<close>) in its own transaction, and
  a queue of workers makes the call later, at most once per attempt.

  \<^bold>\<open>The theories and the code.\<close>
  \<^item> \<open>Prelude\<close>, \<open>GoStrings\<close>, \<open>GoTime\<close>, \<open>GoHash\<close>, \<open>GoJson\<close>, \<open>GoMarshal\<close>, \<open>GoBase64\<close>,
    \<open>Postgres\<close>: the language, the standard library and the column types as the code uses them.  \<open>int64\<close> is \<open>int\<close> with the wrap-around written as
    \<open>wrap64\<close>, a string is its bytes, runes are decoded from UTF-8, times are nanoseconds since Go's
    zero instant, SHA-256 is executable, JSON has a lexer and a stack machine with the nesting limit
    of the library, results are sums with the error on the left.  \<open>Prelude\<close> has the contracts of
    optimistically locked aggregates (the locales \<open>versioned_commands\<close>,
    \<open>versioned_aggregate\<close>, \<open>cas_aggregate\<close>), interpreted in \<open>Commission\<close>, \<open>Order\<close>,
    \<open>Payment\<close> (twice), \<open>Referral\<close>, \<open>Segment\<close> and \<open>Channel\<close>; \<open>StatusMachine\<close> has the life cycle
    that \<open>GroupOps\<close> and \<open>OperationCycle\<close> share.
  \<^item> \<open>Distribution\<close> and \<open>Commission\<close>: \<open>internal/distribution/domain/domain.go\<close>, distributors,
    qualifications and promotion credentials, and the commission with all its methods.
  \<^item> \<open>Order\<close>: \<open>internal/order/domain/order.go\<close> and \<open>variant.go\<close>, the order aggregate with its
    items, settlement and refund facts.
  \<^item> \<open>Payment\<close>: \<open>internal/payment/domain\<close>, payments, refunds and profit sharing.
  \<^item> \<open>EffectPort\<close>, \<open>EffectStore\<close>, \<open>EffectControl\<close>, \<open>EffectRun\<close>: the data contract and every
    transaction of \<open>internal/externaleffects\<close> (\<open>store.go\<close>, \<open>runtime.go\<close>, \<open>worker.go\<close>,
    \<open>recovery_river.go\<close>, \<open>tag_catalog_retry.go\<close>, \<open>invoice_finality.go\<close> and the evidence
    readers) over the tables of \<open>migrations/0005_external_effects.sql\<close>.
  \<^item> \<open>EffectSpec\<close>, \<open>EffectRefine\<close>, \<open>EffectKernel\<close>, \<open>EffectSafety\<close>, \<open>EffectProps\<close>: the
    abstract life of one effect as an inductive relation, the refinement of every transaction
    to one step of it, the invariant of the tables, the system of workers with crashes and late
    completions as a step relation over worlds, and its properties.
  \<^item> \<open>Referral\<close>: \<open>internal/referral/domain\<close>, campaigns, sales and their refunds.
  \<^item> \<open>Segment\<close>: \<open>internal/segment/domain\<close>, groups, packages, configuration versions and
    snapshot digests.
  \<^item> \<open>GroupOps\<close>: \<open>internal/groupops/domain\<close> with the data of its port.
  \<^item> \<open>OperationCycle\<close>: \<open>internal/operationcycle/domain/cycle.go\<close>.
  \<^item> \<open>Channel\<close>: \<open>internal/channel/domain\<close>.
  \<^item> \<open>AccessDomain\<close>, \<open>AccessStore\<close>, \<open>AccessAuth\<close>, \<open>AccessManage\<close>, \<open>AccessGovern\<close>,
    \<open>AccessStaff\<close>: \<open>internal/access\<close>, the domain rules, the statements of
    \<open>store/postgres.go\<close> with the constraints and the deferred trigger of the migrations, logins and
    sessions (\<open>app/authentication.go\<close>), local administration (\<open>management.go\<close>), the governed commands
    (\<open>governance.go\<close>) and the staff directory (\<open>wecom_staff.go\<close>).
  \<^item> \<open>AccessRun\<close>, \<open>AccessInv\<close>, \<open>AccessProps\<close>, \<open>AccessSession\<close>, \<open>AccessLogin\<close>,
    \<open>AccessAuthority\<close>: runs of the access commands, the invariant of the access tables with a
    weakest-precondition rule for every command, and the properties; \<open>Receipted\<close> has the contract of
    commands with idempotency keys (the locale \<open>receipted_commands\<close>), interpreted on them and on
    coupons.
  \<^item> \<open>IdentityDomain\<close>, \<open>IdentityStore\<close>, \<open>IdentityService\<close>: \<open>internal/identity\<close> (OneID), the
    references and evidence of the domain, \<open>app/memory_store.go\<close>, which is the code's reference
    implementation of the \<open>Store\<close> interface, and the use cases of \<open>app/oneid.go\<close>, \<open>oauth.go\<close> and
    \<open>audience.go\<close> over any store.
  \<^item> \<open>IdentityRoots\<close>, \<open>IdentityInv\<close>, \<open>IdentityMerge\<close>, \<open>IdentityContract\<close>,
    \<open>IdentityProvider\<close>, \<open>IdentityProps\<close>: the walk to the root of a lineage, the invariant of the
    store, merges and their reversal, the contract of a store (the locale \<open>identity_store\<close>) in
    which the use cases are proved, its interpretation on the memory store, and the properties.
  \<^item> \<open>CouponDomain\<close>, \<open>CouponStore\<close>, \<open>CouponService\<close>, \<open>CouponCheckout\<close>: \<open>internal/coupon\<close>, the
    rules and their validation, the tables and statements of \<open>store/postgres.go\<close>, the receipted
    transactions of \<open>app/service.go\<close> and the public link, and the life of a claim
    (\<open>store/checkout.go\<close>, \<open>app/checkout.go\<close>): claimed by a customer, reserved by an order,
    consumed by its payment or released by its close.
  \<^item> \<open>CouponInv\<close>, \<open>CouponRun\<close>, \<open>CouponHistory\<close>, \<open>CouponReplay\<close>, \<open>CouponProps\<close>: the invariant of
    the coupon tables, the calls of the component and that each keeps it, what no call takes back,
    the receipts, and the properties.
  \<^item> This theory: the properties in which two components meet.

  Records have the fields of the structs under a three-letter prefix; a pointer is an option; a
  closed enumeration is a datatype whose last constructor holds any other string.  A method that
  mutates its receiver returns the new record; a method that fails leaves the old one.  A database
  transaction is a function from the tables to an error (the rollback) or to new tables, and
  transactions on one row are serialised by its lock.

  \<^bold>\<open>The lemmas.\<close>  For every aggregate: its invariant, that each command preserves it (rules
  ending in \<open>_post\<close> or \<open>_inv\<close>), what a run of commands leaves alone (\<open>_frame\<close>), and finality
  of the closed states.  For the validation loops: that they compute the declarative rule.  For the
  kernel: weakest-precondition rules for the table operations (\<open>wp_\<close>), one refinement lemma per
  transaction (\<open>_moves\<close>), the checks of the tables (\<open>checked_\<close>), and histories of reachable
  worlds.  For access: what each statement does to the rows (\<open>fenced\<close>, \<open>idle\<close>, \<open>added\<close>), rules
  for every handler (collection \<open>access_wp\<close>), and case rules for accepted commands (\<open>_cases\<close>).
  For identity: one preservation lemma per operation of the store, a mergeable lineage before and
  the moved people after a merge.  For coupons: the writes that leave the books alone
  (\<open>_books\<close>) or the receipts (\<open>_receipts\<close>), preservation (\<open>_inv\<close>, \<open>_keeps\<close>) and the order of
  histories (\<open>_after\<close>).

  \<^bold>\<open>Bounds.\<close>  No definition runs on fuel: every loop is structurally recursive or has a proved
  measure.  Theorems that need a counter not to overflow say so in a hypothesis; the
  others hold with the wrap-around.

  \<^bold>\<open>Not modelled.\<close>  HTTP handlers, SQL queries that only read, rendering, provider protocols, the
  queue library, configuration and command-line programs are input and output around these rules.
  \<open>url.Parse\<close>, the completion sink of the composition root, the answers of the providers and of
  the job queue are parameters.  Of the modelled subsystems the application services above the
  domain (such as \<open>internal/payment/app\<close>, \<open>internal/distribution/app\<close>) are SQL around the modelled
  rules and are left out, as are \<open>ProjectReportSnapshot\<close> of the operation cycle and
  \<open>FrozenExecutionTargets\<close> of group operations.  Of access, the machine credentials and the paged
  employee listing are left, and the argon2 hash is a parameter.  Of identity, the PostgreSQL
  store behind the same interface and the account corrections are left.  Of coupons, the paged
  lists, the sidebar, the imports and the public projections are left; products, customers and
  the identity readers that coupons ask are parameters.  Survey scores are floating point, tags and media mirror
  a provider, and the automation and assistant packages drive an external model.
\<close>

subsection \<open>Payments and effects\<close>

lemma effectID_positive: "0 < k \<Longrightarrow> effectID k = ''eer_'' @ nat_digits (nat k)"
  by (simp add: effectID_def format_int_def)

lemma validEffectID_effectID: "validEffectID v \<longleftrightarrow> (\<exists>k > 0. v = effectID k)"
proof
  assume "validEffectID v"
  then obtain n where n: "0 < n" "v = ''eer_'' @ nat_digits n" using validEffectID_iff by blast
  then have "v = effectID (int n)" by (simp add: effectID_positive)
  with n(1) show "\<exists>k > 0. v = effectID k" by (intro exI [of _ "int n"]) simp
next
  assume "\<exists>k > 0. v = effectID k"
  then obtain k where k: "0 < k" "v = effectID k" by blast
  then show "validEffectID v"
    unfolding validEffectID_iff by (intro exI [of _ "nat k"]) (simp add: effectID_positive)
qed

lemma parse_effectID:
  assumes "0 < k" "k \<le> max_int64"
  shows "parseEffectID (effectID k) = Inr k"
proof -
  have d: "list_all (\<lambda>r. 48 \<le> r \<and> r \<le> 57) (runes (nat_digits (nat k)))"
    by (simp only: runes_digits nat_digits_all)
  have z: "nat_digits (nat k) ! 0 \<noteq> CHR ''0''"
    using nat_digits_head [of "nat k"] assms(1) by (simp add: hd_conv_nth)
  show ?thesis
    using assms d z by (simp add: effectID_positive parseEffectID_def has_prefix_def Let_def)
qed

lemma parsed_effectID: "parseEffectID v = Inr k \<Longrightarrow> 0 < k \<and> k \<le> max_int64 \<and> v = effectID k"
proof -
  assume p: "parseEffectID v = Inr k"
  then obtain s where s: "v = ''eer_'' @ s"
    by (auto simp: parseEffectID_def has_prefix_def prefix_def split: if_splits)
  with p have "s \<noteq> []" "list_all is_digit s" "hd s \<noteq> CHR ''0''" and k: "k = int (digits_value s)" "k \<le> max_int64"
    by (auto simp: parseEffectID_def has_prefix_def Let_def runes_digits hd_conv_nth split: if_splits)
  with nat_digits_digits_value have "0 < digits_value s" "nat_digits (digits_value s) = s" by blast+
  with k s show ?thesis by (simp add: effectID_positive)
qed

lemma beyond_valid: "max_int64 < int n \<Longrightarrow> validEffectID (''eer_'' @ nat_digits n)"
  unfolding validEffectID_iff by (rule exI [of _ n]) (simp add: max_int64_def)

lemma parse_beyond: "max_int64 < int n \<Longrightarrow> parseEffectID (''eer_'' @ nat_digits n) \<noteq> Inr k"
proof
  assume n: "max_int64 < int n" and p: "parseEffectID (''eer_'' @ nat_digits n) = Inr k"
  from parsed_effectID [OF p] have k: "0 < k" "k \<le> max_int64" "nat_digits n = nat_digits (nat k)"
    by (auto simp: effectID_positive)
  from arg_cong [OF k(3), of digits_value] have "n = nat k" by simp
  with n k(1,2) show False by simp
qed

text \<open>C20. Payments and the kernel agree on the identifiers of effects.  The kernel names an effect by its
  number, from 1 to the largest \<open>int64\<close>; it reads exactly these names, each as its number.  Payments
  accept all of them, and one kind of text more, on which the two differ: \<open>eer_\<close> with the digits
  of a greater number, which no effect has and the kernel refuses.  The effect that a caller gets
  from an acceptance is in the tables under the number in its name, which the kernel reads back,
  and it can be bound to a payment that awaits its prepayment.\<close>

theorem effect_reference_handshake:
  assumes "reachable sink w" and "acceptAndQueueTx (w_db w) c river now = Inr ((p, rc), db)"
  shows "(parseEffectID v = Inr k \<longleftrightarrow> 0 < k \<and> k \<le> max_int64 \<and> v = effectID k) \<and>
    (validEffectID v \<longleftrightarrow> (\<exists>k. parseEffectID v = Inr k) \<or> (\<exists>n. max_int64 < int n \<and> v = ''eer_'' @ nat_digits n)) \<and>
    (max_int64 < int n \<longrightarrow> validEffectID (''eer_'' @ nat_digits n) \<and> (\<forall>k. parseEffectID (''eer_'' @ nat_digits n) \<noteq> Inr k)) \<and>
    (\<exists>i e. db_Effects db i = Some e \<and> prj_ID p = effectID i \<and> parseEffectID (prj_ID p) = Inr i \<and>
       (pay_Status y = PayAwaitingPrepay \<and> pay_UpdatedAt y \<le> at \<longrightarrow>
          (\<exists>z. Payment_BindEffect y (pay_Version y) (prj_ID p) at = Inr z \<and> pay_EffectID z = prj_ID p)))"
proof (intro conjI)
  show parse: "parseEffectID v = Inr k \<longleftrightarrow> 0 < k \<and> k \<le> max_int64 \<and> v = effectID k"
    using parse_effectID parsed_effectID by blast
  show "validEffectID v \<longleftrightarrow> (\<exists>k. parseEffectID v = Inr k) \<or> (\<exists>n. max_int64 < int n \<and> v = ''eer_'' @ nat_digits n)"
  proof
    assume "validEffectID v"
    then obtain n where n: "0 < n" "v = ''eer_'' @ nat_digits n" using validEffectID_iff by blast
    then have "v = effectID (int n)" by (simp add: effectID_positive)
    with n parse_effectID [of "int n"] show "(\<exists>k. parseEffectID v = Inr k) \<or> (\<exists>n. max_int64 < int n \<and> v = ''eer_'' @ nat_digits n)"
      by (cases "int n \<le> max_int64") auto
  next
    assume "(\<exists>k. parseEffectID v = Inr k) \<or> (\<exists>n. max_int64 < int n \<and> v = ''eer_'' @ nat_digits n)"
    then show "validEffectID v" using parsed_effectID validEffectID_effectID beyond_valid by blast
  qed
  show "max_int64 < int n \<longrightarrow> validEffectID (''eer_'' @ nat_digits n) \<and> (\<forall>k. parseEffectID (''eer_'' @ nat_digits n) \<noteq> Inr k)"
    using beyond_valid parse_beyond by blast
  obtain i env where inv: "db_inv db" and r: "remembers db c i env rc" and p: "prj_ID p = effectID i"
    using acceptAndQueueTx_cases [OF reachable_db_inv [OF assms(1)] assms(2)] by blast
  obtain e where e: "db_Effects db i = Some e" using r unfolding remembers_def by blast
  have t: "tables_ok db" using inv by (simp add: db_inv_def)
  then have "db_NextEffect db \<le> max_int64 + 1" by (simp add: tables_ok_def)
  with tables_okD(1,2) [OF t e] have i: "0 < i" "i \<le> max_int64" by simp_all
  have "\<exists>z. Payment_BindEffect y (pay_Version y) (prj_ID p) at = Inr z \<and> pay_EffectID z = prj_ID p"
    if "pay_Status y = PayAwaitingPrepay" "pay_UpdatedAt y \<le> at"
    using that i(1) p validEffectID_effectID [of "prj_ID p"] by (auto simp: Payment_BindEffect_def go_defs)
  with e i p parse_effectID [OF i] show "\<exists>i e. db_Effects db i = Some e \<and> prj_ID p = effectID i \<and>
       parseEffectID (prj_ID p) = Inr i \<and> (pay_Status y = PayAwaitingPrepay \<and> pay_UpdatedAt y \<le> at \<longrightarrow>
          (\<exists>z. Payment_BindEffect y (pay_Version y) (prj_ID p) at = Inr z \<and> pay_EffectID z = prj_ID p))"
    by auto
qed

theorem effect_reference_handshake_witness:
  "(\<exists>z. Payment_BindEffect (paid_sample\<lparr>pay_Status := PayAwaitingPrepay\<rparr>) 3 (effectID 1) 1000 = Inr z \<and>
     pay_EffectID z = effectID 1) \<and> validEffectID (''eer_'' @ nat_digits 9223372036854775808)"
proof -
  have "reachable None (sample_world empty_db [] [])"
    by (simp add: reachable_def initial_world_def sample_world_def)
  moreover have "acceptAndQueueTx (w_db (sample_world empty_db [] [])) sample_command (Some (7, 6)) 5 =
     Inr ((sample_projection, sample_receipt), sample_queued)" using sample_accept by simp
  ultimately show ?thesis
    using effect_reference_handshake [of None "sample_world empty_db [] []" sample_command "Some (7, 6)" 5
        sample_projection sample_receipt sample_queued "effectID 1" 1 9223372036854775808
        "paid_sample\<lparr>pay_Status := PayAwaitingPrepay\<rparr>" 1000]
    by (auto simp: paid_sample_def sample_projection_def max_int64_def)
qed

end
